(* ===== verification/Prelude.thy ===== *)
theory Prelude
  imports Main "HOL-Library.Word" "HOL-Library.Monad_Syntax"
begin

text \<open>
  Shared vocabulary of the development: the status codes of
  \<^verbatim>\<open>interface/inner_api/common/status.h\<close>, C integer conversions and truncating division,
  \<^verbatim>\<open>std::map\<close> as a key-sorted association list behind an interface locale, and the list
  lemmas several components use.
\<close>

named_theorems media_defs \<open>definitions of small helpers that proofs unfold\<close>
named_theorems smap_simps \<open>lookup laws of the ordered map\<close>

section \<open>Status codes\<close>

text \<open>
  The status codes the modelled code returns. \<open>OTHER\<close> stands for the codes of the enumeration
  that only external plugins and codecs produce.
\<close>

datatype Status =
    END_OF_STREAM
  | OK
  | ERROR_UNKNOWN
  | ERROR_NO_MEMORY
  | ERROR_WRONG_STATE
  | ERROR_UNIMPLEMENTED
  | ERROR_INVALID_PARAMETER
  | ERROR_INVALID_DATA
  | ERROR_MISMATCHED_TYPE
  | ERROR_TIMED_OUT
  | ERROR_UNSUPPORTED_FORMAT
  | ERROR_NOT_ENOUGH_DATA
  | ERROR_NULL_POINTER
  | ERROR_INVALID_OPERATION
  | ERROR_INVALID_STATE
  | ERROR_INVALID_BUFFER_SIZE
  | ERROR_UNEXPECTED_MEMORY_TYPE
  | ERROR_CREATE_BUFFER
  | ERROR_NULL_POINT_BUFFER
  | ERROR_INVALID_BUFFER_ID
  | ERROR_INVALID_BUFFER_STATE
  | ERROR_NO_FREE_BUFFER
  | ERROR_NO_DIRTY_BUFFER
  | ERROR_NO_CONSUMER_LISTENER
  | ERROR_NULL_BUFFER_QUEUE
  | ERROR_WAIT_TIMEOUT
  | ERROR_OUT_OF_RANGE
  | OTHER int

section \<open>C integer arithmetic\<close>

text \<open>Two's complement reading of the low \<open>w\<close> bits: a narrowing cast to a signed type.\<close>

definition swrap :: "nat \<Rightarrow> int \<Rightarrow> int" where
  "swrap w x = (x + 2 ^ (w - 1)) mod 2 ^ w - 2 ^ (w - 1)"

lemma swrap_id:
  assumes "0 < w" "- (2 ^ (w - 1)) \<le> x" "x < 2 ^ (w - 1)"
  shows "swrap w x = x"
proof -
  have "(2::int) ^ w = 2 ^ (w - 1) + 2 ^ (w - 1)"
    using assms(1) by (cases w) auto
  then have "(x + 2 ^ (w - 1)) mod 2 ^ w = x + 2 ^ (w - 1)"
    using assms by (intro mod_pos_pos_trivial) auto
  then show ?thesis by (simp add: swrap_def)
qed

text \<open>C division truncates towards zero.\<close>

definition c_div :: "int \<Rightarrow> int \<Rightarrow> int" where
  "c_div a b = (if (a < 0) = (b < 0) then \<bar>a\<bar> div \<bar>b\<bar> else - (\<bar>a\<bar> div \<bar>b\<bar>))"

lemma c_div_nonneg: "0 \<le> a \<Longrightarrow> 0 < b \<Longrightarrow> c_div a b = a div b"
  by (simp add: c_div_def)

lemma c_div_neg_pos: "a < 0 \<Longrightarrow> 0 < b \<Longrightarrow> c_div a b = - ((- a) div b)"
  by (simp add: c_div_def)

section \<open>The ordered map\<close>

text \<open>
  The interface of \<^verbatim>\<open>std::map\<close> as its clients use it: lookup, store, erase and the
  traversal in ascending key order. \<open>inv\<close> is the representation invariant.
\<close>

locale ordered_map =
  fixes find :: "'m \<Rightarrow> ('k::linorder) \<Rightarrow> 'v option"
    and put :: "'k \<Rightarrow> 'v \<Rightarrow> 'm \<Rightarrow> 'm"
    and erase :: "'k \<Rightarrow> 'm \<Rightarrow> 'm"
    and entries :: "'m \<Rightarrow> ('k \<times> 'v) list"
    and inv :: "'m \<Rightarrow> bool"
  assumes find_put: "inv m \<Longrightarrow> find (put k v m) j = (if j = k then Some v else find m j)"
    and find_erase: "inv m \<Longrightarrow> find (erase k m) j = (if j = k then None else find m j)"
    and inv_put: "inv m \<Longrightarrow> inv (put k v m)"
    and inv_erase: "inv m \<Longrightarrow> inv (erase k m)"
    and entries_find: "inv m \<Longrightarrow> ((k, v) \<in> set (entries m)) = (find m k = Some v)"
    and entries_sorted: "inv m \<Longrightarrow> sorted_wrt (<) (map fst (entries m))"
begin

lemma entries_distinct: "inv m \<Longrightarrow> distinct (map fst (entries m))"
  using entries_sorted strict_sorted_iff by blast

lemma keys_find:
  assumes "inv m"
  shows "(k \<in> fst ` set (entries m)) = (\<exists>v. find m k = Some v)"
proof -
  have "(k \<in> fst ` set (entries m)) = (\<exists>v. (k, v) \<in> set (entries m))"
    by force
  then show ?thesis using entries_find [OF assms] by simp
qed

lemma finite_keys: "inv m \<Longrightarrow> finite {k. \<exists>v. find m k = Some v}"
  by (rule finite_subset [of _ "fst ` set (entries m)"]) (auto simp del: image_iff simp: keys_find)

lemma card_entries: "inv m \<Longrightarrow> card {k. \<exists>v. find m k = Some v} = length (entries m)"
proof -
  assume i: "inv m"
  have "{k. \<exists>v. find m k = Some v} = set (map fst (entries m))"
    using keys_find [OF i] by auto
  then show ?thesis
    using distinct_card [OF entries_distinct [OF i]] by simp
qed

lemma length_put:
  assumes i: "inv m"
  shows "length (entries (put k v m)) =
    (if find m k = None then Suc (length (entries m)) else length (entries m))"
proof -
  let ?D = "\<lambda>m. {k. \<exists>v. find m k = Some v}"
  have fin: "finite (?D m)"
    by (rule finite_keys [OF i])
  have "?D (put k v m) = insert k (?D m)"
    using find_put [OF i] by auto
  then have "card (?D (put k v m)) = (if k \<in> ?D m then card (?D m) else Suc (card (?D m)))"
    using fin by (simp add: insert_absorb)
  then show ?thesis
    unfolding card_entries [OF i] card_entries [OF inv_put [OF i]] by auto
qed

lemma length_erase:
  assumes i: "inv m"
  shows "length (entries (erase k m)) =
    (if find m k = None then length (entries m) else length (entries m) - 1)"
proof -
  let ?D = "\<lambda>m. {k. \<exists>v. find m k = Some v}"
  have fin: "finite (?D m)"
    by (rule finite_keys [OF i])
  have "?D (erase k m) = ?D m - {k}"
    using find_erase [OF i] by auto
  then have "card (?D (erase k m)) = (if k \<in> ?D m then card (?D m) - 1 else card (?D m))"
    using fin by (simp add: card_Diff_singleton_if)
  then show ?thesis
    unfolding card_entries [OF i] card_entries [OF inv_erase [OF i]] by auto
qed

end

text \<open>The implementation: an association list kept strictly sorted by key.\<close>

type_synonym ('k, 'v) smap = "('k \<times> 'v) list"

fun smap_put :: "'k::linorder \<Rightarrow> 'v \<Rightarrow> ('k, 'v) smap \<Rightarrow> ('k, 'v) smap" where
  "smap_put k v [] = [(k, v)]"
| "smap_put k v ((a, b) # m) =
     (if k < a then (k, v) # (a, b) # m
      else if k = a then (k, v) # m
      else (a, b) # smap_put k v m)"

definition smap_erase :: "'k \<Rightarrow> ('k, 'v) smap \<Rightarrow> ('k, 'v) smap" where
  "smap_erase k m = filter (\<lambda>(a, b). a \<noteq> k) m"

definition smap_inv :: "('k::linorder, 'v) smap \<Rightarrow> bool" where
  "smap_inv m = sorted_wrt (<) (map fst m)"

lemma smap_inv_Nil [simp]: "smap_inv []"
  by (simp add: smap_inv_def)

lemma set_smap_put_keys: "fst ` set (smap_put k v m) = insert k (fst ` set m)"
  by (induction k v m rule: smap_put.induct) auto

lemma smap_put_inv: "smap_inv m \<Longrightarrow> smap_inv (smap_put k v m)"
proof (induction k v m rule: smap_put.induct)
  case (1 k v)
  then show ?case by (simp add: smap_inv_def)
next
  case (2 k v a b m)
  then have tail: "smap_inv m" and less: "\<forall>x \<in> fst ` set m. a < x"
    by (auto simp: smap_inv_def)
  show ?case
  proof (cases "a < k")
    case True
    then have "smap_inv (smap_put k v m)"
      using "2.IH" tail by auto
    moreover have "\<forall>x \<in> fst ` set (smap_put k v m). a < x"
      using less True by (simp add: set_smap_put_keys)
    ultimately show ?thesis
      using True by (auto simp: smap_inv_def)
  next
    case False
    then show ?thesis
      using "2.prems" by (auto simp: smap_inv_def)
  qed
qed

lemma smap_erase_inv: "smap_inv m \<Longrightarrow> smap_inv (smap_erase k m)"
  by (induction m) (auto simp: smap_inv_def smap_erase_def)

lemma map_of_smap_put: "smap_inv m \<Longrightarrow> map_of (smap_put k v m) j = (if j = k then Some v else map_of m j)"
proof (induction k v m rule: smap_put.induct)
  case (2 k v a b m)
  then have tail: "smap_inv m" and less: "\<forall>x \<in> fst ` set m. a < x"
    by (auto simp: smap_inv_def)
  have "k < a \<Longrightarrow> map_of m k = None"
    using less by (force simp: map_of_eq_None_iff)
  with 2 tail show ?case by auto
qed simp

lemma map_of_smap_erase: "map_of (smap_erase k m) j = (if j = k then None else map_of m j)"
  by (induction m) (auto simp: smap_erase_def)

lemma map_of_in_set:
  assumes "smap_inv m"
  shows "((k, v) \<in> set m) = (map_of m k = Some v)"
proof -
  have "distinct (map fst m)"
    using assms strict_sorted_iff by (auto simp: smap_inv_def)
  then show ?thesis by simp
qed

interpretation sm: ordered_map map_of smap_put smap_erase "\<lambda>m. m" smap_inv
proof
  show "smap_inv m \<Longrightarrow> sorted_wrt (<) (map fst m)" for m :: "('a \<times> 'b) list"
    by (simp add: smap_inv_def)
qed (simp_all add: map_of_smap_put map_of_smap_erase smap_put_inv smap_erase_inv map_of_in_set)

lemmas [smap_simps] = map_of_smap_put map_of_smap_erase smap_put_inv smap_erase_inv

section \<open>List lemmas\<close>

lemma take_drop_append_mid: "take n xs @ take m (drop n xs) = take (n + m) xs"
  by (simp add: take_add)

lemma nth_map_mod: "i < n \<Longrightarrow> map f [0..<n] ! i = f i"
  by simp

text \<open>A list made of \<open>n\<close> pieces of the same length.\<close>

lemma length_pieces: "\<forall>i < n. length (f i) = k \<Longrightarrow> length (concat (map f [0..<n])) = n * k"
  by (induction n) auto

lemma nth_piece:
  "\<forall>i < n. length (f i) = k \<Longrightarrow> i < n \<Longrightarrow> \<exists>rest. drop (i * k) (concat (map f [0..<n])) = f i @ rest"
proof (induction n)
  case (Suc n)
  then have l: "length (concat (map f [0..<n])) = n * k" by (intro length_pieces) auto
  show ?case
  proof (cases "i = n")
    case True
    then show ?thesis using l by simp
  next
    case False
    then obtain rest where "drop (i * k) (concat (map f [0..<n])) = f i @ rest" using Suc by auto
    moreover have "i * k \<le> n * k" using Suc.prems(2) by simp
    ultimately show ?thesis using l by simp
  qed
qed simp

lemma pieces_of_list:
  "n * k \<le> length xs \<Longrightarrow> concat (map (\<lambda>i. take k (drop (i * k) xs)) [0..<n]) = take (n * k) xs"
proof (induction n)
  case (Suc n)
  have "take (Suc n * k) xs = take (n * k) xs @ take k (drop (n * k) xs)" by (metis add.commute mult_Suc take_add)
  with Suc show ?case by simp
qed simp

section \<open>First-in first-out channels\<close>

text \<open>
  The interface of a channel: \<open>view\<close> is what is queued, oldest first; enqueuing and dequeuing may
  refuse (\<open>None\<close>), and dequeuing an empty channel says so (\<open>Some (None, s)\<close>).
\<close>

fun enq_all :: "('a \<Rightarrow> 's \<Rightarrow> 's option) \<Rightarrow> 'a list \<Rightarrow> 's \<Rightarrow> 's option" where
  "enq_all enq [] s = Some s"
| "enq_all enq (x # xs) s = (case enq x s of None \<Rightarrow> None | Some s' \<Rightarrow> enq_all enq xs s')"

fun deq_n :: "('s \<Rightarrow> ('a option \<times> 's) option) \<Rightarrow> nat \<Rightarrow> 's \<Rightarrow> ('a option list \<times> 's) option" where
  "deq_n deq 0 s = Some ([], s)"
| "deq_n deq (Suc n) s =
     (case deq s of None \<Rightarrow> None
      | Some (x, s') \<Rightarrow> (case deq_n deq n s' of None \<Rightarrow> None | Some (xs, s'') \<Rightarrow> Some (x # xs, s'')))"

locale fifo_channel =
  fixes inv :: "'s \<Rightarrow> bool"
    and view :: "'s \<Rightarrow> 'a list"
    and enq :: "'a \<Rightarrow> 's \<Rightarrow> 's option"
    and deq :: "'s \<Rightarrow> ('a option \<times> 's) option"
  assumes enq_view: "inv s \<Longrightarrow> enq x s = Some s' \<Longrightarrow> inv s' \<and> view s' = view s @ [x]"
    and deq_view: "inv s \<Longrightarrow> view s = x # xs \<Longrightarrow> \<exists>s'. deq s = Some (Some x, s') \<and> inv s' \<and> view s' = xs"
begin

lemma enq_all_view: "inv s \<Longrightarrow> enq_all enq xs s = Some s' \<Longrightarrow> inv s' \<and> view s' = view s @ xs"
proof (induction xs arbitrary: s)
  case (Cons x xs)
  then obtain t where "enq x s = Some t" "enq_all enq xs t = Some s'"
    by (auto split: option.splits)
  with Cons.IH [of t] enq_view [OF Cons.prems(1)] show ?case by auto
qed simp

lemma deq_n_view:
  "inv s \<Longrightarrow> n \<le> length (view s) \<Longrightarrow>
     \<exists>s'. deq_n deq n s = Some (map Some (take n (view s)), s') \<and> inv s' \<and> view s' = drop n (view s)"
proof (induction n arbitrary: s)
  case (Suc n)
  then obtain x xs where v: "view s = x # xs" by (cases "view s") auto
  obtain s1 where s1: "deq s = Some (Some x, s1)" "inv s1" "view s1 = xs"
    using deq_view [OF Suc.prems(1) v] by blast
  from Suc.IH [OF s1(2)] Suc.prems(2) v s1 show ?case by auto
qed simp

lemma fifo_order:
  assumes "inv s" "enq_all enq xs s = Some s'" "n \<le> length (view s) + length xs"
  shows "\<exists>s''. deq_n deq n s' = Some (map Some (take n (view s @ xs)), s'') \<and> inv s'' \<and>
    view s'' = drop n (view s @ xs)"
  using enq_all_view [OF assms(1,2)] deq_n_view [of s' n] assms(3) by simp

end

section \<open>Byte streams\<close>

text \<open>
  The interface of a store that is written at its end and read at its front: no byte is lost,
  duplicated, reordered or invented, whatever the sequence of writes and reads.
\<close>

datatype 'b stream_op = SPut "'b list" | SGet nat

fun stream_run ::
  "('b list \<Rightarrow> 's \<Rightarrow> 's option) \<Rightarrow> (nat \<Rightarrow> 's \<Rightarrow> ('b list \<times> 's) option) \<Rightarrow> 'b stream_op list \<Rightarrow> 's
   \<Rightarrow> ('b list \<times> 'b list \<times> 's) option" where
  "stream_run put get [] s = Some ([], [], s)"
| "stream_run put get (SPut xs # ops) s =
     (case put xs s of None \<Rightarrow> None
      | Some s1 \<Rightarrow> (case stream_run put get ops s1 of None \<Rightarrow> None
          | Some (written, read, s2) \<Rightarrow> Some (xs @ written, read, s2)))"
| "stream_run put get (SGet n # ops) s =
     (case get n s of None \<Rightarrow> None
      | Some (ys, s1) \<Rightarrow> (case stream_run put get ops s1 of None \<Rightarrow> None
          | Some (written, read, s2) \<Rightarrow> Some (written, ys @ read, s2)))"

locale byte_stream =
  fixes inv :: "'s \<Rightarrow> bool"
    and view :: "'s \<Rightarrow> 'b list"
    and put :: "'b list \<Rightarrow> 's \<Rightarrow> 's option"
    and get :: "nat \<Rightarrow> 's \<Rightarrow> ('b list \<times> 's) option"
  assumes put_view: "inv s \<Longrightarrow> put xs s = Some s' \<Longrightarrow> inv s' \<and> view s' = view s @ xs"
    and get_view: "inv s \<Longrightarrow> get n s = Some (ys, s') \<Longrightarrow> inv s' \<and> view s = ys @ view s'"
begin

lemma stream_run_view:
  "inv s \<Longrightarrow> stream_run put get ops s = Some (written, read, s') \<Longrightarrow>
     inv s' \<and> view s @ written = read @ view s'"
proof (induction ops arbitrary: s written read)
  case (Cons op ops)
  show ?case
  proof (cases op)
    case (SPut xs)
    then obtain s1 w where "put xs s = Some s1" "stream_run put get ops s1 = Some (w, read, s')" "written = xs @ w"
      using Cons.prems(2) by (auto split: option.splits)
    with put_view [OF Cons.prems(1)] Cons.IH [of s1] show ?thesis by fastforce
  next
    case (SGet n)
    then obtain ys s1 r where "get n s = Some (ys, s1)" "stream_run put get ops s1 = Some (written, r, s')" "read = ys @ r"
      using Cons.prems(2) by (auto split: option.splits)
    with get_view [OF Cons.prems(1)] Cons.IH [of s1] show ?thesis by fastforce
  qed
qed simp

end

end
