(* ===== verification/Message_Parcel.thy ===== *)
theory Message_Parcel
  imports Prelude
begin

text \<open>
  The \<^verbatim>\<open>MessageParcel\<close> of the IPC framework, through which metadata and buffers go from one process to another. It is not part
  of the program: it is a parameter of the models that use it, a record of its operations, with what the code relies on stated as
  \<open>parcel_ok\<close>.
\<close>

section \<open>Operations\<close>

text \<open>What is written: a value of a known type, a file descriptor, or a remote object.\<close>

datatype item =
    I_bool bool | I_int32 "32 word" | I_int64 "64 word" | I_uint32 "32 word" | I_uint64 "64 word" | I_float "32 word" | I_double "64 word" | I_string string | I_uint8s "8 word list" | I_int32s "32 word list" | I_int64s "64 word list" | I_uint8 "8 word" | I_fd int | I_object nat

datatype item_kind = K_bool | K_int32 | K_int64 | K_uint32 | K_uint64 | K_float | K_double | K_string | K_uint8s | K_int32s | K_int64s | K_uint8 | K_fd | K_object

fun kind_of :: "item \<Rightarrow> item_kind" where
  "kind_of (I_bool _) = K_bool"
| "kind_of (I_int32 _) = K_int32"
| "kind_of (I_int64 _) = K_int64"
| "kind_of (I_uint32 _) = K_uint32"
| "kind_of (I_uint64 _) = K_uint64"
| "kind_of (I_float _) = K_float"
| "kind_of (I_double _) = K_double"
| "kind_of (I_string _) = K_string"
| "kind_of (I_uint8s _) = K_uint8s"
| "kind_of (I_int32s _) = K_int32s"
| "kind_of (I_int64s _) = K_int64s"
| "kind_of (I_uint8 _) = K_uint8"
| "kind_of (I_fd _) = K_fd"
| "kind_of (I_object _) = K_object"

text \<open>
  \<open>mp_write\<close> stands for \<^verbatim>\<open>WriteBool\<close>, \<^verbatim>\<open>WriteInt32\<close> and so on, with their success flag; \<open>mp_read\<close> for the
  reading operation of each kind, \<^term>\<open>None\<close> when it fails.
\<close>

record 'p MessageParcel =
  mp_new :: 'p
  mp_write :: "item \<Rightarrow> 'p \<Rightarrow> bool \<times> 'p"
  mp_read :: "item_kind \<Rightarrow> 'p \<Rightarrow> item option \<times> 'p"
  mp_Append :: "'p \<Rightarrow> 'p \<Rightarrow> bool \<times> 'p"
  SkipBytes :: "nat \<Rightarrow> 'p \<Rightarrow> 'p"
  GetWritePosition :: "'p \<Rightarrow> nat"
  GetDataSize :: "'p \<Rightarrow> nat"
  RewindWrite :: "nat \<Rightarrow> 'p \<Rightarrow> 'p"
  SetDataSize :: "nat \<Rightarrow> 'p \<Rightarrow> 'p"
  GetRawDataCapacity :: "'p \<Rightarrow> nat"

text \<open>Reading with a default for a read that fails.\<close>

definition ReadBool :: "'p MessageParcel \<Rightarrow> 'p \<Rightarrow> bool \<times> 'p" where
  "ReadBool P p = (case mp_read P K_bool p of (Some (I_bool v), q) \<Rightarrow> (v, q) | (_, q) \<Rightarrow> (False, q))"

definition ReadInt32 :: "'p MessageParcel \<Rightarrow> 'p \<Rightarrow> 32 word \<times> 'p" where
  "ReadInt32 P p = (case mp_read P K_int32 p of (Some (I_int32 v), q) \<Rightarrow> (v, q) | (_, q) \<Rightarrow> (0, q))"

definition ReadInt64 :: "'p MessageParcel \<Rightarrow> 'p \<Rightarrow> 64 word \<times> 'p" where
  "ReadInt64 P p = (case mp_read P K_int64 p of (Some (I_int64 v), q) \<Rightarrow> (v, q) | (_, q) \<Rightarrow> (0, q))"

definition ReadUint32 :: "'p MessageParcel \<Rightarrow> 'p \<Rightarrow> 32 word \<times> 'p" where
  "ReadUint32 P p = (case mp_read P K_uint32 p of (Some (I_uint32 v), q) \<Rightarrow> (v, q) | (_, q) \<Rightarrow> (0, q))"

definition ReadUint64 :: "'p MessageParcel \<Rightarrow> 'p \<Rightarrow> 64 word \<times> 'p" where
  "ReadUint64 P p = (case mp_read P K_uint64 p of (Some (I_uint64 v), q) \<Rightarrow> (v, q) | (_, q) \<Rightarrow> (0, q))"

definition ReadFloat :: "'p MessageParcel \<Rightarrow> 'p \<Rightarrow> 32 word \<times> 'p" where
  "ReadFloat P p = (case mp_read P K_float p of (Some (I_float v), q) \<Rightarrow> (v, q) | (_, q) \<Rightarrow> (0, q))"

definition ReadDouble :: "'p MessageParcel \<Rightarrow> 'p \<Rightarrow> 64 word \<times> 'p" where
  "ReadDouble P p = (case mp_read P K_double p of (Some (I_double v), q) \<Rightarrow> (v, q) | (_, q) \<Rightarrow> (0, q))"

definition ReadString :: "'p MessageParcel \<Rightarrow> 'p \<Rightarrow> string \<times> 'p" where
  "ReadString P p = (case mp_read P K_string p of (Some (I_string v), q) \<Rightarrow> (v, q) | (_, q) \<Rightarrow> ([], q))"

definition ReadUInt8Vector :: "'p MessageParcel \<Rightarrow> 'p \<Rightarrow> 8 word list \<times> 'p" where
  "ReadUInt8Vector P p = (case mp_read P K_uint8s p of (Some (I_uint8s v), q) \<Rightarrow> (v, q) | (_, q) \<Rightarrow> ([], q))"

definition ReadInt32Vector :: "'p MessageParcel \<Rightarrow> 'p \<Rightarrow> 32 word list \<times> 'p" where
  "ReadInt32Vector P p = (case mp_read P K_int32s p of (Some (I_int32s v), q) \<Rightarrow> (v, q) | (_, q) \<Rightarrow> ([], q))"

definition ReadInt64Vector :: "'p MessageParcel \<Rightarrow> 'p \<Rightarrow> 64 word list \<times> 'p" where
  "ReadInt64Vector P p = (case mp_read P K_int64s p of (Some (I_int64s v), q) \<Rightarrow> (v, q) | (_, q) \<Rightarrow> ([], q))"

definition ReadUint8 :: "'p MessageParcel \<Rightarrow> 'p \<Rightarrow> 8 word \<times> 'p" where
  "ReadUint8 P p = (case mp_read P K_uint8 p of (Some (I_uint8 v), q) \<Rightarrow> (v, q) | (_, q) \<Rightarrow> (0, q))"

definition ReadFileDescriptor :: "'p MessageParcel \<Rightarrow> 'p \<Rightarrow> int \<times> 'p" where
  "ReadFileDescriptor P p = (case mp_read P K_fd p of (Some (I_fd v), q) \<Rightarrow> (v, q) | (_, q) \<Rightarrow> ((- 1), q))"

definition ReadRemoteObject :: "'p MessageParcel \<Rightarrow> 'p \<Rightarrow> nat option \<times> 'p" where
  "ReadRemoteObject P p = (case mp_read P K_object p of (Some (I_object v), q) \<Rightarrow> (Some v, q) | (_, q) \<Rightarrow> (None, q))"

text \<open>Reading into a variable, with a flag.\<close>

definition TryReadInt32 :: "'p MessageParcel \<Rightarrow> 'p \<Rightarrow> 32 word option \<times> 'p" where
  "TryReadInt32 P p = (case mp_read P K_int32 p of (Some (I_int32 v), q) \<Rightarrow> (Some v, q) | (_, q) \<Rightarrow> (None, q))"

definition TryReadInt64 :: "'p MessageParcel \<Rightarrow> 'p \<Rightarrow> 64 word option \<times> 'p" where
  "TryReadInt64 P p = (case mp_read P K_int64 p of (Some (I_int64 v), q) \<Rightarrow> (Some v, q) | (_, q) \<Rightarrow> (None, q))"

definition TryReadUint32 :: "'p MessageParcel \<Rightarrow> 'p \<Rightarrow> 32 word option \<times> 'p" where
  "TryReadUint32 P p = (case mp_read P K_uint32 p of (Some (I_uint32 v), q) \<Rightarrow> (Some v, q) | (_, q) \<Rightarrow> (None, q))"

definition TryReadUint64 :: "'p MessageParcel \<Rightarrow> 'p \<Rightarrow> 64 word option \<times> 'p" where
  "TryReadUint64 P p = (case mp_read P K_uint64 p of (Some (I_uint64 v), q) \<Rightarrow> (Some v, q) | (_, q) \<Rightarrow> (None, q))"

section \<open>What the code relies on\<close>

text \<open>
  \<open>unread\<close> is what was written and not read yet. A fresh parcel is empty; a write that succeeds appends its item; reading the kind of
  the next item returns it and reading at the end fails; integers of the same width share their bytes; appending a parcel appends what it
  holds; skipping eight bytes passes two 32-bit integers; rewinding to a recorded position and size drops what was written after it.
\<close>

inductive appended_to :: "'p MessageParcel \<Rightarrow> 'p \<Rightarrow> 'p \<Rightarrow> bool" for P p where
  written_none: "appended_to P p p"
| written_more: "appended_to P p q \<Longrightarrow> appended_to P p (snd (mp_write P x q))"

definition parcel_ok :: "'p MessageParcel \<Rightarrow> ('p \<Rightarrow> item list) \<Rightarrow> bool" where
  "parcel_ok P unread \<longleftrightarrow>
     unread (mp_new P) = [] \<and>
     (\<forall>x p q. mp_write P x p = (True, q) \<longrightarrow> unread q = unread p @ [x]) \<and>
     (\<forall>x xs p. unread p = x # xs \<longrightarrow> (\<exists>q. mp_read P (kind_of x) p = (Some x, q) \<and> unread q = xs)) \<and>
     (\<forall>k p. unread p = [] \<longrightarrow> (\<exists>q. mp_read P k p = (None, q) \<and> unread q = [])) \<and>
     (\<forall>w xs p. unread p = I_int32 w # xs \<longrightarrow> (\<exists>q. mp_read P K_uint32 p = (Some (I_uint32 w), q) \<and> unread q = xs)) \<and>
     (\<forall>p q r. mp_Append P p q = (True, r) \<longrightarrow> unread r = unread p @ unread q) \<and>
     (\<forall>a b xs p. unread p = I_int32 a # I_int32 b # xs \<longrightarrow> unread (SkipBytes P 8 p) = xs) \<and>
     (\<forall>p q. appended_to P p q \<longrightarrow> unread (SetDataSize P (GetDataSize P p) (RewindWrite P (GetWritePosition P p) q)) = unread p)"

lemma parcel_new: "parcel_ok P unread \<Longrightarrow> unread (mp_new P) = []"
  unfolding parcel_ok_def by blast

lemma parcel_write: "parcel_ok P unread \<Longrightarrow> mp_write P x p = (True, q) \<Longrightarrow> unread q = unread p @ [x]"
  unfolding parcel_ok_def by blast

lemma parcel_read: "parcel_ok P unread \<Longrightarrow> unread p = x # xs \<Longrightarrow> \<exists>q. mp_read P (kind_of x) p = (Some x, q) \<and> unread q = xs"
  unfolding parcel_ok_def by blast

lemma parcel_end: "parcel_ok P unread \<Longrightarrow> unread p = [] \<Longrightarrow> \<exists>q. mp_read P k p = (None, q) \<and> unread q = []"
  unfolding parcel_ok_def by blast

lemma parcel_width: "parcel_ok P unread \<Longrightarrow> unread p = I_int32 w # xs \<Longrightarrow> \<exists>q. mp_read P K_uint32 p = (Some (I_uint32 w), q) \<and> unread q = xs"
  unfolding parcel_ok_def by blast

lemma parcel_append: "parcel_ok P unread \<Longrightarrow> mp_Append P p q = (True, r) \<Longrightarrow> unread r = unread p @ unread q"
  unfolding parcel_ok_def by blast

lemma parcel_skip: "parcel_ok P unread \<Longrightarrow> unread p = I_int32 a # I_int32 b # xs \<Longrightarrow> unread (SkipBytes P 8 p) = xs"
  unfolding parcel_ok_def by blast

lemma parcel_rewind:
  "parcel_ok P unread \<Longrightarrow> appended_to P p q \<Longrightarrow> unread (SetDataSize P (GetDataSize P p) (RewindWrite P (GetWritePosition P p) q)) = unread p"
  unfolding parcel_ok_def by blast

lemma written_write: "appended_to P p q \<Longrightarrow> mp_write P x q = (b, r) \<Longrightarrow> appended_to P p r"
  using written_more [of P p q x] by simp

text \<open>The typed reads, on a parcel whose next item has their type.\<close>

lemma read_typed:
  assumes "parcel_ok P unread"
  shows
    "unread p = I_bool b # xs \<Longrightarrow> \<exists>q. ReadBool P p = (b, q) \<and> unread q = xs"
    and "unread p = I_int32 w # xs \<Longrightarrow> \<exists>q. ReadInt32 P p = (w, q) \<and> unread q = xs"
    and "unread p = I_int64 w2 # xs \<Longrightarrow> \<exists>q. ReadInt64 P p = (w2, q) \<and> unread q = xs"
    and "unread p = I_uint32 w # xs \<Longrightarrow> \<exists>q. ReadUint32 P p = (w, q) \<and> unread q = xs"
    and "unread p = I_uint64 w2 # xs \<Longrightarrow> \<exists>q. ReadUint64 P p = (w2, q) \<and> unread q = xs"
    and "unread p = I_float w # xs \<Longrightarrow> \<exists>q. ReadFloat P p = (w, q) \<and> unread q = xs"
    and "unread p = I_double w2 # xs \<Longrightarrow> \<exists>q. ReadDouble P p = (w2, q) \<and> unread q = xs"
    and "unread p = I_string s # xs \<Longrightarrow> \<exists>q. ReadString P p = (s, q) \<and> unread q = xs"
    and "unread p = I_uint8s u8 # xs \<Longrightarrow> \<exists>q. ReadUInt8Vector P p = (u8, q) \<and> unread q = xs"
    and "unread p = I_int32s i32 # xs \<Longrightarrow> \<exists>q. ReadInt32Vector P p = (i32, q) \<and> unread q = xs"
    and "unread p = I_int64s i64 # xs \<Longrightarrow> \<exists>q. ReadInt64Vector P p = (i64, q) \<and> unread q = xs"
    and "unread p = I_uint8 w8 # xs \<Longrightarrow> \<exists>q. ReadUint8 P p = (w8, q) \<and> unread q = xs"
    and "unread p = I_fd n # xs \<Longrightarrow> \<exists>q. ReadFileDescriptor P p = (n, q) \<and> unread q = xs"
    and "unread p = I_object ob # xs \<Longrightarrow> \<exists>q. ReadRemoteObject P p = (Some ob, q) \<and> unread q = xs"
    and "unread p = I_int32 w # xs \<Longrightarrow> \<exists>q. TryReadInt32 P p = (Some w, q) \<and> unread q = xs"
    and "unread p = I_int64 w2 # xs \<Longrightarrow> \<exists>q. TryReadInt64 P p = (Some w2, q) \<and> unread q = xs"
    and "unread p = I_uint32 w # xs \<Longrightarrow> \<exists>q. TryReadUint32 P p = (Some w, q) \<and> unread q = xs"
    and "unread p = I_uint64 w2 # xs \<Longrightarrow> \<exists>q. TryReadUint64 P p = (Some w2, q) \<and> unread q = xs"
  using parcel_read [OF assms, of p]
  by (fastforce simp: ReadBool_def ReadInt32_def ReadInt64_def ReadUint32_def ReadUint64_def ReadFloat_def ReadDouble_def ReadString_def ReadUInt8Vector_def ReadInt32Vector_def ReadInt64Vector_def ReadUint8_def ReadFileDescriptor_def ReadRemoteObject_def
      TryReadInt32_def TryReadInt64_def TryReadUint32_def TryReadUint64_def)+

section \<open>Writing several items\<close>

fun write_all :: "'p MessageParcel \<Rightarrow> item list \<Rightarrow> 'p \<Rightarrow> bool \<times> 'p" where
  "write_all P [] p = (True, p)"
| "write_all P (x # xs) p = (case mp_write P x p of (True, q) \<Rightarrow> write_all P xs q | (False, q) \<Rightarrow> (False, q))"

lemma write_all_append:
  "write_all P (xs @ ys) p = (case write_all P xs p of (True, q) \<Rightarrow> write_all P ys q | (False, q) \<Rightarrow> (False, q))"
  by (induction xs arbitrary: p) (auto split: prod.splits bool.splits)

lemma write_all_unread: "parcel_ok P unread \<Longrightarrow> write_all P xs p = (True, q) \<Longrightarrow> unread q = unread p @ xs"
proof (induction xs arbitrary: p)
  case (Cons x xs)
  then obtain r where "mp_write P x p = (True, r)" "write_all P xs r = (True, q)" by (auto split: prod.splits bool.splits)
  with Cons.IH [OF Cons.prems(1)] parcel_write [OF Cons.prems(1)] show ?case by fastforce
qed simp

lemma write_all_written: "appended_to P p q \<Longrightarrow> write_all P xs q = (b, r) \<Longrightarrow> appended_to P p r"
  by (induction xs arbitrary: q) (auto split: prod.splits bool.splits intro: written_write)

section \<open>An instance\<close>

text \<open>A parcel that keeps the unread items in a list, counts the ones that were read, and takes \<open>cap\<close> in all.\<close>

record list_state =
  ls_done :: nat
  ls_items :: "item list"

fun item_as :: "item_kind \<Rightarrow> item \<Rightarrow> item option" where
  "item_as K_uint32 (I_int32 w) = Some (I_uint32 w)"
| "item_as k x = (if kind_of x = k then Some x else None)"

definition list_take :: "nat \<Rightarrow> list_state \<Rightarrow> list_state" where
  "list_take n p = p\<lparr>ls_items := take (n - ls_done p) (ls_items p)\<rparr>"

definition list_parcel :: "nat \<Rightarrow> list_state MessageParcel" where
  "list_parcel cap =
     \<lparr>mp_new = \<lparr>ls_done = 0, ls_items = []\<rparr>,
      mp_write = (\<lambda>x p. if ls_done p + length (ls_items p) < cap then (True, p\<lparr>ls_items := ls_items p @ [x]\<rparr>) else (False, p)),
      mp_read = (\<lambda>k p. case ls_items p of
          [] \<Rightarrow> (None, p)
        | x # xs \<Rightarrow> (case item_as k x of Some y \<Rightarrow> (Some y, \<lparr>ls_done = ls_done p + 1, ls_items = xs\<rparr>) | None \<Rightarrow> (None, p))),
      mp_Append = (\<lambda>p q. if ls_done p + length (ls_items p) + length (ls_items q) \<le> cap
        then (True, p\<lparr>ls_items := ls_items p @ ls_items q\<rparr>) else (False, p)),
      SkipBytes = (\<lambda>n p. \<lparr>ls_done = ls_done p + n div 4, ls_items = drop (n div 4) (ls_items p)\<rparr>),
      GetWritePosition = (\<lambda>p. ls_done p + length (ls_items p)), GetDataSize = (\<lambda>p. ls_done p + length (ls_items p)),
      RewindWrite = list_take, SetDataSize = list_take, GetRawDataCapacity = (\<lambda>p. cap)\<rparr>"

lemma list_written: "appended_to (list_parcel cap) p q \<Longrightarrow> (\<exists>xs. q = p\<lparr>ls_items := ls_items p @ xs\<rparr>)"
proof (induction rule: appended_to.induct)
  case written_none
  have "p = p\<lparr>ls_items := ls_items p @ []\<rparr>" by simp
  then show ?case by blast
next
  case (written_more q x)
  then obtain xs where "q = p\<lparr>ls_items := ls_items p @ xs\<rparr>" by blast
  then have "snd (mp_write (list_parcel cap) x q) = p\<lparr>ls_items := ls_items p @ (if ls_done q + length (ls_items q) < cap then xs @ [x] else xs)\<rparr>"
    by (simp add: list_parcel_def)
  then show ?case by blast
qed

lemma item_as_kind: "item_as (kind_of x) x = Some x"
  by (cases x) simp_all

lemma list_parcel_ok: "parcel_ok (list_parcel cap) ls_items"
  unfolding parcel_ok_def
proof (intro conjI allI impI)
  fix x xs and p :: list_state
  assume "ls_items p = x # xs"
  then show "\<exists>q. mp_read (list_parcel cap) (kind_of x) p = (Some x, q) \<and> ls_items q = xs" by (simp add: list_parcel_def item_as_kind)
next
  fix p q
  assume "appended_to (list_parcel cap) p q"
  then obtain xs where "q = p\<lparr>ls_items := ls_items p @ xs\<rparr>" using list_written by blast
  then show "ls_items (SetDataSize (list_parcel cap) (GetDataSize (list_parcel cap) p)
      (RewindWrite (list_parcel cap) (GetWritePosition (list_parcel cap) p) q)) = ls_items p"
    by (simp add: list_parcel_def list_take_def)
qed (auto simp: list_parcel_def split: if_splits)

lemma list_write_all: "ls_done p + length (ls_items p) + length xs \<le> cap \<Longrightarrow> fst (write_all (list_parcel cap) xs p)"
  by (induction xs arbitrary: p) (simp_all add: list_parcel_def)

end
