(* ===== verification/Meta_Any.thy ===== *)
theory Meta_Any
  imports Message_Parcel
begin

text \<open>
  \<^verbatim>\<open>Any\<close>, the type-erased value of \<^verbatim>\<open>interface/inner_api/meta/any.h\<close> and \<^verbatim>\<open>src/meta/any.cpp\<close>, for the types the
  metadata tags use, and its marshalling into a \<^verbatim>\<open>MessageParcel\<close>.
\<close>

section \<open>Values\<close>

text \<open>The enumerations that are stored, with the type that represents them.\<close>

datatype enum_type =
    E_SrcInputType | E_AudioSampleFormat | E_VideoPixelFormat | E_MediaType | E_VideoH264Profile | E_VideoRotation
  | E_VideoOrientationType | E_ColorPrimary | E_HDRType | E_TransferCharacteristic | E_MatrixCoefficient | E_HEVCProfile
  | E_HEVCLevel | E_ChromaLocation | E_FileType | E_DemuxerMode | E_VideoEncodeBitrateMode | E_TemporalGopReferenceMode
  | E_VideoEncodeBFrameGopMode | E_AudioChannelLayout | E_GraphicPixelFormat | E_VideoCodecScenario | E_AudioAacProfile
  | E_AudioAacStreamFormat | E_AudioEncodeBitrateMode

datatype int_repr = Repr_int32 | Repr_uint32 | Repr_int64 | Repr_uint8

fun underlying_type :: "enum_type \<Rightarrow> int_repr" where
  "underlying_type E_SrcInputType = Repr_uint32"
| "underlying_type E_AudioChannelLayout = Repr_int64"
| "underlying_type E_AudioAacProfile = Repr_uint8"
| "underlying_type E_AudioAacStreamFormat = Repr_uint8"
| "underlying_type _ = Repr_int32"

text \<open>A cast to the enumeration keeps the bits its representation has.\<close>

fun repr_wrap :: "int_repr \<Rightarrow> int \<Rightarrow> int" where
  "repr_wrap Repr_int32 v = swrap 32 v"
| "repr_wrap Repr_uint32 v = v mod 2 ^ 32"
| "repr_wrap Repr_int64 v = swrap 64 v"
| "repr_wrap Repr_uint8 v = v mod 2 ^ 8"

definition enum_cast :: "enum_type \<Rightarrow> int \<Rightarrow> int" where
  "enum_cast e v = repr_wrap (underlying_type e) v"

definition enum_ok :: "enum_type \<Rightarrow> int \<Rightarrow> bool" where
  "enum_ok e v = (enum_cast e v = v)"

text \<open>The stored types and values; a floating-point number is its bit pattern.\<close>

datatype any_type =
    T_empty | T_bool | T_int8 | T_uint8 | T_int32 | T_uint32 | T_int64 | T_uint64 | T_float | T_double | T_string
  | T_vector_uint8 | T_vector_uint32 | T_vector_int32 | T_vector_int64 | T_vector_VideoBitStreamFormat | T_enum enum_type

datatype any =
    A_empty | A_bool bool | A_int8 "8 word" | A_uint8 "8 word" | A_int32 "32 word" | A_uint32 "32 word" | A_int64 "64 word"
  | A_uint64 "64 word" | A_float "32 word" | A_double "64 word" | A_string string | A_vector_uint8 "8 word list"
  | A_vector_uint32 "32 word list" | A_vector_int32 "32 word list" | A_vector_int64 "64 word list"
  | A_vector_VideoBitStreamFormat "32 word list" | A_enum enum_type int

fun TypeName :: "any \<Rightarrow> any_type" where
  "TypeName A_empty = T_empty"
| "TypeName (A_bool _) = T_bool"
| "TypeName (A_int8 _) = T_int8"
| "TypeName (A_uint8 _) = T_uint8"
| "TypeName (A_int32 _) = T_int32"
| "TypeName (A_uint32 _) = T_uint32"
| "TypeName (A_int64 _) = T_int64"
| "TypeName (A_uint64 _) = T_uint64"
| "TypeName (A_float _) = T_float"
| "TypeName (A_double _) = T_double"
| "TypeName (A_string _) = T_string"
| "TypeName (A_vector_uint8 _) = T_vector_uint8"
| "TypeName (A_vector_uint32 _) = T_vector_uint32"
| "TypeName (A_vector_int32 _) = T_vector_int32"
| "TypeName (A_vector_int64 _) = T_vector_int64"
| "TypeName (A_vector_VideoBitStreamFormat _) = T_vector_VideoBitStreamFormat"
| "TypeName (A_enum e _) = T_enum e"

text \<open>\<^verbatim>\<open>sizeof(T)\<close>: strings and vectors are three words.\<close>

fun type_size :: "any_type \<Rightarrow> nat" where
  "type_size T_empty = 0"
| "type_size T_bool = 1"
| "type_size T_int8 = 1"
| "type_size T_uint8 = 1"
| "type_size T_int32 = 4"
| "type_size T_uint32 = 4"
| "type_size T_float = 4"
| "type_size T_int64 = 8"
| "type_size T_uint64 = 8"
| "type_size T_double = 8"
| "type_size (T_enum e) = (case underlying_type e of Repr_int64 \<Rightarrow> 8 | Repr_uint8 \<Rightarrow> 1 | _ \<Rightarrow> 4)"
| "type_size _ = 24"

definition IsSameTypeWith :: "any_type \<Rightarrow> any \<Rightarrow> bool" where
  "IsSameTypeWith t a = (a \<noteq> A_empty \<and> TypeName a = t)"

text \<open>\<^verbatim>\<open>AnyValueType\<close>, as the 32-bit code that goes over the wire.\<close>

datatype AnyValueType =
    INVALID_TYPE | BOOL | INT8_T | UINT8_T | INT32_T | UINT32_T | INT64_T | UINT64_T | FLOAT | DOUBLE | VECTOR_UINT8
  | VECTOR_UINT32 | STRING | VECTOR_INT32 | VECTOR_INT64

definition value_types :: "AnyValueType list" where
  "value_types = [INVALID_TYPE, BOOL, INT8_T, UINT8_T, INT32_T, UINT32_T, INT64_T, UINT64_T, FLOAT, DOUBLE, VECTOR_UINT8,
     VECTOR_UINT32, STRING, VECTOR_INT32, VECTOR_INT64]"

fun type_code :: "AnyValueType \<Rightarrow> 32 word" where
  "type_code INVALID_TYPE = 1" | "type_code BOOL = 2" | "type_code INT8_T = 3" | "type_code UINT8_T = 4"
| "type_code INT32_T = 5" | "type_code UINT32_T = 6" | "type_code INT64_T = 7" | "type_code UINT64_T = 8"
| "type_code FLOAT = 9" | "type_code DOUBLE = 10" | "type_code VECTOR_UINT8 = 11" | "type_code VECTOR_UINT32 = 12"
| "type_code STRING = 13" | "type_code VECTOR_INT32 = 14" | "type_code VECTOR_INT64 = 15"

text \<open>A code read from the wire; a code no enumerator has is \<^term>\<open>None\<close>.\<close>

definition type_of_code :: "32 word \<Rightarrow> AnyValueType option" where
  "type_of_code c = List.find (\<lambda>t. type_code t = c) value_types"

lemma type_of_code_code [simp]: "type_of_code (type_code t) = Some t"
  by (cases t) (simp_all add: type_of_code_def value_types_def)

section \<open>Marshalling a value\<close>

text \<open>\<^verbatim>\<open>GetBaseTypesMap\<close>: the types that are written with their code.\<close>

fun base_type :: "any \<Rightarrow> (AnyValueType \<times> item) option" where
  "base_type (A_bool v) = Some (BOOL, I_bool v)"
| "base_type (A_int32 v) = Some (INT32_T, I_int32 v)"
| "base_type (A_int64 v) = Some (INT64_T, I_int64 v)"
| "base_type (A_uint32 v) = Some (UINT32_T, I_uint32 v)"
| "base_type (A_uint64 v) = Some (UINT64_T, I_uint64 v)"
| "base_type (A_float v) = Some (FLOAT, I_float v)"
| "base_type (A_double v) = Some (DOUBLE, I_double v)"
| "base_type (A_string v) = Some (STRING, I_string v)"
| "base_type (A_vector_uint8 v) = Some (VECTOR_UINT8, I_uint8s v)"
| "base_type (A_vector_int32 v) = Some (VECTOR_INT32, I_int32s v)"
| "base_type (A_vector_int64 v) = Some (VECTOR_INT64, I_int64s v)"
| "base_type _ = None"

definition BaseTypesToParcel :: "'p MessageParcel \<Rightarrow> any \<Rightarrow> 'p \<Rightarrow> bool \<times> 'p" where
  "BaseTypesToParcel P a p =
     (case base_type a of
        None \<Rightarrow> (False, snd (mp_write P (I_int32 (type_code INVALID_TYPE)) p))
      | Some (t, x) \<Rightarrow>
          (case mp_write P (I_int32 (type_code t)) p of
             (True, q) \<Rightarrow> mp_write P x q
           | (False, q) \<Rightarrow> (False, q)))"

text \<open>\<^verbatim>\<open>WriteValueToParcel\<close> and \<^verbatim>\<open>WriteValueToParcelInt64\<close>: only an enumeration is written, and their result is not used.\<close>

fun WriteValueToParcel :: "'p MessageParcel \<Rightarrow> any \<Rightarrow> 'p \<Rightarrow> 'p" where
  "WriteValueToParcel P (A_enum e v) p = snd (mp_write P (I_int32 (word_of_int v)) p)"
| "WriteValueToParcel P _ p = p"

fun WriteValueToParcelInt64 :: "'p MessageParcel \<Rightarrow> any \<Rightarrow> 'p \<Rightarrow> 'p" where
  "WriteValueToParcelInt64 P (A_enum e v) p = snd (mp_write P (I_int64 (word_of_int v)) p)"
| "WriteValueToParcelInt64 P _ p = p"

definition Any_ToParcel :: "'p MessageParcel \<Rightarrow> any \<Rightarrow> 'p \<Rightarrow> bool \<times> 'p" where
  "Any_ToParcel P a p =
     (if a = A_empty then (False, p)
      else (case BaseTypesToParcel P a p of
              (True, q) \<Rightarrow> (True, q)
            | (False, q) \<Rightarrow>
                if 8 < type_size (TypeName a) then (False, q)
                else if type_size (TypeName a) = 8 then (True, WriteValueToParcelInt64 P a q)
                else (True, WriteValueToParcel P a q)))"

text \<open>Reading: the value that is there before only says which enumeration to make.\<close>

datatype StatusCodeFromParcel = SUCCESS | ENUM_RETRY | NO_RETRY

definition BaseTypesFromParcel :: "'p MessageParcel \<Rightarrow> any \<Rightarrow> 'p \<Rightarrow> (StatusCodeFromParcel \<times> any) \<times> 'p" where
  "BaseTypesFromParcel P d p =
     (case ReadInt32 P p of (c, q) \<Rightarrow>
       (case type_of_code c of
          Some BOOL \<Rightarrow> (case ReadBool P q of (v, r) \<Rightarrow> ((SUCCESS, A_bool v), r))
        | Some INT32_T \<Rightarrow> (case ReadInt32 P q of (v, r) \<Rightarrow> ((SUCCESS, A_int32 v), r))
        | Some INT64_T \<Rightarrow> (case ReadInt64 P q of (v, r) \<Rightarrow> ((SUCCESS, A_int64 v), r))
        | Some UINT32_T \<Rightarrow> (case ReadUint32 P q of (v, r) \<Rightarrow> ((SUCCESS, A_uint32 v), r))
        | Some UINT64_T \<Rightarrow> (case ReadUint64 P q of (v, r) \<Rightarrow> ((SUCCESS, A_uint64 v), r))
        | Some FLOAT \<Rightarrow> (case ReadFloat P q of (v, r) \<Rightarrow> ((SUCCESS, A_float v), r))
        | Some DOUBLE \<Rightarrow> (case ReadDouble P q of (v, r) \<Rightarrow> ((SUCCESS, A_double v), r))
        | Some STRING \<Rightarrow> (case ReadString P q of (v, r) \<Rightarrow> ((SUCCESS, A_string v), r))
        | Some VECTOR_UINT8 \<Rightarrow> (case ReadUInt8Vector P q of (v, r) \<Rightarrow> ((SUCCESS, A_vector_uint8 v), r))
        | Some VECTOR_INT32 \<Rightarrow> (case ReadInt32Vector P q of (v, r) \<Rightarrow> ((SUCCESS, A_vector_int32 v), r))
        | Some VECTOR_INT64 \<Rightarrow> (case ReadInt64Vector P q of (v, r) \<Rightarrow> ((SUCCESS, A_vector_int64 v), r))
        | Some INVALID_TYPE \<Rightarrow> ((ENUM_RETRY, d), q)
        | _ \<Rightarrow> ((NO_RETRY, d), q)))"

fun MakeAnyFromParcel :: "'p MessageParcel \<Rightarrow> any \<Rightarrow> 'p \<Rightarrow> (bool \<times> any) \<times> 'p" where
  "MakeAnyFromParcel P (A_enum e _) p =
     (if type_size (T_enum e) = 8 then (case ReadInt64 P p of (v, q) \<Rightarrow> ((True, A_enum e (enum_cast e (sint v))), q))
      else (case ReadInt32 P p of (v, q) \<Rightarrow> ((True, A_enum e (enum_cast e (sint v))), q)))"
| "MakeAnyFromParcel P d p = ((False, d), p)"

definition Any_FromParcel :: "'p MessageParcel \<Rightarrow> any \<Rightarrow> 'p \<Rightarrow> (bool \<times> any) \<times> 'p" where
  "Any_FromParcel P d p =
     (case BaseTypesFromParcel P d p of
        ((SUCCESS, a), q) \<Rightarrow> ((True, a), q)
      | ((NO_RETRY, a), q) \<Rightarrow> ((False, a), q)
      | ((ENUM_RETRY, a), q) \<Rightarrow> MakeAnyFromParcel P a q)"

section \<open>The layout of a value\<close>

text \<open>The items that stand for a value.\<close>

fun any_items :: "any \<Rightarrow> item list" where
  "any_items (A_enum e v) =
     [I_int32 (type_code INVALID_TYPE), if type_size (T_enum e) = 8 then I_int64 (word_of_int v) else I_int32 (word_of_int v)]"
| "any_items a = (case base_type a of Some (t, x) \<Rightarrow> [I_int32 (type_code t), x] | None \<Rightarrow> [I_int32 (type_code INVALID_TYPE)])"

definition base_any :: "any \<Rightarrow> bool" where
  "base_any a = (base_type a \<noteq> None)"

text \<open>A value survives the wire when its type is a base type, or the enumeration of the value it is read into.\<close>

fun portable :: "any \<Rightarrow> any \<Rightarrow> bool" where
  "portable d (A_enum e v) = (TypeName d = T_enum e \<and> enum_ok e v)"
| "portable d a = base_any a"

end
