(* ===== verification/Meta_Tags.thy ===== *)
theory Meta_Tags
  imports Meta_Any
begin

text \<open>
  The registry of metadata tags: the keys of \<^verbatim>\<open>interface/inner_api/meta/meta_key.h\<close>, the default values and the getter and
  setter tables of \<^verbatim>\<open>src/meta/meta.cpp\<close>, and the types \<^verbatim>\<open>interface/inner_api/meta/meta.h\<close> declares for the typed
  \<^verbatim>\<open>Set\<close> and \<^verbatim>\<open>Get\<close>. The value of the default pixel format belongs to the graphics system and is an argument.
\<close>

section \<open>Keys\<close>

abbreviation (input) SRC_INPUT_TYPE :: string where "SRC_INPUT_TYPE \<equiv> ''regular.src.input.type''"
abbreviation (input) AUDIO_SAMPLE_FORMAT :: string where "AUDIO_SAMPLE_FORMAT \<equiv> ''audio_sample_format''"
abbreviation (input) AUDIO_RAW_SAMPLE_FORMAT :: string where "AUDIO_RAW_SAMPLE_FORMAT \<equiv> ''audio.raw.sample.format''"
abbreviation (input) VIDEO_PIXEL_FORMAT :: string where "VIDEO_PIXEL_FORMAT \<equiv> ''pixel_format''"
abbreviation (input) MEDIA_TYPE :: string where "MEDIA_TYPE \<equiv> ''track_type''"
abbreviation (input) VIDEO_H264_PROFILE :: string where "VIDEO_H264_PROFILE \<equiv> ''video.h264.profile''"
abbreviation (input) VIDEO_ROTATION :: string where "VIDEO_ROTATION \<equiv> ''rotation_angle''"
abbreviation (input) VIDEO_ORIENTATION_TYPE :: string where "VIDEO_ORIENTATION_TYPE \<equiv> ''video_orientation_type''"
abbreviation (input) VIDEO_COLOR_PRIMARIES :: string where "VIDEO_COLOR_PRIMARIES \<equiv> ''color_primaries''"
abbreviation (input) VIDEO_HDR_TYPE :: string where "VIDEO_HDR_TYPE \<equiv> ''video_hdr_type''"
abbreviation (input) VIDEO_COLOR_TRC :: string where "VIDEO_COLOR_TRC \<equiv> ''transfer_characteristics''"
abbreviation (input) VIDEO_COLOR_MATRIX_COEFF :: string where "VIDEO_COLOR_MATRIX_COEFF \<equiv> ''matrix_coefficients''"
abbreviation (input) VIDEO_H265_PROFILE :: string where "VIDEO_H265_PROFILE \<equiv> ''video.h265.profile''"
abbreviation (input) VIDEO_H265_LEVEL :: string where "VIDEO_H265_LEVEL \<equiv> ''video.h265.level''"
abbreviation (input) VIDEO_CHROMA_LOCATION :: string where "VIDEO_CHROMA_LOCATION \<equiv> ''chroma_location''"
abbreviation (input) MEDIA_FILE_TYPE :: string where "MEDIA_FILE_TYPE \<equiv> ''file_type''"
abbreviation (input) VIDEO_ENCODE_BITRATE_MODE :: string where "VIDEO_ENCODE_BITRATE_MODE \<equiv> ''video_encode_bitrate_mode''"
abbreviation (input) VIDEO_ENCODE_B_FRAME_GOP_MODE :: string where "VIDEO_ENCODE_B_FRAME_GOP_MODE \<equiv> ''video_encode_b_frame_gop_mode''"
abbreviation (input) VIDEO_ENCODER_TEMPORAL_GOP_REFERENCE_MODE :: string where "VIDEO_ENCODER_TEMPORAL_GOP_REFERENCE_MODE \<equiv> ''video_encoder_temporal_gop_reference_mode''"
abbreviation (input) VIDEO_GRAPHIC_PIXEL_FORMAT :: string where "VIDEO_GRAPHIC_PIXEL_FORMAT \<equiv> ''video_graphic_pixel_format''"
abbreviation (input) VIDEO_CODEC_SCENARIO :: string where "VIDEO_CODEC_SCENARIO \<equiv> ''video_codec_scenario''"
abbreviation (input) RECORDER_HDR_TYPE :: string where "RECORDER_HDR_TYPE \<equiv> ''hdrType''"
abbreviation (input) SCREEN_CAPTURE_AV_TYPE :: string where "SCREEN_CAPTURE_AV_TYPE \<equiv> ''avType''"
abbreviation (input) SCREEN_CAPTURE_DATA_TYPE :: string where "SCREEN_CAPTURE_DATA_TYPE \<equiv> ''dataType''"
abbreviation (input) SCREEN_CAPTURE_STOP_REASON :: string where "SCREEN_CAPTURE_STOP_REASON \<equiv> ''stopReason''"
abbreviation (input) APP_UID :: string where "APP_UID \<equiv> ''regular.app.uid''"
abbreviation (input) APP_PID :: string where "APP_PID \<equiv> ''regular.app.pid''"
abbreviation (input) APP_TOKEN_ID :: string where "APP_TOKEN_ID \<equiv> ''regular.app.token.id''"
abbreviation (input) REQUIRED_IN_BUFFER_CNT :: string where "REQUIRED_IN_BUFFER_CNT \<equiv> ''max_input_buffer_count''"
abbreviation (input) REQUIRED_IN_BUFFER_SIZE :: string where "REQUIRED_IN_BUFFER_SIZE \<equiv> ''max_input_size''"
abbreviation (input) REQUIRED_OUT_BUFFER_CNT :: string where "REQUIRED_OUT_BUFFER_CNT \<equiv> ''max_output_buffer_count''"
abbreviation (input) REQUIRED_OUT_BUFFER_SIZE :: string where "REQUIRED_OUT_BUFFER_SIZE \<equiv> ''regular.required.out.buffer.size''"
abbreviation (input) BUFFERING_SIZE :: string where "BUFFERING_SIZE \<equiv> ''regular.buffering.size''"
abbreviation (input) WATERLINE_HIGH :: string where "WATERLINE_HIGH \<equiv> ''regular.waterline.high''"
abbreviation (input) WATERLINE_LOW :: string where "WATERLINE_LOW \<equiv> ''regular.waterline.low''"
abbreviation (input) AUDIO_CHANNEL_COUNT :: string where "AUDIO_CHANNEL_COUNT \<equiv> ''channel_count''"
abbreviation (input) AUDIO_SAMPLE_RATE :: string where "AUDIO_SAMPLE_RATE \<equiv> ''sample_rate''"
abbreviation (input) AUDIO_SAMPLE_PER_FRAME :: string where "AUDIO_SAMPLE_PER_FRAME \<equiv> ''audio_samples_per_frame''"
abbreviation (input) AUDIO_OUTPUT_CHANNELS :: string where "AUDIO_OUTPUT_CHANNELS \<equiv> ''audio.output.channels''"
abbreviation (input) AUDIO_MPEG_VERSION :: string where "AUDIO_MPEG_VERSION \<equiv> ''audio.mpeg.version''"
abbreviation (input) AUDIO_MPEG_LAYER :: string where "AUDIO_MPEG_LAYER \<equiv> ''audio.mpeg.layer''"
abbreviation (input) AUDIO_AAC_LEVEL :: string where "AUDIO_AAC_LEVEL \<equiv> ''audio.aac.level''"
abbreviation (input) AUDIO_OBJECT_NUMBER :: string where "AUDIO_OBJECT_NUMBER \<equiv> ''audio.object.number''"
abbreviation (input) AUDIO_SOUNDBED_CHANNELS_NUMBER :: string where "AUDIO_SOUNDBED_CHANNELS_NUMBER \<equiv> ''audio.soundbed.channels.number''"
abbreviation (input) AUDIO_HOA_ORDER :: string where "AUDIO_HOA_ORDER \<equiv> ''audio.hoa.order''"
abbreviation (input) AUDIO_MAX_INPUT_SIZE :: string where "AUDIO_MAX_INPUT_SIZE \<equiv> ''audio.max.input.size''"
abbreviation (input) AUDIO_MAX_OUTPUT_SIZE :: string where "AUDIO_MAX_OUTPUT_SIZE \<equiv> ''audio.max.output.size''"
abbreviation (input) VIDEO_WIDTH :: string where "VIDEO_WIDTH \<equiv> ''width''"
abbreviation (input) VIDEO_HEIGHT :: string where "VIDEO_HEIGHT \<equiv> ''height''"
abbreviation (input) VIDEO_DELAY :: string where "VIDEO_DELAY \<equiv> ''video_delay''"
abbreviation (input) VIDEO_MAX_SURFACE_NUM :: string where "VIDEO_MAX_SURFACE_NUM \<equiv> ''video.max.surface_num''"
abbreviation (input) VIDEO_H264_LEVEL :: string where "VIDEO_H264_LEVEL \<equiv> ''video.h264.level''"
abbreviation (input) MEDIA_TRACK_COUNT :: string where "MEDIA_TRACK_COUNT \<equiv> ''track_count''"
abbreviation (input) AUDIO_AAC_IS_ADTS :: string where "AUDIO_AAC_IS_ADTS \<equiv> ''aac_is_adts''"
abbreviation (input) AUDIO_COMPRESSION_LEVEL :: string where "AUDIO_COMPRESSION_LEVEL \<equiv> ''audio_compression_level''"
abbreviation (input) AUDIO_BITS_PER_CODED_SAMPLE :: string where "AUDIO_BITS_PER_CODED_SAMPLE \<equiv> ''bits_per_coded_sample''"
abbreviation (input) AUDIO_BITS_PER_RAW_SAMPLE :: string where "AUDIO_BITS_PER_RAW_SAMPLE \<equiv> ''bits_per_raw_sample''"
abbreviation (input) REGULAR_TRACK_ID :: string where "REGULAR_TRACK_ID \<equiv> ''track_index''"
abbreviation (input) VIDEO_SCALE_TYPE :: string where "VIDEO_SCALE_TYPE \<equiv> ''scale_type''"
abbreviation (input) VIDEO_I_FRAME_INTERVAL :: string where "VIDEO_I_FRAME_INTERVAL \<equiv> ''i_frame_interval''"
abbreviation (input) MEDIA_PROFILE :: string where "MEDIA_PROFILE \<equiv> ''codec_profile''"
abbreviation (input) VIDEO_ENCODE_QUALITY :: string where "VIDEO_ENCODE_QUALITY \<equiv> ''quality''"
abbreviation (input) AUDIO_AAC_SBR :: string where "AUDIO_AAC_SBR \<equiv> ''sbr''"
abbreviation (input) AUDIO_FLAC_COMPLIANCE_LEVEL :: string where "AUDIO_FLAC_COMPLIANCE_LEVEL \<equiv> ''compliance_level''"
abbreviation (input) MEDIA_LEVEL :: string where "MEDIA_LEVEL \<equiv> ''codec_level''"
abbreviation (input) VIDEO_STRIDE :: string where "VIDEO_STRIDE \<equiv> ''stride''"
abbreviation (input) VIDEO_ENCODER_NUMBER_OF_PENDING_FRAMES :: string where "VIDEO_ENCODER_NUMBER_OF_PENDING_FRAMES \<equiv> ''video_encoder_number_of_pending_frames''"
abbreviation (input) VIDEO_DISPLAY_WIDTH :: string where "VIDEO_DISPLAY_WIDTH \<equiv> ''display_width''"
abbreviation (input) VIDEO_DISPLAY_HEIGHT :: string where "VIDEO_DISPLAY_HEIGHT \<equiv> ''display_height''"
abbreviation (input) VIDEO_PIC_WIDTH :: string where "VIDEO_PIC_WIDTH \<equiv> ''video_picture_width''"
abbreviation (input) VIDEO_PIC_HEIGHT :: string where "VIDEO_PIC_HEIGHT \<equiv> ''video_picture_height''"
abbreviation (input) VIDEO_ENCODER_TEMPORAL_GOP_SIZE :: string where "VIDEO_ENCODER_TEMPORAL_GOP_SIZE \<equiv> ''video_encoder_temporal_gop_size''"
abbreviation (input) VIDEO_ENCODER_LTR_FRAME_COUNT :: string where "VIDEO_ENCODER_LTR_FRAME_COUNT \<equiv> ''video_encoder_ltr_frame_count''"
abbreviation (input) VIDEO_PER_FRAME_POC :: string where "VIDEO_PER_FRAME_POC \<equiv> ''video_per_frame_poc''"
abbreviation (input) VIDEO_ENCODER_PER_FRAME_USE_LTR :: string where "VIDEO_ENCODER_PER_FRAME_USE_LTR \<equiv> ''video_encoder_per_frame_use_ltr''"
abbreviation (input) VIDEO_CROP_TOP :: string where "VIDEO_CROP_TOP \<equiv> ''video_crop_top''"
abbreviation (input) VIDEO_CROP_BOTTOM :: string where "VIDEO_CROP_BOTTOM \<equiv> ''video_crop_bottom''"
abbreviation (input) VIDEO_CROP_LEFT :: string where "VIDEO_CROP_LEFT \<equiv> ''video_crop_left''"
abbreviation (input) VIDEO_CROP_RIGHT :: string where "VIDEO_CROP_RIGHT \<equiv> ''video_crop_right''"
abbreviation (input) VIDEO_SLICE_HEIGHT :: string where "VIDEO_SLICE_HEIGHT \<equiv> ''video_slice_height''"
abbreviation (input) VIDEO_OPERATING_RATE :: string where "VIDEO_OPERATING_RATE \<equiv> ''video_operating_rate''"
abbreviation (input) VIDEO_ENCODER_QP_MAX :: string where "VIDEO_ENCODER_QP_MAX \<equiv> ''video_encoder_qp_max''"
abbreviation (input) VIDEO_ENCODER_QP_MIN :: string where "VIDEO_ENCODER_QP_MIN \<equiv> ''video_encoder_qp_min''"
abbreviation (input) VIDEO_ENCODER_QP_START :: string where "VIDEO_ENCODER_QP_START \<equiv> ''video_encoder_qp_start''"
abbreviation (input) VIDEO_ENCODER_TARGET_QP :: string where "VIDEO_ENCODER_TARGET_QP \<equiv> ''video_encoder_target_qp''"
abbreviation (input) FEATURE_PROPERTY_VIDEO_ENCODER_MAX_LTR_FRAME_COUNT :: string where "FEATURE_PROPERTY_VIDEO_ENCODER_MAX_LTR_FRAME_COUNT \<equiv> ''feature_property_video_encoder_max_ltr_frame_count''"
abbreviation (input) OH_MD_KEY_AUDIO_OBJECT_NUMBER :: string where "OH_MD_KEY_AUDIO_OBJECT_NUMBER \<equiv> ''audio_object_number_key''"
abbreviation (input) AV_CODEC_CALLER_PID :: string where "AV_CODEC_CALLER_PID \<equiv> ''av_codec_caller_pid''"
abbreviation (input) AV_CODEC_CALLER_UID :: string where "AV_CODEC_CALLER_UID \<equiv> ''av_codec_caller_uid''"
abbreviation (input) AV_CODEC_FORWARD_CALLER_PID :: string where "AV_CODEC_FORWARD_CALLER_PID \<equiv> ''av_codec_forward_caller_pid''"
abbreviation (input) AV_CODEC_FORWARD_CALLER_UID :: string where "AV_CODEC_FORWARD_CALLER_UID \<equiv> ''av_codec_forward_caller_uid''"
abbreviation (input) VIDEO_DECODER_RATE_UPPER_LIMIT :: string where "VIDEO_DECODER_RATE_UPPER_LIMIT \<equiv> ''video_decoder_rate_upper_limit''"
abbreviation (input) SCREEN_CAPTURE_ERR_CODE :: string where "SCREEN_CAPTURE_ERR_CODE \<equiv> ''errCode''"
abbreviation (input) SCREEN_CAPTURE_DURATION :: string where "SCREEN_CAPTURE_DURATION \<equiv> ''captureDuration''"
abbreviation (input) SCREEN_CAPTURE_START_LATENCY :: string where "SCREEN_CAPTURE_START_LATENCY \<equiv> ''startLatency''"
abbreviation (input) DRM_ERROR_CODE :: string where "DRM_ERROR_CODE \<equiv> ''ERROR_CODE''"
abbreviation (input) RECORDER_ERR_CODE :: string where "RECORDER_ERR_CODE \<equiv> ''errCode''"
abbreviation (input) RECORDER_DURATION :: string where "RECORDER_DURATION \<equiv> ''recordDuration''"
abbreviation (input) RECORDER_VIDEO_BITRATE :: string where "RECORDER_VIDEO_BITRATE \<equiv> ''videoBitrate''"
abbreviation (input) RECORDER_AUDIO_SAMPLE_RATE :: string where "RECORDER_AUDIO_SAMPLE_RATE \<equiv> ''audioSampleRate''"
abbreviation (input) RECORDER_AUDIO_CHANNEL_COUNT :: string where "RECORDER_AUDIO_CHANNEL_COUNT \<equiv> ''audioChannelCount''"
abbreviation (input) RECORDER_AUDIO_BITRATE :: string where "RECORDER_AUDIO_BITRATE \<equiv> ''audioBitrate''"
abbreviation (input) RECORDER_START_LATENCY :: string where "RECORDER_START_LATENCY \<equiv> ''startLatency''"
abbreviation (input) TIMED_METADATA_SRC_TRACK :: string where "TIMED_METADATA_SRC_TRACK \<equiv> ''timed_metadata_track_id''"
abbreviation (input) VIDEO_ENCODER_FRAME_I_RATIO :: string where "VIDEO_ENCODER_FRAME_I_RATIO \<equiv> ''video_encoder_frame_I_ratio''"
abbreviation (input) VIDEO_ENCODER_FRAME_MADI :: string where "VIDEO_ENCODER_FRAME_MADI \<equiv> ''video_encoder_frame_madi''"
abbreviation (input) VIDEO_ENCODER_FRAME_MADP :: string where "VIDEO_ENCODER_FRAME_MADP \<equiv> ''video_encoder_frame_madp''"
abbreviation (input) VIDEO_ENCODER_SUM_MADI :: string where "VIDEO_ENCODER_SUM_MADI \<equiv> ''video_encoder_sum_madi''"
abbreviation (input) VIDEO_ENCODER_REAL_BITRATE :: string where "VIDEO_ENCODER_REAL_BITRATE \<equiv> ''video_encoder_real_bit_rate''"
abbreviation (input) VIDEO_ENCODER_FRAME_QP :: string where "VIDEO_ENCODER_FRAME_QP \<equiv> ''video_encoder_frame_qp''"
abbreviation (input) VIDEO_ENCODER_QP_AVERAGE :: string where "VIDEO_ENCODER_QP_AVERAGE \<equiv> ''video_encoder_qp_average''"
abbreviation (input) VIDEO_ENCODER_FRAME_TEMPORAL_ID :: string where "VIDEO_ENCODER_FRAME_TEMPORAL_ID \<equiv> ''video_encoder_frame_temporal_id''"
abbreviation (input) AV_PLAYER_ERR_CODE :: string where "AV_PLAYER_ERR_CODE \<equiv> ''av_player_errCode''"
abbreviation (input) AV_PLAYER_PLAY_DURATION :: string where "AV_PLAYER_PLAY_DURATION \<equiv> ''av_player_play_duration''"
abbreviation (input) AV_PLAYER_SOURCE_TYPE :: string where "AV_PLAYER_SOURCE_TYPE \<equiv> ''av_player_source_type''"
abbreviation (input) AV_PLAYER_AVG_DOWNLOAD_RATE :: string where "AV_PLAYER_AVG_DOWNLOAD_RATE \<equiv> ''av_player_avg_download_rate''"
abbreviation (input) AV_PLAYER_VIDEO_BITRATE :: string where "AV_PLAYER_VIDEO_BITRATE \<equiv> ''av_player_video_bitrate''"
abbreviation (input) AV_PLAYER_AUDIO_BITRATE :: string where "AV_PLAYER_AUDIO_BITRATE \<equiv> ''av_player_audio_bitrate''"
abbreviation (input) AV_PLAYER_START_LATENCY :: string where "AV_PLAYER_START_LATENCY \<equiv> ''av_player_start_latency''"
abbreviation (input) AV_PLAYER_AVG_DOWNLOAD_SPEED :: string where "AV_PLAYER_AVG_DOWNLOAD_SPEED \<equiv> ''av_player_avg_download_speed''"
abbreviation (input) AV_PLAYER_MAX_SEEK_LATENCY :: string where "AV_PLAYER_MAX_SEEK_LATENCY \<equiv> ''av_player_max_seek_latency''"
abbreviation (input) AV_PLAYER_MAX_ACCURATE_SEEK_LATENCY :: string where "AV_PLAYER_MAX_ACCURATE_SEEK_LATENCY \<equiv> ''av_player_max_accurate_seek_latency''"
abbreviation (input) AV_PLAYER_LAG_TIMES :: string where "AV_PLAYER_LAG_TIMES \<equiv> ''av_player_lag_times''"
abbreviation (input) AV_PLAYER_MAX_LAG_DURATION :: string where "AV_PLAYER_MAX_LAG_DURATION \<equiv> ''av_player_max_lag_duration''"
abbreviation (input) AV_PLAYER_AVG_LAG_DURATION :: string where "AV_PLAYER_AVG_LAG_DURATION \<equiv> ''av_player_avg_lag_duration''"
abbreviation (input) AV_PLAYER_MAX_SURFACESWAP_LATENCY :: string where "AV_PLAYER_MAX_SURFACESWAP_LATENCY \<equiv> ''av_player_max_surfaceswap_latency''"
abbreviation (input) VIDEO_COORDINATE_X :: string where "VIDEO_COORDINATE_X \<equiv> ''video_coordinate_x''"
abbreviation (input) VIDEO_COORDINATE_Y :: string where "VIDEO_COORDINATE_Y \<equiv> ''video_coordinate_y''"
abbreviation (input) VIDEO_COORDINATE_W :: string where "VIDEO_COORDINATE_W \<equiv> ''video_coordinate_w''"
abbreviation (input) VIDEO_COORDINATE_H :: string where "VIDEO_COORDINATE_H \<equiv> ''video_coordinate_h''"
abbreviation (input) VIDEO_ENCODER_REPEAT_PREVIOUS_FRAME_AFTER :: string where "VIDEO_ENCODER_REPEAT_PREVIOUS_FRAME_AFTER \<equiv> ''video_encoder_repeat_previous_frame_after''"
abbreviation (input) VIDEO_ENCODER_REPEAT_PREVIOUS_MAX_COUNT :: string where "VIDEO_ENCODER_REPEAT_PREVIOUS_MAX_COUNT \<equiv> ''video_encoder_repeat_previous_max_count''"
abbreviation (input) VIDEO_ENCODER_MAX_FRAME_DELAY_COUNT :: string where "VIDEO_ENCODER_MAX_FRAME_DELAY_COUNT \<equiv> ''video_encoder_max_frame_delay_count''"
abbreviation (input) VIDEO_DECODER_OUTPUT_COLOR_SPACE :: string where "VIDEO_DECODER_OUTPUT_COLOR_SPACE \<equiv> ''video_decoder_output_colorspace''"
abbreviation (input) VIDEO_DECODER_OUTPUT_ENABLE_VRR :: string where "VIDEO_DECODER_OUTPUT_ENABLE_VRR \<equiv> ''video_decoder_output_enable_vrr''"
abbreviation (input) AV_TRANSCODER_ERR_CODE :: string where "AV_TRANSCODER_ERR_CODE \<equiv> ''av_transcoder_errCode''"
abbreviation (input) AV_TRANSCODER_SOURCE_DURATION :: string where "AV_TRANSCODER_SOURCE_DURATION \<equiv> ''av_transcoder_source_duration''"
abbreviation (input) AV_TRANSCODER_TRANSCODER_DURATION :: string where "AV_TRANSCODER_TRANSCODER_DURATION \<equiv> ''av_transcoder_transcoder_duration''"
abbreviation (input) AV_TRANSCODER_SRC_VIDEO_BITRATE :: string where "AV_TRANSCODER_SRC_VIDEO_BITRATE \<equiv> ''av_transcoder_src_video_bitrate''"
abbreviation (input) AV_TRANSCODER_SRC_HDR_TYPE :: string where "AV_TRANSCODER_SRC_HDR_TYPE \<equiv> ''av_transcoder_src_hdr_type''"
abbreviation (input) AV_TRANSCODER_SRC_AUDIO_SAMPLE_RATE :: string where "AV_TRANSCODER_SRC_AUDIO_SAMPLE_RATE \<equiv> ''av_transcoder_src_audio_sample_rate''"
abbreviation (input) AV_TRANSCODER_SRC_AUDIO_CHANNEL_COUNT :: string where "AV_TRANSCODER_SRC_AUDIO_CHANNEL_COUNT \<equiv> ''av_transcoder_src_audio_channel_count''"
abbreviation (input) AV_TRANSCODER_SRC_AUDIO_BITRATE :: string where "AV_TRANSCODER_SRC_AUDIO_BITRATE \<equiv> ''av_transcoder_src_audio_bitrate''"
abbreviation (input) AV_TRANSCODER_DST_VIDEO_BITRATE :: string where "AV_TRANSCODER_DST_VIDEO_BITRATE \<equiv> ''av_transcoder_dst_video_bitrate''"
abbreviation (input) AV_TRANSCODER_DST_HDR_TYPE :: string where "AV_TRANSCODER_DST_HDR_TYPE \<equiv> ''av_transcoder_dst_hdr_type''"
abbreviation (input) AV_TRANSCODER_DST_COLOR_SPACE :: string where "AV_TRANSCODER_DST_COLOR_SPACE \<equiv> ''av_transcoder_dst_color_space''"
abbreviation (input) AV_TRANSCODER_ENABLE_B_FRAME :: string where "AV_TRANSCODER_ENABLE_B_FRAME \<equiv> ''av_transcoder_enable_b_frame_encoding''"
abbreviation (input) AV_TRANSCODER_DST_AUDIO_SAMPLE_RATE :: string where "AV_TRANSCODER_DST_AUDIO_SAMPLE_RATE \<equiv> ''av_transcoder_dst_audio_sample_rate''"
abbreviation (input) AV_TRANSCODER_DST_AUDIO_CHANNEL_COUNT :: string where "AV_TRANSCODER_DST_AUDIO_CHANNEL_COUNT \<equiv> ''av_transcoder_dst_audio_channel_count''"
abbreviation (input) AV_TRANSCODER_DST_AUDIO_BITRATE :: string where "AV_TRANSCODER_DST_AUDIO_BITRATE \<equiv> ''av_transcoder_dst_audio_bitrate''"
abbreviation (input) AV_TRANSCODER_VIDEO_DECODER_DURATION :: string where "AV_TRANSCODER_VIDEO_DECODER_DURATION \<equiv> ''av_transcoder_video_decoder_duration''"
abbreviation (input) AV_TRANSCODER_VIDEO_ENCODER_DURATION :: string where "AV_TRANSCODER_VIDEO_ENCODER_DURATION \<equiv> ''av_transcoder_video_encoder_duration''"
abbreviation (input) AV_TRANSCODER_VIDEO_VPE_DURATION :: string where "AV_TRANSCODER_VIDEO_VPE_DURATION \<equiv> ''av_transcoder_video_vpe_duration''"
abbreviation (input) MEDIA_EDITLIST :: string where "MEDIA_EDITLIST \<equiv> ''use_editlist''"
abbreviation (input) MEDIA_ENABLE_MOOV_FRONT :: string where "MEDIA_ENABLE_MOOV_FRONT \<equiv> ''fast_start''"
abbreviation (input) MEDIA_GLTF_VERSION :: string where "MEDIA_GLTF_VERSION \<equiv> ''gltf_version''"
abbreviation (input) VIDEO_DECODER_INPUT_STREAM_ERROR :: string where "VIDEO_DECODER_INPUT_STREAM_ERROR \<equiv> ''video_decoder_input_stream_error''"
abbreviation (input) ENABLE_BUFFER_SKIP_SAMPLES :: string where "ENABLE_BUFFER_SKIP_SAMPLES \<equiv> ''enable_buffer_skip_samples''"
abbreviation (input) AUDIO_DSD_CODEC_TYPE :: string where "AUDIO_DSD_CODEC_TYPE \<equiv> ''audio_dsd_codec_type''"
abbreviation (input) MIME_TYPE :: string where "MIME_TYPE \<equiv> ''codec_mime''"
abbreviation (input) ORIGINAL_CODEC_NAME :: string where "ORIGINAL_CODEC_NAME \<equiv> ''original_codec_name''"
abbreviation (input) MEDIA_FILE_URI :: string where "MEDIA_FILE_URI \<equiv> ''media.file.uri''"
abbreviation (input) MEDIA_TITLE :: string where "MEDIA_TITLE \<equiv> ''title''"
abbreviation (input) MEDIA_ARTIST :: string where "MEDIA_ARTIST \<equiv> ''artist''"
abbreviation (input) MEDIA_LYRICIST :: string where "MEDIA_LYRICIST \<equiv> ''media.lyricist''"
abbreviation (input) MEDIA_ALBUM :: string where "MEDIA_ALBUM \<equiv> ''album''"
abbreviation (input) MEDIA_ALBUM_ARTIST :: string where "MEDIA_ALBUM_ARTIST \<equiv> ''album_artist''"
abbreviation (input) MEDIA_DATE :: string where "MEDIA_DATE \<equiv> ''date''"
abbreviation (input) MEDIA_COMMENT :: string where "MEDIA_COMMENT \<equiv> ''comment''"
abbreviation (input) MEDIA_GENRE :: string where "MEDIA_GENRE \<equiv> ''genre''"
abbreviation (input) MEDIA_COPYRIGHT :: string where "MEDIA_COPYRIGHT \<equiv> ''copyright''"
abbreviation (input) MEDIA_LANGUAGE :: string where "MEDIA_LANGUAGE \<equiv> ''language''"
abbreviation (input) MEDIA_DESCRIPTION :: string where "MEDIA_DESCRIPTION \<equiv> ''description''"
abbreviation (input) USER_TIME_SYNC_RESULT :: string where "USER_TIME_SYNC_RESULT \<equiv> ''user.time.sync.result''"
abbreviation (input) USER_AV_SYNC_GROUP_INFO :: string where "USER_AV_SYNC_GROUP_INFO \<equiv> ''user.av.sync.group.info''"
abbreviation (input) USER_SHARED_MEMORY_FD :: string where "USER_SHARED_MEMORY_FD \<equiv> ''user.shared.memory.fd''"
abbreviation (input) MEDIA_AUTHOR :: string where "MEDIA_AUTHOR \<equiv> ''author''"
abbreviation (input) MEDIA_COMPOSER :: string where "MEDIA_COMPOSER \<equiv> ''composer''"
abbreviation (input) MEDIA_LYRICS :: string where "MEDIA_LYRICS \<equiv> ''lyrics''"
abbreviation (input) MEDIA_CODEC_NAME :: string where "MEDIA_CODEC_NAME \<equiv> ''codec_name''"
abbreviation (input) PROCESS_NAME :: string where "PROCESS_NAME \<equiv> ''process_name''"
abbreviation (input) MEDIA_CREATION_TIME :: string where "MEDIA_CREATION_TIME \<equiv> ''creation_time''"
abbreviation (input) AV_CODEC_CALLER_PROCESS_NAME :: string where "AV_CODEC_CALLER_PROCESS_NAME \<equiv> ''av_codec_caller_process_name''"
abbreviation (input) AV_CODEC_FORWARD_CALLER_PROCESS_NAME :: string where "AV_CODEC_FORWARD_CALLER_PROCESS_NAME \<equiv> ''av_codec_forward_caller_process_name''"
abbreviation (input) SCREEN_CAPTURE_ERR_MSG :: string where "SCREEN_CAPTURE_ERR_MSG \<equiv> ''errMsg''"
abbreviation (input) SCREEN_CAPTURE_VIDEO_RESOLUTION :: string where "SCREEN_CAPTURE_VIDEO_RESOLUTION \<equiv> ''videoResolution''"
abbreviation (input) DRM_APP_NAME :: string where "DRM_APP_NAME \<equiv> ''APP_NAME''"
abbreviation (input) DRM_INSTANCE_ID :: string where "DRM_INSTANCE_ID \<equiv> ''INSTANCE_ID''"
abbreviation (input) DRM_ERROR_MESG :: string where "DRM_ERROR_MESG \<equiv> ''ERROR_MESG''"
abbreviation (input) TIMED_METADATA_SRC_TRACK_MIME :: string where "TIMED_METADATA_SRC_TRACK_MIME \<equiv> ''timed_metadata_src_track_mime''"
abbreviation (input) TIMED_METADATA_KEY :: string where "TIMED_METADATA_KEY \<equiv> ''timed_metadata_key''"
abbreviation (input) TIMED_METADATA_LOCALE :: string where "TIMED_METADATA_LOCALE \<equiv> ''locale_timed_metadata''"
abbreviation (input) TIMED_METADATA_SETUP :: string where "TIMED_METADATA_SETUP \<equiv> ''setup_of_timed_metadata''"
abbreviation (input) RECORDER_ERR_MSG :: string where "RECORDER_ERR_MSG \<equiv> ''errMsg''"
abbreviation (input) RECORDER_CONTAINER_MIME :: string where "RECORDER_CONTAINER_MIME \<equiv> ''containerMime''"
abbreviation (input) RECORDER_VIDEO_MIME :: string where "RECORDER_VIDEO_MIME \<equiv> ''videoMime''"
abbreviation (input) RECORDER_VIDEO_RESOLUTION :: string where "RECORDER_VIDEO_RESOLUTION \<equiv> ''videoResolution''"
abbreviation (input) RECORDER_AUDIO_MIME :: string where "RECORDER_AUDIO_MIME \<equiv> ''audioMime''"
abbreviation (input) AV_PLAYER_ERR_MSG :: string where "AV_PLAYER_ERR_MSG \<equiv> ''av_player_errMsg''"
abbreviation (input) AV_PLAYER_CONTAINER_MIME :: string where "AV_PLAYER_CONTAINER_MIME \<equiv> ''av_player_container_mime''"
abbreviation (input) AV_PLAYER_VIDEO_MIME :: string where "AV_PLAYER_VIDEO_MIME \<equiv> ''av_player_video_mime''"
abbreviation (input) AV_PLAYER_VIDEO_RESOLUTION :: string where "AV_PLAYER_VIDEO_RESOLUTION \<equiv> ''av_player_video_resolution''"
abbreviation (input) AV_PLAYER_AUDIO_MIME :: string where "AV_PLAYER_AUDIO_MIME \<equiv> ''av_player_audio_mime''"
abbreviation (input) AV_TRANSCODER_ERR_MSG :: string where "AV_TRANSCODER_ERR_MSG \<equiv> ''av_transcoder_errMsg''"
abbreviation (input) AV_TRANSCODER_SRC_FORMAT :: string where "AV_TRANSCODER_SRC_FORMAT \<equiv> ''av_transcoder_src_format''"
abbreviation (input) AV_TRANSCODER_SRC_AUDIO_MIME :: string where "AV_TRANSCODER_SRC_AUDIO_MIME \<equiv> ''av_transcoder_src_audio_mime''"
abbreviation (input) AV_TRANSCODER_SRC_VIDEO_MIME :: string where "AV_TRANSCODER_SRC_VIDEO_MIME \<equiv> ''av_transcoder_src_video_mime''"
abbreviation (input) AV_TRANSCODER_DST_FORMAT :: string where "AV_TRANSCODER_DST_FORMAT \<equiv> ''av_transcoder_dst_format''"
abbreviation (input) AV_TRANSCODER_DST_AUDIO_MIME :: string where "AV_TRANSCODER_DST_AUDIO_MIME \<equiv> ''av_transcoder_dst_audio_mime''"
abbreviation (input) AV_TRANSCODER_DST_VIDEO_MIME :: string where "AV_TRANSCODER_DST_VIDEO_MIME \<equiv> ''av_transcoder_dst_video_mime''"
abbreviation (input) VIDEO_ENCODER_ROI_PARAMS :: string where "VIDEO_ENCODER_ROI_PARAMS \<equiv> ''video_encoder_roi_params''"
abbreviation (input) TRACK_REFERENCE_TYPE :: string where "TRACK_REFERENCE_TYPE \<equiv> ''track_reference_type''"
abbreviation (input) TRACK_DESCRIPTION :: string where "TRACK_DESCRIPTION \<equiv> ''track_description''"
abbreviation (input) TRACK_REF_TYPE :: string where "TRACK_REF_TYPE \<equiv> ''track_ref_type''"
abbreviation (input) REF_TRACK_IDS :: string where "REF_TRACK_IDS \<equiv> ''ref_track_ids''"
abbreviation (input) MEDIA_GLTF_ITEM_NAME :: string where "MEDIA_GLTF_ITEM_NAME \<equiv> ''gltf_item_name''"
abbreviation (input) MEDIA_GLTF_CONTENT_TYPE :: string where "MEDIA_GLTF_CONTENT_TYPE \<equiv> ''gltf_content_type''"
abbreviation (input) MEDIA_GLTF_CONTENT_ENCODING :: string where "MEDIA_GLTF_CONTENT_ENCODING \<equiv> ''gltf_content_encoding''"
abbreviation (input) MEDIA_GLTF_ITEM_TYPE :: string where "MEDIA_GLTF_ITEM_TYPE \<equiv> ''gltf_item_type''"
abbreviation (input) VIDEO_SET_DMABUF_NAME_SUFFIX :: string where "VIDEO_SET_DMABUF_NAME_SUFFIX \<equiv> ''video_set_dmabuf_name_suffix''"
abbreviation (input) MEDIA_LATITUDE :: string where "MEDIA_LATITUDE \<equiv> ''latitude''"
abbreviation (input) MEDIA_LONGITUDE :: string where "MEDIA_LONGITUDE \<equiv> ''longitude''"
abbreviation (input) MEDIA_ALTITUDE :: string where "MEDIA_ALTITUDE \<equiv> ''altitude''"
abbreviation (input) AV_PLAYER_VIDEO_FRAMERATE :: string where "AV_PLAYER_VIDEO_FRAMERATE \<equiv> ''av_player_video_framerate''"
abbreviation (input) VIDEO_CAPTURE_RATE :: string where "VIDEO_CAPTURE_RATE \<equiv> ''capture_rate''"
abbreviation (input) VIDEO_FRAME_RATE :: string where "VIDEO_FRAME_RATE \<equiv> ''frame_rate''"
abbreviation (input) VIDEO_SAR :: string where "VIDEO_SAR \<equiv> ''video_sar''"
abbreviation (input) VIDEO_ENCODER_MSE :: string where "VIDEO_ENCODER_MSE \<equiv> ''video_encoder_mse''"
abbreviation (input) AV_TRANSCODER_SRC_VIDEO_FRAME_RATE :: string where "AV_TRANSCODER_SRC_VIDEO_FRAME_RATE \<equiv> ''av_transcoder_src_video_frame_rate''"
abbreviation (input) AV_TRANSCODER_DST_VIDEO_FRAME_RATE :: string where "AV_TRANSCODER_DST_VIDEO_FRAME_RATE \<equiv> ''av_transcoder_dst_video_frame_rate''"
abbreviation (input) VIDEO_COLOR_RANGE :: string where "VIDEO_COLOR_RANGE \<equiv> ''range_flag''"
abbreviation (input) VIDEO_REQUEST_I_FRAME :: string where "VIDEO_REQUEST_I_FRAME \<equiv> ''req_i_frame''"
abbreviation (input) VIDEO_IS_HDR_VIVID :: string where "VIDEO_IS_HDR_VIVID \<equiv> ''video_is_hdr_vivid''"
abbreviation (input) MEDIA_HAS_VIDEO :: string where "MEDIA_HAS_VIDEO \<equiv> ''has_video''"
abbreviation (input) MEDIA_HAS_AUDIO :: string where "MEDIA_HAS_AUDIO \<equiv> ''has_audio''"
abbreviation (input) MEDIA_HAS_SUBTITLE :: string where "MEDIA_HAS_SUBTITLE \<equiv> ''has_subtitle''"
abbreviation (input) MEDIA_HAS_TIMEDMETA :: string where "MEDIA_HAS_TIMEDMETA \<equiv> ''has_timed_meta''"
abbreviation (input) MEDIA_HAS_AUXILIARY :: string where "MEDIA_HAS_AUXILIARY \<equiv> ''has_auxiliary''"
abbreviation (input) MEDIA_END_OF_STREAM :: string where "MEDIA_END_OF_STREAM \<equiv> ''endOfStream''"
abbreviation (input) MEDIA_IS_HARDWARE :: string where "MEDIA_IS_HARDWARE \<equiv> ''is_hardware''"
abbreviation (input) VIDEO_FRAME_RATE_ADAPTIVE_MODE :: string where "VIDEO_FRAME_RATE_ADAPTIVE_MODE \<equiv> ''frame_rate_adaptive_mode''"
abbreviation (input) VIDEO_ENCODER_ENABLE_TEMPORAL_SCALABILITY :: string where "VIDEO_ENCODER_ENABLE_TEMPORAL_SCALABILITY \<equiv> ''video_encoder_enable_temporal_scalability''"
abbreviation (input) AV_CODEC_ENABLE_SYNC_MODE :: string where "AV_CODEC_ENABLE_SYNC_MODE \<equiv> ''enable_sync_mode''"
abbreviation (input) VIDEO_ENCODER_PER_FRAME_MARK_LTR :: string where "VIDEO_ENCODER_PER_FRAME_MARK_LTR \<equiv> ''video_encoder_per_frame_mark_ltr''"
abbreviation (input) VIDEO_PER_FRAME_IS_LTR :: string where "VIDEO_PER_FRAME_IS_LTR \<equiv> ''video_per_frame_is_ltr''"
abbreviation (input) VIDEO_PER_FRAME_IS_SKIP :: string where "VIDEO_PER_FRAME_IS_SKIP \<equiv> ''video_per_frame_is_skip''"
abbreviation (input) VIDEO_ENABLE_LOW_LATENCY :: string where "VIDEO_ENABLE_LOW_LATENCY \<equiv> ''video_enable_low_latency''"
abbreviation (input) VIDEO_ENCODER_ENABLE_SURFACE_INPUT_CALLBACK :: string where "VIDEO_ENCODER_ENABLE_SURFACE_INPUT_CALLBACK \<equiv> ''video_encoder_enable_surface_input_callback''"
abbreviation (input) VIDEO_ENCODER_ENABLE_PARAMS_FEEDBACK :: string where "VIDEO_ENCODER_ENABLE_PARAMS_FEEDBACK \<equiv> ''video_encoder_enable_params_feedback''"
abbreviation (input) VIDEO_BUFFER_CAN_DROP :: string where "VIDEO_BUFFER_CAN_DROP \<equiv> ''video_buffer_can_drop''"
abbreviation (input) AUDIO_RENDER_SET_FLAG :: string where "AUDIO_RENDER_SET_FLAG \<equiv> ''regular.audio.render.set.flag''"
abbreviation (input) SCREEN_CAPTURE_USER_AGREE :: string where "SCREEN_CAPTURE_USER_AGREE \<equiv> ''userAgree''"
abbreviation (input) SCREEN_CAPTURE_REQURE_MIC :: string where "SCREEN_CAPTURE_REQURE_MIC \<equiv> ''requireMic''"
abbreviation (input) SCREEN_CAPTURE_ENABLE_MIC :: string where "SCREEN_CAPTURE_ENABLE_MIC \<equiv> ''enableMic''"
abbreviation (input) AV_PLAYER_IS_DRM_PROTECTED :: string where "AV_PLAYER_IS_DRM_PROTECTED \<equiv> ''av_player_is_drm_protected''"
abbreviation (input) AV_PLAYER_DOWNLOAD_TIME_OUT :: string where "AV_PLAYER_DOWNLOAD_TIME_OUT \<equiv> ''av_player_download_time_out''"
abbreviation (input) VIDEO_ENCODER_PER_FRAME_DISCARD :: string where "VIDEO_ENCODER_PER_FRAME_DISCARD \<equiv> ''video_encoder_per_frame_discard''"
abbreviation (input) VIDEO_ENCODER_ENABLE_WATERMARK :: string where "VIDEO_ENCODER_ENABLE_WATERMARK \<equiv> ''video_encoder_enable_watermark''"
abbreviation (input) VIDEO_ENCODER_ENABLE_QP_MAP :: string where "VIDEO_ENCODER_ENABLE_QP_MAP \<equiv> ''video_encoder_enable_qp_map''"
abbreviation (input) VIDEO_ENCODER_PER_FRAME_ABS_QP_MAP :: string where "VIDEO_ENCODER_PER_FRAME_ABS_QP_MAP \<equiv> ''video_encoder_frame_abs_block_qp''"
abbreviation (input) VIDEO_ENCODER_ENABLE_PTS_BASED_RATECONTROL :: string where "VIDEO_ENCODER_ENABLE_PTS_BASED_RATECONTROL \<equiv> ''video_encoder_enable_pts_based_ratecontrol''"
abbreviation (input) VIDEO_DECODER_BLANK_FRAME_ON_SHUTDOWN :: string where "VIDEO_DECODER_BLANK_FRAME_ON_SHUTDOWN \<equiv> ''video_decoder_blank_frame_on_shutdown''"
abbreviation (input) VIDEO_DECODER_OUTPUT_IN_DECODING_ORDER :: string where "VIDEO_DECODER_OUTPUT_IN_DECODING_ORDER \<equiv> ''video_decoder_output_in_decoding_order''"
abbreviation (input) VIDEO_ENCODER_REPEAT_HEADER_BEFORE_SYNC_FRAMES :: string where "VIDEO_ENCODER_REPEAT_HEADER_BEFORE_SYNC_FRAMES \<equiv> ''video_encoder_repeat_header_before_sync_frames''"
abbreviation (input) VIDEO_ENABLE_LOCAL_RELEASE :: string where "VIDEO_ENABLE_LOCAL_RELEASE \<equiv> ''video_enable_local_release''"
abbreviation (input) IS_GLTF :: string where "IS_GLTF \<equiv> ''is_gltf''"
abbreviation (input) AUDIO_ENCODER_ENABLE_SAMPLE_FORMAT_CONVERT :: string where "AUDIO_ENCODER_ENABLE_SAMPLE_FORMAT_CONVERT \<equiv> ''audio_encoder_enable_sample_format_convert''"
abbreviation (input) MEDIA_FILE_SIZE :: string where "MEDIA_FILE_SIZE \<equiv> ''media.file.size''"
abbreviation (input) MEDIA_POSITION :: string where "MEDIA_POSITION \<equiv> ''media.position''"
abbreviation (input) AV_PLAYER_DOWNLOAD_TOTAL_BITS :: string where "AV_PLAYER_DOWNLOAD_TOTAL_BITS \<equiv> ''av_player_total_download_bits''"
abbreviation (input) APP_FULL_TOKEN_ID :: string where "APP_FULL_TOKEN_ID \<equiv> ''regular.app.full.token.id''"
abbreviation (input) MEDIA_DURATION :: string where "MEDIA_DURATION \<equiv> ''duration''"
abbreviation (input) MEDIA_BITRATE :: string where "MEDIA_BITRATE \<equiv> ''bitrate''"
abbreviation (input) MEDIA_START_TIME :: string where "MEDIA_START_TIME \<equiv> ''track_start_time''"
abbreviation (input) USER_FRAME_PTS :: string where "USER_FRAME_PTS \<equiv> ''user.frame.pts''"
abbreviation (input) USER_PUSH_DATA_TIME :: string where "USER_PUSH_DATA_TIME \<equiv> ''user.push.data.time''"
abbreviation (input) MEDIA_TIME_STAMP :: string where "MEDIA_TIME_STAMP \<equiv> ''timeStamp''"
abbreviation (input) MEDIA_CONTAINER_START_TIME :: string where "MEDIA_CONTAINER_START_TIME \<equiv> ''start_time''"
abbreviation (input) BUFFER_DECODING_TIMESTAMP :: string where "BUFFER_DECODING_TIMESTAMP \<equiv> ''decoding_timestamp''"
abbreviation (input) BUFFER_DURATION :: string where "BUFFER_DURATION \<equiv> ''buffer_duration''"
abbreviation (input) VIDEO_DECODER_DESIRED_PRESENT_TIMESTAMP :: string where "VIDEO_DECODER_DESIRED_PRESENT_TIMESTAMP \<equiv> ''video_decoder_desired_present_timestamp''"
abbreviation (input) VIDEO_ENCODE_SET_FRAME_PTS :: string where "VIDEO_ENCODE_SET_FRAME_PTS \<equiv> ''video_encode_set_frame_pts''"
abbreviation (input) GLTF_OFFSET :: string where "GLTF_OFFSET \<equiv> ''gltf_offset''"
abbreviation (input) AUDIO_SOUNDBED_BITRATE :: string where "AUDIO_SOUNDBED_BITRATE \<equiv> ''audio_soundbed_bitrate''"
abbreviation (input) AUDIO_OBJECT_BITRATE :: string where "AUDIO_OBJECT_BITRATE \<equiv> ''audio_object_bitrate''"
abbreviation (input) AUDIO_CHANNEL_LAYOUT :: string where "AUDIO_CHANNEL_LAYOUT \<equiv> ''channel_layout''"
abbreviation (input) AUDIO_OUTPUT_CHANNEL_LAYOUT :: string where "AUDIO_OUTPUT_CHANNEL_LAYOUT \<equiv> ''audio.output.channel.layout''"
abbreviation (input) AUDIO_SOUNDBED_LAYOUT :: string where "AUDIO_SOUNDBED_LAYOUT \<equiv> ''audio_soundbed_layout''"
abbreviation (input) AUDIO_AAC_PROFILE :: string where "AUDIO_AAC_PROFILE \<equiv> ''audio.aac.profile''"
abbreviation (input) AUDIO_AAC_STREAM_FORMAT :: string where "AUDIO_AAC_STREAM_FORMAT \<equiv> ''audio.aac.stream.format''"
abbreviation (input) MEDIA_CODEC_CONFIG :: string where "MEDIA_CODEC_CONFIG \<equiv> ''codec_config''"
abbreviation (input) AUDIO_VIVID_METADATA :: string where "AUDIO_VIVID_METADATA \<equiv> ''audio.vivid.metadata''"
abbreviation (input) MEDIA_COVER :: string where "MEDIA_COVER \<equiv> ''cover''"
abbreviation (input) AUDIO_VORBIS_IDENTIFICATION_HEADER :: string where "AUDIO_VORBIS_IDENTIFICATION_HEADER \<equiv> ''identification_header''"
abbreviation (input) AUDIO_VORBIS_SETUP_HEADER :: string where "AUDIO_VORBIS_SETUP_HEADER \<equiv> ''setup_header''"
abbreviation (input) OH_MD_KEY_AUDIO_VIVID_METADATA :: string where "OH_MD_KEY_AUDIO_VIVID_METADATA \<equiv> ''audio_vivid_metadata_key''"
abbreviation (input) BUFFER_SKIP_SAMPLES_INFO :: string where "BUFFER_SKIP_SAMPLES_INFO \<equiv> ''buffer_skip_samples_info''"
abbreviation (input) VIDEO_BIT_STREAM_FORMAT :: string where "VIDEO_BIT_STREAM_FORMAT \<equiv> ''video.bit.stream.format''"
abbreviation (input) DRM_CENC_INFO :: string where "DRM_CENC_INFO \<equiv> ''drm_cenc_info''"
abbreviation (input) MEDIA_AVAILABLE_BITRATES :: string where "MEDIA_AVAILABLE_BITRATES \<equiv> ''available_bitRates''"
abbreviation (input) VIDEO_ENCODER_PER_FRAME_QP_MAP :: string where "VIDEO_ENCODER_PER_FRAME_QP_MAP \<equiv> ''video_encoder_frame_block_qp''"
abbreviation (input) MEDIA_GLTF_DATA :: string where "MEDIA_GLTF_DATA \<equiv> ''gltf_data''"
abbreviation (input) VIDEO_STATIC_METADATA_SMPT2086 :: string where "VIDEO_STATIC_METADATA_SMPT2086 \<equiv> ''video_static_metadata_smpt2086''"
abbreviation (input) VIDEO_STATIC_METADATA_CTA861 :: string where "VIDEO_STATIC_METADATA_CTA861 \<equiv> ''video_static_metadata_cta861''"
abbreviation (input) DRM_DECRYPT_AVG_SIZE :: string where "DRM_DECRYPT_AVG_SIZE \<equiv> ''DECRYPT_AVG_SIZE''"
abbreviation (input) DRM_DECRYPT_AVG_DURATION :: string where "DRM_DECRYPT_AVG_DURATION \<equiv> ''DECRYPT_AVG_DURATION''"
abbreviation (input) DRM_DECRYPT_MAX_SIZE :: string where "DRM_DECRYPT_MAX_SIZE \<equiv> ''DECRYPT_MAX_SIZE''"
abbreviation (input) DRM_DECRYPT_MAX_DURATION :: string where "DRM_DECRYPT_MAX_DURATION \<equiv> ''DECRYPT_MAX_DURATION''"
abbreviation (input) DRM_DECRYPT_TIMES :: string where "DRM_DECRYPT_TIMES \<equiv> ''DECRYPT_TIMES''"
abbreviation (input) AV_PLAYER_BUFFER_DURATION :: string where "AV_PLAYER_BUFFER_DURATION \<equiv> ''av_player_buffer_duration''"
abbreviation (input) AV_PLAYER_VIDEO_BITDEPTH :: string where "AV_PLAYER_VIDEO_BITDEPTH \<equiv> ''av_player_video_bitdepth''"
abbreviation (input) AV_PLAYER_HDR_TYPE :: string where "AV_PLAYER_HDR_TYPE \<equiv> ''av_player_hdr_type''"
abbreviation (input) REFERENCE_TRACK_IDS :: string where "REFERENCE_TRACK_IDS \<equiv> ''reference_track_ids''"
abbreviation (input) MEDIA_AIGC :: string where "MEDIA_AIGC \<equiv> ''aigc''"
abbreviation (input) AUDIO_BLOCK_ALIGN :: string where "AUDIO_BLOCK_ALIGN \<equiv> ''audio_block_align''"
abbreviation (input) AUDIO_VIVID_SIGNAL_FORMAT :: string where "AUDIO_VIVID_SIGNAL_FORMAT \<equiv> ''audio_vivid_signal_format''"
abbreviation (input) STALLING_TIMESTAMP :: string where "STALLING_TIMESTAMP \<equiv> ''regular.stalling.timestamp''"
abbreviation (input) MEDIA_DEMUXER_MODE :: string where "MEDIA_DEMUXER_MODE \<equiv> ''demuxer_mode''"
abbreviation (input) VIDEO_HDR_METADATA :: string where "VIDEO_HDR_METADATA \<equiv> ''video_hdr_metadata''"
abbreviation (input) AUDIO_BITRATE_MODE :: string where "AUDIO_BITRATE_MODE \<equiv> ''audio_bitrate_mode''"
abbreviation (input) AUDIO_ENCODE_PTS_MODE :: string where "AUDIO_ENCODE_PTS_MODE \<equiv> ''audio_encode_pts_mode''"
abbreviation (input) AUDIO_MAX_INPUT_BUFFER_SIZE :: string where "AUDIO_MAX_INPUT_BUFFER_SIZE \<equiv> ''audio_max_input_buffer_size''"
abbreviation (input) VIDEO_TYPE :: string where "VIDEO_TYPE \<equiv> ''video_type''"
abbreviation (input) VIDEO_ENCODER_SQR_FACTOR :: string where "VIDEO_ENCODER_SQR_FACTOR \<equiv> ''sqr_factor''"
abbreviation (input) BUFFER_INDEX :: string where "BUFFER_INDEX \<equiv> ''private_buffer_index''"
abbreviation (input) AUDIO_L2HC_VERSION :: string where "AUDIO_L2HC_VERSION \<equiv> ''audio_l2hc_version''"
abbreviation (input) VIDEO_RAWVIDEO_INPUT_PIXEL_FORMAT :: string where "VIDEO_RAWVIDEO_INPUT_PIXEL_FORMAT \<equiv> ''rawvideo_input_pix_fmt''"
abbreviation (input) AV_TRANSCODER_DEST_HDR_MODE :: string where "AV_TRANSCODER_DEST_HDR_MODE \<equiv> ''av_transcoder_dest_hdr_mode''"
abbreviation (input) VIDEOCALL_LOWPOWER_MODE :: string where "VIDEOCALL_LOWPOWER_MODE \<equiv> ''videocall.lowpower.mode''"

section \<open>Default values\<close>

abbreviation (input) defaultString :: any where "defaultString \<equiv> A_string ''''"
abbreviation (input) defaultInt8 :: any where "defaultInt8 \<equiv> A_int8 0"
abbreviation (input) defaultUInt8 :: any where "defaultUInt8 \<equiv> A_uint8 0"
abbreviation (input) defaultInt32 :: any where "defaultInt32 \<equiv> A_int32 0"
abbreviation (input) defaultUInt32 :: any where "defaultUInt32 \<equiv> A_uint32 0"
abbreviation (input) defaultInt64 :: any where "defaultInt64 \<equiv> A_int64 0"
abbreviation (input) defaultUInt64 :: any where "defaultUInt64 \<equiv> A_uint64 0"
abbreviation (input) defaultFloat :: any where "defaultFloat \<equiv> A_float 0"
abbreviation (input) defaultDouble :: any where "defaultDouble \<equiv> A_double 0"
abbreviation (input) defaultBool :: any where "defaultBool \<equiv> A_bool False"
abbreviation (input) defaultVectorUInt8 :: any where "defaultVectorUInt8 \<equiv> A_vector_uint8 []"
abbreviation (input) defaultVectorUInt32 :: any where "defaultVectorUInt32 \<equiv> A_vector_uint32 []"
abbreviation (input) defaultVectorInt32 :: any where "defaultVectorInt32 \<equiv> A_vector_int32 []"
abbreviation (input) defaultVectorInt64 :: any where "defaultVectorInt64 \<equiv> A_vector_int64 []"
abbreviation (input) defaultVectorVideoBitStreamFormat :: any where "defaultVectorVideoBitStreamFormat \<equiv> A_vector_VideoBitStreamFormat []"
abbreviation (input) defaultSrcInputType :: any where "defaultSrcInputType \<equiv> A_enum E_SrcInputType 0"
abbreviation (input) defaultAudioSampleFormat :: any where "defaultAudioSampleFormat \<equiv> A_enum E_AudioSampleFormat (-1)"
abbreviation (input) defaultVideoPixelFormat :: any where "defaultVideoPixelFormat \<equiv> A_enum E_VideoPixelFormat (-1)"
abbreviation (input) defaultMediaType :: any where "defaultMediaType \<equiv> A_enum E_MediaType (-1)"
abbreviation (input) defaultVideoH264Profile :: any where "defaultVideoH264Profile \<equiv> A_enum E_VideoH264Profile 0"
abbreviation (input) defaultVideoRotation :: any where "defaultVideoRotation \<equiv> A_enum E_VideoRotation 0"
abbreviation (input) defaultVideoOrientationType :: any where "defaultVideoOrientationType \<equiv> A_enum E_VideoOrientationType 0"
abbreviation (input) defaultColorPrimary :: any where "defaultColorPrimary \<equiv> A_enum E_ColorPrimary 9"
abbreviation (input) defaultHdrType :: any where "defaultHdrType \<equiv> A_enum E_HDRType 0"
abbreviation (input) defaultTransferCharacteristic :: any where "defaultTransferCharacteristic \<equiv> A_enum E_TransferCharacteristic 12"
abbreviation (input) defaultMatrixCoefficient :: any where "defaultMatrixCoefficient \<equiv> A_enum E_MatrixCoefficient 10"
abbreviation (input) defaultHEVCProfile :: any where "defaultHEVCProfile \<equiv> A_enum E_HEVCProfile (-1)"
abbreviation (input) defaultHEVCLevel :: any where "defaultHEVCLevel \<equiv> A_enum E_HEVCLevel (-1)"
abbreviation (input) defaultChromaLocation :: any where "defaultChromaLocation \<equiv> A_enum E_ChromaLocation 6"
abbreviation (input) defaultFileType :: any where "defaultFileType \<equiv> A_enum E_FileType 0"
abbreviation (input) defaultVideoEncodeBitrateMode :: any where "defaultVideoEncodeBitrateMode \<equiv> A_enum E_VideoEncodeBitrateMode 0"
abbreviation (input) defaultVideoEncodeBFrameGopMode :: any where "defaultVideoEncodeBFrameGopMode \<equiv> A_enum E_VideoEncodeBFrameGopMode 1"
abbreviation (input) defaultTemporalGopReferenceMode :: any where "defaultTemporalGopReferenceMode \<equiv> A_enum E_TemporalGopReferenceMode 0"
abbreviation (input) defaultAudioChannelLayout :: any where "defaultAudioChannelLayout \<equiv> A_enum E_AudioChannelLayout 0"
abbreviation (input) defaultAudioAacProfile :: any where "defaultAudioAacProfile \<equiv> A_enum E_AudioAacProfile 39"
abbreviation (input) defaultAudioAacStreamFormat :: any where "defaultAudioAacStreamFormat \<equiv> A_enum E_AudioAacStreamFormat 4"
abbreviation (input) defaultGraphicPixelFormat :: "int \<Rightarrow> any" where "defaultGraphicPixelFormat fmt \<equiv> A_enum E_GraphicPixelFormat fmt"
abbreviation (input) defaultVideoCodecScenario :: any where "defaultVideoCodecScenario \<equiv> A_enum E_VideoCodecScenario 0"
abbreviation (input) defaultDemuxerMode :: any where "defaultDemuxerMode \<equiv> A_enum E_DemuxerMode 0"

text \<open>Enumerations and bytes.\<close>

definition defaultValues_enum :: "int \<Rightarrow> (string \<times> any) list" where
  "defaultValues_enum fmt = [
    (SRC_INPUT_TYPE, defaultSrcInputType), (AUDIO_SAMPLE_FORMAT, defaultAudioSampleFormat), (AUDIO_RAW_SAMPLE_FORMAT, defaultAudioSampleFormat),
    (VIDEO_PIXEL_FORMAT, defaultVideoPixelFormat), (MEDIA_TYPE, defaultMediaType), (VIDEO_H264_PROFILE, defaultVideoH264Profile),
    (VIDEO_ROTATION, defaultVideoRotation), (VIDEO_ORIENTATION_TYPE, defaultVideoOrientationType), (VIDEO_COLOR_PRIMARIES, defaultColorPrimary),
    (VIDEO_HDR_TYPE, defaultHdrType), (VIDEO_COLOR_TRC, defaultTransferCharacteristic), (VIDEO_COLOR_MATRIX_COEFF, defaultMatrixCoefficient),
    (VIDEO_H265_PROFILE, defaultHEVCProfile), (VIDEO_H265_LEVEL, defaultHEVCLevel), (VIDEO_CHROMA_LOCATION, defaultChromaLocation),
    (MEDIA_FILE_TYPE, defaultFileType), (VIDEO_ENCODE_BITRATE_MODE, defaultVideoEncodeBitrateMode),
    (VIDEO_ENCODE_B_FRAME_GOP_MODE, defaultVideoEncodeBFrameGopMode), (VIDEO_ENCODER_TEMPORAL_GOP_REFERENCE_MODE, defaultTemporalGopReferenceMode),
    (VIDEO_GRAPHIC_PIXEL_FORMAT, defaultGraphicPixelFormat fmt), (VIDEO_CODEC_SCENARIO, defaultVideoCodecScenario), (RECORDER_HDR_TYPE, defaultInt8),
    (SCREEN_CAPTURE_AV_TYPE, defaultUInt8), (SCREEN_CAPTURE_DATA_TYPE, defaultUInt8), (SCREEN_CAPTURE_STOP_REASON, defaultUInt8)]"


text \<open>32-bit integers.\<close>

definition defaultValues_int32_1 :: "(string \<times> any) list" where
  "defaultValues_int32_1 = [
    (APP_UID, defaultInt32), (APP_PID, defaultInt32), (APP_TOKEN_ID, defaultInt32), (REQUIRED_IN_BUFFER_CNT, defaultInt32),
    (REQUIRED_IN_BUFFER_SIZE, defaultInt32), (REQUIRED_OUT_BUFFER_CNT, defaultInt32), (REQUIRED_OUT_BUFFER_SIZE, defaultInt32),
    (BUFFERING_SIZE, defaultInt32), (WATERLINE_HIGH, defaultInt32), (WATERLINE_LOW, defaultInt32), (AUDIO_CHANNEL_COUNT, defaultInt32),
    (AUDIO_SAMPLE_RATE, defaultInt32), (AUDIO_SAMPLE_PER_FRAME, defaultInt32), (AUDIO_OUTPUT_CHANNELS, defaultInt32),
    (AUDIO_MPEG_VERSION, defaultInt32), (AUDIO_MPEG_LAYER, defaultInt32), (AUDIO_AAC_LEVEL, defaultInt32), (AUDIO_OBJECT_NUMBER, defaultInt32),
    (AUDIO_SOUNDBED_CHANNELS_NUMBER, defaultInt32), (AUDIO_HOA_ORDER, defaultInt32), (AUDIO_MAX_INPUT_SIZE, defaultInt32),
    (AUDIO_MAX_OUTPUT_SIZE, defaultInt32), (VIDEO_WIDTH, defaultInt32), (VIDEO_HEIGHT, defaultInt32), (VIDEO_DELAY, defaultInt32),
    (VIDEO_MAX_SURFACE_NUM, defaultInt32), (VIDEO_H264_LEVEL, defaultInt32), (MEDIA_TRACK_COUNT, defaultInt32), (AUDIO_AAC_IS_ADTS, defaultInt32),
    (AUDIO_COMPRESSION_LEVEL, defaultInt32), (AUDIO_BITS_PER_CODED_SAMPLE, defaultInt32), (AUDIO_BITS_PER_RAW_SAMPLE, defaultInt32),
    (REGULAR_TRACK_ID, defaultInt32), (VIDEO_SCALE_TYPE, defaultInt32)]"

definition defaultValues_int32_2 :: "(string \<times> any) list" where
  "defaultValues_int32_2 = [
    (VIDEO_I_FRAME_INTERVAL, defaultInt32), (MEDIA_PROFILE, defaultInt32), (VIDEO_ENCODE_QUALITY, defaultInt32), (AUDIO_AAC_SBR, defaultInt32),
    (AUDIO_FLAC_COMPLIANCE_LEVEL, defaultInt32), (MEDIA_LEVEL, defaultInt32), (VIDEO_STRIDE, defaultInt32),
    (VIDEO_ENCODER_NUMBER_OF_PENDING_FRAMES, defaultInt32), (VIDEO_DISPLAY_WIDTH, defaultInt32), (VIDEO_DISPLAY_HEIGHT, defaultInt32),
    (VIDEO_PIC_WIDTH, defaultInt32), (VIDEO_PIC_HEIGHT, defaultInt32), (VIDEO_ENCODER_TEMPORAL_GOP_SIZE, defaultInt32),
    (VIDEO_ENCODER_LTR_FRAME_COUNT, defaultInt32), (VIDEO_PER_FRAME_POC, defaultInt32), (VIDEO_ENCODER_PER_FRAME_USE_LTR, defaultInt32),
    (VIDEO_CROP_TOP, defaultInt32), (VIDEO_CROP_BOTTOM, defaultInt32), (VIDEO_CROP_LEFT, defaultInt32), (VIDEO_CROP_RIGHT, defaultInt32),
    (VIDEO_SLICE_HEIGHT, defaultInt32), (VIDEO_OPERATING_RATE, defaultDouble), (VIDEO_ENCODER_QP_MAX, defaultInt32),
    (VIDEO_ENCODER_QP_MIN, defaultInt32), (VIDEO_ENCODER_QP_START, defaultInt32), (VIDEO_ENCODER_TARGET_QP, defaultInt32),
    (FEATURE_PROPERTY_VIDEO_ENCODER_MAX_LTR_FRAME_COUNT, defaultInt32), (OH_MD_KEY_AUDIO_OBJECT_NUMBER, defaultInt32),
    (AV_CODEC_CALLER_PID, defaultInt32), (AV_CODEC_CALLER_UID, defaultInt32), (AV_CODEC_FORWARD_CALLER_PID, defaultInt32),
    (AV_CODEC_FORWARD_CALLER_UID, defaultInt32), (VIDEO_DECODER_RATE_UPPER_LIMIT, defaultInt32), (SCREEN_CAPTURE_ERR_CODE, defaultInt32)]"

definition defaultValues_int32_3 :: "(string \<times> any) list" where
  "defaultValues_int32_3 = [
    (SCREEN_CAPTURE_DURATION, defaultInt32), (SCREEN_CAPTURE_START_LATENCY, defaultInt32), (DRM_ERROR_CODE, defaultInt32),
    (RECORDER_ERR_CODE, defaultInt32), (RECORDER_DURATION, defaultInt32), (RECORDER_VIDEO_BITRATE, defaultInt32),
    (RECORDER_AUDIO_SAMPLE_RATE, defaultInt32), (RECORDER_AUDIO_CHANNEL_COUNT, defaultInt32), (RECORDER_AUDIO_BITRATE, defaultInt32),
    (RECORDER_START_LATENCY, defaultInt32), (TIMED_METADATA_SRC_TRACK, defaultInt32), (VIDEO_ENCODER_FRAME_I_RATIO, defaultInt32),
    (VIDEO_ENCODER_FRAME_MADI, defaultInt32), (VIDEO_ENCODER_FRAME_MADP, defaultInt32), (VIDEO_ENCODER_SUM_MADI, defaultInt32),
    (VIDEO_ENCODER_REAL_BITRATE, defaultInt32), (VIDEO_ENCODER_FRAME_QP, defaultInt32), (VIDEO_ENCODER_QP_AVERAGE, defaultInt32),
    (VIDEO_ENCODER_FRAME_TEMPORAL_ID, defaultInt32), (AV_PLAYER_ERR_CODE, defaultInt32), (AV_PLAYER_PLAY_DURATION, defaultInt32),
    (AV_PLAYER_SOURCE_TYPE, defaultInt32), (AV_PLAYER_AVG_DOWNLOAD_RATE, defaultInt32), (AV_PLAYER_VIDEO_BITRATE, defaultInt32),
    (AV_PLAYER_AUDIO_BITRATE, defaultInt32), (AV_PLAYER_START_LATENCY, defaultInt32), (AV_PLAYER_AVG_DOWNLOAD_SPEED, defaultInt32),
    (AV_PLAYER_MAX_SEEK_LATENCY, defaultInt32), (AV_PLAYER_MAX_ACCURATE_SEEK_LATENCY, defaultInt32), (AV_PLAYER_LAG_TIMES, defaultInt32),
    (AV_PLAYER_MAX_LAG_DURATION, defaultInt32), (AV_PLAYER_AVG_LAG_DURATION, defaultInt32), (AV_PLAYER_MAX_SURFACESWAP_LATENCY, defaultInt32),
    (VIDEO_COORDINATE_X, defaultInt32)]"

definition defaultValues_int32_4 :: "(string \<times> any) list" where
  "defaultValues_int32_4 = [
    (VIDEO_COORDINATE_Y, defaultInt32), (VIDEO_COORDINATE_W, defaultInt32), (VIDEO_COORDINATE_H, defaultInt32),
    (VIDEO_ENCODER_REPEAT_PREVIOUS_FRAME_AFTER, defaultInt32), (VIDEO_ENCODER_REPEAT_PREVIOUS_MAX_COUNT, defaultInt32),
    (VIDEO_ENCODER_MAX_FRAME_DELAY_COUNT, defaultInt32), (VIDEO_DECODER_OUTPUT_COLOR_SPACE, defaultInt32),
    (VIDEO_DECODER_OUTPUT_ENABLE_VRR, defaultInt32), (AV_TRANSCODER_ERR_CODE, defaultInt32), (AV_TRANSCODER_SOURCE_DURATION, defaultInt32),
    (AV_TRANSCODER_TRANSCODER_DURATION, defaultInt32), (AV_TRANSCODER_SRC_VIDEO_BITRATE, defaultInt32), (AV_TRANSCODER_SRC_HDR_TYPE, defaultInt32),
    (AV_TRANSCODER_SRC_AUDIO_SAMPLE_RATE, defaultInt32), (AV_TRANSCODER_SRC_AUDIO_CHANNEL_COUNT, defaultInt32),
    (AV_TRANSCODER_SRC_AUDIO_BITRATE, defaultInt32), (AV_TRANSCODER_DST_VIDEO_BITRATE, defaultInt32), (AV_TRANSCODER_DST_HDR_TYPE, defaultInt32),
    (AV_TRANSCODER_DST_COLOR_SPACE, defaultInt32), (AV_TRANSCODER_ENABLE_B_FRAME, defaultBool), (AV_TRANSCODER_DST_AUDIO_SAMPLE_RATE, defaultInt32),
    (AV_TRANSCODER_DST_AUDIO_CHANNEL_COUNT, defaultInt32), (AV_TRANSCODER_DST_AUDIO_BITRATE, defaultInt32),
    (AV_TRANSCODER_VIDEO_DECODER_DURATION, defaultInt32), (AV_TRANSCODER_VIDEO_ENCODER_DURATION, defaultInt32),
    (AV_TRANSCODER_VIDEO_VPE_DURATION, defaultInt32), (MEDIA_EDITLIST, defaultInt32), (MEDIA_ENABLE_MOOV_FRONT, defaultInt32),
    (MEDIA_GLTF_VERSION, defaultInt32), (VIDEO_DECODER_INPUT_STREAM_ERROR, defaultInt32), (ENABLE_BUFFER_SKIP_SAMPLES, defaultInt32),
    (AUDIO_DSD_CODEC_TYPE, defaultInt32)]"


text \<open>Strings and floating-point numbers.\<close>

definition defaultValues_text_1 :: "(string \<times> any) list" where
  "defaultValues_text_1 = [
    (MIME_TYPE, defaultString), (ORIGINAL_CODEC_NAME, defaultString), (MEDIA_FILE_URI, defaultString), (MEDIA_TITLE, defaultString),
    (MEDIA_ARTIST, defaultString), (MEDIA_LYRICIST, defaultString), (MEDIA_ALBUM, defaultString), (MEDIA_ALBUM_ARTIST, defaultString),
    (MEDIA_DATE, defaultString), (MEDIA_COMMENT, defaultString), (MEDIA_GENRE, defaultString), (MEDIA_COPYRIGHT, defaultString),
    (MEDIA_LANGUAGE, defaultString), (MEDIA_DESCRIPTION, defaultString), (USER_TIME_SYNC_RESULT, defaultString),
    (USER_AV_SYNC_GROUP_INFO, defaultString), (USER_SHARED_MEMORY_FD, defaultString), (MEDIA_AUTHOR, defaultString), (MEDIA_COMPOSER, defaultString),
    (MEDIA_LYRICS, defaultString), (MEDIA_CODEC_NAME, defaultString), (PROCESS_NAME, defaultString), (MEDIA_CREATION_TIME, defaultString),
    (AV_CODEC_CALLER_PROCESS_NAME, defaultString), (AV_CODEC_FORWARD_CALLER_PROCESS_NAME, defaultString), (SCREEN_CAPTURE_ERR_MSG, defaultString),
    (SCREEN_CAPTURE_VIDEO_RESOLUTION, defaultString), (DRM_APP_NAME, defaultString), (DRM_INSTANCE_ID, defaultString),
    (DRM_ERROR_MESG, defaultString), (TIMED_METADATA_SRC_TRACK_MIME, defaultString), (TIMED_METADATA_KEY, defaultString),
    (TIMED_METADATA_LOCALE, defaultString), (TIMED_METADATA_SETUP, defaultString), (RECORDER_ERR_MSG, defaultString),
    (RECORDER_CONTAINER_MIME, defaultString)]"

definition defaultValues_text_2 :: "(string \<times> any) list" where
  "defaultValues_text_2 = [
    (RECORDER_VIDEO_MIME, defaultString), (RECORDER_VIDEO_RESOLUTION, defaultString), (RECORDER_AUDIO_MIME, defaultString),
    (AV_PLAYER_ERR_MSG, defaultString), (AV_PLAYER_CONTAINER_MIME, defaultString), (AV_PLAYER_VIDEO_MIME, defaultString),
    (AV_PLAYER_VIDEO_RESOLUTION, defaultString), (AV_PLAYER_AUDIO_MIME, defaultString), (AV_TRANSCODER_ERR_MSG, defaultString),
    (AV_TRANSCODER_SRC_FORMAT, defaultString), (AV_TRANSCODER_SRC_AUDIO_MIME, defaultString), (AV_TRANSCODER_SRC_VIDEO_MIME, defaultString),
    (AV_TRANSCODER_DST_FORMAT, defaultString), (AV_TRANSCODER_DST_AUDIO_MIME, defaultString), (AV_TRANSCODER_DST_VIDEO_MIME, defaultString),
    (VIDEO_ENCODER_ROI_PARAMS, defaultString), (TRACK_REFERENCE_TYPE, defaultString), (TRACK_DESCRIPTION, defaultString),
    (TRACK_REF_TYPE, defaultString), (REF_TRACK_IDS, defaultString), (MEDIA_GLTF_ITEM_NAME, defaultString), (MEDIA_GLTF_CONTENT_TYPE, defaultString),
    (MEDIA_GLTF_CONTENT_ENCODING, defaultString), (MEDIA_GLTF_ITEM_TYPE, defaultString), (VIDEO_SET_DMABUF_NAME_SUFFIX, defaultString),
    (MEDIA_LATITUDE, defaultFloat), (MEDIA_LONGITUDE, defaultFloat), (MEDIA_ALTITUDE, defaultFloat), (AV_PLAYER_VIDEO_FRAMERATE, defaultFloat),
    (VIDEO_CAPTURE_RATE, defaultDouble), (VIDEO_FRAME_RATE, defaultDouble), (VIDEO_SAR, defaultDouble), (VIDEO_ENCODER_MSE, defaultDouble),
    (AV_TRANSCODER_SRC_VIDEO_FRAME_RATE, defaultDouble), (AV_TRANSCODER_DST_VIDEO_FRAME_RATE, defaultDouble)]"


text \<open>Booleans.\<close>

definition defaultValues_bool_1 :: "(string \<times> any) list" where
  "defaultValues_bool_1 = [
    (VIDEO_COLOR_RANGE, defaultBool), (VIDEO_REQUEST_I_FRAME, defaultBool), (VIDEO_IS_HDR_VIVID, defaultBool), (MEDIA_HAS_VIDEO, defaultBool),
    (MEDIA_HAS_AUDIO, defaultBool), (MEDIA_HAS_SUBTITLE, defaultBool), (MEDIA_HAS_TIMEDMETA, defaultBool), (MEDIA_HAS_AUXILIARY, defaultBool),
    (MEDIA_END_OF_STREAM, defaultBool), (MEDIA_IS_HARDWARE, defaultBool), (VIDEO_FRAME_RATE_ADAPTIVE_MODE, defaultBool),
    (VIDEO_ENCODER_ENABLE_TEMPORAL_SCALABILITY, defaultBool), (AV_CODEC_ENABLE_SYNC_MODE, defaultBool),
    (VIDEO_ENCODER_PER_FRAME_MARK_LTR, defaultBool), (VIDEO_PER_FRAME_IS_LTR, defaultBool), (VIDEO_PER_FRAME_IS_SKIP, defaultBool),
    (VIDEO_ENABLE_LOW_LATENCY, defaultBool), (VIDEO_ENCODER_ENABLE_SURFACE_INPUT_CALLBACK, defaultBool),
    (VIDEO_ENCODER_ENABLE_PARAMS_FEEDBACK, defaultBool)]"

definition defaultValues_bool_2 :: "(string \<times> any) list" where
  "defaultValues_bool_2 = [
    (VIDEO_BUFFER_CAN_DROP, defaultBool), (AUDIO_RENDER_SET_FLAG, defaultBool), (SCREEN_CAPTURE_USER_AGREE, defaultBool),
    (SCREEN_CAPTURE_REQURE_MIC, defaultBool), (SCREEN_CAPTURE_ENABLE_MIC, defaultBool), (AV_PLAYER_IS_DRM_PROTECTED, defaultBool),
    (AV_PLAYER_DOWNLOAD_TIME_OUT, defaultBool), (VIDEO_ENCODER_PER_FRAME_DISCARD, defaultBool), (VIDEO_ENCODER_ENABLE_WATERMARK, defaultBool),
    (VIDEO_ENCODER_ENABLE_QP_MAP, defaultBool), (VIDEO_ENCODER_PER_FRAME_ABS_QP_MAP, defaultBool),
    (VIDEO_ENCODER_ENABLE_PTS_BASED_RATECONTROL, defaultBool), (VIDEO_DECODER_BLANK_FRAME_ON_SHUTDOWN, defaultBool),
    (VIDEO_DECODER_OUTPUT_IN_DECODING_ORDER, defaultBool), (VIDEO_ENCODER_REPEAT_HEADER_BEFORE_SYNC_FRAMES, defaultBool),
    (VIDEO_ENABLE_LOCAL_RELEASE, defaultBool), (IS_GLTF, defaultBool), (AUDIO_ENCODER_ENABLE_SAMPLE_FORMAT_CONVERT, defaultBool)]"


text \<open>64-bit integers, vectors and the rest.\<close>

definition defaultValues_rest_1 :: "(string \<times> any) list" where
  "defaultValues_rest_1 = [
    (MEDIA_FILE_SIZE, defaultUInt64), (MEDIA_POSITION, defaultUInt64), (AV_PLAYER_DOWNLOAD_TOTAL_BITS, defaultUInt64),
    (APP_FULL_TOKEN_ID, defaultInt64), (MEDIA_DURATION, defaultInt64), (MEDIA_BITRATE, defaultInt64), (MEDIA_START_TIME, defaultInt64),
    (USER_FRAME_PTS, defaultInt64), (USER_PUSH_DATA_TIME, defaultInt64), (MEDIA_TIME_STAMP, defaultInt64), (MEDIA_CONTAINER_START_TIME, defaultInt64),
    (BUFFER_DECODING_TIMESTAMP, defaultInt64), (BUFFER_DURATION, defaultInt64), (VIDEO_DECODER_DESIRED_PRESENT_TIMESTAMP, defaultInt64),
    (VIDEO_ENCODE_SET_FRAME_PTS, defaultInt64), (GLTF_OFFSET, defaultInt64), (AUDIO_SOUNDBED_BITRATE, defaultInt64),
    (AUDIO_OBJECT_BITRATE, defaultInt64), (AUDIO_CHANNEL_LAYOUT, defaultAudioChannelLayout), (AUDIO_OUTPUT_CHANNEL_LAYOUT, defaultAudioChannelLayout),
    (AUDIO_SOUNDBED_LAYOUT, defaultAudioChannelLayout), (AUDIO_AAC_PROFILE, defaultAudioAacProfile),
    (AUDIO_AAC_STREAM_FORMAT, defaultAudioAacStreamFormat), (MEDIA_CODEC_CONFIG, defaultVectorUInt8), (AUDIO_VIVID_METADATA, defaultVectorUInt8),
    (MEDIA_COVER, defaultVectorUInt8)]"

definition defaultValues_rest_2 :: "(string \<times> any) list" where
  "defaultValues_rest_2 = [
    (AUDIO_VORBIS_IDENTIFICATION_HEADER, defaultVectorUInt8), (AUDIO_VORBIS_SETUP_HEADER, defaultVectorUInt8),
    (OH_MD_KEY_AUDIO_VIVID_METADATA, defaultVectorUInt8), (BUFFER_SKIP_SAMPLES_INFO, defaultVectorUInt8),
    (VIDEO_BIT_STREAM_FORMAT, defaultVectorVideoBitStreamFormat), (DRM_CENC_INFO, defaultVectorUInt8), (MEDIA_AVAILABLE_BITRATES, defaultVectorUInt8),
    (VIDEO_ENCODER_PER_FRAME_QP_MAP, defaultVectorUInt8), (MEDIA_GLTF_DATA, defaultVectorUInt8), (VIDEO_STATIC_METADATA_SMPT2086, defaultVectorUInt8),
    (VIDEO_STATIC_METADATA_CTA861, defaultVectorUInt8), (DRM_DECRYPT_AVG_SIZE, defaultUInt32), (DRM_DECRYPT_AVG_DURATION, defaultUInt32),
    (DRM_DECRYPT_MAX_SIZE, defaultUInt32), (DRM_DECRYPT_MAX_DURATION, defaultUInt32), (DRM_DECRYPT_TIMES, defaultUInt32),
    (AV_PLAYER_BUFFER_DURATION, defaultUInt32), (AV_PLAYER_VIDEO_BITDEPTH, defaultInt8), (AV_PLAYER_HDR_TYPE, defaultInt8),
    (REFERENCE_TRACK_IDS, defaultVectorInt32), (MEDIA_AIGC, defaultString), (AUDIO_BLOCK_ALIGN, defaultInt32),
    (AUDIO_VIVID_SIGNAL_FORMAT, defaultInt32), (STALLING_TIMESTAMP, defaultVectorInt64), (MEDIA_DEMUXER_MODE, defaultDemuxerMode)]"


definition g_metadataDefaultValueMap :: "int \<Rightarrow> (string \<times> any) list" where
  "g_metadataDefaultValueMap fmt =
     defaultValues_enum fmt @ defaultValues_int32_1 @ defaultValues_int32_2 @ defaultValues_int32_3 @ defaultValues_int32_4 @ defaultValues_text_1 @ defaultValues_text_2 @ defaultValues_bool_1 @ defaultValues_bool_2 @ defaultValues_rest_1 @ defaultValues_rest_2"

text \<open>The default by value type, for keys that are not registered.\<close>

definition g_ValueTypeDefaultValueMap :: "(AnyValueType \<times> any) list" where
  "g_ValueTypeDefaultValueMap = [
     (INVALID_TYPE, defaultString), (BOOL, defaultBool), (UINT8_T, defaultUInt8), (INT32_T, defaultInt32), (UINT32_T, defaultUInt32),
     (INT64_T, defaultInt64), (UINT64_T, defaultUInt64), (FLOAT, defaultFloat), (DOUBLE, defaultDouble), (VECTOR_UINT8, defaultVectorUInt8),
     (VECTOR_UINT32, defaultVectorUInt32), (STRING, defaultString), (VECTOR_INT32, defaultVectorInt32), (VECTOR_INT64, defaultVectorInt64)]"

section \<open>Getter and setter tables\<close>

definition g_metadataGetterSetterMap :: "(string \<times> enum_type) list" where
  "g_metadataGetterSetterMap = [
     (SRC_INPUT_TYPE, E_SrcInputType), (AUDIO_SAMPLE_FORMAT, E_AudioSampleFormat), (AUDIO_RAW_SAMPLE_FORMAT, E_AudioSampleFormat),
     (VIDEO_PIXEL_FORMAT, E_VideoPixelFormat), (MEDIA_TYPE, E_MediaType), (VIDEO_H264_PROFILE, E_VideoH264Profile), (VIDEO_ROTATION, E_VideoRotation),
     (VIDEO_ORIENTATION_TYPE, E_VideoOrientationType), (VIDEO_COLOR_PRIMARIES, E_ColorPrimary), (VIDEO_HDR_TYPE, E_HDRType),
     (VIDEO_COLOR_TRC, E_TransferCharacteristic), (VIDEO_COLOR_MATRIX_COEFF, E_MatrixCoefficient), (VIDEO_H265_PROFILE, E_HEVCProfile),
     (VIDEO_H265_LEVEL, E_HEVCLevel), (VIDEO_CHROMA_LOCATION, E_ChromaLocation), (MEDIA_FILE_TYPE, E_FileType), (MEDIA_DEMUXER_MODE, E_DemuxerMode),
     (VIDEO_ENCODE_BITRATE_MODE, E_VideoEncodeBitrateMode), (VIDEO_ENCODE_B_FRAME_GOP_MODE, E_VideoEncodeBFrameGopMode),
     (VIDEO_ENCODER_TEMPORAL_GOP_REFERENCE_MODE, E_TemporalGopReferenceMode), (VIDEO_GRAPHIC_PIXEL_FORMAT, E_GraphicPixelFormat),
     (VIDEO_CODEC_SCENARIO, E_VideoCodecScenario)]"

definition g_metadataGetterSetterInt64Map :: "(string \<times> enum_type) list" where
  "g_metadataGetterSetterInt64Map = [
     (AUDIO_CHANNEL_LAYOUT, E_AudioChannelLayout), (AUDIO_OUTPUT_CHANNEL_LAYOUT, E_AudioChannelLayout), (AUDIO_SOUNDBED_LAYOUT, E_AudioChannelLayout)]"

definition g_metadataBoolVector :: "string list" where
  "g_metadataBoolVector = [
     VIDEO_COLOR_RANGE, VIDEO_REQUEST_I_FRAME, VIDEO_IS_HDR_VIVID, MEDIA_HAS_VIDEO, MEDIA_HAS_AUDIO, MEDIA_HAS_SUBTITLE, MEDIA_HAS_TIMEDMETA,
     MEDIA_HAS_AUXILIARY, MEDIA_END_OF_STREAM, MEDIA_IS_HARDWARE, VIDEO_FRAME_RATE_ADAPTIVE_MODE, VIDEO_ENCODER_ENABLE_TEMPORAL_SCALABILITY,
     AV_CODEC_ENABLE_SYNC_MODE, VIDEO_ENCODER_PER_FRAME_MARK_LTR, VIDEO_PER_FRAME_IS_LTR, VIDEO_PER_FRAME_IS_SKIP, VIDEO_ENABLE_LOW_LATENCY,
     VIDEO_ENCODER_ENABLE_SURFACE_INPUT_CALLBACK, VIDEO_BUFFER_CAN_DROP, AUDIO_RENDER_SET_FLAG, SCREEN_CAPTURE_USER_AGREE, SCREEN_CAPTURE_REQURE_MIC,
     SCREEN_CAPTURE_ENABLE_MIC, AV_PLAYER_IS_DRM_PROTECTED, AV_PLAYER_DOWNLOAD_TIME_OUT, VIDEO_ENCODER_PER_FRAME_DISCARD,
     VIDEO_ENCODER_ENABLE_WATERMARK, VIDEO_ENCODER_ENABLE_PARAMS_FEEDBACK, VIDEO_ENCODER_ENABLE_QP_MAP, VIDEO_ENCODER_ENABLE_PTS_BASED_RATECONTROL,
     VIDEO_DECODER_BLANK_FRAME_ON_SHUTDOWN, VIDEO_DECODER_OUTPUT_IN_DECODING_ORDER, VIDEO_ENCODER_REPEAT_HEADER_BEFORE_SYNC_FRAMES,
     VIDEO_ENABLE_LOCAL_RELEASE, IS_GLTF, AUDIO_ENCODER_ENABLE_SAMPLE_FORMAT_CONVERT]"

section \<open>Declared types\<close>

text \<open>\<^verbatim>\<open>ValueInfo\<close>: the type of the typed \<^verbatim>\<open>Set\<close> and \<^verbatim>\<open>Get\<close> of a tag.\<close>

definition declaredTypes1 :: "(string \<times> any_type) list" where
  "declaredTypes1 = [
     (SRC_INPUT_TYPE, T_enum E_SrcInputType), (MEDIA_CODEC_CONFIG, T_vector_uint8), (VIDEO_HDR_METADATA, T_vector_uint8),
     (MEDIA_COVER, T_vector_uint8), (AUDIO_VIVID_METADATA, T_vector_uint8), (AUDIO_VORBIS_IDENTIFICATION_HEADER, T_vector_uint8),
     (AUDIO_VORBIS_SETUP_HEADER, T_vector_uint8), (OH_MD_KEY_AUDIO_VIVID_METADATA, T_vector_uint8), (DRM_CENC_INFO, T_vector_uint8),
     (BUFFER_SKIP_SAMPLES_INFO, T_vector_uint8), (AUDIO_CHANNEL_LAYOUT, T_enum E_AudioChannelLayout),
     (AUDIO_OUTPUT_CHANNEL_LAYOUT, T_enum E_AudioChannelLayout), (AUDIO_SOUNDBED_LAYOUT, T_enum E_AudioChannelLayout),
     (VIDEO_ENCODE_SET_FRAME_PTS, T_enum E_AudioChannelLayout), (AUDIO_SAMPLE_FORMAT, T_enum E_AudioSampleFormat),
     (AUDIO_RAW_SAMPLE_FORMAT, T_enum E_AudioSampleFormat), (AUDIO_BITRATE_MODE, T_enum E_AudioEncodeBitrateMode),
     (AUDIO_AAC_PROFILE, T_enum E_AudioAacProfile), (AUDIO_AAC_STREAM_FORMAT, T_enum E_AudioAacStreamFormat), (AUDIO_ENCODE_PTS_MODE, T_int32),
     (AUDIO_MAX_INPUT_BUFFER_SIZE, T_int32), (AUDIO_DSD_CODEC_TYPE, T_int32), (VIDEO_PIXEL_FORMAT, T_enum E_VideoPixelFormat),
     (MEDIA_TYPE, T_enum E_MediaType), (VIDEO_BIT_STREAM_FORMAT, T_vector_VideoBitStreamFormat), (VIDEO_H264_PROFILE, T_enum E_VideoH264Profile),
     (VIDEO_ROTATION, T_enum E_VideoRotation), (VIDEO_ORIENTATION_TYPE, T_enum E_VideoOrientationType),
     (VIDEO_COLOR_PRIMARIES, T_enum E_ColorPrimary), (VIDEO_HDR_TYPE, T_enum E_HDRType), (VIDEO_TYPE, T_int32),
     (VIDEO_COLOR_TRC, T_enum E_TransferCharacteristic), (VIDEO_COLOR_MATRIX_COEFF, T_enum E_MatrixCoefficient),
     (VIDEO_ENCODE_BITRATE_MODE, T_enum E_VideoEncodeBitrateMode), (VIDEO_ENCODER_SQR_FACTOR, T_int32),
     (VIDEO_ENCODE_B_FRAME_GOP_MODE, T_enum E_VideoEncodeBFrameGopMode)]"

definition declaredTypes2 :: "(string \<times> any_type) list" where
  "declaredTypes2 = [
     (VIDEO_COLOR_RANGE, T_bool), (VIDEO_REQUEST_I_FRAME, T_bool), (VIDEO_IS_HDR_VIVID, T_bool), (MEDIA_HAS_VIDEO, T_bool), (MEDIA_HAS_AUDIO, T_bool),
     (MEDIA_HAS_SUBTITLE, T_bool), (MEDIA_HAS_TIMEDMETA, T_bool), (MEDIA_HAS_AUXILIARY, T_bool), (MEDIA_END_OF_STREAM, T_bool),
     (MEDIA_IS_HARDWARE, T_bool), (AV_CODEC_ENABLE_SYNC_MODE, T_bool), (VIDEO_ENCODER_PER_FRAME_MARK_LTR, T_bool),
     (VIDEO_FRAME_RATE_ADAPTIVE_MODE, T_bool), (VIDEO_ENCODER_ENABLE_TEMPORAL_SCALABILITY, T_bool), (VIDEO_ENCODER_ENABLE_PARAMS_FEEDBACK, T_bool),
     (VIDEO_PER_FRAME_IS_LTR, T_bool), (VIDEO_PER_FRAME_IS_SKIP, T_bool), (VIDEO_ENABLE_LOW_LATENCY, T_bool),
     (VIDEO_ENCODER_ENABLE_SURFACE_INPUT_CALLBACK, T_bool), (SCREEN_CAPTURE_USER_AGREE, T_bool), (SCREEN_CAPTURE_REQURE_MIC, T_bool),
     (SCREEN_CAPTURE_ENABLE_MIC, T_bool), (AV_PLAYER_IS_DRM_PROTECTED, T_bool), (AV_PLAYER_DOWNLOAD_TIME_OUT, T_bool),
     (VIDEO_ENCODER_PER_FRAME_DISCARD, T_bool), (VIDEO_ENCODER_ENABLE_QP_MAP, T_bool), (VIDEO_ENCODER_ENABLE_WATERMARK, T_bool),
     (VIDEO_DECODER_BLANK_FRAME_ON_SHUTDOWN, T_bool), (VIDEO_DECODER_OUTPUT_IN_DECODING_ORDER, T_bool),
     (VIDEO_ENCODER_REPEAT_HEADER_BEFORE_SYNC_FRAMES, T_bool), (AUDIO_ENCODER_ENABLE_SAMPLE_FORMAT_CONVERT, T_bool),
     (VIDEO_ENABLE_LOCAL_RELEASE, T_bool), (VIDEO_BUFFER_CAN_DROP, T_bool), (AUDIO_RENDER_SET_FLAG, T_bool),
     (VIDEO_H265_PROFILE, T_enum E_HEVCProfile), (VIDEO_H265_LEVEL, T_enum E_HEVCLevel), (VIDEO_GRAPHIC_PIXEL_FORMAT, T_enum E_GraphicPixelFormat),
     (VIDEO_CODEC_SCENARIO, T_enum E_VideoCodecScenario), (VIDEO_CHROMA_LOCATION, T_enum E_ChromaLocation),
     (VIDEO_ENCODER_TEMPORAL_GOP_REFERENCE_MODE, T_enum E_TemporalGopReferenceMode)]"

definition declaredTypes3 :: "(string \<times> any_type) list" where
  "declaredTypes3 = [
     (APP_UID, T_int32), (APP_PID, T_int32), (APP_TOKEN_ID, T_int32), (REQUIRED_IN_BUFFER_CNT, T_int32), (REQUIRED_IN_BUFFER_SIZE, T_int32),
     (REQUIRED_OUT_BUFFER_CNT, T_int32), (REQUIRED_OUT_BUFFER_SIZE, T_int32), (BUFFERING_SIZE, T_int32), (WATERLINE_HIGH, T_int32),
     (WATERLINE_LOW, T_int32), (AUDIO_CHANNEL_COUNT, T_int32), (AUDIO_SAMPLE_RATE, T_int32), (AUDIO_SAMPLE_PER_FRAME, T_int32),
     (AUDIO_OUTPUT_CHANNELS, T_int32), (AUDIO_MPEG_VERSION, T_int32), (AUDIO_MPEG_LAYER, T_int32), (AUDIO_AAC_LEVEL, T_int32),
     (AUDIO_MAX_INPUT_SIZE, T_int32), (AUDIO_MAX_OUTPUT_SIZE, T_int32), (AUDIO_SOUNDBED_CHANNELS_NUMBER, T_int32), (AUDIO_HOA_ORDER, T_int32),
     (VIDEO_WIDTH, T_int32), (VIDEO_HEIGHT, T_int32), (VIDEO_DELAY, T_int32), (VIDEO_MAX_SURFACE_NUM, T_int32), (VIDEO_H264_LEVEL, T_int32),
     (MEDIA_TRACK_COUNT, T_int32), (AUDIO_AAC_IS_ADTS, T_int32), (AUDIO_COMPRESSION_LEVEL, T_int32), (AUDIO_BITS_PER_CODED_SAMPLE, T_int32),
     (AUDIO_BITS_PER_RAW_SAMPLE, T_int32), (REGULAR_TRACK_ID, T_int32), (BUFFER_INDEX, T_int32), (VIDEO_SCALE_TYPE, T_int32),
     (VIDEO_I_FRAME_INTERVAL, T_int32), (MEDIA_PROFILE, T_int32), (VIDEO_ENCODE_QUALITY, T_int32), (AUDIO_AAC_SBR, T_int32),
     (AUDIO_FLAC_COMPLIANCE_LEVEL, T_int32), (AUDIO_OBJECT_NUMBER, T_int32), (MEDIA_LEVEL, T_int32), (VIDEO_STRIDE, T_int32),
     (VIDEO_DISPLAY_WIDTH, T_int32), (VIDEO_DISPLAY_HEIGHT, T_int32), (VIDEO_PIC_WIDTH, T_int32), (VIDEO_PIC_HEIGHT, T_int32),
     (OH_MD_KEY_AUDIO_OBJECT_NUMBER, T_int32), (AUDIO_L2HC_VERSION, T_int32), (VIDEO_RAWVIDEO_INPUT_PIXEL_FORMAT, T_int32), (DRM_ERROR_CODE, T_int32),
     (ENABLE_BUFFER_SKIP_SAMPLES, T_int32)]"

definition declaredTypes4 :: "(string \<times> any_type) list" where
  "declaredTypes4 = [
     (VIDEO_ENCODER_TEMPORAL_GOP_SIZE, T_int32), (VIDEO_ENCODER_LTR_FRAME_COUNT, T_int32), (VIDEO_PER_FRAME_POC, T_int32),
     (VIDEO_ENCODER_PER_FRAME_USE_LTR, T_int32), (VIDEO_CROP_TOP, T_int32), (VIDEO_CROP_BOTTOM, T_int32), (VIDEO_CROP_LEFT, T_int32),
     (VIDEO_CROP_RIGHT, T_int32), (VIDEO_SLICE_HEIGHT, T_int32), (VIDEO_OPERATING_RATE, T_int32), (VIDEO_ENCODER_QP_MAX, T_int32),
     (VIDEO_ENCODER_QP_MIN, T_int32), (VIDEO_ENCODER_QP_START, T_int32), (VIDEO_ENCODER_TARGET_QP, T_int32),
     (FEATURE_PROPERTY_VIDEO_ENCODER_MAX_LTR_FRAME_COUNT, T_int32), (SCREEN_CAPTURE_ERR_CODE, T_int32), (SCREEN_CAPTURE_DURATION, T_int32),
     (SCREEN_CAPTURE_START_LATENCY, T_int32), (RECORDER_ERR_CODE, T_int32), (RECORDER_DURATION, T_int32), (RECORDER_VIDEO_BITRATE, T_int32),
     (RECORDER_AUDIO_SAMPLE_RATE, T_int32), (RECORDER_AUDIO_CHANNEL_COUNT, T_int32), (RECORDER_AUDIO_BITRATE, T_int32),
     (VIDEO_ENCODER_NUMBER_OF_PENDING_FRAMES, T_int32), (RECORDER_START_LATENCY, T_int32)]"

definition declaredTypes5 :: "(string \<times> any_type) list" where
  "declaredTypes5 = [
     (VIDEO_DECODER_RATE_UPPER_LIMIT, T_int32), (VIDEO_ENCODER_FRAME_I_RATIO, T_int32), (VIDEO_ENCODER_FRAME_MADI, T_int32),
     (VIDEO_ENCODER_FRAME_MADP, T_int32), (VIDEO_ENCODER_SUM_MADI, T_int32), (VIDEO_ENCODER_REAL_BITRATE, T_int32), (VIDEO_ENCODER_FRAME_QP, T_int32),
     (VIDEO_ENCODER_QP_AVERAGE, T_int32), (VIDEO_ENCODER_FRAME_TEMPORAL_ID, T_int32), (AV_PLAYER_ERR_CODE, T_int32),
     (AV_PLAYER_PLAY_DURATION, T_int32), (AV_PLAYER_SOURCE_TYPE, T_int32), (AV_PLAYER_AVG_DOWNLOAD_RATE, T_int32), (AV_PLAYER_VIDEO_BITRATE, T_int32),
     (AV_PLAYER_AUDIO_BITRATE, T_int32), (AV_PLAYER_START_LATENCY, T_int32), (AV_PLAYER_AVG_DOWNLOAD_SPEED, T_int32),
     (AV_PLAYER_MAX_SEEK_LATENCY, T_int32), (AV_PLAYER_MAX_ACCURATE_SEEK_LATENCY, T_int32), (AV_PLAYER_LAG_TIMES, T_int32),
     (AV_PLAYER_MAX_LAG_DURATION, T_int32), (AV_PLAYER_AVG_LAG_DURATION, T_int32), (AV_PLAYER_MAX_SURFACESWAP_LATENCY, T_int32),
     (VIDEO_COORDINATE_X, T_int32), (VIDEO_COORDINATE_Y, T_int32), (VIDEO_COORDINATE_W, T_int32), (VIDEO_COORDINATE_H, T_int32),
     (VIDEO_ENCODER_REPEAT_PREVIOUS_FRAME_AFTER, T_int32), (VIDEO_ENCODER_MAX_FRAME_DELAY_COUNT, T_int32),
     (VIDEO_ENCODER_REPEAT_PREVIOUS_MAX_COUNT, T_int32)]"

definition declaredTypes6 :: "(string \<times> any_type) list" where
  "declaredTypes6 = [
     (AV_TRANSCODER_ERR_CODE, T_int32), (AV_TRANSCODER_SOURCE_DURATION, T_int32), (AV_TRANSCODER_TRANSCODER_DURATION, T_int32),
     (AV_TRANSCODER_SRC_VIDEO_BITRATE, T_int32), (AV_TRANSCODER_SRC_HDR_TYPE, T_int32), (AV_TRANSCODER_SRC_AUDIO_SAMPLE_RATE, T_int32),
     (AV_TRANSCODER_SRC_AUDIO_CHANNEL_COUNT, T_int32), (AV_TRANSCODER_SRC_AUDIO_BITRATE, T_int32), (AV_TRANSCODER_DST_VIDEO_BITRATE, T_int32),
     (AV_TRANSCODER_DST_HDR_TYPE, T_int32), (AV_TRANSCODER_DST_COLOR_SPACE, T_int32), (AV_TRANSCODER_DEST_HDR_MODE, T_int32),
     (AV_TRANSCODER_DST_AUDIO_SAMPLE_RATE, T_int32), (AV_TRANSCODER_DST_AUDIO_CHANNEL_COUNT, T_int32), (AV_TRANSCODER_DST_AUDIO_BITRATE, T_int32),
     (AV_TRANSCODER_VIDEO_DECODER_DURATION, T_int32), (AV_TRANSCODER_VIDEO_ENCODER_DURATION, T_int32), (AV_TRANSCODER_VIDEO_VPE_DURATION, T_int32),
     (AV_TRANSCODER_ENABLE_B_FRAME, T_bool), (APP_FULL_TOKEN_ID, T_int64), (BUFFER_DECODING_TIMESTAMP, T_int64), (BUFFER_DURATION, T_int64),
     (MEDIA_DURATION, T_int64), (MEDIA_BITRATE, T_int64), (VIDEOCALL_LOWPOWER_MODE, T_int64), (MEDIA_START_TIME, T_int64),
     (MEDIA_CONTAINER_START_TIME, T_int64), (USER_FRAME_PTS, T_int64), (USER_PUSH_DATA_TIME, T_int64), (MEDIA_FILE_SIZE, T_int64),
     (MEDIA_POSITION, T_int64), (MEDIA_TIME_STAMP, T_int64), (AUDIO_SOUNDBED_BITRATE, T_int64), (AUDIO_OBJECT_BITRATE, T_int64),
     (VIDEO_DECODER_DESIRED_PRESENT_TIMESTAMP, T_int64), (AV_PLAYER_DOWNLOAD_TOTAL_BITS, T_uint64), (MEDIA_LATITUDE, T_float),
     (MEDIA_LONGITUDE, T_float), (MEDIA_ALTITUDE, T_float), (AV_PLAYER_VIDEO_FRAMERATE, T_float), (VIDEO_FRAME_RATE, T_double),
     (VIDEO_CAPTURE_RATE, T_double), (VIDEO_SAR, T_double), (VIDEO_ENCODER_MSE, T_double)]"

definition declaredTypes7 :: "(string \<times> any_type) list" where
  "declaredTypes7 = [
     (AV_TRANSCODER_SRC_VIDEO_FRAME_RATE, T_double), (AV_TRANSCODER_DST_VIDEO_FRAME_RATE, T_double), (MEDIA_FILE_TYPE, T_enum E_FileType),
     (DRM_DECRYPT_AVG_SIZE, T_uint32), (DRM_DECRYPT_AVG_DURATION, T_uint32), (DRM_DECRYPT_MAX_SIZE, T_uint32), (DRM_DECRYPT_MAX_DURATION, T_uint32),
     (DRM_DECRYPT_TIMES, T_uint32)]"

definition declaredTypes8 :: "(string \<times> any_type) list" where
  "declaredTypes8 = [
     (MEDIA_AIGC, T_string), (MIME_TYPE, T_string), (ORIGINAL_CODEC_NAME, T_string), (MEDIA_FILE_URI, T_string), (MEDIA_TITLE, T_string),
     (MEDIA_ARTIST, T_string), (MEDIA_LYRICIST, T_string), (MEDIA_ALBUM, T_string), (MEDIA_ALBUM_ARTIST, T_string), (MEDIA_DATE, T_string),
     (MEDIA_COMMENT, T_string), (MEDIA_GENRE, T_string), (MEDIA_COPYRIGHT, T_string), (MEDIA_LANGUAGE, T_string), (MEDIA_DESCRIPTION, T_string),
     (USER_TIME_SYNC_RESULT, T_string), (USER_AV_SYNC_GROUP_INFO, T_string), (USER_SHARED_MEMORY_FD, T_string), (MEDIA_AUTHOR, T_string),
     (MEDIA_COMPOSER, T_string), (MEDIA_LYRICS, T_string), (MEDIA_CREATION_TIME, T_string), (MEDIA_CODEC_NAME, T_string), (PROCESS_NAME, T_string),
     (SCREEN_CAPTURE_ERR_MSG, T_string), (SCREEN_CAPTURE_VIDEO_RESOLUTION, T_string), (DRM_APP_NAME, T_string), (DRM_INSTANCE_ID, T_string),
     (DRM_ERROR_MESG, T_string), (RECORDER_ERR_MSG, T_string), (RECORDER_CONTAINER_MIME, T_string), (RECORDER_VIDEO_MIME, T_string),
     (RECORDER_VIDEO_RESOLUTION, T_string), (RECORDER_AUDIO_MIME, T_string), (AV_PLAYER_ERR_MSG, T_string), (AV_PLAYER_CONTAINER_MIME, T_string),
     (AV_PLAYER_VIDEO_MIME, T_string), (AV_PLAYER_VIDEO_RESOLUTION, T_string), (AV_PLAYER_AUDIO_MIME, T_string),
     (VIDEO_SET_DMABUF_NAME_SUFFIX, T_string)]"

definition declaredTypes9 :: "(string \<times> any_type) list" where
  "declaredTypes9 = [
     (AV_TRANSCODER_ERR_MSG, T_string), (AV_TRANSCODER_SRC_FORMAT, T_string), (AV_TRANSCODER_SRC_AUDIO_MIME, T_string),
     (AV_TRANSCODER_SRC_VIDEO_MIME, T_string), (AV_TRANSCODER_DST_FORMAT, T_string), (AV_TRANSCODER_DST_AUDIO_MIME, T_string),
     (VIDEO_ENCODER_ROI_PARAMS, T_string), (AV_TRANSCODER_DST_VIDEO_MIME, T_string), (RECORDER_HDR_TYPE, T_int8), (SCREEN_CAPTURE_AV_TYPE, T_uint8),
     (SCREEN_CAPTURE_DATA_TYPE, T_uint8), (SCREEN_CAPTURE_STOP_REASON, T_uint8), (AV_PLAYER_VIDEO_BITDEPTH, T_int8), (AV_PLAYER_HDR_TYPE, T_int8),
     (MEDIA_AVAILABLE_BITRATES, T_vector_uint8), (TIMED_METADATA_SRC_TRACK_MIME, T_string), (TIMED_METADATA_KEY, T_string),
     (TIMED_METADATA_LOCALE, T_string), (TIMED_METADATA_SETUP, T_string), (TIMED_METADATA_SRC_TRACK, T_int32),
     (VIDEO_DECODER_OUTPUT_COLOR_SPACE, T_int32), (VIDEO_DECODER_OUTPUT_ENABLE_VRR, T_int32), (MEDIA_EDITLIST, T_int32),
     (MEDIA_ENABLE_MOOV_FRONT, T_int32), (VIDEO_ENCODER_PER_FRAME_ABS_QP_MAP, T_bool), (VIDEO_ENCODER_PER_FRAME_QP_MAP, T_vector_uint8),
     (REFERENCE_TRACK_IDS, T_vector_int32), (STALLING_TIMESTAMP, T_vector_int64), (TRACK_REFERENCE_TYPE, T_string), (TRACK_DESCRIPTION, T_string),
     (VIDEO_ENCODER_ENABLE_PTS_BASED_RATECONTROL, T_int32), (VIDEO_DECODER_INPUT_STREAM_ERROR, T_int32), (IS_GLTF, T_bool), (GLTF_OFFSET, T_int64),
     (AUDIO_BLOCK_ALIGN, T_int32), (AUDIO_VIVID_SIGNAL_FORMAT, T_int32), (MEDIA_GLTF_VERSION, T_int32), (MEDIA_GLTF_ITEM_NAME, T_string),
     (MEDIA_GLTF_CONTENT_TYPE, T_string), (MEDIA_GLTF_CONTENT_ENCODING, T_string), (MEDIA_GLTF_ITEM_TYPE, T_string),
     (VIDEO_STATIC_METADATA_SMPT2086, T_vector_uint8), (VIDEO_STATIC_METADATA_CTA861, T_vector_uint8), (MEDIA_GLTF_DATA, T_vector_uint8),
     (MEDIA_DEMUXER_MODE, T_enum E_DemuxerMode)]"

definition declaredTypes :: "(string \<times> any_type) list" where
  "declaredTypes = declaredTypes1 @ declaredTypes2 @ declaredTypes3 @ declaredTypes4 @ declaredTypes5 @ declaredTypes6 @ declaredTypes7 @ declaredTypes8 @ declaredTypes9"

end
