(* ===== verification/Media_Meta.thy ===== *)
theory Media_Meta
  imports Meta_Tags "HOL-Library.List_Lexorder" "HOL-Library.Char_ord"
begin

text \<open>
  \<^verbatim>\<open>Meta\<close> of \<^verbatim>\<open>interface/inner_api/meta/meta.h\<close> and \<^verbatim>\<open>src/meta/meta.cpp\<close>: the map from tags to values, the
  conversions behind the application interface, and the marshalling of the whole map.
\<close>

type_synonym meta = "(string, any) smap"

section \<open>Defaults\<close>

definition GetDefaultAnyValueOpt :: "int \<Rightarrow> string \<Rightarrow> any option" where
  "GetDefaultAnyValueOpt fmt tag = map_of (g_metadataDefaultValueMap fmt) tag"

definition GetDefaultAnyValue :: "int \<Rightarrow> string \<Rightarrow> any" where
  "GetDefaultAnyValue fmt tag = (case map_of (g_metadataDefaultValueMap fmt) tag of None \<Rightarrow> defaultString | Some d \<Rightarrow> d)"

definition GetDefaultAnyValue_typed :: "int \<Rightarrow> string \<Rightarrow> AnyValueType option \<Rightarrow> any" where
  "GetDefaultAnyValue_typed fmt tag type =
     (case map_of (g_metadataDefaultValueMap fmt) tag of
        None \<Rightarrow> (case Option.bind type (map_of g_ValueTypeDefaultValueMap) of None \<Rightarrow> defaultString | Some d \<Rightarrow> d)
      | Some d \<Rightarrow> d)"

definition IsDefinedKey :: "int \<Rightarrow> string \<Rightarrow> bool" where
  "IsDefinedKey fmt tag = (map_of (g_metadataDefaultValueMap fmt) tag \<noteq> None)"

definition IsIntEnum :: "string \<Rightarrow> bool" where
  "IsIntEnum tag = (map_of g_metadataGetterSetterMap tag \<noteq> None)"

definition IsLongEnum :: "string \<Rightarrow> bool" where
  "IsLongEnum tag = (map_of g_metadataGetterSetterInt64Map tag \<noteq> None)"

section \<open>The map\<close>

definition SetData :: "string \<Rightarrow> any \<Rightarrow> meta \<Rightarrow> meta" where
  "SetData tag v m = smap_put tag v m"

text \<open>\<^verbatim>\<open>GetData<T>\<close>: only a value that has the type asked for.\<close>

definition GetData :: "any_type \<Rightarrow> string \<Rightarrow> meta \<Rightarrow> any option" where
  "GetData t tag m = (case map_of m tag of None \<Rightarrow> None | Some v \<Rightarrow> if IsSameTypeWith t v then Some v else None)"

definition Meta_Remove :: "string \<Rightarrow> meta \<Rightarrow> meta" where
  "Meta_Remove tag m = smap_erase tag m"

definition Meta_GetKeys :: "meta \<Rightarrow> string list" where
  "Meta_GetKeys m = map fst m"

text \<open>The typed \<^verbatim>\<open>Set\<close> of a tag erases and inserts.\<close>

definition Meta_Set :: "string \<Rightarrow> any \<Rightarrow> meta \<Rightarrow> meta" where
  "Meta_Set tag v m = smap_put tag v (if map_of m tag \<noteq> None then smap_erase tag m else m)"

definition Meta_GetValueType :: "string \<Rightarrow> meta \<Rightarrow> AnyValueType" where
  "Meta_GetValueType key m =
     (case map_of m key of
        None \<Rightarrow> INVALID_TYPE
      | Some v \<Rightarrow>
          if IsSameTypeWith T_int32 v then INT32_T
          else if IsSameTypeWith T_uint32 v then UINT32_T
          else if IsSameTypeWith T_bool v then BOOL
          else if IsSameTypeWith T_int64 v then INT64_T
          else if IsSameTypeWith T_float v then FLOAT
          else if IsSameTypeWith T_double v then DOUBLE
          else if IsSameTypeWith T_vector_uint8 v then VECTOR_UINT8
          else if IsSameTypeWith T_string v then STRING
          else if IsSameTypeWith T_vector_int32 v then VECTOR_INT32
          else if IsSameTypeWith T_vector_int64 v then VECTOR_INT64
          else if map_of g_metadataGetterSetterInt64Map key = None then INT32_T
          else INT64_T)"

section \<open>Integers for the application interface\<close>

text \<open>
  An application stores and fetches integers; the tables say where the metadata holds an enumeration or a boolean. A fetched
  value is \<^term>\<open>Some\<close>.
\<close>

definition SetMetaData_int32 :: "meta \<Rightarrow> string \<Rightarrow> 32 word \<Rightarrow> bool \<times> meta" where
  "SetMetaData_int32 m tag value =
     (case map_of g_metadataGetterSetterMap tag of
        None \<Rightarrow>
          if tag \<in> set g_metadataBoolVector then (True, SetData tag (A_bool (value \<noteq> 0)) m)
          else (True, SetData tag (A_int32 value) m)
      | Some e \<Rightarrow> (True, SetData tag (A_enum e (enum_cast e (sint value))) m))"

fun any_enum :: "any \<Rightarrow> int" where
  "any_enum (A_enum e v) = v"
| "any_enum _ = 0"

definition GetMetaData_int32 :: "meta \<Rightarrow> string \<Rightarrow> 32 word option" where
  "GetMetaData_int32 m tag =
     (case map_of g_metadataGetterSetterMap tag of
        None \<Rightarrow>
          if tag \<in> set g_metadataBoolVector
          then (case GetData T_bool tag m of Some (A_bool b) \<Rightarrow> Some (if b then 1 else 0) | _ \<Rightarrow> None)
          else (case GetData T_int32 tag m of Some (A_int32 v) \<Rightarrow> Some v | _ \<Rightarrow> None)
      | Some e \<Rightarrow> map_option (\<lambda>v. word_of_int (any_enum v)) (GetData (T_enum e) tag m))"

definition SetMetaData_uint32 :: "meta \<Rightarrow> string \<Rightarrow> 32 word \<Rightarrow> bool \<times> meta" where
  "SetMetaData_uint32 m tag value =
     (if map_of g_metadataGetterSetterMap tag = None
      then (if tag \<in> set g_metadataBoolVector then (True, SetData tag (A_bool (value \<noteq> 0)) m)
            else (True, SetData tag (A_uint32 value) m))
      else (False, m))"

definition GetMetaData_uint32 :: "meta \<Rightarrow> string \<Rightarrow> 32 word option" where
  "GetMetaData_uint32 m tag =
     (if map_of g_metadataGetterSetterMap tag = None
      then (if tag \<in> set g_metadataBoolVector
            then (case GetData T_bool tag m of Some (A_bool b) \<Rightarrow> Some (if b then 1 else 0) | _ \<Rightarrow> None)
            else (case GetData T_uint32 tag m of Some (A_uint32 v) \<Rightarrow> Some v | _ \<Rightarrow> None))
      else None)"

definition SetMetaData_int64 :: "meta \<Rightarrow> string \<Rightarrow> 64 word \<Rightarrow> bool \<times> meta" where
  "SetMetaData_int64 m tag value =
     (case map_of g_metadataGetterSetterInt64Map tag of
        None \<Rightarrow> (True, SetData tag (A_int64 value) m)
      | Some e \<Rightarrow> (True, SetData tag (A_enum e (enum_cast e (sint value))) m))"

definition GetMetaData_int64 :: "meta \<Rightarrow> string \<Rightarrow> 64 word option" where
  "GetMetaData_int64 m tag =
     (case map_of g_metadataGetterSetterInt64Map tag of
        None \<Rightarrow> (case GetData T_int64 tag m of Some (A_int64 v) \<Rightarrow> Some v | _ \<Rightarrow> None)
      | Some e \<Rightarrow> map_option (\<lambda>v. word_of_int (any_enum v)) (GetData (T_enum e) tag m))"

section \<open>Marshalling\<close>

text \<open>The loop of \<^verbatim>\<open>ToParcel\<close>; \<open>ret\<close> is the flag the steps are joined to.\<close>

fun toparcel_loop :: "'p MessageParcel \<Rightarrow> meta \<Rightarrow> (string \<times> any) list \<Rightarrow> bool \<Rightarrow> 'p \<Rightarrow> bool \<times> 'p" where
  "toparcel_loop P m [] ret p = (ret, p)"
| "toparcel_loop P m ((k, v) # es) ret p =
     (let (r1, p1) = (if ret then mp_write P (I_string k) p else (False, p));
          (r2, p2) = (if r1 then mp_write P (I_int32 (type_code (Meta_GetValueType k m))) p1 else (False, p1));
          (r3, p3) = (if r2 then Any_ToParcel P v p2 else (False, p2))
      in if r3 then toparcel_loop P m es True p3 else (False, p3))"

definition Meta_ToParcel :: "'p MessageParcel \<Rightarrow> meta \<Rightarrow> 'p \<Rightarrow> bool \<times> 'p" where
  "Meta_ToParcel P m p =
     (let oldPos = GetWritePosition P p;
          oldSize = GetDataSize P p;
          (r, p1) = mp_write P (I_int32 (of_nat (length m))) p;
          (ret, p2) = toparcel_loop P m m r p1
      in if ret then (True, p2) else (False, SetDataSize P oldSize (RewindWrite P oldPos p2)))"

text \<open>The loop of \<^verbatim>\<open>FromParcel\<close>; what was read before a failure stays in the map.\<close>

fun fromparcel_loop :: "'p MessageParcel \<Rightarrow> int \<Rightarrow> nat \<Rightarrow> meta \<Rightarrow> 'p \<Rightarrow> (bool \<times> meta) \<times> 'p" where
  "fromparcel_loop P fmt 0 m p = ((True, m), p)"
| "fromparcel_loop P fmt (Suc n) m p =
     (let (key, p1) = ReadString P p;
          (code, p2) = ReadInt32 P p1;
          ((ok, value), p3) = Any_FromParcel P (GetDefaultAnyValue_typed fmt key (type_of_code code)) p2
      in if ok then fromparcel_loop P fmt n (smap_put key value m) p3 else ((False, m), p3))"

definition Meta_FromParcel :: "'p MessageParcel \<Rightarrow> int \<Rightarrow> 'p \<Rightarrow> (bool \<times> meta) \<times> 'p" where
  "Meta_FromParcel P fmt p =
     (let (size, p1) = ReadInt32 P p
      in if sint size < 0 \<or> nat (sint size) > GetRawDataCapacity P p1 then ((False, []), p1)
         else fromparcel_loop P fmt (nat (sint size)) [] p1)"

end
