(* ===== verification/AV_Buffer.thy ===== *)
theory AV_Buffer
  imports Media_Meta
begin

text \<open>
  Buffers and their memory: \<^verbatim>\<open>AVBufferConfig\<close> and its fitting order
  (\<^verbatim>\<open>src/buffer/avbuffer/avbuffer_common.cpp\<close>), \<^verbatim>\<open>AVMemory\<close> with its bounds-checked
  reads and writes (\<^verbatim>\<open>avmemory.cpp\<close>, \<^verbatim>\<open>av_virtual_memory.cpp\<close>) and
  \<^verbatim>\<open>AVBuffer\<close> with the generation of unique ids, creation and cloning
  (\<^verbatim>\<open>avbuffer.cpp\<close>). Memory contents are byte lists; \<open>None\<close> is the null pointer.
\<close>

unbundle bit_operations_syntax

section \<open>Configuration\<close>

datatype MemoryType =
    VIRTUAL_MEMORY | SHARED_MEMORY | SURFACE_MEMORY | HARDWARE_MEMORY | UNKNOWN_MEMORY | CUSTOM_MEMORY

type_synonym MemoryFlag = "8 word"

definition MEMORY_READ_ONLY :: MemoryFlag where
  "MEMORY_READ_ONLY = 1"

definition MEMORY_WRITE_ONLY :: MemoryFlag where
  "MEMORY_WRITE_ONLY = 2"

definition MEMORY_READ_WRITE :: MemoryFlag where
  "MEMORY_READ_WRITE = MEMORY_READ_ONLY OR MEMORY_WRITE_ONLY"

text \<open>The surface request configuration of the graphics interface, as the code reads it.\<close>

record BufferRequestConfig =
  s_width :: int
  s_height :: int
  s_strideAlignment :: int
  s_format :: int
  s_usage :: nat
  s_timeout :: int
  s_colorGamut :: int
  s_transform :: int

record AVBufferConfig =
  c_size :: int
  c_align :: int
  c_memoryType :: MemoryType
  c_memoryFlag :: MemoryFlag
  c_surface :: BufferRequestConfig
  c_dmaFd :: int
  c_capacity :: int

definition default_surface :: BufferRequestConfig where
  "default_surface = \<lparr>s_width = 0, s_height = 0, s_strideAlignment = 0, s_format = 0, s_usage = 0,
     s_timeout = 0, s_colorGamut = 0, s_transform = 0\<rparr>"

definition default_config :: AVBufferConfig where
  "default_config = \<lparr>c_size = 0, c_align = 0, c_memoryType = UNKNOWN_MEMORY,
     c_memoryFlag = MEMORY_READ_WRITE, c_surface = default_surface, c_dmaFd = -1, c_capacity = 0\<rparr>"

text \<open>
  \<^verbatim>\<open>AVBufferConfig::operator<=\<close>: can a buffer allocated with the right-hand configuration
  serve a request with the left-hand one?
\<close>

definition config_le :: "AVBufferConfig \<Rightarrow> AVBufferConfig \<Rightarrow> bool" where
  "config_le lhs rhs =
     (if c_memoryType lhs \<noteq> c_memoryType rhs then False
      else
        let configAllocSize =
              (if c_align rhs \<noteq> 0 then swrap 32 (c_capacity rhs + c_align rhs - 1) else c_capacity rhs)
        in case c_memoryType lhs of
             VIRTUAL_MEMORY \<Rightarrow> c_size lhs \<le> configAllocSize
           | SHARED_MEMORY \<Rightarrow> c_size lhs \<le> configAllocSize \<and>
               (c_memoryFlag lhs = c_memoryFlag rhs \<or> c_memoryFlag rhs = MEMORY_READ_WRITE)
           | HARDWARE_MEMORY \<Rightarrow> c_size lhs \<le> configAllocSize \<and>
               (c_memoryFlag lhs = c_memoryFlag rhs \<or> c_memoryFlag rhs = MEMORY_READ_WRITE)
           | SURFACE_MEMORY \<Rightarrow>
               s_width (c_surface lhs) = s_width (c_surface rhs) \<and>
               s_height (c_surface lhs) = s_height (c_surface rhs) \<and>
               s_strideAlignment (c_surface lhs) = s_strideAlignment (c_surface rhs) \<and>
               s_format (c_surface lhs) = s_format (c_surface rhs) \<and>
               s_usage (c_surface lhs) = s_usage (c_surface rhs) \<and>
               s_transform (c_surface lhs) = s_transform (c_surface rhs) \<and>
               s_colorGamut (c_surface lhs) = s_colorGamut (c_surface rhs)
           | _ \<Rightarrow> False)"

section \<open>Memory\<close>

text \<open>
  \<open>m_fd\<close> and \<open>m_surface\<close> are what the kernel file descriptor and the surface object of the
  shared, hardware and surface memories report.
\<close>

record AVMemory =
  m_type :: MemoryType
  m_flag :: MemoryFlag
  m_capacity :: int
  m_align :: int
  m_offset :: int
  m_size :: int
  m_base :: "8 word list option"
  m_fd :: int
  m_surface :: BufferRequestConfig

text \<open>
  \<^verbatim>\<open>AVVirtualMemory::Init\<close>: round the capacity up to the alignment and allocate. \<open>junk\<close>
  gives the indeterminate contents of the fresh array; a negative size makes \<^verbatim>\<open>new[]\<close> throw.
\<close>

definition AVVirtualMemory_Init :: "(nat \<Rightarrow> 8 word) \<Rightarrow> int \<Rightarrow> int \<Rightarrow> AVMemory option" where
  "AVVirtualMemory_Init junk capacity align =
     (let cap = (if align > 0 then swrap 32 (c_div (capacity + align - 1) align * align) else capacity)
      in if cap < 0 then None
         else Some \<lparr>m_type = VIRTUAL_MEMORY, m_flag = MEMORY_READ_WRITE, m_capacity = cap,
                m_align = align, m_offset = 0, m_size = 0,
                m_base = Some (map junk [0..<nat cap]), m_fd = -1, m_surface = default_surface\<rparr>)"

text \<open>
  \<^verbatim>\<open>AVMemory::CreateAVMemory(allocator, capacity, align)\<close>: dispatch on the allocator's type.
  \<open>ext\<close> is the initialisation of the memories backed by the kernel or the graphics stack.
\<close>

definition CreateAVMemory ::
  "(MemoryType \<Rightarrow> int \<Rightarrow> int \<Rightarrow> AVMemory option) \<Rightarrow> (nat \<Rightarrow> 8 word) \<Rightarrow> MemoryType \<Rightarrow> int \<Rightarrow> int \<Rightarrow> AVMemory option" where
  "CreateAVMemory ext junk type capacity align =
     (case type of
        VIRTUAL_MEMORY \<Rightarrow> AVVirtualMemory_Init junk capacity align
      | SURFACE_MEMORY \<Rightarrow> ext SURFACE_MEMORY capacity align
      | SHARED_MEMORY \<Rightarrow> ext SHARED_MEMORY capacity align
      | HARDWARE_MEMORY \<Rightarrow> ext HARDWARE_MEMORY capacity align
      | _ \<Rightarrow> None)"

text \<open>\<^verbatim>\<open>AVMemory::CreateAVMemory(ptr, capacity, size)\<close>: wrap a caller's array.\<close>

definition CreateAVMemory_ptr :: "8 word list option \<Rightarrow> int \<Rightarrow> int \<Rightarrow> AVMemory option" where
  "CreateAVMemory_ptr ptr capacity sz =
     Some \<lparr>m_type = VIRTUAL_MEMORY, m_flag = MEMORY_READ_WRITE, m_capacity = capacity, m_align = 0,
       m_offset = 0, m_size = sz, m_base = ptr, m_fd = -1, m_surface = default_surface\<rparr>"

definition AVMemory_SetSize :: "int \<Rightarrow> AVMemory \<Rightarrow> Status \<times> AVMemory" where
  "AVMemory_SetSize sz m =
     (if m_capacity m \<ge> sz \<and> sz \<ge> 0 then (OK, m\<lparr>m_size := sz\<rparr>)
      else (ERROR_INVALID_PARAMETER, m))"

definition AVMemory_SetOffset :: "int \<Rightarrow> AVMemory \<Rightarrow> Status \<times> AVMemory" where
  "AVMemory_SetOffset offset m =
     (if m_capacity m \<ge> offset \<and> offset \<ge> 0 then (OK, m\<lparr>m_offset := offset\<rparr>)
      else (ERROR_INVALID_PARAMETER, m))"

definition AVMemory_Reset :: "AVMemory \<Rightarrow> AVMemory" where
  "AVMemory_Reset m = m\<lparr>m_size := 0\<rparr>"

text \<open>
  \<^verbatim>\<open>memcpy_s\<close> of the bounds-checking library is a parameter: \<open>memcpy_s destMax count\<close> tells
  whether the copy succeeds. Its documented contract is that a non-empty copy into a large enough
  destination does.
\<close>

definition memcpy_ok :: "(int \<Rightarrow> int \<Rightarrow> bool) \<Rightarrow> bool" where
  "memcpy_ok memcpy_s = (\<forall>d n. 0 < n \<and> n \<le> d \<longrightarrow> memcpy_s d n)"

definition overwrite :: "nat \<Rightarrow> 'a list \<Rightarrow> 'a list \<Rightarrow> 'a list" where
  "overwrite pos src dst = take pos dst @ src @ drop (pos + length src) dst"

definition AVMemory_Write ::
  "(int \<Rightarrow> int \<Rightarrow> bool) \<Rightarrow> 8 word list option \<Rightarrow> int \<Rightarrow> int \<Rightarrow> AVMemory \<Rightarrow> int \<times> AVMemory" where
  "AVMemory_Write memcpy_s inp writeSize position m =
     (case inp of None \<Rightarrow> (0, m)
      | Some src \<Rightarrow>
        if \<not> writeSize > 0 then (0, m)
        else if (m_flag m AND MEMORY_WRITE_ONLY) = 0 then (0, m)
        else (case m_base m of None \<Rightarrow> (0, m)
          | Some base \<Rightarrow>
            let start = (if position \<le> -1 then m_size m else min position (m_capacity m));
                unusedSize = m_capacity m - start;
                len = min writeSize unusedSize
            in if \<not> len + start \<le> m_capacity m then (0, m)
               else if \<not> memcpy_s len len then (0, m)
               else (len, m\<lparr>m_base := Some (overwrite (nat start) (take (nat len) src) base),
                            m_size := start + len\<rparr>)))"

text \<open>\<^verbatim>\<open>AVMemory::Read\<close>: the result is the returned length and the bytes copied out.\<close>

definition AVMemory_Read ::
  "(int \<Rightarrow> int \<Rightarrow> bool) \<Rightarrow> bool \<Rightarrow> int \<Rightarrow> int \<Rightarrow> AVMemory \<Rightarrow> int \<times> 8 word list" where
  "AVMemory_Read memcpy_s outNonNull readSize position m =
     (if \<not> outNonNull then (0, [])
      else if \<not> readSize > 0 then (0, [])
      else if (m_flag m AND MEMORY_READ_ONLY) = 0 then (0, [])
      else (case m_base m of None \<Rightarrow> (0, [])
        | Some base \<Rightarrow>
          let start = (if position > -1 then min position (m_size m) else 0);
              maxLength = (if position > -1 then m_size m - start else m_size m);
              len = min readSize maxLength
          in if \<not> len + start \<le> m_capacity m then (0, [])
             else if \<not> memcpy_s len len then (0, [])
             else (len, take (nat len) (drop (nat start) base))))"

section \<open>Unique ids\<close>

record IdGen =
  g_startTime :: nat
  g_processId :: nat
  g_bufferId :: nat

text \<open>
  \<^verbatim>\<open>GenerateUniqueId\<close>: 16 bits of start time, 16 bits of process id and the 32-bit counter,
  laid out by the union of the source on a little-endian machine. The counter skips 0.
\<close>

definition GenerateUniqueId :: "IdGen \<Rightarrow> nat \<times> IdGen" where
  "GenerateUniqueId g =
     (let nextId = (if g_bufferId g = 2 ^ 32 - 1 then 1 else g_bufferId g + 1)
      in (g_startTime g mod 2 ^ 16 + (g_processId g mod 2 ^ 16) * 2 ^ 16 + nextId * 2 ^ 32,
          g\<lparr>g_bufferId := nextId\<rparr>))"

section \<open>Buffers\<close>

type_synonym Meta = meta

record AVBuffer =
  b_pts :: int
  b_dts :: int
  b_duration :: int
  b_flag :: "32 word"
  b_meta :: "Meta option"
  b_memory :: "AVMemory option"
  b_config :: AVBufferConfig
  b_uid :: nat

definition EOS_FLAG :: "32 word" where
  "EOS_FLAG = 1"

definition is_eos :: "AVBuffer \<Rightarrow> bool" where
  "is_eos b = ((b_flag b AND EOS_FLAG) \<noteq> 0)"

text \<open>\<^verbatim>\<open>AVBuffer::GetConfig\<close> refreshes the stored configuration and returns it.\<close>

definition AVBuffer_GetConfig :: "AVBuffer \<Rightarrow> AVBuffer" where
  "AVBuffer_GetConfig b =
     (case b_memory b of None \<Rightarrow> b
      | Some m \<Rightarrow>
        let c = (b_config b)\<lparr>c_size := m_size m\<rparr> in
        if c_memoryType c = UNKNOWN_MEMORY then
          let c = c\<lparr>c_memoryType := m_type m, c_capacity := m_capacity m, c_align := m_align m,
                    c_memoryFlag := m_flag m\<rparr>;
              c = (case m_type m of
                     HARDWARE_MEMORY \<Rightarrow> c\<lparr>c_dmaFd := m_fd m\<rparr>
                   | SURFACE_MEMORY \<Rightarrow>
                       c\<lparr>c_surface := (m_surface m)\<lparr>s_timeout := s_timeout (c_surface c)\<rparr>\<rparr>
                   | _ \<Rightarrow> c)
          in b\<lparr>b_config := c\<rparr>
        else b\<lparr>b_config := c\<rparr>)"

text \<open>
  \<^verbatim>\<open>AVBuffer::CreateAVBuffer(allocator, capacity, align)\<close>: a null allocator is \<open>None\<close>, else its
  memory type. The constructor draws a unique id even when the memory cannot be created.
\<close>

definition CreateAVBuffer_alloc ::
  "(MemoryType \<Rightarrow> int \<Rightarrow> int \<Rightarrow> AVMemory option) \<Rightarrow> (nat \<Rightarrow> 8 word) \<Rightarrow> Meta option
   \<Rightarrow> MemoryType option \<Rightarrow> int \<Rightarrow> int \<Rightarrow> IdGen \<Rightarrow> AVBuffer option \<times> IdGen" where
  "CreateAVBuffer_alloc ext junk freshMeta allocator capacity align g =
     (case allocator of None \<Rightarrow> (None, g)
      | Some type \<Rightarrow>
        if \<not> capacity \<ge> 0 then (None, g)
        else if \<not> align \<ge> 0 then (None, g)
        else
          let (uid, g') = GenerateUniqueId g
          in case CreateAVMemory ext junk type capacity align of
               None \<Rightarrow> (None, g')
             | Some m \<Rightarrow>
                 (Some \<lparr>b_pts = 0, b_dts = 0, b_duration = 0, b_flag = 0, b_meta = freshMeta,
                    b_memory = Some m, b_config = default_config, b_uid = uid\<rparr>, g'))"

text \<open>\<^verbatim>\<open>AVBuffer::CreateAVBuffer(config)\<close>.\<close>

definition CreateAVBuffer ::
  "(MemoryType \<Rightarrow> int \<Rightarrow> int \<Rightarrow> AVMemory option) \<Rightarrow> (nat \<Rightarrow> 8 word) \<Rightarrow> Meta option
   \<Rightarrow> AVBufferConfig \<Rightarrow> IdGen \<Rightarrow> AVBuffer option \<times> IdGen" where
  "CreateAVBuffer ext junk freshMeta config g =
     (let capacity = max (c_size config) (c_capacity config);
          memflag = (if c_memoryType config \<in> {SHARED_MEMORY, HARDWARE_MEMORY}
                     then c_memoryFlag config else MEMORY_READ_WRITE)
      in if c_memoryType config \<notin> {VIRTUAL_MEMORY, SHARED_MEMORY, SURFACE_MEMORY, HARDWARE_MEMORY}
         then (None, g)
         else case CreateAVBuffer_alloc ext junk freshMeta (Some (c_memoryType config)) capacity
                     (c_align config) g of
                (None, g') \<Rightarrow> (None, g')
              | (Some b, g') \<Rightarrow>
                  (Some (b\<lparr>b_config := config\<lparr>c_capacity := capacity, c_memoryFlag := memflag\<rparr>\<rparr>), g'))"

text \<open>\<^verbatim>\<open>AVBuffer::CopyAVMemory\<close>, the memory part of \<^verbatim>\<open>Clone\<close>.\<close>

definition CopyAVMemory ::
  "(int \<Rightarrow> int \<Rightarrow> bool) \<Rightarrow> AVMemory option \<Rightarrow> AVMemory option \<Rightarrow> Status \<times> AVMemory option" where
  "CopyAVMemory memcpy_s srcMemory dstMemory =
     (case (srcMemory, dstMemory) of
        (Some s, Some d) \<Rightarrow>
          (case (m_base s, m_base d) of
             (Some sb, Some db) \<Rightarrow>
               if m_size s > m_capacity d then (ERROR_INVALID_BUFFER_SIZE, dstMemory)
               else if \<not> memcpy_s (m_capacity d) (m_size s) then (ERROR_UNKNOWN, dstMemory)
               else
                 let data = take (nat (m_size s)) (drop (nat (m_offset s)) sb);
                     d1 = d\<lparr>m_base := Some (overwrite 0 data db)\<rparr>;
                     d2 = snd (AVMemory_SetSize (m_size s) d1);
                     d3 = snd (AVMemory_SetOffset (m_offset s) d2)
                 in (OK, Some d3)
           | _ \<Rightarrow> (ERROR_NULL_POINT_BUFFER, dstMemory))
      | _ \<Rightarrow> (ERROR_NULL_POINT_BUFFER, dstMemory))"

text \<open>\<^verbatim>\<open>AVBuffer::Clone\<close> (\<^verbatim>\<open>CopyMeta\<close> inlined): the status and the destination buffer.\<close>

definition AVBuffer_Clone ::
  "(int \<Rightarrow> int \<Rightarrow> bool) \<Rightarrow> AVBuffer option \<Rightarrow> AVBuffer option \<Rightarrow> Status \<times> AVBuffer option" where
  "AVBuffer_Clone memcpy_s srcBuffer dstBuffer =
     (case (srcBuffer, dstBuffer) of
        (Some s, Some d) \<Rightarrow>
          let d1 = d\<lparr>b_pts := b_pts s, b_dts := b_dts s, b_duration := b_duration s,
                     b_flag := b_flag s, b_meta := b_meta s\<rparr>
          in if is_eos d1 then (OK, Some d1)
             else let (r, m) = CopyAVMemory memcpy_s (b_memory s) (b_memory d1)
                  in (r, Some (d1\<lparr>b_memory := m\<rparr>))
      | _ \<Rightarrow> (ERROR_INVALID_PARAMETER, dstBuffer))"

section \<open>Well-formed memory\<close>

text \<open>The bounds every memory object keeps: size and offset within the capacity, and a base array
  that is as long as the capacity says.\<close>

definition mem_wf :: "AVMemory \<Rightarrow> bool" where
  "mem_wf m =
     (0 \<le> m_size m \<and> m_size m \<le> m_capacity m \<and> 0 \<le> m_offset m \<and> m_offset m \<le> m_capacity m \<and>
      (case m_base m of None \<Rightarrow> True | Some b \<Rightarrow> length b = nat (m_capacity m)))"

lemma length_overwrite [simp]:
  "pos + length s \<le> length d \<Longrightarrow> length (overwrite pos s d) = length d"
  by (simp add: overwrite_def)

lemma overwrite_append:
  "p + length a + length b \<le> length m \<Longrightarrow>
     overwrite (p + length a) b (overwrite p a m) = overwrite p (a @ b) m"
  by (simp add: overwrite_def add.commute add.left_commute)

lemma take_overwrite: "length a \<le> length m \<Longrightarrow> take (length a) (overwrite 0 a m) = a"
  by (simp add: overwrite_def)

lemma overwrite_nth:
  "pos + length src \<le> length d \<Longrightarrow> i < length d \<Longrightarrow>
     overwrite pos src d ! i = (if pos \<le> i \<and> i < pos + length src then src ! (i - pos) else d ! i)"
  by (auto simp: overwrite_def nth_append)

lemma overwrite_read [simp]:
  "pos + length s \<le> length d \<Longrightarrow> take (length s) (drop pos (overwrite pos s d)) = s"
  by (simp add: overwrite_def)

lemma AVVirtualMemory_Init_wf:
  "AVVirtualMemory_Init junk capacity align = Some m \<Longrightarrow> mem_wf m"
  by (auto simp: AVVirtualMemory_Init_def mem_wf_def Let_def split: if_splits)

lemma AVMemory_SetSize_wf: "mem_wf m \<Longrightarrow> mem_wf (snd (AVMemory_SetSize sz m))"
  by (auto simp: AVMemory_SetSize_def mem_wf_def split: option.splits)

lemma AVMemory_SetOffset_wf: "mem_wf m \<Longrightarrow> mem_wf (snd (AVMemory_SetOffset off m))"
  by (auto simp: AVMemory_SetOffset_def mem_wf_def split: option.splits)

lemma AVMemory_Reset_wf: "mem_wf m \<Longrightarrow> mem_wf (AVMemory_Reset m)"
  by (auto simp: AVMemory_Reset_def mem_wf_def split: option.splits)

lemma AVMemory_Write_wf:
  assumes wf: "mem_wf m"
  shows "mem_wf (snd (AVMemory_Write memcpy_s inp n position m))"
proof -
  define start where "start = (if position \<le> -1 then m_size m else min position (m_capacity m))"
  define len where "len = min n (m_capacity m - start)"
  let ?r = "snd (AVMemory_Write memcpy_s inp n position m)"
  have "?r = m \<or> (\<exists>src base. m_base m = Some base \<and> 0 < n \<and>
      ?r = m\<lparr>m_base := Some (overwrite (nat start) (take (nat len) src) base), m_size := start + len\<rparr>)"
    unfolding AVMemory_Write_def Let_def start_def [symmetric] len_def [symmetric]
    by (cases inp; cases "m_base m") auto
  then show ?thesis
  proof (elim disjE exE conjE)
    assume "?r = m"
    with wf show ?thesis by simp
  next
    fix src base
    assume b: "m_base m = Some base" "0 < n"
      and r: "?r = m\<lparr>m_base := Some (overwrite (nat start) (take (nat len) src) base), m_size := start + len\<rparr>"
    have st: "0 \<le> start" "start \<le> m_capacity m"
      using wf by (auto simp: start_def mem_wf_def)
    have len: "0 \<le> len" "start + len \<le> m_capacity m"
      using st b(2) by (auto simp: len_def)
    have "nat start + length (take (nat len) src) \<le> length base"
      using wf b st len by (auto simp: mem_wf_def)
    then show ?thesis
      using wf b st len unfolding r by (simp add: mem_wf_def)
  qed
qed

section \<open>Properties\<close>

text \<open>C32: Every mutator of \<^verbatim>\<open>AVMemory\<close> (SetSize, SetOffset, Reset, Write) keeps the memory well formed:
  size and offset stay within the capacity and the base array keeps its length, whatever sizes,
  positions and data the caller passes and whether or not the copy succeeds.\<close>

theorem AVMemory_ops_preserve_wf:
  assumes "mem_wf m"
  shows "mem_wf (snd (AVMemory_SetSize sz m)) \<and> mem_wf (snd (AVMemory_SetOffset off m)) \<and>
    mem_wf (AVMemory_Reset m) \<and> mem_wf (snd (AVMemory_Write memcpy_s inp n position m))"
  using assms
  by (simp add: AVMemory_SetSize_wf AVMemory_SetOffset_wf AVMemory_Reset_wf AVMemory_Write_wf)

definition sample_memory :: AVMemory where
  "sample_memory = \<lparr>m_type = VIRTUAL_MEMORY, m_flag = MEMORY_READ_WRITE, m_capacity = 4, m_align = 0,
     m_offset = 0, m_size = 1, m_base = Some [9, 0, 0, 0], m_fd = -1, m_surface = default_surface\<rparr>"

lemma sample_memory_wf: "mem_wf sample_memory"
  by (simp add: mem_wf_def sample_memory_def)

theorem AVMemory_ops_preserve_wf_witness:
  "mem_wf (snd (AVMemory_Write (\<lambda>d k. 0 < d \<and> k \<le> d) (Some [5, 6, 7, 8, 9]) 5 (-1) sample_memory))"
  using AVMemory_ops_preserve_wf [OF sample_memory_wf] by blast

text \<open>What \<^verbatim>\<open>AVMemory::Write\<close> stores is what \<^verbatim>\<open>AVMemory::Read\<close> returns: a write of
  data that fits, at an explicit position or appended at the current size (position -1), reports
  its full length, and reading that length back at the place it went to yields exactly the data.\<close>

theorem AVMemory_write_read:
  assumes "memcpy_ok memcpy_s" "mem_wf m" "m_base m = Some base"
    and "(m_flag m AND MEMORY_WRITE_ONLY) \<noteq> 0" "(m_flag m AND MEMORY_READ_ONLY) \<noteq> 0"
    and "data \<noteq> []" "start = (if position \<le> -1 then m_size m else position)"
    and "start + int (length data) \<le> m_capacity m"
  shows "\<exists>m'. AVMemory_Write memcpy_s (Some data) (int (length data)) position m =
      (int (length data), m') \<and> m_size m' = start + int (length data) \<and>
      AVMemory_Read memcpy_s True (int (length data)) start m' = (int (length data), data)"
proof -
  let ?n = "int (length data)"
  have n: "0 < ?n" using assms(6) by simp
  have cp: "memcpy_s ?n ?n" using assms(1) n by (auto simp: memcpy_ok_def)
  have st: "0 \<le> start" using assms(2,7) by (auto simp: mem_wf_def split: if_splits)
  have start: "(if position \<le> -1 then m_size m else min position (m_capacity m)) = start"
    using assms(7,8) n by auto
  have len: "min ?n (m_capacity m - start) = ?n" using assms(8) by simp
  define m' where "m' = m\<lparr>m_base := Some (overwrite (nat start) data base), m_size := start + ?n\<rparr>"
  have fits: "nat start + length data \<le> length base"
    using assms(2,3,8) st by (auto simp: mem_wf_def)
  have w: "AVMemory_Write memcpy_s (Some data) ?n position m = (?n, m')"
    using assms(3,4,8) n cp unfolding AVMemory_Write_def Let_def start len
    by (simp add: m'_def)
  have "AVMemory_Read memcpy_s True ?n start m' = (?n, data)"
    using assms(5,6,8) n cp st fits by (simp add: AVMemory_Read_def m'_def)
  with w show ?thesis by (auto simp: m'_def)
qed

theorem AVMemory_write_read_witness:
  "\<exists>m'. AVMemory_Write (\<lambda>d k. 0 < d \<and> k \<le> d) (Some [5, 6]) (int (length [5, 6 :: 8 word])) (-1) sample_memory =
      (int (length [5, 6 :: 8 word]), m') \<and> m_size m' = 1 + int (length [5, 6 :: 8 word]) \<and>
      AVMemory_Read (\<lambda>d k. 0 < d \<and> k \<le> d) True (int (length [5, 6 :: 8 word])) 1 m' =
        (int (length [5, 6 :: 8 word]), [5, 6])"
  by (rule AVMemory_write_read [where base = "[9, 0, 0, 0]", OF _ sample_memory_wf])
    (simp_all add: memcpy_ok_def sample_memory_def MEMORY_READ_WRITE_def MEMORY_READ_ONLY_def
      MEMORY_WRITE_ONLY_def)

text \<open>\<^verbatim>\<open>AVBuffer::Clone\<close> of a buffer with a non-zero memory offset misplaces its
  payload: the data is copied to the start of the destination, yet the source's offset is set on
  it, so reading the clone at its own offset does not give the source's data at its offset.\<close>

theorem AVBuffer_Clone_offset_misplaced:
  "\<exists>src dst d. mem_wf src \<and> mem_wf dst \<and>
     CopyAVMemory (\<lambda>dm k. 0 < dm \<and> k \<le> dm) (Some src) (Some dst) = (OK, Some d) \<and>
     m_offset d = m_offset src \<and> m_size d = m_size src \<and>
     take (nat (m_size d)) (drop (nat (m_offset d)) (the (m_base d))) \<noteq>
       take (nat (m_size src)) (drop (nat (m_offset src)) (the (m_base src)))"
proof -
  let ?src = "sample_memory\<lparr>m_offset := 2, m_size := 2, m_base := Some [1, 2, 3, 4]\<rparr>"
  let ?dst = "sample_memory\<lparr>m_base := Some [0, 0, 0, 0]\<rparr>"
  let ?d = "sample_memory\<lparr>m_offset := 2, m_size := 2, m_base := Some [3, 4, 0, 0]\<rparr>"
  have "CopyAVMemory (\<lambda>dm k. 0 < dm \<and> k \<le> dm) (Some ?src) (Some ?dst) = (OK, Some ?d)"
    by (simp add: CopyAVMemory_def sample_memory_def overwrite_def AVMemory_SetSize_def
        AVMemory_SetOffset_def)
  moreover have "mem_wf ?src" "mem_wf ?dst"
    by (simp_all add: mem_wf_def sample_memory_def)
  moreover have "take (nat (m_size ?d)) (drop (nat (m_offset ?d)) (the (m_base ?d))) \<noteq>
       take (nat (m_size ?src)) (drop (nat (m_offset ?src)) (the (m_base ?src)))"
    by simp
  ultimately show ?thesis
    by (intro exI [of _ ?src] exI [of _ ?dst] exI [of _ ?d]) simp
qed

text \<open>The counter after any number of draws, and the ids in terms of the counter.\<close>

definition next_uid_counter :: "nat \<Rightarrow> nat" where
  "next_uid_counter c = (if c = 2 ^ 32 - 1 then 1 else c + 1)"

definition uid_draw :: "IdGen \<Rightarrow> nat \<Rightarrow> nat" where
  "uid_draw g n = fst (GenerateUniqueId (((snd \<circ> GenerateUniqueId) ^^ n) g))"

lemma GenerateUniqueId_counter:
  "g_bufferId (((snd \<circ> GenerateUniqueId) ^^ n) g) = (next_uid_counter ^^ n) (g_bufferId g)
   \<and> g_startTime (((snd \<circ> GenerateUniqueId) ^^ n) g) = g_startTime g
   \<and> g_processId (((snd \<circ> GenerateUniqueId) ^^ n) g) = g_processId g"
  by (induction n) (simp_all add: GenerateUniqueId_def next_uid_counter_def)

lemma next_uid_counter_pow:
  assumes "c < 2 ^ 32"
  shows "(next_uid_counter ^^ Suc n) c = (c + n) mod (2 ^ 32 - 1) + 1"
proof (induction n)
  case 0
  show ?case using assms by (auto simp: next_uid_counter_def)
next
  case (Suc n)
  have "(next_uid_counter ^^ Suc (Suc n)) c = next_uid_counter ((c + n) mod (2 ^ 32 - 1) + 1)"
    using Suc.IH by simp
  also have "\<dots> = (c + Suc n) mod (2 ^ 32 - 1) + 1"
  proof (cases "(c + n) mod (2 ^ 32 - 1) + 1 = 2 ^ 32 - 1")
    case True
    then show ?thesis by (simp add: next_uid_counter_def mod_Suc)
  next
    case False
    then have "Suc ((c + n) mod (2 ^ 32 - 1)) \<noteq> 2 ^ 32 - 1" by simp
    with False show ?thesis by (simp add: next_uid_counter_def mod_Suc)
  qed
  finally show ?case .
qed

lemma uid_draw_eq:
  assumes "g_bufferId g < 2 ^ 32"
  shows "uid_draw g n = g_startTime g mod 2 ^ 16 + (g_processId g mod 2 ^ 16) * 2 ^ 16
     + ((g_bufferId g + n) mod (2 ^ 32 - 1) + 1) * 2 ^ 32"
proof -
  have "next_uid_counter ((next_uid_counter ^^ n) (g_bufferId g)) = (g_bufferId g + n) mod (2 ^ 32 - 1) + 1"
    using next_uid_counter_pow [OF assms, of n] by simp
  then show ?thesis
    using GenerateUniqueId_counter [of n g]
    by (simp add: uid_draw_def GenerateUniqueId_def Let_def next_uid_counter_def split: if_splits)
qed

lemma mod_add_neq:
  assumes "i < j" "j - i < (M :: nat)"
  shows "(c + i) mod M \<noteq> (c + j) mod M"
proof
  assume "(c + i) mod M = (c + j) mod M"
  then have "M dvd (c + j) - (c + i)"
    using mod_eq_dvd_iff_nat [of "c + i" "c + j" M] assms(1) by simp
  then show False
    using assms by (auto dest: dvd_imp_le)
qed

text \<open>Any two unique ids that a process draws fewer than \<open>2^32 - 1\<close> draws apart differ,
  including across the wrap-around of the 32-bit counter, and every id fits in 64 bits with the
  process id in bits 16 to 31. Reuse is only possible after the counter has gone all the way round.\<close>

theorem GenerateUniqueId_distinct:
  assumes "g_bufferId g < 2 ^ 32" "i < j" "j - i < 2 ^ 32 - 1"
  shows "uid_draw g i \<noteq> uid_draw g j \<and> uid_draw g i < 2 ^ 64 \<and>
    uid_draw g i div 2 ^ 16 mod 2 ^ 16 = g_processId g mod 2 ^ 16"
proof -
  let ?k = "(g_bufferId g + i) mod (2 ^ 32 - 1)"
  let ?a = "g_startTime g mod 2 ^ 16" and ?p = "g_processId g mod 2 ^ 16"
  have eq: "uid_draw g i = ?a + ?p * 2 ^ 16 + (?k + 1) * 2 ^ 32"
    using uid_draw_eq [OF assms(1)] .
  have "?k \<noteq> (g_bufferId g + j) mod (2 ^ 32 - 1)"
    using mod_add_neq [OF assms(2,3)] .
  then have ne: "uid_draw g i \<noteq> uid_draw g j"
    using uid_draw_eq [OF assms(1)] by simp
  have "?k < 2 ^ 32 - 1" "?a < 2 ^ 16" "?p < 2 ^ 16"
    by simp_all
  then have bound: "uid_draw g i < 2 ^ 64"
    unfolding eq by simp
  have "uid_draw g i div 2 ^ 16 = ?p + (?k + 1) * 2 ^ 16"
    unfolding eq by simp
  then have "uid_draw g i div 2 ^ 16 mod 2 ^ 16 = ?p"
    by (simp only: mod_mult_self1 mod_mod_trivial)
  with ne bound show ?thesis by blast
qed

theorem GenerateUniqueId_distinct_witness:
  "uid_draw \<lparr>g_startTime = 77, g_processId = 42, g_bufferId = 2 ^ 32 - 2\<rparr> 0 \<noteq>
   uid_draw \<lparr>g_startTime = 77, g_processId = 42, g_bufferId = 2 ^ 32 - 2\<rparr> 3"
  using GenerateUniqueId_distinct [of "\<lparr>g_startTime = 77, g_processId = 42, g_bufferId = 2 ^ 32 - 2\<rparr>" 0 3]
  by simp

end
