(* ===== verification/Buffer_Queue.thy ===== *)
theory Buffer_Queue
  imports AV_Buffer
begin

text \<open>
  The producer/consumer buffer queue, \<^verbatim>\<open>AVBufferQueueImpl\<close> of
  \<^verbatim>\<open>src/buffer/avbuffer_queue/avbuffer_queue.cpp\<close>: definitions only, in the order of the
  source. The queue refers to buffers by pointer; a pointer is the unique id of the object it points
  to, \<open>None\<close> is the null pointer, and \<open>q_heap\<close> holds the buffer objects, which producers and
  consumers change while they own them. An operation that dereferences null has no result
  (\<open>None\<close>). Callbacks to listeners and notifications of the condition variable are recorded in
  \<open>q_events\<close>.

  Operations run under the queue's mutex. Where the source gives the mutex up (a request waiting for
  a free buffer, a push between its two locked sections), the parameter \<open>others\<close> is what the other
  threads do to the queue meanwhile.
\<close>

section \<open>State\<close>

datatype AVBufferState =
    AVBUFFER_STATE_RELEASED
  | AVBUFFER_STATE_REQUESTED
  | AVBUFFER_STATE_PUSHED
  | AVBUFFER_STATE_RETURNED
  | AVBUFFER_STATE_ACQUIRED
  | AVBUFFER_STATE_ATTACHED

type_synonym bufid = nat

record AVBufferElement =
  e_config :: AVBufferConfig
  e_state :: AVBufferState
  e_isDeleting :: bool
  e_buffer :: "bufid option"

text \<open>What \<^verbatim>\<open>std::map::operator[]\<close> inserts for a missing key.\<close>

definition default_elem :: AVBufferElement where
  "default_elem = \<lparr>e_config = default_config, e_state = AVBUFFER_STATE_RELEASED,
     e_isDeleting = False, e_buffer = None\<rparr>"

datatype queue_event =
    RequestConditionNotifyAll
  | ProducerOnBufferAvailable nat
  | ConsumerOnBufferAvailable nat
  | BrokerOnBufferFilled nat bufid

text \<open>The environment of allocations: external memories, fresh bytes and fresh metadata.\<close>

record alloc_env =
  a_ext :: "MemoryType \<Rightarrow> int \<Rightarrow> int \<Rightarrow> AVMemory option"
  a_junk :: "nat \<Rightarrow> 8 word"
  a_meta :: "Meta option"

record bq =
  q_size :: nat
  q_memoryType :: MemoryType
  q_disableAlloc :: bool
  q_cached :: "(bufid, AVBufferElement) smap"
  q_free :: "bufid list"
  q_dirty :: "bufid list"
  q_memoryUsage :: "32 word"
  q_broker :: "nat option list"
  q_producer :: "nat option"
  q_consumer :: "nat option"
  q_heap :: "bufid \<Rightarrow> AVBuffer option"
  q_ids :: IdGen
  q_events :: "queue_event list"

definition AVBUFFER_QUEUE_MAX_QUEUE_SIZE :: nat where
  "AVBUFFER_QUEUE_MAX_QUEUE_SIZE = 500"

definition AVBUFFER_QUEUE_MAX_QUEUE_SIZE_FOR_LARGER :: nat where
  "AVBUFFER_QUEUE_MAX_QUEUE_SIZE_FOR_LARGER = 500"

definition AVBufferQueueImpl :: "nat \<Rightarrow> MemoryType \<Rightarrow> bool \<Rightarrow> IdGen \<Rightarrow> (bufid \<Rightarrow> AVBuffer option) \<Rightarrow> bq" where
  "AVBufferQueueImpl sz type disableAlloc g heap =
     \<lparr>q_size = (if sz > AVBUFFER_QUEUE_MAX_QUEUE_SIZE then AVBUFFER_QUEUE_MAX_QUEUE_SIZE else sz),
      q_memoryType = type, q_disableAlloc = disableAlloc, q_cached = [], q_free = [], q_dirty = [],
      q_memoryUsage = 0, q_broker = [], q_producer = None, q_consumer = None, q_heap = heap,
      q_ids = g, q_events = []\<rparr>"

definition emit :: "queue_event \<Rightarrow> bq \<Rightarrow> bq" where
  "emit e q = q\<lparr>q_events := q_events q @ [e]\<rparr>"

section \<open>The cached buffer map\<close>

definition cached :: "bq \<Rightarrow> bufid \<Rightarrow> AVBufferElement option" where
  "cached q uid = map_of (q_cached q) uid"

text \<open>\<^verbatim>\<open>cachedBufferMap_[id]\<close>: \<open>touch\<close> is its side effect, \<open>elem_at\<close> its value.\<close>

definition touch :: "bufid \<Rightarrow> bq \<Rightarrow> bq" where
  "touch uid q = (if cached q uid = None then q\<lparr>q_cached := smap_put uid default_elem (q_cached q)\<rparr> else q)"

definition elem_at :: "bq \<Rightarrow> bufid \<Rightarrow> AVBufferElement" where
  "elem_at q uid = (case cached q uid of None \<Rightarrow> default_elem | Some e \<Rightarrow> e)"

definition store_elem :: "bufid \<Rightarrow> AVBufferElement \<Rightarrow> bq \<Rightarrow> bq" where
  "store_elem uid e q = q\<lparr>q_cached := smap_put uid e (q_cached q)\<rparr>"

definition set_state :: "bufid \<Rightarrow> AVBufferState \<Rightarrow> bq \<Rightarrow> bq" where
  "set_state uid s q = store_elem uid ((elem_at q uid)\<lparr>e_state := s\<rparr>) q"

definition GetCachedBufferCount :: "bq \<Rightarrow> nat" where
  "GetCachedBufferCount q = length (q_cached q)"

definition IsBufferInQueue :: "bufid option \<Rightarrow> bq \<Rightarrow> bool" where
  "IsBufferInQueue buffer q = (case buffer of None \<Rightarrow> False | Some uid \<Rightarrow> cached q uid \<noteq> None)"

text \<open>\<^verbatim>\<open>buffer->GetConfig()\<close> through a pointer; \<open>None\<close> when it is null.\<close>

definition deref_GetConfig :: "bufid option \<Rightarrow> bq \<Rightarrow> (AVBufferConfig \<times> bq) option" where
  "deref_GetConfig p q =
     (case p of None \<Rightarrow> None
      | Some uid \<Rightarrow> (case q_heap q uid of None \<Rightarrow> None
          | Some b \<Rightarrow> let b' = AVBuffer_GetConfig b
                     in Some (b_config b', q\<lparr>q_heap := (q_heap q)(uid \<mapsto> b')\<rparr>)))"

section \<open>Memory accounting and deletion\<close>

definition TotalMemoryCalculation :: "bool \<Rightarrow> int \<Rightarrow> bq \<Rightarrow> bq" where
  "TotalMemoryCalculation isAdd capacity q =
     (if \<not> capacity > 0 then q
      else let capacityUint = (word_of_int capacity :: 32 word)
           in if isAdd then q\<lparr>q_memoryUsage := q_memoryUsage q + capacityUint\<rparr>
              else if \<not> capacityUint \<le> q_memoryUsage q then q
              else q\<lparr>q_memoryUsage := q_memoryUsage q - capacityUint\<rparr>)"

definition DeleteCachedBufferById :: "bufid \<Rightarrow> bq \<Rightarrow> bq" where
  "DeleteCachedBufferById uid q =
     (case cached q uid of None \<Rightarrow> q
      | Some e \<Rightarrow> (TotalMemoryCalculation False (c_capacity (e_config e)) q)
                    \<lparr>q_cached := smap_erase uid (q_cached q)\<rparr>)"

text \<open>The two list loops of \<^verbatim>\<open>DeleteBuffers\<close>: how many are still to delete, what is left of the
  list, and the queue.\<close>

fun delete_from_list :: "nat \<Rightarrow> bufid list \<Rightarrow> bq \<Rightarrow> nat \<times> bufid list \<times> bq" where
  "delete_from_list count [] q = (count, [], q)"
| "delete_from_list count (x # xs) q =
     (let q' = DeleteCachedBufferById x q; count' = count - 1
      in if count' = 0 then (0, xs, q') else delete_from_list count' xs q')"

fun mark_deleting :: "nat \<Rightarrow> (bufid, AVBufferElement) smap \<Rightarrow> (bufid, AVBufferElement) smap" where
  "mark_deleting count [] = []"
| "mark_deleting count ((k, e) # m) =
     (let count' = count - 1; h = (k, e\<lparr>e_isDeleting := True\<rparr>)
      in if count' = 0 then h # m else h # mark_deleting count' m)"

definition DeleteBuffers :: "nat \<Rightarrow> bq \<Rightarrow> bq" where
  "DeleteBuffers count q =
     (if \<not> count > 0 then q
      else let (c1, free, q1) = delete_from_list count (q_free q) q;
               q1 = q1\<lparr>q_free := free\<rparr>
           in if c1 = 0 then q1
              else let (c2, dirty, q2) = delete_from_list c1 (q_dirty q1) q1;
                       q2 = q2\<lparr>q_dirty := dirty\<rparr>
                   in if c2 = 0 then q2
                      else q2\<lparr>q_cached := mark_deleting c2 (q_cached q2)\<rparr>)"

section \<open>Queue size\<close>

text \<open>\<^verbatim>\<open>SetQueueSizeBeforeAttachBufferLocked\<close>, also the body of \<^verbatim>\<open>SetLargerQueueSizeLocked\<close>.\<close>

definition SetQueueSizeBeforeAttachBufferLocked :: "nat \<Rightarrow> bq \<Rightarrow> bq" where
  "SetQueueSizeBeforeAttachBufferLocked sz q =
     (if sz > q_size q then
        let q1 = q\<lparr>q_size := sz\<rparr>
        in if \<not> q_disableAlloc q then emit RequestConditionNotifyAll q1 else q1
      else (DeleteBuffers (q_size q - sz) q)\<lparr>q_size := sz\<rparr>)"

definition SetLargerQueueSizeLocked :: "nat \<Rightarrow> bq \<Rightarrow> Status \<times> bq" where
  "SetLargerQueueSizeLocked sz q =
     (if \<not> (sz \<ge> 0 \<and> sz \<le> AVBUFFER_QUEUE_MAX_QUEUE_SIZE_FOR_LARGER \<and> sz \<noteq> q_size q)
      then (ERROR_INVALID_BUFFER_SIZE, q)
      else (OK, SetQueueSizeBeforeAttachBufferLocked sz q))"

definition SetLargerQueueSize :: "nat \<Rightarrow> bq \<Rightarrow> Status \<times> bq" where
  "SetLargerQueueSize sz q = SetLargerQueueSizeLocked sz q"

definition SetQueueSize :: "nat \<Rightarrow> bq \<Rightarrow> Status \<times> bq" where
  "SetQueueSize sz q =
     (if \<not> (sz \<ge> 0 \<and> sz \<le> AVBUFFER_QUEUE_MAX_QUEUE_SIZE \<and> sz \<noteq> q_size q)
      then (ERROR_INVALID_BUFFER_SIZE, q)
      else SetLargerQueueSizeLocked sz q)"

section \<open>The free and the dirty list\<close>

text \<open>The loop of \<^verbatim>\<open>InsertFreeBufferInOrder\<close>; the comparison reads both entries with
  \<^verbatim>\<open>operator[]\<close>.\<close>

fun insert_in_order :: "bufid \<Rightarrow> bufid list \<Rightarrow> bq \<Rightarrow> bufid list \<times> bq" where
  "insert_in_order uid [] q = ([uid], q)"
| "insert_in_order uid (x # xs) q =
     (if x = uid then (let (l, q') = insert_in_order uid xs q in (x # l, q'))
      else let q1 = touch uid (touch x q)
           in if c_capacity (e_config (elem_at q1 x)) \<ge> c_capacity (e_config (elem_at q1 uid))
              then (uid # x # xs, q1)
              else (let (l, q') = insert_in_order uid xs q1 in (x # l, q')))"

definition InsertFreeBufferInOrder :: "bufid \<Rightarrow> bq \<Rightarrow> bq" where
  "InsertFreeBufferInOrder uid q =
     (let (l, q') = insert_in_order uid (q_free q) q in q'\<lparr>q_free := l\<rparr>)"

text \<open>The search loop of \<^verbatim>\<open>PopFromFreeBufferList\<close>: the pointer found and the list without it.\<close>

fun find_fitting :: "AVBufferConfig \<Rightarrow> bufid list \<Rightarrow> bq \<Rightarrow> (bufid option \<times> bufid list) option \<times> bq" where
  "find_fitting config [] q = (None, q)"
| "find_fitting config (x # xs) q =
     (let q1 = touch x q
      in if config_le config (e_config (elem_at q1 x)) then (Some (e_buffer (elem_at q1 x), xs), q1)
         else (case find_fitting config xs q1 of
                 (None, q2) \<Rightarrow> (None, q2)
               | (Some (b, rest), q2) \<Rightarrow> (Some (b, x # rest), q2)))"

definition PopFromFreeBufferList :: "AVBufferConfig \<Rightarrow> bq \<Rightarrow> Status \<times> bufid option \<times> bq" where
  "PopFromFreeBufferList config q =
     (case find_fitting config (q_free q) q of
        (Some (b, rest), q1) \<Rightarrow> (OK, b, q1\<lparr>q_free := rest\<rparr>)
      | (None, q1) \<Rightarrow>
          (case q_free q1 of
             [] \<Rightarrow> (ERROR_NO_FREE_BUFFER, None, q1)
           | x # xs \<Rightarrow> let q2 = touch x q1
                       in (OK, e_buffer (elem_at q2 x), q2\<lparr>q_free := xs\<rparr>)))"

definition PopFromDirtyBufferList :: "bufid option \<Rightarrow> bq \<Rightarrow> Status \<times> bufid option \<times> bq" where
  "PopFromDirtyBufferList buffer q =
     (case q_dirty q of
        [] \<Rightarrow> (ERROR_NO_DIRTY_BUFFER, buffer, q)
      | x # xs \<Rightarrow> let q1 = touch x q in (OK, e_buffer (elem_at q1 x), q1\<lparr>q_dirty := xs\<rparr>))"

section \<open>Requesting a buffer\<close>

definition AllocBuffer :: "alloc_env \<Rightarrow> bufid option \<Rightarrow> AVBufferConfig \<Rightarrow> bq \<Rightarrow> Status \<times> bufid option \<times> bq" where
  "AllocBuffer env buffer config q =
     (case CreateAVBuffer (a_ext env) (a_junk env) (a_meta env) config (q_ids q) of
        (None, g) \<Rightarrow> (ERROR_CREATE_BUFFER, buffer, q\<lparr>q_ids := g\<rparr>)
      | (Some b, g) \<Rightarrow>
          let uniqueId = b_uid b;
              b' = AVBuffer_GetConfig b;
              ele = \<lparr>e_config = b_config b', e_state = AVBUFFER_STATE_RELEASED, e_isDeleting = False,
                     e_buffer = Some uniqueId\<rparr>;
              q1 = q\<lparr>q_ids := g, q_heap := (q_heap q)(uniqueId \<mapsto> b')\<rparr>;
              q2 = store_elem uniqueId ele q1
          in (OK, Some uniqueId, TotalMemoryCalculation True (c_capacity (e_config ele)) q2))"

definition RequestReuseBuffer ::
  "alloc_env \<Rightarrow> bufid option \<Rightarrow> AVBufferConfig \<Rightarrow> bq \<Rightarrow> Status \<times> bufid option \<times> bq" where
  "RequestReuseBuffer env buffer config q =
     (case buffer of None \<Rightarrow> (ERROR_NULL_POINT_BUFFER, buffer, q)
      | Some uniqueId \<Rightarrow>
        if cached q uniqueId = None then (ERROR_CREATE_BUFFER, buffer, q)
        else if config_le config (e_config (elem_at q uniqueId)) then
          let e = elem_at q uniqueId;
              q1 = store_elem uniqueId (e\<lparr>e_config := (e_config e)\<lparr>c_size := c_size config\<rparr>\<rparr>) q
          in (OK, buffer, set_state uniqueId AVBUFFER_STATE_REQUESTED q1)
        else
          let q1 = DeleteCachedBufferById uniqueId q in
          case AllocBuffer env buffer config q1 of
            (r, buf, q2) \<Rightarrow>
              if r \<noteq> OK then (r, buf, q2)
              else (OK, buf, set_state (the buf) AVBUFFER_STATE_REQUESTED q2))"

definition CheckConfig :: "AVBufferConfig \<Rightarrow> bq \<Rightarrow> Status \<times> bq" where
  "CheckConfig config q =
     (if c_memoryType config = UNKNOWN_MEMORY then (ERROR_UNEXPECTED_MEMORY_TYPE, q)
      else if q_memoryType q \<noteq> UNKNOWN_MEMORY \<and> c_memoryType config \<noteq> q_memoryType q
      then (ERROR_UNEXPECTED_MEMORY_TYPE, q)
      else (OK, q\<lparr>q_memoryType := c_memoryType config\<rparr>))"

text \<open>
  \<^verbatim>\<open>wait_for\<close>: a positive timeout waits for the predicate, which the returned flag is the value of
  when the wait ends; a negative one waits for any notification; zero does not wait.
\<close>

definition wait_for :: "(bq \<Rightarrow> bq) \<Rightarrow> int \<Rightarrow> bq \<Rightarrow> bool \<times> bq" where
  "wait_for others timeoutUs q =
     (if timeoutUs > 0 then
        let q' = others q in (q_free q' \<noteq> [] \<or> GetCachedBufferCount q' < q_size q', q')
      else if timeoutUs < 0 then (True, others q)
      else (True, q))"

text \<open>The end of \<^verbatim>\<open>RequestBufferWaitUs\<close>: allocate and hand out.\<close>

definition alloc_and_request ::
  "alloc_env \<Rightarrow> bufid option \<Rightarrow> AVBufferConfig \<Rightarrow> bq \<Rightarrow> Status \<times> bufid option \<times> bq" where
  "alloc_and_request env buffer config q =
     (case AllocBuffer env buffer config q of
        (r, buf, q1) \<Rightarrow>
          if r \<noteq> OK then (r, buf, q1)
          else (OK, buf, set_state (the buf) AVBUFFER_STATE_REQUESTED q1))"

definition RequestBufferWaitUs ::
  "alloc_env \<Rightarrow> (bq \<Rightarrow> bq) \<Rightarrow> bufid option \<Rightarrow> AVBufferConfig \<Rightarrow> int \<Rightarrow> bq \<Rightarrow> Status \<times> bufid option \<times> bq" where
  "RequestBufferWaitUs env others buffer config timeoutUs q =
     (let configCopy = (if c_memoryType config = UNKNOWN_MEMORY
                        then config\<lparr>c_memoryType := q_memoryType q\<rparr> else config);
          (res, q) = CheckConfig configCopy q
      in if res \<noteq> OK then (res, buffer, q)
         else case PopFromFreeBufferList configCopy q of
           (ret, buf, q1) \<Rightarrow>
             if ret = OK then RequestReuseBuffer env buf configCopy q1
             else if GetCachedBufferCount q1 \<ge> q_size q1 then
               (case wait_for others timeoutUs q1 of
                  (woken, q2) \<Rightarrow>
                    if \<not> woken then (ERROR_WAIT_TIMEOUT, buf, q2)
                    else case PopFromFreeBufferList configCopy q2 of
                      (ret2, buf2, q3) \<Rightarrow>
                        if ret2 = OK then RequestReuseBuffer env buf2 configCopy q3
                        else if GetCachedBufferCount q3 \<ge> q_size q3 then (ERROR_NO_FREE_BUFFER, buf2, q3)
                        else alloc_and_request env buf2 configCopy q3)
             else alloc_and_request env buf configCopy q1)"

definition RequestBuffer ::
  "alloc_env \<Rightarrow> (bq \<Rightarrow> bq) \<Rightarrow> bufid option \<Rightarrow> AVBufferConfig \<Rightarrow> int \<Rightarrow> bq \<Rightarrow> Status \<times> bufid option \<times> bq" where
  "RequestBuffer env others buffer config timeoutMs q =
     RequestBufferWaitUs env others buffer config (timeoutMs * 1000) q"

section \<open>Cancelling, returning, pushing\<close>

definition CancelBuffer :: "bufid \<Rightarrow> bq \<Rightarrow> Status \<times> bq" where
  "CancelBuffer uniqueId q =
     (case cached q uniqueId of None \<Rightarrow> (ERROR_INVALID_BUFFER_ID, q)
      | Some e \<Rightarrow>
        if \<not> (e_state e = AVBUFFER_STATE_REQUESTED \<or> e_state e = AVBUFFER_STATE_PUSHED)
        then (ERROR_INVALID_BUFFER_STATE, q)
        else (OK, emit RequestConditionNotifyAll
                    (set_state uniqueId AVBUFFER_STATE_RELEASED (InsertFreeBufferInOrder uniqueId q))))"

definition NotifyProducer :: "bq \<Rightarrow> bq" where
  "NotifyProducer q = (case q_producer q of None \<Rightarrow> q | Some l \<Rightarrow> emit (ProducerOnBufferAvailable l) q)"

definition ReturnBuffer :: "bufid \<Rightarrow> bool \<Rightarrow> bq \<Rightarrow> (Status \<times> bq) option" where
  "ReturnBuffer uniqueId available q =
     (case cached q uniqueId of None \<Rightarrow> Some (ERROR_INVALID_BUFFER_ID, q)
      | Some e \<Rightarrow>
        if e_isDeleting e then Some (OK, DeleteCachedBufferById uniqueId q)
        else if e_state e \<noteq> AVBUFFER_STATE_PUSHED then Some (ERROR_INVALID_BUFFER_STATE, q)
        else if \<not> available then
          (case CancelBuffer uniqueId q of
             (r, q1) \<Rightarrow> if r \<noteq> OK then Some (r, q1) else Some (OK, NotifyProducer q1))
        else
          do {
            (config, q1) \<leftarrow> deref_GetConfig (e_buffer e) q;
            buf \<leftarrow> q_heap q1 (the (e_buffer e));
            if \<not> is_eos buf \<and> \<not> c_size config > 0 then Some (ERROR_INVALID_BUFFER_SIZE, q1)
            else
              let q2 = store_elem uniqueId (e\<lparr>e_config := config, e_state := AVBUFFER_STATE_RETURNED\<rparr>) q1;
                  q3 = q2\<lparr>q_dirty := q_dirty q2 @ [uniqueId]\<rparr>
              in (case q_consumer q3 of
                    None \<Rightarrow> Some (ERROR_NO_CONSUMER_LISTENER, q3)
                  | Some l \<Rightarrow> Some (OK, emit (ConsumerOnBufferAvailable l) q3))
          })"

text \<open>The locked first section of \<^verbatim>\<open>PushBuffer\<close>: \<open>Inl\<close> returns, \<open>Inr\<close> goes on.\<close>

definition push_locked :: "bufid \<Rightarrow> bool \<Rightarrow> bq \<Rightarrow> (Status \<times> bq + bq) option" where
  "push_locked uniqueId available q =
     (case cached q uniqueId of None \<Rightarrow> Some (Inl (ERROR_INVALID_BUFFER_ID, q))
      | Some ele \<Rightarrow>
        if e_isDeleting ele then Some (Inl (OK, DeleteCachedBufferById uniqueId q))
        else do {
          (sizeOk, q1) \<leftarrow> (if available
             then do { (config, q1) \<leftarrow> deref_GetConfig (e_buffer ele) q; Some (c_size config \<ge> 0, q1) }
             else Some (True, q));
          if \<not> sizeOk then Some (Inl (ERROR_INVALID_BUFFER_SIZE, q1))
          else if \<not> (e_state ele = AVBUFFER_STATE_REQUESTED \<or> e_state ele = AVBUFFER_STATE_ATTACHED)
          then Some (Inl (ERROR_INVALID_BUFFER_STATE, q1))
          else Some (Inr (set_state uniqueId AVBUFFER_STATE_PUSHED q1))
        })"

definition PushBuffer :: "(bq \<Rightarrow> bq) \<Rightarrow> bufid \<Rightarrow> bool \<Rightarrow> bq \<Rightarrow> (Status \<times> bq) option" where
  "PushBuffer others uniqueId available q =
     do {
       r \<leftarrow> push_locked uniqueId available q;
       case r of
         Inl res \<Rightarrow> Some res
       | Inr q1 \<Rightarrow>
           let q2 = others q1 in
           if available \<and> q_broker q2 \<noteq> [] \<and> last (q_broker q2) \<noteq> None
           then Some (OK, emit (BrokerOnBufferFilled (the (last (q_broker q2))) uniqueId) q2)
           else ReturnBuffer uniqueId available q2
     }"

section \<open>Detaching, acquiring, releasing\<close>

definition DetachBuffer_force :: "bufid \<Rightarrow> bool \<Rightarrow> bq \<Rightarrow> Status \<times> bq" where
  "DetachBuffer_force uniqueId force q =
     (case cached q uniqueId of None \<Rightarrow> (ERROR_INVALID_BUFFER_ID, q)
      | Some ele \<Rightarrow>
        if \<not> force \<and> e_state ele \<noteq> AVBUFFER_STATE_REQUESTED \<and> e_state ele \<noteq> AVBUFFER_STATE_ACQUIRED
        then (ERROR_INVALID_BUFFER_STATE, q)
        else (OK, (TotalMemoryCalculation False (c_capacity (e_config ele)) q)
                    \<lparr>q_cached := smap_erase uniqueId (q_cached q)\<rparr>))"

definition DetachBuffer :: "bufid option \<Rightarrow> bq \<Rightarrow> Status \<times> bq" where
  "DetachBuffer buffer q =
     (case buffer of None \<Rightarrow> (ERROR_NULL_POINT_BUFFER, q) | Some uid \<Rightarrow> DetachBuffer_force uid False q)"

text \<open>\<^verbatim>\<open>AcquireBuffer\<close> dereferences the popped pointer to find its id.\<close>

definition AcquireBuffer :: "bufid option \<Rightarrow> bq \<Rightarrow> (Status \<times> bufid option \<times> bq) option" where
  "AcquireBuffer buffer q =
     (case PopFromDirtyBufferList buffer q of
        (ret, buf, q1) \<Rightarrow>
          if ret \<noteq> OK then Some (ret, buf, q1)
          else (case buf of None \<Rightarrow> None
            | Some uid \<Rightarrow> Some (OK, buf, set_state uid AVBUFFER_STATE_ACQUIRED q1)))"

definition ReleaseBuffer :: "bufid \<Rightarrow> bq \<Rightarrow> Status \<times> bq" where
  "ReleaseBuffer uniqueId q =
     (case cached q uniqueId of None \<Rightarrow> (ERROR_INVALID_BUFFER_ID, q)
      | Some e \<Rightarrow>
        if \<not> (e_state e = AVBUFFER_STATE_ACQUIRED \<or> e_state e = AVBUFFER_STATE_ATTACHED)
        then (ERROR_INVALID_BUFFER_STATE, q)
        else
          let q1 = set_state uniqueId AVBUFFER_STATE_RELEASED q in
          if e_isDeleting e then (OK, DeleteCachedBufferById uniqueId q1)
          else (OK, NotifyProducer (emit RequestConditionNotifyAll (InsertFreeBufferInOrder uniqueId q1))))"

section \<open>Attaching\<close>

definition AttachAvailableBufferLocked :: "bufid \<Rightarrow> AVBufferConfig \<Rightarrow> bq \<Rightarrow> Status \<times> bq" where
  "AttachAvailableBufferLocked uniqueId config q =
     (let ele = \<lparr>e_config = config, e_state = AVBUFFER_STATE_ATTACHED, e_isDeleting = False,
                 e_buffer = Some uniqueId\<rparr>;
          cachedCount = GetCachedBufferCount q;
          queueSize = q_size q
      in if cachedCount \<ge> queueSize then
           let validCount = length (q_dirty q) + length (q_free q);
               toBeDeleteCount = cachedCount - queueSize
           in if validCount > toBeDeleteCount then
                (OK, TotalMemoryCalculation True (c_capacity config)
                       (store_elem uniqueId ele (DeleteBuffers (toBeDeleteCount + 1) q)))
              else (ERROR_OUT_OF_RANGE, q)
         else (OK, TotalMemoryCalculation True (c_capacity config) (store_elem uniqueId ele q)))"

definition PushBufferOnFilled :: "(bq \<Rightarrow> bq) \<Rightarrow> bufid \<Rightarrow> bool \<Rightarrow> bq \<Rightarrow> (Status \<times> bq) option" where
  "PushBufferOnFilled others uniqueId isFilled q =
     do {
       (ret, q1) \<leftarrow> PushBuffer others uniqueId isFilled q;
       if ret \<noteq> OK then Some (ret, snd (DetachBuffer_force uniqueId True q1)) else Some (ret, q1)
     }"

text \<open>
  \<^verbatim>\<open>AttachBuffer\<close> and \<^verbatim>\<open>SetQueueSizeAndAttachBuffer\<close>: \<open>newSize\<close> is the size argument of the
  latter, \<open>None\<close> for the former. The first part holds the lock: \<open>Inl\<close> returns, \<open>Inr\<close> goes on.
\<close>

definition attach_locked ::
  "nat option \<Rightarrow> bufid option \<Rightarrow> bq \<Rightarrow> (Status \<times> bq + bufid \<times> bq) option" where
  "attach_locked newSize buffer q =
     (case buffer of None \<Rightarrow> Some (Inl (ERROR_NULL_POINT_BUFFER, q))
      | Some uniqueId \<Rightarrow>
        do {
          (config, q1) \<leftarrow> deref_GetConfig buffer q;
          let q1 = (case newSize of None \<Rightarrow> q1
                    | Some sz \<Rightarrow> if sz \<ge> 0 \<and> sz \<le> AVBUFFER_QUEUE_MAX_QUEUE_SIZE \<and> sz \<noteq> q_size q1
                                 then SetQueueSizeBeforeAttachBufferLocked sz q1 else q1) in
          if cached q1 uniqueId \<noteq> None then Some (Inl (ERROR_INVALID_BUFFER_ID, q1))
          else case CheckConfig config q1 of
            (r, q2) \<Rightarrow>
              if r \<noteq> OK then Some (Inl (r, q2))
              else case AttachAvailableBufferLocked uniqueId config q2 of
                (r2, q3) \<Rightarrow> if r2 \<noteq> OK then Some (Inl (r2, q3)) else Some (Inr (uniqueId, q3))
        })"

definition attach_common ::
  "nat option \<Rightarrow> (bq \<Rightarrow> bq) \<Rightarrow> bufid option \<Rightarrow> bool \<Rightarrow> bq \<Rightarrow> (Status \<times> bq) option" where
  "attach_common newSize others buffer isFilled q =
     do {
       r \<leftarrow> attach_locked newSize buffer q;
       case r of
         Inl res \<Rightarrow> Some res
       | Inr (uniqueId, q3) \<Rightarrow>
           if isFilled then PushBufferOnFilled others uniqueId isFilled (others q3)
           else Some (ReleaseBuffer uniqueId (others q3))
     }"

definition AttachBuffer :: "(bq \<Rightarrow> bq) \<Rightarrow> bufid option \<Rightarrow> bool \<Rightarrow> bq \<Rightarrow> (Status \<times> bq) option" where
  "AttachBuffer others buffer isFilled q = attach_common None others buffer isFilled q"

definition SetQueueSizeAndAttachBuffer ::
  "nat \<Rightarrow> (bq \<Rightarrow> bq) \<Rightarrow> bufid option \<Rightarrow> bool \<Rightarrow> bq \<Rightarrow> (Status \<times> bq) option" where
  "SetQueueSizeAndAttachBuffer sz others buffer isFilled q =
     attach_common (Some sz) others buffer isFilled q"

section \<open>Clearing\<close>

text \<open>The loop of \<^verbatim>\<open>ClearBufferIf\<close>: the dirty ids that stay, and the queue.\<close>

fun clear_if :: "(AVBuffer option \<Rightarrow> bool) \<Rightarrow> bufid list \<Rightarrow> bq \<Rightarrow> bufid list \<times> bq" where
  "clear_if pred [] q = ([], q)"
| "clear_if pred (x # xs) q =
     (case cached q x of
        None \<Rightarrow> (let (l, q') = clear_if pred xs q in (x # l, q'))
      | Some e \<Rightarrow>
        if e_state e \<noteq> AVBUFFER_STATE_PUSHED \<and> e_state e \<noteq> AVBUFFER_STATE_RETURNED
        then (let (l, q') = clear_if pred xs q in (x # l, q'))
        else if pred (Option.bind (e_buffer e) (q_heap q))
        then clear_if pred xs (InsertFreeBufferInOrder x (set_state x AVBUFFER_STATE_RELEASED q))
        else (let (l, q') = clear_if pred xs q in (x # l, q')))"

definition ClearBufferIf :: "(AVBuffer option \<Rightarrow> bool) \<Rightarrow> bq \<Rightarrow> Status \<times> bq" where
  "ClearBufferIf pred q =
     (let (l, q') = clear_if pred (q_dirty q) q
      in (OK, emit RequestConditionNotifyAll (q'\<lparr>q_dirty := l\<rparr>)))"

fun clear_loop :: "bufid list \<Rightarrow> bq \<Rightarrow> bq" where
  "clear_loop [] q = q"
| "clear_loop (x # xs) q =
     clear_loop xs
       (if e_state (elem_at q x) = AVBUFFER_STATE_PUSHED \<or> e_state (elem_at q x) = AVBUFFER_STATE_RETURNED
        then InsertFreeBufferInOrder x (set_state x AVBUFFER_STATE_RELEASED q) else q)"

definition Clear :: "bq \<Rightarrow> Status \<times> bq" where
  "Clear q =
     (let q1 = q\<lparr>q_dirty := []\<rparr>
      in (OK, emit RequestConditionNotifyAll (clear_loop (map fst (q_cached q1)) q1)))"

section \<open>Listeners\<close>

definition SetBrokerListener :: "nat option \<Rightarrow> bq \<Rightarrow> Status \<times> bq" where
  "SetBrokerListener listener q = (OK, q\<lparr>q_broker := q_broker q @ [listener]\<rparr>)"

definition RemoveBrokerListener :: "nat option \<Rightarrow> bq \<Rightarrow> Status \<times> bq" where
  "RemoveBrokerListener listener q =
     (if q_broker q \<noteq> [] \<and> listener = last (q_broker q)
      then (OK, q\<lparr>q_broker := butlast (q_broker q)\<rparr>) else (OK, q))"

definition SetProducerListener :: "nat option \<Rightarrow> bq \<Rightarrow> Status \<times> bq" where
  "SetProducerListener listener q = (OK, q\<lparr>q_producer := listener\<rparr>)"

definition SetConsumerListener :: "nat option \<Rightarrow> bq \<Rightarrow> Status \<times> bq" where
  "SetConsumerListener listener q = (OK, q\<lparr>q_consumer := listener\<rparr>)"

definition GetFilledBufferSize :: "bq \<Rightarrow> nat" where
  "GetFilledBufferSize q = length (q_dirty q)"

end
