(* ===== verification/Buffer_Queue_Inv.thy ===== *)
theory Buffer_Queue_Inv
  imports Buffer_Queue
begin

text \<open>
  The representation invariant of the buffer queue and its preservation by every operation: the free
  list holds exactly the released buffers, sorted by capacity; the dirty list holds exactly the
  returned ones; every cached entry points to a live buffer. The lemmas work with an invariant that
  exempts a set of ids, the buffers an operation is in the middle of moving.
\<close>

section \<open>Views of the state\<close>

definition state_of :: "bq \<Rightarrow> bufid \<Rightarrow> AVBufferState option" where
  "state_of q uid = map_option e_state (cached q uid)"

definition cap_of :: "bq \<Rightarrow> bufid \<Rightarrow> int" where
  "cap_of q uid = c_capacity (e_config (elem_at q uid))"

lemma cached_frame [simp]:
  "cached (q\<lparr>q_size := sz\<rparr>) = cached q"
  "cached (q\<lparr>q_memoryType := t\<rparr>) = cached q"
  "cached (q\<lparr>q_free := l\<rparr>) = cached q"
  "cached (q\<lparr>q_dirty := l\<rparr>) = cached q"
  "cached (q\<lparr>q_memoryUsage := w\<rparr>) = cached q"
  "cached (q\<lparr>q_broker := br\<rparr>) = cached q"
  "cached (q\<lparr>q_producer := p\<rparr>) = cached q"
  "cached (q\<lparr>q_consumer := p\<rparr>) = cached q"
  "cached (q\<lparr>q_heap := h\<rparr>) = cached q"
  "cached (q\<lparr>q_ids := g\<rparr>) = cached q"
  "cached (q\<lparr>q_events := ev\<rparr>) = cached q"
  by (simp_all add: cached_def fun_eq_iff)

lemma elem_at_cached: "cached q uid = Some e \<Longrightarrow> elem_at q uid = e"
  by (simp add: elem_at_def)

lemma touch_cached [simp]: "cached q uid \<noteq> None \<Longrightarrow> touch uid q = q"
  by (auto simp: touch_def)

lemma cached_store:
  "smap_inv (q_cached q) \<Longrightarrow> cached (store_elem uid e q) j = (if j = uid then Some e else cached q j)"
  by (simp add: cached_def store_elem_def smap_simps)

lemma cached_erase:
  "cached (q\<lparr>q_cached := smap_erase uid (q_cached q)\<rparr>) j = (if j = uid then None else cached q j)"
  by (simp add: cached_def smap_simps)

lemma TotalMemoryCalculation_eq:
  "TotalMemoryCalculation b c q = q\<lparr>q_memoryUsage := q_memoryUsage (TotalMemoryCalculation b c q)\<rparr>"
  by (simp add: TotalMemoryCalculation_def Let_def)

section \<open>The invariant\<close>

definition bq_inv_ex :: "bufid set \<Rightarrow> bq \<Rightarrow> bool" where
  "bq_inv_ex X q =
     (smap_inv (q_cached q) \<and>
      (\<forall>uid e. cached q uid = Some e \<longrightarrow> e_buffer e = Some uid \<and> q_heap q uid \<noteq> None) \<and>
      distinct (q_free q) \<and> distinct (q_dirty q) \<and>
      (\<forall>uid. uid \<in> set (q_free q) \<longleftrightarrow> uid \<notin> X \<and> state_of q uid = Some AVBUFFER_STATE_RELEASED) \<and>
      (\<forall>uid. uid \<in> set (q_dirty q) \<longleftrightarrow> uid \<notin> X \<and> state_of q uid = Some AVBUFFER_STATE_RETURNED) \<and>
      sorted (map (cap_of q) (q_free q)) \<and>
      q_size q \<le> AVBUFFER_QUEUE_MAX_QUEUE_SIZE)"

definition bq_inv :: "bq \<Rightarrow> bool" where
  "bq_inv q = bq_inv_ex {} q"

lemma bq_inv_exD:
  assumes "bq_inv_ex X q"
  shows "smap_inv (q_cached q)"
    and "cached q uid = Some e \<Longrightarrow> e_buffer e = Some uid"
    and "cached q uid = Some e \<Longrightarrow> \<exists>b. q_heap q uid = Some b"
    and "distinct (q_free q)" "distinct (q_dirty q)"
    and "uid \<in> set (q_free q) \<longleftrightarrow> uid \<notin> X \<and> state_of q uid = Some AVBUFFER_STATE_RELEASED"
    and "uid \<in> set (q_dirty q) \<longleftrightarrow> uid \<notin> X \<and> state_of q uid = Some AVBUFFER_STATE_RETURNED"
    and "sorted (map (cap_of q) (q_free q))"
    and "q_size q \<le> AVBUFFER_QUEUE_MAX_QUEUE_SIZE"
  using assms by (auto simp: bq_inv_ex_def)

lemma state_of_frame [simp]:
  "state_of (q\<lparr>q_size := sz\<rparr>) = state_of q"
  "state_of (q\<lparr>q_memoryType := t\<rparr>) = state_of q"
  "state_of (q\<lparr>q_free := l\<rparr>) = state_of q"
  "state_of (q\<lparr>q_dirty := l\<rparr>) = state_of q"
  "state_of (q\<lparr>q_memoryUsage := w\<rparr>) = state_of q"
  "state_of (q\<lparr>q_broker := br\<rparr>) = state_of q"
  "state_of (q\<lparr>q_producer := p\<rparr>) = state_of q"
  "state_of (q\<lparr>q_consumer := p\<rparr>) = state_of q"
  "state_of (q\<lparr>q_heap := h\<rparr>) = state_of q"
  "state_of (q\<lparr>q_ids := g\<rparr>) = state_of q"
  "state_of (q\<lparr>q_events := ev\<rparr>) = state_of q"
  by (simp_all add: state_of_def fun_eq_iff)

lemma cap_of_frame [simp]:
  "cap_of (q\<lparr>q_size := sz\<rparr>) = cap_of q"
  "cap_of (q\<lparr>q_memoryType := t\<rparr>) = cap_of q"
  "cap_of (q\<lparr>q_free := l\<rparr>) = cap_of q"
  "cap_of (q\<lparr>q_dirty := l\<rparr>) = cap_of q"
  "cap_of (q\<lparr>q_memoryUsage := w\<rparr>) = cap_of q"
  "cap_of (q\<lparr>q_broker := br\<rparr>) = cap_of q"
  "cap_of (q\<lparr>q_producer := p\<rparr>) = cap_of q"
  "cap_of (q\<lparr>q_consumer := p\<rparr>) = cap_of q"
  "cap_of (q\<lparr>q_heap := h\<rparr>) = cap_of q"
  "cap_of (q\<lparr>q_ids := g\<rparr>) = cap_of q"
  "cap_of (q\<lparr>q_events := ev\<rparr>) = cap_of q"
  by (simp_all add: cap_of_def elem_at_def fun_eq_iff)

lemma bq_inv_ex_frame [simp]:
  "bq_inv_ex X (q\<lparr>q_memoryType := t\<rparr>) = bq_inv_ex X q"
  "bq_inv_ex X (q\<lparr>q_memoryUsage := w\<rparr>) = bq_inv_ex X q"
  "bq_inv_ex X (q\<lparr>q_broker := br\<rparr>) = bq_inv_ex X q"
  "bq_inv_ex X (q\<lparr>q_producer := p\<rparr>) = bq_inv_ex X q"
  "bq_inv_ex X (q\<lparr>q_consumer := p\<rparr>) = bq_inv_ex X q"
  "bq_inv_ex X (q\<lparr>q_ids := g\<rparr>) = bq_inv_ex X q"
  "bq_inv_ex X (q\<lparr>q_events := ev\<rparr>) = bq_inv_ex X q"
  by (simp_all add: bq_inv_ex_def)

lemma bq_inv_ex_emit [simp]: "bq_inv_ex X (emit e q) = bq_inv_ex X q"
  by (simp add: emit_def)

lemma bq_inv_ex_heap: "bq_inv_ex X q \<Longrightarrow> bq_inv_ex X (q\<lparr>q_heap := (q_heap q)(p \<mapsto> b)\<rparr>)"
  by (auto simp: bq_inv_ex_def)

lemma bq_inv_ex_size:
  "bq_inv_ex X q \<Longrightarrow> sz \<le> AVBUFFER_QUEUE_MAX_QUEUE_SIZE \<Longrightarrow> bq_inv_ex X (q\<lparr>q_size := sz\<rparr>)"
  by (auto simp: bq_inv_ex_def)

text \<open>The invariant does not look at the deletion marks.\<close>

definition unmarked :: "AVBufferElement \<Rightarrow> AVBufferElement" where
  "unmarked e = e\<lparr>e_isDeleting := False\<rparr>"

lemma unmarked_fields:
  assumes "map_option unmarked a = map_option unmarked b"
  shows "map_option e_state a = map_option e_state b"
    and "map_option e_config a = map_option e_config b"
    and "map_option e_buffer a = map_option e_buffer b"
  using assms
  by (cases a; cases b; simp add: unmarked_def;
      metis AVBufferElement.surjective AVBufferElement.update_convs(3) AVBufferElement.ext_inject)+

lemma elem_at_config: "e_config (elem_at q uid) =
    (case map_option e_config (cached q uid) of None \<Rightarrow> default_config | Some c \<Rightarrow> c)"
  by (simp add: elem_at_def default_elem_def split: option.split)

lemma bq_inv_ex_marks:
  assumes inv: "bq_inv_ex X q" and m: "smap_inv m"
    and eq: "\<And>uid. map_option unmarked (map_of m uid) = map_option unmarked (cached q uid)"
  shows "bq_inv_ex X (q\<lparr>q_cached := m\<rparr>)"
proof -
  let ?q = "q\<lparr>q_cached := m\<rparr>"
  have c: "cached ?q uid = map_of m uid" for uid
    by (simp add: cached_def)
  have st: "state_of ?q = state_of q"
    using unmarked_fields(1) [OF eq] by (simp add: state_of_def c fun_eq_iff)
  have cap: "cap_of ?q = cap_of q"
    using unmarked_fields(2) [OF eq] by (simp add: cap_of_def elem_at_config c fun_eq_iff)
  have buf: "map_option e_buffer (cached ?q uid) = map_option e_buffer (cached q uid)" for uid
    using unmarked_fields(3) [OF eq] by (simp add: c)
  have "e_buffer e = Some uid \<and> q_heap ?q uid \<noteq> None" if e: "cached ?q uid = Some e" for uid e
  proof -
    obtain e' where e': "cached q uid = Some e'" "e_buffer e' = e_buffer e"
      using buf [of uid] e by (cases "cached q uid") auto
    then show ?thesis using inv by (auto simp: bq_inv_ex_def)
  qed
  then show ?thesis
    using inv m unfolding bq_inv_ex_def st cap by auto
qed

section \<open>Moves of one buffer\<close>

lemma bq_inv_ex_erase:
  assumes inv: "bq_inv_ex X q" and "uid \<notin> set (q_free q)" "uid \<notin> set (q_dirty q)"
  shows "bq_inv_ex (X - {uid}) (q\<lparr>q_cached := smap_erase uid (q_cached q)\<rparr>)"
proof -
  let ?q = "q\<lparr>q_cached := smap_erase uid (q_cached q)\<rparr>"
  have c: "cached ?q j = (if j = uid then None else cached q j)" for j
    by (rule cached_erase)
  have st: "state_of ?q j = (if j = uid then None else state_of q j)" for j
    by (simp add: state_of_def c)
  have cap: "map (cap_of ?q) (q_free q) = map (cap_of q) (q_free q)"
    using assms(2) by (auto simp: cap_of_def elem_at_def c)
  show ?thesis
    using assms bq_inv_exD(6,7) [OF inv] unfolding bq_inv_ex_def
    by (auto simp: st cap c smap_simps split: if_splits)
qed

lemma bq_inv_ex_store:
  assumes inv: "bq_inv_ex X q" and out: "uid \<notin> set (q_free q)" "uid \<notin> set (q_dirty q)"
    and e: "e_buffer e = Some uid" "q_heap q uid \<noteq> None"
  shows "bq_inv_ex (insert uid X) (store_elem uid e q)"
    and "e_state e \<noteq> AVBUFFER_STATE_RELEASED \<Longrightarrow> e_state e \<noteq> AVBUFFER_STATE_RETURNED \<Longrightarrow>
      bq_inv_ex (X - {uid}) (store_elem uid e q)"
proof -
  let ?q = "store_elem uid e q"
  have f: "q_free ?q = q_free q" "q_dirty ?q = q_dirty q" "q_heap ?q = q_heap q" "q_size ?q = q_size q"
    "smap_inv (q_cached ?q)"
    using bq_inv_exD(1) [OF inv] by (simp_all add: store_elem_def smap_simps)
  have c: "cached ?q j = (if j = uid then Some e else cached q j)" for j
    using cached_store bq_inv_exD(1) [OF inv] by blast
  have st: "state_of ?q j = (if j = uid then Some (e_state e) else state_of q j)" for j
    by (simp add: state_of_def c)
  have cap: "map (cap_of ?q) (q_free q) = map (cap_of q) (q_free q)"
    using out(1) by (auto simp: cap_of_def elem_at_def c)
  show "bq_inv_ex (insert uid X) ?q"
    using inv out e bq_inv_exD(6,7) [OF inv] unfolding bq_inv_ex_def
    by (auto simp: st cap c f split: if_splits)
  show "bq_inv_ex (X - {uid}) ?q"
    if "e_state e \<noteq> AVBUFFER_STATE_RELEASED" "e_state e \<noteq> AVBUFFER_STATE_RETURNED"
    using inv out e that bq_inv_exD(6,7) [OF inv] unfolding bq_inv_ex_def
    by (auto simp: st cap c f split: if_splits)
qed

lemma bq_inv_ex_drop_free:
  assumes "bq_inv_ex X q" "uid \<in> set (q_free q)"
  shows "bq_inv_ex (insert uid X) (q\<lparr>q_free := remove1 uid (q_free q)\<rparr>)"
  using assms bq_inv_exD(6,7) [OF assms(1)]
  unfolding bq_inv_ex_def
  by (auto simp: set_remove1_eq sorted_map_remove1 simp del: set_remove1_subset)

lemma bq_inv_ex_drop_dirty:
  assumes "bq_inv_ex X q" "q_dirty q = uid # rest"
  shows "bq_inv_ex (insert uid X) (q\<lparr>q_dirty := rest\<rparr>)"
proof -
  have "state_of q uid = Some AVBUFFER_STATE_RETURNED"
    using bq_inv_exD(7) [OF assms(1), of uid] assms(2) by simp
  then show ?thesis
    using assms bq_inv_exD(6,7) [OF assms(1)] unfolding bq_inv_ex_def by auto
qed

lemma bq_inv_ex_push_dirty:
  assumes "bq_inv_ex X q" "uid \<in> X" "state_of q uid = Some AVBUFFER_STATE_RETURNED"
  shows "bq_inv_ex (X - {uid}) (q\<lparr>q_dirty := q_dirty q @ [uid]\<rparr>)"
  using assms bq_inv_exD(6,7) [OF assms(1)] unfolding bq_inv_ex_def by auto

section \<open>The ordered free list\<close>

text \<open>Insertion by key, before the first entry whose key is not smaller.\<close>

definition insert_by :: "('a \<Rightarrow> int) \<Rightarrow> 'a \<Rightarrow> 'a list \<Rightarrow> 'a list" where
  "insert_by f x xs = takeWhile (\<lambda>y. f y < f x) xs @ x # dropWhile (\<lambda>y. f y < f x) xs"

lemma insert_by_simps [simp]:
  "insert_by f x [] = [x]"
  "insert_by f x (y # ys) = (if f y < f x then y # insert_by f x ys else x # y # ys)"
  by (simp_all add: insert_by_def)

lemma set_insert_by [simp]: "set (insert_by f x xs) = insert x (set xs)"
  by (induction xs) auto

lemma distinct_insert_by [simp]: "distinct (insert_by f x xs) = (x \<notin> set xs \<and> distinct xs)"
  by (induction xs) auto

lemma sorted_insert_by: "sorted (map f xs) \<Longrightarrow> sorted (map f (insert_by f x xs))"
  by (induction xs) auto

lemma insert_in_order_eq:
  assumes "cached q uid \<noteq> None" "\<forall>x \<in> set xs. cached q x \<noteq> None" "uid \<notin> set xs"
  shows "insert_in_order uid xs q = (insert_by (cap_of q) uid xs, q)"
  using assms by (induction xs) (auto simp: cap_of_def split: if_splits)

lemma InsertFreeBufferInOrder_eq:
  assumes "cached q uid \<noteq> None" "\<forall>x \<in> set (q_free q). cached q x \<noteq> None" "uid \<notin> set (q_free q)"
  shows "InsertFreeBufferInOrder uid q = q\<lparr>q_free := insert_by (cap_of q) uid (q_free q)\<rparr>"
  using insert_in_order_eq [OF assms] by (simp add: InsertFreeBufferInOrder_def)

lemma state_of_cached: "state_of q uid = Some s \<Longrightarrow> cached q uid \<noteq> None"
  by (auto simp: state_of_def)

lemma state_ofE:
  assumes "state_of q uid = Some s"
  obtains e where "cached q uid = Some e" "e_state e = s"
  using assms by (auto simp: state_of_def)

lemma free_cached: "bq_inv_ex X q \<Longrightarrow> \<forall>x \<in> set (q_free q). cached q x \<noteq> None"
  using bq_inv_exD(6) state_of_cached by blast

lemma bq_inv_ex_insert_free:
  assumes inv: "bq_inv_ex X q" and "uid \<in> X" "state_of q uid = Some AVBUFFER_STATE_RELEASED"
  shows "bq_inv_ex (X - {uid}) (InsertFreeBufferInOrder uid q)"
proof -
  have notin: "uid \<notin> set (q_free q)"
    using bq_inv_exD(6) [OF inv] assms(2) by blast
  have eq: "InsertFreeBufferInOrder uid q = q\<lparr>q_free := insert_by (cap_of q) uid (q_free q)\<rparr>"
    using InsertFreeBufferInOrder_eq [OF state_of_cached [OF assms(3)] free_cached [OF inv] notin] .
  show ?thesis
    unfolding eq using inv assms(2,3) notin bq_inv_exD(6,7) [OF inv]
    unfolding bq_inv_ex_def by (auto simp: sorted_insert_by)
qed

section \<open>State changes\<close>

lemma out_of_lists:
  assumes "bq_inv_ex X q" "uid \<in> X \<or> (state_of q uid \<noteq> Some AVBUFFER_STATE_RELEASED
    \<and> state_of q uid \<noteq> Some AVBUFFER_STATE_RETURNED)"
  shows "uid \<notin> set (q_free q)" "uid \<notin> set (q_dirty q)"
  using assms bq_inv_exD(6,7) [OF assms(1)] by blast+

lemma set_state_eq:
  assumes "cached q uid = Some e"
  shows "set_state uid s q = store_elem uid (e\<lparr>e_state := s\<rparr>) q"
  using assms by (simp add: set_state_def elem_at_def)

lemma bq_inv_ex_set_state:
  assumes inv: "bq_inv_ex X q" and c: "cached q uid = Some e"
    and out: "uid \<notin> set (q_free q)" "uid \<notin> set (q_dirty q)"
  shows "bq_inv_ex (insert uid X) (set_state uid s q)"
    and "s \<noteq> AVBUFFER_STATE_RELEASED \<Longrightarrow> s \<noteq> AVBUFFER_STATE_RETURNED \<Longrightarrow>
      bq_inv_ex (X - {uid}) (set_state uid s q)"
  using bq_inv_ex_store [OF inv out, of "e\<lparr>e_state := s\<rparr>"] bq_inv_exD(2,3) [OF inv c]
  by (auto simp: set_state_eq [OF c])

lemma state_of_set_state:
  assumes "smap_inv (q_cached q)" "cached q uid \<noteq> None"
  shows "state_of (set_state uid s q) j = (if j = uid then Some s else state_of q j)"
  using assms by (auto simp: state_of_def set_state_def cached_store elem_at_def)

lemma cap_of_set_state:
  assumes "smap_inv (q_cached q)" "cached q uid \<noteq> None"
  shows "cap_of (set_state uid s q) = cap_of q"
  using assms by (auto simp: cap_of_def set_state_def cached_store elem_at_def fun_eq_iff split: option.splits)

text \<open>Releasing a buffer that is in neither list, in either order of the two updates.\<close>

lemma bq_inv_ex_release:
  assumes inv: "bq_inv_ex X q" and c: "cached q uid = Some e"
    and out: "uid \<notin> set (q_free q)" "uid \<notin> set (q_dirty q)"
  shows "bq_inv_ex (X - {uid}) (InsertFreeBufferInOrder uid (set_state uid AVBUFFER_STATE_RELEASED q))"
    and "InsertFreeBufferInOrder uid (set_state uid AVBUFFER_STATE_RELEASED q) =
      set_state uid AVBUFFER_STATE_RELEASED (InsertFreeBufferInOrder uid q)"
proof -
  let ?q = "set_state uid AVBUFFER_STATE_RELEASED q"
  have sm: "smap_inv (q_cached q)" and cn: "cached q uid \<noteq> None"
    using bq_inv_exD(1) [OF inv] c by auto
  have inv': "bq_inv_ex (insert uid X) ?q"
    by (rule bq_inv_ex_set_state(1) [OF inv c out])
  have st: "state_of ?q uid = Some AVBUFFER_STATE_RELEASED"
    using state_of_set_state [OF sm cn] by simp
  show "bq_inv_ex (X - {uid}) (InsertFreeBufferInOrder uid ?q)"
    using bq_inv_ex_insert_free [OF inv' _ st] by simp
  have f: "q_free ?q = q_free q"
    by (simp add: set_state_def store_elem_def)
  have 1: "InsertFreeBufferInOrder uid ?q = ?q\<lparr>q_free := insert_by (cap_of q) uid (q_free q)\<rparr>"
    using InsertFreeBufferInOrder_eq [OF state_of_cached [OF st] free_cached [OF inv']] out(1)
    by (simp add: f cap_of_set_state [OF sm cn])
  have 2: "InsertFreeBufferInOrder uid q = q\<lparr>q_free := insert_by (cap_of q) uid (q_free q)\<rparr>"
    using InsertFreeBufferInOrder_eq [OF cn free_cached [OF inv] out(1)] .
  show "InsertFreeBufferInOrder uid ?q = set_state uid AVBUFFER_STATE_RELEASED (InsertFreeBufferInOrder uid q)"
    unfolding 1 2 by (simp add: set_state_def store_elem_def elem_at_def)
qed

lemma bq_inv_ex_total [simp]: "bq_inv_ex X (TotalMemoryCalculation b c q) = bq_inv_ex X q"
  by (subst TotalMemoryCalculation_eq) simp

lemma TotalMemoryCalculation_frame [simp]:
  "q_cached (TotalMemoryCalculation b c q) = q_cached q"
  "q_free (TotalMemoryCalculation b c q) = q_free q"
  "q_dirty (TotalMemoryCalculation b c q) = q_dirty q"
  "q_size (TotalMemoryCalculation b c q) = q_size q"
  "q_heap (TotalMemoryCalculation b c q) = q_heap q"
  "q_ids (TotalMemoryCalculation b c q) = q_ids q"
  "q_consumer (TotalMemoryCalculation b c q) = q_consumer q"
  "q_broker (TotalMemoryCalculation b c q) = q_broker q"
  "q_memoryType (TotalMemoryCalculation b c q) = q_memoryType q"
  by (simp_all add: TotalMemoryCalculation_def Let_def)

lemma cached_total [simp]: "cached (TotalMemoryCalculation b c q) = cached q"
  by (simp add: cached_def fun_eq_iff)

lemma bq_inv_ex_delete:
  assumes inv: "bq_inv_ex X q" and out: "uid \<notin> set (q_free q)" "uid \<notin> set (q_dirty q)"
  shows "bq_inv_ex (X - {uid}) (DeleteCachedBufferById uid q)"
proof (cases "cached q uid")
  case None
  then have "bq_inv_ex (X - {uid}) q"
    using inv bq_inv_exD(6,7) [OF inv] unfolding bq_inv_ex_def by (auto simp: state_of_def)
  with None show ?thesis by (simp add: DeleteCachedBufferById_def)
next
  case (Some e)
  let ?t = "TotalMemoryCalculation False (c_capacity (e_config e)) q"
  have "bq_inv_ex (X - {uid}) (?t\<lparr>q_cached := smap_erase uid (q_cached ?t)\<rparr>)"
    by (rule bq_inv_ex_erase) (simp_all add: inv out)
  with Some show ?thesis by (simp add: DeleteCachedBufferById_def)
qed

end
