(* ===== verification/Buffer_Queue_Ops.thy ===== *)
theory Buffer_Queue_Ops
  imports Buffer_Queue_Inv
begin

text \<open>
  Every operation of the buffer queue keeps the invariant and never dereferences null, one lemma per
  operation, and the facts about counts that the size bounds rest on.
\<close>

section \<open>Deleting buffers\<close>

lemma Delete_free_upd [simp]:
  "DeleteCachedBufferById x (q\<lparr>q_free := l\<rparr>) = (DeleteCachedBufferById x q)\<lparr>q_free := l\<rparr>"
  "DeleteCachedBufferById x (q\<lparr>q_dirty := l\<rparr>) = (DeleteCachedBufferById x q)\<lparr>q_dirty := l\<rparr>"
  by (simp_all add: DeleteCachedBufferById_def TotalMemoryCalculation_def Let_def split: option.split)

lemma Delete_frame [simp]:
  "q_free (DeleteCachedBufferById x q) = q_free q"
  "q_dirty (DeleteCachedBufferById x q) = q_dirty q"
  "q_size (DeleteCachedBufferById x q) = q_size q"
  "q_heap (DeleteCachedBufferById x q) = q_heap q"
  "q_ids (DeleteCachedBufferById x q) = q_ids q"
  "q_consumer (DeleteCachedBufferById x q) = q_consumer q"
  "q_memoryType (DeleteCachedBufferById x q) = q_memoryType q"
  by (simp_all add: DeleteCachedBufferById_def split: option.split)

lemma cached_Delete [simp]:
  "cached (DeleteCachedBufferById x q) j = (if j = x then None else cached q j)"
proof (cases "cached q x")
  case (Some e)
  then show ?thesis
    by (simp add: DeleteCachedBufferById_def cached_def smap_simps)
qed (simp add: DeleteCachedBufferById_def)

lemma smap_inv_Delete: "smap_inv (q_cached q) \<Longrightarrow> smap_inv (q_cached (DeleteCachedBufferById x q))"
  by (simp add: DeleteCachedBufferById_def smap_simps split: option.split)

lemma count_Delete:
  assumes "smap_inv (q_cached q)"
  shows "GetCachedBufferCount (DeleteCachedBufferById x q) =
    GetCachedBufferCount q - (if cached q x = None then 0 else 1)"
  using sm.length_erase [OF assms, of x]
  by (auto simp: DeleteCachedBufferById_def GetCachedBufferCount_def cached_def split: option.split)

lemma delete_from_list_eq:
  "0 < c \<Longrightarrow> delete_from_list c xs q =
     (c - length xs, drop c xs, fold DeleteCachedBufferById (take c xs) q)"
proof (induction c xs q rule: delete_from_list.induct)
  case (2 c x xs q)
  then show ?case
    by (cases c) (auto simp: Let_def take_Cons' drop_Cons')
qed simp

lemma fold_Delete_upd [simp]:
  "fold DeleteCachedBufferById xs (q\<lparr>q_free := l\<rparr>) = (fold DeleteCachedBufferById xs q)\<lparr>q_free := l\<rparr>"
  "fold DeleteCachedBufferById xs (q\<lparr>q_dirty := l\<rparr>) = (fold DeleteCachedBufferById xs q)\<lparr>q_dirty := l\<rparr>"
  by (induction xs arbitrary: q) simp_all

lemma fold_Delete_frame [simp]:
  "q_free (fold DeleteCachedBufferById xs q) = q_free q"
  "q_dirty (fold DeleteCachedBufferById xs q) = q_dirty q"
  "q_size (fold DeleteCachedBufferById xs q) = q_size q"
  "q_heap (fold DeleteCachedBufferById xs q) = q_heap q"
  "q_ids (fold DeleteCachedBufferById xs q) = q_ids q"
  "q_consumer (fold DeleteCachedBufferById xs q) = q_consumer q"
  "q_memoryType (fold DeleteCachedBufferById xs q) = q_memoryType q"
  by (induction xs arbitrary: q) simp_all

lemma cached_fold_Delete:
  "cached (fold DeleteCachedBufferById xs q) j = (if j \<in> set xs then None else cached q j)"
  by (induction xs arbitrary: q) auto

lemma count_fold_Delete:
  assumes "smap_inv (q_cached q)" "distinct xs" "\<forall>x \<in> set xs. cached q x \<noteq> None"
  shows "GetCachedBufferCount (fold DeleteCachedBufferById xs q) = GetCachedBufferCount q - length xs"
  using assms
proof (induction xs arbitrary: q)
  case (Cons x xs)
  have "GetCachedBufferCount (fold DeleteCachedBufferById xs (DeleteCachedBufferById x q)) =
      GetCachedBufferCount (DeleteCachedBufferById x q) - length xs"
    using Cons.prems by (intro Cons.IH) (auto simp: smap_inv_Delete)
  with Cons.prems show ?case
    using count_Delete [OF Cons.prems(1), of x] by auto
qed simp

lemma fold_Delete_free_inv:
  "bq_inv_ex X q \<Longrightarrow> q_free q = ys @ zs \<Longrightarrow>
     bq_inv_ex X ((fold DeleteCachedBufferById ys q)\<lparr>q_free := zs\<rparr>)"
proof (induction ys arbitrary: q)
  case Nil
  then show ?case by (metis append_Nil bq.surjective bq.update_convs(5) fold_simps(1))
next
  case (Cons y ys)
  let ?q = "q\<lparr>q_free := ys @ zs\<rparr>"
  have y: "y \<in> set (q_free q)" "y \<notin> X" "y \<notin> set (ys @ zs)" "y \<notin> set (q_dirty q)"
    using Cons.prems bq_inv_exD(4) [OF Cons.prems(1)] bq_inv_exD(6,7) [OF Cons.prems(1), of y] by auto
  have "bq_inv_ex (insert y X) ?q"
    using bq_inv_ex_drop_free [OF Cons.prems(1) y(1)] Cons.prems(2) by simp
  from bq_inv_ex_delete [OF this, of y] have "bq_inv_ex X (DeleteCachedBufferById y ?q)"
    using y by (simp del: Delete_free_upd)
  from Cons.IH [OF this] show ?case by simp
qed

lemma fold_Delete_dirty_inv:
  "bq_inv_ex X q \<Longrightarrow> q_dirty q = ys @ zs \<Longrightarrow>
     bq_inv_ex X ((fold DeleteCachedBufferById ys q)\<lparr>q_dirty := zs\<rparr>)"
proof (induction ys arbitrary: q)
  case Nil
  then show ?case by (metis append_Nil bq.surjective bq.update_convs(6) fold_simps(1))
next
  case (Cons y ys)
  let ?q = "q\<lparr>q_dirty := ys @ zs\<rparr>"
  have y: "y \<in> set (q_dirty q)" "y \<notin> X" "y \<notin> set (ys @ zs)" "y \<notin> set (q_free q)"
    using Cons.prems bq_inv_exD(5) [OF Cons.prems(1)] bq_inv_exD(6,7) [OF Cons.prems(1), of y] by auto
  have "bq_inv_ex (insert y X) ?q"
    using bq_inv_ex_drop_dirty [OF Cons.prems(1)] Cons.prems(2) by simp
  from bq_inv_ex_delete [OF this, of y] have "bq_inv_ex X (DeleteCachedBufferById y ?q)"
    using y by (simp del: Delete_free_upd)
  from Cons.IH [OF this] show ?case by simp
qed

lemma keys_mark_deleting: "map fst (mark_deleting c m) = map fst m"
  by (induction c m rule: mark_deleting.induct) (auto simp: Let_def)

lemma map_of_mark_deleting:
  "map_option unmarked (map_of (mark_deleting c m) uid) = map_option unmarked (map_of m uid)"
  by (induction c m rule: mark_deleting.induct) (auto simp: Let_def unmarked_def)

lemma smap_inv_mark_deleting: "smap_inv m \<Longrightarrow> smap_inv (mark_deleting c m)"
  by (simp add: smap_inv_def keys_mark_deleting)

text \<open>\<^verbatim>\<open>DeleteBuffers\<close> in closed form: entries leave from the head of the free list, then of the
  dirty list, then the first cached entries are marked.\<close>

lemma DeleteBuffers_eq:
  "DeleteBuffers c q =
     (let q1 = (fold DeleteCachedBufferById (take c (q_free q)) q)\<lparr>q_free := drop c (q_free q)\<rparr>;
          c1 = c - length (q_free q);
          q2 = (fold DeleteCachedBufferById (take c1 (q_dirty q)) q1)\<lparr>q_dirty := drop c1 (q_dirty q)\<rparr>;
          c2 = c1 - length (q_dirty q)
      in if c2 = 0 then q2 else q2\<lparr>q_cached := mark_deleting c2 (q_cached q2)\<rparr>)"
  by (cases "c = 0"; cases "c - length (q_free q) = 0")
    (simp_all add: DeleteBuffers_def Let_def delete_from_list_eq)

lemma DeleteBuffers_inv:
  assumes "bq_inv_ex X q"
  shows "bq_inv_ex X (DeleteBuffers c q)"
proof -
  define q1 where "q1 = (fold DeleteCachedBufferById (take c (q_free q)) q)\<lparr>q_free := drop c (q_free q)\<rparr>"
  define c1 where "c1 = c - length (q_free q)"
  define q2 where "q2 = (fold DeleteCachedBufferById (take c1 (q_dirty q)) q1)\<lparr>q_dirty := drop c1 (q_dirty q)\<rparr>"
  have 1: "bq_inv_ex X q1"
    unfolding q1_def by (rule fold_Delete_free_inv [OF assms]) simp
  have 2: "bq_inv_ex X q2"
    unfolding q2_def by (rule fold_Delete_dirty_inv [OF 1]) (simp add: q1_def)
  have 3: "bq_inv_ex X (q2\<lparr>q_cached := mark_deleting k (q_cached q2)\<rparr>)" for k
    by (rule bq_inv_ex_marks [OF 2])
      (simp_all add: smap_inv_mark_deleting bq_inv_exD(1) [OF 2] map_of_mark_deleting cached_def)
  show ?thesis
    unfolding DeleteBuffers_eq Let_def q1_def [symmetric] c1_def [symmetric] q2_def [symmetric]
    using 2 3 by simp
qed

lemma DeleteBuffers_frame [simp]:
  "q_size (DeleteBuffers c q) = q_size q"
  "q_heap (DeleteBuffers c q) = q_heap q"
  "q_ids (DeleteBuffers c q) = q_ids q"
  "q_consumer (DeleteBuffers c q) = q_consumer q"
  by (simp_all add: DeleteBuffers_eq Let_def)

lemma cached_DeleteBuffers_None: "cached q j = None \<Longrightarrow> cached (DeleteBuffers c q) j = None"
proof -
  assume n: "cached q j = None"
  have "map_of (mark_deleting k m) j = None \<longleftrightarrow> map_of m j = None" for k m
    using map_of_mark_deleting [of k m j] by (metis map_option_is_None)
  then show ?thesis
    unfolding DeleteBuffers_eq Let_def using n
    by (auto simp: cached_fold_Delete cached_def [symmetric] simp flip: cached_def)
      (simp add: cached_def [of "_\<lparr>q_cached := _\<rparr>"] cached_def [symmetric] cached_fold_Delete)
qed

lemma count_DeleteBuffers_lists:
  assumes inv: "bq_inv_ex X q" and "c \<le> length (q_free q) + length (q_dirty q)"
  shows "GetCachedBufferCount (DeleteBuffers c q) = GetCachedBufferCount q - c"
proof -
  let ?fs = "take c (q_free q)" and ?c1 = "c - length (q_free q)"
  let ?ds = "take ?c1 (q_dirty q)"
  have "set (q_free q) \<inter> set (q_dirty q) = {}"
    using bq_inv_exD(6,7) [OF inv] by auto
  then have "set ?fs \<inter> set ?ds = {}"
    using set_take_subset [of c "q_free q"] set_take_subset [of ?c1 "q_dirty q"] by blast
  moreover have "distinct ?fs" "distinct ?ds"
    using bq_inv_exD(4,5) [OF inv] by simp_all
  ultimately have d: "distinct (?fs @ ?ds)"
    by simp
  have "\<forall>x \<in> set (q_free q) \<union> set (q_dirty q). cached q x \<noteq> None"
    using bq_inv_exD(6,7) [OF inv] state_of_cached by blast
  then have c: "\<forall>x \<in> set (?fs @ ?ds). cached q x \<noteq> None"
    using set_take_subset [of c "q_free q"] set_take_subset [of ?c1 "q_dirty q"] by auto
  have "GetCachedBufferCount (fold DeleteCachedBufferById (?fs @ ?ds) q) =
      GetCachedBufferCount q - length (?fs @ ?ds)"
    by (rule count_fold_Delete [OF bq_inv_exD(1) [OF inv] d c])
  moreover have "length (?fs @ ?ds) = c"
    using assms(2) by auto
  ultimately show ?thesis
    unfolding DeleteBuffers_eq Let_def using assms(2) by (simp add: GetCachedBufferCount_def)
qed

lemma count_mark_deleting: "length (mark_deleting c m) = length m"
  using keys_mark_deleting [of c m] by (metis length_map)

section \<open>Queue size\<close>

lemma SetQueueSizeBeforeAttach_inv:
  assumes "bq_inv_ex X q" "sz \<le> AVBUFFER_QUEUE_MAX_QUEUE_SIZE"
  shows "bq_inv_ex X (SetQueueSizeBeforeAttachBufferLocked sz q)"
  using assms DeleteBuffers_inv [OF assms(1)]
  by (simp add: SetQueueSizeBeforeAttachBufferLocked_def Let_def bq_inv_ex_size)

lemma SetQueueSize_inv:
  assumes "bq_inv_ex X q"
  shows "bq_inv_ex X (snd (SetQueueSize sz q))" "bq_inv_ex X (snd (SetLargerQueueSize sz q))"
  using assms SetQueueSizeBeforeAttach_inv [OF assms]
  by (simp_all add: SetQueueSize_def SetLargerQueueSize_def SetLargerQueueSizeLocked_def
      AVBUFFER_QUEUE_MAX_QUEUE_SIZE_FOR_LARGER_def AVBUFFER_QUEUE_MAX_QUEUE_SIZE_def)

section \<open>Taking from the free list\<close>

lemma find_fitting_eq:
  assumes "\<forall>x \<in> set xs. cached q x \<noteq> None"
  shows "find_fitting c xs q =
    (case List.find (\<lambda>x. config_le c (e_config (elem_at q x))) xs of
       None \<Rightarrow> (None, q)
     | Some x \<Rightarrow> (Some (e_buffer (elem_at q x), remove1 x xs), q))"
  using assms
proof (induction xs)
  case (Cons y ys)
  then have y: "touch y q = q" by simp
  have ne: "x \<noteq> y" if "\<not> config_le c (e_config (elem_at q y))"
    "List.find (\<lambda>x. config_le c (e_config (elem_at q x))) ys = Some x" for x
    using that by (auto simp: find_Some_iff)
  show ?case
    using Cons ne by (auto simp: y split: option.splits)
qed simp

text \<open>What a request takes: the first fitting free buffer, else the first one.\<close>

definition pick :: "AVBufferConfig \<Rightarrow> bq \<Rightarrow> bufid option" where
  "pick c q =
     (case List.find (\<lambda>x. config_le c (e_config (elem_at q x))) (q_free q) of
        Some x \<Rightarrow> Some x
      | None \<Rightarrow> (case q_free q of [] \<Rightarrow> None | x # _ \<Rightarrow> Some x))"

lemma pick_free: "pick c q = Some x \<Longrightarrow> x \<in> set (q_free q)"
  by (auto simp: pick_def find_Some_iff split: option.splits list.splits)

lemma pick_None: "pick c q = None \<longleftrightarrow> q_free q = []"
  by (auto simp: pick_def split: option.splits list.splits)

lemma PopFromFree_eq:
  assumes inv: "bq_inv_ex X q"
  shows "PopFromFreeBufferList c q =
    (case pick c q of
       None \<Rightarrow> (ERROR_NO_FREE_BUFFER, None, q)
     | Some x \<Rightarrow> (OK, Some x, q\<lparr>q_free := remove1 x (q_free q)\<rparr>))"
proof -
  have c: "\<forall>x \<in> set (q_free q). cached q x \<noteq> None"
    by (rule free_cached [OF inv])
  have b: "\<forall>x \<in> set (q_free q). e_buffer (elem_at q x) = Some x"
    using c bq_inv_exD(2) [OF inv] by (auto simp: elem_at_def)
  show ?thesis
  proof (cases "List.find (\<lambda>x. config_le c (e_config (elem_at q x))) (q_free q)")
    case (Some x)
    then have "x \<in> set (q_free q)" by (auto simp: find_Some_iff)
    with Some b show ?thesis
      by (simp add: PopFromFreeBufferList_def find_fitting_eq [OF c] pick_def)
  next
    case None
    have ff: "find_fitting c (q_free q) q = (None, q)"
      using find_fitting_eq [OF c] None by simp
    show ?thesis
    proof (cases "q_free q")
      case Nil
      with None show ?thesis
        by (simp add: PopFromFreeBufferList_def pick_def)
    next
      case (Cons y ys)
      then have "touch y q = q" "e_buffer (elem_at q y) = Some y"
        using b c by auto
      then show ?thesis
        unfolding PopFromFreeBufferList_def ff pick_def None by (simp add: Cons)
    qed
  qed
qed

section \<open>Requesting\<close>

text \<open>The id the next allocation draws is not in use in the queue. By \<open>GenerateUniqueId_distinct\<close> this
  can only fail for foreign ids or after the counter went round.\<close>

definition fresh_uid :: "bq \<Rightarrow> bool" where
  "fresh_uid q = (cached q (fst (GenerateUniqueId (q_ids q))) = None)"

lemma fresh_uid_frame [simp]:
  "fresh_uid (q\<lparr>q_free := l\<rparr>) = fresh_uid q"
  "fresh_uid (q\<lparr>q_memoryType := t\<rparr>) = fresh_uid q"
  by (simp_all add: fresh_uid_def)

lemma fresh_uid_Delete: "fresh_uid q \<Longrightarrow> fresh_uid (DeleteCachedBufferById x q)"
  by (simp add: fresh_uid_def)

lemma CreateAVBuffer_uid:
  "CreateAVBuffer ext junk fm c g = (Some b, g') \<Longrightarrow> b_uid b = fst (GenerateUniqueId g)"
  by (auto simp: CreateAVBuffer_def CreateAVBuffer_alloc_def Let_def split: if_splits option.splits prod.splits)

lemma alloc_and_request_inv:
  assumes inv: "bq_inv q" and fresh: "fresh_uid q"
  obtains r buf q' where "alloc_and_request env buffer c q = (r, buf, q')" "bq_inv q'"
    and "r = OK \<Longrightarrow> \<exists>x. buf = Some x \<and> state_of q' x = Some AVBUFFER_STATE_REQUESTED \<and>
           (\<exists>g b. CreateAVBuffer (a_ext env) (a_junk env) (a_meta env) c (q_ids q) = (Some b, g)
              \<and> b_uid b = x \<and> q_heap q' x = Some (AVBuffer_GetConfig b)) \<and>
           GetCachedBufferCount q' = Suc (GetCachedBufferCount q)"
    and "r \<noteq> OK \<Longrightarrow> GetCachedBufferCount q' = GetCachedBufferCount q"
proof (cases "CreateAVBuffer (a_ext env) (a_junk env) (a_meta env) c (q_ids q)")
  case (Pair ob g)
  show ?thesis
  proof (cases ob)
    case None
    with Pair have "alloc_and_request env buffer c q = (ERROR_CREATE_BUFFER, buffer, q\<lparr>q_ids := g\<rparr>)"
      by (simp add: alloc_and_request_def AllocBuffer_def)
    then show ?thesis
      by (rule that) (use inv in \<open>simp_all add: bq_inv_def GetCachedBufferCount_def\<close>)
  next
    case (Some b)
    let ?u = "b_uid b"
    let ?b = "AVBuffer_GetConfig b"
    let ?e = "\<lparr>e_config = b_config ?b, e_state = AVBUFFER_STATE_RELEASED, e_isDeleting = False,
      e_buffer = Some ?u\<rparr>"
    let ?q1 = "q\<lparr>q_ids := g, q_heap := (q_heap q)(?u \<mapsto> ?b)\<rparr>"
    let ?q2 = "TotalMemoryCalculation True (c_capacity (e_config ?e)) (store_elem ?u ?e ?q1)"
    have n: "cached q ?u = None"
      using CreateAVBuffer_uid Pair Some fresh by (auto simp: fresh_uid_def)
    have i1: "bq_inv_ex {} ?q1"
      using bq_inv_ex_heap [of "{}" q] inv by (simp add: bq_inv_def bq_inv_ex_def)
    have out: "?u \<notin> set (q_free ?q1)" "?u \<notin> set (q_dirty ?q1)"
      using out_of_lists [OF i1, of ?u] n by (auto simp: state_of_def)
    have i2: "bq_inv_ex {?u} ?q2"
      using bq_inv_ex_store(1) [OF i1 out, of ?e] by simp
    have sm: "smap_inv (q_cached ?q1)" "smap_inv (q_cached ?q2)"
      using bq_inv_exD(1) [OF i1] bq_inv_exD(1) [OF i2] by simp_all
    have c2: "cached ?q2 ?u = Some ?e"
      using cached_store [OF sm(1), of ?u ?e] by simp
    have eq: "alloc_and_request env buffer c q = (OK, Some ?u, set_state ?u AVBUFFER_STATE_REQUESTED ?q2)"
      using Pair Some by (simp add: alloc_and_request_def AllocBuffer_def Let_def)
    have "bq_inv_ex ({?u} - {?u}) (set_state ?u AVBUFFER_STATE_REQUESTED ?q2)"
      by (rule bq_inv_ex_set_state(2) [OF i2 c2]) (use out in \<open>simp_all add: store_elem_def\<close>)
    then have i3: "bq_inv (set_state ?u AVBUFFER_STATE_REQUESTED ?q2)"
      by (simp add: bq_inv_def)
    have st: "state_of (set_state ?u AVBUFFER_STATE_REQUESTED ?q2) ?u = Some AVBUFFER_STATE_REQUESTED"
      using state_of_set_state [OF sm(2)] c2 by simp
    have cnt: "GetCachedBufferCount (set_state ?u AVBUFFER_STATE_REQUESTED ?q2) = Suc (GetCachedBufferCount q)"
      using sm.length_put [OF sm(2), of ?u] sm.length_put [OF sm(1), of ?u] n c2
      by (simp add: GetCachedBufferCount_def set_state_def store_elem_def cached_def)
    have hp: "q_heap (set_state ?u AVBUFFER_STATE_REQUESTED ?q2) ?u = Some ?b"
      by (simp add: set_state_def store_elem_def)
    show ?thesis
      by (rule that [OF eq i3]) (use st cnt hp Pair Some in auto)
  qed
qed

lemma RequestReuse_alloc_eq:
  assumes "cached q x \<noteq> None" "\<not> config_le c (e_config (elem_at q x))"
  shows "RequestReuseBuffer env (Some x) c q = alloc_and_request env (Some x) c (DeleteCachedBufferById x q)"
  using assms by (auto simp: RequestReuseBuffer_def alloc_and_request_def Let_def)

lemma RequestReuse_fit:
  assumes inv: "bq_inv_ex {x} q" and c: "cached q x \<noteq> None"
    and le: "config_le c (e_config (elem_at q x))"
  obtains q' where "RequestReuseBuffer env (Some x) c q = (OK, Some x, q')" "bq_inv q'"
    "state_of q' x = Some AVBUFFER_STATE_REQUESTED" "q_heap q' = q_heap q"
    "GetCachedBufferCount q' = GetCachedBufferCount q"
proof -
  obtain e where e: "cached q x = Some e" using c by auto
  let ?e = "e\<lparr>e_config := (e_config e)\<lparr>c_size := c_size c\<rparr>\<rparr>"
  let ?q1 = "store_elem x ?e q"
  have out: "x \<notin> set (q_free q)" "x \<notin> set (q_dirty q)"
    using out_of_lists [OF inv] by auto
  have i1: "bq_inv_ex {x} ?q1"
    using bq_inv_ex_store(1) [OF inv out, of ?e] bq_inv_exD(2,3) [OF inv e] by auto
  have sm: "smap_inv (q_cached q)" "smap_inv (q_cached ?q1)"
    using bq_inv_exD(1) [OF inv] bq_inv_exD(1) [OF i1] by simp_all
  have c1: "cached ?q1 x = Some ?e"
    using cached_store [OF sm(1)] by simp
  have "bq_inv_ex ({x} - {x}) (set_state x AVBUFFER_STATE_REQUESTED ?q1)"
    by (rule bq_inv_ex_set_state(2) [OF i1 c1]) (use out in \<open>simp_all add: store_elem_def\<close>)
  then have i2: "bq_inv (set_state x AVBUFFER_STATE_REQUESTED ?q1)"
    by (simp add: bq_inv_def)
  have eq: "RequestReuseBuffer env (Some x) c q = (OK, Some x, set_state x AVBUFFER_STATE_REQUESTED ?q1)"
    using le e by (simp add: RequestReuseBuffer_def Let_def elem_at_def)
  show ?thesis
  proof (rule that [OF eq i2])
    show "state_of (set_state x AVBUFFER_STATE_REQUESTED ?q1) x = Some AVBUFFER_STATE_REQUESTED"
      using state_of_set_state [OF sm(2)] c1 by simp
    show "q_heap (set_state x AVBUFFER_STATE_REQUESTED ?q1) = q_heap q"
      by (simp add: set_state_def store_elem_def)
    show "GetCachedBufferCount (set_state x AVBUFFER_STATE_REQUESTED ?q1) = GetCachedBufferCount q"
      using sm.length_put [OF sm(2), of x] sm.length_put [OF sm(1), of x] c1 e
      by (simp add: GetCachedBufferCount_def set_state_def store_elem_def cached_def)
  qed
qed

text \<open>A request served from the free list, once a buffer has been picked.\<close>

lemma RequestReuse_inv:
  assumes inv: "bq_inv q" and fresh: "fresh_uid q" and p: "pick c q = Some x"
  obtains r buf q' where
    "RequestReuseBuffer env (Some x) c (q\<lparr>q_free := remove1 x (q_free q)\<rparr>) = (r, buf, q')" "bq_inv q'"
    "r = OK \<Longrightarrow> \<exists>y. buf = Some y \<and> state_of q' y = Some AVBUFFER_STATE_REQUESTED"
    "GetCachedBufferCount q' \<le> GetCachedBufferCount q"
proof -
  let ?q = "q\<lparr>q_free := remove1 x (q_free q)\<rparr>"
  have x: "x \<in> set (q_free q)" by (rule pick_free [OF p])
  have i: "bq_inv_ex {x} ?q"
    using bq_inv_ex_drop_free [of "{}" q x] inv x by (simp add: bq_inv_def)
  have c: "cached ?q x \<noteq> None"
    using free_cached [of "{}" q] inv x by (simp add: bq_inv_def)
  show ?thesis
  proof (cases "config_le c (e_config (elem_at ?q x))")
    case True
    from RequestReuse_fit [OF i c True, of env] show ?thesis
      by (metis that GetCachedBufferCount_def bq.select_convs(4) bq.surjective bq.update_convs(5) order_refl)
  next
    case False
    have out: "x \<notin> set (q_free ?q)" "x \<notin> set (q_dirty ?q)"
      using out_of_lists [OF i] by auto
    have i2: "bq_inv (DeleteCachedBufferById x ?q)"
      using bq_inv_ex_delete [OF i out] by (simp add: bq_inv_def del: Delete_free_upd)
    have f2: "fresh_uid (DeleteCachedBufferById x ?q)"
      using fresh by (intro fresh_uid_Delete) simp
    have cnt: "GetCachedBufferCount (DeleteCachedBufferById x ?q) = GetCachedBufferCount q - 1"
      "0 < GetCachedBufferCount q"
      using count_Delete [OF bq_inv_exD(1) [OF i], of x] c
      by (auto simp: GetCachedBufferCount_def cached_def)
    from alloc_and_request_inv [OF i2 f2, of env "Some x" c] obtain r buf q' where
      a: "alloc_and_request env (Some x) c (DeleteCachedBufferById x ?q) = (r, buf, q')" "bq_inv q'"
      and ok: "r = OK \<Longrightarrow> \<exists>x. buf = Some x \<and> state_of q' x = Some AVBUFFER_STATE_REQUESTED"
      and n: "GetCachedBufferCount q' \<le> Suc (GetCachedBufferCount (DeleteCachedBufferById x ?q))"
      by (metis le_SucI order_refl)
    show ?thesis
      by (rule that [OF _ a(2) ok]) (use RequestReuse_alloc_eq [OF c False, of env] a(1) n cnt in simp_all)
  qed
qed

text \<open>The whole request, over any interference that keeps the invariant while the request waits.\<close>

lemma RequestBufferWaitUs_inv:
  assumes inv: "bq_inv q" and fresh: "fresh_uid q"
    and others: "\<And>q. bq_inv q \<Longrightarrow> fresh_uid q \<Longrightarrow> bq_inv (others q) \<and> fresh_uid (others q)"
  obtains r buf q' where "RequestBufferWaitUs env others buffer c t q = (r, buf, q')" "bq_inv q'"
    "r = OK \<Longrightarrow> \<exists>y. buf = Some y \<and> state_of q' y = Some AVBUFFER_STATE_REQUESTED"
proof -
  define cc where "cc = (if c_memoryType c = UNKNOWN_MEMORY then c\<lparr>c_memoryType := q_memoryType q\<rparr> else c)"
  define q0 where "q0 = snd (CheckConfig cc q)"
  have i0: "bq_inv q0" "fresh_uid q0"
    using inv fresh by (simp_all add: q0_def CheckConfig_def bq_inv_def)
  have ex0: "bq_inv_ex {} q0" using i0 by (simp add: bq_inv_def)
  have unf: "RequestBufferWaitUs env others buffer c t q =
    (if fst (CheckConfig cc q) \<noteq> OK then (fst (CheckConfig cc q), buffer, q0)
     else case PopFromFreeBufferList cc q0 of
           (ret, buf, q1) \<Rightarrow>
             if ret = OK then RequestReuseBuffer env buf cc q1
             else if GetCachedBufferCount q1 \<ge> q_size q1 then
               (case wait_for others t q1 of
                  (woken, q2) \<Rightarrow>
                    if \<not> woken then (ERROR_WAIT_TIMEOUT, buf, q2)
                    else case PopFromFreeBufferList cc q2 of
                      (ret2, buf2, q3) \<Rightarrow>
                        if ret2 = OK then RequestReuseBuffer env buf2 cc q3
                        else if GetCachedBufferCount q3 \<ge> q_size q3 then (ERROR_NO_FREE_BUFFER, buf2, q3)
                        else alloc_and_request env buf2 cc q3)
             else alloc_and_request env buf cc q1)"
    by (simp add: RequestBufferWaitUs_def cc_def [symmetric] q0_def Let_def split_beta)
  define q2 where "q2 = snd (wait_for others t q0)"
  have i2: "bq_inv q2" "fresh_uid q2"
    using i0 others by (auto simp: q2_def wait_for_def Let_def)
  have ex2: "bq_inv_ex {} q2" using i2 by (simp add: bq_inv_def)
  have wf: "wait_for others t q0 = (fst (wait_for others t q0), q2)"
    by (simp add: q2_def)
  consider
      (bad) "fst (CheckConfig cc q) \<noteq> OK"
    | (reuse) x where "fst (CheckConfig cc q) = OK" "pick cc q0 = Some x"
    | (alloc) "fst (CheckConfig cc q) = OK" "pick cc q0 = None" "\<not> GetCachedBufferCount q0 \<ge> q_size q0"
    | (timeout) "fst (CheckConfig cc q) = OK" "pick cc q0 = None" "GetCachedBufferCount q0 \<ge> q_size q0"
        "\<not> fst (wait_for others t q0)"
    | (reuse2) x where "fst (CheckConfig cc q) = OK" "pick cc q0 = None" "GetCachedBufferCount q0 \<ge> q_size q0"
        "fst (wait_for others t q0)" "pick cc q2 = Some x"
    | (full2) "fst (CheckConfig cc q) = OK" "pick cc q0 = None" "GetCachedBufferCount q0 \<ge> q_size q0"
        "fst (wait_for others t q0)" "pick cc q2 = None" "GetCachedBufferCount q2 \<ge> q_size q2"
    | (alloc2) "fst (CheckConfig cc q) = OK" "pick cc q0 = None" "GetCachedBufferCount q0 \<ge> q_size q0"
        "fst (wait_for others t q0)" "pick cc q2 = None" "\<not> GetCachedBufferCount q2 \<ge> q_size q2"
    by (cases "pick cc q0"; cases "pick cc q2") auto
  then show ?thesis
  proof cases
    case bad
    then show ?thesis
      using that i0 unf by auto
  next
    case reuse
    from RequestReuse_inv [OF i0 reuse(2), of env] show ?thesis
      using that unf reuse by (simp add: PopFromFree_eq [OF ex0]) metis
  next
    case alloc
    from alloc_and_request_inv [OF i0, of env None cc] show ?thesis
      using that unf alloc by (simp add: PopFromFree_eq [OF ex0]) metis
  next
    case timeout
    then show ?thesis
      using that unf i2 wf by (simp add: PopFromFree_eq [OF ex0] split_beta)
  next
    case reuse2
    from RequestReuse_inv [OF i2 reuse2(5), of env] show ?thesis
      using that unf reuse2 wf by (simp add: PopFromFree_eq [OF ex0] PopFromFree_eq [OF ex2] split_beta) metis
  next
    case full2
    then show ?thesis
      using that unf i2 wf by (simp add: PopFromFree_eq [OF ex0] PopFromFree_eq [OF ex2] split_beta)
  next
    case alloc2
    from alloc_and_request_inv [OF i2, of env None cc] show ?thesis
      using that unf alloc2 wf by (simp add: PopFromFree_eq [OF ex0] PopFromFree_eq [OF ex2] split_beta) metis
  qed
qed

section \<open>Returning and pushing\<close>

lemma deref_cached:
  assumes "bq_inv_ex X q" "cached q uid = Some e"
  obtains b where "q_heap q uid = Some b"
    "deref_GetConfig (e_buffer e) q =
       Some (b_config (AVBuffer_GetConfig b), q\<lparr>q_heap := (q_heap q)(uid \<mapsto> AVBuffer_GetConfig b)\<rparr>)"
  using bq_inv_exD(2,3) [OF assms] by (auto simp: deref_GetConfig_def Let_def)

lemma CancelBuffer_inv:
  assumes inv: "bq_inv q"
  shows "bq_inv (snd (CancelBuffer uid q))"
proof (cases "fst (CancelBuffer uid q) = OK")
  case True
  then obtain e where e: "cached q uid = Some e"
      "e_state e = AVBUFFER_STATE_REQUESTED \<or> e_state e = AVBUFFER_STATE_PUSHED"
    by (auto simp: CancelBuffer_def split: option.splits if_splits)
  have ex: "bq_inv_ex {} q" using inv by (simp add: bq_inv_def)
  have out: "uid \<notin> set (q_free q)" "uid \<notin> set (q_dirty q)"
    using out_of_lists [OF ex, of uid] e by (auto simp: state_of_def)
  from bq_inv_ex_release [OF ex e(1) out] e show ?thesis
    by (simp add: CancelBuffer_def bq_inv_def)
next
  case False
  then show ?thesis
    using inv by (auto simp: CancelBuffer_def split: option.splits if_splits)
qed

lemma NotifyProducer_inv [simp]: "bq_inv (NotifyProducer q) = bq_inv q"
  by (simp add: NotifyProducer_def bq_inv_def split: option.split)

text \<open>
  A marked buffer is deleted from the map by a push or a return whatever its state; only a buffer that
  is in neither list may be deleted that way.
\<close>

definition deletable :: "bufid \<Rightarrow> bq \<Rightarrow> bool" where
  "deletable uid q =
     (case cached q uid of None \<Rightarrow> True
      | Some e \<Rightarrow> e_isDeleting e \<longrightarrow>
          e_state e \<noteq> AVBUFFER_STATE_RELEASED \<and> e_state e \<noteq> AVBUFFER_STATE_RETURNED)"

lemma delete_marked_inv:
  assumes inv: "bq_inv q" and e: "cached q uid = Some e" "e_isDeleting e" and d: "deletable uid q"
  shows "bq_inv (DeleteCachedBufferById uid q)"
  using bq_inv_ex_delete [of "{}" q uid] out_of_lists [of "{}" q uid] assms
  by (simp add: bq_inv_def deletable_def state_of_def)

lemma ReturnBuffer_inv:
  assumes inv: "bq_inv q" and d: "deletable uid q"
  shows "\<exists>r q'. ReturnBuffer uid available q = Some (r, q') \<and> bq_inv q'"
proof (cases "cached q uid")
  case None
  then show ?thesis using inv by (simp add: ReturnBuffer_def)
next
  case (Some e)
  have ex: "bq_inv_ex {} q" using inv by (simp add: bq_inv_def)
  obtain b where b: "q_heap q uid = Some b"
    "deref_GetConfig (e_buffer e) q =
       Some (b_config (AVBuffer_GetConfig b), q\<lparr>q_heap := (q_heap q)(uid \<mapsto> AVBuffer_GetConfig b)\<rparr>)"
    by (rule deref_cached [OF ex Some])
  consider (del) "e_isDeleting e" | (st) "\<not> e_isDeleting e" "e_state e \<noteq> AVBUFFER_STATE_PUSHED"
    | (cancel) "\<not> e_isDeleting e" "e_state e = AVBUFFER_STATE_PUSHED" "\<not> available"
    | (push) "\<not> e_isDeleting e" "e_state e = AVBUFFER_STATE_PUSHED" available
    by blast
  then show ?thesis
  proof cases
    case del
    then show ?thesis
      using delete_marked_inv [OF inv Some del d] Some by (simp add: ReturnBuffer_def)
  next
    case st
    then show ?thesis using inv Some by (simp add: ReturnBuffer_def)
  next
    case cancel
    then show ?thesis
      using CancelBuffer_inv [OF inv, of uid] Some
      by (cases "CancelBuffer uid q"; cases "fst (CancelBuffer uid q) = OK") (auto simp: ReturnBuffer_def)
  next
    case push
    let ?b = "AVBuffer_GetConfig b"
    let ?q1 = "q\<lparr>q_heap := (q_heap q)(uid \<mapsto> ?b)\<rparr>"
    let ?e = "e\<lparr>e_config := b_config ?b, e_state := AVBUFFER_STATE_RETURNED\<rparr>"
    let ?q2 = "store_elem uid ?e ?q1"
    let ?q3 = "?q2\<lparr>q_dirty := q_dirty ?q2 @ [uid]\<rparr>"
    have i1: "bq_inv_ex {} ?q1" by (rule bq_inv_ex_heap [OF ex])
    have out: "uid \<notin> set (q_free ?q1)" "uid \<notin> set (q_dirty ?q1)"
      using out_of_lists [OF ex, of uid] push Some by (auto simp: state_of_def)
    have eb: "e_buffer e = Some uid" by (rule bq_inv_exD(2) [OF ex Some])
    have i2: "bq_inv_ex {uid} ?q2"
      using bq_inv_ex_store(1) [OF i1 out, of ?e] eb by simp
    have "state_of ?q2 uid = Some AVBUFFER_STATE_RETURNED"
      using cached_store [OF bq_inv_exD(1) [OF i1], of uid ?e uid] by (simp add: state_of_def)
    from bq_inv_ex_push_dirty [OF i2 _ this] have i3: "bq_inv ?q3"
      by (simp add: bq_inv_def)
    have h: "q_heap ?q1 (the (e_buffer e)) = Some ?b" using eb by simp
    show ?thesis
      using i1 i3 push Some b(2) h
      by (auto simp: ReturnBuffer_def Let_def bq_inv_def split: option.splits)
  qed
qed

text \<open>The locked part of a push.\<close>

lemma push_locked_inv:
  assumes inv: "bq_inv q" and d: "deletable uid q"
  obtains (stop) r q' where "push_locked uid available q = Some (Inl (r, q'))" "bq_inv q'"
      "\<not> (r \<noteq> OK \<and> state_of q' uid \<noteq> state_of q uid)"
  | (go) q' where "push_locked uid available q = Some (Inr q')" "bq_inv q'"
      "state_of q' uid = Some AVBUFFER_STATE_PUSHED" "q_consumer q' = q_consumer q"
      "state_of q uid \<in> {Some AVBUFFER_STATE_REQUESTED, Some AVBUFFER_STATE_ATTACHED}"
      "q_broker q' = q_broker q" "map_option e_isDeleting (cached q' uid) = Some False"
proof (cases "cached q uid")
  case None
  then show ?thesis using stop inv by (simp add: push_locked_def)
next
  case (Some e)
  have ex: "bq_inv_ex {} q" using inv by (simp add: bq_inv_def)
  obtain b where b: "q_heap q uid = Some b"
    "deref_GetConfig (e_buffer e) q =
       Some (b_config (AVBuffer_GetConfig b), q\<lparr>q_heap := (q_heap q)(uid \<mapsto> AVBuffer_GetConfig b)\<rparr>)"
    by (rule deref_cached [OF ex Some])
  define q1 where "q1 = (if available then q\<lparr>q_heap := (q_heap q)(uid \<mapsto> AVBuffer_GetConfig b)\<rparr> else q)"
  let ?ok = "available \<longrightarrow> c_size (b_config (AVBuffer_GetConfig b)) \<ge> 0"
  let ?st = "e_state e = AVBUFFER_STATE_REQUESTED \<or> e_state e = AVBUFFER_STATE_ATTACHED"
  have eq: "push_locked uid available q =
    (if e_isDeleting e then Some (Inl (OK, DeleteCachedBufferById uid q))
     else if \<not> ?ok then Some (Inl (ERROR_INVALID_BUFFER_SIZE, q1))
     else if \<not> ?st then Some (Inl (ERROR_INVALID_BUFFER_STATE, q1))
     else Some (Inr (set_state uid AVBUFFER_STATE_PUSHED q1)))"
    using Some b by (auto simp: push_locked_def q1_def)
  have i1: "bq_inv_ex {} q1" using bq_inv_ex_heap [OF ex] ex by (simp add: q1_def)
  have c1: "cached q1 uid = Some e" using Some by (simp add: q1_def)
  show ?thesis
  proof (cases "\<not> e_isDeleting e \<and> ?ok \<and> ?st")
    case True
    have out: "uid \<notin> set (q_free q1)" "uid \<notin> set (q_dirty q1)"
      using out_of_lists [OF i1, of uid] True c1 by (auto simp: state_of_def)
    have i2: "bq_inv (set_state uid AVBUFFER_STATE_PUSHED q1)"
      using bq_inv_ex_set_state(2) [OF i1 c1 out, of AVBUFFER_STATE_PUSHED] by (simp add: bq_inv_def)
    have cs: "cached (set_state uid AVBUFFER_STATE_PUSHED q1) uid = Some (e\<lparr>e_state := AVBUFFER_STATE_PUSHED\<rparr>)"
      using cached_store [OF bq_inv_exD(1) [OF i1]] by (simp add: set_state_eq [OF c1])
    show ?thesis
      by (rule go [of "set_state uid AVBUFFER_STATE_PUSHED q1"])
        (use True eq i2 cs Some in \<open>auto simp: state_of_def set_state_def store_elem_def q1_def\<close>)
  next
    case False
    show ?thesis
    proof (cases "e_isDeleting e")
      case True
      then show ?thesis
        using stop delete_marked_inv [OF inv Some True d] eq by simp
    next
      case nd: False
      have "state_of q1 uid = state_of q uid" by (simp add: q1_def)
      then show ?thesis
        using stop [of _ q1] False nd eq i1 by (cases ?ok; cases ?st) (auto simp: bq_inv_def)
    qed
  qed
qed

lemma emit_bq_inv [simp]: "bq_inv (emit e q) = bq_inv q"
  by (simp add: bq_inv_def)

lemma PushBuffer_inv:
  assumes inv: "bq_inv q" and d: "deletable uid q"
    and others: "\<And>q1. bq_inv q1 \<Longrightarrow> state_of q1 uid = Some AVBUFFER_STATE_PUSHED \<Longrightarrow>
      bq_inv (others q1) \<and> deletable uid (others q1)"
  shows "\<exists>r q'. PushBuffer others uid available q = Some (r, q') \<and> bq_inv q'"
proof (cases rule: push_locked_inv [OF inv d, of available])
  case (1 r q')
  then show ?thesis by (simp add: PushBuffer_def)
next
  case (2 q')
  have o: "bq_inv (others q')" "deletable uid (others q')" using others 2 by auto
  from ReturnBuffer_inv [OF o, of available] 2(1) o(1) show ?thesis
    by (simp add: PushBuffer_def Let_def)
qed

end
