(* ===== verification/Buffer_Queue_Clear.thy ===== *)
theory Buffer_Queue_Clear
  imports Buffer_Queue_Ops
begin

text \<open>
  The consumer side of the buffer queue (acquire, release, detach), attaching foreign buffers and the
  two clearing operations: each keeps the invariant.
\<close>

section \<open>Acquire, release, detach\<close>

lemma AcquireBuffer_empty:
  "q_dirty q = [] \<Longrightarrow> AcquireBuffer buffer q = Some (ERROR_NO_DIRTY_BUFFER, buffer, q)"
  by (simp add: AcquireBuffer_def PopFromDirtyBufferList_def)

lemma AcquireBuffer_head:
  assumes inv: "bq_inv q" and d: "q_dirty q = x # xs"
  shows "AcquireBuffer buffer q = Some (OK, Some x, set_state x AVBUFFER_STATE_ACQUIRED (q\<lparr>q_dirty := xs\<rparr>))"
    and "bq_inv (set_state x AVBUFFER_STATE_ACQUIRED (q\<lparr>q_dirty := xs\<rparr>))"
    and "state_of (set_state x AVBUFFER_STATE_ACQUIRED (q\<lparr>q_dirty := xs\<rparr>)) j =
      (if j = x then Some AVBUFFER_STATE_ACQUIRED else state_of q j)"
proof -
  have ex: "bq_inv_ex {} q" using inv by (simp add: bq_inv_def)
  have "state_of q x = Some AVBUFFER_STATE_RETURNED"
    using bq_inv_exD(7) [OF ex, of x] d by simp
  then obtain e where e: "cached q x = Some e" by (rule state_ofE)
  have b: "e_buffer e = Some x" by (rule bq_inv_exD(2) [OF ex e])
  have t: "touch x q = q" by (rule touch_cached) (simp add: e)
  show "AcquireBuffer buffer q = Some (OK, Some x, set_state x AVBUFFER_STATE_ACQUIRED (q\<lparr>q_dirty := xs\<rparr>))"
    using d e b t by (simp add: AcquireBuffer_def PopFromDirtyBufferList_def elem_at_def Let_def)
  have i: "bq_inv_ex {x} (q\<lparr>q_dirty := xs\<rparr>)"
    by (rule bq_inv_ex_drop_dirty [OF ex d])
  have out: "x \<notin> set (q_free (q\<lparr>q_dirty := xs\<rparr>))" "x \<notin> set (q_dirty (q\<lparr>q_dirty := xs\<rparr>))"
    using out_of_lists [OF i, of x] by auto
  have c: "cached (q\<lparr>q_dirty := xs\<rparr>) x = Some e" using e by simp
  show "bq_inv (set_state x AVBUFFER_STATE_ACQUIRED (q\<lparr>q_dirty := xs\<rparr>))"
    using bq_inv_ex_set_state(2) [OF i c out, of AVBUFFER_STATE_ACQUIRED] by (simp add: bq_inv_def)
  show "state_of (set_state x AVBUFFER_STATE_ACQUIRED (q\<lparr>q_dirty := xs\<rparr>)) j =
      (if j = x then Some AVBUFFER_STATE_ACQUIRED else state_of q j)"
    using state_of_set_state [OF bq_inv_exD(1) [OF i], of x] c by simp
qed

lemma AcquireBuffer_inv:
  assumes "bq_inv q"
  shows "\<exists>r b q'. AcquireBuffer buffer q = Some (r, b, q') \<and> bq_inv q'"
  using AcquireBuffer_empty AcquireBuffer_head [OF assms] assms by (cases "q_dirty q") auto

lemma ReleaseBuffer_inv:
  assumes inv: "bq_inv q"
  shows "bq_inv (snd (ReleaseBuffer uid q))"
proof (cases "fst (ReleaseBuffer uid q) = OK")
  case True
  then obtain e where e: "cached q uid = Some e"
      "e_state e = AVBUFFER_STATE_ACQUIRED \<or> e_state e = AVBUFFER_STATE_ATTACHED"
    by (auto simp: ReleaseBuffer_def split: option.splits if_splits)
  have ex: "bq_inv_ex {} q" using inv by (simp add: bq_inv_def)
  have out: "uid \<notin> set (q_free q)" "uid \<notin> set (q_dirty q)"
    using out_of_lists [OF ex, of uid] e by (auto simp: state_of_def)
  let ?q1 = "set_state uid AVBUFFER_STATE_RELEASED q"
  have "bq_inv_ex {uid} ?q1"
    using bq_inv_ex_set_state(1) [OF ex e(1) out] by simp
  from bq_inv_ex_delete [OF this, of uid] out have d: "bq_inv (DeleteCachedBufferById uid ?q1)"
    by (simp add: bq_inv_def set_state_def store_elem_def)
  have r: "bq_inv (InsertFreeBufferInOrder uid ?q1)"
    using bq_inv_ex_release(1) [OF ex e(1) out] by (simp add: bq_inv_def)
  show ?thesis
    using d r e by (simp add: ReleaseBuffer_def Let_def)
next
  case False
  then show ?thesis
    using inv by (auto simp: ReleaseBuffer_def Let_def split: option.splits if_splits)
qed

lemma DetachBuffer_force_inv:
  assumes inv: "bq_inv q" and out: "force \<Longrightarrow> uid \<notin> set (q_free q) \<and> uid \<notin> set (q_dirty q)"
  shows "bq_inv (snd (DetachBuffer_force uid force q))"
proof (cases "cached q uid")
  case None
  then show ?thesis using inv by (simp add: DetachBuffer_force_def)
next
  case (Some e)
  have ex: "bq_inv_ex {} q" using inv by (simp add: bq_inv_def)
  let ?held = "e_state e = AVBUFFER_STATE_REQUESTED \<or> e_state e = AVBUFFER_STATE_ACQUIRED"
  have eq: "DetachBuffer_force uid force q =
      (if force \<or> ?held then (OK, DeleteCachedBufferById uid q) else (ERROR_INVALID_BUFFER_STATE, q))"
    using Some by (auto simp: DetachBuffer_force_def DeleteCachedBufferById_def)
  have "uid \<notin> set (q_free q) \<and> uid \<notin> set (q_dirty q)" if "force \<or> ?held"
    using that out out_of_lists [OF ex, of uid] Some by (auto simp: state_of_def)
  then show ?thesis
    using bq_inv_ex_delete [OF ex, of uid] inv by (auto simp: eq bq_inv_def)
qed

lemma DetachBuffer_inv: "bq_inv q \<Longrightarrow> bq_inv (snd (DetachBuffer buffer q))"
  using DetachBuffer_force_inv [of q False] by (simp add: DetachBuffer_def split: option.split)

section \<open>Clearing\<close>

lemma set_state_dirty_upd:
  "set_state x s (q\<lparr>q_dirty := l\<rparr>) = (set_state x s q)\<lparr>q_dirty := l\<rparr>"
  by (simp add: set_state_def store_elem_def elem_at_def)

lemma insert_in_order_dirty_upd:
  "insert_in_order x xs (q\<lparr>q_dirty := l\<rparr>) =
     (fst (insert_in_order x xs q), (snd (insert_in_order x xs q))\<lparr>q_dirty := l\<rparr>)"
proof (induction x xs q rule: insert_in_order.induct)
  case (2 uid x xs q)
  have t: "touch j (q\<lparr>q_dirty := l\<rparr>) = (touch j q)\<lparr>q_dirty := l\<rparr>" for j q
    by (simp add: touch_def)
  have e: "elem_at (q\<lparr>q_dirty := l\<rparr>) j = elem_at q j" for j q
    by (simp add: elem_at_def)
  show ?case
    using 2 by (simp add: Let_def t e split_beta)
qed simp

lemma InsertFree_dirty_upd:
  "InsertFreeBufferInOrder x (q\<lparr>q_dirty := l\<rparr>) = (InsertFreeBufferInOrder x q)\<lparr>q_dirty := l\<rparr>"
  by (simp add: InsertFreeBufferInOrder_def insert_in_order_dirty_upd split_beta)

text \<open>Moving one returned buffer from the middle of the dirty list to the free list.\<close>

lemma release_dirty_inv:
  assumes inv: "bq_inv (q\<lparr>q_dirty := acc @ x # xs\<rparr>)" and c: "cached q x = Some e"
  shows "bq_inv ((InsertFreeBufferInOrder x (set_state x AVBUFFER_STATE_RELEASED q))\<lparr>q_dirty := acc @ xs\<rparr>)"
proof -
  let ?q = "q\<lparr>q_dirty := acc @ x # xs\<rparr>" and ?d = "q\<lparr>q_dirty := acc @ xs\<rparr>"
  have ex: "bq_inv_ex {} ?q" using inv by (simp add: bq_inv_def)
  have st: "state_of q x = Some AVBUFFER_STATE_RETURNED" "x \<notin> set (acc @ xs)" "x \<notin> set (q_free q)"
    using bq_inv_exD(5) [OF ex] bq_inv_exD(6,7) [OF ex, of x] by auto
  have "bq_inv_ex {x} ?d"
    using ex st bq_inv_exD(5) [OF ex] bq_inv_exD(6,7) [OF ex] unfolding bq_inv_ex_def by auto
  from bq_inv_ex_release(1) [OF this, of x e] c st(2,3) show ?thesis
    by (simp add: bq_inv_def set_state_dirty_upd InsertFree_dirty_upd)
qed

lemma clear_if_inv:
  assumes "bq_inv (q\<lparr>q_dirty := acc @ xs\<rparr>)"
  shows "bq_inv ((snd (clear_if pred xs q))\<lparr>q_dirty := acc @ fst (clear_if pred xs q)\<rparr>)"
  using assms
proof (induction pred xs q arbitrary: acc rule: clear_if.induct)
  case (2 pred x xs q)
  have keep: "bq_inv ((snd (clear_if pred xs q))\<lparr>q_dirty := acc @ x # fst (clear_if pred xs q)\<rparr>)"
    if "\<And>acc. bq_inv (q\<lparr>q_dirty := acc @ xs\<rparr>) \<Longrightarrow>
      bq_inv ((snd (clear_if pred xs q))\<lparr>q_dirty := acc @ fst (clear_if pred xs q)\<rparr>)"
    using that [of "acc @ [x]"] 2(5) by simp
  show ?case
  proof (cases "cached q x")
    case None
    then show ?thesis using keep 2(1) by (simp add: split_beta)
  next
    case (Some e)
    then show ?thesis
      using keep 2(2) [OF Some] 2(3) [OF Some] 2(4) [OF Some] release_dirty_inv [OF 2(5) Some]
      by (auto simp: split_beta)
  qed
qed simp

lemma ClearBufferIf_inv:
  assumes "bq_inv q"
  shows "bq_inv (snd (ClearBufferIf pred q))"
  using clear_if_inv [of "[]" "q_dirty q" q pred] assms
  by (simp add: ClearBufferIf_def split_beta)

lemma clear_loop_inv:
  assumes "bq_inv_ex X q" "X \<subseteq> set xs" "q_dirty q = []" "\<forall>x \<in> set xs. cached q x \<noteq> None"
    "\<And>x. x \<in> X \<Longrightarrow> state_of q x = Some AVBUFFER_STATE_RETURNED"
  shows "bq_inv (clear_loop xs q)"
  using assms
proof (induction xs arbitrary: X q)
  case Nil
  then show ?case by (simp add: bq_inv_def)
next
  case (Cons x xs)
  obtain e where e: "cached q x = Some e" using Cons.prems(4) by auto
  let ?q = "InsertFreeBufferInOrder x (set_state x AVBUFFER_STATE_RELEASED q)"
  show ?case
  proof (cases "e_state e = AVBUFFER_STATE_PUSHED \<or> e_state e = AVBUFFER_STATE_RETURNED")
    case True
    have out: "x \<notin> set (q_free q)" "x \<notin> set (q_dirty q)"
      using bq_inv_exD(6) [OF Cons.prems(1), of x] True e Cons.prems(3) by (auto simp: state_of_def)
    have i: "bq_inv_ex (X - {x}) ?q"
      by (rule bq_inv_ex_release(1) [OF Cons.prems(1) e out])
    have sm: "smap_inv (q_cached q)" by (rule bq_inv_exD(1) [OF Cons.prems(1)])
    have s1: "bq_inv_ex (insert x X) (set_state x AVBUFFER_STATE_RELEASED q)"
      by (rule bq_inv_ex_set_state(1) [OF Cons.prems(1) e out])
    have q: "?q = (set_state x AVBUFFER_STATE_RELEASED q)
        \<lparr>q_free := insert_by (cap_of (set_state x AVBUFFER_STATE_RELEASED q)) x (q_free q)\<rparr>"
      using InsertFreeBufferInOrder_eq [OF _ free_cached [OF s1], of x] out state_of_set_state [OF sm, of x] e
      by (simp add: set_state_def store_elem_def cached_store [unfolded store_elem_def] sm)
    have st: "state_of ?q j = (if j = x then Some AVBUFFER_STATE_RELEASED else state_of q j)" for j
      unfolding q using state_of_set_state [OF sm, of x] e by simp
    have cq: "cached ?q j \<noteq> None \<longleftrightarrow> cached q j \<noteq> None" for j
      using st [of j] e unfolding state_of_def by (cases "cached ?q j"; cases "cached q j"; cases "j = x") auto
    have d: "q_dirty ?q = []"
      unfolding q using Cons.prems(3) by (simp add: set_state_def store_elem_def)
    have "bq_inv (clear_loop xs ?q)"
      by (rule Cons.IH [OF i]) (use Cons.prems cq st d in auto)
    then show ?thesis using True e by (simp add: elem_at_def)
  next
    case False
    then have "x \<notin> X" using Cons.prems(5) [of x] e by (auto simp: state_of_def)
    then have "bq_inv (clear_loop xs q)"
      using Cons.prems by (intro Cons.IH [of X]) auto
    then show ?thesis using False e by (simp add: elem_at_def)
  qed
qed

lemma Clear_inv:
  assumes "bq_inv q"
  shows "bq_inv (snd (Clear q))"
proof -
  have ex: "bq_inv_ex {} q" using assms by (simp add: bq_inv_def)
  have i: "bq_inv_ex (set (q_dirty q)) (q\<lparr>q_dirty := []\<rparr>)"
    using ex bq_inv_exD(6,7) [OF ex] unfolding bq_inv_ex_def by auto
  have k: "cached q x \<noteq> None \<longleftrightarrow> x \<in> set (map fst (q_cached q))" for x
    by (metis cached_def list.set_map map_of_eq_None_iff)
  have "bq_inv (clear_loop (map fst (q_cached q)) (q\<lparr>q_dirty := []\<rparr>))"
    by (rule clear_loop_inv [OF i])
      (use bq_inv_exD(7) [OF ex] state_of_cached k in \<open>force simp del: set_map\<close>)+
  then show ?thesis by (simp add: Clear_def)
qed

section \<open>Attaching\<close>

lemma lists_le_count:
  assumes "bq_inv q"
  shows "length (q_free q) + length (q_dirty q) \<le> GetCachedBufferCount q"
proof -
  have ex: "bq_inv_ex {} q" using assms by (simp add: bq_inv_def)
  have d: "distinct (q_free q @ q_dirty q)"
    using bq_inv_exD(4,5) [OF ex] bq_inv_exD(6,7) [OF ex] by auto
  have k: "x \<in> set (map fst (q_cached q))" if "state_of q x = Some s" for x s
    using state_of_cached [OF that] by (simp add: cached_def map_of_eq_None_iff)
  have "set (q_free q @ q_dirty q) \<subseteq> set (map fst (q_cached q))"
    using bq_inv_exD(6,7) [OF ex] k by auto
  then have "card (set (q_free q @ q_dirty q)) \<le> card (set (map fst (q_cached q)))"
    by (rule card_mono [OF finite_set])
  also have "\<dots> \<le> length (q_cached q)"
    using card_length [of "map fst (q_cached q)"] by simp
  finally show ?thesis
    using distinct_card [OF d] by (simp add: GetCachedBufferCount_def)
qed

text \<open>The locked part of an attach: a new entry in state attached, in a queue that is not over-full.\<close>

lemma AttachAvailable_inv:
  assumes inv: "bq_inv q" and n: "cached q uid = None" and h: "q_heap q uid \<noteq> None"
  obtains (full) "AttachAvailableBufferLocked uid c q = (ERROR_OUT_OF_RANGE, q)"
      "GetCachedBufferCount q \<ge> q_size q" "length (q_dirty q) + length (q_free q) \<le> GetCachedBufferCount q - q_size q"
  | (ok) q' where "AttachAvailableBufferLocked uid c q = (OK, q')" "bq_inv q'"
      "cached q' uid = Some \<lparr>e_config = c, e_state = AVBUFFER_STATE_ATTACHED, e_isDeleting = False, e_buffer = Some uid\<rparr>"
      "q_consumer q' = q_consumer q" "q_size q' = q_size q" "q_heap q' = q_heap q"
      "GetCachedBufferCount q' \<le> q_size q"
proof -
  let ?e = "\<lparr>e_config = c, e_state = AVBUFFER_STATE_ATTACHED, e_isDeleting = False, e_buffer = Some uid\<rparr>"
  let ?over = "GetCachedBufferCount q - q_size q"
  define q0 where "q0 = (if GetCachedBufferCount q \<ge> q_size q then DeleteBuffers (?over + 1) q else q)"
  let ?q' = "TotalMemoryCalculation True (c_capacity c) (store_elem uid ?e q0)"
  have ex: "bq_inv_ex {} q0"
    using inv DeleteBuffers_inv [of "{}" q] by (simp add: q0_def bq_inv_def)
  have f: "cached q0 uid = None" "q_heap q0 = q_heap q" "q_consumer q0 = q_consumer q" "q_size q0 = q_size q"
    using n cached_DeleteBuffers_None [OF n] by (simp_all add: q0_def)
  have out: "uid \<notin> set (q_free q0)" "uid \<notin> set (q_dirty q0)"
    using out_of_lists [OF ex, of uid] f(1) by (auto simp: state_of_def)
  have i: "bq_inv ?q'"
    using bq_inv_ex_store(2) [OF ex out, of ?e] h f by (simp add: bq_inv_def)
  have c: "cached ?q' uid = Some ?e"
    using cached_store [OF bq_inv_exD(1) [OF ex]] by simp
  have cnt: "GetCachedBufferCount ?q' = Suc (GetCachedBufferCount q0)"
    using sm.length_put [OF bq_inv_exD(1) [OF ex], of uid ?e] f(1)
    by (simp add: GetCachedBufferCount_def store_elem_def cached_def)
  show ?thesis
  proof (cases "GetCachedBufferCount q \<ge> q_size q \<and> \<not> length (q_dirty q) + length (q_free q) > ?over")
    case True
    then show ?thesis
      using full by (simp add: AttachAvailableBufferLocked_def Let_def)
  next
    case False
    have eq: "AttachAvailableBufferLocked uid c q = (OK, ?q')"
      using False by (auto simp: AttachAvailableBufferLocked_def Let_def q0_def)
    have lt: "GetCachedBufferCount q0 < q_size q"
    proof (cases "GetCachedBufferCount q \<ge> q_size q")
      case True
      then have "?over + 1 \<le> length (q_free q) + length (q_dirty q)" using False by simp
      moreover have "q_size q \<noteq> 0"
        using calculation lists_le_count [OF inv] by auto
      ultimately show ?thesis
        using count_DeleteBuffers_lists [of "{}" q "?over + 1"] inv True by (simp add: q0_def bq_inv_def)
    qed (simp add: q0_def)
    show ?thesis
      by (rule ok [OF eq i c]) (use f cnt lt in \<open>simp_all add: store_elem_def\<close>)
  qed
qed

text \<open>Handing the attached buffer on: it is pushed or released at once, and detached when the push
  fails. With no consumer listener the push queues the buffer and fails.\<close>

lemma PushBufferOnFilled_inv:
  assumes inv: "bq_inv q" and st: "state_of q uid = Some AVBUFFER_STATE_ATTACHED" "deletable uid q"
    and cons: "q_consumer q \<noteq> None"
  shows "\<exists>r q'. PushBufferOnFilled (\<lambda>q. q) uid True q = Some (r, q') \<and> bq_inv q'"
proof (cases rule: push_locked_inv [OF inv st(2), of True])
  case (1 r q')
  have "uid \<notin> set (q_free q') \<and> uid \<notin> set (q_dirty q')" if "r \<noteq> OK"
    using out_of_lists [of "{}" q' uid] 1 that st by (auto simp: bq_inv_def)
  then show ?thesis
    using 1 DetachBuffer_force_inv [of q' True uid] by (auto simp: PushBufferOnFilled_def PushBuffer_def)
next
  case (2 q')
  let ?brk = "q_broker q' \<noteq> [] \<and> last (q_broker q') \<noteq> None"
  obtain e where e: "cached q' uid = Some e" "e_state e = AVBUFFER_STATE_PUSHED" "\<not> e_isDeleting e"
    using 2 by (auto simp: state_of_def)
  have ex: "bq_inv_ex {} q'" using 2 by (simp add: bq_inv_def)
  obtain r q'' where r: "ReturnBuffer uid True q' = Some (r, q'')" "bq_inv q''"
    using ReturnBuffer_inv [of q' uid True] 2 e by (auto simp: deletable_def)
  obtain b where b: "q_heap q' uid = Some b"
    "deref_GetConfig (e_buffer e) q' =
       Some (b_config (AVBuffer_GetConfig b), q'\<lparr>q_heap := (q_heap q')(uid \<mapsto> AVBuffer_GetConfig b)\<rparr>)"
    by (rule deref_cached [OF ex e(1)])
  have "state_of q'' uid = state_of q' uid" if "r \<noteq> OK"
    using that r(1) e b cons 2(4) bq_inv_exD(2) [OF ex e(1)]
    by (auto simp: ReturnBuffer_def Let_def store_elem_def split: if_splits option.splits)
  then have "uid \<notin> set (q_free q'') \<and> uid \<notin> set (q_dirty q'')" if "r \<noteq> OK"
    using out_of_lists [of "{}" q'' uid] r(2) 2(3) that by (auto simp: bq_inv_def)
  then show ?thesis
    using 2(1,2) r DetachBuffer_force_inv [of q'' True uid]
    by (cases ?brk) (auto simp: PushBufferOnFilled_def PushBuffer_def Let_def)
qed

lemma CheckConfig_inv: "bq_inv q \<Longrightarrow> bq_inv (snd (CheckConfig c q))"
  by (simp add: CheckConfig_def bq_inv_def)

lemma SetQueueSizeBeforeAttach_frame [simp]:
  "q_heap (SetQueueSizeBeforeAttachBufferLocked sz q) = q_heap q"
  "q_consumer (SetQueueSizeBeforeAttachBufferLocked sz q) = q_consumer q"
  by (simp_all add: SetQueueSizeBeforeAttachBufferLocked_def emit_def Let_def)

lemma attach_locked_inv:
  assumes inv: "bq_inv q" and h: "q_heap q uid \<noteq> None"
  obtains (stop) r q' where "attach_locked newSize (Some uid) q = Some (Inl (r, q'))" "bq_inv q'"
  | (go) q' where "attach_locked newSize (Some uid) q = Some (Inr (uid, q'))" "bq_inv q'"
      "state_of q' uid = Some AVBUFFER_STATE_ATTACHED" "deletable uid q'" "q_consumer q' = q_consumer q"
proof -
  obtain b where b: "q_heap q uid = Some b" using h by auto
  let ?b = "AVBuffer_GetConfig b"
  define q0 where "q0 = q\<lparr>q_heap := (q_heap q)(uid \<mapsto> ?b)\<rparr>"
  define q1 where "q1 = (case newSize of None \<Rightarrow> q0
    | Some sz \<Rightarrow> if sz \<ge> 0 \<and> sz \<le> AVBUFFER_QUEUE_MAX_QUEUE_SIZE \<and> sz \<noteq> q_size q0
                 then SetQueueSizeBeforeAttachBufferLocked sz q0 else q0)"
  define q2 where "q2 = snd (CheckConfig (b_config ?b) q1)"
  have i0: "bq_inv q0" using inv bq_inv_ex_heap [of "{}" q] by (simp add: q0_def bq_inv_def)
  have i1: "bq_inv q1"
    using i0 SetQueueSizeBeforeAttach_inv [of "{}" q0] by (auto simp: q1_def bq_inv_def split: option.split)
  have i2: "bq_inv q2" unfolding q2_def by (rule CheckConfig_inv [OF i1])
  have h1: "q_heap q1 uid = Some ?b" "q_consumer q1 = q_consumer q"
    by (auto simp: q1_def q0_def split: option.split)
  have f2: "cached q2 = cached q1" "q_heap q2 = q_heap q1" "q_consumer q2 = q_consumer q1"
    by (auto simp: q2_def CheckConfig_def)
  have eq: "attach_locked newSize (Some uid) q =
     (if cached q1 uid \<noteq> None then Some (Inl (ERROR_INVALID_BUFFER_ID, q1))
      else if fst (CheckConfig (b_config ?b) q1) \<noteq> OK then Some (Inl (fst (CheckConfig (b_config ?b) q1), q2))
      else case AttachAvailableBufferLocked uid (b_config ?b) q2 of
                (r2, q3) \<Rightarrow> if r2 \<noteq> OK then Some (Inl (r2, q3)) else Some (Inr (uid, q3)))"
    using b by (simp add: attach_locked_def deref_GetConfig_def Let_def q0_def [symmetric]
        q1_def [symmetric] q2_def split_beta)
  show thesis
  proof (cases "cached q1 uid = None \<and> fst (CheckConfig (b_config ?b) q1) = OK")
    case True
    have n: "cached q2 uid = None" "q_heap q2 uid \<noteq> None" using True f2 h1 by auto
    show ?thesis
    proof (cases rule: AttachAvailable_inv [OF i2 n, of "b_config ?b"])
      case 1
      with eq True i2 show ?thesis by (intro stop) auto
    next
      case (2 q')
      from eq True 2 f2 h1 show ?thesis
        by (intro go [of q']) (simp_all add: state_of_def deletable_def)
    qed
  next
    case False
    then show ?thesis using eq i1 i2 by (cases "cached q1 uid = None") (auto intro: stop)
  qed
qed

lemma attach_common_inv:
  assumes inv: "bq_inv q" and h: "q_heap q uid \<noteq> None" and cons: "isFilled \<Longrightarrow> q_consumer q \<noteq> None"
  shows "\<exists>r q'. attach_common newSize (\<lambda>q. q) (Some uid) isFilled q = Some (r, q') \<and> bq_inv q'"
proof (cases rule: attach_locked_inv [OF inv h, of newSize])
  case (1 r q')
  then show ?thesis by (simp add: attach_common_def)
next
  case (2 q')
  then show ?thesis
    using PushBufferOnFilled_inv [OF 2(2-4)] cons ReleaseBuffer_inv [OF 2(2), of uid]
    by (cases isFilled) (auto simp: attach_common_def intro: prod.exhaust_sel)
qed

end
