(* ===== verification/Buffer_Queue_Steps.thy ===== *)
theory Buffer_Queue_Steps
  imports Buffer_Queue_Clear
begin

text \<open>
  The buffer queue as a transition system: its public operations as atomic steps in any order, by any
  number of producers, consumers and listeners, and what holds in every reachable state. Further: the
  first-in first-out order between producer and consumer, the choice of buffer for a request, the
  bounds on the number of cached buffers, and the cases in which the code does not keep them.
\<close>

section \<open>Steps\<close>

text \<open>
  Every section of the code that runs without giving up the lock is a step, and no step has a condition
  the code does not check, with one exception: the id generator must not return the id of a buffer
  that is cached (\<^verbatim>\<open>fresh_uid\<close>). A request that has to wait is a request step that ends in its waiting
  state, other steps, and a second look. A push is its locked section, other steps, and the delivery to the broker listener
  or \<^verbatim>\<open>ReturnBuffer\<close>. An attach is its locked section, other steps, and the steps of a release or of
  a push, after whose failure the buffer is detached by force. A client changes the buffers it holds at
  any time.
\<close>

inductive bq_step :: "bq \<Rightarrow> bq \<Rightarrow> bool" where
  set_size: "bq_step q (snd (SetQueueSize sz q))"
| set_larger: "bq_step q (snd (SetLargerQueueSize sz q))"
| request: "fresh_uid q \<Longrightarrow> RequestBuffer env (\<lambda>q. q) buffer config timeoutMs q = (r, b, q') \<Longrightarrow> bq_step q q'"
| cancel: "bq_step q (snd (CancelBuffer uid q))"
| push_stop: "push_locked uid available q = Some (Inl (r, q')) \<Longrightarrow> bq_step q q'"
| push_go: "push_locked uid available q = Some (Inr q') \<Longrightarrow> bq_step q q'"
| broker: "bq_step q (emit (BrokerOnBufferFilled l uid) q)"
| return: "ReturnBuffer uid available q = Some (r, q') \<Longrightarrow> bq_step q q'"
| attach_stop: "attach_locked newSize buffer q = Some (Inl (r, q')) \<Longrightarrow> bq_step q q'"
| attach_go: "attach_locked newSize buffer q = Some (Inr (uid, q')) \<Longrightarrow> bq_step q q'"
| detach_force: "bq_step q (snd (DetachBuffer_force uid True q))"
| detach: "bq_step q (snd (DetachBuffer buffer q))"
| acquire: "AcquireBuffer buffer q = Some (r, b, q') \<Longrightarrow> bq_step q q'"
| release: "bq_step q (snd (ReleaseBuffer uid q))"
| clear_if: "bq_step q (snd (ClearBufferIf pred q))"
| clear: "bq_step q (snd (Clear q))"
| set_broker: "bq_step q (snd (SetBrokerListener l q))"
| remove_broker: "bq_step q (snd (RemoveBrokerListener l q))"
| set_producer: "bq_step q (snd (SetProducerListener l q))"
| set_consumer: "bq_step q (snd (SetConsumerListener l q))"
| client: "bq_step q (q\<lparr>q_heap := (q_heap q)(uid \<mapsto> b)\<rparr>)"

text \<open>The calls that give up the lock are runs of these steps, whatever runs in between.\<close>

lemma bq_step_star: "bq_step q q' \<Longrightarrow> bq_step\<^sup>*\<^sup>* q q'"
  by blast

lemma bq_step_trans: "bq_step\<^sup>*\<^sup>* q q1 \<Longrightarrow> bq_step q1 q2 \<Longrightarrow> bq_step\<^sup>*\<^sup>* q q2"
  by (rule rtranclp.rtrancl_into_rtrancl)

lemma PushBuffer_steps:
  assumes others: "\<And>q. bq_step\<^sup>*\<^sup>* q (others q)" and r: "PushBuffer others uid available q = Some (r, q')"
  shows "bq_step\<^sup>*\<^sup>* q q'"
proof -
  obtain l where l: "push_locked uid available q = Some l"
    using r by (auto simp: PushBuffer_def split: bind_splits)
  show ?thesis
  proof (cases l)
    case (Inl a)
    with l r show ?thesis by (cases a) (auto simp: PushBuffer_def intro: bq_step.push_stop)
  next
    case (Inr q1)
    have s: "bq_step\<^sup>*\<^sup>* q (others q1)"
      using bq_step_star [OF push_go] l Inr others [of q1] by (metis rtranclp_trans)
    show ?thesis
      using r l Inr bq_step_trans [OF s broker] bq_step_trans [OF s return]
      by (auto simp: PushBuffer_def Let_def split: if_splits)
  qed
qed

lemma attach_steps:
  assumes others: "\<And>q. bq_step\<^sup>*\<^sup>* q (others q)"
    and r: "attach_common newSize others buffer isFilled q = Some (r, q')"
  shows "bq_step\<^sup>*\<^sup>* q q'"
proof -
  obtain l where l: "attach_locked newSize buffer q = Some l"
    using r by (auto simp: attach_common_def split: bind_splits)
  show ?thesis
  proof (cases l)
    case (Inl a)
    with l r show ?thesis by (cases a) (auto simp: attach_common_def intro: bq_step.attach_stop)
  next
    case (Inr a)
    obtain uid q3 where a: "a = (uid, q3)" by (cases a)
    have s: "bq_step\<^sup>*\<^sup>* q (others q3)"
      using bq_step_star [OF attach_go] l Inr a others [of q3] by (metis rtranclp_trans)
    show ?thesis
    proof (cases isFilled)
      case True
      obtain r2 q4 where p: "PushBuffer others uid True (others q3) = Some (r2, q4)"
        "q' = (if r2 \<noteq> OK then snd (DetachBuffer_force uid True q4) else q4)"
        using r l Inr a True
        by (auto simp: attach_common_def PushBufferOnFilled_def split: bind_splits if_splits)
      have "bq_step\<^sup>*\<^sup>* q q4" using s PushBuffer_steps [OF others p(1)] by (rule rtranclp_trans)
      with p(2) show ?thesis using bq_step_trans [OF _ detach_force] by auto
    next
      case False
      then show ?thesis using r l Inr a bq_step_trans [OF s release, of uid] by (auto simp: attach_common_def)
    qed
  qed
qed

lemma bq_inv_frame [simp]:
  "bq_inv (q\<lparr>q_broker := br\<rparr>) = bq_inv q"
  "bq_inv (q\<lparr>q_producer := p\<rparr>) = bq_inv q"
  "bq_inv (q\<lparr>q_consumer := p\<rparr>) = bq_inv q"
  by (simp_all add: bq_inv_def)

lemma RequestBuffer_step_inv:
  assumes "bq_inv q" "fresh_uid q" "RequestBuffer env (\<lambda>q. q) buffer c t q = (r, b, q')"
  shows "bq_inv q'"
proof -
  obtain r1 b1 q1 where "RequestBufferWaitUs env (\<lambda>q. q) buffer c (t * 1000) q = (r1, b1, q1)" "bq_inv q1"
    using RequestBufferWaitUs_inv [OF assms(1,2), of "\<lambda>q. q"] by blast
  with assms(3) show ?thesis by (simp add: RequestBuffer_def)
qed

text \<open>
  Two kinds of step leave the id of a buffer in a list whose entry they erase: the return or the push of a buffer that is
  marked for deletion and idle, and the forced detach of a buffer that is idle or queued.
\<close>

definition lists_cached :: "bq \<Rightarrow> bool" where
  "lists_cached q = (\<forall>uid \<in> set (q_free q) \<union> set (q_dirty q). cached q uid \<noteq> None)"

definition drops_listed :: "bq \<Rightarrow> bq \<Rightarrow> bool" where
  "drops_listed q q' =
     (\<exists>uid e. uid \<in> set (q_free q) \<union> set (q_dirty q) \<and> cached q uid = Some e \<and>
        (q' = snd (DetachBuffer_force uid True q) \<or>
         e_isDeleting e \<and> (\<exists>available. ReturnBuffer uid available q = Some (OK, q'))))"

lemma bq_inv_lists_cached: "bq_inv q \<Longrightarrow> lists_cached q"
  using bq_inv_exD(6,7) [of "{}" q] by (force simp: bq_inv_def lists_cached_def state_of_def)

lemma DetachBuffer_force_delete:
  "cached q uid = Some e \<Longrightarrow> DetachBuffer_force uid True q = (OK, DeleteCachedBufferById uid q)"
  by (simp add: DetachBuffer_force_def DeleteCachedBufferById_def)

lemma drops_listed_not_cached:
  assumes "drops_listed q q'"
  shows "\<not> lists_cached q'"
proof -
  obtain uid e where u: "uid \<in> set (q_free q) \<union> set (q_dirty q)" "cached q uid = Some e"
    "q' = snd (DetachBuffer_force uid True q) \<or>
     e_isDeleting e \<and> (\<exists>available. ReturnBuffer uid available q = Some (OK, q'))"
    using assms unfolding drops_listed_def by blast
  then have "q' = DeleteCachedBufferById uid q"
    by (auto simp: DetachBuffer_force_delete ReturnBuffer_def)
  then have "uid \<in> set (q_free q') \<union> set (q_dirty q')" "cached q' uid = None" using u by simp_all
  then show ?thesis unfolding lists_cached_def by blast
qed

lemma not_deletable:
  assumes "bq_inv q" "\<not> deletable uid q"
  obtains e where "cached q uid = Some e" "e_isDeleting e" "uid \<in> set (q_free q) \<union> set (q_dirty q)"
  using assms bq_inv_exD(6,7) [of "{}" q]
  by (auto simp: deletable_def bq_inv_def state_of_def split: option.splits if_splits)

lemma return_step_inv:
  assumes "bq_inv q" "ReturnBuffer uid available q = Some (r, q')"
  shows "bq_inv q' \<or> drops_listed q q'"
proof (cases "deletable uid q")
  case True
  then show ?thesis using ReturnBuffer_inv [OF assms(1), of uid available] assms(2) by auto
next
  case False
  obtain e where e: "cached q uid = Some e" "e_isDeleting e" "uid \<in> set (q_free q) \<union> set (q_dirty q)"
    by (rule not_deletable [OF assms(1) False])
  then have "ReturnBuffer uid available q = Some (OK, q')" using assms(2) by (auto simp: ReturnBuffer_def)
  with e show ?thesis unfolding drops_listed_def by blast
qed

lemma push_step_inv:
  assumes "bq_inv q" "push_locked uid available q = Some l"
  shows "(\<forall>r q'. l = Inl (r, q') \<longrightarrow> bq_inv q' \<or> drops_listed q q') \<and> (\<forall>q'. l = Inr q' \<longrightarrow> bq_inv q')"
proof (cases "deletable uid q")
  case True
  show ?thesis by (cases rule: push_locked_inv [OF assms(1) True, of available]) (use assms(2) in auto)
next
  case False
  obtain e where e: "cached q uid = Some e" "e_isDeleting e" "uid \<in> set (q_free q) \<union> set (q_dirty q)"
    by (rule not_deletable [OF assms(1) False])
  then have "ReturnBuffer uid available q = Some (OK, DeleteCachedBufferById uid q)"
    "l = Inl (OK, DeleteCachedBufferById uid q)"
    using assms(2) by (auto simp: ReturnBuffer_def push_locked_def)
  with e show ?thesis unfolding drops_listed_def by blast
qed

lemma attach_step_inv:
  assumes "bq_inv q" "attach_locked newSize buffer q = Some l"
  shows "(\<forall>r q'. l = Inl (r, q') \<longrightarrow> bq_inv q') \<and> (\<forall>uid q'. l = Inr (uid, q') \<longrightarrow> bq_inv q')"
proof (cases buffer)
  case None
  with assms show ?thesis by (auto simp: attach_locked_def)
next
  case (Some uid)
  have h: "q_heap q uid \<noteq> None"
    using assms(2) Some by (auto simp: attach_locked_def deref_GetConfig_def split: option.splits)
  from assms Some show ?thesis by (cases rule: attach_locked_inv [OF assms(1) h, of newSize]) auto
qed

lemma detach_force_step_inv:
  assumes "bq_inv q"
  shows "bq_inv (snd (DetachBuffer_force uid True q)) \<or> drops_listed q (snd (DetachBuffer_force uid True q))"
proof (cases "uid \<in> set (q_free q) \<union> set (q_dirty q)")
  case True
  then obtain e where "cached q uid = Some e"
    using bq_inv_lists_cached [OF assms] unfolding lists_cached_def by fastforce
  with True show ?thesis unfolding drops_listed_def by blast
next
  case False
  then show ?thesis using DetachBuffer_force_inv [OF assms, of True uid] by simp
qed

lemma bq_step_inv: "bq_step q q' \<Longrightarrow> bq_inv q \<Longrightarrow> bq_inv q' \<or> drops_listed q q'"
proof (induction rule: bq_step.induct)
  case (set_size q sz)
  then show ?case using SetQueueSize_inv(1) by (simp add: bq_inv_def)
next
  case (set_larger q sz)
  then show ?case using SetQueueSize_inv(2) by (simp add: bq_inv_def)
next
  case (push_stop uid available q r q')
  then show ?case using push_step_inv by blast
next
  case (push_go uid available q q')
  then show ?case using push_step_inv by blast
next
  case (return uid available q r q')
  then show ?case using return_step_inv by blast
next
  case (attach_stop newSize buffer q r q')
  then show ?case using attach_step_inv by blast
next
  case (attach_go newSize buffer q uid q')
  then show ?case using attach_step_inv by blast
next
  case (acquire buffer q r b q')
  then show ?case using AcquireBuffer_inv [of q buffer] by auto
next
  case (client q uid b)
  then show ?case using bq_inv_ex_heap by (simp add: bq_inv_def)
qed (simp_all add: RequestBuffer_step_inv CancelBuffer_inv DetachBuffer_inv ReleaseBuffer_inv
    ClearBufferIf_inv Clear_inv SetBrokerListener_def RemoveBrokerListener_def SetProducerListener_def
    SetConsumerListener_def detach_force_step_inv)

lemma bq_inv_init [simp]: "bq_inv (AVBufferQueueImpl sz type da g heap)"
  by (auto simp: bq_inv_def bq_inv_ex_def AVBufferQueueImpl_def cached_def state_of_def)

lemma bq_run_inv:
  "(\<lambda>q q'. bq_step q q' \<and> lists_cached q')\<^sup>*\<^sup>* q q' \<Longrightarrow> bq_inv q \<Longrightarrow> bq_inv q'"
  by (induction rule: rtranclp_induct) (use bq_step_inv drops_listed_not_cached in blast)+

lemma return_push_defined:
  assumes "bq_inv q"
  shows "ReturnBuffer uid available q \<noteq> None" "PushBuffer (\<lambda>q. q) uid available q \<noteq> None"
proof -
  show "ReturnBuffer uid available q \<noteq> None"
  proof (cases "deletable uid q")
    case True
    then show ?thesis using ReturnBuffer_inv [OF assms, of uid available] by auto
  next
    case False
    then show ?thesis by (rule not_deletable [OF assms]) (simp add: ReturnBuffer_def)
  qed
  show "PushBuffer (\<lambda>q. q) uid available q \<noteq> None"
  proof (cases "deletable uid q")
    case True
    have "bq_inv q1 \<and> deletable uid q1" if "bq_inv q1" "state_of q1 uid = Some AVBUFFER_STATE_PUSHED" for q1
      using that by (auto simp: deletable_def state_of_def)
    then show ?thesis using PushBuffer_inv [OF assms True, of "\<lambda>q. q" available] by auto
  next
    case False
    then show ?thesis by (rule not_deletable [OF assms]) (simp add: PushBuffer_def push_locked_def)
  qed
qed

section \<open>The channel between producer and consumer\<close>

text \<open>A filled buffer enters the channel when \<^verbatim>\<open>ReturnBuffer\<close> accepts it and keeps it in the queue.\<close>

definition queue_filled :: "bufid \<Rightarrow> bq \<Rightarrow> bq option" where
  "queue_filled uid q =
     (case ReturnBuffer uid True q of
        None \<Rightarrow> None
      | Some (r, q') \<Rightarrow> if r = OK \<and> cached q' uid \<noteq> None then Some q' else None)"

definition acquire_next :: "bq \<Rightarrow> (bufid option \<times> bq) option" where
  "acquire_next q = map_option (\<lambda>(r, b, q'). (b, q')) (AcquireBuffer None q)"

lemma ReturnBuffer_filled:
  assumes inv: "bq_inv q" and r: "ReturnBuffer uid True q = Some (OK, q')" and c: "cached q' uid \<noteq> None"
  shows "bq_inv q'" "q_dirty q' = q_dirty q @ [uid]"
proof -
  have ex: "bq_inv_ex {} q" using inv by (simp add: bq_inv_def)
  obtain e where e: "cached q uid = Some e" using r by (auto simp: ReturnBuffer_def split: option.splits)
  obtain b where b: "q_heap q uid = Some b"
    "deref_GetConfig (e_buffer e) q =
       Some (b_config (AVBuffer_GetConfig b), q\<lparr>q_heap := (q_heap q)(uid \<mapsto> AVBuffer_GetConfig b)\<rparr>)"
    by (rule deref_cached [OF ex e])
  have nd: "\<not> e_isDeleting e" using r c e by (auto simp: ReturnBuffer_def)
  then have "deletable uid q" using e by (simp add: deletable_def)
  from ReturnBuffer_inv [OF inv this, of True] r show "bq_inv q'" by auto
  show "q_dirty q' = q_dirty q @ [uid]"
    using r e nd b bq_inv_exD(2) [OF ex e]
    by (auto simp: ReturnBuffer_def Let_def store_elem_def emit_def split: if_splits option.splits)
qed

interpretation bqc: fifo_channel bq_inv q_dirty queue_filled acquire_next
proof unfold_locales
  fix q x q'
  assume "bq_inv q" "queue_filled x q = Some q'"
  then show "bq_inv q' \<and> q_dirty q' = q_dirty q @ [x]"
    using ReturnBuffer_filled [of q x q'] by (auto simp: queue_filled_def split: option.splits if_splits)
next
  fix q x xs
  assume inv: "bq_inv q" and d: "q_dirty q = x # xs"
  show "\<exists>s'. acquire_next q = Some (Some x, s') \<and> bq_inv s' \<and> q_dirty s' = xs"
    using AcquireBuffer_head [OF inv d]
    by (simp add: acquire_next_def) (simp add: set_state_def store_elem_def)
qed

section \<open>Requests\<close>

text \<open>An undisturbed request in closed form: the chosen free buffer, else a new one if there is room,
  else an error that depends on whether the request waited.\<close>

definition request_config :: "AVBufferConfig \<Rightarrow> bq \<Rightarrow> AVBufferConfig" where
  "request_config c q = (if c_memoryType c = UNKNOWN_MEMORY then c\<lparr>c_memoryType := q_memoryType q\<rparr> else c)"

definition request_spec ::
  "alloc_env \<Rightarrow> bufid option \<Rightarrow> AVBufferConfig \<Rightarrow> int \<Rightarrow> bq \<Rightarrow> Status \<times> bufid option \<times> bq" where
  "request_spec env buffer c t q =
     (let cc = request_config c q; (s, q0) = CheckConfig cc q
      in if s \<noteq> OK then (s, buffer, q0)
         else case pick cc q0 of
           Some x \<Rightarrow> RequestReuseBuffer env (Some x) cc (q0\<lparr>q_free := remove1 x (q_free q0)\<rparr>)
         | None \<Rightarrow>
             if GetCachedBufferCount q0 < q_size q0 then alloc_and_request env None cc q0
             else (if t > 0 then ERROR_WAIT_TIMEOUT else ERROR_NO_FREE_BUFFER, None, q0))"

lemma RequestBuffer_eq_spec:
  assumes "bq_inv q"
  shows "RequestBuffer env (\<lambda>q. q) buffer c t q = request_spec env buffer c t q"
proof -
  define cc where "cc = request_config c q"
  obtain s q0 where k: "CheckConfig cc q = (s, q0)" by (cases "CheckConfig cc q")
  have i: "bq_inv_ex {} q0"
    using assms CheckConfig_inv [of q cc] k by (simp add: bq_inv_def)
  have emp: "pick cc q0 = None \<Longrightarrow> q_free q0 = []" by (simp add: pick_None)
  show ?thesis
    unfolding RequestBuffer_def RequestBufferWaitUs_def request_spec_def cc_def [symmetric]
      request_config_def [symmetric] Let_def k
    using emp by (cases "pick cc q0") (simp_all add: PopFromFree_eq [OF i] wait_for_def Let_def)
qed

lemma request_memoryType: "cached (snd (CheckConfig cc q)) = cached q" "q_size (snd (CheckConfig cc q)) = q_size q"
  "q_free (snd (CheckConfig cc q)) = q_free q" "q_cached (snd (CheckConfig cc q)) = q_cached q"
  "fresh_uid (snd (CheckConfig cc q)) = fresh_uid q"
  by (simp_all add: CheckConfig_def)

lemma request_spec_count:
  assumes inv: "bq_inv q" and fresh: "fresh_uid q" and r: "request_spec env buffer c t q = (r, b, q')"
  shows "GetCachedBufferCount q' \<le> max (GetCachedBufferCount q) (q_size q)"
    and "r = OK \<Longrightarrow> \<exists>x. b = Some x \<and> state_of q' x = Some AVBUFFER_STATE_REQUESTED"
    and "bq_inv q'"
proof -
  define cc where "cc = request_config c q"
  obtain s q0 where k: "CheckConfig cc q = (s, q0)" by (cases "CheckConfig cc q")
  have i: "bq_inv q0" "fresh_uid q0" "GetCachedBufferCount q0 = GetCachedBufferCount q" "q_size q0 = q_size q"
    using inv fresh CheckConfig_inv [of q cc] request_memoryType [of cc q] k
    by (simp_all add: GetCachedBufferCount_def)
  note u = r [unfolded request_spec_def Let_def cc_def [symmetric] k]
  have "GetCachedBufferCount q' \<le> max (GetCachedBufferCount q) (q_size q) \<and>
    (r = OK \<longrightarrow> (\<exists>x. b = Some x \<and> state_of q' x = Some AVBUFFER_STATE_REQUESTED)) \<and> bq_inv q'"
  proof (cases "s = OK")
    case False
    then show ?thesis using u i by auto
  next
    case True
    show ?thesis
    proof (cases "pick cc q0")
      case (Some x)
      from RequestReuse_inv [OF i(1,2) Some, of env] obtain r1 b1 q1 where
        a: "RequestReuseBuffer env (Some x) cc (q0\<lparr>q_free := remove1 x (q_free q0)\<rparr>) = (r1, b1, q1)" "bq_inv q1"
        and ok: "r1 = OK \<Longrightarrow> \<exists>y. b1 = Some y \<and> state_of q1 y = Some AVBUFFER_STATE_REQUESTED"
        and n: "GetCachedBufferCount q1 \<le> GetCachedBufferCount q0"
        by metis
      have "(r, b, q') = (r1, b1, q1)" using u True Some a(1) by simp
      then show ?thesis
        using a(2) ok n i by auto
    next
      case None
      show ?thesis
      proof (cases "GetCachedBufferCount q0 < q_size q0")
        case lt: True
        from alloc_and_request_inv [OF i(1,2), of env None cc] obtain r1 b1 q1 where
          a: "alloc_and_request env None cc q0 = (r1, b1, q1)" "bq_inv q1"
          and ok: "r1 = OK \<Longrightarrow> \<exists>x. b1 = Some x \<and> state_of q1 x = Some AVBUFFER_STATE_REQUESTED \<and>
            GetCachedBufferCount q1 = Suc (GetCachedBufferCount q0)"
          and nok: "r1 \<noteq> OK \<Longrightarrow> GetCachedBufferCount q1 = GetCachedBufferCount q0"
          by metis
        have "(r, b, q') = (r1, b1, q1)" using u True None lt a(1) by simp
        then show ?thesis
          using a(2) ok nok lt i by (cases "r1 = OK") auto
      next
        case False
        then show ?thesis using u True None i by (auto split: if_splits)
      qed
    qed
  qed
  then show "GetCachedBufferCount q' \<le> max (GetCachedBufferCount q) (q_size q)"
    "r = OK \<Longrightarrow> \<exists>x. b = Some x \<and> state_of q' x = Some AVBUFFER_STATE_REQUESTED" "bq_inv q'"
    by auto
qed

text \<open>The first fitting buffer of a list sorted by capacity is a best fit.\<close>

lemma find_sorted_min:
  assumes "sorted (map f xs)" "List.find P xs = Some x" "y \<in> set xs" "P y"
  shows "(f x :: int) \<le> f y"
  using assms by (induction xs) (auto split: if_splits)

lemma request_best_fit_aux:
  assumes inv: "bq_inv q" and ok: "fst (CheckConfig (request_config c q) q) = OK"
    and y: "y \<in> set (q_free q)" "config_le (request_config c q) (e_config (elem_at q y))"
  shows "\<exists>x q'. request_spec env buffer c t q = (OK, Some x, q') \<and> x \<in> set (q_free q) \<and>
    config_le (request_config c q) (e_config (elem_at q x)) \<and> cap_of q x \<le> cap_of q y \<and>
    state_of q' x = Some AVBUFFER_STATE_REQUESTED \<and> GetCachedBufferCount q' = GetCachedBufferCount q"
proof -
  define cc where "cc = request_config c q"
  obtain q0 where k: "CheckConfig cc q = (OK, q0)" using ok cc_def by (cases "CheckConfig cc q") auto
  have f: "q_free q0 = q_free q" "elem_at q0 = elem_at q" "q_cached q0 = q_cached q" "bq_inv q0"
    "cached q0 = cached q"
    using k request_memoryType [of cc q] CheckConfig_inv [OF inv, of cc] by (auto simp: elem_at_def fun_eq_iff)
  have ex: "bq_inv_ex {} q" "bq_inv_ex {} q0" using inv f by (simp_all add: bq_inv_def)
  obtain x where x: "List.find (\<lambda>x. config_le cc (e_config (elem_at q x))) (q_free q) = Some x"
    using y by (cases "List.find (\<lambda>x. config_le cc (e_config (elem_at q x))) (q_free q)")
      (auto simp: find_None_iff cc_def)
  have xf: "x \<in> set (q_free q)" "config_le cc (e_config (elem_at q x))"
    using x by (auto simp: find_Some_iff)
  have le: "cap_of q x \<le> cap_of q y"
    using find_sorted_min [OF bq_inv_exD(8) [OF ex(1)] x y(1)] y(2) by (simp add: cc_def)
  have p: "pick cc q0 = Some x" using x by (simp add: pick_def f)
  let ?q1 = "q0\<lparr>q_free := remove1 x (q_free q0)\<rparr>"
  have i1: "bq_inv_ex {x} ?q1"
    using bq_inv_ex_drop_free [OF ex(2), of x] xf f by simp
  have c1: "cached ?q1 x \<noteq> None" using free_cached [OF ex(2)] xf f by auto
  have l1: "config_le cc (e_config (elem_at ?q1 x))" using xf f by (simp add: elem_at_def)
  obtain q' where q': "RequestReuseBuffer env (Some x) cc ?q1 = (OK, Some x, q')"
    "state_of q' x = Some AVBUFFER_STATE_REQUESTED" "GetCachedBufferCount q' = GetCachedBufferCount ?q1"
    by (rule RequestReuse_fit [OF i1 c1 l1, of env])
  have "request_spec env buffer c t q = (OK, Some x, q')"
    using k p q' by (simp add: request_spec_def Let_def cc_def [symmetric])
  with xf le q' f show ?thesis
    by (auto simp: cc_def GetCachedBufferCount_def)
qed

section \<open>Sample queue\<close>

text \<open>A queue of two buffers, ids 1 and 2, of capacity 8 and 16: the first released, the second returned.\<close>

definition sample_config :: "int \<Rightarrow> AVBufferConfig" where
  "sample_config cap = default_config\<lparr>c_size := 1, c_memoryType := VIRTUAL_MEMORY, c_capacity := cap\<rparr>"

definition sample_buffer :: "int \<Rightarrow> nat \<Rightarrow> AVBuffer" where
  "sample_buffer cap uid = \<lparr>b_pts = 0, b_dts = 0, b_duration = 0, b_flag = 0, b_meta = None,
     b_memory = Some (sample_memory\<lparr>m_capacity := cap, m_base := Some (replicate (nat cap) 0)\<rparr>),
     b_config = sample_config cap, b_uid = uid\<rparr>"

definition sample_elem :: "int \<Rightarrow> nat \<Rightarrow> AVBufferState \<Rightarrow> AVBufferElement" where
  "sample_elem cap uid s = \<lparr>e_config = sample_config cap, e_state = s, e_isDeleting = False, e_buffer = Some uid\<rparr>"

definition sample_queue :: bq where
  "sample_queue =
     (AVBufferQueueImpl 3 VIRTUAL_MEMORY False \<lparr>g_startTime = 0, g_processId = 7, g_bufferId = 0\<rparr>
        [1 \<mapsto> sample_buffer 8 1, 2 \<mapsto> sample_buffer 16 2, 3 \<mapsto> sample_buffer 4 3])
     \<lparr>q_cached := [(1, sample_elem 8 1 AVBUFFER_STATE_RELEASED), (2, sample_elem 16 2 AVBUFFER_STATE_RETURNED),
                   (3, sample_elem 4 3 AVBUFFER_STATE_PUSHED)],
      q_free := [1], q_dirty := [2], q_consumer := Some 0\<rparr>"

definition sample_env :: alloc_env where
  "sample_env = \<lparr>a_ext = (\<lambda>_ _ _. None), a_junk = (\<lambda>_. 0), a_meta = None\<rparr>"

lemmas sample_defs = sample_queue_def sample_elem_def sample_buffer_def sample_config_def
  AVBufferQueueImpl_def default_config_def sample_memory_def AVBUFFER_QUEUE_MAX_QUEUE_SIZE_def

lemma sample_queue_inv: "bq_inv sample_queue"
  by (auto simp: bq_inv_def bq_inv_ex_def sample_defs cached_def state_of_def smap_inv_def
      AVBUFFER_QUEUE_MAX_QUEUE_SIZE_def split: if_splits)

lemma sample_queue_fresh: "fresh_uid sample_queue"
  by (simp add: fresh_uid_def GenerateUniqueId_def Let_def sample_defs cached_def)

section \<open>Properties\<close>

text \<open>C1: Take any run of the queue from its construction, by any interleaving of its locked sections (a push, an
  attach and a waiting request may be interrupted between them) and of changes clients make to the buffers,
  with ids that are not in use, in which no step erases the entry of a buffer that is in the free or the dirty list. Then in every state
  the free list holds exactly the released buffers, without duplicates and in order of capacity, the dirty list
  exactly the returned ones, every cached entry points to a live buffer and the size is at most 500; and there
  acquiring, returning, pushing and attaching an existing buffer dereference no null pointer. The condition on the run can be broken by two
  things only: returning or pushing a buffer that is marked for deletion and in a list, or the forced detach (after a
  failed filled attach, as without a consumer listener) of a buffer that is in a list. Either always breaks it.\<close>

theorem bq_reachable_safe:
  assumes "(\<lambda>q q'. bq_step q q' \<and> lists_cached q')\<^sup>*\<^sup>* (AVBufferQueueImpl sz type da g heap) q"
  shows "bq_inv q \<and> AcquireBuffer buffer q \<noteq> None \<and> ReturnBuffer uid available q \<noteq> None \<and>
    PushBuffer (\<lambda>q. q) uid available q \<noteq> None \<and>
    (q_heap q uid \<noteq> None \<longrightarrow> attach_locked newSize (Some uid) q \<noteq> None) \<and>
    (bq_step q q' \<longrightarrow> (lists_cached q' \<longleftrightarrow> \<not> drops_listed q q'))"
proof -
  have i: "bq_inv q" by (rule bq_run_inv [OF assms bq_inv_init])
  have a: "attach_locked newSize (Some uid) q \<noteq> None" if "q_heap q uid \<noteq> None"
    by (cases rule: attach_locked_inv [OF i that, of newSize]) auto
  have s: "lists_cached q' \<longleftrightarrow> \<not> drops_listed q q'" if "bq_step q q'"
    using bq_step_inv [OF that i] bq_inv_lists_cached drops_listed_not_cached by blast
  show ?thesis
    using i a s AcquireBuffer_inv [OF i, of buffer] return_push_defined [OF i, of uid available] by auto
qed

theorem bq_reachable_safe_witness:
  "AcquireBuffer None (snd (SetQueueSize 2 (AVBufferQueueImpl 3 VIRTUAL_MEMORY False
     \<lparr>g_startTime = 0, g_processId = 7, g_bufferId = 0\<rparr> (\<lambda>_. None)))) \<noteq> None"
proof -
  let ?q = "AVBufferQueueImpl 3 VIRTUAL_MEMORY False \<lparr>g_startTime = 0, g_processId = 7, g_bufferId = 0\<rparr> (\<lambda>_. None)"
  have "bq_inv (snd (SetQueueSize 2 ?q))" using SetQueueSize_inv(1) [of "{}" ?q 2] bq_inv_init
    unfolding bq_inv_def by blast
  then have "(\<lambda>q q'. bq_step q q' \<and> lists_cached q')\<^sup>*\<^sup>* ?q (snd (SetQueueSize 2 ?q))"
    by (intro r_into_rtranclp conjI bq_step.set_size bq_inv_lists_cached)
  from bq_reachable_safe [OF this] show ?thesis by blast
qed

text \<open>C2: Buffers leave the queue in the order they entered it: after the producers have returned the filled
  buffers \<open>xs\<close> one after the other, acquiring \<open>n\<close> buffers yields first those that were waiting and then
  \<open>xs\<close>, in order, none lost, none twice, none null.\<close>

theorem bq_fifo:
  assumes "bq_inv q" "enq_all queue_filled xs q = Some q'" "n \<le> length (q_dirty q) + length xs"
  shows "\<exists>q''. deq_n acquire_next n q' = Some (map Some (take n (q_dirty q @ xs)), q'') \<and>
    bq_inv q'' \<and> q_dirty q'' = drop n (q_dirty q @ xs)"
  by (rule bqc.fifo_order [OF assms])

lemma sample_queue_filled: "\<exists>q'. enq_all queue_filled [3] sample_queue = Some q'"
  by (simp add: queue_filled_def ReturnBuffer_def sample_defs cached_def deref_GetConfig_def Let_def
      AVBuffer_GetConfig_def is_eos_def store_elem_def emit_def)

theorem bq_fifo_witness:
  "\<exists>q' q''. enq_all queue_filled [3] sample_queue = Some q' \<and>
     deq_n acquire_next 2 q' = Some ([Some 2, Some 3], q'')"
proof -
  obtain q' where q': "enq_all queue_filled [3] sample_queue = Some q'"
    using sample_queue_filled by blast
  show ?thesis
    using bq_fifo [OF sample_queue_inv q', of 2] q' by (auto simp: sample_queue_def)
qed

text \<open>C26: A request that some free buffer fits is served at once with a fitting free buffer of the smallest
  capacity among the fitting ones; the buffer is then in the requested state and the number of cached
  buffers does not change.\<close>

theorem RequestBuffer_best_fit:
  assumes "bq_inv q" "fst (CheckConfig (request_config c q) q) = OK"
    and "y \<in> set (q_free q)" "config_le (request_config c q) (e_config (elem_at q y))"
  shows "\<exists>x q'. RequestBuffer env (\<lambda>q. q) buffer c t q = (OK, Some x, q') \<and> x \<in> set (q_free q) \<and>
    config_le (request_config c q) (e_config (elem_at q x)) \<and> cap_of q x \<le> cap_of q y \<and>
    state_of q' x = Some AVBUFFER_STATE_REQUESTED \<and> GetCachedBufferCount q' = GetCachedBufferCount q"
  unfolding RequestBuffer_eq_spec [OF assms(1)] by (rule request_best_fit_aux [OF assms])

theorem RequestBuffer_best_fit_witness:
  "\<exists>x q'. RequestBuffer sample_env (\<lambda>q. q) None (sample_config 0) 0 sample_queue = (OK, Some x, q') \<and>
     x \<in> set (q_free sample_queue)"
proof -
  have "fst (CheckConfig (request_config (sample_config 0) sample_queue) sample_queue) = OK"
    "1 \<in> set (q_free sample_queue)"
    "config_le (request_config (sample_config 0) sample_queue) (e_config (elem_at sample_queue 1))"
    by (simp_all add: sample_defs request_config_def CheckConfig_def config_le_def elem_at_def cached_def)
  from RequestBuffer_best_fit [OF sample_queue_inv this] show ?thesis by blast
qed

text \<open>C27: A request never makes the queue hold more buffers than the larger of what it held and its size;
  a successful one hands out a non-null buffer in the requested state; and the invariant is kept, also when a
  buffer is replaced by a larger one or cannot be allocated.\<close>

theorem RequestBuffer_bounded:
  assumes "bq_inv q" "fresh_uid q" "RequestBuffer env (\<lambda>q. q) buffer c t q = (r, b, q')"
  shows "GetCachedBufferCount q' \<le> max (GetCachedBufferCount q) (q_size q) \<and>
    (r = OK \<longrightarrow> (\<exists>x. b = Some x \<and> state_of q' x = Some AVBUFFER_STATE_REQUESTED)) \<and> bq_inv q'"
  using request_spec_count [OF assms(1,2), of env buffer c t r b q'] assms(3)
  by (simp add: RequestBuffer_eq_spec [OF assms(1)])

theorem RequestBuffer_bounded_witness:
  "GetCachedBufferCount (snd (snd (RequestBuffer sample_env (\<lambda>q. q) None (sample_config 99) 0 sample_queue))) \<le> 3"
proof -
  obtain r b q' where r: "RequestBuffer sample_env (\<lambda>q. q) None (sample_config 99) 0 sample_queue = (r, b, q')"
    by (cases "RequestBuffer sample_env (\<lambda>q. q) None (sample_config 99) 0 sample_queue")
  from RequestBuffer_bounded [OF sample_queue_inv sample_queue_fresh r] show ?thesis
    unfolding r by (simp add: GetCachedBufferCount_def sample_queue_def AVBufferQueueImpl_def
        AVBUFFER_QUEUE_MAX_QUEUE_SIZE_def)
qed

text \<open>A foreign buffer is attached only if the queue then holds at most its size: the locked part of
  \<^verbatim>\<open>AttachBuffer\<close> either refuses, leaving the queue as it is, when no more than the surplus of its
  buffers are idle, or evicts idle buffers and enters the new one in the attached state.\<close>

theorem AttachAvailable_bounded:
  assumes "bq_inv q" "cached q uid = None" "q_heap q uid \<noteq> None"
  shows "AttachAvailableBufferLocked uid c q = (ERROR_OUT_OF_RANGE, q) \<and> q_size q \<le> GetCachedBufferCount q \<and>
      length (q_dirty q) + length (q_free q) \<le> GetCachedBufferCount q - q_size q
    \<or> (\<exists>q'. AttachAvailableBufferLocked uid c q = (OK, q') \<and> bq_inv q' \<and>
        state_of q' uid = Some AVBUFFER_STATE_ATTACHED \<and> GetCachedBufferCount q' \<le> q_size q')"
  by (cases rule: AttachAvailable_inv [OF assms, of c]) (auto simp: state_of_def)

theorem AttachAvailable_bounded_witness:
  "\<exists>q'. AttachAvailableBufferLocked 5 (sample_config 4)
       (sample_queue\<lparr>q_heap := (q_heap sample_queue)(5 \<mapsto> sample_buffer 4 5)\<rparr>) = (OK, q') \<and>
     GetCachedBufferCount q' \<le> q_size q'"
proof -
  let ?q = "sample_queue\<lparr>q_heap := (q_heap sample_queue)(5 \<mapsto> sample_buffer 4 5)\<rparr>"
  have i: "bq_inv ?q"
    using bq_inv_ex_heap [of "{}" sample_queue] sample_queue_inv by (simp add: bq_inv_def)
  have f: "cached ?q 5 = None" "q_heap ?q 5 \<noteq> None"
    by (simp_all add: sample_defs cached_def)
  have n: "\<not> length (q_dirty ?q) + length (q_free ?q) \<le> GetCachedBufferCount ?q - q_size ?q"
    by (simp add: sample_defs GetCachedBufferCount_def)
  from AttachAvailable_bounded [OF i f, of "sample_config 4"] n show ?thesis by blast
qed

section \<open>Where the code falls short\<close>

text \<open>Attaching a filled buffer to a queue that has no consumer listener leaves its id behind: the
  push queues the id, reports \<^verbatim>\<open>ERROR_NO_CONSUMER_LISTENER\<close>, and the attach then erases the entry but
  not the queued id, so the next \<^verbatim>\<open>AcquireBuffer\<close> dereferences a null pointer.\<close>

theorem AttachBuffer_no_listener_stale:
  "\<exists>q'. AttachBuffer (\<lambda>q. q) (Some 1) True
      (AVBufferQueueImpl 2 VIRTUAL_MEMORY False \<lparr>g_startTime = 0, g_processId = 7, g_bufferId = 0\<rparr>
         [1 \<mapsto> sample_buffer 8 1]) = Some (ERROR_NO_CONSUMER_LISTENER, q') \<and>
    cached q' 1 = None \<and> q_dirty q' = [1] \<and> AcquireBuffer None q' = None"
  by (simp add: AttachBuffer_def attach_common_def attach_locked_def sample_defs deref_GetConfig_def AVBuffer_GetConfig_def
      cached_def CheckConfig_def AttachAvailableBufferLocked_def GetCachedBufferCount_def Let_def
      TotalMemoryCalculation_def store_elem_def PushBufferOnFilled_def PushBuffer_def push_locked_def
      set_state_def elem_at_def ReturnBuffer_def is_eos_def DetachBuffer_force_def AcquireBuffer_def
      PopFromDirtyBufferList_def touch_def smap_erase_def default_elem_def)

definition busy_queue :: bq where
  "busy_queue =
     (AVBufferQueueImpl 3 VIRTUAL_MEMORY False \<lparr>g_startTime = 0, g_processId = 7, g_bufferId = 0\<rparr>
        [1 \<mapsto> sample_buffer 8 1, 2 \<mapsto> sample_buffer 16 2, 3 \<mapsto> sample_buffer 4 3])
     \<lparr>q_cached := [(1, sample_elem 8 1 AVBUFFER_STATE_REQUESTED), (2, sample_elem 16 2 AVBUFFER_STATE_REQUESTED),
                   (3, sample_elem 4 3 AVBUFFER_STATE_REQUESTED)]\<rparr>"

text \<open>Shrinking a queue whose buffers are all in use marks the first entries for deletion; a second shrink
  marks the same entries again, so after both fewer entries are marked than the queue is over its size.\<close>

theorem SetQueueSize_twice_undermarks:
  "let q' = snd (SetQueueSize 1 (snd (SetQueueSize 2 busy_queue)))
   in q_size q' = 1 \<and> GetCachedBufferCount q' = 3 \<and>
      map fst (filter (\<lambda>(k, e). e_isDeleting e) (q_cached q')) = [1]"
  by (simp add: Let_def SetQueueSize_def SetLargerQueueSizeLocked_def busy_queue_def sample_defs
      SetQueueSizeBeforeAttachBufferLocked_def DeleteBuffers_def AVBUFFER_QUEUE_MAX_QUEUE_SIZE_def
      AVBUFFER_QUEUE_MAX_QUEUE_SIZE_FOR_LARGER_def GetCachedBufferCount_def)

text \<open>The fitting order adds the alignment to the capacity although the allocation rounds down to a multiple
  of it: a buffer of 8 bytes passes as fit for a request of 11.\<close>

theorem config_le_overestimates:
  "let stored = (default_config\<lparr>c_memoryType := VIRTUAL_MEMORY, c_capacity := 8, c_align := 4\<rparr>);
       asked = stored\<lparr>c_size := 11\<rparr>
   in config_le asked stored \<and> map_option m_capacity (AVVirtualMemory_Init (\<lambda>_. 0) 8 4) = Some 8"
  by (simp add: Let_def config_le_def default_config_def swrap_def AVVirtualMemory_Init_def c_div_nonneg)

end
