(* ===== verification/Media_Filter.thy ===== *)
theory Media_Filter
  imports Prelude "HOL-Library.Monad_Syntax"
begin

text \<open>
  Filters, the nodes of a media pipeline: \<^verbatim>\<open>Filter\<close> of \<^verbatim>\<open>src/filter/filter.cpp\<close>, in the order of
  the source. Filters refer to each other by pointer and share objects, so a graph is a store of filters
  indexed by \<open>fid\<close>, together with the state \<open>'w\<close> that subclasses keep. The virtual \<^verbatim>\<open>Do...\<close> hooks are a
  parameter; \<open>base_hooks\<close> is their implementation in the base class. An asynchronous filter has a task,
  whose queue of submitted jobs and received control calls the model records; when a worker runs a job is up to
  the scheduler (\<open>run_filter_job\<close>). Operations visit the next filters recursively, with fuel for the depth of
  the graph; \<open>None\<close> is running out of it, which a cyclic graph does.
\<close>

section \<open>State\<close>

datatype FilterState =
    FS_CREATED | FS_INITIALIZED | FS_PREPARING | FS_READY | FS_RUNNING | FS_PAUSED | FS_FROZEN
  | FS_STOPPED | FS_RELEASED | FS_ERROR

datatype FilterType =
    FILTERTYPE_SOURCE | FILTERTYPE_DEMUXER | FILTERTYPE_AENC | FILTERTYPE_ADEC | FILTERTYPE_VENC
  | FILTERTYPE_VDEC | FILTERTYPE_MUXER | FILTERTYPE_VIDEODEC | FILTERTYPE_ASINK | FILTERTYPE_FSINK
  | FILTERTYPE_SSINK | AUDIO_CAPTURE | AUDIO_DATA_SOURCE | VIDEO_CAPTURE | FILTERTYPE_VIDRESIZE
  | FILTERTYPE_SEI | TIMED_METADATA | WATERMARK | FILTERTYPE_VIDRESIZE_OPENGL | FILTERTYPE_MAX

datatype TaskType = TASK_SINGLETON | TASK_AUDIO

type_synonym fid = nat

text \<open>The lambdas submitted to a filter's task.\<close>

datatype job =
    JInit bool
  | JPrepare
  | JStart
  | JResume
  | JRelease
  | JInput int int
  | JOutput int int bool nat int
  | JReleaseOnMuted bool
  | JReInitAndStart

datatype task_call = TaskStart | TaskPause | TaskStop

record ftask =
  t_type :: TaskType
  t_jobs :: "job list"
  t_calls :: "task_call list"

text \<open>\<open>l_next\<close> is \<^verbatim>\<open>nextFiltersMap_\<close>, keyed by stream type.\<close>

record filter_obj =
  l_filterType :: FilterType
  l_isAsyncMode :: bool
  l_groupId :: string
  l_state :: FilterState
  l_curState :: FilterState
  l_errCode :: Status
  l_next :: "(nat, fid list) smap"
  l_jobIdx :: int
  l_jobIdxBase :: int
  l_perfRec :: bool
  l_task :: "ftask option"

record 'w graph =
  g_filter :: "fid \<Rightarrow> filter_obj"
  g_world :: "'w"

datatype hook =
    DoInitAfterLink | DoPrepare | DoStart | DoPause | DoPauseDragging | DoPauseAudioAlign | DoResume
  | DoResumeDragging | DoResumeAudioAlign | DoStop | DoFlush | DoRelease | DoFreeze | DoUnFreeze
  | DoPreroll | DoWaitPrerollDone bool | DoSetPlayRange int int | DoProcessInputBuffer int bool
  | DoProcessOutputBuffer int bool bool nat int | DoReleaseOnMuted bool | DoReInitAndStart
  | DoSetIsInPrePausing bool | DoSetPerfRecEnabled bool

type_synonym 'w hooks = "hook \<Rightarrow> fid \<Rightarrow> 'w graph \<Rightarrow> Status \<times> 'w graph"

definition upd :: "fid \<Rightarrow> (filter_obj \<Rightarrow> filter_obj) \<Rightarrow> 'w graph \<Rightarrow> 'w graph" where
  "upd f h g = g\<lparr>g_filter := (g_filter g)(f := h (g_filter g f))\<rparr>"

definition base_hooks :: "'w hooks" where
  "base_hooks h f g =
     (case h of DoSetPerfRecEnabled b \<Rightarrow> (OK, upd f (\<lambda>l. l\<lparr>l_perfRec := b\<rparr>) g) | _ \<Rightarrow> (OK, g))"

definition Filter_init :: "FilterType \<Rightarrow> bool \<Rightarrow> filter_obj" where
  "Filter_init type isAsyncMode =
     \<lparr>l_filterType = type, l_isAsyncMode = isAsyncMode, l_groupId = [], l_state = FS_CREATED,
      l_curState = FS_CREATED, l_errCode = OK, l_next = [], l_jobIdx = 0, l_jobIdxBase = 0,
      l_perfRec = False, l_task = None\<rparr>"

definition nexts :: "fid \<Rightarrow> 'w graph \<Rightarrow> fid list" where
  "nexts f g = concat (map snd (l_next (g_filter g f)))"

definition hasTask :: "fid \<Rightarrow> 'w graph \<Rightarrow> bool" where
  "hasTask f g = (l_task (g_filter g f) \<noteq> None)"

definition SubmitJob :: "fid \<Rightarrow> job \<Rightarrow> 'w graph \<Rightarrow> 'w graph" where
  "SubmitJob f j = upd f (\<lambda>l. l\<lparr>l_task := map_option (\<lambda>t. t\<lparr>t_jobs := t_jobs t @ [j]\<rparr>) (l_task l)\<rparr>)"

definition TaskCall :: "fid \<Rightarrow> task_call \<Rightarrow> 'w graph \<Rightarrow> 'w graph" where
  "TaskCall f c = upd f (\<lambda>l. l\<lparr>l_task := map_option (\<lambda>t. t\<lparr>t_calls := t_calls t @ [c]\<rparr>) (l_task l)\<rparr>)"

section \<open>Loops over the next filters\<close>

fun each_ignore :: "(fid \<Rightarrow> 'w graph \<Rightarrow> (Status \<times> 'w graph) option) \<Rightarrow> fid list \<Rightarrow> 'w graph \<Rightarrow> 'w graph option" where
  "each_ignore F [] g = Some g"
| "each_ignore F (f # fs) g = do { (_, g1) \<leftarrow> F f g; each_ignore F fs g1 }"

fun each_until :: "(fid \<Rightarrow> 'w graph \<Rightarrow> (Status \<times> 'w graph) option) \<Rightarrow> fid list \<Rightarrow> 'w graph \<Rightarrow> (Status \<times> 'w graph) option" where
  "each_until F [] g = Some (OK, g)"
| "each_until F (f # fs) g =
     do { (r, g1) \<leftarrow> F f g; if r \<noteq> OK then Some (r, g1) else each_until F fs g1 }"

fun each_last :: "(fid \<Rightarrow> 'w graph \<Rightarrow> (Status \<times> 'w graph) option) \<Rightarrow> Status \<Rightarrow> fid list \<Rightarrow> 'w graph \<Rightarrow> (Status \<times> 'w graph) option" where
  "each_last F r [] g = Some (r, g)"
| "each_last F r (f # fs) g =
     do { (r1, g1) \<leftarrow> F f g; each_last F (if r1 \<noteq> OK then r1 else r) fs g1 }"

section \<open>State changes\<close>

definition SetErrCode :: "fid \<Rightarrow> Status \<Rightarrow> 'w graph \<Rightarrow> 'w graph" where
  "SetErrCode f errCode = upd f (\<lambda>l. l\<lparr>l_errCode := errCode\<rparr>)"

definition GetErrCode :: "fid \<Rightarrow> 'w graph \<Rightarrow> Status" where
  "GetErrCode f g = l_errCode (g_filter g f)"

definition ChangeState :: "fid \<Rightarrow> FilterState \<Rightarrow> 'w graph \<Rightarrow> 'w graph" where
  "ChangeState f state =
     upd f (\<lambda>l. l\<lparr>l_curState := (if state = FS_RELEASED then state
                               else if l_curState l = FS_ERROR then FS_ERROR else state)\<rparr>)"

text \<open>The common tail of the \<^verbatim>\<open>...Done\<close> functions: run the hook, record its result, change state.\<close>

definition hook_then :: "'w hooks \<Rightarrow> hook \<Rightarrow> FilterState \<Rightarrow> fid \<Rightarrow> 'w graph \<Rightarrow> Status \<times> 'w graph" where
  "hook_then H h state f g =
     (case H h f g of
        (ret, g1) \<Rightarrow> (ret, ChangeState f (if ret = OK then state else FS_ERROR) (SetErrCode f ret g1)))"

definition InitDone :: "'w hooks \<Rightarrow> bool \<Rightarrow> fid \<Rightarrow> 'w graph \<Rightarrow> Status \<times> 'w graph" where
  "InitDone H needInit f g =
     (case (if needInit then H DoInitAfterLink f g else (OK, g)) of
        (ret, g1) \<Rightarrow> (ret, ChangeState f (if ret = OK then FS_INITIALIZED else FS_ERROR) (SetErrCode f ret g1)))"

definition LinkPipeLine :: "'w hooks \<Rightarrow> string \<Rightarrow> bool \<Rightarrow> fid \<Rightarrow> 'w graph \<Rightarrow> 'w graph" where
  "LinkPipeLine H groupId needInit f g =
     (let g1 = upd f (\<lambda>l. l\<lparr>l_groupId := groupId\<rparr>) g in
      if \<not> l_isAsyncMode (g_filter g f) then snd (InitDone H needInit f g1)
      else
        let taskType = (case l_filterType (g_filter g f) of
                          FILTERTYPE_ASINK \<Rightarrow> TASK_AUDIO | AUDIO_CAPTURE \<Rightarrow> TASK_AUDIO | _ \<Rightarrow> TASK_SINGLETON)
        in SubmitJob f (JInit needInit)
             (upd f (\<lambda>l. l\<lparr>l_task := Some \<lparr>t_type = taskType, t_jobs = [], t_calls = []\<rparr>\<rparr>) g1))"

definition PrepareDone ::
  "'w hooks \<Rightarrow> (fid \<Rightarrow> 'w graph \<Rightarrow> (Status \<times> 'w graph) option) \<Rightarrow> fid \<Rightarrow> 'w graph \<Rightarrow> (Status \<times> 'w graph) option" where
  "PrepareDone H prepare f g =
     (if l_curState (g_filter g f) = FS_ERROR then Some (ERROR_INVALID_OPERATION, g)
      else case H DoPrepare f g of
        (ret, g1) \<Rightarrow>
          let g2 = SetErrCode f ret g1 in
          if ret \<noteq> OK then Some (ret, ChangeState f FS_ERROR g2)
          else do {
            (r, g3) \<leftarrow> each_until prepare (nexts f g2) g2;
            if r \<noteq> OK then Some (r, g3) else Some (ret, ChangeState f FS_READY g3)
          })"

primrec Prepare :: "nat \<Rightarrow> 'w hooks \<Rightarrow> fid \<Rightarrow> 'w graph \<Rightarrow> (Status \<times> 'w graph) option" where
  "Prepare 0 H f g = None"
| "Prepare (Suc n) H f g =
     (if hasTask f g then Some (OK, SubmitJob f JPrepare g) else PrepareDone H (Prepare n H) f g)"

definition StartDone :: "'w hooks \<Rightarrow> fid \<Rightarrow> 'w graph \<Rightarrow> Status \<times> 'w graph" where
  "StartDone H = hook_then H DoStart FS_RUNNING"

definition PauseDone :: "'w hooks \<Rightarrow> fid \<Rightarrow> 'w graph \<Rightarrow> Status \<times> 'w graph" where
  "PauseDone H = hook_then H DoPause FS_PAUSED"

definition ResumeDone :: "'w hooks \<Rightarrow> fid \<Rightarrow> 'w graph \<Rightarrow> Status \<times> 'w graph" where
  "ResumeDone H = hook_then H DoResume FS_RUNNING"

definition StopDone :: "'w hooks \<Rightarrow> fid \<Rightarrow> 'w graph \<Rightarrow> Status \<times> 'w graph" where
  "StopDone H = hook_then H DoStop FS_STOPPED"

definition ReleaseDone :: "'w hooks \<Rightarrow> fid \<Rightarrow> 'w graph \<Rightarrow> Status \<times> 'w graph" where
  "ReleaseDone H f g =
     (case H DoRelease f g of (ret, g1) \<Rightarrow> (ret, ChangeState f FS_RELEASED (SetErrCode f ret g1)))"

section \<open>Operations on the graph\<close>

text \<open>\<^verbatim>\<open>Start\<close>, \<^verbatim>\<open>Resume\<close> and \<^verbatim>\<open>Release\<close> have one shape: an asynchronous filter submits the job
  before visiting the next filters, a synchronous one visits them first and then acts itself.\<close>

primrec Start :: "nat \<Rightarrow> 'w hooks \<Rightarrow> fid \<Rightarrow> 'w graph \<Rightarrow> (Status \<times> 'w graph) option" where
  "Start 0 H f g = None"
| "Start (Suc n) H f g =
     (if hasTask f g then
        let g1 = SubmitJob f JStart g
        in do { g2 \<leftarrow> each_ignore (Start n H) (nexts f g1) g1; Some (OK, g2) }
      else do { g1 \<leftarrow> each_ignore (Start n H) (nexts f g) g; Some (StartDone H f g1) })"

primrec Resume :: "nat \<Rightarrow> 'w hooks \<Rightarrow> fid \<Rightarrow> 'w graph \<Rightarrow> (Status \<times> 'w graph) option" where
  "Resume 0 H f g = None"
| "Resume (Suc n) H f g =
     (if hasTask f g then
        let g1 = SubmitJob f JResume g
        in do { g2 \<leftarrow> each_ignore (Resume n H) (nexts f g1) g1; Some (OK, g2) }
      else do { g1 \<leftarrow> each_ignore (Resume n H) (nexts f g) g; Some (ResumeDone H f g1) })"

primrec Release :: "nat \<Rightarrow> 'w hooks \<Rightarrow> fid \<Rightarrow> 'w graph \<Rightarrow> (Status \<times> 'w graph) option" where
  "Release 0 H f g = None"
| "Release (Suc n) H f g =
     (if hasTask f g then
        let g1 = SubmitJob f JRelease g
        in do { g2 \<leftarrow> each_ignore (Release n H) (nexts f g1) g1; Some (OK, g2) }
      else do { g1 \<leftarrow> each_ignore (Release n H) (nexts f g) g; Some (ReleaseDone H f g1) })"

primrec Pause :: "nat \<Rightarrow> 'w hooks \<Rightarrow> fid \<Rightarrow> 'w graph \<Rightarrow> (Status \<times> 'w graph) option" where
  "Pause 0 H f g = None"
| "Pause (Suc n) H f g =
     (case PauseDone H f g of
        (ret, g1) \<Rightarrow>
          let g2 = TaskCall f TaskPause g1
          in do { g3 \<leftarrow> each_ignore (Pause n H) (nexts f g2) g2; Some (ret, g3) })"

primrec Stop :: "nat \<Rightarrow> 'w hooks \<Rightarrow> fid \<Rightarrow> 'w graph \<Rightarrow> (Status \<times> 'w graph) option" where
  "Stop 0 H f g = None"
| "Stop (Suc n) H f g =
     (case StopDone H f g of
        (ret, g1) \<Rightarrow>
          let g2 = TaskCall f TaskStop g1
          in do { g3 \<leftarrow> each_ignore (Stop n H) (nexts f g2) g2; Some (ret, g3) })"

text \<open>\<^verbatim>\<open>Freeze\<close>, \<^verbatim>\<open>PauseDragging\<close>, \<^verbatim>\<open>PauseAudioAlign\<close>, \<^verbatim>\<open>ResumeDragging\<close> and \<^verbatim>\<open>ResumeAudioAlign\<close>
  differ only in the hook and the task call; the last failure wins.\<close>

primrec hook_visit :: "nat \<Rightarrow> 'w hooks \<Rightarrow> hook \<Rightarrow> task_call \<Rightarrow> fid \<Rightarrow> 'w graph \<Rightarrow> (Status \<times> 'w graph) option" where
  "hook_visit 0 H h c f g = None"
| "hook_visit (Suc n) H h c f g =
     (case H h f g of
        (ret, g1) \<Rightarrow>
          let g2 = TaskCall f c g1
          in each_last (hook_visit n H h c) ret (nexts f g2) g2)"

definition Freeze :: "nat \<Rightarrow> 'w hooks \<Rightarrow> fid \<Rightarrow> 'w graph \<Rightarrow> (Status \<times> 'w graph) option" where
  "Freeze n H = hook_visit n H DoFreeze TaskPause"

definition PauseDragging :: "nat \<Rightarrow> 'w hooks \<Rightarrow> fid \<Rightarrow> 'w graph \<Rightarrow> (Status \<times> 'w graph) option" where
  "PauseDragging n H = hook_visit n H DoPauseDragging TaskPause"

definition PauseAudioAlign :: "nat \<Rightarrow> 'w hooks \<Rightarrow> fid \<Rightarrow> 'w graph \<Rightarrow> (Status \<times> 'w graph) option" where
  "PauseAudioAlign n H = hook_visit n H DoPauseAudioAlign TaskPause"

definition ResumeDragging :: "nat \<Rightarrow> 'w hooks \<Rightarrow> fid \<Rightarrow> 'w graph \<Rightarrow> (Status \<times> 'w graph) option" where
  "ResumeDragging n H = hook_visit n H DoResumeDragging TaskStart"

definition ResumeAudioAlign :: "nat \<Rightarrow> 'w hooks \<Rightarrow> fid \<Rightarrow> 'w graph \<Rightarrow> (Status \<times> 'w graph) option" where
  "ResumeAudioAlign n H = hook_visit n H DoResumeAudioAlign TaskStart"

primrec UnFreeze :: "nat \<Rightarrow> 'w hooks \<Rightarrow> fid \<Rightarrow> 'w graph \<Rightarrow> (Status \<times> 'w graph) option" where
  "UnFreeze 0 H f g = None"
| "UnFreeze (Suc n) H f g =
     (case H DoUnFreeze f g of
        (ret, g1) \<Rightarrow>
          let g2 = (if l_state (g_filter g1 f) = FS_RUNNING then TaskCall f TaskStart g1 else g1)
          in each_last (UnFreeze n H) ret (nexts f g2) g2)"

primrec SetIsInPrePausing :: "nat \<Rightarrow> 'w hooks \<Rightarrow> bool \<Rightarrow> fid \<Rightarrow> 'w graph \<Rightarrow> (Status \<times> 'w graph) option" where
  "SetIsInPrePausing 0 H b f g = None"
| "SetIsInPrePausing (Suc n) H b f g =
     (let g1 = snd (H (DoSetIsInPrePausing b) f g)
      in do { g2 \<leftarrow> each_ignore (SetIsInPrePausing n H b) (nexts f g1) g1; Some (OK, g2) })"

primrec Flush :: "nat \<Rightarrow> 'w hooks \<Rightarrow> fid \<Rightarrow> 'w graph \<Rightarrow> (Status \<times> 'w graph) option" where
  "Flush 0 H f g = None"
| "Flush (Suc n) H f g =
     do { g1 \<leftarrow> each_ignore (Flush n H) (nexts f g) g;
          Some (H DoFlush f (upd f (\<lambda>l. l\<lparr>l_jobIdxBase := l_jobIdx l\<rparr>) g1)) }"

definition ClearAllNextFilters :: "fid \<Rightarrow> 'w graph \<Rightarrow> Status \<times> 'w graph" where
  "ClearAllNextFilters f g = (OK, upd f (\<lambda>l. l\<lparr>l_next := []\<rparr>) g)"

primrec SetPlayRange :: "nat \<Rightarrow> 'w hooks \<Rightarrow> int \<Rightarrow> int \<Rightarrow> fid \<Rightarrow> 'w graph \<Rightarrow> (Status \<times> 'w graph) option" where
  "SetPlayRange 0 H s e f g = None"
| "SetPlayRange (Suc n) H s e f g =
     do { g1 \<leftarrow> each_ignore (SetPlayRange n H s e) (nexts f g) g; Some (H (DoSetPlayRange s e) f g1) }"

primrec Preroll :: "nat \<Rightarrow> 'w hooks \<Rightarrow> fid \<Rightarrow> 'w graph \<Rightarrow> (Status \<times> 'w graph) option" where
  "Preroll 0 H f g = None"
| "Preroll (Suc n) H f g =
     (case H DoPreroll f g of
        (ret, g1) \<Rightarrow> if ret \<noteq> OK then Some (ret, g1) else each_until (Preroll n H) (nexts f g1) g1)"

primrec WaitPrerollDone :: "nat \<Rightarrow> 'w hooks \<Rightarrow> bool \<Rightarrow> fid \<Rightarrow> 'w graph \<Rightarrow> (Status \<times> 'w graph) option" where
  "WaitPrerollDone 0 H render f g = None"
| "WaitPrerollDone (Suc n) H render f g =
     do { (ret, g1) \<leftarrow> each_last (WaitPrerollDone n H render) OK (nexts f g) g;
          (case H (DoWaitPrerollDone render) f g1 of
             (curRet, g2) \<Rightarrow> Some (if curRet \<noteq> OK then curRet else ret, g2)) }"

definition StartFilterTask :: "fid \<Rightarrow> 'w graph \<Rightarrow> 'w graph" where
  "StartFilterTask f = TaskCall f TaskStart"

definition PauseFilterTask :: "fid \<Rightarrow> 'w graph \<Rightarrow> 'w graph" where
  "PauseFilterTask f = TaskCall f TaskPause"

definition StopFilterTask :: "fid \<Rightarrow> 'w graph \<Rightarrow> 'w graph" where
  "StopFilterTask f = TaskCall f TaskStop"

primrec SetPerfRecEnabled :: "nat \<Rightarrow> 'w hooks \<Rightarrow> bool \<Rightarrow> fid \<Rightarrow> 'w graph \<Rightarrow> (Status \<times> 'w graph) option" where
  "SetPerfRecEnabled 0 H b f g = None"
| "SetPerfRecEnabled (Suc n) H b f g =
     (case H (DoSetPerfRecEnabled b) f g of
        (ret, g1) \<Rightarrow> do { g2 \<leftarrow> each_ignore (SetPerfRecEnabled n H b) (nexts f g1) g1; Some (ret, g2) })"

section \<open>Buffers and generations\<close>

definition ProcessInputBuffer :: "'w hooks \<Rightarrow> int \<Rightarrow> fid \<Rightarrow> 'w graph \<Rightarrow> Status \<times> 'w graph" where
  "ProcessInputBuffer H sendArg f g =
     (if l_isAsyncMode (g_filter g f) \<and> \<not> hasTask f g then (ERROR_INVALID_OPERATION, g)
      else if hasTask f g then
        let g1 = upd f (\<lambda>l. l\<lparr>l_jobIdx := l_jobIdx l + 1\<rparr>) g;
            processIdx = l_jobIdx (g_filter g1 f)
        in (OK, SubmitJob f (JInput sendArg processIdx) g1)
      else (OK, snd (H (DoProcessInputBuffer sendArg False) f g)))"

definition ProcessOutputBuffer ::
  "'w hooks \<Rightarrow> int \<Rightarrow> bool \<Rightarrow> nat \<Rightarrow> int \<Rightarrow> fid \<Rightarrow> 'w graph \<Rightarrow> Status \<times> 'w graph" where
  "ProcessOutputBuffer H sendArg byIdx idx renderTime f g =
     (if l_isAsyncMode (g_filter g f) \<and> \<not> hasTask f g then (ERROR_INVALID_OPERATION, g)
      else if hasTask f g then
        let g1 = upd f (\<lambda>l. l\<lparr>l_jobIdx := l_jobIdx l + 1\<rparr>) g;
            processIdx = l_jobIdx (g_filter g1 f)
        in (OK, SubmitJob f (JOutput sendArg processIdx byIdx idx renderTime) g1)
      else (OK, snd (H (DoProcessOutputBuffer sendArg False False idx renderTime) f g)))"

definition isDrop :: "int \<Rightarrow> fid \<Rightarrow> 'w graph \<Rightarrow> bool" where
  "isDrop processIdx f g = (processIdx \<le> l_jobIdxBase (g_filter g f))"

section \<open>Muting\<close>

definition ReleaseOnMuted :: "'w hooks \<Rightarrow> bool \<Rightarrow> fid \<Rightarrow> 'w graph \<Rightarrow> Status \<times> 'w graph" where
  "ReleaseOnMuted H isNeedRelease f g =
     (if hasTask f g then (OK, SubmitJob f (JReleaseOnMuted isNeedRelease) g)
      else hook_then H (DoReleaseOnMuted isNeedRelease) FS_CREATED f g)"

definition ReInitAndStart :: "'w hooks \<Rightarrow> fid \<Rightarrow> 'w graph \<Rightarrow> Status \<times> 'w graph" where
  "ReInitAndStart H f g =
     (if hasTask f g then (OK, SubmitJob f JReInitAndStart g)
      else hook_then H DoReInitAndStart FS_RUNNING f g)"

text \<open>What a worker does with a job of filter \<open>f\<close>; \<open>n\<close> is the fuel of the recursive calls.\<close>

definition run_filter_job :: "nat \<Rightarrow> 'w hooks \<Rightarrow> fid \<Rightarrow> job \<Rightarrow> 'w graph \<Rightarrow> 'w graph option" where
  "run_filter_job n H f j g =
     (case j of
        JInit needInit \<Rightarrow> Some (snd (InitDone H needInit f g))
      | JPrepare \<Rightarrow> map_option snd (PrepareDone H (Prepare n H) f g)
      | JStart \<Rightarrow> Some (TaskCall f TaskStart (snd (StartDone H f g)))
      | JResume \<Rightarrow> Some (TaskCall f TaskStart (snd (ResumeDone H f g)))
      | JRelease \<Rightarrow> Some (snd (ReleaseDone H f g))
      | JInput sendArg processIdx \<Rightarrow>
          Some (snd (H (DoProcessInputBuffer sendArg (isDrop processIdx f g)) f g))
      | JOutput sendArg processIdx byIdx idx renderTime \<Rightarrow>
          Some (snd (H (DoProcessOutputBuffer sendArg (isDrop processIdx f g) byIdx idx renderTime) f g))
      | JReleaseOnMuted b \<Rightarrow> Some (snd (hook_then H (DoReleaseOnMuted b) FS_CREATED f g))
      | JReInitAndStart \<Rightarrow> Some (snd (hook_then H DoReInitAndStart FS_RUNNING f g)))"

section \<open>Waiting for a state\<close>

text \<open>The loop over the next filters: a failure is replaced by the error code that child stored.\<close>

fun wait_children ::
  "(fid \<Rightarrow> 'w graph \<Rightarrow> (Status \<times> 'w graph) option) \<Rightarrow> Status \<Rightarrow> fid list \<Rightarrow> 'w graph \<Rightarrow> (Status \<times> 'w graph) option" where
  "wait_children F res [] g = Some (res, g)"
| "wait_children F res (f # fs) g =
     do { (r, g1) \<leftarrow> F f g; wait_children F (if r \<noteq> OK then GetErrCode f g1 else res) fs g1 }"

text \<open>\<open>others\<close> is what the workers do while the condition variable waits, at most 30 s.\<close>

primrec WaitAllState ::
  "nat \<Rightarrow> ('w graph \<Rightarrow> 'w graph) \<Rightarrow> FilterState \<Rightarrow> fid \<Rightarrow> 'w graph \<Rightarrow> (Status \<times> 'w graph) option" where
  "WaitAllState 0 others state f g = None"
| "WaitAllState (Suc n) others state f g =
     (let g1 = (if l_curState (g_filter g f) \<noteq> state then others g else g);
          cur = l_curState (g_filter g1 f)
      in if l_curState (g_filter g f) \<noteq> state \<and>
            \<not> (cur = state \<or> (state \<noteq> FS_RELEASED \<and> cur = FS_ERROR))
         then Some (ERROR_TIMED_OUT, SetErrCode f ERROR_TIMED_OUT g1)
         else if cur \<noteq> state then Some (GetErrCode f g1, g1)
         else wait_children (WaitAllState n others state) OK (nexts f g1) g1)"

end
