(* ===== verification/Media_Filter_Props.thy ===== *)
theory Media_Filter_Props
  imports Media_Filter
begin

text \<open>
  What holds of filter graphs: the error state can only be left by a release, a flush makes every buffer
  job that is queued be dropped and no later one, a preparation that succeeds has made every filter below ready, and what
  a wait for a state does and does not tell.
\<close>

section \<open>Invariants of graphs\<close>

lemma g_filter_upd [simp]: "g_filter (upd f h g) x = (if x = f then h (g_filter g f) else g_filter g x)"
  by (simp add: upd_def)

lemma upd_simps [simp]:
  "g_filter (SetErrCode f e g) x = (if x = f then (g_filter g f)\<lparr>l_errCode := e\<rparr> else g_filter g x)"
  "g_filter (SubmitJob f j g) x = (if x = f then (g_filter g f)
     \<lparr>l_task := map_option (\<lambda>t. t\<lparr>t_jobs := t_jobs t @ [j]\<rparr>) (l_task (g_filter g f))\<rparr> else g_filter g x)"
  "g_filter (TaskCall f c g) x = (if x = f then (g_filter g f)
     \<lparr>l_task := map_option (\<lambda>t. t\<lparr>t_calls := t_calls t @ [c]\<rparr>) (l_task (g_filter g f))\<rparr> else g_filter g x)"
  "g_filter (ChangeState f s g) x = (if x = f then (g_filter g f)
     \<lparr>l_curState := (if s = FS_RELEASED then s else if l_curState (g_filter g f) = FS_ERROR then FS_ERROR else s)\<rparr>
     else g_filter g x)"
  by (simp_all add: SetErrCode_def SubmitJob_def TaskCall_def ChangeState_def)

fun buffer_idx :: "job \<Rightarrow> int option" where
  "buffer_idx (JInput a i) = Some i"
| "buffer_idx (JOutput a i b k t) = Some i"
| "buffer_idx _ = None"

section \<open>Steps\<close>

text \<open>Every way a graph changes, other than a release and other than relinking a filter, which gives it a
  new task and is done before the graph runs.\<close>

inductive filter_step :: "'w hooks \<Rightarrow> 'w graph \<Rightarrow> 'w graph \<Rightarrow> bool" for H where
  prepare: "Prepare n H f g = Some (r, g') \<Longrightarrow> filter_step H g g'"
| start: "Start n H f g = Some (r, g') \<Longrightarrow> filter_step H g g'"
| pause: "Pause n H f g = Some (r, g') \<Longrightarrow> filter_step H g g'"
| resume: "Resume n H f g = Some (r, g') \<Longrightarrow> filter_step H g g'"
| stop: "Stop n H f g = Some (r, g') \<Longrightarrow> filter_step H g g'"
| freeze: "Freeze n H f g = Some (r, g') \<Longrightarrow> filter_step H g g'"
| unfreeze: "UnFreeze n H f g = Some (r, g') \<Longrightarrow> filter_step H g g'"
| pause_dragging: "PauseDragging n H f g = Some (r, g') \<Longrightarrow> filter_step H g g'"
| resume_dragging: "ResumeDragging n H f g = Some (r, g') \<Longrightarrow> filter_step H g g'"
| pause_align: "PauseAudioAlign n H f g = Some (r, g') \<Longrightarrow> filter_step H g g'"
| resume_align: "ResumeAudioAlign n H f g = Some (r, g') \<Longrightarrow> filter_step H g g'"
| flush: "Flush n H f g = Some (r, g') \<Longrightarrow> filter_step H g g'"
| preroll: "Preroll n H f g = Some (r, g') \<Longrightarrow> filter_step H g g'"
| wait_preroll: "WaitPrerollDone n H b f g = Some (r, g') \<Longrightarrow> filter_step H g g'"
| play_range: "SetPlayRange n H s e f g = Some (r, g') \<Longrightarrow> filter_step H g g'"
| pre_pausing: "SetIsInPrePausing n H b f g = Some (r, g') \<Longrightarrow> filter_step H g g'"
| perf: "SetPerfRecEnabled n H b f g = Some (r, g') \<Longrightarrow> filter_step H g g'"
| muted: "filter_step H g (snd (ReleaseOnMuted H b f g))"
| reinit: "filter_step H g (snd (ReInitAndStart H f g))"
| task_call: "filter_step H g (TaskCall f c g)"
| in_buffer: "filter_step H g (snd (ProcessInputBuffer H a f g))"
| out_buffer: "filter_step H g (snd (ProcessOutputBuffer H a b i t f g))"
| work: "j \<noteq> JRelease \<Longrightarrow> run_filter_job n H f j g = Some g' \<Longrightarrow> filter_step H g g'"

text \<open>The private members of a filter are out of the reach of its hooks.\<close>

definition hooks_keep :: "(filter_obj \<Rightarrow> 'a) \<Rightarrow> 'w hooks \<Rightarrow> bool" where
  "hooks_keep sel H = (\<forall>h f g x. sel (g_filter (snd (H h f g)) x) = sel (g_filter g x))"

definition buffer_push :: "fid \<Rightarrow> job \<Rightarrow> 'w graph \<Rightarrow> 'w graph" where
  "buffer_push f j g = SubmitJob f j (upd f (\<lambda>l. l\<lparr>l_jobIdx := l_jobIdx l + 1\<rparr>) g)"

lemma ProcessBuffer_cases:
  "snd (ProcessInputBuffer H a f g) = g \<or>
   snd (ProcessInputBuffer H a f g) = buffer_push f (JInput a (l_jobIdx (g_filter g f) + 1)) g \<or>
   (\<exists>h. snd (ProcessInputBuffer H a f g) = snd (H h f g))"
  "snd (ProcessOutputBuffer H a b i t f g) = g \<or>
   snd (ProcessOutputBuffer H a b i t f g) = buffer_push f (JOutput a (l_jobIdx (g_filter g f) + 1) b i t) g \<or>
   (\<exists>h. snd (ProcessOutputBuffer H a b i t f g) = snd (H h f g))"
  by (auto simp: ProcessInputBuffer_def ProcessOutputBuffer_def buffer_push_def Let_def)

text \<open>A property of graphs that the hooks and the elementary updates keep, other than releasing.\<close>

locale graph_invariant =
  fixes H :: "'w hooks" and P :: "'w graph \<Rightarrow> bool"
  assumes hook: "P g \<Longrightarrow> P (snd (H h f g))"
    and err: "P g \<Longrightarrow> P (SetErrCode f e g)"
    and change: "P g \<Longrightarrow> s \<noteq> FS_RELEASED \<Longrightarrow> P (ChangeState f s g)"
    and submit: "P g \<Longrightarrow> buffer_idx j = None \<Longrightarrow> P (SubmitJob f j g)"
    and task: "P g \<Longrightarrow> P (TaskCall f c g)"
    and push: "P g \<Longrightarrow> buffer_idx j = Some (l_jobIdx (g_filter g f) + 1) \<Longrightarrow> P (buffer_push f j g)"
    and flush: "P g \<Longrightarrow> P (upd f (\<lambda>l. l\<lparr>l_jobIdxBase := l_jobIdx l\<rparr>) g)"
begin

lemma hook_eq: "P g \<Longrightarrow> H h f g = (r, g') \<Longrightarrow> P g'"
  using hook by (metis snd_conv)

definition keeps :: "(fid \<Rightarrow> 'w graph \<Rightarrow> (Status \<times> 'w graph) option) \<Rightarrow> bool" where
  "keeps F = (\<forall>f g r g'. P g \<longrightarrow> F f g = Some (r, g') \<longrightarrow> P g')"

lemma keepsD: "keeps F \<Longrightarrow> P g \<Longrightarrow> F f g = Some (r, g') \<Longrightarrow> P g'"
  by (auto simp: keeps_def)

lemma each_ignore_P: "keeps F \<Longrightarrow> P g \<Longrightarrow> each_ignore F fs g = Some g' \<Longrightarrow> P g'"
  by (induction fs arbitrary: g) (auto split: Option.bind_splits dest: keepsD)

lemma each_until_P: "keeps F \<Longrightarrow> P g \<Longrightarrow> each_until F fs g = Some (r, g') \<Longrightarrow> P g'"
  by (induction fs arbitrary: g) (auto split: Option.bind_splits if_splits dest: keepsD)

lemma each_last_P: "keeps F \<Longrightarrow> P g \<Longrightarrow> each_last F r fs g = Some (r', g') \<Longrightarrow> P g'"
  by (induction fs arbitrary: g r) (auto split: Option.bind_splits dest: keepsD)

lemma hook_then_P: "P g \<Longrightarrow> s \<noteq> FS_RELEASED \<Longrightarrow> P (snd (hook_then H h s f g))"
  using change [OF err [OF hook]] by (simp add: hook_then_def split_beta)

lemma hook_then_eq: "hook_then H h s f g = (r, g') \<Longrightarrow> P g \<Longrightarrow> s \<noteq> FS_RELEASED \<Longrightarrow> P g'"
  using hook_then_P [of g s h f] by simp

lemma InitDone_P: "P g \<Longrightarrow> P (snd (InitDone H b f g))"
  using change [OF err [OF hook]] change [OF err] by (simp add: InitDone_def split_beta)

lemma PrepareDone_P:
  assumes F: "keeps F" and g: "P g" and eq: "PrepareDone H F f g = Some (r, g')"
  shows "P g'"
proof -
  obtain r1 g1 where h: "H DoPrepare f g = (r1, g1)" by (cases "H DoPrepare f g")
  have p: "P (SetErrCode f r1 g1)" by (rule err [OF hook_eq [OF g h]])
  show ?thesis
    using eq g h each_until_P [OF F p] change [OF p, of FS_ERROR f] change [of _ FS_READY f]
    by (auto simp: PrepareDone_def Let_def Option.bind_eq_Some_conv split: if_splits)
qed

lemma keepsI: "(\<And>f g r g'. P g \<Longrightarrow> F f g = Some (r, g') \<Longrightarrow> P g') \<Longrightarrow> keeps F"
  by (auto simp: keeps_def)

lemma Prepare_keeps: "keeps (Prepare n H)"
proof (induction n)
  case (Suc n)
  show ?case
    by (rule keepsI) (auto split: if_splits intro: PrepareDone_P [OF Suc.IH] submit)
qed (simp add: keeps_def)

text \<open>Visiting the next filters before or after acting.\<close>

lemma visit_first:
  assumes "keeps F" "P g" "do { g1 \<leftarrow> each_ignore F fs g; Some (act g1) } = Some (r, g')"
    "\<And>g1. P g1 \<Longrightarrow> P (snd (act g1))"
  shows "P g'"
proof -
  obtain g1 where g1: "each_ignore F fs g = Some g1" "act g1 = (r, g')"
    using assms(3) by (auto simp: Option.bind_eq_Some_conv)
  have "P (snd (act g1))" by (rule assms(4) [OF each_ignore_P [OF assms(1,2) g1(1)]])
  with g1(2) show ?thesis by simp
qed

lemma Start_keeps: "keeps (Start n H)"
proof (induction n)
  case (Suc n)
  show ?case
  proof (rule keepsI)
    fix f g r g'
    assume a: "P g" "Start (Suc n) H f g = Some (r, g')"
    have s: "P (SubmitJob f JStart g)" by (rule submit [OF a(1)]) simp
    show "P g'"
      using a(2) visit_first [OF Suc.IH s, of _ "\<lambda>g. (OK, g)"] visit_first [OF Suc.IH a(1), of _ "StartDone H f"]
        hook_then_P by (auto simp: Let_def StartDone_def split: if_splits)
  qed
qed (simp add: keeps_def)

lemma Resume_keeps: "keeps (Resume n H)"
proof (induction n)
  case (Suc n)
  show ?case
  proof (rule keepsI)
    fix f g r g'
    assume a: "P g" "Resume (Suc n) H f g = Some (r, g')"
    have s: "P (SubmitJob f JResume g)" by (rule submit [OF a(1)]) simp
    show "P g'"
      using a(2) visit_first [OF Suc.IH s, of _ "\<lambda>g. (OK, g)"] visit_first [OF Suc.IH a(1), of _ "ResumeDone H f"]
        hook_then_P by (auto simp: Let_def ResumeDone_def split: if_splits)
  qed
qed (simp add: keeps_def)

lemma act_visit:
  assumes "keeps F" "P (snd acted)"
    "(case acted of (ret, g1) \<Rightarrow> let g2 = TaskCall f c g1
        in do { g3 \<leftarrow> each_ignore F (nexts f g2) g2; Some (ret, g3) }) = Some (r, g')"
  shows "P g'"
  using assms(3) each_ignore_P [OF assms(1) task [OF assms(2)]]
  by (auto simp: Let_def split_beta Option.bind_eq_Some_conv)

lemma Pause_keeps: "keeps (Pause n H)"
proof (induction n)
  case (Suc n)
  show ?case
  proof (rule keepsI)
    fix f g r g'
    assume a: "P g" "Pause (Suc n) H f g = Some (r, g')"
    have "P (snd (PauseDone H f g))" using hook_then_P [OF a(1)] by (simp add: PauseDone_def)
    then show "P g'" by (rule act_visit [OF Suc.IH _ a(2) [unfolded Pause.simps]])
  qed
qed (simp add: keeps_def)

lemma Stop_keeps: "keeps (Stop n H)"
proof (induction n)
  case (Suc n)
  show ?case
  proof (rule keepsI)
    fix f g r g'
    assume a: "P g" "Stop (Suc n) H f g = Some (r, g')"
    have "P (snd (StopDone H f g))" using hook_then_P [OF a(1)] by (simp add: StopDone_def)
    then show "P g'" by (rule act_visit [OF Suc.IH _ a(2) [unfolded Stop.simps]])
  qed
qed (simp add: keeps_def)

lemma hook_visit_keeps: "keeps (hook_visit n H h c)"
proof (induction n)
  case (Suc n)
  show ?case
    using each_last_P [OF Suc.IH task [OF hook]] by (intro keepsI) (simp add: Let_def split_beta)
qed (simp add: keeps_def)

lemma UnFreeze_keeps: "keeps (UnFreeze n H)"
proof (induction n)
  case (Suc n)
  show ?case
  proof (rule keepsI)
    fix f g r g'
    assume a: "P g" "UnFreeze (Suc n) H f g = Some (r, g')"
    obtain r1 g1 where h: "H DoUnFreeze f g = (r1, g1)" by (cases "H DoUnFreeze f g")
    have p: "P (if l_state (g_filter g1 f) = FS_RUNNING then TaskCall f TaskStart g1 else g1)"
      using hook_eq [OF a(1) h] task by simp
    from each_last_P [OF Suc.IH p] a(2) h show "P g'" by (simp add: Let_def)
  qed
qed (simp add: keeps_def)

lemma Flush_keeps: "keeps (Flush n H)"
proof (induction n)
  case (Suc n)
  show ?case
    using visit_first [OF Suc.IH, where act = "\<lambda>g1. H DoFlush _ (upd _ (\<lambda>l. l\<lparr>l_jobIdxBase := l_jobIdx l\<rparr>) g1)"]
      hook flush by (intro keepsI) simp
qed (simp add: keeps_def)

lemma Preroll_keeps: "keeps (Preroll n H)"
proof (induction n)
  case (Suc n)
  show ?case
  proof (rule keepsI)
    fix f g r g'
    assume a: "P g" "Preroll (Suc n) H f g = Some (r, g')"
    obtain r1 g1 where h: "H DoPreroll f g = (r1, g1)" by (cases "H DoPreroll f g")
    have p: "P g1" by (rule hook_eq [OF a(1) h])
    from each_until_P [OF Suc.IH p] p a(2) h show "P g'" by (auto split: if_splits)
  qed
qed (simp add: keeps_def)

lemma WaitPrerollDone_keeps: "keeps (WaitPrerollDone n H b)"
proof (induction n)
  case (Suc n)
  show ?case
  proof (rule keepsI)
    fix f g r g'
    assume a: "P g" "WaitPrerollDone (Suc n) H b f g = Some (r, g')"
    then obtain r1 g1 where g1: "each_last (WaitPrerollDone n H b) OK (nexts f g) g = Some (r1, g1)"
      "g' = snd (H (DoWaitPrerollDone b) f g1)"
      by (auto simp: Option.bind_eq_Some_conv split_beta)
    from each_last_P [OF Suc.IH a(1) g1(1)] show "P g'" unfolding g1(2) by (rule hook)
  qed
qed (simp add: keeps_def)

lemma SetPlayRange_keeps: "keeps (SetPlayRange n H s e)"
proof (induction n)
  case (Suc n)
  show ?case
    using visit_first [OF Suc.IH, where act = "\<lambda>g1. H (DoSetPlayRange s e) _ g1"] hook
    by (intro keepsI) simp
qed (simp add: keeps_def)

lemma SetIsInPrePausing_keeps: "keeps (SetIsInPrePausing n H b)"
proof (induction n)
  case (Suc n)
  show ?case
    using visit_first [OF Suc.IH hook, where act = "\<lambda>g1. (OK, g1)"]
    by (intro keepsI) (simp add: Let_def)
qed (simp add: keeps_def)

lemma SetPerfRecEnabled_keeps: "keeps (SetPerfRecEnabled n H b)"
proof (induction n)
  case (Suc n)
  show ?case
    using each_ignore_P [OF Suc.IH hook]
    by (intro keepsI) (auto simp: split_beta Option.bind_eq_Some_conv)
qed (simp add: keeps_def)

lemma run_filter_job_P: "P g \<Longrightarrow> j \<noteq> JRelease \<Longrightarrow> run_filter_job n H f j g = Some g' \<Longrightarrow> P g'"
  using InitDone_P [of g] hook_then_P [of g] hook [of g] task PrepareDone_P [OF Prepare_keeps]
  by (cases j) (auto simp: run_filter_job_def StartDone_def ResumeDone_def)

lemma muted_P:
  assumes "P g"
  shows "P (snd (ReleaseOnMuted H b f g))" "P (snd (ReInitAndStart H f g))"
  using assms hook_then_P submit by (simp_all add: ReleaseOnMuted_def ReInitAndStart_def)

lemma buffer_P:
  assumes "P g"
  shows "P (snd (ProcessInputBuffer H a f g))" "P (snd (ProcessOutputBuffer H a b i t f g))"
  using ProcessBuffer_cases(1) [of H a f g] ProcessBuffer_cases(2) [of H a b i t f g] assms hook
    push [OF assms, of "JInput a (l_jobIdx (g_filter g f) + 1)" f]
    push [OF assms, of "JOutput a (l_jobIdx (g_filter g f) + 1) b i t" f]
  by (auto simp del: upd_simps)

lemma filter_step_P:
  assumes st: "filter_step H g g'" and P: "P g"
  shows "P g'"
  using st
proof (cases rule: filter_step.cases)
  case (work j n f)
  then show ?thesis using run_filter_job_P [OF P] by blast
qed (simp_all add: P muted_P task buffer_P Freeze_def PauseDragging_def ResumeDragging_def PauseAudioAlign_def
    ResumeAudioAlign_def keepsD [OF Prepare_keeps P] keepsD [OF Start_keeps P] keepsD [OF Pause_keeps P]
    keepsD [OF Resume_keeps P] keepsD [OF Stop_keeps P] keepsD [OF hook_visit_keeps P] keepsD [OF UnFreeze_keeps P]
    keepsD [OF Flush_keeps P] keepsD [OF Preroll_keeps P] keepsD [OF WaitPrerollDone_keeps P]
    keepsD [OF SetPlayRange_keeps P] keepsD [OF SetIsInPrePausing_keeps P] keepsD [OF SetPerfRecEnabled_keeps P])

lemma filter_steps_P: "(filter_step H)\<^sup>*\<^sup>* g g' \<Longrightarrow> P g \<Longrightarrow> P g'"
  by (induction rule: rtranclp_induct) (auto intro: filter_step_P)

end

section \<open>The error state\<close>

lemma error_invariant:
  assumes "hooks_keep l_curState H"
  shows "graph_invariant H (\<lambda>g. l_curState (g_filter g x) = FS_ERROR)"
  using assms by unfold_locales (auto simp: hooks_keep_def buffer_push_def)

text \<open>C6: Once a filter is in the error state, no sequence of operations on any filter of the graph and of jobs
  run by the workers brings it out of it, short of a release: every other state change is ignored.\<close>

theorem filter_error_sticky:
  assumes "hooks_keep l_curState H" "(filter_step H)\<^sup>*\<^sup>* g g'" "l_curState (g_filter g x) = FS_ERROR"
  shows "l_curState (g_filter g' x) = FS_ERROR"
  using graph_invariant.filter_steps_P [OF error_invariant [OF assms(1)] assms(2)] assms(3) .

lemma base_hooks_keep:
  assumes "\<And>l b. sel (l\<lparr>l_perfRec := b\<rparr>) = sel l"
  shows "hooks_keep sel base_hooks"
  using assms by (auto simp: hooks_keep_def base_hooks_def split: hook.splits)

interpretation err: graph_invariant base_hooks "\<lambda>g. l_curState (g_filter g x) = FS_ERROR" for x
  by (rule error_invariant) (simp add: base_hooks_keep)

definition one_error :: "unit graph" where
  "one_error = \<lparr>g_filter = (\<lambda>f. (Filter_init FILTERTYPE_SOURCE False)\<lparr>l_curState := FS_ERROR\<rparr>), g_world = ()\<rparr>"

theorem filter_error_sticky_witness:
  "\<exists>g'. filter_step base_hooks one_error g' \<and> l_curState (g_filter g' 0) = FS_ERROR"
proof -
  obtain r g' where p: "Pause 1 base_hooks 0 one_error = Some (r, g')"
    by (simp add: base_hooks_def PauseDone_def hook_then_def one_error_def nexts_def Filter_init_def)
  have st: "filter_step base_hooks one_error g'" by (rule filter_step.pause [OF p])
  have "l_curState (g_filter g' 0) = FS_ERROR"
    by (rule filter_error_sticky [OF _ r_into_rtranclp [of "filter_step base_hooks", OF st]])
      (simp_all add: base_hooks_keep one_error_def)
  with st show ?thesis by blast
qed

section \<open>Generations\<close>

definition queued_idx :: "fid \<Rightarrow> 'w graph \<Rightarrow> int set" where
  "queued_idx f g =
     (case l_task (g_filter g f) of None \<Rightarrow> {}
      | Some t \<Rightarrow> {i. \<exists>j \<in> set (t_jobs t). buffer_idx j = Some i})"

definition gen_ok :: "'w graph \<Rightarrow> bool" where
  "gen_ok g = (\<forall>x. l_jobIdxBase (g_filter g x) \<le> l_jobIdx (g_filter g x) \<and>
                  (\<forall>i \<in> queued_idx x g. i \<le> l_jobIdx (g_filter g x)))"

definition gen_members :: "filter_obj \<Rightarrow> int \<times> int \<times> ftask option" where
  "gen_members l = (l_jobIdx l, l_jobIdxBase l, l_task l)"

lemma hooks_keep_gen:
  assumes "hooks_keep gen_members H"
  shows "l_jobIdx (g_filter (snd (H h f g)) x) = l_jobIdx (g_filter g x)"
    "l_jobIdxBase (g_filter (snd (H h f g)) x) = l_jobIdxBase (g_filter g x)"
    "l_task (g_filter (snd (H h f g)) x) = l_task (g_filter g x)"
  using assms by (auto simp: hooks_keep_def gen_members_def)

lemma queued_idx_simps [simp]:
  "queued_idx x (SetErrCode f e g) = queued_idx x g"
  "queued_idx x (ChangeState f s g) = queued_idx x g"
  "queued_idx x (TaskCall f c g) = queued_idx x g"
  "queued_idx x (upd f (\<lambda>l. l\<lparr>l_jobIdxBase := k l\<rparr>) g) = queued_idx x g"
  "queued_idx x (upd f (\<lambda>l. l\<lparr>l_jobIdx := k l\<rparr>) g) = queued_idx x g"
  by (auto simp: queued_idx_def split: option.splits)

lemma queued_idx_submit:
  "queued_idx x (SubmitJob f j g) =
     (if x = f \<and> hasTask f g then set_option (buffer_idx j) \<union> queued_idx x g else queued_idx x g)"
  by (auto simp: queued_idx_def hasTask_def split: option.splits)

lemma gen_invariant:
  assumes H: "hooks_keep gen_members (H :: 'w hooks)"
  shows "graph_invariant H gen_ok"
proof unfold_locales
  fix g :: "'w graph" and h f
  assume g: "gen_ok g"
  have "queued_idx x (snd (H h f g)) = queued_idx x g" for x
    by (simp add: queued_idx_def hooks_keep_gen [OF H])
  then show "gen_ok (snd (H h f g))"
    using g by (simp add: gen_ok_def hooks_keep_gen [OF H])
next
  fix g :: "'w graph" and j f
  assume g: "gen_ok g" and j: "buffer_idx j = Some (l_jobIdx (g_filter g f) + 1)"
  show "gen_ok (buffer_push f j g)"
    unfolding gen_ok_def
  proof (intro allI conjI ballI)
    fix x i
    have gx: "l_jobIdxBase (g_filter g x) \<le> l_jobIdx (g_filter g x)"
      "\<And>i. i \<in> queued_idx x g \<Longrightarrow> i \<le> l_jobIdx (g_filter g x)"
      using g by (auto simp: gen_ok_def)
    show "l_jobIdxBase (g_filter (buffer_push f j g) x) \<le> l_jobIdx (g_filter (buffer_push f j g) x)"
      using gx(1) by (auto simp: buffer_push_def)
    assume "i \<in> queued_idx x (buffer_push f j g)"
    then have "i = l_jobIdx (g_filter g f) + 1 \<and> x = f \<or> i \<in> queued_idx x g"
      using j by (auto simp: buffer_push_def queued_idx_submit split: if_splits)
    then show "i \<le> l_jobIdx (g_filter (buffer_push f j g) x)"
      using gx(2) [of i] by (auto simp: buffer_push_def)
  qed
qed (auto simp: gen_ok_def queued_idx_submit)

interpretation gen: graph_invariant base_hooks gen_ok
  by (rule gen_invariant) (simp add: base_hooks_keep gen_members_def)









section \<open>Preparing a synchronous graph\<close>

text \<open>The filters below a filter, and that they are all ready.\<close>

abbreviation reaches :: "'w graph \<Rightarrow> fid \<Rightarrow> fid \<Rightarrow> bool" where
  "reaches g \<equiv> (\<lambda>x y. y \<in> set (nexts x g))\<^sup>*\<^sup>*"

definition in_state :: "FilterState \<Rightarrow> 'w graph \<Rightarrow> fid \<Rightarrow> bool" where
  "in_state st g x = (l_curState (g_filter g x) = st)"

definition ready_below :: "'w graph \<Rightarrow> fid \<Rightarrow> bool" where
  "ready_below g x = (\<forall>y. reaches g x y \<longrightarrow> in_state FS_READY g y)"

text \<open>A graph of synchronous filters without cycles: \<open>rk\<close> decreases along the links.\<close>

definition sync_graph :: "(fid \<Rightarrow> nat) \<Rightarrow> 'w graph \<Rightarrow> bool" where
  "sync_graph rk g = ((\<forall>x. l_task (g_filter g x) = None) \<and> (\<forall>x. \<forall>c \<in> set (nexts x g). rk c < rk x))"

text \<open>What is asked of \<^verbatim>\<open>DoPrepare\<close>: it makes no filter asynchronous and links no cycle. It may fail with any effect; when it succeeds
  it has changed the links of its own filter only, has taken no filter out of the ready state and has put none into the error state.\<close>

definition prepare_hook :: "(fid \<Rightarrow> nat) \<Rightarrow> 'w hooks \<Rightarrow> bool" where
  "prepare_hook rk H = (\<forall>f g r g1. H DoPrepare f g = (r, g1) \<longrightarrow>
     (sync_graph rk g \<longrightarrow> sync_graph rk g1) \<and>
     (r = OK \<longrightarrow> (\<forall>x. (x \<noteq> f \<longrightarrow> nexts x g1 = nexts x g) \<and> (in_state FS_READY g x \<longrightarrow> in_state FS_READY g1 x) \<and>
                    (in_state FS_ERROR g1 x \<longrightarrow> in_state FS_ERROR g x))))"

text \<open>What a successful preparation does: a filter whose links it changed is ready with all that is below it.\<close>

definition prepared :: "(fid \<Rightarrow> nat) \<Rightarrow> 'w graph \<Rightarrow> 'w graph \<Rightarrow> bool" where
  "prepared rk g g' = (sync_graph rk g' \<and>
     (\<forall>x. (nexts x g' = nexts x g \<or> ready_below g' x) \<and> (in_state FS_READY g x \<longrightarrow> in_state FS_READY g' x) \<and>
          (in_state FS_ERROR g' x \<longrightarrow> in_state FS_ERROR g x)))"

lemma prepared_refl: "sync_graph rk g \<Longrightarrow> prepared rk g g"
  by (simp add: prepared_def)

lemma prepared_keeps_ready:
  assumes "prepared rk g g'" "ready_below g x"
  shows "ready_below g' x"
  unfolding ready_below_def
proof (intro allI impI)
  fix y
  assume "reaches g' x y"
  then have "reaches g x y \<or> (\<exists>z. ready_below g' z \<and> reaches g' z y)"
  proof (induction rule: rtranclp_induct)
    case (step y w)
    show ?case
    proof (cases "reaches g x y \<and> nexts y g' = nexts y g")
      case True
      with step.hyps(2) show ?thesis by (auto intro: rtranclp.rtrancl_into_rtrancl)
    next
      case False
      with step.IH assms(1) obtain z where "ready_below g' z" "reaches g' z y" by (auto simp: prepared_def)
      with step.hyps(2) show ?thesis by (auto intro: rtranclp.rtrancl_into_rtrancl)
    qed
  qed simp
  with assms show "in_state FS_READY g' y" by (auto simp: ready_below_def prepared_def)
qed

lemma prepared_trans: "prepared rk g g1 \<Longrightarrow> prepared rk g1 g2 \<Longrightarrow> prepared rk g g2"
  using prepared_keeps_ready [of rk g1 g2] unfolding prepared_def by metis

lemma each_until_prepared:
  assumes "\<And>c g g'. sync_graph rk g \<Longrightarrow> F c g = Some (OK, g') \<Longrightarrow> prepared rk g g' \<and> ready_below g' c"
  shows "sync_graph rk g \<Longrightarrow> each_until F cs g = Some (OK, g') \<Longrightarrow> prepared rk g g' \<and> (\<forall>c \<in> set cs. ready_below g' c)"
proof (induction cs arbitrary: g)
  case (Cons c cs)
  obtain g1 where g1: "F c g = Some (OK, g1)" "each_until F cs g1 = Some (OK, g')"
    using Cons.prems(2) by (auto simp: Option.bind_eq_Some_conv split: if_splits)
  have p: "prepared rk g g1" "ready_below g1 c" using assms [OF Cons.prems(1) g1(1)] by auto
  with Cons.IH [of g1] g1(2) have "prepared rk g1 g'" "\<forall>c \<in> set cs. ready_below g' c" by (auto simp: prepared_def)
  with p prepared_trans prepared_keeps_ready show ?case by (metis set_ConsD)
qed (simp add: prepared_refl)

text \<open>Marking a filter whose next filters are prepared.\<close>

lemma reaches_cong: "(\<And>x. nexts x g' = nexts x g) \<Longrightarrow> reaches g' = reaches g"
  by simp

lemma mark_ready:
  assumes "prepared rk g2 g3" "\<forall>c \<in> set (nexts f g2). ready_below g3 c" "\<not> in_state FS_ERROR g3 f"
    and g': "g' = ChangeState f FS_READY g3"
  shows "ready_below g' f" "\<And>x. nexts x g' = nexts x g3" "\<And>x. ready_below g3 x \<Longrightarrow> ready_below g' x"
    "\<And>x. in_state FS_READY g3 x \<Longrightarrow> in_state FS_READY g' x" "\<And>x. in_state FS_ERROR g' x \<Longrightarrow> in_state FS_ERROR g3 x"
    "sync_graph rk g'"
proof -
  show n: "nexts x g' = nexts x g3" for x by (simp add: g' nexts_def)
  show r: "in_state FS_READY g3 x \<Longrightarrow> in_state FS_READY g' x" for x using assms(3) by (auto simp: g' in_state_def)
  show "in_state FS_ERROR g' x \<Longrightarrow> in_state FS_ERROR g3 x" for x by (auto simp: g' in_state_def split: if_splits)
  show "sync_graph rk g'" using assms(1) n by (auto simp: prepared_def sync_graph_def) (simp add: g')
  have rc: "reaches g' = reaches g3" by (rule reaches_cong [OF n])
  show rb: "ready_below g3 x \<Longrightarrow> ready_below g' x" for x using r unfolding ready_below_def rc by blast
  have f: "in_state FS_READY g' f" using assms(3) by (simp add: g' in_state_def)
  show "ready_below g' f"
  proof (cases "ready_below g3 f")
    case False
    then have "nexts f g3 = nexts f g2" using assms(1) by (auto simp: prepared_def)
    then show ?thesis
      using assms(2) f r unfolding ready_below_def rc by (metis (no_types, lifting) converse_rtranclpE)
  qed (rule rb)
qed

lemma Prepare_prepared:
  assumes H: "prepare_hook rk H"
  shows "sync_graph rk g \<Longrightarrow> Prepare n H f g = Some (OK, g') \<Longrightarrow> prepared rk g g' \<and> ready_below g' f"
proof (induction n arbitrary: f g g')
  case (Suc n)
  have "\<not> hasTask f g" using Suc.prems(1) by (simp add: sync_graph_def hasTask_def)
  then have "PrepareDone H (Prepare n H) f g = Some (OK, g')" using Suc.prems(2) by simp
  then obtain g1 g3 where g1: "H DoPrepare f g = (OK, g1)" and ne: "\<not> in_state FS_ERROR g f"
    and g3: "each_until (Prepare n H) (nexts f (SetErrCode f OK g1)) (SetErrCode f OK g1) = Some (OK, g3)"
    and g': "g' = ChangeState f FS_READY g3"
    by (auto simp: PrepareDone_def Let_def in_state_def Option.bind_eq_Some_conv split: if_splits prod.splits)
  let ?g2 = "SetErrCode f OK g1"
  have same: "nexts x ?g2 = nexts x g1" "in_state st ?g2 x = in_state st g1 x" for x st by (simp_all add: nexts_def in_state_def)
  have h: "sync_graph rk g1" "\<And>x. x \<noteq> f \<Longrightarrow> nexts x g1 = nexts x g" "\<And>x. in_state FS_READY g x \<Longrightarrow> in_state FS_READY g1 x"
    "\<And>x. in_state FS_ERROR g1 x \<Longrightarrow> in_state FS_ERROR g x"
    using H g1 Suc.prems(1) unfolding prepare_hook_def by blast+
  then have "sync_graph rk ?g2" by (auto simp: sync_graph_def same(1))
  from each_until_prepared [OF Suc.IH this g3]
  have k: "prepared rk ?g2 g3" "\<forall>c \<in> set (nexts f ?g2). ready_below g3 c" by blast+
  then have e: "in_state FS_ERROR g3 x \<Longrightarrow> in_state FS_ERROR g x" for x using h(4) by (auto simp: prepared_def same)
  then have "\<not> in_state FS_ERROR g3 f" using ne by blast
  note m = mark_ready [OF k this g']
  have "prepared rk g g'"
    unfolding prepared_def
  proof (intro conjI allI impI m(6))
    fix x
    show "nexts x g' = nexts x g \<or> ready_below g' x"
      using m(1) m(2) [of x] m(3) [of x] h(2) [of x] k(1) unfolding prepared_def same by (cases "x = f") metis+
    show "in_state FS_READY g x \<Longrightarrow> in_state FS_READY g' x" using m(4) h(3) k(1) by (auto simp: prepared_def same)
    show "in_state FS_ERROR g' x \<Longrightarrow> in_state FS_ERROR g x" using m(5) e by blast
  qed
  with m(1) show ?case by blast
qed simp

text \<open>A preparation that does not succeed leaves a filter in the error state.\<close>

lemma each_until_failed:
  assumes "\<And>c g r g'. F c g = Some (r, g') \<Longrightarrow> r \<noteq> OK \<Longrightarrow> \<exists>x. in_state FS_ERROR g' x"
  shows "each_until F cs g = Some (r, g') \<Longrightarrow> r \<noteq> OK \<Longrightarrow> \<exists>x. in_state FS_ERROR g' x"
  by (induction cs arbitrary: g) (auto simp: Option.bind_eq_Some_conv split: if_splits dest: assms)

lemma Prepare_failed: "Prepare n H f g = Some (r, g') \<Longrightarrow> r \<noteq> OK \<Longrightarrow> \<exists>x. in_state FS_ERROR g' x"
proof (induction n arbitrary: f g r g')
  case (Suc n)
  show ?case
    using Suc.prems each_until_failed [of "Prepare n H", OF Suc.IH]
    by (fastforce simp: PrepareDone_def Let_def in_state_def Option.bind_eq_Some_conv split: if_splits prod.splits)
qed simp

text \<open>Preparing ends within the rank of the filter, and succeeds when no hook fails and no filter is in the error state.\<close>

lemma each_until_ends:
  assumes "\<And>c g g'. sync_graph rk g \<Longrightarrow> F c g = Some (OK, g') \<Longrightarrow> sync_graph rk g'"
    "\<And>c g. sync_graph rk g \<Longrightarrow> c \<in> set cs \<Longrightarrow> \<exists>r g'. F c g = Some (r, g')"
  shows "sync_graph rk g \<Longrightarrow> \<exists>r g'. each_until F cs g = Some (r, g')"
  using assms(2)
proof (induction cs arbitrary: g)
  case (Cons c cs)
  obtain r g1 where g1: "F c g = Some (r, g1)" using Cons.prems(1) Cons.prems(2) [of g c] by auto
  show ?case
    using g1 Cons.IH [of g1] Cons.prems assms(1) [of g c g1] by (cases "r = OK") auto
qed simp

lemma Prepare_ends:
  assumes H: "prepare_hook rk H"
  shows "sync_graph rk g \<Longrightarrow> rk f < n \<Longrightarrow> \<exists>r g'. Prepare n H f g = Some (r, g')"
proof (induction n arbitrary: f g)
  case (Suc n)
  obtain r g1 where g1: "H DoPrepare f g = (r, g1)" by (cases "H DoPrepare f g")
  let ?g2 = "SetErrCode f r g1"
  have "sync_graph rk g1" using H g1 Suc.prems(1) unfolding prepare_hook_def by blast
  then have g2: "sync_graph rk ?g2" by (auto simp: sync_graph_def nexts_def)
  have "\<exists>r g'. each_until (Prepare n H) (nexts f ?g2) ?g2 = Some (r, g')"
  proof (rule each_until_ends [where rk = rk])
    show "\<And>c g g'. sync_graph rk g \<Longrightarrow> Prepare n H c g = Some (OK, g') \<Longrightarrow> sync_graph rk g'"
      using Prepare_prepared [OF H] by (auto simp: prepared_def)
    fix c and g :: "'a graph"
    assume "c \<in> set (nexts f ?g2)"
    then have "rk c < n" using g2 Suc.prems(2) by (fastforce simp: sync_graph_def)
    then show "sync_graph rk g \<Longrightarrow> \<exists>r g'. Prepare n H c g = Some (r, g')" by (rule Suc.IH [rotated])
  qed (rule g2)
  then obtain r2 g3 where "each_until (Prepare n H) (nexts f ?g2) ?g2 = Some (r2, g3)" by blast
  with g1 Suc.prems(1) show ?case by (cases "r = OK") (auto simp: sync_graph_def hasTask_def PrepareDone_def Let_def)
qed simp

lemma each_until_succeeds:
  assumes "\<And>c g r g'. P g \<Longrightarrow> F c g = Some (r, g') \<Longrightarrow> r = OK \<and> P g'"
  shows "P g \<Longrightarrow> each_until F cs g = Some (r, g') \<Longrightarrow> r = OK \<and> P g'"
  by (induction cs arbitrary: g) (fastforce simp: Option.bind_eq_Some_conv split: if_splits dest: assms)+

lemma Prepare_succeeds:
  assumes H: "prepare_hook rk H" "\<And>f g. fst (H DoPrepare f g) = OK"
  shows "sync_graph rk g \<and> (\<forall>x. \<not> in_state FS_ERROR g x) \<Longrightarrow> Prepare n H f g = Some (r, g') \<Longrightarrow>
    r = OK \<and> sync_graph rk g' \<and> (\<forall>x. \<not> in_state FS_ERROR g' x)"
proof (induction n arbitrary: f g r g')
  case (Suc n)
  obtain g1 where g1: "H DoPrepare f g = (OK, g1)" using H(2) [of f g] by (cases "H DoPrepare f g") auto
  let ?g2 = "SetErrCode f OK g1" and ?P = "\<lambda>g. sync_graph rk g \<and> (\<forall>x. \<not> in_state FS_ERROR g x)"
  have ne: "\<not> hasTask f g" "l_curState (g_filter g f) \<noteq> FS_ERROR" using Suc.prems(1) by (auto simp: sync_graph_def hasTask_def in_state_def)
  have "?P g1" using H(1) g1 Suc.prems(1) unfolding prepare_hook_def by blast
  then have P: "?P ?g2" by (auto simp: sync_graph_def nexts_def in_state_def)
  obtain r3 g3 where g3: "each_until (Prepare n H) (nexts f ?g2) ?g2 = Some (r3, g3)"
    using Suc.prems(2) ne g1 by (auto simp: PrepareDone_def Let_def Option.bind_eq_Some_conv)
  with each_until_succeeds [where P = ?P, OF _ P] Suc.IH have "r3 = OK" by blast
  with g3 ne g1 Suc.prems(2) have "r = OK" by (simp add: PrepareDone_def Let_def)
  with Prepare_prepared [OF H(1), of g "Suc n" f g'] Suc.prems show ?case by (auto simp: prepared_def)
qed simp

definition diamond :: "unit graph" where
  "diamond = \<lparr>g_filter = (\<lambda>f. (Filter_init FILTERTYPE_SOURCE False)
     \<lparr>l_next := (if f = 0 then [(1, [1, 2])] else if f = 1 \<or> f = 2 then [(1, [3])] else [])\<rparr>), g_world = ()\<rparr>"

section \<open>Waiting\<close>

text \<open>When nothing else runs, a wait on a filter whose next filters have none of their own.\<close>

definition err_coherent :: "'w graph \<Rightarrow> bool" where
  "err_coherent g = (\<forall>x. l_curState (g_filter g x) = FS_ERROR \<longrightarrow> l_errCode (g_filter g x) \<noteq> OK)"

lemma wait_leaf:
  assumes "nexts c g = []"
  shows "WaitAllState (Suc n) (\<lambda>g. g) st c g =
    (if l_curState (g_filter g c) = st then Some (OK, g)
     else if st \<noteq> FS_RELEASED \<and> l_curState (g_filter g c) = FS_ERROR then Some (GetErrCode c g, g)
     else Some (ERROR_TIMED_OUT, SetErrCode c ERROR_TIMED_OUT g))"
  using assms by (simp add: Let_def)

lemma wait_children_bad:
  assumes "r \<noteq> OK" "\<forall>c \<in> set cs. nexts c g = []" "err_coherent g"
  shows "\<exists>r' g'. wait_children (WaitAllState (Suc n) (\<lambda>g. g) st) r cs g = Some (r', g') \<and> r' \<noteq> OK"
  using assms
proof (induction cs arbitrary: r g)
  case (Cons c cs)
  let ?g1 = "SetErrCode c ERROR_TIMED_OUT g"
  have n1: "\<forall>d \<in> set cs. nexts d ?g1 = []" "err_coherent ?g1"
    using Cons.prems by (auto simp: nexts_def err_coherent_def)
  have e: "l_curState (g_filter g c) = FS_ERROR \<Longrightarrow> GetErrCode c g \<noteq> OK"
    using Cons.prems(3) by (simp add: err_coherent_def GetErrCode_def)
  show ?case
    using Cons.prems Cons.IH [of r g] Cons.IH [of "GetErrCode c g" g] Cons.IH [OF _ n1, of ERROR_TIMED_OUT] e
    by (simp add: wait_leaf GetErrCode_def del: WaitAllState.simps)
qed simp

lemma wait_children_leaves:
  assumes "\<forall>c \<in> set cs. nexts c g = []" "err_coherent g"
    and "wait_children (WaitAllState (Suc n) (\<lambda>g. g) st) OK cs g = Some (OK, g')"
  shows "g' = g \<and> (\<forall>c \<in> set cs. l_curState (g_filter g c) = st)"
  using assms
proof (induction cs arbitrary: g)
  case (Cons c cs)
  let ?g1 = "SetErrCode c ERROR_TIMED_OUT g"
  have n1: "\<forall>d \<in> set cs. nexts d ?g1 = []" "err_coherent ?g1"
    using Cons.prems by (auto simp: nexts_def err_coherent_def)
  have e: "l_curState (g_filter g c) = FS_ERROR \<Longrightarrow> GetErrCode c g \<noteq> OK"
    using Cons.prems(2) by (simp add: err_coherent_def GetErrCode_def)
  have "l_curState (g_filter g c) = st"
    using Cons.prems e wait_children_bad [of "GetErrCode c g" cs g n st]
      wait_children_bad [OF _ n1, of ERROR_TIMED_OUT n st]
    by (auto simp: wait_leaf GetErrCode_def simp del: WaitAllState.simps split: if_splits)
  with Cons show ?case
    by (auto simp: wait_leaf simp del: WaitAllState.simps)
qed simp

text \<open>In a graph at rest in which every failed filter has stored an error, a successful wait on a filter whose
  next filters are sinks tells that the filter and all its next filters are in the state waited for.\<close>

theorem WaitAllState_sound:
  assumes "err_coherent g" "\<forall>c \<in> set (nexts f g). nexts c g = []"
    and "WaitAllState (Suc (Suc n)) (\<lambda>g. g) st f g = Some (OK, g')"
  shows "g' = g \<and> l_curState (g_filter g f) = st \<and> (\<forall>c \<in> set (nexts f g). l_curState (g_filter g c) = st)"
proof -
  have "l_curState (g_filter g f) = st"
    using assms(1,3) by (auto simp: Let_def err_coherent_def GetErrCode_def split: if_splits)
  moreover have "wait_children (WaitAllState (Suc n) (\<lambda>g. g) st) OK (nexts f g) g = Some (OK, g')"
    using assms(3) calculation by (simp add: Let_def)
  ultimately show ?thesis
    using wait_children_leaves [OF assms(2,1)] by blast
qed

definition ready_pair :: "unit graph" where
  "ready_pair = \<lparr>g_filter = (\<lambda>f. (Filter_init FILTERTYPE_SOURCE False)
     \<lparr>l_curState := FS_READY, l_next := (if f = 0 then [(1, [1])] else [])\<rparr>), g_world = ()\<rparr>"

theorem WaitAllState_sound_witness:
  "\<exists>g'. WaitAllState 2 (\<lambda>g. g) FS_READY 0 ready_pair = Some (OK, g') \<and> l_curState (g_filter ready_pair 1) = FS_READY"
proof -
  have w: "WaitAllState 2 (\<lambda>g. g) FS_READY 0 ready_pair = Some (OK, ready_pair)"
    by (simp add: numeral_2_eq_2 ready_pair_def nexts_def Let_def)
  have "err_coherent ready_pair" "\<forall>c \<in> set (nexts 0 ready_pair). nexts c ready_pair = []" "1 \<in> set (nexts 0 ready_pair)"
    by (simp_all add: err_coherent_def ready_pair_def nexts_def)
  from WaitAllState_sound [of ready_pair 0 0 FS_READY ready_pair, folded numeral_2_eq_2, OF this(1,2) w] this(3)
  have "l_curState (g_filter ready_pair 1) = FS_READY" by blast
  with w show ?thesis by blast
qed

definition chain3 :: "unit graph" where
  "chain3 = \<lparr>g_filter = (\<lambda>f. (Filter_init FILTERTYPE_SOURCE False)
     \<lparr>l_curState := (if f = 2 then FS_ERROR else FS_READY), l_errCode := (if f = 2 then ERROR_UNKNOWN else OK),
      l_next := (if f = 0 then [(1, [1])] else if f = 1 then [(1, [2])] else [])\<rparr>), g_world = ()\<rparr>"

text \<open>A failure two filters down is lost by the wait: \<^verbatim>\<open>WaitAllState\<close> replaces the status of a failing next
  filter by the error code that next filter itself stored, which is success when the failure lies further
  down. With source, decoder and sink in a row and the sink failed, waiting on the decoder reports the
  failure and waiting on the source reports success.\<close>

theorem WaitAllState_masks_failure:
  "err_coherent chain3 \<and> l_curState (g_filter chain3 2) = FS_ERROR \<and>
   WaitAllState 3 (\<lambda>g. g) FS_READY 1 chain3 = Some (ERROR_UNKNOWN, chain3) \<and>
   WaitAllState 3 (\<lambda>g. g) FS_READY 0 chain3 = Some (OK, chain3)"
  by (simp add: numeral_3_eq_3 chain3_def nexts_def GetErrCode_def err_coherent_def Let_def)

end
