(* ===== verification/Media_Pipeline.thy ===== *)
theory Media_Pipeline
  imports Media_Filter_Props
begin

text \<open>
  Pipelines, \<^verbatim>\<open>src/pipeline/pipeline.cpp\<close>: the head filters of a graph and the operations that drive
  them. \<^verbatim>\<open>SubmitJobOnce\<close> runs its lambda to the end before it returns, so each operation is one function.
  \<open>n\<close> is the fuel for the depth of the graph and \<open>others\<close> what the filters' workers do while
  \<^verbatim>\<open>WaitAllState\<close> waits. \<open>link\<close> stands for the virtual \<^verbatim>\<open>LinkNext\<close>, \<^verbatim>\<open>UpdateNext\<close> and
  \<^verbatim>\<open>UnLinkNext\<close>.
\<close>

record 'w pipeline =
  p_groupId :: string
  p_filters :: "fid list"
  p_graph :: "'w graph"

datatype link_op = LinkNext | UpdateNext | UnLinkNext

type_synonym 'w links = "link_op \<Rightarrow> fid \<Rightarrow> fid \<Rightarrow> nat \<Rightarrow> 'w graph \<Rightarrow> Status \<times> 'w graph"

definition Pipeline_Init :: "string \<Rightarrow> 'w pipeline \<Rightarrow> 'w pipeline" where
  "Pipeline_Init groupId p = p\<lparr>p_groupId := groupId\<rparr>"

definition with_graph :: "'w pipeline \<Rightarrow> Status \<times> 'w graph \<Rightarrow> Status \<times> 'w pipeline" where
  "with_graph p rg = (fst rg, p\<lparr>p_graph := snd rg\<rparr>)"

text \<open>\<^verbatim>\<open>Prepare\<close>, \<^verbatim>\<open>Start\<close> and \<^verbatim>\<open>Resume\<close> stop at the first failure, then wait for every head filter.\<close>

definition run_until ::
  "(fid \<Rightarrow> 'w graph \<Rightarrow> (Status \<times> 'w graph) option) \<Rightarrow> (fid \<Rightarrow> 'w graph \<Rightarrow> (Status \<times> 'w graph) option)
   \<Rightarrow> 'w pipeline \<Rightarrow> (Status \<times> 'w pipeline) option" where
  "run_until step wait p =
     do { (r, g1) \<leftarrow> each_until step (p_filters p) (p_graph p);
          if r \<noteq> OK then Some (with_graph p (r, g1))
          else do { (r2, g2) \<leftarrow> each_until wait (p_filters p) g1; Some (with_graph p (r2, g2)) } }"

definition Pipeline_Prepare ::
  "nat \<Rightarrow> 'w hooks \<Rightarrow> ('w graph \<Rightarrow> 'w graph) \<Rightarrow> 'w pipeline \<Rightarrow> (Status \<times> 'w pipeline) option" where
  "Pipeline_Prepare n H others = run_until (Prepare n H) (WaitAllState n others FS_READY)"

definition Pipeline_Start ::
  "nat \<Rightarrow> 'w hooks \<Rightarrow> ('w graph \<Rightarrow> 'w graph) \<Rightarrow> 'w pipeline \<Rightarrow> (Status \<times> 'w pipeline) option" where
  "Pipeline_Start n H others = run_until (Start n H) (WaitAllState n others FS_RUNNING)"

definition Pipeline_Resume ::
  "nat \<Rightarrow> 'w hooks \<Rightarrow> ('w graph \<Rightarrow> 'w graph) \<Rightarrow> 'w pipeline \<Rightarrow> (Status \<times> 'w pipeline) option" where
  "Pipeline_Resume n H others = run_until (Resume n H) (WaitAllState n others FS_RUNNING)"

text \<open>\<^verbatim>\<open>Pause\<close> and \<^verbatim>\<open>Stop\<close> visit every filter and report the last failure.\<close>

definition run_all ::
  "(fid \<Rightarrow> 'w graph \<Rightarrow> (Status \<times> 'w graph) option) \<Rightarrow> (fid \<Rightarrow> 'w graph \<Rightarrow> (Status \<times> 'w graph) option)
   \<Rightarrow> 'w pipeline \<Rightarrow> (Status \<times> 'w pipeline) option" where
  "run_all step wait p =
     do { (r, g1) \<leftarrow> each_last step OK (p_filters p) (p_graph p);
          (r2, g2) \<leftarrow> each_last wait r (p_filters p) g1;
          Some (with_graph p (r2, g2)) }"

definition Pipeline_Pause ::
  "nat \<Rightarrow> 'w hooks \<Rightarrow> ('w graph \<Rightarrow> 'w graph) \<Rightarrow> 'w pipeline \<Rightarrow> (Status \<times> 'w pipeline) option" where
  "Pipeline_Pause n H others = run_all (Pause n H) (WaitAllState n others FS_PAUSED)"

definition Pipeline_Stop ::
  "nat \<Rightarrow> 'w hooks \<Rightarrow> ('w graph \<Rightarrow> 'w graph) \<Rightarrow> 'w pipeline \<Rightarrow> (Status \<times> 'w pipeline) option" where
  "Pipeline_Stop n H others p =
     do { (r, p1) \<leftarrow> run_all (Stop n H) (WaitAllState n others FS_STOPPED) p; Some (r, p1\<lparr>p_filters := []\<rparr>) }"

definition Pipeline_Flush :: "nat \<Rightarrow> 'w hooks \<Rightarrow> 'w pipeline \<Rightarrow> (Status \<times> 'w pipeline) option" where
  "Pipeline_Flush n H p =
     do { g1 \<leftarrow> each_ignore (Flush n H) (p_filters p) (p_graph p); Some (OK, p\<lparr>p_graph := g1\<rparr>) }"

definition Pipeline_Release ::
  "nat \<Rightarrow> 'w hooks \<Rightarrow> ('w graph \<Rightarrow> 'w graph) \<Rightarrow> 'w pipeline \<Rightarrow> (Status \<times> 'w pipeline) option" where
  "Pipeline_Release n H others p =
     do { g1 \<leftarrow> each_ignore (Release n H) (p_filters p) (p_graph p);
          g2 \<leftarrow> each_ignore (WaitAllState n others FS_RELEASED) (p_filters p) g1;
          Some (OK, p\<lparr>p_graph := g2, p_filters := []\<rparr>) }"

definition Pipeline_Preroll :: "nat \<Rightarrow> 'w hooks \<Rightarrow> bool \<Rightarrow> 'w pipeline \<Rightarrow> (Status \<times> 'w pipeline) option" where
  "Pipeline_Preroll n H render = run_until (Preroll n H) (WaitPrerollDone n H render)"

definition Pipeline_SetPlayRange :: "nat \<Rightarrow> 'w hooks \<Rightarrow> int \<Rightarrow> int \<Rightarrow> 'w pipeline \<Rightarrow> (Status \<times> 'w pipeline) option" where
  "Pipeline_SetPlayRange n H s e p =
     do { g1 \<leftarrow> each_ignore (SetPlayRange n H s e) (p_filters p) (p_graph p); Some (OK, p\<lparr>p_graph := g1\<rparr>) }"

section \<open>Building the graph\<close>

text \<open>The loop of \<^verbatim>\<open>AddHeadFilters\<close>: only the filters already in the pipeline are compared with.\<close>

fun add_loop :: "'w hooks \<Rightarrow> string \<Rightarrow> fid list \<Rightarrow> fid list \<Rightarrow> 'w graph \<Rightarrow> fid list \<times> 'w graph" where
  "add_loop H groupId present [] g = ([], g)"
| "add_loop H groupId present (f # fs) g =
     (if f \<in> set present then add_loop H groupId present fs g
      else let (l, g1) = add_loop H groupId present fs (LinkPipeLine H groupId True f g) in (f # l, g1))"

definition AddHeadFilters :: "'w hooks \<Rightarrow> fid list \<Rightarrow> 'w pipeline \<Rightarrow> Status \<times> 'w pipeline" where
  "AddHeadFilters H filtersIn p =
     (let (filtersToAdd, g1) = add_loop H (p_groupId p) (p_filters p) filtersIn (p_graph p) in
      if filtersToAdd = [] then (OK, p\<lparr>p_graph := g1\<rparr>)
      else (OK, p\<lparr>p_graph := g1, p_filters := p_filters p @ filtersToAdd\<rparr>))"

definition RemoveHeadFilter ::
  "nat \<Rightarrow> 'w hooks \<Rightarrow> ('w graph \<Rightarrow> 'w graph) \<Rightarrow> fid \<Rightarrow> 'w pipeline \<Rightarrow> (Status \<times> 'w pipeline) option" where
  "RemoveHeadFilter n H others f p =
     do { (_, g1) \<leftarrow> Release n H f (p_graph p);
          (_, g2) \<leftarrow> WaitAllState n others FS_RELEASED f g1;
          Some (OK, p\<lparr>p_filters := remove1 f (p_filters p), p_graph := snd (ClearAllNextFilters f g2)\<rparr>) }"

fun LinkFilters ::
  "'w hooks \<Rightarrow> 'w links \<Rightarrow> fid \<Rightarrow> fid list \<Rightarrow> nat \<Rightarrow> bool \<Rightarrow> 'w pipeline \<Rightarrow> Status \<times> 'w pipeline" where
  "LinkFilters H link pre [] type needInit p = (OK, p)"
| "LinkFilters H link pre (f # fs) type needInit p =
     (case link LinkNext pre f type (p_graph p) of
        (ret, g1) \<Rightarrow>
          let p1 = p\<lparr>p_graph := LinkPipeLine H (p_groupId p) needInit f g1\<rparr>
          in if ret \<noteq> OK then (ret, p1) else LinkFilters H link pre fs type needInit p1)"

definition UpdateFilters :: "'w links \<Rightarrow> fid \<Rightarrow> fid list \<Rightarrow> nat \<Rightarrow> 'w pipeline \<Rightarrow> Status \<times> 'w pipeline" where
  "UpdateFilters link pre fs type p =
     (OK, p\<lparr>p_graph := fold (\<lambda>f g. snd (link UpdateNext pre f type g)) fs (p_graph p)\<rparr>)"

definition UnLinkFilters :: "'w links \<Rightarrow> fid \<Rightarrow> fid list \<Rightarrow> nat \<Rightarrow> 'w pipeline \<Rightarrow> Status \<times> 'w pipeline" where
  "UnLinkFilters link pre fs type p =
     (OK, p\<lparr>p_graph := fold (\<lambda>f g. snd (link UnLinkNext pre f type g)) fs (p_graph p)\<rparr>)"

section \<open>Lemmas\<close>

lemma add_loop_list: "fst (add_loop H gid ps fs g) = filter (\<lambda>f. f \<notin> set ps) fs"
  by (induction H gid ps fs g rule: add_loop.induct) (auto simp: Let_def split_beta)

lemma AddHeadFilters_filters:
  "p_filters (snd (AddHeadFilters H fs p)) = p_filters p @ filter (\<lambda>f. f \<notin> set (p_filters p)) fs"
  using add_loop_list [of H "p_groupId p" "p_filters p" fs "p_graph p"]
  by (auto simp: AddHeadFilters_def Let_def split_beta)

lemma add_loop_present: "set fs \<subseteq> set ps \<Longrightarrow> add_loop H gid ps fs g = ([], g)"
  by (induction fs) auto

text \<open>A wait on a graph that is in the state already.\<close>

lemma wait_children_ok:
  assumes "\<And>c. c \<in> set cs \<Longrightarrow> F c g = Some (OK, g)"
  shows "wait_children F OK cs g = Some (OK, g)"
  using assms by (induction cs) auto

lemma WaitAllState_reached:
  "sync_graph rk g \<Longrightarrow> ready_below g f \<Longrightarrow> rk f < n \<Longrightarrow> WaitAllState n others FS_READY f g = Some (OK, g)"
proof (induction n arbitrary: f)
  case (Suc n)
  have "wait_children (WaitAllState n others FS_READY) OK (nexts f g) g = Some (OK, g)"
  proof (rule wait_children_ok)
    fix c
    assume c: "c \<in> set (nexts f g)"
    then have "rk c < n" using Suc.prems(1,3) by (fastforce simp: sync_graph_def)
    moreover have "ready_below g c" using Suc.prems(2) c unfolding ready_below_def by (metis (no_types, lifting) converse_rtranclp_into_rtranclp)
    ultimately show "WaitAllState n others FS_READY c g = Some (OK, g)" by (intro Suc.IH [OF Suc.prems(1)])
  qed
  then show ?case using Suc.prems(2) by (simp add: Let_def ready_below_def in_state_def)
qed simp

lemma each_until_stay:
  assumes "\<And>c. c \<in> set cs \<Longrightarrow> F c g = Some (OK, g)"
  shows "each_until F cs g = Some (OK, g)"
  using assms by (induction cs) auto

section \<open>Properties\<close>

text \<open>C31: Preparing a pipeline of synchronous filters whose links have no cycle ends, with fuel above the rank of its head filters, and
  tells the truth. \<^verbatim>\<open>DoPrepare\<close> of any filter may fail, and may link further filters below its own as long as no cycle arises and nothing
  becomes asynchronous; when it succeeds it has not changed the links of other filters, unreadied a filter or put one into the error
  state. If preparing reports success, every filter below a head filter, with the links there are then, is ready, the filters that the
  hooks added included, and the waits have not blocked. If it reports an error, a filter is in the error state. If no hook fails and no
  filter was in the error state, it reports success.\<close>

theorem Pipeline_Prepare_ready:
  assumes "prepare_hook rk H" "sync_graph rk (p_graph p)" "\<forall>f \<in> set (p_filters p). rk f < n"
  shows "\<exists>r p'. Pipeline_Prepare n H others p = Some (r, p') \<and> p_filters p' = p_filters p \<and>
    (r = OK \<longrightarrow> (\<forall>f \<in> set (p_filters p). \<forall>x. reaches (p_graph p') f x \<longrightarrow> l_curState (g_filter (p_graph p') x) = FS_READY)) \<and>
    (r \<noteq> OK \<longrightarrow> (\<exists>x. l_curState (g_filter (p_graph p') x) = FS_ERROR)) \<and>
    ((\<forall>f g. fst (H DoPrepare f g) = OK) \<and> (\<forall>x. l_curState (g_filter (p_graph p) x) \<noteq> FS_ERROR) \<longrightarrow> r = OK)"
proof -
  obtain r g1 where g1: "each_until (Prepare n H) (p_filters p) (p_graph p) = Some (r, g1)"
    using each_until_ends [of rk "Prepare n H" "p_filters p" "p_graph p"] Prepare_prepared [OF assms(1)] Prepare_ends [OF assms(1)] assms(2,3)
    by (metis prepared_def)
  have ok: "r = OK" if "\<forall>f g. fst (H DoPrepare f g) = OK" "\<forall>x. \<not> in_state FS_ERROR (p_graph p) x"
    using each_until_succeeds [where P = "\<lambda>g. sync_graph rk g \<and> (\<forall>x. \<not> in_state FS_ERROR g x)", OF _ _ g1]
      Prepare_succeeds [OF assms(1)] that assms(2) by blast
  show ?thesis
  proof (cases "r = OK")
    case True
    with each_until_prepared [OF Prepare_prepared [OF assms(1)] assms(2)] g1
    have rdy: "sync_graph rk g1" "\<forall>f \<in> set (p_filters p). ready_below g1 f" by (auto simp: prepared_def)
    then have "each_until (WaitAllState n others FS_READY) (p_filters p) g1 = Some (OK, g1)"
      using WaitAllState_reached assms(3) by (intro each_until_stay) blast
    with True g1 rdy(2) show ?thesis by (auto simp: Pipeline_Prepare_def run_until_def with_graph_def ready_below_def in_state_def)
  next
    case False
    have "\<exists>x. in_state FS_ERROR g1 x"
      by (rule each_until_failed [of "Prepare n H", OF Prepare_failed g1 False])
    moreover have "Pipeline_Prepare n H others p = Some (r, p\<lparr>p_graph := g1\<rparr>)"
      using g1 False by (simp add: Pipeline_Prepare_def run_until_def with_graph_def)
    ultimately show ?thesis using False ok by (auto simp: in_state_def)
  qed
qed

text \<open>A source that links a sink while it is prepared.\<close>

definition linking_hooks :: "unit hooks" where
  "linking_hooks h f g = (if h = DoPrepare \<and> f = 0 then (OK, upd 0 (\<lambda>l. l\<lparr>l_next := [(1, [5])]\<rparr>) g) else (OK, g))"

theorem Pipeline_Prepare_ready_witness:
  "\<exists>p'. Pipeline_Prepare 2 linking_hooks (\<lambda>g. g) \<lparr>p_groupId = [], p_filters = [0],
      p_graph = \<lparr>g_filter = (\<lambda>f. Filter_init FILTERTYPE_SOURCE False), g_world = ()\<rparr>\<rparr> = Some (OK, p') \<and>
     5 \<in> set (nexts 0 (p_graph p')) \<and> l_curState (g_filter (p_graph p') 5) = FS_READY"
proof -
  let ?rk = "\<lambda>x::nat. if x = 0 then 1 else 0 :: nat"
  let ?g = "\<lparr>g_filter = (\<lambda>f. Filter_init FILTERTYPE_SOURCE False), g_world = ()\<rparr> :: unit graph"
  let ?p = "\<lparr>p_groupId = [], p_filters = [0], p_graph = ?g\<rparr>"
  have H: "prepare_hook ?rk linking_hooks"
    by (auto simp: prepare_hook_def linking_hooks_def sync_graph_def nexts_def in_state_def split: if_splits)
  have g: "sync_graph ?rk (p_graph ?p)" by (simp add: sync_graph_def nexts_def Filter_init_def)
  have n: "\<forall>f \<in> set (p_filters ?p). ?rk f < 2" by simp
  obtain r p' where p': "Pipeline_Prepare 2 linking_hooks (\<lambda>g. g) ?p = Some (r, p')" "r = OK"
    "r = OK \<longrightarrow> (\<forall>x. reaches (p_graph p') 0 x \<longrightarrow> l_curState (g_filter (p_graph p') x) = FS_READY)"
    using Pipeline_Prepare_ready [OF H g n, of "\<lambda>g. g"] by (auto simp: linking_hooks_def Filter_init_def)
  have "5 \<in> set (nexts 0 (p_graph p'))"
    using p'(1) by (auto simp: Pipeline_Prepare_def run_until_def with_graph_def numeral_2_eq_2 PrepareDone_def linking_hooks_def Filter_init_def
      nexts_def hasTask_def Let_def upd_def SetErrCode_def ChangeState_def split: if_splits)
  with p' show ?thesis by (metis (no_types, lifting) r_into_rtranclp)
qed

text \<open>Adding head filters appends exactly those that are not in the pipeline yet, in their order, keeps the
  pipeline free of duplicates when the added ones are, and adding the same filters once more changes nothing,
  in particular links no filter a second time.\<close>

theorem AddHeadFilters_once:
  assumes "distinct fs" "distinct (p_filters p)"
  shows "let p' = snd (AddHeadFilters H fs p)
    in p_filters p' = p_filters p @ filter (\<lambda>f. f \<notin> set (p_filters p)) fs \<and> distinct (p_filters p') \<and>
       AddHeadFilters H fs p' = (OK, p')"
proof -
  define p' where "p' = snd (AddHeadFilters H fs p)"
  have f: "p_filters p' = p_filters p @ filter (\<lambda>f. f \<notin> set (p_filters p)) fs"
    unfolding p'_def by (rule AddHeadFilters_filters)
  have "set fs \<subseteq> set (p_filters p')" using f by auto
  then have "AddHeadFilters H fs p' = (OK, p')"
    by (simp add: AddHeadFilters_def add_loop_present)
  moreover have "distinct (p_filters p')" using assms f by auto
  ultimately show ?thesis
    using f unfolding p'_def Let_def by blast
qed

theorem AddHeadFilters_once_witness:
  "let p' = snd (AddHeadFilters base_hooks [0, 1] \<lparr>p_groupId = [], p_filters = [0], p_graph = diamond\<rparr>)
   in p_filters p' = [0, 1] \<and> AddHeadFilters base_hooks [0, 1] p' = (OK, p')"
  using AddHeadFilters_once [of "[0, 1]" "\<lparr>p_groupId = [], p_filters = [0], p_graph = diamond\<rparr>" base_hooks]
  by (simp add: Let_def)

end
