(* ===== verification/Sync_Primitives.thy ===== *)
theory Sync_Primitives
  imports Prelude "HOL-Library.Monad_Syntax"
begin

text \<open>
  The two blocking primitives the scene state machines rest on: \<^verbatim>\<open>BlockingQueue\<close>
  (\<^verbatim>\<open>engine/include/foundation/utils/blocking_queue.h\<close>) and \<^verbatim>\<open>Synchronizer\<close>
  (\<^verbatim>\<open>engine/include/foundation/osal/base/synchronizer.h\<close>). A wait on a condition variable gives
  the mutex up; what other threads do to the object meanwhile is the parameter \<open>others\<close>, and \<open>None\<close>
  stands for a wait that does not end.
\<close>

section \<open>Blocking queue\<close>

record 'a bqueue =
  w_que :: "'a list"
  w_capacity :: nat
  w_isActive :: bool

definition BlockingQueue :: "nat \<Rightarrow> 'a bqueue" where
  "BlockingQueue capacity = \<lparr>w_que = [], w_capacity = capacity, w_isActive = True\<rparr>"

definition BQ_Push :: "('a bqueue \<Rightarrow> 'a bqueue) \<Rightarrow> 'a \<Rightarrow> 'a bqueue \<Rightarrow> (bool \<times> 'a bqueue) option" where
  "BQ_Push others x w =
     (if \<not> w_isActive w then Some (False, w)
      else
        let w1 = (if length (w_que w) \<ge> w_capacity w then others w else w) in
        if length (w_que w) \<ge> w_capacity w \<and> w_isActive w1 \<and> \<not> length (w_que w1) < w_capacity w1 then None
        else if \<not> w_isActive w1 then Some (False, w1)
        else Some (True, w1\<lparr>w_que := w_que w1 @ [x]\<rparr>))"

definition BQ_Push_timeout :: "('a bqueue \<Rightarrow> 'a bqueue) \<Rightarrow> 'a \<Rightarrow> 'a bqueue \<Rightarrow> bool \<times> 'a bqueue" where
  "BQ_Push_timeout others x w =
     (if \<not> w_isActive w then (False, w)
      else
        let w1 = (if length (w_que w) \<ge> w_capacity w then others w else w) in
        if \<not> w_isActive w1 \<or> length (w_que w1) = w_capacity w1 then (False, w1)
        else (True, w1\<lparr>w_que := w_que w1 @ [x]\<rparr>))"

text \<open>\<^verbatim>\<open>Pop\<close> returns the default value, here \<open>None\<close>, when the queue is inactive.\<close>

definition BQ_Pop :: "('a bqueue \<Rightarrow> 'a bqueue) \<Rightarrow> 'a bqueue \<Rightarrow> ('a option \<times> 'a bqueue) option" where
  "BQ_Pop others w =
     (if \<not> w_isActive w then Some (None, w)
      else
        let w1 = (if w_que w = [] then others w else w) in
        if \<not> w_isActive w1 then Some (None, w1)
        else (case w_que w1 of [] \<Rightarrow> None | x # xs \<Rightarrow> Some (Some x, w1\<lparr>w_que := xs\<rparr>)))"

definition BQ_Pop_timeout :: "('a bqueue \<Rightarrow> 'a bqueue) \<Rightarrow> 'a bqueue \<Rightarrow> 'a option \<times> 'a bqueue" where
  "BQ_Pop_timeout others w =
     (if \<not> w_isActive w then (None, w)
      else
        let w1 = (if w_que w = [] then others w else w) in
        if \<not> w_isActive w1 then (None, w1)
        else (case w_que w1 of [] \<Rightarrow> (None, w1) | x # xs \<Rightarrow> (Some x, w1\<lparr>w_que := xs\<rparr>)))"

definition BQ_Clear :: "'a bqueue \<Rightarrow> 'a bqueue" where
  "BQ_Clear w = w\<lparr>w_que := []\<rparr>"

definition BQ_SetActive :: "bool \<Rightarrow> bool \<Rightarrow> 'a bqueue \<Rightarrow> 'a bqueue" where
  "BQ_SetActive active cleanData w =
     (let w1 = w\<lparr>w_isActive := active\<rparr>
      in if \<not> active \<and> cleanData then BQ_Clear w1 else w1)"

text \<open>The queue never holds more than its capacity, provided the threads that run while a push waits
  keep it so; the timed push gives up on a full queue.\<close>

definition bqueue_ok :: "'a bqueue \<Rightarrow> bool" where
  "bqueue_ok w = (length (w_que w) \<le> w_capacity w)"

lemma BQ_Push_ok:
  assumes "bqueue_ok w" "BQ_Push others x w = Some (b, w')"
    "\<And>w. bqueue_ok w \<Longrightarrow> bqueue_ok (others w)"
  shows "bqueue_ok w'"
  using assms by (auto simp: BQ_Push_def Let_def bqueue_ok_def split: if_splits)

lemma BQ_Push_timeout_ok:
  assumes "bqueue_ok w" "\<And>w. bqueue_ok w \<Longrightarrow> bqueue_ok (others w)"
  shows "bqueue_ok (snd (BQ_Push_timeout others x w))"
  using assms(1) assms(2) [of w] by (auto simp: BQ_Push_timeout_def Let_def bqueue_ok_def)

lemma BQ_Pop_ok:
  assumes "bqueue_ok w" "BQ_Pop others w = Some (b, w')" "\<And>w. bqueue_ok w \<Longrightarrow> bqueue_ok (others w)"
  shows "bqueue_ok w'"
  using assms(1,2) assms(3) [of w]
  by (auto simp: BQ_Pop_def Let_def bqueue_ok_def split: if_splits list.splits)

lemma BQ_SetActive_ok: "bqueue_ok w \<Longrightarrow> bqueue_ok (BQ_SetActive active clean w)"
  by (auto simp: BQ_SetActive_def BQ_Clear_def bqueue_ok_def Let_def)

text \<open>The queue as a channel.\<close>

definition bq_enq :: "'a \<Rightarrow> 'a bqueue \<Rightarrow> 'a bqueue option" where
  "bq_enq x w = (case BQ_Push (\<lambda>w. w) x w of Some (True, w') \<Rightarrow> Some w' | _ \<Rightarrow> None)"

definition bq_deq :: "'a bqueue \<Rightarrow> ('a option \<times> 'a bqueue) option" where
  "bq_deq w = BQ_Pop (\<lambda>w. w) w"

lemma bq_enq_eq:
  "w_isActive w \<Longrightarrow> bq_enq x w =
     (if length (w_que w) < w_capacity w then Some (w\<lparr>w_que := w_que w @ [x]\<rparr>) else None)"
  by (simp add: bq_enq_def BQ_Push_def Let_def)

interpretation bqch: fifo_channel "\<lambda>w. w_isActive w \<and> bqueue_ok w" w_que bq_enq bq_deq
proof unfold_locales
  fix w :: "'a bqueue" and x w'
  assume "w_isActive w \<and> bqueue_ok w" "bq_enq x w = Some w'"
  then show "(w_isActive w' \<and> bqueue_ok w') \<and> w_que w' = w_que w @ [x]"
    by (auto simp: bq_enq_eq bqueue_ok_def split: if_splits)
next
  fix w :: "'a bqueue" and x xs
  assume "w_isActive w \<and> bqueue_ok w" "w_que w = x # xs"
  then show "\<exists>s'. bq_deq w = Some (Some x, s') \<and> (w_isActive s' \<and> bqueue_ok s') \<and> w_que s' = xs"
    by (auto simp: bq_deq_def BQ_Pop_def bqueue_ok_def)
qed

section \<open>Synchronizer\<close>

record ('i, 'r) synchronizer =
  y_syncMap :: "'i \<Rightarrow> 'r option"
  y_waitSet :: "'i \<Rightarrow> bool"

definition Synchronizer :: "('i, 'r) synchronizer" where
  "Synchronizer = \<lparr>y_syncMap = (\<lambda>_. None), y_waitSet = (\<lambda>_. False)\<rparr>"

text \<open>\<^verbatim>\<open>std::map::insert\<close> keeps an entry that is there already.\<close>

definition Sync_Notify :: "'i \<Rightarrow> 'r \<Rightarrow> ('i, 'r) synchronizer \<Rightarrow> ('i, 'r) synchronizer" where
  "Sync_Notify i r y =
     (if y_waitSet y i
      then y\<lparr>y_waitSet := (y_waitSet y)(i := False),
             y_syncMap := (if y_syncMap y i = None then (y_syncMap y)(i \<mapsto> r) else y_syncMap y)\<rparr>
      else y)"

text \<open>
  \<^verbatim>\<open>WaitFor\<close> with a result, in two halves. \<open>Sync_begin\<close> registers the waiter; the asynchronous
  operation and the wait are the caller's; \<open>Sync_end\<close> collects the result when the wait ends, at the
  latest after the timeout.
\<close>

definition Sync_begin :: "'i \<Rightarrow> ('i, 'r) synchronizer \<Rightarrow> ('i, 'r) synchronizer" where
  "Sync_begin i y = y\<lparr>y_waitSet := (y_waitSet y)(i := True)\<rparr>"

definition Sync_abort :: "'i \<Rightarrow> ('i, 'r) synchronizer \<Rightarrow> ('i, 'r) synchronizer" where
  "Sync_abort i y = y\<lparr>y_waitSet := (y_waitSet y)(i := False)\<rparr>"

definition Sync_end :: "'i \<Rightarrow> ('i, 'r) synchronizer \<Rightarrow> 'r option \<times> ('i, 'r) synchronizer" where
  "Sync_end i y =
     (case y_syncMap y i of
        Some r \<Rightarrow> (Some r, y\<lparr>y_syncMap := (y_syncMap y)(i := None)\<rparr>)
      | None \<Rightarrow> (None, Sync_abort i y))"

text \<open>A waiter gets the first result that is notified for its id after it registered.\<close>

lemma Sync_handover:
  assumes "y_syncMap y i = None"
  shows "Sync_end i (Sync_Notify i r (Sync_begin i y)) =
    (Some r, y\<lparr>y_waitSet := (y_waitSet y)(i := False), y_syncMap := (y_syncMap y)(i := None)\<rparr>)"
  using assms by (simp add: Sync_begin_def Sync_Notify_def Sync_end_def)

lemma Sync_Notify_other: "i \<noteq> j \<Longrightarrow> y_syncMap (Sync_Notify i r y) j = y_syncMap y j \<and>
    y_waitSet (Sync_Notify i r y) j = y_waitSet y j"
  by (simp add: Sync_Notify_def)

lemma Sync_Notify_unawaited: "\<not> y_waitSet y i \<Longrightarrow> Sync_Notify i r y = y"
  by (simp add: Sync_Notify_def)

section \<open>Properties\<close>

text \<open>C33: A blocking queue hands its elements out in the order they were pushed, each exactly once: after
  pushing \<open>xs\<close> onto an active queue that is within its capacity, popping \<open>n\<close> times yields the first \<open>n\<close> of what was
  queued followed by \<open>xs\<close>; the pushes that succeed without waiting keep the queue within its capacity.\<close>

theorem BlockingQueue_fifo:
  assumes "w_isActive w \<and> bqueue_ok w" "enq_all bq_enq xs w = Some w'" "n \<le> length (w_que w) + length xs"
  shows "\<exists>w''. deq_n bq_deq n w' = Some (map Some (take n (w_que w @ xs)), w'') \<and>
    (w_isActive w'' \<and> bqueue_ok w'') \<and> w_que w'' = drop n (w_que w @ xs)"
  by (rule bqch.fifo_order [OF assms])

theorem BlockingQueue_fifo_witness:
  "\<exists>w''. deq_n bq_deq 2 (\<lparr>w_que = [1 :: nat, 2, 3], w_capacity = 3, w_isActive = True\<rparr>) =
     Some ([Some 1, Some 2], w'') \<and> w_que w'' = [3]"
proof -
  have "enq_all bq_enq [2, 3] \<lparr>w_que = [1 :: nat], w_capacity = 3, w_isActive = True\<rparr> =
      Some \<lparr>w_que = [1, 2, 3], w_capacity = 3, w_isActive = True\<rparr>"
    by (simp add: bq_enq_def BQ_Push_def)
  from BlockingQueue_fifo [OF _ this, of 2] show ?thesis
    by (auto simp: bqueue_ok_def)
qed

end
