(* ===== verification/Intent_Machine.thy ===== *)
theory Intent_Machine
  imports Sync_Primitives
begin

text \<open>
  The intent-driven state machine that the player (\<^verbatim>\<open>engine/scene/player/internal/state_machine.cpp\<close>)
  and the recorder (\<^verbatim>\<open>engine/scene/recorder/internal/state_machine.cpp\<close>) have in common. The two C++
  classes are copies that differ in their state classes, in the actions that resume pending jobs and in
  which intent is notified; \<open>fsm_class\<close> holds these differences. The mutual recursion of
  \<^verbatim>\<open>ProcAction\<close> and \<^verbatim>\<open>TransitionTo\<close> carries fuel; \<open>PROC_FUEL\<close> is enough because entering a state
  never asks for a further transition when it succeeds, which the locale states and both machines prove.
\<close>

datatype ErrorCode =
    E_END_OF_STREAM
  | SUCCESS
  | E_UNKNOWN
  | E_UNIMPLEMENTED
  | E_AGAIN
  | E_INVALID_PARAMETER_VALUE
  | E_INVALID_PARAMETER_TYPE
  | E_INVALID_OPERATION
  | E_UNSUPPORTED_FORMAT
  | E_NOT_EXISTED
  | E_TIMED_OUT
  | E_NO_MEMORY
  | E_INVALID_STATE
  | E_PERMISSION_DENIED
  | E_NO_NOTIFY
  | E_NULL_POINTER

record ('st, 'ac, 'it, 'p, 'x) fsm_class =
  k_execute :: "'st \<Rightarrow> 'it \<Rightarrow> 'p \<Rightarrow> 'x \<Rightarrow> ErrorCode \<times> 'ac \<times> 'x"
  k_enter :: "'st \<Rightarrow> 'it \<Rightarrow> 'x \<Rightarrow> ErrorCode \<times> 'ac \<times> 'x"
  k_next :: "'ac \<Rightarrow> 'st option"
  k_notifies :: "'it \<Rightarrow> 'ac \<Rightarrow> ErrorCode \<Rightarrow> 'it option"
  k_resumes :: "'ac \<Rightarrow> bool"
  k_pending :: "'ac"
  k_butt :: "'ac"

record ('st, 'it, 'p, 'x) fsm =
  f_curState :: "'st"
  f_lastIntent :: "'it"
  f_executor :: "'x"
  f_intentSync :: "('it, ErrorCode) synchronizer"
  f_jobs :: "('it \<times> 'p) bqueue"
  f_pendingJobs :: "('it \<times> 'p) list"
  f_callback :: bool
  f_changed :: "'st list"

section \<open>Transitions\<close>

definition OnStateChanged :: "('st, 'it, 'p, 'x) fsm \<Rightarrow> ('st, 'it, 'p, 'x) fsm" where
  "OnStateChanged s = (if f_callback s then s\<lparr>f_changed := f_changed s @ [f_curState s]\<rparr> else s)"

fun ProcAction ::
  "('st, 'ac, 'it, 'p, 'x) fsm_class \<Rightarrow> nat \<Rightarrow> 'ac \<Rightarrow> ('st, 'it, 'p, 'x) fsm
   \<Rightarrow> (ErrorCode \<times> ('st, 'it, 'p, 'x) fsm) option"
  and TransitionTo ::
  "('st, 'ac, 'it, 'p, 'x) fsm_class \<Rightarrow> nat \<Rightarrow> 'st \<Rightarrow> ('st, 'it, 'p, 'x) fsm
   \<Rightarrow> (ErrorCode \<times> ('st, 'it, 'p, 'x) fsm) option" where
  "ProcAction K 0 a s = None"
| "ProcAction K (Suc n) a s =
     (case k_next K a of None \<Rightarrow> Some (SUCCESS, s) | Some st \<Rightarrow> TransitionTo K n st s)"
| "TransitionTo K n st s =
     (if st = f_curState s then Some (SUCCESS, s)
      else
        case k_enter K st (f_lastIntent s) (f_executor s) of
          (rtv, nextAction, x) \<Rightarrow>
            let s1 = s\<lparr>f_curState := st, f_executor := x\<rparr> in
            (case (if rtv = SUCCESS then ProcAction K n nextAction s1 else Some (rtv, s1)) of
               None \<Rightarrow> None
             | Some (rtv', s2) \<Rightarrow> Some (rtv', OnStateChanged s2)))"

definition PROC_FUEL :: nat where
  "PROC_FUEL = 2"

section \<open>Intents and jobs\<close>

definition OnIntentExecuted ::
  "('st, 'ac, 'it, 'p, 'x) fsm_class \<Rightarrow> 'it \<Rightarrow> 'ac \<Rightarrow> ErrorCode \<Rightarrow> ('st, 'it, 'p, 'x) fsm \<Rightarrow> ('st, 'it, 'p, 'x) fsm" where
  "OnIntentExecuted K i a r s =
     (case k_notifies K i a r of None \<Rightarrow> s
      | Some j \<Rightarrow> s\<lparr>f_intentSync := Sync_Notify j r (f_intentSync s)\<rparr>)"

text \<open>\<^verbatim>\<open>ProcessIntent\<close>: the returned action, the result code and the machine.\<close>

definition ProcessIntent ::
  "('st, 'ac, 'it, 'p, 'x) fsm_class \<Rightarrow> 'it \<Rightarrow> 'p \<Rightarrow> ('st, 'it, 'p, 'x) fsm
   \<Rightarrow> ('ac \<times> ErrorCode \<times> ('st, 'it, 'p, 'x) fsm) option" where
  "ProcessIntent K i p s0 =
     (let s = s0\<lparr>f_lastIntent := i\<rparr> in
      case k_execute K (f_curState s) i p (f_executor s) of
        (rtv, nextAction, x) \<Rightarrow>
          let s1 = s\<lparr>f_executor := x\<rparr> in
          do {
            (rtv', s2) \<leftarrow>
              (if nextAction \<noteq> k_butt K then
                 do { (r, s2) \<leftarrow> ProcAction K PROC_FUEL nextAction s1;
                      Some (if rtv = SUCCESS then r else rtv, s2) }
               else Some (rtv, s1));
            let s3 = OnIntentExecuted K i nextAction rtv' s2;
            Some (if rtv' = SUCCESS then nextAction else k_butt K, rtv', s3)
          })"

text \<open>\<^verbatim>\<open>DoTask\<close> after \<^verbatim>\<open>jobs_.Pop()\<close> has returned \<open>job\<close> (\<open>None\<close>: the queue is inactive).\<close>

definition run_job ::
  "('st, 'ac, 'it, 'p, 'x) fsm_class \<Rightarrow> ('it \<times> 'p) option \<Rightarrow> ('st, 'it, 'p, 'x) fsm
   \<Rightarrow> ('st, 'it, 'p, 'x) fsm option" where
  "run_job K job s =
     (case job of None \<Rightarrow> Some s
      | Some (i, p) \<Rightarrow>
        do {
          (action, _, s1) \<leftarrow> ProcessIntent K i p s;
          if action = k_pending K then Some (s1\<lparr>f_pendingJobs := f_pendingJobs s1 @ [(i, p)]\<rparr>)
          else if k_resumes K action then
            (case f_pendingJobs s1 of [] \<Rightarrow> Some s1
             | (j, pj) # rest \<Rightarrow>
               do {
                 (action2, _, s2) \<leftarrow> ProcessIntent K j pj (s1\<lparr>f_pendingJobs := rest\<rparr>);
                 if action2 = k_pending K then Some (s2\<lparr>f_pendingJobs := f_pendingJobs s2 @ [(j, pj)]\<rparr>)
                 else Some s2
               })
          else Some s1
        })"

definition DoTask ::
  "('st, 'ac, 'it, 'p, 'x) fsm_class \<Rightarrow> ('st, 'it, 'p, 'x) fsm \<Rightarrow> ('st, 'it, 'p, 'x) fsm option" where
  "DoTask K s =
     do { (job, w) \<leftarrow> BQ_Pop (\<lambda>w. w) (f_jobs s); run_job K job (s\<lparr>f_jobs := w\<rparr>) }"

definition SendEventAsync :: "'it \<Rightarrow> 'p \<Rightarrow> ('st, 'it, 'p, 'x) fsm \<Rightarrow> (ErrorCode \<times> ('st, 'it, 'p, 'x) fsm) option" where
  "SendEventAsync i p s =
     do { (ok, w) \<leftarrow> BQ_Push (\<lambda>w. w) (i, p) (f_jobs s);
          Some (if ok then SUCCESS else E_UNKNOWN, s\<lparr>f_jobs := w\<rparr>) }"

text \<open>\<^verbatim>\<open>SendEvent\<close>: register, enqueue, wait up to 30 s while the worker thread (\<open>others\<close>) runs.\<close>

definition SendEvent ::
  "(('st, 'it, 'p, 'x) fsm \<Rightarrow> ('st, 'it, 'p, 'x) fsm option) \<Rightarrow> 'it \<Rightarrow> 'p \<Rightarrow> ('st, 'it, 'p, 'x) fsm
   \<Rightarrow> (ErrorCode \<times> ('st, 'it, 'p, 'x) fsm) option" where
  "SendEvent others i p s =
     do {
       (r, s1) \<leftarrow> SendEventAsync i p (s\<lparr>f_intentSync := Sync_begin i (f_intentSync s)\<rparr>);
       if r \<noteq> SUCCESS then Some (E_TIMED_OUT, s1\<lparr>f_intentSync := Sync_abort i (f_intentSync s1)\<rparr>)
       else do {
         s2 \<leftarrow> others s1;
         (case Sync_end i (f_intentSync s2) of
            (Some res, y) \<Rightarrow> Some (res, s2\<lparr>f_intentSync := y\<rparr>)
          | (None, y) \<Rightarrow> Some (E_TIMED_OUT, s2\<lparr>f_intentSync := y\<rparr>))
       }
     }"

text \<open>\<^verbatim>\<open>Stop\<close>: once the job queue has drained, deactivate it; \<open>None\<close> while it still waits.\<close>

definition StateMachine_Stop :: "('st, 'it, 'p, 'x) fsm \<Rightarrow> ('st, 'it, 'p, 'x) fsm option" where
  "StateMachine_Stop s =
     (if w_que (f_jobs s) \<noteq> [] then None else Some (s\<lparr>f_jobs := BQ_SetActive False True (f_jobs s)\<rparr>))"

definition SetStateCallback :: "bool \<Rightarrow> ('st, 'it, 'p, 'x) fsm \<Rightarrow> ('st, 'it, 'p, 'x) fsm" where
  "SetStateCallback cb s = s\<lparr>f_callback := cb\<rparr>"

definition fsm_Notify :: "'it \<Rightarrow> ErrorCode \<Rightarrow> ('st, 'it, 'p, 'x) fsm \<Rightarrow> ('st, 'it, 'p, 'x) fsm" where
  "fsm_Notify i r s = s\<lparr>f_intentSync := Sync_Notify i r (f_intentSync s)\<rparr>"

definition StateMachine_init :: "'st \<Rightarrow> 'it \<Rightarrow> 'x \<Rightarrow> nat \<Rightarrow> ('st, 'it, 'p, 'x) fsm" where
  "StateMachine_init st i x cap =
     \<lparr>f_curState = st, f_lastIntent = i, f_executor = x, f_intentSync = Synchronizer,
      f_jobs = BlockingQueue cap, f_pendingJobs = [], f_callback = False, f_changed = []\<rparr>"

section \<open>The contract of the state classes\<close>

text \<open>The abstract meaning of an intent: its result code and the state it leads to.\<close>

definition intent_result ::
  "('st, 'ac, 'it, 'p, 'x) fsm_class \<Rightarrow> 'it \<Rightarrow> 'p \<Rightarrow> 'st \<Rightarrow> 'x \<Rightarrow> ErrorCode \<times> 'st" where
  "intent_result K i p st x =
     (case k_execute K st i p x of
        (rtv, a, x1) \<Rightarrow>
          (case k_next K a of None \<Rightarrow> (rtv, st)
           | Some st' \<Rightarrow>
             if st' = st then (rtv, st)
             else (if rtv = SUCCESS then fst (k_enter K st' i x1) else rtv, st')))"

text \<open>The machine is idle: nothing queued or pending, room for a job, nobody waiting.\<close>

definition fsm_idle :: "('st, 'it, 'p, 'x) fsm \<Rightarrow> bool" where
  "fsm_idle s = (w_que (f_jobs s) = [] \<and> w_isActive (f_jobs s) \<and> 0 < w_capacity (f_jobs s) \<and>
     f_pendingJobs s = [] \<and> f_intentSync s = Synchronizer)"

locale intent_machine =
  fixes K :: "('st, 'ac, 'it, 'p, 'x) fsm_class"
  assumes enter_quiet: "k_enter K st i x = (SUCCESS, a, x') \<Longrightarrow> k_next K a = None"
    and butt_stays: "k_next K (k_butt K) = None"
    and pending_stays: "k_next K (k_pending K) = None"
    and pending_butt: "k_pending K \<noteq> k_butt K"
    and resumes_moves: "\<not> k_resumes K (k_pending K)" "\<not> k_resumes K (k_butt K)"
begin

text \<open>What an action does, without recursion.\<close>

lemma ProcAction_eq:
  "ProcAction K (Suc (Suc n)) a s =
     Some (case k_next K a of None \<Rightarrow> (SUCCESS, s)
       | Some st \<Rightarrow>
         if st = f_curState s then (SUCCESS, s)
         else case k_enter K st (f_lastIntent s) (f_executor s) of
           (r, a', x) \<Rightarrow> (r, OnStateChanged (s\<lparr>f_curState := st, f_executor := x\<rparr>)))"
  by (auto simp: Let_def enter_quiet split: option.split prod.split)

lemma ProcAction_total: "\<exists>r s'. ProcAction K PROC_FUEL a s = Some (r, s')"
  using ProcAction_eq [of 0 a s] by (auto simp: PROC_FUEL_def numeral_2_eq_2 split: option.split prod.split)

text \<open>The state after an action and its report, and the parts it leaves alone.\<close>

lemma ProcAction_cur:
  assumes "ProcAction K PROC_FUEL a s = Some (r, s')"
  shows "f_curState s' = (case k_next K a of None \<Rightarrow> f_curState s | Some st \<Rightarrow> st)"
    and "f_changed s' = (if f_callback s \<and> f_curState s' \<noteq> f_curState s then f_changed s @ [f_curState s'] else f_changed s)"
    and "f_intentSync s' = f_intentSync s" "f_jobs s' = f_jobs s" "f_pendingJobs s' = f_pendingJobs s"
    and "f_callback s' = f_callback s"
  using assms unfolding PROC_FUEL_def numeral_2_eq_2 ProcAction_eq
  by (auto simp: OnStateChanged_def split: option.splits if_splits prod.splits)

lemma ProcAction_butt: "ProcAction K PROC_FUEL (k_butt K) s = Some (SUCCESS, s)"
  by (simp add: PROC_FUEL_def numeral_2_eq_2 butt_stays)

text \<open>\<^verbatim>\<open>ProcessIntent\<close> always returns; the action decides the new state.\<close>

lemma ProcessIntent_eq:
  assumes "k_execute K (f_curState s) i p (f_executor s) = (rtv, a, x)"
  obtains r s2 where
    "ProcAction K PROC_FUEL a (s\<lparr>f_lastIntent := i, f_executor := x\<rparr>) = Some (r, s2)"
    "ProcessIntent K i p s =
       (let rtv' = (if rtv = SUCCESS then r else rtv)
        in Some (if rtv' = SUCCESS then a else k_butt K, rtv', OnIntentExecuted K i a rtv' s2))"
proof -
  obtain r s2 where r: "ProcAction K PROC_FUEL a (s\<lparr>f_lastIntent := i, f_executor := x\<rparr>) = Some (r, s2)"
    using ProcAction_total by blast
  show ?thesis
  proof (rule that [OF r])
    show "ProcessIntent K i p s =
       (let rtv' = (if rtv = SUCCESS then r else rtv)
        in Some (if rtv' = SUCCESS then a else k_butt K, rtv', OnIntentExecuted K i a rtv' s2))"
      using assms r ProcAction_butt [of "s\<lparr>f_lastIntent := i, f_executor := x\<rparr>"]
      by (auto simp: ProcessIntent_def Let_def)
  qed
qed

lemma ProcessIntent_total: "\<exists>a r s'. ProcessIntent K i p s = Some (a, r, s')"
  by (cases "k_execute K (f_curState s) i p (f_executor s)") (metis ProcessIntent_eq)

lemma OnIntentExecuted_frame [simp]:
  "f_curState (OnIntentExecuted K i a r s) = f_curState s"
  "f_changed (OnIntentExecuted K i a r s) = f_changed s"
  "f_jobs (OnIntentExecuted K i a r s) = f_jobs s"
  "f_pendingJobs (OnIntentExecuted K i a r s) = f_pendingJobs s"
  "f_callback (OnIntentExecuted K i a r s) = f_callback s"
  "f_executor (OnIntentExecuted K i a r s) = f_executor s"
  by (simp_all add: OnIntentExecuted_def split: option.split)

lemma ProcessIntent_effect:
  assumes ex: "k_execute K (f_curState s) i p (f_executor s) = (rtv, a, x)"
    and pi: "ProcessIntent K i p s = Some (a', r, s')"
  shows "f_curState s' = (case k_next K a of None \<Rightarrow> f_curState s | Some st \<Rightarrow> st)"
    and "f_changed s' = (if f_callback s \<and> f_curState s' \<noteq> f_curState s then f_changed s @ [f_curState s'] else f_changed s)"
    and "f_jobs s' = f_jobs s" "f_pendingJobs s' = f_pendingJobs s" "f_callback s' = f_callback s"
    and "a' = (if r = SUCCESS then a else k_butt K)"
    and "f_intentSync s' = (case k_notifies K i a r of None \<Rightarrow> f_intentSync s
           | Some j \<Rightarrow> Sync_Notify j r (f_intentSync s))"
    and "rtv \<noteq> SUCCESS \<Longrightarrow> r = rtv"
proof -
  from ProcessIntent_eq [OF ex] obtain r1 s2 where
    r1: "ProcAction K PROC_FUEL a (s\<lparr>f_lastIntent := i, f_executor := x\<rparr>) = Some (r1, s2)"
    and eq: "ProcessIntent K i p s =
       (let rtv' = (if rtv = SUCCESS then r1 else rtv)
        in Some (if rtv' = SUCCESS then a else k_butt K, rtv', OnIntentExecuted K i a rtv' s2))"
    by blast
  have s': "s' = OnIntentExecuted K i a r s2" "r = (if rtv = SUCCESS then r1 else rtv)"
    "a' = (if r = SUCCESS then a else k_butt K)"
    using eq pi by (auto simp: Let_def)
  note c = ProcAction_cur [OF r1]
  show "f_curState s' = (case k_next K a of None \<Rightarrow> f_curState s | Some st \<Rightarrow> st)"
    "f_jobs s' = f_jobs s" "f_pendingJobs s' = f_pendingJobs s" "f_callback s' = f_callback s"
    using c s' by (simp_all split: option.split)
  show "f_changed s' = (if f_callback s \<and> f_curState s' \<noteq> f_curState s then f_changed s @ [f_curState s'] else f_changed s)"
    using c(2) s' by simp
  show "a' = (if r = SUCCESS then a else k_butt K)" "rtv \<noteq> SUCCESS \<Longrightarrow> r = rtv" using s' by simp_all
  show "f_intentSync s' = (case k_notifies K i a r of None \<Rightarrow> f_intentSync s
           | Some j \<Rightarrow> Sync_Notify j r (f_intentSync s))"
    using c(3) s' by (simp add: OnIntentExecuted_def split: option.split)
qed

lemma run_job_total: "\<exists>s'. run_job K job s = Some s'"
proof (cases job)
  case (Some ip)
  obtain i p where ip: "ip = (i, p)" by (cases ip)
  obtain a r s1 where 1: "ProcessIntent K i p s = Some (a, r, s1)"
    using ProcessIntent_total by blast
  show ?thesis
  proof (cases "f_pendingJobs s1")
    case (Cons jp rest)
    obtain j pj where jp: "jp = (j, pj)" by (cases jp)
    obtain a2 r2 s2 where "ProcessIntent K j pj (s1\<lparr>f_pendingJobs := rest\<rparr>) = Some (a2, r2, s2)"
      using ProcessIntent_total by blast
    with 1 Some ip jp Cons show ?thesis by (simp add: run_job_def)
  qed (use 1 Some ip in \<open>simp add: run_job_def\<close>)
qed (simp add: run_job_def)

lemma ProcessIntent_result:
  assumes "ProcessIntent K i p s = Some (a', r, s')"
  shows "(r, f_curState s') = intent_result K i p (f_curState s) (f_executor s)"
proof -
  obtain rtv a x where ex: "k_execute K (f_curState s) i p (f_executor s) = (rtv, a, x)"
    by (cases "k_execute K (f_curState s) i p (f_executor s)")
  from ProcessIntent_eq [OF ex] obtain r1 s2 where
    r1: "ProcAction K PROC_FUEL a (s\<lparr>f_lastIntent := i, f_executor := x\<rparr>) = Some (r1, s2)"
    and eq: "ProcessIntent K i p s =
       (let rtv' = (if rtv = SUCCESS then r1 else rtv)
        in Some (if rtv' = SUCCESS then a else k_butt K, rtv', OnIntentExecuted K i a rtv' s2))"
    by blast
  have "r = (if rtv = SUCCESS then r1 else rtv)" "f_curState s' = f_curState s2"
    using eq assms by (auto simp: Let_def)
  with r1 show ?thesis
    unfolding intent_result_def ex PROC_FUEL_def numeral_2_eq_2 ProcAction_eq
    by (auto simp: OnStateChanged_def split: option.splits if_splits prod.splits)
qed

text \<open>A blocking call on an idle machine, served by one round of the worker: it returns the result of
  executing the intent, unless the intent is kept pending or is not to be notified.\<close>

lemma SendEvent_result:
  assumes idle: "fsm_idle s" and ex: "k_execute K (f_curState s) i p (f_executor s) = (rtv, a, x)"
    and res: "intent_result K i p (f_curState s) (f_executor s) = (r, st)"
    and np: "a \<noteq> k_pending K" and nt: "k_notifies K i a r = Some i"
  shows "\<exists>s'. SendEvent (DoTask K) i p s = Some (r, s') \<and> f_curState s' = st \<and> fsm_idle s'"
proof -
  let ?y = "Sync_begin i (f_intentSync s)"
  let ?s1 = "s\<lparr>f_intentSync := ?y, f_jobs := (f_jobs s)\<lparr>w_que := [(i, p)]\<rparr>\<rparr>"
  let ?s2 = "s\<lparr>f_intentSync := ?y, f_jobs := (f_jobs s)\<lparr>w_que := []\<rparr>\<rparr>"
  have async: "SendEventAsync i p (s\<lparr>f_intentSync := ?y\<rparr>) = Some (SUCCESS, ?s1)"
    using idle by (simp add: SendEventAsync_def BQ_Push_def fsm_idle_def)
  obtain a' r' s3 where pi: "ProcessIntent K i p ?s2 = Some (a', r', s3)"
    using ProcessIntent_total by blast
  have ex2: "k_execute K (f_curState ?s2) i p (f_executor ?s2) = (rtv, a, x)" using ex by simp
  have r': "r' = r" "f_curState s3 = st"
    using ProcessIntent_result [OF pi] res by simp_all
  note e = ProcessIntent_effect [OF ex2 pi]
  have a': "a' \<noteq> k_pending K" using e(6) np pending_butt by auto
  have pend: "f_pendingJobs s3 = []" using e(4) idle by (simp add: fsm_idle_def)
  have "DoTask K ?s1 = run_job K (Some (i, p)) ?s2"
    using idle by (simp add: DoTask_def BQ_Pop_def fsm_idle_def)
  also have "\<dots> = Some s3"
    using pi a' pend by (simp add: run_job_def)
  finally have t: "DoTask K ?s1 = Some s3" .
  have y: "f_intentSync s3 = Sync_Notify i r ?y" using e(7) nt r' by simp
  have f: "f_intentSync s = Synchronizer" using idle by (simp add: fsm_idle_def)
  have h: "Sync_end i (f_intentSync s3) = (Some r, Synchronizer)"
    unfolding y using Sync_handover [of "f_intentSync s" i r] f by (simp add: Synchronizer_def fun_upd_idem)
  have "SendEvent (DoTask K) i p s = Some (r, s3\<lparr>f_intentSync := Synchronizer\<rparr>)"
    using async t h by (simp add: SendEvent_def)
  moreover have "fsm_idle (s3\<lparr>f_intentSync := Synchronizer\<rparr>)"
    using idle e(3) pend by (simp add: fsm_idle_def)
  ultimately show ?thesis using r' by auto
qed

end

end
