(* ===== verification/Player_State.thy ===== *)
theory Player_State
  imports Intent_Machine
begin

text \<open>
  The player's states: \<^verbatim>\<open>state.cpp\<close>, \<^verbatim>\<open>idle_state.h\<close> to \<^verbatim>\<open>eos_state.h\<close> under
  \<^verbatim>\<open>engine/scene/player/internal\<close>. A state class is a function of the intent; what it does not override
  falls through to the base class. The executor (\<^verbatim>\<open>PlayExecutor\<close>, an interface) is a parameter.
\<close>

section \<open>States, intents, actions\<close>

datatype StateId = S_IDLE | S_INIT | S_PREPARING | S_READY | S_PAUSE | S_PLAYING | S_STOPPED | S_EOS

datatype Intent =
    I_SET_SOURCE | I_SEEK | I_PREPARE | I_PLAY | I_PAUSE | I_RESUME | I_STOP | I_RESET
  | I_SET_ATTRIBUTE | I_NOTIFY_READY | I_NOTIFY_COMPLETE | I_NOTIFY_ERROR | I_INTENT_BUTT

datatype Action =
    TRANS_TO_IDLE | TRANS_TO_INIT | TRANS_TO_PREPARING | TRANS_TO_READY | TRANS_TO_PLAYING
  | TRANS_TO_PAUSE | TRANS_TO_STOPPED | TRANS_TO_EOS | ACTION_PENDING | ACTION_BUTT

datatype SeekMode = SEEK_NEXT_SYNC | SEEK_PREVIOUS_SYNC | SEEK_CLOSEST_SYNC | SEEK_CLOSEST

text \<open>The values of \<^verbatim>\<open>Plugin::Any\<close> the states look at; a media source is a possibly null pointer.\<close>

datatype Param = P_Source "nat option" | P_Seek int SeekMode | P_Error ErrorCode | P_Other

record 'x PlayExecutor =
  x_IsSingleLoop :: "'x \<Rightarrow> bool"
  x_PrepareFilters :: "'x \<Rightarrow> ErrorCode \<times> 'x"
  x_DoSetSource :: "nat \<Rightarrow> 'x \<Rightarrow> ErrorCode \<times> 'x"
  x_DoPlay :: "'x \<Rightarrow> ErrorCode \<times> 'x"
  x_DoPause :: "'x \<Rightarrow> ErrorCode \<times> 'x"
  x_DoResume :: "'x \<Rightarrow> ErrorCode \<times> 'x"
  x_DoStop :: "'x \<Rightarrow> ErrorCode \<times> 'x"
  x_DoReset :: "'x \<Rightarrow> ErrorCode \<times> 'x"
  x_DoSeek :: "int \<Rightarrow> SeekMode \<Rightarrow> bool \<Rightarrow> 'x \<Rightarrow> ErrorCode \<times> 'x"
  x_DoOnReady :: "'x \<Rightarrow> ErrorCode \<times> 'x"
  x_DoOnComplete :: "'x \<Rightarrow> ErrorCode \<times> 'x"
  x_DoOnError :: "ErrorCode \<Rightarrow> 'x \<Rightarrow> ErrorCode \<times> 'x"

type_synonym 'x outcome = "ErrorCode \<times> Action \<times> 'x"

section \<open>State classes\<close>

definition State_OnError :: "'x PlayExecutor \<Rightarrow> Param \<Rightarrow> 'x \<Rightarrow> 'x outcome" where
  "State_OnError E p x =
     (let errorCode = (case p of P_Error e \<Rightarrow> e | _ \<Rightarrow> E_UNKNOWN)
      in (SUCCESS, TRANS_TO_INIT, snd (x_DoOnError E errorCode x)))"

definition State_Execute :: "'x PlayExecutor \<Rightarrow> Intent \<Rightarrow> Param \<Rightarrow> 'x \<Rightarrow> 'x outcome" where
  "State_Execute E i p x =
     (case i of
        I_RESET \<Rightarrow> (SUCCESS, TRANS_TO_IDLE, x)
      | I_NOTIFY_ERROR \<Rightarrow> State_OnError E p x
      | I_INTENT_BUTT \<Rightarrow> (SUCCESS, ACTION_BUTT, x)
      | _ \<Rightarrow> (E_INVALID_OPERATION, ACTION_BUTT, x))"

definition set_source :: "'x PlayExecutor \<Rightarrow> Param \<Rightarrow> 'x \<Rightarrow> 'x outcome" where
  "set_source E p x =
     (case p of
        P_Source (Some source) \<Rightarrow>
          (case x_DoSetSource E source x of
             (ret, x') \<Rightarrow> (ret, if ret = SUCCESS then TRANS_TO_INIT else ACTION_BUTT, x'))
      | _ \<Rightarrow> (E_INVALID_PARAMETER_TYPE, ACTION_BUTT, x))"

definition seek_to :: "'x PlayExecutor \<Rightarrow> Param \<Rightarrow> 'x \<Rightarrow> 'x outcome" where
  "seek_to E p x =
     (case p of
        P_Seek hstTime mode \<Rightarrow>
          (case x_DoSeek E hstTime mode True x of (ret, x') \<Rightarrow> (ret, ACTION_BUTT, x'))
      | _ \<Rightarrow> (E_INVALID_PARAMETER_TYPE, ACTION_BUTT, x))"

definition IdleState_Execute :: "'x PlayExecutor \<Rightarrow> Intent \<Rightarrow> Param \<Rightarrow> 'x \<Rightarrow> 'x outcome" where
  "IdleState_Execute E i p x =
     (case i of I_SET_SOURCE \<Rightarrow> set_source E p x | _ \<Rightarrow> State_Execute E i p x)"

definition InitState_Execute :: "'x PlayExecutor \<Rightarrow> Intent \<Rightarrow> Param \<Rightarrow> 'x \<Rightarrow> 'x outcome" where
  "InitState_Execute E i p x =
     (case i of
        I_SET_SOURCE \<Rightarrow> set_source E p x
      | I_PREPARE \<Rightarrow> (SUCCESS, TRANS_TO_PREPARING, x)
      | I_STOP \<Rightarrow> (SUCCESS, TRANS_TO_STOPPED, x)
      | _ \<Rightarrow> State_Execute E i p x)"

definition PreparingState_Execute :: "'x PlayExecutor \<Rightarrow> Intent \<Rightarrow> Param \<Rightarrow> 'x \<Rightarrow> 'x outcome" where
  "PreparingState_Execute E i p x =
     (case i of
        I_PLAY \<Rightarrow> (SUCCESS, ACTION_PENDING, x)
      | I_STOP \<Rightarrow> (SUCCESS, TRANS_TO_STOPPED, x)
      | I_NOTIFY_READY \<Rightarrow> (SUCCESS, TRANS_TO_READY, x)
      | _ \<Rightarrow> State_Execute E i p x)"

definition ReadyState_Execute :: "'x PlayExecutor \<Rightarrow> Intent \<Rightarrow> Param \<Rightarrow> 'x \<Rightarrow> 'x outcome" where
  "ReadyState_Execute E i p x =
     (case i of
        I_SEEK \<Rightarrow> seek_to E p x
      | I_PLAY \<Rightarrow> (SUCCESS, TRANS_TO_PLAYING, x)
      | I_STOP \<Rightarrow> (SUCCESS, TRANS_TO_STOPPED, x)
      | _ \<Rightarrow> State_Execute E i p x)"

definition PlayingState_OnComplete :: "'x PlayExecutor \<Rightarrow> 'x \<Rightarrow> 'x outcome" where
  "PlayingState_OnComplete E x =
     (case x_DoOnComplete E x of
        (ret, x1) \<Rightarrow>
          if x_IsSingleLoop E x1
          then (case x_DoSeek E 0 SEEK_PREVIOUS_SYNC False x1 of (seekRes, x2) \<Rightarrow> (seekRes, ACTION_BUTT, x2))
          else (ret, TRANS_TO_EOS, x1))"

definition PlayingState_Execute :: "'x PlayExecutor \<Rightarrow> Intent \<Rightarrow> Param \<Rightarrow> 'x \<Rightarrow> 'x outcome" where
  "PlayingState_Execute E i p x =
     (case i of
        I_PLAY \<Rightarrow> (SUCCESS, ACTION_BUTT, x)
      | I_SEEK \<Rightarrow> seek_to E p x
      | I_PAUSE \<Rightarrow> (SUCCESS, TRANS_TO_PAUSE, x)
      | I_STOP \<Rightarrow> (SUCCESS, TRANS_TO_STOPPED, x)
      | I_NOTIFY_COMPLETE \<Rightarrow> PlayingState_OnComplete E x
      | _ \<Rightarrow> State_Execute E i p x)"

definition PauseState_Execute :: "'x PlayExecutor \<Rightarrow> Intent \<Rightarrow> Param \<Rightarrow> 'x \<Rightarrow> 'x outcome" where
  "PauseState_Execute E i p x =
     (case i of
        I_PLAY \<Rightarrow> (SUCCESS, TRANS_TO_PLAYING, x)
      | I_SEEK \<Rightarrow> seek_to E p x
      | I_PAUSE \<Rightarrow> (SUCCESS, ACTION_BUTT, x)
      | I_RESUME \<Rightarrow> (SUCCESS, TRANS_TO_PLAYING, x)
      | I_STOP \<Rightarrow> (SUCCESS, TRANS_TO_STOPPED, x)
      | _ \<Rightarrow> State_Execute E i p x)"

definition EosState_Execute :: "'x PlayExecutor \<Rightarrow> Intent \<Rightarrow> Param \<Rightarrow> 'x \<Rightarrow> 'x outcome" where
  "EosState_Execute E i p x =
     (case i of
        I_PLAY \<Rightarrow>
          (case x_DoSeek E 0 SEEK_PREVIOUS_SYNC False x of
             (ret, x') \<Rightarrow> if ret = SUCCESS then (SUCCESS, TRANS_TO_PLAYING, x') else (ret, ACTION_BUTT, x'))
      | I_SEEK \<Rightarrow> (E_INVALID_OPERATION, ACTION_BUTT, x)
      | I_STOP \<Rightarrow> (SUCCESS, TRANS_TO_STOPPED, x)
      | _ \<Rightarrow> State_Execute E i p x)"

definition player_Execute :: "'x PlayExecutor \<Rightarrow> StateId \<Rightarrow> Intent \<Rightarrow> Param \<Rightarrow> 'x \<Rightarrow> 'x outcome" where
  "player_Execute E st =
     (case st of
        S_IDLE \<Rightarrow> IdleState_Execute E
      | S_INIT \<Rightarrow> InitState_Execute E
      | S_PREPARING \<Rightarrow> PreparingState_Execute E
      | S_READY \<Rightarrow> ReadyState_Execute E
      | S_PLAYING \<Rightarrow> PlayingState_Execute E
      | S_PAUSE \<Rightarrow> PauseState_Execute E
      | S_STOPPED \<Rightarrow> State_Execute E
      | S_EOS \<Rightarrow> EosState_Execute E)"

definition with_action :: "Action \<Rightarrow> ErrorCode \<times> 'x \<Rightarrow> 'x outcome" where
  "with_action a rx = (fst rx, a, snd rx)"

definition player_Enter :: "'x PlayExecutor \<Rightarrow> StateId \<Rightarrow> Intent \<Rightarrow> 'x \<Rightarrow> 'x outcome" where
  "player_Enter E st i x =
     (case st of
        S_IDLE \<Rightarrow> with_action ACTION_BUTT (x_DoReset E x)
      | S_PREPARING \<Rightarrow>
          (case x_PrepareFilters E x of
             (rtv, x') \<Rightarrow> (rtv, if rtv \<noteq> SUCCESS then TRANS_TO_INIT else ACTION_BUTT, x'))
      | S_READY \<Rightarrow>
          (case x_DoOnReady E x of
             (rtv, x') \<Rightarrow> (rtv, if rtv = SUCCESS then ACTION_BUTT else TRANS_TO_INIT, x'))
      | S_PLAYING \<Rightarrow>
          with_action ACTION_BUTT (if i = I_RESUME then x_DoResume E x else x_DoPlay E x)
      | S_PAUSE \<Rightarrow> with_action ACTION_BUTT (x_DoPause E x)
      | S_STOPPED \<Rightarrow> with_action ACTION_BUTT (x_DoStop E x)
      | S_EOS \<Rightarrow> with_action ACTION_BUTT (x_DoPause E x)
      | S_INIT \<Rightarrow> (SUCCESS, ACTION_BUTT, x))"

section \<open>The player's machine\<close>

definition player_next :: "Action \<Rightarrow> StateId option" where
  "player_next a =
     (case a of
        TRANS_TO_IDLE \<Rightarrow> Some S_IDLE
      | TRANS_TO_INIT \<Rightarrow> Some S_INIT
      | TRANS_TO_PREPARING \<Rightarrow> Some S_PREPARING
      | TRANS_TO_READY \<Rightarrow> Some S_READY
      | TRANS_TO_PLAYING \<Rightarrow> Some S_PLAYING
      | TRANS_TO_PAUSE \<Rightarrow> Some S_PAUSE
      | TRANS_TO_STOPPED \<Rightarrow> Some S_STOPPED
      | TRANS_TO_EOS \<Rightarrow> Some S_EOS
      | _ \<Rightarrow> None)"

definition player_notifies :: "Intent \<Rightarrow> Action \<Rightarrow> ErrorCode \<Rightarrow> Intent option" where
  "player_notifies intent action result =
     (if action = ACTION_PENDING then None
      else if result = E_NO_NOTIFY then None
      else if intent = I_NOTIFY_READY \<and> action = TRANS_TO_PLAYING then Some I_PLAY
      else Some intent)"

definition player_class :: "'x PlayExecutor \<Rightarrow> (StateId, Action, Intent, Param, 'x) fsm_class" where
  "player_class E =
     \<lparr>k_execute = player_Execute E, k_enter = player_Enter E, k_next = player_next,
      k_notifies = player_notifies, k_resumes = (\<lambda>a. player_next a \<noteq> None),
      k_pending = ACTION_PENDING, k_butt = ACTION_BUTT\<rparr>"

lemmas player_class_simps [simp] = player_class_def

interpretation pl: intent_machine "player_class E" for E
proof unfold_locales
  fix st i x a and x' :: 'a
  assume "k_enter (player_class E) st i x = (SUCCESS, a, x')"
  then show "k_next (player_class E) a = None"
    by (auto simp: player_Enter_def with_action_def player_next_def split: StateId.splits prod.splits if_splits)
qed (simp_all add: player_next_def)

section \<open>Properties\<close>

text \<open>The states an intent may lead to.\<close>

definition player_targets :: "StateId \<Rightarrow> Intent \<Rightarrow> StateId list" where
  "player_targets st i =
     (case i of
        I_RESET \<Rightarrow> [S_IDLE]
      | I_NOTIFY_ERROR \<Rightarrow> [S_INIT]
      | I_SET_SOURCE \<Rightarrow> if st = S_IDLE then [S_IDLE, S_INIT] else [st]
      | I_PREPARE \<Rightarrow> if st = S_INIT then [S_PREPARING] else [st]
      | I_NOTIFY_READY \<Rightarrow> if st = S_PREPARING then [S_READY] else [st]
      | I_PLAY \<Rightarrow> if st \<in> {S_READY, S_PAUSE} then [S_PLAYING] else if st = S_EOS then [S_EOS, S_PLAYING] else [st]
      | I_RESUME \<Rightarrow> if st = S_PAUSE then [S_PLAYING] else [st]
      | I_PAUSE \<Rightarrow> if st = S_PLAYING then [S_PAUSE] else [st]
      | I_STOP \<Rightarrow> if st \<in> {S_IDLE, S_STOPPED} then [st] else [S_STOPPED]
      | I_NOTIFY_COMPLETE \<Rightarrow> if st = S_PLAYING then [S_PLAYING, S_EOS] else [st]
      | _ \<Rightarrow> [st])"

lemmas player_execute_defs = player_Execute_def IdleState_Execute_def InitState_Execute_def
  PreparingState_Execute_def ReadyState_Execute_def PlayingState_Execute_def PauseState_Execute_def
  EosState_Execute_def State_Execute_def State_OnError_def set_source_def seek_to_def
  PlayingState_OnComplete_def

lemma player_execute_next:
  assumes "player_Execute E st i p x = (r, a, x')"
  shows "(case player_next a of None \<Rightarrow> st | Some st' \<Rightarrow> st') \<in> set (player_targets st i)"
  using assms
  by (cases st; cases i)
    (auto simp: player_execute_defs player_targets_def player_next_def
      split: prod.splits if_splits Param.splits option.splits)

text \<open>C4: The player's state machine moves only along the edges of \<open>player_targets\<close>, whatever the executor
  does: every intent is processed to an end, in every state, also when the executor fails, the new state is
  one the table allows, and the state-change callback reports exactly the new state, once, and only when the
  state changed.\<close>

theorem player_refines_table:
  "\<exists>a r s'. ProcessIntent (player_class E) i p s = Some (a, r, s') \<and>
     f_curState s' \<in> set (player_targets (f_curState s) i) \<and>
     f_changed s' = f_changed s @ (if f_callback s \<and> f_curState s' \<noteq> f_curState s then [f_curState s'] else [])"
proof -
  obtain a r s' where pi: "ProcessIntent (player_class E) i p s = Some (a, r, s')"
    using pl.ProcessIntent_total by blast
  obtain rtv a0 x where ex: "k_execute (player_class E) (f_curState s) i p (f_executor s) = (rtv, a0, x)"
    by (cases "k_execute (player_class E) (f_curState s) i p (f_executor s)")
  have "f_curState s' \<in> set (player_targets (f_curState s) i)"
    using player_execute_next [of E "f_curState s" i p "f_executor s"] pl.ProcessIntent_effect(1) [OF ex pi] ex
    by auto
  moreover have "f_changed s' = f_changed s @ (if f_callback s \<and> f_curState s' \<noteq> f_curState s then [f_curState s'] else [])"
    using pl.ProcessIntent_effect(2) [OF ex pi] by simp
  ultimately show ?thesis using pi by blast
qed

text \<open>An executor whose operations all succeed and which records the calls made to it.\<close>

datatype exec_call = CallPrepare | CallSetSource nat | CallPlay | CallPause | CallResume | CallStop | CallReset
  | CallSeek int | CallOnReady | CallOnComplete | CallOnError ErrorCode

definition log_call :: "exec_call \<Rightarrow> exec_call list \<Rightarrow> ErrorCode \<times> exec_call list" where
  "log_call c x = (SUCCESS, x @ [c])"

definition logging_executor :: "exec_call list PlayExecutor" where
  "logging_executor =
     \<lparr>x_IsSingleLoop = (\<lambda>_. False), x_PrepareFilters = log_call CallPrepare,
      x_DoSetSource = (\<lambda>src. log_call (CallSetSource src)), x_DoPlay = log_call CallPlay,
      x_DoPause = log_call CallPause, x_DoResume = log_call CallResume, x_DoStop = log_call CallStop,
      x_DoReset = log_call CallReset, x_DoSeek = (\<lambda>t m b. log_call (CallSeek t)),
      x_DoOnReady = log_call CallOnReady, x_DoOnComplete = log_call CallOnComplete,
      x_DoOnError = (\<lambda>e. log_call (CallOnError e))\<rparr>"

lemmas player_eval = player_execute_defs player_Enter_def with_action_def player_next_def
  player_notifies_def logging_executor_def log_call_def

text \<open>A blocking request to an idle player, served by one round of its worker thread, returns exactly the
  result of executing the intent, which is the failure of the state's handler if it fails and otherwise the
  result of entering the new state; the player is then in the state the intent leads to and idle again. The
  exceptions are an intent that is kept pending and a result that asks not to be notified.\<close>

theorem player_SendEvent_returns_result:
  assumes "fsm_idle s" "player_Execute E (f_curState s) i p (f_executor s) = (rtv, a, x)"
    and "intent_result (player_class E) i p (f_curState s) (f_executor s) = (r, st)"
    and "a \<noteq> ACTION_PENDING" "r \<noteq> E_NO_NOTIFY" "i \<noteq> I_NOTIFY_READY"
  shows "\<exists>s'. SendEvent (DoTask (player_class E)) i p s = Some (r, s') \<and> f_curState s' = st \<and> fsm_idle s'"
  by (rule pl.SendEvent_result [where a = a and rtv = rtv and x = x])
    (use assms in \<open>simp_all add: player_notifies_def\<close>)

theorem player_SendEvent_returns_result_witness:
  "\<exists>s'. SendEvent (DoTask (player_class logging_executor)) I_PREPARE P_Other
       ((StateMachine_init S_IDLE I_INTENT_BUTT [] 50)\<lparr>f_curState := S_INIT\<rparr>) = Some (SUCCESS, s') \<and>
     f_curState s' = S_PREPARING \<and> fsm_idle s'"
  by (rule player_SendEvent_returns_result [where rtv = SUCCESS and a = TRANS_TO_PREPARING and x = "[]"])
    (simp_all add: StateMachine_init_def fsm_idle_def BlockingQueue_def player_eval intent_result_def)

text \<open>A play request that arrives while the player prepares is not lost: it is kept pending without an
  answer, and the worker round that processes the ready notification enters the ready state and then carries
  the pending request out, so that the player is playing, after \<^verbatim>\<open>DoOnReady\<close> and before anything else
  \<^verbatim>\<open>DoPlay\<close> was called, nothing is pending any more, and the waiting caller is given the result.\<close>

theorem player_pending_play:
  assumes "f_curState s = S_PREPARING" "f_pendingJobs s = []" "y_waitSet (f_intentSync s) I_PLAY"
    "y_syncMap (f_intentSync s) I_PLAY = None"
    and "x_DoOnReady E (f_executor s) = (SUCCESS, x1)" "x_DoPlay E x1 = (r, x2)" "r \<noteq> E_NO_NOTIFY"
  shows "\<exists>s1 s2. run_job (player_class E) (Some (I_PLAY, p)) s = Some s1 \<and>
      f_curState s1 = S_PREPARING \<and> f_pendingJobs s1 = [(I_PLAY, p)] \<and> f_intentSync s1 = f_intentSync s \<and>
      run_job (player_class E) (Some (I_NOTIFY_READY, p')) s1 = Some s2 \<and>
      f_curState s2 = S_PLAYING \<and> f_pendingJobs s2 = [] \<and> f_executor s2 = x2 \<and>
      y_syncMap (f_intentSync s2) I_PLAY = Some r"
  using assms
  by (simp add: run_job_def ProcessIntent_def PROC_FUEL_def numeral_2_eq_2 player_execute_defs player_Enter_def
      with_action_def player_next_def player_notifies_def OnIntentExecuted_def OnStateChanged_def Let_def
      Sync_Notify_def)

theorem player_pending_play_witness:
  "\<exists>s1 s2. run_job (player_class logging_executor) (Some (I_PLAY, P_Other))
        ((StateMachine_init S_PREPARING I_PREPARE [] 50)\<lparr>f_intentSync := Sync_begin I_PLAY Synchronizer\<rparr>) = Some s1 \<and>
      run_job (player_class logging_executor) (Some (I_NOTIFY_READY, P_Other)) s1 = Some s2 \<and>
      f_executor s2 = [CallOnReady, CallPlay]"
  using player_pending_play [of "(StateMachine_init S_PREPARING I_PREPARE [] 50)
      \<lparr>f_intentSync := Sync_begin I_PLAY Synchronizer\<rparr>" logging_executor "[CallOnReady]" SUCCESS
      "[CallOnReady, CallPlay]" P_Other P_Other]
  by (auto simp: StateMachine_init_def Sync_begin_def Synchronizer_def player_eval simp del: player_class_simps)

text \<open>When preparing the filters fails, the preparing state asks to go back to the initial state, but
  \<^verbatim>\<open>TransitionTo\<close> drops the action of a state whose entry failed: the player stays in the preparing state,
  in which a further prepare or a new source is refused.\<close>

theorem player_prepare_failure_sticks:
  assumes "f_curState s = S_INIT" "x_PrepareFilters E (f_executor s) = (r, x)" "r \<noteq> SUCCESS"
  shows "\<exists>s'. ProcessIntent (player_class E) I_PREPARE p s = Some (ACTION_BUTT, r, s') \<and>
    player_Enter E S_PREPARING I_PREPARE (f_executor s) = (r, TRANS_TO_INIT, x) \<and>
    f_curState s' = S_PREPARING \<and>
    player_Execute E S_PREPARING I_PREPARE p x = (E_INVALID_OPERATION, ACTION_BUTT, x) \<and>
    player_Execute E S_PREPARING I_SET_SOURCE p x = (E_INVALID_OPERATION, ACTION_BUTT, x)"
  using assms
  by (simp add: ProcessIntent_def PROC_FUEL_def numeral_2_eq_2 player_execute_defs player_Enter_def
      player_next_def OnIntentExecuted_def OnStateChanged_def Let_def player_notifies_def)

theorem player_prepare_failure_sticks_witness:
  "\<exists>s'. ProcessIntent (player_class (logging_executor\<lparr>x_PrepareFilters := (\<lambda>x. (E_TIMED_OUT, x))\<rparr>)) I_PREPARE P_Other
       (StateMachine_init S_INIT I_SET_SOURCE [] 50) = Some (ACTION_BUTT, E_TIMED_OUT, s') \<and>
     f_curState s' = S_PREPARING"
  using player_prepare_failure_sticks [of "StateMachine_init S_INIT I_SET_SOURCE [] 50"
      "logging_executor\<lparr>x_PrepareFilters := (\<lambda>x. (E_TIMED_OUT, x))\<rparr>" E_TIMED_OUT "[]" P_Other]
  by (auto simp: StateMachine_init_def simp del: player_class_simps)

end
