(* ===== verification/Recorder_State.thy ===== *)
theory Recorder_State
  imports Intent_Machine
begin

text \<open>
  The recorder's states under \<^verbatim>\<open>engine/scene/recorder/internal\<close>: \<^verbatim>\<open>state.cpp\<close>, \<^verbatim>\<open>state.h\<close> and the
  state headers. The executor (\<^verbatim>\<open>RecorderExecutor\<close>, an interface) is a parameter.
\<close>

section \<open>States, intents, actions\<close>

datatype RStateId = R_INIT | R_RECORDING_SETTING | R_READY | R_PAUSE | R_RECORDING | R_ERROR

datatype RIntent =
    RI_SET_OBS | RI_SET_VIDEO_SOURCE | RI_SET_AUDIO_SOURCE | RI_SET_OUTPUT_FORMAT | RI_CONFIGURE
  | RI_PREPARE | RI_START | RI_PAUSE | RI_RESUME | RI_STOP | RI_RESET | RI_NOTIFY_READY
  | RI_NOTIFY_COMPLETE | RI_NOTIFY_ERROR | RI_INTENT_BUTT

datatype RAction =
    RTRANS_TO_INIT | RTRANS_TO_RECORDING_SETTING | RTRANS_TO_READY | RTRANS_TO_RECORDING
  | RTRANS_TO_PAUSE | RTRANS_TO_ERROR | RACTION_PENDING | RACTION_BUTT

text \<open>\<open>'p\<close> is the parameter (\<^verbatim>\<open>Plugin::Any\<close>), which the states only hand on; \<open>'x\<close> the executor's state.\<close>

record ('p, 'x) RecorderExecutor =
  r_DoSetVideoSource :: "'p \<Rightarrow> 'x \<Rightarrow> ErrorCode \<times> 'x"
  r_DoSetAudioSource :: "'p \<Rightarrow> 'x \<Rightarrow> ErrorCode \<times> 'x"
  r_DoConfigure :: "'p \<Rightarrow> 'x \<Rightarrow> ErrorCode \<times> 'x"
  r_DoSetOutputFormat :: "'p \<Rightarrow> 'x \<Rightarrow> ErrorCode \<times> 'x"
  r_DoPrepare :: "'x \<Rightarrow> ErrorCode \<times> 'x"
  r_DoStart :: "'x \<Rightarrow> ErrorCode \<times> 'x"
  r_DoPause :: "'x \<Rightarrow> ErrorCode \<times> 'x"
  r_DoResume :: "'x \<Rightarrow> ErrorCode \<times> 'x"
  r_DoStop :: "'p \<Rightarrow> 'x \<Rightarrow> ErrorCode \<times> 'x"
  r_DoOnComplete :: "'x \<Rightarrow> ErrorCode \<times> 'x"
  r_DoReset :: "'x \<Rightarrow> ErrorCode \<times> 'x"

type_synonym 'x routcome = "ErrorCode \<times> RAction \<times> 'x"

section \<open>State classes\<close>

definition RState_Execute :: "('p, 'x) RecorderExecutor \<Rightarrow> RIntent \<Rightarrow> 'p \<Rightarrow> 'x \<Rightarrow> 'x routcome" where
  "RState_Execute E i p x =
     (case i of
        RI_RESET \<Rightarrow> (SUCCESS, RTRANS_TO_INIT, snd (r_DoReset E x))
      | RI_NOTIFY_ERROR \<Rightarrow> (SUCCESS, RTRANS_TO_ERROR, x)
      | RI_NOTIFY_COMPLETE \<Rightarrow> (SUCCESS, RACTION_BUTT, x)
      | RI_INTENT_BUTT \<Rightarrow> (SUCCESS, RACTION_BUTT, x)
      | _ \<Rightarrow> (E_INVALID_OPERATION, RACTION_BUTT, x))"

text \<open>Choose the action by whether it succeeded.\<close>

definition by_result :: "RAction \<Rightarrow> RAction \<Rightarrow> ErrorCode \<times> 'x \<Rightarrow> 'x routcome" where
  "by_result good bad rx = (fst rx, if fst rx = SUCCESS then good else bad, snd rx)"

definition RInitState_Execute :: "('p, 'x) RecorderExecutor \<Rightarrow> RIntent \<Rightarrow> 'p \<Rightarrow> 'x \<Rightarrow> 'x routcome" where
  "RInitState_Execute E i p x =
     (case i of
        RI_SET_VIDEO_SOURCE \<Rightarrow> by_result RTRANS_TO_RECORDING_SETTING RACTION_BUTT (r_DoSetVideoSource E p x)
      | RI_SET_AUDIO_SOURCE \<Rightarrow> by_result RTRANS_TO_RECORDING_SETTING RACTION_BUTT (r_DoSetAudioSource E p x)
      | RI_STOP \<Rightarrow> (E_INVALID_OPERATION, RTRANS_TO_ERROR, x)
      | RI_NOTIFY_COMPLETE \<Rightarrow> by_result RACTION_BUTT RACTION_BUTT (r_DoOnComplete E x)
      | _ \<Rightarrow> RState_Execute E i p x)"

definition RRecordingSettingState_Execute ::
  "('p, 'x) RecorderExecutor \<Rightarrow> RIntent \<Rightarrow> 'p \<Rightarrow> 'x \<Rightarrow> 'x routcome" where
  "RRecordingSettingState_Execute E i p x =
     (case i of
        RI_SET_VIDEO_SOURCE \<Rightarrow> by_result RTRANS_TO_RECORDING_SETTING RACTION_BUTT (r_DoSetVideoSource E p x)
      | RI_SET_AUDIO_SOURCE \<Rightarrow> by_result RTRANS_TO_RECORDING_SETTING RACTION_BUTT (r_DoSetAudioSource E p x)
      | RI_CONFIGURE \<Rightarrow> by_result RTRANS_TO_RECORDING_SETTING RACTION_BUTT (r_DoConfigure E p x)
      | RI_SET_OUTPUT_FORMAT \<Rightarrow> by_result RTRANS_TO_RECORDING_SETTING RACTION_BUTT (r_DoSetOutputFormat E p x)
      | RI_PREPARE \<Rightarrow> by_result RACTION_BUTT RTRANS_TO_ERROR (r_DoPrepare E x)
      | RI_START \<Rightarrow> (SUCCESS, RACTION_PENDING, x)
      | RI_STOP \<Rightarrow> by_result RTRANS_TO_INIT RTRANS_TO_ERROR (r_DoStop E p x)
      | RI_NOTIFY_READY \<Rightarrow> (SUCCESS, RTRANS_TO_READY, x)
      | _ \<Rightarrow> RState_Execute E i p x)"

definition RReadyState_Execute :: "('p, 'x) RecorderExecutor \<Rightarrow> RIntent \<Rightarrow> 'p \<Rightarrow> 'x \<Rightarrow> 'x routcome" where
  "RReadyState_Execute E i p x =
     (case i of
        RI_START \<Rightarrow> (SUCCESS, RTRANS_TO_RECORDING, x)
      | RI_STOP \<Rightarrow> (E_INVALID_OPERATION, RTRANS_TO_ERROR, x)
      | _ \<Rightarrow> RState_Execute E i p x)"

definition RRecordingState_Execute :: "('p, 'x) RecorderExecutor \<Rightarrow> RIntent \<Rightarrow> 'p \<Rightarrow> 'x \<Rightarrow> 'x routcome" where
  "RRecordingState_Execute E i p x =
     (case i of
        RI_START \<Rightarrow> (SUCCESS, RACTION_BUTT, x)
      | RI_RESUME \<Rightarrow> (SUCCESS, RACTION_BUTT, x)
      | RI_PAUSE \<Rightarrow> (SUCCESS, RTRANS_TO_PAUSE, x)
      | RI_STOP \<Rightarrow> by_result RACTION_BUTT RTRANS_TO_ERROR (r_DoStop E p x)
      | RI_NOTIFY_COMPLETE \<Rightarrow> by_result RTRANS_TO_INIT RACTION_BUTT (r_DoOnComplete E x)
      | _ \<Rightarrow> RState_Execute E i p x)"

definition RPauseState_Execute :: "('p, 'x) RecorderExecutor \<Rightarrow> RIntent \<Rightarrow> 'p \<Rightarrow> 'x \<Rightarrow> 'x routcome" where
  "RPauseState_Execute E i p x =
     (case i of
        RI_START \<Rightarrow> (SUCCESS, RTRANS_TO_RECORDING, x)
      | RI_PAUSE \<Rightarrow> (SUCCESS, RACTION_BUTT, x)
      | RI_RESUME \<Rightarrow> (SUCCESS, RTRANS_TO_RECORDING, x)
      | RI_STOP \<Rightarrow> by_result RTRANS_TO_INIT RTRANS_TO_ERROR (r_DoStop E p x)
      | _ \<Rightarrow> RState_Execute E i p x)"

definition recorder_Execute ::
  "('p, 'x) RecorderExecutor \<Rightarrow> RStateId \<Rightarrow> RIntent \<Rightarrow> 'p \<Rightarrow> 'x \<Rightarrow> 'x routcome" where
  "recorder_Execute E st =
     (case st of
        R_INIT \<Rightarrow> RInitState_Execute E
      | R_RECORDING_SETTING \<Rightarrow> RRecordingSettingState_Execute E
      | R_READY \<Rightarrow> RReadyState_Execute E
      | R_RECORDING \<Rightarrow> RRecordingState_Execute E
      | R_PAUSE \<Rightarrow> RPauseState_Execute E
      | R_ERROR \<Rightarrow> RState_Execute E)"

definition recorder_Enter :: "('p, 'x) RecorderExecutor \<Rightarrow> RStateId \<Rightarrow> RIntent \<Rightarrow> 'x \<Rightarrow> 'x routcome" where
  "recorder_Enter E st i x =
     (case st of
        R_RECORDING \<Rightarrow>
          (let rx = (if i = RI_RESUME then r_DoResume E x else r_DoStart E x) in (fst rx, RACTION_BUTT, snd rx))
      | R_PAUSE \<Rightarrow> (let rx = r_DoPause E x in (fst rx, RACTION_BUTT, snd rx))
      | _ \<Rightarrow> (SUCCESS, RACTION_BUTT, x))"

section \<open>The recorder's machine\<close>

definition recorder_next :: "RAction \<Rightarrow> RStateId option" where
  "recorder_next a =
     (case a of
        RTRANS_TO_INIT \<Rightarrow> Some R_INIT
      | RTRANS_TO_RECORDING_SETTING \<Rightarrow> Some R_RECORDING_SETTING
      | RTRANS_TO_READY \<Rightarrow> Some R_READY
      | RTRANS_TO_RECORDING \<Rightarrow> Some R_RECORDING
      | RTRANS_TO_PAUSE \<Rightarrow> Some R_PAUSE
      | RTRANS_TO_ERROR \<Rightarrow> Some R_ERROR
      | _ \<Rightarrow> None)"

definition recorder_notifies :: "RIntent \<Rightarrow> RAction \<Rightarrow> ErrorCode \<Rightarrow> RIntent option" where
  "recorder_notifies intent action result =
     (if action = RACTION_PENDING then None
      else if intent = RI_NOTIFY_READY \<and> action = RTRANS_TO_RECORDING then Some RI_START
      else Some intent)"

definition recorder_resumes :: "RAction \<Rightarrow> bool" where
  "recorder_resumes a =
     (a \<in> {RTRANS_TO_INIT, RTRANS_TO_RECORDING_SETTING, RTRANS_TO_READY, RTRANS_TO_RECORDING, RTRANS_TO_PAUSE})"

definition recorder_class :: "('p, 'x) RecorderExecutor \<Rightarrow> (RStateId, RAction, RIntent, 'p, 'x) fsm_class" where
  "recorder_class E =
     \<lparr>k_execute = recorder_Execute E, k_enter = recorder_Enter E, k_next = recorder_next,
      k_notifies = recorder_notifies, k_resumes = recorder_resumes,
      k_pending = RACTION_PENDING, k_butt = RACTION_BUTT\<rparr>"

lemmas recorder_class_simps [simp] = recorder_class_def

interpretation rc: intent_machine "recorder_class E" for E
proof unfold_locales
  fix st i x a and x' :: 'b
  assume "k_enter (recorder_class E) st i x = (SUCCESS, a, x')"
  then show "k_next (recorder_class E) a = None"
    by (auto simp: recorder_Enter_def recorder_next_def Let_def split: RStateId.splits)
qed (simp_all add: recorder_next_def recorder_resumes_def)

section \<open>Properties\<close>

definition recorder_targets :: "RStateId \<Rightarrow> RIntent \<Rightarrow> RStateId list" where
  "recorder_targets st i =
     (case i of
        RI_RESET \<Rightarrow> [R_INIT]
      | RI_NOTIFY_ERROR \<Rightarrow> [R_ERROR]
      | RI_SET_VIDEO_SOURCE \<Rightarrow> if st = R_INIT then [R_INIT, R_RECORDING_SETTING] else [st]
      | RI_SET_AUDIO_SOURCE \<Rightarrow> if st = R_INIT then [R_INIT, R_RECORDING_SETTING] else [st]
      | RI_PREPARE \<Rightarrow> if st = R_RECORDING_SETTING then [st, R_ERROR] else [st]
      | RI_NOTIFY_READY \<Rightarrow> if st = R_RECORDING_SETTING then [R_READY] else [st]
      | RI_START \<Rightarrow> if st \<in> {R_READY, R_PAUSE} then [R_RECORDING] else [st]
      | RI_RESUME \<Rightarrow> if st = R_PAUSE then [R_RECORDING] else [st]
      | RI_PAUSE \<Rightarrow> if st = R_RECORDING then [R_PAUSE] else [st]
      | RI_STOP \<Rightarrow>
          if st \<in> {R_INIT, R_READY} then [R_ERROR]
          else if st = R_RECORDING then [R_RECORDING, R_ERROR]
          else if st \<in> {R_RECORDING_SETTING, R_PAUSE} then [R_INIT, R_ERROR]
          else [st]
      | RI_NOTIFY_COMPLETE \<Rightarrow> if st = R_RECORDING then [R_RECORDING, R_INIT] else [st]
      | _ \<Rightarrow> [st])"

lemmas recorder_execute_defs = recorder_Execute_def RInitState_Execute_def RRecordingSettingState_Execute_def
  RReadyState_Execute_def RRecordingState_Execute_def RPauseState_Execute_def RState_Execute_def by_result_def

lemma recorder_execute_next:
  assumes "recorder_Execute E st i p x = (r, a, x')"
  shows "(case recorder_next a of None \<Rightarrow> st | Some st' \<Rightarrow> st') \<in> set (recorder_targets st i)"
  using assms
  by (cases st; cases i)
    (auto simp: recorder_execute_defs recorder_targets_def recorder_next_def split: if_splits)

lemma recorder_step_target:
  assumes "ProcessIntent (recorder_class E) i p s = Some (a, r, s')"
  shows "f_curState s' \<in> set (recorder_targets (f_curState s) i)"
proof -
  obtain rtv a0 x where ex: "k_execute (recorder_class E) (f_curState s) i p (f_executor s) = (rtv, a0, x)"
    by (cases "k_execute (recorder_class E) (f_curState s) i p (f_executor s)")
  then show ?thesis
    using recorder_execute_next [of E "f_curState s" i p "f_executor s"] rc.ProcessIntent_effect(1) [OF ex assms]
    by auto
qed

text \<open>A run of intents.\<close>

fun recorder_run ::
  "('p, 'x) RecorderExecutor \<Rightarrow> (RIntent \<times> 'p) list \<Rightarrow> (RStateId, RIntent, 'p, 'x) fsm \<Rightarrow> (RStateId, RIntent, 'p, 'x) fsm option" where
  "recorder_run E [] s = Some s"
| "recorder_run E ((i, p) # ips) s =
     (case ProcessIntent (recorder_class E) i p s of None \<Rightarrow> None | Some (a, r, s') \<Rightarrow> recorder_run E ips s')"

lemma recorder_run_error:
  "f_curState s = R_ERROR \<Longrightarrow> \<forall>(i, p) \<in> set ips. i \<noteq> RI_RESET \<Longrightarrow>
     \<exists>s'. recorder_run E ips s = Some s' \<and> f_curState s' = R_ERROR"
proof (induction ips arbitrary: s)
  case (Cons ip ips)
  obtain i p where ip: "ip = (i, p)" by (cases ip)
  obtain a r s1 where pi: "ProcessIntent (recorder_class E) i p s = Some (a, r, s1)"
    using rc.ProcessIntent_total [of E i p s] by blast
  have "i \<noteq> RI_RESET" using Cons.prems ip by auto
  then have "f_curState s1 = R_ERROR"
    using recorder_step_target [OF pi] Cons.prems(1) by (cases i) (auto simp: recorder_targets_def)
  with Cons.IH [of s1] Cons.prems pi ip show ?case by auto
qed simp

text \<open>C28: The recorder's state machine moves only along the edges of \<open>recorder_targets\<close>, whatever its executor
  does, and every intent is processed to an end.\<close>

theorem recorder_refines_table:
  "\<exists>a r s'. ProcessIntent (recorder_class E) i p s = Some (a, r, s') \<and>
     f_curState s' \<in> set (recorder_targets (f_curState s) i)"
  using rc.ProcessIntent_total recorder_step_target by metis

text \<open>C29: Once in the error state the recorder stays there through any sequence of intents other than a
  reset, whatever its executor does, and a reset then brings it back to the initial state.\<close>

theorem recorder_error_sticky:
  assumes "f_curState s = R_ERROR" "\<forall>(i, p) \<in> set ips. i \<noteq> RI_RESET"
  shows "\<exists>s' s''. recorder_run E ips s = Some s' \<and> f_curState s' = R_ERROR \<and>
    recorder_run E (ips @ [(RI_RESET, q)]) s = Some s'' \<and> f_curState s'' = R_INIT"
proof -
  have app: "recorder_run E (xs @ ys) s = Option.bind (recorder_run E xs s) (recorder_run E ys)" for xs ys s
    by (induction E xs s rule: recorder_run.induct) (auto split: option.split)
  obtain s' where s': "recorder_run E ips s = Some s'" "f_curState s' = R_ERROR"
    using recorder_run_error [OF assms] by blast
  obtain a r s'' where pi: "ProcessIntent (recorder_class E) RI_RESET q s' = Some (a, r, s'')"
    using rc.ProcessIntent_total [of E RI_RESET q s'] by blast
  have "f_curState s'' = R_INIT"
    using recorder_step_target [OF pi] by (simp add: recorder_targets_def)
  with s' pi app show ?thesis by simp
qed

definition ok_recorder :: "(unit, unit) RecorderExecutor" where
  "ok_recorder =
     \<lparr>r_DoSetVideoSource = (\<lambda>p x. (SUCCESS, x)), r_DoSetAudioSource = (\<lambda>p x. (SUCCESS, x)),
      r_DoConfigure = (\<lambda>p x. (SUCCESS, x)), r_DoSetOutputFormat = (\<lambda>p x. (SUCCESS, x)),
      r_DoPrepare = (\<lambda>x. (SUCCESS, x)), r_DoStart = (\<lambda>x. (SUCCESS, x)), r_DoPause = (\<lambda>x. (SUCCESS, x)),
      r_DoResume = (\<lambda>x. (SUCCESS, x)), r_DoStop = (\<lambda>p x. (SUCCESS, x)), r_DoOnComplete = (\<lambda>x. (SUCCESS, x)),
      r_DoReset = (\<lambda>x. (SUCCESS, x))\<rparr>"

theorem recorder_error_sticky_witness:
  "\<exists>s''. recorder_run ok_recorder ([(RI_START, ()), (RI_STOP, ())] @ [(RI_RESET, ())])
      (StateMachine_init R_ERROR RI_INTENT_BUTT () 50) = Some s'' \<and> f_curState s'' = R_INIT"
  using recorder_error_sticky [of "StateMachine_init R_ERROR RI_INTENT_BUTT () 50" "[(RI_START, ()), (RI_STOP, ())]"
      ok_recorder "()"]
  by (auto simp: StateMachine_init_def)

text \<open>A start request kept pending while the recorder is configured is left without an answer when
  preparing then fails: the transition to the error state is not among those that resume pending jobs, so
  the request stays pending in the error state and its caller waits for the full timeout.\<close>

theorem recorder_pending_start_lost:
  assumes "f_curState s = R_RECORDING_SETTING" "f_pendingJobs s = []"
    and "r_DoPrepare E (f_executor s) = (r, x)" "r \<noteq> SUCCESS"
  shows "\<exists>s1 s2. run_job (recorder_class E) (Some (RI_START, p)) s = Some s1 \<and>
      run_job (recorder_class E) (Some (RI_PREPARE, p')) s1 = Some s2 \<and>
      f_curState s2 = R_ERROR \<and> f_pendingJobs s2 = [(RI_START, p)] \<and>
      y_syncMap (f_intentSync s2) RI_START = y_syncMap (f_intentSync s) RI_START"
  using assms
  by (simp add: run_job_def ProcessIntent_def PROC_FUEL_def numeral_2_eq_2 recorder_execute_defs recorder_Enter_def
      recorder_next_def recorder_notifies_def recorder_resumes_def OnIntentExecuted_def OnStateChanged_def Let_def
      Sync_Notify_def)

theorem recorder_pending_start_lost_witness:
  "\<exists>s1 s2. run_job (recorder_class (ok_recorder\<lparr>r_DoPrepare := (\<lambda>x. (E_NO_MEMORY, x))\<rparr>)) (Some (RI_START, ()))
        (StateMachine_init R_RECORDING_SETTING RI_INTENT_BUTT () 50) = Some s1 \<and>
      run_job (recorder_class (ok_recorder\<lparr>r_DoPrepare := (\<lambda>x. (E_NO_MEMORY, x))\<rparr>)) (Some (RI_PREPARE, ())) s1 = Some s2 \<and>
      f_pendingJobs s2 = [(RI_START, ())]"
  using recorder_pending_start_lost [of "StateMachine_init R_RECORDING_SETTING RI_INTENT_BUTT () 50"
      "ok_recorder\<lparr>r_DoPrepare := (\<lambda>x. (E_NO_MEMORY, x))\<rparr>" E_NO_MEMORY "()" "()" "()"]
  by (auto simp: StateMachine_init_def simp del: recorder_class_simps)

end
