(* ===== verification/Data_Packer.thy ===== *)
theory Data_Packer
  imports AV_Buffer "HOL-Library.Monad_Syntax"
begin

text \<open>
  The demuxer's cache of media data, \<^verbatim>\<open>DataPacker\<close> of
  \<^verbatim>\<open>engine/pipeline/filters/demux/data_packer.cpp\<close>: a deque of buffers that together hold a range of the
  media file, read by offset or, in live play, as a stream. Offsets are 64-bit unsigned, the cached size is
  a 32-bit counter; the casts to 32-bit signed integers are written out. A buffer in the deque is its bytes with
  time stamps; the caller's buffer has a fixed memory that reads write into. Waits for data or for room give
  the mutex up to \<open>others\<close>, and \<open>None\<close> is a wait that does not end.
\<close>

section \<open>State\<close>

record pbuf =
  u_data :: "8 word list"
  u_pts :: int
  u_dts :: int

record outbuf =
  o_mem :: "8 word list"
  o_size :: nat
  o_pts :: int
  o_dts :: int

record Position =
  pos_index :: int
  pos_bufferOffset :: int
  pos_mediaOffset :: int

definition INVALID_POSITION :: Position where
  "INVALID_POSITION = \<lparr>pos_index = -1, pos_bufferOffset = 0, pos_mediaOffset = 0\<rparr>"

definition pos_less :: "Position \<Rightarrow> Position \<Rightarrow> bool" where
  "pos_less a b =
     (if pos_index a < 0 \<or> pos_index b < 0 then False
      else if pos_index a \<noteq> pos_index b then pos_index a < pos_index b
      else pos_bufferOffset a < pos_bufferOffset b)"

definition MAX_BUFFER_NUMBER_IN_DATA_PACKER :: nat where
  "MAX_BUFFER_NUMBER_IN_DATA_PACKER = 30"

record packer =
  k_que :: "pbuf list"
  k_size :: int
  k_mediaOffset :: int
  k_pts :: int
  k_dts :: int
  k_isEos :: bool
  k_prevGet :: Position
  k_currentGet :: Position
  k_capacity :: nat
  k_stopped :: bool

definition DataPacker :: packer where
  "DataPacker =
     \<lparr>k_que = [], k_size = 0, k_mediaOffset = 0, k_pts = 0, k_dts = 0, k_isEos = False,
      k_prevGet = INVALID_POSITION, k_currentGet = INVALID_POSITION,
      k_capacity = MAX_BUFFER_NUMBER_IN_DATA_PACKER, k_stopped = False\<rparr>"

definition u64 :: "int \<Rightarrow> int" where
  "u64 x = x mod 2 ^ 64"

definition u32 :: "int \<Rightarrow> int" where
  "u32 x = x mod 2 ^ 32"

definition blen :: "pbuf \<Rightarrow> int" where
  "blen b = int (length (u_data b))"

section \<open>Pushing\<close>

definition PushData :: "(packer \<Rightarrow> packer) \<Rightarrow> pbuf \<Rightarrow> int \<Rightarrow> packer \<Rightarrow> packer option" where
  "PushData others b offset d =
     (if \<not> blen b > 0 then Some d
      else
        let full = length (k_que d) \<ge> k_capacity d;
            d1 = (if full then others d else d)
        in if full \<and> k_stopped d1 then Some d1
           else if full \<and> length (k_que d1) \<ge> k_capacity d1 then None
           else
             let d2 = d1\<lparr>k_size := u32 (k_size d1 + blen b)\<rparr>;
                 d3 = (if k_que d2 = [] then d2\<lparr>k_mediaOffset := offset, k_dts := u_dts b, k_pts := u_pts b\<rparr> else d2)
             in Some (d3\<lparr>k_que := k_que d3 @ [b]\<rparr>))"

definition FlushInternal :: "packer \<Rightarrow> packer" where
  "FlushInternal d =
     d\<lparr>k_que := [], k_size := 0, k_mediaOffset := 0, k_dts := 0, k_pts := 0, k_isEos := False,
       k_prevGet := INVALID_POSITION, k_currentGet := INVALID_POSITION\<rparr>"

section \<open>Availability\<close>

text \<open>The loop over the buffers after the first: the end offset reached, and whether it was enough.\<close>

fun avail_loop :: "int \<Rightarrow> int \<Rightarrow> pbuf list \<Rightarrow> bool \<times> int" where
  "avail_loop offsetEnd preOffsetEnd [] = (False, preOffsetEnd)"
| "avail_loop offsetEnd preOffsetEnd (b # bs) =
     (let curOffsetEnd = u64 (preOffsetEnd + blen b)
      in if curOffsetEnd \<ge> offsetEnd then (True, preOffsetEnd) else avail_loop offsetEnd curOffsetEnd bs)"

definition IsDataAvailable :: "int \<Rightarrow> int \<Rightarrow> int \<Rightarrow> packer \<Rightarrow> bool \<times> int \<times> packer" where
  "IsDataAvailable offset sz curOffset d =
     (case k_que d of
        [] \<Rightarrow> (False, offset, FlushInternal d)
      | b # bs \<Rightarrow>
        if offset < k_mediaOffset d \<or> offset > u64 (k_mediaOffset d + k_size d)
        then (False, offset, FlushInternal d)
        else
          let offsetEnd = u64 (offset + sz);
              curOffsetEnd = u64 (k_mediaOffset d + blen b)
          in if bs = [] then (offsetEnd \<le> curOffsetEnd, curOffsetEnd, d)
             else case avail_loop offsetEnd curOffsetEnd bs of
               (found, preOffsetEnd) \<Rightarrow>
                 if found then (True, curOffset, d)
                 else if preOffsetEnd \<ge> offsetEnd then (True, curOffset, d)
                 else (False, preOffsetEnd, d))"

section \<open>Copying\<close>

text \<open>\<^verbatim>\<open>GetWritableAddr\<close> of the caller's memory: fails beyond its capacity, else sets its size.\<close>

definition GetWritableData :: "nat \<Rightarrow> outbuf \<Rightarrow> outbuf option" where
  "GetWritableData n out = (if n > length (o_mem out) then None else Some (out\<lparr>o_size := n\<rparr>))"

definition UpdateDataSize :: "nat \<Rightarrow> outbuf \<Rightarrow> outbuf" where
  "UpdateDataSize n out = (if n > length (o_mem out) then out else out\<lparr>o_size := n\<rparr>)"

definition write_at :: "nat \<Rightarrow> 8 word list \<Rightarrow> outbuf \<Rightarrow> outbuf" where
  "write_at pos bytes out = out\<lparr>o_mem := overwrite pos bytes (o_mem out)\<rparr>"

fun FindFirstBufferToCopy :: "int \<Rightarrow> nat \<Rightarrow> int \<Rightarrow> pbuf list \<Rightarrow> (nat \<times> int) option" where
  "FindFirstBufferToCopy offset startIndex prevOffset [] = None"
| "FindFirstBufferToCopy offset startIndex prevOffset (b # bs) =
     (if offset \<ge> prevOffset \<and> offset - prevOffset < blen b then Some (startIndex, prevOffset)
      else FindFirstBufferToCopy offset (startIndex + 1) (u64 (prevOffset + blen b)) bs)"

definition CopyFirstBuffer :: "nat \<Rightarrow> pbuf \<Rightarrow> nat \<Rightarrow> int \<Rightarrow> outbuf \<Rightarrow> nat \<times> outbuf" where
  "CopyFirstBuffer sz b dst bufferOffset out =
     (let remainSize = swrap 32 (blen b - bufferOffset) in
      if \<not> remainSize > 0 then (0, out)
      else
        let copySize = min (nat remainSize) sz;
            out1 = write_at dst (take copySize (drop (nat bufferOffset) (u_data b))) out
        in (copySize, out1\<lparr>o_pts := u_pts b, o_dts := u_dts b\<rparr>))"

text \<open>\<open>bs\<close> are the buffers after the first one copied from, \<open>dst\<close> the write position.\<close>

fun CopyFromSuccessiveBuffer :: "int \<Rightarrow> int \<Rightarrow> pbuf list \<Rightarrow> nat \<Rightarrow> nat \<Rightarrow> outbuf \<Rightarrow> nat \<times> outbuf" where
  "CopyFromSuccessiveBuffer prevOffset offsetEnd [] dst needCopySize out = (needCopySize, out)"
| "CopyFromSuccessiveBuffer prevOffset offsetEnd (b # bs) dst needCopySize out =
     (if u64 (prevOffset + blen b) \<ge> offsetEnd
      then (0, write_at dst (take needCopySize (u_data b)) out)
      else
        let copySize = length (u_data b)
        in CopyFromSuccessiveBuffer (u64 (prevOffset + int copySize)) offsetEnd bs (dst + copySize)
             (needCopySize - copySize) (write_at dst (u_data b) out))"

definition note_get :: "bool \<Rightarrow> nat \<Rightarrow> int \<Rightarrow> int \<Rightarrow> packer \<Rightarrow> packer" where
  "note_get isGet startIndex bufferOffset offset d =
     (if isGet then d\<lparr>k_currentGet := \<lparr>pos_index = int startIndex, pos_bufferOffset = bufferOffset,
                                      pos_mediaOffset = offset\<rparr>\<rparr> else d)"

definition PeekRangeInternal :: "int \<Rightarrow> nat \<Rightarrow> bool \<Rightarrow> outbuf \<Rightarrow> packer \<Rightarrow> bool \<times> outbuf \<times> packer" where
  "PeekRangeInternal offset sz isGet out d =
     (case GetWritableData sz out of None \<Rightarrow> (False, out, d)
      | Some out0 \<Rightarrow>
        let offsetEnd = u64 (offset + int sz);
            curOffsetEnd = u64 (k_mediaOffset d + blen (hd (k_que d)))
        in if offsetEnd \<le> curOffsetEnd then
             let bufferOffset = swrap 32 (u64 (offset - k_mediaOffset d)) in
             if \<not> bufferOffset \<ge> 0 then (False, out0, d)
             else (True, snd (CopyFirstBuffer sz (hd (k_que d)) 0 bufferOffset out0),
                   note_get isGet 0 bufferOffset offset d)
           else case FindFirstBufferToCopy offset 0 (k_mediaOffset d) (k_que d) of
             None \<Rightarrow> (False, out0, d)
           | Some (startIndex, prevOffset) \<Rightarrow>
               let bufferOffset = swrap 32 (u64 (offset - prevOffset)) in
               if \<not> bufferOffset \<ge> 0 then (False, out0, d)
               else case CopyFirstBuffer sz (k_que d ! startIndex) 0 bufferOffset out0 of
                 (copySize, out1) \<Rightarrow>
                   if sz - copySize = 0 then (True, out1, note_get isGet startIndex bufferOffset offset d)
                   else case CopyFromSuccessiveBuffer (u64 (prevOffset + blen (k_que d ! startIndex))) offsetEnd
                               (drop (startIndex + 1) (k_que d)) copySize (sz - copySize) out1 of
                     (needCopySize, out2) \<Rightarrow>
                       (True, UpdateDataSize (sz - needCopySize) out2,
                        note_get isGet startIndex bufferOffset offset d))"

definition PeekRange :: "(packer \<Rightarrow> packer) \<Rightarrow> int \<Rightarrow> nat \<Rightarrow> outbuf \<Rightarrow> packer \<Rightarrow> (bool \<times> outbuf \<times> packer) option" where
  "PeekRange others offset sz out d =
     (let d1 = (if k_que d = [] then others d else d)
      in if k_que d1 = [] then None else Some (PeekRangeInternal offset sz False out d1))"

section \<open>Removing\<close>

text \<open>\<^verbatim>\<open>UpdateWhenFrontDataRemoved\<close>: the media offset moves even when the size check fails.\<close>

definition UpdateWhenFrontDataRemoved :: "int \<Rightarrow> packer \<Rightarrow> bool \<times> packer" where
  "UpdateWhenFrontDataRemoved removeSize d =
     (let d1 = d\<lparr>k_mediaOffset := u64 (k_mediaOffset d + removeSize)\<rparr>
      in if \<not> k_size d1 \<ge> removeSize then (False, d1) else (True, d1\<lparr>k_size := k_size d1 - removeSize\<rparr>))"

definition RemoveBufferContent :: "int \<Rightarrow> packer \<Rightarrow> packer" where
  "RemoveBufferContent removeSize d =
     (case k_que d of [] \<Rightarrow> d
      | b # bs \<Rightarrow>
        if removeSize = 0 then d
        else if \<not> removeSize < blen b then d
        else snd (UpdateWhenFrontDataRemoved removeSize
                    (d\<lparr>k_que := b\<lparr>u_data := drop (nat removeSize) (u_data b)\<rparr> # bs\<rparr>)))"

text \<open>The loop of \<^verbatim>\<open>RemoveTo\<close> over whole buffers: \<open>False\<close> when a size check failed.\<close>

fun remove_whole :: "nat \<Rightarrow> packer \<Rightarrow> bool \<times> packer" where
  "remove_whole 0 d = (True, d)"
| "remove_whole (Suc n) d =
     (case k_que d of [] \<Rightarrow> (True, d)
      | b # bs \<Rightarrow>
        (case UpdateWhenFrontDataRemoved (blen b) d of
           (ok, d1) \<Rightarrow> if \<not> ok then (False, d1) else remove_whole n (d1\<lparr>k_que := bs\<rparr>)))"

definition RemoveTo :: "Position \<Rightarrow> packer \<Rightarrow> bool \<times> packer" where
  "RemoveTo position d =
     (case remove_whole (nat (pos_index position)) d of
        (ok, d1) \<Rightarrow>
          if \<not> ok then (False, d1)
          else case k_que d1 of
            [] \<Rightarrow> (True, d1)
          | b # bs \<Rightarrow>
              if pos_bufferOffset position \<ge> blen b then
                (case UpdateWhenFrontDataRemoved (blen b) d1 of
                   (ok2, d2) \<Rightarrow> if \<not> ok2 then (False, d2) else (True, d2\<lparr>k_que := bs\<rparr>))
              else (True, RemoveBufferContent (pos_bufferOffset position) d1))"

definition RemoveOldData :: "Position \<Rightarrow> packer \<Rightarrow> packer" where
  "RemoveOldData position d =
     (let d1 = snd (RemoveTo position d) in
      case k_que d1 of
        [] \<Rightarrow> d1\<lparr>k_mediaOffset := 0, k_size := 0, k_pts := 0, k_dts := 0\<rparr>
      | b # bs \<Rightarrow> d1\<lparr>k_pts := u_pts b, k_dts := u_dts b\<rparr>)"

section \<open>Getting\<close>

definition GetRange :: "(packer \<Rightarrow> packer) \<Rightarrow> int \<Rightarrow> nat \<Rightarrow> outbuf \<Rightarrow> packer \<Rightarrow> (bool \<times> outbuf \<times> packer) option" where
  "GetRange others offset sz out d =
     (if \<not> length (o_mem out) \<ge> sz then Some (False, out, d)
      else
        let d1 = (if k_que d = [] then others d else d) in
        if k_que d1 = [] then None
        else
          let d2 = d1\<lparr>k_prevGet := k_currentGet d1\<rparr> in
          case PeekRangeInternal offset sz True out d2 of
            (ok, out1, d3) \<Rightarrow>
              if \<not> ok then Some (False, out1, d3)
              else if k_isEos d3 \<and> k_size d3 \<le> int sz then Some (True, out1, FlushInternal d3)
              else if pos_less (k_prevGet d3) (k_currentGet d3)
              then Some (True, out1, RemoveOldData (k_currentGet d3) d3)
              else Some (True, out1, d3))"

text \<open>The copy loop of live play: how much is still needed, the buffer the loop stopped at, the offset in it.\<close>

fun live_loop :: "pbuf list \<Rightarrow> nat \<Rightarrow> nat \<Rightarrow> int \<Rightarrow> outbuf \<Rightarrow> int \<times> nat \<times> int \<times> outbuf" where
  "live_loop [] index dst needCopySize out = (needCopySize, index, 0, out)"
| "live_loop (b # bs) index dst needCopySize out =
     (case CopyFirstBuffer (nat (u64 (min (swrap 32 (blen b)) needCopySize))) b dst 0 out of
        (copied, out1) \<Rightarrow>
          let currCopySize = swrap 32 (int copied);
              needCopySize1 = swrap 32 (needCopySize - currCopySize)
          in if needCopySize1 \<le> 0 then (needCopySize1, index, u32 currCopySize, out1)
             else live_loop bs (index + 1) (dst + nat currCopySize) needCopySize1 out1)"

definition GetRange_live :: "(packer \<Rightarrow> packer) \<Rightarrow> nat \<Rightarrow> outbuf \<Rightarrow> packer \<Rightarrow> (bool \<times> outbuf \<times> packer) option" where
  "GetRange_live others sz out d =
     (if \<not> length (o_mem out) \<ge> sz then Some (False, out, d)
      else if k_que d = [] \<and> k_isEos d then Some (False, out, d)
      else
        let d1 = (if k_que d = [] then others d else d) in
        if k_que d = [] \<and> k_isEos d1 then Some (False, out, d1)
        else if k_que d1 = [] then None
        else case GetWritableData sz out of None \<Rightarrow> Some (False, out, d1)
          | Some out0 \<Rightarrow>
            (case live_loop (k_que d1) 0 0 (swrap 32 (int sz)) out0 of
               (need, index, lastBufferOffsetEnd, out1) \<Rightarrow>
                 let needCopySize = (if need < 0 then 0 else nat need)
                 in Some (True, UpdateDataSize (sz - needCopySize) out1,
                       RemoveOldData \<lparr>pos_index = int index, pos_bufferOffset = lastBufferOffsetEnd,
                         pos_mediaOffset = u64 (k_mediaOffset d1 + int sz - int needCopySize)\<rparr> d1)))"

section \<open>Control\<close>

definition Flush_packer :: "packer \<Rightarrow> packer" where
  "Flush_packer d = FlushInternal d"

definition SetEos :: "packer \<Rightarrow> packer" where
  "SetEos d = d\<lparr>k_isEos := True\<rparr>"

definition IsEmpty :: "packer \<Rightarrow> bool" where
  "IsEmpty d = (k_size d > 0)"

definition Start_packer :: "packer \<Rightarrow> packer" where
  "Start_packer d = d\<lparr>k_stopped := False\<rparr>"

definition Stop_packer :: "packer \<Rightarrow> packer" where
  "Stop_packer d = d\<lparr>k_stopped := True\<rparr>"

end
