(* ===== verification/Data_Packer_Props.thy ===== *)
theory Data_Packer_Props
  imports Data_Packer
begin

text \<open>
  The data packer against its specification: it caches a contiguous range of the media file. Reading a
  range returns exactly the bytes of the file at that offset, and what is removed is a prefix.
\<close>

section \<open>The cached range\<close>

definition content :: "packer \<Rightarrow> 8 word list" where
  "content d = concat (map u_data (k_que d))"

definition packer_wf :: "packer \<Rightarrow> bool" where
  "packer_wf d =
     (k_size d = int (length (content d)) \<and> length (content d) < 2 ^ 31 \<and>
      (\<forall>b \<in> set (k_que d). u_data b \<noteq> []) \<and> 0 \<le> k_mediaOffset d \<and>
      k_mediaOffset d + k_size d < 2 ^ 64)"

lemma u64_id [simp]: "0 \<le> x \<Longrightarrow> x < 2 ^ 64 \<Longrightarrow> u64 x = x"
  by (simp add: u64_def)

lemma u32_id: "0 \<le> x \<Longrightarrow> x < 2 ^ 32 \<Longrightarrow> u32 x = x"
  by (simp add: u32_def)

lemma swrap32_id: "0 \<le> x \<Longrightarrow> x < 2 ^ 31 \<Longrightarrow> swrap 32 x = x"
  by (rule swrap_id) simp_all

section \<open>Writing into the caller's memory\<close>

lemma write_at_simps [simp]:
  "o_size (write_at p bs out) = o_size out" "o_pts (write_at p bs out) = o_pts out"
  "o_mem (write_at p bs out) = overwrite p bs (o_mem out)"
  by (simp_all add: write_at_def)

lemma CopyFirst_eq:
  assumes "0 \<le> bo" "bo < blen b" "blen b < 2 ^ 31"
  shows "CopyFirstBuffer sz b dst bo out =
    (min (nat (blen b - bo)) sz,
     (write_at dst (take sz (drop (nat bo) (u_data b))) out)\<lparr>o_pts := u_pts b, o_dts := u_dts b\<rparr>)"
proof -
  have "swrap 32 (blen b - bo) = blen b - bo"
    by (rule swrap32_id) (use assms in auto)
  moreover have "take (min (nat (blen b - bo)) sz) (drop (nat bo) (u_data b)) = take sz (drop (nat bo) (u_data b))"
    using assms by (cases "nat (blen b - bo) \<le> sz") (simp_all add: blen_def nat_diff_distrib' min_def)
  ultimately show ?thesis
    using assms by (simp add: CopyFirstBuffer_def Let_def)
qed

lemma CopyFromSuccessive_eq:
  assumes "need \<le> length (o_mem out) - dst" "dst \<le> length (o_mem out)"
    and "offsetEnd = prev + int need" "0 \<le> prev" "prev + int (length (concat (map u_data bs))) < 2 ^ 64" "0 < need"
  shows "CopyFromSuccessiveBuffer prev offsetEnd bs dst need out =
    (need - length (concat (map u_data bs)), write_at dst (take need (concat (map u_data bs))) out)"
  using assms
proof (induction bs arbitrary: prev dst need out)
  case Nil
  then show ?case by (simp add: write_at_def overwrite_def)
next
  case (Cons b bs)
  let ?n = "length (u_data b)"
  have u: "u64 (prev + blen b) = prev + blen b"
    by (rule u64_id) (use Cons.prems in \<open>auto simp: blen_def\<close>)
  show ?case
  proof (cases "prev + blen b \<ge> offsetEnd")
    case True
    then have "need \<le> ?n" using Cons.prems(3) by (simp add: blen_def)
    with True show ?thesis by (simp add: u)
  next
    case False
    then have lt: "?n < need" using Cons.prems(3) by (simp add: blen_def)
    have "CopyFromSuccessiveBuffer (prev + int ?n) offsetEnd bs (dst + ?n) (need - ?n) (write_at dst (u_data b) out) =
      (need - ?n - length (concat (map u_data bs)),
       write_at (dst + ?n) (take (need - ?n) (concat (map u_data bs))) (write_at dst (u_data b) out))"
      by (rule Cons.IH) (use Cons.prems lt in \<open>auto simp: of_nat_diff\<close>)
    moreover have "write_at (dst + ?n) (take (need - ?n) (concat (map u_data bs))) (write_at dst (u_data b) out) =
      write_at dst (take need (u_data b @ concat (map u_data bs))) out"
      using Cons.prems(1,2) lt by (simp add: write_at_def overwrite_append)
    ultimately show ?thesis
      using False u by (simp add: blen_def Let_def)
  qed
qed

section \<open>Finding the first buffer\<close>

lemma FindFirst_eq:
  assumes "prev \<le> offset" "offset < prev + int (length (concat (map u_data bs)))" "0 \<le> prev"
    "prev + int (length (concat (map u_data bs))) < 2 ^ 64"
  shows "\<exists>j < length bs. FindFirstBufferToCopy offset i prev bs =
      Some (i + j, prev + int (length (concat (map u_data (take j bs))))) \<and>
    prev + int (length (concat (map u_data (take j bs)))) \<le> offset \<and>
    offset < prev + int (length (concat (map u_data (take j bs)))) + blen (bs ! j)"
  using assms
proof (induction bs arbitrary: i prev)
  case (Cons b bs)
  show ?case
  proof (cases "offset - prev < blen b")
    case True
    with Cons.prems show ?thesis by (intro exI [of _ 0]) auto
  next
    case False
    have u: "u64 (prev + blen b) = prev + blen b"
      by (rule u64_id) (use Cons.prems in \<open>auto simp: blen_def\<close>)
    have "\<exists>j < length bs. FindFirstBufferToCopy offset (i + 1) (prev + blen b) bs =
        Some (i + 1 + j, prev + blen b + int (length (concat (map u_data (take j bs))))) \<and>
      prev + blen b + int (length (concat (map u_data (take j bs)))) \<le> offset \<and>
      offset < prev + blen b + int (length (concat (map u_data (take j bs)))) + blen (bs ! j)"
      by (rule Cons.IH) (use Cons.prems False in \<open>auto simp: blen_def\<close>)
    then obtain j where j: "j < length bs" "FindFirstBufferToCopy offset (i + 1) (prev + blen b) bs =
        Some (i + 1 + j, prev + blen b + int (length (concat (map u_data (take j bs)))))"
      "prev + blen b + int (length (concat (map u_data (take j bs)))) \<le> offset"
      "offset < prev + blen b + int (length (concat (map u_data (take j bs)))) + blen (bs ! j)" by blast
    then show ?thesis
      using False u by (intro exI [of _ "Suc j"]) (auto simp: blen_def add.assoc)
  qed
qed simp

lemma content_split:
  "j < length (k_que d) \<Longrightarrow> content d = concat (map u_data (take j (k_que d))) @ u_data (k_que d ! j) @
     concat (map u_data (drop (Suc j) (k_que d)))"
  unfolding content_def by (subst id_take_nth_drop [of j "k_que d"]) auto

section \<open>Reading a range\<close>

text \<open>What the caller's buffer holds: its bytes up to its size.\<close>

definition out_data :: "outbuf \<Rightarrow> 8 word list" where
  "out_data out = take (o_size out) (o_mem out)"

definition file_slice :: "int \<Rightarrow> nat \<Rightarrow> packer \<Rightarrow> 8 word list" where
  "file_slice offset sz d = take sz (drop (nat (offset - k_mediaOffset d)) (content d))"

text \<open>The byte of the file at \<open>offset\<close> is byte \<open>bo\<close> of buffer \<open>j\<close>.\<close>

definition located :: "packer \<Rightarrow> int \<Rightarrow> nat \<Rightarrow> int \<Rightarrow> bool" where
  "located d offset j bo =
     (j < length (k_que d) \<and> 0 \<le> bo \<and> bo < blen (k_que d ! j) \<and>
      offset = k_mediaOffset d + int (length (concat (map u_data (take j (k_que d))))) + bo)"

lemma blen_nth_le: "j < length (k_que d) \<Longrightarrow> blen (k_que d ! j) \<le> int (length (content d))"
  by (simp add: content_split [of j d] blen_def)

lemma packer_wf_blen: "packer_wf d \<Longrightarrow> j < length (k_que d) \<Longrightarrow> blen (k_que d ! j) < 2 ^ 31"
  using blen_nth_le [of j d] by (auto simp: packer_wf_def)

lemma located_slice:
  assumes "located d offset j bo"
  shows "file_slice offset sz d =
    take sz (drop (nat bo) (u_data (k_que d ! j)) @ concat (map u_data (drop (Suc j) (k_que d))))"
proof -
  have "nat bo - length (u_data (k_que d ! j)) = 0" using assms by (auto simp: located_def blen_def)
  then show ?thesis
    using assms content_split [of j d] by (simp add: located_def file_slice_def nat_add_distrib)
qed

lemma located_content:
  assumes "located d offset j bo"
  shows "int (length (content d)) = offset - k_mediaOffset d - bo + blen (k_que d ! j) +
    int (length (concat (map u_data (drop (Suc j) (k_que d)))))"
  using assms content_split [of j d] by (simp add: located_def blen_def)

lemma located_exists:
  assumes "packer_wf d" "k_mediaOffset d \<le> offset" "offset < k_mediaOffset d + k_size d"
  shows "\<exists>j bo. located d offset j bo \<and> FindFirstBufferToCopy offset 0 (k_mediaOffset d) (k_que d) =
      Some (j, offset - bo)"
proof -
  have "\<exists>j < length (k_que d). FindFirstBufferToCopy offset 0 (k_mediaOffset d) (k_que d) =
      Some (0 + j, k_mediaOffset d + int (length (concat (map u_data (take j (k_que d)))))) \<and>
    k_mediaOffset d + int (length (concat (map u_data (take j (k_que d))))) \<le> offset \<and>
    offset < k_mediaOffset d + int (length (concat (map u_data (take j (k_que d))))) + blen (k_que d ! j)"
    by (rule FindFirst_eq) (use assms in \<open>auto simp: packer_wf_def content_def\<close>)
  then obtain j where j: "j < length (k_que d)" "FindFirstBufferToCopy offset 0 (k_mediaOffset d) (k_que d) =
      Some (j, k_mediaOffset d + int (length (concat (map u_data (take j (k_que d))))))"
    "k_mediaOffset d + int (length (concat (map u_data (take j (k_que d))))) \<le> offset"
    "offset < k_mediaOffset d + int (length (concat (map u_data (take j (k_que d))))) + blen (k_que d ! j)"
    by auto
  then show ?thesis
    by (intro exI [of _ j] exI [of _ "offset - (k_mediaOffset d + int (length (concat (map u_data (take j (k_que d))))))"])
      (simp add: located_def)
qed

lemma located_0:
  assumes "k_que d \<noteq> []" "k_mediaOffset d \<le> offset" "offset < k_mediaOffset d + blen (hd (k_que d))"
  shows "located d offset 0 (offset - k_mediaOffset d)"
  using assms by (auto simp: located_def hd_conv_nth)

lemma peek_first_enough:
  assumes wf: "packer_wf d" and loc: "located d offset j bo" and fits: "sz \<le> length (o_mem out)"
    and enough: "int sz \<le> blen (k_que d ! j) - bo"
  shows "CopyFirstBuffer sz (k_que d ! j) 0 bo (out\<lparr>o_size := sz\<rparr>) = (copied, out') \<Longrightarrow>
    copied = sz \<and> out_data out' = file_slice offset sz d"
proof -
  have "bo < blen (k_que d ! j)" "0 \<le> bo" "blen (k_que d ! j) < 2 ^ 31"
    using loc packer_wf_blen [OF wf] by (auto simp: located_def)
  note c = CopyFirst_eq [OF this(2,1,3)]
  have s: "take sz (drop (nat bo) (u_data (k_que d ! j))) = file_slice offset sz d"
    using enough \<open>0 \<le> bo\<close> by (simp add: located_slice [OF loc] blen_def)
  moreover have "length (take sz (drop (nat bo) (u_data (k_que d ! j)))) = sz"
    using enough \<open>0 \<le> bo\<close> by (simp add: blen_def)
  ultimately have l: "length (file_slice offset sz d) = sz" by metis
  show "CopyFirstBuffer sz (k_que d ! j) 0 bo (out\<lparr>o_size := sz\<rparr>) = (copied, out') \<Longrightarrow>
      copied = sz \<and> out_data out' = file_slice offset sz d"
    using c [of sz 0 "out\<lparr>o_size := sz\<rparr>", unfolded s] enough fits l take_overwrite [of "file_slice offset sz d" "o_mem out"]
    by (auto simp: out_data_def)
qed

lemma peek_first_short:
  assumes wf: "packer_wf d" and loc: "located d offset j bo" and fits: "sz \<le> length (o_mem out)" "sz < 2 ^ 32"
    and short: "blen (k_que d ! j) - bo < int sz"
    and run: "CopyFirstBuffer sz (k_que d ! j) 0 bo (out\<lparr>o_size := sz\<rparr>) = (copied, out1)"
      "CopyFromSuccessiveBuffer (offset - bo + blen (k_que d ! j)) (offset + int sz) (drop (j + 1) (k_que d))
         copied (sz - copied) out1 = (need, out2)"
  shows "copied < sz \<and> out_data (UpdateDataSize (sz - need) out2) = file_slice offset sz d"
proof -
  let ?a = "drop (nat bo) (u_data (k_que d ! j))" and ?r = "concat (map u_data (drop (j + 1) (k_que d)))"
  have b: "bo < blen (k_que d ! j)" "0 \<le> bo" "blen (k_que d ! j) < 2 ^ 31"
    using loc packer_wf_blen [OF wf] by (auto simp: located_def)
  have la: "length ?a < sz" "int (length ?a) = blen (k_que d ! j) - bo" using short b by (auto simp: blen_def)
  then have c: "copied = length ?a" "out1 = (write_at 0 ?a (out\<lparr>o_size := sz\<rparr>))\<lparr>o_pts := u_pts (k_que d ! j), o_dts := u_dts (k_que d ! j)\<rparr>"
    using run(1) CopyFirst_eq [OF b(2,1,3), of sz 0 "out\<lparr>o_size := sz\<rparr>"] by (auto simp: min_def)
  have mem1: "o_mem out1 = overwrite 0 ?a (o_mem out)" using c(2) by simp
  have lm: "length (o_mem out1) = length (o_mem out)" using c(2) la fits by simp
  have off: "0 \<le> offset - bo + blen (k_que d ! j)"
    "offset - bo + blen (k_que d ! j) + int (length ?r) < 2 ^ 64"
    using located_content [OF loc] loc wf b by (auto simp: packer_wf_def located_def)
  have "CopyFromSuccessiveBuffer (offset - bo + blen (k_que d ! j)) (offset + int sz) (drop (j + 1) (k_que d))
      copied (sz - copied) out1 = (sz - copied - length ?r, write_at copied (take (sz - copied) ?r) out1)"
    by (rule CopyFromSuccessive_eq) (use la c fits lm off in \<open>auto simp: of_nat_diff intro: diff_le_mono\<close>)
  then have n: "need = sz - copied - length ?r" "out2 = write_at copied (take (sz - copied) ?r) out1" using run(2) by auto
  have "0 + length ?a + length (take (sz - length ?a) ?r) \<le> length (o_mem out)"
    using la(1) fits(1) unfolding length_take by linarith
  from overwrite_append [OF this]
  have "overwrite (length ?a) (take (sz - length ?a) ?r) (overwrite 0 ?a (o_mem out)) =
      overwrite 0 (?a @ take (sz - length ?a) ?r) (o_mem out)" by simp
  moreover have "?a @ take (sz - length ?a) ?r = take sz (?a @ ?r)" using la(1) by simp
  ultimately have "o_mem out2 = overwrite 0 (take sz (?a @ ?r)) (o_mem out)"
    unfolding n(2) write_at_simps mem1 c(1) by simp
  moreover have "length (take sz (?a @ ?r)) = sz - need"
    using n(1) c(1) la(1) unfolding length_take length_append by linarith
  ultimately have "take (sz - need) (o_mem out2) = take sz (?a @ ?r)" "sz - need \<le> length (o_mem out2)"
    using take_overwrite [of "take sz (?a @ ?r)" "o_mem out"] fits by simp_all
  then show ?thesis
    using la c(1) located_slice [OF loc, of sz] by (simp add: UpdateDataSize_def out_data_def)
qed

text \<open>Reading at a cached offset gives the bytes of the file there, as many as are cached.\<close>

lemma PeekRangeInternal_slice:
  assumes wf: "packer_wf d" and hit: "k_mediaOffset d \<le> offset" "offset < k_mediaOffset d + k_size d"
    and fits: "0 < sz" "sz \<le> length (o_mem out)" "sz < 2 ^ 32" and no_wrap: "offset + int sz < 2 ^ 64"
  shows "\<exists>out' j bo. located d offset j bo \<and>
    PeekRangeInternal offset sz isGet out d = (True, out', note_get isGet j bo offset d) \<and>
    out_data out' = file_slice offset sz d"
proof (cases "offset + int sz \<le> k_mediaOffset d + blen (hd (k_que d))")
  case True
  have q: "k_que d \<noteq> []" using wf hit by (auto simp: packer_wf_def content_def)
  have loc: "located d offset 0 (offset - k_mediaOffset d)" using located_0 [OF q hit(1)] True fits by simp
  have u: "u64 (k_mediaOffset d + blen (hd (k_que d))) = k_mediaOffset d + blen (hd (k_que d))"
    "u64 (offset + int sz) = offset + int sz" "u64 (offset - k_mediaOffset d) = offset - k_mediaOffset d"
    "swrap 32 (offset - k_mediaOffset d) = offset - k_mediaOffset d"
    using wf hit no_wrap blen_nth_le [of 0 d] q by (auto intro!: u64_id swrap32_id simp: packer_wf_def hd_conv_nth blen_def)
  obtain c out' where c: "CopyFirstBuffer sz (k_que d ! 0) 0 (offset - k_mediaOffset d) (out\<lparr>o_size := sz\<rparr>) = (c, out')"
    by fastforce
  then have "out_data out' = file_slice offset sz d"
    using peek_first_enough [OF wf loc fits(2) _ c] True q by (simp add: hd_conv_nth)
  then show ?thesis
    using loc c True u hit fits q
    by (intro exI [of _ out'] exI [of _ 0] exI [of _ "offset - k_mediaOffset d"])
      (simp add: PeekRangeInternal_def GetWritableData_def Let_def hd_conv_nth)
next
  case False
  obtain j bo where loc: "located d offset j bo"
    and f: "FindFirstBufferToCopy offset 0 (k_mediaOffset d) (k_que d) = Some (j, offset - bo)"
    using located_exists [OF wf hit] by blast
  have q: "k_que d \<noteq> []" and bo: "0 \<le> bo" "bo < 2 ^ 31" "bo \<le> offset"
    using loc wf packer_wf_blen [OF wf, of j] by (auto simp: located_def packer_wf_def)
  have u: "u64 (k_mediaOffset d + blen (hd (k_que d))) = k_mediaOffset d + blen (hd (k_que d))"
    "u64 (offset + int sz) = offset + int sz" "u64 bo = bo" "swrap 32 bo = bo"
    "u64 (offset - bo + blen (k_que d ! j)) = offset - bo + blen (k_que d ! j)"
    using wf hit no_wrap blen_nth_le [of 0 d] q bo located_content [OF loc]
    by (auto intro!: u64_id swrap32_id simp: packer_wf_def hd_conv_nth blen_def)
  obtain c out1 where c: "CopyFirstBuffer sz (k_que d ! j) 0 bo (out\<lparr>o_size := sz\<rparr>) = (c, out1)"
    by fastforce
  show ?thesis
  proof (cases "int sz \<le> blen (k_que d ! j) - bo")
    case enough: True
    have "c = sz" "out_data out1 = file_slice offset sz d" using peek_first_enough [OF wf loc fits(2) enough c] by auto
    then show ?thesis
      using loc c f False u bo fits by (intro exI [of _ out1] exI [of _ j] exI [of _ bo])
        (simp add: PeekRangeInternal_def GetWritableData_def Let_def)
  next
    case short: False
    obtain n out2 where r: "CopyFromSuccessiveBuffer (offset - bo + blen (k_que d ! j)) (offset + int sz)
        (drop (j + 1) (k_que d)) c (sz - c) out1 = (n, out2)" by fastforce
    have "c < sz" "out_data (UpdateDataSize (sz - n) out2) = file_slice offset sz d"
      using peek_first_short [OF wf loc fits(2,3) _ c r] short by auto
    then show ?thesis
      using loc c f False u bo fits r
      by (intro exI [of _ "UpdateDataSize (sz - n) out2"] exI [of _ j] exI [of _ bo])
        (simp add: PeekRangeInternal_def GetWritableData_def Let_def)
  qed
qed

section \<open>Removing a prefix\<close>

text \<open>The packer after its first \<open>n\<close> bytes are gone, with \<open>bs\<close> left in the deque.\<close>

definition advanced :: "nat \<Rightarrow> pbuf list \<Rightarrow> packer \<Rightarrow> packer" where
  "advanced n bs d = d\<lparr>k_que := bs, k_size := k_size d - int n, k_mediaOffset := k_mediaOffset d + int n\<rparr>"

lemma advanced_trans [simp]: "advanced n bs (advanced m cs d) = advanced (m + n) bs d"
  by (simp add: advanced_def)

lemma advanced_0: "advanced 0 (k_que d) d = d"
  by (simp add: advanced_def)

lemma Update_advanced:
  assumes "packer_wf d" "n \<le> length (content d)"
  shows "\<exists>d1. UpdateWhenFrontDataRemoved (int n) d = (True, d1) \<and> d1\<lparr>k_que := bs\<rparr> = advanced n bs d"
  using assms by (simp add: UpdateWhenFrontDataRemoved_def packer_wf_def advanced_def Let_def)

lemma packer_wf_advanced:
  assumes "packer_wf d" "concat (map u_data bs) = drop n (content d)" "\<forall>b \<in> set bs. u_data b \<noteq> []"
    "n \<le> length (content d)"
  shows "packer_wf (advanced n bs d)"
  using assms by (auto simp: packer_wf_def advanced_def content_def of_nat_diff)

lemma remove_whole_eq:
  "packer_wf d \<Longrightarrow> j \<le> length (k_que d) \<Longrightarrow>
     remove_whole j d = (True, advanced (length (concat (map u_data (take j (k_que d))))) (drop j (k_que d)) d)"
proof (induction j arbitrary: d)
  case (Suc j)
  then obtain b bs where q: "k_que d = b # bs" by (cases "k_que d") auto
  obtain d1 where d1: "UpdateWhenFrontDataRemoved (blen b) d = (True, d1)"
    "d1\<lparr>k_que := bs\<rparr> = advanced (length (u_data b)) bs d"
    using Update_advanced [OF Suc.prems(1), of "length (u_data b)" bs] q by (auto simp: blen_def content_def)
  have "packer_wf (advanced (length (u_data b)) bs d)"
    by (rule packer_wf_advanced) (use Suc.prems(1) q in \<open>auto simp: content_def packer_wf_def\<close>)
  from Suc.IH [OF this] Suc.prems(2) q d1 show ?case by (simp add: advanced_def)
qed (simp add: advanced_0)

text \<open>
  \<^verbatim>\<open>RemoveTo\<close> a position inside the cache takes off exactly the bytes before it.
\<close>

lemma RemoveTo_drop:
  assumes wf: "packer_wf d" and j: "j < length (k_que d)" and bo: "0 \<le> bo" "bo \<le> blen (k_que d ! j)"
    and n: "n = length (concat (map u_data (take j (k_que d)))) + nat bo"
  shows "\<exists>bs. RemoveTo \<lparr>pos_index = int j, pos_bufferOffset = bo, pos_mediaOffset = mo\<rparr> d = (True, advanced n bs d) \<and>
    concat (map u_data bs) = drop n (content d) \<and> (\<forall>b \<in> set bs. u_data b \<noteq> [])"
proof -
  let ?m = "length (concat (map u_data (take j (k_que d))))" and ?b = "k_que d ! j" and ?r = "drop (Suc j) (k_que d)"
  let ?d1 = "advanced ?m (drop j (k_que d)) d"
  have q: "drop j (k_que d) = ?b # ?r" using j by (simp add: Cons_nth_drop_Suc)
  have ne: "\<forall>b \<in> set (drop j (k_que d)). u_data b \<noteq> []" using wf by (auto simp: packer_wf_def dest: in_set_dropD)
  have c: "drop ?m (content d) = u_data ?b @ concat (map u_data ?r)" "?m \<le> length (content d)"
    using content_split [OF j] by simp_all
  have z: "nat bo - length (u_data ?b) = 0" using bo by (simp add: blen_def)
  have cn: "drop n (content d) = drop (nat bo) (u_data ?b) @ concat (map u_data ?r)"
    using content_split [OF j] z by (simp add: n)
  have wf1: "packer_wf ?d1" by (rule packer_wf_advanced) (use wf ne c q in auto)
  have q1: "k_que ?d1 = ?b # ?r" using q by (simp add: advanced_def)
  have c1: "content ?d1 = u_data ?b @ concat (map u_data ?r)" using q1 by (simp add: content_def)
  have rw: "remove_whole j d = (True, ?d1)" using remove_whole_eq [OF wf] j by simp
  consider "bo = blen ?b" | "bo = 0" "bo < blen ?b" | "0 < bo" "bo < blen ?b" using bo by fastforce
  then show ?thesis
  proof cases
    case 1
    obtain d2 where "UpdateWhenFrontDataRemoved (blen ?b) ?d1 = (True, d2)" "d2\<lparr>k_que := ?r\<rparr> = advanced n ?r d"
      using Update_advanced [OF wf1, of "length (u_data ?b)" ?r] c1 1 n by (auto simp: blen_def)
    then show ?thesis
      using 1 rw q1 cn ne q by (intro exI [of _ ?r]) (simp add: RemoveTo_def blen_def)
  next
    case 2
    then show ?thesis
      using rw q1 cn ne q n by (intro exI [of _ "?b # ?r"]) (simp add: RemoveTo_def RemoveBufferContent_def)
  next
    case 3
    let ?b' = "?b\<lparr>u_data := drop (nat bo) (u_data ?b)\<rparr>"
    have "snd (UpdateWhenFrontDataRemoved bo (?d1\<lparr>k_que := ?b' # ?r\<rparr>)) = advanced n (?b' # ?r) d"
      using wf1 c1 3 n by (simp add: UpdateWhenFrontDataRemoved_def packer_wf_def advanced_def Let_def blen_def)
    moreover have "concat (map u_data (?b' # ?r)) = drop n (content d)"
      using cn by simp
    ultimately show ?thesis
      using 3 rw q1 ne q by (intro exI [of _ "?b' # ?r"]) (auto simp: RemoveTo_def RemoveBufferContent_def blen_def)
  qed
qed

lemma RemoveOldData_advanced:
  assumes wf: "packer_wf d" and ok: "RemoveTo p d = (True, advanced n bs d)"
    and c: "concat (map u_data bs) = drop n (content d)" "\<forall>b \<in> set bs. u_data b \<noteq> []" "n \<le> length (content d)"
  shows "packer_wf (RemoveOldData p d) \<and> content (RemoveOldData p d) = drop n (content d) \<and>
    (n < length (content d) \<longrightarrow> k_mediaOffset (RemoveOldData p d) = k_mediaOffset d + int n)"
proof (cases bs)
  case Nil
  then show ?thesis
    using assms by (auto simp: RemoveOldData_def advanced_def content_def packer_wf_def Let_def)
next
  case (Cons b bs')
  then have "packer_wf (advanced n bs d)" "content (advanced n bs d) = drop n (content d)"
    using packer_wf_advanced [OF wf c] c(1) by (auto simp: content_def advanced_def)
  moreover have "k_que (advanced n bs d) = b # bs'" using Cons by (simp add: advanced_def)
  then have "RemoveOldData p d = (advanced n bs d)\<lparr>k_pts := u_pts b, k_dts := u_dts b\<rparr>"
    using ok by (simp add: RemoveOldData_def)
  ultimately show ?thesis by (simp add: packer_wf_def content_def advanced_def)
qed

lemma RemoveOldData_drop:
  assumes "packer_wf d" "j < length (k_que d)" "0 \<le> bo" "bo \<le> blen (k_que d ! j)"
    and n: "n = length (concat (map u_data (take j (k_que d)))) + nat bo"
  shows "packer_wf (RemoveOldData \<lparr>pos_index = int j, pos_bufferOffset = bo, pos_mediaOffset = mo\<rparr> d) \<and>
    content (RemoveOldData \<lparr>pos_index = int j, pos_bufferOffset = bo, pos_mediaOffset = mo\<rparr> d) = drop n (content d) \<and>
    (n < length (content d) \<longrightarrow>
      k_mediaOffset (RemoveOldData \<lparr>pos_index = int j, pos_bufferOffset = bo, pos_mediaOffset = mo\<rparr> d) = k_mediaOffset d + int n)"
proof -
  have "n \<le> length (content d)" using content_split [OF assms(2)] assms(3,4) n by (simp add: blen_def)
  with RemoveOldData_advanced [OF assms(1)] RemoveTo_drop [OF assms, of mo] show ?thesis by blast
qed

section \<open>Getting by offset\<close>

lemma get_bookkeeping [simp]:
  "content (d\<lparr>k_prevGet := p\<rparr>) = content d" "content (d\<lparr>k_currentGet := p\<rparr>) = content d"
  "packer_wf (d\<lparr>k_prevGet := p\<rparr>) = packer_wf d" "packer_wf (d\<lparr>k_currentGet := p\<rparr>) = packer_wf d"
  "file_slice offset sz (d\<lparr>k_prevGet := p\<rparr>) = file_slice offset sz d"
  "located (d\<lparr>k_prevGet := p\<rparr>) offset j bo = located d offset j bo"
  by (simp_all add: content_def packer_wf_def file_slice_def located_def)

lemma FlushInternal_wf [simp]: "packer_wf (FlushInternal d)" "content (FlushInternal d) = []"
  by (simp_all add: FlushInternal_def packer_wf_def content_def)

lemma GetRange_lemma:
  assumes wf: "packer_wf d" and hit: "k_mediaOffset d \<le> offset" "offset < k_mediaOffset d + k_size d"
    and fits: "0 < sz" "sz \<le> length (o_mem out)" "sz < 2 ^ 32" and no_wrap: "offset + int sz < 2 ^ 64"
  shows "\<exists>out' d'. GetRange others offset sz out d = Some (True, out', d') \<and> out_data out' = file_slice offset sz d \<and>
    packer_wf d' \<and>
    (if k_isEos d \<and> k_size d \<le> int sz then content d' = []
     else \<exists>n. int n \<le> offset - k_mediaOffset d \<and> content d' = drop n (content d) \<and>
            k_mediaOffset d' = k_mediaOffset d + int n)"
proof -
  let ?d2 = "d\<lparr>k_prevGet := k_currentGet d\<rparr>"
  have q: "k_que d \<noteq> []" using wf hit by (auto simp: packer_wf_def content_def)
  obtain out' j bo where p: "located d offset j bo" "out_data out' = file_slice offset sz d"
    "PeekRangeInternal offset sz True out ?d2 = (True, out', note_get True j bo offset ?d2)"
    using PeekRangeInternal_slice [of ?d2 offset sz out True] assms by auto
  let ?p = "\<lparr>pos_index = int j, pos_bufferOffset = bo, pos_mediaOffset = offset\<rparr>"
  let ?d3 = "?d2\<lparr>k_currentGet := ?p\<rparr>"
  let ?n = "length (concat (map u_data (take j (k_que d)))) + nat bo"
  have n: "int ?n = offset - k_mediaOffset d" using p(1) by (simp add: located_def)
  moreover have "k_size d = int (length (content d))" using wf by (simp add: packer_wf_def)
  ultimately have "?n < length (content d)" using hit by linarith
  then have r: "packer_wf (RemoveOldData ?p ?d3) \<and> content (RemoveOldData ?p ?d3) = drop ?n (content d) \<and>
      k_mediaOffset (RemoveOldData ?p ?d3) = k_mediaOffset d + int ?n"
    using RemoveOldData_drop [of ?d3 j bo ?n offset] p(1) wf by (simp add: located_def)
  have g: "GetRange others offset sz out d =
      (if k_isEos d \<and> k_size d \<le> int sz then Some (True, out', FlushInternal ?d3)
       else if pos_less (k_currentGet d) ?p then Some (True, out', RemoveOldData ?p ?d3) else Some (True, out', ?d3))"
    using p(3) q fits by (simp add: GetRange_def note_get_def Let_def)
  consider "k_isEos d \<and> k_size d \<le> int sz" | "\<not> (k_isEos d \<and> k_size d \<le> int sz)" "pos_less (k_currentGet d) ?p"
    | "\<not> (k_isEos d \<and> k_size d \<le> int sz)" "\<not> pos_less (k_currentGet d) ?p" by blast
  then show ?thesis
  proof cases
    case 1
    then show ?thesis using g p(2) by simp
  next
    case 2
    have "\<exists>m. int m \<le> offset - k_mediaOffset d \<and> content (RemoveOldData ?p ?d3) = drop m (content d) \<and>
        k_mediaOffset (RemoveOldData ?p ?d3) = k_mediaOffset d + int m"
      using r n by (intro exI [of _ ?n]) simp
    moreover have "packer_wf (RemoveOldData ?p ?d3)" using r by blast
    ultimately show ?thesis using g 2 p(2) by (simp only: if_False if_True) blast
  next
    case 3
    then show ?thesis using g p(2) wf hit
      by (intro exI [of _ out'] exI [of _ ?d3]) (auto intro: exI [of _ 0])
  qed
qed

section \<open>Live play\<close>

lemma live_copy:
  assumes "u_data b \<noteq> []" "blen b < 2 ^ 31" "need < 2 ^ 31"
  shows "CopyFirstBuffer (nat (u64 (min (swrap 32 (blen b)) (int need)))) b dst 0 out =
    (min (length (u_data b)) need,
     (write_at dst (take need (u_data b)) out)\<lparr>o_pts := u_pts b, o_dts := u_dts b\<rparr>)"
proof -
  have b: "swrap 32 (blen b) = blen b" "0 < blen b" using assms by (auto simp: blen_def intro!: swrap32_id)
  then have "nat (u64 (min (swrap 32 (blen b)) (int need))) = min (length (u_data b)) need"
    using assms(2,3) by (simp add: blen_def u64_def min_def)
  then show ?thesis
    using CopyFirst_eq [of 0 b "min (length (u_data b)) need" dst out] b assms(2) by (auto simp: blen_def min_def)
qed

text \<open>Where the loop stops: \<open>need\<close> bytes into the buffers, or past the last one.\<close>

definition live_end :: "pbuf list \<Rightarrow> nat \<Rightarrow> nat \<Rightarrow> int \<Rightarrow> bool" where
  "live_end bs need j lst =
     (if need \<le> length (concat (map u_data bs)) \<and> bs \<noteq> []
      then j < length bs \<and> 0 \<le> lst \<and> lst \<le> blen (bs ! j) \<and>
           length (concat (map u_data (take j bs))) + nat lst = need
      else j = length bs \<and> lst = 0)"

lemma live_end_Cons:
  assumes "live_end bs (need - length (u_data b)) j lst" "length (u_data b) < need"
  shows "live_end (b # bs) need (Suc j) lst"
  using assms by (cases bs) (auto simp: live_end_def split: if_splits)

lemma live_loop_eq:
  assumes "\<forall>b \<in> set bs. u_data b \<noteq> []" "length (concat (map u_data bs)) < 2 ^ 31" "need < 2 ^ 31"
    "dst + need \<le> length (o_mem out)"
  shows "\<exists>j lst out'. live_loop bs i dst (int need) out =
      (int (need - length (concat (map u_data bs))), i + j, lst, out') \<and>
    o_mem out' = overwrite dst (take need (concat (map u_data bs))) (o_mem out) \<and> live_end bs need j lst"
  using assms
proof (induction bs arbitrary: i dst need out)
  case Nil
  then show ?case by (simp add: overwrite_def live_end_def)
next
  case (Cons b bs)
  let ?n = "length (u_data b)" and ?c = "min (length (u_data b)) need"
  let ?out1 = "(write_at dst (take need (u_data b)) out)\<lparr>o_pts := u_pts b, o_dts := u_dts b\<rparr>"
  have cp: "CopyFirstBuffer (nat (u64 (min (swrap 32 (blen b)) (int need)))) b dst 0 out = (?c, ?out1)"
    by (rule live_copy) (use Cons.prems in \<open>auto simp: blen_def\<close>)
  have w: "swrap 32 (int ?c) = int ?c" "swrap 32 (int need - int ?c) = int (need - ?c)" "u32 (int ?c) = int ?c"
    using Cons.prems(2,3) by (auto intro!: swrap32_id u32_id simp: of_nat_diff min_def)
  show ?case
  proof (cases "need \<le> ?n")
    case True
    then have "live_loop (b # bs) i dst (int need) out = (0, i, int need, ?out1)"
      using cp w by (simp add: Let_def min_def split: if_splits)
    with True show ?thesis
      by (intro exI [of _ 0] exI [of _ "int need"] exI [of _ ?out1]) (simp add: blen_def live_end_def)
  next
    case False
    then have step: "live_loop (b # bs) i dst (int need) out = live_loop bs (i + 1) (dst + ?n) (int (need - ?n)) ?out1"
      using cp w by (simp add: Let_def min_def split: if_splits)
    have fit: "dst + ?n + (need - ?n) \<le> length (o_mem ?out1)" using False Cons.prems(4) by simp
    have "\<exists>j lst out'. live_loop bs (i + 1) (dst + ?n) (int (need - ?n)) ?out1 =
        (int (need - ?n - length (concat (map u_data bs))), i + 1 + j, lst, out') \<and>
      o_mem out' = overwrite (dst + ?n) (take (need - ?n) (concat (map u_data bs))) (o_mem ?out1) \<and>
      live_end bs (need - ?n) j lst"
      by (rule Cons.IH [OF _ _ _ fit]) (use Cons.prems(1-3) in auto)
    then obtain j lst out' where ih: "live_loop bs (i + 1) (dst + ?n) (int (need - ?n)) ?out1 =
        (int (need - ?n - length (concat (map u_data bs))), i + 1 + j, lst, out')"
      "o_mem out' = overwrite (dst + ?n) (take (need - ?n) (concat (map u_data bs))) (o_mem ?out1)"
      "live_end bs (need - ?n) j lst" by blast
    have "dst + ?n + length (take (need - ?n) (concat (map u_data bs))) \<le> length (o_mem out)"
      using False Cons.prems(4) unfolding length_take by linarith
    from overwrite_append [OF this] have mem: "o_mem out' = overwrite dst (take need (concat (map u_data (b # bs)))) (o_mem out)"
      using ih(2) False by simp
    have "live_end (b # bs) need (Suc j) lst" by (rule live_end_Cons [OF ih(3)]) (use False in simp)
    then show ?thesis
      using step ih(1) mem by (intro exI [of _ "Suc j"] exI [of _ lst] exI [of _ out']) simp
  qed
qed

lemma RemoveOldData_all:
  assumes "packer_wf d"
  shows "packer_wf (RemoveOldData \<lparr>pos_index = int (length (k_que d)), pos_bufferOffset = bo, pos_mediaOffset = mo\<rparr> d) \<and>
    content (RemoveOldData \<lparr>pos_index = int (length (k_que d)), pos_bufferOffset = bo, pos_mediaOffset = mo\<rparr> d) = []"
proof -
  have "RemoveTo \<lparr>pos_index = int (length (k_que d)), pos_bufferOffset = bo, pos_mediaOffset = mo\<rparr> d =
      (True, advanced (length (content d)) [] d)"
    using remove_whole_eq [OF assms, of "length (k_que d)"] by (simp add: RemoveTo_def content_def advanced_def)
  from RemoveOldData_advanced [OF assms this] show ?thesis by simp
qed

text \<open>A live read hands out the next bytes of the stream and takes exactly those off the cache.\<close>

lemma GetRange_live_lemma:
  assumes wf: "packer_wf d" and q: "k_que d \<noteq> []" and fits: "sz \<le> length (o_mem out)" "sz < 2 ^ 31"
  shows "\<exists>out' d'. GetRange_live others sz out d = Some (True, out', d') \<and> packer_wf d' \<and>
    out_data out' = take sz (content d) \<and> content d' = drop sz (content d)"
proof -
  let ?t = "length (content d)"
  have ne: "\<forall>b \<in> set (k_que d). u_data b \<noteq> []" "length (concat (map u_data (k_que d))) < 2 ^ 31"
    "0 + sz \<le> length (o_mem (out\<lparr>o_size := sz\<rparr>))" using wf fits by (auto simp: packer_wf_def content_def)
  obtain index lst out1 where l: "live_loop (k_que d) 0 0 (int sz) (out\<lparr>o_size := sz\<rparr>) = (int (sz - ?t), index, lst, out1)"
    "o_mem out1 = overwrite 0 (take sz (content d)) (o_mem out)"
    and pos: "live_end (k_que d) sz index lst"
    using live_loop_eq [OF ne(1,2) fits(2) ne(3), of 0] by (auto simp: content_def)
  define p where "p = \<lparr>pos_index = int index, pos_bufferOffset = lst,
    pos_mediaOffset = u64 (k_mediaOffset d + int sz - int (sz - ?t))\<rparr>"
  have g: "GetRange_live others sz out d = Some (True, UpdateDataSize (sz - (sz - ?t)) out1, RemoveOldData p d)"
    using q fits l swrap32_id [of "int sz"] by (simp add: GetRange_live_def GetWritableData_def Let_def p_def)
  have r: "packer_wf (RemoveOldData p d) \<and> content (RemoveOldData p d) = drop sz (content d)"
  proof (cases "sz \<le> ?t")
    case True
    then have "index < length (k_que d)" "0 \<le> lst" "lst \<le> blen (k_que d ! index)"
      "sz = length (concat (map u_data (take index (k_que d)))) + nat lst"
      using pos q by (auto simp: live_end_def content_def)
    from RemoveOldData_drop [OF wf this] show ?thesis unfolding p_def by blast
  next
    case False
    then have "index = length (k_que d)" using pos q by (auto simp: live_end_def content_def)
    with False RemoveOldData_all [OF wf] show ?thesis unfolding p_def by simp
  qed
  have "length (take sz (content d)) = sz - (sz - ?t)" "sz - (sz - ?t) \<le> length (o_mem out)" using fits by simp_all
  then have "out_data (UpdateDataSize (sz - (sz - ?t)) out1) = take sz (content d)"
    using l(2) fits take_overwrite [of "take sz (content d)" "o_mem out"] by (simp add: UpdateDataSize_def out_data_def)
  with g r show ?thesis by blast
qed

section \<open>The cache as a byte stream\<close>

text \<open>Pushing without waiting, as long as the counters do not wrap; the pushed offset is where the cache ends.\<close>

definition push_stream :: "8 word list \<Rightarrow> packer \<Rightarrow> packer option" where
  "push_stream xs d =
     (if length (k_que d) < k_capacity d \<and> int (length (content d) + length xs) < 2 ^ 31 \<and>
         k_mediaOffset d + k_size d + int (length xs) < 2 ^ 64
      then PushData id \<lparr>u_data = xs, u_pts = 0, u_dts = 0\<rparr> (k_mediaOffset d + k_size d) d else None)"

definition pull_stream :: "nat \<Rightarrow> packer \<Rightarrow> (8 word list \<times> packer) option" where
  "pull_stream n d =
     (if \<not> int n < 2 ^ 31 then None
      else case GetRange_live id n \<lparr>o_mem = replicate n 0, o_size = 0, o_pts = 0, o_dts = 0\<rparr> d of
        None \<Rightarrow> None | Some (ok, out, d') \<Rightarrow> Some (if ok then out_data out else [], d'))"

lemma PushData_append:
  assumes wf: "packer_wf d" and room: "length (k_que d) < k_capacity d"
    and b: "length (content d) + length (u_data b) < 2 ^ 31" "0 \<le> offset" "offset + blen b < 2 ^ 64"
      "k_que d \<noteq> [] \<Longrightarrow> k_mediaOffset d + k_size d + blen b < 2 ^ 64"
  shows "\<exists>d'. PushData others b offset d = Some d' \<and> packer_wf d' \<and> content d' = content d @ u_data b \<and>
    k_mediaOffset d' = (if k_que d = [] \<and> u_data b \<noteq> [] then offset else k_mediaOffset d)"
proof (cases "u_data b = []")
  case True
  then show ?thesis using wf by (simp add: PushData_def blen_def)
next
  case False
  have "u32 (k_size d + blen b) = k_size d + blen b"
    using wf b(1) by (auto intro!: u32_id simp: packer_wf_def blen_def)
  then show ?thesis
    using False wf room b by (auto simp: PushData_def packer_wf_def content_def blen_def Let_def)
qed

lemma pull_stream_view:
  assumes wf: "packer_wf d" and run: "pull_stream n d = Some (ys, d')"
  shows "packer_wf d' \<and> content d = ys @ content d'"
proof (cases "k_que d = []")
  case True
  then show ?thesis
    using wf run by (auto simp: pull_stream_def GetRange_live_def content_def split: if_splits)
next
  case False
  let ?out = "\<lparr>o_mem = replicate n 0, o_size = 0, o_pts = 0, o_dts = 0\<rparr>"
  have n: "n < 2 ^ 31" using run by (auto simp: pull_stream_def split: if_splits)
  then obtain out' d2 where "GetRange_live id n ?out d = Some (True, out', d2)" "packer_wf d2"
    "out_data out' = take n (content d)" "content d2 = drop n (content d)"
    using GetRange_live_lemma [OF wf False, of n ?out id] by auto
  moreover from this have "ys = out_data out'" "d' = d2" using run n by (auto simp: pull_stream_def)
  ultimately show ?thesis by (metis append_take_drop_id)
qed

interpretation pk: byte_stream packer_wf content push_stream pull_stream
proof unfold_locales
  fix d d' :: packer and xs
  assume wf: "packer_wf d" and run: "push_stream xs d = Some d'"
  from run have g: "length (k_que d) < k_capacity d" "length (content d) + length xs < 2 ^ 31"
    "k_mediaOffset d + k_size d + int (length xs) < 2 ^ 64"
    and p: "PushData id \<lparr>u_data = xs, u_pts = 0, u_dts = 0\<rparr> (k_mediaOffset d + k_size d) d = Some d'"
    by (auto simp: push_stream_def split: if_splits)
  have "\<exists>d'. PushData id \<lparr>u_data = xs, u_pts = 0, u_dts = 0\<rparr> (k_mediaOffset d + k_size d) d = Some d' \<and> packer_wf d' \<and>
      content d' = content d @ u_data \<lparr>u_data = xs, u_pts = 0, u_dts = 0\<rparr> \<and>
      k_mediaOffset d' = (if k_que d = [] \<and> u_data \<lparr>u_data = xs, u_pts = 0, u_dts = 0\<rparr> \<noteq> [] then k_mediaOffset d + k_size d else k_mediaOffset d)"
    by (rule PushData_append [OF wf g(1)]) (use g wf in \<open>auto simp: blen_def packer_wf_def\<close>)
  with p show "packer_wf d' \<and> content d' = content d @ xs" by auto
qed (rule pull_stream_view)

section \<open>Availability\<close>

lemma avail_loop_eq:
  assumes "0 \<le> pre" "pre + int (length (concat (map u_data bs))) < 2 ^ 64"
  shows "\<exists>x. avail_loop e pre bs = (bs \<noteq> [] \<and> e \<le> pre + int (length (concat (map u_data bs))), x) \<and>
    (\<not> (bs \<noteq> [] \<and> e \<le> pre + int (length (concat (map u_data bs)))) \<longrightarrow> x = pre + int (length (concat (map u_data bs))))"
  using assms
proof (induction bs arbitrary: pre)
  case (Cons b bs)
  have u: "u64 (pre + int (length (u_data b))) = pre + int (length (u_data b))"
    by (rule u64_id) (use Cons.prems in auto)
  show ?case
  proof (cases "e \<le> pre + blen b")
    case True
    then show ?thesis by (auto simp: u blen_def Let_def)
  next
    case False
    obtain x where "avail_loop e (pre + blen b) bs =
        (bs \<noteq> [] \<and> e \<le> pre + blen b + int (length (concat (map u_data bs))), x)"
      "\<not> (bs \<noteq> [] \<and> e \<le> pre + blen b + int (length (concat (map u_data bs)))) \<longrightarrow>
        x = pre + blen b + int (length (concat (map u_data bs)))"
      using Cons.IH [of "pre + blen b"] Cons.prems by (auto simp: blen_def add.assoc)
    with False u show ?thesis by (cases bs) (auto simp: blen_def add.assoc Let_def)
  qed
qed simp

lemma IsDataAvailable_lemma:
  assumes wf: "packer_wf d" and q: "k_que d \<noteq> []" and off: "0 \<le> offset" "0 \<le> sz" "offset + sz < 2 ^ 64"
  shows "\<exists>resume. IsDataAvailable offset sz cur d =
    (k_mediaOffset d \<le> offset \<and> offset + sz \<le> k_mediaOffset d + k_size d, resume,
     if k_mediaOffset d \<le> offset \<and> offset \<le> k_mediaOffset d + k_size d then d else FlushInternal d) \<and>
    (\<not> (k_mediaOffset d \<le> offset \<and> offset \<le> k_mediaOffset d + k_size d) \<longrightarrow> resume = offset) \<and>
    (k_mediaOffset d \<le> offset \<and> offset \<le> k_mediaOffset d + k_size d \<and> k_mediaOffset d + k_size d < offset + sz \<longrightarrow>
       resume = k_mediaOffset d + k_size d)"
proof -
  obtain b bs where bs: "k_que d = b # bs" using q by (cases "k_que d") auto
  have size: "k_size d = blen b + int (length (concat (map u_data bs)))"
    using wf bs by (simp add: packer_wf_def content_def blen_def)
  have u: "u64 (k_mediaOffset d + k_size d) = k_mediaOffset d + k_size d"
    "u64 (k_mediaOffset d + blen b) = k_mediaOffset d + blen b" "u64 (offset + sz) = offset + sz"
    using wf off size by (auto intro!: u64_id simp: packer_wf_def blen_def)
  show ?thesis
  proof (cases "bs = []")
    case True
    then show ?thesis
      using bs u size off by (auto simp: IsDataAvailable_def Let_def)
  next
    case False
    obtain x where "avail_loop (offset + sz) (k_mediaOffset d + blen b) bs = (offset + sz \<le> k_mediaOffset d + k_size d, x)"
      "\<not> offset + sz \<le> k_mediaOffset d + k_size d \<longrightarrow> x = k_mediaOffset d + k_size d"
      using avail_loop_eq [of "k_mediaOffset d + blen b" bs "offset + sz"] wf size False
      by (auto simp: packer_wf_def blen_def add.assoc)
    with False bs u off show ?thesis by (auto simp: IsDataAvailable_def Let_def)
  qed
qed

section \<open>The cache of a file\<close>

definition caches :: "8 word list \<Rightarrow> packer \<Rightarrow> bool" where
  "caches file d = (content d = take (length (content d)) (drop (nat (k_mediaOffset d)) file))"

lemma caches_slice:
  assumes "caches file d" "0 \<le> k_mediaOffset d" "k_mediaOffset d \<le> offset"
    "offset + int sz \<le> k_mediaOffset d + int (length (content d))"
  shows "file_slice offset sz d = take sz (drop (nat offset) file)"
proof -
  have n: "nat (offset - k_mediaOffset d) + nat (k_mediaOffset d) = nat offset"
    "sz \<le> length (content d) - nat (offset - k_mediaOffset d)" using assms(2-4) by linarith+
  have "file_slice offset sz d =
      take sz (drop (nat (offset - k_mediaOffset d)) (take (length (content d)) (drop (nat (k_mediaOffset d)) file)))"
    using assms(1) unfolding caches_def file_slice_def by presburger
  also have "\<dots> = take sz (drop (nat offset) file)" using n by (simp add: drop_take min_absorb2 min_absorb1)
  finally show ?thesis .
qed

lemma caches_drop:
  assumes "caches file d" "content d' = drop n (content d)" "k_mediaOffset d' = k_mediaOffset d + int n" "0 \<le> k_mediaOffset d"
  shows "caches file d'"
proof -
  have "content d' = drop n (take (length (content d)) (drop (nat (k_mediaOffset d)) file))"
    using assms(1,2) unfolding caches_def by presburger
  also have "\<dots> = take (length (content d')) (drop (nat (k_mediaOffset d')) file)"
    using assms(2-4) by (simp add: drop_take nat_add_distrib add.commute)
  finally show ?thesis by (simp add: caches_def)
qed

lemma caches_empty: "content d = [] \<Longrightarrow> caches file d"
  by (simp add: caches_def)

section \<open>Properties\<close>

text \<open>The states used as concrete instances: bytes 10 to 14 of a file in two buffers.\<close>

definition file1 :: "8 word list" where
  "file1 = map of_nat [0..<20]"

definition packer1 :: packer where
  "packer1 = DataPacker\<lparr>k_que := [\<lparr>u_data = [10, 11, 12], u_pts = 1, u_dts = 1\<rparr>, \<lparr>u_data = [13, 14], u_pts = 2, u_dts = 2\<rparr>],
     k_size := 5, k_mediaOffset := 10\<rparr>"

definition out4 :: outbuf where
  "out4 = \<lparr>o_mem = [0, 0, 0, 0], o_size = 0, o_pts = 0, o_dts = 0\<rparr>"

lemma packer1_wf: "packer_wf packer1" "content packer1 = [10, 11, 12, 13, 14]" "caches file1 packer1"
  "k_mediaOffset packer1 = 10" "k_size packer1 = 5" "k_que packer1 \<noteq> []" "\<not> k_isEos packer1"
  "length (k_que packer1) < k_capacity packer1"
  by (simp_all add: packer1_def file1_def packer_wf_def content_def caches_def DataPacker_def upt_rec
      MAX_BUFFER_NUMBER_IN_DATA_PACKER_def)

text \<open>C5: \<^verbatim>\<open>GetRange(offset, size)\<close> on a packer that caches a stretch of a media file, for a range that is cached, returns the
  bytes of the file at that offset, across as many buffers as the range spans; the packer still caches a
  stretch of the file afterwards, and everything from \<open>offset\<close> on is still there (unless this was the last read before
  end of stream, which empties it).
\<close>

theorem GetRange_reads_file:
  assumes "packer_wf d" "caches file d" "0 < sz" "sz < 2 ^ 32" "sz \<le> length (o_mem out)"
    and "k_mediaOffset d \<le> offset" "offset + int sz \<le> k_mediaOffset d + k_size d"
  shows "\<exists>out' d'. GetRange others offset sz out d = Some (True, out', d') \<and>
    out_data out' = take sz (drop (nat offset) file) \<and> packer_wf d' \<and> caches file d' \<and>
    (if k_isEos d \<and> k_size d \<le> int sz then content d' = []
     else k_mediaOffset d' \<le> offset \<and> k_mediaOffset d' + k_size d' = k_mediaOffset d + k_size d)"
proof -
  have s: "k_size d = int (length (content d))" "0 \<le> k_mediaOffset d" "offset + int sz < 2 ^ 64"
    using assms by (auto simp: packer_wf_def)
  have "offset < k_mediaOffset d + k_size d" using assms by linarith
  from GetRange_lemma [OF assms(1,6) this assms(3,5,4) s(3), of others] obtain out' d' where
    g: "GetRange others offset sz out d = Some (True, out', d')" "out_data out' = file_slice offset sz d" "packer_wf d'"
    and c: "if k_isEos d \<and> k_size d \<le> int sz then content d' = []
     else \<exists>n. int n \<le> offset - k_mediaOffset d \<and> content d' = drop n (content d) \<and> k_mediaOffset d' = k_mediaOffset d + int n"
    by blast
  have f: "out_data out' = take sz (drop (nat offset) file)"
    using caches_slice [OF assms(2) s(2) assms(6)] assms(7) g(2) s(1) by simp
  show ?thesis
  proof (cases "k_isEos d \<and> k_size d \<le> int sz")
    case True
    then show ?thesis using c g f caches_empty by auto
  next
    case False
    then obtain n where n: "int n \<le> offset - k_mediaOffset d" "content d' = drop n (content d)"
      "k_mediaOffset d' = k_mediaOffset d + int n" using c by auto
    moreover have "k_size d' = int (length (content d'))" using g(3) by (simp add: packer_wf_def)
    moreover have "int n \<le> int (length (content d))" using n(1) assms(7) s(1) by linarith
    ultimately have "k_mediaOffset d' \<le> offset" "k_mediaOffset d' + k_size d' = k_mediaOffset d + k_size d"
      using s(1) by (auto simp: of_nat_diff)
    moreover have "caches file d'" by (rule caches_drop [OF assms(2) n(2,3) s(2)])
    ultimately show ?thesis using g(1,3) f False by auto
  qed
qed

theorem GetRange_reads_file_witness:
  "\<exists>out' d'. GetRange id 11 4 out4 packer1 = Some (True, out', d') \<and> out_data out' = [11, 12, 13, 14] \<and>
    k_mediaOffset d' \<le> 11 \<and> k_mediaOffset d' + k_size d' = 15"
proof -
  have "take 4 (drop (nat 11) file1) = [11, 12, 13, 14]" by (simp add: file1_def upt_rec)
  with GetRange_reads_file [OF packer1_wf(1,3), of 4 out4 11 id] show ?thesis
    by (simp add: packer1_wf out4_def) blast
qed

text \<open>\<^verbatim>\<open>IsDataAvailable(offset, size)\<close> on a non-empty packer is true exactly when the whole range is cached. When it is not,
  the offset it reports is where to fetch next: the end of the cache if the range starts inside it, and
  otherwise the requested offset, with the cache dropped.
\<close>

theorem IsDataAvailable_exact:
  assumes "packer_wf d" "k_que d \<noteq> []" "0 \<le> offset" "0 \<le> sz" "offset + sz < 2 ^ 64"
  shows "case IsDataAvailable offset sz cur d of (ok, resume, d') \<Rightarrow>
    ok = (k_mediaOffset d \<le> offset \<and> offset + sz \<le> k_mediaOffset d + k_size d) \<and>
    (ok \<longrightarrow> d' = d) \<and>
    (\<not> ok \<longrightarrow> (if k_mediaOffset d \<le> offset \<and> offset \<le> k_mediaOffset d + k_size d
       then resume = k_mediaOffset d + k_size d \<and> d' = d else resume = offset \<and> content d' = []))"
  using IsDataAvailable_lemma [OF assms, of cur] assms(4) by auto

theorem IsDataAvailable_exact_witness:
  "case IsDataAvailable 12 6 0 packer1 of (ok, resume, d') \<Rightarrow> \<not> ok \<and> resume = 15 \<and> d' = packer1"
  using IsDataAvailable_exact [OF packer1_wf(1,6), of 12 6 0] by (auto simp: packer1_wf)

text \<open>The demuxer's fetch step: after \<^verbatim>\<open>IsDataAvailable\<close> says no, pushing the file's bytes from the offset it reported, and
  with that offset, leaves a packer that caches one contiguous stretch of the file: the old stretch extended, or the
  new bytes alone.
\<close>

theorem packer_fetch_contiguous:
  assumes "packer_wf d" "caches file d" "k_que d \<noteq> []" "0 \<le> offset" "0 \<le> sz" "offset + sz < 2 ^ 64"
    and miss: "IsDataAvailable offset sz cur d = (False, resume, d1)"
    and b: "u_data b = take n (drop (nat resume) file)" "u_data b \<noteq> []"
    and room: "length (k_que d1) < k_capacity d1" "length (content d1) + length (u_data b) < 2 ^ 31"
      "resume + blen b < 2 ^ 64"
  shows "\<exists>d2. PushData others b resume d1 = Some d2 \<and> packer_wf d2 \<and> caches file d2 \<and>
    content d2 = content d1 @ u_data b \<and> k_mediaOffset d2 + k_size d2 = resume + blen b"
proof -
  let ?hit = "k_mediaOffset d \<le> offset \<and> offset \<le> k_mediaOffset d + k_size d"
  have d1: "d1 = (if ?hit then d else FlushInternal d)" "\<not> ?hit \<longrightarrow> resume = offset"
    "?hit \<longrightarrow> resume = k_mediaOffset d + k_size d"
    using IsDataAvailable_lemma [OF assms(1,3-6), of cur] miss assms(5) by auto
  have wf1: "packer_wf d1" "0 \<le> resume" "k_que d1 \<noteq> [] \<longrightarrow> k_mediaOffset d1 + k_size d1 = resume"
    using d1 assms(1,4) by (auto simp: packer_wf_def FlushInternal_def content_def)
  obtain d2 where p: "PushData others b resume d1 = Some d2" "packer_wf d2" "content d2 = content d1 @ u_data b"
    "k_mediaOffset d2 = (if k_que d1 = [] then resume else k_mediaOffset d1)"
    using PushData_append [OF wf1(1) room(1,2) wf1(2) room(3), of others] wf1(3) room(3) b(2) by auto
  have sz2: "k_size d2 = int (length (content d1)) + blen b" "k_size d1 = int (length (content d1))"
    "0 \<le> k_mediaOffset d1" using p(2,3) wf1(1) by (auto simp: packer_wf_def blen_def)
  have cb: "u_data b = take (length (u_data b)) (drop (nat resume) file)"
    using b(1) by (metis length_take min.commute take_all_iff take_take nle_le)
  have "caches file d2"
  proof (cases "k_que d1 = []")
    case True
    then have "content d1 = []" by (simp add: content_def)
    with p(3,4) True cb show ?thesis by (simp add: caches_def)
  next
    case False
    then have old: "content d1 = take (length (content d1)) (drop (nat (k_mediaOffset d1)) file)"
      using d1(1) assms(2) by (auto simp: caches_def FlushInternal_def split: if_splits)
    have r: "nat resume = length (content d1) + nat (k_mediaOffset d1)" using False wf1(3) sz2(2,3) by auto
    have "take (length (content d1)) (drop (nat (k_mediaOffset d1)) file) @ take (length (u_data b)) (drop (nat resume) file) =
        take (length (content d1) + length (u_data b)) (drop (nat (k_mediaOffset d1)) file)"
      by (simp add: take_add r)
    with old cb have "content d1 @ u_data b = take (length (content d1) + length (u_data b)) (drop (nat (k_mediaOffset d1)) file)"
      by metis
    moreover have "length (content d2) = length (content d1) + length (u_data b)" "k_mediaOffset d2 = k_mediaOffset d1"
      using p(3,4) False by simp_all
    ultimately show ?thesis unfolding caches_def using p(3) by metis
  qed
  moreover have "k_mediaOffset d2 + k_size d2 = resume + blen b"
    using p(4) sz2 wf1(3) by (cases "k_que d1 = []") (auto simp: content_def)
  ultimately show ?thesis using p by blast
qed

theorem packer_fetch_contiguous_witness:
  "\<exists>d2. PushData id \<lparr>u_data = [15, 16], u_pts = 3, u_dts = 3\<rparr> 15 packer1 = Some d2 \<and> caches file1 d2 \<and>
    content d2 = [10, 11, 12, 13, 14, 15, 16]"
proof -
  let ?b = "\<lparr>u_data = [15, 16], u_pts = 3, u_dts = 3\<rparr>"
  have m: "IsDataAvailable 12 6 0 packer1 = (False, 15, packer1)"
    using IsDataAvailable_lemma [OF packer1_wf(1,6), of 12 6 0] by (auto simp: packer1_wf)
  have "u_data ?b = take 2 (drop (nat 15) file1)" by (simp add: file1_def upt_rec)
  from packer_fetch_contiguous [OF packer1_wf(1,3,6) _ _ _ m this, of id] show ?thesis
    by (auto simp: packer1_wf blen_def)
qed

text \<open>C30: Live play is a byte stream: over any sequence of pushes into a packer with room and of live reads of any size, what was read
  followed by what is still cached is what was cached at the start followed by what was pushed, in order, nothing
  lost or repeated.
\<close>

theorem packer_live_stream:
  assumes "packer_wf d" "stream_run push_stream pull_stream ops d = Some (written, read, d')"
  shows "content d @ written = read @ content d' \<and> packer_wf d'"
  using pk.stream_run_view [OF assms] by blast

theorem packer_live_stream_witness:
  "\<exists>d'. stream_run push_stream pull_stream [SPut [1, 2, 3], SPut [4], SGet 2, SPut [5], SGet 7] DataPacker =
      Some ([1, 2, 3, 4, 5], [1, 2, 3, 4, 5], d') \<and> [] @ [1, 2, 3, 4, 5] = [1, 2, 3, 4, 5] @ content d'"
proof -
  have w: "packer_wf DataPacker" "content DataPacker = []" by (simp_all add: DataPacker_def packer_wf_def content_def)
  have "case stream_run push_stream pull_stream [SPut [1, 2, 3], SPut [4], SGet 2, SPut [5], SGet 7] DataPacker of
      None \<Rightarrow> False | Some (wr, rd, d') \<Rightarrow> wr = [1, 2, 3, 4, 5] \<and> rd = [1, 2, 3, 4, 5]"
    by code_simp
  then obtain d' where "stream_run push_stream pull_stream [SPut [1, 2, 3], SPut [4], SGet 2, SPut [5], SGet 7] DataPacker =
      Some ([1, 2, 3, 4, 5], [1, 2, 3, 4, 5], d')"
    by (auto split: option.splits)
  with packer_live_stream [OF w(1) this] w(2) show ?thesis by simp
qed

end
