(* ===== verification/Ring_Buffer.thy ===== *)
theory Ring_Buffer
  imports AV_Buffer
begin

text \<open>
  The byte ring of the downloaders, \<^verbatim>\<open>RingBuffer\<close> of \<^verbatim>\<open>interface/inner_api/osal/utils/ring_buffer.h\<close>. Its head
  and tail are running positions that only a modulo maps into the buffer, so data already read stays in place
  until it is overwritten and a backward seek can return to it. The specification is the
  history of all bytes written: a read at head position \<open>p\<close> returns the history from \<open>p\<close> on.
  Positions are 64-bit, the arithmetic is modulo $2^{64}$; a wait gives the mutex up to \<open>others\<close>, and \<open>None\<close> is a
  wait that does not end.
\<close>

section \<open>State and operations\<close>

definition add64 :: "nat \<Rightarrow> nat \<Rightarrow> nat" where
  "add64 a b = (a + b) mod 2 ^ 64"

definition sub64 :: "nat \<Rightarrow> nat \<Rightarrow> nat" where
  "sub64 a b = (if b \<le> a then a - b else a + 2 ^ 64 - b)"

record ring =
  r_bufferSize :: nat
  r_buffer :: "8 word list"
  r_head :: nat
  r_tail :: nat
  r_isActive :: bool
  r_mediaOffset :: nat
  r_isReadBlockingAllowed :: bool

definition RingBuffer :: "nat \<Rightarrow> ring" where
  "RingBuffer n =
     \<lparr>r_bufferSize = n, r_buffer = [], r_head = 0, r_tail = 0, r_isActive = True, r_mediaOffset = 0,
      r_isReadBlockingAllowed = True\<rparr>"

definition Ring_Init :: "ring \<Rightarrow> ring" where
  "Ring_Init r = r\<lparr>r_buffer := replicate (r_bufferSize r) 0\<rparr>"

definition Ring_GetSize :: "ring \<Rightarrow> nat" where
  "Ring_GetSize r = sub64 (r_tail r) (r_head r)"

definition Ring_GetFreeSize :: "ring \<Rightarrow> nat" where
  "Ring_GetFreeSize r = sub64 (r_bufferSize r) (Ring_GetSize r)"

text \<open>The waits of a read: \<open>False\<close> when the ring was deactivated or reading forbidden meanwhile.\<close>

fun read_wait :: "(ring \<Rightarrow> ring) \<Rightarrow> nat \<Rightarrow> ring \<Rightarrow> bool \<times> ring" where
  "read_wait others 0 r = (True, r)"
| "read_wait others (Suc waitTimes) r =
     (if Ring_GetSize r \<noteq> 0 then (True, r)
      else let r1 = others r in
           if \<not> r_isActive r1 \<or> \<not> r_isReadBlockingAllowed r1 then (False, r1) else read_wait others waitTimes r1)"

definition copy_out :: "8 word list \<Rightarrow> nat \<Rightarrow> nat \<Rightarrow> nat \<Rightarrow> 8 word list" where
  "copy_out buffer bufferSize index available =
     (if index + available < bufferSize then take available (drop index buffer)
      else take (bufferSize - index) (drop index buffer) @ take (available - (bufferSize - index)) buffer)"

text \<open>The result is the returned size, the bytes stored at the caller's pointer and the new state.\<close>

definition ReadBuffer :: "(ring \<Rightarrow> ring) \<Rightarrow> bool \<Rightarrow> nat \<Rightarrow> int \<Rightarrow> ring \<Rightarrow> nat \<times> 8 word list \<times> ring" where
  "ReadBuffer others has_ptr readSize waitTimes r =
     (if \<not> r_isActive r \<or> \<not> r_isReadBlockingAllowed r then (0, [], r)
      else case read_wait others (nat waitTimes) r of (go, r1) \<Rightarrow>
        if \<not> go then (0, [], r1)
        else if \<not> has_ptr then (0, [], r1)
        else
          let available = (if Ring_GetSize r1 > readSize then readSize else Ring_GetSize r1);
              index = r_head r1 mod r_bufferSize r1
          in (available, copy_out (r_buffer r1) (r_bufferSize r1) index available,
              r1\<lparr>r_head := add64 (r_head r1) available, r_mediaOffset := add64 (r_mediaOffset r1) available\<rparr>))"

definition copy_in :: "8 word list \<Rightarrow> nat \<Rightarrow> nat \<Rightarrow> 8 word list \<Rightarrow> 8 word list" where
  "copy_in buffer bufferSize index src =
     (if index + length src < bufferSize then overwrite index src buffer
      else overwrite 0 (drop (bufferSize - index) src) (overwrite index (take (bufferSize - index) src) buffer))"

definition write_blocked :: "nat \<Rightarrow> ring \<Rightarrow> bool" where
  "write_blocked writeSize r = (add64 writeSize (r_tail r) > add64 (r_head r) (r_bufferSize r))"

definition WriteBuffer :: "(ring \<Rightarrow> ring) \<Rightarrow> bool \<Rightarrow> 8 word list \<Rightarrow> ring \<Rightarrow> (bool \<times> ring) option" where
  "WriteBuffer others has_ptr src r =
     (if \<not> r_isActive r then Some (False, r)
      else if length src > 2 ^ 64 - 1 - r_tail r then Some (False, r)
      else
        let waits = write_blocked (length src) r;
            r1 = (if waits then others r else r)
        in if waits \<and> \<not> r_isActive r1 then Some (False, r1)
           else if waits \<and> write_blocked (length src) r1 then None
           else if \<not> has_ptr then Some (False, r1)
           else Some (True, r1\<lparr>r_buffer := copy_in (r_buffer r1) (r_bufferSize r1) (r_tail r1 mod r_bufferSize r1) src,
                               r_tail := add64 (r_tail r1) (length src)\<rparr>))"

definition Ring_SetActive :: "bool \<Rightarrow> bool \<Rightarrow> ring \<Rightarrow> ring" where
  "Ring_SetActive active cleanData r =
     (let r1 = r\<lparr>r_isActive := active\<rparr>
      in if \<not> active \<and> cleanData then r1\<lparr>r_head := 0, r_tail := 0\<rparr> else r1)"

definition Ring_SetReadBlocking :: "bool \<Rightarrow> ring \<Rightarrow> ring" where
  "Ring_SetReadBlocking b r = r\<lparr>r_isReadBlockingAllowed := b\<rparr>"

definition Ring_SetMediaOffset :: "nat \<Rightarrow> ring \<Rightarrow> ring" where
  "Ring_SetMediaOffset offset r = r\<lparr>r_mediaOffset := offset\<rparr>"

definition Ring_Clear :: "ring \<Rightarrow> ring" where
  "Ring_Clear r = r\<lparr>r_head := 0, r_tail := 0\<rparr>"

definition Ring_SetTail :: "nat \<Rightarrow> ring \<Rightarrow> ring" where
  "Ring_SetTail newTail r = (if newTail \<ge> r_head r then r\<lparr>r_tail := newTail\<rparr> else r)"

definition Ring_Seek :: "nat \<Rightarrow> ring \<Rightarrow> bool \<times> ring" where
  "Ring_Seek offset r =
     (if offset \<ge> r_mediaOffset r \<and> offset - r_mediaOffset r < Ring_GetSize r
      then (True, r\<lparr>r_head := add64 (r_head r) (offset - r_mediaOffset r), r_mediaOffset := offset\<rparr>)
      else if offset < r_mediaOffset r \<and> r_mediaOffset r - offset \<le> sub64 (r_bufferSize r) (Ring_GetSize r)
      then
        let minPosition = (if r_tail r > r_bufferSize r then r_tail r - r_bufferSize r else 0);
            maxInterval = sub64 (r_head r) minPosition;
            interval = r_mediaOffset r - offset
        in if interval \<le> maxInterval
           then (True, r\<lparr>r_head := sub64 (r_head r) interval, r_mediaOffset := offset\<rparr>) else (False, r)
      else (False, r))"

definition Ring_SetHead :: "nat \<Rightarrow> ring \<Rightarrow> bool \<times> ring" where
  "Ring_SetHead newHead r =
     (if newHead \<ge> r_head r \<and> newHead \<le> r_tail r
      then (True, r\<lparr>r_mediaOffset := add64 (r_mediaOffset r) (newHead - r_head r), r_head := newHead\<rparr>)
      else (False, r))"

section \<open>The copies\<close>

lemma mod_shift:
  fixes s :: nat
  assumes "0 < s" "k < s"
  shows "(t + k) mod s = (if t mod s + k < s then t mod s + k else t mod s + k - s)"
proof -
  have "(t + k) mod s = (t mod s + k) mod s" by (simp add: mod_add_left_eq)
  also have "\<dots> = (if t mod s + k < s then t mod s + k else t mod s + k - s)"
  proof (cases "t mod s + k < s")
    case False
    then have "t mod s + k - s < s" using assms mod_less_divisor [of s t] by linarith
    with False show ?thesis by (simp add: le_mod_geq)
  qed simp
  finally show ?thesis .
qed

lemma copy_in_length: "length buf = s \<Longrightarrow> idx < s \<Longrightarrow> length src \<le> s \<Longrightarrow> length (copy_in buf s idx src) = s"
  by (auto simp: copy_in_def)

lemma copy_in_nth:
  assumes "length buf = s" "0 < s" "length src \<le> s" "k < s"
  shows "copy_in buf s (t mod s) src ! ((t + k) mod s) = (if k < length src then src ! k else buf ! ((t + k) mod s))"
proof -
  let ?i = "t mod s"
  have i: "?i < s" using assms(2) by simp
  show ?thesis
  proof (cases "?i + length src < s")
    case True
    then show ?thesis
      using assms i by (auto simp: copy_in_def overwrite_nth mod_shift)
  next
    case False
    let ?b1 = "overwrite ?i (take (s - ?i) src) buf"
    have "length (drop (s - ?i) src) \<le> s" using assms(3) unfolding length_drop by linarith
    moreover have "length ?b1 = s" using False assms(1,3) i by simp
    moreover have m: "(t + k) mod s < s" using assms(2) by simp
    ultimately have c: "copy_in buf s ?i src ! ((t + k) mod s) =
        (if (t + k) mod s < length src - (s - ?i) then src ! (s - ?i + (t + k) mod s)
         else if ?i \<le> (t + k) mod s then src ! ((t + k) mod s - ?i) else buf ! ((t + k) mod s))"
      using False assms(1,3) i by (simp add: copy_in_def overwrite_nth diff_less_mono)
    show ?thesis
    proof (cases "?i + k < s")
      case True
      then have "(t + k) mod s = ?i + k" using assms by (simp add: mod_shift)
      moreover have "\<not> ?i + k < length src - (s - ?i)" "k < length src" using assms(3) False True by linarith+
      ultimately show ?thesis using c by simp
    next
      case wrap: False
      then have k: "(t + k) mod s = ?i + k - s" using assms by (simp add: mod_shift)
      moreover have "\<not> ?i \<le> ?i + k - s" "(?i + k - s < length src - (s - ?i)) = (k < length src)" "s - ?i + (?i + k - s) = k"
        using wrap assms(2-4) i by linarith+
      ultimately show ?thesis using c by simp
    qed
  qed
qed

lemma copy_out_map:
  assumes "length buf = s" "0 < s" "n \<le> s"
  shows "copy_out buf s (h mod s) n = map (\<lambda>k. buf ! ((h + k) mod s)) [0..<n]"
proof (rule nth_equalityI)
  have i: "h mod s < s" using assms(2) by simp
  show "length (copy_out buf s (h mod s) n) = length (map (\<lambda>k. buf ! ((h + k) mod s)) [0..<n])"
    using assms i by (auto simp: copy_out_def)
  fix k assume "k < length (copy_out buf s (h mod s) n)"
  then have k: "k < n" "k < s" using assms i by (auto simp: copy_out_def split: if_splits)
  then show "copy_out buf s (h mod s) n ! k = map (\<lambda>k. buf ! ((h + k) mod s)) [0..<n] ! k"
    using assms i by (auto simp: copy_out_def mod_shift nth_append add.commute)
qed

section \<open>The history\<close>

text \<open>
  \<open>ring_holds h r\<close>: \<open>h\<close> is everything written so far, and every position of it that is not more than the
  buffer's size behind the tail is still in its cell. \<open>base\<close> is the file offset of the first byte of the history.
\<close>

definition ring_holds :: "8 word list \<Rightarrow> ring \<Rightarrow> bool" where
  "ring_holds h r =
     (0 < r_bufferSize r \<and> length (r_buffer r) = r_bufferSize r \<and> r_tail r = length h \<and>
      r_head r \<le> r_tail r \<and> r_tail r \<le> r_head r + r_bufferSize r \<and> r_tail r + r_bufferSize r < 2 ^ 64 \<and>
      (\<forall>p < length h. length h \<le> p + r_bufferSize r \<longrightarrow> r_buffer r ! (p mod r_bufferSize r) = h ! p))"

definition ring_at :: "int \<Rightarrow> ring \<Rightarrow> bool" where
  "ring_at base r = (int (r_mediaOffset r) = base + int (r_head r) \<and> base + int (r_tail r) < 2 ^ 64)"

lemma add64_id: "a + b < 2 ^ 64 \<Longrightarrow> add64 a b = a + b"
  by (simp add: add64_def)

lemma sub64_id: "b \<le> a \<Longrightarrow> sub64 a b = a - b"
  by (simp add: sub64_def)

lemma ring_GetSize: "ring_holds h r \<Longrightarrow> Ring_GetSize r = length h - r_head r"
  by (simp add: Ring_GetSize_def ring_holds_def sub64_id)

lemma ring_read_slice:
  assumes "ring_holds h r" "n \<le> length h - r_head r"
  shows "copy_out (r_buffer r) (r_bufferSize r) (r_head r mod r_bufferSize r) n = take n (drop (r_head r) h)"
proof -
  have "n \<le> r_bufferSize r" using assms by (auto simp: ring_holds_def)
  then have "copy_out (r_buffer r) (r_bufferSize r) (r_head r mod r_bufferSize r) n =
      map (\<lambda>k. r_buffer r ! ((r_head r + k) mod r_bufferSize r)) [0..<n]"
    using assms(1) by (intro copy_out_map) (auto simp: ring_holds_def)
  also have "\<dots> = map (\<lambda>k. h ! (r_head r + k)) [0..<n]"
    using assms by (intro map_cong refl) (auto simp: ring_holds_def)
  also have "\<dots> = take n (drop (r_head r) h)"
    using assms by (intro nth_equalityI) (auto simp: ring_holds_def)
  finally show ?thesis .
qed

lemma ReadBuffer_holds:
  assumes "ring_holds h r" "ReadBuffer others True n 0 r = (k, bytes, r')" "r_isActive r" "r_isReadBlockingAllowed r"
  shows "k = min n (length h - r_head r) \<and> bytes = take k (drop (r_head r) h) \<and> ring_holds h r' \<and>
    r_head r' = r_head r + k \<and> r_mediaOffset r' = add64 (r_mediaOffset r) k \<and> r_tail r' = r_tail r"
proof -
  have "k = min n (length h - r_head r)"
    using assms ring_GetSize [OF assms(1)] by (auto simp: ReadBuffer_def Let_def split: if_splits)
  moreover have "add64 (r_head r) k = r_head r + k"
    using calculation assms(1) by (intro add64_id) (auto simp: ring_holds_def)
  moreover have "bytes = copy_out (r_buffer r) (r_bufferSize r) (r_head r mod r_bufferSize r) k"
    "r' = r\<lparr>r_head := add64 (r_head r) k, r_mediaOffset := add64 (r_mediaOffset r) k\<rparr>"
    using assms(2-4) by (auto simp: ReadBuffer_def Let_def split: if_splits)
  ultimately show ?thesis
    using assms(1) ring_read_slice [OF assms(1), of k] by (auto simp: ring_holds_def)
qed

lemma write_holds:
  assumes h: "ring_holds h r" and room: "length h + length xs \<le> r_head r + r_bufferSize r"
    "length h + length xs + r_bufferSize r < 2 ^ 64"
  shows "ring_holds (h @ xs) (r\<lparr>r_buffer := copy_in (r_buffer r) (r_bufferSize r) (r_tail r mod r_bufferSize r) xs,
    r_tail := add64 (r_tail r) (length xs)\<rparr>)"
proof -
  let ?s = "r_bufferSize r" and ?t = "length h"
  have s: "0 < ?s" "length (r_buffer r) = ?s" "r_tail r = ?t" "r_head r \<le> ?t" "length xs \<le> ?s"
    using h room by (auto simp: ring_holds_def)
  have "copy_in (r_buffer r) ?s (?t mod ?s) xs ! (p mod ?s) = (h @ xs) ! p"
    if p: "p < ?t + length xs" "?t + length xs \<le> p + ?s" for p
  proof (cases "p < ?t")
    case False
    then obtain k where k: "p = ?t + k" "k < length xs" using p by (metis add_less_cancel_left le_add_diff_inverse not_less)
    with s copy_in_nth [of "r_buffer r" ?s xs k ?t] show ?thesis by simp
  next
    case True
    define k where "k = p + ?s - ?t"
    have k: "p + ?s = ?t + k" "k < ?s" "length xs \<le> k" using p True by (auto simp: k_def)
    have "p mod ?s = (?t + k) mod ?s" by (metis k(1) mod_add_self2)
    then have "copy_in (r_buffer r) ?s (?t mod ?s) xs ! (p mod ?s) = r_buffer r ! (p mod ?s)"
      using copy_in_nth [OF s(2,1,5) k(2), of ?t] k(3) by simp
    also have "\<dots> = h ! p" using h True p by (auto simp: ring_holds_def)
    finally show ?thesis using True by (simp add: nth_append)
  qed
  then show ?thesis
    using h room s by (auto simp: ring_holds_def add64_id copy_in_length)
qed

lemma WriteBuffer_holds:
  assumes h: "ring_holds h r" and w: "WriteBuffer id True xs r = Some (True, r')"
    and room: "length h + length xs + r_bufferSize r < 2 ^ 64"
  shows "ring_holds (h @ xs) r' \<and> r_head r' = r_head r \<and> r_mediaOffset r' = r_mediaOffset r \<and> r_isActive r' = r_isActive r \<and>
    r_isReadBlockingAllowed r' = r_isReadBlockingAllowed r \<and> r_bufferSize r' = r_bufferSize r"
proof -
  have nb: "\<not> write_blocked (length xs) r" and r': "r' = r\<lparr>r_buffer := copy_in (r_buffer r) (r_bufferSize r) (r_tail r mod r_bufferSize r) xs,
      r_tail := add64 (r_tail r) (length xs)\<rparr>"
    using w by (auto simp: WriteBuffer_def Let_def split: if_splits)
  have "add64 (length xs) (r_tail r) = length xs + length h" "add64 (r_head r) (r_bufferSize r) = r_head r + r_bufferSize r"
    using h room by (auto intro!: add64_id simp: ring_holds_def)
  then have "length h + length xs \<le> r_head r + r_bufferSize r" using nb by (simp add: write_blocked_def)
  from write_holds [OF h this room] r' show ?thesis by simp
qed

lemma Seek_holds:
  assumes h: "ring_holds h r" and b: "ring_at base r" and sk: "Ring_Seek offset r = (ok, r')"
  shows "ring_holds h r' \<and> ring_at base r' \<and> r_bufferSize r' = r_bufferSize r \<and> (ok \<longrightarrow> int (r_head r') = int offset - base) \<and>
    (\<not> ok \<longrightarrow> r' = r)"
proof -
  have sz: "Ring_GetSize r = length h - r_head r" by (rule ring_GetSize [OF h])
  have t: "r_tail r = length h" "r_head r \<le> length h" "length h \<le> r_head r + r_bufferSize r" "length h + r_bufferSize r < 2 ^ 64"
    using h by (auto simp: ring_holds_def)
  consider (fwd) "offset \<ge> r_mediaOffset r" "offset - r_mediaOffset r < length h - r_head r"
    | (bwd) "offset < r_mediaOffset r" "r_mediaOffset r - offset \<le> r_head r - (length h - r_bufferSize r)" "ok"
    | (no) "\<not> ok" "r' = r"
    using sk sz t by (auto simp: Ring_Seek_def Let_def sub64_id split: if_splits)
  then show ?thesis
  proof cases
    case fwd
    then have "add64 (r_head r) (offset - r_mediaOffset r) = r_head r + (offset - r_mediaOffset r)"
      using t by (intro add64_id) linarith
    then have "r' = r\<lparr>r_head := r_head r + (offset - r_mediaOffset r), r_mediaOffset := offset\<rparr>" "ok"
      using sk fwd sz by (auto simp: Ring_Seek_def)
    then show ?thesis using h b fwd by (auto simp: ring_holds_def ring_at_def)
  next
    case bwd
    then have "r' = r\<lparr>r_head := r_head r - (r_mediaOffset r - offset), r_mediaOffset := offset\<rparr>"
      using sk t by (auto simp: Ring_Seek_def Let_def sub64_id split: if_splits)
    then show ?thesis using h b bwd by (auto simp: ring_holds_def ring_at_def)
  next
    case no
    then show ?thesis using h b by simp
  qed
qed

lemma SetHead_holds:
  assumes "ring_holds h r" "ring_at base r" "Ring_SetHead p r = (ok, r')"
  shows "ring_holds h r' \<and> ring_at base r' \<and> r_bufferSize r' = r_bufferSize r"
proof (cases "r_head r \<le> p \<and> p \<le> r_tail r")
  case True
  then have "add64 (r_mediaOffset r) (p - r_head r) = r_mediaOffset r + (p - r_head r)"
    using assms(2) by (intro add64_id) (auto simp: ring_at_def)
  with True assms show ?thesis by (auto simp: Ring_SetHead_def ring_holds_def ring_at_def)
next
  case False
  then show ?thesis using assms by (auto simp: Ring_SetHead_def)
qed

section \<open>Sequences of operations\<close>

datatype ring_op = RWrite "8 word list" | RRead nat | RSeek nat | RSetHead nat

text \<open>
  One operation on an active ring: the bytes it wrote, and for a read the file offset it read at with the bytes it returned.
  \<open>None\<close> is a write that has to wait, or positions that would reach $2^{64}$.
\<close>

fun ring_step :: "ring_op \<Rightarrow> ring \<Rightarrow> (8 word list \<times> (nat \<times> 8 word list) list \<times> ring) option" where
  "ring_step (RWrite xs) r =
     (if r_tail r + length xs + r_bufferSize r < 2 ^ 64 \<and> r_mediaOffset r + (r_tail r - r_head r) + length xs < 2 ^ 64 then
        case WriteBuffer id True xs r of Some (True, r') \<Rightarrow> Some (xs, [], r') | _ \<Rightarrow> None
      else None)"
| "ring_step (RRead n) r = (case ReadBuffer id True n 0 r of (k, bytes, r') \<Rightarrow> Some ([], [(r_mediaOffset r, bytes)], r'))"
| "ring_step (RSeek offset) r = Some ([], [], snd (Ring_Seek offset r))"
| "ring_step (RSetHead p) r = Some ([], [], snd (Ring_SetHead p r))"

fun ring_run :: "ring_op list \<Rightarrow> ring \<Rightarrow> (8 word list \<times> (nat \<times> 8 word list) list \<times> ring) option" where
  "ring_run [] r = Some ([], [], r)"
| "ring_run (op # ops) r =
     (case ring_step op r of None \<Rightarrow> None
      | Some (w1, rd1, r1) \<Rightarrow> (case ring_run ops r1 of None \<Rightarrow> None
          | Some (w2, rd2, r2) \<Rightarrow> Some (w1 @ w2, rd1 @ rd2, r2)))"

definition ring_live :: "ring \<Rightarrow> bool" where
  "ring_live r = (r_isActive r \<and> r_isReadBlockingAllowed r)"

text \<open>A read at file offset \<open>o\<close> is right for a history that starts at \<open>base\<close>.\<close>

definition right_read :: "int \<Rightarrow> 8 word list \<Rightarrow> nat \<times> 8 word list \<Rightarrow> bool" where
  "right_read base h rd = (snd rd = take (length (snd rd)) (drop (nat (int (fst rd) - base)) h))"

lemma right_read_append: "right_read base h rd \<Longrightarrow> right_read base (h @ xs) rd"
  unfolding right_read_def
  by (cases "length (snd rd) = 0") (auto simp: take_all_iff dest!: arg_cong [where f = length])

lemma ring_step_ok:
  assumes "ring_holds h r" "ring_at base r" "ring_live r" "ring_step op r = Some (w, rds, r')"
  shows "ring_holds (h @ w) r' \<and> ring_at base r' \<and> ring_live r' \<and> list_all (right_read base (h @ w)) rds"
proof (cases op)
  case (RWrite xs)
  then have g: "length h + length xs + r_bufferSize r < 2 ^ 64" "r_mediaOffset r + (r_tail r - r_head r) + length xs < 2 ^ 64"
    "WriteBuffer id True xs r = Some (True, r')" "w = xs" "rds = []"
    using assms(1,4) by (auto simp: ring_holds_def split: if_splits option.splits prod.splits bool.splits)
  from WriteBuffer_holds [OF assms(1) g(3,1)] have "ring_holds (h @ xs) r'" "r_head r' = r_head r"
    "r_mediaOffset r' = r_mediaOffset r" "ring_live r'" using assms(3) by (auto simp: ring_live_def)
  moreover from this have "ring_at base r'"
    using assms(1,2) g(2) by (auto simp: ring_at_def ring_holds_def)
  ultimately show ?thesis using g by simp
next
  case (RRead n)
  then obtain k bytes where rd: "ReadBuffer id True n 0 r = (k, bytes, r')" "w = []" "rds = [(r_mediaOffset r, bytes)]"
    using assms(4) by (auto split: prod.splits)
  have a: "r_isActive r" "r_isReadBlockingAllowed r" using assms(3) by (auto simp: ring_live_def)
  have k: "k = min n (length h - r_head r)" "bytes = take k (drop (r_head r) h)" "ring_holds h r'"
    "r_head r' = r_head r + k" "r_mediaOffset r' = add64 (r_mediaOffset r) k" "r_tail r' = r_tail r"
    using ReadBuffer_holds [OF assms(1) rd(1) a] by auto
  have "r_mediaOffset r' = r_mediaOffset r + k"
    unfolding k(5) by (rule add64_id) (use assms(1,2) k(1) in \<open>auto simp: ring_at_def ring_holds_def\<close>)
  then have "ring_at base r'" using assms(2) k(4,6) by (auto simp: ring_at_def)
  moreover have "ring_live r'" using rd(1) a by (auto simp: ReadBuffer_def ring_live_def Let_def split: if_splits)
  moreover have "length bytes = k" using k(1,2) by simp
  then have "right_read base h (r_mediaOffset r, bytes)" using k(2) assms(2) by (simp add: right_read_def ring_at_def)
  ultimately show ?thesis using rd k(3) by simp
next
  case (RSeek offset)
  moreover obtain ok r1 where "Ring_Seek offset r = (ok, r1)" by fastforce
  moreover from this have "ring_live r1 = ring_live r" by (auto simp: Ring_Seek_def ring_live_def Let_def split: if_splits)
  ultimately show ?thesis using Seek_holds [OF assms(1,2)] assms(3,4) by auto
next
  case (RSetHead p)
  moreover obtain ok r1 where "Ring_SetHead p r = (ok, r1)" by fastforce
  moreover from this have "ring_live r1 = ring_live r" by (auto simp: Ring_SetHead_def ring_live_def split: if_splits)
  ultimately show ?thesis using SetHead_holds [OF assms(1,2)] assms(3,4) by auto
qed

lemma ring_run_ok:
  "ring_holds h r \<Longrightarrow> ring_at base r \<Longrightarrow> ring_live r \<Longrightarrow> ring_run ops r = Some (w, rds, r') \<Longrightarrow>
     ring_holds (h @ w) r' \<and> ring_at base r' \<and> ring_live r' \<and> list_all (right_read base (h @ w)) rds"
proof (induction ops arbitrary: h r w rds)
  case (Cons op ops)
  then obtain w1 rd1 r1 w2 rd2 where s: "ring_step op r = Some (w1, rd1, r1)" "ring_run ops r1 = Some (w2, rd2, r')"
    "w = w1 @ w2" "rds = rd1 @ rd2" by (auto split: option.splits)
  have s1: "ring_holds (h @ w1) r1" "ring_at base r1" "ring_live r1" "list_all (right_read base (h @ w1)) rd1"
    using ring_step_ok [OF Cons.prems(1-3) s(1)] by auto
  then have "list_all (right_read base ((h @ w1) @ w2)) rd1"
    unfolding list_all_iff using right_read_append by blast
  with Cons.IH [OF s1(1-3) s(2)] s(3,4) show ?case by simp
qed simp

section \<open>The ring as a byte stream\<close>

definition ring_view :: "ring \<Rightarrow> 8 word list" where
  "ring_view r = map (\<lambda>k. r_buffer r ! ((r_head r + k) mod r_bufferSize r)) [0..<r_tail r - r_head r]"

definition ring_inv :: "ring \<Rightarrow> bool" where
  "ring_inv r = (ring_live r \<and> (\<exists>h. ring_holds h r))"

definition ring_put :: "8 word list \<Rightarrow> ring \<Rightarrow> ring option" where
  "ring_put xs r =
     (if r_tail r + length xs + r_bufferSize r < 2 ^ 64 then
        case WriteBuffer id True xs r of Some (True, r') \<Rightarrow> Some r' | _ \<Rightarrow> None
      else None)"

definition ring_get :: "nat \<Rightarrow> ring \<Rightarrow> (8 word list \<times> ring) option" where
  "ring_get n r = (case ReadBuffer id True n 0 r of (k, bytes, r') \<Rightarrow> Some (bytes, r'))"

lemma ring_view_history:
  assumes "ring_holds h r"
  shows "ring_view r = drop (r_head r) h"
proof -
  have "ring_view r = copy_out (r_buffer r) (r_bufferSize r) (r_head r mod r_bufferSize r) (length h - r_head r)"
    unfolding ring_view_def using assms by (subst copy_out_map) (auto simp: ring_holds_def)
  then show ?thesis using ring_read_slice [OF assms order_refl] by simp
qed

interpretation rb: byte_stream ring_inv ring_view ring_put ring_get
proof unfold_locales
  fix r r' :: ring and xs
  assume inv: "ring_inv r" and p: "ring_put xs r = Some r'"
  then obtain h where h: "ring_holds h r" by (auto simp: ring_inv_def)
  have w: "WriteBuffer id True xs r = Some (True, r')" "length h + length xs + r_bufferSize r < 2 ^ 64"
    using p h by (auto simp: ring_put_def ring_holds_def split: if_splits option.splits prod.splits bool.splits)
  have "ring_holds (h @ xs) r'" "r_head r' = r_head r" "ring_live r'"
    using WriteBuffer_holds [OF h w] inv by (auto simp: ring_inv_def ring_live_def)
  moreover have "r_head r \<le> length h" using h by (simp add: ring_holds_def)
  ultimately show "ring_inv r' \<and> ring_view r' = ring_view r @ xs"
    using ring_view_history [OF h] ring_view_history [of "h @ xs" r'] unfolding ring_inv_def by auto
next
  fix r r' :: ring and n ys
  assume inv: "ring_inv r" and g: "ring_get n r = Some (ys, r')"
  then obtain h where h: "ring_holds h r" and a: "r_isActive r" "r_isReadBlockingAllowed r"
    by (auto simp: ring_inv_def ring_live_def)
  obtain k where rd: "ReadBuffer id True n 0 r = (k, ys, r')" using g by (auto simp: ring_get_def split: prod.splits)
  have "ys = take k (drop (r_head r) h)" "ring_holds h r'" "r_head r' = r_head r + k"
    using ReadBuffer_holds [OF h rd a] by auto
  moreover have "ring_live r'" using rd a by (auto simp: ReadBuffer_def ring_live_def Let_def split: if_splits)
  ultimately show "ring_inv r' \<and> ring_view r = ys @ ring_view r'"
    using h append_take_drop_id [of k "drop (r_head r) h"] by (auto simp: ring_inv_def ring_view_history add.commute)
qed

section \<open>Properties\<close>

definition ring3 :: ring where
  "ring3 = Ring_Init (RingBuffer 3)"

lemma ring3_ok: "ring_holds [] ring3" "ring_at 0 ring3" "ring_live ring3" "ring_inv ring3" "ring_view ring3 = []"
  by (auto simp: ring3_def Ring_Init_def RingBuffer_def ring_holds_def ring_at_def ring_live_def ring_inv_def ring_view_def)

lemmas ring_eval = ring3_def Ring_Init_def RingBuffer_def WriteBuffer_def ReadBuffer_def Ring_Seek_def write_blocked_def
  Ring_GetSize_def copy_in_def copy_out_def overwrite_def add64_def sub64_def Let_def

text \<open>C3: Over any sequence of writes, reads, seeks (forward or backward) and head moves on an active ring, every read returns
  the bytes that were written for the file offset the ring reports at that moment: the wrap-around of the buffer, the
  overwriting of old data and the bounds of a backward seek never show stale or foreign bytes.
\<close>

theorem ring_reads_history:
  assumes "ring_holds h r" "ring_at base r" "ring_live r" "ring_run ops r = Some (written, rds, r')"
  shows "\<forall>(offset, bytes) \<in> set rds. bytes = take (length bytes) (drop (nat (int offset - base)) (h @ written))"
  using ring_run_ok [OF assms] by (auto simp: list_all_iff right_read_def)

theorem ring_reads_history_witness:
  "\<exists>r'. ring_run [RWrite [1, 2], RRead 2, RWrite [3, 4], RSeek 1, RRead 5] ring3 =
      Some ([1, 2, 3, 4], [(0, [1, 2]), (1, [2, 3, 4])], r') \<and>
    (\<forall>(offset, bytes) \<in> {(0 :: nat, [1, 2 :: 8 word]), (1, [2, 3, 4])}. bytes = take (length bytes) (drop (nat (int offset - 0)) ([] @ [1, 2, 3, 4])))"
proof -
  obtain r' where r: "ring_run [RWrite [1, 2], RRead 2, RWrite [3, 4], RSeek 1, RRead 5] ring3 =
      Some ([1, 2, 3, 4], [(0, [1, 2]), (1, [2, 3, 4])], r')"
    by (simp add: ring_eval)
  with ring_reads_history [OF ring3_ok(1-3) r] show ?thesis by (auto simp: r)
qed

text \<open>As a byte stream the ring loses, repeats and reorders nothing: what was read followed by what is still unread is
  what was unread at the start followed by what was written.
\<close>

theorem ring_stream:
  assumes "ring_inv r" "stream_run ring_put ring_get ops r = Some (written, read, r')"
  shows "ring_view r @ written = read @ ring_view r' \<and> ring_inv r'"
  using rb.stream_run_view [OF assms] by blast

theorem ring_stream_witness:
  "\<exists>r'. stream_run ring_put ring_get [SPut [1, 2, 3], SGet 2, SPut [4, 5], SGet 3] ring3 =
      Some ([1, 2, 3, 4, 5], [1, 2, 3, 4, 5], r') \<and> ring_view r' = []"
proof -
  obtain r' where r: "stream_run ring_put ring_get [SPut [1, 2, 3], SGet 2, SPut [4, 5], SGet 3] ring3 =
      Some ([1, 2, 3, 4, 5], [1, 2, 3, 4, 5], r')"
    by (simp add: ring_eval ring_put_def ring_get_def)
  with ring_stream [OF ring3_ok(4) r] ring3_ok(5) show ?thesis by simp
qed

text \<open>\<^verbatim>\<open>SetTail\<close> breaks that guarantee. Rolling the tail back makes a backward seek accept positions whose cells the dropped
  bytes have already overwritten: after writing 1 2 3, reading them, writing 4 5 and rolling those back, a seek to offset 0 succeeds and the read
  there returns 4 5 3 instead of 1 2 3.
\<close>

theorem SetTail_rollback_stale:
  "case WriteBuffer id True [1, 2, 3] ring3 of Some (_, r1) \<Rightarrow>
     (case ReadBuffer id True 3 0 r1 of (_, first, r2) \<Rightarrow>
        (case WriteBuffer id True [4, 5] r2 of Some (_, r3) \<Rightarrow>
           (case Ring_Seek 0 (Ring_SetTail 3 r3) of (ok, r4) \<Rightarrow>
              (case ReadBuffer id True 3 0 r4 of (_, again, _) \<Rightarrow> ok \<and> first = [1, 2, 3] \<and> again = [4, 5, 3]))))"
  by (simp add: ring_eval Ring_SetTail_def)

end
