(* ===== verification/Shared_Memory_Pool.thy ===== *)
theory Shared_Memory_Pool
  imports Prelude
begin

text \<open>
  The pool of shared memory blocks, \<^verbatim>\<open>src/common/avsharedmemorypool.cpp\<close>. A block is its address, a number; the heap
  of the model maps the addresses of the blocks that exist to their sizes, so that a leak or a use after free is visible.
  Whether the kernel grants the memory of the n-th allocation is the parameter \<open>ash\<close>. A blocking acquire gives the mutex up at each wait: the
  list \<open>wakes\<close> holds what the other threads did before each wake-up, and \<open>None\<close> is a wait that nobody ends.
\<close>

section \<open>State\<close>

record InitializeOption =
  o_preAllocMemCnt :: nat
  o_memSize :: int
  o_maxMemCnt :: nat
  o_enableFixedSize :: bool
  o_notifier :: bool

record pool =
  p_option :: InitializeOption
  p_idleList :: "nat list"
  p_busyList :: "nat list"
  p_inited :: bool
  p_notifier :: bool
  p_forceNonBlocking :: bool
  p_heap :: "nat \<Rightarrow> int option"
  p_allocs :: nat
  p_notified :: nat

definition MAX_MEM_SIZE :: int where
  "MAX_MEM_SIZE = 100 * 1024 * 1024"

definition MAX_MEM_CNT :: nat where
  "MAX_MEM_CNT = 10 * 1024"

definition AVSharedMemoryPool :: pool where
  "AVSharedMemoryPool =
     \<lparr>p_option = \<lparr>o_preAllocMemCnt = 0, o_memSize = 0, o_maxMemCnt = 0, o_enableFixedSize = True, o_notifier = False\<rparr>,
      p_idleList = [], p_busyList = [], p_inited = False, p_notifier = False, p_forceNonBlocking = False,
      p_heap = Map.empty, p_allocs = 0, p_notified = 0\<rparr>"

section \<open>Operations\<close>

text \<open>\<^verbatim>\<open>AVSharedMemoryBase::GetSize\<close> of a block that was initialised is its capacity.\<close>

definition mem_size :: "pool \<Rightarrow> nat \<Rightarrow> int" where
  "mem_size p m = (case p_heap p m of None \<Rightarrow> -1 | Some s \<Rightarrow> s)"

definition AllocMemory :: "(nat \<Rightarrow> int \<Rightarrow> bool) \<Rightarrow> int \<Rightarrow> pool \<Rightarrow> nat option \<times> pool" where
  "AllocMemory ash sz p =
     (let p1 = p\<lparr>p_allocs := p_allocs p + 1\<rparr>
      in if sz > 0 \<and> ash (p_allocs p) sz then (Some (p_allocs p), p1\<lparr>p_heap := (p_heap p1)(p_allocs p \<mapsto> sz)\<rparr>)
         else (None, p1))"

definition delete_mem :: "nat \<Rightarrow> pool \<Rightarrow> pool" where
  "delete_mem m p = p\<lparr>p_heap := (p_heap p)(m := None)\<rparr>"

fun prealloc :: "(nat \<Rightarrow> int \<Rightarrow> bool) \<Rightarrow> nat \<Rightarrow> pool \<Rightarrow> bool \<times> pool" where
  "prealloc ash 0 p = (True, p)"
| "prealloc ash (Suc n) p =
     (case AllocMemory ash (o_memSize (p_option p)) p of
        (None, p1) \<Rightarrow> (False, p1)
      | (Some m, p1) \<Rightarrow> prealloc ash n (p1\<lparr>p_idleList := p_idleList p1 @ [m]\<rparr>))"

definition Pool_Init :: "(nat \<Rightarrow> int \<Rightarrow> bool) \<Rightarrow> InitializeOption \<Rightarrow> pool \<Rightarrow> int \<times> pool" where
  "Pool_Init ash option p =
     (if p_inited p then (-1, p)
      else if \<not> o_memSize option < MAX_MEM_SIZE then (-1, p)
      else if \<not> (o_maxMemCnt option > 0 \<and> o_maxMemCnt option \<le> MAX_MEM_CNT) then (-1, p)
      else
        let opt = option\<lparr>o_preAllocMemCnt := min (o_preAllocMemCnt option) (o_maxMemCnt option)\<rparr>
        in case prealloc ash (o_preAllocMemCnt opt) (p\<lparr>p_option := opt\<rparr>) of
             (ok, p1) \<Rightarrow> if \<not> ok then (-1, p1) else (0, p1\<lparr>p_inited := True, p_notifier := o_notifier option\<rparr>))"

definition ReleaseMemory :: "nat \<Rightarrow> pool \<Rightarrow> pool" where
  "ReleaseMemory m p =
     (if m \<in> set (p_busyList p) then
        let p1 = p\<lparr>p_busyList := remove1 m (p_busyList p), p_idleList := p_idleList p @ [m]\<rparr>
        in if p_notifier p1 then p1\<lparr>p_notified := p_notified p1 + 1\<rparr> else p1
      else delete_mem m p)"

text \<open>The scan of the idle list: the first block that is large enough, and the smallest block seen before it.\<close>

fun scan_idle :: "(nat \<Rightarrow> int) \<Rightarrow> int \<Rightarrow> nat list \<Rightarrow> int \<Rightarrow> nat option \<Rightarrow> nat option \<times> nat option" where
  "scan_idle size_of sz [] minIdleSize minSizeIdleMem = (None, minSizeIdleMem)"
| "scan_idle size_of sz (m # ms) minIdleSize minSizeIdleMem =
     (if size_of m \<ge> sz then (Some m, minSizeIdleMem)
      else if size_of m < minIdleSize then scan_idle size_of sz ms (size_of m) (Some m)
      else scan_idle size_of sz ms minIdleSize minSizeIdleMem)"

definition DoAcquireMemory :: "(nat \<Rightarrow> int \<Rightarrow> bool) \<Rightarrow> int \<Rightarrow> pool \<Rightarrow> bool \<times> nat option \<times> pool" where
  "DoAcquireMemory ash sz p =
     (case scan_idle (mem_size p) sz (p_idleList p) (2 ^ 31 - 1) None of
        (Some m, _) \<Rightarrow> (True, Some m, p\<lparr>p_idleList := remove1 m (p_idleList p)\<rparr>)
      | (None, minSizeIdleMem) \<Rightarrow>
          if length (p_busyList p) + length (p_idleList p) < o_maxMemCnt (p_option p) then
            (case AllocMemory ash sz p of (None, p1) \<Rightarrow> (False, None, p1) | (Some m, p1) \<Rightarrow> (True, Some m, p1))
          else
            (case minSizeIdleMem of
               Some x \<Rightarrow>
                 if \<not> o_enableFixedSize (p_option p) then
                   let p1 = delete_mem x p;
                       p2 = p1\<lparr>p_idleList := remove1 x (p_idleList p1)\<rparr>
                   in (case AllocMemory ash sz p2 of (None, p3) \<Rightarrow> (False, None, p3) | (Some m, p3) \<Rightarrow> (True, Some m, p3))
                 else (True, None, p)
             | None \<Rightarrow> (True, None, p)))"

definition CheckSize :: "int \<Rightarrow> pool \<Rightarrow> bool" where
  "CheckSize sz p =
     (if sz \<le> 0 \<and> sz \<noteq> -1 then False
      else if \<not> o_enableFixedSize (p_option p) \<and> sz = -1 then False
      else if o_enableFixedSize (p_option p) \<and> sz > o_memSize (p_option p) then False
      else True)"

fun acquire_loop ::
  "(nat \<Rightarrow> int \<Rightarrow> bool) \<Rightarrow> int \<Rightarrow> bool \<Rightarrow> (pool \<Rightarrow> pool) list \<Rightarrow> pool \<Rightarrow> (nat option \<times> pool) option" where
  "acquire_loop ash sz blocking [] p =
     (case DoAcquireMemory ash sz p of (ok, memory, p1) \<Rightarrow>
        if \<not> ok \<or> memory \<noteq> None then Some (memory, p1)
        else if \<not> blocking \<or> p_forceNonBlocking p1 then Some (memory, p1) else None)"
| "acquire_loop ash sz blocking (wake # wakes) p =
     (case DoAcquireMemory ash sz p of (ok, memory, p1) \<Rightarrow>
        if \<not> ok \<or> memory \<noteq> None then Some (memory, p1)
        else if \<not> blocking \<or> p_forceNonBlocking p1 then Some (memory, p1)
        else
          let p2 = wake p1
          in if p_inited p2 \<and> \<not> p_forceNonBlocking p2 then acquire_loop ash sz blocking wakes p2
             else Some (memory, p2))"

definition AcquireMemory ::
  "(nat \<Rightarrow> int \<Rightarrow> bool) \<Rightarrow> int \<Rightarrow> bool \<Rightarrow> (pool \<Rightarrow> pool) list \<Rightarrow> pool \<Rightarrow> (nat option \<times> pool) option" where
  "AcquireMemory ash sz blocking wakes p =
     (if \<not> CheckSize sz p then Some (None, p)
      else
        let sz1 = (if o_enableFixedSize (p_option p) then o_memSize (p_option p) else sz)
        in case acquire_loop ash sz1 blocking wakes p of
             None \<Rightarrow> None
           | Some (None, p1) \<Rightarrow> Some (None, p1)
           | Some (Some m, p1) \<Rightarrow> Some (Some m, p1\<lparr>p_busyList := p_busyList p1 @ [m]\<rparr>))"

definition SetNonBlocking :: "bool \<Rightarrow> pool \<Rightarrow> pool" where
  "SetNonBlocking enable p = p\<lparr>p_forceNonBlocking := enable\<rparr>"

definition Pool_Reset :: "pool \<Rightarrow> pool" where
  "Pool_Reset p =
     p\<lparr>p_heap := (\<lambda>m. if m \<in> set (p_idleList p) then None else p_heap p m), p_idleList := [], p_inited := False,
       p_forceNonBlocking := False, p_notifier := False\<rparr>"

section \<open>Invariant\<close>

text \<open>
  Every block that exists is in exactly one of the two lists, exactly once: nothing is leaked, freed while in use
  or handed out twice.
\<close>

definition pool_wf :: "pool \<Rightarrow> bool" where
  "pool_wf p =
     (distinct (p_idleList p @ p_busyList p) \<and> dom (p_heap p) = set (p_idleList p) \<union> set (p_busyList p) \<and>
      (\<forall>m \<in> dom (p_heap p). m < p_allocs p \<and> 0 < mem_size p m))"

definition total :: "pool \<Rightarrow> nat" where
  "total p = length (p_idleList p) + length (p_busyList p)"

lemma pool_frame [simp]:
  "pool_wf (p\<lparr>p_inited := b\<rparr>) = pool_wf p" "pool_wf (p\<lparr>p_notifier := b\<rparr>) = pool_wf p"
  "pool_wf (p\<lparr>p_option := opt\<rparr>) = pool_wf p" "pool_wf (p\<lparr>p_forceNonBlocking := b\<rparr>) = pool_wf p"
  "total (p\<lparr>p_inited := b\<rparr>) = total p" "total (p\<lparr>p_notifier := b\<rparr>) = total p" "total (p\<lparr>p_option := opt\<rparr>) = total p"
  by (simp_all add: pool_wf_def mem_size_def total_def)

lemma length_remove1_Suc: "m \<in> set xs \<Longrightarrow> Suc (length (remove1 m xs)) = length xs"
  by (induction xs) auto

lemma scan_idle_found:
  "scan_idle f sz ms k x = (Some m, y) \<Longrightarrow> m \<in> set ms \<and> sz \<le> f m"
  by (induction ms arbitrary: k x) (auto split: if_splits)

lemma scan_idle_min:
  "scan_idle f sz ms k x = (None, Some m) \<Longrightarrow> m \<in> set ms \<or> x = Some m"
  by (induction ms arbitrary: k x) (auto split: if_splits)

lemma scan_idle_none:
  "scan_idle f sz ms k x = (None, y) \<Longrightarrow> \<forall>m \<in> set ms. f m < sz"
  by (induction ms arbitrary: k x) (auto split: if_splits)

text \<open>With sizes below the initial minimum, a failed scan of a non-empty list yields a block to replace.\<close>

lemma scan_idle_some_min:
  "scan_idle f sz ms k x = (None, y) \<Longrightarrow> ms \<noteq> [] \<Longrightarrow> \<forall>m \<in> set ms. f m < k \<Longrightarrow> y \<noteq> None"
proof (induction ms arbitrary: k x)
  case (Cons m ms)
  have keeps: "scan_idle f sz ms' k' (Some z) = (None, y) \<Longrightarrow> y \<noteq> None" for ms' k' z
    by (induction ms' arbitrary: k' z) (auto split: if_splits)
  from Cons.prems show ?case by (auto split: if_splits dest: keeps)
qed simp

lemma AllocMemory_wf:
  assumes "pool_wf p" "AllocMemory ash sz p = (r, p1)"
  shows "p_option p1 = p_option p \<and> p_idleList p1 = p_idleList p \<and> p_busyList p1 = p_busyList p \<and>
    (case r of None \<Rightarrow> pool_wf p1
     | Some m \<Rightarrow> pool_wf (p1\<lparr>p_busyList := p_busyList p1 @ [m]\<rparr>) \<and> pool_wf (p1\<lparr>p_idleList := p_idleList p1 @ [m]\<rparr>) \<and>
         mem_size p1 m = sz)"
proof -
  have fresh: "p_allocs p \<notin> set (p_idleList p)" "p_allocs p \<notin> set (p_busyList p)"
    using assms(1) unfolding pool_wf_def by auto
  show ?thesis
  proof (cases "sz > 0 \<and> ash (p_allocs p) sz")
    case True
    then have "r = Some (p_allocs p)" "p1 = p\<lparr>p_allocs := p_allocs p + 1, p_heap := (p_heap p)(p_allocs p \<mapsto> sz)\<rparr>"
      using assms(2) by (auto simp: AllocMemory_def Let_def)
    with assms(1) fresh True show ?thesis
      by (auto simp: pool_wf_def mem_size_def less_SucI split: option.splits)
  next
    case False
    then have "r = None" "p1 = p\<lparr>p_allocs := p_allocs p + 1\<rparr>"
      using assms(2) by (auto simp: AllocMemory_def Let_def)
    with assms(1) show ?thesis by (auto simp: pool_wf_def mem_size_def less_SucI)
  qed
qed

lemma take_idle_wf:
  assumes "pool_wf p" "m \<in> set (p_idleList p)"
  shows "pool_wf (p\<lparr>p_idleList := remove1 m (p_idleList p), p_busyList := p_busyList p @ [m]\<rparr>)"
  using assms by (auto simp: pool_wf_def mem_size_def)

lemma delete_idle_wf:
  assumes "pool_wf p" "m \<in> set (p_idleList p)"
  shows "pool_wf ((delete_mem m p)\<lparr>p_idleList := remove1 m (p_idleList p)\<rparr>)"
  using assms by (auto simp: pool_wf_def mem_size_def delete_mem_def)

text \<open>What one attempt leaves: a block taken out of the pool, not yet in the busy list, or nothing.\<close>

definition attempt_ok :: "int \<Rightarrow> pool \<Rightarrow> nat option \<Rightarrow> pool \<Rightarrow> bool" where
  "attempt_ok sz p r p1 =
     (p_option p1 = p_option p \<and> p_busyList p1 = p_busyList p \<and>
      (case r of None \<Rightarrow> pool_wf p1 \<and> total p1 \<le> total p
       | Some m \<Rightarrow> pool_wf (p1\<lparr>p_busyList := p_busyList p1 @ [m]\<rparr>) \<and> sz \<le> mem_size p1 m \<and>
           total p1 + 1 \<le> max (total p) (o_maxMemCnt (p_option p))))"

lemma attempt_alloc:
  assumes "pool_wf p" "AllocMemory ash sz p = (r, p1)" "total p + 1 \<le> max (total p0) (o_maxMemCnt (p_option p0))"
    "p_option p = p_option p0" "p_busyList p = p_busyList p0" "total p \<le> total p0"
  shows "attempt_ok sz p0 r p1"
  using AllocMemory_wf [OF assms(1,2)] assms(3-) by (auto simp: attempt_ok_def total_def split: option.splits)

lemma DoAcquireMemory_attempt:
  assumes wf: "pool_wf p" and run: "DoAcquireMemory ash sz p = (ok, r, p1)"
  shows "attempt_ok sz p r p1"
proof -
  obtain f y where sc: "scan_idle (mem_size p) sz (p_idleList p) (2 ^ 31 - 1) None = (f, y)" by fastforce
  consider (found) m where "f = Some m"
    | (grow) "f = None" "total p < o_maxMemCnt (p_option p)"
    | (repl) x where "f = None" "\<not> total p < o_maxMemCnt (p_option p)" "y = Some x" "\<not> o_enableFixedSize (p_option p)"
    | (none) "r = None" "p1 = p"
    using run sc by (cases f) (auto simp: DoAcquireMemory_def total_def add.commute split: option.splits if_splits)
  then show ?thesis
  proof cases
    case found
    then have m: "m \<in> set (p_idleList p)" "sz \<le> mem_size p m" using scan_idle_found [of "mem_size p" sz] sc by auto
    from found sc run have "r = Some m" "p1 = p\<lparr>p_idleList := remove1 m (p_idleList p)\<rparr>"
      by (auto simp: DoAcquireMemory_def)
    moreover from this have "total p1 + 1 = total p"
      using length_remove1_Suc [OF m(1)] by (simp add: total_def)
    ultimately show ?thesis
      using take_idle_wf [OF wf m(1)] m by (auto simp: attempt_ok_def mem_size_def)
  next
    case grow
    with run sc have "AllocMemory ash sz p = (r, p1)"
      by (auto simp: DoAcquireMemory_def total_def add.commute split: prod.splits option.splits)
    from attempt_alloc [OF wf this] grow show ?thesis by simp
  next
    case repl
    let ?p2 = "(delete_mem x p)\<lparr>p_idleList := remove1 x (p_idleList p)\<rparr>"
    have x: "x \<in> set (p_idleList p)" using scan_idle_min [of "mem_size p" sz] sc repl by auto
    then have t: "total ?p2 + 1 = total p"
      using length_remove1_Suc [OF x] by (simp add: total_def delete_mem_def)
    have "AllocMemory ash sz ?p2 = (r, p1)"
      using run sc repl by (auto simp: DoAcquireMemory_def total_def delete_mem_def add.commute Let_def split: prod.splits option.splits)
    from attempt_alloc [OF delete_idle_wf [OF wf x] this] t show ?thesis by (simp add: delete_mem_def)
  next
    case none
    then show ?thesis using wf by (simp add: attempt_ok_def)
  qed
qed

section \<open>Blocking acquires\<close>

text \<open>What other threads must keep while an acquire waits, and what the acquire then keeps itself.\<close>

definition pool_ok :: "InitializeOption \<Rightarrow> pool \<Rightarrow> bool" where
  "pool_ok opt p = (pool_wf p \<and> p_option p = opt \<and> total p \<le> o_maxMemCnt opt)"

lemma acquire_loop_ok:
  assumes "pool_ok opt p" "\<forall>w \<in> set wakes. \<forall>q. pool_ok opt q \<longrightarrow> pool_ok opt (w q)"
    "acquire_loop ash sz blocking wakes p = Some (r, p')"
  shows "case r of None \<Rightarrow> pool_ok opt p'
    | Some m \<Rightarrow> pool_ok opt (p'\<lparr>p_busyList := p_busyList p' @ [m]\<rparr>) \<and> sz \<le> mem_size p' m"
  using assms
proof (induction ash sz blocking wakes p rule: acquire_loop.induct)
  case (1 ash sz blocking p)
  obtain ok m p1 where d: "DoAcquireMemory ash sz p = (ok, m, p1)" by (metis prod_cases3)
  with 1 have "attempt_ok sz p m p1" "r = m" "p' = p1"
    by (auto simp: pool_ok_def DoAcquireMemory_attempt split: if_splits)
  with 1 show ?case by (auto simp: attempt_ok_def pool_ok_def total_def split: option.splits)
next
  case (2 ash sz blocking wake wakes p)
  obtain ok m p1 where d: "DoAcquireMemory ash sz p = (ok, m, p1)" by (metis prod_cases3)
  then have a: "attempt_ok sz p m p1" using "2.prems"(1) by (auto simp: pool_ok_def DoAcquireMemory_attempt)
  show ?case
  proof (cases "(\<not> ok \<or> m \<noteq> None) \<or> (\<not> blocking \<or> p_forceNonBlocking p1)")
    case True
    then have "r = m" "p' = p1" using "2.prems"(3) d by (auto split: if_splits)
    with a "2.prems"(1) show ?thesis by (auto simp: attempt_ok_def pool_ok_def total_def split: option.splits)
  next
    case False
    then have "pool_ok opt p1" using a "2.prems"(1) by (auto simp: attempt_ok_def pool_ok_def)
    then have w: "pool_ok opt (wake p1)" using "2.prems"(2) by simp
    show ?thesis
    proof (cases "p_inited (wake p1) \<and> \<not> p_forceNonBlocking (wake p1)")
      case True
      show ?thesis
        using "2.IH" [OF d [symmetric] refl, of "wake p1"] False True w "2.prems"(2,3) d by (auto simp: Let_def)
    next
      case stop: False
      then have "r = m" "p' = wake p1" using "2.prems"(3) d False by (auto simp: Let_def)
      with False w show ?thesis by simp
    qed
  qed
qed

lemma AcquireMemory_ok:
  assumes "pool_ok opt p" "\<forall>w \<in> set wakes. \<forall>q. pool_ok opt q \<longrightarrow> pool_ok opt (w q)"
    "AcquireMemory ash sz blocking wakes p = Some (r, p')"
  shows "pool_ok opt p' \<and> (\<forall>m. r = Some m \<longrightarrow> m \<in> set (p_busyList p') \<and>
    (if o_enableFixedSize opt then o_memSize opt else sz) \<le> mem_size p' m)"
proof (cases "CheckSize sz p")
  case True
  let ?sz = "if o_enableFixedSize opt then o_memSize opt else sz"
  have o: "p_option p = opt" using assms(1) by (simp add: pool_ok_def)
  obtain r1 p1 where l: "acquire_loop ash ?sz blocking wakes p = Some (r1, p1)" "r1 = r"
    "p' = (case r1 of None \<Rightarrow> p1 | Some m \<Rightarrow> p1\<lparr>p_busyList := p_busyList p1 @ [m]\<rparr>)"
    using assms(3) True unfolding AcquireMemory_def Let_def o by (auto split: option.splits)
  with acquire_loop_ok [OF assms(1,2) l(1)] show ?thesis by (cases r) (auto simp: mem_size_def)
next
  case False
  then show ?thesis using assms(1,3) by (simp add: AcquireMemory_def)
qed

section \<open>Reachable pools\<close>

text \<open>
  The atomic steps of the pool under its mutex. An acquire that waits is a sequence of attempts with other steps in between; a block
  is released by the deleter of the pointer that was handed out, so only while it is busy.
\<close>

inductive pool_step :: "(nat \<Rightarrow> int \<Rightarrow> bool) \<Rightarrow> pool \<Rightarrow> pool \<Rightarrow> bool" for ash where
  init: "pool_step ash p (snd (Pool_Init ash option p))"
| acquire: "AcquireMemory ash sz False [] p = Some (r, p') \<Longrightarrow> pool_step ash p p'"
| release: "m \<in> set (p_busyList p) \<Longrightarrow> pool_step ash p (ReleaseMemory m p)"
| nonblocking: "pool_step ash p (SetNonBlocking enable p)"
| reset: "pool_step ash p (Pool_Reset p)"

inductive pool_reach :: "(nat \<Rightarrow> int \<Rightarrow> bool) \<Rightarrow> pool \<Rightarrow> bool" for ash where
  start: "pool_reach ash AVSharedMemoryPool"
| step: "pool_reach ash p \<Longrightarrow> pool_step ash p p' \<Longrightarrow> pool_reach ash p'"

lemma prealloc_wf:
  "pool_wf p \<Longrightarrow> prealloc ash n p = (ok, p') \<Longrightarrow>
     pool_wf p' \<and> p_option p' = p_option p \<and> p_busyList p' = p_busyList p \<and> total p' \<le> total p + n"
proof (induction n arbitrary: p)
  case (Suc n)
  obtain r p1 where a: "AllocMemory ash (o_memSize (p_option p)) p = (r, p1)" by fastforce
  note w = AllocMemory_wf [OF Suc.prems(1) a]
  show ?case
  proof (cases r)
    case None
    then show ?thesis using Suc.prems(2) a w by (auto simp: total_def)
  next
    case (Some m)
    let ?p2 = "p1\<lparr>p_idleList := p_idleList p1 @ [m]\<rparr>"
    have "pool_wf ?p2" "prealloc ash n ?p2 = (ok, p')" using Some Suc.prems(2) a w by auto
    from Suc.IH [OF this] w show ?thesis by (auto simp: total_def)
  qed
qed auto

lemma Pool_Init_wf:
  assumes "pool_wf p" "Pool_Init ash opt p = (r, p')"
  shows "pool_wf p' \<and> (total p = 0 \<longrightarrow> total p \<le> o_maxMemCnt (p_option p) \<longrightarrow> total p' \<le> o_maxMemCnt (p_option p'))"
proof (cases "p_inited p \<or> \<not> o_memSize opt < MAX_MEM_SIZE \<or> \<not> (o_maxMemCnt opt > 0 \<and> o_maxMemCnt opt \<le> MAX_MEM_CNT)")
  case True
  then have "p' = p" using assms(2) by (auto simp: Pool_Init_def split: if_splits)
  then show ?thesis using assms(1) by simp
next
  case False
  let ?o = "opt\<lparr>o_preAllocMemCnt := min (o_preAllocMemCnt opt) (o_maxMemCnt opt)\<rparr>"
  obtain ok p1 where l: "prealloc ash (o_preAllocMemCnt ?o) (p\<lparr>p_option := ?o\<rparr>) = (ok, p1)" by fastforce
  have wf: "pool_wf (p\<lparr>p_option := ?o\<rparr>)" using assms(1) by simp
  have "p' = p1 \<or> p' = p1\<lparr>p_inited := True, p_notifier := o_notifier opt\<rparr>"
    using assms(2) False l by (auto simp: Pool_Init_def Let_def split: if_splits)
  with prealloc_wf [OF wf l] show ?thesis by auto
qed

lemma attempt_wf:
  assumes "pool_wf p" "AcquireMemory ash sz False [] p = Some (r, p')"
  shows "pool_wf p' \<and> total p' \<le> max (total p) (o_maxMemCnt (p_option p)) \<and> p_option p' = p_option p"
proof (cases "CheckSize sz p")
  case True
  let ?sz = "if o_enableFixedSize (p_option p) then o_memSize (p_option p) else sz"
  obtain ok m p1 where d: "DoAcquireMemory ash ?sz p = (ok, m, p1)" by (metis prod_cases3)
  note a = DoAcquireMemory_attempt [OF assms(1) d]
  have "p' = (case m of None \<Rightarrow> p1 | Some x \<Rightarrow> p1\<lparr>p_busyList := p_busyList p1 @ [x]\<rparr>)"
    using assms(2) True d by (auto simp: AcquireMemory_def Let_def split: option.splits if_splits)
  with a show ?thesis by (cases m) (auto simp: attempt_ok_def total_def)
next
  case False
  then show ?thesis using assms by (simp add: AcquireMemory_def)
qed

lemma ReleaseMemory_wf:
  assumes "pool_wf p" "m \<in> set (p_busyList p)"
  shows "pool_wf (ReleaseMemory m p) \<and> total (ReleaseMemory m p) = total p \<and> p_option (ReleaseMemory m p) = p_option p"
  using assms length_remove1_Suc [OF assms(2)] by (auto simp: ReleaseMemory_def pool_wf_def mem_size_def total_def Let_def)

lemma Pool_Reset_wf: "pool_wf p \<Longrightarrow> pool_wf (Pool_Reset p)"
  by (auto simp: Pool_Reset_def pool_wf_def mem_size_def dom_def split: if_splits)

lemma pool_step_wf: "pool_step ash p p' \<Longrightarrow> pool_wf p \<Longrightarrow> pool_wf p'"
proof (induction rule: pool_step.induct)
  case (init p option)
  then show ?case using Pool_Init_wf [of p ash option] by (metis prod.collapse)
qed (auto simp: ReleaseMemory_wf attempt_wf Pool_Reset_wf SetNonBlocking_def)

section \<open>Properties\<close>

text \<open>C21: In every pool that initialisations, acquires, releases of handed-out blocks, non-blocking switches and resets can
  produce, whatever the kernel grants, the blocks that exist are exactly those in the idle and busy lists, each once: no block is leaked, freed
  while it is in use, or handed out to two owners.
\<close>

theorem pool_reach_safe:
  assumes "pool_reach ash p"
  shows "distinct (p_idleList p @ p_busyList p) \<and> dom (p_heap p) = set (p_idleList p) \<union> set (p_busyList p)"
proof -
  have "pool_wf p"
    using assms
  proof (induction rule: pool_reach.induct)
    case start
    then show ?case by (simp add: AVSharedMemoryPool_def pool_wf_def)
  qed (rule pool_step_wf)
  then show ?thesis by (auto simp: pool_wf_def)
qed

definition option2 :: InitializeOption where
  "option2 = \<lparr>o_preAllocMemCnt = 1, o_memSize = 8, o_maxMemCnt = 2, o_enableFixedSize = False, o_notifier = True\<rparr>"

definition pool2 :: pool where
  "pool2 = snd (Pool_Init (\<lambda>_ _. True) option2 AVSharedMemoryPool)"

lemmas pool_eval = pool2_def option2_def AVSharedMemoryPool_def Pool_Init_def AllocMemory_def MAX_MEM_SIZE_def MAX_MEM_CNT_def
  AcquireMemory_def CheckSize_def DoAcquireMemory_def mem_size_def delete_mem_def Let_def

lemma pool2_eq:
  "pool2 = \<lparr>p_option = option2, p_idleList = [0], p_busyList = [], p_inited = True, p_notifier = True, p_forceNonBlocking = False,
     p_heap = [0 \<mapsto> 8], p_allocs = 1, p_notified = 0\<rparr>"
  by (simp add: pool_eval One_nat_def)

theorem pool_reach_safe_witness:
  "\<exists>p. pool_reach (\<lambda>_ _. True) p \<and> p_busyList p = [0] \<and> dom (p_heap p) = {0}"
proof -
  let ?p = "pool2\<lparr>p_idleList := [], p_busyList := [0]\<rparr>"
  have "pool_reach (\<lambda>_ _. True) pool2"
    unfolding pool2_def by (rule pool_reach.step [OF pool_reach.start pool_step.init])
  moreover have "AcquireMemory (\<lambda>_ _. True) 5 False [] pool2 = Some (Some 0, ?p)"
    by (simp add: pool2_eq AcquireMemory_def CheckSize_def DoAcquireMemory_def mem_size_def option2_def Let_def)
  ultimately have "pool_reach (\<lambda>_ _. True) ?p" by (blast intro: pool_reach.step pool_step.acquire)
  with pool_reach_safe [OF this] show ?thesis by (intro exI [of _ ?p]) (auto simp: pool2_eq)
qed

text \<open>An acquire, blocking or not, whatever other threads do to the pool while it waits (as long as they keep it
  well formed), gives a block that is at least as large as asked for (as the fixed size in a fixed-size pool) and now belongs to the
  caller alone, and never lets the pool hold more blocks than its limit.
\<close>

theorem AcquireMemory_fits:
  assumes "pool_ok opt p" "\<forall>w \<in> set wakes. \<forall>q. pool_ok opt q \<longrightarrow> pool_ok opt (w q)"
    "AcquireMemory ash sz blocking wakes p = Some (Some m, p')"
  shows "m \<in> set (p_busyList p') \<and> m \<notin> set (p_idleList p') \<and> distinct (p_busyList p') \<and>
    (if o_enableFixedSize opt then o_memSize opt else sz) \<le> mem_size p' m \<and>
    length (p_idleList p') + length (p_busyList p') \<le> o_maxMemCnt opt"
proof -
  have "pool_ok opt p'" "m \<in> set (p_busyList p')" "(if o_enableFixedSize opt then o_memSize opt else sz) \<le> mem_size p' m"
    using AcquireMemory_ok [OF assms] by auto
  then show ?thesis by (auto simp: pool_ok_def pool_wf_def total_def)
qed

theorem AcquireMemory_fits_witness:
  "\<exists>m p'. AcquireMemory (\<lambda>_ _. True) 100 True [] pool2 = Some (Some m, p') \<and> m \<in> set (p_busyList p') \<and> 100 \<le> mem_size p' m"
proof -
  have ok: "pool_ok option2 pool2"
    by (auto simp: pool2_eq pool_ok_def pool_wf_def mem_size_def total_def option2_def)
  obtain m p' where "AcquireMemory (\<lambda>_ _. True) 100 True [] pool2 = Some (Some m, p')"
    by (auto simp: pool2_eq AcquireMemory_def CheckSize_def DoAcquireMemory_def AllocMemory_def mem_size_def option2_def Let_def)
  with AcquireMemory_fits [OF ok _ this] show ?thesis by (auto simp: option2_def)
qed

text \<open>A pool without a fixed size never makes an acquire wait while it has an idle block or room to grow: if the kernel
  grants the memory, the caller gets a block at once, if need be in place of the smallest idle one.
\<close>

theorem AcquireMemory_no_wait:
  assumes "pool_wf p" "\<not> o_enableFixedSize (p_option p)" "0 < sz" "\<forall>k n. ash k n"
    and "p_idleList p \<noteq> [] \<or> total p < o_maxMemCnt (p_option p)"
    and "\<forall>m \<in> set (p_idleList p). mem_size p m < 2 ^ 31 - 1"
  shows "\<exists>m p'. AcquireMemory ash sz blocking wakes p = Some (Some m, p')"
proof -
  obtain f y where sc: "scan_idle (mem_size p) sz (p_idleList p) (2 ^ 31 - 1) None = (f, y)" by fastforce
  have al: "\<exists>m p1. AllocMemory ash sz q = (Some m, p1)" for q using assms(3,4) by (simp add: AllocMemory_def Let_def)
  have "\<exists>m p1. DoAcquireMemory ash sz p = (True, Some m, p1)"
  proof (cases f)
    case None
    have "y \<noteq> None" if "p_idleList p \<noteq> []" using scan_idle_some_min [OF sc [unfolded None] that] assms(6) by simp
    then consider (grow) "length (p_busyList p) + length (p_idleList p) < o_maxMemCnt (p_option p)"
      | (repl) x where "y = Some x" "\<not> length (p_busyList p) + length (p_idleList p) < o_maxMemCnt (p_option p)"
      using assms(5) by (fastforce simp: total_def add.commute)
    then show ?thesis
    proof cases
      case grow
      obtain m p1 where "AllocMemory ash sz p = (Some m, p1)" using al by blast
      with grow None sc show ?thesis by (simp add: DoAcquireMemory_def)
    next
      case repl
      obtain m p1 where "AllocMemory ash sz ((delete_mem x p)\<lparr>p_idleList := remove1 x (p_idleList (delete_mem x p))\<rparr>) = (Some m, p1)"
        using al by blast
      with repl None sc assms(2) show ?thesis by (simp add: DoAcquireMemory_def)
    qed
  qed (use sc in \<open>simp add: DoAcquireMemory_def\<close>)
  then obtain m p1 where "DoAcquireMemory ash sz p = (True, Some m, p1)" by blast
  then have "acquire_loop ash sz blocking wakes p = Some (Some m, p1)" by (cases wakes) simp_all
  with assms(2,3) show ?thesis by (simp add: AcquireMemory_def CheckSize_def)
qed

theorem AcquireMemory_no_wait_witness:
  "\<exists>m p'. AcquireMemory (\<lambda>_ _. True) 100 True [] (pool2\<lparr>p_option := option2\<lparr>o_maxMemCnt := 1\<rparr>\<rparr>) = Some (Some m, p')"
  by (rule AcquireMemory_no_wait) (auto simp: pool2_eq pool_wf_def mem_size_def option2_def)

text \<open>The limit does not survive a reset: \<^verbatim>\<open>Reset\<close> forgets nothing about the blocks still handed out, but the following
  \<^verbatim>\<open>Init\<close> preallocates without counting them, so a pool limited to two blocks holds three.
\<close>

theorem Reset_Init_exceeds_limit:
  "case AcquireMemory (\<lambda>_ _. True) 8 False [] pool2 of Some (_, p1) \<Rightarrow>
     (case Pool_Init (\<lambda>_ _. True) (option2\<lparr>o_preAllocMemCnt := 2\<rparr>) (Pool_Reset p1) of (r, p2) \<Rightarrow>
        r = 0 \<and> total p2 = 3 \<and> o_maxMemCnt (p_option p2) = 2)"
  by (simp add: pool2_eq AcquireMemory_def CheckSize_def DoAcquireMemory_def mem_size_def option2_def Let_def Pool_Reset_def
      Pool_Init_def AllocMemory_def MAX_MEM_SIZE_def MAX_MEM_CNT_def total_def numeral_2_eq_2)

end
