(* ===== verification/Float_Model.thy ===== *)
theory Float_Model
  imports Complex_Main "HOL-Library.Log_Nat" "HOL-Library.Word"
begin

text \<open>
  The binary floating-point arithmetic the C++ code relies on, for the components that compute with
  \<^verbatim>\<open>float\<close> and \<^verbatim>\<open>double\<close>: a finite number is a rational, an operation is the exact one followed by rounding to the
  nearest number with \<open>p\<close> significant bits, ties to even (24 bits for \<^verbatim>\<open>float\<close>, 53 for \<^verbatim>\<open>double\<close>). The exponent
  range is not bounded here; the users stay far inside it. The lemmas are the ones IEEE arithmetic is used by:
  numbers that fit are exact, rounding is monotone and its error is at most half a unit in the last place.
\<close>

section \<open>Rounding\<close>

definition floor_log2 :: "rat \<Rightarrow> int" where
  "floor_log2 q =
     (let (a, b) = quotient_of q; d = bitlen a - bitlen b
      in if 2 powi d \<le> q then d else d - 1)"

definition round_half_even :: "rat \<Rightarrow> int" where
  "round_half_even x =
     (let f = \<lfloor>x\<rfloor>; r = x - of_int f
      in if r < 1 / 2 then f else if r > 1 / 2 then f + 1 else if even f then f else f + 1)"

definition rnd :: "nat \<Rightarrow> rat \<Rightarrow> rat" where
  "rnd p q =
     (if q = 0 then 0
      else let e = floor_log2 \<bar>q\<bar> - (int p - 1)
           in of_int (round_half_even (q / 2 powi e)) * 2 powi e)"

section \<open>The exponent\<close>

lemma powi_2_pos [simp]: "0 < (2 :: rat) powi e"
  by simp

lemma powi_2_mono: "a \<le> b \<Longrightarrow> (2 :: rat) powi a \<le> 2 powi b"
  by (rule power_int_increasing) auto

lemma powi_2_less: "(2 :: rat) powi a < 2 powi b \<Longrightarrow> a < b"
  using powi_2_mono [of b a] by (cases "a < b") auto

lemma powi_2_add: "(2 :: rat) powi (a + b) = 2 powi a * 2 powi b"
  by (rule power_int_add) simp

lemma powi_2_diff: "(2 :: rat) powi (a - b) = 2 powi a / 2 powi b"
  by (rule power_int_diff) simp

lemma bitlen_powi:
  assumes "0 < a"
  shows "(2 :: rat) powi (bitlen a - 1) \<le> of_int a \<and> of_int a < (2 :: rat) powi (bitlen a)"
proof -
  have b: "2 ^ nat (bitlen a - 1) \<le> a" "a < 2 ^ nat (bitlen a)" using bitlen_bounds [OF assms] by auto
  have n: "0 \<le> bitlen a - 1" using assms bitlen_eq_zero_iff [of a] bitlen_nonneg [of a] by linarith
  have "of_int (2 ^ nat (bitlen a - 1)) \<le> (of_int a :: rat)" "of_int a < (of_int (2 ^ nat (bitlen a)) :: rat)"
    using b by (simp_all only: of_int_le_iff of_int_less_iff)
  with n show ?thesis by (simp add: power_int_nonneg_exp)
qed

lemma floor_log2_bounds:
  assumes "0 < q"
  shows "2 powi (floor_log2 q) \<le> q \<and> q < 2 powi (floor_log2 q + 1)"
proof -
  obtain a b where ab: "quotient_of q = (a, b)" by fastforce
  have b: "0 < b" "q = of_int a / of_int b" using quotient_of_denom_pos [OF ab] quotient_of_div [OF ab] by auto
  then have a: "0 < a" using assms by (simp add: zero_less_divide_iff)
  let ?d = "bitlen a - bitlen b"
  note A = bitlen_powi [OF a] and B = bitlen_powi [OF b(1)]
  have "q < 2 powi (bitlen a) / 2 powi (bitlen b - 1)"
    unfolding b(2) by (rule frac_less) (use A B a b(1) in auto)
  then have up: "q < 2 powi (?d + 1)" by (simp add: powi_2_diff powi_2_add)
  have "2 powi (bitlen a - 1) / 2 powi (bitlen b) \<le> q"
    unfolding b(2) by (rule frac_le) (use A B a b(1) in auto)
  then have low: "2 powi (?d - 1) \<le> q" by (simp add: powi_2_diff powi_2_add field_simps)
  show ?thesis using up low by (simp add: floor_log2_def ab Let_def)
qed

lemma floor_log2_mono:
  assumes "0 < q" "q \<le> r"
  shows "floor_log2 q \<le> floor_log2 r"
proof -
  have "2 powi (floor_log2 q) < (2 :: rat) powi (floor_log2 r + 1)"
    using floor_log2_bounds [of q] floor_log2_bounds [of r] assms by linarith
  from powi_2_less [OF this] show ?thesis by simp
qed

section \<open>Rounding to an integer\<close>

lemma round_half_even_int [simp]: "round_half_even (of_int m) = m"
  by (simp add: round_half_even_def)

lemma round_half_even_bounds: "\<bar>of_int (round_half_even x) - x\<bar> \<le> 1 / 2"
proof -
  have "of_int \<lfloor>x\<rfloor> \<le> x" "x < of_int \<lfloor>x\<rfloor> + 1" by linarith+
  then show ?thesis unfolding round_half_even_def Let_def by (auto simp: abs_le_iff)
qed

lemma round_half_even_mono:
  assumes "x \<le> y"
  shows "round_half_even x \<le> round_half_even y"
proof (cases "\<lfloor>x\<rfloor> = \<lfloor>y\<rfloor>")
  case True
  then show ?thesis using assms unfolding round_half_even_def Let_def by auto
next
  case False
  then have "\<lfloor>x\<rfloor> + 1 \<le> \<lfloor>y\<rfloor>" using floor_mono [OF assms] by linarith
  moreover have "round_half_even x \<le> \<lfloor>x\<rfloor> + 1" "\<lfloor>y\<rfloor> \<le> round_half_even y"
    by (auto simp: round_half_even_def Let_def)
  ultimately show ?thesis by linarith
qed

section \<open>Properties of rounding\<close>

lemma rnd_0 [simp]: "rnd p 0 = 0"
  by (simp add: rnd_def)

text \<open>A number with at most \<open>p\<close> significant bits is not changed.\<close>

lemma rnd_exact:
  assumes "\<bar>m\<bar> < 2 ^ p"
  shows "rnd p (of_int m * 2 powi k) = of_int m * 2 powi k"
proof (cases "m = 0")
  case False
  let ?q = "of_int m * 2 powi k :: rat"
  let ?e = "floor_log2 \<bar>?q\<bar> - (int p - 1)"
  have q: "?q \<noteq> 0" "\<bar>?q\<bar> = of_int \<bar>m\<bar> * 2 powi k" using False by (simp_all add: abs_mult)
  have "of_int \<bar>m\<bar> < (of_int (2 ^ p) :: rat)" using assms by (simp only: of_int_less_iff)
  then have "\<bar>?q\<bar> < 2 powi (int p + k)" unfolding q(2) powi_2_add by (simp add: mult_strict_right_mono)
  moreover have "2 powi (floor_log2 \<bar>?q\<bar>) \<le> \<bar>?q\<bar>" using floor_log2_bounds [of "\<bar>?q\<bar>"] q(1) by simp
  ultimately have "floor_log2 \<bar>?q\<bar> < int p + k" by (intro powi_2_less) linarith
  then have ek: "?e \<le> k" by simp
  have "?q / 2 powi ?e = of_int m * 2 powi (k - ?e)" by (simp add: powi_2_diff)
  also have "\<dots> = of_int (m * 2 ^ nat (k - ?e))" using ek by (simp add: power_int_nonneg_exp)
  finally have "of_int (round_half_even (?q / 2 powi ?e)) = ?q / 2 powi ?e" by (metis round_half_even_int)
  then show ?thesis using q(1) by (simp add: rnd_def Let_def del: power_int_not_zero)
qed simp

lemma rnd_exact_int: "\<bar>m\<bar> < 2 ^ p \<Longrightarrow> rnd p (of_int m) = of_int m"
  using rnd_exact [of m p 0] by simp

lemma rnd_exact_powi: "0 < p \<Longrightarrow> rnd p (2 powi k) = 2 powi k"
  using rnd_exact [of 1 p k] one_less_power [of "2 :: int" p] by simp

lemma rnd_error:
  assumes "q \<noteq> 0"
  shows "\<bar>rnd p q - q\<bar> \<le> 2 powi (floor_log2 \<bar>q\<bar> - int p)"
proof -
  let ?e = "floor_log2 \<bar>q\<bar> - (int p - 1)"
  have "rnd p q - q = (of_int (round_half_even (q / 2 powi ?e)) - q / 2 powi ?e) * 2 powi ?e"
    using assms by (simp add: rnd_def Let_def algebra_simps)
  then have "\<bar>rnd p q - q\<bar> = \<bar>of_int (round_half_even (q / 2 powi ?e)) - q / 2 powi ?e\<bar> * 2 powi ?e"
    by (simp add: abs_mult)
  also have "\<dots> \<le> 1 / 2 * 2 powi ?e"
    using round_half_even_bounds [of "q / 2 powi ?e"] by (intro mult_right_mono) auto
  also have "\<dots> = 2 powi (floor_log2 \<bar>q\<bar> - int p)" by (simp add: powi_2_diff powi_2_add field_simps)
  finally show ?thesis .
qed

lemma rnd_binade:
  assumes "0 < q" "0 < p"
  shows "2 powi (floor_log2 q) \<le> rnd p q \<and> rnd p q \<le> 2 powi (floor_log2 q + 1)"
proof -
  let ?e = "floor_log2 q - (int p - 1)"
  have b: "2 powi (floor_log2 q) \<le> q" "q < 2 powi (floor_log2 q + 1)" using floor_log2_bounds [OF assms(1)] by auto
  have p1: "(2 :: rat) powi (floor_log2 q) = of_int (2 ^ (p - 1)) * 2 powi ?e"
    using assms(2) by (simp add: powi_2_diff powi_2_add field_simps flip: power_int_of_nat of_nat_diff)
      (simp add: of_nat_diff powi_2_diff)
  have p2: "(2 :: rat) powi (floor_log2 q + 1) = of_int (2 ^ p) * 2 powi ?e"
    by (simp add: powi_2_diff powi_2_add field_simps flip: power_int_of_nat)
  have "of_int (2 ^ (p - 1)) \<le> q / 2 powi ?e" "q / 2 powi ?e \<le> of_int (2 ^ p)"
    using b unfolding p1 p2 by (simp_all add: field_simps)
  from this [THEN round_half_even_mono] have "2 ^ (p - 1) \<le> round_half_even (q / 2 powi ?e)"
    "round_half_even (q / 2 powi ?e) \<le> 2 ^ p" by (simp_all del: of_int_power)
  moreover have "rnd p q = of_int (round_half_even (q / 2 powi ?e)) * 2 powi ?e"
    using assms(1) by (simp add: rnd_def Let_def)
  ultimately show ?thesis unfolding p1 p2
    by (metis less_imp_le mult_right_mono of_int_le_iff powi_2_pos)
qed

lemma round_half_even_minus: "round_half_even (- x) = - round_half_even x"
proof (cases "x = of_int \<lfloor>x\<rfloor>")
  case True
  then show ?thesis by (metis of_int_minus round_half_even_int)
next
  case False
  define f where "f = \<lfloor>x\<rfloor>"
  have "of_int f < x" "x < of_int f + 1" using False unfolding f_def by linarith+
  then have "\<lfloor>- x\<rfloor> = - f - 1" by (intro floor_unique) auto
  then show ?thesis unfolding round_half_even_def Let_def f_def [symmetric] by auto
qed

lemma rnd_minus: "rnd p (- q) = - rnd p q"
  by (simp add: rnd_def Let_def round_half_even_minus flip: minus_divide_left)

lemma rnd_pos_mono:
  assumes "0 < q" "q \<le> r" "0 < p"
  shows "rnd p q \<le> rnd p r"
proof (cases "floor_log2 q = floor_log2 r")
  case True
  let ?e = "floor_log2 q - (int p - 1)"
  have "q / 2 powi ?e \<le> r / 2 powi ?e" using assms(2) by (intro divide_right_mono) auto
  from round_half_even_mono [OF this] have "of_int (round_half_even (q / 2 powi ?e)) * 2 powi ?e \<le>
      (of_int (round_half_even (r / 2 powi ?e)) * 2 powi ?e :: rat)" by (intro mult_right_mono) auto
  then show ?thesis using assms True by (simp add: rnd_def Let_def)
next
  case False
  then have "floor_log2 q + 1 \<le> floor_log2 r" using floor_log2_mono [OF assms(1,2)] by linarith
  then have "(2 :: rat) powi (floor_log2 q + 1) \<le> 2 powi (floor_log2 r)" by (rule powi_2_mono)
  moreover have "rnd p q \<le> 2 powi (floor_log2 q + 1)" "2 powi (floor_log2 r) \<le> rnd p r"
    using rnd_binade [of q p] rnd_binade [of r p] assms by auto
  ultimately show ?thesis by linarith
qed

lemma rnd_nonneg: "0 \<le> q \<Longrightarrow> 0 < p \<Longrightarrow> 0 \<le> rnd p q"
  using rnd_binade [of q p] by (cases "q = 0") (auto intro: order_trans [OF less_imp_le [OF powi_2_pos]])

lemma rnd_mono:
  assumes "q \<le> r" "0 < p"
  shows "rnd p q \<le> rnd p r"
proof -
  consider "0 < q" | "q \<le> 0" "0 \<le> r" | "r < 0" by linarith
  then show ?thesis
  proof cases
    case 1
    then show ?thesis using rnd_pos_mono assms by blast
  next
    case 2
    then show ?thesis using rnd_nonneg [of r p] rnd_nonneg [of "- q" p] assms(2) by (simp add: rnd_minus)
  next
    case 3
    then show ?thesis using rnd_pos_mono [of "- r" "- q" p] assms by (simp add: rnd_minus)
  qed
qed

lemma rnd_form:
  assumes "0 < p"
  shows "\<exists>m k. rnd p q = of_int m * 2 powi k \<and> \<bar>m\<bar> < 2 ^ p"
proof (cases "q = 0")
  case True
  then show ?thesis by (intro exI [of _ 0]) simp
next
  case False
  let ?e = "floor_log2 \<bar>q\<bar> - (int p - 1)"
  let ?m = "round_half_even (q / 2 powi ?e)"
  have r: "rnd p q = of_int ?m * 2 powi ?e" using False by (simp add: rnd_def Let_def)
  have "\<bar>rnd p q\<bar> = rnd p \<bar>q\<bar>" using rnd_nonneg [of q p] rnd_nonneg [of "- q" p] assms by (auto simp: abs_if rnd_minus)
  then have "\<bar>rnd p q\<bar> \<le> 2 powi (floor_log2 \<bar>q\<bar> + 1)" using rnd_binade [of "\<bar>q\<bar>" p] False assms by simp
  moreover have "(2 :: rat) powi (floor_log2 \<bar>q\<bar> + 1) = of_int (2 ^ p) * 2 powi ?e"
    by (simp add: powi_2_diff powi_2_add field_simps flip: power_int_of_nat)
  ultimately have "of_int \<bar>?m\<bar> \<le> (of_int (2 ^ p) :: rat)" unfolding r by (simp add: abs_mult)
  then have m: "\<bar>?m\<bar> \<le> 2 ^ p" by (simp only: of_int_le_iff)
  show ?thesis
  proof (cases "\<bar>?m\<bar> = 2 ^ p")
    case True
    then have "?m = sgn ?m * 2 ^ p" by (metis abs_mult_sgn mult.commute)
    then have "rnd p q = of_int (sgn ?m) * 2 powi (int p + ?e)"
      unfolding r by (metis (no_types, lifting) mult.assoc of_int_mult of_int_numeral of_int_power power_int_of_nat powi_2_add)
    moreover have "\<bar>sgn ?m\<bar> < 2 ^ p" using assms one_less_power [of "2 :: int" p] by (auto simp: sgn_if)
    ultimately show ?thesis by blast
  next
    case False
    then show ?thesis using r m by (intro exI [of _ ?m] exI [of _ ?e]) linarith
  qed
qed

text \<open>A rounded number stays exact when it is scaled by a power of two or rounded less coarsely.\<close>

lemma rnd_rnd:
  assumes "0 < p" "p \<le> p'"
  shows "rnd p' (rnd p q * 2 powi j) = rnd p q * 2 powi j"
proof -
  obtain m k where m: "rnd p q = of_int m * 2 powi k" "\<bar>m\<bar> < 2 ^ p" using rnd_form [OF assms(1)] by blast
  have "(2 :: int) ^ p \<le> 2 ^ p'" using assms(2) by (simp add: power_increasing)
  with m(2) have "\<bar>m\<bar> < 2 ^ p'" by linarith
  from rnd_exact [OF this, of "k + j"] show ?thesis by (simp add: m(1) powi_2_add mult.assoc)
qed

section \<open>Conversions to integers\<close>

text \<open>\<^verbatim>\<open>std::round\<close>, half away from zero, and the truncating conversion \<^verbatim>\<open>static_cast<int>\<close>.\<close>

definition c_round :: "rat \<Rightarrow> int" where
  "c_round x = (if 0 \<le> x then \<lfloor>x + 1 / 2\<rfloor> else - \<lfloor>- x + 1 / 2\<rfloor>)"

definition c_trunc :: "rat \<Rightarrow> int" where
  "c_trunc x = (if 0 \<le> x then \<lfloor>x\<rfloor> else - \<lfloor>- x\<rfloor>)"

lemma c_round_int [simp]: "c_round (of_int m) = m"
proof -
  have "\<lfloor>of_int k + 1 / 2 :: rat\<rfloor> = k" for k by (rule floor_unique) auto
  from this [of m] this [of "- m"] show ?thesis by (simp add: c_round_def)
qed

lemma c_round_mono:
  assumes "x \<le> y"
  shows "c_round x \<le> c_round y"
proof (cases "x < 0 \<and> 0 \<le> y")
  case True
  then have "0 \<le> \<lfloor>- x + 1 / 2\<rfloor>" "0 \<le> \<lfloor>y + 1 / 2\<rfloor>" by auto
  moreover have "c_round x = - \<lfloor>- x + 1 / 2\<rfloor>" "c_round y = \<lfloor>y + 1 / 2\<rfloor>" using True by (simp_all add: c_round_def)
  ultimately show ?thesis by linarith
next
  case False
  with assms show ?thesis by (auto simp: c_round_def intro: floor_mono)
qed

lemma c_round_error: "\<bar>of_int (c_round x) - x\<bar> \<le> 1 / 2"
proof (cases "0 \<le> x")
  case True
  then have "c_round x = \<lfloor>x + 1 / 2\<rfloor>" by (simp add: c_round_def)
  then show ?thesis unfolding abs_le_iff by linarith
next
  case False
  then have "c_round x = - \<lfloor>- x + 1 / 2\<rfloor>" by (simp add: c_round_def)
  then show ?thesis unfolding abs_le_iff by linarith
qed

lemma c_trunc_int [simp]: "c_trunc (of_int m) = m"
  by (simp add: c_trunc_def)

lemma c_trunc_mono:
  assumes "x \<le> y"
  shows "c_trunc x \<le> c_trunc y"
proof (cases "x < 0 \<and> 0 \<le> y")
  case True
  then have "0 \<le> \<lfloor>- x\<rfloor>" "0 \<le> \<lfloor>y\<rfloor>" by auto
  moreover have "c_trunc x = - \<lfloor>- x\<rfloor>" "c_trunc y = \<lfloor>y\<rfloor>" using True by (simp_all add: c_trunc_def)
  ultimately show ?thesis by linarith
next
  case False
  with assms show ?thesis by (auto simp: c_trunc_def intro: floor_mono)
qed

end
