(* ===== verification/Pcm_Convert.thy ===== *)
theory Pcm_Convert
  imports AV_Buffer Float_Model "HOL-Library.Monad_Syntax"
begin

text \<open>
  The conversion of PCM sample formats, \<^verbatim>\<open>src/common/pcm_convert.cpp\<close>. Memory is a list of bytes; samples are
  read and written byte by byte as the code does, the integer formats as two's complement numbers, \<^verbatim>\<open>SAMPLE_F32LE\<close>
  as the IEEE value of its four bytes, and the arithmetic on \<^verbatim>\<open>float\<close> rounds as in the theory of floating-point numbers. The result
  \<open>None\<close> marks undefined behaviour: the conversion of a NaN to an integer.
\<close>

unbundle bit_operations_syntax

type_synonym bytes = "8 word list"

section \<open>Formats\<close>

datatype AudioSampleFormat =
    SAMPLE_U8 | SAMPLE_S16LE | SAMPLE_S24LE | SAMPLE_S32LE | SAMPLE_F32LE
  | SAMPLE_U8P | SAMPLE_S16P | SAMPLE_S24P | SAMPLE_S32P | SAMPLE_F32P
  | SAMPLE_S8 | SAMPLE_S8P | SAMPLE_U16 | SAMPLE_U16P | SAMPLE_U24
  | SAMPLE_U24P | SAMPLE_U32 | SAMPLE_U32P | SAMPLE_S64 | SAMPLE_U64
  | SAMPLE_S64P | SAMPLE_U64P | SAMPLE_F64 | SAMPLE_F64P | SAMPLE_S16BE
  | SAMPLE_S24BE | SAMPLE_S32BE | SAMPLE_F32BE | SAMPLE_F64BE | SAMPLE_F64LE
  | SAMPLE_S64LE | SAMPLE_S16LEP | SAMPLE_S16BEP | SAMPLE_S24LEP | SAMPLE_S32LEP
  | SAMPLE_DVD | SAMPLE_BLURAY | INVALID_WIDTH

definition IsSupportedInterleavedFormat :: "AudioSampleFormat \<Rightarrow> bool" where
  "IsSupportedInterleavedFormat format =
     (case format of
        SAMPLE_U8 \<Rightarrow> True | SAMPLE_S16LE \<Rightarrow> True | SAMPLE_S24LE \<Rightarrow> True | SAMPLE_S32LE \<Rightarrow> True
      | SAMPLE_F32LE \<Rightarrow> True | _ \<Rightarrow> False)"

definition GetPcmBytesPerSample :: "AudioSampleFormat \<Rightarrow> nat" where
  "GetPcmBytesPerSample format =
     (case format of
        SAMPLE_U8 \<Rightarrow> 1 | SAMPLE_S16LE \<Rightarrow> 2 | SAMPLE_S24LE \<Rightarrow> 3 | SAMPLE_S32LE \<Rightarrow> 4 | SAMPLE_F32LE \<Rightarrow> 4 | _ \<Rightarrow> 0)"

text \<open>The product is in \<^verbatim>\<open>size_t\<close> and may wrap.\<close>

definition GetPcmConvertOutputSize :: "nat \<Rightarrow> AudioSampleFormat \<Rightarrow> nat" where
  "GetPcmConvertOutputSize sampleCount outputFormat =
     (if GetPcmBytesPerSample outputFormat = 0 then 0
      else sampleCount * GetPcmBytesPerSample outputFormat mod 2 ^ 64)"

section \<open>Samples in memory\<close>

definition ReadU8 :: "bytes \<Rightarrow> int" where
  "ReadU8 p = uint (p ! 0)"

definition WriteU8 :: "int \<Rightarrow> bytes" where
  "WriteU8 v = [word_of_int v]"

definition ReadS16 :: "bytes \<Rightarrow> int" where
  "ReadS16 p = sint (ucast (p ! 0) OR push_bit 8 (ucast (p ! 1)) :: 16 word)"

definition WriteS16 :: "int \<Rightarrow> bytes" where
  "WriteS16 v = (let uval = word_of_int v :: 16 word
                 in [ucast (uval AND 0xFF), ucast (drop_bit 8 uval AND 0xFF)])"

definition ReadS24 :: "bytes \<Rightarrow> int" where
  "ReadS24 p =
     (let val = ucast (p ! 0) OR push_bit 8 (ucast (p ! 1)) OR push_bit 16 (ucast (p ! 2)) :: 32 word
      in sint (if val AND 0x00800000 \<noteq> 0 then val OR 0xFF000000 else val))"

definition WriteS24 :: "int \<Rightarrow> bytes" where
  "WriteS24 v = (let uval = word_of_int v :: 32 word
                 in [ucast (uval AND 0xFF), ucast (drop_bit 8 uval AND 0xFF), ucast (drop_bit 16 uval AND 0xFF)])"

definition read_u32 :: "bytes \<Rightarrow> 32 word" where
  "read_u32 p = ucast (p ! 0) OR push_bit 8 (ucast (p ! 1)) OR push_bit 16 (ucast (p ! 2)) OR push_bit 24 (ucast (p ! 3))"

definition write_u32 :: "32 word \<Rightarrow> bytes" where
  "write_u32 uval = [ucast (uval AND 0xFF), ucast (drop_bit 8 uval AND 0xFF), ucast (drop_bit 16 uval AND 0xFF),
                     ucast (drop_bit 24 uval AND 0xFF)]"

definition ReadS32 :: "bytes \<Rightarrow> int" where
  "ReadS32 p = sint (read_u32 p)"

definition WriteS32 :: "int \<Rightarrow> bytes" where
  "WriteS32 v = write_u32 (word_of_int v)"

text \<open>The value of the four bytes of a \<^verbatim>\<open>float\<close>; \<open>f32_bits\<close> encodes zero and the normal numbers, which are all that is written.\<close>

datatype f32 = Fin rat | Inf bool | NaN

definition f32_value :: "32 word \<Rightarrow> f32" where
  "f32_value w =
     (let sgn = (if uint w \<ge> 2 ^ 31 then -1 else 1 :: rat);
          e = uint w div 2 ^ 23 mod 256;
          m = uint w mod 2 ^ 23
      in if e = 255 then (if m = 0 then Inf (uint w \<ge> 2 ^ 31) else NaN)
         else if e = 0 then Fin (sgn * of_int m * 2 powi (-149))
         else Fin (sgn * of_int (2 ^ 23 + m) * 2 powi (e - 150)))"

definition f32_bits :: "f32 \<Rightarrow> 32 word" where
  "f32_bits f =
     (case f of
        Fin q \<Rightarrow>
          if q = 0 then 0
          else let e = floor_log2 \<bar>q\<bar>
               in word_of_int ((if q < 0 then 2 ^ 31 else 0) + (e + 127) * 2 ^ 23 + (\<lfloor>\<bar>q\<bar> / 2 powi (e - 23)\<rfloor> - 2 ^ 23))
      | Inf neg \<Rightarrow> if neg then 0xFF800000 else 0x7F800000
      | NaN \<Rightarrow> 0x7FC00000)"

definition ReadF32 :: "bytes \<Rightarrow> f32" where
  "ReadF32 p = f32_value (read_u32 p)"

definition WriteF32 :: "f32 \<Rightarrow> bytes" where
  "WriteF32 v = write_u32 (f32_bits v)"

section \<open>Conversions of one sample\<close>

definition U8ToFloat :: "int \<Rightarrow> f32" where
  "U8ToFloat val = Fin (rnd 24 (rnd 24 (rnd 24 (of_int val) - 128) / 128))"

definition S16ToFloat :: "int \<Rightarrow> f32" where
  "S16ToFloat val = Fin (rnd 24 (rnd 24 (of_int val) / 32768))"

definition S24ToFloat :: "int \<Rightarrow> f32" where
  "S24ToFloat val = Fin (rnd 24 (rnd 24 (of_int val) / 8388608))"

definition S32ToFloat :: "int \<Rightarrow> f32" where
  "S32ToFloat val = Fin (rnd 24 (rnd 24 (of_int val) / 2147483648))"

text \<open>\<^verbatim>\<open>std::clamp\<close> to \<open>[-1, 1]\<close>: a NaN passes through.\<close>

definition clamp_f32 :: "f32 \<Rightarrow> rat option" where
  "clamp_f32 val =
     (case val of
        Fin q \<Rightarrow> Some (if q < -1 then -1 else if 1 < q then 1 else q)
      | Inf neg \<Rightarrow> Some (if neg then -1 else 1)
      | NaN \<Rightarrow> None)"

definition clamp_int :: "int \<Rightarrow> int \<Rightarrow> int \<Rightarrow> int" where
  "clamp_int v lo hi = (if v < lo then lo else if hi < v then hi else v)"

definition FloatToU8 :: "f32 \<Rightarrow> int option" where
  "FloatToU8 val =
     do { q \<leftarrow> clamp_f32 val; Some (clamp_int (c_round (rnd 24 (rnd 24 (q * 128) + 128))) 0 255) }"

definition FloatToS16 :: "f32 \<Rightarrow> int option" where
  "FloatToS16 val = do { q \<leftarrow> clamp_f32 val; Some (clamp_int (c_round (rnd 24 (q * 32768))) (-32768) 32767) }"

definition FloatToS24 :: "f32 \<Rightarrow> int option" where
  "FloatToS24 val = do { q \<leftarrow> clamp_f32 val; Some (clamp_int (c_round (rnd 24 (q * 8388608))) (-8388608) 8388607) }"

definition FloatToS32 :: "f32 \<Rightarrow> int option" where
  "FloatToS32 val =
     do { q \<leftarrow> clamp_f32 val; Some (clamp_int (c_round (rnd 53 (q * 2147483648))) (-2147483648) 2147483647) }"

definition FloorDiv :: "int \<Rightarrow> int \<Rightarrow> int" where
  "FloorDiv divisor v =
     (if v < 0 then swrap 32 (c_div (v - (divisor - 1)) divisor) else c_div v divisor)"

section \<open>Conversion of buffers\<close>

text \<open>
  \<open>input\<close> is the memory from the read pointer on, \<open>pos\<close> the write position in \<open>out\<close>; \<open>conv\<close> converts one sample.
\<close>

fun ConvertSamples ::
  "(bytes \<Rightarrow> 'a) \<Rightarrow> ('b \<Rightarrow> bytes) \<Rightarrow> ('a \<Rightarrow> 'b option) \<Rightarrow> nat \<Rightarrow> nat \<Rightarrow> nat \<Rightarrow> bytes \<Rightarrow> nat \<Rightarrow> bytes \<Rightarrow> bytes option" where
  "ConvertSamples rd wr conv inputBytes outputBytes 0 input pos out = Some out"
| "ConvertSamples rd wr conv inputBytes outputBytes (Suc n) input pos out =
     do {
       converted \<leftarrow> conv (rd input);
       ConvertSamples rd wr conv inputBytes outputBytes n (drop inputBytes input) (pos + outputBytes)
         (overwrite pos (wr converted) out)
     }"

type_synonym convert_result = "(Status \<times> bytes) option"

definition as_ok :: "bytes option \<Rightarrow> convert_result" where
  "as_ok r = map_option (\<lambda>out. (OK, out)) r"

definition ConvertFromU8 :: "bytes \<Rightarrow> nat \<Rightarrow> nat \<Rightarrow> nat \<Rightarrow> bytes \<Rightarrow> AudioSampleFormat \<Rightarrow> convert_result" where
  "ConvertFromU8 input sampleCount inputBytes outputBytes out outputFormat =
     (case outputFormat of
        SAMPLE_S16LE \<Rightarrow> as_ok (ConvertSamples ReadU8 WriteS16 (\<lambda>v. FloatToS16 (U8ToFloat v)) inputBytes outputBytes sampleCount input 0 out)
      | SAMPLE_S24LE \<Rightarrow> as_ok (ConvertSamples ReadU8 WriteS24 (\<lambda>v. FloatToS24 (U8ToFloat v)) inputBytes outputBytes sampleCount input 0 out)
      | SAMPLE_S32LE \<Rightarrow> as_ok (ConvertSamples ReadU8 WriteS32 (\<lambda>v. FloatToS32 (U8ToFloat v)) inputBytes outputBytes sampleCount input 0 out)
      | SAMPLE_F32LE \<Rightarrow> as_ok (ConvertSamples ReadU8 WriteF32 (\<lambda>v. Some (U8ToFloat v)) inputBytes outputBytes sampleCount input 0 out)
      | _ \<Rightarrow> Some (ERROR_UNSUPPORTED_FORMAT, out))"

definition ConvertFromS16LE :: "bytes \<Rightarrow> nat \<Rightarrow> nat \<Rightarrow> nat \<Rightarrow> bytes \<Rightarrow> AudioSampleFormat \<Rightarrow> convert_result" where
  "ConvertFromS16LE input sampleCount inputBytes outputBytes out outputFormat =
     (case outputFormat of
        SAMPLE_U8 \<Rightarrow> as_ok (ConvertSamples ReadS16 WriteU8 (\<lambda>v. FloatToU8 (S16ToFloat v)) inputBytes outputBytes sampleCount input 0 out)
      | SAMPLE_S24LE \<Rightarrow> as_ok (ConvertSamples ReadS16 WriteS24 (\<lambda>v. Some (v * 256)) inputBytes outputBytes sampleCount input 0 out)
      | SAMPLE_S32LE \<Rightarrow> as_ok (ConvertSamples ReadS16 WriteS32 (\<lambda>v. Some (v * 65536)) inputBytes outputBytes sampleCount input 0 out)
      | SAMPLE_F32LE \<Rightarrow> as_ok (ConvertSamples ReadS16 WriteF32 (\<lambda>v. Some (S16ToFloat v)) inputBytes outputBytes sampleCount input 0 out)
      | _ \<Rightarrow> Some (ERROR_UNSUPPORTED_FORMAT, out))"

definition ConvertFromS24LE :: "bytes \<Rightarrow> nat \<Rightarrow> nat \<Rightarrow> nat \<Rightarrow> bytes \<Rightarrow> AudioSampleFormat \<Rightarrow> convert_result" where
  "ConvertFromS24LE input sampleCount inputBytes outputBytes out outputFormat =
     (case outputFormat of
        SAMPLE_U8 \<Rightarrow> as_ok (ConvertSamples ReadS24 WriteU8 (\<lambda>v. FloatToU8 (S24ToFloat v)) inputBytes outputBytes sampleCount input 0 out)
      | SAMPLE_S16LE \<Rightarrow> as_ok (ConvertSamples ReadS24 WriteS16 (\<lambda>v. Some (swrap 16 (FloorDiv 256 v))) inputBytes outputBytes sampleCount input 0 out)
      | SAMPLE_S32LE \<Rightarrow> as_ok (ConvertSamples ReadS24 WriteS32 (\<lambda>v. Some (v * 256)) inputBytes outputBytes sampleCount input 0 out)
      | SAMPLE_F32LE \<Rightarrow> as_ok (ConvertSamples ReadS24 WriteF32 (\<lambda>v. Some (S24ToFloat v)) inputBytes outputBytes sampleCount input 0 out)
      | _ \<Rightarrow> Some (ERROR_UNSUPPORTED_FORMAT, out))"

definition ConvertFromS32LE :: "bytes \<Rightarrow> nat \<Rightarrow> nat \<Rightarrow> nat \<Rightarrow> bytes \<Rightarrow> AudioSampleFormat \<Rightarrow> convert_result" where
  "ConvertFromS32LE input sampleCount inputBytes outputBytes out outputFormat =
     (case outputFormat of
        SAMPLE_U8 \<Rightarrow> as_ok (ConvertSamples ReadS32 WriteU8 (\<lambda>v. FloatToU8 (S32ToFloat v)) inputBytes outputBytes sampleCount input 0 out)
      | SAMPLE_S16LE \<Rightarrow> as_ok (ConvertSamples ReadS32 WriteS16 (\<lambda>v. Some (swrap 16 (FloorDiv 65536 v))) inputBytes outputBytes sampleCount input 0 out)
      | SAMPLE_S24LE \<Rightarrow> as_ok (ConvertSamples ReadS32 WriteS24 (\<lambda>v. Some (FloorDiv 256 v)) inputBytes outputBytes sampleCount input 0 out)
      | SAMPLE_F32LE \<Rightarrow> as_ok (ConvertSamples ReadS32 WriteF32 (\<lambda>v. Some (S32ToFloat v)) inputBytes outputBytes sampleCount input 0 out)
      | _ \<Rightarrow> Some (ERROR_UNSUPPORTED_FORMAT, out))"

definition ConvertFromF32LE :: "bytes \<Rightarrow> nat \<Rightarrow> nat \<Rightarrow> nat \<Rightarrow> bytes \<Rightarrow> AudioSampleFormat \<Rightarrow> convert_result" where
  "ConvertFromF32LE input sampleCount inputBytes outputBytes out outputFormat =
     (case outputFormat of
        SAMPLE_U8 \<Rightarrow> as_ok (ConvertSamples ReadF32 WriteU8 FloatToU8 inputBytes outputBytes sampleCount input 0 out)
      | SAMPLE_S16LE \<Rightarrow> as_ok (ConvertSamples ReadF32 WriteS16 FloatToS16 inputBytes outputBytes sampleCount input 0 out)
      | SAMPLE_S24LE \<Rightarrow> as_ok (ConvertSamples ReadF32 WriteS24 FloatToS24 inputBytes outputBytes sampleCount input 0 out)
      | SAMPLE_S32LE \<Rightarrow> as_ok (ConvertSamples ReadF32 WriteS32 FloatToS32 inputBytes outputBytes sampleCount input 0 out)
      | _ \<Rightarrow> Some (ERROR_UNSUPPORTED_FORMAT, out))"

text \<open>Null pointers are \<open>None\<close>; the result holds the memory at the output pointer. The sizes given to \<^verbatim>\<open>memmove_s\<close> agree, so it does not fail below the two gigabytes the library accepts.\<close>

definition ConvertPcmSampleFormat ::
  "bytes option \<Rightarrow> nat \<Rightarrow> AudioSampleFormat \<Rightarrow> AudioSampleFormat \<Rightarrow> bytes option \<Rightarrow> (Status \<times> bytes option) option" where
  "ConvertPcmSampleFormat input sampleCount inputFormat outputFormat output =
     (case (input, output) of
        (Some inp, Some out) \<Rightarrow>
          if sampleCount = 0 then Some (OK, output)
          else if \<not> IsSupportedInterleavedFormat inputFormat \<or> \<not> IsSupportedInterleavedFormat outputFormat
          then Some (ERROR_UNSUPPORTED_FORMAT, output)
          else
            let inputBytes = GetPcmBytesPerSample inputFormat;
                outputBytes = GetPcmBytesPerSample outputFormat
            in if inputBytes = 0 \<or> outputBytes = 0 then Some (ERROR_INVALID_PARAMETER, output)
               else if inputFormat = outputFormat
               then Some (OK, Some (overwrite 0 (take (sampleCount * inputBytes) inp) out))
               else map_option (\<lambda>(s, out'). (s, Some out'))
                 (case inputFormat of
                    SAMPLE_U8 \<Rightarrow> ConvertFromU8 inp sampleCount inputBytes outputBytes out outputFormat
                  | SAMPLE_S16LE \<Rightarrow> ConvertFromS16LE inp sampleCount inputBytes outputBytes out outputFormat
                  | SAMPLE_S24LE \<Rightarrow> ConvertFromS24LE inp sampleCount inputBytes outputBytes out outputFormat
                  | SAMPLE_S32LE \<Rightarrow> ConvertFromS32LE inp sampleCount inputBytes outputBytes out outputFormat
                  | SAMPLE_F32LE \<Rightarrow> ConvertFromF32LE inp sampleCount inputBytes outputBytes out outputFormat
                  | _ \<Rightarrow> Some (ERROR_UNSUPPORTED_FORMAT, out))
      | _ \<Rightarrow> Some (ERROR_NULL_POINTER, output))"

end
