(* ===== verification/Pcm_Convert_Props.thy ===== *)
theory Pcm_Convert_Props
  imports Pcm_Convert
begin

text \<open>
  What the PCM conversions preserve. A format is a codec between bytes and values; two formats with exact conversions between
  them form a lossless pair, for which converting a whole buffer there and back gives the original bytes.
\<close>

section \<open>Codecs\<close>

locale sample_writer =
  fixes rd :: "bytes \<Rightarrow> 'v"
    and wr :: "'v \<Rightarrow> bytes"
    and width :: nat
    and valid :: "'v \<Rightarrow> bool"
  assumes length_wr: "length (wr v) = width"
    and rd_wr: "valid v \<Longrightarrow> rd (wr v @ rest) = v"

locale sample_codec = sample_writer rd wr width valid
  for rd :: "bytes \<Rightarrow> 'v" and wr width valid +
  assumes valid_rd: "width \<le> length s \<Longrightarrow> valid (rd s)"
    and wr_rd: "width \<le> length s \<Longrightarrow> wr (rd s) = take width s"

section \<open>The bytes of integers\<close>

lemma low_byte [simp]: "(ucast (w AND 0xFF :: 'a :: len word) :: 8 word) = ucast w"
proof -
  have m: "(0xFF :: 'a word) = mask 8" by (simp add: mask_eq_exp_minus_1)
  show ?thesis unfolding m by (rule bit_eqI) (auto simp: bit_simps dest: bit_imp_le_length)
qed

lemma word16_join:
  "(ucast (ucast w :: 8 word) OR push_bit 8 (ucast (ucast (drop_bit 8 w) :: 8 word)) :: 16 word) = w"
  by (rule bit_eqI) (auto simp: bit_simps)

lemma word16_split:
  "(ucast (ucast a OR push_bit 8 (ucast b) :: 16 word) :: 8 word) = a"
  "(ucast (drop_bit 8 (ucast a OR push_bit 8 (ucast b) :: 16 word)) :: 8 word) = b"
  by (rule bit_eqI; auto simp: bit_simps dest: bit_imp_le_length)+

lemma word32_join:
  "(ucast (ucast w :: 8 word) OR push_bit 8 (ucast (ucast (drop_bit 8 w) :: 8 word)) OR
     push_bit 16 (ucast (ucast (drop_bit 16 w) :: 8 word)) OR push_bit 24 (ucast (ucast (drop_bit 24 w) :: 8 word)) :: 32 word) = w"
proof (rule bit_eqI)
  fix n :: nat
  consider "n < 8" | "8 \<le> n" "n < 16" | "16 \<le> n" "n < 24" | "24 \<le> n" by linarith
  then show "bit (ucast (ucast w :: 8 word) OR push_bit 8 (ucast (ucast (drop_bit 8 w) :: 8 word)) OR
      push_bit 16 (ucast (ucast (drop_bit 16 w) :: 8 word)) OR push_bit 24 (ucast (ucast (drop_bit 24 w) :: 8 word)) :: 32 word) n =
      bit w n"
    by cases (auto simp: bit_simps dest: bit_imp_le_length)
qed

lemma word32_split:
  "(ucast (ucast a OR push_bit 8 (ucast b) OR push_bit 16 (ucast c) OR push_bit 24 (ucast d) :: 32 word) :: 8 word) = a"
  "(ucast (drop_bit 8 (ucast a OR push_bit 8 (ucast b) OR push_bit 16 (ucast c) OR push_bit 24 (ucast d) :: 32 word)) :: 8 word) = b"
  "(ucast (drop_bit 16 (ucast a OR push_bit 8 (ucast b) OR push_bit 16 (ucast c) OR push_bit 24 (ucast d) :: 32 word)) :: 8 word) = c"
  "(ucast (drop_bit 24 (ucast a OR push_bit 8 (ucast b) OR push_bit 16 (ucast c) OR push_bit 24 (ucast d) :: 32 word)) :: 8 word) = d"
  by (rule bit_eqI; auto simp: bit_simps dest: bit_imp_le_length)+

lemma take_nths:
  "1 \<le> length s \<Longrightarrow> take 1 s = [s ! 0]" "2 \<le> length s \<Longrightarrow> take 2 s = [s ! 0, s ! 1]"
  "3 \<le> length s \<Longrightarrow> take 3 s = [s ! 0, s ! 1, s ! 2]" "4 \<le> length s \<Longrightarrow> take 4 s = [s ! 0, s ! 1, s ! 2, s ! 3]"
  by (auto simp: numeral_eq_Suc Suc_le_length_iff)

lemma read_write_u32: "read_u32 (write_u32 w @ rest) = w"
  by (simp add: read_u32_def write_u32_def word32_join)

lemma write_read_u32: "4 \<le> length s \<Longrightarrow> write_u32 (read_u32 s) = take 4 s"
  unfolding read_u32_def write_u32_def low_byte word32_split by (simp add: take_nths)

lemma word_of_sint: "word_of_int (sint w) = w"
  by simp

lemma sint_in_range: "- (2 ^ 15) \<le> sint (w :: 16 word)" "sint (w :: 16 word) < 2 ^ 15"
  "- (2 ^ 31) \<le> sint (u :: 32 word)" "sint (u :: 32 word) < 2 ^ 31"
  using sint_ge [of w] sint_lt [of w] sint_ge [of u] sint_lt [of u] by simp_all

lemma sint_word_of_int_id:
  "- (2 ^ 15) \<le> v \<Longrightarrow> v < 2 ^ 15 \<Longrightarrow> sint (word_of_int v :: 16 word) = v"
  "- (2 ^ 31) \<le> v \<Longrightarrow> v < 2 ^ 31 \<Longrightarrow> sint (word_of_int v :: 32 word) = v"
  by (simp_all add: sint_sbintrunc' signed_take_bit_int_eq_self)

interpretation u8: sample_codec ReadU8 WriteU8 1 "\<lambda>v. 0 \<le> v \<and> v < 2 ^ 8"
proof unfold_locales
  fix s :: bytes
  show "0 \<le> ReadU8 s \<and> ReadU8 s < 2 ^ 8" using uint_lt2p [of "s ! 0"] by (simp add: ReadU8_def)
  show "1 \<le> length s \<Longrightarrow> WriteU8 (ReadU8 s) = take 1 s" unfolding take_nths by (simp add: WriteU8_def ReadU8_def)
qed (auto simp: ReadU8_def WriteU8_def uint_word_of_int)

interpretation s16: sample_codec ReadS16 WriteS16 2 "\<lambda>v. - (2 ^ 15) \<le> v \<and> v < 2 ^ 15"
proof unfold_locales
  fix s :: bytes
  show "- (2 ^ 15) \<le> ReadS16 s \<and> ReadS16 s < 2 ^ 15" using sint_in_range by (simp add: ReadS16_def)
  show "2 \<le> length s \<Longrightarrow> WriteS16 (ReadS16 s) = take 2 s"
    unfolding WriteS16_def ReadS16_def Let_def low_byte word_of_sint word16_split by (simp add: take_nths)
qed (auto simp: ReadS16_def WriteS16_def Let_def word16_join sint_word_of_int_id)

interpretation s32: sample_codec ReadS32 WriteS32 4 "\<lambda>v. - (2 ^ 31) \<le> v \<and> v < 2 ^ 31"
proof unfold_locales
  fix s :: bytes
  show "- (2 ^ 31) \<le> ReadS32 s \<and> ReadS32 s < 2 ^ 31" using sint_in_range by (simp add: ReadS32_def)
  show "4 \<le> length s \<Longrightarrow> WriteS32 (ReadS32 s) = take 4 s" by (simp add: WriteS32_def ReadS32_def write_read_u32)
  show "length (WriteS32 v) = 4" for v by (simp add: WriteS32_def write_u32_def)
qed (auto simp: ReadS32_def WriteS32_def read_write_u32 sint_word_of_int_id)

lemma s24_extend:
  "(if (w :: 32 word) AND 0x00800000 \<noteq> 0 then take_bit 24 w OR 0xFF000000 else take_bit 24 w) = signed_take_bit 23 w"
proof -
  have m: "(0xFF000000 :: 32 word) = NOT (mask 24)" by (simp add: mask_eq_exp_minus_1)
  have b: "(w AND 0x00800000 \<noteq> 0) = bit w 23"
  proof -
    have "(0x00800000 :: 32 word) = push_bit 23 1" by simp
    then show ?thesis by (simp add: bit_iff_and_push_bit_not_eq_0)
  qed
  show ?thesis unfolding m b
  proof (rule bit_eqI)
    fix n :: nat
    show "bit (if bit w 23 then take_bit 24 w OR NOT (mask 24) else take_bit 24 w) n = bit (signed_take_bit 23 w) n"
      by (cases "n < 23"; cases "n = 23") (auto simp: bit_simps min_def)
  qed
qed

lemma s24_value:
  fixes p :: bytes
  defines "w \<equiv> ucast (p ! 0) OR push_bit 8 (ucast (p ! 1)) OR push_bit 16 (ucast (p ! 2)) :: 32 word"
  shows "ReadS24 p = sint (signed_take_bit 23 w)" "take_bit 24 w = w"
proof -
  show t: "take_bit 24 w = w" unfolding w_def by (rule bit_eqI) (auto simp: bit_simps dest: bit_imp_le_length)
  have e: "(if w AND 0x00800000 \<noteq> 0 then w OR 0xFF000000 else w) = signed_take_bit 23 w"
    using s24_extend [of w] unfolding t .
  show "ReadS24 p = sint (signed_take_bit 23 w)"
    unfolding ReadS24_def Let_def w_def [symmetric] e ..
qed

lemma s24_word: "word_of_int (signed_take_bit 23 v) = (signed_take_bit 23 (word_of_int v) :: 32 word)"
  by (rule bit_eqI) (auto simp: bit_simps min_def)

lemma s24_join:
  "(ucast (ucast w :: 8 word) OR push_bit 8 (ucast (ucast (drop_bit 8 w) :: 8 word)) OR
     push_bit 16 (ucast (ucast (drop_bit 16 w) :: 8 word)) :: 32 word) = take_bit 24 (w :: 32 word)"
proof (rule bit_eqI)
  fix n :: nat
  consider "n < 8" | "8 \<le> n" "n < 16" | "16 \<le> n" "n < 24" | "24 \<le> n" by linarith
  then show "bit (ucast (ucast w :: 8 word) OR push_bit 8 (ucast (ucast (drop_bit 8 w) :: 8 word)) OR
      push_bit 16 (ucast (ucast (drop_bit 16 w) :: 8 word)) :: 32 word) n = bit (take_bit 24 w) n"
    by cases (auto simp: bit_simps dest: bit_imp_le_length)
qed

lemma s24_split:
  fixes a b c :: "8 word"
  defines "w \<equiv> ucast a OR push_bit 8 (ucast b) OR push_bit 16 (ucast c) :: 32 word"
  shows "(ucast (signed_take_bit 23 w) :: 8 word) = a" "(ucast (drop_bit 8 (signed_take_bit 23 w)) :: 8 word) = b"
    "(ucast (drop_bit 16 (signed_take_bit 23 w)) :: 8 word) = c"
proof -
  show "(ucast (signed_take_bit 23 w) :: 8 word) = a" "(ucast (drop_bit 8 (signed_take_bit 23 w)) :: 8 word) = b"
    unfolding w_def by (rule bit_eqI; auto simp: bit_simps min_def dest: bit_imp_le_length)+
  show "(ucast (drop_bit 16 (signed_take_bit 23 w)) :: 8 word) = c"
  proof (rule bit_eqI)
    fix n :: nat
    consider "n < 7" | "n = 7" | "8 \<le> n" by linarith
    then show "bit (ucast (drop_bit 16 (signed_take_bit 23 w)) :: 8 word) n = bit c n"
      unfolding w_def by cases (auto simp: bit_simps min_def dest: bit_imp_le_length)
  qed
qed

interpretation s24: sample_codec ReadS24 WriteS24 3 "\<lambda>v. - (2 ^ 23) \<le> v \<and> v < 2 ^ 23"
proof unfold_locales
  fix s :: bytes and v :: int
  let ?w = "ucast (s ! 0) OR push_bit 8 (ucast (s ! 1)) OR push_bit 16 (ucast (s ! 2)) :: 32 word"
  have "ReadS24 s = sint (word_of_int (signed_take_bit 23 (uint ?w)) :: 32 word)"
    unfolding s24_value s24_word by simp
  moreover have "- (2 ^ 23) \<le> signed_take_bit 23 (uint ?w)" "signed_take_bit 23 (uint ?w) < 2 ^ 23"
    using signed_take_bit_int_greater_eq_minus_exp [of 23 "uint ?w"] signed_take_bit_int_less_exp [of 23 "uint ?w"] by auto
  ultimately show "- (2 ^ 23) \<le> ReadS24 s \<and> ReadS24 s < 2 ^ 23" using sint_word_of_int_id(2) by simp
  show "3 \<le> length s \<Longrightarrow> WriteS24 (ReadS24 s) = take 3 s"
    unfolding s24_value WriteS24_def Let_def word_of_sint low_byte s24_split by (simp add: take_nths)
  fix rest
  assume v: "- (2 ^ 23) \<le> v \<and> v < 2 ^ 23"
  have "ReadS24 (WriteS24 v @ rest) = sint (signed_take_bit 23 (take_bit 24 (word_of_int v :: 32 word)))"
    unfolding s24_value by (simp add: WriteS24_def Let_def s24_join)
  also have "signed_take_bit 23 (take_bit 24 (word_of_int v :: 32 word)) = word_of_int (signed_take_bit 23 v)"
    unfolding s24_word by (rule bit_eqI) (auto simp: bit_simps min_def)
  also have "\<dots> = word_of_int v" using v by (simp add: signed_take_bit_int_eq_self)
  finally show "ReadS24 (WriteS24 v @ rest) = v" using v by (simp add: sint_word_of_int_id)
qed (simp add: WriteS24_def Let_def)

section \<open>The bytes of floats\<close>

text \<open>The numbers the conversions produce: 24 significant bits and a moderate exponent.\<close>

definition f32_sample :: "f32 \<Rightarrow> bool" where
  "f32_sample f = (\<exists>m k. f = Fin (of_int m * 2 powi k) \<and> \<bar>m\<bar> < 2 ^ 24 \<and> - 100 \<le> k \<and> k \<le> 100)"

lemma f32_fields:
  fixes s e m :: int
  assumes "s = 0 \<or> s = 1" "0 \<le> e" "e < 256" "0 \<le> m" "m < 2 ^ 23"
  defines "x \<equiv> s * 2 ^ 31 + e * 2 ^ 23 + m"
  shows "uint (word_of_int x :: 32 word) = x" "x mod 2 ^ 23 = m" "x div 2 ^ 23 mod 256 = e" "(x \<ge> 2 ^ 31) = (s = 1)"
proof -
  have d: "x = m + (s * 256 + e) * 2 ^ 23" unfolding x_def by simp
  have "x div 2 ^ 23 = s * 256 + e" unfolding d using assms(4,5) by simp
  then show "x div 2 ^ 23 mod 256 = e" using assms(1-3) by auto
  show "x mod 2 ^ 23 = m" unfolding d mod_mult_self1 using assms(4,5) by (rule mod_pos_pos_trivial)
  have "0 \<le> x" "x < 2 ^ 32" using assms(1-5) unfolding x_def by auto
  then show "uint (word_of_int x :: 32 word) = x" by (simp add: uint_word_of_int)
  show "(x \<ge> 2 ^ 31) = (s = 1)" using assms(1-5) unfolding x_def by auto
qed

lemma significand:
  fixes m k :: int
  assumes "\<bar>m\<bar> < 2 ^ 24" "m \<noteq> 0"
  defines "q \<equiv> of_int m * 2 powi k :: rat"
  defines "e \<equiv> floor_log2 \<bar>q\<bar>"
  shows "k \<le> e" "e < k + 24" "\<exists>M. \<bar>q\<bar> = of_int M * 2 powi (e - 23) \<and> 2 ^ 23 \<le> M \<and> M < 2 ^ 24"
proof -
  have q: "\<bar>q\<bar> = of_int \<bar>m\<bar> * 2 powi k" "0 < \<bar>q\<bar>" using assms(2) by (simp_all add: q_def abs_mult)
  have b: "2 powi e \<le> \<bar>q\<bar>" "\<bar>q\<bar> < 2 powi (e + 1)" using floor_log2_bounds [OF q(2)] by (auto simp: e_def)
  have "of_int 1 \<le> (of_int \<bar>m\<bar> :: rat)" "of_int \<bar>m\<bar> < (of_int (2 ^ 24) :: rat)"
    using assms(1,2) by (simp_all only: of_int_le_iff of_int_less_iff)
  then have "2 powi k \<le> \<bar>q\<bar>" "\<bar>q\<bar> < 2 powi (24 + k)"
    unfolding q(1) powi_2_add
    using mult_right_mono [of 1 "of_int \<bar>m\<bar>" "2 powi k :: rat"] mult_strict_right_mono [of "of_int \<bar>m\<bar>" "2 ^ 24" "2 powi k :: rat"]
    by (simp_all del: of_int_abs)
  then have "2 powi k < (2 :: rat) powi (e + 1)" "2 powi e < (2 :: rat) powi (24 + k)" using b by linarith+
  then show ke: "k \<le> e" "e < k + 24" using powi_2_less by fastforce+
  let ?M = "\<bar>m\<bar> * 2 ^ nat (k - (e - 23))"
  have "(of_int ?M :: rat) = of_int \<bar>m\<bar> * 2 powi (k - (e - 23))" using ke by (simp add: power_int_nonneg_exp)
  then have M: "\<bar>q\<bar> = of_int ?M * 2 powi (e - 23)" unfolding q(1) by (simp add: powi_2_diff)
  have "(2 :: rat) powi e = of_int (2 ^ 23) * 2 powi (e - 23)" "(2 :: rat) powi (e + 1) = of_int (2 ^ 24) * 2 powi (e - 23)"
    by (simp_all add: powi_2_diff powi_2_add)
  then have "of_int (2 ^ 23) \<le> (of_int ?M :: rat)" "(of_int ?M :: rat) < of_int (2 ^ 24)"
    using b unfolding M by (simp_all del: of_int_power of_int_mult of_int_abs)
  then have "2 ^ 23 \<le> ?M" "?M < 2 ^ 24" by (simp_all only: of_int_le_iff of_int_less_iff)
  with M show "\<exists>M. \<bar>q\<bar> = of_int M * 2 powi (e - 23) \<and> 2 ^ 23 \<le> M \<and> M < 2 ^ 24" by blast
qed

lemma f32_value_bits:
  assumes "f32_sample f"
  shows "f32_value (f32_bits f) = f"
proof -
  obtain m k where f: "f = Fin (of_int m * 2 powi k)" "\<bar>m\<bar> < 2 ^ 24" "- 100 \<le> k" "k \<le> 100"
    using assms by (auto simp: f32_sample_def)
  show ?thesis
  proof (cases "m = 0")
    case True
    then show ?thesis using f by (simp add: f32_bits_def f32_value_def)
  next
    case False
    define q :: rat where "q = of_int m * 2 powi k"
    define e where "e = floor_log2 \<bar>q\<bar>"
    define s :: int where "s = (if q < 0 then 1 else 0)"
    have e: "k \<le> e" "e < k + 24" using significand(1,2) [OF f(2) False, of k] by (simp_all add: e_def q_def)
    obtain M where M: "\<bar>q\<bar> = of_int M * 2 powi (e - 23)" "2 ^ 23 \<le> M" "M < 2 ^ 24"
      using significand(3) [OF f(2) False, of k] unfolding e_def q_def by blast
    let ?x = "s * 2 ^ 31 + (e + 127) * 2 ^ 23 + (M - 2 ^ 23)"
    have fq: "f = Fin q" "q \<noteq> 0" using f(1) False by (simp_all add: q_def)
    have "\<bar>q\<bar> / 2 powi (e - 23) = of_int M" unfolding M(1) by simp
    then have "f32_bits f = word_of_int ?x" using fq by (simp add: f32_bits_def s_def Let_def flip: e_def)
    moreover have s01: "s = 0 \<or> s = 1" by (simp add: s_def)
    have r: "0 \<le> e + 127" "e + 127 < 256" "0 \<le> M - 2 ^ 23" "M - 2 ^ 23 < 2 ^ 23" "e + 127 \<noteq> 0" "e + 127 \<noteq> 255"
      using e f(3,4) M(2,3) by auto
    note fld = f32_fields [OF s01 r(1-4)]
    have "f32_value (word_of_int ?x) = Fin ((if s = 1 then -1 else 1) * of_int (2 ^ 23 + (M - 2 ^ 23)) * 2 powi (e + 127 - 150))"
      unfolding f32_value_def Let_def fld(1) fld(2) fld(3) fld(4) using r(5,6) by (simp only: if_False)
    moreover have "of_int (2 ^ 23 + (M - 2 ^ 23)) * 2 powi (e + 127 - 150) = \<bar>q\<bar>" unfolding M(1) by simp
    moreover have "(if s = 1 then -1 else 1) * \<bar>q\<bar> = q" by (auto simp: s_def abs_if)
    ultimately show ?thesis using fq(1) by (simp add: mult.assoc)
  qed
qed

interpretation f32: sample_writer ReadF32 WriteF32 4 f32_sample
proof unfold_locales
  show "length (WriteF32 v) = 4" for v by (simp add: WriteF32_def write_u32_def)
qed (simp add: ReadF32_def WriteF32_def read_write_u32 f32_value_bits)

section \<open>Conversions of one sample\<close>

lemma to_float_exact:
  assumes "\<bar>m\<bar> < 2 ^ 24"
  shows "rnd 24 (rnd 24 (of_int m * 2 powi k) / 2 ^ j) = of_int m * 2 powi (k - int j)"
proof -
  have "of_int m * 2 powi k / 2 ^ j = (of_int m * 2 powi (k - int j) :: rat)" by (simp add: powi_2_diff)
  then show ?thesis using rnd_exact [OF assms] by simp
qed

lemma scale_exact:
  assumes "\<bar>m\<bar> < 2 ^ p" "j \<le> n"
  shows "rnd p (of_int m * 2 powi (- int j) * 2 ^ n) = of_int (m * 2 ^ (n - j))"
proof -
  have "of_int m * 2 powi (- int j) * 2 ^ n = (of_int m * 2 powi (int (n - j)) :: rat)"
    using assms(2) by (simp add: of_nat_diff powi_2_diff power_int_minus field_simps)
  then have "rnd p (of_int m * 2 powi (- int j) * 2 ^ n) = rnd p (of_int m * 2 powi (int (n - j)))" by (rule arg_cong)
  also have "\<dots> = of_int (m * 2 ^ (n - j))" using rnd_exact [OF assms(1), of "int (n - j)"] by simp
  finally show ?thesis .
qed

lemma clamp_f32_id:
  assumes "\<bar>m\<bar> \<le> 2 ^ j"
  shows "clamp_f32 (Fin (of_int m * 2 powi (- int j))) = Some (of_int m * 2 powi (- int j))"
proof -
  have "of_int \<bar>m\<bar> \<le> (of_int (2 ^ j) :: rat)" using assms by (simp only: of_int_le_iff)
  then have "\<bar>of_int m * 2 powi (- int j)\<bar> \<le> (1 :: rat)" by (simp add: abs_mult power_int_minus field_simps)
  then show ?thesis by (auto simp: clamp_f32_def abs_le_iff)
qed

lemma U8ToFloat_eq: "0 \<le> v \<Longrightarrow> v < 256 \<Longrightarrow> U8ToFloat v = Fin (of_int (v - 128) * 2 powi (- int 7))"
proof -
  assume v: "0 \<le> v" "v < 256"
  have "rnd 24 (of_int v) - 128 = (of_int (v - 128) * 2 powi 0 :: rat)" using v by (simp add: rnd_exact_int)
  then show ?thesis using to_float_exact [of "v - 128" 0 7] v by (simp add: U8ToFloat_def)
qed

lemma S16ToFloat_eq: "\<bar>m * 2 ^ i\<bar> < 2 ^ 24 \<Longrightarrow> i \<le> 15 \<Longrightarrow> S16ToFloat (m * 2 ^ i) = Fin (of_int m * 2 powi (- int (15 - i)))"
  using to_float_exact [of "m * 2 ^ i" 0 15] by (simp add: S16ToFloat_def of_nat_diff powi_2_diff power_int_minus field_simps)

lemma S24ToFloat_eq: "\<bar>m * 2 ^ i\<bar> < 2 ^ 24 \<Longrightarrow> i \<le> 23 \<Longrightarrow> S24ToFloat (m * 2 ^ i) = Fin (of_int m * 2 powi (- int (23 - i)))"
  using to_float_exact [of "m * 2 ^ i" 0 23] by (simp add: S24ToFloat_def of_nat_diff powi_2_diff power_int_minus field_simps)

lemma S32ToFloat_eq: "\<bar>m\<bar> < 2 ^ 24 \<Longrightarrow> i \<le> 31 \<Longrightarrow> S32ToFloat (m * 2 ^ i) = Fin (of_int m * 2 powi (- int (31 - i)))"
  using to_float_exact [of m "int i" 31] by (simp add: S32ToFloat_def of_nat_diff powi_2_diff power_int_minus field_simps)

lemma FloatToS16_eq: "\<bar>m\<bar> \<le> 2 ^ j \<Longrightarrow> j \<le> 15 \<Longrightarrow> \<bar>m\<bar> < 2 ^ 24 \<Longrightarrow>
    FloatToS16 (Fin (of_int m * 2 powi (- int j))) = Some (clamp_int (m * 2 ^ (15 - j)) (-32768) 32767)"
  using scale_exact [of m 24 j 15] by (simp add: FloatToS16_def clamp_f32_id del: of_int_mult)

lemma FloatToS24_eq: "\<bar>m\<bar> \<le> 2 ^ j \<Longrightarrow> j \<le> 23 \<Longrightarrow> \<bar>m\<bar> < 2 ^ 24 \<Longrightarrow>
    FloatToS24 (Fin (of_int m * 2 powi (- int j))) = Some (clamp_int (m * 2 ^ (23 - j)) (-8388608) 8388607)"
  using scale_exact [of m 24 j 23] by (simp add: FloatToS24_def clamp_f32_id del: of_int_mult)

lemma FloatToS32_eq: "\<bar>m\<bar> \<le> 2 ^ j \<Longrightarrow> j \<le> 31 \<Longrightarrow> \<bar>m\<bar> < 2 ^ 53 \<Longrightarrow>
    FloatToS32 (Fin (of_int m * 2 powi (- int j))) = Some (clamp_int (m * 2 ^ (31 - j)) (-2147483648) 2147483647)"
  using scale_exact [of m 53 j 31] by (simp add: FloatToS32_def clamp_f32_id del: of_int_mult)

lemma FloatToU8_eq:
  assumes "0 \<le> v" "v < 256"
  shows "FloatToU8 (Fin (of_int (v - 128) * 2 powi (- int 7))) = Some v"
proof -
  have "rnd 24 (of_int (v - 128) * 2 powi (- int 7) * 2 ^ 7) = (of_int (v - 128) :: rat)"
    using scale_exact [of "v - 128" 24 7 7] assms by simp
  moreover have "rnd 24 (of_int (v - 128) + 128) = (of_int v :: rat)" using rnd_exact_int [of v 24] assms by simp
  moreover have "\<bar>v - 128\<bar> \<le> 2 ^ 7" using assms by simp
  note clamp_f32_id [OF this]
  ultimately show ?thesis using assms by (simp add: FloatToU8_def clamp_int_def del: of_int_diff)
qed

lemma FloorDiv_div:
  assumes "0 < d" "d \<le> 2 ^ 31" "- (2 ^ 31) \<le> v" "v < 2 ^ 31"
  shows "FloorDiv d v = v div d"
proof (cases "v < 0")
  case True
  have "d - 1 - v = d * - (v div d) + (d - 1 - v mod d)"
    using div_mult_mod_eq [of v d] by (simp add: algebra_simps)
  then have "(d - 1 - v) div d = - (v div d)"
    by (rule int_div_pos_eq) (use assms(1) pos_mod_bound [of d v] pos_mod_sign [of d v] in linarith)+
  then have "c_div (v - (d - 1)) d = v div d" using True assms(1) by (simp add: c_div_def)
  moreover have "- (2 ^ 31) \<le> v div d" "v div d < 0"
  proof -
    show "v div d < 0" using True assms(1) by (simp add: div_neg_pos_less0)
    have "v \<le> v div d" using True assms(1) by (smt (verit) div_by_1 zdiv_mono2_neg)
    then show "- (2 ^ 31) \<le> v div d" using assms(3) by linarith
  qed
  ultimately show ?thesis using True by (simp add: FloorDiv_def swrap_id)
qed (use assms in \<open>simp add: FloorDiv_def c_div_def\<close>)

section \<open>Conversion of buffers\<close>

lemma ConvertSamples_eq:
  assumes "\<forall>i < n. conv (rd (drop (i * ib) input)) = Some (c i)" "\<forall>i < n. length (wr (c i)) = ob"
    "pos + n * ob \<le> length out"
  shows "ConvertSamples rd wr conv ib ob n input pos out =
    Some (overwrite pos (concat (map (\<lambda>i. wr (c i)) [0..<n])) out)"
  using assms
proof (induction n arbitrary: input pos out c)
  case (Suc n)
  let ?out = "overwrite pos (wr (c 0)) out"
  have l: "length (wr (c 0)) = ob" "length ?out = length out" using Suc.prems(2,3) by (simp_all add: length_overwrite)
  have "ConvertSamples rd wr conv ib ob n (drop ib input) (pos + ob) ?out =
      Some (overwrite (pos + ob) (concat (map (\<lambda>i. wr (c (Suc i))) [0..<n])) ?out)"
  proof (rule Suc.IH)
    show "\<forall>i < n. conv (rd (drop (i * ib) (drop ib input))) = Some (c (Suc i))"
      using Suc.prems(1) by (metis Suc_less_eq drop_drop add.commute mult_Suc)
  qed (use Suc.prems(2,3) l in auto)
  moreover have "pos + length (wr (c 0)) + length (concat (map (\<lambda>i. wr (c (Suc i))) [0..<n])) \<le> length out"
    using Suc.prems(2,3) l length_pieces [of n "\<lambda>i. wr (c (Suc i))" ob] by simp
  moreover have "conv (rd input) = Some (c 0)" using Suc.prems(1) by (metis drop_0 mult_0 zero_less_Suc)
  moreover have "wr (c 0) @ concat (map (\<lambda>i. wr (c (Suc i))) [0..<n]) = concat (map (\<lambda>i. wr (c i)) [0..<Suc n])"
    by (simp add: upt_conv_Cons comp_def flip: map_Suc_upt del: upt_Suc)
  ultimately show ?case using l overwrite_append [of pos "wr (c 0)" _ out] by simp
qed (simp add: overwrite_def)

locale lossless_pair = A: sample_codec rd1 wr1 n1 valid1 + B: sample_writer rd2 wr2 n2 valid2
  for rd1 :: "bytes \<Rightarrow> 'v" and wr1 n1 valid1 and rd2 :: "bytes \<Rightarrow> 'w" and wr2 n2 valid2 +
  fixes conv :: "'v \<Rightarrow> 'w option" and unconv :: "'w \<Rightarrow> 'v option"
  assumes exact: "valid1 v \<Longrightarrow> \<exists>w. conv v = Some w \<and> valid2 w \<and> unconv w = Some v"
begin

lemma there_and_back:
  assumes "n * n1 \<le> length input" "n * n2 \<le> length out1" "n * n1 \<le> length out2"
  shows "\<exists>o1 o2. ConvertSamples rd1 wr2 conv n1 n2 n input 0 out1 = Some o1 \<and> length o1 = length out1 \<and>
    ConvertSamples rd2 wr1 unconv n2 n1 n o1 0 out2 = Some o2 \<and> take (n * n1) o2 = take (n * n1) input"
proof -
  define v where "v i = rd1 (drop (i * n1) input)" for i
  have len: "n1 \<le> length (drop (i * n1) input)" if "i < n" for i
  proof -
    have "Suc i * n1 \<le> n * n1" using that by (intro mult_right_mono) auto
    then show ?thesis using assms(1) by simp
  qed
  have "\<forall>i. \<exists>w. i < n \<longrightarrow> conv (v i) = Some w \<and> valid2 w \<and> unconv w = Some (v i)"
    using exact A.valid_rd len unfolding v_def by blast
  then obtain w where w: "\<And>i. i < n \<Longrightarrow> conv (v i) = Some (w i) \<and> valid2 (w i) \<and> unconv (w i) = Some (v i)" by metis
  let ?mid = "concat (map (\<lambda>i. wr2 (w i)) [0..<n])"
  let ?o1 = "overwrite 0 ?mid out1"
  have mid: "length ?mid = n * n2" by (rule length_pieces) (simp add: B.length_wr)
  have o1: "ConvertSamples rd1 wr2 conv n1 n2 n input 0 out1 = Some ?o1"
    by (rule ConvertSamples_eq) (use w assms(2) in \<open>auto simp: v_def B.length_wr\<close>)
  have "rd2 (drop (i * n2) ?o1) = w i" if i: "i < n" for i
  proof -
    obtain rest where "drop (i * n2) ?mid = wr2 (w i) @ rest"
      using nth_piece [of n "\<lambda>i. wr2 (w i)" n2 i] i B.length_wr by blast
    moreover have "i * n2 \<le> length ?mid" using mid i by simp
    ultimately have "drop (i * n2) ?o1 = wr2 (w i) @ (rest @ drop (length ?mid) out1)" by (simp add: overwrite_def)
    then show ?thesis using B.rd_wr w i by metis
  qed
  then have o2: "ConvertSamples rd2 wr1 unconv n2 n1 n ?o1 0 out2 = Some (overwrite 0 (concat (map (\<lambda>i. wr1 (v i)) [0..<n])) out2)"
    by (intro ConvertSamples_eq) (use w assms(3) in \<open>auto simp: A.length_wr\<close>)
  have "map (\<lambda>i. wr1 (v i)) [0..<n] = map (\<lambda>i. take n1 (drop (i * n1) input)) [0..<n]"
    using A.wr_rd len by (intro map_cong) (auto simp: v_def)
  then have c: "concat (map (\<lambda>i. wr1 (v i)) [0..<n]) = take (n * n1) input" using pieces_of_list [OF assms(1)] by metis
  have "take (n * n1) (overwrite 0 (take (n * n1) input) out2) = take (n * n1) input"
    using take_overwrite [of "take (n * n1) input" out2] assms(1,3) by (simp add: min_absorb2)
  with o1 o2 c mid assms(2) show ?thesis
    by (intro exI [of _ ?o1] exI [of _ "overwrite 0 (take (n * n1) input) out2"]) simp
qed

end

lemma u8_magnitude: "0 \<le> v \<Longrightarrow> v < 2 ^ 8 \<Longrightarrow> \<bar>v - 128\<bar> \<le> 2 ^ 7 \<and> \<bar>v - 128\<bar> < 2 ^ 24 \<and> \<bar>v - 128\<bar> < (2 :: int) ^ 53"
  by auto

lemma f32_sampleI: "\<bar>m\<bar> < 2 ^ 24 \<Longrightarrow> n \<le> 100 \<Longrightarrow> f32_sample (Fin (of_int m * 2 powi (- int n)))"
  unfolding f32_sample_def by (intro exI [of _ m] exI [of _ "- int n"]) auto

lemma swrap16_id: "- (2 ^ 15) \<le> v \<Longrightarrow> v < 2 ^ 15 \<Longrightarrow> swrap 16 v = v"
  by (rule swrap_id) simp_all

interpretation u8_s16: lossless_pair ReadU8 WriteU8 1 "\<lambda>v. 0 \<le> v \<and> v < 2 ^ 8"
  ReadS16 WriteS16 2 "\<lambda>v. - (2 ^ 15) \<le> v \<and> v < 2 ^ 15"
  "\<lambda>v. FloatToS16 (U8ToFloat v)" "\<lambda>v. FloatToU8 (S16ToFloat v)"
proof unfold_locales
  fix v :: int
  assume v: "0 \<le> v \<and> v < 2 ^ 8"
  then have m: "\<bar>v - 128\<bar> \<le> 2 ^ 7" "\<bar>v - 128\<bar> < 2 ^ 24" "\<bar>v - 128\<bar> < 2 ^ 53" using u8_magnitude by auto
  have "FloatToS16 (U8ToFloat v) = Some ((v - 128) * 2 ^ 8)"
    using v FloatToS16_eq [OF m(1) _ m(2)] by (simp add: U8ToFloat_eq clamp_int_def)
  moreover have a: "\<bar>(v - 128) * 2 ^ 8\<bar> < 2 ^ 16" using v by (simp add: abs_less_iff)
  have "S16ToFloat ((v - 128) * 2 ^ 8) = Fin (of_int (v - 128) * 2 powi (- int 7))"
    using v S16ToFloat_eq [OF order.strict_trans [OF a]] by simp
  then have "FloatToU8 (S16ToFloat ((v - 128) * 2 ^ 8)) = Some v" using v FloatToU8_eq [of v] by simp
  ultimately show "\<exists>w. FloatToS16 (U8ToFloat v) = Some w \<and> (- (2 ^ 15) \<le> w \<and> w < 2 ^ 15) \<and> FloatToU8 (S16ToFloat w) = Some v"
    using v by auto
qed

interpretation u8_s24: lossless_pair ReadU8 WriteU8 1 "\<lambda>v. 0 \<le> v \<and> v < 2 ^ 8"
  ReadS24 WriteS24 3 "\<lambda>v. - (2 ^ 23) \<le> v \<and> v < 2 ^ 23"
  "\<lambda>v. FloatToS24 (U8ToFloat v)" "\<lambda>v. FloatToU8 (S24ToFloat v)"
proof unfold_locales
  fix v :: int
  assume v: "0 \<le> v \<and> v < 2 ^ 8"
  then have m: "\<bar>v - 128\<bar> \<le> 2 ^ 7" "\<bar>v - 128\<bar> < 2 ^ 24" "\<bar>v - 128\<bar> < 2 ^ 53" using u8_magnitude by auto
  have "FloatToS24 (U8ToFloat v) = Some ((v - 128) * 2 ^ 16)"
    using v FloatToS24_eq [OF m(1) _ m(2)] by (simp add: U8ToFloat_eq clamp_int_def)
  moreover have a: "\<bar>(v - 128) * 2 ^ 16\<bar> < 2 ^ 24" using v by (simp add: abs_less_iff)
  have "S24ToFloat ((v - 128) * 2 ^ 16) = Fin (of_int (v - 128) * 2 powi (- int 7))"
    using v S24ToFloat_eq [OF a] by simp
  then have "FloatToU8 (S24ToFloat ((v - 128) * 2 ^ 16)) = Some v" using v FloatToU8_eq [of v] by simp
  ultimately show "\<exists>w. FloatToS24 (U8ToFloat v) = Some w \<and> (- (2 ^ 23) \<le> w \<and> w < 2 ^ 23) \<and> FloatToU8 (S24ToFloat w) = Some v"
    using v by auto
qed

interpretation u8_s32: lossless_pair ReadU8 WriteU8 1 "\<lambda>v. 0 \<le> v \<and> v < 2 ^ 8"
  ReadS32 WriteS32 4 "\<lambda>v. - (2 ^ 31) \<le> v \<and> v < 2 ^ 31"
  "\<lambda>v. FloatToS32 (U8ToFloat v)" "\<lambda>v. FloatToU8 (S32ToFloat v)"
proof unfold_locales
  fix v :: int
  assume v: "0 \<le> v \<and> v < 2 ^ 8"
  then have m: "\<bar>v - 128\<bar> \<le> 2 ^ 7" "\<bar>v - 128\<bar> < 2 ^ 24" "\<bar>v - 128\<bar> < 2 ^ 53" using u8_magnitude by auto
  have "FloatToS32 (U8ToFloat v) = Some ((v - 128) * 2 ^ 24)"
    using v FloatToS32_eq [OF m(1) _ m(3)] by (simp add: U8ToFloat_eq clamp_int_def)
  moreover have a: "\<bar>(v - 128) * 2 ^ 24\<bar> < 2 ^ 32" using v by (simp add: abs_less_iff)
  have "S32ToFloat ((v - 128) * 2 ^ 24) = Fin (of_int (v - 128) * 2 powi (- int 7))"
    using v S32ToFloat_eq [OF m(2), of 24] by simp
  then have "FloatToU8 (S32ToFloat ((v - 128) * 2 ^ 24)) = Some v" using v FloatToU8_eq [of v] by simp
  ultimately show "\<exists>w. FloatToS32 (U8ToFloat v) = Some w \<and> (- (2 ^ 31) \<le> w \<and> w < 2 ^ 31) \<and> FloatToU8 (S32ToFloat w) = Some v"
    using v by auto
qed

interpretation u8_f32: lossless_pair ReadU8 WriteU8 1 "\<lambda>v. 0 \<le> v \<and> v < 2 ^ 8"
  ReadF32 WriteF32 4 f32_sample
  "\<lambda>v. Some (U8ToFloat v)" "FloatToU8"
proof unfold_locales
  fix v :: int
  assume v: "0 \<le> v \<and> v < 2 ^ 8"
  then have "\<bar>v - 128\<bar> < 2 ^ 24" "U8ToFloat v = Fin (of_int (v - 128) * 2 powi (- int 7))"
    using u8_magnitude U8ToFloat_eq by auto
  then have "f32_sample (U8ToFloat v)" "FloatToU8 (U8ToFloat v) = Some v"
    using FloatToU8_eq [of v] v f32_sampleI [of "v - 128" 7] by simp_all
  then show "\<exists>w. Some (U8ToFloat v) = Some w \<and> f32_sample w \<and> FloatToU8 w = Some v" by blast
qed

interpretation s16_s24: lossless_pair ReadS16 WriteS16 2 "\<lambda>v. - (2 ^ 15) \<le> v \<and> v < 2 ^ 15"
  ReadS24 WriteS24 3 "\<lambda>v. - (2 ^ 23) \<le> v \<and> v < 2 ^ 23"
  "\<lambda>v. Some (v * 256)" "\<lambda>v. Some (swrap 16 (FloorDiv 256 v))"
proof unfold_locales
  fix v :: int
  assume v: "- (2 ^ 15) \<le> v \<and> v < 2 ^ 15"
  then have "FloorDiv 256 (v * 256) = v" by (subst FloorDiv_div) auto
  with v show "\<exists>w. Some (v * 256) = Some w \<and> (- (2 ^ 23) \<le> w \<and> w < 2 ^ 23) \<and> Some (swrap 16 (FloorDiv 256 w)) = Some v"
    by (simp add: swrap16_id)
qed

interpretation s16_s32: lossless_pair ReadS16 WriteS16 2 "\<lambda>v. - (2 ^ 15) \<le> v \<and> v < 2 ^ 15"
  ReadS32 WriteS32 4 "\<lambda>v. - (2 ^ 31) \<le> v \<and> v < 2 ^ 31"
  "\<lambda>v. Some (v * 65536)" "\<lambda>v. Some (swrap 16 (FloorDiv 65536 v))"
proof unfold_locales
  fix v :: int
  assume v: "- (2 ^ 15) \<le> v \<and> v < 2 ^ 15"
  then have "FloorDiv 65536 (v * 65536) = v" by (subst FloorDiv_div) auto
  with v show "\<exists>w. Some (v * 65536) = Some w \<and> (- (2 ^ 31) \<le> w \<and> w < 2 ^ 31) \<and> Some (swrap 16 (FloorDiv 65536 w)) = Some v"
    by (simp add: swrap16_id)
qed

interpretation s24_s32: lossless_pair ReadS24 WriteS24 3 "\<lambda>v. - (2 ^ 23) \<le> v \<and> v < 2 ^ 23"
  ReadS32 WriteS32 4 "\<lambda>v. - (2 ^ 31) \<le> v \<and> v < 2 ^ 31"
  "\<lambda>v. Some (v * 256)" "\<lambda>v. Some (FloorDiv 256 v)"
proof unfold_locales
  fix v :: int
  assume v: "- (2 ^ 23) \<le> v \<and> v < 2 ^ 23"
  then have "FloorDiv 256 (v * 256) = v" by (subst FloorDiv_div) auto
  with v show "\<exists>w. Some (v * 256) = Some w \<and> (- (2 ^ 31) \<le> w \<and> w < 2 ^ 31) \<and> Some (FloorDiv 256 w) = Some v"
    by (simp)
qed

interpretation s16_f32: lossless_pair ReadS16 WriteS16 2 "\<lambda>v. - (2 ^ 15) \<le> v \<and> v < 2 ^ 15"
  ReadF32 WriteF32 4 f32_sample
  "\<lambda>v. Some (S16ToFloat v)" "FloatToS16"
proof unfold_locales
  fix v :: int
  assume v: "- (2 ^ 15) \<le> v \<and> v < 2 ^ 15"
  then have m: "\<bar>v\<bar> \<le> 2 ^ 15" "\<bar>v\<bar> < 2 ^ 24" by auto
  then have f: "S16ToFloat v = Fin (of_int v * 2 powi (- int 15))" using S16ToFloat_eq [of v 0] by simp
  then have "f32_sample (S16ToFloat v)" using f32_sampleI [OF m(2), of 15] by simp
  moreover have "FloatToS16 (S16ToFloat v) = Some v"
    unfolding f using v FloatToS16_eq [OF m(1) _ m(2)] by (simp add: clamp_int_def)
  ultimately show "\<exists>w. Some (S16ToFloat v) = Some w \<and> f32_sample w \<and> FloatToS16 w = Some v" by blast
qed

interpretation s24_f32: lossless_pair ReadS24 WriteS24 3 "\<lambda>v. - (2 ^ 23) \<le> v \<and> v < 2 ^ 23"
  ReadF32 WriteF32 4 f32_sample
  "\<lambda>v. Some (S24ToFloat v)" "FloatToS24"
proof unfold_locales
  fix v :: int
  assume v: "- (2 ^ 23) \<le> v \<and> v < 2 ^ 23"
  then have m: "\<bar>v\<bar> \<le> 2 ^ 23" "\<bar>v\<bar> < 2 ^ 24" by auto
  then have f: "S24ToFloat v = Fin (of_int v * 2 powi (- int 23))" using S24ToFloat_eq [of v 0] by simp
  then have "f32_sample (S24ToFloat v)" using f32_sampleI [OF m(2), of 23] by simp
  moreover have "FloatToS24 (S24ToFloat v) = Some v"
    unfolding f using v FloatToS24_eq [OF m(1) _ m(2)] by (simp add: clamp_int_def)
  ultimately show "\<exists>w. Some (S24ToFloat v) = Some w \<and> f32_sample w \<and> FloatToS24 w = Some v" by blast
qed

section \<open>Total conversions\<close>

lemma conv_undefined:
  "FloatToU8 f = None \<longleftrightarrow> f = NaN" "FloatToS16 f = None \<longleftrightarrow> f = NaN"
  "FloatToS24 f = None \<longleftrightarrow> f = NaN" "FloatToS32 f = None \<longleftrightarrow> f = NaN"
  by (cases f; simp add: FloatToU8_def FloatToS16_def FloatToS24_def FloatToS32_def clamp_f32_def)+

lemma to_float_finite [simp]:
  "U8ToFloat v \<noteq> NaN" "S16ToFloat v \<noteq> NaN" "S24ToFloat v \<noteq> NaN" "S32ToFloat v \<noteq> NaN"
  by (simp_all add: U8ToFloat_def S16ToFloat_def S24ToFloat_def S32ToFloat_def)

lemma ConvertSamples_None:
  "ConvertSamples rd wr conv ib ob n input pos out = None \<longleftrightarrow> (\<exists>i < n. conv (rd (drop (i * ib) input)) = None)"
proof (induction n arbitrary: input pos out)
  case (Suc n)
  show ?case
  proof (cases "conv (rd input)")
    case None
    then show ?thesis by (auto intro: exI [of _ 0])
  next
    case (Some y)
    have "(\<exists>i < Suc n. conv (rd (drop (i * ib) input)) = None) = (\<exists>i < n. conv (rd (drop (i * ib + ib) input)) = None)"
      using Some by (auto simp: less_Suc_eq_0_disj add.commute)
    then show ?thesis using Some Suc.IH by simp
  qed
qed simp

lemma ConvertSamples_extent:
  "\<forall>v. length (wr v) = ob \<Longrightarrow> pos + n * ob \<le> length out \<Longrightarrow> ConvertSamples rd wr conv ib ob n input pos out = Some out' \<Longrightarrow>
     length out' = length out \<and> take pos out' = take pos out \<and> drop (pos + n * ob) out' = drop (pos + n * ob) out"
proof (induction n arbitrary: input pos out)
  case (Suc n)
  then obtain y where y: "conv (rd input) = Some y"
    "ConvertSamples rd wr conv ib ob n (drop ib input) (pos + ob) (overwrite pos (wr y) out) = Some out'"
    by (auto simp: Option.bind_eq_Some_conv)
  let ?o = "overwrite pos (wr y) out"
  have l: "length ?o = length out" "length (wr y) = ob" using Suc.prems(1,2) by (auto simp: length_overwrite)
  have ih: "length out' = length ?o" "take (pos + ob) out' = take (pos + ob) ?o"
    "drop (pos + ob + n * ob) out' = drop (pos + ob + n * ob) ?o"
    using Suc.IH [OF Suc.prems(1) _ y(2)] Suc.prems(2) l by auto
  have "take pos out' = take pos (take (pos + ob) out')" by simp
  also have "\<dots> = take pos out" unfolding ih(2) using Suc.prems(2) by (simp add: overwrite_def)
  finally have "take pos out' = take pos out" .
  moreover have "drop (pos + ob + n * ob) ?o = drop (pos + ob + n * ob) out"
    using Suc.prems(2) l by (simp add: overwrite_def ac_simps)
  ultimately show ?case using ih l by (simp add: add.assoc)
qed simp

section \<open>Properties\<close>

definition pcm_wider :: "AudioSampleFormat \<Rightarrow> AudioSampleFormat \<Rightarrow> bool" where
  "pcm_wider f g =
     ((f, g) \<in> set [(SAMPLE_U8, SAMPLE_S16LE), (SAMPLE_U8, SAMPLE_S24LE), (SAMPLE_U8, SAMPLE_S32LE), (SAMPLE_U8, SAMPLE_F32LE),
        (SAMPLE_S16LE, SAMPLE_S24LE), (SAMPLE_S16LE, SAMPLE_S32LE), (SAMPLE_S16LE, SAMPLE_F32LE),
        (SAMPLE_S24LE, SAMPLE_S32LE), (SAMPLE_S24LE, SAMPLE_F32LE)])"

lemmas pcm_convert_defs = ConvertPcmSampleFormat_def IsSupportedInterleavedFormat_def GetPcmBytesPerSample_def
  ConvertFromU8_def ConvertFromS16LE_def ConvertFromS24LE_def ConvertFromS32LE_def ConvertFromF32LE_def as_ok_def

text \<open>What the dispatch comes to for each pair of formats.\<close>

lemma ConvertPcm_pair:
  assumes "0 < n"
  shows
  "ConvertPcmSampleFormat (Some inp) n SAMPLE_U8 SAMPLE_S16LE (Some out) = map_option (\<lambda>x. (OK, Some x)) (ConvertSamples ReadU8 WriteS16 (\<lambda>v. FloatToS16 (U8ToFloat v)) 1 2 n inp 0 out)"
  "ConvertPcmSampleFormat (Some inp) n SAMPLE_U8 SAMPLE_S24LE (Some out) = map_option (\<lambda>x. (OK, Some x)) (ConvertSamples ReadU8 WriteS24 (\<lambda>v. FloatToS24 (U8ToFloat v)) 1 3 n inp 0 out)"
  "ConvertPcmSampleFormat (Some inp) n SAMPLE_U8 SAMPLE_S32LE (Some out) = map_option (\<lambda>x. (OK, Some x)) (ConvertSamples ReadU8 WriteS32 (\<lambda>v. FloatToS32 (U8ToFloat v)) 1 4 n inp 0 out)"
  "ConvertPcmSampleFormat (Some inp) n SAMPLE_U8 SAMPLE_F32LE (Some out) = map_option (\<lambda>x. (OK, Some x)) (ConvertSamples ReadU8 WriteF32 (\<lambda>v. Some (U8ToFloat v)) 1 4 n inp 0 out)"
  "ConvertPcmSampleFormat (Some inp) n SAMPLE_S16LE SAMPLE_U8 (Some out) = map_option (\<lambda>x. (OK, Some x)) (ConvertSamples ReadS16 WriteU8 (\<lambda>v. FloatToU8 (S16ToFloat v)) 2 1 n inp 0 out)"
  "ConvertPcmSampleFormat (Some inp) n SAMPLE_S16LE SAMPLE_S24LE (Some out) = map_option (\<lambda>x. (OK, Some x)) (ConvertSamples ReadS16 WriteS24 (\<lambda>v. Some (v * 256)) 2 3 n inp 0 out)"
  "ConvertPcmSampleFormat (Some inp) n SAMPLE_S16LE SAMPLE_S32LE (Some out) = map_option (\<lambda>x. (OK, Some x)) (ConvertSamples ReadS16 WriteS32 (\<lambda>v. Some (v * 65536)) 2 4 n inp 0 out)"
  "ConvertPcmSampleFormat (Some inp) n SAMPLE_S16LE SAMPLE_F32LE (Some out) = map_option (\<lambda>x. (OK, Some x)) (ConvertSamples ReadS16 WriteF32 (\<lambda>v. Some (S16ToFloat v)) 2 4 n inp 0 out)"
  "ConvertPcmSampleFormat (Some inp) n SAMPLE_S24LE SAMPLE_U8 (Some out) = map_option (\<lambda>x. (OK, Some x)) (ConvertSamples ReadS24 WriteU8 (\<lambda>v. FloatToU8 (S24ToFloat v)) 3 1 n inp 0 out)"
  "ConvertPcmSampleFormat (Some inp) n SAMPLE_S24LE SAMPLE_S16LE (Some out) = map_option (\<lambda>x. (OK, Some x)) (ConvertSamples ReadS24 WriteS16 (\<lambda>v. Some (swrap 16 (FloorDiv 256 v))) 3 2 n inp 0 out)"
  "ConvertPcmSampleFormat (Some inp) n SAMPLE_S24LE SAMPLE_S32LE (Some out) = map_option (\<lambda>x. (OK, Some x)) (ConvertSamples ReadS24 WriteS32 (\<lambda>v. Some (v * 256)) 3 4 n inp 0 out)"
  "ConvertPcmSampleFormat (Some inp) n SAMPLE_S24LE SAMPLE_F32LE (Some out) = map_option (\<lambda>x. (OK, Some x)) (ConvertSamples ReadS24 WriteF32 (\<lambda>v. Some (S24ToFloat v)) 3 4 n inp 0 out)"
  "ConvertPcmSampleFormat (Some inp) n SAMPLE_S32LE SAMPLE_U8 (Some out) = map_option (\<lambda>x. (OK, Some x)) (ConvertSamples ReadS32 WriteU8 (\<lambda>v. FloatToU8 (S32ToFloat v)) 4 1 n inp 0 out)"
  "ConvertPcmSampleFormat (Some inp) n SAMPLE_S32LE SAMPLE_S16LE (Some out) = map_option (\<lambda>x. (OK, Some x)) (ConvertSamples ReadS32 WriteS16 (\<lambda>v. Some (swrap 16 (FloorDiv 65536 v))) 4 2 n inp 0 out)"
  "ConvertPcmSampleFormat (Some inp) n SAMPLE_S32LE SAMPLE_S24LE (Some out) = map_option (\<lambda>x. (OK, Some x)) (ConvertSamples ReadS32 WriteS24 (\<lambda>v. Some (FloorDiv 256 v)) 4 3 n inp 0 out)"
  "ConvertPcmSampleFormat (Some inp) n SAMPLE_S32LE SAMPLE_F32LE (Some out) = map_option (\<lambda>x. (OK, Some x)) (ConvertSamples ReadS32 WriteF32 (\<lambda>v. Some (S32ToFloat v)) 4 4 n inp 0 out)"
  "ConvertPcmSampleFormat (Some inp) n SAMPLE_F32LE SAMPLE_U8 (Some out) = map_option (\<lambda>x. (OK, Some x)) (ConvertSamples ReadF32 WriteU8 (FloatToU8) 4 1 n inp 0 out)"
  "ConvertPcmSampleFormat (Some inp) n SAMPLE_F32LE SAMPLE_S16LE (Some out) = map_option (\<lambda>x. (OK, Some x)) (ConvertSamples ReadF32 WriteS16 (FloatToS16) 4 2 n inp 0 out)"
  "ConvertPcmSampleFormat (Some inp) n SAMPLE_F32LE SAMPLE_S24LE (Some out) = map_option (\<lambda>x. (OK, Some x)) (ConvertSamples ReadF32 WriteS24 (FloatToS24) 4 3 n inp 0 out)"
  "ConvertPcmSampleFormat (Some inp) n SAMPLE_F32LE SAMPLE_S32LE (Some out) = map_option (\<lambda>x. (OK, Some x)) (ConvertSamples ReadF32 WriteS32 (FloatToS32) 4 4 n inp 0 out)"
  using assms by (simp_all add: pcm_convert_defs option.map_comp comp_def)

text \<open>C20: Converting any buffer of samples to a wider format and back (8 bits to 16, 24 or 32 bits or float, 16 bits to 24
  or 32 bits or float, 24 bits to 32 bits or float) succeeds both times and restores every byte of the original buffer.
\<close>

theorem pcm_widen_narrow:
  assumes "pcm_wider f g" "n * GetPcmBytesPerSample f \<le> length input" "n * GetPcmBytesPerSample g \<le> length out1"
    "n * GetPcmBytesPerSample f \<le> length out2" "0 < n"
  shows "\<exists>o1 o2. ConvertPcmSampleFormat (Some input) n f g (Some out1) = Some (OK, Some o1) \<and>
    ConvertPcmSampleFormat (Some o1) n g f (Some out2) = Some (OK, Some o2) \<and>
    take (n * GetPcmBytesPerSample f) o2 = take (n * GetPcmBytesPerSample f) input"
proof -
  note eq = ConvertPcm_pair [OF assms(5)] and sz = assms(2-4)
  from assms(1) consider (u8_s16) "f = SAMPLE_U8" "g = SAMPLE_S16LE"
    | (u8_s24) "f = SAMPLE_U8" "g = SAMPLE_S24LE"
    | (u8_s32) "f = SAMPLE_U8" "g = SAMPLE_S32LE"
    | (u8_f32) "f = SAMPLE_U8" "g = SAMPLE_F32LE"
    | (s16_s24) "f = SAMPLE_S16LE" "g = SAMPLE_S24LE"
    | (s16_s32) "f = SAMPLE_S16LE" "g = SAMPLE_S32LE"
    | (s16_f32) "f = SAMPLE_S16LE" "g = SAMPLE_F32LE"
    | (s24_s32) "f = SAMPLE_S24LE" "g = SAMPLE_S32LE"
    | (s24_f32) "f = SAMPLE_S24LE" "g = SAMPLE_F32LE"
    by (auto simp: pcm_wider_def)
  then show ?thesis
  proof cases
    case u8_s16
    with u8_s16.there_and_back [of n input out1 out2] sz show ?thesis by (auto simp: eq GetPcmBytesPerSample_def)
  next
    case u8_s24
    with u8_s24.there_and_back [of n input out1 out2] sz show ?thesis by (auto simp: eq GetPcmBytesPerSample_def)
  next
    case u8_s32
    with u8_s32.there_and_back [of n input out1 out2] sz show ?thesis by (auto simp: eq GetPcmBytesPerSample_def)
  next
    case u8_f32
    with u8_f32.there_and_back [of n input out1 out2] sz show ?thesis by (auto simp: eq GetPcmBytesPerSample_def)
  next
    case s16_s24
    with s16_s24.there_and_back [of n input out1 out2] sz show ?thesis by (auto simp: eq GetPcmBytesPerSample_def)
  next
    case s16_s32
    with s16_s32.there_and_back [of n input out1 out2] sz show ?thesis by (auto simp: eq GetPcmBytesPerSample_def)
  next
    case s16_f32
    with s16_f32.there_and_back [of n input out1 out2] sz show ?thesis by (auto simp: eq GetPcmBytesPerSample_def)
  next
    case s24_s32
    with s24_s32.there_and_back [of n input out1 out2] sz show ?thesis by (auto simp: eq GetPcmBytesPerSample_def)
  next
    case s24_f32
    with s24_f32.there_and_back [of n input out1 out2] sz show ?thesis by (auto simp: eq GetPcmBytesPerSample_def)
  qed
qed

theorem pcm_widen_narrow_witness:
  "\<exists>o1 o2. ConvertPcmSampleFormat (Some [1, 128, 255]) 3 SAMPLE_U8 SAMPLE_F32LE (Some (replicate 12 0)) = Some (OK, Some o1) \<and>
     ConvertPcmSampleFormat (Some o1) 3 SAMPLE_F32LE SAMPLE_U8 (Some [0, 0, 0]) = Some (OK, Some o2) \<and> take 3 o2 = [1, 128, 255]"
  using pcm_widen_narrow [of SAMPLE_U8 SAMPLE_F32LE 3 "[1, 128, 255]" "replicate 12 0" "[0, 0, 0]"]
  by (simp add: pcm_wider_def GetPcmBytesPerSample_def)

text \<open>C34: \<^verbatim>\<open>FloorDiv\<close>, written with the truncating division of C and a 64-bit intermediate value, is the floor division of
  mathematics on all 32-bit numbers, the smallest included, for every divisor up to $2^{31}$.
\<close>

theorem FloorDiv_is_floor:
  assumes "0 < d" "d \<le> 2 ^ 31" "- (2 ^ 31) \<le> v" "v < 2 ^ 31"
  shows "FloorDiv d v = \<lfloor>of_int v / (of_int d :: rat)\<rfloor>"
  using FloorDiv_div [OF assms] by (simp add: floor_divide_of_int_eq)

theorem FloorDiv_is_floor_witness: "FloorDiv 256 (-1) = \<lfloor>of_int (-1) / (of_int 256 :: rat)\<rfloor> \<and> FloorDiv 65536 (- (2 ^ 31)) = - 32768"
proof
  show "FloorDiv 256 (-1) = \<lfloor>of_int (-1) / (of_int 256 :: rat)\<rfloor>" by (rule FloorDiv_is_floor) simp_all
  show "FloorDiv 65536 (- (2 ^ 31)) = - 32768" by code_simp
qed

lemma s32_rounding:
  assumes "- (2 ^ 31) \<le> v" "v < 2 ^ 31"
  shows "\<bar>rnd 24 (of_int v) - of_int v\<bar> \<le> 64" "\<bar>rnd 24 (of_int v) :: rat\<bar> \<le> 2 ^ 31"
proof -
  have two: "rnd 24 (2 ^ 31) = (2 ^ 31 :: rat)" using rnd_exact_powi [of 24 31] by simp
  have "of_int v \<le> (of_int (2 ^ 31) :: rat)" "of_int (- (2 ^ 31)) \<le> (of_int v :: rat)"
    using assms by (simp_all only: of_int_le_iff)
  then have "rnd 24 (of_int v) \<le> rnd 24 (2 ^ 31)" "rnd 24 (- (2 ^ 31)) \<le> rnd 24 (of_int v :: rat)"
    by (auto intro: rnd_mono)
  then show "\<bar>rnd 24 (of_int v) :: rat\<bar> \<le> 2 ^ 31" unfolding rnd_minus two by (simp add: abs_le_iff)
  show "\<bar>rnd 24 (of_int v) - of_int v\<bar> \<le> (64 :: rat)"
  proof (cases "v = - (2 ^ 31) \<or> v = 0")
    case True
    then show ?thesis using two by (auto simp: rnd_minus)
  next
    case False
    then have "of_int \<bar>v\<bar> < (of_int (2 ^ 31) :: rat)" using assms by (simp only: of_int_less_iff) linarith
    then have "2 powi (floor_log2 \<bar>of_int v\<bar>) < (2 :: rat) powi 31"
      using floor_log2_bounds [of "\<bar>of_int v\<bar>"] False by simp
    from powi_2_less [OF this] have "floor_log2 \<bar>of_int v\<bar> - int 24 \<le> 6" by simp
    from powi_2_mono [OF this] rnd_error [of "of_int v" 24] False show ?thesis by simp
  qed
qed

text \<open>32-bit samples do not fit a float exactly, but converting one to float and back changes it by at most 64 of
  $2^{32}$ steps, at full scale too, where the result is clamped.
\<close>

theorem S32_float_error:
  assumes "- (2 ^ 31) \<le> v" "v < 2 ^ 31"
  shows "\<exists>w. FloatToS32 (S32ToFloat v) = Some w \<and> \<bar>w - v\<bar> \<le> 64 \<and> - (2 ^ 31) \<le> w \<and> w < 2 ^ 31"
proof -
  define r :: rat where "r = rnd 24 (of_int v)"
  have r: "\<bar>r - of_int v\<bar> \<le> 64" "\<bar>r\<bar> \<le> 2 ^ 31" using s32_rounding [OF assms] by (simp_all add: r_def)
  have "rnd 24 (r / 2147483648) = r / 2147483648"
    using rnd_rnd [of 24 24 "of_int v" "- 31"] by (simp add: r_def power_int_minus_divide)
  then have "S32ToFloat v = Fin (r / 2147483648)" by (simp add: S32ToFloat_def r_def)
  moreover have "\<bar>r / 2147483648\<bar> \<le> 1" using r(2) by simp
  then have "clamp_f32 (Fin (r / 2147483648)) = Some (r / 2147483648)" by (auto simp: clamp_f32_def abs_le_iff)
  moreover have "rnd 53 r = r" using rnd_rnd [of 24 53 "of_int v" 0] by (simp add: r_def)
  ultimately have w: "FloatToS32 (S32ToFloat v) = Some (clamp_int (c_round r) (-2147483648) 2147483647)"
    by (simp add: FloatToS32_def)
  have "\<bar>of_int (c_round r - v)\<bar> < (of_int 65 :: rat)" 
    using r(1) c_round_error [of r] unfolding of_int_diff of_int_numeral by linarith
  then have "\<bar>c_round r - v\<bar> < 65" by (simp only: of_int_less_iff flip: of_int_abs)
  with w assms show ?thesis by (auto simp: clamp_int_def)
qed

theorem S32_float_error_witness:
  "\<exists>w. FloatToS32 (S32ToFloat (2 ^ 31 - 1)) = Some w \<and> \<bar>w - (2 ^ 31 - 1)\<bar> \<le> 64"
  using S32_float_error [of "2 ^ 31 - 1"] by auto

text \<open>The samples whose conversion the code leaves undefined.\<close>

definition nan_sample :: "AudioSampleFormat \<Rightarrow> AudioSampleFormat \<Rightarrow> bytes \<Rightarrow> nat \<Rightarrow> bool" where
  "nan_sample f g inp n = (f = SAMPLE_F32LE \<and> g \<noteq> SAMPLE_F32LE \<and> (\<exists>i < n. ReadF32 (drop (i * 4) inp) = NaN))"

text \<open>A conversion that reports success and stays within the first \<open>k\<close> bytes of the output, or does not happen at all
  because of undefined behaviour.\<close>

definition pcm_outcome :: "bool \<Rightarrow> nat \<Rightarrow> bytes \<Rightarrow> (Status \<times> bytes option) option \<Rightarrow> bool" where
  "pcm_outcome undefd k out r =
     (case r of
        None \<Rightarrow> undefd
      | Some (s, out') \<Rightarrow> \<not> undefd \<and> s = OK \<and>
          (\<exists>o'. out' = Some o' \<and> length o' = length out \<and> drop k o' = drop k out))"

lemma pair_outcome:
  assumes "\<forall>v. length (wr v) = ob" "n * ob \<le> length out" "undefd = (\<exists>i < n. conv (rd (drop (i * ib) inp)) = None)"
    and "k = n * ob"
  shows "pcm_outcome undefd k out (map_option (\<lambda>x. (OK, Some x)) (ConvertSamples rd wr conv ib ob n inp 0 out))"
proof (cases "ConvertSamples rd wr conv ib ob n inp 0 out")
  case None
  then show ?thesis using assms(3) ConvertSamples_None [of rd wr conv ib ob n inp 0 out] by (simp add: pcm_outcome_def)
next
  case (Some out')
  then have "\<not> undefd" using assms(3) ConvertSamples_None [of rd wr conv ib ob n inp 0 out] by auto
  with ConvertSamples_extent [OF assms(1) _ Some] assms(2,4) Some show ?thesis by (auto simp: pcm_outcome_def)
qed

lemma supported_iff:
  "IsSupportedInterleavedFormat f \<longleftrightarrow> f \<in> {SAMPLE_U8, SAMPLE_S16LE, SAMPLE_S24LE, SAMPLE_S32LE, SAMPLE_F32LE}"
  by (cases f) (simp_all add: IsSupportedInterleavedFormat_def)

lemma supported_cases:
  assumes "IsSupportedInterleavedFormat f"
  obtains "f = SAMPLE_U8" | "f = SAMPLE_S16LE" | "f = SAMPLE_S24LE" | "f = SAMPLE_S32LE" | "f = SAMPLE_F32LE"
  using assms unfolding supported_iff by blast

lemma supported_outcome:
  assumes "IsSupportedInterleavedFormat f" "IsSupportedInterleavedFormat g" "f \<noteq> g" "0 < n"
    "n * GetPcmBytesPerSample g \<le> length out"
  shows "pcm_outcome (nan_sample f g inp n) (n * GetPcmBytesPerSample g) out (ConvertPcmSampleFormat (Some inp) n f g (Some out))"
proof -
  note eq = ConvertPcm_pair [OF assms(4)]
  note wr = u8.length_wr s16.length_wr s24.length_wr s32.length_wr
  have f32: "length (WriteF32 v) = 4" for v by (simp add: WriteF32_def write_u32_def)
  show ?thesis
    by (rule supported_cases [OF assms(1)]; rule supported_cases [OF assms(2)]; insert assms(3,5);
        simp add: eq GetPcmBytesPerSample_def nan_sample_def; rule pair_outcome; simp add: wr f32 conv_undefined)
qed

text \<open>A conversion between any two formats, given buffers of the right size: a format it does not support is refused with
  the output untouched; otherwise it succeeds, writes nothing beyond the converted samples, and copies when the formats are equal.
  The only exception is a NaN among float samples that are converted to integers, where the cast the code performs is undefined.
\<close>

theorem pcm_convert_outcome:
  assumes "n * GetPcmBytesPerSample f \<le> length inp" "n * GetPcmBytesPerSample g \<le> length out" "0 < n"
  shows "if IsSupportedInterleavedFormat f \<and> IsSupportedInterleavedFormat g
    then if f = g
      then ConvertPcmSampleFormat (Some inp) n f g (Some out) =
        Some (OK, Some (take (n * GetPcmBytesPerSample f) inp @ drop (n * GetPcmBytesPerSample f) out))
      else pcm_outcome (nan_sample f g inp n) (n * GetPcmBytesPerSample g) out (ConvertPcmSampleFormat (Some inp) n f g (Some out))
    else ConvertPcmSampleFormat (Some inp) n f g (Some out) = Some (ERROR_UNSUPPORTED_FORMAT, Some out)"
proof (cases "IsSupportedInterleavedFormat f \<and> IsSupportedInterleavedFormat g")
  case True
  show ?thesis
  proof (cases "f = g")
    case eq: True
    have "0 < GetPcmBytesPerSample g"
      using True by (auto elim!: supported_cases simp: GetPcmBytesPerSample_def)
    with eq True assms show ?thesis by (simp add: ConvertPcmSampleFormat_def overwrite_def min_absorb2 Let_def)
  next
    case False
    with True assms show ?thesis by (simp add: supported_outcome)
  qed
next
  case False
  with assms(3) show ?thesis by (auto simp: ConvertPcmSampleFormat_def)
qed

theorem pcm_convert_outcome_witness:
  "pcm_outcome (nan_sample SAMPLE_F32LE SAMPLE_S16LE [0, 0, 0xC0, 0x7F] 1) 2 [0, 0, 7]
     (ConvertPcmSampleFormat (Some [0, 0, 0xC0, 0x7F]) 1 SAMPLE_F32LE SAMPLE_S16LE (Some [0, 0, 7])) \<and>
   ConvertPcmSampleFormat (Some [0, 0, 0xC0, 0x7F]) 1 SAMPLE_F32LE SAMPLE_S16LE (Some [0, 0, 7]) = None \<and>
   ConvertPcmSampleFormat (Some [0, 0, 0, 0]) 1 SAMPLE_F32BE SAMPLE_S16LE (Some [1, 2]) =
     Some (ERROR_UNSUPPORTED_FORMAT, Some [1, 2])"
proof (intro conjI)
  show "pcm_outcome (nan_sample SAMPLE_F32LE SAMPLE_S16LE [0, 0, 0xC0, 0x7F] 1) 2 [0, 0, 7]
     (ConvertPcmSampleFormat (Some [0, 0, 0xC0, 0x7F]) 1 SAMPLE_F32LE SAMPLE_S16LE (Some [0, 0, 7]))"
    using pcm_convert_outcome [of 1 SAMPLE_F32LE "[0, 0, 0xC0, 0x7F]" SAMPLE_S16LE "[0, 0, 7]"]
    by (simp add: GetPcmBytesPerSample_def IsSupportedInterleavedFormat_def)
  show "ConvertPcmSampleFormat (Some [0, 0, 0xC0, 0x7F]) 1 SAMPLE_F32LE SAMPLE_S16LE (Some [0, 0, 7]) = None"
    by code_simp
  show "ConvertPcmSampleFormat (Some [0, 0, 0, 0]) 1 SAMPLE_F32BE SAMPLE_S16LE (Some [1, 2]) =
     Some (ERROR_UNSUPPORTED_FORMAT, Some [1, 2])"
    using pcm_convert_outcome [of 1 SAMPLE_F32BE "[0, 0, 0, 0]" SAMPLE_S16LE "[1, 2]"]
    by (simp add: GetPcmBytesPerSample_def IsSupportedInterleavedFormat_def)
qed

end
