(* ===== verification/Media_Sync.thy ===== *)
theory Media_Sync
  imports Intent_Machine Float_Model "HOL-Library.Word"
begin

text \<open>
  The playback clock and its users: \<^verbatim>\<open>MediaSyncManager\<close> (\<^verbatim>\<open>engine/pipeline/core/media_sync_manager.cpp\<close>), the base class of
  the sinks, \<^verbatim>\<open>MediaSynchronousSink\<close>, and the synchronised writes of the audio and video sink filters. Sinks are addresses;
  the record \<open>sync\<close> holds the manager's members and the members of the sinks it calls back. Times are 64-bit numbers of
  nanoseconds with \<open>-1\<close> for none; where a sum or a cast leaves their range, which C++ does not define, the model wraps. The
  play rate is a finite \<^verbatim>\<open>float\<close>, a rational; rate arithmetic is in \<^verbatim>\<open>double\<close>. The steady clock's reading is the argument \<open>now\<close>.
\<close>

unbundle bit_operations_syntax

section \<open>State\<close>

abbreviation i64 :: "int \<Rightarrow> int" where
  "i64 \<equiv> swrap 64"

definition HST_TIME_NONE :: int where
  "HST_TIME_NONE = -1"

definition HST_MSECOND :: int where
  "HST_MSECOND = 1000000"

definition HstTime2Ms :: "int \<Rightarrow> int" where
  "HstTime2Ms hTime = c_div hTime HST_MSECOND"

datatype clock_state = RESUMED | PAUSED

text \<open>\<^verbatim>\<open>MediaSynchronousSink\<close>: what the manager and the base class use of a sink.\<close>

record msink =
  s_syncerPriority :: int
  s_hasReportedPreroll :: bool
  s_waitForPrerolled :: bool
  s_waitPrerolledTimeout :: int

record sync =
  y_clockState :: clock_state
  y_currentSyncerPriority :: int
  y_currentAnchorClockTime :: int
  y_currentAnchorMediaTime :: int
  y_pausedMediaTime :: int
  y_pausedClockTime :: int
  y_playRate :: rat
  y_alreadySetSyncersShouldWait :: bool
  y_allSyncerShouldPrerolled :: bool
  y_isSeeking :: bool
  y_seekingMediaTime :: int
  y_trackMediaTimeRange :: "(int \<times> int \<times> int) list"
  y_minRangeStart :: int
  y_maxRangeEnd :: int
  y_syncers :: "nat list"
  y_prerolledSyncers :: "nat list"
  y_sink :: "nat \<Rightarrow> msink"

definition PRIORITY_NONE :: int where
  "PRIORITY_NONE = -1"

definition MediaSyncManager :: "(nat \<Rightarrow> msink) \<Rightarrow> sync" where
  "MediaSyncManager sinks =
     \<lparr>y_clockState = PAUSED, y_currentSyncerPriority = PRIORITY_NONE, y_currentAnchorClockTime = HST_TIME_NONE,
      y_currentAnchorMediaTime = HST_TIME_NONE, y_pausedMediaTime = HST_TIME_NONE, y_pausedClockTime = HST_TIME_NONE,
      y_playRate = 1, y_alreadySetSyncersShouldWait = False, y_allSyncerShouldPrerolled = True, y_isSeeking = False,
      y_seekingMediaTime = HST_TIME_NONE, y_trackMediaTimeRange = [], y_minRangeStart = HST_TIME_NONE,
      y_maxRangeEnd = HST_TIME_NONE, y_syncers = [], y_prerolledSyncers = [], y_sink = sinks\<rparr>"

definition upd_sink :: "nat \<Rightarrow> (msink \<Rightarrow> msink) \<Rightarrow> sync \<Rightarrow> sync" where
  "upd_sink a f y = y\<lparr>y_sink := (y_sink y)(a := f (y_sink y a))\<rparr>"

section \<open>Callbacks of the sinks\<close>

definition Sink_WaitAllPrerolled :: "bool \<Rightarrow> nat \<Rightarrow> sync \<Rightarrow> sync" where
  "Sink_WaitAllPrerolled shouldWait a y = upd_sink a (\<lambda>s. s\<lparr>s_waitForPrerolled := shouldWait\<rparr>) y"

definition Sink_NotifyAllPrerolled :: "nat \<Rightarrow> sync \<Rightarrow> sync" where
  "Sink_NotifyAllPrerolled a y = upd_sink a (\<lambda>s. s\<lparr>s_waitForPrerolled := False\<rparr>) y"

definition Sink_GetPriority :: "nat \<Rightarrow> sync \<Rightarrow> int" where
  "Sink_GetPriority a y = s_syncerPriority (y_sink y a)"

section \<open>Registered synchronizers\<close>

definition AddSynchronizer :: "nat option \<Rightarrow> sync \<Rightarrow> sync" where
  "AddSynchronizer syncer y =
     (case syncer of
        None \<Rightarrow> y
      | Some a \<Rightarrow> if a \<in> set (y_syncers y) then y else y\<lparr>y_syncers := y_syncers y @ [a]\<rparr>)"

definition RemoveSynchronizer :: "nat option \<Rightarrow> sync \<Rightarrow> sync" where
  "RemoveSynchronizer syncer y =
     (case syncer of None \<Rightarrow> y | Some a \<Rightarrow> y\<lparr>y_syncers := remove1 a (y_syncers y)\<rparr>)"

definition IsSupplierValid :: "nat \<Rightarrow> sync \<Rightarrow> bool" where
  "IsSupplierValid a y = (a \<in> set (y_syncers y))"

section \<open>Time anchors\<close>

definition SimpleUpdatePlayRate :: "rat \<Rightarrow> sync \<Rightarrow> sync" where
  "SimpleUpdatePlayRate playRate y = y\<lparr>y_playRate := playRate\<rparr>"

definition SimpleUpdateTimeAnchor :: "int \<Rightarrow> int \<Rightarrow> sync \<Rightarrow> sync" where
  "SimpleUpdateTimeAnchor clockTime mediaTime y =
     y\<lparr>y_currentAnchorMediaTime := mediaTime, y_currentAnchorClockTime := clockTime\<rparr>"

definition ResetTimeAnchorNoLock :: "sync \<Rightarrow> sync" where
  "ResetTimeAnchorNoLock y =
     SimpleUpdateTimeAnchor HST_TIME_NONE HST_TIME_NONE
       (y\<lparr>y_pausedMediaTime := HST_TIME_NONE, y_currentSyncerPriority := PRIORITY_NONE\<rparr>)"

text \<open>The threshold \<^verbatim>\<open>1e-9\<close> is a \<^verbatim>\<open>double\<close>.\<close>

definition rate_is_zero :: "rat \<Rightarrow> bool" where
  "rate_is_zero playRate = (\<bar>playRate\<bar> < rnd 53 (1 / 1000000000))"

definition SimpleGetMediaTime :: "int \<Rightarrow> int \<Rightarrow> int \<Rightarrow> rat \<Rightarrow> int" where
  "SimpleGetMediaTime anchorClockTime nowClockTime anchorMediaTime playRate =
     (if rate_is_zero playRate then HST_TIME_NONE
      else if anchorClockTime = HST_TIME_NONE \<or> nowClockTime = HST_TIME_NONE \<or> anchorMediaTime = HST_TIME_NONE
      then HST_TIME_NONE
      else i64 (c_trunc (rnd 53 (rnd 53 (of_int anchorMediaTime) +
                  rnd 53 (rnd 53 (of_int (i64 (nowClockTime - anchorClockTime))) * playRate)))))"

definition SimpleGetClockTime :: "int \<Rightarrow> int \<Rightarrow> int \<Rightarrow> rat \<Rightarrow> int" where
  "SimpleGetClockTime anchorClockTime nowMediaTime anchorMediaTime playRate =
     (if rate_is_zero playRate then HST_TIME_NONE
      else if anchorClockTime = HST_TIME_NONE \<or> nowMediaTime = HST_TIME_NONE \<or> anchorMediaTime = HST_TIME_NONE
      then HST_TIME_NONE
      else i64 (c_trunc (rnd 53 (rnd 53 (of_int anchorClockTime) +
                  rnd 53 (rnd 53 (of_int (i64 (nowMediaTime - anchorMediaTime))) / playRate)))))"

definition ClipMediaTime :: "int \<Rightarrow> sync \<Rightarrow> int" where
  "ClipMediaTime inTime y =
     (let r1 = (if y_minRangeStart y \<noteq> HST_TIME_NONE \<and> inTime < y_minRangeStart y then y_minRangeStart y else inTime)
      in if y_maxRangeEnd y \<noteq> HST_TIME_NONE \<and> r1 > y_maxRangeEnd y then y_maxRangeEnd y else r1)"

text \<open>\<^verbatim>\<open>GetSystemClock\<close> reads the steady clock, whose conversion to the time base does not fail.\<close>

definition GetSystemClock :: "int \<Rightarrow> int" where
  "GetSystemClock now = now"

section \<open>Operations of the player\<close>

definition SetPlaybackRate :: "int \<Rightarrow> rat \<Rightarrow> sync \<Rightarrow> ErrorCode \<times> sync" where
  "SetPlaybackRate now rate y =
     (if rate < 0 then (E_INVALID_PARAMETER_VALUE, y)
      else if y_currentAnchorClockTime y = HST_TIME_NONE \<or> y_currentAnchorMediaTime y = HST_TIME_NONE
      then (SUCCESS, SimpleUpdatePlayRate rate y)
      else
        let now' = GetSystemClock now;
            currentMedia = SimpleGetMediaTime (y_currentAnchorClockTime y) now' (y_currentAnchorMediaTime y) (y_playRate y)
        in (SUCCESS, SimpleUpdatePlayRate rate (SimpleUpdateTimeAnchor now' currentMedia y)))"

definition GetPlaybackRate :: "sync \<Rightarrow> rat" where
  "GetPlaybackRate y = y_playRate y"

text \<open>\<^verbatim>\<open>SetMediaTimeStartEnd\<close>: index 1 is the start of the track, 2 its end; any other index only adds the track.\<close>

definition set_range :: "int \<Rightarrow> int \<Rightarrow> int \<times> int \<times> int \<Rightarrow> int \<times> int \<times> int" where
  "set_range index val r = (case r of (t, s, e) \<Rightarrow> if index = 1 then (t, val, e) else if index = 2 then (t, s, val) else r)"

fun update_track :: "int \<Rightarrow> int \<Rightarrow> int \<Rightarrow> (int \<times> int \<times> int) list \<Rightarrow> (int \<times> int \<times> int) list" where
  "update_track trackId index val [] = [set_range index val (trackId, HST_TIME_NONE, HST_TIME_NONE)]"
| "update_track trackId index val (r # rs) =
     (if fst r = trackId then set_range index val r # rs else r # update_track trackId index val rs)"

definition SetMediaTimeStartEnd :: "int \<Rightarrow> int \<Rightarrow> int \<Rightarrow> sync \<Rightarrow> sync" where
  "SetMediaTimeStartEnd trackId index val y =
     y\<lparr>y_trackMediaTimeRange := update_track trackId index val (y_trackMediaTimeRange y)\<rparr>"

definition SetMediaTimeRangeStart :: "int \<Rightarrow> int \<Rightarrow> sync \<Rightarrow> sync" where
  "SetMediaTimeRangeStart startMediaTime trackId y0 =
     (let y = SetMediaTimeStartEnd trackId 1 startMediaTime y0
      in if y_minRangeStart y = HST_TIME_NONE \<or> startMediaTime < y_minRangeStart y
         then y\<lparr>y_minRangeStart := startMediaTime\<rparr> else y)"

definition SetMediaTimeRangeEnd :: "int \<Rightarrow> int \<Rightarrow> sync \<Rightarrow> sync" where
  "SetMediaTimeRangeEnd endMediaTime trackId y0 =
     (let y = SetMediaTimeStartEnd trackId 2 endMediaTime y0
      in if y_maxRangeEnd y = HST_TIME_NONE \<or> endMediaTime > y_maxRangeEnd y
         then y\<lparr>y_maxRangeEnd := endMediaTime\<rparr> else y)"

definition WaitAllPrerolled :: "bool \<Rightarrow> sync \<Rightarrow> sync" where
  "WaitAllPrerolled prerolled y = y\<lparr>y_allSyncerShouldPrerolled := prerolled\<rparr>"

definition SetAllSyncShouldWaitNoLock :: "sync \<Rightarrow> sync" where
  "SetAllSyncShouldWaitNoLock y =
     (if y_allSyncerShouldPrerolled y \<and> \<not> y_alreadySetSyncersShouldWait y then
        let y1 = y\<lparr>y_prerolledSyncers := []\<rparr>;
            y2 = (if length (y_syncers y1) > 1 then fold (Sink_WaitAllPrerolled True) (y_syncers y1) y1 else y1)
        in y2\<lparr>y_alreadySetSyncersShouldWait := True\<rparr>
      else y)"

definition Sync_Resume :: "int \<Rightarrow> sync \<Rightarrow> ErrorCode \<times> sync" where
  "Sync_Resume now y =
     (let y1 = (if y_clockState y = PAUSED \<and> y_pausedMediaTime y \<noteq> HST_TIME_NONE \<and> y_alreadySetSyncersShouldWait y
                then (SimpleUpdateTimeAnchor (GetSystemClock now) (y_pausedMediaTime y) y)
                       \<lparr>y_pausedMediaTime := HST_TIME_NONE, y_pausedClockTime := HST_TIME_NONE\<rparr>
                else y)
      in if y_clockState y1 = RESUMED then (SUCCESS, y1)
         else (SUCCESS, (SetAllSyncShouldWaitNoLock y1)\<lparr>y_clockState := RESUMED\<rparr>))"

definition Sync_Pause :: "int \<Rightarrow> sync \<Rightarrow> ErrorCode \<times> sync" where
  "Sync_Pause now y =
     (if y_clockState y = PAUSED then (SUCCESS, y)
      else
        let pausedClock = GetSystemClock now;
            paused = (if y_currentAnchorMediaTime y \<noteq> HST_TIME_NONE \<and> y_currentAnchorClockTime y \<noteq> HST_TIME_NONE
                      then SimpleGetMediaTime (y_currentAnchorClockTime y) pausedClock (y_currentAnchorMediaTime y) (y_playRate y)
                      else HST_TIME_NONE)
        in (SUCCESS, y\<lparr>y_pausedClockTime := pausedClock, y_pausedMediaTime := ClipMediaTime paused y, y_clockState := PAUSED\<rparr>))"

definition Sync_Seek :: "int \<Rightarrow> sync \<Rightarrow> ErrorCode \<times> sync" where
  "Sync_Seek mediaTime y =
     (if y_minRangeStart y = HST_TIME_NONE \<or> y_maxRangeEnd y = HST_TIME_NONE then (E_INVALID_OPERATION, y)
      else if mediaTime > y_maxRangeEnd y \<or> mediaTime < y_minRangeStart y then (E_INVALID_PARAMETER_VALUE, y)
      else (SUCCESS, ResetTimeAnchorNoLock (SetAllSyncShouldWaitNoLock
             (y\<lparr>y_isSeeking := True, y_seekingMediaTime := mediaTime, y_alreadySetSyncersShouldWait := False\<rparr>))))"

definition Sync_Reset :: "sync \<Rightarrow> ErrorCode \<times> sync" where
  "Sync_Reset y =
     (SUCCESS, (ResetTimeAnchorNoLock (y\<lparr>y_clockState := PAUSED\<rparr>))
        \<lparr>y_pausedClockTime := HST_TIME_NONE, y_playRate := 1, y_alreadySetSyncersShouldWait := False,
         y_allSyncerShouldPrerolled := True, y_isSeeking := False, y_seekingMediaTime := HST_TIME_NONE,
         y_trackMediaTimeRange := [], y_minRangeStart := HST_TIME_NONE, y_maxRangeEnd := HST_TIME_NONE,
         y_syncers := [], y_prerolledSyncers := []\<rparr>)"

section \<open>Operations of the sinks\<close>

definition UpdateTimeAnchor :: "int \<Rightarrow> int \<Rightarrow> nat option \<Rightarrow> sync \<Rightarrow> bool \<times> sync" where
  "UpdateTimeAnchor clockTime mediaTime supplier y =
     (case supplier of
        None \<Rightarrow> (True, y)
      | Some a \<Rightarrow>
          if clockTime = HST_TIME_NONE \<or> mediaTime = HST_TIME_NONE then (True, y)
          else
            let y1 = (if IsSupplierValid a y \<and> Sink_GetPriority a y \<ge> y_currentSyncerPriority y
                      then SimpleUpdateTimeAnchor clockTime mediaTime (y\<lparr>y_currentSyncerPriority := Sink_GetPriority a y\<rparr>)
                      else y);
                y2 = (if y_isSeeking y1 \<and> HstTime2Ms \<bar>i64 (mediaTime - y_seekingMediaTime y1)\<bar> \<le> 50
                      then y1\<lparr>y_isSeeking := False\<rparr> else y1)
            in (\<not> y_isSeeking y2, y2))"

definition GetMediaTimeNow :: "int \<Rightarrow> sync \<Rightarrow> int" where
  "GetMediaTimeNow now y =
     (if y_isSeeking y then y_seekingMediaTime y
      else if y_clockState y = PAUSED then (if y_pausedMediaTime y = HST_TIME_NONE then 0 else y_pausedMediaTime y)
      else ClipMediaTime
             (SimpleGetMediaTime (y_currentAnchorClockTime y) (GetSystemClock now) (y_currentAnchorMediaTime y) (y_playRate y)) y)"

definition GetClockTimeNow :: "int \<Rightarrow> sync \<Rightarrow> int" where
  "GetClockTimeNow now y = (if y_clockState y = PAUSED then y_pausedClockTime y else GetSystemClock now)"

definition GetClockTime :: "int \<Rightarrow> sync \<Rightarrow> int" where
  "GetClockTime mediaTime y =
     SimpleGetClockTime (y_currentAnchorClockTime y) mediaTime (y_currentAnchorMediaTime y) (y_playRate y)"

definition ReportPrerolled :: "nat option \<Rightarrow> sync \<Rightarrow> sync" where
  "ReportPrerolled supplier y =
     (case supplier of
        None \<Rightarrow> y
      | Some a \<Rightarrow>
          if \<not> y_allSyncerShouldPrerolled y then y
          else if a \<in> set (y_prerolledSyncers y) then y
          else
            let y1 = y\<lparr>y_prerolledSyncers := y_prerolledSyncers y @ [a]\<rparr>
            in if length (y_prerolledSyncers y1) = length (y_syncers y1)
               then (fold Sink_NotifyAllPrerolled (y_prerolledSyncers y1) y1)\<lparr>y_prerolledSyncers := []\<rparr>
               else y1)"

end
