(* ===== verification/Condition_Variable.thy ===== *)
theory Condition_Variable
  imports Prelude "HOL-Library.Monad_Syntax"
begin

text \<open>
  Timed waits on condition variables: the template \<^verbatim>\<open>WaitFor\<close> of the engine
  (\<^verbatim>\<open>engine/include/foundation/osal/thread/condition_variable.h\<close>) and \<^verbatim>\<open>WaitFor\<close> of the library
  (\<^verbatim>\<open>src/osal/task/pthread/condition_variable.cpp\<close>). \<^verbatim>\<open>pthread_cond_timedwait\<close> is the parameter \<open>tw\<close>: given the deadline it
  returns its status and what the state has become when the mutex is held again. \<open>None\<close> is a wait that goes on for ever.
\<close>

record timespec =
  tv_sec :: int
  tv_nsec :: int

definition ETIMEDOUT :: int where
  "ETIMEDOUT = 110"

definition EINVAL :: int where
  "EINVAL = 22"



partial_function (option) wait_loop ::
  "('s \<Rightarrow> int \<times> 's) \<Rightarrow> ('s \<Rightarrow> bool) \<Rightarrow> int \<Rightarrow> 's \<Rightarrow> (bool \<times> 's) option" where
  "wait_loop tw pred status s =
     (if \<not> pred s \<and> status = 0
      then (case tw s of (status', s') \<Rightarrow>
              if status' = ETIMEDOUT then Some (pred s', s') else wait_loop tw pred status' s')
      else Some (status = 0, s))"

text \<open>The engine adds the milliseconds to the nanoseconds of the current time without a carry.\<close>

definition engine_deadline :: "timespec \<Rightarrow> int \<Rightarrow> timespec" where
  "engine_deadline now timeoutMs =
     \<lparr>tv_sec = tv_sec now + timeoutMs div 1000, tv_nsec = tv_nsec now + timeoutMs mod 1000 * 1000000\<rparr>"

definition WaitFor ::
  "timespec \<Rightarrow> (timespec \<Rightarrow> 's \<Rightarrow> int \<times> 's) \<Rightarrow> int \<Rightarrow> ('s \<Rightarrow> bool) \<Rightarrow> 's \<Rightarrow> (bool \<times> 's) option" where
  "WaitFor now tw timeoutMs pred s =
     (if timeoutMs < 0 then Some (False, s) else wait_loop (tw (engine_deadline now timeoutMs)) pred 0 s)"



section \<open>Deadlines\<close>

definition valid_nsec :: "timespec \<Rightarrow> bool" where
  "valid_nsec tm = (0 \<le> tv_nsec tm \<and> tv_nsec tm < 1000000000)"

definition valid_time :: "timespec \<Rightarrow> bool" where
  "valid_time tm = (0 \<le> tv_sec tm \<and> valid_nsec tm)"

text \<open>The instant a time denotes.\<close>

definition instant :: "timespec \<Rightarrow> int" where
  "instant tm = tv_sec tm * 1000000000 + tv_nsec tm"





text \<open>Both denote the same instant, but the engine's is well-formed only when the milliseconds do not carry.\<close>

lemma engine_deadline_valid:
  assumes "valid_time now" "0 \<le> ms"
  shows "instant (engine_deadline now ms) = instant now + ms * 1000000"
    "valid_nsec (engine_deadline now ms) \<longleftrightarrow> tv_nsec now + ms mod 1000 * 1000000 < 1000000000"
proof -
  have "ms div 1000 * 1000 + ms mod 1000 = ms" by simp
  then have "ms div 1000 * 1000000000 + ms mod 1000 * 1000000 = ms * 1000000" by linarith
  then show "instant (engine_deadline now ms) = instant now + ms * 1000000"
    unfolding instant_def engine_deadline_def by (simp add: distrib_right)
  show "valid_nsec (engine_deadline now ms) \<longleftrightarrow> tv_nsec now + ms mod 1000 * 1000000 < 1000000000"
    using assms by (simp add: valid_time_def valid_nsec_def engine_deadline_def)
qed

section \<open>Outcomes of a wait\<close>

lemma wait_loop_done [simp]: "pred s \<Longrightarrow> wait_loop tw pred 0 s = Some (True, s)"
  by (simp add: wait_loop.simps)

lemma wait_loop_error [simp]: "status \<noteq> 0 \<Longrightarrow> wait_loop tw pred status s = Some (False, s)"
  by (subst wait_loop.simps) simp

text \<open>A wait on a condition that holds does not give the mutex up.\<close>

lemma WaitFor_holds: "pred s \<Longrightarrow> WaitFor now tw ms pred s = Some (0 \<le> ms, s)"
  by (simp add: WaitFor_def)

text \<open>What POSIX says of \<^verbatim>\<open>pthread_cond_timedwait\<close>: a deadline whose nanoseconds are no fraction of a second is refused, and a wait
  ends with a wake-up or at the deadline, of which \<open>pending\<close> bounds the wake-ups that may still come first.\<close>

definition posix_timedwait :: "(timespec \<Rightarrow> 's \<Rightarrow> int \<times> 's) \<Rightarrow> (timespec \<Rightarrow> 's \<Rightarrow> nat) \<Rightarrow> bool" where
  "posix_timedwait tw pending =
     (\<forall>d s. (\<not> valid_nsec d \<longrightarrow> tw d s = (EINVAL, s)) \<and>
        (valid_nsec d \<longrightarrow> fst (tw d s) = ETIMEDOUT \<or> fst (tw d s) = 0 \<and> pending d (snd (tw d s)) < pending d s))"

lemma wait_loop_result:
  assumes "posix_timedwait tw pending" "valid_nsec d"
  shows "\<exists>s'. wait_loop (tw d) pred 0 s = Some (pred s', s')"
proof (induction "pending d s" arbitrary: s rule: less_induct)
  case less
  obtain st s' where t: "tw d s = (st, s')" by fastforce
  have st: "st = ETIMEDOUT \<or> st = 0 \<and> pending d s' < pending d s"
    using assms t unfolding posix_timedwait_def by (metis fst_conv snd_conv)
  show ?case
  proof (cases "\<not> pred s \<and> st \<noteq> ETIMEDOUT")
    case True
    with st less [of s'] obtain s2 where "wait_loop (tw d) pred 0 s' = Some (pred s2, s2)" by blast
    with True t st show ?thesis by (subst wait_loop.simps) auto
  next
    case False
    then show ?thesis using t by (subst wait_loop.simps) auto
  qed
qed

lemma wait_loop_refused:
  assumes "posix_timedwait tw pending" "\<not> valid_nsec d" "\<not> pred s"
  shows "wait_loop (tw d) pred 0 s = Some (False, s)"
proof -
  have "tw d s = (EINVAL, s)" using assms by (simp add: posix_timedwait_def)
  with assms(3) show ?thesis by (subst wait_loop.simps) (simp add: EINVAL_def ETIMEDOUT_def)
qed


definition timeout_only :: "timespec \<Rightarrow> nat \<Rightarrow> int \<times> nat" where
  "timeout_only d s = (if valid_nsec d then (ETIMEDOUT, s + 1) else (EINVAL, s))"

lemma timeout_only_posix: "posix_timedwait timeout_only (\<lambda>_ _. 0)"
  by (simp add: posix_timedwait_def timeout_only_def)


text \<open>The engine's template adds the milliseconds to the nanoseconds without a carry. When they reach a full second the
  deadline is refused: a wait for a condition that does not hold returns false at once, without waiting.
\<close>

theorem WaitFor_carry_no_wait:
  assumes "posix_timedwait tw pending" "valid_time now" "0 \<le> timeoutMs" "\<not> pred s"
  shows "(tv_nsec now + timeoutMs mod 1000 * 1000000 \<ge> 1000000000 \<longrightarrow> WaitFor now tw timeoutMs pred s = Some (False, s)) \<and>
    (tv_nsec now + timeoutMs mod 1000 * 1000000 < 1000000000 \<longrightarrow> (\<exists>s'. WaitFor now tw timeoutMs pred s = Some (pred s', s')))"
proof (intro conjI impI)
  assume "tv_nsec now + timeoutMs mod 1000 * 1000000 \<ge> 1000000000"
  then have "\<not> valid_nsec (engine_deadline now timeoutMs)" using engine_deadline_valid [OF assms(2,3)] by simp
  then show "WaitFor now tw timeoutMs pred s = Some (False, s)"
    using wait_loop_refused [OF assms(1)] assms(3,4) by (simp add: WaitFor_def)
next
  assume "tv_nsec now + timeoutMs mod 1000 * 1000000 < 1000000000"
  then have "valid_nsec (engine_deadline now timeoutMs)" using engine_deadline_valid [OF assms(2,3)] by simp
  from wait_loop_result [OF assms(1) this, of pred s] show "\<exists>s'. WaitFor now tw timeoutMs pred s = Some (pred s', s')"
    using assms(3) by (simp add: WaitFor_def)
qed

theorem WaitFor_carry_no_wait_witness:
  "WaitFor \<lparr>tv_sec = 5, tv_nsec = 999000000\<rparr> timeout_only 80 (\<lambda>s. s = 1) 0 = Some (False, 0)"
  using WaitFor_carry_no_wait [OF timeout_only_posix, of "\<lparr>tv_sec = 5, tv_nsec = 999000000\<rparr>" 80 "\<lambda>s. s = 1" 0]
  by (simp add: valid_time_def valid_nsec_def)

end
