(* ===== verification/Media_Sink.thy ===== *)
theory Media_Sink
  imports Media_Sync Condition_Variable
begin

text \<open>
  The sinks that play against the clock: \<^verbatim>\<open>MediaSynchronousSink\<close> and the synchronised writes of \<^verbatim>\<open>AudioSinkFilter\<close> and
  \<^verbatim>\<open>VideoSinkFilter\<close>. The sink's plugin is outside: its latency and the result of its \<^verbatim>\<open>Write\<close> are parameters. \<open>alive\<close> says whether
  the weak reference to the sync manager can still be locked.
\<close>

record sbuf =
  d_pts :: int
  d_duration :: int
  d_flag :: "64 word"

definition BUFFER_FLAG_EOS :: "64 word" where
  "BUFFER_FLAG_EOS = 1"

definition BUFFER_FLAG_KEY_FRAME :: "64 word" where
  "BUFFER_FLAG_KEY_FRAME = 2"

section \<open>Base class\<close>

definition Sink_Init :: "bool \<Rightarrow> nat \<Rightarrow> sync \<Rightarrow> sync" where
  "Sink_Init alive a y = (if alive then AddSynchronizer (Some a) y else y)"

definition Sink_destroy :: "bool \<Rightarrow> nat \<Rightarrow> sync \<Rightarrow> sync" where
  "Sink_destroy alive a y = (if alive then RemoveSynchronizer (Some a) y else y)"

definition ResetPrerollReported :: "nat \<Rightarrow> sync \<Rightarrow> sync" where
  "ResetPrerollReported a y = upd_sink a (\<lambda>s. s\<lparr>s_hasReportedPreroll := False\<rparr>) y"

text \<open>The state of the wait is the whole record: other threads act on it while the mutex is given up. \<open>DoSyncWrite\<close> is
  virtual.\<close>

definition WriteToPluginRefTimeSync ::
  "bool \<Rightarrow> timespec \<Rightarrow> (timespec \<Rightarrow> sync \<Rightarrow> int \<times> sync) \<Rightarrow> (sync \<Rightarrow> 'r) \<Rightarrow> nat \<Rightarrow> sync \<Rightarrow> 'r option" where
  "WriteToPluginRefTimeSync alive clk tw DoSyncWrite a y =
     (let y1 = (if \<not> s_hasReportedPreroll (y_sink y a)
                then upd_sink a (\<lambda>s. s\<lparr>s_hasReportedPreroll := True\<rparr>) (if alive then ReportPrerolled (Some a) y else y)
                else y)
      in do {
        y2 \<leftarrow> (if s_waitForPrerolled (y_sink y1 a)
               then do {
                 (_, y') \<leftarrow> WaitFor clk tw (swrap 32 (HstTime2Ms (s_waitPrerolledTimeout (y_sink y1 a))))
                              (\<lambda>z. s_waitForPrerolled (y_sink z a)) y1;
                 Some (upd_sink a (\<lambda>s. s\<lparr>s_waitForPrerolled := False\<rparr>) y')
               }
               else Some y1);
        Some (DoSyncWrite y2)
      })"

text \<open>The tags of the stream's meta data: start time and duration, absent when not set; the track's number.\<close>

definition UpdateMediaTimeRange :: "bool \<Rightarrow> int option \<Rightarrow> int option \<Rightarrow> int \<Rightarrow> sync \<Rightarrow> sync" where
  "UpdateMediaTimeRange alive startTime duration trackId y =
     (if \<not> alive then y
      else
        let trackStartTime = (case startTime of None \<Rightarrow> 0 | Some t \<Rightarrow> t);
            y1 = SetMediaTimeRangeStart trackStartTime (swrap 32 trackId) y
        in case duration of
             Some d \<Rightarrow> SetMediaTimeRangeEnd (i64 (d + trackStartTime)) (swrap 32 trackId) y1
           | None \<Rightarrow> SetMediaTimeRangeEnd (2 ^ 63 - 1) (swrap 32 trackId) y1)"

section \<open>Audio sink\<close>

record audio_sink =
  a_latestBufferPts :: int
  a_latestBufferDuration :: int
  a_reportAnchorDuration :: int
  a_lastReportedClockTime :: int
  a_forceUpdateTimeAnchorNextTime :: bool

definition PRIORITY_AUDIO_SINK :: int where
  "PRIORITY_AUDIO_SINK = 2"

definition PRIORITY_VIDEO_SINK :: int where
  "PRIORITY_VIDEO_SINK = 0"

definition AudioSinkFilter :: "audio_sink \<times> msink" where
  "AudioSinkFilter =
     (\<lparr>a_latestBufferPts = HST_TIME_NONE, a_latestBufferDuration = 0, a_reportAnchorDuration = 20 * HST_MSECOND,
       a_lastReportedClockTime = HST_TIME_NONE, a_forceUpdateTimeAnchorNextTime = False\<rparr>,
      \<lparr>s_syncerPriority = PRIORITY_AUDIO_SINK, s_hasReportedPreroll = False, s_waitForPrerolled = False,
       s_waitPrerolledTimeout = 80 * HST_MSECOND\<rparr>)"

text \<open>The result: the error code, whether the plugin was given the buffer, the sink and the manager.\<close>

definition Audio_DoSyncWrite ::
  "bool \<Rightarrow> int \<Rightarrow> int \<Rightarrow> (sbuf \<Rightarrow> ErrorCode) \<Rightarrow> nat \<Rightarrow> sbuf \<Rightarrow> audio_sink \<Rightarrow> sync \<Rightarrow> (ErrorCode \<times> bool) \<times> audio_sink \<times> sync" where
  "Audio_DoSyncWrite alive now latency plugin_Write self buffer s y =
     (let (render, s2, y2) =
        (if d_flag buffer AND BUFFER_FLAG_EOS = 0 then
           let nowCt = (if alive then GetClockTimeNow now y else 0);
               (render, s1, y1) =
                 (if a_lastReportedClockTime s = HST_TIME_NONE
                     \<or> i64 (a_lastReportedClockTime s + a_reportAnchorDuration s) \<le> nowCt
                     \<or> a_forceUpdateTimeAnchorNextTime s
                  then
                    let (render, y1) = (if alive then UpdateTimeAnchor (i64 (nowCt + latency)) (d_pts buffer) (Some self) y
                                        else (True, y))
                    in (render, s\<lparr>a_lastReportedClockTime := nowCt, a_forceUpdateTimeAnchorNextTime := True\<rparr>, y1)
                  else (True, s, y))
           in (render, s1\<lparr>a_latestBufferPts := d_pts buffer, a_latestBufferDuration := d_duration buffer\<rparr>, y1)
         else (True, s, y))
      in if \<not> render then ((SUCCESS, False), s2, y2) else ((plugin_Write buffer, True), s2, y2))"

definition Audio_ResetSyncInfo :: "nat \<Rightarrow> audio_sink \<Rightarrow> sync \<Rightarrow> audio_sink \<times> sync" where
  "Audio_ResetSyncInfo self s y =
     (s\<lparr>a_lastReportedClockTime := HST_TIME_NONE, a_latestBufferPts := HST_TIME_NONE, a_latestBufferDuration := HST_TIME_NONE\<rparr>,
      ResetPrerollReported self y)"

section \<open>Video sink\<close>

record video_sink =
  v_isFirstFrame :: bool
  v_forceRenderNextFrame :: bool
  v_renderFrameCnt :: nat
  v_discardFrameCnt :: nat

definition VideoSinkFilter :: "video_sink \<times> msink" where
  "VideoSinkFilter =
     (\<lparr>v_isFirstFrame = True, v_forceRenderNextFrame = False, v_renderFrameCnt = 0, v_discardFrameCnt = 0\<rparr>,
      \<lparr>s_syncerPriority = PRIORITY_VIDEO_SINK, s_hasReportedPreroll = False, s_waitForPrerolled = False,
       s_waitPrerolledTimeout = 0\<rparr>)"

text \<open>Whether to drop the buffer, and for how many milliseconds the thread sleeps.\<close>

definition CheckBufferLatenessMayWait :: "bool \<Rightarrow> int \<Rightarrow> int \<Rightarrow> sbuf \<Rightarrow> sync \<Rightarrow> bool \<times> int" where
  "CheckBufferLatenessMayWait alive now latency buffer y =
     (if \<not> alive then (False, 0)
      else
        let ct4Buffer = GetClockTime (d_pts buffer) y
        in if ct4Buffer \<noteq> HST_TIME_NONE then
             let nowCt = GetClockTimeNow now y;
                 diff = i64 (i64 (nowCt + latency) - ct4Buffer);
                 sleep = (if diff < 0 then HstTime2Ms (0 - diff) else 0);
                 tooLate = (\<not> diff < 0 \<and> diff > 0 \<and> HstTime2Ms diff > 40)
             in (tooLate \<and> d_flag buffer AND BUFFER_FLAG_KEY_FRAME = 0, sleep)
           else (False, 0))"

definition Video_DoSyncWrite ::
  "bool \<Rightarrow> int \<Rightarrow> int \<Rightarrow> (sbuf \<Rightarrow> ErrorCode) \<Rightarrow> nat \<Rightarrow> sbuf \<Rightarrow> video_sink \<Rightarrow> sync \<Rightarrow> (ErrorCode \<times> bool) \<times> video_sink \<times> sync" where
  "Video_DoSyncWrite alive now latency plugin_Write self buffer v y =
     (let (shouldDrop, render, v2, y2) =
        (if d_flag buffer AND BUFFER_FLAG_EOS = 0 then
           let (drp, render, v1, y1) =
                 (if v_isFirstFrame v then
                    let nowCt = (if alive then GetClockTimeNow now y else 0);
                        (render, y1) = (if alive then UpdateTimeAnchor (i64 (nowCt + latency)) (d_pts buffer) (Some self) y
                                        else (True, y))
                    in (False, render, v\<lparr>v_isFirstFrame := False\<rparr>, y1)
                  else (fst (CheckBufferLatenessMayWait alive now latency buffer y), True, v, y))
           in if v_forceRenderNextFrame v1 then (False, render, v1\<lparr>v_forceRenderNextFrame := False\<rparr>, y1)
              else (drp, render, v1, y1)
         else (False, True, v, y))
      in if shouldDrop then ((SUCCESS, False), v2\<lparr>v_discardFrameCnt := (v_discardFrameCnt v2 + 1) mod 2 ^ 64\<rparr>, y2)
         else if \<not> render then ((SUCCESS, False), v2\<lparr>v_discardFrameCnt := (v_discardFrameCnt v2 + 1) mod 2 ^ 64\<rparr>, y2)
         else ((plugin_Write buffer, True), v2\<lparr>v_renderFrameCnt := (v_renderFrameCnt v2 + 1) mod 2 ^ 64\<rparr>, y2))"

definition Video_ResetSyncInfo :: "nat \<Rightarrow> video_sink \<Rightarrow> sync \<Rightarrow> video_sink \<times> sync" where
  "Video_ResetSyncInfo self v y = (v\<lparr>v_isFirstFrame := True\<rparr>, ResetPrerollReported self y)"

end
