(* ===== verification/Media_Sync_Props.thy ===== *)
theory Media_Sync_Props
  imports Media_Sink
begin

text \<open>
  What the playback clock promises: media time does not run backwards, a pause freezes it and a resume continues it, a
  seek hides frames until one near the target arrives, and lower-priority sinks do not move the clock. Further, what the sinks make
  of it: which video frames are dropped, and that the wait for the other sinks does not happen.
\<close>

section \<open>Arithmetic\<close>

lemma i64_id: "- (2 ^ 63) \<le> x \<Longrightarrow> x < 2 ^ 63 \<Longrightarrow> i64 x = x"
  by (rule swrap_id) simp_all

lemma rnd_abs_le:
  assumes "\<bar>x\<bar> \<le> 2 ^ k" "0 < p"
  shows "\<bar>rnd p x\<bar> \<le> 2 ^ k"
proof -
  have "rnd p x \<le> rnd p (2 ^ k)" "rnd p (- (2 ^ k)) \<le> rnd p x"
    using assms by (auto intro!: rnd_mono)
  moreover have "rnd p (2 ^ k) = 2 ^ k" using rnd_exact_powi [OF assms(2), of "int k"] by simp
  ultimately show ?thesis unfolding rnd_minus by simp
qed

lemma c_trunc_bound:
  assumes "\<bar>x\<bar> \<le> of_int m"
  shows "\<bar>c_trunc x\<bar> \<le> m"
proof -
  have "of_int (- m) \<le> x" "x \<le> of_int m" using assms by auto
  from c_trunc_mono [OF this(1)] c_trunc_mono [OF this(2)] show ?thesis unfolding c_trunc_int by linarith
qed

lemma rate_one [simp]: "\<not> rate_is_zero 1"
proof -
  have "rnd 53 (1 / 1000000000) \<le> rnd 53 (2 powi 0)" by (rule rnd_mono) simp_all
  also have "\<dots> = 1" using rnd_exact_powi [of 53 0] by simp
  finally show ?thesis by (simp add: rate_is_zero_def)
qed

section \<open>Media time as a function of the clock\<close>

lemma SimpleGetMediaTime_eq:
  "\<not> rate_is_zero r \<Longrightarrow> c \<noteq> HST_TIME_NONE \<Longrightarrow> t \<noteq> HST_TIME_NONE \<Longrightarrow> m \<noteq> HST_TIME_NONE \<Longrightarrow>
     SimpleGetMediaTime c t m r =
       i64 (c_trunc (rnd 53 (rnd 53 (of_int m) + rnd 53 (rnd 53 (of_int (i64 (t - c))) * r))))"
  by (simp add: SimpleGetMediaTime_def)

lemma SimpleGetMediaTime_anchor:
  assumes "\<not> rate_is_zero r" "c \<noteq> HST_TIME_NONE" "m \<noteq> HST_TIME_NONE" "\<bar>m\<bar> < 2 ^ 53"
  shows "SimpleGetMediaTime c c m r = m"
proof -
  have "rnd 53 (rnd 53 (of_int m)) = (of_int m :: rat)" using assms(4) by (simp add: rnd_exact_int)
  moreover have "i64 m = m" using assms(4) by (intro i64_id) auto
  ultimately show ?thesis using assms by (simp add: SimpleGetMediaTime_def swrap_def [of 64 0])
qed

lemma SimpleGetMediaTime_rate1:
  assumes "c \<noteq> HST_TIME_NONE" "t \<noteq> HST_TIME_NONE" "m \<noteq> HST_TIME_NONE"
    "\<bar>m\<bar> < 2 ^ 52" "\<bar>t - c\<bar> < 2 ^ 52"
  shows "SimpleGetMediaTime c t m 1 = m + (t - c)"
proof -
  have i: "i64 (t - c) = t - c" "i64 (m + (t - c)) = m + (t - c)" using assms(4,5) by (auto intro!: i64_id)
  have r: "rnd 53 (of_int m) = (of_int m :: rat)" "rnd 53 (of_int (t - c)) = (of_int (t - c) :: rat)"
    "rnd 53 (of_int (m + (t - c))) = (of_int (m + (t - c)) :: rat)"
    using assms(4,5) by (intro rnd_exact_int; simp)+
  have "SimpleGetMediaTime c t m 1 = i64 (c_trunc (rnd 53 (of_int m + of_int (t - c))))"
    unfolding SimpleGetMediaTime_eq [OF rate_one assms(1-3)] i r mult_1_right ..
  also have "of_int m + of_int (t - c) = (of_int (m + (t - c)) :: rat)" by simp
  finally show ?thesis unfolding r c_trunc_int i .
qed

lemma SimpleGetClockTime_rate1:
  "c \<noteq> HST_TIME_NONE \<Longrightarrow> t \<noteq> HST_TIME_NONE \<Longrightarrow> m \<noteq> HST_TIME_NONE \<Longrightarrow> \<bar>c\<bar> < 2 ^ 52 \<Longrightarrow> \<bar>t - m\<bar> < 2 ^ 52 \<Longrightarrow>
     SimpleGetClockTime c t m 1 = c + (t - m)"
  using SimpleGetMediaTime_rate1 [of m t c] by (simp add: SimpleGetClockTime_def SimpleGetMediaTime_def conj_commute disj_commute)

text \<open>The range in which the conversion to 64 bits is defined.\<close>

definition clock_ok :: "int \<Rightarrow> sync \<Rightarrow> bool" where
  "clock_ok now y =
     (now \<noteq> HST_TIME_NONE \<and> \<bar>now - y_currentAnchorClockTime y\<bar> < 2 ^ 63 \<and> \<bar>y_currentAnchorMediaTime y\<bar> \<le> 2 ^ 61 \<and>
      \<bar>rnd 53 (of_int (now - y_currentAnchorClockTime y)) * y_playRate y\<bar> \<le> 2 ^ 61)"

lemma media_double_bound:
  assumes "\<bar>m\<bar> \<le> 2 ^ 61" "\<bar>q\<bar> \<le> 2 ^ 61"
  shows "\<bar>c_trunc (rnd 53 (rnd 53 (of_int m) + rnd 53 q))\<bar> \<le> 2 ^ 62"
proof -
  have "of_int \<bar>m\<bar> \<le> (of_int (2 ^ 61) :: rat)" using assms(1) by (simp only: of_int_le_iff)
  then have "\<bar>of_int m :: rat\<bar> \<le> 2 ^ 61" by simp
  then have "\<bar>rnd 53 (of_int m)\<bar> \<le> (2 :: rat) ^ 61" by (rule rnd_abs_le) simp
  moreover have "\<bar>rnd 53 q\<bar> \<le> 2 ^ 61" using assms(2) by (rule rnd_abs_le) simp
  ultimately have "\<bar>rnd 53 (of_int m) + rnd 53 q\<bar> \<le> (2 :: rat) ^ 62" by simp
  then have "\<bar>rnd 53 (rnd 53 (of_int m) + rnd 53 q)\<bar> \<le> (2 :: rat) ^ 62" by (rule rnd_abs_le) simp
  then have "\<bar>rnd 53 (rnd 53 (of_int m) + rnd 53 q)\<bar> \<le> of_int (2 ^ 62)" by simp
  then show ?thesis by (rule c_trunc_bound)
qed

lemma SimpleGetMediaTime_mono:
  assumes "clock_ok t1 y" "clock_ok t2 y" "t1 \<le> t2" "0 \<le> y_playRate y"
  shows "SimpleGetMediaTime (y_currentAnchorClockTime y) t1 (y_currentAnchorMediaTime y) (y_playRate y) \<le>
    SimpleGetMediaTime (y_currentAnchorClockTime y) t2 (y_currentAnchorMediaTime y) (y_playRate y)"
proof -
  let ?c = "y_currentAnchorClockTime y" and ?m = "y_currentAnchorMediaTime y" and ?r = "y_playRate y"
  let ?T = "\<lambda>t. c_trunc (rnd 53 (rnd 53 (of_int ?m) + rnd 53 (rnd 53 (of_int (t - ?c)) * ?r)))"
  have ok: "i64 (t - ?c) = t - ?c" "i64 (?T t) = ?T t" if "clock_ok t y" for t
  proof -
    show "i64 (t - ?c) = t - ?c" using that by (auto simp: clock_ok_def intro!: i64_id)
    have "\<bar>?T t\<bar> \<le> 2 ^ 62" using that unfolding clock_ok_def by (intro media_double_bound) blast+
    then show "i64 (?T t) = ?T t" by (intro i64_id) auto
  qed
  have "?T t1 \<le> ?T t2"
    using assms(3,4) by (intro c_trunc_mono rnd_mono add_left_mono mult_right_mono) auto
  moreover have "SimpleGetMediaTime ?c t ?m ?r = (if rate_is_zero ?r \<or> ?c = HST_TIME_NONE \<or> ?m = HST_TIME_NONE then HST_TIME_NONE else ?T t)"
    if "clock_ok t y" for t
    using that SimpleGetMediaTime_eq [of ?r ?c t ?m] unfolding ok [OF that]
    by (auto simp: SimpleGetMediaTime_def clock_ok_def)
  ultimately show ?thesis using assms(1,2) by simp
qed

lemma ClipMediaTime_mono: "a \<le> b \<Longrightarrow> ClipMediaTime a y \<le> ClipMediaTime b y"
  by (auto simp: ClipMediaTime_def Let_def)

lemma ClipMediaTime_idem: "ClipMediaTime (ClipMediaTime a y) y = ClipMediaTime a y"
  by (auto simp: ClipMediaTime_def Let_def)

lemma ClipMediaTime_range:
  "y_minRangeStart y \<noteq> HST_TIME_NONE \<Longrightarrow> y_maxRangeEnd y \<noteq> HST_TIME_NONE \<Longrightarrow> y_minRangeStart y \<le> y_maxRangeEnd y \<Longrightarrow>
     y_minRangeStart y \<le> ClipMediaTime a y \<and> ClipMediaTime a y \<le> y_maxRangeEnd y"
  by (auto simp: ClipMediaTime_def Let_def)

lemma ClipMediaTime_cong:
  "y_minRangeStart y' = y_minRangeStart y \<Longrightarrow> y_maxRangeEnd y' = y_maxRangeEnd y \<Longrightarrow> ClipMediaTime a y' = ClipMediaTime a y"
  by (simp add: ClipMediaTime_def Let_def)

section \<open>The manager as a transition system\<close>

text \<open>The operations in any order, by the player and any number of sinks. The clock has a valid reading, the ranges of the
  tracks are times, and the player keeps the waiting for prerolled sinks switched on, as the code does. A sink changes its own
  members at any time.\<close>

inductive sync_step :: "sync \<Rightarrow> sync \<Rightarrow> bool" where
  rate: "0 \<le> now \<Longrightarrow> sync_step y (snd (SetPlaybackRate now r y))"
| wait: "sync_step y (WaitAllPrerolled True y)"
| resume: "0 \<le> now \<Longrightarrow> sync_step y (snd (Sync_Resume now y))"
| pause: "0 \<le> now \<Longrightarrow> sync_step y (snd (Sync_Pause now y))"
| seek: "sync_step y (snd (Sync_Seek t y))"
| reset: "sync_step y (snd (Sync_Reset y))"
| add: "sync_step y (AddSynchronizer a y)"
| remove: "sync_step y (RemoveSynchronizer a y)"
| anchor: "sync_step y (snd (UpdateTimeAnchor c m a y))"
| report: "sync_step y (ReportPrerolled a y)"
| range_start: "t \<noteq> HST_TIME_NONE \<Longrightarrow> sync_step y (SetMediaTimeRangeStart t i y)"
| range_end: "t \<noteq> HST_TIME_NONE \<Longrightarrow> sync_step y (SetMediaTimeRangeEnd t i y)"
| sinks: "sync_step y (y\<lparr>y_sink := f\<rparr>)"

inductive sync_reach :: "sync \<Rightarrow> bool" where
  init: "sync_reach (MediaSyncManager sinks)"
| step: "sync_reach y \<Longrightarrow> sync_step y y' \<Longrightarrow> sync_reach y'"

definition sync_inv :: "sync \<Rightarrow> bool" where
  "sync_inv y =
     (distinct (y_syncers y) \<and> distinct (y_prerolledSyncers y) \<and> y_allSyncerShouldPrerolled y \<and> 0 \<le> y_playRate y \<and>
      (y_clockState y = RESUMED \<longrightarrow> y_alreadySetSyncersShouldWait y \<and> y_pausedMediaTime y = HST_TIME_NONE) \<and>
      (\<not> y_alreadySetSyncersShouldWait y \<longrightarrow> y_pausedMediaTime y = HST_TIME_NONE) \<and>
      (y_isSeeking y \<longrightarrow> y_minRangeStart y \<noteq> HST_TIME_NONE \<and> y_maxRangeEnd y \<noteq> HST_TIME_NONE \<and>
         y_minRangeStart y \<le> y_seekingMediaTime y \<and> y_seekingMediaTime y \<le> y_maxRangeEnd y) \<and>
      (y_currentAnchorMediaTime y \<noteq> HST_TIME_NONE \<longrightarrow> y_currentAnchorClockTime y \<noteq> HST_TIME_NONE) \<and>
      (y_currentSyncerPriority y \<noteq> PRIORITY_NONE \<longrightarrow> y_currentAnchorClockTime y \<noteq> HST_TIME_NONE))"

lemma fold_upd_sink:
  "\<forall>a y. F a y = upd_sink a f y \<Longrightarrow> (\<And>s. f (f s) = f s) \<Longrightarrow>
     fold F xs y = y\<lparr>y_sink := \<lambda>a. if a \<in> set xs then f (y_sink y a) else y_sink y a\<rparr>"
  by (induction xs arbitrary: y) (auto simp: upd_sink_def fun_eq_iff intro!: arg_cong [where f = "\<lambda>g. y_sink_update (\<lambda>_. g) _"])

lemmas fold_wait = fold_upd_sink [where F = "Sink_WaitAllPrerolled b" and f = "\<lambda>s. s\<lparr>s_waitForPrerolled := b\<rparr>" for b]
lemmas fold_notify = fold_upd_sink [where F = Sink_NotifyAllPrerolled and f = "\<lambda>s. s\<lparr>s_waitForPrerolled := False\<rparr>"]

lemma SetAllSyncShouldWait_eq:
  "\<exists>g p. SetAllSyncShouldWaitNoLock y =
     y\<lparr>y_prerolledSyncers := p, y_sink := g,
       y_alreadySetSyncersShouldWait := y_alreadySetSyncersShouldWait y \<or> y_allSyncerShouldPrerolled y\<rparr> \<and>
     (p = [] \<or> p = y_prerolledSyncers y)"
proof (cases "y_allSyncerShouldPrerolled y \<and> \<not> y_alreadySetSyncersShouldWait y")
  case True
  let ?y = "y\<lparr>y_prerolledSyncers := []\<rparr>"
  have "\<exists>g. (if length (y_syncers ?y) > 1 then fold (Sink_WaitAllPrerolled True) (y_syncers ?y) ?y else ?y) = ?y\<lparr>y_sink := g\<rparr>"
    by (auto simp: fold_wait Sink_WaitAllPrerolled_def intro: exI [of _ "y_sink y"])
  then obtain g where "(if length (y_syncers ?y) > 1 then fold (Sink_WaitAllPrerolled True) (y_syncers ?y) ?y else ?y) = ?y\<lparr>y_sink := g\<rparr>" ..
  then have "SetAllSyncShouldWaitNoLock y = y\<lparr>y_prerolledSyncers := [], y_sink := g, y_alreadySetSyncersShouldWait := True\<rparr>"
    using True unfolding SetAllSyncShouldWaitNoLock_def Let_def by simp
  then show ?thesis using True by auto
next
  case False
  then show ?thesis
    by (intro exI [of _ "y_sink y"] exI [of _ "y_prerolledSyncers y"]) (auto simp: SetAllSyncShouldWaitNoLock_def)
qed

lemma ReportPrerolled_full:
  assumes "y_allSyncerShouldPrerolled y" "a \<notin> set (y_prerolledSyncers y)"
  shows "ReportPrerolled (Some a) y =
    (if length (y_prerolledSyncers y) + 1 = length (y_syncers y)
     then y\<lparr>y_prerolledSyncers := [], y_sink := \<lambda>b. if b \<in> set (y_prerolledSyncers y @ [a])
            then (y_sink y b)\<lparr>s_waitForPrerolled := False\<rparr> else y_sink y b\<rparr>
     else y\<lparr>y_prerolledSyncers := y_prerolledSyncers y @ [a]\<rparr>)"
proof -
  have n: "fold Sink_NotifyAllPrerolled xs z =
      z\<lparr>y_sink := \<lambda>b. if b \<in> set xs then (y_sink z b)\<lparr>s_waitForPrerolled := False\<rparr> else y_sink z b\<rparr>" for xs z
    by (rule fold_notify) (simp_all add: Sink_NotifyAllPrerolled_def)
  show ?thesis using assms unfolding ReportPrerolled_def Let_def n by (simp cong: if_cong)
qed

lemma ReportPrerolled_eq:
  "\<exists>g p. ReportPrerolled a y = y\<lparr>y_prerolledSyncers := p, y_sink := g\<rparr> \<and>
     (p = [] \<or> p = y_prerolledSyncers y \<or> (\<exists>x. x \<notin> set (y_prerolledSyncers y) \<and> p = y_prerolledSyncers y @ [x]))"
proof (cases "\<exists>x. a = Some x \<and> y_allSyncerShouldPrerolled y \<and> x \<notin> set (y_prerolledSyncers y)")
  case True
  then obtain x where x: "a = Some x" "y_allSyncerShouldPrerolled y" "x \<notin> set (y_prerolledSyncers y)" by blast
  show ?thesis
  proof (cases "length (y_prerolledSyncers y) + 1 = length (y_syncers y)")
    case True
    then show ?thesis unfolding x(1) ReportPrerolled_full [OF x(2,3)] if_P [OF True] by blast
  next
    case False
    show ?thesis unfolding x(1) ReportPrerolled_full [OF x(2,3)] if_not_P [OF False]
      by (intro exI [of _ "y_sink y"] exI [of _ "y_prerolledSyncers y @ [x]"]) (use x(3) in auto)
  qed
next
  case False
  then have "ReportPrerolled a y = y" by (auto simp: ReportPrerolled_def split: option.splits)
  then show ?thesis by (intro exI [of _ "y_sink y"] exI [of _ "y_prerolledSyncers y"]) simp
qed

lemma sync_inv_init: "sync_inv (MediaSyncManager sinks)"
  by (simp add: sync_inv_def MediaSyncManager_def)

lemma Sync_Seek_inv:
  assumes "sync_inv y"
  shows "sync_inv (snd (Sync_Seek t y))"
proof -
  obtain g p where "SetAllSyncShouldWaitNoLock (y\<lparr>y_isSeeking := True, y_seekingMediaTime := t, y_alreadySetSyncersShouldWait := False\<rparr>) =
      y\<lparr>y_isSeeking := True, y_seekingMediaTime := t, y_prerolledSyncers := p, y_sink := g,
        y_alreadySetSyncersShouldWait := y_allSyncerShouldPrerolled y\<rparr>" "p = [] \<or> p = y_prerolledSyncers y"
    using SetAllSyncShouldWait_eq [of "y\<lparr>y_isSeeking := True, y_seekingMediaTime := t, y_alreadySetSyncersShouldWait := False\<rparr>"] by auto
  with assms show ?thesis
    by (auto simp: Sync_Seek_def ResetTimeAnchorNoLock_def SimpleUpdateTimeAnchor_def sync_inv_def)
qed

lemma Sync_Resume_inv:
  assumes "sync_inv y" "0 \<le> now"
  shows "sync_inv (snd (Sync_Resume now y))"
proof -
  have n: "now \<noteq> HST_TIME_NONE" using assms(2) by (simp add: HST_TIME_NONE_def)
  define y1 where "y1 = (if y_clockState y = PAUSED \<and> y_pausedMediaTime y \<noteq> HST_TIME_NONE \<and> y_alreadySetSyncersShouldWait y
    then (SimpleUpdateTimeAnchor (GetSystemClock now) (y_pausedMediaTime y) y)\<lparr>y_pausedMediaTime := HST_TIME_NONE, y_pausedClockTime := HST_TIME_NONE\<rparr>
    else y)"
  have inv: "sync_inv y1" "y_pausedMediaTime y1 = HST_TIME_NONE"
    using assms(1) n by (cases "y_clockState y"; auto simp: y1_def SimpleUpdateTimeAnchor_def GetSystemClock_def sync_inv_def)+
  obtain g p where s: "SetAllSyncShouldWaitNoLock y1 = y1\<lparr>y_prerolledSyncers := p, y_sink := g,
      y_alreadySetSyncersShouldWait := y_alreadySetSyncersShouldWait y1 \<or> y_allSyncerShouldPrerolled y1\<rparr>" "p = [] \<or> p = y_prerolledSyncers y1"
    using SetAllSyncShouldWait_eq [of y1] by blast
  have "snd (Sync_Resume now y) = (if y_clockState y1 = RESUMED then y1 else (SetAllSyncShouldWaitNoLock y1)\<lparr>y_clockState := RESUMED\<rparr>)"
    unfolding Sync_Resume_def y1_def Let_def by simp
  moreover have "sync_inv (y1\<lparr>y_prerolledSyncers := p, y_sink := g,
      y_alreadySetSyncersShouldWait := y_alreadySetSyncersShouldWait y1 \<or> y_allSyncerShouldPrerolled y1, y_clockState := RESUMED\<rparr>)"
    using inv s(2) by (auto simp: sync_inv_def)
  ultimately show ?thesis using inv s(1) by simp
qed

lemma ReportPrerolled_inv:
  assumes "sync_inv y"
  shows "sync_inv (ReportPrerolled a y)"
proof -
  obtain g p where e: "ReportPrerolled a y = y\<lparr>y_prerolledSyncers := p, y_sink := g\<rparr>"
    and "p = [] \<or> p = y_prerolledSyncers y \<or> (\<exists>x. x \<notin> set (y_prerolledSyncers y) \<and> p = y_prerolledSyncers y @ [x])"
    using ReportPrerolled_eq by blast
  then have "distinct p" using assms by (auto simp: sync_inv_def)
  then show ?thesis unfolding e using assms by (simp add: sync_inv_def)
qed

lemma sync_step_inv:
  assumes "sync_step y y'" "sync_inv y"
  shows "sync_inv y'"
  using assms
proof cases
  case (rate now r)
  then have "now \<noteq> HST_TIME_NONE" by (simp add: HST_TIME_NONE_def)
  with rate assms(2) show ?thesis
    by (auto simp: SetPlaybackRate_def Let_def SimpleUpdatePlayRate_def SimpleUpdateTimeAnchor_def GetSystemClock_def sync_inv_def)
next
  case (pause now)
  with assms(2) show ?thesis by (cases "y_clockState y") (auto simp: Sync_Pause_def Let_def sync_inv_def)
next
  case (anchor c m a)
  with assms(2) show ?thesis
    by (auto simp: UpdateTimeAnchor_def Let_def SimpleUpdateTimeAnchor_def sync_inv_def split: option.splits)
next
  case (range_start t i)
  with assms(2) show ?thesis by (auto simp: SetMediaTimeRangeStart_def SetMediaTimeStartEnd_def Let_def sync_inv_def)
next
  case (range_end t i)
  with assms(2) show ?thesis by (auto simp: SetMediaTimeRangeEnd_def SetMediaTimeStartEnd_def Let_def sync_inv_def)
next
  case (remove a)
  with assms(2) show ?thesis by (auto simp: RemoveSynchronizer_def sync_inv_def distinct_remove1 split: option.splits)
next
  case (add a)
  with assms(2) show ?thesis by (auto simp: AddSynchronizer_def sync_inv_def split: option.splits)
next
  case reset
  with assms(2) show ?thesis
    by (simp add: Sync_Reset_def ResetTimeAnchorNoLock_def SimpleUpdateTimeAnchor_def sync_inv_def)
qed (simp_all add: Sync_Seek_inv Sync_Resume_inv ReportPrerolled_inv, simp_all add: WaitAllPrerolled_def sync_inv_def)

lemma sync_reach_inv: "sync_reach y \<Longrightarrow> sync_inv y"
  by (induction rule: sync_reach.induct) (auto intro: sync_inv_init sync_step_inv)

section \<open>Continuity\<close>

lemma running_media_time:
  "y_clockState y = RESUMED \<Longrightarrow> \<not> y_isSeeking y \<Longrightarrow>
     GetMediaTimeNow now y =
       ClipMediaTime (SimpleGetMediaTime (y_currentAnchorClockTime y) now (y_currentAnchorMediaTime y) (y_playRate y)) y"
  by (simp add: GetMediaTimeNow_def GetSystemClock_def)

lemma pause_state:
  assumes "y_clockState y = RESUMED" "\<not> y_isSeeking y"
  shows "snd (Sync_Pause t y) =
    y\<lparr>y_pausedClockTime := t, y_pausedMediaTime := GetMediaTimeNow t y, y_clockState := PAUSED\<rparr>"
  using assms by (auto simp: Sync_Pause_def GetMediaTimeNow_def GetSystemClock_def Let_def SimpleGetMediaTime_def)

text \<open>C8: Media time does not jump. Take a reachable state of a manager that keeps waiting for prerolled sinks switched on, whose clock
  readings are not negative, and that is running and not seeking, at a rate that is not zero, with a media time that is known, smaller in size than
  two to the power of 53 and inside the range of the media without clipping. Then a pause freezes the media time, the resume that
  follows at once continues from there however long the pause was, and a change to another rate that is positive and not zero leaves the current media time as it is.
  (At rate zero it is lost: \<open>rate_zero_loses_position\<close>.)
\<close>

theorem media_time_continuous:
  assumes "sync_reach y" "y_clockState y = RESUMED" "\<not> y_isSeeking y"
    and "\<not> rate_is_zero (y_playRate y)" "\<not> rate_is_zero r" "0 \<le> r" "0 \<le> t1" "0 \<le> t2"
    and "m = GetMediaTimeNow t1 y" "m \<noteq> HST_TIME_NONE" "\<bar>m\<bar> < 2 ^ 53"
    and "SimpleGetMediaTime (y_currentAnchorClockTime y) t1 (y_currentAnchorMediaTime y) (y_playRate y) = m"
  shows "GetMediaTimeNow t (snd (Sync_Pause t1 y)) = m \<and>
    GetMediaTimeNow t2 (snd (Sync_Resume t2 (snd (Sync_Pause t1 y)))) = m \<and>
    GetMediaTimeNow t1 (snd (SetPlaybackRate t1 r y)) = m"
proof -
  have inv: "y_alreadySetSyncersShouldWait y" using sync_reach_inv [OF assms(1)] assms(2) by (simp add: sync_inv_def)
  have n: "t1 \<noteq> HST_TIME_NONE" "t2 \<noteq> HST_TIME_NONE" using assms(7,8) by (auto simp: HST_TIME_NONE_def)
  have clip: "ClipMediaTime m y = m"
    unfolding assms(9) running_media_time [OF assms(2,3)] by (rule ClipMediaTime_idem)
  note p = pause_state [OF assms(2,3), of t1, folded assms(9)]
  have "snd (Sync_Resume t2 (snd (Sync_Pause t1 y))) =
      y\<lparr>y_pausedClockTime := HST_TIME_NONE, y_pausedMediaTime := HST_TIME_NONE, y_clockState := RESUMED,
        y_currentAnchorMediaTime := m, y_currentAnchorClockTime := t2\<rparr>"
    unfolding p using inv assms(10)
    by (simp add: Sync_Resume_def SimpleUpdateTimeAnchor_def GetSystemClock_def SetAllSyncShouldWaitNoLock_def Let_def)
  then have "GetMediaTimeNow t2 (snd (Sync_Resume t2 (snd (Sync_Pause t1 y)))) = ClipMediaTime m y"
    using assms(3) SimpleGetMediaTime_anchor [OF assms(4) n(2) assms(10,11)]
    by (simp add: GetMediaTimeNow_def GetSystemClock_def ClipMediaTime_def Let_def)
  moreover have "GetMediaTimeNow t (snd (Sync_Pause t1 y)) = m"
    unfolding p using assms(3,10) by (simp add: GetMediaTimeNow_def)
  moreover have a: "y_currentAnchorClockTime y \<noteq> HST_TIME_NONE" "y_currentAnchorMediaTime y \<noteq> HST_TIME_NONE"
    using assms(10,12) by (auto simp: SimpleGetMediaTime_def split: if_splits)
  have "snd (SetPlaybackRate t1 r y) = y\<lparr>y_currentAnchorMediaTime := m, y_currentAnchorClockTime := t1, y_playRate := r\<rparr>"
    using a assms(6,12) by (simp add: SetPlaybackRate_def Let_def SimpleUpdatePlayRate_def SimpleUpdateTimeAnchor_def GetSystemClock_def)
  then have "GetMediaTimeNow t1 (snd (SetPlaybackRate t1 r y)) = ClipMediaTime m y"
    using assms(2,3) SimpleGetMediaTime_anchor [OF assms(5) n(1) assms(10,11)]
    by (simp add: GetMediaTimeNow_def GetSystemClock_def ClipMediaTime_def Let_def)
  ultimately show ?thesis using clip by simp
qed

section \<open>Media time over a run\<close>

text \<open>A player that plays: time passes, it is paused, resumed and given other rates, sinks come, go and report, but no sink moves the
  time anchor, no seek, reset or new range of a track intervenes. In each state it passes through the rate is not zero, and the media time is known,
  below two to the power of 53 in size and, while paused, in the range of the media.\<close>

definition steady :: "int \<Rightarrow> sync \<Rightarrow> bool" where
  "steady t y =
     (\<not> y_isSeeking y \<and> \<not> rate_is_zero (y_playRate y) \<and> 0 \<le> t \<and>
      (case y_clockState y of
         PAUSED \<Rightarrow> y_pausedMediaTime y \<noteq> HST_TIME_NONE \<and> \<bar>y_pausedMediaTime y\<bar> < 2 ^ 53 \<and>
           ClipMediaTime (y_pausedMediaTime y) y = y_pausedMediaTime y
       | RESUMED \<Rightarrow> clock_ok t y \<and>
           (let m = SimpleGetMediaTime (y_currentAnchorClockTime y) t (y_currentAnchorMediaTime y) (y_playRate y)
            in m \<noteq> HST_TIME_NONE \<and> \<bar>m\<bar> < 2 ^ 53)))"

inductive play_step :: "int \<Rightarrow> sync \<Rightarrow> int \<Rightarrow> sync \<Rightarrow> bool" where
  tick: "t \<le> t' \<Longrightarrow> play_step t y t' y"
| pause: "play_step t y t (snd (Sync_Pause t y))"
| resume: "play_step t y t (snd (Sync_Resume t y))"
| rate: "play_step t y t (snd (SetPlaybackRate t r y))"
| add: "play_step t y t (AddSynchronizer a y)"
| remove: "play_step t y t (RemoveSynchronizer a y)"
| report: "play_step t y t (ReportPrerolled a y)"

inductive plays :: "int \<Rightarrow> sync \<Rightarrow> int \<Rightarrow> sync \<Rightarrow> bool" where
  now: "steady t y \<Longrightarrow> plays t y t y"
| later: "plays t y t1 y1 \<Longrightarrow> play_step t1 y1 t2 y2 \<Longrightarrow> steady t2 y2 \<Longrightarrow> plays t y t2 y2"

lemma plays_steady: "plays t y t' y' \<Longrightarrow> steady t' y'"
  by (induction rule: plays.induct)

lemma play_step_inv:
  assumes "play_step t y t' y'" "steady t y" "sync_inv y"
  shows "sync_inv y'"
proof -
  have "0 \<le> t" using assms(2) by (simp add: steady_def)
  with assms(1) have "y' = y \<or> sync_step y y'" by cases (auto intro: sync_step.intros)
  then show ?thesis using assms(3) sync_step_inv by blast
qed

lemma ReportPrerolled_clock [simp]:
  "y_clockState (ReportPrerolled a y) = y_clockState y" "y_isSeeking (ReportPrerolled a y) = y_isSeeking y"
  "y_pausedMediaTime (ReportPrerolled a y) = y_pausedMediaTime y" "y_playRate (ReportPrerolled a y) = y_playRate y"
  "y_currentAnchorClockTime (ReportPrerolled a y) = y_currentAnchorClockTime y"
  "y_currentAnchorMediaTime (ReportPrerolled a y) = y_currentAnchorMediaTime y"
  "y_minRangeStart (ReportPrerolled a y) = y_minRangeStart y" "y_maxRangeEnd (ReportPrerolled a y) = y_maxRangeEnd y"
  "y_seekingMediaTime (ReportPrerolled a y) = y_seekingMediaTime y"
  using ReportPrerolled_eq [of a y] by auto

lemma GetMediaTimeNow_cong:
  assumes "y_clockState y' = y_clockState y" "y_isSeeking y' = y_isSeeking y" "y_pausedMediaTime y' = y_pausedMediaTime y"
    "y_playRate y' = y_playRate y" "y_currentAnchorClockTime y' = y_currentAnchorClockTime y"
    "y_currentAnchorMediaTime y' = y_currentAnchorMediaTime y" "y_minRangeStart y' = y_minRangeStart y"
    "y_maxRangeEnd y' = y_maxRangeEnd y" "y_seekingMediaTime y' = y_seekingMediaTime y"
  shows "GetMediaTimeNow t y' = GetMediaTimeNow t y"
  using assms by (simp add: GetMediaTimeNow_def ClipMediaTime_def Let_def)

lemma pause_time:
  assumes "steady t y" "steady t (snd (Sync_Pause t y))"
  shows "GetMediaTimeNow t (snd (Sync_Pause t y)) = GetMediaTimeNow t y"
proof (cases "y_clockState y")
  case PAUSED
  then show ?thesis by (simp add: Sync_Pause_def)
next
  case RESUMED
  have s: "\<not> y_isSeeking y" using assms(1) by (simp add: steady_def)
  note p = pause_state [OF RESUMED s, of t]
  have "GetMediaTimeNow t y \<noteq> HST_TIME_NONE" using assms(2) by (simp add: p steady_def)
  then show ?thesis using s by (simp add: p GetMediaTimeNow_def [of _ "_\<lparr>y_clockState := _\<rparr>"])
qed

lemma resume_time:
  assumes "steady t y" "sync_inv y"
  shows "GetMediaTimeNow t (snd (Sync_Resume t y)) = GetMediaTimeNow t y"
proof (cases "y_clockState y")
  case RESUMED
  then show ?thesis by (simp add: Sync_Resume_def Let_def)
next
  case PAUSED
  let ?p = "y_pausedMediaTime y"
  have y: "\<not> y_isSeeking y" "\<not> rate_is_zero (y_playRate y)" "?p \<noteq> HST_TIME_NONE" "\<bar>?p\<bar> < 2 ^ 53" "ClipMediaTime ?p y = ?p"
    "t \<noteq> HST_TIME_NONE"
    using assms(1) PAUSED by (auto simp: steady_def HST_TIME_NONE_def)
  have "y_alreadySetSyncersShouldWait y" using assms(2) y(3) by (auto simp: sync_inv_def)
  then have "snd (Sync_Resume t y) =
      y\<lparr>y_pausedClockTime := HST_TIME_NONE, y_pausedMediaTime := HST_TIME_NONE, y_clockState := RESUMED,
        y_currentAnchorMediaTime := ?p, y_currentAnchorClockTime := t\<rparr>"
    using PAUSED y(3) by (simp add: Sync_Resume_def SimpleUpdateTimeAnchor_def GetSystemClock_def SetAllSyncShouldWaitNoLock_def Let_def)
  then have "GetMediaTimeNow t (snd (Sync_Resume t y)) = ClipMediaTime ?p y"
    using y(1) SimpleGetMediaTime_anchor [OF y(2,6,3,4)]
    by (simp add: GetMediaTimeNow_def GetSystemClock_def ClipMediaTime_def Let_def)
  also have "\<dots> = GetMediaTimeNow t y" using y PAUSED by (simp add: GetMediaTimeNow_def)
  finally show ?thesis .
qed

lemma rate_time:
  assumes "steady t y" "steady t (snd (SetPlaybackRate t r y))"
  shows "GetMediaTimeNow t (snd (SetPlaybackRate t r y)) = GetMediaTimeNow t y"
proof (cases "r < 0 \<or> y_clockState y = PAUSED")
  case True
  then show ?thesis
    by (auto simp: SetPlaybackRate_def Let_def SimpleUpdatePlayRate_def SimpleUpdateTimeAnchor_def GetMediaTimeNow_def)
next
  case False
  then have R: "y_clockState y = RESUMED" by (cases "y_clockState y") auto
  let ?m = "SimpleGetMediaTime (y_currentAnchorClockTime y) t (y_currentAnchorMediaTime y) (y_playRate y)"
  have y: "\<not> y_isSeeking y" "?m \<noteq> HST_TIME_NONE" "\<bar>?m\<bar> < 2 ^ 53" "t \<noteq> HST_TIME_NONE"
    using assms(1) R by (auto simp: steady_def Let_def HST_TIME_NONE_def)
  have a: "y_currentAnchorClockTime y \<noteq> HST_TIME_NONE" "y_currentAnchorMediaTime y \<noteq> HST_TIME_NONE"
    using y(2) by (auto simp: SimpleGetMediaTime_def split: if_splits)
  have e: "snd (SetPlaybackRate t r y) = y\<lparr>y_currentAnchorMediaTime := ?m, y_currentAnchorClockTime := t, y_playRate := r\<rparr>"
    using False a by (simp add: SetPlaybackRate_def Let_def SimpleUpdatePlayRate_def SimpleUpdateTimeAnchor_def GetSystemClock_def)
  have r: "\<not> rate_is_zero r" using assms(2) unfolding e by (simp add: steady_def)
  show ?thesis
    unfolding e using R y(1) SimpleGetMediaTime_anchor [OF r y(4,2,3)]
    by (simp add: GetMediaTimeNow_def GetSystemClock_def ClipMediaTime_def Let_def)
qed

lemma tick_time:
  assumes "steady t y" "steady t' y" "t \<le> t'" "sync_inv y"
  shows "GetMediaTimeNow t y \<le> GetMediaTimeNow t' y"
proof (cases "y_clockState y")
  case PAUSED
  then show ?thesis by (simp add: GetMediaTimeNow_def)
next
  case RESUMED
  have ok: "clock_ok t y" "clock_ok t' y" "\<not> y_isSeeking y" "0 \<le> y_playRate y"
    using assms RESUMED by (simp_all add: steady_def sync_inv_def)
  from SimpleGetMediaTime_mono [OF ok(1,2) assms(3) ok(4)] show ?thesis
    unfolding running_media_time [OF RESUMED ok(3)] by (rule ClipMediaTime_mono)
qed

lemma play_step_time:
  assumes "play_step t y t' y'" "steady t y" "steady t' y'" "sync_inv y"
  shows "GetMediaTimeNow t y \<le> GetMediaTimeNow t' y'"
  using assms(1)
proof cases
  case tick
  then show ?thesis using tick_time [of t y t'] assms by simp
next
  case pause
  then show ?thesis using pause_time [of t y] assms by simp
next
  case resume
  then show ?thesis using resume_time [of t y] assms by simp
next
  case (rate r)
  then show ?thesis using rate_time [of t y r] assms by simp
next
  case (add a)
  have "GetMediaTimeNow t (AddSynchronizer a y) = GetMediaTimeNow t y"
    by (rule GetMediaTimeNow_cong) (auto simp: AddSynchronizer_def split: option.split)
  with add show ?thesis by simp
next
  case (remove a)
  have "GetMediaTimeNow t (RemoveSynchronizer a y) = GetMediaTimeNow t y"
    by (rule GetMediaTimeNow_cong) (auto simp: RemoveSynchronizer_def split: option.split)
  with remove show ?thesis by simp
next
  case (report a)
  have "GetMediaTimeNow t (ReportPrerolled a y) = GetMediaTimeNow t y" by (rule GetMediaTimeNow_cong) simp_all
  with report show ?thesis by simp
qed

lemma steady_range:
  assumes "steady t y" "y_minRangeStart y \<noteq> HST_TIME_NONE" "y_maxRangeEnd y \<noteq> HST_TIME_NONE" "y_minRangeStart y \<le> y_maxRangeEnd y"
  shows "y_minRangeStart y \<le> GetMediaTimeNow t y \<and> GetMediaTimeNow t y \<le> y_maxRangeEnd y"
proof (cases "y_clockState y")
  case PAUSED
  then have "GetMediaTimeNow t y = ClipMediaTime (y_pausedMediaTime y) y" using assms(1) by (simp add: steady_def GetMediaTimeNow_def)
  with ClipMediaTime_range [OF assms(2-4)] show ?thesis by simp
next
  case RESUMED
  have s: "\<not> y_isSeeking y" using assms(1) by (simp add: steady_def)
  from ClipMediaTime_range [OF assms(2-4)] show ?thesis unfolding running_media_time [OF RESUMED s] by blast
qed

text \<open>C22: While a player plays, its media time never goes backwards: not as time passes, at any rate that is not zero and for all the
  rounding in the double arithmetic, and not through any number of pauses, resumes, changes of rate and of the registered sinks. And it stays within the range of the
  media where that is known. This is between two updates of the time anchor by a sink, without seek, reset or change of the range, from a reachable state and for media
  times that are known, below two to the power of 53 in size, and in range while paused (\<open>steady\<close>).
\<close>

theorem media_time_monotone:
  assumes "sync_reach y" "plays t y t' y'"
  shows "GetMediaTimeNow t y \<le> GetMediaTimeNow t' y' \<and>
    (y_minRangeStart y' \<noteq> HST_TIME_NONE \<and> y_maxRangeEnd y' \<noteq> HST_TIME_NONE \<and> y_minRangeStart y' \<le> y_maxRangeEnd y' \<longrightarrow>
       y_minRangeStart y' \<le> GetMediaTimeNow t' y' \<and> GetMediaTimeNow t' y' \<le> y_maxRangeEnd y')"
proof -
  have "sync_inv y" by (rule sync_reach_inv [OF assms(1)])
  with assms(2) have "GetMediaTimeNow t y \<le> GetMediaTimeNow t' y' \<and> sync_inv y'"
  proof (induction rule: plays.induct)
    case (later t y t1 y1 t2 y2)
    from later.IH later.prems have i: "GetMediaTimeNow t y \<le> GetMediaTimeNow t1 y1" "sync_inv y1" by blast+
    note st = plays_steady [OF later.hyps(1)]
    from play_step_time [OF later.hyps(2) st later.hyps(3) i(2)] play_step_inv [OF later.hyps(2) st i(2)] i(1)
    show ?case by linarith
  qed simp
  with steady_range [OF plays_steady [OF assms(2)]] show ?thesis by blast
qed

text \<open>A player at run: an audio sink and a video sink, resumed at clock time 5, the first audio frame heard at 1000.\<close>

definition example_sinks :: "nat \<Rightarrow> msink" where
  "example_sinks a = (if a = 1 then snd AudioSinkFilter else snd VideoSinkFilter)"

definition example_player :: sync where
  "example_player =
     snd (UpdateTimeAnchor 1000 0 (Some 1)
       (snd (Sync_Resume 5 (AddSynchronizer (Some 2) (AddSynchronizer (Some 1) (MediaSyncManager example_sinks))))))"

lemma example_reach: "sync_reach example_player"
  unfolding example_player_def
  by (intro sync_reach.step [OF _ sync_step.anchor] sync_reach.step [OF _ sync_step.resume] sync_reach.step [OF _ sync_step.add]
        sync_reach.init) simp

lemma example_fields:
  "y_clockState example_player = RESUMED" "\<not> y_isSeeking example_player" "y_playRate example_player = 1"
  "y_currentAnchorClockTime example_player = 1000" "y_currentAnchorMediaTime example_player = 0"
  "y_minRangeStart example_player = HST_TIME_NONE" "y_maxRangeEnd example_player = HST_TIME_NONE"
  "y_currentSyncerPriority example_player = 2"
  by code_simp+

lemma clock_rounds: "\<bar>t\<bar> < 2 ^ 53 \<Longrightarrow> rnd 53 (of_int t) = (of_int t :: rat)"
  by (rule rnd_exact_int) simp_all

lemma example_time: "0 \<le> t \<Longrightarrow> t < 2 ^ 40 \<Longrightarrow> SimpleGetMediaTime 1000 t 0 1 = t - 1000"
  by (subst SimpleGetMediaTime_rate1) (auto simp: HST_TIME_NONE_def)

lemma example_time_at:
  "1000 \<le> t \<Longrightarrow> t < 2 ^ 40 \<Longrightarrow> steady t example_player"
  using example_time [of t] clock_rounds [of "t - 1000"]
  by (auto simp: steady_def Let_def example_fields clock_ok_def HST_TIME_NONE_def)

text \<open>Two seconds are played, then the player is paused, and resumed six milliseconds later.\<close>

theorem media_time_monotone_witness:
  "GetMediaTimeNow 2000 example_player \<le> GetMediaTimeNow 9000 (snd (Sync_Resume 9000 (snd (Sync_Pause 3000 example_player))))"
proof -
  let ?p = "snd (Sync_Pause 3000 example_player)"
  let ?r = "snd (Sync_Resume 9000 ?p)"
  have t: "SimpleGetMediaTime 1000 3000 0 1 = 2000" using example_time [of 3000] by simp
  then have g: "GetMediaTimeNow 3000 example_player = 2000"
    by (simp add: GetMediaTimeNow_def GetSystemClock_def example_fields ClipMediaTime_def)
  have p: "?p = example_player\<lparr>y_pausedClockTime := 3000, y_pausedMediaTime := 2000, y_clockState := PAUSED\<rparr>"
    using pause_state [OF example_fields(1,2), of 3000] by (simp add: g)
  have a: "y_alreadySetSyncersShouldWait example_player" using sync_reach_inv [OF example_reach] example_fields(1) by (simp add: sync_inv_def)
  have r: "?r = example_player\<lparr>y_pausedClockTime := HST_TIME_NONE, y_pausedMediaTime := HST_TIME_NONE, y_clockState := RESUMED,
      y_currentAnchorMediaTime := 2000, y_currentAnchorClockTime := 9000\<rparr>"
    unfolding p using a by (simp add: Sync_Resume_def SimpleUpdateTimeAnchor_def GetSystemClock_def SetAllSyncShouldWaitNoLock_def Let_def HST_TIME_NONE_def)
  have sp: "steady 3000 ?p" "steady 9000 ?p"
    by (simp_all add: p steady_def example_fields HST_TIME_NONE_def ClipMediaTime_def)
  have sr: "steady 9000 ?r"
    using SimpleGetMediaTime_anchor [OF rate_one, of 9000 2000] clock_rounds [of 0]
    by (simp add: r steady_def example_fields Let_def clock_ok_def HST_TIME_NONE_def)
  have "plays 2000 example_player 3000 example_player"
    by (rule plays.later [OF plays.now play_step.tick]) (simp_all add: example_time_at)
  then have "plays 2000 example_player 3000 ?p" by (rule plays.later [OF _ play_step.pause sp(1)])
  then have "plays 2000 example_player 9000 ?p" by (rule plays.later [OF _ play_step.tick sp(2)]) simp
  then have "plays 2000 example_player 9000 ?r" by (rule plays.later [OF _ play_step.resume sr])
  from media_time_monotone [OF example_reach this] show ?thesis by blast
qed

theorem media_time_continuous_witness:
  "GetMediaTimeNow 9000 (snd (Sync_Resume 9000 (snd (Sync_Pause 3000 example_player)))) = 2000"
proof -
  have t: "SimpleGetMediaTime 1000 3000 0 1 = 2000" using example_time [of 3000] by simp
  then have g: "2000 = GetMediaTimeNow 3000 example_player"
    by (simp add: GetMediaTimeNow_def example_fields GetSystemClock_def ClipMediaTime_def)
  show ?thesis
    using media_time_continuous [OF example_reach example_fields(1,2), of 1 3000 9000 2000 0] g t
    by (simp add: example_fields HST_TIME_NONE_def)
qed

section \<open>Seeking and priorities\<close>

lemma HstTime2Ms_le: "0 \<le> x \<Longrightarrow> HstTime2Ms x \<le> n \<longleftrightarrow> x < (n + 1) * 1000000"
  unfolding HstTime2Ms_def HST_MSECOND_def by (subst c_div_nonneg) (auto simp: div_less_iff_less_mult simp flip: zle_add1_eq_le)

lemma Sync_Seek_ok:
  assumes "fst (Sync_Seek t y) = SUCCESS"
  shows "y_isSeeking (snd (Sync_Seek t y))" "y_seekingMediaTime (snd (Sync_Seek t y)) = t"
proof -
  let ?y = "y\<lparr>y_isSeeking := True, y_seekingMediaTime := t, y_alreadySetSyncersShouldWait := False\<rparr>"
  obtain g p b where "SetAllSyncShouldWaitNoLock ?y = ?y\<lparr>y_prerolledSyncers := p, y_sink := g, y_alreadySetSyncersShouldWait := b\<rparr>"
    using SetAllSyncShouldWait_eq [of ?y] by blast
  then show "y_isSeeking (snd (Sync_Seek t y))" "y_seekingMediaTime (snd (Sync_Seek t y)) = t"
    using assms by (auto simp: Sync_Seek_def ResetTimeAnchorNoLock_def SimpleUpdateTimeAnchor_def split: if_splits)
qed

lemma UpdateTimeAnchor_seeking:
  assumes "c \<noteq> HST_TIME_NONE" "p \<noteq> HST_TIME_NONE" "y_isSeeking y" "\<bar>p - y_seekingMediaTime y\<bar> < 2 ^ 63"
  shows "fst (UpdateTimeAnchor c p (Some a) y) = (\<bar>p - y_seekingMediaTime y\<bar> < 51000000)"
    "y_isSeeking (snd (UpdateTimeAnchor c p (Some a) y)) = (\<not> \<bar>p - y_seekingMediaTime y\<bar> < 51000000)"
    "y_seekingMediaTime (snd (UpdateTimeAnchor c p (Some a) y)) = y_seekingMediaTime y"
proof -
  have "i64 (p - y_seekingMediaTime y) = p - y_seekingMediaTime y" using assms(4) by (intro i64_id) auto
  then show "fst (UpdateTimeAnchor c p (Some a) y) = (\<bar>p - y_seekingMediaTime y\<bar> < 51000000)"
    "y_isSeeking (snd (UpdateTimeAnchor c p (Some a) y)) = (\<not> \<bar>p - y_seekingMediaTime y\<bar> < 51000000)"
    "y_seekingMediaTime (snd (UpdateTimeAnchor c p (Some a) y)) = y_seekingMediaTime y"
    using assms(1-3) by (simp_all add: UpdateTimeAnchor_def Let_def SimpleUpdateTimeAnchor_def HstTime2Ms_le)
qed

text \<open>A seek is accepted exactly when the range of the media is known and holds the target, and changes nothing otherwise.
  From then on the media time is the target, and frames are not to be rendered until one less than 51 milliseconds from it is
  reported, which ends the seek.
\<close>

theorem seek_hides_frames:
  assumes "c \<noteq> HST_TIME_NONE" "p \<noteq> HST_TIME_NONE" "\<bar>p - t\<bar> < 2 ^ 63"
  shows "(fst (Sync_Seek t y) = SUCCESS \<longleftrightarrow> y_minRangeStart y \<noteq> HST_TIME_NONE \<and> y_maxRangeEnd y \<noteq> HST_TIME_NONE \<and>
      y_minRangeStart y \<le> t \<and> t \<le> y_maxRangeEnd y) \<and>
    (fst (Sync_Seek t y) \<noteq> SUCCESS \<longrightarrow> snd (Sync_Seek t y) = y) \<and>
    (fst (Sync_Seek t y) = SUCCESS \<longrightarrow>
       (case UpdateTimeAnchor c p (Some a) (snd (Sync_Seek t y)) of (render, y') \<Rightarrow>
          GetMediaTimeNow now (snd (Sync_Seek t y)) = t \<and> render = (\<bar>p - t\<bar> < 51000000) \<and> y_isSeeking y' = (\<not> render) \<and>
          (\<not> render \<longrightarrow> GetMediaTimeNow now y' = t)))"
proof (intro conjI impI)
  show "fst (Sync_Seek t y) = SUCCESS \<longleftrightarrow> y_minRangeStart y \<noteq> HST_TIME_NONE \<and> y_maxRangeEnd y \<noteq> HST_TIME_NONE \<and>
      y_minRangeStart y \<le> t \<and> t \<le> y_maxRangeEnd y" by (auto simp: Sync_Seek_def)
  show "fst (Sync_Seek t y) \<noteq> SUCCESS \<Longrightarrow> snd (Sync_Seek t y) = y" by (auto simp: Sync_Seek_def split: if_splits)
  assume "fst (Sync_Seek t y) = SUCCESS"
  note ok = Sync_Seek_ok [OF this]
  from UpdateTimeAnchor_seeking [OF assms(1,2) ok(1), of a] assms(3) ok
  show "case UpdateTimeAnchor c p (Some a) (snd (Sync_Seek t y)) of (render, y') \<Rightarrow>
      GetMediaTimeNow now (snd (Sync_Seek t y)) = t \<and> render = (\<bar>p - t\<bar> < 51000000) \<and> y_isSeeking y' = (\<not> render) \<and>
      (\<not> render \<longrightarrow> GetMediaTimeNow now y' = t)"
    by (auto simp: GetMediaTimeNow_def split: prod.splits)
qed

definition example_ranged :: sync where
  "example_ranged = SetMediaTimeRangeEnd 9000000000 0 (SetMediaTimeRangeStart 0 0 example_player)"

theorem seek_hides_frames_witness:
  "fst (Sync_Seek 5000000000 example_ranged) = SUCCESS \<and>
   fst (UpdateTimeAnchor 7000 4900000000 (Some 1) (snd (Sync_Seek 5000000000 example_ranged))) = False"
proof -
  have "y_minRangeStart example_ranged = 0" "y_maxRangeEnd example_ranged = 9000000000" by code_simp+
  then show ?thesis
    using seek_hides_frames [of 7000 4900000000 5000000000 example_ranged 0 1]
    by (auto simp: HST_TIME_NONE_def split: prod.splits)
qed

section \<open>The sinks\<close>

lemma Video_sync_state:
  "snd (snd (Video_DoSyncWrite alive now latency W a b v y)) =
     (if d_flag b AND BUFFER_FLAG_EOS = 0 \<and> v_isFirstFrame v \<and> alive
      then snd (UpdateTimeAnchor (i64 (GetClockTimeNow now y + latency)) (d_pts b) (Some a) y) else y)"
  by (auto simp: Video_DoSyncWrite_def Let_def split: prod.splits if_splits)

lemma Video_first_frame:
  "v_isFirstFrame (fst (snd (Video_DoSyncWrite alive now latency W a b v y))) =
     (v_isFirstFrame v \<and> d_flag b AND BUFFER_FLAG_EOS \<noteq> 0)"
  by (auto simp: Video_DoSyncWrite_def Let_def split: prod.splits if_splits)

lemma UpdateTimeAnchor_lower:
  "Sink_GetPriority a y < y_currentSyncerPriority y \<Longrightarrow> \<not> y_isSeeking y \<Longrightarrow> snd (UpdateTimeAnchor c m (Some a) y) = y"
  by (simp add: UpdateTimeAnchor_def Let_def)

text \<open>The sink with the highest priority owns the clock. Once the audio sink has set the anchor, whatever the video sink
  writes leaves the anchor, the rate and the position of the player as they are, so the video follows the audio.
\<close>

theorem video_follows_audio:
  assumes "Sink_GetPriority a y < y_currentSyncerPriority y" "\<not> y_isSeeking y"
  shows "snd (snd (Video_DoSyncWrite alive now latency W a b v y)) = y"
  unfolding Video_sync_state using UpdateTimeAnchor_lower [OF assms] by simp

theorem video_follows_audio_witness:
  "snd (snd (Video_DoSyncWrite True 2000 0 (\<lambda>_. SUCCESS) 2 \<lparr>d_pts = 40, d_duration = 0, d_flag = 2\<rparr> (fst VideoSinkFilter) example_player)) =
     example_player"
proof (rule video_follows_audio)
  show "Sink_GetPriority 2 example_player < y_currentSyncerPriority example_player" by code_simp
  show "\<not> y_isSeeking example_player" by (rule example_fields)
qed

lemma HstTime2Ms_late: "HstTime2Ms x > 40 \<longleftrightarrow> x \<ge> 41000000" if "0 \<le> x"
  using HstTime2Ms_le [OF that, of 40] by auto

text \<open>Which video frames are dropped. At normal rate, a frame after the first is discarded exactly when it would appear 41
  milliseconds or more after the clock time of its time stamp, is not a key frame and is not forced; every other frame goes to
  the plugin, whose result is returned.
\<close>

theorem video_drops_late_frames:
  assumes "y_clockState y = RESUMED" "y_playRate y = 1" "\<not> v_isFirstFrame v" "d_flag b AND BUFFER_FLAG_EOS = 0"
    and "c = y_currentAnchorClockTime y" "m = y_currentAnchorMediaTime y" "c \<noteq> HST_TIME_NONE" "m \<noteq> HST_TIME_NONE"
    and "d_pts b \<noteq> HST_TIME_NONE" "c + (d_pts b - m) \<noteq> HST_TIME_NONE"
    and "\<bar>c\<bar> < 2 ^ 52" "\<bar>d_pts b - m\<bar> < 2 ^ 52" "\<bar>now\<bar> < 2 ^ 52" "0 \<le> latency" "latency < 2 ^ 52"
  shows "fst (Video_DoSyncWrite True now latency W a b v y) =
    (if now + latency - (c + (d_pts b - m)) \<ge> 41000000 \<and> d_flag b AND BUFFER_FLAG_KEY_FRAME = 0 \<and> \<not> v_forceRenderNextFrame v
     then (SUCCESS, False) else (W b, True))"
proof -
  have ct: "GetClockTime (d_pts b) y = c + (d_pts b - m)"
    unfolding GetClockTime_def assms(2) using assms(5-12) SimpleGetClockTime_rate1 by simp
  have i: "i64 (now + latency) = now + latency" "i64 (now + latency - (c + (d_pts b - m))) = now + latency - (c + (d_pts b - m))"
    using assms(11-15) by (intro i64_id; simp; linarith)+
  have "fst (CheckBufferLatenessMayWait True now latency b y) =
      (now + latency - (c + (d_pts b - m)) \<ge> 41000000 \<and> d_flag b AND BUFFER_FLAG_KEY_FRAME = 0)"
    unfolding CheckBufferLatenessMayWait_def Let_def ct using assms(1,10)
    by (auto simp: GetClockTimeNow_def GetSystemClock_def i HstTime2Ms_late)
  then show ?thesis using assms(3,4) by (simp add: Video_DoSyncWrite_def Let_def)
qed

theorem video_drops_late_frames_witness:
  "fst (Video_DoSyncWrite True 60000000 0 (\<lambda>_. SUCCESS) 2 \<lparr>d_pts = 40, d_duration = 0, d_flag = 0\<rparr>
     ((fst VideoSinkFilter)\<lparr>v_isFirstFrame := False\<rparr>) example_player) = (SUCCESS, False)"
proof -
  have "(0 :: 64 word) AND BUFFER_FLAG_EOS = 0" "(0 :: 64 word) AND BUFFER_FLAG_KEY_FRAME = 0" by simp_all
  then show ?thesis
    using video_drops_late_frames [OF example_fields(1,3), of "(fst VideoSinkFilter)\<lparr>v_isFirstFrame := False\<rparr>"
        "\<lparr>d_pts = 40, d_duration = 0, d_flag = 0\<rparr>" 1000 0 60000000 0 "\<lambda>_. SUCCESS" 2]
    by (simp add: example_fields HST_TIME_NONE_def VideoSinkFilter_def)
qed

text \<open>The wait for the other sinks does not happen. The wait's condition is that the sink should wait, which
  holds, so it ends at once: a sink told to wait writes its first frame immediately, whatever the other sinks and threads do, and
  without giving up the mutex.
\<close>

theorem preroll_never_waits:
  "\<exists>y'. \<forall>clk tw. WriteToPluginRefTimeSync alive clk tw W a y = Some (W y')"
proof -
  define y1 where "y1 = (if \<not> s_hasReportedPreroll (y_sink y a)
    then upd_sink a (\<lambda>s. s\<lparr>s_hasReportedPreroll := True\<rparr>) (if alive then ReportPrerolled (Some a) y else y) else y)"
  have "WriteToPluginRefTimeSync alive clk tw W a y =
      Some (W (if s_waitForPrerolled (y_sink y1 a) then upd_sink a (\<lambda>s. s\<lparr>s_waitForPrerolled := False\<rparr>) y1 else y1))" for clk tw
    unfolding WriteToPluginRefTimeSync_def y1_def [symmetric] Let_def
    using WaitFor_holds [of "\<lambda>z. s_waitForPrerolled (y_sink z a)" y1] by simp
  then show ?thesis by blast
qed

text \<open>Every further frame of a video sink after its first leaves the manager alone.\<close>

fun video_writes :: "(int \<times> int \<times> sbuf) list \<Rightarrow> (sbuf \<Rightarrow> ErrorCode) \<Rightarrow> nat \<Rightarrow> video_sink \<times> sync \<Rightarrow> video_sink \<times> sync" where
  "video_writes [] W a vy = vy"
| "video_writes ((now, latency, b) # fs) W a (v, y) = video_writes fs W a (snd (Video_DoSyncWrite True now latency W a b v y))"

lemma video_writes_later: "\<not> v_isFirstFrame v \<Longrightarrow> snd (video_writes fs W a (v, y)) = y"
proof (induction fs arbitrary: v)
  case (Cons f fs)
  obtain now l b where f: "f = (now, l, b)" by (cases f)
  let ?r = "snd (Video_DoSyncWrite True now l W a b v y)"
  have "snd ?r = y" "\<not> v_isFirstFrame (fst ?r)" using Cons.prems by (simp_all add: Video_sync_state Video_first_frame)
  with Cons.IH [of "fst ?r"] show ?case by (simp add: f) (metis prod.collapse)
qed simp

text \<open>A video-only seek can hang. When the first frame after the seek is 51 milliseconds or more from the target, as after
  a seek to the preceding key frame, no later frame ends the seek: the player's media time stays at the target for ever.
\<close>

theorem video_seek_stuck:
  assumes "y_isSeeking y" "v_isFirstFrame v" "d_flag b AND BUFFER_FLAG_EOS = 0" "d_pts b \<noteq> HST_TIME_NONE"
    "i64 (GetClockTimeNow now y + latency) \<noteq> HST_TIME_NONE"
    "51000000 \<le> \<bar>d_pts b - y_seekingMediaTime y\<bar>" "\<bar>d_pts b - y_seekingMediaTime y\<bar> < 2 ^ 63"
  shows "GetMediaTimeNow t (snd (video_writes ((now, latency, b) # fs) W a (v, y))) = y_seekingMediaTime y"
proof -
  let ?r = "snd (Video_DoSyncWrite True now latency W a b v y)"
  have "snd (video_writes fs W a ?r) = snd ?r"
    using video_writes_later [of "fst ?r" fs W a "snd ?r"] assms(3) by (simp add: Video_first_frame)
  moreover have "snd ?r = snd (UpdateTimeAnchor (i64 (GetClockTimeNow now y + latency)) (d_pts b) (Some a) y)"
    using assms(2,3) by (simp add: Video_sync_state)
  ultimately show ?thesis
    using UpdateTimeAnchor_seeking(2,3) [OF assms(5,4,1,7), of a] assms(6) by (simp add: GetMediaTimeNow_def)
qed

theorem video_seek_stuck_witness:
  "GetMediaTimeNow 8000 (snd (video_writes [(7000, 0, \<lparr>d_pts = 4900000000, d_duration = 0, d_flag = 2\<rparr>)] (\<lambda>_. SUCCESS) 2
     (fst VideoSinkFilter, snd (Sync_Seek 5000000000 example_ranged)))) = 5000000000"
proof -
  have r: "y_minRangeStart example_ranged = 0" "y_maxRangeEnd example_ranged = 9000000000"
    "y_clockState (snd (Sync_Seek 5000000000 example_ranged)) = RESUMED" by code_simp+
  have "fst (Sync_Seek 5000000000 example_ranged) = SUCCESS" by (simp add: Sync_Seek_def r HST_TIME_NONE_def)
  note ok = Sync_Seek_ok [OF this]
  have e: "(2 :: 64 word) AND BUFFER_FLAG_EOS = 0" by code_simp
  show ?thesis
    using video_seek_stuck [OF ok(1), of "fst VideoSinkFilter" "\<lparr>d_pts = 4900000000, d_duration = 0, d_flag = 2\<rparr>" 7000 0 8000 "[]" "\<lambda>_. SUCCESS" 2]
    by (simp add: ok e r GetClockTimeNow_def GetSystemClock_def i64_id HST_TIME_NONE_def VideoSinkFilter_def)
qed

text \<open>The audio sink means to report its anchor every 20 milliseconds, but the flag that forces a report is set again by each
  report: from the first one on, every buffer reports.\<close>

lemma Audio_reports_always:
  assumes "d_flag b AND BUFFER_FLAG_EOS = 0" "a_lastReportedClockTime s = HST_TIME_NONE \<or> a_forceUpdateTimeAnchorNextTime s"
  shows "a_forceUpdateTimeAnchorNextTime (fst (snd (Audio_DoSyncWrite True now l W a b s y)))"
    "snd (snd (Audio_DoSyncWrite True now l W a b s y)) = snd (UpdateTimeAnchor (i64 (GetClockTimeNow now y + l)) (d_pts b) (Some a) y)"
  using assms by (auto simp: Audio_DoSyncWrite_def Let_def split: prod.splits)

text \<open>A rate of zero is accepted but stops the clock in a way that loses the position: after the rate is positive again the
  media time is the start of the media, wherever the player was.\<close>

lemma rate_zero_loses_position:
  assumes "y_clockState y = RESUMED" "\<not> y_isSeeking y" "0 < r" "0 \<le> t1" "0 \<le> t2"
    "y_currentAnchorMediaTime y \<noteq> HST_TIME_NONE" "y_currentAnchorClockTime y \<noteq> HST_TIME_NONE"
  shows "GetMediaTimeNow t (snd (SetPlaybackRate t2 r (snd (SetPlaybackRate t1 0 y)))) = ClipMediaTime HST_TIME_NONE y"
proof -
  have z: "rate_is_zero 0"
  proof -
    have "rnd 53 (2 powi (-30)) \<le> rnd 53 (1 / 1000000000)" by (rule rnd_mono) (simp_all add: power_int_def power_divide)
    moreover have "rnd 53 (2 powi (-30)) = (2 powi (-30) :: rat)" by (rule rnd_exact_powi) simp
    moreover have "0 < (2 powi (-30) :: rat)" by (rule powi_2_pos)
    ultimately show ?thesis unfolding rate_is_zero_def by linarith
  qed
  have n: "t1 \<noteq> HST_TIME_NONE" "t2 \<noteq> HST_TIME_NONE" using assms(4,5) by (auto simp: HST_TIME_NONE_def)
  define m where "m = SimpleGetMediaTime (y_currentAnchorClockTime y) t1 (y_currentAnchorMediaTime y) (y_playRate y)"
  have "snd (SetPlaybackRate t1 0 y) = y\<lparr>y_currentAnchorMediaTime := m, y_currentAnchorClockTime := t1, y_playRate := 0\<rparr>"
    using assms(6,7) by (simp add: SetPlaybackRate_def Let_def SimpleUpdatePlayRate_def SimpleUpdateTimeAnchor_def GetSystemClock_def m_def)
  then have "\<exists>c. snd (SetPlaybackRate t2 r (snd (SetPlaybackRate t1 0 y))) =
      y\<lparr>y_currentAnchorMediaTime := HST_TIME_NONE, y_currentAnchorClockTime := c, y_playRate := r\<rparr>"
    using assms(3) z n by (auto simp: SetPlaybackRate_def Let_def SimpleUpdatePlayRate_def SimpleUpdateTimeAnchor_def SimpleGetMediaTime_def)
  then obtain c where c: "snd (SetPlaybackRate t2 r (snd (SetPlaybackRate t1 0 y))) =
      y\<lparr>y_currentAnchorMediaTime := HST_TIME_NONE, y_currentAnchorClockTime := c, y_playRate := r\<rparr>" ..
  show ?thesis unfolding c using assms(1,2) by (simp add: GetMediaTimeNow_def SimpleGetMediaTime_def ClipMediaTime_def Let_def)
qed

text \<open>When the last of the registered sinks reports, all of them are told to go on.\<close>

lemma ReportPrerolled_complete:
  assumes "y_allSyncerShouldPrerolled y" "a \<notin> set (y_prerolledSyncers y)" "distinct (y_syncers y)" "distinct (y_prerolledSyncers y)"
    "set (y_prerolledSyncers y) \<union> {a} = set (y_syncers y)" "b \<in> set (y_syncers y)"
  shows "\<not> s_waitForPrerolled (y_sink (ReportPrerolled (Some a) y) b)" "y_prerolledSyncers (ReportPrerolled (Some a) y) = []"
proof -
  have "length (y_prerolledSyncers y @ [a]) = length (y_syncers y)"
    using assms(2-5) by (metis distinct_append distinct_card disjoint_insert(1) distinct_singleton empty_set inf_bot_right list.simps(15) set_append)
  then show "\<not> s_waitForPrerolled (y_sink (ReportPrerolled (Some a) y) b)" "y_prerolledSyncers (ReportPrerolled (Some a) y) = []"
    using assms(5,6) unfolding ReportPrerolled_full [OF assms(1,2)] by auto
qed

end
