(* ===== verification/Aac_Demuxer.thy ===== *)
theory Aac_Demuxer
  imports AV_Buffer
begin

text \<open>
  The demuxer of AAC streams in ADTS framing, \<^verbatim>\<open>engine/plugin/plugins/demuxer/aac_demuxer/aac_demuxer_plugin.cpp\<close>. The data
  source is outside: \<open>ReadAt\<close> gives a status, the bytes read and the source's next state. \<open>None\<close> marks undefined behaviour, an
  access outside the input buffer. Further parameters: \<open>memset0\<close>, whether \<^verbatim>\<open>memset_s\<close> accepts an empty range, and \<open>mallocOk\<close>, whether the
  allocation of a frame succeeds. \<^verbatim>\<open>usedDataSize_\<close>, a global variable of the file, is a member here.
\<close>

unbundle bit_operations_syntax

type_synonym 's read_at = "nat \<Rightarrow> nat \<Rightarrow> 's \<Rightarrow> (Status \<times> 8 word list) \<times> 's"

record AACDemuxerRst =
  t_usedInputLength :: nat
  t_frameBuffer :: "8 word list option"
  t_frameLength :: nat
  t_frameBitrateKbps :: nat
  t_frameSampleRate :: nat
  t_frameChannels :: nat
  t_mpegVersion :: nat

record aac =
  aa_rst :: AACDemuxerRst
  aa_offset :: nat
  aa_eos :: bool
  aa_hasSource :: bool
  aa_fileSize :: nat
  aa_isSeekable :: bool
  aa_inIoBuffer :: "8 word list option"
  aa_ioDataRemainSize :: nat
  aa_usedDataSize :: nat

definition MEDIA_IO_SIZE :: nat where
  "MEDIA_IO_SIZE = 2048"

definition AACDemuxerPlugin :: "nat \<Rightarrow> aac" where
  "AACDemuxerPlugin usedDataSize =
     \<lparr>aa_rst = \<lparr>t_usedInputLength = 0, t_frameBuffer = None, t_frameLength = 0, t_frameBitrateKbps = 0, t_frameSampleRate = 0,
                t_frameChannels = 0, t_mpegVersion = 0\<rparr>,
      aa_offset = 0, aa_eos = False, aa_hasSource = False, aa_fileSize = 0, aa_isSeekable = False, aa_inIoBuffer = None,
      aa_ioDataRemainSize = 0, aa_usedDataSize = usedDataSize\<rparr>"

section \<open>Headers\<close>

definition IsAACPattern :: "8 word list \<Rightarrow> bool" where
  "IsAACPattern data = (data ! 0 = 0xff \<and> data ! 1 AND 0xf0 = 0xf0 \<and> data ! 1 AND 0x06 = 0x00)"

definition GetFrameLength :: "8 word list \<Rightarrow> nat" where
  "GetFrameLength data =
     unat (push_bit 11 (ucast (data ! 3 AND 0x03)) OR push_bit 3 (ucast (data ! 4)) OR drop_bit 5 (ucast (data ! 5 AND 0xE0)) :: 32 word)"

definition samplingRateMap :: "nat list" where
  "samplingRateMap = [96000, 88200, 64000, 48000, 44100, 32000, 24000, 22050, 16000, 12000, 11025, 8000, 7350]"

definition AudioDemuxerAACPrepare :: "8 word list \<Rightarrow> AACDemuxerRst \<Rightarrow> int \<times> AACDemuxerRst" where
  "AudioDemuxerAACPrepare buf rst =
     (if IsAACPattern buf then
        let mpegVersionIndex = unat (drop_bit 3 (buf ! 1 AND 0x0F))
        in if mpegVersionIndex \<noteq> 0 \<and> mpegVersionIndex \<noteq> 1 then (-1, rst)
           else
             let mpegVersion = (if mpegVersionIndex = 0 then 4 else 2);
                 sampleIndex = unat (drop_bit 2 (buf ! 2 AND 0x3C))
             in if \<not> sampleIndex < length samplingRateMap then (-1, rst)
                else
                  let channelCount = unat (push_bit 2 (buf ! 2 AND 0x01) OR drop_bit 6 (buf ! 3 AND 0xC0))
                  in (0, rst\<lparr>t_frameChannels := channelCount, t_frameSampleRate := samplingRateMap ! sampleIndex,
                             t_mpegVersion := mpegVersion\<rparr>)
      else (-1, rst))"

definition AudioDemuxerAACProcess :: "bool \<Rightarrow> 8 word list option \<Rightarrow> nat \<Rightarrow> AACDemuxerRst \<Rightarrow> int \<times> AACDemuxerRst" where
  "AudioDemuxerAACProcess mallocOk buffer bufferLen rst =
     (case buffer of
        None \<Rightarrow> (-1, rst)
      | Some buf \<Rightarrow>
          let rst0 = rst\<lparr>t_frameLength := 0, t_frameBuffer := None, t_usedInputLength := 0\<rparr>
          in if \<not> IsAACPattern buf then (0, rst0\<lparr>t_usedInputLength := 1\<rparr>)
             else
               let len = GetFrameLength buf
               in if len + 2 > bufferLen then (0, rst0\<lparr>t_usedInputLength := bufferLen\<rparr>)
                  else if len = 0 then (-1, rst0)
                  else if IsAACPattern (drop len buf)
                  then (if mallocOk
                        then (0, rst0\<lparr>t_frameBuffer := Some (take len buf), t_frameLength := len, t_usedInputLength := len\<rparr>)
                        else (0, rst0))
                  else (0, rst0\<lparr>t_usedInputLength := 1\<rparr>))"

section \<open>Input\<close>

definition Aac_SetDataSource :: "bool \<Rightarrow> nat \<Rightarrow> aac \<Rightarrow> Status \<times> aac" where
  "Aac_SetDataSource hasSource sz d =
     (let fileSize = (if hasSource then sz else aa_fileSize d)
      in (OK, d\<lparr>aa_hasSource := hasSource, aa_fileSize := fileSize, aa_isSeekable := fileSize > 0\<rparr>))"

text \<open>The loop of \<^verbatim>\<open>DoReadFromSource\<close>, with the number of retries left; \<open>buf\<close> is the input buffer.\<close>

fun read_loop ::
  "'s read_at \<Rightarrow> nat \<Rightarrow> nat \<Rightarrow> 8 word list \<Rightarrow> aac \<Rightarrow> 's \<Rightarrow> Status \<times> aac \<times> 's" where
  "read_loop ReadAt retries readSize buf d src =
     (case ReadAt (if aa_isSeekable d then aa_offset d else 0) readSize src of
        ((result, data), src1) \<Rightarrow>
          if result \<noteq> OK then (result, d, src1)
          else if readSize < length data then (ERROR_UNKNOWN, d, src1)
          else
            let d1 = (if data \<noteq> []
                      then d\<lparr>aa_inIoBuffer := Some (overwrite (aa_ioDataRemainSize d) data buf),
                             aa_offset := (if aa_isSeekable d then aa_offset d + length data else aa_offset d),
                             aa_ioDataRemainSize := aa_ioDataRemainSize d + length data\<rparr>
                      else d)
            in case retries of
                 Suc n \<Rightarrow> if data = [] \<and> aa_ioDataRemainSize d1 = 0 then read_loop ReadAt n readSize buf d1 src1
                          else (OK, d1, src1)
               | 0 \<Rightarrow> (ERROR_NOT_ENOUGH_DATA, d1, src1))"

declare read_loop.simps [simp del]

definition DoReadFromSource :: "'s read_at \<Rightarrow> nat \<Rightarrow> aac \<Rightarrow> 's \<Rightarrow> (Status \<times> aac \<times> 's) option" where
  "DoReadFromSource ReadAt readSize d src =
     (if readSize = 0 then Some (OK, d, src)
      else if \<not> aa_hasSource d then None
      else case aa_inIoBuffer d of
             None \<Rightarrow> None
           | Some buf \<Rightarrow> Some (read_loop ReadAt 200 readSize buf d src))"

definition GetDataFromSource :: "bool \<Rightarrow> 's read_at \<Rightarrow> aac \<Rightarrow> 's \<Rightarrow> (Status \<times> aac \<times> 's) option" where
  "GetDataFromSource memset0 ReadAt d src =
     (let ioNeedReadSize = (MEDIA_IO_SIZE + 2 ^ 32 - aa_ioDataRemainSize d) mod 2 ^ 32
      in do {
        (st, d1) \<leftarrow>
          (if aa_ioDataRemainSize d \<noteq> 0 then
             case aa_inIoBuffer d of
               None \<Rightarrow> None
             | Some buf \<Rightarrow>
                 if aa_usedDataSize d + aa_ioDataRemainSize d > MEDIA_IO_SIZE then None
                 else
                   let moved = overwrite 0 (take (aa_ioDataRemainSize d) (drop (aa_usedDataSize d) buf)) buf
                   in if ioNeedReadSize = 0 \<and> \<not> memset0 then Some (ERROR_UNKNOWN, d\<lparr>aa_inIoBuffer := Some moved\<rparr>)
                      else Some (OK, d\<lparr>aa_inIoBuffer := Some (overwrite (aa_ioDataRemainSize d) (replicate ioNeedReadSize 0) moved)\<rparr>)
           else Some (OK, d));
        if st \<noteq> OK then Some (st, d1, src)
        else if aa_isSeekable d1 \<and> aa_offset d1 \<ge> aa_fileSize d1 \<and> aa_ioDataRemainSize d1 = 0
        then Some (END_OF_STREAM, d1\<lparr>aa_eos := True, aa_offset := 0\<rparr>, src)
        else if aa_isSeekable d1 \<and> aa_offset d1 + ioNeedReadSize > aa_fileSize d1
        then DoReadFromSource ReadAt (aa_fileSize d1 - aa_offset d1) d1 src
        else DoReadFromSource ReadAt ioNeedReadSize d1 src
      })"

section \<open>Operations\<close>

record aac_track =
  k_mono :: bool
  k_sampleRate :: nat
  k_bitrate :: nat
  k_channels :: nat
  k_mpegVersion :: nat

text \<open>The track's constant tags (type, MIME, format, samples per frame, profile, stream format) are left out of the result.\<close>

definition Aac_GetMediaInfo ::
  "bool \<Rightarrow> 's read_at \<Rightarrow> aac \<Rightarrow> 's \<Rightarrow> (Status \<times> aac_track option \<times> aac \<times> 's) option" where
  "Aac_GetMediaInfo memset0 ReadAt d src =
     do {
       (retStatus, d1, src1) \<leftarrow> GetDataFromSource memset0 ReadAt d src;
       if retStatus \<noteq> OK then Some (retStatus, None, d1, src1)
       else case aa_inIoBuffer d1 of
              None \<Rightarrow> None
            | Some buf \<Rightarrow>
                (case AudioDemuxerAACPrepare buf (aa_rst d1) of
                   (ret, rst) \<Rightarrow>
                     if ret = 0
                     then Some (OK, Some \<lparr>k_mono = (t_frameChannels rst = 1), k_sampleRate = t_frameSampleRate rst,
                                         k_bitrate = t_frameBitrateKbps rst, k_channels = t_frameChannels rst,
                                         k_mpegVersion = t_mpegVersion rst\<rparr>, d1\<lparr>aa_rst := rst\<rparr>, src1)
                     else Some (ERROR_UNSUPPORTED_FORMAT, None, d1\<lparr>aa_rst := rst\<rparr>, src1))
     }"

text \<open>The result: the status and the bytes given to the memory of the output buffer.\<close>

definition Aac_ReadFrame ::
  "bool \<Rightarrow> bool \<Rightarrow> 's read_at \<Rightarrow> aac \<Rightarrow> 's \<Rightarrow> ((Status \<times> 8 word list) \<times> aac \<times> 's) option" where
  "Aac_ReadFrame memset0 mallocOk ReadAt d src =
     do {
       (retStatus, d1, src1) \<leftarrow> GetDataFromSource memset0 ReadAt d src;
       if retStatus \<noteq> OK then Some ((retStatus, []), d1, src1)
       else case AudioDemuxerAACProcess mallocOk (aa_inIoBuffer d1) (aa_ioDataRemainSize d1) (aa_rst d1) of
              (status, rst) \<Rightarrow>
                if status = 0
                then Some ((OK, case t_frameBuffer rst of None \<Rightarrow> [] | Some f \<Rightarrow> f),
                           d1\<lparr>aa_rst := rst\<lparr>t_frameBuffer := None\<rparr>, aa_usedDataSize := t_usedInputLength rst,
                              aa_ioDataRemainSize := (aa_ioDataRemainSize d1 + 2 ^ 32 - t_usedInputLength rst) mod 2 ^ 32\<rparr>, src1)
                else Some ((ERROR_UNKNOWN, []), d1\<lparr>aa_rst := rst\<lparr>t_frameBuffer := None\<rparr>\<rparr>, src1)
     }"

definition Aac_Init :: "bool \<Rightarrow> aac \<Rightarrow> Status \<times> aac" where
  "Aac_Init mallocOk d =
     (if \<not> mallocOk then (ERROR_NO_MEMORY, d\<lparr>aa_inIoBuffer := None\<rparr>)
      else (OK, d\<lparr>aa_inIoBuffer := Some (replicate MEDIA_IO_SIZE 0)\<rparr>))"

definition Aac_Deinit :: "aac \<Rightarrow> Status \<times> aac" where
  "Aac_Deinit d = (OK, d\<lparr>aa_inIoBuffer := None\<rparr>)"

definition Aac_Reset :: "aac \<Rightarrow> Status \<times> aac" where
  "Aac_Reset d =
     (OK, d\<lparr>aa_eos := False, aa_hasSource := False, aa_offset := 0, aa_ioDataRemainSize := 0,
            aa_inIoBuffer := map_option (\<lambda>_. replicate MEDIA_IO_SIZE 0) (aa_inIoBuffer d)\<rparr>)"

definition PROBE_READ_LENGTH :: nat where
  "PROBE_READ_LENGTH = 2"

definition MAX_RANK :: int where
  "MAX_RANK = 100"

text \<open>A read that gives fewer bytes leaves the rest of the probe's memory as the allocator gave it, \<open>junk\<close>.\<close>

definition Aac_Sniff :: "'s read_at \<Rightarrow> 8 word list \<Rightarrow> 's \<Rightarrow> int \<times> 's" where
  "Aac_Sniff ReadAt junk src =
     (case ReadAt 0 PROBE_READ_LENGTH src of
        ((result, data), src1) \<Rightarrow>
          if result \<noteq> OK then (0, src1)
          else if \<not> IsAACPattern (overwrite 0 data junk) then (0, src1)
          else (MAX_RANK, src1))"

end
