(* ===== verification/Aac_Demuxer_Props.thy ===== *)
theory Aac_Demuxer_Props
  imports Aac_Demuxer
begin

text \<open>
  The AAC demuxer on a well-formed file: a sequence of ADTS frames that fit the input buffer. Reading gives the frames
  one by one, each complete, except that the last one is lost.
\<close>

section \<open>Frames and files\<close>

definition adts_frame :: "8 word list \<Rightarrow> bool" where
  "adts_frame f = (7 \<le> length f \<and> length f \<le> 2046 \<and> IsAACPattern f \<and> GetFrameLength f = length f)"

text \<open>What a data source does for reads within the file.\<close>

definition file_source :: "'s read_at \<Rightarrow> 8 word list \<Rightarrow> bool" where
  "file_source ReadAt file =
     (\<forall>offset n src. offset + n \<le> length file \<longrightarrow> ReadAt offset n src = ((OK, take n (drop offset file)), src))"

lemma pattern_prefix: "take 2 a = take 2 b \<Longrightarrow> 2 \<le> length a \<Longrightarrow> 2 \<le> length b \<Longrightarrow> IsAACPattern a = IsAACPattern b"
proof -
  assume t: "take 2 a = take 2 b"
  have "i < 2 \<Longrightarrow> a ! i = b ! i" for i using arg_cong [OF t, of "\<lambda>l. l ! i"] by simp
  then show ?thesis by (simp add: IsAACPattern_def)
qed

lemma length_prefix: "take 6 a = take 6 b \<Longrightarrow> 6 \<le> length a \<Longrightarrow> 6 \<le> length b \<Longrightarrow> GetFrameLength a = GetFrameLength b"
proof -
  assume t: "take 6 a = take 6 b"
  have "i < 6 \<Longrightarrow> a ! i = b ! i" for i using arg_cong [OF t, of "\<lambda>l. l ! i"] by simp
  then show ?thesis by (simp add: GetFrameLength_def)
qed

lemma u32_sub:
  fixes a r :: nat
  assumes "r \<le> a" "a < 2 ^ 32"
  shows "(a + 2 ^ 32 - r) mod 2 ^ 32 = a - r"
proof -
  have "a + 2 ^ 32 - r = a - r + 2 ^ 32" using assms(1) by linarith
  then show ?thesis using assms(2) by (simp only: mod_add_self2) simp
qed

section \<open>Refilling the input buffer\<close>

text \<open>Between reads: the input buffer holds the next bytes of the file from position \<open>c\<close> on.\<close>

definition aac_at :: "8 word list \<Rightarrow> nat \<Rightarrow> aac \<Rightarrow> bool" where
  "aac_at file c d =
     (\<exists>buf. aa_inIoBuffer d = Some buf \<and> length buf = 2048 \<and> aa_hasSource d \<and> aa_isSeekable d \<and> aa_fileSize d = length file \<and>
        aa_offset d = c + aa_ioDataRemainSize d \<and> c + aa_ioDataRemainSize d \<le> length file \<and>
        aa_usedDataSize d + aa_ioDataRemainSize d \<le> 2048 \<and>
        take (aa_ioDataRemainSize d) (drop (aa_usedDataSize d) buf) = take (aa_ioDataRemainSize d) (drop c file))"

text \<open>After a refill the bytes are at the start of the buffer, as many as fit or are left.\<close>

definition aac_filled :: "8 word list \<Rightarrow> nat \<Rightarrow> aac \<Rightarrow> bool" where
  "aac_filled file c d =
     (\<exists>buf. aa_inIoBuffer d = Some buf \<and> length buf = 2048 \<and> aa_hasSource d \<and> aa_isSeekable d \<and> aa_fileSize d = length file \<and>
        aa_ioDataRemainSize d = min 2048 (length file - c) \<and> aa_offset d = c + aa_ioDataRemainSize d \<and> c \<le> length file \<and>
        take (aa_ioDataRemainSize d) buf = take (aa_ioDataRemainSize d) (drop c file))"

lemma read_loop_file:
  assumes "file_source ReadAt file" "aa_isSeekable d" "0 < n" "aa_offset d + n \<le> length file"
  shows "read_loop ReadAt 200 n buf d src =
    (OK, d\<lparr>aa_inIoBuffer := Some (overwrite (aa_ioDataRemainSize d) (take n (drop (aa_offset d) file)) buf),
           aa_offset := aa_offset d + n, aa_ioDataRemainSize := aa_ioDataRemainSize d + n\<rparr>, src)"
proof -
  have r: "ReadAt (aa_offset d) n src = ((OK, take n (drop (aa_offset d) file)), src)"
    using assms(1,4) by (simp add: file_source_def)
  have "(200 :: nat) = Suc 199" by simp
  then show ?thesis using assms(2-4) r by (subst read_loop.simps) (auto simp: min_def)
qed

lemma DoReadFromSource_file:
  assumes "file_source ReadAt file" "aa_isSeekable d" "aa_hasSource d" "aa_inIoBuffer d = Some buf" "aa_offset d + n \<le> length file"
    "length buf = 2048" "aa_ioDataRemainSize d + n \<le> 2048"
  shows "\<exists>buf'. DoReadFromSource ReadAt n d src =
      Some (OK, d\<lparr>aa_inIoBuffer := Some buf', aa_offset := aa_offset d + n, aa_ioDataRemainSize := aa_ioDataRemainSize d + n\<rparr>, src) \<and>
    length buf' = 2048 \<and>
    take (aa_ioDataRemainSize d + n) buf' = take (aa_ioDataRemainSize d) buf @ take n (drop (aa_offset d) file)"
proof (cases "n = 0")
  case True
  with assms show ?thesis by (intro exI [of _ buf]) (simp add: DoReadFromSource_def)
next
  case False
  define data where "data = take n (drop (aa_offset d) file)"
  have "length data = n" using assms(5) by (simp add: data_def)
  then have "length (overwrite (aa_ioDataRemainSize d) data buf) = 2048 \<and>
      take (aa_ioDataRemainSize d + n) (overwrite (aa_ioDataRemainSize d) data buf) = take (aa_ioDataRemainSize d) buf @ data"
    using assms(6,7) by (auto simp: overwrite_def)
  moreover have "DoReadFromSource ReadAt n d src =
      Some (OK, d\<lparr>aa_inIoBuffer := Some (overwrite (aa_ioDataRemainSize d) data buf), aa_offset := aa_offset d + n,
        aa_ioDataRemainSize := aa_ioDataRemainSize d + n\<rparr>, src)"
    using False assms by (simp add: DoReadFromSource_def read_loop_file data_def)
  ultimately show ?thesis unfolding data_def by blast
qed

lemma GetDataFromSource_file:
  assumes "file_source ReadAt file" "aac_at file c d" "c < length file" "m0 \<or> aa_ioDataRemainSize d < 2048"
  shows "\<exists>d'. GetDataFromSource m0 ReadAt d src = Some (OK, d', src) \<and> aac_filled file c d' \<and> aa_rst d' = aa_rst d \<and>
    aa_usedDataSize d' = aa_usedDataSize d"
proof -
  obtain buf where b: "aa_inIoBuffer d = Some buf" "length buf = 2048" "aa_hasSource d" "aa_isSeekable d" "aa_fileSize d = length file"
    "aa_offset d = c + aa_ioDataRemainSize d" "c + aa_ioDataRemainSize d \<le> length file" "aa_usedDataSize d + aa_ioDataRemainSize d \<le> 2048"
    "take (aa_ioDataRemainSize d) (drop (aa_usedDataSize d) buf) = take (aa_ioDataRemainSize d) (drop c file)"
    using assms(2) by (auto simp: aac_at_def)
  let ?r = "aa_ioDataRemainSize d"
  have need: "(MEDIA_IO_SIZE + 2 ^ 32 - ?r) mod 2 ^ 32 = 2048 - ?r" using b(8) u32_sub [of ?r MEDIA_IO_SIZE] by (simp add: MEDIA_IO_SIZE_def)
  define b1 where "b1 = (if ?r \<noteq> 0 then overwrite ?r (replicate (2048 - ?r) 0) (overwrite 0 (take ?r (drop c file)) buf) else buf)"
  define d1 where "d1 = d\<lparr>aa_inIoBuffer := Some b1\<rparr>"
  define n where "n = min (2048 - ?r) (length file - (c + ?r))"
  have l: "length b1 = 2048" "take ?r b1 = take ?r (drop c file)"
    using b(2,7,8) by (auto simp: b1_def overwrite_def min_def)
  have e: "GetDataFromSource m0 ReadAt d src = DoReadFromSource ReadAt n d1 src"
  proof -
    have same: "d\<lparr>aa_inIoBuffer := Some buf\<rparr> = d" using b(1) by (cases d) simp
    show ?thesis
      using b assms(3,4) unfolding GetDataFromSource_def need Let_def
      by (cases "?r = 0") (auto simp: same d1_def b1_def n_def MEDIA_IO_SIZE_def min_def)
  qed
  obtain b2 where b2: "DoReadFromSource ReadAt n d1 src =
      Some (OK, d1\<lparr>aa_inIoBuffer := Some b2, aa_offset := aa_offset d1 + n, aa_ioDataRemainSize := aa_ioDataRemainSize d1 + n\<rparr>, src)"
    "length b2 = 2048" "take (?r + n) b2 = take ?r b1 @ take n (drop (c + ?r) file)"
  proof -
    have "aa_offset d1 = c + ?r" "aa_ioDataRemainSize d1 = ?r" "aa_inIoBuffer d1 = Some b1" "aa_isSeekable d1" "aa_hasSource d1"
      using b by (simp_all add: d1_def)
    moreover have "c + ?r + n \<le> length file" "?r + n \<le> 2048" using b(7,8) by (auto simp: n_def)
    ultimately show ?thesis using DoReadFromSource_file [OF assms(1), of d1 b1 n src] l that by auto
  qed
  have "take (?r + n) b2 = take (?r + n) (drop c file)"
    unfolding b2(3) l(2) by (simp only: take_add drop_drop add.commute [of c ?r])
  then have "aac_filled file c (d1\<lparr>aa_inIoBuffer := Some b2, aa_offset := aa_offset d1 + n, aa_ioDataRemainSize := aa_ioDataRemainSize d1 + n\<rparr>)"
    using b b2(2) by (auto simp: aac_filled_def d1_def n_def min_def)
  then show ?thesis unfolding e b2(1) by (simp add: d1_def)
qed

section \<open>Reading frames\<close>

lemma Process_frame:
  assumes "length buf = 2048" "take n buf = take n (f @ rest)" "adts_frame f" "n \<le> length (f @ rest)" "n \<le> 2048"
    and "rest \<noteq> [] \<Longrightarrow> length f + 2 \<le> n \<and> 2 \<le> length rest \<and> IsAACPattern rest" "rest = [] \<Longrightarrow> n = length f"
  shows "AudioDemuxerAACProcess True (Some buf) n rst =
    (0, rst\<lparr>t_frameLength := (if rest = [] then 0 else length f), t_frameBuffer := (if rest = [] then None else Some f),
            t_usedInputLength := length f\<rparr>)"
proof -
  have f: "7 \<le> length f" "IsAACPattern f" "GetFrameLength f = length f" using assms(3) by (auto simp: adts_frame_def)
  have n: "length f \<le> n" using assms(6,7) by (cases "rest = []") auto
  have pre: "take k buf = take k (f @ rest)" if "k \<le> n" for k
    using arg_cong [OF assms(2), of "take k"] that unfolding take_take by (simp only: min_absorb1)
  have "take 2 buf = take 2 f" "take 6 buf = take 6 f" "take (length f) buf = f" using pre [of 2] pre [of 6] pre [of "length f"] f n by auto
  then have h: "IsAACPattern buf" "GetFrameLength buf = length f" "take (length f) buf = f"
    using pattern_prefix [of buf f] length_prefix [of buf f] f assms(1) by auto
  show ?thesis
  proof (cases "rest = []")
    case True
    with h assms(7) show ?thesis by (simp add: AudioDemuxerAACProcess_def Let_def)
  next
    case False
    have "take 2 (drop (length f) buf) = take 2 rest"
      using arg_cong [OF pre [of "length f + 2"], of "drop (length f)"] assms(6) [OF False] by (simp add: drop_take)
    then have "IsAACPattern (drop (length f) buf)"
      using pattern_prefix [of "drop (length f) buf" rest] assms(1,5) assms(6) [OF False] by auto
    moreover have "f \<noteq> []" using f(1) by auto
    ultimately show ?thesis using False h assms(6) [OF False] by (simp add: AudioDemuxerAACProcess_def Let_def)
  qed
qed

lemma ReadFrame_file:
  assumes src: "file_source ReadAt file" and at: "aac_at file c d" and parts: "drop c file = f @ rest" and f: "adts_frame f"
    and rest: "rest \<noteq> [] \<Longrightarrow> 2 \<le> length rest \<and> IsAACPattern rest" and m0: "m0 \<or> aa_ioDataRemainSize d < 2048"
  shows "\<exists>d'. Aac_ReadFrame m0 True ReadAt d src = Some ((OK, if rest = [] then [] else f), d', src) \<and> aac_at file (c + length f) d' \<and>
    aa_ioDataRemainSize d' < 2048"
proof -
  have len: "length file - c = length (f @ rest)" using arg_cong [OF parts, of length] by simp
  have fl: "7 \<le> length f" "length f \<le> 2046" using f by (auto simp: adts_frame_def)
  have c: "c < length file" using len fl by simp
  obtain d1 where g: "GetDataFromSource m0 ReadAt d src = Some (OK, d1, src)" and fill: "aac_filled file c d1"
    using GetDataFromSource_file [OF src at c m0] by blast
  obtain buf where b: "aa_inIoBuffer d1 = Some buf" "length buf = 2048" "aa_hasSource d1" "aa_isSeekable d1" "aa_fileSize d1 = length file"
    "aa_ioDataRemainSize d1 = min 2048 (length (f @ rest))" "aa_offset d1 = c + aa_ioDataRemainSize d1"
    "take (aa_ioDataRemainSize d1) buf = take (aa_ioDataRemainSize d1) (f @ rest)"
    using fill len unfolding aac_filled_def parts by auto
  let ?n = "aa_ioDataRemainSize d1"
  have p: "AudioDemuxerAACProcess True (Some buf) ?n (aa_rst d1) =
      (0, (aa_rst d1)\<lparr>t_frameLength := (if rest = [] then 0 else length f), t_frameBuffer := (if rest = [] then None else Some f),
            t_usedInputLength := length f\<rparr>)"
    using b(6) rest fl by (intro Process_frame [OF b(2,8) f]) auto
  have r: "(?n + 2 ^ 32 - length f) mod 2 ^ 32 = ?n - length f" using fl b(6) by (intro u32_sub) auto
  have n: "length f \<le> ?n" "?n \<le> 2048" "c + ?n \<le> length file" using b(6) fl len c by auto
  have lt: "?n - length f < 2048" using n(2) fl(1) by linarith
  have m: "take (?n - length f) (drop (length f) buf) = take (?n - length f) (drop (c + length f) file)"
  proof -
    have "drop (length f) (drop c file) = rest" unfolding parts by simp
    then have "drop (c + length f) file = rest" by (simp add: add.commute)
    then show ?thesis using arg_cong [OF b(8), of "drop (length f)"] n(1) by (simp add: drop_take)
  qed
  show ?thesis
    unfolding Aac_ReadFrame_def g using p b m n r lt by (auto simp: aac_at_def)
qed

lemma ReadFrame_end:
  assumes "file_source ReadAt file" "aac_at file (length file) d"
  shows "\<exists>d'. Aac_ReadFrame m0 True ReadAt d src = Some ((END_OF_STREAM, []), d', src)"
proof -
  have "aa_ioDataRemainSize d = 0" "aa_isSeekable d" "aa_offset d = aa_fileSize d" using assms(2) by (auto simp: aac_at_def)
  then show ?thesis by (simp add: Aac_ReadFrame_def GetDataFromSource_def)
qed

fun read_frames :: "bool \<Rightarrow> nat \<Rightarrow> 's read_at \<Rightarrow> aac \<Rightarrow> 's \<Rightarrow> (Status \<times> 8 word list) list option" where
  "read_frames m0 0 ReadAt d src = Some []"
| "read_frames m0 (Suc n) ReadAt d src =
     do { (r, d1, src1) \<leftarrow> Aac_ReadFrame m0 True ReadAt d src; rs \<leftarrow> read_frames m0 n ReadAt d1 src1; Some (r # rs) }"

lemma adts_concat: "fs \<noteq> [] \<Longrightarrow> \<forall>f \<in> set fs. adts_frame f \<Longrightarrow> 2 \<le> length (concat fs) \<and> IsAACPattern (concat fs)"
proof (cases fs)
  case (Cons f fs')
  assume "\<forall>f \<in> set fs. adts_frame f"
  then have f: "7 \<le> length f" "IsAACPattern f" using Cons by (auto simp: adts_frame_def)
  then show ?thesis using pattern_prefix [of "concat fs" f] Cons by auto
qed simp

lemma read_frames_from:
  assumes "file_source ReadAt file"
  shows "fs \<noteq> [] \<Longrightarrow> \<forall>f \<in> set fs. adts_frame f \<Longrightarrow> aac_at file c d \<Longrightarrow> drop c file = concat fs \<Longrightarrow>
    m0 \<or> aa_ioDataRemainSize d < 2048 \<Longrightarrow> read_frames m0 (length fs + 1) ReadAt d src = Some (map (\<lambda>f. (OK, f)) (butlast fs) @ [(OK, []), (END_OF_STREAM, [])])"
proof (induction fs arbitrary: c d)
  case (Cons f fs)
  have r: "concat fs \<noteq> [] \<Longrightarrow> 2 \<le> length (concat fs) \<and> IsAACPattern (concat fs)" using adts_concat [of fs] Cons.prems(2) by (cases fs) auto
  have e: "concat fs = [] \<longleftrightarrow> fs = []" using Cons.prems(2) by (cases fs) (auto simp: adts_frame_def)
  obtain d' where d': "Aac_ReadFrame m0 True ReadAt d src = Some ((OK, if fs = [] then [] else f), d', src)" "aac_at file (c + length f) d'"
    "aa_ioDataRemainSize d' < 2048"
    using ReadFrame_file [OF assms Cons.prems(3) _ _ r Cons.prems(5), of f src] Cons.prems(2,4) unfolding e by auto
  have dr: "drop (c + length f) file = concat fs" using Cons.prems(4) by (simp flip: drop_drop add: add.commute [of c])
  show ?case
  proof (cases "fs = []")
    case True
    have "c + length f = length file"
      using arg_cong [OF Cons.prems(4), of length] True Cons.prems(2) by (auto simp: adts_frame_def)
    then have "aac_at file (length file) d'" using d'(2) by simp
    from ReadFrame_end [OF assms this, of m0 src] obtain d2 where "Aac_ReadFrame m0 True ReadAt d' src = Some ((END_OF_STREAM, []), d2, src)" ..
    with True d'(1) show ?thesis by simp
  next
    case False
    then have "read_frames m0 (length fs + 1) ReadAt d' src = Some (map (\<lambda>f. (OK, f)) (butlast fs) @ [(OK, []), (END_OF_STREAM, [])])"
      using Cons.IH [OF False _ d'(2) dr] Cons.prems(2) d'(3) by simp
    with False d'(1) show ?thesis by (simp del: read_frames.simps add: read_frames.simps(2) [of m0 "Suc (length fs)"])
  qed
qed simp

lemma aac_start:
  assumes "d = snd (Aac_SetDataSource True (length file) (snd (Aac_Init True (AACDemuxerPlugin 0))))" "file \<noteq> []"
  shows "aac_at file 0 d" "aa_usedDataSize d = 0" "aa_ioDataRemainSize d = 0"
  using assms by (simp_all add: aac_at_def Aac_SetDataSource_def Aac_Init_def AACDemuxerPlugin_def MEDIA_IO_SIZE_def)

section \<open>The media information\<close>

lemma Prepare_prefix:
  assumes "take 4 a = take 4 b" "4 \<le> length a" "4 \<le> length b"
  shows "AudioDemuxerAACPrepare a rst = AudioDemuxerAACPrepare b rst"
proof -
  have "i < 4 \<Longrightarrow> a ! i = b ! i" for i using arg_cong [OF assms(1), of "\<lambda>l. l ! i"] by simp
  then have "a ! 0 = b ! 0" "a ! 1 = b ! 1" "a ! 2 = b ! 2" "a ! 3 = b ! 3" by simp_all
  then show ?thesis by (simp only: AudioDemuxerAACPrepare_def IsAACPattern_def)
qed

text \<open>Reading the media information fills the input buffer and takes nothing from it.\<close>

lemma GetMediaInfo_file:
  assumes "file_source ReadAt file" "aac_at file 0 d" "aa_usedDataSize d = 0" "aa_ioDataRemainSize d = 0" "4 \<le> length file"
    and "AudioDemuxerAACPrepare file (aa_rst d) = (0, rst)"
  shows "\<exists>d1. Aac_GetMediaInfo m0 ReadAt d src =
      Some (OK, Some \<lparr>k_mono = (t_frameChannels rst = 1), k_sampleRate = t_frameSampleRate rst, k_bitrate = t_frameBitrateKbps rst,
                     k_channels = t_frameChannels rst, k_mpegVersion = t_mpegVersion rst\<rparr>, d1, src) \<and>
    aac_at file 0 d1 \<and> aa_usedDataSize d1 = 0 \<and> aa_ioDataRemainSize d1 = min 2048 (length file)"
proof -
  have "0 < length file" "m0 \<or> aa_ioDataRemainSize d < 2048" using assms(4,5) by auto
  then obtain d1 where d1: "GetDataFromSource m0 ReadAt d src = Some (OK, d1, src)" "aac_filled file 0 d1" "aa_rst d1 = aa_rst d"
    "aa_usedDataSize d1 = 0"
    using GetDataFromSource_file [OF assms(1,2), of m0 src] assms(3) by auto
  then obtain buf where buf: "aa_inIoBuffer d1 = Some buf" "length buf = 2048" "aa_ioDataRemainSize d1 = min 2048 (length file)"
    "take (min 2048 (length file)) buf = take (min 2048 (length file)) file"
    by (auto simp: aac_filled_def)
  have "take 4 buf = take 4 file" using arg_cong [OF buf(4), of "take 4"] assms(5) by (simp add: min_def split: if_splits)
  then have "AudioDemuxerAACPrepare buf (aa_rst d1) = (0, rst)" using Prepare_prefix [where a = buf and b = "file"] buf(2) assms(5,6) d1(3) by simp
  moreover have "aac_at file 0 (d1\<lparr>aa_rst := rst\<rparr>)" using d1(2,4) by (auto simp: aac_filled_def aac_at_def)
  ultimately show ?thesis using d1 buf by (simp add: Aac_GetMediaInfo_def)
qed

text \<open>With a full input buffer and a \<^verbatim>\<open>memset_s\<close> that refuses an empty range, no frame is ever read.\<close>

lemma ReadFrame_full:
  assumes "aac_at file c d" "aa_usedDataSize d = 0" "aa_ioDataRemainSize d = 2048"
  shows "Aac_ReadFrame False True ReadAt d src = Some ((ERROR_UNKNOWN, []), d, src)"
proof -
  obtain buf where buf: "aa_inIoBuffer d = Some buf" "length buf = 2048" using assms(1) by (auto simp: aac_at_def)
  then have "overwrite 0 (take 2048 buf) buf = buf" "d\<lparr>aa_inIoBuffer := Some buf\<rparr> = d" by (simp_all add: overwrite_def)
  with buf assms(2,3) show ?thesis by (simp add: Aac_ReadFrame_def GetDataFromSource_def MEDIA_IO_SIZE_def Let_def)
qed

lemma read_frames_full:
  "aac_at file c d \<Longrightarrow> aa_usedDataSize d = 0 \<Longrightarrow> aa_ioDataRemainSize d = 2048 \<Longrightarrow>
     read_frames False n ReadAt d src = Some (replicate n (ERROR_UNKNOWN, []))"
  by (induction n) (simp_all add: ReadFrame_full)

section \<open>Properties\<close>

text \<open>C24: A file that consists of ADTS frames of up to 2046 bytes each, over a data source that reads the file, is opened by a fresh plugin
  (initialised, with nothing left in the global count of consumed bytes) and asked for its media information, as the demuxer filter does:
  this gives the values of the first header, which must be one the plugin accepts. The calls of \<^verbatim>\<open>ReadFrame\<close> that follow return the
  frames one after the other, each byte for byte, across all refills of the input buffer; the last frame is read and thrown away,
  because nothing follows it, and then the end of the stream is reported. That is so when \<^verbatim>\<open>memset_s\<close> accepts an empty range
  (\<open>m0\<close>) or the file is shorter than the input buffer. Otherwise the media information has filled the buffer, the request to clear the
  empty rest of it fails, and every call reports an error.\<close>

theorem aac_demux_frames:
  assumes "frames \<noteq> []" "\<forall>f \<in> set frames. adts_frame f" "file_source ReadAt (concat frames)"
    and "d = snd (Aac_SetDataSource True (length (concat frames)) (snd (Aac_Init True (AACDemuxerPlugin 0))))"
    and "AudioDemuxerAACPrepare (hd frames) (aa_rst d) = (0, rst)"
  shows "\<exists>d1. Aac_GetMediaInfo m0 ReadAt d src =
      Some (OK, Some \<lparr>k_mono = (t_frameChannels rst = 1), k_sampleRate = t_frameSampleRate rst, k_bitrate = t_frameBitrateKbps rst,
                     k_channels = t_frameChannels rst, k_mpegVersion = t_mpegVersion rst\<rparr>, d1, src) \<and>
    read_frames m0 (length frames + 1) ReadAt d1 src =
      (if m0 \<or> length (concat frames) < 2048 then Some (map (\<lambda>f. (OK, f)) (butlast frames) @ [(OK, []), (END_OF_STREAM, [])])
       else Some (replicate (length frames + 1) (ERROR_UNKNOWN, [])))"
proof -
  let ?file = "concat frames"
  obtain f fs where fs: "frames = f # fs" using assms(1) by (cases frames) auto
  then have f: "7 \<le> length f" using assms(2) by (simp add: adts_frame_def)
  then have n: "4 \<le> length ?file" "?file \<noteq> []" using fs by auto
  have "AudioDemuxerAACPrepare ?file (aa_rst d) = (0, rst)" using Prepare_prefix [where a = ?file and b = f] f fs assms(5) by simp
  from GetMediaInfo_file [OF assms(3) aac_start [OF assms(4) n(2)] n(1) this, of m0 src]
  obtain d1 where d1: "Aac_GetMediaInfo m0 ReadAt d src =
      Some (OK, Some \<lparr>k_mono = (t_frameChannels rst = 1), k_sampleRate = t_frameSampleRate rst, k_bitrate = t_frameBitrateKbps rst,
                     k_channels = t_frameChannels rst, k_mpegVersion = t_mpegVersion rst\<rparr>, d1, src)"
    "aac_at ?file 0 d1" "aa_usedDataSize d1 = 0" "aa_ioDataRemainSize d1 = min 2048 (length ?file)" by blast
  show ?thesis
  proof (cases "m0 \<or> length ?file < 2048")
    case True
    then have "m0 \<or> aa_ioDataRemainSize d1 < 2048" using d1(4) by auto
    with True d1(1) read_frames_from [OF assms(3,1,2) d1(2)] show ?thesis by auto
  next
    case False
    with d1(1,4) read_frames_full [OF d1(2,3), of "length frames + 1" ReadAt src] show ?thesis by (auto simp: min_def)
  qed
qed

definition example_frame :: "8 word list" where
  "example_frame = [0xFF, 0xF1, 0x50, 0x80, 0x00, 0xE0, 0xFC]"

definition list_source :: "8 word list \<Rightarrow> unit read_at" where
  "list_source file offset n src = ((OK, take n (drop offset file)), src)"

theorem aac_demux_frames_witness:
  "\<exists>t d1. Aac_GetMediaInfo False (list_source (example_frame @ example_frame))
      (snd (Aac_SetDataSource True 14 (snd (Aac_Init True (AACDemuxerPlugin 0))))) () = Some (OK, Some t, d1, ()) \<and>
    k_sampleRate t = 44100 \<and>
    read_frames False 3 (list_source (example_frame @ example_frame)) d1 () = Some [(OK, example_frame), (OK, []), (END_OF_STREAM, [])]"
proof -
  let ?S = "list_source (example_frame @ example_frame)"
  let ?d = "snd (Aac_SetDataSource True 14 (snd (Aac_Init True (AACDemuxerPlugin 0))))"
  have "adts_frame example_frame" unfolding adts_frame_def by code_simp
  then have frames: "[example_frame, example_frame] \<noteq> []" "\<forall>f \<in> set [example_frame, example_frame]. adts_frame f" by simp_all
  have len: "length (concat [example_frame, example_frame]) = 14" by (simp add: example_frame_def)
  have S: "file_source ?S (concat [example_frame, example_frame])" by (simp add: file_source_def list_source_def)
  have "AudioDemuxerAACPrepare example_frame (aa_rst (AACDemuxerPlugin 0)) =
      (0, (aa_rst (AACDemuxerPlugin 0))\<lparr>t_frameChannels := 2, t_frameSampleRate := 44100, t_mpegVersion := 4\<rparr>)"
    by (simp add: AudioDemuxerAACPrepare_def IsAACPattern_def example_frame_def samplingRateMap_def)
  moreover have "aa_rst ?d = aa_rst (AACDemuxerPlugin 0)" by (simp add: Aac_SetDataSource_def Aac_Init_def)
  ultimately obtain rst where rst: "AudioDemuxerAACPrepare (hd [example_frame, example_frame]) (aa_rst ?d) = (0, rst)"
    "t_frameSampleRate rst = 44100" by simp
  have d: "?d = snd (Aac_SetDataSource True (length (concat [example_frame, example_frame])) (snd (Aac_Init True (AACDemuxerPlugin 0))))"
    unfolding len ..
  have small: "(False \<or> length (concat [example_frame, example_frame]) < 2048) = True" unfolding len by simp
  have three: "length [example_frame, example_frame] + 1 = 3" by simp
  have frs: "map (\<lambda>f. (OK, f)) (butlast [example_frame, example_frame]) = [(OK, example_frame)]" by simp
  from aac_demux_frames [OF frames S d rst(1), of False "()"] rst(2) show ?thesis
    unfolding small three frs if_True append_Cons append_Nil by (metis aac_track.select_convs(2))
qed

text \<open>The number of bytes consumed is a global variable. With a value left behind by another file, the first \<^verbatim>\<open>ReadFrame\<close> after
  \<^verbatim>\<open>GetMediaInfo\<close> has filled the buffer reads past its end.\<close>

lemma stale_usedDataSize:
  assumes "aa_ioDataRemainSize d = 2048" "0 < aa_usedDataSize d"
  shows "Aac_ReadFrame memset0 mallocOk ReadAt d src = None"
  using assms by (auto simp: Aac_ReadFrame_def GetDataFromSource_def MEDIA_IO_SIZE_def Let_def split: option.splits)

end
