(* ===== verification/Task_Scheduler.thy ===== *)
theory Task_Scheduler
  imports Prelude "HOL-Library.Multiset"
begin

text \<open>
  The tasks that run the jobs of filters and their threads: \<^verbatim>\<open>TaskInner\<close> and \<^verbatim>\<open>PipeLineThread\<close> of
  \<^verbatim>\<open>src/osal/task/pthread/taskInner.cpp\<close> and \<^verbatim>\<open>pipeline_threadpool.cpp\<close>. A task has two queues of jobs keyed by the time, in
  microseconds, at which they are due: jobs, which run while the task is started, and messages. Jobs are values of a type
  \<open>'j\<close>; what they do to tasks while they run are further steps of the transition system. The steady clock's reading is the
  argument \<open>now\<close>, and \<open>inSelf\<close> says whether the caller is a job on the task's own thread. An operation also returns whether it wakes
  the thread.
\<close>

section \<open>Tasks\<close>

datatype RunningState = STARTED | PAUSING | PAUSED | STOPPING | STOPPED

record 'j task =
  tk_runningState :: RunningState
  tk_job :: "'j option"
  tk_singleLoop :: bool
  tk_topProcessUs :: int
  tk_topIsJob :: bool
  tk_msgQueue :: "(int, 'j) smap"
  tk_jobQueue :: "(int, 'j) smap"

definition TaskInner :: "bool \<Rightarrow> 'j task" where
  "TaskInner singleLoop =
     \<lparr>tk_runningState = PAUSED, tk_job = None, tk_singleLoop = singleLoop, tk_topProcessUs = -1, tk_topIsJob = False,
      tk_msgQueue = [], tk_jobQueue = []\<rparr>"

definition UpdateTop :: "int \<Rightarrow> 'j task \<Rightarrow> 'j task" where
  "UpdateTop now t =
     (case (tk_msgQueue t, if tk_runningState t \<noteq> STARTED then [] else tk_jobQueue t) of
        ([], []) \<Rightarrow> t\<lparr>tk_topProcessUs := -1\<rparr>
      | ([], (jobTime, _) # _) \<Rightarrow> t\<lparr>tk_topProcessUs := jobTime, tk_topIsJob := True\<rparr>
      | ((msgTime, _) # _, []) \<Rightarrow> t\<lparr>tk_topProcessUs := msgTime, tk_topIsJob := False\<rparr>
      | ((msgTime, _) # _, (jobTime, _) # _) \<Rightarrow>
          if msgTime \<le> now \<or> msgTime \<le> jobTime then t\<lparr>tk_topProcessUs := msgTime, tk_topIsJob := False\<rparr>
          else t\<lparr>tk_topProcessUs := jobTime, tk_topIsJob := True\<rparr>)"

definition Task_UpdateDelayTime :: "int \<Rightarrow> int \<Rightarrow> 'j task \<Rightarrow> bool \<times> 'j task" where
  "Task_UpdateDelayTime now delayUs t =
     (if \<not> tk_singleLoop t then (False, t)
      else if tk_runningState t \<noteq> STARTED then (False, t)
      else (True, t\<lparr>tk_topProcessUs := now + delayUs\<rparr>))"

definition Task_Start :: "int \<Rightarrow> 'j task \<Rightarrow> bool \<times> 'j task" where
  "Task_Start now t =
     (let t1 = t\<lparr>tk_runningState := STARTED\<rparr>
      in (True, if tk_singleLoop t1 then t1\<lparr>tk_topProcessUs := now\<rparr> else UpdateTop now t1))"

definition Task_Stop :: "bool \<Rightarrow> 'j task \<Rightarrow> bool \<times> 'j task" where
  "Task_Stop inSelf t =
     (if inSelf then (False, t\<lparr>tk_runningState := STOPPED, tk_topProcessUs := -1\<rparr>)
      else if tk_runningState t = STOPPED then (False, t)
      else (True, t\<lparr>tk_runningState := STOPPED, tk_topProcessUs := -1\<rparr>))"

definition Task_StopAsync :: "bool \<Rightarrow> 'j task \<Rightarrow> bool \<times> 'j task" where
  "Task_StopAsync inSelf t =
     (if inSelf then (False, t\<lparr>tk_runningState := STOPPED, tk_topProcessUs := -1\<rparr>)
      else if tk_runningState t \<noteq> STOPPED then (True, t\<lparr>tk_runningState := STOPPED, tk_topProcessUs := -1\<rparr>)
      else (False, t))"

definition Task_Pause :: "bool \<Rightarrow> 'j task \<Rightarrow> bool \<times> 'j task" where
  "Task_Pause inSelf t =
     (if inSelf then
        (if tk_runningState t = STARTED then (False, t\<lparr>tk_runningState := PAUSED, tk_topProcessUs := -1\<rparr>) else (False, t))
      else if tk_runningState t \<noteq> STARTED then (False, t)
      else (True, t\<lparr>tk_runningState := PAUSED, tk_topProcessUs := -1\<rparr>))"

definition Task_PauseAsync :: "bool \<Rightarrow> 'j task \<Rightarrow> bool \<times> 'j task" where
  "Task_PauseAsync inSelf t =
     (if inSelf then
        (if tk_runningState t = STARTED then (False, t\<lparr>tk_runningState := PAUSED, tk_topProcessUs := -1\<rparr>) else (False, t))
      else if tk_runningState t = STARTED then (True, t\<lparr>tk_runningState := PAUSED, tk_topProcessUs := -1\<rparr>)
      else (False, t))"

definition Task_RegisterJob :: "'j \<Rightarrow> 'j task \<Rightarrow> 'j task" where
  "Task_RegisterJob j t = t\<lparr>tk_job := Some j\<rparr>"

definition Task_DeInit :: "'j task \<Rightarrow> 'j task" where
  "Task_DeInit t = t\<lparr>tk_runningState := STOPPED, tk_topProcessUs := -1\<rparr>"

text \<open>The first time from \<open>time\<close> on that is not yet a key.\<close>

function free_time :: "int \<Rightarrow> (int, 'j) smap \<Rightarrow> int" where
  "free_time time q = (if map_of q time \<noteq> None then free_time (time + 1) q else time)"
  by auto
termination
proof (relation "measure (\<lambda>(time, q). card {k \<in> fst ` set q. time \<le> k})")
  fix time :: int and q :: "(int \<times> 'j) list"
  assume "map_of q time \<noteq> None"
  then have "time \<in> fst ` set q" by (simp add: map_of_eq_None_iff)
  then have "time \<in> {k \<in> fst ` set q. time \<le> k}" "time \<notin> {k \<in> fst ` set q. time + 1 \<le> k}"
    "{k \<in> fst ` set q. time + 1 \<le> k} \<subseteq> {k \<in> fst ` set q. time \<le> k}" by auto
  then have "{k \<in> fst ` set q. time + 1 \<le> k} \<subset> {k \<in> fst ` set q. time \<le> k}" by blast
  then show "((time + 1, q), (time, q)) \<in> measure (\<lambda>(time, q). card {k \<in> fst ` set q. time \<le> k})"
    by (auto intro!: psubset_card_mono)
qed simp

declare free_time.simps [simp del]

definition InsertJob :: "int \<Rightarrow> 'j \<Rightarrow> int \<Rightarrow> bool \<Rightarrow> 'j task \<Rightarrow> int \<times> bool \<times> 'j task" where
  "InsertJob now job delayUs inJobQueue t =
     (let delay = (if delayUs < 0 then 0 else delayUs);
          processTime = free_time (now + delay) (if inJobQueue then tk_jobQueue t else tk_msgQueue t);
          t1 = (if inJobQueue then t\<lparr>tk_jobQueue := smap_put processTime job (tk_jobQueue t)\<rparr>
                else t\<lparr>tk_msgQueue := smap_put processTime job (tk_msgQueue t)\<rparr>);
          t2 = (if processTime \<le> tk_topProcessUs t1 \<or> tk_topProcessUs t1 = -1 then UpdateTop now t1 else t1)
      in (processTime, tk_topProcessUs t1 \<noteq> tk_topProcessUs t2, t2))"

text \<open>\<^verbatim>\<open>SubmitJob\<close> and \<^verbatim>\<open>SubmitJobOnce\<close> insert; with \<^verbatim>\<open>wait\<close> they block while the key they were given is in the queue.\<close>

definition SubmitJobOnce :: "int \<Rightarrow> 'j \<Rightarrow> int \<Rightarrow> 'j task \<Rightarrow> int \<times> bool \<times> 'j task" where
  "SubmitJobOnce now job delayUs t = InsertJob now job delayUs False t"

definition SubmitJob :: "int \<Rightarrow> 'j \<Rightarrow> int \<Rightarrow> 'j task \<Rightarrow> int \<times> bool \<times> 'j task" where
  "SubmitJob now job delayUs t = InsertJob now job delayUs True t"

definition submit_blocked :: "bool \<Rightarrow> int \<Rightarrow> 'j task \<Rightarrow> bool" where
  "submit_blocked inJobQueue time t = (map_of (if inJobQueue then tk_jobQueue t else tk_msgQueue t) time \<noteq> None)"

text \<open>The job it submits changes the priority of the thread. The flag is cleared and restored without a lock: here nothing comes in
  between, in the transition system the two writes and the submission are steps of their own.\<close>

definition Task_UpdateThreadPriority :: "int \<Rightarrow> 'j \<Rightarrow> 'j task \<Rightarrow> bool \<times> 'j task" where
  "Task_UpdateThreadPriority now job t =
     (case SubmitJobOnce now job 0 (t\<lparr>tk_singleLoop := False\<rparr>) of
        (_, notify, t1) \<Rightarrow> (notify, t1\<lparr>tk_singleLoop := tk_singleLoop t\<rparr>))"

definition NextJobUs :: "'j task \<Rightarrow> int" where
  "NextJobUs t = tk_topProcessUs t"

text \<open>\<^verbatim>\<open>HandleJob\<close> up to the call of the job, which runs without the task's lock, and from there on. \<open>Loop\<close> is a round of the
  registered job, if there is one, with the due time it started from; \<open>Once\<close> a job taken from the queue \<open>inJobQueue\<close> with its key.\<close>

datatype 'j action = Undefined | Skip | Loop bool int | Once bool int 'j

text \<open>The flag is read before the task is locked: \<open>singleLoop\<close> is the value that was read.\<close>

definition HandleJob_locked :: "bool \<Rightarrow> 'j task \<Rightarrow> 'j action \<times> 'j task" where
  "HandleJob_locked singleLoop t =
     (if singleLoop then
        (if tk_runningState t = PAUSED \<or> tk_runningState t = STOPPED then (Skip, t\<lparr>tk_topProcessUs := -1\<rparr>)
         else (Loop (tk_job t \<noteq> None) (tk_topProcessUs t), t))
      else if tk_topIsJob t then
        (if tk_runningState t \<noteq> STARTED then (Skip, t)
         else case tk_jobQueue t of [] \<Rightarrow> (Undefined, t) | (k, j) # q \<Rightarrow> (Once True k j, t\<lparr>tk_jobQueue := q\<rparr>))
      else (case tk_msgQueue t of [] \<Rightarrow> (Undefined, t) | (k, j) # q \<Rightarrow> (Once False k j, t\<lparr>tk_msgQueue := q\<rparr>)))"

definition HandleJob_begin :: "'j task \<Rightarrow> 'j action \<times> 'j task" where
  "HandleJob_begin t = HandleJob_locked (tk_singleLoop t) t"

definition INVALID_DELAY_TIME_US :: int where
  "INVALID_DELAY_TIME_US = 10000000"

definition HandleJob_end :: "int \<Rightarrow> int \<Rightarrow> 'j action \<Rightarrow> 'j task \<Rightarrow> 'j task" where
  "HandleJob_end now jobResult a t =
     (case a of
        Loop hasJob currentTopProcessUs \<Rightarrow>
          let nextDelay = (if \<not> hasJob then INVALID_DELAY_TIME_US else jobResult)
          in if tk_topProcessUs t \<noteq> -1 \<and> currentTopProcessUs = tk_topProcessUs t
             then t\<lparr>tk_topProcessUs := now + nextDelay\<rparr> else t
      | Once _ _ _ \<Rightarrow> UpdateTop now t
      | _ \<Rightarrow> t)"

section \<open>Threads\<close>

datatype run_choice = Run_exit | Run_wait | Run_waitFor int | Run_handle nat

definition ADJUST_US :: int where
  "ADJUST_US = 500"

definition US_PER_MS :: int where
  "US_PER_MS = 1000"

datatype 'j phase = Idle | Selected nat | Entered nat bool | Running nat "'j action"

text \<open>A thread with its tasks, where its loop is, and the history: the jobs submitted, with task, queue and key, and the jobs
  started, with the clock time of the start.\<close>

record 'j sched =
  w_task :: "nat \<Rightarrow> 'j task"
  w_taskList :: "nat list"
  w_threadExit :: bool
  w_phase :: "'j phase"
  w_submitted :: "(nat \<times> bool \<times> int \<times> 'j) list"
  w_started :: "(int \<times> nat \<times> bool \<times> int \<times> 'j) list"

fun select_task :: "(nat \<Rightarrow> int) \<Rightarrow> nat list \<Rightarrow> int \<times> nat option \<Rightarrow> int \<times> nat option" where
  "select_task us [] (nextJobUs, nextTask) = (nextJobUs, nextTask)"
| "select_task us (task # ts) (nextJobUs, nextTask) =
     (if us task = -1 then select_task us ts (nextJobUs, nextTask)
      else if us task < nextJobUs then select_task us ts (us task, Some task)
      else select_task us ts (nextJobUs, nextTask))"

text \<open>One round of \<^verbatim>\<open>Run\<close> under the thread's lock.\<close>

definition Run_select :: "int \<Rightarrow> 'j sched \<Rightarrow> run_choice" where
  "Run_select now s =
     (if w_threadExit s then Run_exit
      else case select_task (\<lambda>t. NextJobUs (w_task s t)) (w_taskList s) (2 ^ 63 - 1, None) of
             (_, None) \<Rightarrow> Run_wait
           | (nextJobUs, Some t) \<Rightarrow>
               if nextJobUs > now + ADJUST_US then Run_waitFor (c_div (nextJobUs - now + ADJUST_US) US_PER_MS)
               else Run_handle t)"

definition AddTask :: "nat \<Rightarrow> 'j sched \<Rightarrow> 'j sched" where
  "AddTask t s = s\<lparr>w_taskList := w_taskList s @ [t]\<rparr>"

definition RemoveTask :: "nat \<Rightarrow> 'j sched \<Rightarrow> 'j sched" where
  "RemoveTask t s = s\<lparr>w_taskList := removeAll t (w_taskList s)\<rparr>"

definition Thread_Exit :: "'j sched \<Rightarrow> 'j sched" where
  "Thread_Exit s = s\<lparr>w_threadExit := True\<rparr>"

definition PipeLineThread :: "(nat \<Rightarrow> 'j task) \<Rightarrow> 'j sched" where
  "PipeLineThread tasks =
     \<lparr>w_task = tasks, w_taskList = [], w_threadExit = False, w_phase = Idle, w_submitted = [], w_started = []\<rparr>"

definition upd_task :: "nat \<Rightarrow> 'j task \<Rightarrow> 'j sched \<Rightarrow> 'j sched" where
  "upd_task i t s = s\<lparr>w_task := (w_task s)(i := t)\<rparr>"

section \<open>Thread pool\<close>

datatype TaskType = GLOBAL | VIDEO | AUDIO | DEMUXER | DECODER | SUBTITLE | SINGLETON

text \<open>The threads by group; a thread is its number and its type.\<close>

record thread_pool =
  tp_groups :: "string \<rightharpoonup> (nat \<times> TaskType) list"
  tp_next :: nat
  tp_exited :: "nat list"

definition FindThread :: "string \<Rightarrow> TaskType \<Rightarrow> thread_pool \<Rightarrow> nat \<times> thread_pool" where
  "FindThread groupId taskType p =
     (let threadList = (case tp_groups p groupId of None \<Rightarrow> [] | Some l \<Rightarrow> l)
      in case List.find (\<lambda>th. snd th = taskType) threadList of
           Some th \<Rightarrow> (fst th, p\<lparr>tp_groups := (tp_groups p)(groupId \<mapsto> threadList)\<rparr>)
         | None \<Rightarrow> (tp_next p, p\<lparr>tp_groups := (tp_groups p)(groupId \<mapsto> threadList @ [(tp_next p, taskType)]), tp_next := tp_next p + 1\<rparr>))"

definition DestroyThread :: "string \<Rightarrow> thread_pool \<Rightarrow> thread_pool" where
  "DestroyThread groupId p =
     (case tp_groups p groupId of
        None \<Rightarrow> p
      | Some threadList \<Rightarrow> p\<lparr>tp_groups := (tp_groups p)(groupId := None), tp_exited := tp_exited p @ map fst threadList\<rparr>)"

end
