(* ===== verification/Task_Scheduler_Props.thy ===== *)
theory Task_Scheduler_Props
  imports Task_Scheduler
begin

text \<open>
  The task scheduler as a transition system: operations by any threads and by the running jobs, interleaved with the rounds of
  the task thread. No job is lost or run twice and the queues are never popped empty; jobs submitted in turn run in turn; and the
  cases in which the code does not keep what it means to.
\<close>

section \<open>The transition system\<close>

definition permitted :: "bool \<Rightarrow> nat \<Rightarrow> 'j sched \<Rightarrow> bool" where
  "permitted inSelf i s = (if inSelf then \<exists>i' a. w_phase s = Running i' a
     else (\<forall>b. w_phase s \<noteq> Entered i b) \<and> (\<forall>a. w_phase s \<noteq> Running i a))"

definition start_entry :: "int \<Rightarrow> nat \<Rightarrow> 'j action \<Rightarrow> (int \<times> nat \<times> bool \<times> int \<times> 'j) list" where
  "start_entry now i a = (case a of Once q k j \<Rightarrow> [(now, i, q, k, j)] | _ \<Rightarrow> [])"

text \<open>The synchronous stop and pause and the removal take the mutex that \<^verbatim>\<open>HandleJob\<close> holds, unless they are called by a job on
  the same thread. \<^verbatim>\<open>HandleJob\<close> reads the flag of the single loop, locks the task, runs the job without the lock and ends under it.
  \<^verbatim>\<open>UpdateThreadPriority\<close> writes the flag, submits a message and writes the flag again; the rule allows any writes to it.\<close>

inductive sched_step :: "'j sched \<Rightarrow> 'j sched \<Rightarrow> bool" where
  submit: "InsertJob now j d q (w_task s i) = (k, n, t) \<Longrightarrow>
    sched_step s (upd_task i t (s\<lparr>w_submitted := w_submitted s @ [(i, q, k, j)]\<rparr>))"
| start: "sched_step s (upd_task i (snd (Task_Start now (w_task s i))) s)"
| stop: "permitted inSelf i s \<Longrightarrow> sched_step s (upd_task i (snd (Task_Stop inSelf (w_task s i))) s)"
| stop_async: "sched_step s (upd_task i (snd (Task_StopAsync inSelf (w_task s i))) s)"
| pause: "permitted inSelf i s \<Longrightarrow> sched_step s (upd_task i (snd (Task_Pause inSelf (w_task s i))) s)"
| pause_async: "sched_step s (upd_task i (snd (Task_PauseAsync inSelf (w_task s i))) s)"
| delay: "sched_step s (upd_task i (snd (Task_UpdateDelayTime now d (w_task s i))) s)"
| flag: "sched_step s (upd_task i ((w_task s i)\<lparr>tk_singleLoop := b\<rparr>) s)"
| register: "sched_step s (upd_task i (Task_RegisterJob j (w_task s i)) s)"
| deinit: "permitted inSelf i s \<Longrightarrow> sched_step s (RemoveTask i (upd_task i (Task_DeInit (w_task s i)) s))"
| add: "sched_step s (AddTask i s)"
| exit: "sched_step s (Thread_Exit s)"
| select: "w_phase s = Idle \<Longrightarrow> Run_select now s = Run_handle i \<Longrightarrow> sched_step s (s\<lparr>w_phase := Selected i\<rparr>)"
| enter: "w_phase s = Selected i \<Longrightarrow> sched_step s (s\<lparr>w_phase := Entered i (tk_singleLoop (w_task s i))\<rparr>)"
| handle: "w_phase s = Entered i b \<Longrightarrow> HandleJob_locked b (w_task s i) = (a, t) \<Longrightarrow>
    sched_step s (upd_task i t (s\<lparr>w_phase := Running i a, w_started := w_started s @ start_entry now i a\<rparr>))"
| finish: "w_phase s = Running i a \<Longrightarrow> sched_step s (upd_task i (HandleJob_end now r a (w_task s i)) (s\<lparr>w_phase := Idle\<rparr>))"

text \<open>The executions: all of them (\<open>every\<close>), or those in which no flag changes, that is in which no task that loops over one job is
  given a new priority.\<close>

inductive sched_reach :: "bool \<Rightarrow> 'j sched \<Rightarrow> bool" for every :: bool where
  init: "sched_reach every (PipeLineThread (\<lambda>i. TaskInner (single i)))"
| step: "sched_reach every s \<Longrightarrow> sched_step s s' \<Longrightarrow>
    every \<or> (\<forall>i. tk_singleLoop (w_task s' i) = tk_singleLoop (w_task s i)) \<Longrightarrow> sched_reach every s'"

text \<open>Giving a task a new priority is a run of steps, and one that changes no flag unless the task is a single loop.\<close>

lemma priority_steps:
  assumes "Task_UpdateThreadPriority now j (w_task s i) = (n, t)"
  shows "\<exists>k. sched_step\<^sup>*\<^sup>* s (upd_task i t (s\<lparr>w_submitted := w_submitted s @ [(i, False, k, j)]\<rparr>))"
proof -
  let ?s1 = "upd_task i ((w_task s i)\<lparr>tk_singleLoop := False\<rparr>) s"
  obtain k n' t1 where i: "InsertJob now j 0 False (w_task ?s1 i) = (k, n', t1)" by (metis prod_cases3)
  let ?s2 = "upd_task i t1 (?s1\<lparr>w_submitted := w_submitted ?s1 @ [(i, False, k, j)]\<rparr>)"
  let ?s3 = "upd_task i ((w_task ?s2 i)\<lparr>tk_singleLoop := tk_singleLoop (w_task s i)\<rparr>) ?s2"
  have "t = t1\<lparr>tk_singleLoop := tk_singleLoop (w_task s i)\<rparr>"
    using assms i by (simp add: Task_UpdateThreadPriority_def SubmitJobOnce_def upd_task_def)
  then have "?s3 = upd_task i t (s\<lparr>w_submitted := w_submitted s @ [(i, False, k, j)]\<rparr>)"
    by (simp add: upd_task_def)
  moreover have "sched_step\<^sup>*\<^sup>* s ?s3"
    using sched_step.flag [of s i False] sched_step.submit [OF i] sched_step.flag [of ?s2 i "tk_singleLoop (w_task s i)"]
    by (meson converse_rtranclp_into_rtranclp rtranclp.rtrancl_refl)
  ultimately show ?thesis by auto
qed

lemma priority_flag: "tk_singleLoop (snd (Task_UpdateThreadPriority now j t)) = tk_singleLoop t"
  by (simp add: Task_UpdateThreadPriority_def split: prod.split)

section \<open>What the operations do to a task\<close>

definition top_ok :: "'j task \<Rightarrow> bool" where
  "top_ok t = (tk_singleLoop t \<or> (if tk_topIsJob t then tk_jobQueue t \<noteq> [] else tk_msgQueue t \<noteq> []))"

definition queue :: "bool \<Rightarrow> 'j task \<Rightarrow> (int, 'j) smap" where
  "queue q t = (if q then tk_jobQueue t else tk_msgQueue t)"

text \<open>The queues stay, and the entry at the top is there whenever it counts.\<close>

definition calm :: "'j task \<Rightarrow> 'j task \<Rightarrow> bool" where
  "calm t t' = ((top_ok t \<longrightarrow> top_ok t') \<and> (tk_topProcessUs t' \<noteq> -1 \<longrightarrow> tk_topProcessUs t \<noteq> -1 \<or> top_ok t'))"

lemma UpdateTop_keeps [simp]:
  "tk_jobQueue (UpdateTop now t) = tk_jobQueue t" "tk_msgQueue (UpdateTop now t) = tk_msgQueue t"
  "tk_singleLoop (UpdateTop now t) = tk_singleLoop t" "tk_runningState (UpdateTop now t) = tk_runningState t"
  by (auto simp: UpdateTop_def split: list.splits prod.splits)

lemma UpdateTop_ok: "tk_topProcessUs (UpdateTop now t) = -1 \<and> tk_topIsJob (UpdateTop now t) = tk_topIsJob t \<or> top_ok (UpdateTop now t)"
  by (auto simp: UpdateTop_def top_ok_def split: list.splits prod.splits if_splits)

lemma calm_UpdateTop: "calm t (UpdateTop now t)"
  using UpdateTop_ok [of now t] by (auto simp: calm_def top_ok_def)

lemma calm_trans: "calm t t' \<Longrightarrow> tk_topProcessUs t' = tk_topProcessUs t \<Longrightarrow> calm t' t'' \<Longrightarrow> calm t t''"
  by (auto simp: calm_def)

lemma calm_ops:
  "calm t (snd (Task_Start now t))" "calm t (snd (Task_Stop inSelf t))" "calm t (snd (Task_StopAsync inSelf t))"
  "calm t (snd (Task_Pause inSelf t))" "calm t (snd (Task_PauseAsync inSelf t))" "calm t (snd (Task_UpdateDelayTime now d t))"
  "calm t (Task_RegisterJob j t)" "calm t (Task_DeInit t)"
proof -
  have "calm t (UpdateTop now (t\<lparr>tk_runningState := STARTED\<rparr>))"
    by (rule calm_trans [OF _ _ calm_UpdateTop]) (simp_all add: calm_def top_ok_def)
  then show "calm t (snd (Task_Start now t))" by (simp add: Task_Start_def Let_def) (simp add: calm_def top_ok_def)
qed (auto simp: calm_def top_ok_def Task_Stop_def Task_StopAsync_def Task_Pause_def Task_PauseAsync_def Task_UpdateDelayTime_def
       Task_RegisterJob_def Task_DeInit_def)

lemma queue_ops:
  "queue q (snd (Task_Start now t)) = queue q t" "queue q (snd (Task_Stop inSelf t)) = queue q t"
  "queue q (snd (Task_StopAsync inSelf t)) = queue q t" "queue q (snd (Task_Pause inSelf t)) = queue q t"
  "queue q (snd (Task_PauseAsync inSelf t)) = queue q t" "queue q (snd (Task_UpdateDelayTime now d t)) = queue q t"
  "queue q (Task_RegisterJob j t) = queue q t" "queue q (Task_DeInit t) = queue q t" "queue q (HandleJob_end now r a t) = queue q t"
  by (auto simp: queue_def Task_Start_def Task_Stop_def Task_StopAsync_def Task_Pause_def Task_PauseAsync_def
      Task_UpdateDelayTime_def Task_RegisterJob_def Task_DeInit_def HandleJob_end_def Let_def split: action.splits)

lemma free_time_free: "map_of q (free_time t q) = None"
  by (induction t q rule: free_time.induct) (subst free_time.simps, auto)

lemma free_time_ge: "t \<le> free_time t q"
proof (induction t q rule: free_time.induct)
  case (1 time q)
  then show ?case by (subst free_time.simps) auto
qed

lemma mset_smap_put: "map_of m k = None \<Longrightarrow> mset (smap_put k v m) = add_mset (k, v) (mset m)"
  by (induction k v m rule: smap_put.induct) (auto split: if_splits)

lemma smap_put_not_Nil [simp]: "smap_put k v m \<noteq> []"
  by (cases m) (auto split: if_splits)

lemma InsertJob_effect:
  assumes "InsertJob now j d q t = (k, n, t')"
  shows "calm t t'" "queue q t' = smap_put k j (queue q t)" "queue (\<not> q) t' = queue (\<not> q) t" "map_of (queue q t) k = None"
    "now + max 0 d \<le> k"
proof -
  define k0 where "k0 = free_time (now + (if d < 0 then 0 else d)) (queue q t)"
  define t1 where "t1 = (if q then t\<lparr>tk_jobQueue := smap_put k0 j (tk_jobQueue t)\<rparr> else t\<lparr>tk_msgQueue := smap_put k0 j (tk_msgQueue t)\<rparr>)"
  have t': "k = k0" "t' = t1 \<or> t' = UpdateTop now t1"
    using assms by (auto simp: InsertJob_def Let_def t1_def k0_def queue_def split: if_splits)
  have "calm t t1" "tk_topProcessUs t1 = tk_topProcessUs t" by (auto simp: calm_def top_ok_def t1_def)
  then show "calm t t'" using t'(2) calm_trans [OF _ _ calm_UpdateTop] by blast
  show "queue q t' = smap_put k j (queue q t)" "queue (\<not> q) t' = queue (\<not> q) t"
    using t' by (auto simp: t1_def queue_def)
  show "map_of (queue q t) k = None" unfolding t'(1) k0_def by (rule free_time_free)
  show "now + max 0 d \<le> k" unfolding t'(1) k0_def using free_time_ge by (auto simp: max_def)
qed

lemma HandleJob_locked_effect:
  assumes "HandleJob_locked b t = (a, t')"
  shows "top_ok t \<Longrightarrow> b = tk_singleLoop t \<Longrightarrow> a \<noteq> Undefined"
    "a = Once q k j \<Longrightarrow> queue q t = (k, j) # queue q t' \<and> queue (\<not> q) t' = queue (\<not> q) t \<and> (q \<longrightarrow> tk_runningState t = STARTED)"
    "(\<forall>q k j. a \<noteq> Once q k j) \<Longrightarrow> queue q t' = queue q t \<and> calm t t'"
  using assms by (auto simp: HandleJob_locked_def top_ok_def queue_def calm_def split: if_splits list.splits)

section \<open>Invariant\<close>

definition entries :: "nat \<Rightarrow> bool \<Rightarrow> (nat \<times> bool \<times> int \<times> 'j) list \<Rightarrow> (int \<times> 'j) list" where
  "entries i q xs = map (\<lambda>(_, _, k, j). (k, j)) (filter (\<lambda>(i', q', _, _). i' = i \<and> q' = q) xs)"

definition conserved :: "'j sched \<Rightarrow> bool" where
  "conserved s = (\<forall>i q. mset (entries i q (w_submitted s)) =
     mset (entries i q (map snd (w_started s))) + mset (queue q (w_task s i)))"

definition tops_ok :: "'j sched \<Rightarrow> bool" where
  "tops_ok s = (\<forall>i. (tk_topProcessUs (w_task s i) \<noteq> -1 \<or> w_phase s = Selected i \<or> (\<exists>b. w_phase s = Entered i b)) \<and>
     (\<forall>q k j. w_phase s \<noteq> Running i (Once q k j)) \<longrightarrow> top_ok (w_task s i))"

definition queues_sorted :: "'j sched \<Rightarrow> bool" where
  "queues_sorted s = (\<forall>i q. smap_inv (queue q (w_task s i)))"

definition jobs_started :: "'j sched \<Rightarrow> bool" where
  "jobs_started s = (\<forall>i. w_phase s \<noteq> Running i Undefined \<and> w_phase s \<noteq> Entered i (\<not> tk_singleLoop (w_task s i)))"

text \<open>What holds in all executions, and what holds as long as no flag changes.\<close>

definition jobs_inv :: "'j sched \<Rightarrow> bool" where
  "jobs_inv s = (conserved s \<and> queues_sorted s)"

definition pops_inv :: "'j sched \<Rightarrow> bool" where
  "pops_inv s = (tops_ok s \<and> jobs_started s)"

lemmas inv_defs = jobs_inv_def pops_inv_def tops_ok_def conserved_def queues_sorted_def jobs_started_def upd_task_def

lemma entries_simps [simp]:
  "entries i q [] = []" "entries i q (xs @ ys) = entries i q xs @ entries i q ys"
  "entries i q [(i', q', k, j)] = (if i' = i \<and> q' = q then [(k, j)] else [])"
  by (auto simp: entries_def)

lemma same_queues_step:
  assumes "jobs_inv s" "\<forall>q. queue q t = queue q (w_task s i)"
  shows "jobs_inv (upd_task i t s)"
  using assms by (auto simp: inv_defs)

lemma calm_step:
  assumes "pops_inv s" "calm (w_task s i) t" "tk_singleLoop t = tk_singleLoop (w_task s i)"
  shows "pops_inv (upd_task i t s)"
  using assms by (auto simp: inv_defs calm_def)

lemma submit_inv:
  assumes "InsertJob now j d q (w_task s i) = (k, n, t)"
  shows "jobs_inv s \<Longrightarrow> jobs_inv (upd_task i t (s\<lparr>w_submitted := w_submitted s @ [(i, q, k, j)]\<rparr>))"
    "pops_inv s \<Longrightarrow> tk_singleLoop t = tk_singleLoop (w_task s i) \<Longrightarrow>
      pops_inv (upd_task i t (s\<lparr>w_submitted := w_submitted s @ [(i, q, k, j)]\<rparr>))"
proof -
  note e = InsertJob_effect [OF assms]
  have q: "queue q' t = (if q' = q then smap_put k j (queue q (w_task s i)) else queue q' (w_task s i))" for q'
    using e(2,3) by (cases "q' = q") (auto simp: eq_commute)
  show "jobs_inv s \<Longrightarrow> jobs_inv (upd_task i t (s\<lparr>w_submitted := w_submitted s @ [(i, q, k, j)]\<rparr>))"
    using e(4) by (auto simp: inv_defs q mset_smap_put smap_put_inv)
  show "pops_inv s \<Longrightarrow> tk_singleLoop t = tk_singleLoop (w_task s i) \<Longrightarrow>
      pops_inv (upd_task i t (s\<lparr>w_submitted := w_submitted s @ [(i, q, k, j)]\<rparr>))"
    using e(1) by (auto simp: inv_defs calm_def)
qed

lemma select_in_list: "snd (select_task us ts p) = Some i \<Longrightarrow> snd p = Some i \<or> i \<in> set ts \<and> us i \<noteq> -1"
  by (induction us ts p rule: select_task.induct) (auto split: if_splits)

lemma Run_select_top:
  assumes "Run_select now s = Run_handle i"
  shows "tk_topProcessUs (w_task s i) \<noteq> -1"
proof -
  obtain u where "select_task (\<lambda>t. NextJobUs (w_task s t)) (w_taskList s) (2 ^ 63 - 1, None) = (u, Some i)"
    using assms by (auto simp: Run_select_def split: if_splits prod.splits option.splits)
  then show ?thesis
    using select_in_list [of "\<lambda>t. NextJobUs (w_task s t)" "w_taskList s" "(2 ^ 63 - 1, None)" i] by (simp add: NextJobUs_def)
qed

lemma handle_jobs:
  assumes inv: "jobs_inv s" and h: "HandleJob_locked b (w_task s i) = (a, t)"
  shows "jobs_inv (upd_task i t (s\<lparr>w_phase := p, w_started := w_started s @ start_entry now i a\<rparr>))"
proof (cases a)
  case (Once q k j)
  note f = HandleJob_locked_effect(2) [OF h Once]
  have q: "queue q' t = (if q' = q then tl (queue q (w_task s i)) else queue q' (w_task s i))" for q'
    using f by (cases "q' = q") (auto simp: eq_commute)
  have m: "mset (queue q (w_task s i)) = add_mset (k, j) (mset (tl (queue q (w_task s i))))" using f by simp
  have "smap_inv (queue q (w_task s i)) \<Longrightarrow> smap_inv (tl (queue q (w_task s i)))" using f by (auto simp: smap_inv_def)
  then show ?thesis using inv Once by (auto simp: inv_defs q m start_entry_def)
qed (use inv HandleJob_locked_effect(3) [OF h] in \<open>auto simp: inv_defs start_entry_def\<close>)

lemma handle_pops:
  assumes inv: "pops_inv s" and ph: "w_phase s = Entered i b" and h: "HandleJob_locked b (w_task s i) = (a, t)"
  shows "pops_inv (upd_task i t (s\<lparr>w_phase := Running i a, w_started := st\<rparr>))"
proof -
  note e = HandleJob_locked_effect [OF h]
  have b: "b = tk_singleLoop (w_task s i)" using inv ph by (auto simp: pops_inv_def jobs_started_def)
  have ok: "top_ok (w_task s i)" using inv ph by (simp add: pops_inv_def tops_ok_def)
  show ?thesis
  proof (cases a)
    case (Once q k j)
    then show ?thesis using inv ph by (auto simp: inv_defs)
  qed (use inv ph ok b e in \<open>auto simp: inv_defs calm_def\<close>)
qed

lemma finish_jobs:
  "jobs_inv s \<Longrightarrow> jobs_inv (upd_task i (HandleJob_end now r a (w_task s i)) (s\<lparr>w_phase := p\<rparr>))"
  by (auto simp: inv_defs queue_ops)

lemma finish_pops:
  assumes inv: "pops_inv s" and ph: "w_phase s = Running i a"
  shows "pops_inv (upd_task i (HandleJob_end now r a (w_task s i)) (s\<lparr>w_phase := Idle\<rparr>))"
proof -
  let ?t = "HandleJob_end now r a (w_task s i)"
  have ok: "tk_topProcessUs ?t \<noteq> -1 \<Longrightarrow> top_ok ?t"
  proof (cases a)
    case (Once q k j)
    then show "tk_topProcessUs ?t \<noteq> -1 \<Longrightarrow> top_ok ?t" using UpdateTop_ok [of now "w_task s i"] by (auto simp: HandleJob_end_def)
  next
    case (Loop b c)
    then show "tk_topProcessUs ?t \<noteq> -1 \<Longrightarrow> top_ok ?t"
      using inv ph by (auto simp: HandleJob_end_def Let_def pops_inv_def tops_ok_def top_ok_def split: if_splits)
  qed (use inv ph in \<open>auto simp: HandleJob_end_def pops_inv_def tops_ok_def\<close>)
  show ?thesis using inv ph ok by (auto simp: inv_defs)
qed

lemma sched_step_jobs:
  assumes "sched_step s s'" "jobs_inv s"
  shows "jobs_inv s'"
  using assms
proof cases
  case (flag i b)
  have "\<forall>q. queue q ((w_task s i)\<lparr>tk_singleLoop := b\<rparr>) = queue q (w_task s i)" by (simp add: queue_def)
  with flag assms(2) show ?thesis by (simp add: same_queues_step)
next
  case (deinit inSelf i)
  have "jobs_inv (upd_task i (Task_DeInit (w_task s i)) s)" by (intro same_queues_step assms(2)) (simp add: queue_ops)
  with deinit show ?thesis by (simp add: inv_defs RemoveTask_def)
qed (use assms(2) in \<open>auto simp: submit_inv handle_jobs finish_jobs queue_ops intro!: same_queues_step\<close>,
     use assms(2) in \<open>simp_all add: inv_defs AddTask_def Thread_Exit_def\<close>)

lemma flag_ops:
  "tk_singleLoop (snd (Task_Start now t)) = tk_singleLoop t" "tk_singleLoop (snd (Task_Stop inSelf t)) = tk_singleLoop t"
  "tk_singleLoop (snd (Task_StopAsync inSelf t)) = tk_singleLoop t" "tk_singleLoop (snd (Task_Pause inSelf t)) = tk_singleLoop t"
  "tk_singleLoop (snd (Task_PauseAsync inSelf t)) = tk_singleLoop t"
  "tk_singleLoop (snd (Task_UpdateDelayTime now d t)) = tk_singleLoop t"
  "tk_singleLoop (Task_RegisterJob j t) = tk_singleLoop t" "tk_singleLoop (Task_DeInit t) = tk_singleLoop t"
  by (auto simp: Task_Start_def Task_Stop_def Task_StopAsync_def Task_Pause_def Task_PauseAsync_def Task_UpdateDelayTime_def
      Task_RegisterJob_def Task_DeInit_def Let_def)

lemma sched_step_pops:
  assumes "sched_step s s'" "\<forall>i. tk_singleLoop (w_task s' i) = tk_singleLoop (w_task s i)" "pops_inv s"
  shows "pops_inv s'"
  using assms(1)
proof cases
  case (submit now j d q i k n t)
  have "tk_singleLoop t = tk_singleLoop (w_task s i)" using assms(2) submit(1) by (auto simp: upd_task_def split: if_splits)
  with submit submit_inv(2) [OF submit(2)] assms(3) show ?thesis by simp
next
  case (flag i b)
  have "b = tk_singleLoop (w_task s i)" using assms(2) flag by (auto simp: upd_task_def split: if_splits)
  then have "s' = s" using flag by (simp add: upd_task_def)
  with assms(3) show ?thesis by simp
next
  case (select now i)
  with assms(3) Run_select_top [OF select(3)] show ?thesis by (auto simp: inv_defs)
next
  case (enter i)
  with assms(3) show ?thesis by (auto simp: inv_defs)
next
  case (deinit inSelf i)
  have "pops_inv (upd_task i (Task_DeInit (w_task s i)) s)" by (intro calm_step assms(3)) (simp_all add: calm_ops flag_ops)
  with deinit show ?thesis by (simp add: inv_defs RemoveTask_def)
qed (use assms(3) in \<open>auto simp: handle_pops finish_pops calm_ops flag_ops intro!: calm_step\<close>,
     use assms(3) in \<open>simp_all add: inv_defs AddTask_def Thread_Exit_def\<close>)

lemma sched_init_inv:
  "jobs_inv (PipeLineThread (\<lambda>i. TaskInner (single i)))" "pops_inv (PipeLineThread (\<lambda>i. TaskInner (single i)))"
  by (simp_all add: inv_defs PipeLineThread_def TaskInner_def queue_def)

lemma sched_reach_inv: "sched_reach every s \<Longrightarrow> jobs_inv s \<and> (\<not> every \<longrightarrow> pops_inv s)"
  by (induction rule: sched_reach.induct) (use sched_init_inv sched_step_jobs sched_step_pops in blast)+

section \<open>Properties\<close>

text \<open>C7: In every reachable state of a task thread, whatever threads and running jobs do to its tasks, changes of priority in the
  middle of which the thread runs included, each job that was submitted either has been started once or is still in its queue, under the key
  it was given, and the queues are sorted by due time. In the executions in which the flag of no single-loop task is
  changed, that is in which only tasks with queues are given a new priority, the thread moreover never takes a job from an empty queue; in the others it can,
  which is undefined behaviour in the code and here leaves the queues as they are.
\<close>

theorem task_jobs_conserved:
  assumes "sched_reach every s"
  shows "mset (entries i q (w_submitted s)) = mset (entries i q (map snd (w_started s))) + mset (queue q (w_task s i)) \<and>
    smap_inv (queue q (w_task s i)) \<and> (\<not> every \<longrightarrow> w_phase s \<noteq> Running i Undefined)"
  using sched_reach_inv [OF assms] by (simp add: inv_defs)

lemma select_task_min:
  "select_task us ts (n0, t0) = (n, r) \<Longrightarrow>
     n \<le> n0 \<and> (\<forall>t \<in> set ts. us t \<noteq> -1 \<longrightarrow> n \<le> us t) \<and>
     (r = t0 \<and> n = n0 \<or> (\<exists>t \<in> set ts. r = Some t \<and> us t = n \<and> n \<noteq> -1 \<and> n < n0))"
proof (induction us ts "(n0, t0)" arbitrary: n0 t0 rule: select_task.induct)
  case (2 us task ts n0 t0)
  consider "us task = -1" | "us task \<noteq> -1" "us task < n0" | "us task \<noteq> -1" "\<not> us task < n0" by blast
  then show ?case
  proof cases
    case 1
    with 2(1) [OF 1] 2(4) show ?thesis by auto
  next
    case 2
    with "2.hyps"(2) [OF 2] "2.prems" show ?thesis by force
  next
    case 3
    with "2.hyps"(3) [OF 3] "2.prems" show ?thesis by auto
  qed
qed simp

text \<open>C36: Which task the thread serves: the one whose next job is due first, at most half a millisecond before it is due; and
  whenever some task has a job due, the thread serves a task instead of waiting.
\<close>

theorem run_serves_earliest:
  assumes "\<not> w_threadExit s" "\<forall>i. NextJobUs (w_task s i) < 2 ^ 63 - 1"
  shows "(Run_select now s = Run_handle i \<longrightarrow> i \<in> set (w_taskList s) \<and> NextJobUs (w_task s i) \<noteq> -1 \<and> NextJobUs (w_task s i) \<le> now + 500 \<and>
      (\<forall>i' \<in> set (w_taskList s). NextJobUs (w_task s i') \<noteq> -1 \<longrightarrow> NextJobUs (w_task s i) \<le> NextJobUs (w_task s i'))) \<and>
    ((\<exists>i' \<in> set (w_taskList s). NextJobUs (w_task s i') \<noteq> -1 \<and> NextJobUs (w_task s i') \<le> now + 500) \<longrightarrow>
      (\<exists>i'. Run_select now s = Run_handle i'))"
proof -
  obtain n r where sel: "select_task (\<lambda>t. NextJobUs (w_task s t)) (w_taskList s) (2 ^ 63 - 1, None) = (n, r)" by fastforce
  note m = select_task_min [OF sel]
  show ?thesis
  proof (intro conjI impI)
    assume "Run_select now s = Run_handle i"
    then have "r = Some i" "n \<le> now + 500" using assms(1) sel by (auto simp: Run_select_def ADJUST_US_def split: option.splits if_splits)
    with m show "i \<in> set (w_taskList s)" "NextJobUs (w_task s i) \<noteq> -1" "NextJobUs (w_task s i) \<le> now + 500"
      "\<forall>i' \<in> set (w_taskList s). NextJobUs (w_task s i') \<noteq> -1 \<longrightarrow> NextJobUs (w_task s i) \<le> NextJobUs (w_task s i')" by auto
  next
    assume "\<exists>i' \<in> set (w_taskList s). NextJobUs (w_task s i') \<noteq> -1 \<and> NextJobUs (w_task s i') \<le> now + 500"
    then obtain i' where i': "i' \<in> set (w_taskList s)" "NextJobUs (w_task s i') \<noteq> -1" "NextJobUs (w_task s i') \<le> now + 500" by blast
    have "n \<le> NextJobUs (w_task s i')" using m i' by blast
    moreover have "NextJobUs (w_task s i') < 2 ^ 63 - 1" using assms(2) ..
    ultimately have n: "n \<le> now + 500" "n \<noteq> 2 ^ 63 - 1" using i'(3) by linarith+
    then obtain t where "r = Some t" using m by blast
    with n(1) show "\<exists>i'. Run_select now s = Run_handle i'"
      using assms(1) sel by (simp add: Run_select_def ADJUST_US_def)
  qed
qed

fun submit_all :: "int \<Rightarrow> (int \<times> 'j) list \<Rightarrow> 'j task \<Rightarrow> 'j task" where
  "submit_all d [] t = t"
| "submit_all d ((now, j) # xs) t = submit_all d xs (snd (snd (SubmitJob now j d t)))"

lemma smap_put_last: "\<forall>k' \<in> fst ` set m. k' < k \<Longrightarrow> smap_put k v m = m @ [(k, v)]"
  by (induction k v m rule: smap_put.induct) auto

lemma SubmitJob_last:
  assumes "\<forall>k \<in> fst ` set (tk_jobQueue t). k < now + max 0 d"
  shows "tk_jobQueue (snd (snd (SubmitJob now j d t))) = tk_jobQueue t @ [(now + max 0 d, j)]"
proof -
  have "map_of (tk_jobQueue t) (now + max 0 d) = None" using assms by (auto simp: map_of_eq_None_iff)
  then have f: "free_time (now + max 0 d) (tk_jobQueue t) = now + max 0 d" by (subst free_time.simps) simp
  obtain k n t' where i: "InsertJob now j d True t = (k, n, t')" by (metis prod_cases3)
  have "k = now + max 0 d" using i f by (auto simp: InsertJob_def Let_def max_def split: if_splits)
  with InsertJob_effect(2) [OF i] i show ?thesis by (simp add: SubmitJob_def queue_def smap_put_last assms)
qed

lemma submit_all_queue:
  "sorted_wrt (<) (map fst xs) \<Longrightarrow> \<forall>k \<in> fst ` set (tk_jobQueue t). \<forall>n \<in> fst ` set xs. k < n + max 0 d \<Longrightarrow>
     tk_jobQueue (submit_all d xs t) = tk_jobQueue t @ map (\<lambda>(n, j). (n + max 0 d, j)) xs"
proof (induction xs arbitrary: t)
  case (Cons x xs)
  obtain n j where x: "x = (n, j)" by (cases x)
  let ?t = "snd (snd (SubmitJob n j d t))"
  have q: "tk_jobQueue ?t = tk_jobQueue t @ [(n + max 0 d, j)]" using Cons.prems(2) x by (intro SubmitJob_last) auto
  have "\<forall>k \<in> fst ` set (tk_jobQueue ?t). \<forall>m \<in> fst ` set xs. k < m + max 0 d"
    using Cons.prems x unfolding q by auto
  with Cons.IH [of ?t] Cons.prems(1) show ?case by (simp add: x q)
qed simp

text \<open>Jobs submitted one after the other with the same delay are queued, and therefore run, in that order, provided the
  microsecond clock has advanced between the submissions.
\<close>

theorem submit_order:
  assumes "sorted_wrt (<) (map fst xs)" "tk_jobQueue t = []"
  shows "map snd (tk_jobQueue (submit_all d xs t)) = map snd xs \<and> sorted_wrt (<) (map fst (tk_jobQueue (submit_all d xs t)))"
  using submit_all_queue [OF assms(1), of t d] assms by (auto simp: sorted_wrt_map case_prod_beta)

text \<open>Without that proviso they are not: a second job of the same microsecond takes the next free key, and one submitted after
  the first of them has run takes the key that became free, before the second.\<close>

lemma submit_reordered:
  fixes t :: "nat task"
  assumes "t = snd (Task_Start 100 (TaskInner False))"
  shows "(case HandleJob_begin (submit_all 0 [(100, 1), (100, 2)] t) of (a, t') \<Rightarrow>
    a = Once True 100 1 \<and> tk_jobQueue (submit_all 0 [(100, 3)] t') = [(100, 3), (101, 2)])"
  unfolding assms by code_simp

text \<open>A pause strands messages. They are to be handled in every state, but pausing a task forgets that it has any: the
  thread does not serve it, and a caller that waits for its message stays blocked, until some other operation looks at the
  queues again.
\<close>

theorem pause_strands_messages:
  assumes "tk_runningState t = STARTED" "map_of (tk_msgQueue t) k = Some j" "t' = snd (Task_Pause inSelf t)"
    "w_task s i = t'" "w_taskList s = [i]" "\<not> w_threadExit s"
  shows "submit_blocked False k t' \<and> Run_select now s = Run_wait"
  using assms by (auto simp: Task_Pause_def submit_blocked_def Run_select_def NextJobUs_def)

lemma priority_update_lost:
  assumes "tk_singleLoop t" "Task_UpdateThreadPriority now j t = (n, t')" "HandleJob_begin t' = (a, t'')"
  shows "tk_msgQueue t'' \<noteq> []" "a \<noteq> Once q k j'"
proof -
  obtain p n' t1 where i: "InsertJob now j 0 False (t\<lparr>tk_singleLoop := False\<rparr>) = (p, n', t1)" by (metis prod_cases3)
  have "tk_msgQueue t1 \<noteq> []" using InsertJob_effect(2) [OF i] by (simp add: queue_def)
  then have "tk_msgQueue t' \<noteq> []" "tk_singleLoop t'" using assms(1,2) i by (auto simp: Task_UpdateThreadPriority_def SubmitJobOnce_def)
  then show "tk_msgQueue t'' \<noteq> []" "a \<noteq> Once q k j'" using assms(3) by (auto simp: HandleJob_begin_def HandleJob_locked_def split: if_splits)
qed

section \<open>An execution\<close>

text \<open>Task 0 is started and given job 7; the thread picks it. Before it runs, the task is paused and message 8, due in twenty
  seconds, is submitted.\<close>

definition ex_started :: "nat task" where "ex_started = snd (Task_Start 0 (TaskInner False))"
definition ex_given :: "nat task" where "ex_given = snd (snd (InsertJob 0 7 0 True ex_started))"
definition ex_paused :: "nat task" where "ex_paused = snd (Task_Pause False ex_given)"
definition ex_message :: "nat task" where "ex_message = snd (snd (InsertJob 0 8 20000000 False ex_paused))"

lemma ex_steps:
  "fst (InsertJob 0 7 0 True ex_started) = 0" "fst (InsertJob 0 8 20000000 False ex_paused) = 20000000"
  "NextJobUs ex_given = 0" "fst (HandleJob_locked False ex_message) = Once False 20000000 8"
  "\<not> tk_singleLoop ex_started" "\<not> tk_singleLoop ex_given" "\<not> tk_singleLoop ex_paused" "\<not> tk_singleLoop ex_message"
  by code_simp+

definition ex_state :: "'j phase \<Rightarrow> (nat \<times> bool \<times> int \<times> 'j) list \<Rightarrow> 'j task \<Rightarrow> 'j sched" where
  "ex_state ph sub t = \<lparr>w_task = (\<lambda>i. TaskInner False)(0 := t), w_taskList = [0], w_threadExit = False, w_phase = ph,
     w_submitted = sub, w_started = []\<rparr>"

lemma ex_reach_given: "sched_reach every (ex_state Idle [(0, True, 0, 7)] ex_given)"
proof -
  have "sched_reach every (AddTask 0 (PipeLineThread (\<lambda>i. TaskInner False)))"
    by (rule sched_reach.step [OF sched_reach.init sched_step.add]) (simp add: AddTask_def)
  from sched_reach.step [OF this sched_step.start [of _ 0 0]]
  have s: "sched_reach every (ex_state Idle [] ex_started)"
    by (simp add: AddTask_def PipeLineThread_def upd_task_def ex_state_def ex_started_def flag_ops fun_upd_def if_distrib [of tk_singleLoop] cong: if_cong)
  have "InsertJob 0 7 0 True (w_task (ex_state Idle [] ex_started) 0) = (0, fst (snd (InsertJob 0 7 0 True ex_started)), ex_given)"
    using ex_steps(1) by (simp add: ex_state_def ex_given_def prod_eq_iff)
  from sched_reach.step [OF s sched_step.submit [OF this]] ex_steps(5-8) show ?thesis
    by (simp add: upd_task_def ex_state_def fun_upd_def cong: if_cong)
qed

lemma ex_reach_message: "sched_reach every (ex_state (Selected 0) [(0, True, 0, 7), (0, False, 20000000, 8)] ex_message)"
proof -
  have "Run_select 0 (ex_state Idle [(0, True, 0, 7)] ex_given) = Run_handle 0"
    using ex_steps(3) by (simp add: Run_select_def ex_state_def ADJUST_US_def)
  from sched_reach.step [OF ex_reach_given sched_step.select [OF _ this]]
  have "sched_reach every (ex_state (Selected 0) [(0, True, 0, 7)] ex_given)" by (simp add: ex_state_def)
  from sched_reach.step [OF this sched_step.pause [of False 0]]
  have s: "sched_reach every (ex_state (Selected 0) [(0, True, 0, 7)] ex_paused)"
    by (simp add: permitted_def upd_task_def ex_state_def ex_paused_def fun_upd_def flag_ops if_distrib [of tk_singleLoop] cong: if_cong)
  have "InsertJob 0 8 20000000 False (w_task (ex_state (Selected 0) [(0, True, 0, 7)] ex_paused) 0) =
      (20000000, fst (snd (InsertJob 0 8 20000000 False ex_paused)), ex_message)"
    using ex_steps(2) by (simp add: ex_state_def ex_message_def prod_eq_iff)
  from sched_reach.step [OF s sched_step.submit [OF this]] ex_steps(5-8) show ?thesis
    by (simp add: upd_task_def ex_state_def fun_upd_def cong: if_cong)
qed

theorem task_jobs_conserved_witness:
  "mset (entries 0 True (w_submitted (ex_state Idle [(0, True, 0, 7)] ex_given))) =
     mset (entries 0 True (map snd (w_started (ex_state Idle [(0, True, 0, 7)] ex_given)))) +
     mset (queue True (w_task (ex_state Idle [(0, True, 0, 7)] ex_given) 0))"
  using task_jobs_conserved [OF ex_reach_given] by blast

theorem run_serves_earliest_witness: "\<exists>i. Run_select 0 (ex_state Idle [(0, True, 0, 7)] ex_given) = Run_handle i"
proof -
  have t: "NextJobUs (TaskInner False :: nat task) = -1" by (simp add: NextJobUs_def TaskInner_def)
  have "\<forall>i. NextJobUs (w_task (ex_state Idle [(0, True, 0, 7)] ex_given) i) < 2 ^ 63 - 1"
    using ex_steps(3) by (simp add: ex_state_def t)
  with run_serves_earliest [of "ex_state Idle [(0, True, 0, 7)] ex_given" 0 0] show ?thesis
    using ex_steps(3) by (simp add: ex_state_def)
qed

theorem submit_order_witness:
  "map snd (tk_jobQueue (submit_all 5 [(100, 1 :: nat), (101, 2), (107, 3)] (TaskInner False))) = [1, 2, 3]"
  using submit_order [of "[(100, 1 :: nat), (101, 2), (107, 3)]" "TaskInner False" 5] by (simp add: TaskInner_def)

theorem pause_strands_messages_witness:
  "submit_blocked False 9 (snd (Task_Pause False (snd (snd (InsertJob 9 (1 :: nat) 0 False ex_started))))) \<and>
   Run_select 10 (ex_state Idle [] (snd (Task_Pause False (snd (snd (InsertJob 9 (1 :: nat) 0 False ex_started)))))) = Run_wait"
proof (rule pause_strands_messages [OF _ _ refl])
  show "tk_runningState (snd (snd (InsertJob 9 (1 :: nat) 0 False ex_started))) = STARTED"
    "map_of (tk_msgQueue (snd (snd (InsertJob 9 (1 :: nat) 0 False ex_started)))) 9 = Some 1" by code_simp+
qed (simp_all add: ex_state_def)

text \<open>A message can run long before it is due. When a task is paused after the thread has picked it for a job, a message
  submitted then becomes its top entry, and the thread, which does not look at the time again, runs it at once: there is an
  execution in which a message is started twenty seconds early.
\<close>

theorem message_runs_early:
  "\<exists>s :: nat sched. sched_reach False s \<and> (\<exists>now i q k j. (now, i, q, k, j) \<in> set (w_started s) \<and> now + 20000000 \<le> k)"
proof -
  let ?s = "ex_state (Selected 0) [(0, True, 0, 7), (0, False, 20000000, 8)] ex_message"
  have "HandleJob_locked False (w_task ?s 0) = (Once False 20000000 8, snd (HandleJob_locked False ex_message))"
    using ex_steps(4) by (simp add: ex_state_def prod_eq_iff)
  then have h: "HandleJob_locked False (w_task (?s\<lparr>w_phase := Entered 0 False\<rparr>) 0) =
      (Once False 20000000 8, snd (HandleJob_locked False ex_message))" by simp
  have e: "sched_reach False (?s\<lparr>w_phase := Entered 0 False\<rparr>)"
    using sched_reach.step [OF ex_reach_message [of False] sched_step.enter [of _ 0]] ex_steps(8) by (simp add: ex_state_def)
  have f: "\<not> tk_singleLoop (snd (HandleJob_locked False ex_message))" by code_simp
  from sched_reach.step [OF e sched_step.handle [OF _ h, of 0]] f ex_steps(8)
  have "sched_reach False (upd_task 0 (snd (HandleJob_locked False ex_message))
      (?s\<lparr>w_phase := Running 0 (Once False 20000000 8), w_started := [(0, 0, False, 20000000, 8)]\<rparr>))"
    by (simp add: ex_state_def start_entry_def upd_task_def)
  then show ?thesis by (intro exI conjI) (assumption, auto simp: upd_task_def)
qed

text \<open>A change of priority of a task that loops over one job, made while the thread is about to serve it, makes the thread take a
  message from the empty queue.\<close>

theorem priority_window_pops_empty: "\<exists>s :: nat sched. sched_reach True s \<and> w_phase s = Running 0 Undefined"
proof -
  let ?t = "snd (Task_Start 0 (TaskInner True)) :: nat task"
  let ?f = "?t\<lparr>tk_singleLoop := False\<rparr>"
  have t: "NextJobUs ?t = 0" "HandleJob_locked False ?f = (Undefined, ?f)" by code_simp+
  have "sched_reach True (AddTask 0 (PipeLineThread (\<lambda>i. TaskInner True)) :: nat sched)"
    by (rule sched_reach.step [OF sched_reach.init sched_step.add]) simp
  from sched_reach.step [OF this sched_step.start [of _ 0 0]]
  have s: "sched_reach True (upd_task 0 ?t (AddTask 0 (PipeLineThread (\<lambda>i. TaskInner True))))" (is "sched_reach _ ?s")
    by (simp add: AddTask_def PipeLineThread_def)
  have "Run_select 0 ?s = Run_handle 0" using t(1)
    by (simp add: Run_select_def upd_task_def AddTask_def PipeLineThread_def ADJUST_US_def)
  from sched_reach.step [OF s sched_step.select [OF _ this]]
  have "sched_reach True (?s\<lparr>w_phase := Selected 0\<rparr>)" by (simp add: upd_task_def AddTask_def PipeLineThread_def)
  from sched_reach.step [OF this sched_step.flag [of _ 0 False]]
  have f: "sched_reach True (upd_task 0 ?f (?s\<lparr>w_phase := Selected 0\<rparr>))" by (simp add: upd_task_def)
  from sched_reach.step [OF f sched_step.enter [of _ 0]]
  have e: "sched_reach True (upd_task 0 ?f (?s\<lparr>w_phase := Entered 0 False\<rparr>))"
    by (simp add: upd_task_def AddTask_def PipeLineThread_def)
  have h: "HandleJob_locked False (w_task (upd_task 0 ?f (?s\<lparr>w_phase := Entered 0 False\<rparr>)) 0) = (Undefined, ?f)"
    using t(2) by (simp add: upd_task_def)
  from sched_reach.step [OF e sched_step.handle [OF _ h, of 0]] show ?thesis
    by (intro exI conjI) (auto simp: upd_task_def)
qed

section \<open>The thread pool\<close>

definition pool_inv :: "thread_pool \<Rightarrow> bool" where
  "pool_inv p = (\<forall>g l. tp_groups p g = Some l \<longrightarrow> distinct (map snd l))"

lemma find_none: "List.find P xs = None \<longleftrightarrow> (\<forall>x \<in> set xs. \<not> P x)"
  by (induction xs) auto

lemma FindThread_inv: "pool_inv p \<Longrightarrow> pool_inv (snd (FindThread g ty p))"
  by (auto simp: pool_inv_def FindThread_def Let_def find_none split: option.splits) blast

lemma DestroyThread_inv: "pool_inv p \<Longrightarrow> pool_inv (DestroyThread g p)"
  by (auto simp: pool_inv_def DestroyThread_def split: option.splits)

text \<open>A group has one thread of each type: asking again gives the same one.\<close>

lemma FindThread_same: "fst (FindThread g ty (snd (FindThread g ty p))) = fst (FindThread g ty p)"
proof (cases "List.find (\<lambda>th. snd th = ty) (case tp_groups p g of None \<Rightarrow> [] | Some l \<Rightarrow> l)")
  case None
  have "List.find P xs = None \<Longrightarrow> P y \<Longrightarrow> List.find P (xs @ [y]) = Some y" for P :: "nat \<times> TaskType \<Rightarrow> bool" and xs y
    by (induction xs) (auto split: if_splits)
  from this [OF None, of "(tp_next p, ty)"] None show ?thesis by (simp add: FindThread_def Let_def)
next
  case (Some th)
  then show ?thesis by (simp add: FindThread_def Let_def)
qed

end
