(* ===== verification/Text_Stream.thy ===== *)
theory Text_Stream
  imports Prelude Float_Model
begin

text \<open>
  The parts of the C++ standard library the playlist code reads text with: searching a \<^verbatim>\<open>std::string\<close>, and a
  \<^verbatim>\<open>std::istringstream\<close> in the classic locale with \<^verbatim>\<open>peek\<close>, \<^verbatim>\<open>get\<close> and the formatted extraction of integers and
  of \<^verbatim>\<open>double\<close>. A stream is what is left to read with its \<^verbatim>\<open>eofbit\<close> and \<^verbatim>\<open>failbit\<close>. An extraction that leaves its variable
  untouched gives \<open>None\<close>. The characters an extraction of a \<^verbatim>\<open>double\<close> accumulates are those of the library of the
  platform, libc++. A \<^verbatim>\<open>double\<close> is a rational rounded to 53 bits; a literal that spells an infinity, a NaN or a hexadecimal
  number, or whose value leaves the normal range, is \<open>Special_Double\<close>.
\<close>

section \<open>Searching\<close>

fun str_find :: "string \<Rightarrow> string \<Rightarrow> nat option" where
  "str_find d [] = (if d = [] then Some 0 else None)"
| "str_find d (c # s) = (if take (length d) (c # s) = d then Some 0 else map_option Suc (str_find d s))"

definition str_has :: "string \<Rightarrow> string \<Rightarrow> bool" where
  "str_has d s = (str_find d s \<noteq> None)"

definition str_rfind_char :: "char \<Rightarrow> string \<Rightarrow> nat option" where
  "str_rfind_char c s = map_option (\<lambda>i. length s - 1 - i) (str_find [c] (rev s))"

section \<open>Streams\<close>

record istream =
  is_eof :: bool
  is_fail :: bool
  is_rest :: string

definition istringstream :: "string \<Rightarrow> istream" where
  "istringstream s = \<lparr>is_eof = False, is_fail = False, is_rest = s\<rparr>"

definition is_good :: "istream \<Rightarrow> bool" where
  "is_good s = (\<not> is_eof s \<and> \<not> is_fail s)"

definition is_peek :: "istream \<Rightarrow> char option \<times> istream" where
  "is_peek s =
     (if \<not> is_good s then (None, s\<lparr>is_fail := True\<rparr>)
      else case is_rest s of [] \<Rightarrow> (None, s\<lparr>is_eof := True\<rparr>) | c # _ \<Rightarrow> (Some c, s))"

definition is_get :: "istream \<Rightarrow> char option \<times> istream" where
  "is_get s =
     (if \<not> is_good s then (None, s\<lparr>is_fail := True\<rparr>)
      else case is_rest s of
        [] \<Rightarrow> (None, s\<lparr>is_eof := True, is_fail := True\<rparr>)
      | c # r \<Rightarrow> (Some c, s\<lparr>is_rest := r\<rparr>))"

text \<open>\<^verbatim>\<open>static_cast<char>\<close> of what \<^verbatim>\<open>peek\<close> and \<^verbatim>\<open>get\<close> return: the end of the file becomes the byte 255.\<close>

definition char_of_int :: "char option \<Rightarrow> char" where
  "char_of_int c = (case c of None \<Rightarrow> CHR 0xFF | Some c \<Rightarrow> c)"

section \<open>Integers\<close>

definition is_space :: "char \<Rightarrow> bool" where
  "is_space c = (c \<in> {CHR '' '', CHR 0x09, CHR 0x0A, CHR 0x0B, CHR 0x0C, CHR 0x0D})"

definition is_digit :: "char \<Rightarrow> bool" where
  "is_digit c = (48 \<le> (of_char c :: nat) \<and> (of_char c :: nat) \<le> 57)"

definition digit_val :: "char \<Rightarrow> nat" where
  "digit_val c = of_char c - 48"

fun digits_val :: "nat \<Rightarrow> string \<Rightarrow> nat" where
  "digits_val acc [] = acc"
| "digits_val acc (c # s) = digits_val (10 * acc + digit_val c) s"

definition take_sign :: "string \<Rightarrow> bool \<times> string" where
  "take_sign s =
     (case s of [] \<Rightarrow> (False, [])
      | c # r \<Rightarrow> if c = CHR ''-'' then (True, r) else if c = CHR ''+'' then (False, r) else (False, s))"

text \<open>
  \<^verbatim>\<open>operator>>\<close> for an integer type: \<open>conv\<close> turns the sign and the magnitude into the value and says whether it was in range. Nothing
  is stored when only white space is left, zero is stored when there is no digit.
\<close>

definition extract_int :: "(bool \<Rightarrow> nat \<Rightarrow> int \<times> bool) \<Rightarrow> istream \<Rightarrow> int option \<times> istream" where
  "extract_int conv s =
     (if \<not> is_good s then (None, s\<lparr>is_fail := True\<rparr>)
      else let r = dropWhile is_space (is_rest s)
        in if r = [] then (None, \<lparr>is_eof = True, is_fail = True, is_rest = []\<rparr>)
           else let (neg, r1) = take_sign r; ds = takeWhile is_digit r1; r2 = dropWhile is_digit r1
             in if ds = [] then (Some 0, \<lparr>is_eof = (r2 = []), is_fail = True, is_rest = r2\<rparr>)
                else let (v, ok) = conv neg (digits_val 0 ds)
                  in (Some v, \<lparr>is_eof = (r2 = []), is_fail = \<not> ok, is_rest = r2\<rparr>))"

definition conv_unsigned :: "nat \<Rightarrow> bool \<Rightarrow> nat \<Rightarrow> int \<times> bool" where
  "conv_unsigned w neg n =
     (if 2 ^ w \<le> n then (2 ^ w - 1, False)
      else ((if neg then - int n else int n) mod 2 ^ w, True))"

definition conv_signed :: "nat \<Rightarrow> bool \<Rightarrow> nat \<Rightarrow> int \<times> bool" where
  "conv_signed w neg n =
     (if neg then (if 2 ^ (w - 1) < n then (- (2 ^ (w - 1)), False) else (- int n, True))
      else if 2 ^ (w - 1) \<le> n then (2 ^ (w - 1) - 1, False)
      else (int n, True))"

text \<open>\<^verbatim>\<open>operator>>\<close> with \<^verbatim>\<open>std::hex\<close> for an \<^verbatim>\<open>unsigned\<close>, on a text of at most eight digits.\<close>

definition is_xdigit :: "char \<Rightarrow> bool" where
  "is_xdigit c = (is_digit c \<or> (65 \<le> (of_char c :: nat) \<and> (of_char c :: nat) \<le> 70) \<or> (97 \<le> (of_char c :: nat) \<and> (of_char c :: nat) \<le> 102))"

definition xdigit_val :: "char \<Rightarrow> nat" where
  "xdigit_val c =
     (if is_digit c then of_char c - 48 else if (of_char c :: nat) \<le> 70 then of_char c - 55 else of_char c - 87)"

definition extract_hex :: "string \<Rightarrow> int option" where
  "extract_hex s =
     (let r = dropWhile is_space s
      in if r = [] then None
         else let (neg, r1) = take_sign r;
                  r2 = (if take 2 r1 = ''0x'' \<or> take 2 r1 = ''0X'' then drop 2 r1 else r1);
                  n = foldl (\<lambda>a c. 16 * a + xdigit_val c) 0 (takeWhile is_xdigit r2)
              in Some ((if neg then - int n else int n) mod 2 ^ 32))"

section \<open>Floating point\<close>

datatype double_text = Double_Value rat | Special_Double

text \<open>
  The characters libc++ collects for \<^verbatim>\<open>operator>>\<close> into a \<^verbatim>\<open>double\<close>: one decimal point before the exponent, signs only at the start
  or after the exponent letter, digits and the letters of hexadecimal numbers, infinities and NaNs.
\<close>

definition float_atom :: "char \<Rightarrow> bool" where
  "float_atom c = (is_xdigit c \<or> c \<in> set ''xXpPiInN'')"

definition to_upper :: "char \<Rightarrow> char" where
  "to_upper c = (if 97 \<le> (of_char c :: nat) \<and> (of_char c :: nat) \<le> 122 then char_of ((of_char c :: nat) - 32) else c)"

definition to_lower :: "char \<Rightarrow> char" where
  "to_lower c = (if 65 \<le> (of_char c :: nat) \<and> (of_char c :: nat) \<le> 90 then char_of ((of_char c :: nat) + 32) else c)"

fun float_chars :: "bool \<Rightarrow> char \<Rightarrow> string \<Rightarrow> string \<Rightarrow> string" where
  "float_chars in_units ex acc [] = acc"
| "float_chars in_units ex acc (c # s) =
     (if c = CHR ''.'' then (if in_units then float_chars False ex (acc @ [c]) s else acc)
      else if c = CHR ''-'' \<or> c = CHR ''+'' then
        (if acc = [] \<or> to_upper (last acc) = to_upper ex then float_chars in_units ex (acc @ [c]) s else acc)
      else if \<not> float_atom c then acc
      else if c = CHR ''x'' \<or> c = CHR ''X'' then float_chars in_units (CHR ''P'') (acc @ [c]) s
      else if to_upper c = ex then float_chars False (to_lower ex) (acc @ [c]) s
      else float_chars in_units ex (acc @ [c]) s)"

definition special_literal :: "string \<Rightarrow> bool" where
  "special_literal r =
     (take 2 r = ''0x'' \<or> take 2 r = ''0X'' \<or> (r \<noteq> [] \<and> hd r \<in> set ''iInN''))"

text \<open>\<^verbatim>\<open>strtod\<close> on a text without special literals, when it consumes all of it: digits, a fraction and an exponent.\<close>

definition parse_exponent :: "string \<Rightarrow> int option" where
  "parse_exponent s =
     (case s of [] \<Rightarrow> Some 0
      | c # r \<Rightarrow>
          (if c \<noteq> CHR ''e'' \<and> c \<noteq> CHR ''E'' then None
           else let (neg, r1) = take_sign r
             in if r1 = [] \<or> \<not> list_all is_digit r1 then None
                else Some (if neg then - int (digits_val 0 r1) else int (digits_val 0 r1))))"

definition decimal_value :: "string \<Rightarrow> rat option" where
  "decimal_value s =
     (let (neg, r) = take_sign s; ip = takeWhile is_digit r; r1 = dropWhile is_digit r;
          fp = (case r1 of c # r2 \<Rightarrow> if c = CHR ''.'' then takeWhile is_digit r2 else [] | [] \<Rightarrow> []);
          r3 = (case r1 of c # r2 \<Rightarrow> if c = CHR ''.'' then dropWhile is_digit r2 else r1 | [] \<Rightarrow> [])
      in if ip = [] \<and> fp = [] then None
         else case parse_exponent r3 of None \<Rightarrow> None
           | Some e \<Rightarrow>
               Some ((if neg then -1 else 1) * of_nat (digits_val 0 (ip @ fp)) * 10 powi (e - int (length fp))))"

definition normal_double :: "rat \<Rightarrow> bool" where
  "normal_double q = (q = 0 \<or> (-1022 \<le> floor_log2 \<bar>q\<bar> \<and> floor_log2 \<bar>q\<bar> \<le> 1023))"

definition extract_double :: "string \<Rightarrow> double_text option" where
  "extract_double s =
     (let r = dropWhile is_space s
      in if r = [] then None
         else let acc = float_chars True (CHR ''E'') [] r
           in if special_literal (snd (take_sign acc)) then Some Special_Double
              else case decimal_value acc of
                None \<Rightarrow> Some (Double_Value 0)
              | Some q \<Rightarrow> if normal_double (rnd 53 q) then Some (Double_Value (rnd 53 q)) else Some Special_Double)"

end
