(* ===== verification/Hls_Tags.thy ===== *)
theory Hls_Tags
  imports Text_Stream
begin

text \<open>
  The tags of an HLS playlist, \<^verbatim>\<open>hls/hls_tags.cpp\<close>: attributes and their readings, the tag classes, the factory and the
  scanner that turns the text of a playlist into the list of its tags. A read of a variable that was never written is
  \<open>Indeterminate\<close>, a \<^verbatim>\<open>static_pointer_cast\<close> to a class the object does not have is \<open>Bad_Cast\<close>, a signed counter that
  overflows is \<open>Int_Overflow\<close>, an index outside a vector is \<open>Out_Of_Bounds\<close>. The tag the scanner remembers
  (\<^verbatim>\<open>lastTag\<close>) is shared with the list, so it is an index into the list.
\<close>

datatype hls_error = Null_Pointer | Indeterminate | Bad_Cast | Unsupported_Double | Int_Overflow | Out_Of_Bounds

section \<open>Attributes\<close>

record Attribute =
  at_name :: string
  at_value :: string

definition mk_Attribute :: "string \<Rightarrow> string \<Rightarrow> Attribute" where
  "mk_Attribute name value = \<lparr>at_name = name, at_value = value\<rparr>"

definition Decimal :: "Attribute \<Rightarrow> hls_error + nat" where
  "Decimal a =
     (case fst (extract_int (conv_unsigned 64) (istringstream (at_value a))) of
        None \<Rightarrow> Inl Indeterminate | Some v \<Rightarrow> Inr (nat v))"

definition FloatingPoint :: "Attribute \<Rightarrow> hls_error + rat" where
  "FloatingPoint a =
     (case extract_double (at_value a) of
        None \<Rightarrow> Inl Indeterminate | Some (Double_Value q) \<Rightarrow> Inr q | Some Special_Double \<Rightarrow> Inl Unsupported_Double)"

function hex_loop :: "string \<Rightarrow> nat \<Rightarrow> nat list \<Rightarrow> hls_error + nat list" where
  "hex_loop v i ret =
     (if i \<le> length v - 2
      then case extract_hex (take 2 (drop i v)) of
          None \<Rightarrow> Inl Indeterminate
        | Some val \<Rightarrow> hex_loop v (i + 2) (ret @ [nat (val mod 256)])
      else Inr ret)"
  by auto
termination
  by (relation "measure (\<lambda>(v, i, ret). Suc (length v) - i)") auto

definition HexSequence :: "Attribute \<Rightarrow> hls_error + nat list" where
  "HexSequence a =
     (if length (at_value a) > 2 \<and> (take 2 (at_value a) = ''0X'' \<or> take 2 (at_value a) = ''0x'')
      then hex_loop (at_value a) 2 []
      else Inr [])"

text \<open>Two numbers with a separator between them: the second stays zero when the separator does not follow.\<close>

definition GetByteRange :: "Attribute \<Rightarrow> nat \<times> nat" where
  "GetByteRange a =
     (let (l, s) = extract_int (conv_unsigned 64) (istringstream (at_value a));
          len = (case l of None \<Rightarrow> 0 | Some v \<Rightarrow> nat v)
      in if is_eof s then (0, len)
         else let (c, s1) = is_get s
           in if char_of_int c = CHR 0x40 \<and> \<not> is_eof s1
              then case fst (extract_int (conv_unsigned 64) s1) of None \<Rightarrow> (0, len) | Some v \<Rightarrow> (nat v, len)
              else (0, len))"

definition GetResolution :: "Attribute \<Rightarrow> int \<times> int" where
  "GetResolution a =
     (let (l, s) = extract_int (conv_signed 32) (istringstream (at_value a));
          w = (case l of None \<Rightarrow> 0 | Some v \<Rightarrow> v)
      in if is_eof s then (w, 0)
         else let (c, s1) = is_get s
           in if char_of_int c = CHR ''x'' \<and> \<not> is_eof s1
              then case fst (extract_int (conv_signed 32) s1) of None \<Rightarrow> (w, 0) | Some v \<Rightarrow> (w, v)
              else (w, 0))"

fun unescape :: "string \<Rightarrow> string" where
  "unescape [] = []"
| "unescape (c # s) =
     (if c = CHR 0x5C then (case s of [] \<Rightarrow> [] | d # r \<Rightarrow> d # unescape r) else c # unescape s)"

definition QuotedString :: "Attribute \<Rightarrow> string" where
  "QuotedString a =
     (let v = at_value a
      in if v \<noteq> [] \<and> hd v \<noteq> CHR 0x22 then v
         else if length v < 2 then []
         else unescape (take (length v - 2) (drop 1 v)))"

definition UnescapeQuotes :: "Attribute \<Rightarrow> Attribute" where
  "UnescapeQuotes a = mk_Attribute (at_name a) (QuotedString a)"

section \<open>Tags\<close>

datatype HlsTag =
    EXTXDISCONTINUITY | EXTXENDLIST | EXTXIFRAMESONLY
  | URI | EXTXVERSION | EXTXBYTERANGE | EXTXPROGRAMDATETIME | EXTXTARGETDURATION | EXTXMEDIASEQUENCE
  | EXTXDISCONTINUITYSEQUENCE | EXTXPLAYLISTTYPE
  | EXTXKEY | EXTXMAP | EXTXMEDIA | EXTXSTART | EXTXSTREAMINF | EXTXIFRAMESTREAMINF | EXTXSESSIONKEY
  | EXTINF

datatype Tag =
    PlainTag HlsTag
  | SingleValueTag HlsTag Attribute
  | AttributesTag HlsTag "Attribute list"
  | ValuesListTag HlsTag "Attribute list"

fun GetType :: "Tag \<Rightarrow> HlsTag" where
  "GetType (PlainTag t) = t"
| "GetType (SingleValueTag t _) = t"
| "GetType (AttributesTag t _) = t"
| "GetType (ValuesListTag t _) = t"

definition g_exttagmapping :: "(string \<times> HlsTag) list" where
  "g_exttagmapping =
     [(''EXT-X-BYTERANGE'', EXTXBYTERANGE),
      (''EXT-X-DISCONTINUITY'', EXTXDISCONTINUITY),
      (''EXT-X-KEY'', EXTXKEY),
      (''EXT-X-MAP'', EXTXMAP),
      (''EXT-X-VERSION'', EXTXVERSION),
      (''EXT-X-PROGRAM-DATE-TIME'', EXTXPROGRAMDATETIME),
      (''EXT-X-TARGETDURATION'', EXTXTARGETDURATION),
      (''EXT-X-MEDIA-SEQUENCE'', EXTXMEDIASEQUENCE),
      (''EXT-X-DISCONTINUITY-SEQUENCE'', EXTXDISCONTINUITYSEQUENCE),
      (''EXT-X-ENDLIST'', EXTXENDLIST),
      (''EXT-X-PLAYLIST-TYPE'', EXTXPLAYLISTTYPE),
      (''EXT-X-I-FRAMES-ONLY'', EXTXIFRAMESONLY),
      (''EXT-X-MEDIA'', EXTXMEDIA),
      (''EXT-X-START'', EXTXSTART),
      (''EXT-X-STREAM-INF'', EXTXSTREAMINF),
      (''EXT-X-I-FRAME-STREAM-INF'', EXTXIFRAMESTREAMINF),
      (''EXT-X-SESSION-KEY'', EXTXSESSIONKEY),
      (''EXTINF'', EXTINF),
      ('''', URI)]"

section \<open>Attribute lists\<close>

text \<open>
  The loops run while the \<^verbatim>\<open>eofbit\<close> is clear; the name or value collected so far is \<open>oss\<close>. The \<^verbatim>\<open>failbit\<close> is only set here on a stream
  that is or comes to its end, so that the test of both bits is the test of the first; every round consumes a character or sets the bit.
\<close>

definition stream_left :: "istream \<Rightarrow> nat" where
  "stream_left s = (if is_eof s \<or> is_fail s then 0 else Suc (length (is_rest s)))"

definition name_char :: "char \<Rightarrow> bool" where
  "name_char c = ((65 \<le> (of_char c :: nat) \<and> (of_char c :: nat) \<le> 90) \<or> c = CHR ''-'')"

function ParseAttributeName :: "istream \<Rightarrow> string \<Rightarrow> string \<times> istream" where
  "ParseAttributeName iss oss =
     (if is_eof iss \<or> is_fail iss then (oss, iss)
      else let (p, s1) = is_peek iss; c = char_of_int p
        in if name_char c then let (g, s2) = is_get s1 in ParseAttributeName s2 (oss @ [char_of_int g])
           else if c = CHR ''='' then let (g, s2) = is_get s1 in (oss, s2)
           else let (g, s2) = is_get s1 in ParseAttributeName s2 oss)"
  by auto
termination
  by (relation "measure (\<lambda>(s, oss). stream_left s)")
    (auto simp: stream_left_def is_peek_def is_get_def is_good_def split: list.splits if_splits)

text \<open>The value: \<open>value_put\<close> is the last statement of the loop body, which copies a character unless the end was seen.\<close>

definition value_put :: "istream \<Rightarrow> string \<Rightarrow> istream \<times> string" where
  "value_put iss oss =
     (if \<not> is_eof iss then let (g, s) = is_get iss in (s, oss @ [char_of_int g]) else (iss, oss))"

function ParseAttributeValue :: "istream \<Rightarrow> string \<Rightarrow> bool \<Rightarrow> string \<times> istream" where
  "ParseAttributeValue iss oss bQuoted =
     (if is_eof iss \<or> is_fail iss then (oss, iss)
      else let (p, s1) = is_peek iss; c = char_of_int p
        in if c = CHR 0x5C \<and> bQuoted
           then let (g, s2) = is_get s1; (s3, oss') = value_put s2 oss in ParseAttributeValue s3 oss' bQuoted
           else if c = CHR '','' \<and> \<not> bQuoted then let (g, s2) = is_get s1 in (oss, s2)
           else if c = CHR 0x22
           then if bQuoted then let (g, s2) = is_get s1 in (oss @ [char_of_int g], s2)
                else let (s3, oss') = value_put s1 oss in ParseAttributeValue s3 oss' True
           else if \<not> bQuoted \<and> ((of_char c :: nat) < 45 \<or> 122 < (of_char c :: nat))
           then let (g, s2) = is_get s1 in ParseAttributeValue s2 oss bQuoted
           else let (s3, oss') = value_put s1 oss in ParseAttributeValue s3 oss' bQuoted)"
  by auto
termination
  by (relation "measure (\<lambda>(s, oss, q). stream_left s)")
    (auto simp: stream_left_def value_put_def is_peek_def is_get_def is_good_def Let_def split: list.splits if_splits prod.splits)

declare ParseAttributeName.simps [simp del] ParseAttributeValue.simps [simp del]

text \<open>The two readers character by character, on a stream that has not ended.\<close>

lemma name_char_255 [simp]: "\<not> name_char (CHR 0xFF)"
  by (simp add: name_char_def)

lemmas stream_defs = istringstream_def is_peek_def is_get_def is_good_def char_of_int_def value_put_def

lemma ParseAttributeName_ended [simp]: "is_eof s \<or> is_fail s \<Longrightarrow> ParseAttributeName s oss = (oss, s)"
  by (subst ParseAttributeName.simps) simp

lemma ParseAttributeName_Nil:
  "ParseAttributeName (istringstream []) oss = (oss, \<lparr>is_eof = True, is_fail = True, is_rest = []\<rparr>)"
  by (subst ParseAttributeName.simps) (simp add: stream_defs)

lemma ParseAttributeName_Cons:
  "ParseAttributeName (istringstream (c # r)) oss =
     (if name_char c then ParseAttributeName (istringstream r) (oss @ [c])
      else if c = CHR ''='' then (oss, istringstream r)
      else ParseAttributeName (istringstream r) oss)"
  by (subst ParseAttributeName.simps) (simp add: stream_defs)

lemma ParseAttributeValue_ended [simp]: "is_eof s \<or> is_fail s \<Longrightarrow> ParseAttributeValue s oss q = (oss, s)"
  by (subst ParseAttributeValue.simps) simp

lemma ParseAttributeValue_Nil:
  "ParseAttributeValue (istringstream []) oss q = (oss, \<lparr>is_eof = True, is_fail = \<not> q, is_rest = []\<rparr>)"
  by (subst ParseAttributeValue.simps) (simp add: stream_defs)

lemma ParseAttributeValue_Cons:
  "ParseAttributeValue (istringstream (c # r)) oss q =
     (if c = CHR 0x5C \<and> q
      then (case r of
          [] \<Rightarrow> (oss @ [CHR 0xFF], \<lparr>is_eof = True, is_fail = True, is_rest = []\<rparr>)
        | d # r' \<Rightarrow> ParseAttributeValue (istringstream r') (oss @ [d]) q)
      else if c = CHR '','' \<and> \<not> q then (oss, istringstream r)
      else if c = CHR 0x22
      then (if q then (oss @ [c], istringstream r) else ParseAttributeValue (istringstream r) (oss @ [c]) True)
      else if \<not> q \<and> ((of_char c :: nat) < 45 \<or> 122 < (of_char c :: nat)) then ParseAttributeValue (istringstream r) oss q
      else ParseAttributeValue (istringstream r) (oss @ [c]) q)"
proof -
  have bs: "is_peek (istringstream (c # r)) = (Some c, istringstream (c # r))" "is_get (istringstream (c # r)) = (Some c, istringstream r)"
    "value_put (istringstream (c # r)) oss = (istringstream r, oss @ [c])" "\<not> is_eof (istringstream (c # r))" "\<not> is_fail (istringstream (c # r))" for c r
    by (simp_all add: stream_defs)
  have vp: "value_put (istringstream r) oss =
      (case r of [] \<Rightarrow> (\<lparr>is_eof = True, is_fail = True, is_rest = []\<rparr>, oss @ [CHR 0xFF]) | d # r' \<Rightarrow> (istringstream r', oss @ [d]))"
    by (simp add: stream_defs split: list.splits)
  show ?thesis
    by (subst ParseAttributeValue.simps) (simp add: bs vp Let_def char_of_int_def split: list.splits)
qed

text \<open>Reading a name consumes something, reading a value never gives text back.\<close>

lemma stream_left_istringstream [simp]: "stream_left (istringstream r) = Suc (length r)"
  by (simp add: stream_left_def istringstream_def)

lemma stream_left_eof [simp]: "stream_left \<lparr>is_eof = True, is_fail = f, is_rest = r\<rparr> = 0"
  by (simp add: stream_left_def)

lemma stream_cases: "is_eof s \<or> is_fail s \<or> s = istringstream (is_rest s)"
  by (cases s) (auto simp: istringstream_def)

lemma ParseAttributeName_left: "stream_left (snd (ParseAttributeName (istringstream r) oss)) < Suc (length r)"
proof (induction r arbitrary: oss)
  case Nil
  then show ?case by (simp add: ParseAttributeName_Nil)
next
  case (Cons c r)
  then show ?case by (auto simp: ParseAttributeName_Cons less_SucI)
qed

lemma ParseAttributeValue_left: "stream_left (snd (ParseAttributeValue (istringstream r) oss q)) \<le> Suc (length r)"
proof (induction r arbitrary: oss q rule: length_induct)
  case (1 r)
  show ?case
  proof (cases r)
    case Nil
    then show ?thesis by (simp add: ParseAttributeValue_Nil)
  next
    case (Cons c r')
    then have "stream_left (snd (ParseAttributeValue (istringstream x) oss' q')) \<le> Suc (length r)"
      if "x = r' \<or> (\<exists>d. r' = d # x)" for x oss' q'
      using 1 [rule_format, of x oss' q'] that by auto
    with Cons show ?thesis
      by (auto simp: ParseAttributeValue_Cons simp del: length_Cons split: list.splits)
  qed
qed

function AttributesTag_loop :: "istream \<Rightarrow> Attribute list \<Rightarrow> Attribute list" where
  "AttributesTag_loop iss attributes =
     (if is_eof iss \<or> is_fail iss then attributes
      else let (attrName, s1) = ParseAttributeName iss []; (attrValue, s2) = ParseAttributeValue s1 [] False
        in AttributesTag_loop s2 (if attrName \<noteq> [] then attributes @ [mk_Attribute attrName attrValue] else attributes))"
  by auto
termination
proof (relation "measure (\<lambda>(s, a). stream_left s)")
  fix iss s2 :: istream and attributes attrName attrValue and s1 x y :: "_"
  assume r: "\<not> (is_eof iss \<or> is_fail iss)" "x = ParseAttributeName iss []" "(attrName, s1) = x"
    "y = ParseAttributeValue s1 [] False" "(attrValue, s2) = y"
  then have iss: "iss = istringstream (is_rest iss)" using stream_cases [of iss] by auto
  have "stream_left s1 < stream_left iss"
    using ParseAttributeName_left [of "is_rest iss" "[]"] iss r(2,3) by (metis snd_conv stream_left_istringstream)
  moreover have "stream_left s2 \<le> stream_left s1"
    using ParseAttributeValue_left [of "is_rest s1" "[]" False] r(4,5) stream_cases [of s1]
    by (metis ParseAttributeValue_ended le_refl snd_conv stream_left_istringstream)
  ultimately show "((s2, if attrName \<noteq> [] then attributes @ [mk_Attribute attrName attrValue] else attributes), iss, attributes)
      \<in> measure (\<lambda>(s, a). stream_left s)"
    by simp
qed simp

declare AttributesTag_loop.simps [simp del]

definition AttributesTag_ParseAttributes :: "string \<Rightarrow> Attribute list \<Rightarrow> Attribute list" where
  "AttributesTag_ParseAttributes field attributes = AttributesTag_loop (istringstream field) attributes"

definition ValuesListTag_ParseAttributes :: "string \<Rightarrow> Attribute list \<Rightarrow> Attribute list" where
  "ValuesListTag_ParseAttributes field attributes =
     (case str_find '','' field of
        Some pos \<Rightarrow> attributes @ [mk_Attribute ''DURATION'' (take pos field)] @ [mk_Attribute ''TITLE'' (drop pos field)]
      | None \<Rightarrow> attributes @ [mk_Attribute ''DURATION'' field])"

text \<open>The constructors; that of \<^verbatim>\<open>ValuesListTag\<close> runs after that of its base class, which has already parsed the field once.\<close>

definition mk_SingleValueTag :: "HlsTag \<Rightarrow> string \<Rightarrow> Tag" where
  "mk_SingleValueTag type v = SingleValueTag type (mk_Attribute [] v)"

definition mk_AttributesTag :: "HlsTag \<Rightarrow> string \<Rightarrow> Tag" where
  "mk_AttributesTag type v = AttributesTag type (AttributesTag_ParseAttributes v [])"

definition mk_ValuesListTag :: "HlsTag \<Rightarrow> string \<Rightarrow> Tag" where
  "mk_ValuesListTag type v =
     ValuesListTag type (ValuesListTag_ParseAttributes v (AttributesTag_ParseAttributes v []))"

definition GetAttributeByName :: "Attribute list \<Rightarrow> string \<Rightarrow> Attribute option" where
  "GetAttributeByName attributes name = find (\<lambda>a. at_name a = name) attributes"

text \<open>The readings of a tag through a \<^verbatim>\<open>static_pointer_cast\<close>; a \<^verbatim>\<open>ValuesListTag\<close> is an \<^verbatim>\<open>AttributesTag\<close>.\<close>

fun as_SingleValue :: "Tag \<Rightarrow> hls_error + Attribute" where
  "as_SingleValue (SingleValueTag _ a) = Inr a"
| "as_SingleValue _ = Inl Bad_Cast"

fun as_Attributes :: "Tag \<Rightarrow> hls_error + Attribute list" where
  "as_Attributes (AttributesTag _ as) = Inr as"
| "as_Attributes (ValuesListTag _ as) = Inr as"
| "as_Attributes _ = Inl Bad_Cast"

fun as_ValuesList :: "Tag \<Rightarrow> hls_error + Attribute list" where
  "as_ValuesList (ValuesListTag _ as) = Inr as"
| "as_ValuesList _ = Inl Bad_Cast"

fun AddAttribute :: "Attribute \<Rightarrow> Tag \<Rightarrow> Tag" where
  "AddAttribute a (AttributesTag t as) = AttributesTag t (as @ [a])"
| "AddAttribute a (ValuesListTag t as) = ValuesListTag t (as @ [a])"
| "AddAttribute a t = t"

section \<open>The factory\<close>

fun factory_case :: "HlsTag \<Rightarrow> string \<Rightarrow> Tag" where
  "factory_case EXTXDISCONTINUITY value = PlainTag EXTXDISCONTINUITY"
| "factory_case EXTXENDLIST value = PlainTag EXTXENDLIST"
| "factory_case EXTXIFRAMESONLY value = PlainTag EXTXIFRAMESONLY"
| "factory_case URI value = mk_SingleValueTag URI value"
| "factory_case EXTXVERSION value = mk_SingleValueTag EXTXVERSION value"
| "factory_case EXTXBYTERANGE value = mk_SingleValueTag EXTXBYTERANGE value"
| "factory_case EXTXPROGRAMDATETIME value = mk_SingleValueTag EXTXPROGRAMDATETIME value"
| "factory_case EXTXTARGETDURATION value = mk_SingleValueTag EXTXTARGETDURATION value"
| "factory_case EXTXMEDIASEQUENCE value = mk_SingleValueTag EXTXMEDIASEQUENCE value"
| "factory_case EXTXDISCONTINUITYSEQUENCE value = mk_SingleValueTag EXTXDISCONTINUITYSEQUENCE value"
| "factory_case EXTXPLAYLISTTYPE value = mk_SingleValueTag EXTXPLAYLISTTYPE value"
| "factory_case EXTINF value = mk_ValuesListTag EXTINF value"
| "factory_case EXTXKEY value = mk_AttributesTag EXTXKEY value"
| "factory_case EXTXSESSIONKEY value = mk_AttributesTag EXTXSESSIONKEY value"
| "factory_case EXTXMAP value = mk_AttributesTag EXTXMAP value"
| "factory_case EXTXMEDIA value = mk_AttributesTag EXTXMEDIA value"
| "factory_case EXTXSTART value = mk_AttributesTag EXTXSTART value"
| "factory_case EXTXSTREAMINF value = mk_AttributesTag EXTXSTREAMINF value"
| "factory_case EXTXIFRAMESTREAMINF value = mk_AttributesTag EXTXIFRAMESTREAMINF value"

definition CreateTagByName :: "string \<Rightarrow> string \<Rightarrow> Tag option" where
  "CreateTagByName name value = map_option (\<lambda>t. factory_case t value) (map_of g_exttagmapping name)"

section \<open>The scanner\<close>

text \<open>\<open>rest\<close> is the text from \<^verbatim>\<open>last\<close> on. Empty pieces are dropped; the delimiter is never empty.\<close>

function Split_loop :: "string \<Rightarrow> string \<Rightarrow> string list \<Rightarrow> string list" where
  "Split_loop delim rest ret =
     (case str_find delim rest of
        Some i \<Rightarrow>
          (if delim = [] then ret
           else Split_loop delim (drop (i + length delim) rest) (if i > 0 then ret @ [take i rest] else ret))
      | None \<Rightarrow> if rest \<noteq> [] then ret @ [rest] else ret)"
  by auto
termination
proof (relation "measure (\<lambda>(d, r, ret). length r)")
  fix delim rest ret i
  assume "str_find delim rest = Some i" "delim \<noteq> []"
  then have "rest \<noteq> []" by (cases rest) auto
  with \<open>delim \<noteq> []\<close> show "((delim, drop (i + length delim) rest, if i > 0 then ret @ [take i rest] else ret), delim, rest, ret)
      \<in> measure (\<lambda>(d, r, ret). length r)"
    by simp
qed simp

declare Split_loop.simps [simp del]

definition Split :: "string \<Rightarrow> string \<Rightarrow> string list" where
  "Split s delim = (if s = [] then [[]] else Split_loop delim s [])"

record scan =
  sc_list :: "Tag list"
  sc_lastTag :: "nat option"

text \<open>\<open>None\<close> is the access to the first piece of an empty split.\<close>

definition ParseTag :: "scan \<Rightarrow> string \<Rightarrow> scan option" where
  "ParseTag sc line =
     (if str_has ''#EXT'' line
      then case Split (drop 1 line) '':'' of
          [] \<Rightarrow> None
        | key # others \<Rightarrow>
            let value = (case others of [v] \<Rightarrow> v | _ \<Rightarrow> [])
            in Some (if key \<noteq> []
                     then case CreateTagByName key value of
                         Some tag \<Rightarrow> sc\<lparr>sc_list := sc_list sc @ [tag], sc_lastTag := Some (length (sc_list sc))\<rparr>
                       | None \<Rightarrow> sc\<lparr>sc_lastTag := None\<rparr>
                     else sc)
      else Some sc)"

definition ParseURI :: "scan \<Rightarrow> string \<Rightarrow> scan" where
  "ParseURI sc line =
     (case sc_lastTag sc of
        Some k \<Rightarrow>
          (if GetType (sc_list sc ! k) = EXTXSTREAMINF
           then sc\<lparr>sc_list := (sc_list sc)[k := AddAttribute (mk_Attribute ''URI'' line) (sc_list sc ! k)], sc_lastTag := None\<rparr>
           else (case CreateTagByName [] line of
               Some tag \<Rightarrow> sc\<lparr>sc_list := sc_list sc @ [tag], sc_lastTag := None\<rparr> | None \<Rightarrow> sc\<lparr>sc_lastTag := None\<rparr>))
      | None \<Rightarrow>
          (case CreateTagByName [] line of
             Some tag \<Rightarrow> sc\<lparr>sc_list := sc_list sc @ [tag], sc_lastTag := None\<rparr> | None \<Rightarrow> sc\<lparr>sc_lastTag := None\<rparr>))"

definition ParseLine :: "scan \<Rightarrow> string \<Rightarrow> scan option" where
  "ParseLine sc line =
     (case line of
        [] \<Rightarrow> Some (sc\<lparr>sc_lastTag := None\<rparr>)
      | c # _ \<Rightarrow> if c = CHR ''#'' then ParseTag sc line else Some (ParseURI sc line))"

fun ParseLines :: "scan \<Rightarrow> string list \<Rightarrow> scan option" where
  "ParseLines sc [] = Some sc"
| "ParseLines sc (line # ls) = (case ParseLine sc line of None \<Rightarrow> None | Some sc' \<Rightarrow> ParseLines sc' ls)"

definition playlist_lines :: "string \<Rightarrow> string list" where
  "playlist_lines s =
     (let lines = Split s [CHR 0x0D, CHR 0x0A]
      in if length lines = 1 then Split s [CHR 0x0A] else lines)"

definition ParseEntries :: "string \<Rightarrow> Tag list option" where
  "ParseEntries s = map_option sc_list (ParseLines \<lparr>sc_list = [], sc_lastTag = None\<rparr> (playlist_lines s))"

end
