(* ===== verification/M3u8.thy ===== *)
theory M3u8
  imports Hls_Tags
begin

text \<open>
  Media and master playlists, \<^verbatim>\<open>hls/m3u8.cpp\<close>: the tags of a playlist drive updaters that collect the fragments. Fields that are never
  written after construction (\<^verbatim>\<open>key_\<close>, \<^verbatim>\<open>iv_\<close>, \<^verbatim>\<open>offset_\<close>, \<^verbatim>\<open>size_\<close>, \<^verbatim>\<open>codecs_\<close>, \<^verbatim>\<open>programID_\<close>, \<^verbatim>\<open>media_\<close>) are left out. Variant streams
  are shared between the master playlist and the downloader that follows one of them, so they live in a store and are named by
  their address in it.
\<close>

section \<open>Errors\<close>

definition err_bind :: "'e + 'a \<Rightarrow> ('a \<Rightarrow> 'e + 'b) \<Rightarrow> 'e + 'b" where
  "err_bind m f = (case m of Inl e \<Rightarrow> Inl e | Inr x \<Rightarrow> f x)"

lemma err_bind_simps [simp]: "err_bind (Inl e) f = Inl e" "err_bind (Inr x) f = f x"
  by (simp_all add: err_bind_def)

lemma err_bind_Inr: "(err_bind m f = Inr y) = (\<exists>x. m = Inr x \<and> f x = Inr y)"
  by (cases m) auto

section \<open>Addresses\<close>

definition StrHasPrefix :: "string \<Rightarrow> string \<Rightarrow> bool" where
  "StrHasPrefix str pre = (str_find pre str = Some 0)"

definition UriJoin :: "string \<Rightarrow> string \<Rightarrow> string" where
  "UriJoin baseUrl uri =
     (if str_has ''http://'' uri \<or> str_has ''https://'' uri then uri
      else if str_find ''//'' uri = Some 0
      then (case str_find ''/'' baseUrl of None \<Rightarrow> baseUrl | Some p \<Rightarrow> take p baseUrl) @ uri
      else (case str_rfind_char (CHR ''/'') baseUrl of None \<Rightarrow> [] | Some pos \<Rightarrow> take (pos + 1) baseUrl) @ uri)"

section \<open>Media playlists\<close>

record M3U8Fragment =
  fr_uri :: string
  fr_title :: string
  fr_duration :: rat
  fr_sequence :: int
  fr_discont :: bool

record M3U8Info =
  in_uri :: string
  in_title :: string
  in_duration :: rat
  in_discontinuity :: bool
  in_bVod :: bool

record M3U8 =
  mu_uri :: string
  mu_name :: string
  mu_targetDuration :: rat
  mu_bLive :: bool
  mu_files :: "M3U8Fragment list"
  mu_sequence :: nat
  mu_discontSequence :: int
  mu_playList :: string

definition mk_M3U8 :: "string \<Rightarrow> string \<Rightarrow> M3U8" where
  "mk_M3U8 uri name =
     \<lparr>mu_uri = uri, mu_name = name, mu_targetDuration = 0, mu_bLive = False, mu_files = [], mu_sequence = 1,
      mu_discontSequence = 0, mu_playList = []\<rparr>"

definition mk_M3U8Fragment :: "string \<Rightarrow> string \<Rightarrow> rat \<Rightarrow> nat \<Rightarrow> bool \<Rightarrow> M3U8Fragment" where
  "mk_M3U8Fragment uri title duration seq discont =
     \<lparr>fr_uri = uri, fr_title = title, fr_duration = duration, fr_sequence = swrap 32 (int seq), fr_discont = discont\<rparr>"

text \<open>Both attributes are dereferenced without a test.\<close>

definition GetExtInf :: "Tag \<Rightarrow> hls_error + rat \<times> string" where
  "GetExtInf tag =
     err_bind (as_ValuesList tag) (\<lambda>attrs.
     err_bind (case GetAttributeByName attrs ''DURATION'' of None \<Rightarrow> Inl Null_Pointer | Some a \<Rightarrow> FloatingPoint a) (\<lambda>d.
     err_bind (case GetAttributeByName attrs ''TITLE'' of None \<Rightarrow> Inl Null_Pointer | Some a \<Rightarrow> Inr (QuotedString a)) (\<lambda>t.
     Inr (d, t))))"

text \<open>\<^verbatim>\<open>tagUpdatersMap_\<close>: the updaters by the type of the tag; a type without an updater changes nothing.\<close>

definition tagUpdater :: "Tag \<Rightarrow> M3U8 \<times> M3U8Info \<Rightarrow> hls_error + M3U8 \<times> M3U8Info" where
  "tagUpdater tag = (\<lambda>(m, info).
     case GetType tag of
       EXTXPLAYLISTTYPE \<Rightarrow>
         err_bind (as_SingleValue tag) (\<lambda>a.
         Inr (m\<lparr>mu_bLive := \<not> in_bVod info \<and> QuotedString a \<noteq> ''VOD''\<rparr>, info))
     | EXTXTARGETDURATION \<Rightarrow>
         err_bind (as_SingleValue tag) (\<lambda>a. err_bind (FloatingPoint a) (\<lambda>d.
         Inr (m\<lparr>mu_targetDuration := d\<rparr>, info)))
     | EXTXMEDIASEQUENCE \<Rightarrow>
         err_bind (as_SingleValue tag) (\<lambda>a. err_bind (Decimal a) (\<lambda>n.
         Inr (m\<lparr>mu_sequence := n\<rparr>, info)))
     | EXTXDISCONTINUITYSEQUENCE \<Rightarrow>
         err_bind (as_SingleValue tag) (\<lambda>a. err_bind (Decimal a) (\<lambda>n.
         Inr (m\<lparr>mu_discontSequence := swrap 32 (int n)\<rparr>, info\<lparr>in_discontinuity := True\<rparr>)))
     | EXTINF \<Rightarrow>
         err_bind (GetExtInf tag) (\<lambda>(d, t). Inr (m, info\<lparr>in_duration := d, in_title := t\<rparr>))
     | URI \<Rightarrow>
         err_bind (as_SingleValue tag) (\<lambda>a. Inr (m, info\<lparr>in_uri := UriJoin (mu_uri m) (QuotedString a)\<rparr>))
     | EXTXDISCONTINUITY \<Rightarrow>
         (if mu_discontSequence m = 2 ^ 31 - 1 then Inl Int_Overflow
          else Inr (m\<lparr>mu_discontSequence := mu_discontSequence m + 1\<rparr>, info\<lparr>in_discontinuity := True\<rparr>))
     | _ \<Rightarrow> Inr (m, info))"

definition take_fragment :: "M3U8 \<times> M3U8Info \<Rightarrow> M3U8 \<times> M3U8Info" where
  "take_fragment = (\<lambda>(m, info).
     if in_uri info \<noteq> []
     then (m\<lparr>mu_files := mu_files m @ [mk_M3U8Fragment (in_uri info) (in_title info) (in_duration info) (mu_sequence m) (in_discontinuity info)],
             mu_sequence := (mu_sequence m + 1) mod 2 ^ 64\<rparr>,
           info\<lparr>in_uri := [], in_title := [], in_duration := 0, in_discontinuity := False\<rparr>)
     else (m, info))"

fun update_loop :: "Tag list \<Rightarrow> M3U8 \<times> M3U8Info \<Rightarrow> hls_error + M3U8 \<times> M3U8Info" where
  "update_loop [] st = Inr st"
| "update_loop (tag # tags) st = err_bind (tagUpdater tag st) (\<lambda>st'. update_loop tags (take_fragment st'))"

definition UpdateFromTags :: "Tag list \<Rightarrow> M3U8 \<Rightarrow> hls_error + M3U8" where
  "UpdateFromTags tags m =
     (let bVod = (tags \<noteq> [] \<and> GetType (last tags) = EXTXENDLIST);
          info = \<lparr>in_uri = [], in_title = [], in_duration = 0, in_discontinuity = False, in_bVod = bVod\<rparr>
      in err_bind (update_loop tags (m\<lparr>mu_bLive := \<not> bVod\<rparr>, info)) (\<lambda>(m', _). Inr m'))"

definition M3U8_Update :: "string \<Rightarrow> M3U8 \<Rightarrow> hls_error + bool \<times> M3U8" where
  "M3U8_Update playList m =
     (if mu_playList m = playList then Inr (True, m)
      else if \<not> StrHasPrefix playList ''#EXTM3U'' then Inr (False, m)
      else if str_has (CHR 0x0A # ''#EXT-X-STREAM-INF:'') playList then Inr (False, m)
      else case ParseEntries playList of
          None \<Rightarrow> Inl Out_Of_Bounds
        | Some tags \<Rightarrow>
            err_bind (UpdateFromTags tags (m\<lparr>mu_files := []\<rparr>)) (\<lambda>m'. Inr (True, m'\<lparr>mu_playList := playList\<rparr>)))"

definition M3U8_GetDuration :: "M3U8 \<Rightarrow> rat" where
  "M3U8_GetDuration m = foldl (\<lambda>d f. rnd 53 (d + fr_duration f)) 0 (mu_files m)"

section \<open>Master playlists\<close>

record M3U8VariantStream =
  vs_name :: string
  vs_uri :: string
  vs_bandWidth :: nat
  vs_width :: int
  vs_height :: int
  vs_iframe :: bool
  vs_m3u8 :: M3U8

definition mk_M3U8VariantStream :: "string \<Rightarrow> string \<Rightarrow> M3U8 \<Rightarrow> M3U8VariantStream" where
  "mk_M3U8VariantStream name uri m3u8 =
     \<lparr>vs_name = name, vs_uri = uri, vs_bandWidth = 0, vs_width = 0, vs_height = 0, vs_iframe = False, vs_m3u8 = m3u8\<rparr>"

record M3U8MasterPlaylist =
  ma_variants :: "nat list"
  ma_defaultVariant :: "nat option"
  ma_uri :: string
  ma_isSimple :: bool
  ma_playList :: string
  ma_duration :: rat
  ma_bLive :: bool

type_synonym variant_store = "M3U8VariantStream list"

definition UpdateMediaPlaylist :: "M3U8MasterPlaylist \<times> variant_store \<Rightarrow> hls_error + M3U8MasterPlaylist \<times> variant_store" where
  "UpdateMediaPlaylist = (\<lambda>(ma, vs).
     err_bind (M3U8_Update (ma_playList ma) (mk_M3U8 (ma_uri ma) [])) (\<lambda>(_, m3u8).
     Inr (ma\<lparr>ma_isSimple := True, ma_variants := ma_variants ma @ [length vs], ma_defaultVariant := Some (length vs),
             ma_duration := M3U8_GetDuration m3u8, ma_bLive := mu_bLive m3u8\<rparr>,
          vs @ [mk_M3U8VariantStream (ma_uri ma) (ma_uri ma) m3u8])))"

definition variant_of_tag :: "string \<Rightarrow> Tag \<Rightarrow> hls_error + M3U8VariantStream option" where
  "variant_of_tag base tag =
     (if GetType tag = EXTXSTREAMINF \<or> GetType tag = EXTXIFRAMESTREAMINF
      then err_bind (as_Attributes tag) (\<lambda>item.
        case GetAttributeByName item ''URI'' of
          None \<Rightarrow> Inr None
        | Some uriAttribute \<Rightarrow>
            let name = QuotedString uriAttribute; uri = UriJoin base name;
                stream = (mk_M3U8VariantStream name uri (mk_M3U8 uri name))\<lparr>vs_iframe := (GetType tag = EXTXIFRAMESTREAMINF)\<rparr>
            in err_bind (case GetAttributeByName item ''BANDWIDTH'' of
                  None \<Rightarrow> Inr stream
                | Some b \<Rightarrow> err_bind (Decimal b) (\<lambda>n. Inr (stream\<lparr>vs_bandWidth := n\<rparr>))) (\<lambda>s.
               Inr (Some (case GetAttributeByName item ''RESOLUTION'' of
                  None \<Rightarrow> s
                | Some r \<Rightarrow> s\<lparr>vs_width := fst (GetResolution r), vs_height := snd (GetResolution r)\<rparr>))))
      else Inr None)"

fun master_loop :: "Tag list \<Rightarrow> M3U8MasterPlaylist \<times> variant_store \<Rightarrow> hls_error + M3U8MasterPlaylist \<times> variant_store" where
  "master_loop [] st = Inr st"
| "master_loop (tag # tags) (ma, vs) =
     err_bind (variant_of_tag (ma_uri ma) tag) (\<lambda>v.
       master_loop tags
         (case v of
            None \<Rightarrow> (ma, vs)
          | Some stream \<Rightarrow>
              (ma\<lparr>ma_variants := ma_variants ma @ [length vs],
                  ma_defaultVariant := (if ma_defaultVariant ma = None then Some (length vs) else ma_defaultVariant ma)\<rparr>,
               vs @ [stream])))"

definition UpdateMasterPlaylist :: "M3U8MasterPlaylist \<times> variant_store \<Rightarrow> hls_error + M3U8MasterPlaylist \<times> variant_store" where
  "UpdateMasterPlaylist = (\<lambda>(ma, vs).
     case ParseEntries (ma_playList ma) of
       None \<Rightarrow> Inl Out_Of_Bounds
     | Some tags \<Rightarrow> master_loop tags (ma, vs))"

definition mk_M3U8MasterPlaylist :: "string \<Rightarrow> string \<Rightarrow> variant_store \<Rightarrow> hls_error + M3U8MasterPlaylist \<times> variant_store" where
  "mk_M3U8MasterPlaylist playList uri vs =
     (let ma = \<lparr>ma_variants = [], ma_defaultVariant = None, ma_uri = uri, ma_isSimple = False, ma_playList = playList,
                ma_duration = 0, ma_bLive = False\<rparr>
      in if str_has (CHR 0x0A # ''#EXTINF:'') playList then UpdateMediaPlaylist (ma, vs) else UpdateMasterPlaylist (ma, vs))"

end
