(* ===== verification/Hls_Text.thy ===== *)
theory Hls_Text
  imports M3u8
begin

text \<open>
  Lemmas on the scanner: searching and splitting text, what the scanner makes of each kind of line, and the class of the tags it
  yields.
\<close>

section \<open>Searching and splitting\<close>

lemma str_find_char: "c \<notin> set xs \<Longrightarrow> str_find [c] (xs @ c # ys) = Some (length xs)"
  by (induction xs) auto

lemma str_find_char_None: "c \<notin> set xs \<Longrightarrow> str_find [c] xs = None"
  by (induction xs) auto

lemma str_find_head_None: "c \<notin> set xs \<Longrightarrow> str_find (c # p) xs = None"
  by (induction xs) auto

lemma str_find_skip: "c \<notin> set xs \<Longrightarrow> str_find (c # p) (xs @ s) = map_option (\<lambda>i. length xs + i) (str_find (c # p) s)"
proof (induction xs)
  case Nil
  then show ?case by (cases "str_find (c # p) s") auto
next
  case (Cons a xs)
  then show ?case by (cases "str_find (c # p) s") auto
qed

lemma Split_loop_None: "str_find d r = None \<Longrightarrow> Split_loop d r ret = (if r \<noteq> [] then ret @ [r] else ret)"
  by (subst Split_loop.simps) simp

lemma Split_loop_char:
  "c \<notin> set xs \<Longrightarrow> Split_loop [c] (xs @ c # ys) ret = Split_loop [c] ys (if xs \<noteq> [] then ret @ [xs] else ret)"
  by (subst Split_loop.simps) (simp add: str_find_char)

lemma Split_one: "str_find d s = None \<Longrightarrow> Split s d = [s]"
  by (simp add: Split_def Split_loop_None)

lemma Split_two:
  assumes "c \<notin> set xs" "c \<notin> set ys" "xs \<noteq> []" "ys \<noteq> []"
  shows "Split (xs @ c # ys) [c] = [xs, ys]"
  using assms by (simp add: Split_def Split_loop_char Split_loop_None str_find_char_None)

definition print_lines :: "string list \<Rightarrow> string" where
  "print_lines ls = concat (map (\<lambda>l. l @ [CHR 0x0A]) ls)"

lemma print_lines_simps [simp]:
  "print_lines [] = []" "print_lines (l # ls) = l @ CHR 0x0A # print_lines ls" "print_lines (xs @ ys) = print_lines xs @ print_lines ys"
  by (simp_all add: print_lines_def)

definition line_ok :: "string \<Rightarrow> bool" where
  "line_ok l = (l \<noteq> [] \<and> CHR 0x0A \<notin> set l \<and> CHR 0x0D \<notin> set l)"

lemma Split_loop_lines: "\<forall>l \<in> set ls. line_ok l \<Longrightarrow> Split_loop [CHR 0x0A] (print_lines ls) ret = ret @ ls"
proof (induction ls arbitrary: ret)
  case Nil
  then show ?case by (simp add: Split_loop_None)
next
  case (Cons l ls)
  then show ?case using Split_loop_char [of "CHR 0x0A" l "print_lines ls" ret] by (auto simp: line_ok_def)
qed

lemma print_lines_no_CR: "\<forall>l \<in> set ls. line_ok l \<Longrightarrow> CHR 0x0D \<notin> set (print_lines ls)"
  by (induction ls) (auto simp: line_ok_def)

text \<open>The lines of a playlist are recovered from its text.\<close>

lemma playlist_lines_print:
  assumes "\<forall>l \<in> set ls. line_ok l" "ls \<noteq> []"
  shows "playlist_lines (print_lines ls) = ls"
proof -
  have "print_lines ls \<noteq> []" using assms(2) by (cases ls) auto
  moreover have "Split (print_lines ls) [CHR 0x0D, CHR 0x0A] = [print_lines ls]"
    by (intro Split_one str_find_head_None print_lines_no_CR assms(1))
  ultimately show ?thesis
    using Split_loop_lines [OF assms(1), of "[]"] by (simp add: playlist_lines_def Split_def)
qed

text \<open>A line start is only found where a line starts with it.\<close>

lemma take_prefix_line:
  assumes "c \<notin> set p" "take (length p) (l @ c # r) = p"
  shows "take (length p) l = p"
proof (cases "length p \<le> length l")
  case True
  then show ?thesis using assms(2) by simp
next
  case False
  then have "c \<in> set (take (length p) (l @ c # r))" by (cases "length p - length l") auto
  then show ?thesis using assms by metis
qed

lemma str_find_line_None:
  assumes "CHR 0x0A \<notin> set p" "p \<noteq> []"
  shows "\<forall>l \<in> set ls. CHR 0x0A \<notin> set l \<Longrightarrow> \<forall>l \<in> set (tl ls). take (length p) l \<noteq> p \<Longrightarrow>
    str_find (CHR 0x0A # p) (print_lines ls) = None"
proof (induction ls)
  case Nil
  then show ?case by simp
next
  case (Cons l ls)
  have "take (length p) (print_lines ls) \<noteq> p"
  proof (cases ls)
    case Nil
    then show ?thesis using assms(2) by simp
  next
    case (Cons l2 ls2)
    then show ?thesis using take_prefix_line [OF assms(1), of l2 "print_lines ls2"] Cons.prems(2) by auto
  qed
  moreover have "str_find (CHR 0x0A # p) (print_lines ls) = None"
    using Cons.IH Cons.prems by (cases ls) auto
  ultimately show ?case using Cons.prems(1) by (simp add: str_find_skip)
qed

section \<open>The class of a tag\<close>

fun tag_wf :: "Tag \<Rightarrow> bool" where
  "tag_wf (PlainTag t) = (t \<in> {EXTXDISCONTINUITY, EXTXENDLIST, EXTXIFRAMESONLY})"
| "tag_wf (SingleValueTag t a) =
     (t \<in> {URI, EXTXVERSION, EXTXBYTERANGE, EXTXPROGRAMDATETIME, EXTXTARGETDURATION, EXTXMEDIASEQUENCE,
           EXTXDISCONTINUITYSEQUENCE, EXTXPLAYLISTTYPE})"
| "tag_wf (AttributesTag t as) =
     (t \<in> {EXTXKEY, EXTXMAP, EXTXMEDIA, EXTXSTART, EXTXSTREAMINF, EXTXIFRAMESTREAMINF, EXTXSESSIONKEY})"
| "tag_wf (ValuesListTag t as) = (t = EXTINF \<and> GetAttributeByName as ''DURATION'' \<noteq> None)"

lemma duration_found: "GetAttributeByName (ValuesListTag_ParseAttributes v as) ''DURATION'' \<noteq> None"
  by (auto simp: GetAttributeByName_def ValuesListTag_ParseAttributes_def mk_Attribute_def find_None_iff split: option.splits)

lemma factory_case_wf: "tag_wf (factory_case t v)"
  using duration_found
  by (cases t) (auto simp: mk_SingleValueTag_def mk_AttributesTag_def mk_ValuesListTag_def)

lemma CreateTagByName_wf: "CreateTagByName name v = Some t \<Longrightarrow> tag_wf t"
  by (auto simp: CreateTagByName_def factory_case_wf)

lemma AddAttribute_wf: "tag_wf t \<Longrightarrow> GetType t = EXTXSTREAMINF \<Longrightarrow> tag_wf (AddAttribute a t) \<and> GetType (AddAttribute a t) = EXTXSTREAMINF"
  by (cases t) auto

text \<open>The pieces of a split that is not empty.\<close>

lemma Split_loop_nonempty_mem: "ret \<noteq> [] \<Longrightarrow> Split_loop d r ret \<noteq> []"
proof (induction d r ret rule: Split_loop.induct)
  case (1 d r ret)
  then show ?case by (subst Split_loop.simps) (auto split: option.splits)
qed

lemma Split_loop_nonempty: "\<exists>x \<in> set r. x \<noteq> c \<Longrightarrow> Split_loop [c] r ret \<noteq> []"
proof (induction "[c]" r ret rule: Split_loop.induct)
  case (1 r ret)
  show ?case
  proof (cases "c \<in> set r")
    case False
    then show ?thesis using 1(2) by (auto simp: Split_loop_None str_find_char_None)
  next
    case True
    then obtain xs ys where r: "r = xs @ c # ys" "c \<notin> set xs" by (auto dest: split_list_first)
    have "Split_loop [c] ys (if xs \<noteq> [] then ret @ [xs] else ret) \<noteq> []"
    proof (cases "xs = []")
      case True
      then show ?thesis using 1(1) [of 0] 1(2) r by auto
    next
      case False
      then show ?thesis using Split_loop_nonempty_mem by simp
    qed
    then show ?thesis using r by (simp add: Split_loop_char)
  qed
qed

section \<open>The scanner\<close>

definition scan_wf :: "scan \<Rightarrow> bool" where
  "scan_wf sc = (list_all tag_wf (sc_list sc) \<and> (\<forall>k. sc_lastTag sc = Some k \<longrightarrow> k < length (sc_list sc)))"

text \<open>A line that has \<^verbatim>\<open>#EXT\<close> in it has a first piece: the access to it is safe.\<close>

lemma str_has_mem: "str_has (c # d # p) s \<Longrightarrow> \<exists>x \<in> set (drop 1 s). x = d"
  unfolding str_has_def
proof (induction s)
  case (Cons a s)
  show ?case
  proof (cases "take (length (c # d # p)) (a # s) = c # d # p")
    case True
    then show ?thesis by (cases s) auto
  next
    case False
    then show ?thesis using Cons by (cases s) (auto split: if_splits)
  qed
qed simp

lemma ParseTag_total:
  assumes "scan_wf sc"
  shows "\<exists>sc'. ParseTag sc line = Some sc' \<and> scan_wf sc'"
proof (cases "str_has ''#EXT'' line")
  case True
  then have "\<exists>x \<in> set (drop 1 line). x \<noteq> CHR '':''" using str_has_mem [of "CHR ''#''" "CHR ''E''" "''XT''" line] by auto
  then have "Split (drop 1 line) '':'' \<noteq> []" using Split_loop_nonempty by (auto simp: Split_def)
  then obtain key others where "Split (drop 1 line) '':'' = key # others" by (cases "Split (drop 1 line) '':''") auto
  with True assms show ?thesis
    by (auto simp: ParseTag_def scan_wf_def Let_def CreateTagByName_wf split: option.splits)
next
  case False
  then show ?thesis using assms by (simp add: ParseTag_def)
qed

lemma CreateTag_URI: "CreateTagByName [] line = Some (SingleValueTag URI (mk_Attribute [] line))"
  by (simp add: CreateTagByName_def g_exttagmapping_def mk_SingleValueTag_def)

lemma ParseURI_wf: "scan_wf sc \<Longrightarrow> scan_wf (ParseURI sc line)"
  by (auto simp: ParseURI_def scan_wf_def CreateTag_URI list_all_length nth_list_update nth_append AddAttribute_wf split: option.splits)

lemma ParseLines_total: "scan_wf sc \<Longrightarrow> \<exists>sc'. ParseLines sc ls = Some sc' \<and> scan_wf sc'"
proof (induction ls arbitrary: sc)
  case (Cons l ls)
  have "\<exists>sc'. ParseLine sc l = Some sc' \<and> scan_wf sc'"
    using Cons.prems ParseTag_total [of sc l] ParseURI_wf [of sc l] by (auto simp: ParseLine_def scan_wf_def split: list.splits)
  then show ?case using Cons.IH by fastforce
qed simp

lemma ParseLines_append:
  "ParseLines sc (xs @ ys) = (case ParseLines sc xs of None \<Rightarrow> None | Some sc' \<Rightarrow> ParseLines sc' ys)"
  by (induction xs arbitrary: sc) (auto split: option.splits)

lemma ParseEntries_wf: "\<exists>ts. ParseEntries s = Some ts \<and> list_all tag_wf ts"
  using ParseLines_total [of "\<lparr>sc_list = [], sc_lastTag = None\<rparr>" "playlist_lines s"]
  by (auto simp: ParseEntries_def scan_wf_def)

end
