(* ===== verification/Text_Print.thy ===== *)
theory Text_Print
  imports Text_Stream
begin

text \<open>
  Numbers as a playlist spells them, and the formatted extractions reading them back: decimal integers, and seconds with three places.
\<close>

section \<open>Integers\<close>

definition digit :: "nat \<Rightarrow> char" where
  "digit d = char_of (48 + d)"

fun print_nat :: "nat \<Rightarrow> string" where
  "print_nat n = (if n < 10 then [digit n] else print_nat (n div 10) @ [digit (n mod 10)])"

declare print_nat.simps [simp del]

lemma of_char_digit: "d < 10 \<Longrightarrow> (of_char (digit d) :: nat) = 48 + d"
  by (simp add: digit_def)

lemma is_digit_digit [simp]: "d < 10 \<Longrightarrow> is_digit (digit d)"
  by (simp add: is_digit_def of_char_digit)

lemma digit_val_digit [simp]: "d < 10 \<Longrightarrow> digit_val (digit d) = d"
  by (simp add: digit_val_def of_char_digit)

lemma digits_val_snoc: "digits_val acc (xs @ [c]) = 10 * digits_val acc xs + digit_val c"
  by (induction xs arbitrary: acc) auto

lemma print_nat_nonempty [simp]: "print_nat n \<noteq> []"
  by (subst print_nat.simps) simp

lemma print_nat_digits: "list_all is_digit (print_nat n)"
proof (induction n rule: print_nat.induct)
  case (1 n)
  then show ?case by (subst print_nat.simps) auto
qed

lemma digits_val_print [simp]: "digits_val 0 (print_nat n) = n"
proof (induction n rule: print_nat.induct)
  case (1 n)
  then show ?case by (subst print_nat.simps) (simp add: digits_val_snoc)
qed

text \<open>What a digit is not.\<close>

lemma is_digit_range: "is_digit c \<Longrightarrow> 48 \<le> (of_char c :: nat) \<and> (of_char c :: nat) \<le> 57"
  by (simp add: is_digit_def)

lemma digit_not_special:
  assumes "is_digit c"
  shows "\<not> is_space c" "c \<noteq> CHR ''-''" "c \<noteq> CHR ''+''" "c \<noteq> CHR ''.''" "c \<noteq> CHR '':''" "c \<noteq> CHR '',''" "c \<noteq> CHR ''=''" "c \<noteq> CHR ''x''"
    "c \<noteq> CHR ''X''" "c \<noteq> CHR 0x0A" "c \<noteq> CHR 0x0D" "c \<noteq> CHR ''E''" "c \<noteq> CHR ''e''" "c \<notin> set ''iInN''"
  using assms by (auto simp: is_space_def is_digit_def)

lemma takeWhile_digits:
  "list_all is_digit ds \<Longrightarrow> r = [] \<or> \<not> is_digit (hd r) \<Longrightarrow> takeWhile is_digit (ds @ r) = ds \<and> dropWhile is_digit (ds @ r) = r"
  by (induction ds) (cases r; auto)+

lemma take_sign_digit: "is_digit c \<Longrightarrow> take_sign (c # r) = (False, c # r)"
  using digit_not_special [of c] by (simp add: take_sign_def)

lemma extract_int_digits:
  assumes "list_all is_digit ds" "ds \<noteq> []" "r = [] \<or> \<not> is_digit (hd r)"
  shows "extract_int conv (istringstream (ds @ r)) =
    (Some (fst (conv False (digits_val 0 ds))), \<lparr>is_eof = (r = []), is_fail = \<not> snd (conv False (digits_val 0 ds)), is_rest = r\<rparr>)"
proof -
  obtain c ds' where ds: "ds = c # ds'" "is_digit c" using assms(1,2) by (cases ds) auto
  have "dropWhile is_space (ds @ r) = ds @ r" "take_sign (ds @ r) = (False, ds @ r)"
    using ds take_sign_digit digit_not_special by auto
  then show ?thesis
    using assms takeWhile_digits [OF assms(1,3)]
    by (simp add: extract_int_def istringstream_def is_good_def Let_def split: prod.splits)
qed

section \<open>Seconds\<close>

definition print_millis :: "nat \<Rightarrow> string" where
  "print_millis n =
     print_nat (n div 1000) @ CHR ''.'' # [digit (n div 100 mod 10), digit (n div 10 mod 10), digit (n mod 10)]"

lemma float_chars_digits:
  "list_all is_digit ds \<Longrightarrow> float_chars u (CHR ''E'') acc (ds @ r) = float_chars u (CHR ''E'') (acc @ ds) r"
proof (induction ds arbitrary: acc)
  case (Cons c ds)
  then have c: "is_digit c" "to_upper c \<noteq> CHR ''E''"
    using digit_not_special [of c] is_digit_range [of c] by (auto simp: to_upper_def)
  with Cons show ?case using digit_not_special [OF c(1)] by (simp add: float_atom_def is_xdigit_def)
qed simp

lemma digits_not_special_literal:
  assumes "list_all is_digit ds" "ds \<noteq> []" "r = [] \<or> (hd r \<noteq> CHR ''x'' \<and> hd r \<noteq> CHR ''X'')"
  shows "\<not> special_literal (ds @ r)"
proof (cases ds)
  case (Cons c ds')
  then have c: "c \<notin> set ''iInN''" "\<forall>d \<in> set ds'. d \<noteq> CHR ''x'' \<and> d \<noteq> CHR ''X''"
    using assms(1) digit_not_special by (auto simp: list_all_iff)
  have "take 1 (ds' @ r) \<noteq> ''x''" "take 1 (ds' @ r) \<noteq> ''X''"
    using c(2) assms(3) by (cases ds'; cases r; auto)+
  with c Cons show ?thesis by (auto simp: special_literal_def numeral_2_eq_2)
qed (use assms in simp)

lemma decimal_value_digits:
  assumes "list_all is_digit ip" "ip \<noteq> []" "list_all is_digit fp"
  shows "decimal_value (ip @ CHR ''.'' # fp) = Some (of_nat (digits_val 0 (ip @ fp)) / 10 ^ length fp)"
proof -
  obtain c ip' where ip: "ip = c # ip'" "is_digit c" using assms(1,2) by (cases ip) auto
  have sg: "take_sign (ip @ CHR ''.'' # fp) = (False, ip @ CHR ''.'' # fp)" using ip take_sign_digit by simp
  have nd: "\<not> is_digit (CHR ''.'')" by (simp add: is_digit_def)
  have w: "takeWhile is_digit (ip @ CHR ''.'' # fp) = ip" "dropWhile is_digit (ip @ CHR ''.'' # fp) = CHR ''.'' # fp"
    using takeWhile_digits [OF assms(1), of "CHR ''.'' # fp"] nd by auto
  have f: "takeWhile is_digit fp = fp" "dropWhile is_digit fp = []"
    using takeWhile_digits [OF assms(3), of "[]"] by auto
  show ?thesis
    by (simp add: decimal_value_def sg w f assms(2) parse_exponent_def power_int_minus divide_inverse)
qed

lemma normal_rnd:
  assumes "2 powi (-1000) \<le> q" "q \<le> 2 powi 1000"
  shows "normal_double (rnd 53 q)"
proof -
  have r: "2 powi (-1000) \<le> rnd 53 q" "rnd 53 q \<le> 2 powi 1000"
    using rnd_mono [OF assms(1), of 53] rnd_mono [OF assms(2), of 53] by (simp_all only: rnd_exact_powi)
  have pos: "0 < rnd 53 q" using r(1) powi_2_pos less_le_trans by blast
  note b = floor_log2_bounds [OF pos]
  have "(2 :: rat) powi (-1000) < 2 powi (floor_log2 (rnd 53 q) + 1)" "(2 :: rat) powi (floor_log2 (rnd 53 q)) < 2 powi 1001"
    using b r powi_2_less [of 1000 1001] by (auto simp: powi_2_mono intro: le_less_trans)
  from powi_2_less [OF this(1)] powi_2_less [OF this(2)] show ?thesis using pos by (simp add: normal_double_def)
qed

lemma digits_val_millis:
  "digits_val 0 (print_nat (n div 1000) @ [digit (n div 100 mod 10), digit (n div 10 mod 10), digit (n mod 10)]) = n"
proof -
  have snoc3: "digits_val 0 (xs @ [a, b, c]) = 10 * (10 * (10 * digits_val 0 xs + digit_val a) + digit_val b) + digit_val c" for xs a b c
    using digits_val_snoc [of 0 "xs @ [a, b]" c] digits_val_snoc [of 0 "xs @ [a]" b] digits_val_snoc [of 0 xs a] by simp
  have "10 * (n div 1000) + n div 100 mod 10 = n div 100" "10 * (n div 100) + n div 10 mod 10 = n div 10"
    using mult_div_mod_eq [of 10 "n div 100"] mult_div_mod_eq [of 10 "n div 10"] by (simp_all add: div_mult2_eq [symmetric])
  then show ?thesis by (simp add: snoc3)
qed

lemma normal_scaled:
  assumes "1 / 1024 \<le> q" "q \<le> 2 ^ 64"
  shows "normal_double (rnd 53 q)"
proof (rule normal_rnd)
  have "(2 :: rat) powi (-1000) \<le> 2 powi (-10)" by (rule powi_2_mono) simp
  also have "(2 :: rat) powi (-10) = 1 / 1024" by (simp add: power_int_def power_one_over)
  finally show "2 powi (-1000) \<le> q" using assms(1) by (rule order_trans)
  have "q \<le> 2 powi 64" using assms(2) by simp
  also have "(2 :: rat) powi 64 \<le> 2 powi 1000" by (rule powi_2_mono) simp
  finally show "q \<le> 2 powi 1000" .
qed

lemma normal_nat:
  assumes "n < 2 ^ 64"
  shows "normal_double (rnd 53 (of_nat n / 1000)) \<and> normal_double (rnd 53 (of_nat n))"
proof (cases "n = 0")
  case False
  have "(of_nat n :: rat) \<le> of_nat (2 ^ 64)" using assms by (simp only: of_nat_le_iff)
  then show ?thesis using False normal_scaled [of "of_nat n / 1000"] normal_scaled [of "of_nat n"] by simp
qed (simp add: normal_double_def)

lemma drop_space_digits: "list_all is_digit ds \<Longrightarrow> ds \<noteq> [] \<Longrightarrow> dropWhile is_space (ds @ r) = ds @ r"
  using digit_not_special(1) by (cases ds) auto

lemma extract_double_millis:
  assumes "n < 2 ^ 64"
  shows "extract_double (print_millis n) = Some (Double_Value (rnd 53 (of_nat n / 1000)))"
proof -
  let ?ip = "print_nat (n div 1000)" and ?fp = "[digit (n div 100 mod 10), digit (n div 10 mod 10), digit (n mod 10)]"
  have fp: "list_all is_digit ?fp" by simp
  have acc: "float_chars True (CHR ''E'') [] (print_millis n) = ?ip @ CHR ''.'' # ?fp"
    using float_chars_digits [OF fp, of False "?ip @ ''.''" "[]"]
    by (simp add: print_millis_def float_chars_digits [OF print_nat_digits])
  obtain c r where ip: "?ip = c # r" "is_digit c" using print_nat_digits [of "n div 1000"] by (cases ?ip) auto
  have sg: "take_sign (?ip @ CHR ''.'' # ?fp) = (False, ?ip @ CHR ''.'' # ?fp)" using ip take_sign_digit by simp
  have sp: "\<not> special_literal (?ip @ CHR ''.'' # ?fp)" by (rule digits_not_special_literal [OF print_nat_digits]) auto
  have "decimal_value (?ip @ CHR ''.'' # ?fp) = Some (of_nat n / 1000)"
    using decimal_value_digits [OF print_nat_digits _ fp] by (simp add: digits_val_millis)
  moreover have "dropWhile is_space (print_millis n) = print_millis n" "print_millis n \<noteq> []"
    by (simp_all add: print_millis_def drop_space_digits print_nat_digits)
  ultimately show ?thesis
    using normal_nat [OF assms] by (simp add: extract_double_def acc sg sp Let_def)
qed

lemma extract_double_nat:
  assumes "n < 2 ^ 64"
  shows "extract_double (print_nat n) = Some (Double_Value (rnd 53 (of_nat n)))"
proof -
  obtain c r where ip: "print_nat n = c # r" "is_digit c" using print_nat_digits [of n] by (cases "print_nat n") auto
  have acc: "float_chars True (CHR ''E'') [] (print_nat n) = print_nat n"
    using float_chars_digits [OF print_nat_digits, of True "[]" n "[]"] by simp
  have sg: "take_sign (print_nat n) = (False, print_nat n)" using ip take_sign_digit by simp
  have sp: "\<not> special_literal (print_nat n)" using digits_not_special_literal [OF print_nat_digits, of n "[]"] by simp
  have w: "takeWhile is_digit (print_nat n) = print_nat n" "dropWhile is_digit (print_nat n) = []"
    using takeWhile_digits [OF print_nat_digits, of "[]" n] by auto
  have "decimal_value (print_nat n) = Some (of_nat n)"
    unfolding decimal_value_def sg Let_def prod.case w by (simp add: parse_exponent_def)
  moreover have "dropWhile is_space (print_nat n) = print_nat n"
    using drop_space_digits [OF print_nat_digits, of n "[]"] by simp
  ultimately show ?thesis
    using normal_nat [OF assms] by (simp add: extract_double_def acc sg sp Let_def)
qed

end
