(* ===== verification/Hls_Props.thy ===== *)
theory Hls_Props
  imports Hls_Text Text_Print
begin

text \<open>
  Correctness of the playlist parser: the casts of the updaters are right for every input, a media playlist that is printed is read back,
  and so is a list of attributes.
\<close>

section \<open>Casts\<close>

lemma GetExtInf_wf: "tag_wf t \<Longrightarrow> GetType t = EXTINF \<Longrightarrow> GetExtInf t \<noteq> Inl Bad_Cast \<and> GetExtInf t \<noteq> Inl Out_Of_Bounds"
  by (cases t) (auto simp: GetExtInf_def err_bind_def FloatingPoint_def split: option.splits sum.splits double_text.splits)

lemma tagUpdater_wf: "tag_wf t \<Longrightarrow> tagUpdater t st \<noteq> Inl Bad_Cast \<and> tagUpdater t st \<noteq> Inl Out_Of_Bounds"
  using GetExtInf_wf [of t]
  by (cases st; cases t)
    (auto simp: tagUpdater_def err_bind_def FloatingPoint_def Decimal_def
      split: option.splits sum.splits double_text.splits HlsTag.splits)

lemma update_loop_wf:
  "list_all tag_wf ts \<Longrightarrow> update_loop ts st \<noteq> Inl Bad_Cast \<and> update_loop ts st \<noteq> Inl Out_Of_Bounds"
proof (induction ts arbitrary: st)
  case (Cons t ts)
  then show ?case using tagUpdater_wf [of t st] by (cases "tagUpdater t st") auto
qed simp

text \<open>For every text, the scanner terminates with a list of tags and never looks at a missing piece; each tag has the class its type
  stands for, so that no updater casts a tag to a class it does not have, and an update of a media playlist fails neither with a wrong cast nor with an
  index out of bounds.\<close>

theorem playlist_tags_typed:
  "(\<exists>ts. ParseEntries s = Some ts \<and> list_all tag_wf ts) \<and> M3U8_Update s m \<noteq> Inl Bad_Cast \<and> M3U8_Update s m \<noteq> Inl Out_Of_Bounds"
proof -
  obtain ts where ts: "ParseEntries s = Some ts" "list_all tag_wf ts" using ParseEntries_wf by blast
  then show ?thesis
    using update_loop_wf [OF ts(2)] by (auto simp: M3U8_Update_def UpdateFromTags_def Let_def err_bind_def split: sum.splits)
qed

section \<open>Lines of a playlist\<close>

definition scan_tag :: "Tag option \<Rightarrow> scan \<Rightarrow> scan" where
  "scan_tag t sc =
     (case t of Some tag \<Rightarrow> sc\<lparr>sc_list := sc_list sc @ [tag], sc_lastTag := Some (length (sc_list sc))\<rparr> | None \<Rightarrow> sc\<lparr>sc_lastTag := None\<rparr>)"

lemma ParseLine_value:
  assumes "CHR '':'' \<notin> set key" "CHR '':'' \<notin> set v" "v \<noteq> []"
  shows "ParseLine sc (''#EXT'' @ key @ CHR '':'' # v) = Some (scan_tag (CreateTagByName (''EXT'' @ key) v) sc)"
  using Split_two [of "CHR '':''" "''EXT'' @ key" v] assms
  by (simp add: ParseLine_def ParseTag_def str_has_def scan_tag_def split: option.splits)

lemma ParseLine_key:
  assumes "CHR '':'' \<notin> set key"
  shows "ParseLine sc (''#EXT'' @ key) = Some (scan_tag (CreateTagByName (''EXT'' @ key) []) sc)"
  using Split_one [of "'':''" "''EXT'' @ key"] str_find_char_None [of "CHR '':''" "''EXT'' @ key"] assms
  by (simp add: ParseLine_def ParseTag_def str_has_def scan_tag_def split: option.splits)

lemma ParseLine_uri:
  assumes "l \<noteq> []" "hd l \<noteq> CHR ''#''" "\<And>k. sc_lastTag sc = Some k \<Longrightarrow> GetType (sc_list sc ! k) \<noteq> EXTXSTREAMINF"
  shows "ParseLine sc l = Some (sc\<lparr>sc_list := sc_list sc @ [SingleValueTag URI (mk_Attribute [] l)], sc_lastTag := None\<rparr>)"
  using assms by (cases l) (auto simp: ParseLine_def ParseURI_def CreateTag_URI split: option.splits)

section \<open>The duration and the title of a fragment\<close>

lemma AttributesTag_loop_ended [simp]: "is_eof s \<Longrightarrow> AttributesTag_loop s as = as"
  by (subst AttributesTag_loop.simps) simp

lemma ParseAttributeName_all:
  "CHR ''='' \<notin> set f \<Longrightarrow>
     ParseAttributeName (istringstream f) oss = (oss @ filter name_char f, \<lparr>is_eof = True, is_fail = True, is_rest = []\<rparr>)"
  by (induction f arbitrary: oss) (auto simp: ParseAttributeName_Nil ParseAttributeName_Cons)

lemma AttributesTag_no_equals:
  "CHR ''='' \<notin> set f \<Longrightarrow>
     AttributesTag_ParseAttributes f as = (if filter name_char f \<noteq> [] then as @ [mk_Attribute (filter name_char f) []] else as)"
  unfolding AttributesTag_ParseAttributes_def
  by (subst AttributesTag_loop.simps) (simp add: ParseAttributeName_all, simp add: istringstream_def)

text \<open>The conditions on a title: it has no colon, no equals sign, and its capital letters and dashes do not spell the name of an attribute
  the code looks up.\<close>

definition title_ok :: "string \<Rightarrow> bool" where
  "title_ok t =
     (CHR '':'' \<notin> set t \<and> CHR ''='' \<notin> set t \<and> CHR 0x0A \<notin> set t \<and> CHR 0x0D \<notin> set t \<and>
      filter name_char t \<noteq> ''DURATION'' \<and> filter name_char t \<noteq> ''TITLE'')"

lemma print_millis_chars:
  "c \<in> set (print_millis n) \<Longrightarrow> is_digit c \<or> c = CHR ''.''"
  using print_nat_digits [of "n div 1000"] by (auto simp: print_millis_def list_all_iff)

lemma print_millis_clean [simp]:
  "CHR '':'' \<notin> set (print_millis n)" "CHR '','' \<notin> set (print_millis n)" "CHR ''='' \<notin> set (print_millis n)"
  "CHR 0x0A \<notin> set (print_millis n)" "CHR 0x0D \<notin> set (print_millis n)" "filter name_char (print_millis n) = []" "print_millis n \<noteq> []"
  by (auto simp: is_digit_def name_char_def filter_empty_conv dest!: print_millis_chars) (simp add: print_millis_def)

lemma GetExtInf_fragment:
  assumes "title_ok t" "n < 2 ^ 64"
  shows "GetExtInf (factory_case EXTINF (print_millis n @ CHR '','' # t)) = Inr (rnd 53 (of_nat n / 1000), CHR '','' # t)"
proof -
  let ?f = "print_millis n @ CHR '','' # t"
  have f: "CHR ''='' \<notin> set ?f" "filter name_char ?f = filter name_char t"
    using assms(1) by (auto simp: title_ok_def name_char_def)
  have "str_find '','' ?f = Some (length (print_millis n))" by (simp add: str_find_char)
  then show ?thesis
    using assms extract_double_millis [OF assms(2)] f(1)
    by (simp add: mk_ValuesListTag_def ValuesListTag_ParseAttributes_def AttributesTag_no_equals f(2) GetExtInf_def
        GetAttributeByName_def mk_Attribute_def title_ok_def FloatingPoint_def QuotedString_def)
qed

section \<open>A media playlist\<close>

record segment =
  sg_uri :: string
  sg_title :: string
  sg_millis :: nat
  sg_discont :: bool

definition segment_lines :: "segment \<Rightarrow> string list" where
  "segment_lines sg =
     (if sg_discont sg then [''#EXT-X-DISCONTINUITY''] else []) @
     [''#EXTINF:'' @ print_millis (sg_millis sg) @ CHR '','' # sg_title sg, sg_uri sg]"

definition media_lines :: "nat \<Rightarrow> nat \<Rightarrow> segment list \<Rightarrow> string list" where
  "media_lines target seq sgs =
     [''#EXTM3U'', ''#EXT-X-TARGETDURATION:'' @ print_nat target, ''#EXT-X-MEDIA-SEQUENCE:'' @ print_nat seq] @
     concat (map segment_lines sgs) @ [''#EXT-X-ENDLIST'']"

definition segment_ok :: "segment \<Rightarrow> bool" where
  "segment_ok sg =
     (line_ok (sg_uri sg) \<and> hd (sg_uri sg) \<noteq> CHR ''#'' \<and> hd (sg_uri sg) \<noteq> CHR 0x22 \<and> title_ok (sg_title sg) \<and> sg_millis sg < 2 ^ 64)"

definition segment_tags :: "segment \<Rightarrow> Tag list" where
  "segment_tags sg =
     (if sg_discont sg then [PlainTag EXTXDISCONTINUITY] else []) @
     [factory_case EXTINF (print_millis (sg_millis sg) @ CHR '','' # sg_title sg), SingleValueTag URI (mk_Attribute [] (sg_uri sg))]"

definition media_tags :: "nat \<Rightarrow> nat \<Rightarrow> segment list \<Rightarrow> Tag list" where
  "media_tags target seq sgs =
     [SingleValueTag EXTXTARGETDURATION (mk_Attribute [] (print_nat target)), SingleValueTag EXTXMEDIASEQUENCE (mk_Attribute [] (print_nat seq))] @
     concat (map segment_tags sgs) @ [PlainTag EXTXENDLIST]"

lemma create_known:
  "CreateTagByName ''EXTM3U'' v = None"
  "CreateTagByName ''EXT-X-TARGETDURATION'' v = Some (SingleValueTag EXTXTARGETDURATION (mk_Attribute [] v))"
  "CreateTagByName ''EXT-X-MEDIA-SEQUENCE'' v = Some (SingleValueTag EXTXMEDIASEQUENCE (mk_Attribute [] v))"
  "CreateTagByName ''EXT-X-DISCONTINUITY'' v = Some (PlainTag EXTXDISCONTINUITY)"
  "CreateTagByName ''EXTINF'' v = Some (factory_case EXTINF v)"
  "CreateTagByName ''EXT-X-ENDLIST'' v = Some (PlainTag EXTXENDLIST)"
  by (simp_all add: CreateTagByName_def g_exttagmapping_def mk_SingleValueTag_def)

lemma ParseLines_segment:
  assumes "segment_ok sg" "sc_lastTag sc = None \<or> GetType (sc_list sc ! the (sc_lastTag sc)) \<noteq> EXTXSTREAMINF"
  shows "ParseLines sc (segment_lines sg @ ls) = ParseLines \<lparr>sc_list = sc_list sc @ segment_tags sg, sc_lastTag = None\<rparr> ls"
proof -
  let ?v = "print_millis (sg_millis sg) @ CHR '','' # sg_title sg" and ?u = "sg_uri sg"
  have i: "ParseLine s (''#EXTINF:'' @ ?v) = Some (scan_tag (Some (factory_case EXTINF ?v)) s)" for s
    using ParseLine_value [of "''INF''" ?v s] assms(1) by (simp add: segment_ok_def title_ok_def create_known del: factory_case.simps)
  have d: "ParseLine s ''#EXT-X-DISCONTINUITY'' = Some (scan_tag (Some (PlainTag EXTXDISCONTINUITY)) s)" for s
    using ParseLine_key [of "''-X-DISCONTINUITY''" s] by (simp add: create_known)
  have u: "ParseLine (scan_tag (Some (factory_case EXTINF ?v)) s) ?u =
      Some \<lparr>sc_list = sc_list s @ [factory_case EXTINF ?v, SingleValueTag URI (mk_Attribute [] ?u)], sc_lastTag = None\<rparr>" for s
    using ParseLine_uri [of ?u "scan_tag (Some (factory_case EXTINF ?v)) s"] assms(1)
    by (cases s) (simp add: segment_ok_def line_ok_def scan_tag_def mk_ValuesListTag_def)
  show ?thesis
    by (cases sc) (simp add: segment_lines_def segment_tags_def i [simplified] d u [simplified], simp add: scan_tag_def)
qed

lemma ParseLines_segments:
  "\<forall>sg \<in> set sgs. segment_ok sg \<Longrightarrow> sc_lastTag sc = None \<or> GetType (sc_list sc ! the (sc_lastTag sc)) \<noteq> EXTXSTREAMINF \<Longrightarrow> sgs \<noteq> [] \<Longrightarrow>
     ParseLines sc (concat (map segment_lines sgs) @ ls) =
     ParseLines \<lparr>sc_list = sc_list sc @ concat (map segment_tags sgs), sc_lastTag = None\<rparr> ls"
proof (induction sgs arbitrary: sc)
  case (Cons sg sgs)
  then show ?case
    using ParseLines_segment [of sg sc "concat (map segment_lines sgs) @ ls"] by (cases "sgs = []") auto
qed simp

lemma print_nat_clean [simp]:
  "CHR '':'' \<notin> set (print_nat n)" "CHR 0x0A \<notin> set (print_nat n)" "CHR 0x0D \<notin> set (print_nat n)"
  using print_nat_digits [of n] by (auto simp: list_all_iff dest: digit_not_special)

lemma segment_lines_ok: "segment_ok sg \<Longrightarrow> \<forall>l \<in> set (segment_lines sg). line_ok l"
  by (auto simp: segment_ok_def segment_lines_def title_ok_def line_ok_def)

lemma media_lines_ok: "\<forall>sg \<in> set sgs. segment_ok sg \<Longrightarrow> \<forall>l \<in> set (media_lines t q sgs). line_ok l"
  using segment_lines_ok by (auto simp: media_lines_def line_ok_def)

lemma ParseEntries_media:
  assumes "\<forall>sg \<in> set sgs. segment_ok sg"
  shows "ParseEntries (print_lines (media_lines t q sgs)) = Some (media_tags t q sgs)"
proof -
  let ?T = "SingleValueTag EXTXTARGETDURATION (mk_Attribute [] (print_nat t))"
    and ?Q = "SingleValueTag EXTXMEDIASEQUENCE (mk_Attribute [] (print_nat q))"
  let ?s = "\<lparr>sc_list = [?T, ?Q], sc_lastTag = Some 1\<rparr>"
  have h: "ParseLine s ''#EXTM3U'' = Some (scan_tag None s)" "ParseLine s ''#EXT-X-ENDLIST'' = Some (scan_tag (Some (PlainTag EXTXENDLIST)) s)"
    "ParseLine s (''#EXT-X-TARGETDURATION:'' @ print_nat t) = Some (scan_tag (Some ?T) s)"
    "ParseLine s (''#EXT-X-MEDIA-SEQUENCE:'' @ print_nat q) = Some (scan_tag (Some ?Q) s)" for s
    using ParseLine_key [of "''M3U''" s] ParseLine_key [of "''-X-ENDLIST''" s] ParseLine_value [of "''-X-TARGETDURATION''" "print_nat t" s]
      ParseLine_value [of "''-X-MEDIA-SEQUENCE''" "print_nat q" s] by (simp_all add: create_known)
  have "ParseLines \<lparr>sc_list = [], sc_lastTag = None\<rparr> (media_lines t q sgs) =
      ParseLines ?s (concat (map segment_lines sgs) @ [''#EXT-X-ENDLIST''])"
    by (simp add: media_lines_def h [simplified] scan_tag_def)
  also have "map_option sc_list \<dots> = Some (media_tags t q sgs)"
  proof (cases "sgs = []")
    case True
    then show ?thesis by (simp add: h media_tags_def scan_tag_def)
  next
    case False
    then show ?thesis by (simp add: ParseLines_segments [OF assms] h media_tags_def scan_tag_def)
  qed
  finally show ?thesis
    using playlist_lines_print [OF media_lines_ok [OF assms]] by (simp add: ParseEntries_def media_lines_def)
qed

definition fragment_of :: "string \<Rightarrow> nat \<Rightarrow> segment \<Rightarrow> M3U8Fragment" where
  "fragment_of base n sg =
     \<lparr>fr_uri = UriJoin base (sg_uri sg), fr_title = CHR '','' # sg_title sg, fr_duration = rnd 53 (of_nat (sg_millis sg) / 1000),
      fr_sequence = int n, fr_discont = sg_discont sg\<rparr>"

fun fragments :: "string \<Rightarrow> nat \<Rightarrow> segment list \<Rightarrow> M3U8Fragment list" where
  "fragments base n [] = []"
| "fragments base n (sg # sgs) = fragment_of base n sg # fragments base (Suc n) sgs"

definition info0 :: "bool \<Rightarrow> M3U8Info" where
  "info0 v = \<lparr>in_uri = [], in_title = [], in_duration = 0, in_discontinuity = False, in_bVod = v\<rparr>"

lemma UriJoin_nonempty: "u \<noteq> [] \<Longrightarrow> UriJoin base u \<noteq> []"
  by (simp add: UriJoin_def)

lemma GetType_factory: "GetType (factory_case t v) = t"
  by (cases t) (simp_all add: mk_SingleValueTag_def mk_AttributesTag_def mk_ValuesListTag_def)

lemma update_segment:
  assumes "segment_ok sg" "mu_sequence m < 2 ^ 31 - 1" "0 \<le> mu_discontSequence m" "mu_discontSequence m < 2 ^ 31 - 1"
  shows "update_loop (segment_tags sg @ ts) (m, info0 v) =
    update_loop ts (m\<lparr>mu_files := mu_files m @ [fragment_of (mu_uri m) (mu_sequence m) sg], mu_sequence := mu_sequence m + 1,
      mu_discontSequence := mu_discontSequence m + (if sg_discont sg then 1 else 0)\<rparr>, info0 v)"
proof -
  let ?v = "print_millis (sg_millis sg) @ CHR '','' # sg_title sg"
  have e: "tagUpdater (factory_case EXTINF ?v) (m', info) =
      Inr (m', info\<lparr>in_duration := rnd 53 (of_nat (sg_millis sg) / 1000), in_title := CHR '','' # sg_title sg\<rparr>)" for m' info
    using GetExtInf_fragment [of "sg_title sg" "sg_millis sg"] assms(1)
    by (simp add: tagUpdater_def GetType_factory segment_ok_def del: factory_case.simps)
  have u: "QuotedString (mk_Attribute [] (sg_uri sg)) = sg_uri sg" "UriJoin b (sg_uri sg) \<noteq> []" for b
    using assms(1) by (auto simp: segment_ok_def line_ok_def QuotedString_def mk_Attribute_def UriJoin_nonempty)
  have sq: "swrap 32 (int (mu_sequence m)) = int (mu_sequence m)" "(mu_sequence m + 1) mod 2 ^ 64 = mu_sequence m + 1"
    using assms(2) by (auto intro: swrap_id)
  show ?thesis
    using assms(3,4) sq
    by (cases m) (simp add: segment_tags_def e take_fragment_def tagUpdater_def [of "PlainTag t" for t] tagUpdater_def [of "SingleValueTag t a" for t a]
        u info0_def mk_M3U8Fragment_def fragment_of_def del: factory_case.simps)
qed

lemma update_segments:
  "\<forall>sg \<in> set sgs. segment_ok sg \<Longrightarrow> mu_sequence m + length sgs < 2 ^ 31 \<Longrightarrow> 0 \<le> mu_discontSequence m \<Longrightarrow>
     mu_discontSequence m + int (length sgs) < 2 ^ 31 \<Longrightarrow>
   update_loop (concat (map segment_tags sgs) @ ts) (m, info0 v) =
     update_loop ts (m\<lparr>mu_files := mu_files m @ fragments (mu_uri m) (mu_sequence m) sgs, mu_sequence := mu_sequence m + length sgs,
       mu_discontSequence := mu_discontSequence m + int (length (filter sg_discont sgs))\<rparr>, info0 v)"
proof (induction sgs arbitrary: m)
  case (Cons sg sgs)
  let ?m = "m\<lparr>mu_files := mu_files m @ [fragment_of (mu_uri m) (mu_sequence m) sg], mu_sequence := mu_sequence m + 1,
      mu_discontSequence := mu_discontSequence m + (if sg_discont sg then 1 else 0)\<rparr>"
  have "update_loop (concat (map segment_tags (sg # sgs)) @ ts) (m, info0 v) = update_loop (concat (map segment_tags sgs) @ ts) (?m, info0 v)"
    using update_segment [of sg m "concat (map segment_tags sgs) @ ts" v] Cons.prems by simp
  also have "\<dots> = update_loop ts (?m\<lparr>mu_files := mu_files ?m @ fragments (mu_uri ?m) (mu_sequence ?m) sgs,
      mu_sequence := mu_sequence ?m + length sgs, mu_discontSequence := mu_discontSequence ?m + int (length (filter sg_discont sgs))\<rparr>, info0 v)"
    by (rule Cons.IH) (use Cons.prems in auto)
  finally show ?case by (simp add: add.assoc split: if_splits)
qed simp

lemma Decimal_print: "n < 2 ^ 64 \<Longrightarrow> Decimal (mk_Attribute nm (print_nat n)) = Inr n"
  using extract_int_digits [OF print_nat_digits, of n "[]" "conv_unsigned 64"]
  by (simp add: Decimal_def mk_Attribute_def conv_unsigned_def)

lemma FloatingPoint_print: "n < 2 ^ 64 \<Longrightarrow> FloatingPoint (mk_Attribute nm (print_nat n)) = Inr (rnd 53 (of_nat n))"
  by (simp add: FloatingPoint_def mk_Attribute_def extract_double_nat)

lemma media_not_master: "\<forall>sg \<in> set sgs. segment_ok sg \<Longrightarrow> \<not> str_has (CHR 0x0A # ''#EXT-X-STREAM-INF:'') (print_lines (media_lines t q sgs))"
proof -
  assume ok: "\<forall>sg \<in> set sgs. segment_ok sg"
  have "\<forall>l \<in> set (segment_lines sg). take 18 l \<noteq> ''#EXT-X-STREAM-INF:''" if sok: "segment_ok sg" for sg
  proof -
    obtain c r where "sg_uri sg = c # r" "c \<noteq> CHR ''#''" using sok by (cases "sg_uri sg") (auto simp: segment_ok_def line_ok_def)
    then show ?thesis by (simp add: segment_lines_def)
  qed
  with ok have "\<forall>l \<in> set (tl (media_lines t q sgs)). take (length ''#EXT-X-STREAM-INF:'') l \<noteq> ''#EXT-X-STREAM-INF:''"
    by (auto simp: media_lines_def eval_nat_numeral)
  moreover have "\<forall>l \<in> set (media_lines t q sgs). CHR 0x0A \<notin> set l" using media_lines_ok [OF ok] by (auto simp: line_ok_def)
  ultimately show ?thesis using str_find_line_None [of "''#EXT-X-STREAM-INF:''"] by (simp add: str_has_def)
qed

lemma M3U8_Update_print:
  assumes "\<forall>sg \<in> set sgs. segment_ok sg" "target < 2 ^ 64" "seq + length sgs < 2 ^ 31" "0 \<le> mu_discontSequence m"
    "mu_discontSequence m + int (length sgs) < 2 ^ 31" "mu_playList m \<noteq> print_lines (media_lines target seq sgs)"
  shows "M3U8_Update (print_lines (media_lines target seq sgs)) m =
    Inr (True, m\<lparr>mu_targetDuration := rnd 53 (of_nat target), mu_bLive := False, mu_files := fragments (mu_uri m) seq sgs,
      mu_sequence := seq + length sgs, mu_discontSequence := mu_discontSequence m + int (length (filter sg_discont sgs)),
      mu_playList := print_lines (media_lines target seq sgs)\<rparr>)"
proof -
  let ?m = "m\<lparr>mu_files := [], mu_bLive := False, mu_targetDuration := rnd 53 (of_nat target), mu_sequence := seq\<rparr>"
  have pre: "StrHasPrefix (print_lines (media_lines target seq sgs)) ''#EXTM3U''"
    by (simp add: StrHasPrefix_def media_lines_def)
  have last: "media_tags target seq sgs \<noteq> []" "GetType (last (media_tags target seq sgs)) = EXTXENDLIST"
    by (simp_all add: media_tags_def)
  have "update_loop (media_tags target seq sgs) (m\<lparr>mu_files := [], mu_bLive := False\<rparr>, info0 True) =
      update_loop (concat (map segment_tags sgs) @ [PlainTag EXTXENDLIST]) (?m, info0 True)"
    using assms(2,3) by (simp add: media_tags_def tagUpdater_def take_fragment_def info0_def FloatingPoint_print Decimal_print)
  also have "\<dots> = Inr (?m\<lparr>mu_files := fragments (mu_uri m) seq sgs, mu_sequence := seq + length sgs,
      mu_discontSequence := mu_discontSequence m + int (length (filter sg_discont sgs))\<rparr>, info0 True)"
    using update_segments [of sgs ?m "[PlainTag EXTXENDLIST]" True] assms
    by (simp add: tagUpdater_def take_fragment_def info0_def)
  finally show ?thesis
    using assms(6) media_not_master [OF assms(1)] pre last
    by (simp add: M3U8_Update_def UpdateFromTags_def ParseEntries_media [OF assms(1)] info0_def)
qed

text \<open>C15: A finished media playlist (header, target duration, media sequence, fragments, end mark) whose fragments meet \<open>segment_ok\<close> is
  read back: updating from its text gives exactly these fragments, in order, with consecutive sequence numbers from the announced one,
  the durations as the nearest doubles, the discontinuity marks and the addresses joined to that of the playlist; the playlist is not
  live and the discontinuities are counted. The title keeps its leading comma. \<open>segment_ok\<close> asks for an address that is one line, not
  empty and starting with neither a hash nor a quote, for a title of one line without colon and equals sign whose capitals and hyphens do
  not spell DURATION or TITLE, and for a duration below 2^64 milliseconds. The target is below 2^64, the sequence numbers and the count of
  discontinuities stay below 2^31, and the text differs from the one read last. Other titles need not be read back: \<open>extinf_colon\<close>.\<close>

theorem media_playlist_roundtrip:
  assumes "\<forall>sg \<in> set sgs. segment_ok sg" "target < 2 ^ 64" "seq + length sgs < 2 ^ 31" "0 \<le> mu_discontSequence m"
    "mu_discontSequence m + int (length sgs) < 2 ^ 31" "mu_playList m \<noteq> print_lines (media_lines target seq sgs)"
  shows "M3U8_Update (print_lines (media_lines target seq sgs)) m =
    Inr (True, m\<lparr>mu_targetDuration := rnd 53 (of_nat target), mu_bLive := False, mu_files := fragments (mu_uri m) seq sgs,
      mu_sequence := seq + length sgs, mu_discontSequence := mu_discontSequence m + int (length (filter sg_discont sgs)),
      mu_playList := print_lines (media_lines target seq sgs)\<rparr>)"
  by (rule M3U8_Update_print [OF assms])

theorem media_playlist_roundtrip_witness:
  "\<exists>m. M3U8_Update (print_lines (media_lines 10 7
      [\<lparr>sg_uri = ''a.ts'', sg_title = ''One'', sg_millis = 9500, sg_discont = False\<rparr>,
       \<lparr>sg_uri = ''b.ts'', sg_title = [], sg_millis = 4000, sg_discont = True\<rparr>])) (mk_M3U8 ''http://h/l.m3u8'' []) = Inr (True, m) \<and>
    map fr_uri (mu_files m) = [''http://h/a.ts'', ''http://h/b.ts''] \<and> map fr_sequence (mu_files m) = [7, 8] \<and> mu_discontSequence m = 1"
proof -
  let ?a = "\<lparr>sg_uri = ''a.ts'', sg_title = ''One'', sg_millis = 9500, sg_discont = False\<rparr>"
  let ?b = "\<lparr>sg_uri = ''b.ts'', sg_title = [], sg_millis = 4000, sg_discont = True\<rparr>"
  have ok: "\<forall>sg \<in> set [?a, ?b]. segment_ok sg" by (simp add: segment_ok_def line_ok_def title_ok_def name_char_def)
  have ne: "mu_playList (mk_M3U8 ''http://h/l.m3u8'' []) \<noteq> print_lines (media_lines 10 7 [?a, ?b])"
    by (simp add: mk_M3U8_def media_lines_def)
  show ?thesis
    using media_playlist_roundtrip [OF ok _ _ _ _ ne]
    by (simp add: mk_M3U8_def fragment_of_def UriJoin_def str_has_def str_rfind_char_def)
qed

section \<open>What the parser does not do\<close>

text \<open>A value with a colon in it is dropped: a fragment with a colon in its title loses its duration too, and reading the duration reads an
  uninitialised variable.\<close>

lemma Split_three:
  assumes "c \<notin> set xs" "c \<notin> set ys" "xs \<noteq> []" "ys \<noteq> []" "z \<noteq> []" "c \<notin> set z"
  shows "Split (xs @ c # ys @ c # z) [c] = [xs, ys, z]"
  using assms by (simp add: Split_def Split_loop_char Split_loop_None str_find_char_None)

lemma extinf_colon:
  assumes "CHR '':'' \<notin> set a" "CHR '':'' \<notin> set b" "b \<noteq> []"
  shows "ParseLine sc (''#EXTINF:'' @ print_millis n @ CHR '','' # a @ CHR '':'' # b) = Some (scan_tag (Some (factory_case EXTINF [])) sc)"
    and "GetExtInf (factory_case EXTINF []) = Inl Indeterminate"
proof -
  show "ParseLine sc (''#EXTINF:'' @ print_millis n @ CHR '','' # a @ CHR '':'' # b) = Some (scan_tag (Some (factory_case EXTINF [])) sc)"
    using Split_three [of "CHR '':''" "''EXTINF''" "print_millis n @ CHR '','' # a" b] assms
    by (simp add: ParseLine_def ParseTag_def str_has_def scan_tag_def create_known)
  show "GetExtInf (factory_case EXTINF []) = Inl Indeterminate"
    by (simp add: mk_ValuesListTag_def ValuesListTag_ParseAttributes_def AttributesTag_no_equals GetExtInf_def GetAttributeByName_def mk_Attribute_def
        FloatingPoint_def extract_double_def)
qed

text \<open>A fragment without a title, which the comment in the code knows of, dereferences a null pointer.\<close>

lemma extinf_no_title: "n < 2 ^ 64 \<Longrightarrow> GetExtInf (factory_case EXTINF (print_millis n)) = Inl Null_Pointer"
  using extract_double_millis [of n]
  by (simp add: mk_ValuesListTag_def ValuesListTag_ParseAttributes_def AttributesTag_no_equals str_find_char_None GetExtInf_def GetAttributeByName_def
      mk_Attribute_def FloatingPoint_def)

text \<open>An address that starts at the root of the server is joined to the directory of the playlist.\<close>

lemma UriJoin_root: "UriJoin ''http://h/p/l.m3u8'' ''/x.ts'' = ''http://h/p//x.ts''"
  by (simp add: UriJoin_def str_has_def str_rfind_char_def)

end
