(* ===== verification/Downloader.thy ===== *)
theory Downloader
  imports Sync_Primitives Text_Stream
begin

text \<open>
  The downloader of the HTTP source, \<^verbatim>\<open>download/downloader.cpp\<close> and \<^verbatim>\<open>download/http_curl_client.cpp\<close>: requests, the download loop and the
  callbacks that take headers and data. libcurl is outside: \<^verbatim>\<open>curl_easy_perform\<close> calls \<open>RxHeaderData\<close> once per header line and \<open>RxBodyData\<close> once per
  chunk and then ends with a code, so an iteration of the loop is split into its begin, the callbacks and its end. Requests are shared by
  pointer and live in a store. Variables the constructor leaves uninitialised are its \<open>junk\<close> arguments. The copy of the content type, which nothing
  reads, is left out.
\<close>

section \<open>Requests\<close>

record HeaderInfo =
  hi_fileContentLen :: nat
  hi_contentLen :: int
  hi_isChunked :: bool
  hi_isClosed :: bool

datatype NetworkClientErrorCode = NC_ERROR_OK | NC_ERROR_NOT_RETRY | NC_ERROR_TIME_OUT | NC_ERROR_UNKNOWN

record DownloadRequest =
  dr_url :: string
  dr_headerInfo :: HeaderInfo
  dr_isHeaderUpdated :: bool
  dr_isEos :: bool
  dr_startPos :: int
  dr_isDownloading :: bool
  dr_requestWholeFile :: bool
  dr_requestSize :: int
  dr_retryTimes :: int
  dr_clientError :: NetworkClientErrorCode
  dr_serverError :: int

definition mk_DownloadRequest :: "int \<times> bool \<times> int \<Rightarrow> string \<Rightarrow> bool \<Rightarrow> DownloadRequest" where
  "mk_DownloadRequest = (\<lambda>(junkPos, junkFlag, junkSize) url requestWholeFile.
     \<lparr>dr_url = url, dr_headerInfo = \<lparr>hi_fileContentLen = 0, hi_contentLen = 0, hi_isChunked = False, hi_isClosed = False\<rparr>,
      dr_isHeaderUpdated = False, dr_isEos = False, dr_startPos = junkPos, dr_isDownloading = junkFlag,
      dr_requestWholeFile = requestWholeFile, dr_requestSize = junkSize, dr_retryTimes = 0, dr_clientError = NC_ERROR_OK, dr_serverError = 0\<rparr>)"

definition HeaderInfo_Update :: "HeaderInfo \<Rightarrow> HeaderInfo \<Rightarrow> HeaderInfo" where
  "HeaderInfo_Update info h =
     h\<lparr>hi_fileContentLen := hi_fileContentLen info, hi_contentLen := hi_contentLen info, hi_isChunked := hi_isChunked info\<rparr>"

definition SaveHeader :: "HeaderInfo \<Rightarrow> DownloadRequest \<Rightarrow> DownloadRequest" where
  "SaveHeader header q = q\<lparr>dr_headerInfo := HeaderInfo_Update header (dr_headerInfo q), dr_isHeaderUpdated := True\<rparr>"

text \<open>
  The waits poll the request while another thread may change it: \<open>env\<close> is what happens to it until the wait for the header ends, at the latest
  after 200 rounds, and then until the wait for the length ends; that one has no limit, and \<open>None\<close> is that it does not end.
\<close>

definition WaitHeaderUpdated :: "(DownloadRequest \<Rightarrow> DownloadRequest) \<Rightarrow> DownloadRequest \<Rightarrow> DownloadRequest" where
  "WaitHeaderUpdated env q = (if dr_isHeaderUpdated q then q else env q)"

definition length_unknown :: "DownloadRequest \<Rightarrow> bool" where
  "length_unknown q =
     (hi_fileContentLen (dr_headerInfo q) = 0 \<and> \<not> hi_isChunked (dr_headerInfo q) \<and> \<not> hi_isClosed (dr_headerInfo q))"

definition GetFileContentLength :: "(DownloadRequest \<Rightarrow> DownloadRequest) \<Rightarrow> DownloadRequest \<Rightarrow> (nat \<times> DownloadRequest) option" where
  "GetFileContentLength env q =
     (let q1 = WaitHeaderUpdated env q; q2 = (if length_unknown q1 then env q1 else q1)
      in if length_unknown q2 then None else Some (hi_fileContentLen (dr_headerInfo q2), q2))"

definition IsChunked :: "(DownloadRequest \<Rightarrow> DownloadRequest) \<Rightarrow> DownloadRequest \<Rightarrow> bool \<times> DownloadRequest" where
  "IsChunked env q = (let q1 = WaitHeaderUpdated env q in (hi_isChunked (dr_headerInfo q1), q1))"

definition Request_Close :: "DownloadRequest \<Rightarrow> DownloadRequest" where
  "Request_Close q = q\<lparr>dr_headerInfo := (dr_headerInfo q)\<lparr>hi_isClosed := True\<rparr>\<rparr>"

definition IsSame :: "DownloadRequest \<Rightarrow> DownloadRequest \<Rightarrow> bool" where
  "IsSame a b = (dr_url a = dr_url b \<and> dr_startPos a = dr_startPos b)"

section \<open>Headers\<close>

text \<open>\<^verbatim>\<open>strtok_s\<close> with a colon: the token and what is left after its delimiter.\<close>

definition strtok_colon :: "string \<Rightarrow> (string \<times> string) option" where
  "strtok_colon s =
     (let r = dropWhile (\<lambda>c. c = CHR '':'') s
      in if r = [] then None
         else Some (takeWhile (\<lambda>c. c \<noteq> CHR '':'') r, drop 1 (dropWhile (\<lambda>c. c \<noteq> CHR '':'') r)))"

definition starts_with :: "string \<Rightarrow> string \<Rightarrow> bool" where
  "starts_with p s = (take (length p) s = p)"

definition StringTrim :: "string \<Rightarrow> string" where
  "StringTrim s = (let p = dropWhile is_space s in rev (dropWhile is_space (rev p)))"

text \<open>\<^verbatim>\<open>atol\<close>, saturating as \<^verbatim>\<open>strtol\<close> does.\<close>

definition atol :: "string \<Rightarrow> int" where
  "atol s =
     (let (neg, r) = take_sign (dropWhile is_space s)
      in fst (conv_signed 64 neg (digits_val 0 (takeWhile is_digit r))))"

text \<open>
  A header line. The format of the range, \<^verbatim>\<open>"bytes %uld-%uld/%uld"\<close>, reads one unsigned number and then expects the letters \<^verbatim>\<open>ld\<close>, so that the
  scan of a well-formed range stops after the first number: the length of the file is the value \<open>junk\<close> the variable had. Only a range that is written with these
  letters is scanned to its end; \<open>scan_range\<close> gives the third number there.
\<close>

definition scan_uld :: "string \<Rightarrow> (nat \<times> string) option" where
  "scan_uld s =
     (let (neg, r) = take_sign (dropWhile is_space s); ds = takeWhile is_digit r; r1 = dropWhile is_digit r
      in if ds = [] then None
         else Some (nat ((if neg then - int (digits_val 0 ds) else int (digits_val 0 ds)) mod 2 ^ 32), r1))"

definition scan_range :: "string \<Rightarrow> nat \<Rightarrow> nat" where
  "scan_range s junk =
     (if \<not> starts_with ''bytes'' s then junk
      else case scan_uld (dropWhile is_space (drop 5 s)) of
        None \<Rightarrow> junk
      | Some (_, r1) \<Rightarrow>
          if \<not> starts_with ''ld-'' r1 then junk
          else case scan_uld (drop 3 r1) of
            None \<Rightarrow> junk
          | Some (_, r2) \<Rightarrow>
              if \<not> starts_with ''ld/'' r2 then junk
              else case scan_uld (drop 3 r2) of
                None \<Rightarrow> junk
              | Some (fileLen, _) \<Rightarrow> (junk div 2 ^ 32) * 2 ^ 32 + fileLen)"

text \<open>The cases of the header in their order; \<open>None\<close> is an early return, which skips \<open>SaveHeader\<close>.\<close>

definition header_token :: "string list \<Rightarrow> string \<Rightarrow> string \<Rightarrow> string option option" where
  "header_token names key next =
     (if \<exists>n \<in> set names. starts_with n key
      then case strtok_colon next of None \<Rightarrow> None | Some (token, _) \<Rightarrow> Some (Some (StringTrim token))
      else Some None)"

definition RxHeaderData :: "nat \<Rightarrow> string \<Rightarrow> DownloadRequest \<Rightarrow> DownloadRequest" where
  "RxHeaderData junk line q =
     (case strtok_colon line of
        None \<Rightarrow> q
      | Some (key, next) \<Rightarrow>
          (case header_token [''Content-Type''] key next of
             None \<Rightarrow> q
           | Some _ \<Rightarrow>
               (case header_token [''Content-Length'', ''content-length''] key next of
                  None \<Rightarrow> q
                | Some cl \<Rightarrow>
                    let q1 = (case cl of None \<Rightarrow> q
                       | Some t \<Rightarrow> q\<lparr>dr_headerInfo := (dr_headerInfo q)\<lparr>hi_contentLen := atol t\<rparr>\<rparr>)
                    in (case header_token [''Transfer-Encoding'', ''transfer-encoding''] key next of
                          None \<Rightarrow> q1
                        | Some te \<Rightarrow>
                            let q2 = (case te of None \<Rightarrow> q1
                               | Some t \<Rightarrow> if starts_with ''chunked'' t
                                   then q1\<lparr>dr_headerInfo := (dr_headerInfo q1)\<lparr>hi_isChunked := True\<rparr>\<rparr> else q1)
                            in (case header_token [''Content-Range'', ''content-range''] key next of
                                  None \<Rightarrow> q2
                                | Some cr \<Rightarrow>
                                    let q3 = (case cr of None \<Rightarrow> q2
                                       | Some t \<Rightarrow> if hi_fileContentLen (dr_headerInfo q2) = 0
                                           then q2\<lparr>dr_headerInfo := (dr_headerInfo q2)\<lparr>hi_fileContentLen := scan_range t junk\<rparr>\<rparr> else q2)
                                    in SaveHeader (dr_headerInfo q3) q3)))))"

section \<open>Data\<close>

text \<open>
  \<open>save\<close> is the request's \<^verbatim>\<open>saveData_\<close>, which works on the state \<open>w\<close> of the request's owner and may look at the request; \<open>None\<close> is a save that waits. The first component of the
  result says whether libcurl sees the whole chunk accepted.
\<close>

type_synonym ('b, 'w) save_data = "DownloadRequest \<Rightarrow> 'b list \<Rightarrow> 'w \<Rightarrow> (bool \<times> 'w) option"

definition RxBodyData :: "('b, 'w) save_data \<Rightarrow> 'b list \<Rightarrow> DownloadRequest \<times> 'w \<Rightarrow> (nat \<times> DownloadRequest \<times> 'w) option" where
  "RxBodyData save buffer = (\<lambda>(q, w).
     let header = dr_headerInfo q
     in if hi_fileContentLen header = 0 \<and> \<not> 0 < hi_contentLen header then Some (0, q, w)
        else
          let q1 = (if hi_fileContentLen header = 0
                    then q\<lparr>dr_headerInfo := header\<lparr>hi_fileContentLen := nat (hi_contentLen header)\<rparr>\<rparr> else q);
              q2 = q1\<lparr>dr_isDownloading := True\<rparr>
          in (case save q2 buffer w of
                None \<Rightarrow> None
              | Some (False, w1) \<Rightarrow> Some (0, q2, w1)
              | Some (True, w1) \<Rightarrow>
                  Some (length buffer, q2\<lparr>dr_isDownloading := False, dr_startPos := dr_startPos q2 + int (length buffer)\<rparr>, w1)))"

section \<open>The client\<close>

text \<open>The range of a handle stays set until the handle is replaced.\<close>

record easy_handle =
  eh_url :: string
  eh_range :: "(int \<times> int option) option"

definition UrlParse :: "string \<Rightarrow> string" where
  "UrlParse url = concat (map (\<lambda>c. if c = CHR '' '' then ''%20'' else [c]) url)"

definition Client_Open :: "string \<Rightarrow> easy_handle option" where
  "Client_Open url = Some \<lparr>eh_url = UrlParse url, eh_range = None\<rparr>"

definition RequestData_begin :: "int \<Rightarrow> int \<Rightarrow> easy_handle \<Rightarrow> easy_handle" where
  "RequestData_begin startPos len h =
     (if startPos \<ge> 0 then h\<lparr>eh_range := Some (startPos, if len > 0 then Some (startPos + len - 1) else None)\<rparr> else h)"

datatype curl_code = CURLE_OK | CURLE_WRITE_ERROR | CURLE_COULDNT_CONNECT | CURLE_OPERATION_TIMEDOUT | CURLE_OTHER

datatype request_status = Request_OK | Request_ERROR_NULL_POINTER | Request_ERROR_CLIENT | Request_ERROR_SERVER

definition RequestData_end :: "curl_code \<Rightarrow> int \<Rightarrow> request_status \<times> int \<times> NetworkClientErrorCode" where
  "RequestData_end returnCode httpCode =
     (if returnCode \<noteq> CURLE_OK
      then (Request_ERROR_CLIENT, 0,
            if returnCode = CURLE_WRITE_ERROR then NC_ERROR_NOT_RETRY
            else if returnCode = CURLE_COULDNT_CONNECT \<or> returnCode = CURLE_OPERATION_TIMEDOUT then NC_ERROR_TIME_OUT
            else NC_ERROR_UNKNOWN)
      else if httpCode \<ge> 400 then (Request_ERROR_SERVER, httpCode, NC_ERROR_OK)
      else (Request_OK, 0, NC_ERROR_OK))"

section \<open>The downloader\<close>

datatype dl_task = DL_Started | DL_Paused | DL_Stopped

record downloader =
  dl_store :: "DownloadRequest list"
  dl_requestQue :: "nat bqueue"
  dl_currentRequest :: "nat option"
  dl_shouldStartNextRequest :: bool
  dl_client :: "easy_handle option"
  dl_task :: dl_task

definition PER_REQUEST_SIZE :: int where
  "PER_REQUEST_SIZE = 48 * 1024 * 10"

definition REQUEST_QUEUE_SIZE :: nat where
  "REQUEST_QUEUE_SIZE = 50"

definition mk_Downloader :: downloader where
  "mk_Downloader =
     \<lparr>dl_store = [], dl_requestQue = BlockingQueue REQUEST_QUEUE_SIZE, dl_currentRequest = None, dl_shouldStartNextRequest = True,
      dl_client = None, dl_task = DL_Stopped\<rparr>"

definition upd_request :: "nat \<Rightarrow> (DownloadRequest \<Rightarrow> DownloadRequest) \<Rightarrow> downloader \<Rightarrow> downloader" where
  "upd_request k f d = d\<lparr>dl_store := (dl_store d)[k := f (dl_store d ! k)]\<rparr>"

definition upd_current :: "(DownloadRequest \<Rightarrow> DownloadRequest) \<Rightarrow> downloader \<Rightarrow> downloader" where
  "upd_current f d = (case dl_currentRequest d of None \<Rightarrow> d | Some k \<Rightarrow> upd_request k f d)"

definition Download :: "(nat bqueue \<Rightarrow> nat bqueue) \<Rightarrow> nat \<Rightarrow> int \<Rightarrow> downloader \<Rightarrow> (bool \<times> downloader) option" where
  "Download others request waitMs d =
     (let que = BQ_SetActive True True (dl_requestQue d)
      in if waitMs = -1
         then (case BQ_Push others request que of None \<Rightarrow> None | Some (_, que') \<Rightarrow> Some (True, d\<lparr>dl_requestQue := que'\<rparr>))
         else (case BQ_Push_timeout others request que of (ok, que') \<Rightarrow> Some (ok, d\<lparr>dl_requestQue := que'\<rparr>)))"

definition Downloader_Start :: "downloader \<Rightarrow> downloader" where
  "Downloader_Start d = d\<lparr>dl_task := DL_Started\<rparr>"

definition Downloader_Pause :: "downloader \<Rightarrow> downloader" where
  "Downloader_Pause d = d\<lparr>dl_requestQue := BQ_SetActive False False (dl_requestQue d), dl_task := DL_Paused\<rparr>"

definition Downloader_Resume :: "downloader \<Rightarrow> downloader" where
  "Downloader_Resume d =
     Downloader_Start (upd_current (\<lambda>q. q\<lparr>dr_isEos := False\<rparr>) (d\<lparr>dl_requestQue := BQ_SetActive True True (dl_requestQue d)\<rparr>))"

definition Downloader_Stop :: "downloader \<Rightarrow> downloader" where
  "Downloader_Stop d = (upd_current Request_Close (d\<lparr>dl_requestQue := BQ_SetActive False True (dl_requestQue d)\<rparr>))\<lparr>dl_task := DL_Stopped\<rparr>"

text \<open>The mutex is held throughout, so that no other thread can update the request while the length is waited for: \<open>None\<close> is then a deadlock.\<close>

definition Downloader_Seek :: "(DownloadRequest \<Rightarrow> DownloadRequest) \<Rightarrow> int \<Rightarrow> downloader \<Rightarrow> (bool \<times> downloader) option" where
  "Downloader_Seek env offset d =
     (case dl_currentRequest d of
        None \<Rightarrow> Some (False, d)
      | Some k \<Rightarrow>
          (case GetFileContentLength env (dl_store d ! k) of
             None \<Rightarrow> None
           | Some (contentLength, q) \<Rightarrow>
               let q1 = (if 0 \<le> offset \<and> offset < int contentLength then q\<lparr>dr_startPos := offset\<rparr> else q)
               in (case GetFileContentLength env q1 of
                     None \<Rightarrow> None
                   | Some (len, q2) \<Rightarrow>
                       let temp = int len - dr_startPos q2
                       in Some (True, (upd_request k (\<lambda>_. q2\<lparr>dr_requestSize := swrap 32 (min temp PER_REQUEST_SIZE), dr_isEos := False\<rparr>) d)
                            \<lparr>dl_shouldStartNextRequest := False\<rparr>))))"

text \<open>\<open>pausing\<close> is what the running iteration of the loop still does until the task is paused, while the mutex is free.\<close>

definition Downloader_Retry :: "(downloader \<Rightarrow> downloader) \<Rightarrow> nat \<Rightarrow> downloader \<Rightarrow> bool \<times> downloader" where
  "Downloader_Retry pausing request d =
     (if dl_shouldStartNextRequest d then (False, d)
      else
        let d1 = (pausing (d\<lparr>dl_requestQue := BQ_SetActive False False (dl_requestQue d)\<rparr>))\<lparr>dl_task := DL_Paused\<rparr>
        in if dl_shouldStartNextRequest d1 then (False, d1)
           else
             let d2 = d1\<lparr>dl_client := None\<rparr>
             in (True, Downloader_Start
                  (case dl_currentRequest d2 of
                     None \<Rightarrow> d2
                   | Some k \<Rightarrow>
                       let d3 = (if IsSame (dl_store d2 ! k) (dl_store d2 ! request)
                                 then upd_request k (\<lambda>q. q\<lparr>dr_retryTimes := dr_retryTimes q + 1\<rparr>) d2 else d2)
                       in upd_request k (\<lambda>q. q\<lparr>dr_isEos := False\<rparr>)
                            (d3\<lparr>dl_client := Client_Open (dr_url (dl_store d3 ! k)),
                                dl_requestQue := BQ_SetActive True True (dl_requestQue d3)\<rparr>))))"

definition BeginDownload :: "nat \<Rightarrow> downloader \<Rightarrow> downloader" where
  "BeginDownload k d =
     (if dr_url (dl_store d ! k) = [] then d
      else upd_request k (\<lambda>q. q\<lparr>dr_requestSize := 1, dr_startPos := 0, dr_isEos := False, dr_retryTimes := 0\<rparr>)
             (d\<lparr>dl_client := Client_Open (dr_url (dl_store d ! k))\<rparr>))"

text \<open>The loop up to \<^verbatim>\<open>curl_easy_perform\<close>: \<open>True\<close> when the transfer starts. Without a handle the request fails at once.\<close>

definition start_position :: "DownloadRequest \<Rightarrow> int" where
  "start_position q = (if dr_requestWholeFile q then -1 else dr_startPos q)"

definition HttpDownloadLoop_begin :: "(nat bqueue \<Rightarrow> nat bqueue) \<Rightarrow> downloader \<Rightarrow> bool \<times> downloader" where
  "HttpDownloadLoop_begin others d =
     (let (go, d1) =
        (if dl_shouldStartNextRequest d
         then (case BQ_Pop_timeout others (dl_requestQue d) of
             (None, que) \<Rightarrow> (False, d\<lparr>dl_requestQue := que\<rparr>)
           | (Some k, que) \<Rightarrow>
               (True, (BeginDownload k (d\<lparr>dl_requestQue := que, dl_currentRequest := Some k\<rparr>))\<lparr>dl_shouldStartNextRequest := False\<rparr>))
         else (True, d))
      in if \<not> go then (False, d1)
         else case dl_currentRequest d1 of
           None \<Rightarrow> (False, d1)
         | Some k \<Rightarrow>
             let q = dl_store d1 ! k
             in (True, d1\<lparr>dl_client := map_option (RequestData_begin (start_position q) (dr_requestSize q)) (dl_client d1)\<rparr>))"

definition finish_request :: "nat \<Rightarrow> downloader \<Rightarrow> downloader" where
  "finish_request k d =
     (let d1 = upd_request k (\<lambda>q. q\<lparr>dr_isEos := True\<rparr>) d
      in (if w_que (dl_requestQue d1) = [] then d1\<lparr>dl_task := DL_Paused\<rparr> else d1)\<lparr>dl_shouldStartNextRequest := True\<rparr>)"

definition HandleRetOK :: "nat \<Rightarrow> downloader \<Rightarrow> downloader" where
  "HandleRetOK k d0 =
     (let d = upd_request k (\<lambda>q. if dr_retryTimes q > 0 then q\<lparr>dr_retryTimes := 0\<rparr> else q) d0;
          q = dl_store d ! k; len = hi_fileContentLen (dr_headerInfo q); remaining = int len - dr_startPos q
      in if len > 0 \<and> remaining \<le> 0 then finish_request k d
         else if len = 0 \<and> remaining \<le> 0 then finish_request k (upd_request k Request_Close d)
         else upd_request k (\<lambda>q. q\<lparr>dr_requestSize := (if remaining < PER_REQUEST_SIZE then remaining else PER_REQUEST_SIZE)\<rparr>) d)"

text \<open>The loop after the transfer; \<open>True\<close> when the status callback is called.\<close>

definition HttpDownloadLoop_end :: "curl_code \<Rightarrow> int \<Rightarrow> downloader \<Rightarrow> bool \<times> downloader" where
  "HttpDownloadLoop_end code httpCode d =
     (case dl_currentRequest d of
        None \<Rightarrow> (False, d)
      | Some k \<Rightarrow>
          let (ret, serverCode, clientCode) =
                (if dl_client d = None then (Request_ERROR_NULL_POINTER, 0, NC_ERROR_OK) else RequestData_end code httpCode);
              d1 = upd_request k (\<lambda>q. q\<lparr>dr_clientError := clientCode, dr_serverError := serverCode\<rparr>) d
          in if ret = Request_OK then (False, HandleRetOK k d1) else (True, d1\<lparr>dl_task := DL_Paused\<rparr>))"

end
