(* ===== verification/Engine_Ring.thy ===== *)
theory Engine_Ring
  imports Ring_Buffer
begin

text \<open>
  The byte ring of the engine's downloaders, \<^verbatim>\<open>engine/include/foundation/utils/ring_buffer.h\<close>, an earlier version of the class modelled in
  \<open>Ring_Buffer\<close>, over the same state: there is no switch that forbids blocking reads, a write does not check for positions near the end of the
  64-bit range, and a seek only goes forward within the data and leaves \<^verbatim>\<open>mediaOffset_\<close> alone.
\<close>

section \<open>Operations\<close>

fun ering_wait :: "(ring \<Rightarrow> ring) \<Rightarrow> nat \<Rightarrow> ring \<Rightarrow> bool \<times> ring" where
  "ering_wait others 0 r = (True, r)"
| "ering_wait others (Suc waitTimes) r =
     (if Ring_GetSize r \<noteq> 0 then (True, r)
      else let r1 = others r in if \<not> r_isActive r1 then (False, r1) else ering_wait others waitTimes r1)"

definition ERing_ReadBuffer :: "(ring \<Rightarrow> ring) \<Rightarrow> bool \<Rightarrow> nat \<Rightarrow> int \<Rightarrow> ring \<Rightarrow> nat \<times> 8 word list \<times> ring" where
  "ERing_ReadBuffer others has_ptr readSize waitTimes r =
     (if \<not> r_isActive r then (0, [], r)
      else case ering_wait others (nat waitTimes) r of (go, r1) \<Rightarrow>
        if \<not> go then (0, [], r1)
        else if \<not> has_ptr then (0, [], r1)
        else
          let available = (if Ring_GetSize r1 > readSize then readSize else Ring_GetSize r1);
              index = r_head r1 mod r_bufferSize r1
          in (available, copy_out (r_buffer r1) (r_bufferSize r1) index available,
              r1\<lparr>r_head := add64 (r_head r1) available, r_mediaOffset := add64 (r_mediaOffset r1) available\<rparr>))"

definition ERing_WriteBuffer :: "(ring \<Rightarrow> ring) \<Rightarrow> bool \<Rightarrow> 8 word list \<Rightarrow> ring \<Rightarrow> (bool \<times> ring) option" where
  "ERing_WriteBuffer others has_ptr src r =
     (if \<not> r_isActive r then Some (False, r)
      else
        let waits = write_blocked (length src) r;
            r1 = (if waits then others r else r)
        in if waits \<and> \<not> r_isActive r1 then Some (False, r1)
           else if waits \<and> write_blocked (length src) r1 then None
           else if \<not> has_ptr then Some (False, r1)
           else Some (True, r1\<lparr>r_buffer := copy_in (r_buffer r1) (r_bufferSize r1) (r_tail r1 mod r_bufferSize r1) src,
                               r_tail := add64 (r_tail r1) (length src)\<rparr>))"

definition ERing_Seek :: "nat \<Rightarrow> ring \<Rightarrow> bool \<times> ring" where
  "ERing_Seek offset r =
     (if offset \<ge> r_mediaOffset r \<and> offset - r_mediaOffset r < Ring_GetSize r
      then (True, r\<lparr>r_head := add64 (r_head r) (offset - r_mediaOffset r)\<rparr>)
      else (False, r))"

section \<open>The history\<close>

lemma ERing_Read_holds:
  assumes "ring_holds h r" "ERing_ReadBuffer others True n 0 r = (k, bytes, r')" "r_isActive r"
  shows "k = min n (length h - r_head r) \<and> bytes = take k (drop (r_head r) h) \<and> ring_holds h r' \<and>
    r_head r' = r_head r + k \<and> r_mediaOffset r' = add64 (r_mediaOffset r) k \<and> r_tail r' = r_tail r \<and>
    r_bufferSize r' = r_bufferSize r \<and> r_isActive r'"
proof -
  have k: "k = min n (length h - r_head r)"
    using assms ring_GetSize [OF assms(1)] by (auto simp: ERing_ReadBuffer_def Let_def split: if_splits)
  moreover have "add64 (r_head r) k = r_head r + k"
    using k assms(1) by (intro add64_id) (auto simp: ring_holds_def)
  moreover have "bytes = copy_out (r_buffer r) (r_bufferSize r) (r_head r mod r_bufferSize r) k"
    "r' = r\<lparr>r_head := add64 (r_head r) k, r_mediaOffset := add64 (r_mediaOffset r) k\<rparr>"
    using assms(2,3) by (auto simp: ERing_ReadBuffer_def Let_def split: if_splits)
  ultimately show ?thesis
    using assms(1,3) ring_read_slice [OF assms(1), of k] by (auto simp: ring_holds_def)
qed

lemma ERing_Write_holds:
  assumes h: "ring_holds h r" and w: "ERing_WriteBuffer id True xs r = Some (True, r')"
    and room: "length h + length xs + r_bufferSize r < 2 ^ 64"
  shows "ring_holds (h @ xs) r' \<and> r_head r' = r_head r \<and> r_mediaOffset r' = r_mediaOffset r \<and> r_isActive r' = r_isActive r \<and>
    r_bufferSize r' = r_bufferSize r"
proof -
  have nb: "\<not> write_blocked (length xs) r" and r': "r' = r\<lparr>r_buffer := copy_in (r_buffer r) (r_bufferSize r) (r_tail r mod r_bufferSize r) xs,
      r_tail := add64 (r_tail r) (length xs)\<rparr>"
    using w by (auto simp: ERing_WriteBuffer_def Let_def split: if_splits)
  have "add64 (length xs) (r_tail r) = length xs + length h" "add64 (r_head r) (r_bufferSize r) = r_head r + r_bufferSize r"
    using h room by (auto intro!: add64_id simp: ring_holds_def)
  then have "length h + length xs \<le> r_head r + r_bufferSize r" using nb by (simp add: write_blocked_def)
  from write_holds [OF h this room] r' show ?thesis by simp
qed

text \<open>A write to an inactive ring is refused.\<close>

lemma ERing_Write_refused: "ERing_WriteBuffer id True xs r = Some (False, r') \<Longrightarrow> \<not> r_isActive r \<and> r' = r"
  by (auto simp: ERing_WriteBuffer_def Let_def split: if_splits)

lemma ERing_Seek_holds:
  assumes h: "ring_holds h r" and sk: "ERing_Seek offset r = (ok, r')"
  shows "ring_holds h r' \<and> r_bufferSize r' = r_bufferSize r \<and> r_tail r' = r_tail r \<and> r_mediaOffset r' = r_mediaOffset r \<and> r_isActive r' = r_isActive r \<and>
    (ok \<longrightarrow> r_mediaOffset r \<le> offset \<and> r_head r' = r_head r + (offset - r_mediaOffset r)) \<and> (\<not> ok \<longrightarrow> r' = r)"
proof (cases "r_mediaOffset r \<le> offset \<and> offset - r_mediaOffset r < Ring_GetSize r")
  case True
  have t: "r_tail r = length h" "r_head r \<le> length h" "length h + r_bufferSize r < 2 ^ 64"
    "offset - r_mediaOffset r < length h - r_head r"
    using h True ring_GetSize [OF h] by (auto simp: ring_holds_def)
  then have "add64 (r_head r) (offset - r_mediaOffset r) = r_head r + (offset - r_mediaOffset r)"
    by (intro add64_id) linarith
  then show ?thesis using sk True h t by (auto simp: ERing_Seek_def ring_holds_def)
next
  case False
  then show ?thesis using sk h by (auto simp: ERing_Seek_def)
qed

lemma Clear_holds:
  assumes "0 < r_bufferSize r" "length (r_buffer r) = r_bufferSize r" "r_bufferSize r < 2 ^ 64"
  shows "ring_holds [] (Ring_Clear r)"
  using assms by (simp add: ring_holds_def Ring_Clear_def)

end
