(* ===== verification/Http_Downloader.thy ===== *)
theory Http_Downloader
  imports Downloader Engine_Ring
begin

text \<open>
  The downloader of a media file over HTTP, \<^verbatim>\<open>http/http_media_downloader.cpp\<close>: the ring it fills from the callbacks of the \<open>Downloader\<close> and
  reads for the player. \<open>http_step\<close> is the system of its threads: the download task, whose iterations are split at every callback, and the player's thread that
  reads, seeks, pauses and resumes. The server is a parameter: \<open>serves p chunk\<close> says that it may send \<open>chunk\<close> as the bytes from position \<open>p\<close> on, which is
  where the range of the request starts plus what it has sent of its body. What it sends in the headers, how it cuts the data into chunks and where
  a transfer breaks off is open.
\<close>

section \<open>State and operations\<close>

record http_md =
  hm_ring :: ring
  hm_dl :: downloader
  hm_request :: "nat option"
  hm_aboveWaterline :: bool
  hm_startedPlayStatus :: bool
  hm_statusCallback :: bool

definition HTTP_RING_BUFFER_SIZE :: nat where
  "HTTP_RING_BUFFER_SIZE = 5 * 1024 * 1024"

definition WATER_LINE :: nat where
  "WATER_LINE = 8192"

definition mk_HttpMediaDownloader :: "nat \<Rightarrow> http_md" where
  "mk_HttpMediaDownloader bufsize =
     \<lparr>hm_ring = Ring_Init (RingBuffer bufsize), hm_dl = mk_Downloader, hm_request = None, hm_aboveWaterline = False,
      hm_startedPlayStatus = False, hm_statusCallback = False\<rparr>"

definition Http_SetStatusCallback :: "http_md \<Rightarrow> http_md" where
  "Http_SetStatusCallback m = m\<lparr>hm_statusCallback := True\<rparr>"

definition Http_Open :: "int \<times> bool \<times> int \<Rightarrow> string \<Rightarrow> http_md \<Rightarrow> (bool \<times> http_md) option" where
  "Http_Open junk url m =
     (if \<not> hm_statusCallback m then Some (False, m)
      else
        let k = length (dl_store (hm_dl m));
            d = (hm_dl m)\<lparr>dl_store := dl_store (hm_dl m) @ [mk_DownloadRequest junk url False]\<rparr>
        in (case Download id k (-1) d of
              None \<Rightarrow> None
            | Some (_, d1) \<Rightarrow>
                Some (True, m\<lparr>hm_request := Some k, hm_ring := Ring_SetMediaOffset 0 (hm_ring m), hm_dl := Downloader_Start d1\<rparr>)))"

definition Http_Close :: "http_md \<Rightarrow> http_md" where
  "Http_Close m = m\<lparr>hm_ring := Ring_SetActive False True (hm_ring m), hm_dl := Downloader_Stop (hm_dl m)\<rparr>"

text \<open>
  \<^verbatim>\<open>Pause\<close> and a \<^verbatim>\<open>Seek\<close> that misses the ring in two halves: the second runs when the task has come to rest. \<open>chunked\<close> is what \<^verbatim>\<open>GetSeekable\<close> found.
\<close>

definition Http_Pause_begin :: "bool \<Rightarrow> http_md \<Rightarrow> http_md" where
  "Http_Pause_begin chunked m = m\<lparr>hm_ring := Ring_SetActive False chunked (hm_ring m)\<rparr>"

definition Http_Pause_end :: "http_md \<Rightarrow> http_md" where
  "Http_Pause_end m = m\<lparr>hm_dl := Downloader_Pause (hm_dl m)\<rparr>"

definition Http_Resume :: "http_md \<Rightarrow> http_md" where
  "Http_Resume m = m\<lparr>hm_ring := Ring_SetActive True True (hm_ring m), hm_dl := Downloader_Resume (hm_dl m)\<rparr>"

definition Http_Seek_begin :: "int \<Rightarrow> http_md \<Rightarrow> bool \<times> http_md" where
  "Http_Seek_begin offset m =
     (case ERing_Seek (nat (offset mod 2 ^ 64)) (hm_ring m) of
        (True, r) \<Rightarrow> (True, m\<lparr>hm_ring := r\<rparr>)
      | (False, r) \<Rightarrow> (False, m\<lparr>hm_ring := Ring_SetActive False True r\<rparr>))"

definition Http_Seek_end :: "(DownloadRequest \<Rightarrow> DownloadRequest) \<Rightarrow> int \<Rightarrow> http_md \<Rightarrow> (bool \<times> http_md) option" where
  "Http_Seek_end env offset m =
     (let r = Ring_SetActive True True (Ring_Clear (hm_ring m))
      in case Downloader_Seek env offset (Downloader_Pause (hm_dl m)) of
           None \<Rightarrow> None
         | Some (result, d) \<Rightarrow>
             Some (result, m\<lparr>hm_ring := (if result then Ring_SetMediaOffset (nat (offset mod 2 ^ 64)) r else r), hm_dl := Downloader_Resume d\<rparr>))"

text \<open>
  The read: the two waits are given the state at each look at the ring (\<open>looks\<close>, the first of them now), and \<open>None\<close> is that it still waits at the last of them.
  The transfer of the data is \<open>ERing_ReadBuffer\<close>.
\<close>

definition http_request :: "http_md \<Rightarrow> DownloadRequest" where
  "http_request m = dl_store (hm_dl m) ! the (hm_request m)"

fun Http_Read_wait :: "http_md \<Rightarrow> (http_md \<Rightarrow> http_md) list \<Rightarrow> (bool \<times> bool \<times> http_md \<times> (http_md \<Rightarrow> http_md) list) option" where
  "Http_Read_wait m looks =
     (if Ring_GetSize (hm_ring m) \<noteq> 0 then Some (True, False, m, looks)
      else if dr_isEos (http_request m) \<or> hi_isClosed (dr_headerInfo (http_request m))
      then Some (False, dr_isEos (http_request m), m, looks)
      else case looks of [] \<Rightarrow> None | f # fs \<Rightarrow> Http_Read_wait (f m) fs)"

fun Http_Read_more :: "nat \<Rightarrow> http_md \<Rightarrow> (http_md \<Rightarrow> http_md) list \<Rightarrow> http_md option" where
  "Http_Read_more want m looks =
     (if Ring_GetSize (hm_ring m) \<ge> want \<or> dr_isEos (http_request m) \<or> hi_isClosed (dr_headerInfo (http_request m)) then Some m
      else case looks of [] \<Rightarrow> None | f # fs \<Rightarrow> Http_Read_more want (f m) fs)"

definition Http_Read :: "(http_md \<Rightarrow> http_md) list \<Rightarrow> (ring \<Rightarrow> ring) \<Rightarrow> nat \<Rightarrow> http_md \<Rightarrow> (bool \<times> bool \<times> 8 word list \<times> http_md) option" where
  "Http_Read looks others want m =
     (case Http_Read_wait m looks of
        None \<Rightarrow> None
      | Some (False, isEos, m1, _) \<Rightarrow> Some (False, isEos, [], m1)
      | Some (True, _, m1, looks1) \<Rightarrow>
          (case GetFileContentLength id (http_request m1) of
             None \<Rightarrow> None
           | Some (len, _) \<Rightarrow>
               (case (if add64 (r_mediaOffset (hm_ring m1)) want \<le> len \<and> Ring_GetSize (hm_ring m1) < want
                      then Http_Read_more want m1 looks1 else Some m1) of
                  None \<Rightarrow> None
                | Some m2 \<Rightarrow>
                    (case ERing_ReadBuffer others True want 2 (hm_ring m2) of
                       (_, bytes, r) \<Rightarrow> Some (True, False, bytes, m2\<lparr>hm_ring := r\<rparr>)))))"

definition Http_GetSeekable :: "(DownloadRequest \<Rightarrow> DownloadRequest) \<Rightarrow> http_md \<Rightarrow> bool" where
  "Http_GetSeekable env m = (\<not> fst (IsChunked env (http_request m)))"

text \<open>The data callback, with the event it sends: above or below the water line.\<close>

datatype water_event = ABOVE_LOW_WATERLINE | BELOW_LOW_WATERLINE

definition Http_SaveData :: "(ring \<Rightarrow> ring) \<Rightarrow> DownloadRequest \<Rightarrow> 8 word list \<Rightarrow> http_md \<Rightarrow> (bool \<times> water_event option \<times> http_md) option" where
  "Http_SaveData others q data m =
     (case ERing_WriteBuffer others True data (hm_ring m) of
        None \<Rightarrow> None
      | Some (False, r) \<Rightarrow> Some (False, None, m\<lparr>hm_ring := r\<rparr>)
      | Some (True, r) \<Rightarrow>
          let m1 = m\<lparr>hm_ring := r\<rparr>; bufferSize = Ring_GetSize r
          in if (bufferSize \<ge> WATER_LINE \<or> bufferSize \<ge> hi_fileContentLen (dr_headerInfo q) div 2) \<and> \<not> hm_aboveWaterline m1
             then Some (True, Some ABOVE_LOW_WATERLINE, m1\<lparr>hm_aboveWaterline := True, hm_startedPlayStatus := True\<rparr>)
             else if bufferSize < WATER_LINE \<and> hm_aboveWaterline m1
             then Some (True, Some BELOW_LOW_WATERLINE, m1\<lparr>hm_aboveWaterline := False\<rparr>)
             else Some (True, None, m1))"

declare Http_Read_wait.simps [simp del] Http_Read_more.simps [simp del]

section \<open>The threads\<close>

text \<open>
  The state of the system: the transfer in progress, as the position in the file the server sends next and whether all data was accepted so far; the control
  operation the player's thread is in the middle of; and, for the specification only, whether the offset of the ring is known to be that of its data.
\<close>

datatype http_ctl = Ctl_None | Ctl_Seeking int | Ctl_Pausing

record http_sys =
  y_md :: http_md
  y_transfer :: "(nat \<times> bool) option"
  y_ctl :: http_ctl
  y_synced :: bool

definition http_save :: "DownloadRequest \<Rightarrow> 8 word list \<Rightarrow> http_md \<Rightarrow> (bool \<times> http_md) option" where
  "http_save q data m = (case Http_SaveData id q data m of None \<Rightarrow> None | Some (ok, _, m') \<Rightarrow> Some (ok, m'))"

definition http_rx_body :: "8 word list \<Rightarrow> http_md \<Rightarrow> (nat \<times> http_md) option" where
  "http_rx_body chunk m =
     (case dl_currentRequest (hm_dl m) of
        None \<Rightarrow> None
      | Some k \<Rightarrow>
          (case RxBodyData http_save chunk (dl_store (hm_dl m) ! k, m) of
             None \<Rightarrow> None
           | Some (n, q, m') \<Rightarrow> Some (n, m'\<lparr>hm_dl := upd_request k (\<lambda>_. q) (hm_dl m')\<rparr>)))"

text \<open>The position a transfer starts at.\<close>

definition served_from :: "downloader \<Rightarrow> nat" where
  "served_from d =
     (case dl_client d of
        Some h \<Rightarrow> (case eh_range h of Some (a, _) \<Rightarrow> nat a | None \<Rightarrow> 0)
      | None \<Rightarrow> 0)"

text \<open>A server that answers with the bytes of the file from the requested position on: it sends no page for an error, whose body the code would store
  as it stores any other, and does not ignore the range.\<close>

definition serves_file :: "8 word list \<Rightarrow> (nat \<Rightarrow> 8 word list \<Rightarrow> bool) \<Rightarrow> bool" where
  "serves_file media serves = (\<forall>p chunk. serves p chunk \<longrightarrow> chunk = take (length chunk) (drop p media))"

inductive http_step :: "(nat \<Rightarrow> 8 word list \<Rightarrow> bool) \<Rightarrow> http_sys \<Rightarrow> http_sys \<Rightarrow> bool" for serves where
  loop_begin: "y_transfer s = None \<Longrightarrow> dl_task (hm_dl (y_md s)) = DL_Started \<Longrightarrow>
    HttpDownloadLoop_begin id (hm_dl (y_md s)) = (True, d) \<Longrightarrow>
    http_step serves s (s\<lparr>y_md := (y_md s)\<lparr>hm_dl := d\<rparr>, y_transfer := Some (served_from d, True)\<rparr>)"
| no_request: "y_transfer s = None \<Longrightarrow> dl_task (hm_dl (y_md s)) = DL_Started \<Longrightarrow>
    HttpDownloadLoop_begin id (hm_dl (y_md s)) = (False, d) \<Longrightarrow>
    http_step serves s (s\<lparr>y_md := (y_md s)\<lparr>hm_dl := d\<rparr>\<rparr>)"
| header: "y_transfer s = Some t \<Longrightarrow>
    http_step serves s (s\<lparr>y_md := (y_md s)\<lparr>hm_dl := upd_current (RxHeaderData junk line) (hm_dl (y_md s))\<rparr>\<rparr>)"
| body: "y_transfer s = Some (p, True) \<Longrightarrow> dl_client (hm_dl (y_md s)) \<noteq> None \<Longrightarrow> chunk \<noteq> [] \<Longrightarrow>
    serves p chunk \<Longrightarrow> http_rx_body chunk (y_md s) = Some (n, m) \<Longrightarrow>
    http_step serves s (s\<lparr>y_md := m, y_transfer := Some (p + length chunk, n = length chunk)\<rparr>)"
| loop_end: "y_transfer s = Some (p, ok) \<Longrightarrow> (\<not> ok \<Longrightarrow> code = CURLE_WRITE_ERROR) \<Longrightarrow>
    http_step serves s (s\<lparr>y_md := (y_md s)\<lparr>hm_dl := snd (HttpDownloadLoop_end code httpCode (hm_dl (y_md s)))\<rparr>, y_transfer := None\<rparr>)"
| retry: "y_transfer s = None \<Longrightarrow>
    http_step serves s (s\<lparr>y_md := (y_md s)\<lparr>hm_dl := snd (Downloader_Retry id request (hm_dl (y_md s)))\<rparr>\<rparr>)"
| read: "y_ctl s = Ctl_None \<Longrightarrow> Http_Read [] id want (y_md s) = Some (ok, eos, bytes, m) \<Longrightarrow>
    http_step serves s (s\<lparr>y_md := m\<rparr>)"
| seek_hit: "y_ctl s = Ctl_None \<Longrightarrow> - (2 ^ 31) \<le> offset \<Longrightarrow> offset < 2 ^ 31 \<Longrightarrow> Http_Seek_begin offset (y_md s) = (True, m) \<Longrightarrow>
    http_step serves s (s\<lparr>y_md := m, y_synced := (y_synced s \<and> offset mod 2 ^ 64 = int (r_mediaOffset (hm_ring (y_md s))))\<rparr>)"
| seek_miss: "y_ctl s = Ctl_None \<Longrightarrow> - (2 ^ 31) \<le> offset \<Longrightarrow> offset < 2 ^ 31 \<Longrightarrow> Http_Seek_begin offset (y_md s) = (False, m) \<Longrightarrow>
    http_step serves s (s\<lparr>y_md := m, y_ctl := Ctl_Seeking offset\<rparr>)"
| seek_end: "y_ctl s = Ctl_Seeking offset \<Longrightarrow> y_transfer s = None \<Longrightarrow> Http_Seek_end id offset (y_md s) = Some (result, m) \<Longrightarrow>
    http_step serves s (s\<lparr>y_md := m, y_ctl := Ctl_None,
      y_synced := (if result then 0 \<le> offset \<and> offset < int (hi_fileContentLen (dr_headerInfo (http_request m))) else y_synced s)\<rparr>)"
| pause: "y_ctl s = Ctl_None \<Longrightarrow> chunked = hi_isChunked (dr_headerInfo (http_request (y_md s))) \<Longrightarrow>
    http_step serves s (s\<lparr>y_md := Http_Pause_begin chunked (y_md s), y_ctl := Ctl_Pausing, y_synced := (y_synced s \<and> \<not> chunked)\<rparr>)"
| pause_end: "y_ctl s = Ctl_Pausing \<Longrightarrow> y_transfer s = None \<Longrightarrow>
    http_step serves s (s\<lparr>y_md := Http_Pause_end (y_md s), y_ctl := Ctl_None\<rparr>)"
| resume: "y_ctl s = Ctl_None \<Longrightarrow> http_step serves s (s\<lparr>y_md := Http_Resume (y_md s)\<rparr>)"

inductive http_reach :: "(nat \<Rightarrow> 8 word list \<Rightarrow> bool) \<Rightarrow> http_sys \<Rightarrow> http_sys \<Rightarrow> bool" for serves s0 where
  refl: "http_reach serves s0 s0"
| step: "http_reach serves s0 s \<Longrightarrow> http_step serves s s' \<Longrightarrow> http_reach serves s0 s'"

text \<open>A downloader just opened.\<close>

definition http_opened :: "nat \<Rightarrow> int \<times> bool \<times> int \<Rightarrow> string \<Rightarrow> http_sys option" where
  "http_opened bufsize junk url =
     (case Http_Open junk url (Http_SetStatusCallback (mk_HttpMediaDownloader bufsize)) of
        Some (True, m) \<Rightarrow> Some \<lparr>y_md = m, y_transfer = None, y_ctl = Ctl_None, y_synced = True\<rparr>
      | _ \<Rightarrow> None)"

end
