(* ===== verification/Hls_Downloader.thy ===== *)
theory Hls_Downloader
  imports M3u8 Downloader Engine_Ring "HOL-Library.List_Lexorder" "HOL-Library.Char_ord"
begin

text \<open>
  The HLS downloaders: \<^verbatim>\<open>hls/playlist_downloader.cpp\<close> and \<^verbatim>\<open>hls/hls_playlist_downloader.cpp\<close> fetch and refresh the playlist,
  \<^verbatim>\<open>hls/hls_media_downloader.cpp\<close> queues the fragments and downloads them into the ring. Each owns a \<open>Downloader\<close>. An operation that
  hands it a request waits for room in its queue, and \<open>None\<close> is that it waits for ever.
\<close>

section \<open>Requests\<close>

text \<open>A new request, for a whole file, and the addresses of all requests made so far. \<open>junk\<close> are the uninitialised members of the request.\<close>

definition request_whole ::
  "(nat bqueue \<Rightarrow> nat bqueue) \<Rightarrow> int \<times> bool \<times> int \<Rightarrow> string \<Rightarrow> downloader \<Rightarrow> downloader option" where
  "request_whole others junk url d =
     map_option (Downloader_Start \<circ> snd)
       (Download others (length (dl_store d)) (-1) (d\<lparr>dl_store := dl_store d @ [mk_DownloadRequest junk url True]\<rparr>))"

definition requested :: "downloader \<Rightarrow> string list" where
  "requested d = map dr_url (dl_store d)"

section \<open>The playlist\<close>

datatype Seekable = SEEKABLE_INVALID | UNSEEKABLE | SEEKABLE

record hls_pl =
  hp_url :: string
  hp_playList :: string
  hp_startedDownloadStatus :: bool
  hp_master :: "M3U8MasterPlaylist option"
  hp_variants :: variant_store
  hp_currentVariant :: "nat option"
  hp_updateTask :: dl_task
  hp_callback :: bool
  hp_dl :: downloader

definition mk_HlsPlayListDownloader :: hls_pl where
  "mk_HlsPlayListDownloader =
     \<lparr>hp_url = [], hp_playList = [], hp_startedDownloadStatus = False, hp_master = None, hp_variants = [], hp_currentVariant = None,
      hp_updateTask = DL_Stopped, hp_callback = False, hp_dl = mk_Downloader\<rparr>"

definition SetPlayListCallback :: "hls_pl \<Rightarrow> hls_pl" where
  "SetPlayListCallback p = p\<lparr>hp_callback := True\<rparr>"

text \<open>\<open>locked\<close> is that the calling thread holds the mutex of the downloader, which is not recursive.\<close>

definition DoOpen :: "bool \<Rightarrow> int \<times> bool \<times> int \<Rightarrow> string \<Rightarrow> hls_pl \<Rightarrow> hls_pl option" where
  "DoOpen locked junk url p =
     (if locked then None
      else map_option (\<lambda>d. p\<lparr>hp_playList := [], hp_dl := d\<rparr>) (request_whole id junk url (hp_dl p)))"

definition PlayList_Open :: "int \<times> bool \<times> int \<Rightarrow> string \<Rightarrow> hls_pl \<Rightarrow> hls_pl option" where
  "PlayList_Open junk url p = DoOpen False junk url (p\<lparr>hp_url := url, hp_master := None\<rparr>)"

definition UpdateManifest :: "bool \<Rightarrow> int \<times> bool \<times> int \<Rightarrow> hls_pl \<Rightarrow> hls_pl option" where
  "UpdateManifest locked junk p =
     (case hp_currentVariant p of
        Some v \<Rightarrow>
          (if mu_uri (vs_m3u8 (hp_variants p ! v)) \<noteq> [] then DoOpen locked junk (mu_uri (vs_m3u8 (hp_variants p ! v))) p else Some p)
      | None \<Rightarrow> Some p)"

text \<open>The playlist text has grown: the first time it becomes the master playlist, later the followed variant is updated and its fragments go to the callback.
  This runs in the callback for the data, in the loop of the downloader, which holds the mutex.\<close>

definition ParseManifest :: "hls_pl \<Rightarrow> (hls_error + string list option \<times> hls_pl) option" where
  "ParseManifest p =
     (case hp_master p of
        None \<Rightarrow>
          (case mk_M3U8MasterPlaylist (hp_playList p) (hp_url p) (hp_variants p) of
             Inl e \<Rightarrow> Some (Inl e)
           | Inr (ma, vs) \<Rightarrow>
               let p1 = p\<lparr>hp_master := Some ma, hp_variants := vs, hp_currentVariant := ma_defaultVariant ma\<rparr>
               in map_option (\<lambda>p2. Inr (None, p2\<lparr>hp_updateTask := DL_Started\<rparr>))
                    (if \<not> ma_isSimple ma then UpdateManifest True (0, False, 0) p1 else Some p1))
      | Some _ \<Rightarrow>
          Some (case hp_currentVariant p of
             None \<Rightarrow> Inl Null_Pointer
           | Some v \<Rightarrow>
               err_bind (M3U8_Update (hp_playList p) (vs_m3u8 (hp_variants p ! v))) (\<lambda>(_, m3u8).
                 let p1 = p\<lparr>hp_variants := (hp_variants p)[v := (hp_variants p ! v)\<lparr>vs_m3u8 := m3u8\<rparr>]\<rparr>
                 in if hp_callback p1 then Inr (Some (map fr_uri (mu_files m3u8)), p1) else Inl Null_Pointer)))"

definition PlayList_SaveData :: "string \<Rightarrow> hls_pl \<Rightarrow> (hls_error + string list option \<times> hls_pl) option" where
  "PlayList_SaveData data p =
     ParseManifest (p\<lparr>hp_playList := hp_playList p @ data, hp_startedDownloadStatus := True\<rparr>)"

definition PlayList_GetDuration :: "hls_pl \<Rightarrow> rat" where
  "PlayList_GetDuration p = (case hp_master p of None \<Rightarrow> 0 | Some ma \<Rightarrow> if ma_bLive ma then -1 else ma_duration ma)"

definition PlayList_GetSeekable :: "hls_pl \<Rightarrow> Seekable" where
  "PlayList_GetSeekable p =
     (case hp_master p of None \<Rightarrow> SEEKABLE_INVALID | Some ma \<Rightarrow> if ma_bLive ma then UNSEEKABLE else SEEKABLE)"

definition PlayList_Resume :: "hls_pl \<Rightarrow> hls_pl" where
  "PlayList_Resume p = p\<lparr>hp_dl := Downloader_Resume (hp_dl p), hp_updateTask := DL_Started\<rparr>"

definition PlayList_Pause :: "hls_pl \<Rightarrow> hls_pl" where
  "PlayList_Pause p = p\<lparr>hp_updateTask := DL_Paused, hp_dl := Downloader_Pause (hp_dl p)\<rparr>"

definition PlayList_Close :: "hls_pl \<Rightarrow> hls_pl" where
  "PlayList_Close p = p\<lparr>hp_updateTask := DL_Stopped, hp_dl := Downloader_Stop (hp_dl p)\<rparr>"

section \<open>The fragments\<close>

record hls_md =
  hl_ring :: ring
  hl_playList :: "string bqueue"
  hl_fragmentDownloadStart :: "(string, bool) smap"
  hl_dl :: downloader
  hl_startedPlayStatus :: bool
  hl_downloadTask :: dl_task
  hl_pl :: hls_pl

definition HLS_RING_BUFFER_SIZE :: nat where
  "HLS_RING_BUFFER_SIZE = 5 * 48 * 1024"

definition MAX_FRAGMENT_TRACKING :: nat where
  "MAX_FRAGMENT_TRACKING = 100000"

definition mk_HlsMediaDownloader :: hls_md where
  "mk_HlsMediaDownloader =
     \<lparr>hl_ring = Ring_Init (RingBuffer HLS_RING_BUFFER_SIZE), hl_playList = BlockingQueue 50, hl_fragmentDownloadStart = [], hl_dl = mk_Downloader,
      hl_startedPlayStatus = False, hl_downloadTask = DL_Stopped, hl_pl = SetPlayListCallback mk_HlsPlayListDownloader\<rparr>"

text \<open>\<^verbatim>\<open>erase(begin())\<close> of the map removes the smallest key.\<close>

definition track_fragment :: "string \<Rightarrow> (string, bool) smap \<Rightarrow> (string, bool) smap" where
  "track_fragment url fs = smap_put url True (if length fs \<ge> MAX_FRAGMENT_TRACKING then tl fs else fs)"

definition FragmentDownloadLoop ::
  "(string bqueue \<Rightarrow> string bqueue) \<Rightarrow> (nat bqueue \<Rightarrow> nat bqueue) \<Rightarrow> int \<times> bool \<times> int \<Rightarrow> hls_md \<Rightarrow> hls_md option" where
  "FragmentDownloadLoop others others' junk m =
     (case BQ_Pop others (hl_playList m) of
        None \<Rightarrow> None
      | Some (x, que) \<Rightarrow>
          let m1 = m\<lparr>hl_playList := que\<rparr>
          in (case x of
               None \<Rightarrow> Some m1
             | Some url \<Rightarrow>
                 if url = [] \<or> map_of (hl_fragmentDownloadStart m1) url \<noteq> None then Some m1
                 else map_option (\<lambda>d. m1\<lparr>hl_fragmentDownloadStart := track_fragment url (hl_fragmentDownloadStart m1), hl_dl := d\<rparr>)
                        (request_whole others' junk url (hl_dl m1))))"

fun push_all :: "(string bqueue \<Rightarrow> string bqueue) \<Rightarrow> string list \<Rightarrow> string bqueue \<Rightarrow> string bqueue option" where
  "push_all others [] w = Some w"
| "push_all others (u # us) w = (case BQ_Push others u w of None \<Rightarrow> None | Some (_, w') \<Rightarrow> push_all others us w')"

definition OnPlayListChanged :: "(string bqueue \<Rightarrow> string bqueue) \<Rightarrow> string list \<Rightarrow> hls_md \<Rightarrow> hls_md option" where
  "OnPlayListChanged others playList m = map_option (\<lambda>w. m\<lparr>hl_playList := w\<rparr>) (push_all others playList (hl_playList m))"

definition Hls_Open :: "int \<times> bool \<times> int \<Rightarrow> string \<Rightarrow> hls_md \<Rightarrow> hls_md option" where
  "Hls_Open junk url m = map_option (\<lambda>p. m\<lparr>hl_pl := p, hl_downloadTask := DL_Started\<rparr>) (PlayList_Open junk url (hl_pl m))"

definition Hls_Close :: "hls_md \<Rightarrow> hls_md" where
  "Hls_Close m =
     m\<lparr>hl_ring := Ring_SetActive False True (hl_ring m), hl_playList := BQ_SetActive False True (hl_playList m), hl_downloadTask := DL_Stopped,
       hl_pl := PlayList_Close (hl_pl m), hl_dl := Downloader_Stop (hl_dl m), hl_fragmentDownloadStart := []\<rparr>"

definition Hls_Pause :: "hls_md \<Rightarrow> hls_md" where
  "Hls_Pause m =
     (let cleanData = (PlayList_GetSeekable (hl_pl m) \<noteq> SEEKABLE)
      in m\<lparr>hl_ring := Ring_SetActive False cleanData (hl_ring m), hl_playList := BQ_SetActive False cleanData (hl_playList m),
           hl_pl := PlayList_Pause (hl_pl m), hl_downloadTask := DL_Paused, hl_dl := Downloader_Pause (hl_dl m)\<rparr>)"

definition Hls_Resume :: "hls_md \<Rightarrow> hls_md" where
  "Hls_Resume m =
     m\<lparr>hl_ring := Ring_SetActive True True (hl_ring m), hl_playList := BQ_SetActive True True (hl_playList m),
       hl_pl := PlayList_Resume (hl_pl m), hl_downloadTask := DL_Started, hl_dl := Downloader_Resume (hl_dl m)\<rparr>"

definition Hls_Read :: "(ring \<Rightarrow> ring) \<Rightarrow> nat \<Rightarrow> hls_md \<Rightarrow> 8 word list \<times> hls_md" where
  "Hls_Read others want m =
     (case ERing_ReadBuffer others True want 2 (hl_ring m) of (_, bytes, r) \<Rightarrow> (bytes, m\<lparr>hl_ring := r\<rparr>))"

text \<open>A seek that misses the ring clears it and hands the offset to the downloader of the fragments, which applies it to the fragment it is at.\<close>

definition Hls_Seek :: "(DownloadRequest \<Rightarrow> DownloadRequest) \<Rightarrow> int \<Rightarrow> hls_md \<Rightarrow> (bool \<times> hls_md) option" where
  "Hls_Seek env offset m =
     (case ERing_Seek (nat (offset mod 2 ^ 64)) (hl_ring m) of
        (True, r) \<Rightarrow> Some (True, m\<lparr>hl_ring := r\<rparr>)
      | (False, r) \<Rightarrow>
          map_option (\<lambda>(_, d). (True, m\<lparr>hl_ring := Ring_Clear (Ring_Clear r), hl_dl := Downloader_Start d\<rparr>))
            (Downloader_Seek env offset (Downloader_Pause (hl_dl m))))"

definition Hls_SaveData :: "(ring \<Rightarrow> ring) \<Rightarrow> 8 word list \<Rightarrow> hls_md \<Rightarrow> (bool \<times> hls_md) option" where
  "Hls_SaveData others data m =
     (case ERing_WriteBuffer others True data (hl_ring m) of
        None \<Rightarrow> None
      | Some (ok, r) \<Rightarrow> Some (ok, m\<lparr>hl_startedPlayStatus := True, hl_ring := r\<rparr>))"

definition Hls_GetStartedStatus :: "hls_md \<Rightarrow> bool" where
  "Hls_GetStartedStatus m = (hp_startedDownloadStatus (hl_pl m) \<and> hl_startedPlayStatus m)"

end
