(* ===== verification/Hls_Downloader_Props.thy ===== *)
theory Hls_Downloader_Props
  imports Hls_Downloader Hls_Props "HOL-Library.Sublist"
begin

text \<open>
  Correctness of the HLS downloaders: every fragment a playlist names is requested once, in the order of the playlists, and the fragments of a playlist that is fetched
  arrive at the queue with their joined addresses.
\<close>

section \<open>Fragments are requested once, in order\<close>





lemma requested_upd [simp]:
  assumes "dr_url (f (dl_store d ! k)) = dr_url (dl_store d ! k)"
  shows "requested (upd_request k f d) = requested d"
proof (cases "k < length (dl_store d)")
  case True
  with assms show ?thesis by (simp add: requested_def upd_request_def map_update list_update_same_conv)
qed (simp add: requested_def upd_request_def list_update_beyond)

lemma requested_current [simp]: "(\<And>q. dr_url (f q) = dr_url q) \<Longrightarrow> requested (upd_current f d) = requested d"
  by (simp add: upd_current_def split: option.split)

lemma requested_frame [simp]:
  "requested (d\<lparr>dl_requestQue := w\<rparr>) = requested d" "requested (d\<lparr>dl_task := t\<rparr>) = requested d"
  "requested (d\<lparr>dl_client := c\<rparr>) = requested d" "requested (d\<lparr>dl_shouldStartNextRequest := b\<rparr>) = requested d"
  "requested (d\<lparr>dl_currentRequest := k\<rparr>) = requested d"
  by (simp_all add: requested_def)

lemma requested_ops [simp]:
  "requested (Downloader_Start d) = requested d" "requested (Downloader_Pause d) = requested d" "requested (Downloader_Resume d) = requested d"
  "requested (BeginDownload k d) = requested d"
  by (simp_all add: Downloader_Start_def Downloader_Pause_def Downloader_Resume_def BeginDownload_def)

lemma requested_finish [simp]: "requested (finish_request k d) = requested d"
  by (simp add: finish_request_def Let_def)

lemma requested_RetOK [simp]: "requested (HandleRetOK k d) = requested d"
  by (simp add: HandleRetOK_def Let_def Request_Close_def)

lemma requested_begin [simp]: "requested (snd (HttpDownloadLoop_begin others d)) = requested d"
  by (auto simp: HttpDownloadLoop_begin_def Let_def split: prod.splits option.splits if_splits)

lemma requested_end [simp]: "requested (snd (HttpDownloadLoop_end code httpCode d)) = requested d"
  by (auto simp: HttpDownloadLoop_end_def Let_def split: prod.splits option.splits)

lemma requested_Retry [simp]: "requested (snd (Downloader_Retry id k d)) = requested d"
  by (simp add: Downloader_Retry_def Let_def split: option.split)


lemma request_whole_requested:
  "request_whole others junk url d = Some d' \<Longrightarrow> requested d' = requested d @ [url]"
  by (auto simp: request_whole_def Download_def Let_def split: option.splits)
    (simp_all add: requested_def Downloader_Start_def mk_DownloadRequest_def split: prod.split)

lemma request_whole_room:
  assumes "length (w_que (dl_requestQue d)) < w_capacity (dl_requestQue d)"
  obtains d' where "request_whole others junk url d = Some d'"
    "length (w_que (dl_requestQue d')) = Suc (length (w_que (dl_requestQue d)))" "w_capacity (dl_requestQue d') = w_capacity (dl_requestQue d)"
  using assms
  by (simp add: request_whole_def Download_def BQ_Push_def BQ_SetActive_def Downloader_Start_def Let_def)












lemma w_SetActive [simp]:
  "w_que (BQ_SetActive a c w) = (if \<not> a \<and> c then [] else w_que w)" "w_isActive (BQ_SetActive a c w) = a"
  by (auto simp: BQ_SetActive_def BQ_Clear_def Let_def)






text \<open>The loop hangs when the queue of the downloader is full: it waits for room with the mutex held that the downloader needs to take a request out.\<close>

lemma fragment_loop_deadlock:
  assumes "w_isActive (hl_playList m)" "w_que (hl_playList m) = u # us" "u \<noteq> []" "map_of (hl_fragmentDownloadStart m) u = None"
    "length (w_que (dl_requestQue (hl_dl m))) \<ge> w_capacity (dl_requestQue (hl_dl m))"
  shows "FragmentDownloadLoop id id junk m = None"
  using assms by (simp add: FragmentDownloadLoop_def BQ_Pop_def Let_def request_whole_def Download_def BQ_Push_def BQ_SetActive_def)

text \<open>A master playlist hangs the downloader of the playlist: its variant is asked for in the callback for the data, under the mutex that asking for it locks again.\<close>

lemma master_playlist_deadlock:
  assumes "hp_master p = None" "mk_M3U8MasterPlaylist (hp_playList p @ data) (hp_url p) (hp_variants p) = Inr (ma, vs)"
    "\<not> ma_isSimple ma" "ma_defaultVariant ma = Some v" "mu_uri (vs_m3u8 (vs ! v)) \<noteq> []"
  shows "PlayList_SaveData data p = None"
  using assms by (simp add: PlayList_SaveData_def ParseManifest_def UpdateManifest_def DoOpen_def Let_def)

section \<open>A playlist is delivered\<close>

lemma str_has_middle: "str_has d (xs @ d @ ys)"
proof -
  have "str_find d (xs @ d @ ys) \<noteq> None"
  proof (induction xs)
    case Nil
    then show ?case by (cases d; cases ys) auto
  next
    case (Cons x xs)
    then show ?case by simp
  qed
  then show ?thesis by (simp add: str_has_def)
qed

lemma extinf_in_text:
  assumes "sgs \<noteq> []"
  shows "str_has (CHR 0x0A # ''#EXTINF:'') (print_lines (media_lines t q sgs))"
proof -
  obtain sg sgs' where sgs: "sgs = sg # sgs'" using assms by (cases sgs) auto
  let ?v = "print_millis (sg_millis sg) @ CHR '','' # sg_title sg"
  have "\<exists>ls l ls'. media_lines t q sgs = ls @ [l, ''#EXTINF:'' @ ?v] @ ls'"
  proof (cases "sg_discont sg")
    case True
    then show ?thesis unfolding sgs media_lines_def
      by (intro exI [of _ "[''#EXTM3U'', ''#EXT-X-TARGETDURATION:'' @ print_nat t, ''#EXT-X-MEDIA-SEQUENCE:'' @ print_nat q]"]
          exI [of _ "''#EXT-X-DISCONTINUITY''"] exI [of _ "sg_uri sg # concat (map segment_lines sgs') @ [''#EXT-X-ENDLIST'']"]) (simp add: segment_lines_def [of sg])
  next
    case False
    then show ?thesis unfolding sgs media_lines_def
      by (intro exI [of _ "[''#EXTM3U'', ''#EXT-X-TARGETDURATION:'' @ print_nat t]"] exI [of _ "''#EXT-X-MEDIA-SEQUENCE:'' @ print_nat q"]
          exI [of _ "sg_uri sg # concat (map segment_lines sgs') @ [''#EXT-X-ENDLIST'']"]) (simp add: segment_lines_def [of sg])
  qed
  then obtain ls l ls' where "media_lines t q sgs = ls @ [l, ''#EXTINF:'' @ ?v] @ ls'" by blast
  then have "print_lines (media_lines t q sgs) = (print_lines ls @ l) @ (CHR 0x0A # ''#EXTINF:'') @ (?v @ CHR 0x0A # print_lines ls')" by simp
  then show ?thesis using str_has_middle by metis
qed

lemma fragments_uris: "map fr_uri (fragments base n sgs) = map (\<lambda>sg. UriJoin base (sg_uri sg)) sgs"
  by (induction sgs arbitrary: n) (auto simp: fragment_of_def)

text \<open>A media playlist that is fetched whole reaches the fragment queue: the first fetch makes it the followed playlist, finished and therefore seekable, and the
  refresh hands the addresses of all its fragments, joined to its own, to the callback in their order. Both fetches ask for the address that was opened.\<close>

theorem playlist_delivered:
  assumes "\<forall>sg \<in> set sgs. segment_ok sg" "sgs \<noteq> []" "target < 2 ^ 64" "seq + length sgs < 2 ^ 31" "url \<noteq> []"
    "text = print_lines (media_lines target seq sgs)" "PlayList_Open junk url (SetPlayListCallback mk_HlsPlayListDownloader) = Some p0"
  shows "\<exists>p1 p1' p2. PlayList_SaveData text p0 = Some (Inr (None, p1)) \<and> PlayList_GetSeekable p1 = SEEKABLE \<and>
    UpdateManifest False junk p1 = Some p1' \<and>
    PlayList_SaveData text p1' = Some (Inr (Some (map (\<lambda>sg. UriJoin url (sg_uri sg)) sgs), p2)) \<and> requested (hp_dl p2) = [url, url]"
proof -
  let ?m = "(mk_M3U8 url [])\<lparr>mu_targetDuration := rnd 53 (of_nat target), mu_bLive := False, mu_files := fragments url seq sgs,
      mu_sequence := seq + length sgs, mu_discontSequence := int (length (filter sg_discont sgs)), mu_playList := text\<rparr>"
  have "mu_playList (mk_M3U8 url []) \<noteq> text" by (simp add: assms(6) mk_M3U8_def media_lines_def)
  with M3U8_Update_print [of sgs target seq "mk_M3U8 url []"] assms(1,3,4,6)
  have up: "M3U8_Update text (mk_M3U8 url []) = Inr (True, ?m)" by (simp add: mk_M3U8_def)
  have inf: "str_has (CHR 0x0A # ''#EXTINF:'') text" unfolding assms(6) by (rule extinf_in_text [OF assms(2)])
  let ?ma = "\<lparr>ma_variants = [0], ma_defaultVariant = Some 0, ma_uri = url, ma_isSimple = True, ma_playList = text,
      ma_duration = M3U8_GetDuration ?m, ma_bLive = False\<rparr>"
  have ma: "mk_M3U8MasterPlaylist text url [] = Inr (?ma, [mk_M3U8VariantStream url url ?m])"
    using inf up by (simp add: mk_M3U8MasterPlaylist_def UpdateMediaPlaylist_def)
  obtain d0 where d0: "request_whole id junk url mk_Downloader = Some d0"
    and p0: "p0 = \<lparr>hp_url = url, hp_playList = [], hp_startedDownloadStatus = False, hp_master = None, hp_variants = [],
      hp_currentVariant = None, hp_updateTask = DL_Stopped, hp_callback = True, hp_dl = d0\<rparr>"
    using assms(7) by (auto simp: PlayList_Open_def DoOpen_def SetPlayListCallback_def mk_HlsPlayListDownloader_def)
  have "length (w_que (dl_requestQue mk_Downloader)) < w_capacity (dl_requestQue mk_Downloader)" "w_que (dl_requestQue mk_Downloader) = []"
    "w_capacity (dl_requestQue mk_Downloader) = 50"
    by (simp_all add: mk_Downloader_def BlockingQueue_def REQUEST_QUEUE_SIZE_def)
  with d0 request_whole_room [of mk_Downloader id junk url] have "length (w_que (dl_requestQue d0)) < w_capacity (dl_requestQue d0)" by fastforce
  then obtain d1 where d1: "request_whole id junk url d0 = Some d1" by (rule request_whole_room)
  let ?p1 = "\<lparr>hp_url = url, hp_playList = text, hp_startedDownloadStatus = True, hp_master = Some ?ma, hp_variants = [mk_M3U8VariantStream url url ?m],
      hp_currentVariant = Some 0, hp_updateTask = DL_Started, hp_callback = True, hp_dl = d0\<rparr>"
  have s1: "PlayList_SaveData text p0 = Some (Inr (None, ?p1))"
    using ma by (simp add: p0 PlayList_SaveData_def ParseManifest_def)
  have "M3U8_Update text ?m = Inr (True, ?m)" by (simp add: M3U8_Update_def)
  moreover have "requested d1 = [url, url]"
    using request_whole_requested [OF d0] request_whole_requested [OF d1] by (simp add: requested_def mk_Downloader_def)
  ultimately have "\<exists>p1' p2. UpdateManifest False junk ?p1 = Some p1' \<and>
      PlayList_SaveData text p1' = Some (Inr (Some (map (\<lambda>sg. UriJoin url (sg_uri sg)) sgs), p2)) \<and> requested (hp_dl p2) = [url, url]"
    using assms(5) d1 by (simp add: PlayList_SaveData_def ParseManifest_def UpdateManifest_def DoOpen_def mk_M3U8VariantStream_def mk_M3U8_def fragments_uris)
  moreover have "PlayList_GetSeekable ?p1 = SEEKABLE" by (simp add: PlayList_GetSeekable_def)
  ultimately show ?thesis using s1 by blast
qed

theorem playlist_delivered_witness:
  "\<exists>p0 p1 p1' p2. PlayList_Open (0, False, 0) ''http://h/l.m3u8'' (SetPlayListCallback mk_HlsPlayListDownloader) = Some p0 \<and>
    PlayList_SaveData (print_lines (media_lines 9 0 [\<lparr>sg_uri = ''a.ts'', sg_title = [], sg_millis = 9000, sg_discont = False\<rparr>])) p0 =
      Some (Inr (None, p1)) \<and> UpdateManifest False (0, False, 0) p1 = Some p1' \<and>
    PlayList_SaveData (print_lines (media_lines 9 0 [\<lparr>sg_uri = ''a.ts'', sg_title = [], sg_millis = 9000, sg_discont = False\<rparr>])) p1' =
      Some (Inr (Some [''http://h/a.ts''], p2))"
proof -
  let ?a = "\<lparr>sg_uri = ''a.ts'', sg_title = [], sg_millis = 9000, sg_discont = False\<rparr>"
  have ok: "\<forall>sg \<in> set [?a]. segment_ok sg" by (simp add: segment_ok_def line_ok_def title_ok_def name_char_def)
  have "map (\<lambda>sg. UriJoin ''http://h/l.m3u8'' (sg_uri sg)) [?a] = [''http://h/a.ts'']"
    by (simp add: UriJoin_def str_has_def str_rfind_char_def)
  moreover obtain p0 where p0: "PlayList_Open (0, False, 0) ''http://h/l.m3u8'' (SetPlayListCallback mk_HlsPlayListDownloader) = Some p0"
    by (auto simp: PlayList_Open_def DoOpen_def request_whole_def Download_def SetPlayListCallback_def mk_HlsPlayListDownloader_def mk_Downloader_def
        BQ_Push_def BQ_SetActive_def BlockingQueue_def REQUEST_QUEUE_SIZE_def Let_def)
  ultimately show ?thesis using playlist_delivered [OF ok _ _ _ _ refl p0, of 9 0] by auto
qed

section \<open>What the downloader does not do\<close>

text \<open>Whether the stream is live and how long it lasts is decided by the first piece of the playlist that arrives, and for a master playlist not at all.\<close>

lemma UpdateManifest_keeps: "UpdateManifest locked junk p = Some p' \<Longrightarrow> hp_master p' = hp_master p"
  by (auto simp: UpdateManifest_def DoOpen_def split: option.splits if_splits)

lemma seekable_from_first_piece:
  assumes "hp_master p = Some ma" "PlayList_SaveData data p = Some (Inr (x, p'))"
  shows "PlayList_GetSeekable p' = PlayList_GetSeekable p \<and> PlayList_GetDuration p' = PlayList_GetDuration p"
  using assms
  by (auto simp: PlayList_SaveData_def ParseManifest_def PlayList_GetSeekable_def PlayList_GetDuration_def Let_def err_bind_Inr
      split: option.splits if_splits)

lemma master_loop_keeps:
  "master_loop tags (ma, vs) = Inr (ma', vs') \<Longrightarrow> ma_duration ma' = ma_duration ma \<and> ma_bLive ma' = ma_bLive ma \<and> ma_isSimple ma' = ma_isSimple ma"
proof (induction tags arbitrary: ma vs)
  case (Cons tag tags)
  then obtain v where v: "variant_of_tag (ma_uri ma) tag = Inr v" by (auto simp: err_bind_Inr)
  then show ?case using Cons by (cases v) (fastforce simp: err_bind_Inr)+
qed simp

lemma master_playlist_never_live:
  assumes "mk_M3U8MasterPlaylist text url vs = Inr (ma, vs')" "\<not> ma_isSimple ma"
  shows "ma_duration ma = 0 \<and> \<not> ma_bLive ma"
  using assms
  by (auto simp: mk_M3U8MasterPlaylist_def UpdateMediaPlaylist_def UpdateMasterPlaylist_def Let_def err_bind_Inr
      split: if_splits option.splits dest!: master_loop_keeps)

text \<open>The entry that is given up when too many fragments are tracked is the one with the smallest address, not the oldest.\<close>

lemma evicts_smallest:
  assumes "smap_inv fs" "length fs \<ge> MAX_FRAGMENT_TRACKING" "map_of fs k \<noteq> None" "k \<noteq> url" "map_of (track_fragment url fs) k = None"
  shows "\<forall>j. map_of fs j \<noteq> None \<longrightarrow> k \<le> j"
proof -
  obtain a b fs' where fs: "fs = (a, b) # fs'" using assms(3) by (cases fs) auto
  have s: "smap_inv fs'" "\<forall>x \<in> fst ` set fs'. a < x" using assms(1) fs by (auto simp: smap_inv_def)
  have "map_of fs' k = None"
    using assms(2,4,5) fs map_of_smap_put [OF s(1), of url True k] by (simp add: track_fragment_def)
  then have "k = a" using assms(3) fs by (auto split: if_splits)
  moreover have "map_of fs' j \<noteq> None \<Longrightarrow> a < j" for j using s(2) by (auto simp: map_of_eq_None_iff)
  ultimately show ?thesis using fs by (auto simp: less_imp_le split: if_splits)
qed

end
