(* ===== verification/Download_Monitor.thy ===== *)
theory Download_Monitor
  imports Http_Downloader Hls_Downloader
begin

text \<open>
  \<^verbatim>\<open>monitor/download_monitor.cpp\<close> and \<^verbatim>\<open>http_source_plugin.cpp\<close>: the monitor wraps a media downloader, pauses it when nobody reads, retries failed
  requests and reports those that keep failing; the plugin chooses the downloader by the address. Both use a downloader only through the interface
  \<^verbatim>\<open>MediaDownloader\<close>, here a record of its operations.
\<close>

section \<open>The interface\<close>

record 'w media_ops =
  op_Open :: "string \<Rightarrow> 'w \<Rightarrow> bool \<times> 'w"
  op_Close :: "'w \<Rightarrow> 'w"
  op_Pause :: "'w \<Rightarrow> 'w"
  op_Resume :: "'w \<Rightarrow> 'w"
  op_Read :: "nat \<Rightarrow> 'w \<Rightarrow> bool \<times> 8 word list \<times> 'w"
  op_Seek :: "int \<Rightarrow> 'w \<Rightarrow> bool \<times> 'w"
  op_GetContentLength :: "'w \<Rightarrow> nat"
  op_GetSeekable :: "'w \<Rightarrow> Seekable"
  op_Request :: "nat \<Rightarrow> 'w \<Rightarrow> DownloadRequest"
  op_Retry :: "nat \<Rightarrow> 'w \<Rightarrow> 'w"

section \<open>The monitor\<close>

record 'w monitor =
  mo_downloader :: 'w
  mo_retryTasks :: "nat list"
  mo_isPlaying :: bool
  mo_lastReadTime :: int
  mo_task :: dl_task
  mo_callback :: bool

datatype net_event = CLIENT_ERROR NetworkClientErrorCode | SERVER_ERROR int

definition mk_DownloadMonitor :: "'w \<Rightarrow> 'w monitor" where
  "mk_DownloadMonitor w =
     \<lparr>mo_downloader = w, mo_retryTasks = [], mo_isPlaying = False, mo_lastReadTime = 0, mo_task = DL_Started, mo_callback = False\<rparr>"

definition Monitor_Open :: "'w media_ops \<Rightarrow> string \<Rightarrow> 'w monitor \<Rightarrow> bool \<times> 'w monitor" where
  "Monitor_Open ops url mo =
     (case op_Open ops url (mo_downloader mo) of
        (ok, w) \<Rightarrow> (ok, mo\<lparr>mo_isPlaying := True, mo_retryTasks := [], mo_downloader := w\<rparr>))"

definition Monitor_Pause :: "'w media_ops \<Rightarrow> 'w monitor \<Rightarrow> 'w monitor" where
  "Monitor_Pause ops mo = mo\<lparr>mo_downloader := op_Pause ops (mo_downloader mo), mo_isPlaying := False, mo_lastReadTime := 0\<rparr>"

definition Monitor_Resume :: "'w media_ops \<Rightarrow> 'w monitor \<Rightarrow> 'w monitor" where
  "Monitor_Resume ops mo = mo\<lparr>mo_downloader := op_Resume ops (mo_downloader mo), mo_isPlaying := True\<rparr>"

definition Monitor_Close :: "'w media_ops \<Rightarrow> 'w monitor \<Rightarrow> 'w monitor" where
  "Monitor_Close ops mo =
     mo\<lparr>mo_retryTasks := [], mo_task := DL_Stopped, mo_downloader := op_Close ops (mo_downloader mo), mo_isPlaying := False\<rparr>"

definition Monitor_Read :: "'w media_ops \<Rightarrow> int \<Rightarrow> nat \<Rightarrow> 'w monitor \<Rightarrow> bool \<times> 8 word list \<times> 'w monitor" where
  "Monitor_Read ops now want mo =
     (let mo1 = (if \<not> mo_isPlaying mo then Monitor_Resume ops mo else mo)
      in case op_Read ops want (mo_downloader mo1) of
           (ok, bytes, w) \<Rightarrow> (ok, bytes, mo1\<lparr>mo_downloader := w, mo_lastReadTime := now\<rparr>))"

definition Monitor_Seek :: "'w media_ops \<Rightarrow> int \<Rightarrow> 'w monitor \<Rightarrow> bool \<times> 'w monitor" where
  "Monitor_Seek ops offset mo =
     (case op_Seek ops offset (mo_downloader mo) of
        (ok, w) \<Rightarrow> (ok, mo\<lparr>mo_isPlaying := True, mo_retryTasks := [], mo_downloader := w\<rparr>))"

definition HttpMonitorLoop :: "'w media_ops \<Rightarrow> int \<Rightarrow> 'w monitor \<Rightarrow> 'w monitor" where
  "HttpMonitorLoop ops nowTime mo =
     (let mo1 = (if mo_isPlaying mo \<and> mo_lastReadTime mo \<noteq> 0 \<and> nowTime - mo_lastReadTime mo \<ge> 60 then Monitor_Pause ops mo else mo)
      in case mo_retryTasks mo1 of
           [] \<Rightarrow> mo1
         | k # ks \<Rightarrow> mo1\<lparr>mo_retryTasks := ks, mo_downloader := op_Retry ops k (mo_downloader mo1)\<rparr>)"

definition RETRY_TIMES_TO_REPORT_ERROR :: int where
  "RETRY_TIMES_TO_REPORT_ERROR = 5"

definition NeedRetry :: "'w media_ops \<Rightarrow> nat \<Rightarrow> 'w monitor \<Rightarrow> bool \<times> net_event list \<times> 'w monitor" where
  "NeedRetry ops k mo =
     (let q = op_Request ops k (mo_downloader mo); clientError = dr_clientError q; serverError = dr_serverError q
      in if (clientError \<noteq> NC_ERROR_OK \<and> clientError \<noteq> NC_ERROR_NOT_RETRY) \<or> serverError \<noteq> 0
         then if dr_retryTimes q > RETRY_TIMES_TO_REPORT_ERROR
              then (False,
                    (if clientError \<noteq> NC_ERROR_OK \<and> mo_callback mo then [CLIENT_ERROR clientError] else []) @
                    (if serverError \<noteq> 0 \<and> mo_callback mo then [SERVER_ERROR serverError] else []),
                    mo\<lparr>mo_task := DL_Stopped, mo_downloader := op_Close ops (mo_downloader mo)\<rparr>)
              else (True, [], mo)
         else (False, [], mo))"

text \<open>The status callback; the requests are compared as they are now.\<close>

definition OnDownloadStatus :: "'w media_ops \<Rightarrow> nat \<Rightarrow> 'w monitor \<Rightarrow> net_event list \<times> 'w monitor" where
  "OnDownloadStatus ops k mo =
     (case NeedRetry ops k mo of
        (False, ev, mo1) \<Rightarrow> (ev, mo1)
      | (True, ev, mo1) \<Rightarrow>
          (ev, if \<exists>j \<in> set (mo_retryTasks mo1). IsSame (op_Request ops j (mo_downloader mo1)) (op_Request ops k (mo_downloader mo1))
               then mo1 else mo1\<lparr>mo_retryTasks := mo_retryTasks mo1 @ [k]\<rparr>))"

section \<open>The plugin\<close>

datatype source_status = SP_OK | SP_ERROR_INVALID_OPERATION | SP_ERROR_NULL_POINTER | SP_ERROR_UNKNOWN | SP_ERROR_INVALID_PARAMETER | SP_END_OF_STREAM
  | SP_ERROR_DELAY_READY

record 'w http_source =
  so_downloader :: "'w option"
  so_delayReady :: bool

datatype source_kind = Kind_HLS | Kind_HTTP

definition source_kind_of :: "string \<Rightarrow> source_kind option" where
  "source_kind_of uri =
     (if str_has ''.m3u8'' uri then Some Kind_HLS else if take 4 uri = ''http'' then Some Kind_HTTP else None)"

definition SetSource :: "'w media_ops \<Rightarrow> (source_kind \<Rightarrow> 'w) \<Rightarrow> string \<Rightarrow> 'w http_source \<Rightarrow> source_status \<times> 'w http_source" where
  "SetSource ops create uri so =
     (if so_downloader so \<noteq> None then (SP_ERROR_INVALID_OPERATION, so)
      else case source_kind_of uri of
        None \<Rightarrow> (SP_ERROR_NULL_POINTER, so)
      | Some kind \<Rightarrow>
          (case op_Open ops uri (create kind) of
             (ok, w) \<Rightarrow> (if ok then SP_OK else SP_ERROR_UNKNOWN,
                so\<lparr>so_downloader := Some w, so_delayReady := (so_delayReady so \<and> kind \<noteq> Kind_HLS)\<rparr>)))"

definition Source_Prepare :: "'w http_source \<Rightarrow> source_status" where
  "Source_Prepare so = (if so_delayReady so then SP_ERROR_DELAY_READY else SP_OK)"

definition Source_Read :: "'w media_ops \<Rightarrow> nat \<Rightarrow> 'w http_source \<Rightarrow> source_status \<times> 8 word list \<times> 'w http_source" where
  "Source_Read ops expectedLen so =
     (case so_downloader so of
        None \<Rightarrow> (SP_ERROR_NULL_POINTER, [], so)
      | Some w \<Rightarrow>
          (case op_Read ops expectedLen w of
             (ok, bytes, w') \<Rightarrow> (if ok then SP_OK else SP_END_OF_STREAM, bytes, so\<lparr>so_downloader := Some w'\<rparr>)))"

definition Source_GetSize :: "'w media_ops \<Rightarrow> 'w http_source \<Rightarrow> source_status \<times> nat" where
  "Source_GetSize ops so =
     (case so_downloader so of None \<Rightarrow> (SP_ERROR_NULL_POINTER, 0) | Some w \<Rightarrow> (SP_OK, op_GetContentLength ops w))"

definition Source_SeekTo :: "'w media_ops \<Rightarrow> nat \<Rightarrow> 'w http_source \<Rightarrow> source_status \<times> 'w http_source" where
  "Source_SeekTo ops offset so =
     (case so_downloader so of
        None \<Rightarrow> (SP_ERROR_NULL_POINTER, so)
      | Some w \<Rightarrow>
          if op_GetSeekable ops w \<noteq> SEEKABLE then (SP_ERROR_INVALID_OPERATION, so)
          else if \<not> offset \<le> op_GetContentLength ops w then (SP_ERROR_INVALID_PARAMETER, so)
          else case op_Seek ops (swrap 32 (int offset)) w of
            (ok, w') \<Rightarrow> (if ok then SP_OK else SP_ERROR_UNKNOWN, so\<lparr>so_downloader := Some w'\<rparr>))"

text \<open>The downloader is closed and let go.\<close>

definition CloseUri :: "'w media_ops \<Rightarrow> 'w http_source \<Rightarrow> 'w option \<times> 'w http_source" where
  "CloseUri ops so = (map_option (op_Close ops) (so_downloader so), so\<lparr>so_downloader := None\<rparr>)"

end
