(* ===== verification/Download_Monitor_Props.thy ===== *)
theory Download_Monitor_Props
  imports Download_Monitor Http_Props
begin

text \<open>
  The monitor over its downloaders: a downloader nobody reads from is put to rest and woken by the next read, for every downloader that keeps the contract
  of the interface; a request that keeps failing over HTTP is retried six times and then reported.
\<close>

section \<open>The contract of a media downloader\<close>

locale media_downloader =
  fixes ops :: "'w media_ops" and running :: "'w \<Rightarrow> bool" and resting :: "'w \<Rightarrow> bool"
  assumes pause_rests: "resting (op_Pause ops w)"
    and resume_runs: "running (op_Resume ops w)"
    and rests_not_runs: "resting w \<Longrightarrow> \<not> running w"
begin

lemma idle_rests:
  assumes "mo_isPlaying mo" "mo_lastReadTime mo \<noteq> 0" "now - mo_lastReadTime mo \<ge> 60" "mo_retryTasks mo = []"
  shows "resting (mo_downloader (HttpMonitorLoop ops now mo)) \<and> \<not> mo_isPlaying (HttpMonitorLoop ops now mo)"
  using assms pause_rests by (simp add: HttpMonitorLoop_def Monitor_Pause_def)

lemma busy_untouched:
  "now - mo_lastReadTime mo < 60 \<Longrightarrow> mo_retryTasks mo = [] \<Longrightarrow> HttpMonitorLoop ops now mo = mo"
  by (simp add: HttpMonitorLoop_def)

lemma read_wakes:
  assumes "\<not> mo_isPlaying mo"
  shows "\<exists>w. running w \<and> Monitor_Read ops now want mo =
    (case op_Read ops want w of (ok, bytes, w') \<Rightarrow> (ok, bytes, mo\<lparr>mo_downloader := w', mo_isPlaying := True, mo_lastReadTime := now\<rparr>))"
  using assms resume_runs by (intro exI [of _ "op_Resume ops (mo_downloader mo)"]) (auto simp: Monitor_Read_def Monitor_Resume_def Let_def split: prod.splits)

text \<open>A rest, a read and the next look of the monitor: the downloader runs again and is left alone.\<close>

lemma rest_and_wake:
  assumes "mo_isPlaying mo" "mo_lastReadTime mo \<noteq> 0" "now - mo_lastReadTime mo \<ge> 60" "mo_retryTasks mo = []"
    "Monitor_Read ops now' want (HttpMonitorLoop ops now mo) = (ok, bytes, mo')" "now'' - now' < 60"
  shows "resting (mo_downloader (HttpMonitorLoop ops now mo)) \<and>
    (\<exists>w. running w \<and> op_Read ops want w = (ok, bytes, mo_downloader mo')) \<and> mo_isPlaying mo' \<and> HttpMonitorLoop ops now'' mo' = mo'"
proof -
  note r = idle_rests [OF assms(1-4)]
  have t: "mo_retryTasks (HttpMonitorLoop ops now mo) = []" using assms(1-4) by (simp add: HttpMonitorLoop_def Monitor_Pause_def)
  obtain w where w: "running w" "Monitor_Read ops now' want (HttpMonitorLoop ops now mo) =
    (case op_Read ops want w of (ok, bytes, w') \<Rightarrow> (ok, bytes, (HttpMonitorLoop ops now mo)\<lparr>mo_downloader := w', mo_isPlaying := True, mo_lastReadTime := now'\<rparr>))"
    using read_wakes [OF conjunct2 [OF r]] by blast
  obtain ok' bytes' w' where rd: "op_Read ops want w = (ok', bytes', w')" by (metis prod_cases3)
  have "op_Read ops want w = (ok, bytes, mo_downloader mo')" "mo_isPlaying mo'" "mo_lastReadTime mo' = now'" "mo_retryTasks mo' = []"
    using w(2) assms(5) rd t by auto
  then show ?thesis using r w(1) busy_untouched [of now'' mo'] assms(6) by auto
qed

end

section \<open>The downloaders\<close>

definition http_ops :: "(int \<times> bool \<times> int) \<Rightarrow> http_md media_ops" where
  "http_ops junk =
     \<lparr>op_Open = (\<lambda>url m. case Http_Open junk url m of Some (ok, m') \<Rightarrow> (ok, m') | None \<Rightarrow> (False, m)),
      op_Close = Http_Close,
      op_Pause = (\<lambda>m. Http_Pause_end (Http_Pause_begin (\<not> Http_GetSeekable id m) m)),
      op_Resume = Http_Resume,
      op_Read = (\<lambda>want m. case Http_Read [] id want m of Some (ok, _, bytes, m') \<Rightarrow> (ok, bytes, m') | None \<Rightarrow> (False, [], m)),
      op_Seek = (\<lambda>offset m. case Http_Seek_begin offset m of (True, m') \<Rightarrow> (True, m')
         | (False, m') \<Rightarrow> (case Http_Seek_end id offset m' of Some (ok, m'') \<Rightarrow> (ok, m'') | None \<Rightarrow> (False, m'))),
      op_GetContentLength = (\<lambda>m. hi_fileContentLen (dr_headerInfo (http_request m))),
      op_GetSeekable = (\<lambda>m. if Http_GetSeekable id m then SEEKABLE else UNSEEKABLE),
      op_Request = (\<lambda>k m. dl_store (hm_dl m) ! k),
      op_Retry = (\<lambda>k m. m\<lparr>hm_dl := snd (Downloader_Retry id k (hm_dl m))\<rparr>)\<rparr>"


definition http_running :: "http_md \<Rightarrow> bool" where
  "http_running m = (r_isActive (hm_ring m) \<and> dl_task (hm_dl m) = DL_Started)"

definition http_resting :: "http_md \<Rightarrow> bool" where
  "http_resting m = (\<not> r_isActive (hm_ring m) \<and> dl_task (hm_dl m) = DL_Paused)"






interpretation http: media_downloader "http_ops junk" http_running http_resting
  by unfold_locales
    (auto simp: http_ops_def http_running_def http_resting_def Http_Pause_end_def Http_Pause_begin_def Http_Resume_def Downloader_Pause_def
      Downloader_Resume_def Downloader_Start_def Ring_SetActive_def Let_def)





section \<open>Failing requests\<close>

text \<open>One round of a failing request: the loop asks again, the transfer fails, the status callback runs, the monitor looks for work.\<close>

definition fail_round :: "int \<times> bool \<times> int \<Rightarrow> int \<Rightarrow> curl_code \<times> int \<Rightarrow> http_md monitor \<Rightarrow> net_event list \<times> http_md monitor" where
  "fail_round junk now c mo =
     (case HttpDownloadLoop_end (fst c) (snd c) (snd (HttpDownloadLoop_begin id (hm_dl (mo_downloader mo)))) of
        (called, d) \<Rightarrow>
          (let mo1 = mo\<lparr>mo_downloader := (mo_downloader mo)\<lparr>hm_dl := d\<rparr>\<rparr>;
               (ev, mo2) = (if called then OnDownloadStatus (http_ops junk) 0 mo1 else ([], mo1))
           in (ev, HttpMonitorLoop (http_ops junk) now mo2)))"

fun fail_rounds :: "int \<times> bool \<times> int \<Rightarrow> int \<Rightarrow> (curl_code \<times> int) list \<Rightarrow> http_md monitor \<Rightarrow> net_event list \<times> http_md monitor" where
  "fail_rounds junk now [] mo = ([], mo)"
| "fail_rounds junk now (c # cs) mo =
     (case fail_round junk now c mo of (ev, mo1) \<Rightarrow> (case fail_rounds junk now cs mo1 of (ev', mo2) \<Rightarrow> (ev @ ev', mo2)))"

text \<open>The one request of the downloader has been retried \<open>n\<close> times and is still asked for.\<close>

definition failing :: "int \<Rightarrow> int \<Rightarrow> http_md monitor \<Rightarrow> bool" where
  "failing n now mo =
     (length (dl_store (hm_dl (mo_downloader mo))) = 1 \<and> dr_retryTimes (hd (dl_store (hm_dl (mo_downloader mo)))) = n \<and>
      dl_currentRequest (hm_dl (mo_downloader mo)) = Some 0 \<and> \<not> dl_shouldStartNextRequest (hm_dl (mo_downloader mo)) \<and>
      dl_client (hm_dl (mo_downloader mo)) \<noteq> None \<and> mo_retryTasks mo = [] \<and> mo_callback mo \<and> now - mo_lastReadTime mo < 60)"

text \<open>A failure that is worth a retry: the connection or the server failed, and not the callback that stores the data.\<close>

definition retryable :: "curl_code \<times> int \<Rightarrow> bool" where
  "retryable c = (if fst c = CURLE_OK then snd c \<ge> 400 else fst c \<noteq> CURLE_WRITE_ERROR)"

definition failure_event :: "curl_code \<times> int \<Rightarrow> net_event" where
  "failure_event c =
     (case RequestData_end (fst c) (snd c) of (_, serverCode, clientCode) \<Rightarrow>
        if clientCode \<noteq> NC_ERROR_OK then CLIENT_ERROR clientCode else SERVER_ERROR serverCode)"

lemma retryable_codes:
  assumes "retryable c"
  obtains ret sv cl where "RequestData_end (fst c) (snd c) = (ret, sv, cl)" "ret \<noteq> Request_OK"
    "(cl \<noteq> NC_ERROR_OK \<and> cl \<noteq> NC_ERROR_NOT_RETRY \<and> sv = 0) \<or> (cl = NC_ERROR_OK \<and> sv \<noteq> 0)"
  using assms by (cases "fst c") (auto simp: retryable_def RequestData_end_def split: if_splits)

lemmas round_defs = fail_round_def OnDownloadStatus_def NeedRetry_def RETRY_TIMES_TO_REPORT_ERROR_def HttpDownloadLoop_begin_def HttpDownloadLoop_end_def
  upd_request_def http_ops_def HttpMonitorLoop_def Let_def

lemma single_store: "length xs = 1 \<Longrightarrow> \<exists>q. xs = [q]"
  by (cases xs) auto

lemma fail_round_retries:
  assumes f: "failing n now mo" and c: "retryable c" and n: "n \<le> RETRY_TIMES_TO_REPORT_ERROR"
  shows "\<exists>mo'. fail_round junk now c mo = ([], mo') \<and> failing (n + 1) now mo' \<and> dl_task (hm_dl (mo_downloader mo')) = DL_Started \<and> mo_task mo' = mo_task mo"
proof -
  obtain q where q: "dl_store (hm_dl (mo_downloader mo)) = [q]" using f single_store unfolding failing_def by blast
  obtain ret sv cl where r: "RequestData_end (fst c) (snd c) = (ret, sv, cl)" "ret \<noteq> Request_OK"
    "(cl \<noteq> NC_ERROR_OK \<and> cl \<noteq> NC_ERROR_NOT_RETRY \<and> sv = 0) \<or> (cl = NC_ERROR_OK \<and> sv \<noteq> 0)"
    using retryable_codes [OF c] by blast
  show ?thesis using f n q r
    by (auto simp: failing_def round_defs Downloader_Retry_def Downloader_Start_def Client_Open_def IsSame_def)
qed

lemma fail_round_reports:
  assumes f: "failing n now mo" and c: "retryable c" and n: "n > RETRY_TIMES_TO_REPORT_ERROR"
  shows "\<exists>mo'. fail_round junk now c mo = ([failure_event c], mo') \<and> mo_task mo' = DL_Stopped \<and> dl_task (hm_dl (mo_downloader mo')) = DL_Stopped \<and>
    hi_isClosed (dr_headerInfo (dl_store (hm_dl (mo_downloader mo')) ! 0)) \<and> mo_retryTasks mo' = []"
proof -
  obtain q where q: "dl_store (hm_dl (mo_downloader mo)) = [q]" using f single_store unfolding failing_def by blast
  obtain ret sv cl where r: "RequestData_end (fst c) (snd c) = (ret, sv, cl)" "ret \<noteq> Request_OK"
    "(cl \<noteq> NC_ERROR_OK \<and> cl \<noteq> NC_ERROR_NOT_RETRY \<and> sv = 0) \<or> (cl = NC_ERROR_OK \<and> sv \<noteq> 0)"
    using retryable_codes [OF c] by blast
  show ?thesis using f n q r
    by (auto simp: failing_def failure_event_def round_defs Http_Close_def Downloader_Stop_def upd_current_def Request_Close_def)
qed

lemma fail_rounds_retry:
  assumes "failing n now mo" "\<forall>c \<in> set cs. retryable c" "n + int (length cs) \<le> RETRY_TIMES_TO_REPORT_ERROR + 1"
  shows "\<exists>mo'. fail_rounds junk now cs mo = ([], mo') \<and> failing (n + int (length cs)) now mo' \<and> mo_task mo' = mo_task mo"
  using assms
proof (induction cs arbitrary: n mo)
  case (Cons c cs)
  then obtain mo1 where 1: "fail_round junk now c mo = ([], mo1)" "failing (n + 1) now mo1" "mo_task mo1 = mo_task mo"
    using fail_round_retries [of n now mo c junk] by fastforce
  from Cons.IH [OF 1(2)] Cons.prems obtain mo2 where "fail_rounds junk now cs mo1 = ([], mo2)" "failing (n + 1 + int (length cs)) now mo2" "mo_task mo2 = mo_task mo1"
    by (auto simp: algebra_simps)
  then show ?case using 1 by (simp add: algebra_simps)
qed simp

text \<open>C23: The one request of an HTTP downloader under a monitor with a callback, of which no retry is pending and the last read less than sixty seconds old, fails again and again before any
  data of it arrives, because the connection or the server fails and not the storing of data. It is retried, without a word to the player, six times and not more: the
  seventh failure in a row is reported once, with the code of that failure, the monitor and the downloader stop, and the request is closed, so that a reader waiting for its data is let
  go. (Over HLS it is not so: there closing waits, on the thread of the downloader, for that thread to stop.)\<close>

theorem retries_bounded:
  assumes "failing 0 now mo" "length cs = 6" "\<forall>c \<in> set (cs @ [c']). retryable c"
  shows "\<exists>mo' mo''. fail_rounds junk now cs mo = ([], mo') \<and> failing 6 now mo' \<and> mo_task mo' = mo_task mo \<and>
    fail_round junk now c' mo' = ([failure_event c'], mo'') \<and> mo_task mo'' = DL_Stopped \<and> dl_task (hm_dl (mo_downloader mo'')) = DL_Stopped \<and>
    hi_isClosed (dr_headerInfo (dl_store (hm_dl (mo_downloader mo'')) ! 0)) \<and> mo_retryTasks mo'' = []"
proof -
  obtain mo' where "fail_rounds junk now cs mo = ([], mo')" "failing 6 now mo'" "mo_task mo' = mo_task mo"
    using fail_rounds_retry [OF assms(1), of cs junk] assms(2,3) by (auto simp: RETRY_TIMES_TO_REPORT_ERROR_def)
  with fail_round_reports [of 6 now mo' c' junk] assms(3) show ?thesis by (auto simp: RETRY_TIMES_TO_REPORT_ERROR_def)
qed

definition failing_example :: "http_md monitor" where
  "failing_example = (mk_DownloadMonitor ((mk_HttpMediaDownloader 8)
     \<lparr>hm_dl := mk_Downloader\<lparr>dl_store := [(mk_DownloadRequest (0, False, 0) ''http://h'' False)\<lparr>dr_retryTimes := 0\<rparr>], dl_currentRequest := Some 0,
        dl_shouldStartNextRequest := False, dl_client := Client_Open ''http://h''\<rparr>\<rparr>))\<lparr>mo_callback := True, mo_isPlaying := True\<rparr>"

theorem retries_bounded_witness:
  "\<exists>mo' mo''. fail_rounds (0, False, 0) 9 (replicate 6 (CURLE_COULDNT_CONNECT, 0)) failing_example = ([], mo') \<and>
     fail_round (0, False, 0) 9 (CURLE_OK, 404) mo' = ([SERVER_ERROR 404], mo'') \<and> mo_task mo'' = DL_Stopped"
proof -
  have "failing 0 9 failing_example" by (simp add: failing_def failing_example_def mk_DownloadMonitor_def mk_Downloader_def Client_Open_def)
  from retries_bounded [OF this, of "replicate 6 (CURLE_COULDNT_CONNECT, 0)" "(CURLE_OK, 404)" "(0, False, 0)"]
  show ?thesis by (auto simp: retryable_def failure_event_def RequestData_end_def)
qed

end
