(* ===== verification/Capability_Check.thy ===== *)
theory Capability_Check
  imports Prelude Text_Stream
begin

text \<open>
  \<^verbatim>\<open>engine/pipeline/core/compatible_check.cpp\<close>: what two neighbours in a pipeline can agree on. A capability is a mime type with a value per key: one value,
  an interval or a list. Values are dynamically typed (\<^verbatim>\<open>Any\<close>); here a value carries the C++ type of its numbers, and the numbers are integers in the range of
  that type. Keys are the numbers of the tags.
\<close>

unbundle bit_operations_syntax

section \<open>Values and tags\<close>

datatype num_type = TY_uint32 | TY_int64 | TY_AudioChannelLayout | TY_AudioSampleFormat | TY_AudioAacProfile | TY_AudioAacStreamFormat
  | TY_VideoPixelFormat | TY_VideoBitStreamFormat

datatype ValueType = Any_Empty | Any_String string | Any_Other nat | FixedCap num_type int | IntervalCap num_type int int | DiscreteCap num_type "int list"

definition TAG_MIME :: nat where "TAG_MIME = 1 * 2 ^ 16 + 1"
definition MEDIA_BITRATE :: nat where "MEDIA_BITRATE = 2 * 2 ^ 16 + 15"
definition AUDIO_CHANNELS :: nat where "AUDIO_CHANNELS = 3 * 2 ^ 16 + 1"
definition AUDIO_CHANNEL_LAYOUT :: nat where "AUDIO_CHANNEL_LAYOUT = 3 * 2 ^ 16 + 2"
definition AUDIO_SAMPLE_RATE :: nat where "AUDIO_SAMPLE_RATE = 3 * 2 ^ 16 + 3"
definition AUDIO_SAMPLE_FORMAT :: nat where "AUDIO_SAMPLE_FORMAT = 3 * 2 ^ 16 + 4"
definition AUDIO_MPEG_VERSION :: nat where "AUDIO_MPEG_VERSION = 4 * 2 ^ 16 + 1 * 2 ^ 8 + 1"
definition AUDIO_MPEG_LAYER :: nat where "AUDIO_MPEG_LAYER = 4 * 2 ^ 16 + 1 * 2 ^ 8 + 2"
definition AUDIO_AAC_PROFILE :: nat where "AUDIO_AAC_PROFILE = 4 * 2 ^ 16 + 2 * 2 ^ 8 + 1"
definition AUDIO_AAC_LEVEL :: nat where "AUDIO_AAC_LEVEL = 4 * 2 ^ 16 + 2 * 2 ^ 8 + 2"
definition AUDIO_AAC_STREAM_FORMAT :: nat where "AUDIO_AAC_STREAM_FORMAT = 4 * 2 ^ 16 + 2 * 2 ^ 8 + 3"
definition VIDEO_PIXEL_FORMAT :: nat where "VIDEO_PIXEL_FORMAT = 5 * 2 ^ 16 + 3"
definition VIDEO_BIT_STREAM_FORMAT :: nat where "VIDEO_BIT_STREAM_FORMAT = 5 * 2 ^ 16 + 8"

lemmas tag_defs = TAG_MIME_def MEDIA_BITRATE_def AUDIO_CHANNELS_def AUDIO_CHANNEL_LAYOUT_def AUDIO_SAMPLE_RATE_def AUDIO_SAMPLE_FORMAT_def
  AUDIO_MPEG_VERSION_def AUDIO_MPEG_LAYER_def AUDIO_AAC_PROFILE_def AUDIO_AAC_LEVEL_def AUDIO_AAC_STREAM_FORMAT_def VIDEO_PIXEL_FORMAT_def
  VIDEO_BIT_STREAM_FORMAT_def

section \<open>Comparison\<close>

text \<open>
  The comparison functions subtract in the type of the values and return an \<^verbatim>\<open>int\<close>: whatever the type, the difference is cut to 32 bits.
\<close>

definition cmpFunc :: "int \<Rightarrow> int \<Rightarrow> int" where
  "cmpFunc a b = swrap 32 (a - b)"

definition cap_Max :: "int \<Rightarrow> int \<Rightarrow> int" where
  "cap_Max val1 val2 = (if cmpFunc val1 val2 \<ge> 0 then val1 else val2)"

definition cap_Min :: "int \<Rightarrow> int \<Rightarrow> int" where
  "cap_Min val1 val2 = (if cmpFunc val1 val2 \<le> 0 then val1 else val2)"

definition FFCapabilityCheck :: "num_type \<Rightarrow> int \<Rightarrow> int \<Rightarrow> ValueType option" where
  "FFCapabilityCheck t v1 v2 = (if cmpFunc v1 v2 = 0 then Some (FixedCap t v1) else None)"

definition FICapabilityCheck :: "num_type \<Rightarrow> int \<Rightarrow> int \<times> int \<Rightarrow> ValueType option" where
  "FICapabilityCheck t v1 v2 =
     (let mx = cap_Max (fst v2) (snd v2); mn = cap_Min (fst v2) (snd v2)
      in if cmpFunc v1 mn \<ge> 0 \<and> cmpFunc v1 mx \<le> 0 then Some (FixedCap t v1) else None)"

definition FDCapabilityCheck :: "num_type \<Rightarrow> int \<Rightarrow> int list \<Rightarrow> ValueType option" where
  "FDCapabilityCheck t v1 v2 = (if \<exists>tmp \<in> set v2. cmpFunc tmp v1 = 0 then Some (FixedCap t v1) else None)"

definition IICapabilityCheck :: "num_type \<Rightarrow> int \<times> int \<Rightarrow> int \<times> int \<Rightarrow> ValueType option" where
  "IICapabilityCheck t v1 v2 =
     (let max1 = cap_Max (fst v1) (snd v1); min1 = cap_Min (fst v1) (snd v1);
          max2 = cap_Max (fst v2) (snd v2); min2 = cap_Min (fst v2) (snd v2);
          tmpMin = cap_Max min1 min2; tmpMax = cap_Min max1 max2;
          compRes = cmpFunc tmpMin tmpMax
      in if compRes > 0 then None
         else if compRes = 0 then Some (FixedCap t tmpMin)
         else Some (IntervalCap t tmpMin tmpMax))"

definition list_result :: "num_type \<Rightarrow> int list \<Rightarrow> ValueType option" where
  "list_result t tmpOut =
     (case tmpOut of [] \<Rightarrow> None | [x] \<Rightarrow> Some (FixedCap t x) | _ \<Rightarrow> Some (DiscreteCap t tmpOut))"

definition IDCapabilityCheck :: "num_type \<Rightarrow> int \<times> int \<Rightarrow> int list \<Rightarrow> ValueType option" where
  "IDCapabilityCheck t v1 v2 = list_result t (filter (\<lambda>oneValue. cmpFunc oneValue (fst v1) \<ge> 0 \<and> cmpFunc oneValue (snd v1) \<le> 0) v2)"

definition DDCapabilityCheck :: "num_type \<Rightarrow> int list \<Rightarrow> int list \<Rightarrow> ValueType option" where
  "DDCapabilityCheck t v1 v2 = list_result t (filter (\<lambda>cap1. \<exists>tmp \<in> set v2. cmpFunc cap1 tmp = 0) v1)"

section \<open>Checking one value\<close>

definition ALLOW_FIXED :: "8 word" where "ALLOW_FIXED = push_bit 0 1"
definition ALLOW_INTERVAL :: "8 word" where "ALLOW_INTERVAL = push_bit 1 1"
definition ALLOW_DISCRETE :: "8 word" where "ALLOW_DISCRETE = push_bit 2 1"

definition IsFixedAllowed :: "8 word \<Rightarrow> bool" where "IsFixedAllowed flags = (ALLOW_FIXED AND flags \<noteq> 0)"
definition IsIntervalAllowed :: "8 word \<Rightarrow> bool" where "IsIntervalAllowed flags = (ALLOW_INTERVAL AND flags \<noteq> 0)"
definition IsDiscreteAllowed :: "8 word \<Rightarrow> bool" where "IsDiscreteAllowed flags = (ALLOW_DISCRETE AND flags \<noteq> 0)"

text \<open>The types of the second value are tested in turn; a value of another type is refused.\<close>

definition FixedNumericalCapabilityCheck :: "num_type \<Rightarrow> 8 word \<Rightarrow> int \<Rightarrow> ValueType \<Rightarrow> ValueType option" where
  "FixedNumericalCapabilityCheck t flags value2 value1 =
     (case value1 of
        FixedCap t' x \<Rightarrow> if t' = t then FFCapabilityCheck t value2 x else None
      | IntervalCap t' x y \<Rightarrow> if IsIntervalAllowed flags \<and> t' = t then FICapabilityCheck t value2 (x, y) else None
      | DiscreteCap t' xs \<Rightarrow> if IsDiscreteAllowed flags \<and> t' = t then FDCapabilityCheck t value2 xs else None
      | _ \<Rightarrow> None)"

definition IntervalNumericalCapabilityCheck :: "num_type \<Rightarrow> 8 word \<Rightarrow> int \<times> int \<Rightarrow> ValueType \<Rightarrow> ValueType option" where
  "IntervalNumericalCapabilityCheck t flags value2 value1 =
     (case value1 of
        FixedCap t' x \<Rightarrow> if IsFixedAllowed flags \<and> t' = t then FICapabilityCheck t x value2 else None
      | IntervalCap t' x y \<Rightarrow> if t' = t then IICapabilityCheck t (x, y) value2 else None
      | DiscreteCap t' xs \<Rightarrow> if IsDiscreteAllowed flags \<and> t' = t then IDCapabilityCheck t value2 xs else None
      | _ \<Rightarrow> None)"

definition DiscreteNumericalCapabilityCheck :: "num_type \<Rightarrow> 8 word \<Rightarrow> int list \<Rightarrow> ValueType \<Rightarrow> ValueType option" where
  "DiscreteNumericalCapabilityCheck t flags value2 value1 =
     (case value1 of
        FixedCap t' x \<Rightarrow> if IsFixedAllowed flags \<and> t' = t then FDCapabilityCheck t x value2 else None
      | IntervalCap t' x y \<Rightarrow> if IsIntervalAllowed flags \<and> t' = t then IDCapabilityCheck t (x, y) value2 else None
      | DiscreteCap t' xs \<Rightarrow> if t' = t then DDCapabilityCheck t xs value2 else None
      | _ \<Rightarrow> None)"

definition CapabilityValueCheck :: "num_type \<Rightarrow> 8 word \<Rightarrow> ValueType \<Rightarrow> ValueType \<Rightarrow> ValueType option" where
  "CapabilityValueCheck t flags val1 val2 =
     (case val1 of
        FixedCap t' x \<Rightarrow> if IsFixedAllowed flags \<and> t' = t then FixedNumericalCapabilityCheck t flags x val2 else None
      | IntervalCap t' x y \<Rightarrow> if IsIntervalAllowed flags \<and> t' = t then IntervalNumericalCapabilityCheck t flags (x, y) val2 else None
      | DiscreteCap t' xs \<Rightarrow> if IsDiscreteAllowed flags \<and> t' = t then DiscreteNumericalCapabilityCheck t flags xs val2 else None
      | _ \<Rightarrow> None)"

definition FixInvalDisc :: "8 word" where "FixInvalDisc = ALLOW_FIXED OR ALLOW_INTERVAL OR ALLOW_DISCRETE"
definition FixDisc :: "8 word" where "FixDisc = ALLOW_FIXED OR ALLOW_DISCRETE"

definition g_capabilityValueCheckMap :: "(nat \<times> num_type \<times> 8 word) list" where
  "g_capabilityValueCheckMap =
     [(AUDIO_SAMPLE_RATE, TY_uint32, FixInvalDisc),
      (AUDIO_CHANNELS, TY_uint32, FixInvalDisc),
      (AUDIO_CHANNEL_LAYOUT, TY_AudioChannelLayout, FixDisc),
      (AUDIO_SAMPLE_FORMAT, TY_AudioSampleFormat, FixDisc),
      (AUDIO_MPEG_VERSION, TY_uint32, FixInvalDisc),
      (AUDIO_MPEG_LAYER, TY_uint32, FixInvalDisc),
      (AUDIO_AAC_PROFILE, TY_AudioAacProfile, FixDisc),
      (AUDIO_AAC_LEVEL, TY_uint32, FixInvalDisc),
      (AUDIO_AAC_STREAM_FORMAT, TY_AudioAacStreamFormat, FixDisc),
      (VIDEO_PIXEL_FORMAT, TY_VideoPixelFormat, FixDisc),
      (VIDEO_BIT_STREAM_FORMAT, TY_VideoBitStreamFormat, FixDisc),
      (MEDIA_BITRATE, TY_int64, FixInvalDisc)]"

definition g_allCapabilityId :: "nat list" where
  "g_allCapabilityId =
     [AUDIO_SAMPLE_RATE, AUDIO_CHANNELS, AUDIO_CHANNEL_LAYOUT, AUDIO_SAMPLE_FORMAT, AUDIO_MPEG_VERSION, AUDIO_MPEG_LAYER, AUDIO_AAC_PROFILE,
      AUDIO_AAC_LEVEL, AUDIO_AAC_STREAM_FORMAT, VIDEO_PIXEL_FORMAT, VIDEO_BIT_STREAM_FORMAT, MEDIA_BITRATE]"

section \<open>Mime types\<close>

text \<open>\<^verbatim>\<open>tolower\<close> in the C locale.\<close>

definition tolower :: "char \<Rightarrow> char" where
  "tolower c = (if 65 \<le> (of_char c :: nat) \<and> (of_char c :: nat) \<le> 90 then char_of (of_char c + 32 :: nat) else c)"

definition StringEqIgnoreCase :: "string \<Rightarrow> string \<Rightarrow> bool" where
  "StringEqIgnoreCase s1 s2 = (map tolower s1 = map tolower s2)"

definition IsSubsetMime :: "string \<Rightarrow> string \<Rightarrow> bool" where
  "IsSubsetMime subsetMime universe =
     (case str_find ''/'' subsetMime of
        None \<Rightarrow> False
      | Some i \<Rightarrow>
          if i = 0 then False
          else if universe = ''*'' then True
          else (case str_find ''/'' universe of
             None \<Rightarrow> False
           | Some j \<Rightarrow>
               if j = 0 then False
               else if \<not> StringEqIgnoreCase (take i subsetMime) (take j universe) then False
               else if drop (j + 1) universe = ''*'' then True
               else StringEqIgnoreCase (drop (j + 1) universe) (drop (i + 1) subsetMime)))"

section \<open>Merging\<close>

record Capability =
  cap_mime :: string
  cap_keys :: "(nat, ValueType) smap"

text \<open>The keys of the first capability in order; \<open>None\<close> when a key has no value in common.\<close>

fun merge_origin :: "(nat, ValueType) smap \<Rightarrow> (nat, ValueType) smap \<Rightarrow> (nat, ValueType) smap \<Rightarrow> (nat, ValueType) smap option" where
  "merge_origin [] other res = Some res"
| "merge_origin ((k, v) # rest) other res =
     (case map_of other k of
        None \<Rightarrow> merge_origin rest other (smap_put k v res)
      | Some v' \<Rightarrow>
          (case map_of g_capabilityValueCheckMap k of
             None \<Rightarrow> merge_origin rest other res
           | Some (t, flags) \<Rightarrow>
               (case CapabilityValueCheck t flags v v' of
                  None \<Rightarrow> None
                | Some tmp \<Rightarrow> merge_origin rest other (smap_put k tmp res))))"

fun merge_other :: "(nat, ValueType) smap \<Rightarrow> (nat, ValueType) smap \<Rightarrow> (nat, ValueType) smap" where
  "merge_other [] res = res"
| "merge_other ((k, v) # rest) res = merge_other rest (if map_of res k = None then smap_put k v res else res)"

text \<open>The flag and what is left in the result.\<close>

definition MergeCapabilityKeys :: "Capability \<Rightarrow> Capability \<Rightarrow> Capability \<Rightarrow> bool \<times> Capability" where
  "MergeCapabilityKeys originCap otherCap resCap =
     (case merge_origin (cap_keys originCap) (cap_keys otherCap) [] of
        None \<Rightarrow> (False, resCap\<lparr>cap_keys := []\<rparr>)
      | Some res \<Rightarrow> (True, resCap\<lparr>cap_keys := merge_other (cap_keys otherCap) res\<rparr>))"

definition MergeCapability :: "Capability \<Rightarrow> Capability \<Rightarrow> Capability \<Rightarrow> bool \<times> Capability" where
  "MergeCapability originCap otherCap resCap =
     (let res0 = resCap\<lparr>cap_mime := [], cap_keys := []\<rparr>
      in if \<not> IsSubsetMime (cap_mime originCap) (cap_mime otherCap) then (False, res0)
         else case MergeCapabilityKeys originCap otherCap res0 of
           (False, res) \<Rightarrow> (False, res)
         | (True, res) \<Rightarrow> (True, res\<lparr>cap_mime := cap_mime originCap\<rparr>))"

fun ApplyCapabilitySet :: "Capability \<Rightarrow> Capability list \<Rightarrow> Capability \<Rightarrow> bool \<times> Capability" where
  "ApplyCapabilitySet originCap [] resCap = (False, resCap)"
| "ApplyCapabilitySet originCap (cap # caps) resCap =
     (case MergeCapability originCap cap resCap of
        (True, res) \<Rightarrow> (True, res)
      | (False, res) \<Rightarrow> ApplyCapabilitySet originCap caps res)"

section \<open>Meta data\<close>

type_synonym EMeta = "(nat, ValueType) smap"

definition ExtractFixedCap :: "num_type \<Rightarrow> ValueType \<Rightarrow> ValueType option" where
  "ExtractFixedCap t val =
     (case val of
        FixedCap t' x \<Rightarrow> if t' = t then Some (FixedCap t x) else None
      | IntervalCap t' x y \<Rightarrow> if t' = t then Some (FixedCap t x) else None
      | DiscreteCap t' xs \<Rightarrow> if t' = t \<and> xs \<noteq> [] then Some (FixedCap t (hd xs)) else None
      | _ \<Rightarrow> None)"

definition g_capExtrMap :: "(nat \<times> num_type) list" where
  "g_capExtrMap =
     [(AUDIO_SAMPLE_RATE, TY_uint32), (AUDIO_CHANNELS, TY_uint32), (AUDIO_CHANNEL_LAYOUT, TY_AudioChannelLayout),
      (AUDIO_SAMPLE_FORMAT, TY_AudioSampleFormat), (AUDIO_MPEG_VERSION, TY_uint32), (AUDIO_MPEG_LAYER, TY_uint32),
      (AUDIO_AAC_PROFILE, TY_AudioAacProfile), (AUDIO_AAC_LEVEL, TY_uint32), (AUDIO_AAC_STREAM_FORMAT, TY_AudioAacStreamFormat),
      (VIDEO_PIXEL_FORMAT, TY_VideoPixelFormat), (VIDEO_BIT_STREAM_FORMAT, TY_VideoBitStreamFormat), (MEDIA_BITRATE, TY_int64)]"

definition collect_keys :: "EMeta \<Rightarrow> (nat, ValueType) smap" where
  "collect_keys meta =
     fold (\<lambda>key keys. case map_of meta key of None \<Rightarrow> keys | Some tmp \<Rightarrow> smap_put key tmp keys) g_allCapabilityId []"

definition MetaToCapability :: "EMeta \<Rightarrow> Capability" where
  "MetaToCapability meta =
     \<lparr>cap_mime = (case map_of meta TAG_MIME of Some (Any_String mime) \<Rightarrow> mime | _ \<Rightarrow> []), cap_keys = collect_keys meta\<rparr>"

definition set_extracted :: "nat \<times> ValueType \<Rightarrow> EMeta \<Rightarrow> EMeta" where
  "set_extracted = (\<lambda>(k, v) res.
     case map_of g_capExtrMap k of
       None \<Rightarrow> res
     | Some t \<Rightarrow> (case ExtractFixedCap t v of None \<Rightarrow> res | Some tmp \<Rightarrow> smap_put k tmp res))"

definition MergeMetaWithCapability :: "EMeta \<Rightarrow> Capability \<Rightarrow> bool \<times> EMeta" where
  "MergeMetaWithCapability meta cap =
     (case MergeCapability \<lparr>cap_mime = cap_mime cap, cap_keys = collect_keys meta\<rparr> cap \<lparr>cap_mime = [], cap_keys = []\<rparr> of
        (False, _) \<Rightarrow> (False, [])
      | (True, resCap) \<Rightarrow> (True, fold set_extracted (cap_keys resCap) (smap_put TAG_MIME (Any_String (cap_mime cap)) meta)))"

end
