(* ===== verification/Capability_Props.thy ===== *)
theory Capability_Props
  imports Capability_Check
begin

text \<open>
  What the negotiation of capabilities computes: a value stands for the set of numbers it admits, and merging is intersection, for one key, for a whole
  capability and for the meta data of a stream; and where the 32 bit comparison and the reversed interval make it something else.
\<close>

section \<open>What a value admits\<close>

fun admits :: "ValueType \<Rightarrow> int \<Rightarrow> bool" where
  "admits (FixedCap t x) y = (y = x)"
| "admits (IntervalCap t a b) y = (min a b \<le> y \<and> y \<le> max a b)"
| "admits (DiscreteCap t xs) y = (y \<in> set xs)"
| "admits _ y = False"

lemma admits_inhabited [simp]:
  "Ex (admits (FixedCap t x))" "Ex (admits (IntervalCap t a b))" "Ex (admits (DiscreteCap t xs)) = (xs \<noteq> [])"
  by (auto intro: exI [of _ a]) (cases xs; auto)

fun nums :: "ValueType \<Rightarrow> int list" where
  "nums (FixedCap t x) = [x]"
| "nums (IntervalCap t a b) = [a, b]"
| "nums (DiscreteCap t xs) = xs"
| "nums _ = []"

text \<open>A value of the right type and kind whose numbers are in the range where the comparison is exact, an interval in order, a list not empty.\<close>

fun value_kind :: "num_type \<Rightarrow> 8 word \<Rightarrow> ValueType \<Rightarrow> bool" where
  "value_kind t flags (FixedCap t' x) = (t' = t \<and> IsFixedAllowed flags)"
| "value_kind t flags (IntervalCap t' a b) = (t' = t \<and> IsIntervalAllowed flags \<and> a \<le> b)"
| "value_kind t flags (DiscreteCap t' xs) = (t' = t \<and> IsDiscreteAllowed flags \<and> xs \<noteq> [])"
| "value_kind t flags _ = False"

definition exact_num :: "int \<Rightarrow> bool" where
  "exact_num x = (0 \<le> x \<and> x < 2 ^ 31)"

definition value_ok :: "num_type \<Rightarrow> 8 word \<Rightarrow> ValueType \<Rightarrow> bool" where
  "value_ok t flags v = (value_kind t flags v \<and> (\<forall>x \<in> set (nums v). exact_num x))"

lemma cmpFunc_exact: "exact_num a \<Longrightarrow> exact_num b \<Longrightarrow> cmpFunc a b = a - b"
  unfolding cmpFunc_def exact_num_def by (rule swrap_id) simp_all

lemma cap_Max_exact: "exact_num a \<Longrightarrow> exact_num b \<Longrightarrow> cap_Max a b = max a b"
  by (simp add: cap_Max_def cmpFunc_exact)

lemma cap_Min_exact: "exact_num a \<Longrightarrow> exact_num b \<Longrightarrow> cap_Min a b = min a b"
  by (simp add: cap_Min_def cmpFunc_exact)

lemma exact_num_max_min: "exact_num a \<Longrightarrow> exact_num b \<Longrightarrow> exact_num (max a b) \<and> exact_num (min a b)"
  by (simp add: max_def min_def)

lemmas exact_simps = cmpFunc_exact cap_Max_exact cap_Min_exact exact_num_max_min

text \<open>The specification of one check: it fails exactly when nothing is admitted by both, and otherwise gives the intersection.\<close>

definition is_meet :: "num_type \<Rightarrow> 8 word \<Rightarrow> ValueType \<Rightarrow> ValueType \<Rightarrow> ValueType option \<Rightarrow> bool" where
  "is_meet t flags v1 v2 r =
     (case r of
        None \<Rightarrow> \<forall>x. \<not> (admits v1 x \<and> admits v2 x)
      | Some v \<Rightarrow> value_ok t flags v \<and> (\<forall>x. admits v x = (admits v1 x \<and> admits v2 x)) \<and> (\<exists>x. admits v x))"

lemma is_meet_sym: "is_meet t flags v1 v2 r = is_meet t flags v2 v1 r"
  by (auto simp: is_meet_def split: option.splits)

lemma list_result_meet:
  assumes "\<forall>x \<in> set xs. exact_num x" "IsFixedAllowed flags" "IsDiscreteAllowed flags" "\<forall>x. x \<in> set xs \<longleftrightarrow> admits v1 x \<and> admits v2 x"
  shows "is_meet t flags v1 v2 (list_result t xs)"
  using assms by (auto simp: is_meet_def list_result_def value_ok_def split: list.splits)

lemma FF_meet: "IsFixedAllowed flags \<Longrightarrow> exact_num x \<Longrightarrow> exact_num y \<Longrightarrow> is_meet t flags (FixedCap t x) (FixedCap t y) (FFCapabilityCheck t x y)"
  by (auto simp: is_meet_def FFCapabilityCheck_def exact_simps value_ok_def)

lemma FI_meet:
  "IsFixedAllowed flags \<Longrightarrow> exact_num x \<Longrightarrow> exact_num a \<Longrightarrow> exact_num b \<Longrightarrow>
   is_meet t flags (FixedCap t x) (IntervalCap t a b) (FICapabilityCheck t x (a, b))"
  by (auto simp: is_meet_def FICapabilityCheck_def exact_simps value_ok_def Let_def)

lemma FD_meet:
  "IsFixedAllowed flags \<Longrightarrow> exact_num x \<Longrightarrow> \<forall>y \<in> set ys. exact_num y \<Longrightarrow>
   is_meet t flags (FixedCap t x) (DiscreteCap t ys) (FDCapabilityCheck t x ys)"
  by (auto simp: is_meet_def FDCapabilityCheck_def exact_simps value_ok_def)

lemma range_meet:
  assumes "IsFixedAllowed flags" "IsIntervalAllowed flags" "exact_num lo" "exact_num hi" "\<And>x. (admits v1 x \<and> admits v2 x) = (lo \<le> x \<and> x \<le> hi)"
  shows "is_meet t flags v1 v2 (if lo > hi then None else if lo = hi then Some (FixedCap t lo) else Some (IntervalCap t lo hi))"
  using assms by (auto simp: is_meet_def value_ok_def)

lemma II_meet:
  assumes "IsFixedAllowed flags" "IsIntervalAllowed flags" "exact_num a" "exact_num b" "exact_num c" "exact_num d"
  shows "is_meet t flags (IntervalCap t a b) (IntervalCap t c d) (IICapabilityCheck t (a, b) (c, d))"
proof -
  let ?lo = "max (min a b) (min c d)" and ?hi = "min (max a b) (max c d)"
  have ex: "exact_num ?lo" "exact_num ?hi" using assms by (simp_all add: exact_num_max_min)
  have "IICapabilityCheck t (a, b) (c, d) = (if ?lo > ?hi then None else if ?lo = ?hi then Some (FixedCap t ?lo) else Some (IntervalCap t ?lo ?hi))"
    using assms ex by (simp add: IICapabilityCheck_def exact_simps Let_def)
  moreover have "(admits (IntervalCap t a b) x \<and> admits (IntervalCap t c d) x) = (?lo \<le> x \<and> x \<le> ?hi)" for x
    by auto
  ultimately show ?thesis using range_meet [OF assms(1,2) ex] by presburger
qed

lemma ID_meet:
  assumes "IsFixedAllowed flags" "IsDiscreteAllowed flags" "exact_num a" "exact_num b" "a \<le> b" "\<forall>y \<in> set ys. exact_num y"
  shows "is_meet t flags (IntervalCap t a b) (DiscreteCap t ys) (IDCapabilityCheck t (a, b) ys)"
  unfolding IDCapabilityCheck_def by (rule list_result_meet) (use assms in \<open>auto simp: exact_simps\<close>)

lemma DD_meet:
  assumes "IsFixedAllowed flags" "IsDiscreteAllowed flags" "\<forall>x \<in> set xs. exact_num x" "\<forall>y \<in> set ys. exact_num y"
  shows "is_meet t flags (DiscreteCap t xs) (DiscreteCap t ys) (DDCapabilityCheck t xs ys)"
  unfolding DDCapabilityCheck_def by (rule list_result_meet) (use assms in \<open>auto simp: exact_simps\<close>)

lemmas meets = FF_meet FI_meet FD_meet II_meet ID_meet DD_meet
lemmas meets_sym = meets [THEN iffD1 [OF is_meet_sym]]
lemmas numerical_defs = CapabilityValueCheck_def FixedNumericalCapabilityCheck_def IntervalNumericalCapabilityCheck_def DiscreteNumericalCapabilityCheck_def

lemma value_check_meet:
  assumes "value_ok t flags v1" "value_ok t flags v2" "IsFixedAllowed flags"
  shows "is_meet t flags v1 v2 (CapabilityValueCheck t flags v1 v2)"
proof (cases v1)
  case (FixedCap t1 x)
  then show ?thesis using assms by (cases v2) (auto simp: numerical_defs value_ok_def intro: meets)
next
  case (IntervalCap t1 a b)
  then show ?thesis using assms by (cases v2) (auto simp: numerical_defs value_ok_def intro: meets meets_sym)
next
  case (DiscreteCap t1 xs)
  then show ?thesis using assms by (cases v2) (auto simp: numerical_defs value_ok_def intro: meets meets_sym)
qed (use assms in \<open>auto simp: value_ok_def\<close>)

section \<open>What a capability admits\<close>

definition keys_ok :: "(nat, ValueType) smap \<Rightarrow> bool" where
  "keys_ok ks = (smap_inv ks \<and> (\<forall>k v. map_of ks k = Some v \<longrightarrow>
     (\<exists>t flags. map_of g_capabilityValueCheckMap k = Some (t, flags) \<and> value_ok t flags v)))"

definition keys_admit :: "(nat, ValueType) smap \<Rightarrow> (nat \<Rightarrow> int) \<Rightarrow> bool" where
  "keys_admit ks conf = (\<forall>k v. map_of ks k = Some v \<longrightarrow> admits v (conf k))"

lemma flags_allow_fixed: "map_of g_capabilityValueCheckMap k = Some (t, flags) \<Longrightarrow> IsFixedAllowed flags"
  by (auto simp: g_capabilityValueCheckMap_def IsFixedAllowed_def FixInvalDisc_def FixDisc_def ALLOW_FIXED_def ALLOW_INTERVAL_def ALLOW_DISCRETE_def
      split: if_splits)

definition key_meet :: "nat \<Rightarrow> ValueType \<Rightarrow> ValueType \<Rightarrow> ValueType option" where
  "key_meet k v v' = (case map_of g_capabilityValueCheckMap k of None \<Rightarrow> None | Some (t, flags) \<Rightarrow> CapabilityValueCheck t flags v v')"

lemma key_meet_is_meet:
  assumes "keys_ok ks" "keys_ok ks'" "map_of ks k = Some v" "map_of ks' k = Some v'"
  shows "\<exists>t flags. map_of g_capabilityValueCheckMap k = Some (t, flags) \<and> is_meet t flags v v' (key_meet k v v')"
proof -
  obtain t flags where "map_of g_capabilityValueCheckMap k = Some (t, flags)" "value_ok t flags v" "value_ok t flags v'"
    using assms unfolding keys_ok_def by fastforce
  then show ?thesis using value_check_meet flags_allow_fixed by (auto simp: key_meet_def)
qed

text \<open>The rules of the documentation: a key of one side is kept, a key of both becomes the meet; two sides clash when a meet does not exist.\<close>

definition merged :: "(nat, ValueType) smap \<Rightarrow> (nat, ValueType) smap \<Rightarrow> nat \<Rightarrow> ValueType option" where
  "merged ks1 ks2 k =
     (case map_of ks1 k of None \<Rightarrow> map_of ks2 k | Some v \<Rightarrow> (case map_of ks2 k of None \<Rightarrow> Some v | Some v' \<Rightarrow> key_meet k v v'))"

definition clash :: "(nat, ValueType) smap \<Rightarrow> (nat, ValueType) smap \<Rightarrow> bool" where
  "clash ks1 ks2 = (\<exists>k v v'. map_of ks1 k = Some v \<and> map_of ks2 k = Some v' \<and> key_meet k v v' = None)"

lemma no_clashD: "\<not> clash ks1 ks2 \<Longrightarrow> map_of ks1 k = Some v \<Longrightarrow> map_of ks2 k = Some v' \<Longrightarrow> \<exists>w. key_meet k v v' = Some w"
  unfolding clash_def by fastforce

lemma merged_right: "\<not> clash ks1 ks2 \<Longrightarrow> map_of ks2 k = Some v \<Longrightarrow> \<exists>w. merged ks1 ks2 k = Some w"
  using no_clashD [of ks1 ks2 k] by (cases "map_of ks1 k") (auto simp: merged_def)

lemma clash_nothing:
  assumes "keys_ok ks1" "keys_ok ks2" "clash ks1 ks2"
  shows "\<not> (keys_admit ks1 conf \<and> keys_admit ks2 conf)"
proof -
  obtain k v v' where k: "map_of ks1 k = Some v" "map_of ks2 k = Some v'" "key_meet k v v' = None" using assms(3) unfolding clash_def by blast
  then have "\<not> (admits v (conf k) \<and> admits v' (conf k))" using key_meet_is_meet [OF assms(1,2) k(1,2)] by (auto simp: is_meet_def)
  with k show ?thesis unfolding keys_admit_def by blast
qed

lemma clash_Cons:
  "map_of ks k = None \<Longrightarrow> clash ((k, v) # ks) other = ((\<exists>v'. map_of other k = Some v' \<and> key_meet k v v' = None) \<or> clash ks other)"
  unfolding clash_def by (auto split: if_splits) fastforce+

definition origin_lookup :: "(nat, ValueType) smap \<Rightarrow> (nat, ValueType) smap \<Rightarrow> (nat, ValueType) smap \<Rightarrow> nat \<Rightarrow> ValueType option" where
  "origin_lookup ks other res k =
     (case map_of ks k of None \<Rightarrow> map_of res k | Some v \<Rightarrow> (case map_of other k of None \<Rightarrow> Some v | Some v' \<Rightarrow> key_meet k v v'))"

lemma origin_lookup_Cons:
  assumes "map_of ks k = None" "smap_inv res" "(case map_of other k of None \<Rightarrow> Some v | Some v' \<Rightarrow> key_meet k v v') = Some w"
  shows "origin_lookup ks other (smap_put k w res) = origin_lookup ((k, v) # ks) other res"
  using assms by (auto simp: origin_lookup_def smap_simps fun_eq_iff split: option.splits)

lemma merge_origin_spec:
  assumes "smap_inv ks" "\<forall>k v. map_of ks k = Some v \<longrightarrow> map_of g_capabilityValueCheckMap k \<noteq> None" "smap_inv res"
  shows "case merge_origin ks other res of
      None \<Rightarrow> clash ks other
    | Some r \<Rightarrow> smap_inv r \<and> map_of r = origin_lookup ks other res \<and> \<not> clash ks other"
  using assms
proof (induction ks arbitrary: res)
  case (Cons kv ks)
  obtain k v where kv: "kv = (k, v)" by (cases kv)
  have inv: "smap_inv ks" and k: "map_of ks k = None" using Cons.prems(1) by (auto simp: kv smap_inv_def map_of_eq_None_iff)
  have dom: "\<forall>j w. map_of ks j = Some w \<longrightarrow> map_of g_capabilityValueCheckMap j \<noteq> None"
    using Cons.prems(2) k by (auto simp: kv split: if_splits)
  note IH = Cons.IH [OF inv dom smap_put_inv [OF Cons.prems(3)]]
  show ?case
  proof (cases "map_of other k")
    case None
    then show ?thesis using IH [of k v] origin_lookup_Cons [OF k Cons.prems(3), where other = other and v = v and w = v]
      by (simp add: kv clash_Cons k split: option.splits)
  next
    case (Some v')
    obtain t flags where tf: "map_of g_capabilityValueCheckMap k = Some (t, flags)" using Cons.prems(2) [rule_format, of k v] by (auto simp: kv)
    then have m: "CapabilityValueCheck t flags v v' = key_meet k v v'" by (simp add: key_meet_def)
    show ?thesis
    proof (cases "key_meet k v v'")
      case None
      then show ?thesis using Some tf m by (simp add: kv clash_Cons k)
    next
      case (Some w)
      then show ?thesis using \<open>map_of other k = Some v'\<close> tf m IH [of k w] origin_lookup_Cons [OF k Cons.prems(3), where other = other and v = v and w = w]
        by (simp add: kv clash_Cons k split: option.splits)
    qed
  qed
qed (simp add: clash_def origin_lookup_def fun_eq_iff)

lemma merge_other_spec:
  "smap_inv res \<Longrightarrow> smap_inv (merge_other ks res) \<and> map_of (merge_other ks res) k = (case map_of res k of None \<Rightarrow> map_of ks k | Some v \<Rightarrow> Some v)"
  by (induction ks res arbitrary: k rule: merge_other.induct) (auto simp: smap_simps split: option.splits)

lemma merge_keys_spec:
  assumes "keys_ok (cap_keys c1)"
  shows "case MergeCapabilityKeys c1 c2 r0 of
      (False, r) \<Rightarrow> clash (cap_keys c1) (cap_keys c2)
    | (True, r) \<Rightarrow> cap_mime r = cap_mime r0 \<and> smap_inv (cap_keys r) \<and> map_of (cap_keys r) = merged (cap_keys c1) (cap_keys c2) \<and>
        \<not> clash (cap_keys c1) (cap_keys c2)"
proof -
  have inv: "smap_inv (cap_keys c1)" and dom: "\<forall>k v. map_of (cap_keys c1) k = Some v \<longrightarrow> map_of g_capabilityValueCheckMap k \<noteq> None"
    using assms(1) unfolding keys_ok_def by fastforce+
  note o = merge_origin_spec [OF inv dom smap_inv_Nil, of "cap_keys c2"]
  show ?thesis
  proof (cases "merge_origin (cap_keys c1) (cap_keys c2) []")
    case None
    then show ?thesis using o by (simp add: MergeCapabilityKeys_def)
  next
    case (Some r)
    then have r: "smap_inv r" "map_of r = origin_lookup (cap_keys c1) (cap_keys c2) []" "\<not> clash (cap_keys c1) (cap_keys c2)" using o by simp_all
    then have "map_of (merge_other (cap_keys c2) r) k = merged (cap_keys c1) (cap_keys c2) k" for k
      using merge_other_spec [OF r(1), of "cap_keys c2" k] no_clashD [OF r(3), of k] unfolding r(2) merged_def origin_lookup_def
      by (cases "map_of (cap_keys c1) k"; cases "map_of (cap_keys c2) k") fastforce+
    then show ?thesis using Some r merge_other_spec [OF r(1), of "cap_keys c2"] by (auto simp: MergeCapabilityKeys_def)
  qed
qed

lemma merged_keys_ok:
  assumes ok: "keys_ok ks1" "keys_ok ks2" and inv: "smap_inv r" and r: "map_of r = merged ks1 ks2" and def: "\<not> clash ks1 ks2"
  shows "keys_ok r" and "keys_admit r conf = (keys_admit ks1 conf \<and> keys_admit ks2 conf)"
proof -
  have meet: "\<exists>w t flags. map_of r k = Some w \<and> map_of g_capabilityValueCheckMap k = Some (t, flags) \<and> value_ok t flags w \<and>
      (\<forall>x. admits w x = (admits v x \<and> admits v' x))" if vv: "map_of ks1 k = Some v" "map_of ks2 k = Some v'" for k v v'
  proof -
    obtain w where "key_meet k v v' = Some w" using no_clashD [OF def vv] by blast
    with vv key_meet_is_meet [OF ok vv] show ?thesis unfolding r by (auto simp: is_meet_def merged_def)
  qed
  have left: "map_of r k = Some v" if "map_of ks1 k = Some v" "map_of ks2 k = None" for k v using that unfolding r by (simp add: merged_def)
  have right: "map_of r k = map_of ks2 k" if "map_of ks1 k = None" for k using that unfolding r by (simp add: merged_def)
  show "keys_ok r" unfolding keys_ok_def
  proof (intro conjI allI impI)
    fix k v assume v: "map_of r k = Some v"
    show "\<exists>t flags. map_of g_capabilityValueCheckMap k = Some (t, flags) \<and> value_ok t flags v"
      using v ok meet [of k] left [of k] right [of k] unfolding keys_ok_def by (cases "map_of ks1 k"; cases "map_of ks2 k") fastforce+
  qed (rule inv)
  have "(\<forall>v. map_of r k = Some v \<longrightarrow> admits v (conf k)) \<longleftrightarrow>
      (\<forall>v. map_of ks1 k = Some v \<longrightarrow> admits v (conf k)) \<and> (\<forall>v. map_of ks2 k = Some v \<longrightarrow> admits v (conf k))" for k
    using meet [of k] left [of k] right [of k] by (cases "map_of ks1 k"; cases "map_of ks2 k") fastforce+
  then show "keys_admit r conf = (keys_admit ks1 conf \<and> keys_admit ks2 conf)" unfolding keys_admit_def by blast
qed

text \<open>C11: For capabilities all of whose keys are in the table of the code, with values of the type and of a kind the table allows there, numbers from 0 up to two to the power of 31 (not
  included), intervals in order and lists that are not empty (\<open>keys_ok\<close>), merging is intersection: when it succeeds, the result has the first mime type and admits exactly the configurations both admit, whatever mixture
  of fixed values, intervals and lists the keys have, and it satisfies the same conditions; when it fails, the mime types do not match or no configuration suits both. (Outside these
  conditions it is not: \<open>layout_truncated\<close>, \<open>bitrate_interval_wraps\<close>, \<open>reversed_interval\<close>.)\<close>

theorem capabilities_intersect:
  assumes "keys_ok (cap_keys c1)" "keys_ok (cap_keys c2)" "MergeCapability c1 c2 r0 = (ok, r)"
  shows "if ok then cap_mime r = cap_mime c1 \<and> IsSubsetMime (cap_mime c1) (cap_mime c2) \<and> keys_ok (cap_keys r) \<and>
            (\<forall>conf. keys_admit (cap_keys r) conf = (keys_admit (cap_keys c1) conf \<and> keys_admit (cap_keys c2) conf))
         else \<not> IsSubsetMime (cap_mime c1) (cap_mime c2) \<or> (\<forall>conf. \<not> (keys_admit (cap_keys c1) conf \<and> keys_admit (cap_keys c2) conf))"
proof (cases "IsSubsetMime (cap_mime c1) (cap_mime c2)")
  case True
  let ?r0 = "r0\<lparr>cap_mime := [], cap_keys := []\<rparr>"
  obtain b r' where m: "MergeCapabilityKeys c1 c2 ?r0 = (b, r')" by (cases "MergeCapabilityKeys c1 c2 ?r0")
  note sp = merge_keys_spec [OF assms(1), where ?c2.0 = c2 and ?r0.0 = ?r0, unfolded m prod.case]
  have okr: "ok = b" "b \<Longrightarrow> r = r'\<lparr>cap_mime := cap_mime c1\<rparr>" using assms(3) True m by (auto simp: MergeCapability_def Let_def split: bool.splits)
  show ?thesis
  proof (cases b)
    case True
    with sp merged_keys_ok [OF assms(1,2), of "cap_keys r'"] okr \<open>IsSubsetMime (cap_mime c1) (cap_mime c2)\<close> show ?thesis by simp
  next
    case False
    with sp clash_nothing [OF assms(1,2)] okr show ?thesis by simp
  qed
qed (use assms(3) in \<open>simp add: MergeCapability_def Let_def\<close>)

theorem capabilities_intersect_witness:
  "\<exists>r. MergeCapability \<lparr>cap_mime = ''audio/mpeg'', cap_keys = [(AUDIO_CHANNELS, IntervalCap TY_uint32 1 4)]\<rparr>
        \<lparr>cap_mime = ''audio/*'', cap_keys = [(AUDIO_CHANNELS, DiscreteCap TY_uint32 [2, 4, 6]), (AUDIO_SAMPLE_RATE, FixedCap TY_uint32 44100)]\<rparr>
        \<lparr>cap_mime = [], cap_keys = []\<rparr> = (True, r) \<and>
     keys_admit (cap_keys r) ((\<lambda>_. 44100)(AUDIO_CHANNELS := 4)) \<and> \<not> keys_admit (cap_keys r) ((\<lambda>_. 44100)(AUDIO_CHANNELS := 6))"
proof -
  let ?c1 = "\<lparr>cap_mime = ''audio/mpeg'', cap_keys = [(AUDIO_CHANNELS, IntervalCap TY_uint32 1 4)]\<rparr>"
  let ?c2 = "\<lparr>cap_mime = ''audio/*'', cap_keys = [(AUDIO_CHANNELS, DiscreteCap TY_uint32 [2, 4, 6]), (AUDIO_SAMPLE_RATE, FixedCap TY_uint32 44100)]\<rparr>"
  let ?conf = "\<lambda>n. (\<lambda>_. 44100)(AUDIO_CHANNELS := n)"
  have ok: "keys_ok (cap_keys ?c1)" "keys_ok (cap_keys ?c2)"
    by (auto simp: keys_ok_def smap_inv_def value_ok_def exact_num_def g_capabilityValueCheckMap_def tag_defs IsFixedAllowed_def IsIntervalAllowed_def
        IsDiscreteAllowed_def FixInvalDisc_def ALLOW_FIXED_def ALLOW_INTERVAL_def ALLOW_DISCRETE_def split: if_splits)
  have both: "keys_admit (cap_keys ?c1) (?conf 4)" "keys_admit (cap_keys ?c2) (?conf 4)" "\<not> keys_admit (cap_keys ?c1) (?conf 6)"
    by (auto simp: keys_admit_def tag_defs)
  have mime: "IsSubsetMime (cap_mime ?c1) (cap_mime ?c2)" by (simp add: IsSubsetMime_def StringEqIgnoreCase_def)
  obtain b r where r: "MergeCapability ?c1 ?c2 \<lparr>cap_mime = [], cap_keys = []\<rparr> = (b, r)" by (cases "MergeCapability ?c1 ?c2 \<lparr>cap_mime = [], cap_keys = []\<rparr>")
  from capabilities_intersect [OF ok r] both mime show ?thesis using r by (cases b) auto
qed

section \<open>Meta data\<close>

lemma smap_put_same: "smap_inv m \<Longrightarrow> map_of m k = Some v \<Longrightarrow> smap_put k v m = m"
proof (induction m)
  case (Cons ab m)
  obtain a b where ab: "ab = (a, b)" by (cases ab)
  have "smap_inv m" "\<forall>x \<in> fst ` set m. a < x" using Cons.prems(1) by (auto simp: ab smap_inv_def)
  moreover have "k \<noteq> a \<Longrightarrow> k \<in> fst ` set m" using Cons.prems(2) by (force simp: ab dest: map_of_SomeD)
  ultimately show ?case using Cons by (fastforce simp: ab split: if_splits)
qed simp

lemma collect_fold:
  assumes "smap_inv acc"
  shows "smap_inv (fold (\<lambda>key keys. case map_of meta key of None \<Rightarrow> keys | Some tmp \<Rightarrow> smap_put key tmp keys) ids acc) \<and>
    map_of (fold (\<lambda>key keys. case map_of meta key of None \<Rightarrow> keys | Some tmp \<Rightarrow> smap_put key tmp keys) ids acc) k =
      (if k \<in> set ids \<and> map_of meta k \<noteq> None then map_of meta k else map_of acc k)"
  using assms by (induction ids arbitrary: acc) (auto simp: smap_simps split: option.splits)

lemma collect_keys_spec: "smap_inv (collect_keys meta) \<and> map_of (collect_keys meta) k = (if k \<in> set g_allCapabilityId then map_of meta k else None)"
  unfolding collect_keys_def using collect_fold [OF smap_inv_Nil, of meta g_allCapabilityId k] by simp

definition extracted :: "nat \<Rightarrow> ValueType \<Rightarrow> ValueType option" where
  "extracted k v = (case map_of g_capExtrMap k of None \<Rightarrow> None | Some t \<Rightarrow> ExtractFixedCap t v)"

lemma set_extracted_eq: "set_extracted (k, v) res = (case extracted k v of None \<Rightarrow> res | Some w \<Rightarrow> smap_put k w res)"
  by (simp add: set_extracted_def extracted_def split: option.splits)

lemma fold_set_extracted:
  assumes "smap_inv res" "smap_inv ks"
  shows "smap_inv (fold set_extracted ks res) \<and>
    map_of (fold set_extracted ks res) k = (case map_of ks k of None \<Rightarrow> map_of res k
       | Some v \<Rightarrow> (case extracted k v of None \<Rightarrow> map_of res k | Some w \<Rightarrow> Some w))"
  using assms
proof (induction ks arbitrary: res)
  case (Cons kv ks)
  obtain j v where kv: "kv = (j, v)" by (cases kv)
  have inv: "smap_inv ks" and j: "map_of ks j = None" using Cons.prems(2) by (auto simp: kv smap_inv_def map_of_eq_None_iff)
  have r: "smap_inv (set_extracted kv res)" using Cons.prems(1) by (auto simp: kv set_extracted_eq smap_simps split: option.splits)
  show ?case using Cons.IH [OF r inv] j Cons.prems(1) by (auto simp: kv set_extracted_eq smap_simps split: option.splits)
qed simp

lemma fold_set_extracted_same:
  assumes "smap_inv res" "\<forall>(k, v) \<in> set ks. extracted k v = map_of res k"
  shows "fold set_extracted ks res = res"
  using assms by (induction ks) (auto simp: set_extracted_eq smap_put_same split: option.splits)

lemma extr_map_eq: "g_capExtrMap = map (\<lambda>(k, tf). (k, fst tf)) g_capabilityValueCheckMap"
  by (simp add: g_capabilityValueCheckMap_def g_capExtrMap_def)

lemma extr_map: "map_of g_capabilityValueCheckMap k = Some (t, flags) \<Longrightarrow> map_of g_capExtrMap k = Some t"
  by (simp add: extr_map_eq map_of_map)

lemma extract_admitted:
  assumes "value_ok t flags v" "map_of g_capabilityValueCheckMap k = Some (t, flags)"
  shows "\<exists>x. extracted k v = Some (FixedCap t x) \<and> admits v x \<and> exact_num x"
  using assms by (cases v) (auto simp: extracted_def extr_map ExtractFixedCap_def value_ok_def)

lemma fixed_meet:
  assumes "value_ok t flags v" "admits v x" "exact_num x" "IsFixedAllowed flags"
  shows "CapabilityValueCheck t flags (FixedCap t x) v = Some (FixedCap t x)"
proof -
  have "value_ok t flags (FixedCap t x)" using assms by (simp add: value_ok_def)
  from value_check_meet [OF this assms(1,4)] obtain w where w: "CapabilityValueCheck t flags (FixedCap t x) v = Some w"
    using assms(2) by (auto simp: is_meet_def split: option.splits)
  then have "w = FixedCap t x"
    by (cases v) (auto simp: numerical_defs FFCapabilityCheck_def FICapabilityCheck_def FDCapabilityCheck_def Let_def split: if_splits)
  with w show ?thesis by simp
qed

lemma all_ids: "k \<in> set g_allCapabilityId \<longleftrightarrow> map_of g_capabilityValueCheckMap k \<noteq> None"
  by (auto simp: g_allCapabilityId_def g_capabilityValueCheckMap_def split: if_splits)

lemma mime_no_id: "TAG_MIME \<notin> set g_allCapabilityId"
  by (simp add: g_allCapabilityId_def tag_defs)

text \<open>The result of a successful merge, key by key.\<close>

lemma merge_meta_spec:
  assumes "smap_inv meta" "keys_ok (collect_keys meta)" "keys_ok (cap_keys cap)" "MergeMetaWithCapability meta cap = (True, res)"
  shows "smap_inv res \<and> IsSubsetMime (cap_mime cap) (cap_mime cap) \<and>
    (\<forall>k. map_of res k = (if k = TAG_MIME then Some (Any_String (cap_mime cap))
      else case merged (collect_keys meta) (cap_keys cap) k of None \<Rightarrow> map_of meta k | Some v \<Rightarrow> extracted k v)) \<and>
    (\<exists>r. keys_ok r \<and> map_of r = merged (collect_keys meta) (cap_keys cap)) \<and> \<not> clash (collect_keys meta) (cap_keys cap)"
proof -
  let ?c = "\<lparr>cap_mime = cap_mime cap, cap_keys = collect_keys meta\<rparr>" and ?e = "\<lparr>cap_mime = [], cap_keys = []\<rparr> :: Capability"
  have okc: "keys_ok (cap_keys ?c)" using assms(2) by simp
  obtain b r where m: "MergeCapabilityKeys ?c cap ?e = (b, r)" by (cases "MergeCapabilityKeys ?c cap ?e")
  have sub: "IsSubsetMime (cap_mime cap) (cap_mime cap)" and b: "b"
    and res: "res = fold set_extracted (cap_keys r) (smap_put TAG_MIME (Any_String (cap_mime cap)) meta)"
    using assms(4) m by (auto simp: MergeMetaWithCapability_def MergeCapability_def Let_def split: bool.splits if_splits)
  note sp = merge_keys_spec [OF okc, where ?c2.0 = cap and ?r0.0 = ?e, unfolded m prod.case]
  have r: "smap_inv (cap_keys r)" "map_of (cap_keys r) = merged (collect_keys meta) (cap_keys cap)" "\<not> clash (collect_keys meta) (cap_keys cap)"
    using sp b by simp_all
  have ok: "keys_ok (cap_keys r)" using merged_keys_ok(1) [OF assms(2,3) r] .
  have "map_of (cap_keys r) TAG_MIME = None" using ok mime_no_id all_ids unfolding keys_ok_def by fastforce
  moreover have "extracted k v \<noteq> None" if "map_of (cap_keys r) k = Some v" for k v
    using ok that extract_admitted unfolding keys_ok_def by fastforce
  ultimately have "map_of res k = (if k = TAG_MIME then Some (Any_String (cap_mime cap))
      else case merged (collect_keys meta) (cap_keys cap) k of None \<Rightarrow> map_of meta k | Some v \<Rightarrow> extracted k v)" for k
    using fold_set_extracted [OF smap_put_inv [OF assms(1)] r(1), of TAG_MIME "Any_String (cap_mime cap)" k] assms(1) unfolding res r(2) [symmetric]
    by (cases "map_of (cap_keys r) k") (fastforce simp: smap_simps)+
  moreover have "smap_inv res" unfolding res using fold_set_extracted [OF smap_put_inv [OF assms(1)] r(1)] by blast
  ultimately show ?thesis using sub ok r(2,3) by blast
qed

lemma extracted_fixed: "map_of g_capabilityValueCheckMap k = Some (t, flags) \<Longrightarrow> extracted k (FixedCap t x) = Some (FixedCap t x)"
  by (simp add: extracted_def extr_map ExtractFixedCap_def)

text \<open>A merged key is settled on a number that both sides admit.\<close>

lemma merged_settled:
  assumes ok: "keys_ok ks1" "keys_ok ks2" "keys_ok r" "map_of r = merged ks1 ks2" and nc: "\<not> clash ks1 ks2" and m: "merged ks1 ks2 k = Some v"
  shows "\<exists>t flags x. map_of g_capabilityValueCheckMap k = Some (t, flags) \<and> extracted k v = Some (FixedCap t x) \<and> exact_num x \<and>
    (\<forall>w. map_of ks1 k = Some w \<longrightarrow> admits w x) \<and> (\<forall>w. map_of ks2 k = Some w \<longrightarrow> admits w x)"
proof -
  have v: "map_of r k = Some v" using ok(4) m by simp
  then obtain t flags where tf: "map_of g_capabilityValueCheckMap k = Some (t, flags)" "value_ok t flags v" using ok(3) unfolding keys_ok_def by blast
  obtain x where x: "extracted k v = Some (FixedCap t x)" "admits v x" "exact_num x" using extract_admitted [OF tf(2,1)] by blast
  have "(\<forall>w. map_of ks1 k = Some w \<longrightarrow> admits w x) \<and> (\<forall>w. map_of ks2 k = Some w \<longrightarrow> admits w x)"
  proof (cases "map_of ks1 k"; cases "map_of ks2 k")
    fix v1 v2 assume vv: "map_of ks1 k = Some v1" "map_of ks2 k = Some v2"
    then have "key_meet k v1 v2 = Some v" using m by (simp add: merged_def)
    with key_meet_is_meet [OF ok(1,2) vv] x(2) vv show ?thesis by (auto simp: is_meet_def)
  qed (use m x(2) in \<open>simp_all add: merged_def\<close>)
  with tf x show ?thesis by blast
qed

lemma merge_meta_stable:
  assumes "smap_inv meta" "keys_ok (collect_keys meta)" "keys_ok (cap_keys cap)" "MergeMetaWithCapability meta cap = (True, res)"
  shows "MergeMetaWithCapability res cap = (True, res)"
proof -
  let ?M = "merged (collect_keys meta) (cap_keys cap)" and ?c = "\<lparr>cap_mime = cap_mime cap, cap_keys = collect_keys res\<rparr>"
    and ?e = "\<lparr>cap_mime = [], cap_keys = []\<rparr> :: Capability"
  note sp = merge_meta_spec [OF assms]
  then obtain r where r: "keys_ok r" "map_of r = ?M" and nc: "\<not> clash (collect_keys meta) (cap_keys cap)" by blast
  note settled = merged_settled [OF assms(2,3) r nc]
  have ids: "k \<in> set g_allCapabilityId" if "?M k = Some v" for k v using settled [OF that] all_ids by fastforce
  have res: "map_of res k = (if k = TAG_MIME then Some (Any_String (cap_mime cap)) else case ?M k of None \<Rightarrow> map_of meta k | Some v \<Rightarrow> extracted k v)" for k
    using sp by blast
  have coll: "map_of (collect_keys res) k = (case ?M k of None \<Rightarrow> None | Some v \<Rightarrow> extracted k v)" for k
  proof (cases "?M k")
    case None
    then have "map_of (collect_keys meta) k = None" by (auto simp: merged_def clash_def split: option.splits dest: no_clashD [OF nc])
    then show ?thesis using None res [of k] collect_keys_spec [of meta k] collect_keys_spec [of res k] mime_no_id by (auto split: if_splits)
  next
    case (Some v)
    then show ?thesis using ids [OF Some] res [of k] collect_keys_spec [of res k] mime_no_id by auto
  qed
  have okr: "keys_ok (collect_keys res)" unfolding keys_ok_def
    using settled coll collect_keys_spec by (fastforce simp: value_ok_def flags_allow_fixed split: option.splits)
  have meet: "key_meet k w v' = Some w" if w: "map_of (collect_keys res) k = Some w" and v': "map_of (cap_keys cap) k = Some v'" for k w v'
  proof -
    obtain v where v: "?M k = Some v" "extracted k v = Some w" using w coll [of k] by (auto split: option.splits)
    obtain t flags x where s: "map_of g_capabilityValueCheckMap k = Some (t, flags)" "extracted k v = Some (FixedCap t x)" "exact_num x" "admits v' x"
      using settled [OF v(1)] v' by blast
    have "value_ok t flags v'" using assms(3) v' s(1) unfolding keys_ok_def by fastforce
    with fixed_meet [OF this s(4,3) flags_allow_fixed [OF s(1)]] s v(2) show ?thesis by (simp add: key_meet_def)
  qed
  then have nc2: "\<not> clash (collect_keys res) (cap_keys cap)" unfolding clash_def by fastforce
  have capdom: "\<exists>w. map_of (collect_keys res) k = Some w" if v': "map_of (cap_keys cap) k = Some v'" for k v'
  proof -
    obtain w where w: "?M k = Some w" using merged_right [OF nc v'] by blast
    with settled [OF w] coll [of k] show ?thesis by auto
  qed
  have m2: "merged (collect_keys res) (cap_keys cap) k = map_of (collect_keys res) k" for k
  proof (cases "map_of (cap_keys cap) k")
    case (Some v')
    then show ?thesis using capdom [OF Some] meet [OF _ Some] by (auto simp: merged_def)
  qed (simp add: merged_def split: option.splits)
  obtain b r2 where mk: "MergeCapabilityKeys ?c cap ?e = (b, r2)" by (cases "MergeCapabilityKeys ?c cap ?e")
  have okc: "keys_ok (cap_keys ?c)" using okr by simp
  have r2: "b" "smap_inv (cap_keys r2)" "map_of (cap_keys r2) = merged (collect_keys res) (cap_keys cap)"
    using merge_keys_spec [OF okc, where ?c2.0 = cap and ?r0.0 = ?e, unfolded mk prod.case] nc2 by (cases b; simp)+
  have "extracted k v = map_of res k" if "(k, v) \<in> set (cap_keys r2)" for k v
  proof -
    have "map_of (collect_keys res) k = Some v" using that r2(2,3) m2 [of k] by (simp add: map_of_in_set)
    then show ?thesis using coll [of k] settled [of k] extracted_fixed collect_keys_spec [of res k] by (fastforce split: option.splits if_splits)
  qed
  then have "fold set_extracted (cap_keys r2) res = res" using fold_set_extracted_same [of res "cap_keys r2"] sp by fastforce
  moreover have "smap_put TAG_MIME (Any_String (cap_mime cap)) res = res" using smap_put_same [of res TAG_MIME] sp res [of TAG_MIME] by simp
  ultimately show ?thesis using mk r2(1) sp by (simp add: MergeMetaWithCapability_def MergeCapability_def Let_def)
qed

text \<open>C38: When settling the meta data of a stream on a capability succeeds, and the negotiated keys of both satisfy the conditions \<open>keys_ok\<close> of C11 (table keys, types and kinds, numbers from 0
  up to two to the power of 31, ordered intervals, lists not empty), then every key of the capability gets one number that both the capability and the stream admit, the keys that are not
  negotiated are left alone, except for the mime type, and the outcome is final: settling the result again succeeds and changes nothing.\<close>

theorem meta_settled:
  assumes "smap_inv meta" "keys_ok (collect_keys meta)" "keys_ok (cap_keys cap)" "MergeMetaWithCapability meta cap = (True, res)"
  shows "(\<forall>k v. map_of (cap_keys cap) k = Some v \<longrightarrow>
      (\<exists>t x. map_of res k = Some (FixedCap t x) \<and> admits v x \<and> (\<forall>w. map_of meta k = Some w \<longrightarrow> admits w x))) \<and>
    (\<forall>k. k \<notin> set g_allCapabilityId \<longrightarrow> k \<noteq> TAG_MIME \<longrightarrow> map_of res k = map_of meta k) \<and>
    MergeMetaWithCapability res cap = (True, res)"
proof -
  let ?M = "merged (collect_keys meta) (cap_keys cap)"
  note sp = merge_meta_spec [OF assms]
  then obtain r where r: "keys_ok r" "map_of r = ?M" and nc: "\<not> clash (collect_keys meta) (cap_keys cap)" by blast
  note settled = merged_settled [OF assms(2,3) r nc]
  have "\<exists>t x. map_of res k = Some (FixedCap t x) \<and> admits v x \<and> (\<forall>w. map_of meta k = Some w \<longrightarrow> admits w x)" if v: "map_of (cap_keys cap) k = Some v" for k v
  proof -
    obtain w where w: "?M k = Some w" using merged_right [OF nc v] by blast
    obtain t flags x where s: "map_of g_capabilityValueCheckMap k = Some (t, flags)" "extracted k w = Some (FixedCap t x)"
        "\<forall>u. map_of (collect_keys meta) k = Some u \<longrightarrow> admits u x" "admits v x"
      using settled [OF w] v by blast
    have "k \<in> set g_allCapabilityId" using s(1) all_ids by simp
    then show ?thesis using s sp w mime_no_id collect_keys_spec [of meta k] by fastforce
  qed
  moreover have "map_of res k = map_of meta k" if "k \<notin> set g_allCapabilityId" "k \<noteq> TAG_MIME" for k
    using that sp settled [of k] all_ids by (cases "?M k") fastforce+
  ultimately show ?thesis using merge_meta_stable [OF assms] by blast
qed

lemmas flag_defs = IsFixedAllowed_def IsIntervalAllowed_def IsDiscreteAllowed_def FixInvalDisc_def FixDisc_def ALLOW_FIXED_def ALLOW_INTERVAL_def ALLOW_DISCRETE_def

theorem meta_settled_witness:
  "\<exists>res. MergeMetaWithCapability [(MEDIA_BITRATE, FixedCap TY_int64 128000), (AUDIO_CHANNELS, FixedCap TY_uint32 2)]
        \<lparr>cap_mime = ''audio/mpeg'', cap_keys = [(AUDIO_CHANNELS, IntervalCap TY_uint32 1 4), (AUDIO_SAMPLE_RATE, DiscreteCap TY_uint32 [44100, 48000])]\<rparr> = (True, res) \<and>
     map_of res AUDIO_CHANNELS = Some (FixedCap TY_uint32 2) \<and>
     MergeMetaWithCapability res
        \<lparr>cap_mime = ''audio/mpeg'', cap_keys = [(AUDIO_CHANNELS, IntervalCap TY_uint32 1 4), (AUDIO_SAMPLE_RATE, DiscreteCap TY_uint32 [44100, 48000])]\<rparr> = (True, res)"
proof -
  let ?meta = "[(MEDIA_BITRATE, FixedCap TY_int64 128000), (AUDIO_CHANNELS, FixedCap TY_uint32 2)]"
  let ?cap = "\<lparr>cap_mime = ''audio/mpeg'', cap_keys = [(AUDIO_CHANNELS, IntervalCap TY_uint32 1 4), (AUDIO_SAMPLE_RATE, DiscreteCap TY_uint32 [44100, 48000])]\<rparr>"
  have inv: "smap_inv ?meta" by (simp add: smap_inv_def tag_defs)
  have coll: "collect_keys ?meta = ?meta" by (simp add: collect_keys_def g_allCapabilityId_def tag_defs)
  have ok: "keys_ok (collect_keys ?meta)" "keys_ok (cap_keys ?cap)" unfolding coll
    by (auto simp: keys_ok_def smap_inv_def value_ok_def exact_num_def g_capabilityValueCheckMap_def tag_defs flag_defs split: if_splits)
  let ?res = "[(TAG_MIME, Any_String ''audio/mpeg''), (MEDIA_BITRATE, FixedCap TY_int64 128000), (AUDIO_CHANNELS, FixedCap TY_uint32 2),
    (AUDIO_SAMPLE_RATE, FixedCap TY_uint32 44100)]"
  have "CapabilityValueCheck TY_uint32 FixInvalDisc (FixedCap TY_uint32 2) (IntervalCap TY_uint32 1 4) = Some (FixedCap TY_uint32 2)"
    by (rule fixed_meet) (simp_all add: value_ok_def exact_num_def flag_defs)
  then have "MergeMetaWithCapability ?meta ?cap = (True, ?res)" unfolding MergeMetaWithCapability_def coll
    by (simp add: MergeCapability_def MergeCapabilityKeys_def IsSubsetMime_def StringEqIgnoreCase_def Let_def g_capabilityValueCheckMap_def tag_defs
        set_extracted_def g_capExtrMap_def ExtractFixedCap_def)
  from meta_settled [OF inv ok this] this show ?thesis by (simp add: tag_defs)
qed

section \<open>Sets of capabilities and mime types\<close>

lemma apply_first:
  assumes "ApplyCapabilitySet c caps r0 = (ok, r)"
  shows "if ok then \<exists>i < length caps. MergeCapability c (caps ! i) r0 = (True, r) \<and> (\<forall>j < i. \<not> fst (MergeCapability c (caps ! j) r0))
         else \<forall>cap \<in> set caps. \<not> fst (MergeCapability c cap r0)"
  using assms
proof (induction caps arbitrary: r0)
  case (Cons cap caps)
  have indep: "MergeCapability c x r1 = MergeCapability c x r2" for x and r1 r2 :: Capability by (cases r1; cases r2) (simp add: MergeCapability_def Let_def)
  show ?case
  proof (cases "MergeCapability c cap r0")
    case (Pair b r')
    show ?thesis
    proof (cases b)
      case True
      with Pair Cons.prems show ?thesis by (auto intro: exI [of _ 0])
    next
      case False
      with Pair Cons.prems have "ApplyCapabilitySet c caps r' = (ok, r)" by simp
      note IH = Cons.IH [OF this]
      show ?thesis
      proof (cases ok)
        case True
        with IH obtain i where "i < length caps" "MergeCapability c (caps ! i) r' = (True, r)" "\<forall>j < i. \<not> fst (MergeCapability c (caps ! j) r')" by auto
        then have "Suc i < length (cap # caps) \<and> MergeCapability c ((cap # caps) ! Suc i) r0 = (True, r) \<and>
            (\<forall>j < Suc i. \<not> fst (MergeCapability c ((cap # caps) ! j) r0))"
          using Pair \<open>\<not> b\<close> indep [of _ r' r0] by (auto simp: less_Suc_eq_0_disj)
        with True show ?thesis by meson
      next
        case False
        with IH Pair \<open>\<not> b\<close> indep [of _ r' r0] show ?thesis by simp
      qed
    qed
  qed
qed simp

lemma tolower_star: "tolower z = tolower (CHR ''*'') \<longleftrightarrow> z = CHR ''*''"
proof -
  have "char_of (of_char z + 32 :: nat) \<noteq> CHR ''*''" if "65 \<le> (of_char z :: nat)" "(of_char z :: nat) \<le> 90"
  proof
    assume "char_of (of_char z + 32 :: nat) = CHR ''*''"
    then have "of_char (char_of (of_char z + 32 :: nat) :: char) = (of_char (CHR ''*'') :: nat)" by simp
    with that show False by (simp add: take_bit_eq_mod)
  qed
  then show ?thesis by (auto simp: tolower_def)
qed

lemma subset_mime_trans: "IsSubsetMime a b \<Longrightarrow> IsSubsetMime b c \<Longrightarrow> IsSubsetMime a c"
  by (auto simp: IsSubsetMime_def StringEqIgnoreCase_def tolower_star split: option.splits if_splits)

section \<open>Where the comparison fails\<close>

text \<open>Channel layouts are 64 bit masks: layouts that differ only in channels above bit 31 count as equal, such as 5.1 and 5.1.2.\<close>

lemma cmpFunc_truncates: "cmpFunc a (a + k * 2 ^ 32) = 0"
  using mod_mult_self1 [of "2147483648 :: int" "- k" 4294967296] by (simp add: cmpFunc_def swrap_def)

lemma layout_truncated:
  "CapabilityValueCheck TY_AudioChannelLayout FixDisc (FixedCap TY_AudioChannelLayout 0x60F) (FixedCap TY_AudioChannelLayout (0x60F + (2 ^ 36 + 2 ^ 37))) =
     Some (FixedCap TY_AudioChannelLayout 0x60F)"
  using cmpFunc_truncates [of "0x60F" "2 ^ 4 + 2 ^ 5"] by (simp add: numerical_defs FFCapabilityCheck_def flag_defs)

text \<open>An interval of bit rates wider than 31 bits is turned round and refuses what it holds.\<close>

lemma bitrate_interval_wraps: "FICapabilityCheck TY_int64 1000 (0, 4000000000) = None"
  by (simp add: FICapabilityCheck_def cap_Max_def cap_Min_def cmpFunc_def swrap_def Let_def)

text \<open>An interval given from high to low admits a single value but nothing of a list.\<close>

lemma reversed_interval: "FICapabilityCheck t 2 (8, 1) = Some (FixedCap t 2) \<and> IDCapabilityCheck t (8, 1) [2] = None"
  by (simp add: FICapabilityCheck_def IDCapabilityCheck_def list_result_def cap_Max_def cap_Min_def cmpFunc_def swrap_def Let_def)

text \<open>A capability for every mime type cannot be merged with meta data: its own mime type is not in the form of a mime type.\<close>

lemma wildcard_refused: "cap_mime cap = ''*'' \<Longrightarrow> \<not> fst (MergeMetaWithCapability meta cap)"
  by (simp add: MergeMetaWithCapability_def MergeCapability_def IsSubsetMime_def Let_def)

end
