(* ===== verification/Bit_Reader.thy ===== *)
theory Bit_Reader
  imports Prelude "HOL-Library.Word"
begin

text \<open>
  \<^verbatim>\<open>engine/plugin/plugins/ffmpeg_adapter/utils/bit_reader.h\<close> and \<^verbatim>\<open>bit_reader.cpp\<close>: a cursor over the bits of a buffer, most significant bit first. The
  pointers are positions in the buffer; reading a byte at or behind the end is undefined and gives \<open>None\<close>. Behind the model stands a list of bits, the
  view, and the interface of its clients is the locale \<open>bit_source\<close>.
\<close>

unbundle bit_operations_syntax

section \<open>The reader\<close>

record BitReader =
  br_data :: "8 word list"
  br_cur :: nat
  br_availBits :: nat

definition mk_BitReader :: "8 word list \<Rightarrow> BitReader" where
  "mk_BitReader buffer = \<lparr>br_data = buffer, br_cur = 0, br_availBits = 8\<rparr>"

definition GetAvailableBits :: "BitReader \<Rightarrow> nat" where
  "GetAvailableBits r = (if br_cur r \<noteq> length (br_data r) then (length (br_data r) - br_cur r - 1) * 8 + br_availBits r else 0)"

definition br_byte :: "BitReader \<Rightarrow> 8 word option" where
  "br_byte r = (if br_cur r < length (br_data r) then Some (br_data r ! br_cur r) else None)"

text \<open>The loop of \<^verbatim>\<open>ReadBits\<close>; the value has the width \<open>w\<close> of its variable.\<close>

function read_loop :: "nat \<Rightarrow> nat \<Rightarrow> nat \<Rightarrow> BitReader \<Rightarrow> (nat \<times> BitReader) option" where
  "read_loop w remainBits val r =
     (if remainBits = 0 then Some (val, r)
      else
        let r1 = (if br_availBits r = 0 then r\<lparr>br_cur := br_cur r + 1, br_availBits := 8\<rparr> else r);
            toRead = min remainBits (br_availBits r1);
            shift = br_availBits r1 - toRead;
            msk = drop_bit (8 - toRead) (0xFF :: nat)
        in case br_byte r1 of
             None \<Rightarrow> None
           | Some b \<Rightarrow>
               read_loop w (remainBits - toRead) (take_bit w (push_bit toRead val OR (drop_bit shift (unat b) AND msk)))
                 (r1\<lparr>br_availBits := br_availBits r1 - toRead\<rparr>))"
  by pat_completeness auto
termination by (relation "measure (\<lambda>(w, n, v, r). n)") (auto simp: Let_def split: if_splits)

declare read_loop.simps [simp del]

definition ReadBits :: "nat \<Rightarrow> nat \<Rightarrow> BitReader \<Rightarrow> (nat option \<times> BitReader) option" where
  "ReadBits w bits r =
     (if GetAvailableBits r < bits then Some (None, r)
      else case read_loop w bits 0 r of None \<Rightarrow> None | Some (val, r') \<Rightarrow> Some (Some val, r'))"

definition PeekBits :: "nat \<Rightarrow> nat \<Rightarrow> BitReader \<Rightarrow> nat option option" where
  "PeekBits w bits r = map_option fst (ReadBits w bits r)"

definition SkipBits :: "nat \<Rightarrow> BitReader \<Rightarrow> BitReader" where
  "SkipBits bits r =
     (if bits \<le> br_availBits r then r\<lparr>br_availBits := br_availBits r - bits\<rparr>
      else
        let skipBits = bits - br_availBits r; cur = br_cur r + (1 + skipBits div 8)
        in if cur \<ge> length (br_data r) then r\<lparr>br_cur := length (br_data r), br_availBits := 0\<rparr>
           else r\<lparr>br_cur := cur, br_availBits := 8 - skipBits mod 8\<rparr>)"

definition BR_SeekTo :: "nat \<Rightarrow> BitReader \<Rightarrow> bool \<times> BitReader" where
  "BR_SeekTo bitPos r =
     (let bytePos = bitPos div 8
      in if bytePos \<ge> length (br_data r) then (False, r)
         else let skipBits = bitPos mod 8
              in (True, SkipBits skipBits (r\<lparr>br_cur := bytePos, br_availBits := 8 - skipBits\<rparr>)))"

section \<open>The bits\<close>

definition byte_bits :: "8 word \<Rightarrow> bool list" where
  "byte_bits b = map (\<lambda>i. bit b (7 - i)) [0..<8]"

definition br_view :: "BitReader \<Rightarrow> bool list" where
  "br_view r =
     (if br_cur r < length (br_data r)
      then drop (8 - br_availBits r) (byte_bits (br_data r ! br_cur r)) @ concat (map byte_bits (drop (br_cur r + 1) (br_data r))) else [])"

definition br_inv :: "BitReader \<Rightarrow> bool" where
  "br_inv r = (br_cur r \<le> length (br_data r) \<and> br_availBits r \<le> 8)"

definition bits_val :: "bool list \<Rightarrow> nat" where
  "bits_val bs = horner_sum of_bool 2 (rev bs)"

lemma length_byte_bits [simp]: "length (byte_bits b) = 8"
  by (simp add: byte_bits_def)

lemma length_bytes_bits [simp]: "length (concat (map byte_bits bs)) = 8 * length bs"
  by (induction bs) auto

lemma bits_val_Nil [simp]: "bits_val [] = 0"
  by (simp add: bits_val_def)

lemma bits_val_append: "bits_val (xs @ ys) = push_bit (length ys) (bits_val xs) + bits_val ys"
  by (simp add: bits_val_def horner_sum_append push_bit_eq_mult)

lemma bits_val_less: "bits_val bs < 2 ^ length bs"
  unfolding bits_val_def using horner_sum_of_bool_2_less [of "rev bs", where ?'a = nat] by simp

text \<open>The bits of a byte from one position to another, as a number.\<close>

lemma bits_val_byte:
  assumes "n \<le> a" "a \<le> 8"
  shows "bits_val (take n (drop (8 - a) (byte_bits b))) = take_bit n (drop_bit (a - n) (unat b))"
proof -
  have "rev (take n (drop (8 - a) (byte_bits b))) = map (bit (drop_bit (a - n) (unat b))) [0..<n]"
    by (rule nth_equalityI) (use assms in \<open>auto simp: byte_bits_def rev_nth bit_drop_bit_eq bit_unsigned_iff\<close>)
  then show ?thesis by (simp add: bits_val_def horner_sum_bit_eq_take_bit)
qed

section \<open>Reading\<close>

lemma view_length: "br_inv r \<Longrightarrow> length (br_view r) = GetAvailableBits r"
  by (auto simp: br_inv_def br_view_def GetAvailableBits_def)

lemma mask_byte: "n \<le> 8 \<Longrightarrow> drop_bit (8 - n) (0xFF :: nat) = mask n"
proof -
  assume n: "n \<le> 8"
  have "(0xFF :: nat) = mask 8" by (simp add: mask_eq_exp_minus_1)
  then have "drop_bit (8 - n) (0xFF :: nat) = mask (8 - (8 - n))" by (simp only: drop_bit_mask_eq)
  with n show ?thesis by simp
qed

lemma or_shift: "c < 2 ^ n \<Longrightarrow> push_bit n v OR c = push_bit n v + (c :: nat)"
proof -
  assume "c < 2 ^ n"
  then have "take_bit n c = c" by (simp add: take_bit_nat_eq_self_iff)
  then have "\<not> (n \<le> i \<and> bit c i)" for i by (metis bit_take_bit_iff linorder_not_less)
  then have "push_bit n v AND c = 0" by (intro bit_eqI) (auto simp: bit_and_iff bit_push_bit_iff)
  then show ?thesis by (simp add: disjunctive_add_eq_or)
qed

text \<open>A refill of the cursor changes nothing to read.\<close>

definition br_refill :: "BitReader \<Rightarrow> BitReader" where
  "br_refill r = (if br_availBits r = 0 then r\<lparr>br_cur := br_cur r + 1, br_availBits := 8\<rparr> else r)"

lemma refill_view:
  assumes "br_inv r" "br_view r \<noteq> []"
  shows "br_view (br_refill r) = br_view r" and "br_cur (br_refill r) < length (br_data r)" and "0 < br_availBits (br_refill r)"
    and "br_availBits (br_refill r) \<le> 8" and "br_data (br_refill r) = br_data r"
proof -
  have cur: "br_cur r < length (br_data r)" using assms(2) by (simp add: br_view_def split: if_splits)
  have nxt: "br_cur r + 1 < length (br_data r)" if "br_availBits r = 0" proof (rule ccontr)
    assume "\<not> br_cur r + 1 < length (br_data r)"
    then show False using assms(2) that cur by (simp add: br_view_def)
  qed
  show "br_view (br_refill r) = br_view r"
    using cur nxt Cons_nth_drop_Suc [of "br_cur r + 1" "br_data r"] by (auto simp: br_refill_def br_view_def) (metis concat.simps(2) list.simps(9))
  show "br_cur (br_refill r) < length (br_data r)" using cur nxt by (simp add: br_refill_def)
qed (use assms(1) in \<open>auto simp: br_refill_def br_inv_def\<close>)

lemma view_split:
  assumes "br_cur r < length (br_data r)" "br_availBits r \<le> 8" "n \<le> br_availBits r"
  shows "take n (br_view r) = take n (drop (8 - br_availBits r) (byte_bits (br_data r ! br_cur r)))"
    and "br_view (r\<lparr>br_availBits := br_availBits r - n\<rparr>) = drop n (br_view r)"
proof -
  have "8 - (br_availBits r - n) = n + (8 - br_availBits r)" using assms by simp
  then show "br_view (r\<lparr>br_availBits := br_availBits r - n\<rparr>) = drop n (br_view r)" using assms by (simp add: br_view_def)
qed (use assms in \<open>simp add: br_view_def\<close>)

lemma read_step:
  assumes "br_inv r" "0 < n" "n \<le> length (br_view r)"
  defines "r1 \<equiv> br_refill r"
  defines "k \<equiv> min n (br_availBits r1)"
  shows "read_loop w n val r = read_loop w (n - k) (take_bit w (push_bit k val + bits_val (take k (br_view r)))) (r1\<lparr>br_availBits := br_availBits r1 - k\<rparr>)"
    and "br_view (r1\<lparr>br_availBits := br_availBits r1 - k\<rparr>) = drop k (br_view r)" and "br_inv (r1\<lparr>br_availBits := br_availBits r1 - k\<rparr>)"
    and "0 < k" and "k \<le> n" and "br_data (r1\<lparr>br_availBits := br_availBits r1 - k\<rparr>) = br_data r"
proof -
  have ne: "br_view r \<noteq> []" using assms(2,3) by auto
  note rf = refill_view [OF assms(1) ne, folded r1_def]
  have k: "k \<le> br_availBits r1" "k \<le> 8" using rf(4) by (simp_all add: k_def)
  note sp = view_split [of r1 k, unfolded rf(1,5)]
  have c: "br_cur r1 < length (br_data r1)" using rf(2,5) by simp
  have chunk: "drop_bit (br_availBits r1 - k) (unat (br_data r1 ! br_cur r1)) AND drop_bit (8 - k) 0xFF = bits_val (take k (br_view r))"
    using sp(1) rf(2,4,5) k bits_val_byte [OF k(1) rf(4)] by (simp add: mask_byte take_bit_eq_mask)
  have or: "push_bit k val OR bits_val (take k (br_view r)) = push_bit k val + bits_val (take k (br_view r))"
    using bits_val_less [of "take k (br_view r)"] assms(3) by (intro or_shift) (simp add: k_def)
  have "read_loop w n val r = (case br_byte r1 of None \<Rightarrow> None | Some b \<Rightarrow>
      read_loop w (n - k) (take_bit w (push_bit k val OR (drop_bit (br_availBits r1 - k) (unat b) AND drop_bit (8 - k) 0xFF)))
        (r1\<lparr>br_availBits := br_availBits r1 - k\<rparr>))"
    unfolding r1_def k_def br_refill_def using assms(2) by (subst read_loop.simps) (simp add: Let_def)
  then show "read_loop w n val r = read_loop w (n - k) (take_bit w (push_bit k val + bits_val (take k (br_view r)))) (r1\<lparr>br_availBits := br_availBits r1 - k\<rparr>)"
    using c chunk or by (simp add: br_byte_def)
  show "br_view (r1\<lparr>br_availBits := br_availBits r1 - k\<rparr>) = drop k (br_view r)" using sp(2) rf(2,4,5) k by simp
  show "br_inv (r1\<lparr>br_availBits := br_availBits r1 - k\<rparr>)" using rf(2,4,5) by (simp add: br_inv_def)
  show "0 < k" "k \<le> n" using assms(2) rf(3) by (simp_all add: k_def)
qed (simp add: r1_def br_refill_def)

lemma take_bit_shift_add: "take_bit w (push_bit k (take_bit w v) + c) = take_bit w (push_bit k v + c :: nat)"
  unfolding take_bit_eq_mod push_bit_eq_mult by (metis mod_add_left_eq mod_mult_left_eq)

lemma read_loop_spec:
  assumes "br_inv r" "n \<le> length (br_view r)"
  shows "\<exists>r'. read_loop w n (take_bit w val) r = Some (take_bit w (push_bit n val + bits_val (take n (br_view r))), r') \<and> br_inv r' \<and>
    br_view r' = drop n (br_view r) \<and> br_data r' = br_data r"
  using assms
proof (induction n arbitrary: r val rule: less_induct)
  case (less n)
  show ?case
  proof (cases "n = 0")
    case True
    then show ?thesis using less.prems by (simp add: read_loop.simps)
  next
    case False
    define k where "k = min n (br_availBits (br_refill r))"
    define r2 where "r2 = (br_refill r)\<lparr>br_availBits := br_availBits (br_refill r) - k\<rparr>"
    note st = read_step [OF less.prems(1) _ less.prems(2), folded k_def, folded r2_def]
    have n: "0 < n" using False by simp
    let ?v = "push_bit k val + bits_val (take k (br_view r))"
    have "n - k < n" "n - k \<le> length (br_view r2)" using st(2,4) [OF n] n less.prems(2) by auto
    from less.IH [OF this(1) st(3) [OF n] this(2), of ?v] obtain r' where
      r': "read_loop w (n - k) (take_bit w ?v) r2 = Some (take_bit w (push_bit (n - k) ?v + bits_val (take (n - k) (br_view r2))), r')"
      "br_inv r'" "br_view r' = drop (n - k) (br_view r2)" "br_data r' = br_data r2" by blast
    have tk: "take n (br_view r) = take k (br_view r) @ take (n - k) (br_view r2)"
      unfolding st(2) [OF n] using st(5) [OF n] by (metis le_add_diff_inverse take_add)
    have len: "length (take (n - k) (br_view r2)) = n - k" using \<open>n - k \<le> length (br_view r2)\<close> by simp
    have "push_bit n val + bits_val (take n (br_view r)) = push_bit (n - k) ?v + bits_val (take (n - k) (br_view r2))"
      unfolding tk bits_val_append len using st(5) [OF n] by (simp add: push_bit_eq_mult algebra_simps flip: power_add)
    with r' st [OF n] show ?thesis by (simp add: take_bit_shift_add)
  qed
qed

lemma ReadBits_reads:
  assumes "br_inv r"
  shows "if length (br_view r) < bits then ReadBits w bits r = Some (None, r)
    else \<exists>r'. ReadBits w bits r = Some (Some (take_bit w (bits_val (take bits (br_view r)))), r') \<and> br_inv r' \<and>
      br_view r' = drop bits (br_view r) \<and> br_data r' = br_data r"
  using read_loop_spec [OF assms, of bits w 0] assms by (auto simp: ReadBits_def view_length)

section \<open>Skipping and seeking\<close>

lemma drop_bytes_bits:
  "drop k (concat (map byte_bits bs)) =
     (if k div 8 < length bs then drop (k mod 8) (byte_bits (bs ! (k div 8))) @ concat (map byte_bits (drop (k div 8 + 1) bs)) else [])"
proof (induction bs arbitrary: k)
  case (Cons b bs)
  show ?case
  proof (cases "k < 8")
    case False
    then have "k div 8 = Suc ((k - 8) div 8)" "(k - 8) mod 8 = k mod 8" by (simp_all add: le_div_geq le_mod_geq)
    then show ?thesis using False Cons.IH [of "k - 8"] by simp
  qed simp
qed simp

lemma SkipBits_skips:
  assumes "br_inv r"
  shows "br_view (SkipBits n r) = drop n (br_view r)" and "br_inv (SkipBits n r)" and "br_data (SkipBits n r) = br_data r"
proof -
  show "br_view (SkipBits n r) = drop n (br_view r)"
  proof (cases "n \<le> br_availBits r")
    case True
    then have "8 - (br_availBits r - n) = n + (8 - br_availBits r)" using assms by (simp add: br_inv_def)
    with True assms show ?thesis by (auto simp: SkipBits_def br_view_def br_inv_def)
  next
    case False
    let ?k = "n - br_availBits r"
    show ?thesis
    proof (cases "br_cur r < length (br_data r)")
      case True
      have "drop n (br_view r) = drop ?k (concat (map byte_bits (drop (br_cur r + 1) (br_data r))))"
        using True False assms by (simp add: br_view_def br_inv_def)
      also have "\<dots> = br_view (SkipBits n r)"
      proof (cases "br_cur r + (1 + ?k div 8) < length (br_data r)")
        case in_range: True
        have "?k div 8 < length (drop (br_cur r + 1) (br_data r))" using in_range by simp
        moreover have "8 - (8 - ?k mod 8) = ?k mod 8" by simp
        ultimately show ?thesis using False in_range by (simp add: drop_bytes_bits SkipBits_def br_view_def Let_def ac_simps)
      next
        case out_of_range: False
        then have "\<not> ?k div 8 < length (drop (br_cur r + 1) (br_data r))" by simp
        then show ?thesis using False out_of_range by (simp only: drop_bytes_bits if_False) (simp add: SkipBits_def br_view_def Let_def)
      qed
      finally show ?thesis by simp
    qed (use False in \<open>simp add: SkipBits_def br_view_def Let_def\<close>)
  qed
qed (use assms in \<open>auto simp: SkipBits_def br_inv_def Let_def\<close>)

text \<open>
  \<^verbatim>\<open>SeekTo\<close> sets the cursor to the bit and then skips the bits before it in its byte once more: it is exact at byte boundaries only.
\<close>

lemma BR_SeekTo_view:
  "br_inv r \<Longrightarrow> bitPos div 8 < length (br_data r) \<Longrightarrow>
   br_view (snd (BR_SeekTo bitPos r)) = drop (bitPos + bitPos mod 8) (concat (map byte_bits (br_data r)))"
proof -
  assume inv: "br_inv r" and b: "bitPos div 8 < length (br_data r)"
  let ?r = "r\<lparr>br_cur := bitPos div 8, br_availBits := 8 - bitPos mod 8\<rparr>"
  have "br_inv ?r" using b by (simp add: br_inv_def)
  moreover have "br_view ?r = drop bitPos (concat (map byte_bits (br_data r)))" using b by (subst drop_bytes_bits) (simp add: br_view_def)
  ultimately show ?thesis using b SkipBits_skips(1) [of ?r "bitPos mod 8"] by (simp add: BR_SeekTo_def Let_def add.commute)
qed

section \<open>The interface\<close>

definition bits_of :: "nat \<Rightarrow> nat \<Rightarrow> bool list" where
  "bits_of n v = map (\<lambda>i. bit v (n - 1 - i)) [0..<n]"

lemma length_bits_of [simp]: "length (bits_of n v) = n"
  by (simp add: bits_of_def)

lemma bits_val_of [simp]: "bits_val (bits_of n v) = take_bit n v"
proof -
  have "rev (bits_of n v) = map (bit v) [0..<n]" by (rule nth_equalityI) (auto simp: bits_of_def rev_nth)
  then show ?thesis by (simp add: bits_val_def horner_sum_bit_eq_take_bit)
qed

fun read_all :: "(nat \<Rightarrow> 's \<Rightarrow> (nat \<times> 's) option) \<Rightarrow> nat list \<Rightarrow> 's \<Rightarrow> (nat list \<times> 's) option" where
  "read_all rd [] s = Some ([], s)"
| "read_all rd (n # ns) s =
     (case rd n s of None \<Rightarrow> None | Some (v, s') \<Rightarrow> (case read_all rd ns s' of None \<Rightarrow> None | Some (vs, s'') \<Rightarrow> Some (v # vs, s'')))"

text \<open>A source of bits of which at most \<open>w\<close> can be read at once.\<close>

locale bit_source =
  fixes rd :: "nat \<Rightarrow> 's \<Rightarrow> (nat \<times> 's) option" and w :: nat and view :: "'s \<Rightarrow> bool list" and inv :: "'s \<Rightarrow> bool"
  assumes rd_ok: "inv s \<Longrightarrow> n \<le> w \<Longrightarrow> n \<le> length (view s) \<Longrightarrow> \<exists>s'. rd n s = Some (bits_val (take n (view s)), s') \<and> inv s' \<and> view s' = drop n (view s)"
    and rd_short: "inv s \<Longrightarrow> length (view s) < n \<Longrightarrow> rd n s = None"
begin

lemma rd_field:
  assumes "inv s" "n \<le> w" "v < 2 ^ n" "view s = bits_of n v @ rest"
  shows "\<exists>s'. rd n s = Some (v, s') \<and> inv s' \<and> view s' = rest"
  using rd_ok [OF assms(1,2)] assms by (auto simp: take_bit_nat_eq_self)

lemma rd_bounded: "inv s \<Longrightarrow> n \<le> w \<Longrightarrow> rd n s = Some (v, s') \<Longrightarrow> v < 2 ^ n \<and> inv s' \<and> view s' = drop n (view s) \<and> n \<le> length (view s)"
  using rd_ok [of s n] rd_short [of s n] bits_val_less [of "take n (view s)"] by (cases "n \<le> length (view s)") auto

text \<open>Fields that are written one after the other are read back.\<close>

lemma read_all_fields:
  assumes "inv s" "\<forall>(n, v) \<in> set fs. n \<le> w \<and> v < 2 ^ n" "view s = concat (map (\<lambda>(n, v). bits_of n v) fs) @ rest"
  shows "\<exists>s'. read_all rd (map fst fs) s = Some (map snd fs, s') \<and> inv s' \<and> view s' = rest"
  using assms
proof (induction fs arbitrary: s)
  case (Cons f fs)
  obtain n v where f: "f = (n, v)" by (cases f)
  have "n \<le> w" "v < 2 ^ n" "view s = bits_of n v @ (concat (map (\<lambda>(n, v). bits_of n v) fs) @ rest)" using Cons.prems f by auto
  from rd_field [OF Cons.prems(1) this] obtain s1 where
    "rd n s = Some (v, s1)" "inv s1" "view s1 = concat (map (\<lambda>(n, v). bits_of n v) fs) @ rest" by blast
  with Cons.IH [of s1] Cons.prems(2) f show ?case by auto
qed simp

end

definition br_read :: "nat \<Rightarrow> nat \<Rightarrow> BitReader \<Rightarrow> (nat \<times> BitReader) option" where
  "br_read w n r = (case ReadBits w n r of Some (Some v, r') \<Rightarrow> Some (v, r') | _ \<Rightarrow> None)"

interpretation br: bit_source "br_read w" w br_view br_inv
proof
  fix s n assume a: "br_inv s" "n \<le> w" "n \<le> length (br_view s)"
  have "bits_val (take n (br_view s)) < 2 ^ n" using bits_val_less [of "take n (br_view s)"] a(3) by simp
  also have "\<dots> \<le> 2 ^ w" using a(2) by simp
  finally have "take_bit w (bits_val (take n (br_view s))) = bits_val (take n (br_view s))" by (simp add: take_bit_nat_eq_self)
  with ReadBits_reads [OF a(1), of n w] a(3)
  show "\<exists>s'. br_read w n s = Some (bits_val (take n (br_view s)), s') \<and> br_inv s' \<and> br_view s' = drop n (br_view s)"
    by (auto simp: br_read_def)
next
  fix s n assume "br_inv s" "length (br_view s) < n"
  then show "br_read w n s = None" using ReadBits_reads [of s n w] by (simp add: br_read_def)
qed

text \<open>C16: A bit reader over a buffer is a cursor over its bits, most significant first: reading gives the number that the next bits spell, whatever bytes they cross,
  and moves past them; it fails exactly when fewer are left, without moving; it never looks outside the buffer. Skipping and peeking agree with it.\<close>

theorem BitReader_is_cursor:
  assumes "br_inv r" "bits \<le> w"
  shows "(if length (br_view r) < bits then ReadBits w bits r = Some (None, r)
    else \<exists>r'. ReadBits w bits r = Some (Some (bits_val (take bits (br_view r))), r') \<and> br_inv r' \<and> br_view r' = drop bits (br_view r)) \<and>
    PeekBits w bits r \<noteq> None \<and> br_view (SkipBits bits r) = drop bits (br_view r) \<and> br_inv (SkipBits bits r)"
proof -
  have "bits_val (take bits (br_view r)) < 2 ^ w" if "\<not> length (br_view r) < bits"
    using bits_val_less [of "take bits (br_view r)"] that assms(2) by (simp add: order_less_le_trans)
  then show ?thesis using ReadBits_reads [OF assms(1), of bits w] SkipBits_skips [OF assms(1)]
    by (auto simp: PeekBits_def take_bit_nat_eq_self split: if_splits)
qed

theorem BitReader_is_cursor_witness:
  "\<exists>r'. ReadBits 32 12 (SkipBits 4 (mk_BitReader [0x12, 0x34])) = Some (Some 0x234, r')"
proof -
  let ?r = "SkipBits 4 (mk_BitReader [0x12, 0x34])"
  have i: "br_inv (mk_BitReader [0x12, 0x34])" by (simp add: br_inv_def mk_BitReader_def)
  have v: "br_view (mk_BitReader [0x12, 0x34]) = bits_of 16 0x1234"
    by (simp add: br_view_def mk_BitReader_def byte_bits_def bits_of_def upt_rec bit_0)
  have "br_inv ?r" "br_view ?r = bits_of 12 0x234"
    using BitReader_is_cursor [OF i, of 4 32] v by (simp_all add: bits_of_def upt_rec bit_0)
  then show ?thesis using BitReader_is_cursor [of ?r 12 32] by (auto simp: take_bit_nat_eq_self)
qed

end
