(* ===== verification/Aac_Config.thy ===== *)
theory Aac_Config
  imports Bit_Reader Float_Model
begin

text \<open>
  \<^verbatim>\<open>engine/plugin/plugins/ffmpeg_adapter/utils/aac_audio_config_parser.cpp\<close>: the audio specific config of an AAC stream, read field by field from its bits,
  and the level computed from it with the \<^verbatim>\<open>float\<close> and \<^verbatim>\<open>double\<close> arithmetic of the code. A read is \<open>br_read\<close>; it never leaves the buffer.
\<close>

section \<open>The parser\<close>

datatype AudioAacProfile = AAC_NONE | AAC_MAIN | AAC_LC | AAC_SSR | AAC_LTP

record AudioSpecificConfig =
  ac_audioObjectType :: nat
  ac_channelConfig :: nat
  ac_sampleRate :: nat
  ac_level :: nat
  ac_profile :: AudioAacProfile

record aac_parser =
  ap_bitReader :: BitReader
  ap_isConfigValid :: bool
  ap_audioConfig :: AudioSpecificConfig

definition empty_config :: AudioSpecificConfig where
  "empty_config = \<lparr>ac_audioObjectType = 0xFF, ac_channelConfig = 0xFF, ac_sampleRate = 0, ac_level = 0, ac_profile = AAC_NONE\<rparr>"

definition mk_AACAudioConfigParser :: "8 word list \<Rightarrow> aac_parser" where
  "mk_AACAudioConfigParser audioConfig = \<lparr>ap_bitReader = mk_BitReader audioConfig, ap_isConfigValid = False, ap_audioConfig = empty_config\<rparr>"

definition aac_Reset :: "aac_parser \<Rightarrow> aac_parser" where
  "aac_Reset p = p\<lparr>ap_audioConfig := empty_config\<rparr>"

definition upd_config :: "(AudioSpecificConfig \<Rightarrow> AudioSpecificConfig) \<Rightarrow> aac_parser \<Rightarrow> aac_parser" where
  "upd_config f p = p\<lparr>ap_audioConfig := f (ap_audioConfig p)\<rparr>"

definition ParseObjectType :: "aac_parser \<Rightarrow> bool \<times> aac_parser" where
  "ParseObjectType p =
     (case br_read 8 5 (ap_bitReader p) of
        None \<Rightarrow> (False, p)
      | Some (audioObjectType, r1) \<Rightarrow>
          if audioObjectType = 31
          then (case br_read 8 6 r1 of
             None \<Rightarrow> (False, p\<lparr>ap_bitReader := r1\<rparr>)
           | Some (t, r2) \<Rightarrow> (True, upd_config (\<lambda>c. c\<lparr>ac_audioObjectType := (t + 32) mod 256\<rparr>) (p\<lparr>ap_bitReader := r2\<rparr>)))
          else (True, upd_config (\<lambda>c. c\<lparr>ac_audioObjectType := audioObjectType\<rparr>) (p\<lparr>ap_bitReader := r1\<rparr>)))"

definition sampleRates :: "nat list" where
  "sampleRates = [96000, 88200, 64000, 48000, 44100, 32000, 24000, 22050, 16000, 12000, 11025, 8000, 7350]"

definition ParseSampleRate :: "aac_parser \<Rightarrow> bool \<times> aac_parser" where
  "ParseSampleRate p =
     (case br_read 8 4 (ap_bitReader p) of
        None \<Rightarrow> (False, p)
      | Some (sampleFreqIndex, r1) \<Rightarrow>
          if sampleFreqIndex = 0xf
          then (case br_read 32 24 r1 of
             None \<Rightarrow> (False, p\<lparr>ap_bitReader := r1\<rparr>)
           | Some (sampleRate, r2) \<Rightarrow> (True, upd_config (\<lambda>c. c\<lparr>ac_sampleRate := sampleRate\<rparr>) (p\<lparr>ap_bitReader := r2\<rparr>)))
          else if sampleFreqIndex < length sampleRates
          then (True, upd_config (\<lambda>c. c\<lparr>ac_sampleRate := sampleRates ! sampleFreqIndex\<rparr>) (p\<lparr>ap_bitReader := r1\<rparr>))
          else (False, p\<lparr>ap_bitReader := r1\<rparr>))"

definition ParseChannel :: "aac_parser \<Rightarrow> bool \<times> aac_parser" where
  "ParseChannel p =
     (case br_read 8 4 (ap_bitReader p) of
        None \<Rightarrow> (False, p)
      | Some (channelConfig, r1) \<Rightarrow> (True, upd_config (\<lambda>c. c\<lparr>ac_channelConfig := channelConfig\<rparr>) (p\<lparr>ap_bitReader := r1\<rparr>)))"

text \<open>Conditions joined by \<^verbatim>\<open>&&\<close>: the next step runs when the last one succeeded.\<close>

definition andthen :: "(aac_parser \<Rightarrow> bool \<times> aac_parser) \<Rightarrow> (aac_parser \<Rightarrow> bool \<times> aac_parser) \<Rightarrow> aac_parser \<Rightarrow> bool \<times> aac_parser" where
  "andthen f g p = (case f p of (False, p1) \<Rightarrow> (False, p1) | (True, p1) \<Rightarrow> g p1)"

definition ParseObjectTypeFull :: "aac_parser \<Rightarrow> bool \<times> aac_parser" where
  "ParseObjectTypeFull =
     andthen ParseObjectType (andthen ParseSampleRate (andthen ParseChannel
       (\<lambda>p. if ac_audioObjectType (ap_audioConfig p) = 5 \<or> ac_audioObjectType (ap_audioConfig p) = 29
            then andthen ParseSampleRate ParseObjectType p else (True, p))))"

text \<open>The counts of single, pair and low frequency elements and of the two kinds of coupling elements.\<close>

definition ExtractChannelElements :: "nat \<Rightarrow> (int \<times> int \<times> int \<times> int \<times> int) option" where
  "ExtractChannelElements channelConfig =
     (if channelConfig = 0 then None
      else if channelConfig = 1 then Some (1, 0, 0, 0, 0)
      else if channelConfig = 2 then Some (0, 1, 0, 0, 0)
      else if channelConfig = 3 then Some (1, 1, 0, 0, 0)
      else if channelConfig = 4 then Some (2, 1, 0, 0, 0)
      else if channelConfig = 5 then Some (1, 2, 0, 0, 0)
      else if channelConfig = 6 then Some (1, 2, 0, 0, 0)
      else if channelConfig = 7 \<or> channelConfig = 12 \<or> channelConfig = 14 then Some (1, 3, 1, 0, 0)
      else if channelConfig = 11 then Some (2, 2, 1, 0, 0)
      else None)"

definition ExtractReferencePRCU :: "nat \<Rightarrow> (int \<times> int) option" where
  "ExtractReferencePRCU audioObjectType =
     (if audioObjectType = 0 then None
      else if audioObjectType = 2 then Some (3, 3)
      else if audioObjectType = 3 then Some (4, 3)
      else if audioObjectType = 4 then Some (4, 4)
      else Some (5, 5))"

definition profile_range :: "int \<Rightarrow> nat \<Rightarrow> int \<Rightarrow> int \<Rightarrow> int \<Rightarrow> nat \<Rightarrow> int \<Rightarrow> int \<Rightarrow> bool" where
  "profile_range channelCnt sampleRate pcu rcu maxChannelCnt maxSampleRate maxPcu maxRcu =
     (channelCnt \<le> maxChannelCnt \<and> sampleRate \<le> maxSampleRate \<and> pcu \<le> maxPcu \<and> rcu \<le> maxRcu)"

definition profile_level :: "nat \<Rightarrow> nat \<Rightarrow> int \<Rightarrow> int \<Rightarrow> int \<Rightarrow> int" where
  "profile_level audioObjectType sampleRate channelCnt pcu rcu =
     (if audioObjectType = 2
      then (if profile_range channelCnt sampleRate pcu rcu 2 24000 3 5 then 1
            else if profile_range channelCnt sampleRate pcu rcu 2 48000 6 5 then 2
            else if profile_range channelCnt sampleRate pcu rcu 5 48000 19 15 then 4
            else if profile_range channelCnt sampleRate pcu rcu 5 96000 38 15 then 5
            else if profile_range channelCnt sampleRate pcu rcu 7 48000 25 19 then 6
            else if profile_range channelCnt sampleRate pcu rcu 7 96000 50 19 then 7
            else -1)
      else (if pcu < 40 \<and> rcu < 20 then 1
            else if pcu < 80 \<and> rcu < 64 then 2
            else if pcu < 160 \<and> rcu < 128 then 3
            else if pcu < 320 \<and> rcu < 256 then 4
            else -1))"

definition CalculateProfile :: "int \<Rightarrow> int \<Rightarrow> int \<Rightarrow> aac_parser \<Rightarrow> bool \<times> aac_parser" where
  "CalculateProfile channelCnt pcu rcu p =
     (let c = ap_audioConfig p; ret = profile_level (ac_audioObjectType c) (ac_sampleRate c) channelCnt pcu rcu
      in (ret \<noteq> -1, upd_config (\<lambda>c. c\<lparr>ac_level := nat (ret mod 2 ^ 32)\<rparr>) p))"

definition level_tmp :: "nat \<Rightarrow> int \<Rightarrow> int" where
  "level_tmp sampleRate refPcu = c_trunc (rnd 24 (rnd 24 (rnd 24 (of_nat sampleRate) / 48000) * of_int refPcu))"

definition level_pcu :: "int \<Rightarrow> int \<Rightarrow> int \<Rightarrow> int \<Rightarrow> int \<Rightarrow> int \<Rightarrow> int" where
  "level_pcu tmp sceCnt cpeCnt lfeCnt indepCce depCce =
     c_trunc (rnd 53 (of_int tmp * rnd 53 (of_int ((2 * cpeCnt) + sceCnt + lfeCnt + indepCce) + rnd 53 (rnd 53 (3 / 10) * of_int depCce))))"

definition level_rcu :: "int \<Rightarrow> int \<Rightarrow> int \<Rightarrow> int \<Rightarrow> int \<Rightarrow> int \<Rightarrow> int" where
  "level_rcu refRcu sceCnt cpeCnt lfeCnt indepCce depCce =
     (let rcu = c_trunc (rnd 53 (rnd 24 (of_int refRcu) *
            rnd 53 (rnd 53 (rnd 53 (of_int sceCnt + rnd 53 (1 / 2 * of_int lfeCnt)) + rnd 53 (1 / 2 * of_int indepCce)) + rnd 53 (rnd 53 (4 / 10) * of_int depCce))))
      in if cpeCnt < 2 then rcu + (refRcu + (refRcu - 1)) * cpeCnt
         else rcu + (refRcu + (refRcu - 1) * ((2 * cpeCnt) - 1)))"

definition ParseLevel :: "aac_parser \<Rightarrow> bool \<times> aac_parser" where
  "ParseLevel p =
     (case ExtractChannelElements (ac_channelConfig (ap_audioConfig p)) of
        None \<Rightarrow> (False, p)
      | Some (sceCnt, cpeCnt, lfeCnt, indepCce, depCce) \<Rightarrow>
          (case ExtractReferencePRCU (ac_audioObjectType (ap_audioConfig p)) of
             None \<Rightarrow> (False, p)
           | Some (refPcu, refRcu) \<Rightarrow>
               CalculateProfile (sceCnt + (2 * cpeCnt))
                 (level_pcu (level_tmp (ac_sampleRate (ap_audioConfig p)) refPcu) sceCnt cpeCnt lfeCnt indepCce depCce)
                 (level_rcu refRcu sceCnt cpeCnt lfeCnt indepCce depCce) p))"

definition ParseProfile :: "aac_parser \<Rightarrow> bool \<times> aac_parser" where
  "ParseProfile p =
     (let t = ac_audioObjectType (ap_audioConfig p)
      in (True, upd_config (\<lambda>c. c\<lparr>ac_profile :=
           (if t = 1 then AAC_MAIN else if t = 2 then AAC_LC else if t = 3 then AAC_SSR else if t = 4 then AAC_LTP else AAC_NONE)\<rparr>) p))"

definition ParseConfigs :: "aac_parser \<Rightarrow> bool \<times> aac_parser" where
  "ParseConfigs p =
     (case andthen ParseObjectTypeFull (andthen ParseLevel ParseProfile) p of
        (isConfigValid, p1) \<Rightarrow>
          (isConfigValid, (if isConfigValid then p1 else aac_Reset p1)\<lparr>ap_isConfigValid := isConfigValid\<rparr>))"

end
