(* ===== verification/Aac_Config_Props.thy ===== *)
theory Aac_Config_Props
  imports Aac_Config
begin

text \<open>
  What the parser of the audio specific config does: a config written as the standard says is read back, whatever form its fields have; every other buffer is either refused, and
  then the config is reset, or gives a level between one and seven; low complexity streams of one or two channels up to 48 kHz always have a level.
\<close>

section \<open>Configs as bits\<close>

definition object_ok :: "nat \<Rightarrow> bool" where
  "object_ok ot = (ot < 31 \<or> (32 \<le> ot \<and> ot < 96))"

definition object_bits :: "nat \<Rightarrow> bool list" where
  "object_bits ot = (if ot < 31 then bits_of 5 ot else bits_of 5 31 @ bits_of 6 (ot - 32))"

datatype rate_code = Rate_Index nat | Rate_Value nat

fun rate_ok :: "rate_code \<Rightarrow> bool" where
  "rate_ok (Rate_Index i) = (i < length sampleRates)"
| "rate_ok (Rate_Value v) = (v < 2 ^ 24)"

fun rate_bits :: "rate_code \<Rightarrow> bool list" where
  "rate_bits (Rate_Index i) = bits_of 4 i"
| "rate_bits (Rate_Value v) = bits_of 4 15 @ bits_of 24 v"

fun rate_of :: "rate_code \<Rightarrow> nat" where
  "rate_of (Rate_Index i) = sampleRates ! i"
| "rate_of (Rate_Value v) = v"

text \<open>An extension (object type 5 or 29) is followed by the real sample rate and object type.\<close>

definition config_bits :: "nat \<Rightarrow> rate_code \<Rightarrow> nat \<Rightarrow> rate_code \<Rightarrow> nat \<Rightarrow> bool list" where
  "config_bits ot rate ch rate2 ot2 =
     object_bits ot @ rate_bits rate @ bits_of 4 ch @ (if ot = 5 \<or> ot = 29 then rate_bits rate2 @ object_bits ot2 else [])"

section \<open>Reading back\<close>

text \<open>A step that reads some bits and updates the config.\<close>

definition reads :: "(aac_parser \<Rightarrow> bool \<times> aac_parser) \<Rightarrow> bool list \<Rightarrow> (AudioSpecificConfig \<Rightarrow> AudioSpecificConfig) \<Rightarrow> bool" where
  "reads f bs upd = (\<forall>p rest. br_inv (ap_bitReader p) \<longrightarrow> br_view (ap_bitReader p) = bs @ rest \<longrightarrow>
     (\<exists>r. f p = (True, upd_config upd (p\<lparr>ap_bitReader := r\<rparr>)) \<and> br_inv r \<and> br_view r = rest))"

lemma readsI:
  assumes "\<And>p rest. br_inv (ap_bitReader p) \<Longrightarrow> br_view (ap_bitReader p) = bs @ rest \<Longrightarrow>
     \<exists>r. f p = (True, upd_config upd (p\<lparr>ap_bitReader := r\<rparr>)) \<and> br_inv r \<and> br_view r = rest"
  shows "reads f bs upd"
  using assms by (simp add: reads_def)

lemma readsD:
  "reads f bs upd \<Longrightarrow> br_inv (ap_bitReader p) \<Longrightarrow> br_view (ap_bitReader p) = bs @ rest \<Longrightarrow>
   \<exists>r. f p = (True, upd_config upd (p\<lparr>ap_bitReader := r\<rparr>)) \<and> br_inv r \<and> br_view r = rest"
  by (simp add: reads_def)

lemma reads_andthen: "reads f bs u \<Longrightarrow> reads g cs v \<Longrightarrow> reads (andthen f g) (bs @ cs) (v \<circ> u)"
proof (rule readsI)
  fix p :: aac_parser and rest
  assume f: "reads f bs u" and g: "reads g cs v" and p: "br_inv (ap_bitReader p)" "br_view (ap_bitReader p) = (bs @ cs) @ rest"
  from readsD [OF f p(1), of "cs @ rest"] p(2) obtain r1 where
    r1: "f p = (True, upd_config u (p\<lparr>ap_bitReader := r1\<rparr>))" "br_inv r1" "br_view r1 = cs @ rest" by auto
  from readsD [OF g, of "upd_config u (p\<lparr>ap_bitReader := r1\<rparr>)" rest] r1 obtain r2 where
    "g (upd_config u (p\<lparr>ap_bitReader := r1\<rparr>)) = (True, upd_config v ((upd_config u (p\<lparr>ap_bitReader := r1\<rparr>))\<lparr>ap_bitReader := r2\<rparr>))" "br_inv r2" "br_view r2 = rest"
    by (auto simp: upd_config_def)
  with r1 show "\<exists>r. andthen f g p = (True, upd_config (v \<circ> u) (p\<lparr>ap_bitReader := r\<rparr>)) \<and> br_inv r \<and> br_view r = rest"
    by (intro exI [of _ r2]) (simp add: andthen_def upd_config_def)
qed

lemma field_read:
  "br_inv r \<Longrightarrow> n \<le> w \<Longrightarrow> v < 2 ^ n \<Longrightarrow> br_view r = bits_of n v @ rest \<Longrightarrow> \<exists>r'. br_read w n r = Some (v, r') \<and> br_inv r' \<and> br_view r' = rest"
  by (rule br.rd_field)

lemma ParseObjectType_reads:
  assumes "object_ok ot"
  shows "reads ParseObjectType (object_bits ot) (\<lambda>c. c\<lparr>ac_audioObjectType := ot\<rparr>)"
proof (rule readsI)
  fix p :: aac_parser and rest assume p: "br_inv (ap_bitReader p)" "br_view (ap_bitReader p) = object_bits ot @ rest"
  show "\<exists>r. ParseObjectType p = (True, upd_config (\<lambda>c. c\<lparr>ac_audioObjectType := ot\<rparr>) (p\<lparr>ap_bitReader := r\<rparr>)) \<and> br_inv r \<and> br_view r = rest"
  proof (cases "ot < 31")
    case True
    then obtain r where "br_read 8 5 (ap_bitReader p) = Some (ot, r)" "br_inv r" "br_view r = rest"
      using field_read [OF p(1), of 5 8 ot rest] p(2) by (auto simp: object_bits_def)
    then show ?thesis using True by (auto simp: ParseObjectType_def)
  next
    case False
    then have ot: "ot - 32 < 2 ^ 6" "ot - 32 + 32 = ot" "ot mod 256 = ot" using assms by (auto simp: object_ok_def)
    obtain r1 where r1: "br_read 8 5 (ap_bitReader p) = Some (31, r1)" "br_inv r1" "br_view r1 = bits_of 6 (ot - 32) @ rest"
      using field_read [OF p(1), of 5 8 31] p(2) False by (auto simp: object_bits_def)
    obtain r2 where "br_read 8 6 r1 = Some (ot - 32, r2)" "br_inv r2" "br_view r2 = rest"
      using field_read [OF r1(2) _ ot(1) r1(3), of 8] by auto
    with r1 ot show ?thesis by (auto simp: ParseObjectType_def)
  qed
qed

lemma ParseSampleRate_reads:
  assumes "rate_ok rate"
  shows "reads ParseSampleRate (rate_bits rate) (\<lambda>c. c\<lparr>ac_sampleRate := rate_of rate\<rparr>)"
proof (rule readsI)
  fix p :: aac_parser and rest assume p: "br_inv (ap_bitReader p)" "br_view (ap_bitReader p) = rate_bits rate @ rest"
  show "\<exists>r. ParseSampleRate p = (True, upd_config (\<lambda>c. c\<lparr>ac_sampleRate := rate_of rate\<rparr>) (p\<lparr>ap_bitReader := r\<rparr>)) \<and> br_inv r \<and> br_view r = rest"
  proof (cases rate)
    case (Rate_Index i)
    then have i: "i < 13" using assms by (simp add: sampleRates_def)
    then obtain r where "br_read 8 4 (ap_bitReader p) = Some (i, r)" "br_inv r" "br_view r = rest"
      using field_read [OF p(1), of 4 8 i rest] p(2) Rate_Index by auto
    then show ?thesis using i assms Rate_Index by (auto simp: ParseSampleRate_def)
  next
    case (Rate_Value v)
    obtain r1 where r1: "br_read 8 4 (ap_bitReader p) = Some (15, r1)" "br_inv r1" "br_view r1 = bits_of 24 v @ rest"
      using field_read [OF p(1), of 4 8 15] p(2) Rate_Value by auto
    obtain r2 where "br_read 32 24 r1 = Some (v, r2)" "br_inv r2" "br_view r2 = rest"
      using field_read [OF r1(2) _ _ r1(3), of 32] assms Rate_Value by auto
    with r1 Rate_Value show ?thesis by (auto simp: ParseSampleRate_def)
  qed
qed

lemma ParseChannel_reads:
  assumes "ch < 16"
  shows "reads ParseChannel (bits_of 4 ch) (\<lambda>c. c\<lparr>ac_channelConfig := ch\<rparr>)"
proof (rule readsI)
  fix p :: aac_parser and rest assume p: "br_inv (ap_bitReader p)" "br_view (ap_bitReader p) = bits_of 4 ch @ rest"
  then obtain r where "br_read 8 4 (ap_bitReader p) = Some (ch, r)" "br_inv r" "br_view r = rest"
    using field_read [OF p(1), of 4 8 ch rest] assms by auto
  then show "\<exists>r. ParseChannel p = (True, upd_config (\<lambda>c. c\<lparr>ac_channelConfig := ch\<rparr>) (p\<lparr>ap_bitReader := r\<rparr>)) \<and> br_inv r \<and> br_view r = rest"
    by (auto simp: ParseChannel_def)
qed

definition config_of :: "nat \<Rightarrow> rate_code \<Rightarrow> nat \<Rightarrow> rate_code \<Rightarrow> nat \<Rightarrow> AudioSpecificConfig" where
  "config_of ot rate ch rate2 ot2 =
     empty_config\<lparr>ac_audioObjectType := (if ot = 5 \<or> ot = 29 then ot2 else ot), ac_channelConfig := ch,
       ac_sampleRate := (if ot = 5 \<or> ot = 29 then rate_of rate2 else rate_of rate)\<rparr>"

lemma ParseObjectTypeFull_reads:
  assumes "object_ok ot" "rate_ok rate" "ch < 16" "ot = 5 \<or> ot = 29 \<longrightarrow> rate_ok rate2 \<and> object_ok ot2"
    "br_view (mk_BitReader data) = config_bits ot rate ch rate2 ot2 @ rest"
  shows "\<exists>p. ParseObjectTypeFull (mk_AACAudioConfigParser data) = (True, p) \<and> ap_audioConfig p = config_of ot rate ch rate2 ot2"
proof -
  let ?p = "mk_AACAudioConfigParser data"
  let ?ext = "\<lambda>p. if ac_audioObjectType (ap_audioConfig p) = 5 \<or> ac_audioObjectType (ap_audioConfig p) = 29
            then andthen ParseSampleRate ParseObjectType p else (True, p)"
  let ?tail = "if ot = 5 \<or> ot = 29 then rate_bits rate2 @ object_bits ot2 else []"
  note three = reads_andthen [OF ParseObjectType_reads [OF assms(1)] reads_andthen [OF ParseSampleRate_reads [OF assms(2)] ParseChannel_reads [OF assms(3)]]]
  have inv: "br_inv (ap_bitReader ?p)" by (simp add: mk_AACAudioConfigParser_def br_inv_def mk_BitReader_def)
  have view: "br_view (ap_bitReader ?p) = (object_bits ot @ rate_bits rate @ bits_of 4 ch) @ ?tail @ rest"
    using assms(5) by (simp add: mk_AACAudioConfigParser_def config_bits_def)
  obtain r where r: "andthen ParseObjectType (andthen ParseSampleRate ParseChannel) ?p =
      (True, upd_config ((\<lambda>c. c\<lparr>ac_channelConfig := ch\<rparr>) \<circ> (\<lambda>c. c\<lparr>ac_sampleRate := rate_of rate\<rparr>) \<circ> (\<lambda>c. c\<lparr>ac_audioObjectType := ot\<rparr>)) (?p\<lparr>ap_bitReader := r\<rparr>))"
      "br_inv r" "br_view r = ?tail @ rest"
    using readsD [OF three inv view] by (auto simp: comp_assoc)
  let ?q = "upd_config ((\<lambda>c. c\<lparr>ac_channelConfig := ch\<rparr>) \<circ> (\<lambda>c. c\<lparr>ac_sampleRate := rate_of rate\<rparr>) \<circ> (\<lambda>c. c\<lparr>ac_audioObjectType := ot\<rparr>)) (?p\<lparr>ap_bitReader := r\<rparr>)"
  have assoc: "ParseObjectTypeFull ?p = andthen (andthen ParseObjectType (andthen ParseSampleRate ParseChannel)) ?ext ?p"
    by (auto simp: ParseObjectTypeFull_def andthen_def split: prod.splits bool.splits)
  then have full: "ParseObjectTypeFull ?p = ?ext ?q" using r(1) by (simp add: andthen_def)
  have cfg: "ap_audioConfig ?q = empty_config\<lparr>ac_audioObjectType := ot, ac_channelConfig := ch, ac_sampleRate := rate_of rate\<rparr>"
    by (simp add: upd_config_def mk_AACAudioConfigParser_def)
  show ?thesis
  proof (cases "ot = 5 \<or> ot = 29")
    case True
    then have ok2: "rate_ok rate2" "object_ok ot2" using assms(4) by auto
    have "br_inv (ap_bitReader ?q)" "br_view (ap_bitReader ?q) = (rate_bits rate2 @ object_bits ot2) @ rest" using r True by (simp_all add: upd_config_def)
    from readsD [OF reads_andthen [OF ParseSampleRate_reads [OF ok2(1)] ParseObjectType_reads [OF ok2(2)]] this] True full cfg
    show ?thesis by (auto simp: upd_config_def config_of_def mk_AACAudioConfigParser_def)
  next
    case False
    then show ?thesis using full cfg by (simp add: config_of_def)
  qed
qed

section \<open>The outcome\<close>

lemma profile_level_bounds: "profile_level t rate cc pcu rcu = -1 \<or> (1 \<le> profile_level t rate cc pcu rcu \<and> profile_level t rate cc pcu rcu \<le> 7)"
  by (simp add: profile_level_def)

lemma CalculateProfile_outcome:
  assumes "CalculateProfile channelCnt pcu rcu p = (ok, p')"
  shows "\<exists>l. (ok \<longrightarrow> 1 \<le> l \<and> l \<le> 7) \<and> ap_audioConfig p' = (ap_audioConfig p)\<lparr>ac_level := l\<rparr>"
proof -
  define ret where "ret = profile_level (ac_audioObjectType (ap_audioConfig p)) (ac_sampleRate (ap_audioConfig p)) channelCnt pcu rcu"
  have r: "ok = (ret \<noteq> -1)" "p' = upd_config (\<lambda>c. c\<lparr>ac_level := nat (ret mod 2 ^ 32)\<rparr>) p"
    using assms by (simp_all add: CalculateProfile_def ret_def Let_def)
  have "ret = -1 \<or> (1 \<le> ret \<and> ret \<le> 7)" unfolding ret_def by (rule profile_level_bounds)
  then show ?thesis using r by (intro exI [of _ "nat (ret mod 2 ^ 32)"]) (auto simp: upd_config_def)
qed

lemma ParseLevel_outcome:
  assumes "ParseLevel p = (ok, p')"
  shows "\<exists>l. (ok \<longrightarrow> 1 \<le> l \<and> l \<le> 7) \<and> ap_audioConfig p' = (ap_audioConfig p)\<lparr>ac_level := l\<rparr>"
proof -
  have "\<exists>l. ap_audioConfig p = (ap_audioConfig p)\<lparr>ac_level := l\<rparr>" by (rule exI [of _ "ac_level (ap_audioConfig p)"]) simp
  then show ?thesis using assms CalculateProfile_outcome unfolding ParseLevel_def by (auto split: option.splits prod.splits)
qed

definition profile_of :: "nat \<Rightarrow> AudioAacProfile" where
  "profile_of t = (if t = 1 then AAC_MAIN else if t = 2 then AAC_LC else if t = 3 then AAC_SSR else if t = 4 then AAC_LTP else AAC_NONE)"

lemma ParseConfigs_outcome:
  assumes "ParseObjectTypeFull p = (True, p1)"
  shows "\<exists>ok p'. ParseConfigs p = (ok, p') \<and> ok = fst (ParseLevel p1) \<and> ap_isConfigValid p' = ok \<and>
    (if ok then \<exists>l. 1 \<le> l \<and> l \<le> 7 \<and> ap_audioConfig p' = (ap_audioConfig p1)\<lparr>ac_level := l, ac_profile := profile_of (ac_audioObjectType (ap_audioConfig p1))\<rparr>
     else ap_audioConfig p' = empty_config)"
proof (cases "ParseLevel p1")
  case (Pair ok p2)
  obtain l where "ok \<longrightarrow> 1 \<le> l \<and> l \<le> 7" "ap_audioConfig p2 = (ap_audioConfig p1)\<lparr>ac_level := l\<rparr>"
    using ParseLevel_outcome [OF Pair] by blast
  then show ?thesis using Pair assms
    by (cases ok) (auto simp: ParseConfigs_def andthen_def ParseProfile_def aac_Reset_def upd_config_def profile_of_def Let_def intro!: exI [of _ l])
qed

lemma ParseConfigs_refused:
  "ParseObjectTypeFull p = (False, p1) \<Longrightarrow> \<exists>p'. ParseConfigs p = (False, p') \<and> \<not> ap_isConfigValid p' \<and> ap_audioConfig p' = empty_config"
  by (simp add: ParseConfigs_def andthen_def aac_Reset_def)

section \<open>Levels of low complexity streams\<close>

lemma level_tmp_bounds:
  assumes "rate \<le> 48000"
  shows "0 \<le> level_tmp rate 3 \<and> level_tmp rate 3 \<le> 3"
proof -
  have one: "rnd 24 1 = 1" and three: "rnd 24 3 = 3" using rnd_exact_int [of 1 24] rnd_exact_int [of 3 24] by simp_all
  have "rnd 24 (of_nat rate) = of_nat rate" using rnd_exact_int [of "int rate" 24] assms by simp
  then have q: "0 \<le> rnd 24 (rnd 24 (of_nat rate) / 48000)" "rnd 24 (rnd 24 (of_nat rate) / 48000) \<le> 1"
    using assms rnd_mono [of "of_nat rate / 48000" 1 24] one by (auto intro: rnd_nonneg)
  let ?x = "rnd 24 (rnd 24 (rnd 24 (of_nat rate) / 48000) * 3)"
  have "0 \<le> ?x" "?x \<le> 3" using q rnd_mono [of "rnd 24 (rnd 24 (of_nat rate) / 48000) * 3" 3 24] three by (auto intro: rnd_nonneg)
  then show ?thesis using c_trunc_mono [of ?x 3] c_trunc_mono [of 0 ?x] c_trunc_int [of 3] c_trunc_int [of 0] by (simp add: level_tmp_def)
qed

lemma level_pcu_small:
  assumes "0 \<le> tmp" "tmp \<le> 3"
  shows "level_pcu tmp 1 0 0 0 0 = tmp" "level_pcu tmp 0 1 0 0 0 = 2 * tmp"
proof -
  have "rnd 53 1 = 1" "rnd 53 2 = 2" using rnd_exact_int [of 1 53] rnd_exact_int [of 2 53] by simp_all
  moreover have "rnd 53 (of_int tmp) = of_int tmp" "rnd 53 (of_int tmp * 2) = of_int (2 * tmp)"
    using rnd_exact_int [of tmp 53] rnd_exact_int [of "2 * tmp" 53] assms by (simp_all add: mult.commute)
  moreover have "c_trunc (of_int tmp * 2) = 2 * tmp" using c_trunc_int [of "2 * tmp"] by (simp add: mult.commute)
  ultimately show "level_pcu tmp 1 0 0 0 0 = tmp" "level_pcu tmp 0 1 0 0 0 = 2 * tmp" by (simp_all add: level_pcu_def mult.commute)
qed

lemma level_rcu_small: "level_rcu 3 1 0 0 0 0 = 3" "level_rcu 3 0 1 0 0 0 = 5"
proof -
  have "rnd 53 1 = 1" "rnd 24 3 = 3" "rnd 53 3 = 3" using rnd_exact_int [of 1 53] rnd_exact_int [of 3 24] rnd_exact_int [of 3 53] by simp_all
  then show "level_rcu 3 1 0 0 0 0 = 3" "level_rcu 3 0 1 0 0 0 = 5" using c_trunc_int [of 3] c_trunc_int [of 0] by (simp_all add: level_rcu_def Let_def)
qed

lemma lc_has_level:
  assumes "ac_audioObjectType (ap_audioConfig p) = 2" "ac_channelConfig (ap_audioConfig p) = 1 \<or> ac_channelConfig (ap_audioConfig p) = 2"
    "ac_sampleRate (ap_audioConfig p) \<le> 48000"
  shows "fst (ParseLevel p)"
proof -
  define rate where "rate = ac_sampleRate (ap_audioConfig p)"
  have t: "0 \<le> level_tmp rate 3" "level_tmp rate 3 \<le> 3" and r: "rate \<le> 48000" using level_tmp_bounds [of rate] assms(3) by (simp_all add: rate_def)
  have "profile_level 2 rate cc (k * level_tmp rate 3) rcu \<noteq> -1" if "cc \<le> 2" "k = 1 \<or> k = 2" "rcu \<le> 5" for cc k rcu
    using that t r by (auto simp: profile_level_def profile_range_def)
  from this [of 1 1 3] this [of 2 2 5] show ?thesis using assms(1,2) t
    by (auto simp: ParseLevel_def ExtractChannelElements_def ExtractReferencePRCU_def level_pcu_small level_rcu_small CalculateProfile_def Let_def rate_def)
qed

text \<open>C19: An audio specific config written as the standard lays it out, with its object type in the short or the long form, its sample rate as an index or a number, and
  the extension for spectral band replication, is read back: object type, channels and sample rate are those written, with a level between one and seven and the profile of
  the object type; when no level fits the parser says so and resets the config. A low complexity stream of one or two channels up to 48 kHz always has a level.\<close>

theorem aac_config_read_back:
  assumes "object_ok ot" "rate_ok rate" "ch < 16" "ot = 5 \<or> ot = 29 \<longrightarrow> rate_ok rate2 \<and> object_ok ot2"
    "br_view (mk_BitReader data) = config_bits ot rate ch rate2 ot2 @ rest"
  shows "\<exists>ok p. ParseConfigs (mk_AACAudioConfigParser data) = (ok, p) \<and> ap_isConfigValid p = ok \<and>
    (if ok then \<exists>l. 1 \<le> l \<and> l \<le> 7 \<and> ap_audioConfig p =
         (config_of ot rate ch rate2 ot2)\<lparr>ac_level := l, ac_profile := profile_of (ac_audioObjectType (config_of ot rate ch rate2 ot2))\<rparr>
     else ap_audioConfig p = empty_config) \<and>
    (ot = 2 \<and> (ch = 1 \<or> ch = 2) \<and> rate_of rate \<le> 48000 \<longrightarrow> ok)"
proof -
  obtain p1 where p1: "ParseObjectTypeFull (mk_AACAudioConfigParser data) = (True, p1)" "ap_audioConfig p1 = config_of ot rate ch rate2 ot2"
    using ParseObjectTypeFull_reads [OF assms] by blast
  have "fst (ParseLevel p1)" if "ot = 2 \<and> (ch = 1 \<or> ch = 2) \<and> rate_of rate \<le> 48000"
    using lc_has_level [of p1] that p1(2) by (auto simp: config_of_def)
  with ParseConfigs_outcome [OF p1(1)] p1(2) show ?thesis by auto
qed

theorem aac_config_read_back_witness:
  "\<exists>p. ParseConfigs (mk_AACAudioConfigParser [0x12, 0x10]) = (True, p) \<and> ac_profile (ap_audioConfig p) = AAC_LC \<and>
     ac_sampleRate (ap_audioConfig p) = 44100 \<and> ac_channelConfig (ap_audioConfig p) = 2"
proof -
  have v: "br_view (mk_BitReader [0x12, 0x10]) = config_bits 2 (Rate_Index 4) 2 (Rate_Index 0) 0 @ [False, False, False]"
    by (simp add: br_view_def mk_BitReader_def byte_bits_def config_bits_def object_bits_def bits_of_def upt_rec bit_0)
  have ok: "object_ok 2" "rate_ok (Rate_Index 4)" by (simp_all add: object_ok_def sampleRates_def)
  from aac_config_read_back [OF ok, of 2 "Rate_Index 0" 0, OF _ _ v] show ?thesis by (auto simp: config_of_def profile_of_def sampleRates_def)
qed

end
