(* ===== verification/Avc_Config.thy ===== *)
theory Avc_Config
  imports Bit_Reader
begin

text \<open>
  \<^verbatim>\<open>engine/plugin/plugins/ffmpeg_adapter/utils/avc_config_data_parser.cpp\<close>: the decoder configuration record of H.264 is to be turned into parameter sets with start codes. The
  code was written for a reader of bytes and uses the reader of bits: where it reads a byte it asks for one bit, and it counts bits where it means bytes. \<open>None\<close> is a
  copy that reads or writes outside its buffer. What follows from this is shown at the end.
\<close>

section \<open>The parser\<close>

record avc_parser =
  av_bitReader :: BitReader
  av_cfgData :: "8 word list"
  av_cfgSet :: "8 word list list"
  av_nalUnitLen :: nat
  av_version :: nat
  av_profile :: nat
  av_profile_compat :: nat
  av_level :: nat
  av_needAddFrameHeader :: bool
  av_newCfgData :: "8 word list option"

definition AVC_MIN_CONFIG_DATA_SIZE :: nat where "AVC_MIN_CONFIG_DATA_SIZE = 7"
definition AVC_NAL_HEADER_LEN :: nat where "AVC_NAL_HEADER_LEN = 4"
definition AVC_MAX_CONFIG_ITEM :: nat where "AVC_MAX_CONFIG_ITEM = 256"

definition mk_AVCConfigDataParser :: "8 word list \<Rightarrow> avc_parser" where
  "mk_AVCConfigDataParser cfgData =
     \<lparr>av_bitReader = mk_BitReader cfgData, av_cfgData = cfgData, av_cfgSet = [], av_nalUnitLen = 4, av_version = 1, av_profile = 0, av_profile_compat = 0,
      av_level = 0, av_needAddFrameHeader = False, av_newCfgData = None\<rparr>"

definition ParseNalUnitSizeLen :: "avc_parser \<Rightarrow> bool \<times> avc_parser" where
  "ParseNalUnitSizeLen p =
     (case br_read 8 1 (av_bitReader p) of
        None \<Rightarrow> (False, p)
      | Some (sizeLen, r) \<Rightarrow>
          let len = take_bit 2 sizeLen + 1
          in (len = 1 \<or> len = 2 \<or> len = 4, p\<lparr>av_bitReader := r, av_nalUnitLen := len\<rparr>))"

definition GetSpsOrPpsLen :: "BitReader \<Rightarrow> nat option \<times> BitReader" where
  "GetSpsOrPpsLen r =
     (case br_read 8 1 r of
        None \<Rightarrow> (None, r)
      | Some (tmp1, r1) \<Rightarrow>
          (case br_read 8 1 r1 of
             None \<Rightarrow> (None, r1)
           | Some (tmp2, r2) \<Rightarrow>
               let len = take_bit 16 (or (push_bit 8 tmp1) tmp2)
               in if len > GetAvailableBits r2 then (None, r2) else (Some len, r2)))"

definition ParseNalHeader :: "avc_parser \<Rightarrow> bool \<times> avc_parser" where
  "ParseNalHeader p =
     (if GetAvailableBits (av_bitReader p) < AVC_MIN_CONFIG_DATA_SIZE then (False, p)
      else case br_read 8 1 (av_bitReader p) of
        None \<Rightarrow> (False, p)
      | Some (version, r1) \<Rightarrow>
          let p1 = p\<lparr>av_bitReader := r1, av_version := version\<rparr>
          in if version \<noteq> 1 then (False, p1)
             else case br_read 8 1 r1 of
               None \<Rightarrow> (False, p1)
             | Some (profile, r2) \<Rightarrow>
                 (case br_read 8 1 r2 of
                    None \<Rightarrow> (False, p1\<lparr>av_bitReader := r2, av_profile := profile\<rparr>)
                  | Some (profileCompat, r3) \<Rightarrow>
                      (case br_read 8 1 r3 of
                         None \<Rightarrow> (False, p1\<lparr>av_bitReader := r3, av_profile := profile, av_profile_compat := profileCompat\<rparr>)
                       | Some (level, r4) \<Rightarrow>
                           ParseNalUnitSizeLen
                             (p1\<lparr>av_bitReader := r4, av_profile := profile, av_profile_compat := profileCompat, av_level := level\<rparr>))))"

text \<open>\<^verbatim>\<open>CreateConfigSetItem\<close> and the copy from the current position of the reader.\<close>

definition config_item :: "nat \<Rightarrow> BitReader \<Rightarrow> 8 word list option" where
  "config_item len r =
     (if len > 0 \<and> br_cur r + len > length (br_data r) then None
      else Some ([0, 0, 0, 1] @ take len (drop (br_cur r) (br_data r))))"

fun sps_loop :: "nat \<Rightarrow> avc_parser \<Rightarrow> (bool \<times> avc_parser) option" where
  "sps_loop 0 p = Some (True, p)"
| "sps_loop (Suc n) p =
     (if GetAvailableBits (av_bitReader p) < 2 then Some (False, p)
      else case GetSpsOrPpsLen (av_bitReader p) of
        (None, r) \<Rightarrow> Some (False, p\<lparr>av_bitReader := r\<rparr>)
      | (Some len, r) \<Rightarrow>
          if length (av_cfgSet p) \<ge> AVC_MAX_CONFIG_ITEM then Some (False, p\<lparr>av_bitReader := r\<rparr>)
          else (case config_item len r of
             None \<Rightarrow> None
           | Some item \<Rightarrow> sps_loop n (p\<lparr>av_cfgSet := av_cfgSet p @ [item], av_bitReader := SkipBits len r\<rparr>)))"

definition ParseSpsOrPps :: "nat \<Rightarrow> avc_parser \<Rightarrow> (bool \<times> avc_parser) option" where
  "ParseSpsOrPps msk p =
     (case br_read 32 1 (av_bitReader p) of
        None \<Rightarrow> Some (False, p)
      | Some (setCount, r) \<Rightarrow> sps_loop (and setCount msk) (p\<lparr>av_bitReader := r\<rparr>))"

definition ParseNal :: "avc_parser \<Rightarrow> (bool \<times> avc_parser) option" where
  "ParseNal p =
     (case ParseNalHeader p of
        (False, p1) \<Rightarrow> Some (False, p1)
      | (True, p1) \<Rightarrow>
          (case ParseSpsOrPps 0x1F p1 of
             None \<Rightarrow> None
           | Some (False, p2) \<Rightarrow> Some (False, p2)
           | Some (True, p2) \<Rightarrow>
               if GetAvailableBits (av_bitReader p2) < 1 then Some (False, p2) else ParseSpsOrPps 0xFF p2))"

definition ParseConfigData :: "avc_parser \<Rightarrow> (bool \<times> avc_parser) option" where
  "ParseConfigData p =
     (case ParseNal p of
        None \<Rightarrow> None
      | Some (False, p1) \<Rightarrow>
          let p2 = (if length (av_cfgData p1) < 3 \<or> \<not> (av_version p1 = 0 \<and> av_profile p1 = 0 \<and> av_profile_compat p1 \<le> 1)
                    then p1\<lparr>av_needAddFrameHeader := True\<rparr> else p1)
          in if av_cfgData p2 = [] then Some (False, p2) else Some (True, p2\<lparr>av_newCfgData := Some (av_cfgData p2)\<rparr>)
      | Some (True, p1) \<Rightarrow>
          let p2 = p1\<lparr>av_needAddFrameHeader := True\<rparr>
          in if av_cfgSet p2 = [] then Some (False, p2)
             else if sum_list (map (\<lambda>item. take_bit 12 (length item)) (av_cfgSet p2)) < length (concat (av_cfgSet p2)) then None
             else Some (True, p2\<lparr>av_newCfgData := Some (concat (av_cfgSet p2))\<rparr>))"

section \<open>What it does\<close>

text \<open>The version of a configuration record is one, in eight bits: the first bit is zero and taken for the version, which is then not supported. The record is handed on
  as it is, without start codes.\<close>

lemma mk_view: "data \<noteq> [] \<Longrightarrow> br_view (mk_BitReader data) = byte_bits (hd data) @ concat (map byte_bits (tl data))"
  by (cases data) (simp_all add: br_view_def mk_BitReader_def)

lemma bit_read:
  assumes "br_inv r" "br_view r = b # rest" "1 \<le> w"
  shows "\<exists>r'. br_read w 1 r = Some (of_bool b, r') \<and> br_inv r' \<and> br_view r' = rest \<and> br_data r' = br_data r"
proof -
  have "take_bit w (of_bool b :: nat) = of_bool b" using assms(3) by (cases b) (auto simp: take_bit_nat_eq_self)
  then show ?thesis using ReadBits_reads [OF assms(1), of 1 w] assms(2) by (auto simp: br_read_def bits_val_def)
qed

lemma mk_inv: "br_inv (mk_BitReader data)"
  by (simp add: br_inv_def mk_BitReader_def)

theorem avc_config_untouched:
  assumes "cfgData \<noteq> []" "\<not> bit (hd cfgData) 7"
  shows "\<exists>p. ParseConfigData (mk_AVCConfigDataParser cfgData) = Some (True, p) \<and> av_newCfgData p = Some cfgData \<and>
    av_needAddFrameHeader p = (length cfgData < 3)"
proof -
  obtain r where "br_read 8 1 (mk_BitReader cfgData) = Some (0, r)" using bit_read [OF mk_inv, of cfgData False _ 8] assms by (auto simp: mk_view byte_bits_def upt_rec)
  moreover have "\<not> GetAvailableBits (mk_BitReader cfgData) < AVC_MIN_CONFIG_DATA_SIZE"
    using assms(1) by (cases cfgData) (simp_all add: GetAvailableBits_def mk_BitReader_def AVC_MIN_CONFIG_DATA_SIZE_def)
  ultimately show ?thesis using assms(1)
    by (simp add: ParseConfigData_def ParseNal_def ParseNalHeader_def mk_AVCConfigDataParser_def Let_def)
qed

theorem avc_config_untouched_witness:
  "\<exists>p. ParseConfigData (mk_AVCConfigDataParser [1, 0x64, 0, 0x28, 0xFF, 0xE1, 0, 1, 0x67, 1, 0, 1, 0x68]) = Some (True, p) \<and>
     av_newCfgData p = Some [1, 0x64, 0, 0x28, 0xFF, 0xE1, 0, 1, 0x67, 1, 0, 1, 0x68] \<and> \<not> av_needAddFrameHeader p"
  using avc_config_untouched [of "[1, 0x64, 0, 0x28, 0xFF, 0xE1, 0, 1, 0x67, 1, 0, 1, 0x68]"] by auto

text \<open>C39: A record of 33 to 255 bytes whose first byte is 1????110 in binary (the first bit, which the parser takes for the version, is set;
  the next four are free; the bits the parser takes for the number of parameter sets and the high part of a length are 1, 1, 0) makes the
  parser read outside the record: it has read a length of 256 bytes, accepts it because 256 bits are left, and copies.\<close>

theorem avc_config_overread:
  assumes "33 \<le> length cfgData" "length cfgData < 256" "byte_bits (hd cfgData) = [True, b1, b2, b3, b4, True, True, False]"
  shows "ParseConfigData (mk_AVCConfigDataParser cfgData) = None"
proof -
  let ?r = "mk_BitReader cfgData" and ?rest = "concat (map byte_bits (tl cfgData))"
  have v: "br_view ?r = True # b1 # b2 # b3 # b4 # True # True # False # ?rest" using assms by (cases cfgData) (simp_all add: mk_view)
  obtain r1 where 1: "br_read 8 1 ?r = Some (1, r1)" "br_inv r1" "br_view r1 = b1 # b2 # b3 # b4 # True # True # False # ?rest" "br_data r1 = br_data ?r"
    using bit_read [OF mk_inv v, of 8] by auto
  obtain r2 where 2: "br_read 8 1 r1 = Some (of_bool b1, r2)" "br_inv r2" "br_view r2 = b2 # b3 # b4 # True # True # False # ?rest" "br_data r2 = br_data ?r"
    using bit_read [OF 1(2,3), of 8] 1(4) by auto
  obtain r3 where 3: "br_read 8 1 r2 = Some (of_bool b2, r3)" "br_inv r3" "br_view r3 = b3 # b4 # True # True # False # ?rest" "br_data r3 = br_data ?r"
    using bit_read [OF 2(2,3), of 8] 2(4) by auto
  obtain r4 where 4: "br_read 8 1 r3 = Some (of_bool b3, r4)" "br_inv r4" "br_view r4 = b4 # True # True # False # ?rest" "br_data r4 = br_data ?r"
    using bit_read [OF 3(2,3), of 8] 3(4) by auto
  obtain r5 where 5: "br_read 8 1 r4 = Some (of_bool b4, r5)" "br_inv r5" "br_view r5 = True # True # False # ?rest" "br_data r5 = br_data ?r"
    using bit_read [OF 4(2,3), of 8] 4(4) by auto
  obtain r6 where 6: "br_read 32 1 r5 = Some (1, r6)" "br_inv r6" "br_view r6 = True # False # ?rest" "br_data r6 = br_data ?r"
    using bit_read [OF 5(2,3), of 32] 5(4) by auto
  obtain r7 where 7: "br_read 8 1 r6 = Some (1, r7)" "br_inv r7" "br_view r7 = False # ?rest" "br_data r7 = br_data ?r"
    using bit_read [OF 6(2,3), of 8] 6(4) by auto
  obtain r8 where 8: "br_read 8 1 r7 = Some (0, r8)" "br_inv r8" "br_view r8 = ?rest" "br_data r8 = br_data ?r"
    using bit_read [OF 7(2,3), of 8] 7(4) by auto
  have "GetAvailableBits r8 = 8 * (length cfgData - 1)" using view_length [OF 8(2)] 8(3) by simp
  then have len: "GetSpsOrPpsLen r6 = (Some 256, r8)" using 7 8 assms(1) by (simp add: GetSpsOrPpsLen_def Let_def)
  have over: "config_item 256 r8 = None" using 8(4) assms(2) by (simp add: config_item_def mk_BitReader_def)
  have "sps_loop 1 (p\<lparr>av_bitReader := r6\<rparr>) = None" if "av_cfgSet p = []" for p :: avc_parser
    using len over that view_length [OF 6(2)] 6(3) by (simp add: AVC_MAX_CONFIG_ITEM_def)
  then have sps: "ParseSpsOrPps 0x1F p = None" if "av_cfgSet p = []" "av_bitReader p = r5" for p :: avc_parser
    using 6(1) that by (simp add: ParseSpsOrPps_def)
  show ?thesis using 1(1) 2(1) 3(1) 4(1) 5(1) view_length [OF mk_inv, of cfgData] v sps
    by (cases b4) (simp_all add: ParseConfigData_def ParseNal_def ParseNalHeader_def ParseNalUnitSizeLen_def mk_AVCConfigDataParser_def AVC_MIN_CONFIG_DATA_SIZE_def Let_def)
qed

theorem avc_config_overread_witness: "ParseConfigData (mk_AVCConfigDataParser (0x86 # replicate 32 0)) = None"
  by (rule avc_config_overread [of _ False False False False]) (simp_all add: byte_bits_def upt_rec)

end
