(* ===== verification/Wav_Demuxer.thy ===== *)
theory Wav_Demuxer
  imports Prelude "HOL-Library.Word"
begin

text \<open>
  The demuxer of WAV files, \<^verbatim>\<open>engine/plugin/plugins/demuxer/wav_demuxer/wav_demuxer_plugin.cpp\<close>. The data source is outside: \<open>ReadAt\<close> gives for an offset and a length a
  status and the bytes read. \<open>None\<close> is a division by zero. The header is read as it lies in memory, least significant byte first.
\<close>

datatype wav_seekable = WS_INVALID | WS_UNSEEKABLE | WS_SEEKABLE

datatype wav_format = WF_NONE | WF_U8 | WF_S16 | WF_S32 | WF_F32

type_synonym wav_source = "nat \<Rightarrow> nat \<Rightarrow> Status \<times> 8 word list"

definition le16 :: "8 word list \<Rightarrow> nat \<Rightarrow> nat" where
  "le16 bs i = unat (bs ! i) + 2 ^ 8 * unat (bs ! (i + 1))"

definition le32 :: "8 word list \<Rightarrow> nat \<Rightarrow> nat" where
  "le32 bs i = le16 bs i + 2 ^ 16 * le16 bs (i + 2)"

definition wh_audioFormat :: "8 word list \<Rightarrow> nat" where "wh_audioFormat h = le16 h 20"
definition wh_numChannels :: "8 word list \<Rightarrow> nat" where "wh_numChannels h = le16 h 22"
definition wh_sampleRate :: "8 word list \<Rightarrow> nat" where "wh_sampleRate h = le32 h 24"
definition wh_byteRate :: "8 word list \<Rightarrow> nat" where "wh_byteRate h = le32 h 28"
definition wh_bitsPerSample :: "8 word list \<Rightarrow> nat" where "wh_bitsPerSample h = le16 h 34"

record wav =
  wv_fileSize :: nat
  wv_dataOffset :: nat
  wv_seekable :: wav_seekable
  wv_wavHeadLength :: nat
  wv_wavHeader :: "8 word list"

definition WAV_PER_FRAME_SIZE :: nat where "WAV_PER_FRAME_SIZE = 8192"
definition WAV_HEAD_INFO_LEN :: nat where "WAV_HEAD_INFO_LEN = 56"
definition WAVE_FORMAT_PCM :: nat where "WAVE_FORMAT_PCM = 0x0001"
definition WAVE_FORMAT_IEEE_FLOAT :: nat where "WAVE_FORMAT_IEEE_FLOAT = 0x0003"
definition WAVE_FORMAT_EXTENSIBLE :: nat where "WAVE_FORMAT_EXTENSIBLE = 0xFFFE"
definition HST_SECOND_ns :: int where "HST_SECOND_ns = 1000 * (1000 * 1000)"

definition WavDemuxerPlugin :: wav where
  "WavDemuxerPlugin =
     \<lparr>wv_fileSize = 0, wv_dataOffset = 0, wv_seekable = WS_INVALID, wv_wavHeadLength = 0, wv_wavHeader = replicate WAV_HEAD_INFO_LEN 0\<rparr>"

definition Wav_SetDataSource :: "nat \<Rightarrow> wav_seekable \<Rightarrow> wav \<Rightarrow> wav" where
  "Wav_SetDataSource fileSize seekable d = d\<lparr>wv_fileSize := fileSize, wv_seekable := seekable\<rparr>"

definition Sec2HstTime :: "int \<Rightarrow> int option" where
  "Sec2HstTime sec =
     (if c_div (2 ^ 63 - 1) HST_SECOND_ns < sec \<or> c_div (- (2 ^ 63)) HST_SECOND_ns > sec then None else Some (sec * HST_SECOND_ns))"

definition HstTime2Sec :: "int \<Rightarrow> int" where
  "HstTime2Sec hTime = c_div hTime HST_SECOND_ns"

definition g_WavAudioSampleFormatPacked :: "nat \<Rightarrow> wav_format" where
  "g_WavAudioSampleFormatPacked bits = (if bits = 8 then WF_U8 else if bits = 16 then WF_S16 else if bits = 32 then WF_S32 else WF_NONE)"

record wav_info =
  wi_mono :: bool
  wi_duration :: int
  wi_sampleRate :: nat
  wi_bitrate :: nat
  wi_channels :: nat
  wi_format :: wav_format
  wi_bitsPerCodedSample :: nat

text \<open>The duration: the sizes are 64 bit unsigned, the bits per second are computed in 32 bits.\<close>

definition wav_duration :: "nat \<Rightarrow> nat \<Rightarrow> 8 word list \<Rightarrow> int option" where
  "wav_duration fileSize headLength h =
     (if wh_sampleRate h = 0 \<or> wh_bitsPerSample h = 0 \<or> wh_numChannels h = 0 then Some 0
      else
        let bitsPerSecond = (wh_sampleRate h * wh_bitsPerSample h * wh_numChannels h) mod 2 ^ 32;
            bits = ((fileSize + 2 ^ 64 - headLength) mod 2 ^ 64 * 8) mod 2 ^ 64
        in if bitsPerSecond = 0 then None
           else Some (case Sec2HstTime (swrap 64 (int (bits div bitsPerSecond))) of None \<Rightarrow> 0 | Some duration \<Rightarrow> duration))"

definition wav_sample_format :: "8 word list \<Rightarrow> wav_format" where
  "wav_sample_format h =
     (if wh_audioFormat h = WAVE_FORMAT_PCM \<or> wh_audioFormat h = WAVE_FORMAT_EXTENSIBLE then g_WavAudioSampleFormatPacked (wh_bitsPerSample h)
      else if wh_audioFormat h = WAVE_FORMAT_IEEE_FLOAT then WF_F32 else WF_NONE)"

definition Wav_GetMediaInfo :: "wav_source \<Rightarrow> wav \<Rightarrow> (Status \<times> wav_info option \<times> wav) option" where
  "Wav_GetMediaInfo ReadAt d =
     (case ReadAt 0 WAV_HEAD_INFO_LEN of
        (status, bytes) \<Rightarrow>
          let h = bytes @ drop (length bytes) (wv_wavHeader d); d1 = d\<lparr>wv_wavHeader := h\<rparr>
          in if status \<noteq> OK then Some (status, None, d1)
             else
               let len = (if wh_audioFormat h = WAVE_FORMAT_PCM then WAV_HEAD_INFO_LEN - 12 else WAV_HEAD_INFO_LEN);
                   d2 = d1\<lparr>wv_wavHeadLength := len, wv_dataOffset := len\<rparr>
               in case wav_duration (wv_fileSize d2) len h of
                    None \<Rightarrow> None
                  | Some duration \<Rightarrow>
                      Some (OK, Some \<lparr>wi_mono = (wh_numChannels h = 1), wi_duration = duration, wi_sampleRate = wh_sampleRate h,
                        wi_bitrate = (wh_byteRate h * 8) mod 2 ^ 32, wi_channels = wh_numChannels h, wi_format = wav_sample_format h,
                        wi_bitsPerCodedSample = wh_bitsPerSample h\<rparr>, d2))"

definition Wav_ReadFrame :: "wav_source \<Rightarrow> wav \<Rightarrow> Status \<times> 8 word list \<times> wav" where
  "Wav_ReadFrame ReadAt d =
     (case ReadAt (wv_dataOffset d) WAV_PER_FRAME_SIZE of
        (status, bytes) \<Rightarrow> (status, bytes, d\<lparr>wv_dataOffset := (wv_dataOffset d + length bytes) mod 2 ^ 32\<rparr>))"

definition Wav_SeekTo :: "int \<Rightarrow> wav \<Rightarrow> Status \<times> wav" where
  "Wav_SeekTo seekTime d =
     (if wv_fileSize d = 0 \<or> wv_seekable d = WS_INVALID \<or> wv_seekable d = WS_UNSEEKABLE then (ERROR_INVALID_OPERATION, d)
      else
        let h = wv_wavHeader d;
            blockAlign = wh_bitsPerSample h div 8 * wh_numChannels h;
            byteRate = (blockAlign * wh_sampleRate h) mod 2 ^ 32;
            position = swrap 64 (HstTime2Sec seekTime * int byteRate);
            position' = (if blockAlign \<noteq> 0 then c_div position (int blockAlign) * int blockAlign else position)
        in (OK, d\<lparr>wv_dataOffset := nat (position' mod 2 ^ 32)\<rparr>))"

definition Wav_Reset :: "wav \<Rightarrow> wav" where
  "Wav_Reset d = d\<lparr>wv_dataOffset := 0, wv_fileSize := 0, wv_seekable := WS_SEEKABLE\<rparr>"

definition WavSniff :: "8 word list \<Rightarrow> bool" where
  "WavSniff inputBuf = (inputBuf ! 0 \<noteq> 0x52 \<or> inputBuf ! 1 \<noteq> 0x49 \<or> inputBuf ! 2 \<noteq> 0x46 \<or> inputBuf ! 3 \<noteq> 0x46)"

text \<open>\<open>fresh\<close> is what the allocated memory holds.\<close>

definition Wav_Sniff :: "8 word list \<Rightarrow> wav_source \<Rightarrow> nat" where
  "Wav_Sniff fresh ReadAt =
     (case ReadAt 0 4 of (status, bytes) \<Rightarrow> if status \<noteq> OK then 0 else if WavSniff (bytes @ drop (length bytes) fresh) then 0 else 100)"

section \<open>Playing a file\<close>

text \<open>A data source over the bytes of a file.\<close>

definition reads_file :: "8 word list \<Rightarrow> wav_source \<Rightarrow> bool" where
  "reads_file file ReadAt = (\<forall>offset len. ReadAt offset len = (if offset < length file then (OK, take len (drop offset file)) else (END_OF_STREAM, [])))"

text \<open>A PCM file: the header of 44 bytes, then the samples.\<close>

definition to_le16 :: "nat \<Rightarrow> 8 word list" where
  "to_le16 n = [of_nat n, of_nat (n div 2 ^ 8)]"

definition to_le32 :: "nat \<Rightarrow> 8 word list" where
  "to_le32 n = to_le16 n @ to_le16 (n div 2 ^ 16)"

definition wav_head :: "nat \<Rightarrow> nat \<Rightarrow> nat \<Rightarrow> nat \<Rightarrow> 8 word list" where
  "wav_head channels rate bits len =
     [0x52, 0x49, 0x46, 0x46] @ to_le32 (36 + len) @ [0x57, 0x41, 0x56, 0x45] @ [0x66, 0x6D, 0x74, 0x20] @ to_le32 16 @ to_le16 1 @ to_le16 channels @
     to_le32 rate @ to_le32 (rate * channels * (bits div 8)) @ to_le16 (channels * (bits div 8)) @ to_le16 bits @ [0x64, 0x61, 0x74, 0x61] @ to_le32 len"

lemma length_le [simp]: "length (to_le16 n) = 2" "length (to_le32 n) = 4"
  by (simp_all add: to_le16_def to_le32_def)

lemma length_wav_head [simp]: "length (wav_head channels rate bits len) = 44"
  by (simp add: wav_head_def)

lemma le16_of: "n < 2 ^ 16 \<Longrightarrow> unat (of_nat n :: 8 word) + 256 * unat (of_nat (n div 256) :: 8 word) = n"
  by (simp add: unat_of_nat take_bit_eq_mod)

fun read_frames :: "wav_source \<Rightarrow> nat \<Rightarrow> wav \<Rightarrow> 8 word list \<times> wav" where
  "read_frames ReadAt 0 d = ([], d)"
| "read_frames ReadAt (Suc n) d =
     (case Wav_ReadFrame ReadAt d of (_, bytes, d1) \<Rightarrow> (case read_frames ReadAt n d1 of (rest, d2) \<Rightarrow> (bytes @ rest, d2)))"

lemma read_frames_file:
  assumes "reads_file file ReadAt" "length file < 2 ^ 32" "wv_dataOffset d \<le> length file"
  shows "fst (read_frames ReadAt n d) = take (n * WAV_PER_FRAME_SIZE) (drop (wv_dataOffset d) file)"
  using assms(3)
proof (induction n arbitrary: d)
  case (Suc n)
  let ?k = "min WAV_PER_FRAME_SIZE (length file - wv_dataOffset d)"
  have "\<exists>st d1. Wav_ReadFrame ReadAt d = (st, take WAV_PER_FRAME_SIZE (drop (wv_dataOffset d) file), d1) \<and> wv_dataOffset d1 = wv_dataOffset d + ?k"
  proof (cases "wv_dataOffset d < length file")
    case True
    then have "(wv_dataOffset d + ?k) mod 2 ^ 32 = wv_dataOffset d + ?k" using assms(2) by simp
    then show ?thesis using True assms(1) by (simp add: Wav_ReadFrame_def reads_file_def min.commute)
  next
    case False
    then show ?thesis using assms(1,2) Suc.prems by (simp add: Wav_ReadFrame_def reads_file_def)
  qed
  then obtain st d1 where f: "Wav_ReadFrame ReadAt d = (st, take WAV_PER_FRAME_SIZE (drop (wv_dataOffset d) file), d1)" "wv_dataOffset d1 = wv_dataOffset d + ?k"
    by blast
  have "fst (read_frames ReadAt n d1) = take (n * WAV_PER_FRAME_SIZE) (drop ?k (drop (wv_dataOffset d) file))"
    using Suc.IH [of d1] f(2) Suc.prems by (simp add: add.commute)
  moreover have "drop ?k (drop (wv_dataOffset d) file) = drop WAV_PER_FRAME_SIZE (drop (wv_dataOffset d) file)"
    by (simp add: min_def)
  ultimately show ?case using f(1) by (cases "read_frames ReadAt n d1") (simp add: take_add)
qed simp

lemma wav_header_fields:
  assumes "channels < 2 ^ 16" "rate < 2 ^ 32" "bits < 2 ^ 16"
  shows "wh_audioFormat (wav_head channels rate bits len @ rest) = WAVE_FORMAT_PCM" "wh_numChannels (wav_head channels rate bits len @ rest) = channels"
    "wh_sampleRate (wav_head channels rate bits len @ rest) = rate" "wh_bitsPerSample (wav_head channels rate bits len @ rest) = bits"
proof -
  have r: "rate mod 65536 + 65536 * (rate div 65536) = rate" by simp
  have lo: "unat (of_nat rate :: 8 word) + 256 * unat (of_nat (rate div 256) :: 8 word) = rate mod 65536"
    by (simp add: unat_of_nat take_bit_eq_mod) (metis mod_mult2_eq mult.commute numeral_times_numeral semiring_norm(12,13) mult.right_neutral add.commute mult_numeral_1)
  have hi: "unat (of_nat (rate div 65536) :: 8 word) + 256 * unat (of_nat (rate div 65536 div 256) :: 8 word) = rate div 65536"
    using le16_of [of "rate div 65536"] assms(2) by simp
  show "wh_audioFormat (wav_head channels rate bits len @ rest) = WAVE_FORMAT_PCM" "wh_numChannels (wav_head channels rate bits len @ rest) = channels"
    "wh_sampleRate (wav_head channels rate bits len @ rest) = rate" "wh_bitsPerSample (wav_head channels rate bits len @ rest) = bits"
    using le16_of [of channels] le16_of [of bits] assms r lo hi
    by (simp_all add: wh_audioFormat_def wh_numChannels_def wh_sampleRate_def wh_bitsPerSample_def le16_def le32_def wav_head_def to_le16_def to_le32_def WAVE_FORMAT_PCM_def)
qed

lemma wav_media_info:
  assumes h: "channels < 2 ^ 16" "rate < 2 ^ 32" "bits < 2 ^ 16" and pos: "0 < channels" "0 < rate" "8 \<le> bits" "rate * bits * channels < 2 ^ 32"
    and fl: "file = wav_head channels rate bits (length samples) @ samples" "length file < 2 ^ 32" "reads_file file ReadAt"
    and d: "wv_fileSize d = length file" "length (wv_wavHeader d) = WAV_HEAD_INFO_LEN"
  shows "\<exists>info d'. Wav_GetMediaInfo ReadAt d = Some (OK, Some info, d') \<and> wi_channels info = channels \<and> wi_sampleRate info = rate \<and> wi_bitsPerCodedSample info = bits \<and>
    wi_format info = g_WavAudioSampleFormatPacked bits \<and> wi_duration info = int (length samples * 8 div (rate * bits * channels)) * HST_SECOND_ns \<and>
    wv_dataOffset d' = 44 \<and> wv_wavHeader d' = wav_head channels rate bits (length samples) @ take 12 samples @ drop (44 + length samples) (wv_wavHeader d)"
proof -
  let ?head = "wav_head channels rate bits (length samples)"
  have r: "ReadAt 0 WAV_HEAD_INFO_LEN = (OK, ?head @ take 12 samples)" using fl by (simp add: reads_file_def WAV_HEAD_INFO_LEN_def)
  have dr: "drop (length (?head @ take 12 samples)) (wv_wavHeader d) = drop (44 + length samples) (wv_wavHeader d)"
    using d(2) by (simp add: WAV_HEAD_INFO_LEN_def min_def)
  have fields: "wh_audioFormat (?head @ rest) = WAVE_FORMAT_PCM" "wh_numChannels (?head @ rest) = channels" "wh_sampleRate (?head @ rest) = rate"
    "wh_bitsPerSample (?head @ rest) = bits" for rest using wav_header_fields [OF h] by blast+
  define secs where "secs = length samples * 8 div (rate * bits * channels)"
  have len: "length file = 44 + length samples" using fl(1) by simp
  have "1 * 8 * 1 \<le> rate * bits * channels" using pos by (intro mult_mono) auto
  then have "secs \<le> length samples * 8 div 8" unfolding secs_def by (intro div_le_mono2) auto
  then have s: "int secs < 4294967296" using fl(2) len by simp
  have bits: "((length file + 2 ^ 64 - 44) mod 2 ^ 64 * 8) mod 2 ^ 64 = length samples * 8" using fl(2) len by simp
  have sw: "swrap 64 (int secs) = int secs" using s by (intro swrap_id) simp_all
  have sec: "Sec2HstTime (int secs) = Some (int secs * HST_SECOND_ns)" using s by (simp add: Sec2HstTime_def HST_SECOND_ns_def c_div_def)
  have "wav_duration (length file) 44 (?head @ rest) = Some (int secs * HST_SECOND_ns)" for rest
    using fields pos bits sw sec by (simp add: wav_duration_def Let_def secs_def)
  then show ?thesis using r dr fields d(1) unfolding secs_def by (simp add: Wav_GetMediaInfo_def WAV_HEAD_INFO_LEN_def wav_sample_format_def Let_def)
qed

text \<open>C40: A PCM file in the canonical form, a header of exactly 44 bytes (a format chunk of 16 bytes, then the head of the data chunk)
  followed by the samples and nothing else, is played as it is. The header has positive channels and sample rate and at least 8 bits per
  sample, each within its field, and bits per second below 2^32; the file is smaller than 4 GB and comes from a seekable source of that
  size that reads it at any offset. The demuxer reports the channels, the sample rate, the sample format and the length in whole seconds
  that the header tells, and the frames read one after the other, without a seek, are the samples, from the first on, without a gap or a
  repetition, until they are used up. Files with a longer header are not covered.\<close>

theorem wav_plays_file:
  assumes "channels < 2 ^ 16" "rate < 2 ^ 32" "bits < 2 ^ 16" "0 < channels" "0 < rate" "8 \<le> bits" "rate * bits * channels < 2 ^ 32"
    "file = wav_head channels rate bits (length samples) @ samples" "length file < 2 ^ 32" "reads_file file ReadAt"
  shows "\<exists>info d. Wav_GetMediaInfo ReadAt (Wav_SetDataSource (length file) WS_SEEKABLE WavDemuxerPlugin) = Some (OK, Some info, d) \<and>
    wi_channels info = channels \<and> wi_sampleRate info = rate \<and> wi_format info = g_WavAudioSampleFormatPacked bits \<and>
    wi_duration info = int (length samples * 8 div (rate * bits * channels)) * HST_SECOND_ns \<and>
    (\<forall>n. fst (read_frames ReadAt n d) = take (n * WAV_PER_FRAME_SIZE) samples)"
proof -
  let ?d = "Wav_SetDataSource (length file) WS_SEEKABLE WavDemuxerPlugin"
  have d: "wv_fileSize ?d = length file" "length (wv_wavHeader ?d) = WAV_HEAD_INFO_LEN" by (simp_all add: Wav_SetDataSource_def WavDemuxerPlugin_def)
  obtain info d' where i: "Wav_GetMediaInfo ReadAt ?d = Some (OK, Some info, d')" "wi_channels info = channels" "wi_sampleRate info = rate"
    "wi_format info = g_WavAudioSampleFormatPacked bits" "wi_duration info = int (length samples * 8 div (rate * bits * channels)) * HST_SECOND_ns" "wv_dataOffset d' = 44"
    using wav_media_info [OF assms d] by blast
  have "fst (read_frames ReadAt n d') = take (n * WAV_PER_FRAME_SIZE) samples" for n
    using read_frames_file [OF assms(10,9), of d' n] i(6) assms(8) by simp
  with i show ?thesis by blast
qed

definition example_source :: wav_source where
  "example_source offset len =
     (let file = wav_head 1 8000 8 (length [1 :: 8 word, 2, 3]) @ [1, 2, 3] in if offset < length file then (OK, take len (drop offset file)) else (END_OF_STREAM, []))"

theorem wav_plays_file_witness:
  "\<exists>info d. Wav_GetMediaInfo example_source (Wav_SetDataSource 47 WS_SEEKABLE WavDemuxerPlugin) = Some (OK, Some info, d) \<and> wi_format info = WF_U8 \<and>
     fst (read_frames example_source 1 d) = [1, 2, 3]"
proof -
  let ?file = "wav_head 1 8000 8 (length [1 :: 8 word, 2, 3]) @ [1, 2, 3]"
  have "reads_file ?file example_source" by (simp add: reads_file_def example_source_def Let_def)
  from wav_plays_file [of 1 8000 8 ?file "[1, 2, 3]" example_source, OF _ _ _ _ _ _ _ _ _ this] obtain info d where
    "Wav_GetMediaInfo example_source (Wav_SetDataSource 47 WS_SEEKABLE WavDemuxerPlugin) = Some (OK, Some info, d)"
    "wi_format info = g_WavAudioSampleFormatPacked 8" "\<forall>n. fst (read_frames example_source n d) = take (n * WAV_PER_FRAME_SIZE) [1, 2, 3]" by auto
  moreover from this(3) have "fst (read_frames example_source 1 d) = [1, 2, 3]" by (simp only: WAV_PER_FRAME_SIZE_def) simp
  ultimately show ?thesis by (auto simp: g_WavAudioSampleFormatPacked_def simp del: read_frames.simps)
qed

section \<open>Where it goes wrong\<close>

text \<open>A seek counts from the start of the file and not of the samples: after a seek to the beginning the header is played.\<close>

lemma wav_seek_plays_header:
  assumes "reads_file file ReadAt" "WAV_PER_FRAME_SIZE \<le> length file" "wv_fileSize d \<noteq> 0" "wv_seekable d = WS_SEEKABLE"
  shows "\<exists>d'. Wav_SeekTo 0 d = (OK, d') \<and> fst (snd (Wav_ReadFrame ReadAt d')) = take WAV_PER_FRAME_SIZE file"
proof -
  have "Wav_SeekTo 0 d = (OK, d\<lparr>wv_dataOffset := 0\<rparr>)" using assms(3,4) by (simp add: Wav_SeekTo_def HstTime2Sec_def c_div_def swrap_def Let_def)
  moreover have "file \<noteq> []" using assms(2) by (auto simp: WAV_PER_FRAME_SIZE_def)
  ultimately show ?thesis using assms(1) by (simp add: Wav_ReadFrame_def reads_file_def)
qed

text \<open>The bits per second are computed in 32 bits: a header in which every field is set can make them zero, and the length is divided by it.\<close>

lemma wav_divides_by_zero:
  "wh_sampleRate h = 2 ^ 28 \<Longrightarrow> wh_bitsPerSample h = 16 \<Longrightarrow> wh_numChannels h = 1 \<Longrightarrow> wav_duration fileSize headLength h = None"
  by (simp add: wav_duration_def Let_def)

end
