(* ===== verification/Media_Format.thy ===== *)
theory Media_Format
  imports Media_Meta Text_Print
begin

text \<open>
  \<^verbatim>\<open>Format\<close> of \<^verbatim>\<open>interface/inner_api/meta/format.h\<close> and \<^verbatim>\<open>src/meta/format.cpp\<close>: the container applications fill
  with integers, numbers, strings and buffers, over a \<open>meta\<close>. The cache of raw pointers behind \<^verbatim>\<open>GetFormatMap\<close> is left out.
\<close>

datatype format = Format (fm_meta: meta) (fm_vecs: "(string \<times> format list) list")

datatype FormatDataType =
    FORMAT_TYPE_NONE | FORMAT_TYPE_INT32 | FORMAT_TYPE_INT64 | FORMAT_TYPE_FLOAT | FORMAT_TYPE_DOUBLE | FORMAT_TYPE_STRING | FORMAT_TYPE_ADDR
  | FORMAT_TYPE_UINT32 | FORMAT_TYPE_INT32_VECTOR

definition BUFFER_SIZE_MAX :: nat where
  "BUFFER_SIZE_MAX = 1 * 1024 * 1024"

definition mk_Format :: format where
  "mk_Format = Format [] []"

definition fm_with :: "format \<Rightarrow> meta \<Rightarrow> format" where
  "fm_with f m = Format m (fm_vecs f)"

section \<open>Storing\<close>

text \<open>A registered key takes only values of the type of its default.\<close>

definition key_takes :: "int \<Rightarrow> string \<Rightarrow> (any \<Rightarrow> bool) \<Rightarrow> bool" where
  "key_takes fmt key ok = (case GetDefaultAnyValueOpt fmt key of None \<Rightarrow> True | Some d \<Rightarrow> ok d)"

definition PutIntValue :: "int \<Rightarrow> string \<Rightarrow> 32 word \<Rightarrow> format \<Rightarrow> bool \<times> format" where
  "PutIntValue fmt key value f =
     (if key_takes fmt key (\<lambda>d. IsSameTypeWith T_int32 d \<or> IsSameTypeWith T_bool d \<or> IsIntEnum key)
      then (case SetMetaData_int32 (fm_meta f) key value of (b, m) \<Rightarrow> (b, fm_with f m))
      else (False, f))"

definition PutUintValue :: "int \<Rightarrow> string \<Rightarrow> 32 word \<Rightarrow> format \<Rightarrow> bool \<times> format" where
  "PutUintValue fmt key value f =
     (if key_takes fmt key (\<lambda>d. IsSameTypeWith T_uint32 d \<or> IsSameTypeWith T_bool d \<or> IsIntEnum key)
      then (case SetMetaData_uint32 (fm_meta f) key value of (b, m) \<Rightarrow> (b, fm_with f m))
      else (False, f))"

definition PutLongValue :: "int \<Rightarrow> string \<Rightarrow> 64 word \<Rightarrow> format \<Rightarrow> bool \<times> format" where
  "PutLongValue fmt key value f =
     (if key_takes fmt key (\<lambda>d. IsSameTypeWith T_int64 d \<or> IsLongEnum key)
      then (case SetMetaData_int64 (fm_meta f) key value of (b, m) \<Rightarrow> (b, fm_with f m))
      else (False, f))"

definition PutFloatValue :: "int \<Rightarrow> string \<Rightarrow> 32 word \<Rightarrow> format \<Rightarrow> bool \<times> format" where
  "PutFloatValue fmt key value f =
     (if key_takes fmt key (IsSameTypeWith T_float) then (True, fm_with f (SetData key (A_float value) (fm_meta f))) else (False, f))"

definition PutDoubleValue :: "int \<Rightarrow> string \<Rightarrow> 64 word \<Rightarrow> format \<Rightarrow> bool \<times> format" where
  "PutDoubleValue fmt key value f =
     (if key_takes fmt key (IsSameTypeWith T_double) then (True, fm_with f (SetData key (A_double value) (fm_meta f))) else (False, f))"

definition PutStringValue :: "int \<Rightarrow> string \<Rightarrow> string \<Rightarrow> format \<Rightarrow> bool \<times> format" where
  "PutStringValue fmt key value f =
     (if key_takes fmt key (IsSameTypeWith T_string) then (True, fm_with f (SetData key (A_string value) (fm_meta f))) else (False, f))"

text \<open>A buffer is a pointer with what it points to; a buffer that is there already is resized and overwritten. \<^verbatim>\<open>memcpy_s\<close> refuses an empty
  destination: storing no bytes over a buffer empties it and reports an error.\<close>

definition PutBuffer :: "int \<Rightarrow> string \<Rightarrow> 8 word list option \<Rightarrow> format \<Rightarrow> bool \<times> format" where
  "PutBuffer fmt key addr f =
     (if \<not> key_takes fmt key (IsSameTypeWith T_vector_uint8) then (False, f)
      else (case addr of
        None \<Rightarrow> (False, f)
      | Some bs \<Rightarrow>
          if BUFFER_SIZE_MAX < length bs then (False, f)
          else (case map_of (fm_meta f) key of
                  None \<Rightarrow> (True, fm_with f (SetData key (A_vector_uint8 bs) (fm_meta f)))
                | Some v \<Rightarrow> if IsSameTypeWith T_vector_uint8 v then (bs \<noteq> [], fm_with f (smap_put key (A_vector_uint8 bs) (fm_meta f)))
                            else (False, f))))"

definition PutIntBuffer :: "int \<Rightarrow> string \<Rightarrow> 32 word list option \<Rightarrow> format \<Rightarrow> bool \<times> format" where
  "PutIntBuffer fmt key addr f =
     (if \<not> key_takes fmt key (IsSameTypeWith T_vector_int32) then (False, f)
      else (case addr of
        None \<Rightarrow> (False, f)
      | Some bs \<Rightarrow>
          if BUFFER_SIZE_MAX < length bs then (False, f)
          else (case map_of (fm_meta f) key of
                  None \<Rightarrow> (True, fm_with f (SetData key (A_vector_int32 bs) (fm_meta f)))
                | Some v \<Rightarrow> if IsSameTypeWith T_vector_int32 v then (bs \<noteq> [], fm_with f (smap_put key (A_vector_int32 bs) (fm_meta f)))
                            else (False, f))))"

definition RemoveKey :: "string \<Rightarrow> format \<Rightarrow> format" where
  "RemoveKey key f = Format (Meta_Remove key (fm_meta f)) (smap_erase key (fm_vecs f))"

definition PutFormatVector :: "string \<Rightarrow> format list \<Rightarrow> format \<Rightarrow> bool \<times> format" where
  "PutFormatVector key value f =
     (let g = RemoveKey key f
      in if map_of (fm_vecs g) key = None then (True, Format (fm_meta g) (smap_put key value (fm_vecs g))) else (False, g))"

section \<open>Fetching\<close>

definition GetIntValue :: "string \<Rightarrow> format \<Rightarrow> 32 word option" where
  "GetIntValue key f = GetMetaData_int32 (fm_meta f) key"

definition GetUintValue :: "string \<Rightarrow> format \<Rightarrow> 32 word option" where
  "GetUintValue key f = GetMetaData_uint32 (fm_meta f) key"

definition GetLongValue :: "string \<Rightarrow> format \<Rightarrow> 64 word option" where
  "GetLongValue key f = GetMetaData_int64 (fm_meta f) key"

definition GetFloatValue :: "string \<Rightarrow> format \<Rightarrow> 32 word option" where
  "GetFloatValue key f = (case GetData T_float key (fm_meta f) of Some (A_float v) \<Rightarrow> Some v | _ \<Rightarrow> None)"

definition GetDoubleValue :: "string \<Rightarrow> format \<Rightarrow> 64 word option" where
  "GetDoubleValue key f = (case GetData T_double key (fm_meta f) of Some (A_double v) \<Rightarrow> Some v | _ \<Rightarrow> None)"

definition GetStringValue :: "string \<Rightarrow> format \<Rightarrow> string option" where
  "GetStringValue key f = (case GetData T_string key (fm_meta f) of Some (A_string v) \<Rightarrow> Some v | _ \<Rightarrow> None)"

definition GetBuffer :: "string \<Rightarrow> format \<Rightarrow> 8 word list option" where
  "GetBuffer key f = (case GetData T_vector_uint8 key (fm_meta f) of Some (A_vector_uint8 v) \<Rightarrow> Some v | _ \<Rightarrow> None)"

definition GetIntBuffer :: "string \<Rightarrow> format \<Rightarrow> 32 word list option" where
  "GetIntBuffer key f = (case GetData T_vector_int32 key (fm_meta f) of Some (A_vector_int32 v) \<Rightarrow> Some v | _ \<Rightarrow> None)"

definition GetFormatVector :: "string \<Rightarrow> format \<Rightarrow> format list option" where
  "GetFormatVector key f = map_of (fm_vecs f) key"

definition ContainKey :: "string \<Rightarrow> format \<Rightarrow> bool" where
  "ContainKey key f = (map_of (fm_meta f) key \<noteq> None \<or> map_of (fm_vecs f) key \<noteq> None)"

definition Format_GetKeys :: "format \<Rightarrow> string list" where
  "Format_GetKeys f = map fst (fm_meta f)"

definition Format_GetValueType :: "string \<Rightarrow> format \<Rightarrow> FormatDataType" where
  "Format_GetValueType key f =
     (case map_of (fm_meta f) key of
        None \<Rightarrow> FORMAT_TYPE_NONE
      | Some v \<Rightarrow>
          if IsSameTypeWith T_int32 v then FORMAT_TYPE_INT32
          else if IsSameTypeWith T_uint32 v then FORMAT_TYPE_UINT32
          else if IsSameTypeWith T_int64 v then FORMAT_TYPE_INT64
          else if IsSameTypeWith T_float v then FORMAT_TYPE_FLOAT
          else if IsSameTypeWith T_double v then FORMAT_TYPE_DOUBLE
          else if IsSameTypeWith T_string v then FORMAT_TYPE_STRING
          else if IsSameTypeWith T_vector_uint8 v then FORMAT_TYPE_ADDR
          else if IsSameTypeWith T_vector_int32 v then FORMAT_TYPE_INT32_VECTOR
          else if GetMetaData_int64 (fm_meta f) key \<noteq> None then FORMAT_TYPE_INT64
          else FORMAT_TYPE_INT32)"

section \<open>Printing\<close>

text \<open>
  \<^verbatim>\<open>Stringify\<close>. \<^verbatim>\<open>AnyCast<T>\<close> by value dereferences the pointer it gets, which is null for a value of another type:
  that is \<^term>\<open>None\<close>. How the standard library prints floating-point numbers is an argument.
\<close>

definition print_signed :: "int \<Rightarrow> string" where
  "print_signed v = (if v < 0 then CHR ''-'' # print_nat (nat (- v)) else print_nat (nat v))"

definition print_entry :: "(32 word \<Rightarrow> string) \<Rightarrow> (64 word \<Rightarrow> string) \<Rightarrow> FormatDataType \<Rightarrow> string \<Rightarrow> any \<Rightarrow> string option" where
  "print_entry pf pd t k v =
     (case t of
        FORMAT_TYPE_INT32 \<Rightarrow> (case v of A_int32 w \<Rightarrow> Some (k @ '' = '' @ print_signed (sint w) @ '' | '') | _ \<Rightarrow> None)
      | FORMAT_TYPE_UINT32 \<Rightarrow> (case v of A_uint32 w \<Rightarrow> Some (k @ '' = '' @ print_nat (unat w) @ '' | '') | _ \<Rightarrow> None)
      | FORMAT_TYPE_INT64 \<Rightarrow> (case v of A_int64 w \<Rightarrow> Some (k @ '' = '' @ print_signed (sint w) @ '' | '') | _ \<Rightarrow> None)
      | FORMAT_TYPE_FLOAT \<Rightarrow> (case v of A_float w \<Rightarrow> Some (k @ '' = '' @ pf w @ '' | '') | _ \<Rightarrow> None)
      | FORMAT_TYPE_DOUBLE \<Rightarrow> (case v of A_double w \<Rightarrow> Some (k @ '' = '' @ pd w @ '' | '') | _ \<Rightarrow> None)
      | FORMAT_TYPE_STRING \<Rightarrow> (case v of A_string w \<Rightarrow> Some (k @ '' = '' @ w @ '' | '') | _ \<Rightarrow> None)
      | FORMAT_TYPE_ADDR \<Rightarrow> Some (case v of A_vector_uint8 bs \<Rightarrow> k @ '', bufferSize = '' @ print_nat (length bs) @ '' | '' | _ \<Rightarrow> [])
      | FORMAT_TYPE_INT32_VECTOR \<Rightarrow> Some (case v of A_vector_int32 bs \<Rightarrow> k @ '', bufferSize = '' @ print_nat (length bs) @ '' | '' | _ \<Rightarrow> [])
      | FORMAT_TYPE_NONE \<Rightarrow> Some [])"

fun stringify_loop :: "(32 word \<Rightarrow> string) \<Rightarrow> (64 word \<Rightarrow> string) \<Rightarrow> format \<Rightarrow> (string \<times> any) list \<Rightarrow> string option" where
  "stringify_loop pf pd f [] = Some []"
| "stringify_loop pf pd f ((k, v) # es) =
     (case print_entry pf pd (Format_GetValueType k f) k v of
        None \<Rightarrow> None
      | Some s \<Rightarrow> map_option ((@) s) (stringify_loop pf pd f es))"

definition Stringify :: "(32 word \<Rightarrow> string) \<Rightarrow> (64 word \<Rightarrow> string) \<Rightarrow> format \<Rightarrow> string option" where
  "Stringify pf pd f = stringify_loop pf pd f (fm_meta f)"

end
