(* ===== verification/Meta_Props.thy ===== *)
theory Meta_Props
  imports Media_Meta
begin

text \<open>
  What survives the marshalling of metadata and what does not, and how the application interface and the tags agree.
\<close>

section \<open>One value\<close>

lemma sint_word32: "sint (word_of_int v :: 32 word) = swrap 32 v"
  by (simp add: int_word_sint swrap_def)

lemma sint_word64: "sint (word_of_int v :: 64 word) = swrap 64 v"
  by (simp add: int_word_sint swrap_def)

lemma swrap_idem: "swrap 32 (swrap 32 v) = swrap 32 v" "swrap 64 (swrap 64 v) = swrap 64 v"
  by (simp_all add: swrap_def)

lemma mod_minus_mult: "(v - b * k) mod b = v mod (b :: int)"
  using mod_mult_self2 [of v b "- k"] by simp

lemma swrap_mod: "swrap 32 v mod 2 ^ 32 = v mod 2 ^ 32" "swrap 32 v mod 2 ^ 8 = v mod 2 ^ 8"
proof -
  have *: "swrap 32 v = v - 2 ^ 32 * ((v + 2 ^ 31) div 2 ^ 32)" by (simp add: swrap_def minus_mult_div_eq_mod [symmetric])
  show "swrap 32 v mod 2 ^ 32 = v mod 2 ^ 32" unfolding * by (rule mod_minus_mult)
  have "swrap 32 v = v - 2 ^ 8 * (2 ^ 24 * ((v + 2 ^ 31) div 2 ^ 32))" unfolding * by simp
  then show "swrap 32 v mod 2 ^ 8 = v mod 2 ^ 8" by (simp only: mod_minus_mult)
qed

lemma enum_cast_wire:
  assumes "enum_ok e v"
  shows "type_size (T_enum e) = 8 \<Longrightarrow> enum_cast e (sint (word_of_int v :: 64 word)) = v"
    and "type_size (T_enum e) \<noteq> 8 \<Longrightarrow> enum_cast e (sint (word_of_int v :: 32 word)) = v"
proof -
  show "type_size (T_enum e) = 8 \<Longrightarrow> enum_cast e (sint (word_of_int v :: 64 word)) = v"
    using assms by (cases "underlying_type e") (simp_all add: enum_ok_def enum_cast_def sint_word64 swrap_idem)
  show "type_size (T_enum e) \<noteq> 8 \<Longrightarrow> enum_cast e (sint (word_of_int v :: 32 word)) = v"
    using assms swrap_mod [of v] by (cases "underlying_type e") (simp_all add: enum_ok_def enum_cast_def sint_word32 swrap_idem)
qed

lemma enum_size_le: "type_size (T_enum e) \<le> 8"
  by (cases "underlying_type e") simp_all

text \<open>What \<^verbatim>\<open>ToParcel\<close> takes: a base type, or anything of at most eight bytes.\<close>

definition writable :: "any \<Rightarrow> bool" where
  "writable a = (a \<noteq> A_empty \<and> (base_any a \<or> type_size (TypeName a) \<le> 8))"

lemma portable_writable: "portable d a \<Longrightarrow> writable a"
  using enum_size_le by (cases a) (auto simp: writable_def base_any_def simp del: type_size.simps)

lemma Any_ToParcel_items:
  assumes "writable a" "write_all P (any_items a) p = (True, q)"
  shows "Any_ToParcel P a p = (True, q)"
proof (cases "\<exists>e v. a = A_enum e v")
  case True
  then obtain e v where "a = A_enum e v" by blast
  with assms(2) enum_size_le [of e] show ?thesis
    by (auto simp: Any_ToParcel_def BaseTypesToParcel_def split: prod.splits bool.splits if_splits)
next
  case False
  have a: "a \<noteq> A_empty" using assms(1) by (simp add: writable_def)
  show ?thesis
  proof (cases "base_type a")
    case None
    with False assms a have "any_items a = [I_int32 (type_code INVALID_TYPE)]" "type_size (TypeName a) \<le> 8"
      by (cases a; simp add: writable_def base_any_def)+
    moreover have "WriteValueToParcel P a r = r" "WriteValueToParcelInt64 P a r = r" for r using False by (cases a; simp)+
    ultimately show ?thesis
      using assms(2) None a by (auto simp: Any_ToParcel_def BaseTypesToParcel_def split: prod.splits bool.splits)
  next
    case (Some tx)
    with False have "any_items a = [I_int32 (type_code (fst tx)), snd tx]" by (cases a) auto
    with assms(2) a Some show ?thesis by (cases tx) (auto simp: Any_ToParcel_def BaseTypesToParcel_def split: prod.splits bool.splits)
  qed
qed

lemma Any_FromParcel_enum:
  assumes "parcel_ok P unread" "TypeName d = T_enum e" "enum_ok e v" "unread p = any_items (A_enum e v) @ rest"
  shows "\<exists>q. Any_FromParcel P d p = ((True, A_enum e v), q) \<and> unread q = rest"
proof -
  obtain v0 where d: "d = A_enum e v0" using assms(2) by (cases d) auto
  obtain p1 where p1: "ReadInt32 P p = (1, p1)" "unread p1 = drop 1 (any_items (A_enum e v)) @ rest"
    using read_typed(2) [OF assms(1), of p 1] assms(4) by auto
  have "BaseTypesFromParcel P d p = ((ENUM_RETRY, d), p1)"
    using p1(1) by (simp add: BaseTypesFromParcel_def type_of_code_def value_types_def)
  moreover have "\<exists>q. MakeAnyFromParcel P d p1 = ((True, A_enum e v), q) \<and> unread q = rest"
  proof (cases "type_size (T_enum e) = 8")
    case True
    then show ?thesis
      using read_typed(3) [OF assms(1), of p1 "word_of_int v" rest] p1(2) enum_cast_wire(1) [OF assms(3)] d by (auto simp del: type_size.simps)
  next
    case False
    then show ?thesis
      using read_typed(2) [OF assms(1), of p1 "word_of_int v" rest] p1(2) enum_cast_wire(2) [OF assms(3)] d by (auto simp del: type_size.simps)
  qed
  ultimately show ?thesis by (simp add: Any_FromParcel_def)
qed

lemma Any_FromParcel_base:
  assumes "parcel_ok P unread" "base_type a = Some (t, x)" "unread p = I_int32 (type_code t) # x # rest"
  shows "\<exists>q. Any_FromParcel P d p = ((True, a), q) \<and> unread q = rest"
proof -
  obtain p1 where p1: "ReadInt32 P p = (type_code t, p1)" "unread p1 = x # rest"
    using read_typed(2) [OF assms(1) assms(3)] by blast
  have "\<exists>q. BaseTypesFromParcel P d p = ((SUCCESS, a), q) \<and> unread q = rest"
    using assms(2) p1 read_typed [OF assms(1), where p = p1 and xs = rest]
    by (cases a) (fastforce simp: BaseTypesFromParcel_def simp del: type_code.simps)+
  then show ?thesis by (auto simp: Any_FromParcel_def)
qed

lemma Any_FromParcel_items:
  assumes "parcel_ok P unread" "portable d a" "unread p = any_items a @ rest"
  shows "\<exists>q. Any_FromParcel P d p = ((True, a), q) \<and> unread q = rest"
proof (cases "\<exists>e v. a = A_enum e v")
  case True
  then show ?thesis using Any_FromParcel_enum [OF assms(1)] assms(2,3) by auto
next
  case False
  with assms(2) have "base_any a" by (cases a) auto
  then obtain t x where tx: "base_type a = Some (t, x)" by (auto simp: base_any_def)
  with False assms(3) have "unread p = I_int32 (type_code t) # x # rest" by (cases a) auto
  from Any_FromParcel_base [OF assms(1) tx this] show ?thesis .
qed

section \<open>The whole map\<close>

text \<open>The items that stand for a map.\<close>

definition entry_items :: "meta \<Rightarrow> string \<times> any \<Rightarrow> item list" where
  "entry_items m e = I_string (fst e) # I_int32 (type_code (Meta_GetValueType (fst e) m)) # any_items (snd e)"

lemma entry_items_pair: "entry_items m (k, v) = I_string k # I_int32 (type_code (Meta_GetValueType k m)) # any_items v"
  by (simp add: entry_items_def)

definition meta_items :: "meta \<Rightarrow> item list" where
  "meta_items m = I_int32 (of_nat (length m)) # concat (map (entry_items m) m)"

text \<open>An entry survives when its value does, read into the default of its key.\<close>

definition entry_portable :: "int \<Rightarrow> meta \<Rightarrow> string \<times> any \<Rightarrow> bool" where
  "entry_portable fmt m e = portable (GetDefaultAnyValue_typed fmt (fst e) (Some (Meta_GetValueType (fst e) m))) (snd e)"

lemma entries_writable: "list_all (entry_portable fmt m) es \<Longrightarrow> list_all (writable \<circ> snd) es"
  by (auto simp: list_all_iff entry_portable_def intro: portable_writable)

lemma toparcel_loop_items:
  "list_all (writable \<circ> snd) es \<Longrightarrow> write_all P (concat (map (entry_items m) es)) p = (True, q) \<Longrightarrow>
     toparcel_loop P m es True p = (True, q)"
proof (induction es arbitrary: p)
  case (Cons e es)
  obtain k v where e: "e = (k, v)" by fastforce
  from Cons.prems(2) obtain p1 p2 p3 where
    w: "mp_write P (I_string k) p = (True, p1)" "mp_write P (I_int32 (type_code (Meta_GetValueType k m))) p1 = (True, p2)"
      "write_all P (any_items v) p2 = (True, p3)" "write_all P (concat (map (entry_items m) es)) p3 = (True, q)"
    by (auto simp: e entry_items_pair write_all_append split: prod.splits bool.splits)
  have "Any_ToParcel P v p2 = (True, p3)"
    using Any_ToParcel_items [OF _ w(3)] Cons.prems(1) by (simp add: e)
  with w Cons show ?case by (simp add: e)
qed simp

lemma fromparcel_loop_items:
  assumes "parcel_ok P unread"
  shows "list_all (entry_portable fmt m) es \<Longrightarrow> unread p = concat (map (entry_items m) es) @ rest \<Longrightarrow>
     \<exists>q. fromparcel_loop P fmt (length es) acc p = ((True, fold (\<lambda>(k, v). smap_put k v) es acc), q) \<and> unread q = rest"
proof (induction es arbitrary: p acc)
  case (Cons e es)
  obtain k v where e: "e = (k, v)" by fastforce
  obtain p1 where p1: "ReadString P p = (k, p1)" "unread p1 = drop 1 (entry_items m e) @ concat (map (entry_items m) es) @ rest"
    using read_typed(8) [OF assms, of p k] Cons.prems(2) by (auto simp: e entry_items_pair)
  obtain p2 where p2: "ReadInt32 P p1 = (type_code (Meta_GetValueType k m), p2)"
      "unread p2 = any_items v @ concat (map (entry_items m) es) @ rest"
    using read_typed(2) [OF assms, of p1 "type_code (Meta_GetValueType k m)"] p1(2) by (auto simp: e entry_items_pair)
  obtain p3 where p3: "Any_FromParcel P (GetDefaultAnyValue_typed fmt k (Some (Meta_GetValueType k m))) p2 = ((True, v), p3)"
      "unread p3 = concat (map (entry_items m) es) @ rest"
    using Any_FromParcel_items [OF assms _ p2(2)] Cons.prems(1) by (fastforce simp: e entry_portable_def)
  from Cons.IH [OF _ p3(2)] Cons.prems(1) p1(1) p2(1) p3(1) show ?case by (simp add: e)
qed simp

text \<open>Storing the entries of an ordered map one after the other gives the map.\<close>

lemma smap_put_end: "smap_inv (m @ [(k, v)]) \<Longrightarrow> smap_put k v m = m @ [(k, v)]"
proof (induction m)
  case (Cons e m)
  then show ?case by (cases e) (auto simp: smap_inv_def)
qed simp

lemma fold_smap_put: "smap_inv (m @ es) \<Longrightarrow> fold (\<lambda>(k, v). smap_put k v) es m = m @ es"
proof (induction es arbitrary: m)
  case (Cons e es)
  obtain k v where e: "e = (k, v)" by fastforce
  have "smap_inv (m @ [(k, v)])" using Cons.prems by (simp add: e smap_inv_def sorted_wrt_append)
  then have "smap_put k v m = m @ [(k, v)]" by (rule smap_put_end)
  with Cons.IH [of "m @ [(k, v)]"] Cons.prems show ?case by (simp add: e)
qed simp

lemma sint_of_nat32: "n < 2 ^ 31 \<Longrightarrow> nat (sint (of_nat n :: 32 word)) = n \<and> 0 \<le> sint (of_nat n :: 32 word)"
  using int_word_sint [of "int n", where 'a = 32] by simp

lemma Meta_FromParcel_items:
  assumes "parcel_ok P unread" "smap_inv m" "list_all (entry_portable fmt m) m" "length m < 2 ^ 31"
    "\<forall>q. length m \<le> GetRawDataCapacity P q" "unread p = meta_items m @ rest"
  shows "\<exists>q. Meta_FromParcel P fmt p = ((True, m), q) \<and> unread q = rest"
proof -
  obtain p1 where p1: "ReadInt32 P p = (of_nat (length m), p1)" "unread p1 = concat (map (entry_items m) m) @ rest"
    using read_typed(2) [OF assms(1), of p "of_nat (length m)"] assms(6) by (auto simp: meta_items_def)
  obtain q where "fromparcel_loop P fmt (length m) [] p1 = ((True, m), q)" "unread q = rest"
    using fromparcel_loop_items [OF assms(1,3) p1(2), of "[]"] fold_smap_put [of "[]" m] assms(2) by auto
  with p1(1) sint_of_nat32 [OF assms(4)] assms(5) show ?thesis by (auto simp: Meta_FromParcel_def not_less)
qed

lemma Meta_ToParcel_exact:
  assumes "list_all (writable \<circ> snd) m" "write_all P (meta_items m) p = (True, q)"
  shows "Meta_ToParcel P m p = (True, q)"
proof -
  obtain p1 where w: "mp_write P (I_int32 (of_nat (length m))) p = (True, p1)" "write_all P (concat (map (entry_items m) m)) p1 = (True, q)"
    using assms(2) by (auto simp: meta_items_def split: prod.splits bool.splits)
  have "toparcel_loop P m m True p1 = (True, q)" by (rule toparcel_loop_items [OF assms(1) w(2)])
  with w(1) show ?thesis by (simp add: Meta_ToParcel_def)
qed

lemma Meta_ToParcel_items:
  assumes "parcel_ok P unread" "list_all (writable \<circ> snd) m" "fst (write_all P (meta_items m) p)"
  shows "\<exists>q. Meta_ToParcel P m p = (True, q) \<and> unread q = unread p @ meta_items m"
proof -
  obtain q where q: "write_all P (meta_items m) p = (True, q)" using assms(3) by (cases "write_all P (meta_items m) p") auto
  from Meta_ToParcel_exact [OF assms(2) q] write_all_unread [OF assms(1) q] show ?thesis by blast
qed

text \<open>C12: Metadata goes through a parcel unchanged under five conditions: every entry is portable (its value has one of the base types of
  the marshalling, or it is a value of an enumeration held under a tag of that enumeration), the map is sorted by its keys as \<^verbatim>\<open>std::map\<close> is, it has fewer than 2^31 entries, the parcel is a queue of items that takes all that is written, and
  it reports a raw capacity of at least the number of entries. It is appended as \<open>meta_items\<close>, and a reader that finds these items gets the
  same map and leaves what follows. A map with an entry that is not portable is not covered: some such maps are lost, as C18 shows.\<close>

theorem meta_parcel_roundtrip:
  assumes "parcel_ok P unread" "smap_inv m" "list_all (entry_portable fmt m) m" "length m < 2 ^ 31"
    "\<forall>q. length m \<le> GetRawDataCapacity P q" "fst (write_all P (meta_items m) p)"
  shows "(\<exists>q. Meta_ToParcel P m p = (True, q) \<and> unread q = unread p @ meta_items m) \<and>
    (\<forall>r rest. unread r = meta_items m @ rest \<longrightarrow> (\<exists>q. Meta_FromParcel P fmt r = ((True, m), q) \<and> unread q = rest))"
  using Meta_ToParcel_items [OF assms(1) entries_writable [OF assms(3)] assms(6)] Meta_FromParcel_items [OF assms(1-5)] by blast

text \<open>A value of at most eight bytes is reported as marshalled whatever the parcel says.\<close>

lemma scalar_failure_hidden: "a \<noteq> A_empty \<Longrightarrow> type_size (TypeName a) \<le> 8 \<Longrightarrow> fst (Any_ToParcel P a p)"
  by (auto simp: Any_ToParcel_def split: prod.splits bool.splits)

text \<open>A marshalling that fails leaves the parcel as it was.\<close>

lemma Any_ToParcel_written: "appended_to P p q \<Longrightarrow> appended_to P p (snd (Any_ToParcel P a q))"
  by (cases a) (auto simp: Any_ToParcel_def BaseTypesToParcel_def intro: written_write written_more split: prod.splits bool.splits option.splits)

lemma toparcel_loop_written: "appended_to P p q \<Longrightarrow> appended_to P p (snd (toparcel_loop P m es ret q))"
proof (induction es arbitrary: ret q)
  case (Cons e es)
  obtain k v where e: "e = (k, v)" by fastforce
  let ?q1 = "snd (mp_write P (I_string k) q)"
  let ?q2 = "snd (mp_write P (I_int32 (type_code (Meta_GetValueType k m))) ?q1)"
  let ?q3 = "snd (Any_ToParcel P v ?q2)"
  have "appended_to P p ?q1" "appended_to P p ?q2" "appended_to P p ?q3" using Cons.prems by (auto intro: written_more Any_ToParcel_written)
  with Cons show ?case by (auto simp: e Let_def split: prod.splits)
qed simp

lemma Meta_ToParcel_failure:
  assumes "parcel_ok P unread" "Meta_ToParcel P m p = (False, q)"
  shows "unread q = unread p"
proof -
  let ?w = "mp_write P (I_int32 (of_nat (length m))) p"
  have "appended_to P p (snd (toparcel_loop P m m (fst ?w) (snd ?w)))"
    by (intro toparcel_loop_written written_more written_none)
  moreover have "q = SetDataSize P (GetDataSize P p) (RewindWrite P (GetWritePosition P p) (snd (toparcel_loop P m m (fst ?w) (snd ?w))))"
    using assms(2) by (simp add: Meta_ToParcel_def split: prod.splits if_splits)
  ultimately show ?thesis using parcel_rewind [OF assms(1)] by simp
qed

section \<open>What is lost\<close>

text \<open>A value that is written without a type code and read into something that is no enumeration.\<close>

definition unreadable :: "any \<Rightarrow> any \<Rightarrow> bool" where
  "unreadable d a = (base_type a = None \<and> (\<forall>e. TypeName d \<noteq> T_enum e))"

lemma Any_FromParcel_unreadable:
  assumes "parcel_ok P unread" "unreadable d a" "unread p = any_items a @ rest"
  shows "\<exists>q. Any_FromParcel P d p = ((False, d), q)"
proof -
  have "\<exists>xs. any_items a = I_int32 (type_code INVALID_TYPE) # xs" using assms(2) by (cases a) (auto simp: unreadable_def)
  then obtain q where "ReadInt32 P p = (type_code INVALID_TYPE, q)" using read_typed(2) [OF assms(1), of p] assms(3) by fastforce
  then have "BaseTypesFromParcel P d p = ((ENUM_RETRY, d), q)" by (simp add: BaseTypesFromParcel_def del: type_code.simps)
  moreover have "MakeAnyFromParcel P d q = ((False, d), q)" using assms(2) by (cases d) (auto simp: unreadable_def)
  ultimately show ?thesis by (simp add: Any_FromParcel_def)
qed

text \<open>Reading a map back that has such an entry stops there.\<close>

lemma fromparcel_loop_append:
  "fromparcel_loop P fmt (n + k) m p =
     (case fromparcel_loop P fmt n m p of ((True, m'), q) \<Rightarrow> fromparcel_loop P fmt k m' q | ((False, m'), q) \<Rightarrow> ((False, m'), q))"
  by (induction n arbitrary: m p) (auto simp: Let_def split: prod.splits bool.splits)

text \<open>C18: A map all of whose values the marshalling takes and of which one, under a key of no enumeration, has neither a base type nor a
  type code is reported as marshalled and appended, and nobody can read it back: reading keeps the entries before and fails.\<close>

theorem meta_value_lost:
  assumes "parcel_ok P unread" "smap_inv m" "m = pre @ (k, v) # post" "list_all (writable \<circ> snd) m" "list_all (entry_portable fmt m) pre"
    "unreadable (GetDefaultAnyValue_typed fmt k (Some (Meta_GetValueType k m))) v" "length m < 2 ^ 31"
    "\<forall>q. length m \<le> GetRawDataCapacity P q" "fst (write_all P (meta_items m) p)"
  shows "(\<exists>q. Meta_ToParcel P m p = (True, q) \<and> unread q = unread p @ meta_items m) \<and>
    (\<forall>r rest. unread r = meta_items m @ rest \<longrightarrow> (\<exists>q. Meta_FromParcel P fmt r = ((False, pre), q)))"
proof (intro conjI allI impI)
  show "\<exists>q. Meta_ToParcel P m p = (True, q) \<and> unread q = unread p @ meta_items m"
    by (rule Meta_ToParcel_items [OF assms(1,4,9)])
next
  fix r rest
  assume r: "unread r = meta_items m @ rest"
  let ?post = "concat (map (entry_items m) post) @ rest"
  obtain p0 where p0: "ReadInt32 P r = (of_nat (length m), p0)" "unread p0 = concat (map (entry_items m) pre) @ (entry_items m (k, v) @ ?post)"
    using read_typed(2) [OF assms(1), of r "of_nat (length m)"] r by (auto simp: meta_items_def assms(3))
  have "smap_inv pre" using assms(2) by (simp add: assms(3) smap_inv_def sorted_wrt_append)
  then obtain p1 where p1: "fromparcel_loop P fmt (length pre) [] p0 = ((True, pre), p1)" "unread p1 = entry_items m (k, v) @ ?post"
    using fromparcel_loop_items [OF assms(1,5) p0(2), of "[]"] fold_smap_put [of "[]" pre] by auto
  obtain p2 where p2: "ReadString P p1 = (k, p2)" "unread p2 = I_int32 (type_code (Meta_GetValueType k m)) # any_items v @ ?post"
    using read_typed(8) [OF assms(1), of p1 k] p1(2) by (auto simp: entry_items_pair)
  obtain p3 where p3: "ReadInt32 P p2 = (type_code (Meta_GetValueType k m), p3)" "unread p3 = any_items v @ ?post"
    using read_typed(2) [OF assms(1) p2(2)] by blast
  obtain q where q: "Any_FromParcel P (GetDefaultAnyValue_typed fmt k (Some (Meta_GetValueType k m))) p3 =
      ((False, GetDefaultAnyValue_typed fmt k (Some (Meta_GetValueType k m))), q)"
    using Any_FromParcel_unreadable [OF assms(1,6) p3(2)] by blast
  have "fromparcel_loop P fmt (length pre + Suc (length post)) [] p0 = ((False, pre), q)"
    unfolding fromparcel_loop_append using p1(1) p2(1) p3(1) q by simp
  then have "fromparcel_loop P fmt (length m) [] p0 = ((False, pre), q)" by (simp add: assms(3))
  with p0(1) sint_of_nat32 [OF assms(7)] spec [OF assms(8), of p0] show "\<exists>q. Meta_FromParcel P fmt r = ((False, pre), q)"
    by (simp add: Meta_FromParcel_def)
qed

definition sample_meta :: meta where
  "sample_meta = [(VIDEO_ROTATION, A_enum E_VideoRotation 90), (MEDIA_TITLE, A_string ''t''), (VIDEO_WIDTH, A_int32 640)]"

lemma map_of_append_lookup: "map_of (xs @ ys) k = (case map_of xs k of None \<Rightarrow> map_of ys k | Some v \<Rightarrow> Some v)"
  by (simp add: map_add_def split: option.splits)

text \<open>Looking a tag up table by table.\<close>

fun orelse :: "'a option \<Rightarrow> 'a option \<Rightarrow> 'a option" where
  "orelse (Some v) y = Some v"
| "orelse None y = y"

lemma orelse_map_of: "map_of (xs @ ys) k = orelse (map_of xs k) (map_of ys k)"
  by (cases "map_of xs k") (simp_all add: map_add_def)

lemmas default_lookup = g_metadataDefaultValueMap_def orelse_map_of

lemma lookup_enum_tags:
  "map_of (g_metadataDefaultValueMap fmt) SRC_INPUT_TYPE = Some defaultSrcInputType"
  "map_of (g_metadataDefaultValueMap fmt) AUDIO_SAMPLE_FORMAT = Some defaultAudioSampleFormat"
  "map_of (g_metadataDefaultValueMap fmt) AUDIO_RAW_SAMPLE_FORMAT = Some defaultAudioSampleFormat"
  "map_of (g_metadataDefaultValueMap fmt) VIDEO_PIXEL_FORMAT = Some defaultVideoPixelFormat"
  "map_of (g_metadataDefaultValueMap fmt) MEDIA_TYPE = Some defaultMediaType"
  "map_of (g_metadataDefaultValueMap fmt) VIDEO_H264_PROFILE = Some defaultVideoH264Profile"
  "map_of (g_metadataDefaultValueMap fmt) VIDEO_ROTATION = Some defaultVideoRotation"
  "map_of (g_metadataDefaultValueMap fmt) VIDEO_ORIENTATION_TYPE = Some defaultVideoOrientationType"
  "map_of (g_metadataDefaultValueMap fmt) VIDEO_COLOR_PRIMARIES = Some defaultColorPrimary"
  "map_of (g_metadataDefaultValueMap fmt) VIDEO_HDR_TYPE = Some defaultHdrType"
  "map_of (g_metadataDefaultValueMap fmt) VIDEO_COLOR_TRC = Some defaultTransferCharacteristic"
  "map_of (g_metadataDefaultValueMap fmt) VIDEO_COLOR_MATRIX_COEFF = Some defaultMatrixCoefficient"
  "map_of (g_metadataDefaultValueMap fmt) VIDEO_ENCODE_BITRATE_MODE = Some defaultVideoEncodeBitrateMode"
  "map_of (g_metadataDefaultValueMap fmt) VIDEO_ENCODE_B_FRAME_GOP_MODE = Some defaultVideoEncodeBFrameGopMode"
  "map_of (g_metadataDefaultValueMap fmt) VIDEO_H265_PROFILE = Some defaultHEVCProfile"
  "map_of (g_metadataDefaultValueMap fmt) VIDEO_H265_LEVEL = Some defaultHEVCLevel"
  "map_of (g_metadataDefaultValueMap fmt) VIDEO_GRAPHIC_PIXEL_FORMAT = Some (defaultGraphicPixelFormat fmt)"
  "map_of (g_metadataDefaultValueMap fmt) VIDEO_CODEC_SCENARIO = Some defaultVideoCodecScenario"
  "map_of (g_metadataDefaultValueMap fmt) VIDEO_CHROMA_LOCATION = Some defaultChromaLocation"
  "map_of (g_metadataDefaultValueMap fmt) VIDEO_ENCODER_TEMPORAL_GOP_REFERENCE_MODE = Some defaultTemporalGopReferenceMode"
  "map_of (g_metadataDefaultValueMap fmt) MEDIA_FILE_TYPE = Some defaultFileType"
  "map_of (g_metadataDefaultValueMap fmt) SCREEN_CAPTURE_AV_TYPE = Some defaultUInt8"
  by (simp_all add: default_lookup defaultValues_enum_def map_of_Cons_code del: map_of.simps map_of_append)

text \<open>The tags that are not in the first table, table by table.\<close>

lemma in_defaultValues_enum:
  "map_of (defaultValues_enum fmt) AUDIO_CHANNEL_LAYOUT = None"
  "map_of (defaultValues_enum fmt) AUDIO_OUTPUT_CHANNEL_LAYOUT = None"
  "map_of (defaultValues_enum fmt) AUDIO_SOUNDBED_LAYOUT = None"
  "map_of (defaultValues_enum fmt) VIDEO_ENCODE_SET_FRAME_PTS = None"
  "map_of (defaultValues_enum fmt) AUDIO_BITRATE_MODE = None"
  "map_of (defaultValues_enum fmt) AUDIO_AAC_PROFILE = None"
  "map_of (defaultValues_enum fmt) AUDIO_AAC_STREAM_FORMAT = None"
  "map_of (defaultValues_enum fmt) MEDIA_DEMUXER_MODE = None"
  by (simp_all add: defaultValues_enum_def map_of_Cons_code del: map_of.simps)

lemma in_defaultValues_int32_1:
  "map_of defaultValues_int32_1 AUDIO_CHANNEL_LAYOUT = None"
  "map_of defaultValues_int32_1 AUDIO_OUTPUT_CHANNEL_LAYOUT = None"
  "map_of defaultValues_int32_1 AUDIO_SOUNDBED_LAYOUT = None"
  "map_of defaultValues_int32_1 VIDEO_ENCODE_SET_FRAME_PTS = None"
  "map_of defaultValues_int32_1 AUDIO_BITRATE_MODE = None"
  "map_of defaultValues_int32_1 AUDIO_AAC_PROFILE = None"
  "map_of defaultValues_int32_1 AUDIO_AAC_STREAM_FORMAT = None"
  "map_of defaultValues_int32_1 MEDIA_DEMUXER_MODE = None"
  by code_simp+

lemma in_defaultValues_int32_2:
  "map_of defaultValues_int32_2 AUDIO_CHANNEL_LAYOUT = None"
  "map_of defaultValues_int32_2 AUDIO_OUTPUT_CHANNEL_LAYOUT = None"
  "map_of defaultValues_int32_2 AUDIO_SOUNDBED_LAYOUT = None"
  "map_of defaultValues_int32_2 VIDEO_ENCODE_SET_FRAME_PTS = None"
  "map_of defaultValues_int32_2 AUDIO_BITRATE_MODE = None"
  "map_of defaultValues_int32_2 AUDIO_AAC_PROFILE = None"
  "map_of defaultValues_int32_2 AUDIO_AAC_STREAM_FORMAT = None"
  "map_of defaultValues_int32_2 MEDIA_DEMUXER_MODE = None"
  by code_simp+

lemma in_defaultValues_int32_3:
  "map_of defaultValues_int32_3 AUDIO_CHANNEL_LAYOUT = None"
  "map_of defaultValues_int32_3 AUDIO_OUTPUT_CHANNEL_LAYOUT = None"
  "map_of defaultValues_int32_3 AUDIO_SOUNDBED_LAYOUT = None"
  "map_of defaultValues_int32_3 VIDEO_ENCODE_SET_FRAME_PTS = None"
  "map_of defaultValues_int32_3 AUDIO_BITRATE_MODE = None"
  "map_of defaultValues_int32_3 AUDIO_AAC_PROFILE = None"
  "map_of defaultValues_int32_3 AUDIO_AAC_STREAM_FORMAT = None"
  "map_of defaultValues_int32_3 MEDIA_DEMUXER_MODE = None"
  by code_simp+

lemma in_defaultValues_int32_4:
  "map_of defaultValues_int32_4 AUDIO_CHANNEL_LAYOUT = None"
  "map_of defaultValues_int32_4 AUDIO_OUTPUT_CHANNEL_LAYOUT = None"
  "map_of defaultValues_int32_4 AUDIO_SOUNDBED_LAYOUT = None"
  "map_of defaultValues_int32_4 VIDEO_ENCODE_SET_FRAME_PTS = None"
  "map_of defaultValues_int32_4 AUDIO_BITRATE_MODE = None"
  "map_of defaultValues_int32_4 AUDIO_AAC_PROFILE = None"
  "map_of defaultValues_int32_4 AUDIO_AAC_STREAM_FORMAT = None"
  "map_of defaultValues_int32_4 MEDIA_DEMUXER_MODE = None"
  by code_simp+

lemma in_defaultValues_text_1:
  "map_of defaultValues_text_1 AUDIO_CHANNEL_LAYOUT = None"
  "map_of defaultValues_text_1 AUDIO_OUTPUT_CHANNEL_LAYOUT = None"
  "map_of defaultValues_text_1 AUDIO_SOUNDBED_LAYOUT = None"
  "map_of defaultValues_text_1 VIDEO_ENCODE_SET_FRAME_PTS = None"
  "map_of defaultValues_text_1 AUDIO_BITRATE_MODE = None"
  "map_of defaultValues_text_1 AUDIO_AAC_PROFILE = None"
  "map_of defaultValues_text_1 AUDIO_AAC_STREAM_FORMAT = None"
  "map_of defaultValues_text_1 MEDIA_DEMUXER_MODE = None"
  by code_simp+

lemma in_defaultValues_text_2:
  "map_of defaultValues_text_2 AUDIO_CHANNEL_LAYOUT = None"
  "map_of defaultValues_text_2 AUDIO_OUTPUT_CHANNEL_LAYOUT = None"
  "map_of defaultValues_text_2 AUDIO_SOUNDBED_LAYOUT = None"
  "map_of defaultValues_text_2 VIDEO_ENCODE_SET_FRAME_PTS = None"
  "map_of defaultValues_text_2 AUDIO_BITRATE_MODE = None"
  "map_of defaultValues_text_2 AUDIO_AAC_PROFILE = None"
  "map_of defaultValues_text_2 AUDIO_AAC_STREAM_FORMAT = None"
  "map_of defaultValues_text_2 MEDIA_DEMUXER_MODE = None"
  by code_simp+

lemma in_defaultValues_bool_1:
  "map_of defaultValues_bool_1 AUDIO_CHANNEL_LAYOUT = None"
  "map_of defaultValues_bool_1 AUDIO_OUTPUT_CHANNEL_LAYOUT = None"
  "map_of defaultValues_bool_1 AUDIO_SOUNDBED_LAYOUT = None"
  "map_of defaultValues_bool_1 VIDEO_ENCODE_SET_FRAME_PTS = None"
  "map_of defaultValues_bool_1 AUDIO_BITRATE_MODE = None"
  "map_of defaultValues_bool_1 AUDIO_AAC_PROFILE = None"
  "map_of defaultValues_bool_1 AUDIO_AAC_STREAM_FORMAT = None"
  "map_of defaultValues_bool_1 MEDIA_DEMUXER_MODE = None"
  by code_simp+

lemma in_defaultValues_bool_2:
  "map_of defaultValues_bool_2 AUDIO_CHANNEL_LAYOUT = None"
  "map_of defaultValues_bool_2 AUDIO_OUTPUT_CHANNEL_LAYOUT = None"
  "map_of defaultValues_bool_2 AUDIO_SOUNDBED_LAYOUT = None"
  "map_of defaultValues_bool_2 VIDEO_ENCODE_SET_FRAME_PTS = None"
  "map_of defaultValues_bool_2 AUDIO_BITRATE_MODE = None"
  "map_of defaultValues_bool_2 AUDIO_AAC_PROFILE = None"
  "map_of defaultValues_bool_2 AUDIO_AAC_STREAM_FORMAT = None"
  "map_of defaultValues_bool_2 MEDIA_DEMUXER_MODE = None"
  by code_simp+

lemma in_defaultValues_rest_1:
  "map_of defaultValues_rest_1 AUDIO_CHANNEL_LAYOUT = Some defaultAudioChannelLayout"
  "map_of defaultValues_rest_1 AUDIO_OUTPUT_CHANNEL_LAYOUT = Some defaultAudioChannelLayout"
  "map_of defaultValues_rest_1 AUDIO_SOUNDBED_LAYOUT = Some defaultAudioChannelLayout"
  "map_of defaultValues_rest_1 VIDEO_ENCODE_SET_FRAME_PTS = Some defaultInt64"
  "map_of defaultValues_rest_1 AUDIO_BITRATE_MODE = None"
  "map_of defaultValues_rest_1 AUDIO_AAC_PROFILE = Some defaultAudioAacProfile"
  "map_of defaultValues_rest_1 AUDIO_AAC_STREAM_FORMAT = Some defaultAudioAacStreamFormat"
  "map_of defaultValues_rest_1 MEDIA_DEMUXER_MODE = None"
  by code_simp+

lemma in_defaultValues_rest_2:
  "map_of defaultValues_rest_2 AUDIO_BITRATE_MODE = None"
  "map_of defaultValues_rest_2 MEDIA_DEMUXER_MODE = Some defaultDemuxerMode"
  by code_simp+

lemma lookup_late_tags:
  "map_of (g_metadataDefaultValueMap fmt) AUDIO_CHANNEL_LAYOUT = Some defaultAudioChannelLayout"
  "map_of (g_metadataDefaultValueMap fmt) AUDIO_OUTPUT_CHANNEL_LAYOUT = Some defaultAudioChannelLayout"
  "map_of (g_metadataDefaultValueMap fmt) AUDIO_SOUNDBED_LAYOUT = Some defaultAudioChannelLayout"
  "map_of (g_metadataDefaultValueMap fmt) VIDEO_ENCODE_SET_FRAME_PTS = Some defaultInt64"
  "map_of (g_metadataDefaultValueMap fmt) AUDIO_BITRATE_MODE = None"
  "map_of (g_metadataDefaultValueMap fmt) AUDIO_AAC_PROFILE = Some defaultAudioAacProfile"
  "map_of (g_metadataDefaultValueMap fmt) AUDIO_AAC_STREAM_FORMAT = Some defaultAudioAacStreamFormat"
  "map_of (g_metadataDefaultValueMap fmt) MEDIA_DEMUXER_MODE = Some defaultDemuxerMode"
  by (simp_all only: default_lookup orelse.simps in_defaultValues_enum in_defaultValues_int32_1 in_defaultValues_int32_2 in_defaultValues_int32_3 in_defaultValues_int32_4 in_defaultValues_text_1 in_defaultValues_text_2 in_defaultValues_bool_1 in_defaultValues_bool_2 in_defaultValues_rest_1 in_defaultValues_rest_2)

lemmas lookup_tags = lookup_enum_tags lookup_late_tags

theorem meta_parcel_roundtrip_witness:
  "\<exists>q q'. Meta_ToParcel (list_parcel 100) sample_meta \<lparr>ls_done = 0, ls_items = []\<rparr> = (True, q) \<and>
     Meta_FromParcel (list_parcel 100) 0 q = ((True, sample_meta), q')"
proof -
  let ?p = "\<lparr>ls_done = 0, ls_items = []\<rparr>"
  have 1: "smap_inv sample_meta" by (simp add: sample_meta_def smap_inv_def)
  have 2: "list_all (entry_portable 0 sample_meta) sample_meta"
    by (simp add: sample_meta_def entry_portable_def base_any_def GetDefaultAnyValue_typed_def lookup_enum_tags enum_ok_def enum_cast_def
        swrap_def del: list.map map_of.simps)
  have 3: "fst (write_all (list_parcel 100) (meta_items sample_meta) ?p)"
    by (rule list_write_all) (simp add: meta_items_def sample_meta_def entry_items_def)
  have 4: "\<forall>q. length sample_meta \<le> GetRawDataCapacity (list_parcel 100) q" "length sample_meta < 2 ^ 31"
    by (simp_all add: sample_meta_def list_parcel_def)
  note * = meta_parcel_roundtrip [OF list_parcel_ok 1 2 4(2,1) 3]
  then obtain q where q: "Meta_ToParcel (list_parcel 100) sample_meta ?p = (True, q)" "ls_items q = meta_items sample_meta @ []" by auto
  with * show ?thesis by blast
qed

definition lost_meta :: meta where
  "lost_meta = [(MEDIA_ARTIST, A_string ''t''), (SCREEN_CAPTURE_AV_TYPE, A_uint8 1)]"

theorem meta_value_lost_witness:
  "\<exists>q q'. Meta_ToParcel (list_parcel 100) lost_meta \<lparr>ls_done = 0, ls_items = []\<rparr> = (True, q) \<and>
     Meta_FromParcel (list_parcel 100) 0 q = ((False, take 1 lost_meta), q')"
proof -
  let ?p = "\<lparr>ls_done = 0, ls_items = []\<rparr>"
  have 1: "smap_inv lost_meta" by (simp add: lost_meta_def smap_inv_def)
  have 2: "lost_meta = take 1 lost_meta @ (SCREEN_CAPTURE_AV_TYPE, A_uint8 1) # []" by (simp add: lost_meta_def)
  have 3: "list_all (writable \<circ> snd) lost_meta" "list_all (entry_portable 0 lost_meta) (take 1 lost_meta)"
    by (simp_all add: lost_meta_def writable_def base_any_def entry_portable_def)
  have 4: "unreadable (GetDefaultAnyValue_typed 0 SCREEN_CAPTURE_AV_TYPE t) (A_uint8 1)" for t
    by (simp add: unreadable_def GetDefaultAnyValue_typed_def lookup_enum_tags)
  have 5: "length lost_meta < 2 ^ 31" "\<forall>q. length lost_meta \<le> GetRawDataCapacity (list_parcel 100) q"
    by (simp_all add: lost_meta_def list_parcel_def)
  have 6: "fst (write_all (list_parcel 100) (meta_items lost_meta) ?p)"
    by (rule list_write_all) (simp add: meta_items_def lost_meta_def entry_items_def)
  note * = meta_value_lost [OF list_parcel_ok 1 2 3 4 5 6]
  then obtain q where q: "Meta_ToParcel (list_parcel 100) lost_meta ?p = (True, q)" "ls_items q = meta_items lost_meta @ []" by auto
  with * show ?thesis by blast
qed

section \<open>The declared types\<close>

text \<open>The tags whose declared type does not survive: bytes, a vector of enumerations, and two enumerations without a default of their type.\<close>

definition lost_tags :: "string list" where
  "lost_tags = [VIDEO_ENCODE_SET_FRAME_PTS, AUDIO_BITRATE_MODE, VIDEO_BIT_STREAM_FORMAT, RECORDER_HDR_TYPE, SCREEN_CAPTURE_AV_TYPE,
     SCREEN_CAPTURE_DATA_TYPE, SCREEN_CAPTURE_STOP_REASON, AV_PLAYER_VIDEO_BITDEPTH, AV_PLAYER_HDR_TYPE]"

fun base_any_type :: "any_type \<Rightarrow> bool" where
  "base_any_type (T_enum e) = False"
| "base_any_type t = (t \<notin> {T_empty, T_int8, T_uint8, T_vector_uint32, T_vector_VideoBitStreamFormat})"

fun type_portable :: "string \<Rightarrow> any_type \<Rightarrow> bool" where
  "type_portable k (T_enum e) = (case map_of (g_metadataDefaultValueMap 0) k of None \<Rightarrow> False | Some d \<Rightarrow> TypeName d = T_enum e)"
| "type_portable k t = base_any_type t"

lemma declared_check:
  "list_all (\<lambda>(k, t). type_portable k t = (k \<notin> set lost_tags)) declaredTypes1"
  "list_all (\<lambda>(k, t). type_portable k t = (k \<notin> set lost_tags)) declaredTypes2"
  "list_all (\<lambda>(k, t). type_portable k t = (k \<notin> set lost_tags)) declaredTypes3"
  "list_all (\<lambda>(k, t). type_portable k t = (k \<notin> set lost_tags)) declaredTypes4"
  "list_all (\<lambda>(k, t). type_portable k t = (k \<notin> set lost_tags)) declaredTypes5"
  "list_all (\<lambda>(k, t). type_portable k t = (k \<notin> set lost_tags)) declaredTypes6"
  "list_all (\<lambda>(k, t). type_portable k t = (k \<notin> set lost_tags)) declaredTypes7"
  "list_all (\<lambda>(k, t). type_portable k t = (k \<notin> set lost_tags)) declaredTypes8"
  "list_all (\<lambda>(k, t). type_portable k t = (k \<notin> set lost_tags)) declaredTypes9"
  by (simp_all add: declaredTypes1_def declaredTypes2_def declaredTypes3_def declaredTypes4_def declaredTypes5_def declaredTypes6_def declaredTypes7_def declaredTypes8_def declaredTypes9_def lost_tags_def lookup_tags)

lemma declared_portable:
  assumes "map_of declaredTypes tag = Some t"
  shows "type_portable tag t = (tag \<notin> set lost_tags)"
  using map_of_SomeD [OF assms] declared_check by (auto simp: declaredTypes_def list_all_iff)

text \<open>Every declared type either is a base type or the default of the tag decides.\<close>

lemma TypeName_default_fmt: "map_option TypeName (map_of (g_metadataDefaultValueMap fmt) k) = map_option TypeName (map_of (g_metadataDefaultValueMap 0) k)"
proof -
  have "map (\<lambda>(k, v). (k, TypeName v)) (g_metadataDefaultValueMap fmt) = map (\<lambda>(k, v). (k, TypeName v)) (g_metadataDefaultValueMap 0)"
    by (simp add: g_metadataDefaultValueMap_def defaultValues_enum_def)
  then show ?thesis using map_of_map [of TypeName] by (metis comp_apply)
qed

lemma base_any_TypeName: "base_any a = base_any_type (TypeName a)"
  by (cases a) (simp_all add: base_any_def)

text \<open>The typed setter of every tag stores a value that survives marshalling, except for nine tags.\<close>

theorem declared_tags_survive:
  assumes "map_of declaredTypes tag = Some (TypeName v)" "\<And>e x. v = A_enum e x \<Longrightarrow> enum_ok e x" "smap_inv m"
  shows "map_of (Meta_Set tag v m) tag = Some v \<and> (entry_portable fmt (Meta_Set tag v m) (tag, v) \<longleftrightarrow> tag \<notin> set lost_tags)"
proof
  show set: "map_of (Meta_Set tag v m) tag = Some v" using assms(3) by (simp add: Meta_Set_def smap_simps)
  note p = declared_portable [OF assms(1)]
  show "entry_portable fmt (Meta_Set tag v m) (tag, v) \<longleftrightarrow> tag \<notin> set lost_tags"
  proof (cases "\<exists>e x. v = A_enum e x")
    case True
    then obtain e x where v: "v = A_enum e x" by blast
    have *: "Meta_GetValueType tag (Meta_Set tag v m) \<in> {INT32_T, INT64_T}"
      using set by (simp add: Meta_GetValueType_def v IsSameTypeWith_def)
    show ?thesis
    proof (cases "map_of (g_metadataDefaultValueMap fmt) tag")
      case None
      with TypeName_default_fmt [of fmt tag] have "map_of (g_metadataDefaultValueMap 0) tag = None" by simp
      with p have "tag \<in> set lost_tags" by (simp add: v)
      with * None show ?thesis
        by (auto simp: entry_portable_def GetDefaultAnyValue_typed_def v g_ValueTypeDefaultValueMap_def)
    next
      case (Some d)
      with TypeName_default_fmt [of fmt tag] obtain d0 where d0: "map_of (g_metadataDefaultValueMap 0) tag = Some d0" "TypeName d0 = TypeName d"
        by (cases "map_of (g_metadataDefaultValueMap 0) tag") auto
      with p have "(TypeName d = T_enum e) = (tag \<notin> set lost_tags)" by (simp add: v)
      with Some assms(2) [OF v] show ?thesis by (simp add: entry_portable_def GetDefaultAnyValue_typed_def v)
    qed
  next
    case False
    then have "type_portable tag (TypeName v) = base_any v" by (cases v) (simp_all add: base_any_def)
    moreover have "portable d v = base_any v" for d using False by (cases v) auto
    ultimately show ?thesis using p by (simp add: entry_portable_def)
  qed
qed

theorem declared_tags_survive_witness:
  "entry_portable 0 (Meta_Set VIDEO_ROTATION (A_enum E_VideoRotation 90) []) (VIDEO_ROTATION, A_enum E_VideoRotation 90)"
proof -
  have "map_of declaredTypes VIDEO_ROTATION = Some (TypeName (A_enum E_VideoRotation 90))"
    by (simp add: declaredTypes_def declaredTypes1_def map_of_append_lookup map_of_Cons_code del: map_of.simps map_of_append)
  moreover have "A_enum E_VideoRotation 90 = A_enum e x \<Longrightarrow> enum_ok e x" for e x by (auto simp: enum_ok_def enum_cast_def swrap_def)
  ultimately have "entry_portable 0 (Meta_Set VIDEO_ROTATION (A_enum E_VideoRotation 90) []) (VIDEO_ROTATION, A_enum E_VideoRotation 90) \<longleftrightarrow>
      VIDEO_ROTATION \<notin> set lost_tags"
    using declared_tags_survive [of VIDEO_ROTATION "A_enum E_VideoRotation 90" "[]" 0] by simp
  then show ?thesis by (simp add: lost_tags_def)
qed

end
