(* ===== verification/Format_Props.thy ===== *)
theory Format_Props
  imports Media_Format Meta_Props
begin

text \<open>
  The container of the applications: what is stored is fetched, a refused value changes nothing, everything stored crosses a process
  boundary, and what printing it needs.
\<close>

section \<open>The integer tables\<close>

text \<open>The enumerations an application sets through integers are held under their own tags, and an integer goes through them unchanged.\<close>

definition short_enum :: "enum_type \<Rightarrow> bool" where
  "short_enum e = (underlying_type e \<in> {Repr_int32, Repr_uint32})"

lemma short_enum_id:
  assumes "short_enum e"
  shows "(word_of_int (enum_cast e (sint w)) :: 32 word) = w"
proof -
  have "swrap 32 (sint w) = sint w" using sint_word32 [of "sint w"] by simp
  then have "word_of_int (swrap 32 (sint w)) = (w :: 32 word)" by simp
  moreover have "word_of_int (sint w mod 2 ^ 32) = (w :: 32 word)"
  proof -
    have "sint w mod 2 ^ 32 = uint w" using uint_sint [of w] by (simp add: take_bit_eq_mod)
    then show ?thesis by simp
  qed
  ultimately show ?thesis using assms by (auto simp: short_enum_def enum_cast_def)
qed

lemma enum_cast_ok: "enum_ok e (enum_cast e v)"
  by (cases "underlying_type e") (simp_all add: enum_ok_def enum_cast_def swrap_idem)

lemma int_enum_table:
  "list_all (\<lambda>(k, e). short_enum e \<and> map_option TypeName (map_of (g_metadataDefaultValueMap fmt) k) = Some (T_enum e)) g_metadataGetterSetterMap"
  by (simp add: g_metadataGetterSetterMap_def lookup_tags short_enum_def)

lemma long_enum_table:
  "list_all (\<lambda>(k, e). e = E_AudioChannelLayout \<and> map_option TypeName (map_of (g_metadataDefaultValueMap fmt) k) = Some (T_enum e))
     g_metadataGetterSetterInt64Map"
  by (simp add: g_metadataGetterSetterInt64Map_def lookup_tags)

lemma int_enum:
  assumes "map_of g_metadataGetterSetterMap k = Some e"
  shows "short_enum e" "map_option TypeName (map_of (g_metadataDefaultValueMap fmt) k) = Some (T_enum e)"
  using int_enum_table [of fmt] map_of_SomeD [OF assms] by (auto simp: list_all_iff)

lemma long_enum:
  assumes "map_of g_metadataGetterSetterInt64Map k = Some e"
  shows "e = E_AudioChannelLayout" "map_option TypeName (map_of (g_metadataDefaultValueMap fmt) k) = Some (T_enum e)"
  using long_enum_table [of fmt] map_of_SomeD [OF assms] by (auto simp: list_all_iff)

lemma long_enum_id: "(word_of_int (enum_cast E_AudioChannelLayout (sint w)) :: 64 word) = w"
  using sint_word64 [of "sint w"] by (simp add: enum_cast_def)

section \<open>Storing and fetching\<close>

lemma GetData_put: "smap_inv m \<Longrightarrow> v \<noteq> A_empty \<Longrightarrow> GetData t k (smap_put k v m) = (if TypeName v = t then Some v else None)"
  by (simp add: GetData_def IsSameTypeWith_def smap_simps)

lemmas put_defs = fm_with_def SetData_def
lemmas get_defs = GetIntValue_def GetMetaData_int32_def GetUintValue_def GetMetaData_uint32_def GetLongValue_def GetMetaData_int64_def
  GetFloatValue_def GetDoubleValue_def GetStringValue_def GetBuffer_def GetIntBuffer_def

text \<open>What an integer comes back as: a boolean tag keeps whether it is zero.\<close>

definition bool_tag :: "string \<Rightarrow> bool" where
  "bool_tag k = (k \<in> set g_metadataBoolVector \<and> map_of g_metadataGetterSetterMap k = None)"

definition int_seen :: "string \<Rightarrow> 32 word \<Rightarrow> 32 word" where
  "int_seen k w = (if bool_tag k then (if w = 0 then 0 else 1) else w)"

lemma SetMetaData_int32_get: "smap_inv m \<Longrightarrow> SetMetaData_int32 m k w = (b, m') \<Longrightarrow>
    b \<and> GetMetaData_int32 m' k = Some (int_seen k w)"
  by (cases "map_of g_metadataGetterSetterMap k")
    (auto simp: SetMetaData_int32_def GetMetaData_int32_def GetData_put SetData_def int_seen_def bool_tag_def short_enum_id [OF int_enum(1)]
      split: if_splits)

lemma SetMetaData_uint32_get: "smap_inv m \<Longrightarrow> SetMetaData_uint32 m k w = (True, m') \<Longrightarrow>
    GetMetaData_uint32 m' k = Some (int_seen k w)"
  by (auto simp: SetMetaData_uint32_def GetMetaData_uint32_def GetData_put SetData_def int_seen_def bool_tag_def split: option.splits if_splits)

lemma SetMetaData_int64_get: "smap_inv m \<Longrightarrow> SetMetaData_int64 m k w = (b, m') \<Longrightarrow> b \<and> GetMetaData_int64 m' k = Some w"
  using long_enum_id [of w] long_enum(1)
  by (fastforce simp: SetMetaData_int64_def GetMetaData_int64_def GetData_put SetData_def split: option.splits)

text \<open>The operations, with what the matching getter must return.\<close>

datatype put_op =
    Put_Int string "32 word" | Put_Uint string "32 word" | Put_Long string "64 word" | Put_Float string "32 word" | Put_Double string "64 word"
  | Put_String string string | Put_Buffer string "8 word list option" | Put_IntBuffer string "32 word list option"

fun put_key :: "put_op \<Rightarrow> string" where
  "put_key (Put_Int k _) = k" | "put_key (Put_Uint k _) = k" | "put_key (Put_Long k _) = k" | "put_key (Put_Float k _) = k"
| "put_key (Put_Double k _) = k" | "put_key (Put_String k _) = k" | "put_key (Put_Buffer k _) = k" | "put_key (Put_IntBuffer k _) = k"

fun put :: "int \<Rightarrow> put_op \<Rightarrow> format \<Rightarrow> bool \<times> format" where
  "put fmt (Put_Int k w) f = PutIntValue fmt k w f"
| "put fmt (Put_Uint k w) f = PutUintValue fmt k w f"
| "put fmt (Put_Long k w) f = PutLongValue fmt k w f"
| "put fmt (Put_Float k w) f = PutFloatValue fmt k w f"
| "put fmt (Put_Double k w) f = PutDoubleValue fmt k w f"
| "put fmt (Put_String k w) f = PutStringValue fmt k w f"
| "put fmt (Put_Buffer k w) f = PutBuffer fmt k w f"
| "put fmt (Put_IntBuffer k w) f = PutIntBuffer fmt k w f"

fun fetched :: "put_op \<Rightarrow> format \<Rightarrow> bool" where
  "fetched (Put_Int k w) f = (GetIntValue k f = Some (int_seen k w))"
| "fetched (Put_Uint k w) f = (GetUintValue k f = Some (int_seen k w))"
| "fetched (Put_Long k w) f = (GetLongValue k f = Some w)"
| "fetched (Put_Float k w) f = (GetFloatValue k f = Some w)"
| "fetched (Put_Double k w) f = (GetDoubleValue k f = Some w)"
| "fetched (Put_String k w) f = (GetStringValue k f = Some w)"
| "fetched (Put_Buffer k w) f = (GetBuffer k f = w)"
| "fetched (Put_IntBuffer k w) f = (GetIntBuffer k f = w)"

text \<open>Every operation either stores one value under its key or leaves the container as it is; one that reports an error can only have
  emptied a buffer.\<close>

fun empties :: "int \<Rightarrow> put_op \<Rightarrow> format \<Rightarrow> bool" where
  "empties fmt (Put_Buffer k (Some [])) f =
     (key_takes fmt k (IsSameTypeWith T_vector_uint8) \<and> (\<exists>bs. map_of (fm_meta f) k = Some (A_vector_uint8 bs)))"
| "empties fmt (Put_IntBuffer k (Some [])) f =
     (key_takes fmt k (IsSameTypeWith T_vector_int32) \<and> (\<exists>bs. map_of (fm_meta f) k = Some (A_vector_int32 bs)))"
| "empties fmt _ f = False"

fun emptied :: "put_op \<Rightarrow> any" where
  "emptied (Put_Buffer k w) = A_vector_uint8 []"
| "emptied _ = A_vector_int32 []"

lemma buffer_kept: "IsSameTypeWith T_vector_uint8 v = (\<exists>bs. v = A_vector_uint8 bs)" "IsSameTypeWith T_vector_int32 v = (\<exists>bs. v = A_vector_int32 bs)"
  by (cases v; simp add: IsSameTypeWith_def)+

lemmas op_defs = PutIntValue_def SetMetaData_int32_def PutUintValue_def SetMetaData_uint32_def PutLongValue_def SetMetaData_int64_def
  PutFloatValue_def PutDoubleValue_def PutStringValue_def PutBuffer_def PutIntBuffer_def

lemma put_effect:
  assumes "put fmt op f = (b, g)"
  shows "if b then \<exists>v. g = Format (smap_put (put_key op) v (fm_meta f)) (fm_vecs f)
    else g = (if empties fmt op f then Format (smap_put (put_key op) (emptied op) (fm_meta f)) (fm_vecs f) else f)"
proof (cases "(fmt, op, f)" rule: empties.cases)
  case (1 fm k h)
  with assms show ?thesis by (auto simp: op_defs put_defs buffer_kept BUFFER_SIZE_MAX_def split: if_splits option.splits)
next
  case (2 fm k h)
  with assms show ?thesis by (auto simp: op_defs put_defs buffer_kept BUFFER_SIZE_MAX_def split: if_splits option.splits)
qed (use assms in \<open>(auto simp: op_defs put_defs split: if_splits option.splits; (cases f; simp; fail)?)+\<close>)

lemma put_fetched:
  assumes "smap_inv (fm_meta f)" "put fmt op f = (True, g)"
  shows "fetched op g"
proof (cases op)
  case (Put_Int k w)
  then show ?thesis using assms SetMetaData_int32_get [of "fm_meta f" k w] by (auto simp: PutIntValue_def fm_with_def GetIntValue_def split: if_splits prod.splits)
next
  case (Put_Uint k w)
  then show ?thesis using assms SetMetaData_uint32_get [of "fm_meta f" k w] by (auto simp: PutUintValue_def fm_with_def GetUintValue_def split: if_splits prod.splits)
next
  case (Put_Long k w)
  then show ?thesis using assms SetMetaData_int64_get [of "fm_meta f" k w] by (auto simp: PutLongValue_def fm_with_def GetLongValue_def split: if_splits prod.splits)
qed (use assms in \<open>auto simp: op_defs put_defs get_defs GetData_put split: if_splits option.splits\<close>)

text \<open>A value the container accepts is what the getter of its type returns, with a boolean tag keeping only whether an integer is zero, and
  no other key changes; a value it refuses changes nothing, but that an empty buffer stored over a buffer empties it.\<close>

theorem format_put_get:
  assumes "smap_inv (fm_meta f)" "put fmt op f = (b, g)"
  shows "smap_inv (fm_meta g) \<and> fm_vecs g = fm_vecs f \<and> (b \<longrightarrow> fetched op g) \<and> (\<not> b \<and> \<not> empties fmt op f \<longrightarrow> g = f) \<and>
    (\<forall>k. k \<noteq> put_key op \<longrightarrow> map_of (fm_meta g) k = map_of (fm_meta f) k)"
  using put_effect [OF assms(2)] put_fetched [OF assms(1)] assms by (cases b; cases "empties fmt op f") (auto simp: smap_simps)


text \<open>A key nobody registered.\<close>

lemma own_key:
  "map_of (defaultValues_enum 0) ''own.key'' = None"
  "map_of defaultValues_int32_1 ''own.key'' = None"
  "map_of defaultValues_int32_2 ''own.key'' = None"
  "map_of defaultValues_int32_3 ''own.key'' = None"
  "map_of defaultValues_int32_4 ''own.key'' = None"
  "map_of defaultValues_text_1 ''own.key'' = None"
  "map_of defaultValues_text_2 ''own.key'' = None"
  "map_of defaultValues_bool_1 ''own.key'' = None"
  "map_of defaultValues_bool_2 ''own.key'' = None"
  "map_of defaultValues_rest_1 ''own.key'' = None"
  "map_of defaultValues_rest_2 ''own.key'' = None"
  by code_simp+

definition demo_format :: format where
  "demo_format = Format [(MEDIA_TITLE, A_string ''t'')] []"

theorem format_put_get_witness:
  "fst (put 0 (Put_Int ''own.key'' 7) demo_format) \<and> fetched (Put_Int ''own.key'' 7) (snd (put 0 (Put_Int ''own.key'' 7) demo_format))"
proof -
  have 1: "smap_inv (fm_meta demo_format)" by (simp add: demo_format_def smap_inv_def)
  have "map_of (g_metadataDefaultValueMap 0) ''own.key'' = None"
    unfolding default_lookup
    by (simp only: orelse.simps own_key)
  then have 2: "fst (put 0 (Put_Int ''own.key'' 7) demo_format)"
    by (simp add: PutIntValue_def key_takes_def GetDefaultAnyValueOpt_def SetMetaData_int32_def split: option.splits)
  with format_put_get [OF 1, of 0 "Put_Int ''own.key'' 7"] show ?thesis by (metis prod.collapse)
qed

section \<open>Crossing a process boundary\<close>

definition entry_ok :: "int \<Rightarrow> string \<times> any \<Rightarrow> bool" where
  "entry_ok fmt e = (base_any (snd e) \<or>
     (\<exists>t x. snd e = A_enum t x \<and> enum_ok t x \<and> map_option TypeName (map_of (g_metadataDefaultValueMap fmt) (fst e)) = Some (T_enum t)))"

lemma entry_ok_portable: "entry_ok fmt e \<Longrightarrow> entry_portable fmt m e"
  by (cases "snd e") (auto simp: entry_ok_def entry_portable_def base_any_def GetDefaultAnyValue_typed_def)

lemma put_entry:
  assumes "put fmt op f = (True, g)"
  shows "\<exists>v. g = Format (smap_put (put_key op) v (fm_meta f)) (fm_vecs f) \<and> entry_ok fmt (put_key op, v)"
  using assms int_enum(2) [of _ _ fmt] long_enum(2) [of _ _ fmt]
  by (cases op) (auto simp: op_defs put_defs entry_ok_def base_any_def enum_cast_ok split: if_splits option.splits)

lemma set_smap_put: "set (smap_put k v m) \<subseteq> insert (k, v) (set m)"
  by (induction k v m rule: smap_put.induct) auto

lemma put_keeps_ok:
  assumes "smap_inv (fm_meta f)" "list_all (entry_ok fmt) (fm_meta f)" "put fmt op f = (b, g)"
  shows "smap_inv (fm_meta g) \<and> list_all (entry_ok fmt) (fm_meta g)"
proof (cases b)
  case True
  with put_entry [of fmt op f g] assms(3) obtain v where "g = Format (smap_put (put_key op) v (fm_meta f)) (fm_vecs f)"
    "entry_ok fmt (put_key op, v)" by auto
  with assms(1,2) set_smap_put [of "put_key op" v "fm_meta f"] show ?thesis by (auto simp: smap_simps list_all_iff)
next
  case False
  moreover have "entry_ok fmt (put_key op, emptied op)" by (cases op) (simp_all add: entry_ok_def base_any_def)
  ultimately show ?thesis
    using put_effect [OF assms(3)] assms(1,2) set_smap_put [of "put_key op" "emptied op" "fm_meta f"]
    by (cases "empties fmt op f") (auto simp: smap_simps list_all_iff)
qed

text \<open>All that an application does to a container: storing values, removing keys, and storing vectors of containers, which remove the key from
  the metadata and are kept beside it.\<close>

datatype format_op = Store put_op | Remove string | Put_Vector string "format list"

fun format_do :: "int \<Rightarrow> format_op \<Rightarrow> format \<Rightarrow> format" where
  "format_do fmt (Store op) f = snd (put fmt op f)"
| "format_do fmt (Remove k) f = RemoveKey k f"
| "format_do fmt (Put_Vector k fs) f = snd (PutFormatVector k fs f)"

fun format_all :: "int \<Rightarrow> format_op list \<Rightarrow> format \<Rightarrow> format" where
  "format_all fmt [] f = f"
| "format_all fmt (op # ops) f = format_all fmt ops (format_do fmt op f)"

lemma erase_keeps_ok:
  "smap_inv m \<Longrightarrow> list_all (entry_ok fmt) m \<Longrightarrow> smap_inv (Meta_Remove k m) \<and> list_all (entry_ok fmt) (Meta_Remove k m)"
  using smap_erase_inv [of m k] by (auto simp: Meta_Remove_def smap_erase_def list_all_iff)

lemma format_do_ok:
  assumes "smap_inv (fm_meta f)" "list_all (entry_ok fmt) (fm_meta f)"
  shows "smap_inv (fm_meta (format_do fmt op f)) \<and> list_all (entry_ok fmt) (fm_meta (format_do fmt op f))"
proof (cases op)
  case (Store p)
  with put_keeps_ok [OF assms prod.collapse [symmetric]] show ?thesis by simp
qed (use erase_keeps_ok [OF assms] in \<open>simp_all add: RemoveKey_def PutFormatVector_def Let_def\<close>)

lemma format_all_ok:
  "smap_inv (fm_meta f) \<Longrightarrow> list_all (entry_ok fmt) (fm_meta f) \<Longrightarrow>
     smap_inv (fm_meta (format_all fmt ops f)) \<and> list_all (entry_ok fmt) (fm_meta (format_all fmt ops f))"
proof (induction ops arbitrary: f)
  case (Cons op ops)
  from Cons.IH [of "format_do fmt op f"] format_do_ok [OF Cons.prems] show ?case by simp
qed simp

text \<open>C17: Whatever an application does to a new container by storing integers, numbers, strings and buffers, removing keys and storing
  vectors of containers, in any order and with any refusals in between, the metadata behind the container arrives in another process
  with the keys, types and values it has: it is written and read back entry by entry, over a parcel that is a queue of items, takes all
  that is written and reports a raw capacity of at least the number of entries, for fewer than 2^31 entries. The metadata has an integer
  stored under a boolean tag as a boolean, and has no vectors of containers: these are kept beside it and do not cross.\<close>

theorem format_crosses_process:
  assumes "parcel_ok P unread" "m = fm_meta (format_all fmt ops mk_Format)" "length m < 2 ^ 31" "\<forall>q. length m \<le> GetRawDataCapacity P q"
    "fst (write_all P (meta_items m) p)" "unread p = []"
  shows "\<exists>q r. Meta_ToParcel P m p = (True, q) \<and> Meta_FromParcel P fmt q = ((True, m), r) \<and> unread r = []"
proof -
  have ok: "smap_inv m" "list_all (entry_ok fmt) m" using format_all_ok [of mk_Format fmt ops] assms(2) by (simp_all add: mk_Format_def)
  then have port: "list_all (entry_portable fmt m) m" by (auto simp: list_all_iff entry_ok_portable)
  obtain q where q: "Meta_ToParcel P m p = (True, q)" "unread q = meta_items m @ []"
    using Meta_ToParcel_items [OF assms(1) entries_writable [OF port] assms(5)] assms(6) by auto
  with Meta_FromParcel_items [OF assms(1) ok(1) port assms(3,4) q(2)] show ?thesis by blast
qed

lemma own_key_tables: "map_of g_metadataGetterSetterMap ''own.key'' = None" "List.member g_metadataBoolVector ''own.key'' = False"
  by code_simp+

theorem format_crosses_process_witness:
  "\<exists>q r. Meta_ToParcel (list_parcel 100) [(''own.key'', A_int32 7)] \<lparr>ls_done = 0, ls_items = []\<rparr> = (True, q) \<and>
     Meta_FromParcel (list_parcel 100) 0 q = ((True, [(''own.key'', A_int32 7)]), r) \<and> ls_items r = []"
proof -
  have "map_of (g_metadataDefaultValueMap 0) ''own.key'' = None"
    unfolding default_lookup by (simp only: orelse.simps own_key)
  then have 1: "[(''own.key'', A_int32 7)] = fm_meta (format_all 0 [Store (Put_Int ''own.key'' 7), Remove ''b'', Put_Vector ''v'' []] mk_Format)"
    using own_key_tables
    by (simp add: PutIntValue_def key_takes_def GetDefaultAnyValueOpt_def SetMetaData_int32_def SetData_def fm_with_def mk_Format_def
        RemoveKey_def Meta_Remove_def PutFormatVector_def smap_erase_def)
  have 2: "fst (write_all (list_parcel 100) (meta_items [(''own.key'', A_int32 7)]) \<lparr>ls_done = 0, ls_items = []\<rparr>)"
    by (rule list_write_all) (simp add: meta_items_def entry_items_def)
  show ?thesis by (rule format_crosses_process [OF list_parcel_ok 1 _ _ 2]) (simp_all add: list_parcel_def)
qed

section \<open>Printing\<close>

text \<open>What \<^verbatim>\<open>Stringify\<close> prints; booleans, enumerations, unsigned 64-bit numbers and other vectors are not among it.\<close>

definition printable :: "any_type set" where
  "printable = {T_int32, T_uint32, T_int64, T_float, T_double, T_string, T_vector_uint8, T_vector_int32}"

lemma print_entry_None:
  assumes "map_of (fm_meta f) k = Some v"
  shows "(print_entry pf pd (Format_GetValueType k f) k v = None) = (TypeName v \<notin> printable)"
  using assms by (cases v) (simp_all add: Format_GetValueType_def IsSameTypeWith_def print_entry_def printable_def)

lemma stringify_None:
  assumes "smap_inv (fm_meta f)" "set es \<subseteq> set (fm_meta f)"
  shows "(stringify_loop pf pd f es = None) = (\<exists>(k, v) \<in> set es. TypeName v \<notin> printable)"
  using assms(2)
proof (induction es)
  case (Cons e es)
  obtain k v where e: "e = (k, v)" by fastforce
  have "map_of (fm_meta f) k = Some v" using Cons.prems e map_of_in_set [OF assms(1)] by auto
  note * = print_entry_None [OF this, of pf pd]
  show ?case using Cons * by (cases "print_entry pf pd (Format_GetValueType k f) k v") (auto simp: e)
qed simp

text \<open>Printing a container dereferences a null pointer exactly when one of its values is a boolean, an enumeration or of another type the
  printer has no case for.\<close>

theorem stringify_null_deref:
  assumes "smap_inv (fm_meta f)"
  shows "(Stringify pf pd f = None) = (\<exists>(k, v) \<in> set (fm_meta f). TypeName v \<notin> printable)"
  using stringify_None [OF assms, of "fm_meta f"] by (simp add: Stringify_def)

theorem stringify_null_deref_witness: "\<forall>pf pd. Stringify pf pd (Format [(VIDEO_IS_HDR_VIVID, A_bool True)] []) = None"
  using stringify_null_deref [of "Format [(VIDEO_IS_HDR_VIVID, A_bool True)] []"] by (simp add: smap_inv_def printable_def)

text \<open>So an integer stored under a boolean tag is enough.\<close>

lemma stringify_bool_tag:
  assumes "smap_inv (fm_meta f)" "bool_tag k" "PutIntValue fmt k w f = (True, g)"
  shows "Stringify pf pd g = None"
proof -
  have g: "fm_meta g = smap_put k (A_bool (w \<noteq> 0)) (fm_meta f)"
    using assms(2,3) by (auto simp: PutIntValue_def SetMetaData_int32_def bool_tag_def put_defs split: if_splits)
  moreover have inv: "smap_inv (fm_meta g)" using assms(1) g by (simp add: smap_simps)
  ultimately have "(k, A_bool (w \<noteq> 0)) \<in> set (fm_meta g)" using map_of_in_set [OF inv] assms(1) by (simp add: smap_simps)
  then show ?thesis using stringify_None [OF inv, of "fm_meta g"] by (force simp: Stringify_def printable_def)
qed

section \<open>Where the tables disagree\<close>

text \<open>Two tags with a boolean default are missing from the table of booleans: an integer stored under them stays an integer.\<close>

lemma not_an_enum:
  "map_of g_metadataGetterSetterMap AV_TRANSCODER_ENABLE_B_FRAME = None"
  "map_of g_metadataGetterSetterMap VIDEO_ENCODER_PER_FRAME_ABS_QP_MAP = None"
  "map_of g_metadataGetterSetterMap VIDEO_ENCODER_ENABLE_PTS_BASED_RATECONTROL = None"
  by code_simp+

lemma bool_vector:
  "List.member g_metadataBoolVector AV_TRANSCODER_ENABLE_B_FRAME = False"
  "List.member g_metadataBoolVector VIDEO_ENCODER_PER_FRAME_ABS_QP_MAP = False"
  "List.member g_metadataBoolVector VIDEO_ENCODER_ENABLE_PTS_BASED_RATECONTROL = True"
  by code_simp+

lemmas bool_vector_sets = bool_vector [unfolded List.member_iff]

lemma bool_default_stored_as_int:
  "k \<in> {AV_TRANSCODER_ENABLE_B_FRAME, VIDEO_ENCODER_PER_FRAME_ABS_QP_MAP} \<Longrightarrow>
     snd (SetMetaData_int32 m k w) = SetData k (A_int32 w) m"
  using not_an_enum bool_vector_sets by (auto simp: SetMetaData_int32_def)

text \<open>A tag whose declared type is an integer while its default is a boolean: what the application stores, the typed getter does not find.\<close>

lemma declared_int_stored_as_bool:
  "smap_inv m \<Longrightarrow> GetData T_int32 VIDEO_ENCODER_ENABLE_PTS_BASED_RATECONTROL
     (snd (SetMetaData_int32 m VIDEO_ENCODER_ENABLE_PTS_BASED_RATECONTROL w)) = None"
  using not_an_enum(3) bool_vector_sets(3) by (simp add: SetMetaData_int32_def SetData_def GetData_put)

end
