(* ===== verification/Buffer_Parcel.thy ===== *)
theory Buffer_Parcel
  imports AV_Buffer Meta_Props
begin

text \<open>
  Buffers between processes: the marshalling of \<^verbatim>\<open>AVBuffer\<close> (\<^verbatim>\<open>avbuffer.cpp\<close>), of the common part of
  \<^verbatim>\<open>AVMemory\<close> (\<^verbatim>\<open>avmemory.cpp\<close>), of shared memory (\<^verbatim>\<open>av_shared_memory_ext.cpp\<close>) and of the configuration of
  a request (\<^verbatim>\<open>avbuffer_utils.cpp\<close>). The kernel's shared memory, the graphics surfaces and the hardware allocator are
  parameters.
\<close>

section \<open>Memory\<close>

record 'p kernel =
  AshmemGetSize :: "int \<Rightarrow> int"
  map_addr :: "int \<Rightarrow> MemoryFlag \<Rightarrow> 8 word list option"
  is_secure :: bool
  hardware_init :: "int \<Rightarrow> MemoryFlag \<Rightarrow> AVMemory \<Rightarrow> AVMemory option"
  surface_init :: "bool \<Rightarrow> AVMemory \<Rightarrow> 'p \<Rightarrow> AVMemory option \<times> 'p"
  surface_write :: "bool \<Rightarrow> AVMemory \<Rightarrow> 'p \<Rightarrow> bool \<times> 'p"
  surface_read :: "AVMemory \<Rightarrow> 'p \<Rightarrow> bool \<times> 'p"

fun mem_type_code :: "MemoryType \<Rightarrow> 8 word" where
  "mem_type_code VIRTUAL_MEMORY = 0"
| "mem_type_code SHARED_MEMORY = 1"
| "mem_type_code SURFACE_MEMORY = 2"
| "mem_type_code HARDWARE_MEMORY = 3"
| "mem_type_code UNKNOWN_MEMORY = 4"
| "mem_type_code CUSTOM_MEMORY = 5"

definition mem_type_of :: "8 word \<Rightarrow> MemoryType option" where
  "mem_type_of c = List.find (\<lambda>t. mem_type_code t = c)
     [VIRTUAL_MEMORY, SHARED_MEMORY, SURFACE_MEMORY, HARDWARE_MEMORY, UNKNOWN_MEMORY, CUSTOM_MEMORY]"

lemma mem_type_of_code [simp]: "mem_type_of (mem_type_code t) = Some t"
  by (cases t) (simp_all add: mem_type_of_def)

definition rewind :: "'p MessageParcel \<Rightarrow> 'p \<Rightarrow> 'p \<Rightarrow> 'p" where
  "rewind P p q = SetDataSize P (GetDataSize P p) (RewindWrite P (GetWritePosition P p) q)"

definition or_rewind :: "'p MessageParcel \<Rightarrow> 'p \<Rightarrow> bool \<times> 'p \<Rightarrow> bool \<times> 'p" where
  "or_rewind P p r = (if fst r then r else (False, rewind P p (snd r)))"

text \<open>The part every memory has.\<close>

definition WriteCommonToMessageParcel :: "'p MessageParcel \<Rightarrow> AVMemory \<Rightarrow> 'p \<Rightarrow> bool \<times> 'p" where
  "WriteCommonToMessageParcel P m p =
     or_rewind P p (write_all P [I_int32 (word_of_int (m_capacity m)), I_int32 (word_of_int (m_align m)),
       I_int32 (word_of_int (m_offset m)), I_int32 (word_of_int (m_size m))] p)"

text \<open>A field that must lie between 0 and a limit.\<close>

definition read_within :: "'p MessageParcel \<Rightarrow> int option \<Rightarrow> 'p \<Rightarrow> int option \<times> 'p" where
  "read_within P limit p =
     (case TryReadInt32 P p of
        (Some w, q) \<Rightarrow> (if 0 \<le> sint w \<and> (case limit of None \<Rightarrow> True | Some l \<Rightarrow> sint w \<le> l) then Some (sint w) else None, q)
      | (None, q) \<Rightarrow> (None, q))"

definition ReadCommonFromMessageParcel :: "'p MessageParcel \<Rightarrow> AVMemory \<Rightarrow> 'p \<Rightarrow> AVMemory option \<times> 'p" where
  "ReadCommonFromMessageParcel P m p =
     (case read_within P None p of
        (None, p1) \<Rightarrow> (None, p1)
      | (Some capacity, p1) \<Rightarrow>
     (case read_within P (Some capacity) p1 of
        (None, p2) \<Rightarrow> (None, p2)
      | (Some align, p2) \<Rightarrow>
     (case read_within P (Some capacity) p2 of
        (None, p3) \<Rightarrow> (None, p3)
      | (Some offset, p3) \<Rightarrow>
     (case read_within P (Some capacity) p3 of
        (None, p4) \<Rightarrow> (None, p4)
      | (Some sz, p4) \<Rightarrow> (Some (m\<lparr>m_capacity := capacity, m_align := align, m_offset := offset, m_size := sz\<rparr>), p4)))))"

definition SkipCommonFromMessageParcel :: "'p MessageParcel \<Rightarrow> AVMemory \<Rightarrow> 'p \<Rightarrow> (bool \<times> AVMemory) \<times> 'p" where
  "SkipCommonFromMessageParcel P m p =
     (case read_within P (Some (m_capacity m)) (SkipBytes P 8 p) of
        (None, p1) \<Rightarrow> ((False, m), p1)
      | (Some offset, p1) \<Rightarrow>
     (case read_within P (Some (m_capacity m)) p1 of
        (None, p2) \<Rightarrow> ((False, m), p2)
      | (Some sz, p2) \<Rightarrow> ((True, m\<lparr>m_size := sz, m_offset := offset\<rparr>), p2)))"

text \<open>Shared and hardware memory go as a file descriptor with their access; a surface writes itself.\<close>

definition fd_items :: "bool \<Rightarrow> AVMemory \<Rightarrow> item list" where
  "fd_items upd m = I_bool upd # (if upd then [I_fd (m_fd m), I_uint32 (ucast (m_flag m))] else [])"

definition AVMemory_WriteToMessageParcel :: "'p kernel \<Rightarrow> 'p MessageParcel \<Rightarrow> bool \<Rightarrow> AVMemory \<Rightarrow> 'p \<Rightarrow> bool \<times> 'p" where
  "AVMemory_WriteToMessageParcel K P upd m p =
     (case m_type m of
        SHARED_MEMORY \<Rightarrow> or_rewind P p (write_all P (fd_items upd m) p)
      | HARDWARE_MEMORY \<Rightarrow> if is_secure K then (False, p) else or_rewind P p (write_all P (fd_items upd m) p)
      | SURFACE_MEMORY \<Rightarrow> surface_write K upd m p
      | _ \<Rightarrow> (False, p))"

definition AVMemory_ReadFromMessageParcel :: "'p kernel \<Rightarrow> 'p MessageParcel \<Rightarrow> AVMemory \<Rightarrow> 'p \<Rightarrow> bool \<times> 'p" where
  "AVMemory_ReadFromMessageParcel K P m p =
     (if m_type m \<in> {SHARED_MEMORY, HARDWARE_MEMORY}
      then (case ReadBool P p of (b, p1) \<Rightarrow> if b then (True, snd (ReadUint32 P (snd (ReadFileDescriptor P p1)))) else (True, p1))
      else if m_type m = SURFACE_MEMORY then surface_read K m p
      else (False, p))"

definition valid_flag :: "32 word \<Rightarrow> bool" where
  "valid_flag w = ((ucast w :: MemoryFlag) \<in> {MEMORY_READ_ONLY, MEMORY_WRITE_ONLY, MEMORY_READ_WRITE})"

definition AVSharedMemoryExt_Init :: "'p kernel \<Rightarrow> 'p MessageParcel \<Rightarrow> AVMemory \<Rightarrow> 'p \<Rightarrow> AVMemory option \<times> 'p" where
  "AVSharedMemoryExt_Init K P m p =
     (case ReadBool P p of (b, p1) \<Rightarrow>
       if \<not> b then (None, p1)
       else (case ReadFileDescriptor P p1 of (fd, p2) \<Rightarrow>
         if \<not> 0 < fd then (None, p2)
         else if AshmemGetSize K fd \<noteq> m_capacity m then (None, p2)
         else (case ReadUint32 P p2 of (w, p3) \<Rightarrow>
           if \<not> valid_flag w then (None, p3)
           else (Some (m\<lparr>m_fd := fd, m_flag := ucast w, m_base := map_addr K fd (ucast w)\<rparr>), p3))))"

definition AVHardwareMemory_Init :: "'p kernel \<Rightarrow> 'p MessageParcel \<Rightarrow> AVMemory \<Rightarrow> 'p \<Rightarrow> AVMemory option \<times> 'p" where
  "AVHardwareMemory_Init K P m p =
     (case ReadBool P p of (b, p1) \<Rightarrow>
       if \<not> b then (None, p1)
       else (case ReadFileDescriptor P p1 of (fd, p2) \<Rightarrow>
         if \<not> 0 < fd then (None, p2)
         else (case ReadUint32 P p2 of (w, p3) \<Rightarrow>
           if \<not> valid_flag w then (None, p3)
           else (hardware_init K fd (ucast w) (m\<lparr>m_flag := ucast w\<rparr>), p3))))"

definition fresh_memory :: "MemoryType \<Rightarrow> AVMemory" where
  "fresh_memory t = \<lparr>m_type = t, m_flag = MEMORY_READ_ONLY, m_capacity = 0, m_align = 0, m_offset = 0, m_size = 0, m_base = None,
     m_fd = -1, m_surface = default_surface\<rparr>"

definition CreateAVMemory_parcel :: "'p kernel \<Rightarrow> 'p MessageParcel \<Rightarrow> bool \<Rightarrow> 'p \<Rightarrow> AVMemory option \<times> 'p" where
  "CreateAVMemory_parcel K P isSurfaceBuffer p =
     (if isSurfaceBuffer then surface_init K True (fresh_memory SURFACE_MEMORY) p
      else (case ReadUint8 P p of (c, p1) \<Rightarrow>
        (case mem_type_of c of
           Some t \<Rightarrow>
             if t \<notin> {SURFACE_MEMORY, SHARED_MEMORY, HARDWARE_MEMORY} then (None, p1)
             else (case ReadCommonFromMessageParcel P (fresh_memory t) p1 of
                     (None, p2) \<Rightarrow> (None, p2)
                   | (Some m, p2) \<Rightarrow>
                       (if t = SHARED_MEMORY then AVSharedMemoryExt_Init K P m p2
                        else if t = HARDWARE_MEMORY then AVHardwareMemory_Init K P m p2
                        else surface_init K False m p2))
         | None \<Rightarrow> (None, p1))))"

section \<open>Buffers\<close>

definition head_items :: "AVBuffer \<Rightarrow> item list" where
  "head_items b =
     [I_uint64 (if b_memory b = None then 0 else of_nat (b_uid b)), I_int64 (word_of_int (b_pts b)), I_int64 (word_of_int (b_dts b)),
      I_int64 (word_of_int (b_duration b)), I_uint32 (b_flag b)]"

text \<open>
  Writing dereferences the metadata. Virtual memory is refused after everything else has been written, and without taking it back.
\<close>

definition AVBuffer_WriteToMessageParcel :: "'p kernel \<Rightarrow> 'p MessageParcel \<Rightarrow> bool \<Rightarrow> AVBuffer \<Rightarrow> 'p \<Rightarrow> (bool \<times> 'p) option" where
  "AVBuffer_WriteToMessageParcel K P upd b p =
     (case write_all P (head_items b) p of
        (False, q) \<Rightarrow> Some (False, rewind P p q)
      | (True, q) \<Rightarrow>
     (case b_meta b of
        None \<Rightarrow> None
      | Some meta \<Rightarrow>
     (case Meta_ToParcel P meta q of
        (False, r) \<Rightarrow> Some (False, rewind P p r)
      | (True, r) \<Rightarrow>
     (case b_memory b of
        None \<Rightarrow> Some (True, r)
      | Some m \<Rightarrow>
          if m_type m = VIRTUAL_MEMORY then Some (False, r)
          else Some (case mp_write P (I_uint8 (mem_type_code (m_type m))) r of
            (False, s) \<Rightarrow> (False, rewind P p s)
          | (True, s) \<Rightarrow>
              (case WriteCommonToMessageParcel P m s of
                 (False, t) \<Rightarrow> (False, rewind P p t)
               | (True, t) \<Rightarrow> or_rewind P p (AVMemory_WriteToMessageParcel K P upd m t)))))))"

definition read_head :: "'p MessageParcel \<Rightarrow> 'p \<Rightarrow> (nat \<times> int \<times> int \<times> int \<times> 32 word) option \<times> 'p" where
  "read_head P p =
     (case TryReadUint64 P p of (None, p1) \<Rightarrow> (None, p1) | (Some uid, p1) \<Rightarrow>
     (case TryReadInt64 P p1 of (None, p2) \<Rightarrow> (None, p2) | (Some pts, p2) \<Rightarrow>
     (case TryReadInt64 P p2 of (None, p3) \<Rightarrow> (None, p3) | (Some dts, p3) \<Rightarrow>
     (case TryReadInt64 P p3 of (None, p4) \<Rightarrow> (None, p4) | (Some duration, p4) \<Rightarrow>
     (case TryReadUint32 P p4 of (None, p5) \<Rightarrow> (None, p5) | (Some flag, p5) \<Rightarrow>
       (Some (unat uid, sint pts, sint dts, sint duration, flag), p5))))))"

definition AVBuffer_ReadFromMessageParcel ::
  "'p kernel \<Rightarrow> 'p MessageParcel \<Rightarrow> int \<Rightarrow> bool \<Rightarrow> AVBuffer \<Rightarrow> 'p \<Rightarrow> (bool \<times> AVBuffer) \<times> 'p" where
  "AVBuffer_ReadFromMessageParcel K P fmt isSurfaceBuffer b p =
     (if isSurfaceBuffer then
        (if b_memory b \<noteq> None then ((False, b), p)
         else (case CreateAVMemory_parcel K P True p of (m, q) \<Rightarrow> ((m \<noteq> None, b\<lparr>b_memory := m\<rparr>), q)))
      else (case read_head P p of
        (None, p1) \<Rightarrow> ((False, b), p1)
      | (Some (uid, pts, dts, duration, flag), p1) \<Rightarrow>
     (case Meta_FromParcel P fmt p1 of
        ((False, _), p2) \<Rightarrow> ((False, b), p2)
      | ((True, meta), p2) \<Rightarrow>
          (let attrs = (\<lambda>b. b\<lparr>b_pts := pts, b_dts := dts, b_duration := duration, b_flag := flag, b_meta := Some meta\<rparr>)
           in case b_memory b of
                Some m \<Rightarrow>
                  if b_uid b \<noteq> uid then ((False, b), p2)
                  else (case SkipCommonFromMessageParcel P m (snd (ReadUint8 P p2)) of
                          ((False, m1), p3) \<Rightarrow> ((False, b\<lparr>b_memory := Some m1\<rparr>), p3)
                        | ((True, m1), p3) \<Rightarrow>
                            (case AVMemory_ReadFromMessageParcel K P m1 p3 of
                               (False, p4) \<Rightarrow> ((False, b\<lparr>b_memory := Some m1\<rparr>), p4)
                             | (True, p4) \<Rightarrow> ((True, attrs (b\<lparr>b_memory := Some m1\<rparr>)), p4)))
              | None \<Rightarrow>
                  if uid \<noteq> 0
                  then (case CreateAVMemory_parcel K P False p2 of
                          (None, p3) \<Rightarrow> ((False, b), p3)
                        | (Some m, p3) \<Rightarrow> ((True, attrs (b\<lparr>b_memory := Some m, b_uid := uid\<rparr>)), p3))
                  else ((True, attrs b), p2)))))"

section \<open>The configuration of a request\<close>

definition config_items :: "AVBufferConfig \<Rightarrow> item list" where
  "config_items c =
     [I_int32 (word_of_int (c_size c)), I_int32 (word_of_int (c_align c)), I_uint8 (mem_type_code (c_memoryType c)), I_uint8 (c_memoryFlag c),
      I_int32 (word_of_int (s_width (c_surface c))), I_int32 (word_of_int (s_height (c_surface c))),
      I_int32 (word_of_int (s_strideAlignment (c_surface c))), I_int32 (word_of_int (s_format (c_surface c))),
      I_uint64 (of_nat (s_usage (c_surface c))), I_int32 (word_of_int (s_timeout (c_surface c))),
      I_int32 (word_of_int (s_colorGamut (c_surface c))), I_int32 (word_of_int (s_transform (c_surface c))),
      I_int32 (word_of_int (c_capacity c)), I_int32 (word_of_int (c_dmaFd c))]"

text \<open>The configuration is put together in a parcel of its own, which is appended when that went well.\<close>

definition MarshallingConfig :: "'p MessageParcel \<Rightarrow> AVBufferConfig \<Rightarrow> 'p \<Rightarrow> bool \<times> 'p" where
  "MarshallingConfig P c p =
     (case write_all P (config_items c) (mp_new P) of
        (True, q) \<Rightarrow> mp_Append P p q
      | (False, q) \<Rightarrow> (False, p))"

definition ReadSurfaceBufferConfig :: "'p MessageParcel \<Rightarrow> 'p \<Rightarrow> BufferRequestConfig \<times> 'p" where
  "ReadSurfaceBufferConfig P p =
     (let (width, p1) = ReadInt32 P p;
          (height, p2) = ReadInt32 P p1;
          (stride, p3) = ReadInt32 P p2;
          (format, p4) = ReadInt32 P p3;
          (usage, p5) = ReadUint64 P p4;
          (timeout, p6) = ReadInt32 P p5;
          (gamut, p7) = ReadInt32 P p6;
          (transform, p8) = ReadInt32 P p7
      in (\<lparr>s_width = sint width, s_height = sint height, s_strideAlignment = sint stride, s_format = sint format, s_usage = unat usage,
           s_timeout = sint timeout, s_colorGamut = sint gamut, s_transform = sint transform\<rparr>, p8))"

text \<open>A byte that names no memory type is \<^term>\<open>None\<close>: the enumeration value it makes is outside the model.\<close>

definition UnmarshallingConfig :: "'p MessageParcel \<Rightarrow> 'p \<Rightarrow> AVBufferConfig option \<times> 'p" where
  "UnmarshallingConfig P p =
     (let (sz, p1) = ReadUint32 P p;
          (align, p2) = ReadInt32 P p1;
          (type, p3) = ReadUint8 P p2;
          (flag, p4) = ReadUint8 P p3;
          (surface, p5) = ReadSurfaceBufferConfig P p4;
          (capacity, p6) = ReadInt32 P p5;
          (dmaFd, p7) = ReadInt32 P p6
      in (map_option (\<lambda>t. \<lparr>c_size = sint sz, c_align = sint align, c_memoryType = t, c_memoryFlag = flag, c_surface = surface,
            c_dmaFd = sint dmaFd, c_capacity = sint capacity\<rparr>) (mem_type_of type), p7))"

end
