(* ===== verification/Buffer_Parcel_Props.thy ===== *)
theory Buffer_Parcel_Props
  imports Buffer_Parcel
begin

text \<open>A buffer that is written by one process and read by another.\<close>

section \<open>Integers\<close>

definition int32 :: "int \<Rightarrow> bool" where
  "int32 v = (- (2 ^ 31) \<le> v \<and> v < 2 ^ 31)"

definition int64 :: "int \<Rightarrow> bool" where
  "int64 v = (- (2 ^ 63) \<le> v \<and> v < 2 ^ 63)"

lemma sint_wire: "int32 v \<Longrightarrow> sint (word_of_int v :: 32 word) = v" "int64 u \<Longrightarrow> sint (word_of_int u :: 64 word) = u"
  by (simp_all add: sint_word32 sint_word64 swrap_id int32_def int64_def)

lemma unat_wire: "n < 2 ^ 64 \<Longrightarrow> unat (of_nat n :: 64 word) = n"
  by (simp add: unat_of_nat)

section \<open>Memory\<close>

text \<open>What \<^verbatim>\<open>ReadCommonFromMessageParcel\<close> accepts.\<close>

definition mem_bounds :: "AVMemory \<Rightarrow> bool" where
  "mem_bounds m = (0 \<le> m_align m \<and> m_align m \<le> m_capacity m \<and> 0 \<le> m_offset m \<and> m_offset m \<le> m_capacity m \<and>
     0 \<le> m_size m \<and> m_size m \<le> m_capacity m \<and> m_capacity m < 2 ^ 31)"

definition common_items :: "AVMemory \<Rightarrow> item list" where
  "common_items m = [I_int32 (word_of_int (m_capacity m)), I_int32 (word_of_int (m_align m)), I_int32 (word_of_int (m_offset m)),
     I_int32 (word_of_int (m_size m))]"

lemma read_within_item:
  assumes "parcel_ok P unread" "unread p = I_int32 (word_of_int v) # xs" "0 \<le> v" "v < 2 ^ 31" "case limit of None \<Rightarrow> True | Some l \<Rightarrow> v \<le> l"
  shows "\<exists>q. read_within P limit p = (Some v, q) \<and> unread q = xs"
proof -
  have "sint (word_of_int v :: 32 word) = v" using assms(3,4) by (intro sint_wire) (simp add: int32_def)
  moreover obtain q where "TryReadInt32 P p = (Some (word_of_int v), q)" "unread q = xs" using read_typed(15) [OF assms(1,2)] by blast
  ultimately show ?thesis using assms(3,5) by (cases limit) (auto simp: read_within_def)
qed

lemma ReadCommon_items:
  assumes "parcel_ok P unread" "mem_bounds m" "unread p = common_items m @ xs"
  shows "\<exists>q. ReadCommonFromMessageParcel P m0 p =
      (Some (m0\<lparr>m_capacity := m_capacity m, m_align := m_align m, m_offset := m_offset m, m_size := m_size m\<rparr>), q) \<and> unread q = xs"
proof -
  note b = assms(2) [unfolded mem_bounds_def]
  obtain p1 where p1: "read_within P None p = (Some (m_capacity m), p1)" "unread p1 = drop 1 (common_items m) @ xs"
    using read_within_item [OF assms(1), of p "m_capacity m" _ None] assms(3) b by (auto simp: common_items_def)
  obtain p2 where p2: "read_within P (Some (m_capacity m)) p1 = (Some (m_align m), p2)" "unread p2 = drop 2 (common_items m) @ xs"
    using read_within_item [OF assms(1), of p1 "m_align m" _ "Some (m_capacity m)"] p1(2) b by (auto simp: common_items_def)
  obtain p3 where p3: "read_within P (Some (m_capacity m)) p2 = (Some (m_offset m), p3)" "unread p3 = drop 3 (common_items m) @ xs"
    using read_within_item [OF assms(1), of p2 "m_offset m" _ "Some (m_capacity m)"] p2(2) b by (auto simp: common_items_def)
  obtain p4 where p4: "read_within P (Some (m_capacity m)) p3 = (Some (m_size m), p4)" "unread p4 = xs"
    using read_within_item [OF assms(1), of p3 "m_size m" _ "Some (m_capacity m)"] p3(2) b by (auto simp: common_items_def)
  from p1(1) p2(1) p3(1) p4 show ?thesis by (simp add: ReadCommonFromMessageParcel_def)
qed

lemma SkipCommon_items:
  assumes "parcel_ok P unread" "mem_bounds m" "m_capacity m0 = m_capacity m" "unread p = common_items m @ xs"
  shows "\<exists>q. SkipCommonFromMessageParcel P m0 p = ((True, m0\<lparr>m_size := m_size m, m_offset := m_offset m\<rparr>), q) \<and> unread q = xs"
proof -
  note b = assms(2) [unfolded mem_bounds_def]
  have p0: "unread (SkipBytes P 8 p) = drop 2 (common_items m) @ xs"
    using parcel_skip [OF assms(1)] assms(4) by (simp add: common_items_def)
  obtain p1 where p1: "read_within P (Some (m_capacity m0)) (SkipBytes P 8 p) = (Some (m_offset m), p1)" "unread p1 = drop 3 (common_items m) @ xs"
    using read_within_item [OF assms(1), of "SkipBytes P 8 p" "m_offset m" _ "Some (m_capacity m0)"] p0 b assms(3) by (auto simp: common_items_def)
  obtain p2 where p2: "read_within P (Some (m_capacity m0)) p1 = (Some (m_size m), p2)" "unread p2 = xs"
    using read_within_item [OF assms(1), of p1 "m_size m" _ "Some (m_capacity m0)"] p1(2) b assms(3) by (auto simp: common_items_def)
  from p1(1) p2 show ?thesis by (simp add: SkipCommonFromMessageParcel_def)
qed

text \<open>Shared memory the kernel knows.\<close>

definition shared_ok :: "'p kernel \<Rightarrow> AVMemory \<Rightarrow> bool" where
  "shared_ok K m = (m_type m = SHARED_MEMORY \<and> mem_bounds m \<and> m_flag m \<in> {MEMORY_READ_ONLY, MEMORY_WRITE_ONLY, MEMORY_READ_WRITE} \<and>
     0 < m_fd m \<and> AshmemGetSize K (m_fd m) = m_capacity m)"

text \<open>The other process gets the same memory, mapped into its own address space.\<close>

definition remote_memory :: "'p kernel \<Rightarrow> AVMemory \<Rightarrow> AVMemory" where
  "remote_memory K m = m\<lparr>m_base := map_addr K (m_fd m) (m_flag m), m_surface := default_surface\<rparr>"

lemma ucast_flag: "ucast (ucast (f :: MemoryFlag) :: 32 word) = f"
  by (rule bit_word_eqI) (simp add: bit_simps)

lemma AVSharedMemoryExt_Init_items:
  assumes "parcel_ok P unread" "shared_ok K m" "m_capacity m0 = m_capacity m" "unread p = fd_items True m @ xs"
  shows "\<exists>q. AVSharedMemoryExt_Init K P m0 p =
      (Some (m0\<lparr>m_fd := m_fd m, m_flag := m_flag m, m_base := map_addr K (m_fd m) (m_flag m)\<rparr>), q) \<and> unread q = xs"
proof -
  obtain p1 where p1: "ReadBool P p = (True, p1)" "unread p1 = drop 1 (fd_items True m) @ xs"
    using read_typed(1) [OF assms(1), of p True] assms(4) by (auto simp: fd_items_def)
  obtain p2 where p2: "ReadFileDescriptor P p1 = (m_fd m, p2)" "unread p2 = drop 2 (fd_items True m) @ xs"
    using read_typed(13) [OF assms(1), of p1 "m_fd m"] p1(2) by (auto simp: fd_items_def)
  obtain p3 where p3: "ReadUint32 P p2 = (ucast (m_flag m), p3)" "unread p3 = xs"
    using read_typed(4) [OF assms(1), of p2 "ucast (m_flag m)"] p2(2) by (auto simp: fd_items_def)
  from assms(2,3) p1(1) p2(1) p3 show ?thesis
    by (auto simp: AVSharedMemoryExt_Init_def shared_ok_def valid_flag_def ucast_flag)
qed

lemma AVMemory_Read_items:
  assumes "parcel_ok P unread" "m_type m0 = SHARED_MEMORY" "unread p = fd_items upd m @ xs"
  shows "\<exists>q. AVMemory_ReadFromMessageParcel K P m0 p = (True, q) \<and> unread q = xs"
proof -
  obtain p1 where p1: "ReadBool P p = (upd, p1)" "unread p1 = drop 1 (fd_items upd m) @ xs"
    using read_typed(1) [OF assms(1), of p upd] assms(3) by (auto simp: fd_items_def)
  show ?thesis
  proof (cases upd)
    case True
    obtain p2 where p2: "ReadFileDescriptor P p1 = (m_fd m, p2)" "unread p2 = drop 2 (fd_items upd m) @ xs"
      using read_typed(13) [OF assms(1), of p1 "m_fd m"] p1(2) True by (auto simp: fd_items_def)
    obtain p3 where p3: "ReadUint32 P p2 = (ucast (m_flag m), p3)" "unread p3 = xs"
      using read_typed(4) [OF assms(1), of p2 "ucast (m_flag m)"] p2(2) True by (auto simp: fd_items_def)
    from True assms(2) p1(1) p2(1) p3 show ?thesis by (simp add: AVMemory_ReadFromMessageParcel_def)
  next
    case False
    with assms(2) p1 show ?thesis by (simp add: AVMemory_ReadFromMessageParcel_def fd_items_def)
  qed
qed

section \<open>Buffers\<close>

definition buffer_ints :: "AVBuffer \<Rightarrow> bool" where
  "buffer_ints b = (int64 (b_pts b) \<and> int64 (b_dts b) \<and> int64 (b_duration b) \<and> 0 < b_uid b \<and> b_uid b < 2 ^ 64)"

definition mem_items :: "bool \<Rightarrow> AVMemory \<Rightarrow> item list" where
  "mem_items upd m = I_uint8 (mem_type_code (m_type m)) # common_items m @ fd_items upd m"

definition buffer_items :: "bool \<Rightarrow> meta \<Rightarrow> AVBuffer \<Rightarrow> item list" where
  "buffer_items upd meta b = head_items b @ meta_items meta @ (case b_memory b of None \<Rightarrow> [] | Some m \<Rightarrow> mem_items upd m)"

lemma read_head_items:
  assumes "parcel_ok P unread" "buffer_ints b" "unread p = head_items b @ xs"
  shows "\<exists>q. read_head P p = (Some (if b_memory b = None then 0 else b_uid b, b_pts b, b_dts b, b_duration b, b_flag b), q) \<and> unread q = xs"
proof -
  note i = assms(2) [unfolded buffer_ints_def]
  let ?uid = "if b_memory b = None then 0 else of_nat (b_uid b) :: 64 word"
  obtain p1 where p1: "TryReadUint64 P p = (Some ?uid, p1)" "unread p1 = drop 1 (head_items b) @ xs"
    using read_typed(18) [OF assms(1), of p ?uid] assms(3) by (auto simp: head_items_def)
  obtain p2 where p2: "TryReadInt64 P p1 = (Some (word_of_int (b_pts b)), p2)" "unread p2 = drop 2 (head_items b) @ xs"
    using read_typed(16) [OF assms(1), of p1 "word_of_int (b_pts b)"] p1(2) by (auto simp: head_items_def)
  obtain p3 where p3: "TryReadInt64 P p2 = (Some (word_of_int (b_dts b)), p3)" "unread p3 = drop 3 (head_items b) @ xs"
    using read_typed(16) [OF assms(1), of p2 "word_of_int (b_dts b)"] p2(2) by (auto simp: head_items_def)
  obtain p4 where p4: "TryReadInt64 P p3 = (Some (word_of_int (b_duration b)), p4)" "unread p4 = drop 4 (head_items b) @ xs"
    using read_typed(16) [OF assms(1), of p3 "word_of_int (b_duration b)"] p3(2) by (auto simp: head_items_def)
  obtain p5 where p5: "TryReadUint32 P p4 = (Some (b_flag b), p5)" "unread p5 = xs"
    using read_typed(17) [OF assms(1), of p4 "b_flag b"] p4(2) by (auto simp: head_items_def)
  from i p1(1) p2(1) p3(1) p4(1) p5 show ?thesis by (simp add: read_head_def sint_wire unat_wire)
qed


lemma AVBuffer_Write_items:
  assumes "parcel_ok P unread" "b_meta b = Some meta" "list_all (writable \<circ> snd) meta" "\<forall>m. b_memory b = Some m \<longrightarrow> m_type m = SHARED_MEMORY"
    "fst (write_all P (buffer_items upd meta b) p)"
  shows "\<exists>q. AVBuffer_WriteToMessageParcel K P upd b p = Some (True, q) \<and> unread q = unread p @ buffer_items upd meta b"
proof -
  obtain q where q: "write_all P (buffer_items upd meta b) p = (True, q)" using assms(5) by (cases "write_all P (buffer_items upd meta b) p") auto
  then obtain p1 p2 where w: "write_all P (head_items b) p = (True, p1)" "write_all P (meta_items meta) p1 = (True, p2)"
      "write_all P (case b_memory b of None \<Rightarrow> [] | Some m \<Rightarrow> mem_items upd m) p2 = (True, q)"
    by (auto simp: buffer_items_def write_all_append split: prod.splits bool.splits)
  have m: "Meta_ToParcel P meta p1 = (True, p2)" by (rule Meta_ToParcel_exact [OF assms(3) w(2)])
  have "AVBuffer_WriteToMessageParcel K P upd b p = Some (True, q)"
  proof (cases "b_memory b")
    case None
    then show ?thesis using w m assms(2) by (simp add: AVBuffer_WriteToMessageParcel_def)
  next
    case (Some mem)
    then have t: "m_type mem = SHARED_MEMORY" using assms(4) by blast
    from w(3) Some obtain p3 p4 where "mp_write P (I_uint8 (mem_type_code (m_type mem))) p2 = (True, p3)"
        "write_all P (common_items mem) p3 = (True, p4)" "write_all P (fd_items upd mem) p4 = (True, q)"
      by (auto simp: mem_items_def write_all_append split: prod.splits bool.splits)
    with w(1) m assms(2) Some t show ?thesis
      by (simp add: AVBuffer_WriteToMessageParcel_def WriteCommonToMessageParcel_def common_items_def AVMemory_WriteToMessageParcel_def
          or_rewind_def del: write_all.simps)
  qed
  with write_all_unread [OF assms(1) q] show ?thesis by blast
qed

lemma AVBuffer_Read_fresh:
  assumes "parcel_ok P unread" "b_meta b = Some meta" "list_all (entry_portable fmt meta) meta" "smap_inv meta" "length meta < 2 ^ 31"
    "\<forall>q. length meta \<le> GetRawDataCapacity P q" "buffer_ints b" "b_memory b = Some m" "shared_ok K m" "b_memory b0 = None"
    "unread p = buffer_items True meta b @ xs"
  shows "\<exists>q. AVBuffer_ReadFromMessageParcel K P fmt False b0 p = ((True, b0\<lparr>b_memory := Some (remote_memory K m), b_uid := b_uid b,
      b_pts := b_pts b, b_dts := b_dts b, b_duration := b_duration b, b_flag := b_flag b, b_meta := Some meta\<rparr>), q) \<and> unread q = xs"
proof -
  obtain p1 where p1: "read_head P p = (Some (b_uid b, b_pts b, b_dts b, b_duration b, b_flag b), p1)"
      "unread p1 = meta_items meta @ mem_items True m @ xs"
    using read_head_items [OF assms(1,7), of p] assms(8,11) by (auto simp: buffer_items_def)
  obtain p2 where p2: "Meta_FromParcel P fmt p1 = ((True, meta), p2)" "unread p2 = mem_items True m @ xs"
    using Meta_FromParcel_items [OF assms(1,4,3,5,6) p1(2)] by blast
  have t: "m_type m = SHARED_MEMORY" using assms(9) by (simp add: shared_ok_def)
  obtain p3 where p3: "ReadUint8 P p2 = (mem_type_code SHARED_MEMORY, p3)" "unread p3 = common_items m @ fd_items True m @ xs"
    using read_typed(12) [OF assms(1), of p2 "mem_type_code SHARED_MEMORY"] p2(2) t by (auto simp: mem_items_def)
  let ?m1 = "(fresh_memory SHARED_MEMORY)\<lparr>m_capacity := m_capacity m, m_align := m_align m, m_offset := m_offset m, m_size := m_size m\<rparr>"
  obtain p4 where p4: "ReadCommonFromMessageParcel P (fresh_memory SHARED_MEMORY) p3 = (Some ?m1, p4)" "unread p4 = fd_items True m @ xs"
    using ReadCommon_items [OF assms(1) _ p3(2)] assms(9) by (auto simp: shared_ok_def)
  obtain q where q: "AVSharedMemoryExt_Init K P ?m1 p4 =
      (Some (?m1\<lparr>m_fd := m_fd m, m_flag := m_flag m, m_base := map_addr K (m_fd m) (m_flag m)\<rparr>), q)" "unread q = xs"
    using AVSharedMemoryExt_Init_items [OF assms(1,9) _ p4(2), of ?m1] by auto
  have "?m1\<lparr>m_fd := m_fd m, m_flag := m_flag m, m_base := map_addr K (m_fd m) (m_flag m)\<rparr> = remote_memory K m"
    using t by (cases m) (simp add: fresh_memory_def remote_memory_def)
  with q(1) have "CreateAVMemory_parcel K P False p2 = (Some (remote_memory K m), q)"
    using p3(1) p4(1) by (simp add: CreateAVMemory_parcel_def del: mem_type_code.simps)
  with p1(1) p2(1) assms(7,10) q(2) show ?thesis by (simp add: AVBuffer_ReadFromMessageParcel_def buffer_ints_def)
qed

lemma AVBuffer_Read_same:
  assumes "parcel_ok P unread" "b_meta b = Some meta" "list_all (entry_portable fmt meta) meta" "smap_inv meta" "length meta < 2 ^ 31"
    "\<forall>q. length meta \<le> GetRawDataCapacity P q" "buffer_ints b" "b_memory b = Some m" "shared_ok K m"
    "b_memory b0 = Some m0" "b_uid b0 = b_uid b" "m_type m0 = SHARED_MEMORY" "m_capacity m0 = m_capacity m"
    "unread p = buffer_items upd meta b @ xs"
  shows "\<exists>q. AVBuffer_ReadFromMessageParcel K P fmt False b0 p = ((True, b0\<lparr>b_memory := Some (m0\<lparr>m_size := m_size m, m_offset := m_offset m\<rparr>),
      b_pts := b_pts b, b_dts := b_dts b, b_duration := b_duration b, b_flag := b_flag b, b_meta := Some meta\<rparr>), q) \<and> unread q = xs"
proof -
  obtain p1 where p1: "read_head P p = (Some (b_uid b, b_pts b, b_dts b, b_duration b, b_flag b), p1)"
      "unread p1 = meta_items meta @ mem_items upd m @ xs"
    using read_head_items [OF assms(1,7), of p] assms(8,14) by (auto simp: buffer_items_def)
  obtain p2 where p2: "Meta_FromParcel P fmt p1 = ((True, meta), p2)" "unread p2 = mem_items upd m @ xs"
    using Meta_FromParcel_items [OF assms(1,4,3,5,6) p1(2)] by blast
  obtain p3 where p3: "ReadUint8 P p2 = (mem_type_code (m_type m), p3)" "unread p3 = common_items m @ fd_items upd m @ xs"
    using read_typed(12) [OF assms(1), of p2 "mem_type_code (m_type m)"] p2(2) by (auto simp: mem_items_def)
  let ?m1 = "m0\<lparr>m_size := m_size m, m_offset := m_offset m\<rparr>"
  obtain p4 where p4: "SkipCommonFromMessageParcel P m0 p3 = ((True, ?m1), p4)" "unread p4 = fd_items upd m @ xs"
    using SkipCommon_items [OF assms(1) _ assms(13) p3(2)] assms(9) by (auto simp: shared_ok_def)
  obtain q where q: "AVMemory_ReadFromMessageParcel K P ?m1 p4 = (True, q)" "unread q = xs"
    using AVMemory_Read_items [OF assms(1) _ p4(2), of ?m1] assms(12) by auto
  from p1(1) p2(1) p3(1) p4(1) q assms(10,11) show ?thesis by (simp add: AVBuffer_ReadFromMessageParcel_def)
qed

text \<open>C13: A buffer in shared memory, written to an empty parcel that takes all its items, arrives in another process with its id, times,
  flags, metadata and memory bounds, over the same kernel memory. Its metadata must be portable entry by entry, sorted and of fewer than
  2^31 entries (as in C12), its attributes must fit their fields with a non-zero id, and its memory must have valid bounds, flags and
  descriptor, the kernel reporting its capacity for the descriptor. Read into a buffer of the same id that has a shared memory of the
  same capacity, it renews the attributes and the bounds of that buffer and keeps its mapping.\<close>

theorem avbuffer_parcel_roundtrip:
  assumes "parcel_ok P unread" "b_meta b = Some meta" "list_all (entry_portable fmt meta) meta" "smap_inv meta" "length meta < 2 ^ 31"
    "\<forall>q. length meta \<le> GetRawDataCapacity P q" "buffer_ints b" "b_memory b = Some m" "shared_ok K m"
    "fst (write_all P (buffer_items True meta b) p)" "unread p = []" "b_memory b0 = None" "b_memory b1 = Some m1" "b_uid b1 = b_uid b"
    "m_type m1 = SHARED_MEMORY" "m_capacity m1 = m_capacity m"
  shows "\<exists>q. AVBuffer_WriteToMessageParcel K P True b p = Some (True, q) \<and>
    (\<exists>r. AVBuffer_ReadFromMessageParcel K P fmt False b0 q = ((True, b0\<lparr>b_memory := Some (remote_memory K m), b_uid := b_uid b,
      b_pts := b_pts b, b_dts := b_dts b, b_duration := b_duration b, b_flag := b_flag b, b_meta := Some meta\<rparr>), r) \<and> unread r = []) \<and>
    (\<exists>r. AVBuffer_ReadFromMessageParcel K P fmt False b1 q = ((True, b1\<lparr>b_memory := Some (m1\<lparr>m_size := m_size m, m_offset := m_offset m\<rparr>),
      b_pts := b_pts b, b_dts := b_dts b, b_duration := b_duration b, b_flag := b_flag b, b_meta := Some meta\<rparr>), r) \<and> unread r = [])"
proof -
  have "\<forall>m. b_memory b = Some m \<longrightarrow> m_type m = SHARED_MEMORY" using assms(8,9) by (simp add: shared_ok_def)
  then obtain q where q: "AVBuffer_WriteToMessageParcel K P True b p = Some (True, q)" "unread q = buffer_items True meta b @ []"
    using AVBuffer_Write_items [OF assms(1,2) entries_writable [OF assms(3)] _ assms(10)] assms(11) by auto
  from q(1) AVBuffer_Read_fresh [OF assms(1-9,12) q(2)] AVBuffer_Read_same [OF assms(1-9,13-16) q(2)] show ?thesis by blast
qed

definition demo_kernel :: "list_state kernel" where
  "demo_kernel = \<lparr>AshmemGetSize = (\<lambda>fd. 4), map_addr = (\<lambda>fd f. Some [1, 2, 3, 4]), is_secure = False, hardware_init = (\<lambda>_ _ _. None),
     surface_init = (\<lambda>_ _ p. (None, p)), surface_write = (\<lambda>_ _ p. (False, p)), surface_read = (\<lambda>_ p. (False, p))\<rparr>"

definition demo_shared :: AVMemory where
  "demo_shared = (fresh_memory SHARED_MEMORY)\<lparr>m_capacity := 4, m_size := 3, m_fd := 7\<rparr>"

definition demo_buffer :: "AVMemory option \<Rightarrow> nat \<Rightarrow> AVBuffer" where
  "demo_buffer m uid = \<lparr>b_pts = 40, b_dts = 20, b_duration = 10, b_flag = 2, b_meta = Some [], b_memory = m, b_config = default_config, b_uid = uid\<rparr>"

theorem avbuffer_parcel_roundtrip_witness:
  "\<exists>q r. AVBuffer_WriteToMessageParcel demo_kernel (list_parcel 100) True (demo_buffer (Some demo_shared) 5) (mp_new (list_parcel 100)) = Some (True, q) \<and>
     AVBuffer_ReadFromMessageParcel demo_kernel (list_parcel 100) 0 False (demo_buffer None 1) q =
       ((True, demo_buffer (Some (remote_memory demo_kernel demo_shared)) 5), r)"
proof -
  let ?b = "demo_buffer (Some demo_shared) 5"
  have 1: "shared_ok demo_kernel demo_shared"
    by (simp add: shared_ok_def demo_shared_def fresh_memory_def mem_bounds_def demo_kernel_def)
  have 2: "fst (write_all (list_parcel 100) (buffer_items True [] ?b) (mp_new (list_parcel 100)))"
    by (rule list_write_all) (simp add: list_parcel_def buffer_items_def head_items_def meta_items_def mem_items_def common_items_def fd_items_def demo_buffer_def)
  have 3: "buffer_ints ?b" by (simp add: buffer_ints_def int64_def demo_buffer_def)
  show ?thesis
    using avbuffer_parcel_roundtrip [OF list_parcel_ok _ _ _ _ _ 3 _ 1 2, of 0 "demo_buffer None 1" ?b demo_shared]
    by (auto simp: demo_buffer_def demo_shared_def fresh_memory_def list_parcel_def)
qed

text \<open>Virtual memory is refused with the front of the buffer left in the parcel.\<close>

lemma virtual_memory_not_rewound:
  assumes "parcel_ok P unread" "b_meta b = Some []" "b_memory b = Some m" "m_type m = VIRTUAL_MEMORY"
    "fst (write_all P (head_items b @ meta_items []) p)"
  shows "\<exists>q. AVBuffer_WriteToMessageParcel K P upd b p = Some (False, q) \<and> unread q = unread p @ head_items b @ meta_items []"
proof -
  obtain q where q: "write_all P (head_items b @ meta_items []) p = (True, q)"
    using assms(5) by (cases "write_all P (head_items b @ meta_items []) p") auto
  then obtain p1 where w: "write_all P (head_items b) p = (True, p1)" "write_all P (meta_items []) p1 = (True, q)"
    by (auto simp: write_all_append split: prod.splits bool.splits)
  have "Meta_ToParcel P [] p1 = (True, q)" by (rule Meta_ToParcel_exact [OF _ w(2)]) simp
  with w(1) assms(2-4) have "AVBuffer_WriteToMessageParcel K P upd b p = Some (False, q)" by (simp add: AVBuffer_WriteToMessageParcel_def)
  with write_all_unread [OF assms(1) q] show ?thesis by blast
qed

end
