(* ===== verification/Producer_Ipc.thy ===== *)
theory Producer_Ipc
  imports Buffer_Queue Buffer_Parcel
begin

text \<open>
  The producer of a buffer queue in another process: \<^verbatim>\<open>avbuffer_queue_producer_proxy.cpp\<close> marshals a call,
  \<^verbatim>\<open>avbuffer_queue_producer_stub.cpp\<close> unmarshals it and calls \<^verbatim>\<open>AVBufferQueueProducerImpl\<close>
  (\<^verbatim>\<open>avbuffer_queue_producer.cpp\<close>), which forwards to the queue. The transport runs the stub on the arguments and hands its reply
  back, or fails; a process that dereferences a null pointer is \<^term>\<open>None\<close>.
\<close>

section \<open>Status codes on the wire\<close>

fun status_code :: "Status \<Rightarrow> int" where
  "status_code END_OF_STREAM = 1"
| "status_code OK = 0"
| "status_code ERROR_UNKNOWN = -1"
| "status_code ERROR_NO_MEMORY = -4"
| "status_code ERROR_WRONG_STATE = -5"
| "status_code ERROR_UNIMPLEMENTED = -6"
| "status_code ERROR_INVALID_PARAMETER = -7"
| "status_code ERROR_INVALID_DATA = -8"
| "status_code ERROR_MISMATCHED_TYPE = -9"
| "status_code ERROR_TIMED_OUT = -10"
| "status_code ERROR_UNSUPPORTED_FORMAT = -11"
| "status_code ERROR_NOT_ENOUGH_DATA = -12"
| "status_code ERROR_NULL_POINTER = -16"
| "status_code ERROR_INVALID_OPERATION = -17"
| "status_code ERROR_INVALID_STATE = -21"
| "status_code ERROR_INVALID_BUFFER_SIZE = 0xF001"
| "status_code ERROR_UNEXPECTED_MEMORY_TYPE = 0xF002"
| "status_code ERROR_CREATE_BUFFER = 0xF003"
| "status_code ERROR_NULL_POINT_BUFFER = 0xF004"
| "status_code ERROR_INVALID_BUFFER_ID = 0xF005"
| "status_code ERROR_INVALID_BUFFER_STATE = 0xF006"
| "status_code ERROR_NO_FREE_BUFFER = 0xF007"
| "status_code ERROR_NO_DIRTY_BUFFER = 0xF008"
| "status_code ERROR_NO_CONSUMER_LISTENER = 0xF009"
| "status_code ERROR_NULL_BUFFER_QUEUE = 0xF00A"
| "status_code ERROR_WAIT_TIMEOUT = 0xF00B"
| "status_code ERROR_OUT_OF_RANGE = 0xF00C"
| "status_code (OTHER n) = n"

definition statuses :: "Status list" where
  "statuses = [END_OF_STREAM, OK, ERROR_UNKNOWN, ERROR_NO_MEMORY, ERROR_WRONG_STATE, ERROR_UNIMPLEMENTED, ERROR_INVALID_PARAMETER,
     ERROR_INVALID_DATA, ERROR_MISMATCHED_TYPE, ERROR_TIMED_OUT, ERROR_UNSUPPORTED_FORMAT, ERROR_NOT_ENOUGH_DATA, ERROR_NULL_POINTER,
     ERROR_INVALID_OPERATION, ERROR_INVALID_STATE, ERROR_INVALID_BUFFER_SIZE, ERROR_UNEXPECTED_MEMORY_TYPE, ERROR_CREATE_BUFFER,
     ERROR_NULL_POINT_BUFFER, ERROR_INVALID_BUFFER_ID, ERROR_INVALID_BUFFER_STATE, ERROR_NO_FREE_BUFFER, ERROR_NO_DIRTY_BUFFER,
     ERROR_NO_CONSUMER_LISTENER, ERROR_NULL_BUFFER_QUEUE, ERROR_WAIT_TIMEOUT, ERROR_OUT_OF_RANGE]"

definition status_of_code :: "int \<Rightarrow> Status" where
  "status_of_code c = (case List.find (\<lambda>s. status_code s = c) statuses of Some s \<Rightarrow> s | None \<Rightarrow> OTHER c)"

definition ERROR_IPC_WRITE_INTERFACE_TOKEN :: Status where
  "ERROR_IPC_WRITE_INTERFACE_TOKEN = OTHER 0xF101"

definition ERROR_IPC_SEND_REQUEST :: Status where
  "ERROR_IPC_SEND_REQUEST = OTHER 0xF102"

definition descriptor :: string where
  "descriptor = ''Media.AVBufferQueueProducer''"

definition write_status :: "'p MessageParcel \<Rightarrow> Status \<Rightarrow> 'p \<Rightarrow> 'p" where
  "write_status P s p = snd (mp_write P (I_int32 (word_of_int (status_code s))) p)"

section \<open>The stub\<close>

text \<open>What the server process gives to a call: its memory, the metadata default it needs, the other threads of the queue, and the
  interface object that \<^verbatim>\<open>iface_cast\<close> of the IPC library makes in this call of a remote listener: null, or a proxy. The library
  makes a new proxy in every call, so this is a parameter of the call and not of the listener.\<close>

record 'p server =
  sv_kernel :: "'p kernel"
  sv_parcel :: "'p MessageParcel"
  sv_fmt :: int
  sv_env :: alloc_env
  sv_others :: "bq \<Rightarrow> bq"
  sv_cast :: "nat \<Rightarrow> nat option"

datatype request_code =
    PRODUCER_GET_QUEUE_SIZE | PRODUCER_SET_QUEUE_SIZE | PRODUCER_REQUEST_BUFFER | PRODUCER_PUSH_BUFFER | PRODUCER_RETURN_BUFFER
  | PRODUCER_ATTACH_BUFFER | PRODUCER_DETACH_BUFFER | PRODUCER_SET_FILLED_LISTENER | PRODUCER_REMOVE_FILLED_LISTENER
  | PRODUCER_SET_AVAILABLE_LISTENER

text \<open>A handler reads its arguments, calls the queue and writes the reply.\<close>

type_synonym 'p handler = "'p server \<Rightarrow> 'p \<Rightarrow> bq \<Rightarrow> ((int \<times> 'p) \<times> bq) option"

definition OnGetQueueSize :: "'p handler" where
  "OnGetQueueSize S args q =
     (let P = sv_parcel S;
          r1 = snd (mp_write P (I_int32 0) (mp_new P));
          r2 = snd (mp_write P (I_uint32 (of_nat (q_size q))) r1)
      in Some ((0, r2), q))"

definition OnSetQueueSize :: "'p handler" where
  "OnSetQueueSize S args q =
     (let P = sv_parcel S;
          (sz, a1) = ReadUint32 P args;
          (ret, q1) = SetQueueSize (unat sz) q
      in Some ((0, write_status P ret (mp_new P)), q1))"

definition OnRequestBuffer :: "'p handler" where
  "OnRequestBuffer S args q =
     (let P = sv_parcel S
      in case UnmarshallingConfig P args of
           (None, a1) \<Rightarrow> None
         | (Some config, a1) \<Rightarrow>
             (let (timeoutMs, a2) = ReadInt32 P a1
              in case RequestBuffer (sv_env S) (sv_others S) None config (sint timeoutMs) q of
                   (ret, buf, q1) \<Rightarrow>
                     (let r1 = write_status P ret (mp_new P)
                      in if ret = OK
                         then do {
                           uid \<leftarrow> buf;
                           b \<leftarrow> q_heap q1 uid;
                           (ok, r2) \<leftarrow> AVBuffer_WriteToMessageParcel (sv_kernel S) P True b r1;
                           Some ((0, r2), q1)
                         }
                         else Some ((0, r1), q1))))"

definition OnPushBuffer :: "'p handler" where
  "OnPushBuffer S args q =
     (let P = sv_parcel S;
          (uid, a1) = ReadUint64 P args;
          (available, a2) = ReadBool P a1
      in map_option (\<lambda>(ret, q1). ((0, write_status P ret (mp_new P)), q1)) (PushBuffer (sv_others S) (unat uid) available q))"

definition OnReturnBuffer :: "'p handler" where
  "OnReturnBuffer S args q =
     (let P = sv_parcel S;
          (uid, a1) = ReadUint64 P args;
          (available, a2) = ReadBool P a1
      in map_option (\<lambda>(ret, q1). ((0, write_status P ret (mp_new P)), q1)) (ReturnBuffer (unat uid) available q))"

text \<open>A new empty buffer draws an id and takes what the parcel holds, whether or not that can be read.\<close>

definition OnAttachBuffer :: "'p handler" where
  "OnAttachBuffer S args q =
     (let P = sv_parcel S;
          (uid, g) = GenerateUniqueId (q_ids q);
          b0 = \<lparr>b_pts = 0, b_dts = 0, b_duration = 0, b_flag = 0, b_meta = Some [], b_memory = None, b_config = default_config, b_uid = uid\<rparr>;
          ((ok, b), a1) = AVBuffer_ReadFromMessageParcel (sv_kernel S) P (sv_fmt S) False b0 args;
          (isFilled, a2) = ReadBool P a1;
          q1 = q\<lparr>q_ids := g, q_heap := (q_heap q)(b_uid b \<mapsto> b)\<rparr>
      in map_option (\<lambda>(ret, q2). ((0, write_status P ret (mp_new P)), q2)) (AttachBuffer (sv_others S) (Some (b_uid b)) isFilled q1))"

definition OnDetachBuffer :: "'p handler" where
  "OnDetachBuffer S args q =
     (let P = sv_parcel S;
          (uid, a1) = ReadUint64 P args;
          (ret, q1) = DetachBuffer_force (unat uid) False q
      in Some ((0, write_status P ret (mp_new P)), q1))"

definition IPC_STUB_ERR :: int where
  "IPC_STUB_ERR = 1"

definition OnListener :: "(nat option \<Rightarrow> bq \<Rightarrow> Status \<times> bq) \<Rightarrow> 'p handler" where
  "OnListener install S args q =
     (let P = sv_parcel S;
          (listenerObject, a1) = ReadRemoteObject P args
      in case Option.bind listenerObject (sv_cast S) of
           None \<Rightarrow> Some ((IPC_STUB_ERR, mp_new P), q)
         | Some listener \<Rightarrow> (let (ret, q1) = install (Some listener) q in Some ((0, write_status P ret (mp_new P)), q1)))"

definition OnSetBufferFilledListener :: "'p handler" where
  "OnSetBufferFilledListener = OnListener SetBrokerListener"

definition OnRemoveBufferFilledListener :: "'p handler" where
  "OnRemoveBufferFilledListener = OnListener RemoveBrokerListener"

definition OnSetBufferAvailableListener :: "'p handler" where
  "OnSetBufferAvailableListener = OnListener SetProducerListener"

fun stubFuncMap :: "request_code \<Rightarrow> 'p handler" where
  "stubFuncMap PRODUCER_GET_QUEUE_SIZE = OnGetQueueSize"
| "stubFuncMap PRODUCER_SET_QUEUE_SIZE = OnSetQueueSize"
| "stubFuncMap PRODUCER_REQUEST_BUFFER = OnRequestBuffer"
| "stubFuncMap PRODUCER_PUSH_BUFFER = OnPushBuffer"
| "stubFuncMap PRODUCER_RETURN_BUFFER = OnReturnBuffer"
| "stubFuncMap PRODUCER_ATTACH_BUFFER = OnAttachBuffer"
| "stubFuncMap PRODUCER_DETACH_BUFFER = OnDetachBuffer"
| "stubFuncMap PRODUCER_SET_FILLED_LISTENER = OnSetBufferFilledListener"
| "stubFuncMap PRODUCER_REMOVE_FILLED_LISTENER = OnRemoveBufferFilledListener"
| "stubFuncMap PRODUCER_SET_AVAILABLE_LISTENER = OnSetBufferAvailableListener"

definition ERR_INVALID_STATE :: int where
  "ERR_INVALID_STATE = 2"

definition OnRemoteRequest :: "request_code \<Rightarrow> 'p handler" where
  "OnRemoteRequest code S args q =
     (let P = sv_parcel S;
          (token, a1) = ReadString P args
      in if token \<noteq> descriptor then Some ((ERR_INVALID_STATE, mp_new P), q) else stubFuncMap code S a1 q)"

section \<open>The proxy\<close>

text \<open>\<open>up\<close> says whether the transport works; a failed transport changes nothing on the other side.\<close>

definition SendRequest :: "bool \<Rightarrow> request_code \<Rightarrow> 'p handler" where
  "SendRequest up code S args q = (if up then OnRemoteRequest code S args q else Some ((-1, mp_new (sv_parcel S)), q))"

text \<open>\<open>ipc_call\<close> is the frame of the macros \<^verbatim>\<open>ABQ_IPC_DEFINE_VARIABLES\<close> and \<^verbatim>\<open>ABQ_IPC_SEND_REQUEST\<close>.\<close>

definition ipc_call ::
  "bool \<Rightarrow> request_code \<Rightarrow> 'p server \<Rightarrow> ('p \<Rightarrow> 'p option) \<Rightarrow> ('p \<Rightarrow> Status \<times> 'r) \<Rightarrow> 'r \<Rightarrow> bq \<Rightarrow> ((Status \<times> 'r) \<times> bq) option" where
  "ipc_call up code S marshal finish r q =
     (let P = sv_parcel S
      in case mp_write P (I_string descriptor) (mp_new P) of
           (False, a) \<Rightarrow> Some ((ERROR_IPC_WRITE_INTERFACE_TOKEN, r), q)
         | (True, a) \<Rightarrow>
             do {
               a1 \<leftarrow> marshal a;
               ((rc, reply), q1) \<leftarrow> SendRequest up code S a1 q;
               if rc \<noteq> 0 then Some ((ERROR_IPC_SEND_REQUEST, r), q1)
               else (let (w, rep1) = ReadInt32 P reply;
                         st = status_of_code (sint w)
                     in if st \<noteq> OK then Some ((st, r), q1) else Some (finish rep1, q1))
             })"

definition done_ok :: "'p \<Rightarrow> Status \<times> unit" where
  "done_ok p = (OK, ())"

definition Proxy_GetQueueSize :: "bool \<Rightarrow> 'p server \<Rightarrow> bq \<Rightarrow> (nat \<times> bq) option" where
  "Proxy_GetQueueSize up S q =
     (let P = sv_parcel S
      in case mp_write P (I_string descriptor) (mp_new P) of
           (False, a) \<Rightarrow> Some (0, q)
         | (True, a) \<Rightarrow>
             do {
               ((rc, reply), q1) \<leftarrow> SendRequest up PRODUCER_GET_QUEUE_SIZE S a q;
               if rc \<noteq> 0 then Some (0, q1) else Some (unat (fst (ReadUint32 P reply)), q1)
             })"

definition Proxy_SetQueueSize :: "bool \<Rightarrow> 'p server \<Rightarrow> nat \<Rightarrow> bq \<Rightarrow> ((Status \<times> unit) \<times> bq) option" where
  "Proxy_SetQueueSize up S sz q =
     ipc_call up PRODUCER_SET_QUEUE_SIZE S (\<lambda>a. Some (snd (mp_write (sv_parcel S) (I_uint32 (of_nat sz)) a))) done_ok () q"

text \<open>The timeout is an argument of the call and is not marshalled.\<close>

definition Proxy_RequestBufferWaitUs ::
  "bool \<Rightarrow> 'p server \<Rightarrow> 'p kernel \<Rightarrow> AVBuffer option \<Rightarrow> IdGen \<Rightarrow> AVBufferConfig \<Rightarrow> int \<Rightarrow> bq
   \<Rightarrow> ((Status \<times> AVBuffer option) \<times> bq) option" where
  "Proxy_RequestBufferWaitUs up S K outBuffer ids config timeoutUs q =
     ipc_call up PRODUCER_REQUEST_BUFFER S (\<lambda>a. Some (snd (MarshallingConfig (sv_parcel S) config a)))
       (\<lambda>reply. let b0 = \<lparr>b_pts = 0, b_dts = 0, b_duration = 0, b_flag = 0, b_meta = Some [], b_memory = None, b_config = default_config,
                          b_uid = fst (GenerateUniqueId ids)\<rparr>
                in (OK, Some (snd (fst (AVBuffer_ReadFromMessageParcel K (sv_parcel S) (sv_fmt S) False b0 reply)))))
       outBuffer q"

definition Proxy_RequestBuffer ::
  "bool \<Rightarrow> 'p server \<Rightarrow> 'p kernel \<Rightarrow> AVBuffer option \<Rightarrow> IdGen \<Rightarrow> AVBufferConfig \<Rightarrow> int \<Rightarrow> bq
   \<Rightarrow> ((Status \<times> AVBuffer option) \<times> bq) option" where
  "Proxy_RequestBuffer up S K outBuffer ids config timeoutMs q =
     Proxy_RequestBufferWaitUs up S K outBuffer ids config (timeoutMs * 1000) q"

definition id_and_flag :: "'p server \<Rightarrow> AVBuffer \<Rightarrow> bool \<Rightarrow> 'p \<Rightarrow> 'p option" where
  "id_and_flag S b available a =
     Some (snd (mp_write (sv_parcel S) (I_bool available) (snd (mp_write (sv_parcel S) (I_uint64 (of_nat (b_uid b))) a))))"

definition Proxy_PushBuffer :: "bool \<Rightarrow> 'p server \<Rightarrow> AVBuffer option \<Rightarrow> bool \<Rightarrow> bq \<Rightarrow> ((Status \<times> unit) \<times> bq) option" where
  "Proxy_PushBuffer up S inBuffer available q =
     (case inBuffer of None \<Rightarrow> Some ((ERROR_NULL_POINT_BUFFER, ()), q)
      | Some b \<Rightarrow> ipc_call up PRODUCER_PUSH_BUFFER S (id_and_flag S b available) done_ok () q)"

definition Proxy_ReturnBuffer :: "bool \<Rightarrow> 'p server \<Rightarrow> AVBuffer option \<Rightarrow> bool \<Rightarrow> bq \<Rightarrow> ((Status \<times> unit) \<times> bq) option" where
  "Proxy_ReturnBuffer up S inBuffer available q =
     (case inBuffer of None \<Rightarrow> Some ((ERROR_NULL_POINT_BUFFER, ()), q)
      | Some b \<Rightarrow> ipc_call up PRODUCER_RETURN_BUFFER S (id_and_flag S b available) done_ok () q)"

definition Proxy_AttachBuffer :: "bool \<Rightarrow> 'p server \<Rightarrow> 'p kernel \<Rightarrow> AVBuffer option \<Rightarrow> bool \<Rightarrow> bq \<Rightarrow> ((Status \<times> unit) \<times> bq) option" where
  "Proxy_AttachBuffer up S K inBuffer isFilled q =
     (case inBuffer of None \<Rightarrow> Some ((ERROR_NULL_POINT_BUFFER, ()), q)
      | Some b \<Rightarrow>
          ipc_call up PRODUCER_ATTACH_BUFFER S
            (\<lambda>a. map_option (\<lambda>(ok, a1). snd (mp_write (sv_parcel S) (I_bool isFilled) a1))
                   (AVBuffer_WriteToMessageParcel K (sv_parcel S) True b a))
            done_ok () q)"

definition Proxy_DetachBuffer :: "bool \<Rightarrow> 'p server \<Rightarrow> AVBuffer option \<Rightarrow> bq \<Rightarrow> ((Status \<times> unit) \<times> bq) option" where
  "Proxy_DetachBuffer up S outBuffer q =
     (case outBuffer of None \<Rightarrow> Some ((ERROR_NULL_POINT_BUFFER, ()), q)
      | Some b \<Rightarrow>
          ipc_call up PRODUCER_DETACH_BUFFER S (\<lambda>a. Some (snd (mp_write (sv_parcel S) (I_uint64 (of_nat (b_uid b))) a))) done_ok () q)"

text \<open>The listener is dereferenced for its remote object.\<close>

definition listener_call :: "request_code \<Rightarrow> bool \<Rightarrow> 'p server \<Rightarrow> nat option \<Rightarrow> bq \<Rightarrow> ((Status \<times> unit) \<times> bq) option" where
  "listener_call code up S listener q =
     ipc_call up code S (\<lambda>a. map_option (\<lambda>l. snd (mp_write (sv_parcel S) (I_object l) a)) listener) done_ok () q"

definition Proxy_SetBufferFilledListener :: "bool \<Rightarrow> 'p server \<Rightarrow> nat option \<Rightarrow> bq \<Rightarrow> ((Status \<times> unit) \<times> bq) option" where
  "Proxy_SetBufferFilledListener = listener_call PRODUCER_SET_FILLED_LISTENER"

definition Proxy_RemoveBufferFilledListener :: "bool \<Rightarrow> 'p server \<Rightarrow> nat option \<Rightarrow> bq \<Rightarrow> ((Status \<times> unit) \<times> bq) option" where
  "Proxy_RemoveBufferFilledListener = listener_call PRODUCER_REMOVE_FILLED_LISTENER"

definition Proxy_SetBufferAvailableListener :: "bool \<Rightarrow> 'p server \<Rightarrow> nat option \<Rightarrow> bq \<Rightarrow> ((Status \<times> unit) \<times> bq) option" where
  "Proxy_SetBufferAvailableListener = listener_call PRODUCER_SET_AVAILABLE_LISTENER"

text \<open>Clearing does not go to the other process.\<close>

definition Proxy_Clear :: "bq \<Rightarrow> Status \<times> bq" where
  "Proxy_Clear q = (OK, q)"

definition Proxy_ClearBufferIf :: "(AVBuffer option \<Rightarrow> bool) \<Rightarrow> bq \<Rightarrow> Status \<times> bq" where
  "Proxy_ClearBufferIf pred q = (OK, q)"

end
