(* ===== verification/Producer_Ipc_Props.thy ===== *)
theory Producer_Ipc_Props
  imports Producer_Ipc Buffer_Parcel_Props
begin

text \<open>What the producer of another process sees of the queue: mostly the queue, with four differences.\<close>

section \<open>Status codes\<close>

lemma status_of_known: "s \<in> set statuses \<Longrightarrow> status_of_code (sint (word_of_int (status_code s) :: 32 word)) = s"
proof -
  have "list_all (\<lambda>s. status_of_code (status_code s) = s \<and> int32 (status_code s)) statuses" by code_simp
  then show "s \<in> set statuses \<Longrightarrow> ?thesis" by (simp add: list_all_iff sint_wire)
qed

lemma SetQueueSize_status: "fst (SetQueueSize sz q) \<in> set statuses"
  by (simp add: SetQueueSize_def SetLargerQueueSizeLocked_def statuses_def Let_def)

lemma DetachBuffer_status: "fst (DetachBuffer_force uid force q) \<in> set statuses"
  by (simp add: DetachBuffer_force_def statuses_def split: option.split)

lemma ReturnBuffer_status: "ReturnBuffer uid available q = Some (st, q1) \<Longrightarrow> st \<in> set statuses"
  by (auto simp: ReturnBuffer_def statuses_def Let_def CancelBuffer_def bind_eq_Some_conv split: option.splits if_splits)

lemma push_locked_status: "push_locked uid available q = Some (Inl (st, q1)) \<Longrightarrow> st \<in> set statuses"
  by (auto simp: push_locked_def statuses_def Let_def CancelBuffer_def bind_eq_Some_conv split: option.splits if_splits)

lemma PushBuffer_status:
  assumes "PushBuffer others uid available q = Some (st, q1)"
  shows "st \<in> set statuses"
proof -
  obtain r where r: "push_locked uid available q = Some r" using assms by (auto simp: PushBuffer_def bind_eq_Some_conv)
  show ?thesis
  proof (cases r)
    case (Inl a)
    with assms r push_locked_status show ?thesis by (cases a) (simp add: PushBuffer_def)
  next
    case (Inr q2)
    with assms r ReturnBuffer_status [of uid available "others q2" st q1] show ?thesis
      by (auto simp: PushBuffer_def Let_def statuses_def split: if_splits)
  qed
qed

section \<open>A call\<close>

text \<open>A parcel with room for \<open>n\<close> items.\<close>

definition takes_items :: "'p MessageParcel \<Rightarrow> nat \<Rightarrow> bool" where
  "takes_items P n \<longleftrightarrow>
     (\<forall>xs. length xs \<le> n \<longrightarrow> fst (write_all P xs (mp_new P))) \<and>
     (\<forall>xs ys. length xs + length ys \<le> n \<longrightarrow> fst (mp_Append P (snd (write_all P xs (mp_new P))) (snd (write_all P ys (mp_new P)))))"

lemma list_written_state: "length xs \<le> cap \<Longrightarrow> snd (write_all (list_parcel cap) xs (mp_new (list_parcel cap))) = \<lparr>ls_done = 0, ls_items = xs\<rparr>"
proof (induction xs rule: rev_induct)
  case (snoc x xs)
  then have "write_all (list_parcel cap) xs (mp_new (list_parcel cap)) = (True, \<lparr>ls_done = 0, ls_items = xs\<rparr>)"
    using list_write_all [of "mp_new (list_parcel cap)" xs cap] by (simp add: prod_eq_iff list_parcel_def)
  with snoc.prems show ?case by (simp add: write_all_append) (simp add: list_parcel_def)
qed (simp add: list_parcel_def)

lemma list_takes_items: "takes_items (list_parcel n) n"
  unfolding takes_items_def
proof (intro conjI allI impI)
  show "fst (write_all (list_parcel n) xs (mp_new (list_parcel n)))" if "length xs \<le> n" for xs
    using that by (intro list_write_all) (simp add: list_parcel_def)
  show "fst (mp_Append (list_parcel n) (snd (write_all (list_parcel n) xs (mp_new (list_parcel n)))) (snd (write_all (list_parcel n) ys (mp_new (list_parcel n)))))"
    if "length xs + length ys \<le> n" for xs ys
    using that list_written_state [of xs n] list_written_state [of ys n] by (simp add: list_parcel_def)
qed

lemma takes_write:
  assumes "takes_items P n" "length xs \<le> n"
  obtains q where "write_all P xs (mp_new P) = (True, q)"
  using assms unfolding takes_items_def by (metis prod.collapse)

lemma write_status_read:
  assumes "parcel_ok P unread" "takes_items P n" "1 \<le> n" "st \<in> set statuses"
  shows "\<exists>r w. ReadInt32 P (write_status P st (mp_new P)) = (w, r) \<and> status_of_code (sint w) = st"
proof -
  let ?x = "I_int32 (word_of_int (status_code st))"
  obtain q where q: "write_all P [?x] (mp_new P) = (True, q)" using takes_write [OF assms(2), of "[?x]"] assms(3) by auto
  then have "unread q = [?x]" using write_all_unread [OF assms(1) q] parcel_new [OF assms(1)] by simp
  then obtain r where "ReadInt32 P q = (word_of_int (status_code st), r)" using read_typed(2) [OF assms(1)] by blast
  moreover from q have "write_status P st (mp_new P) = q" by (auto simp: write_status_def split: prod.splits bool.splits)
  ultimately show ?thesis using status_of_known [OF assms(4)] by auto
qed

text \<open>A call whose handler, on the arguments that were marshalled, replies with the status of \<open>res\<close>, is \<open>res\<close>.\<close>

lemma ipc_call_forwards:
  assumes "parcel_ok (sv_parcel S) unread" "takes_items (sv_parcel S) n" "length xs < n"
    "\<And>a b. write_all (sv_parcel S) xs a = (True, b) \<Longrightarrow> marshal a = Some b"
    "\<And>a. unread a = xs \<Longrightarrow>
      stubFuncMap code S a q = map_option (\<lambda>(ret, q1). ((0, write_status (sv_parcel S) ret (mp_new (sv_parcel S))), q1)) res"
    "\<And>st q1. res = Some (st, q1) \<Longrightarrow> st \<in> set statuses"
  shows "ipc_call True code S marshal done_ok () q = map_option (\<lambda>(st, q1). ((st, ()), q1)) res"
proof -
  let ?P = "sv_parcel S"
  obtain b where b: "write_all ?P (I_string descriptor # xs) (mp_new ?P) = (True, b)"
    using takes_write [OF assms(2), of "I_string descriptor # xs"] assms(3) by auto
  then obtain a where a: "mp_write ?P (I_string descriptor) (mp_new ?P) = (True, a)" "write_all ?P xs a = (True, b)"
    by (auto split: prod.splits bool.splits)
  have "unread b = I_string descriptor # xs" using write_all_unread [OF assms(1) b] parcel_new [OF assms(1)] by simp
  then obtain c where c: "ReadString ?P b = (descriptor, c)" "unread c = xs" using read_typed(8) [OF assms(1)] by blast
  have s: "SendRequest True code S b q = map_option (\<lambda>(ret, q1). ((0, write_status ?P ret (mp_new ?P)), q1)) res"
    using c assms(5) [OF c(2)] by (simp add: SendRequest_def OnRemoteRequest_def Let_def)
  show ?thesis
  proof (cases res)
    case None
    with a assms(4) [OF a(2)] s show ?thesis by (simp add: ipc_call_def Let_def)
  next
    case (Some r)
    obtain st q1 where r: "r = (st, q1)" by (cases r)
    have "1 \<le> n" using assms(3) by simp
    then obtain w p where "ReadInt32 ?P (write_status ?P st (mp_new ?P)) = (w, p)" "status_of_code (sint w) = st"
      using write_status_read [OF assms(1,2) _ assms(6)] Some r by blast
    with Some r a assms(4) [OF a(2)] s show ?thesis by (simp add: ipc_call_def Let_def done_ok_def)
  qed
qed

lemma write_one: "write_all P [x] a = (True, b) \<Longrightarrow> snd (mp_write P x a) = b"
  by (auto split: prod.splits bool.splits)

lemma write_two: "write_all P [x, y] a = (True, b) \<Longrightarrow> snd (mp_write P y (snd (mp_write P x a))) = b"
  by (auto split: prod.splits bool.splits)

lemma id_and_flag_read:
  assumes "parcel_ok P unread" "unread a = [I_uint64 (of_nat uid), I_bool v]" "uid < 2 ^ 64"
  shows "\<exists>a1 a2. ReadUint64 P a = (of_nat uid, a1) \<and> ReadBool P a1 = (v, a2) \<and> unat (of_nat uid :: 64 word) = uid"
proof -
  obtain a1 where a1: "ReadUint64 P a = (of_nat uid, a1)" "unread a1 = [I_bool v]" using read_typed(5) [OF assms(1,2)] by blast
  with read_typed(1) [OF assms(1) a1(2)] unat_wire [OF assms(3)] show ?thesis by blast
qed

lemma remote_listener:
  assumes "parcel_ok (sv_parcel S) unread" "takes_items (sv_parcel S) n" "2 \<le> n"
    "stubFuncMap code S = OnListener install S" "sv_cast S l = Some x" "fst (install (Some x) q) \<in> set statuses"
  shows "listener_call code True S (Some l) q = Some (((fst (install (Some x) q)), ()), snd (install (Some x) q))"
proof -
  have "listener_call code True S (Some l) q = map_option (\<lambda>(st, q1). ((st, ()), q1)) (Some (install (Some x) q))"
    unfolding listener_call_def
  proof (rule ipc_call_forwards [OF assms(1,2), where xs = "[I_object l]"])
    fix a assume "unread a = [I_object l]"
    then obtain a1 where "ReadRemoteObject (sv_parcel S) a = (Some l, a1)" using read_typed(14) [OF assms(1)] by blast
    then show "stubFuncMap code S a q =
        map_option (\<lambda>(ret, q1). ((0, write_status (sv_parcel S) ret (mp_new (sv_parcel S))), q1)) (Some (install (Some x) q))"
      by (simp add: assms(4,5) OnListener_def Let_def split: prod.split)
  next
    show "\<And>a b. write_all (sv_parcel S) [I_object l] a = (True, b) \<Longrightarrow> map_option (\<lambda>l. snd (mp_write (sv_parcel S) (I_object l) a)) (Some l) = Some b"
      using write_one by simp
    show "\<And>st q1. Some (install (Some x) q) = Some (st, q1) \<Longrightarrow> st \<in> set statuses" using assms(6) by auto
  qed (use assms(3) in simp)
  then show ?thesis by (simp add: split_beta)
qed

section \<open>The remote producer is the queue\<close>

text \<open>C14: Over a transport that works and parcels with room for three items, the proxy of the producer has the status and the effect
  of an operation on the queue itself. Resizing, pushing, returning and detaching a buffer are the operation on the buffer that the
  server holds under the same id: of the buffer pushed only the id and the flag cross, its times, size and flags do not. A server that
  would crash on a null pointer crashes on the same calls. Setting a listener installs the interface object that this call makes of it,
  and removing a listener removes that object: when the call makes a new one, as it does of a remote listener, removal reports success
  and removes nothing.\<close>

theorem remote_producer_refines:
  assumes "parcel_ok (sv_parcel S) unread" "takes_items (sv_parcel S) 3" "sz < 2 ^ 32" "b_uid b < 2 ^ 64"
    "sv_cast S l = Some x"
  shows "Proxy_SetQueueSize True S sz q = Some ((fst (SetQueueSize sz q), ()), snd (SetQueueSize sz q)) \<and>
    Proxy_PushBuffer True S (Some b) available q =
      map_option (\<lambda>(st, q1). ((st, ()), q1)) (PushBuffer (sv_others S) (b_uid b) available q) \<and>
    Proxy_ReturnBuffer True S (Some b) available q = map_option (\<lambda>(st, q1). ((st, ()), q1)) (ReturnBuffer (b_uid b) available q) \<and>
    Proxy_DetachBuffer True S (Some b) q =
      Some ((fst (DetachBuffer (Some (b_uid b)) q), ()), snd (DetachBuffer (Some (b_uid b)) q)) \<and>
    Proxy_SetBufferFilledListener True S (Some l) q = Some ((OK, ()), snd (SetBrokerListener (Some x) q)) \<and>
    Proxy_RemoveBufferFilledListener True S (Some l) q = Some ((OK, ()), snd (RemoveBrokerListener (Some x) q)) \<and>
    (Some x \<notin> set (q_broker q) \<longrightarrow> Proxy_RemoveBufferFilledListener True S (Some l) q = Some ((OK, ()), q)) \<and>
    Proxy_SetBufferAvailableListener True S (Some l) q = Some ((OK, ()), snd (SetProducerListener (Some x) q))"
proof (intro conjI)
  note fwd = ipc_call_forwards [OF assms(1,2)]
  let ?P = "sv_parcel S" and ?id = "[I_uint64 (of_nat (b_uid b)), I_bool available]"
  have "Proxy_SetQueueSize True S sz q = map_option (\<lambda>(st, q1). ((st, ()), q1)) (Some (SetQueueSize sz q))"
    unfolding Proxy_SetQueueSize_def
  proof (rule fwd [where xs = "[I_uint32 (of_nat sz)]"])
    fix a assume "unread a = [I_uint32 (of_nat sz)]"
    then obtain a1 where "ReadUint32 ?P a = (of_nat sz, a1)" using read_typed(4) [OF assms(1)] by blast
    moreover have "unat (of_nat sz :: 32 word) = sz" using assms(3) by (simp add: unat_of_nat)
    ultimately show "stubFuncMap PRODUCER_SET_QUEUE_SIZE S a q =
        map_option (\<lambda>(ret, q1). ((0, write_status ?P ret (mp_new ?P)), q1)) (Some (SetQueueSize sz q))"
      by (simp add: OnSetQueueSize_def Let_def split: prod.split)
  qed (simp, drule write_one, simp, drule arg_cong [where f = "\<lambda>x. fst (the x)"], use SetQueueSize_status in simp)
  then show "Proxy_SetQueueSize True S sz q = Some ((fst (SetQueueSize sz q), ()), snd (SetQueueSize sz q))" by (simp add: split_beta)
  show "Proxy_PushBuffer True S (Some b) available q =
      map_option (\<lambda>(st, q1). ((st, ()), q1)) (PushBuffer (sv_others S) (b_uid b) available q)"
    unfolding Proxy_PushBuffer_def option.case
  proof (rule fwd [where xs = ?id])
    fix a assume "unread a = ?id"
    from id_and_flag_read [OF assms(1) this assms(4)]
    show "stubFuncMap PRODUCER_PUSH_BUFFER S a q = map_option (\<lambda>(ret, q1). ((0, write_status ?P ret (mp_new ?P)), q1))
        (PushBuffer (sv_others S) (b_uid b) available q)"
      by (auto simp: OnPushBuffer_def Let_def)
  qed (simp, drule write_two, simp add: id_and_flag_def, rule PushBuffer_status)
  show "Proxy_ReturnBuffer True S (Some b) available q = map_option (\<lambda>(st, q1). ((st, ()), q1)) (ReturnBuffer (b_uid b) available q)"
    unfolding Proxy_ReturnBuffer_def option.case
  proof (rule fwd [where xs = ?id])
    fix a assume "unread a = ?id"
    from id_and_flag_read [OF assms(1) this assms(4)]
    show "stubFuncMap PRODUCER_RETURN_BUFFER S a q = map_option (\<lambda>(ret, q1). ((0, write_status ?P ret (mp_new ?P)), q1))
        (ReturnBuffer (b_uid b) available q)"
      by (auto simp: OnReturnBuffer_def Let_def)
  qed (simp, drule write_two, simp add: id_and_flag_def, rule ReturnBuffer_status)
  have "Proxy_DetachBuffer True S (Some b) q = map_option (\<lambda>(st, q1). ((st, ()), q1)) (Some (DetachBuffer (Some (b_uid b)) q))"
    unfolding Proxy_DetachBuffer_def option.case
  proof (rule fwd [where xs = "[I_uint64 (of_nat (b_uid b))]"])
    fix a assume "unread a = [I_uint64 (of_nat (b_uid b))]"
    then obtain a1 where "ReadUint64 ?P a = (of_nat (b_uid b), a1)" using read_typed(5) [OF assms(1)] by blast
    then show "stubFuncMap PRODUCER_DETACH_BUFFER S a q =
        map_option (\<lambda>(ret, q1). ((0, write_status ?P ret (mp_new ?P)), q1)) (Some (DetachBuffer (Some (b_uid b)) q))"
      using unat_wire [OF assms(4)] by (simp add: OnDetachBuffer_def DetachBuffer_def Let_def split: prod.split)
  qed (simp, drule write_one, simp, drule arg_cong [where f = "\<lambda>x. fst (the x)"], use DetachBuffer_status in \<open>simp add: DetachBuffer_def\<close>)
  then show "Proxy_DetachBuffer True S (Some b) q =
      Some ((fst (DetachBuffer (Some (b_uid b)) q), ()), snd (DetachBuffer (Some (b_uid b)) q))" by (simp add: split_beta)
  note listen = remote_listener [OF assms(1,2), where l = l and q = q and x = x]
  show "Proxy_SetBufferFilledListener True S (Some l) q = Some ((OK, ()), snd (SetBrokerListener (Some x) q))"
    unfolding Proxy_SetBufferFilledListener_def
    by (subst listen [where install = SetBrokerListener]) (simp_all add: assms(5) OnSetBufferFilledListener_def SetBrokerListener_def statuses_def)
  show remove: "Proxy_RemoveBufferFilledListener True S (Some l) q = Some ((OK, ()), snd (RemoveBrokerListener (Some x) q))"
    unfolding Proxy_RemoveBufferFilledListener_def
    by (subst listen [where install = RemoveBrokerListener])
      (auto simp: assms(5) OnRemoveBufferFilledListener_def RemoveBrokerListener_def statuses_def)
  show "Some x \<notin> set (q_broker q) \<longrightarrow> Proxy_RemoveBufferFilledListener True S (Some l) q = Some ((OK, ()), q)"
    using remove by (auto simp: RemoveBrokerListener_def)
  show "Proxy_SetBufferAvailableListener True S (Some l) q = Some ((OK, ()), snd (SetProducerListener (Some x) q))"
    unfolding Proxy_SetBufferAvailableListener_def
    by (subst listen [where install = SetProducerListener]) (simp_all add: assms(5) OnSetBufferAvailableListener_def SetProducerListener_def statuses_def)
qed

definition demo_server :: "nat \<Rightarrow> list_state server" where
  "demo_server n = \<lparr>sv_kernel = demo_kernel, sv_parcel = list_parcel n, sv_fmt = 0,
     sv_env = \<lparr>a_ext = (\<lambda>_ _ _. None), a_junk = (\<lambda>_. 0), a_meta = None\<rparr>, sv_others = (\<lambda>q. q), sv_cast = (\<lambda>l. Some (l + 100))\<rparr>"

definition demo_queue :: "nat \<Rightarrow> bq" where
  "demo_queue n = AVBufferQueueImpl n SHARED_MEMORY False \<lparr>g_startTime = 0, g_processId = 0, g_bufferId = 0\<rparr> (\<lambda>_. None)"

theorem remote_producer_refines_witness:
  "Proxy_SetQueueSize True (demo_server 3) 5 (demo_queue 2) = Some ((OK, ()), snd (SetQueueSize 5 (demo_queue 2))) \<and>
   Proxy_DetachBuffer True (demo_server 3) (Some (demo_buffer None 7)) (demo_queue 2) = Some ((ERROR_INVALID_BUFFER_ID, ()), demo_queue 2) \<and>
   Proxy_RemoveBufferFilledListener True (demo_server 3) (Some 1) (snd (SetBrokerListener (Some 50) (demo_queue 2))) =
     Some ((OK, ()), snd (SetBrokerListener (Some 50) (demo_queue 2)))"
proof -
  have "fst (SetQueueSize 5 (demo_queue 2)) = OK"
    by (simp add: SetQueueSize_def SetLargerQueueSizeLocked_def demo_queue_def AVBufferQueueImpl_def AVBUFFER_QUEUE_MAX_QUEUE_SIZE_def
        AVBUFFER_QUEUE_MAX_QUEUE_SIZE_FOR_LARGER_def)
  moreover have "DetachBuffer (Some 7) (demo_queue 2) = (ERROR_INVALID_BUFFER_ID, demo_queue 2)"
    by (simp add: DetachBuffer_def DetachBuffer_force_def cached_def demo_queue_def AVBufferQueueImpl_def)
  moreover have "Some 101 \<notin> set (q_broker (snd (SetBrokerListener (Some 50) (demo_queue 2))))"
    by (simp add: SetBrokerListener_def demo_queue_def AVBufferQueueImpl_def)
  moreover have ok: "parcel_ok (sv_parcel (demo_server 3)) ls_items" "takes_items (sv_parcel (demo_server 3)) 3" "(5::nat) < 2 ^ 32"
    "b_uid (demo_buffer None 7) < 2 ^ 64" "sv_cast (demo_server 3) 1 = Some 101" "b_uid (demo_buffer None 7) = 7"
    using list_parcel_ok list_takes_items by (simp_all add: demo_server_def demo_buffer_def)
  moreover note remote_producer_refines [OF ok(1-5), of "demo_queue 2" False]
    remote_producer_refines [OF ok(1-5), of "snd (SetBrokerListener (Some 50) (demo_queue 2))" False]
  ultimately show ?thesis by (metis fst_conv snd_conv)
qed

section \<open>Where it is not the queue\<close>

text \<open>The size of the queue: the reply starts with a status, which the proxy takes for the size.\<close>

lemma remote_size_is_zero:
  assumes "parcel_ok (sv_parcel S) unread" "takes_items (sv_parcel S) 2"
  shows "Proxy_GetQueueSize True S q = Some (0, q)"
proof -
  let ?P = "sv_parcel S" and ?r = "[I_int32 0, I_uint32 (of_nat (q_size q))]"
  obtain a where a: "write_all ?P [I_string descriptor] (mp_new ?P) = (True, a)"
    using takes_write [OF assms(2), of "[I_string descriptor]"] by auto
  then have "unread a = [I_string descriptor]" using write_all_unread [OF assms(1) a] parcel_new [OF assms(1)] by simp
  then obtain c where c: "ReadString ?P a = (descriptor, c)" using read_typed(8) [OF assms(1)] by blast
  obtain r where r: "write_all ?P ?r (mp_new ?P) = (True, r)" using takes_write [OF assms(2), of ?r] by auto
  then have "unread r = ?r" using write_all_unread [OF assms(1) r] parcel_new [OF assms(1)] by simp
  then obtain s where "mp_read ?P K_uint32 r = (Some (I_uint32 0), s)" using parcel_width [OF assms(1)] by blast
  with a c write_two [OF r] show ?thesis
    by (auto simp: Proxy_GetQueueSize_def SendRequest_def OnRemoteRequest_def OnGetQueueSize_def Let_def ReadUint32_def
        split: prod.splits bool.splits)
qed

text \<open>A configuration that fits its fields survives the way; what follows it is read next.\<close>

definition config_ints :: "AVBufferConfig \<Rightarrow> bool" where
  "config_ints c = (int32 (c_size c) \<and> int32 (c_align c) \<and> int32 (c_capacity c) \<and> int32 (c_dmaFd c) \<and>
     int32 (s_width (c_surface c)) \<and> int32 (s_height (c_surface c)) \<and> int32 (s_strideAlignment (c_surface c)) \<and>
     int32 (s_format (c_surface c)) \<and> s_usage (c_surface c) < 2 ^ 64 \<and> int32 (s_timeout (c_surface c)) \<and>
     int32 (s_colorGamut (c_surface c)) \<and> int32 (s_transform (c_surface c)))"

lemma UnmarshallingConfig_items:
  assumes ok: "parcel_ok P unread" and c: "config_ints c" and p: "unread p = config_items c @ xs"
  shows "\<exists>q. UnmarshallingConfig P p = (Some c, q) \<and> unread q = xs"
proof -
  let ?s = "c_surface c" and ?d = "\<lambda>n. drop n (config_items c) @ xs"
  note int = read_typed(2) [OF ok] and byte = read_typed(12) [OF ok] and defs = config_items_def
  obtain p1 where p1: "ReadUint32 P p = (word_of_int (c_size c), p1)" "unread p1 = ?d 1"
    using parcel_width [OF ok, of p "word_of_int (c_size c)"] p by (auto simp: defs ReadUint32_def)
  obtain p2 where p2: "ReadInt32 P p1 = (word_of_int (c_align c), p2)" "unread p2 = ?d 2" using int [of p1] p1(2) by (auto simp: defs)
  obtain p3 where p3: "ReadUint8 P p2 = (mem_type_code (c_memoryType c), p3)" "unread p3 = ?d 3" using byte [of p2] p2(2) by (auto simp: defs)
  obtain p4 where p4: "ReadUint8 P p3 = (c_memoryFlag c, p4)" "unread p4 = ?d 4" using byte [of p3] p3(2) by (auto simp: defs)
  obtain p5 where p5: "ReadInt32 P p4 = (word_of_int (s_width ?s), p5)" "unread p5 = ?d 5" using int [of p4] p4(2) by (auto simp: defs)
  obtain p6 where p6: "ReadInt32 P p5 = (word_of_int (s_height ?s), p6)" "unread p6 = ?d 6" using int [of p5] p5(2) by (auto simp: defs)
  obtain p7 where p7: "ReadInt32 P p6 = (word_of_int (s_strideAlignment ?s), p7)" "unread p7 = ?d 7" using int [of p6] p6(2) by (auto simp: defs)
  obtain p8 where p8: "ReadInt32 P p7 = (word_of_int (s_format ?s), p8)" "unread p8 = ?d 8" using int [of p7] p7(2) by (auto simp: defs)
  obtain p9 where p9: "ReadUint64 P p8 = (of_nat (s_usage ?s), p9)" "unread p9 = ?d 9"
    using read_typed(5) [OF ok, of p8] p8(2) by (auto simp: defs)
  obtain p10 where p10: "ReadInt32 P p9 = (word_of_int (s_timeout ?s), p10)" "unread p10 = ?d 10" using int [of p9] p9(2) by (auto simp: defs)
  obtain p11 where p11: "ReadInt32 P p10 = (word_of_int (s_colorGamut ?s), p11)" "unread p11 = ?d 11" using int [of p10] p10(2) by (auto simp: defs)
  obtain p12 where p12: "ReadInt32 P p11 = (word_of_int (s_transform ?s), p12)" "unread p12 = ?d 12" using int [of p11] p11(2) by (auto simp: defs)
  obtain p13 where p13: "ReadInt32 P p12 = (word_of_int (c_capacity c), p13)" "unread p13 = ?d 13" using int [of p12] p12(2) by (auto simp: defs)
  obtain p14 where p14: "ReadInt32 P p13 = (word_of_int (c_dmaFd c), p14)" "unread p14 = xs" using int [of p13] p13(2) by (auto simp: defs)
  have "ReadSurfaceBufferConfig P p4 = (?s, p12)"
    using c by (simp add: ReadSurfaceBufferConfig_def p5 p6 p7 p8 p9 p10 p11 p12 Let_def config_ints_def sint_wire unat_wire)
  then show ?thesis using c p14 by (simp add: UnmarshallingConfig_def p1 p2 p3 p4 p13 Let_def config_ints_def sint_wire)
qed

text \<open>The timeout of a request does not go with it: the queue is asked with a timeout of zero, whatever the caller gave.\<close>

lemma remote_request_does_not_wait:
  assumes "parcel_ok (sv_parcel S) unread" "takes_items (sv_parcel S) 16" "config_ints config"
    "RequestBuffer (sv_env S) (sv_others S) None config 0 q = (st, buf, q1)" "st \<noteq> OK" "st \<in> set statuses"
  shows "Proxy_RequestBuffer True S K out ids config timeoutMs q = Some ((st, out), q1)"
proof -
  let ?P = "sv_parcel S"
  obtain a where a: "write_all ?P [I_string descriptor] (mp_new ?P) = (True, a)"
    using takes_write [OF assms(2), of "[I_string descriptor]"] by auto
  obtain b where b: "write_all ?P (config_items config) (mp_new ?P) = (True, b)"
    using takes_write [OF assms(2), of "config_items config"] by (auto simp: config_items_def)
  have "length [I_string descriptor] + length (config_items config) \<le> 16" by (simp add: config_items_def)
  then have "fst (mp_Append ?P (snd (write_all ?P [I_string descriptor] (mp_new ?P))) (snd (write_all ?P (config_items config) (mp_new ?P))))"
    using assms(2) unfolding takes_items_def by blast
  then obtain e where e: "mp_Append ?P a b = (True, e)" using a b by (cases "mp_Append ?P a b") auto
  have "unread e = I_string descriptor # config_items config"
    using parcel_append [OF assms(1) e] write_all_unread [OF assms(1) a] write_all_unread [OF assms(1) b] parcel_new [OF assms(1)] by simp
  then obtain c where c: "ReadString ?P e = (descriptor, c)" "unread c = config_items config" using read_typed(8) [OF assms(1)] by blast
  then obtain d where d: "UnmarshallingConfig ?P c = (Some config, d)" "unread d = []"
    using UnmarshallingConfig_items [OF assms(1,3), of c "[]"] by auto
  obtain f where f: "ReadInt32 ?P d = (0, f)" using parcel_end [OF assms(1) d(2), of K_int32] by (auto simp: ReadInt32_def)
  obtain w r where "ReadInt32 ?P (write_status ?P st (mp_new ?P)) = (w, r)" "status_of_code (sint w) = st"
    using write_status_read [OF assms(1,2) _ assms(6)] by auto
  with a b c(1) d(1) e f assms(4,5) show ?thesis
    by (simp add: Proxy_RequestBuffer_def Proxy_RequestBufferWaitUs_def ipc_call_def SendRequest_def OnRemoteRequest_def
        OnRequestBuffer_def MarshallingConfig_def Let_def write_one split: prod.splits bool.splits)
qed

end
