(* ===== verification/Spec2Isabelle.thy ===== *)
theory Spec2Isabelle
  imports Buffer_Queue_Steps Media_Pipeline Player_State Recorder_State Data_Packer_Props Ring_Buffer Shared_Memory_Pool
    Pcm_Convert_Props Media_Sync_Props Aac_Demuxer_Props Task_Scheduler_Props Hls_Props
    Http_Props Hls_Downloader_Props Download_Monitor_Props Capability_Props
    Aac_Config_Props Avc_Config Wav_Demuxer Format_Props Buffer_Parcel_Props Producer_Ipc_Props
begin

text \<open>
  A verification library for the media foundation of OpenHarmony: the buffers, queues, tasks, filters, pipelines, clocks
  and state machines that its players and recorders are built from. The sources are C++ under \<^verbatim>\<open>src/\<close>; file names
  below are relative to it.

  \<^bold>\<open>The program.\<close> A player or recorder is a state machine that takes intents (play, pause, seek) and drives a pipeline, a graph of
  filters: a source, a demuxer, decoders, sinks. Filters hand buffers to each other through buffer queues and run
  their work as jobs on tasks, which share threads. The demuxer caches what the source delivers and reads it by offset; the
  downloaders keep their data in a byte ring. The sinks play against a common clock, which maps the time stamps of frames to
  the system's time. Data sits in buffers with bounds-checked memory, some of it shared memory from a pool, and audio samples are
  converted between formats on the way.

  \<^bold>\<open>The theories.\<close>
  \<^item> \<open>Prelude\<close>: status codes, C integer conversions and division, \<^verbatim>\<open>std::map\<close> as a sorted association list behind the
    locale \<open>ordered_map\<close>, and the locales \<open>fifo_channel\<close> and \<open>byte_stream\<close> that the queues and the byte caches instantiate.
    \<open>Float_Model\<close>: rounding to \<^verbatim>\<open>float\<close> and \<^verbatim>\<open>double\<close> over the rationals, exactness, monotonicity and error.
  \<^item> \<open>AV_Buffer\<close> (\<^verbatim>\<open>src/buffer/avbuffer\<close>): buffer configurations and their order, memory with size and offset, creation,
    unique ids, cloning. Operations keep size and offset within the capacity.
  \<^item> \<open>Buffer_Queue\<close>, with \<open>_Inv\<close>, \<open>_Ops\<close>, \<open>_Clear\<close> and \<open>_Steps\<close> (\<^verbatim>\<open>src/buffer/avbuffer_queue/avbuffer_queue.cpp\<close>): the state of
    \<^verbatim>\<open>AVBufferQueueImpl\<close> and all its operations, the invariant that ties the lists to the states of the buffers, its
    preservation by each operation, and the transition system of all clients, in which attaching gives the lock up between its two halves:
    the lists hold only cached buffers unless a filled buffer is attached without a listener or a marked free buffer is pushed, and then
    the null dereference that follows is reached; filled buffers arrive in order, requests take the best fit and respect the size.
  \<^item> \<open>Sync_Primitives\<close> (\<^verbatim>\<open>blocking_queue.h\<close>, \<^verbatim>\<open>synchronizer.h\<close>) and \<open>Condition_Variable\<close> (the timed waits of
    \<^verbatim>\<open>condition_variable.h\<close> and \<^verbatim>\<open>condition_variable.cpp\<close>): waits as interference by other threads; the queue is a fifo, a
    timed wait ends and reports its condition for a well-formed deadline, unless the nanoseconds overflow, and the engine's variant does
    not wait when its deadline carries.
  \<^item> \<open>Task_Scheduler\<close> and \<open>_Props\<close> (\<^verbatim>\<open>src/osal/task/pthread\<close>): tasks with their job and message queues, the task thread and
    the thread pool. As a transition system with running jobs and changes of priority: every submitted job is started at most once and none
    is lost, unless a change of priority falls into the window in which \<^verbatim>\<open>HandleJob\<close> is unlocked, when an empty queue is popped; the
    thread serves what is due first; submission order is kept while the clock advances; and what pausing does to messages.
  \<^item> \<open>Intent_Machine\<close>, \<open>Player_State\<close>, \<open>Recorder_State\<close> (\<^verbatim>\<open>engine/scene\<close>): the machine both scenes share as a locale, with
    the handlers of every state of the player and the recorder. Both refine an explicit table of allowed changes, every intent
    is processed to an end, requests that wait are carried out later, and errors are sticky.
  \<^item> \<open>Media_Filter\<close> with \<open>_Props\<close> and \<open>Media_Pipeline\<close> (\<^verbatim>\<open>src/filter\<close>, \<^verbatim>\<open>src/pipeline\<close>): graphs of filters with shared
    successors and asynchronous jobs, and the pipelines above them. The error state is sticky, a flush drops exactly the jobs
    queued before it, input and output, a preparation that succeeds has made every filter ready, those linked on the way included, and
    what waiting for a state does and does not tell.
  \<^item> \<open>Data_Packer\<close> with \<open>_Props\<close> (\<^verbatim>\<open>engine/pipeline/filters/demux/data_packer.cpp\<close>) and \<open>Ring_Buffer\<close>
    (\<^verbatim>\<open>interface/inner_api/osal/utils/ring_buffer.h\<close>): both caches against the file or the history of bytes they
    hold; what is read is what was written at that offset, across seeks, evictions and the wrap of the ring.
  \<^item> \<open>Shared_Memory_Pool\<close> (\<^verbatim>\<open>src/common/avsharedmemorypool.cpp\<close>): blocks with owners; no block leaks or has two owners.
  \<^item> \<open>Pcm_Convert\<close> with \<open>_Props\<close> (\<^verbatim>\<open>src/common/pcm_convert.cpp\<close>): sample formats as codecs behind locales; widening and
    narrowing restores every byte, and the outcome of every pair of formats.
  \<^item> \<open>Media_Sync\<close>, \<open>Media_Sink\<close> and \<open>Media_Sync_Props\<close> (\<^verbatim>\<open>engine/pipeline/core/media_sync_manager.cpp\<close> and the sinks under
    \<^verbatim>\<open>engine/pipeline/filters/sink\<close>): the playback clock and the sinks that play against it. Media time is monotone between updates of the anchor, across pauses and rate changes,
    and a change of a non-zero rate keeps the position; a seek hides frames until the target is near, audio owns the clock, late video frames are dropped; and sinks that should wait
    for each other do not.
  \<^item> \<open>Aac_Demuxer\<close> with \<open>_Props\<close> (\<^verbatim>\<open>engine/plugin/plugins/demuxer/aac_demuxer\<close>): after its media information, a file of ADTS frames is read frame by frame,
    less the last one, or not at all.
  \<^item> \<open>Text_Stream\<close>, \<open>Text_Print\<close>: searching strings and the formatted extractions of \<^verbatim>\<open>std::istringstream\<close>, with numbers printed and
    read back. \<open>Hls_Tags\<close>, \<open>M3u8\<close>, \<open>Hls_Text\<close>, \<open>Hls_Props\<close> (\<^verbatim>\<open>engine/plugin/plugins/source/http_source/hls\<close>): the
    tags, attributes, media and master playlists of HLS; every text gives well-typed tags, and a printed media playlist is read back.
  \<^item> \<open>Engine_Ring\<close>, \<open>Downloader\<close>, \<open>Http_Downloader\<close>, \<open>Http_Props\<close> (\<^verbatim>\<open>download\<close> and \<^verbatim>\<open>http\<close> of the same directory): requests, the header and
    body callbacks, the download loop and the downloader of a single file as a transition system with a transfer under way; what is read is
    the file, and where seeking, retrying and queueing go wrong. \<open>Hls_Downloader\<close>, \<open>Hls_Downloader_Props\<close>: the playlist refresh and the fragment
    queue; every fragment is requested once, in order, until the table of requested fragments is full. \<open>Download_Monitor\<close>, \<open>Download_Monitor_Props\<close>: the monitor over a downloader,
    whose contract is the locale \<open>media_downloader\<close>, interpreted on both; idle downloaders rest and wake, retries are bounded; and the source plugin.
    What the servers send is a parameter of the steps. The downloaders of the playlist and of the fragments inside the HLS downloader are
    parts of its state, paused, resumed, stopped and asked with it; a request that has to wait for its own thread never returns.
  \<^item> \<open>Capability_Check\<close>, \<open>Capability_Props\<close> (\<^verbatim>\<open>engine/pipeline/core/compatible_check.cpp\<close>): negotiation of formats between neighbours; merging
    capabilities is intersection, and settling meta data on a capability is sound and final; where the 32 bit comparison is not exact.
  \<^item> \<open>Bit_Reader\<close>, \<open>Aac_Config\<close>, \<open>Aac_Config_Props\<close>, \<open>Avc_Config\<close> (\<^verbatim>\<open>engine/plugin/plugins/ffmpeg_adapter/utils\<close>): the bit reader is a cursor over bits, the
    interface \<open>bit_source\<close> of its clients; AAC configs are read back; the parser of AVC configs reads bits for bytes and beyond its buffer.
  \<^item> \<open>Wav_Demuxer\<close> (\<^verbatim>\<open>engine/plugin/plugins/demuxer/wav_demuxer\<close>): a PCM file is played as it is; what a seek and a wrapping header do.
  \<^item> \<open>Message_Parcel\<close>: the parcel of the IPC framework as a parameter, with the laws the code relies on and an instance. \<open>Meta_Any\<close>,
    \<open>Meta_Tags\<close>, \<open>Media_Meta\<close>, \<open>Meta_Props\<close> (\<^verbatim>\<open>src/meta/any.cpp\<close>, \<^verbatim>\<open>meta.cpp\<close> and their headers): dynamically typed values, the whole
    registry of tags with keys, defaults and declared types, and the marshalling of metadata: what is written is read back, which values are lost,
    and which tags. \<open>Media_Format\<close>, \<open>Format_Props\<close> (\<^verbatim>\<open>src/meta/format.cpp\<close>): what an application stores it fetches, and the metadata
    behind the container crosses to another process; an empty buffer stored over a buffer is an error; printing dereferences null on a boolean.
  \<^item> \<open>Buffer_Parcel\<close>, \<open>Buffer_Parcel_Props\<close>: buffers, shared memory and request configurations in a parcel, read back in another process.
    \<open>Producer_Ipc\<close>, \<open>Producer_Ipc_Props\<close> (\<^verbatim>\<open>avbuffer_queue_producer_proxy.cpp\<close>, \<^verbatim>\<open>avbuffer_queue_producer_stub.cpp\<close>): the producer of
    another process over a transport that may fail; over one that works it refines the queue, but for the size, the timeout
    of a request, the attributes of a pushed buffer and the removal of a listener, for which every call makes a new object.
  \<^bold>\<open>Conventions.\<close> Objects the code shares by pointer live in stores indexed by numbers; \<open>None\<close> in place of a pointer is null. An
  operation whose result is an option has \<open>None\<close> where the code has undefined behaviour (null, an index out of range) or where a wait
  never ends; each theory says which. Waits hand the state to a parameter (\<open>others\<close>, a list of wake-ups, or a further step of a
  transition system) that stands for the other threads; mutual exclusion is taken as given. Code outside the repository (plugins,
  data sources, the kernel, clocks) is an argument of the definitions. Integers are kept at their width where the code
  relies on it: positions of the ring and the packer, sizes and ids, samples and headers, nanosecond times.

  \<^bold>\<open>Fuel and bounds.\<close> Operations on filter graphs carry fuel for the depth of the graph; for acyclic graphs more than the rank of
  the filter is enough, as the theorem on preparing a pipeline shows. The state machine's transition recursion has the constant \<open>PROC_FUEL\<close>,
  enough because entering a state does not start a further transition. The loop of a timed wait is a partial function, shown to
  return. All other loops are structural or have a termination proof.

  \<^bold>\<open>Not modelled.\<close> Surfaces and kernel memory, threads and files of the operating system, plugins around external codecs and devices, the
  executors behind the player and recorder state machines, the C interface, the plugin registry and the event writers of the monitor service:
  they are input and output, tables of descriptions, or thin wrappers around code that is not in the repository. Of the older engine
  pipeline the clock, the sinks, the packer and the negotiation of formats are modelled; its filters are glue between plugins and ports. The
  raw-pointer cache of \<^verbatim>\<open>Format\<close> is left out.
\<close>

end
